(* ===== verification/QE_Prelude.thy ===== *)
theory QE_Prelude
  imports Complex_Main "HOL-Library.Char_ord"
begin

text \<open>
  Shared vocabulary of the development.

  Python values are represented as follows.  A \<open>float\<close> or \<open>Decimal\<close> is an exact rational
  number (\<open>rat\<close>): rounding, infinities and NaN are outside the model.  An unbounded \<open>int\<close> is
  \<open>int\<close>.  A \<open>str\<close> is a list of characters.  A clock reading (\<open>time.monotonic()\<close>,
  \<open>utc_iso()\<close>) is an argument of the operation that takes it.  An operation that can raise
  returns a sum, \<open>Inl\<close> the exception and \<open>Inr\<close> the value.

  The theory also holds the contract of a state machine (locale \<open>state_machine\<close>), which the
  components that keep local state instantiate.
\<close>

named_theorems enum_codec \<open>value strings of the Python enums\<close>
named_theorems step_defs \<open>definitions of single steps\<close>

type_synonym str = "char list"

section \<open>Exceptions and results\<close>

text \<open>The exception classes the modelled code distinguishes.\<close>

datatype exn =
    ConditionalCheckFailed
  | TransactionCanceled
  | ClientError
  | ValueError
  | TypeError
  | RuntimeError
  | KeyError
  | TimeoutError
  | AttributeError
  | KafkaError
  | NonRetryableBrokerError
  | OtherError

type_synonym 'a res = "exn + 'a"

fun res_ok :: "'a res \<Rightarrow> bool" where
  "res_ok (Inl _) = False"
| "res_ok (Inr _) = True"

fun res_bind :: "'a res \<Rightarrow> ('a \<Rightarrow> 'b res) \<Rightarrow> 'b res" where
  "res_bind (Inl e) _ = Inl e"
| "res_bind (Inr x) f = f x"

text \<open>\<open>try: x except Exception: d\<close>\<close>

fun res_or :: "'a \<Rightarrow> 'a res \<Rightarrow> 'a" where
  "res_or d (Inl _) = d"
| "res_or _ (Inr x) = x"

fun of_opt :: "exn \<Rightarrow> 'a option \<Rightarrow> 'a res" where
  "of_opt e None = Inl e"
| "of_opt _ (Some x) = Inr x"

lemma res_bind_Inr_iff: "res_bind m f = Inr y \<longleftrightarrow> (\<exists>x. m = Inr x \<and> f x = Inr y)"
  by (cases m) auto

lemma res_bind_Inl_iff:
  "res_bind m f = Inl e \<longleftrightarrow> m = Inl e \<or> (\<exists>x. m = Inr x \<and> f x = Inl e)"
  by (cases m) auto

lemma of_opt_Inr_iff [simp]: "of_opt e x = Inr y \<longleftrightarrow> x = Some y"
  by (cases x) auto

section \<open>Strings\<close>

text \<open>\<open>str.upper\<close> on the ASCII letters, the only ones the compared keywords hold.\<close>

definition upper_char :: "char \<Rightarrow> char" where
  "upper_char c = (let k = (of_char c :: nat) in if 97 \<le> k \<and> k \<le> 122 then char_of (k - 32) else c)"

definition py_upper :: "str \<Rightarrow> str" where
  "py_upper s = map upper_char s"

text \<open>\<open>str.lower\<close> on the ASCII letters.\<close>

definition lower_char :: "char \<Rightarrow> char" where
  "lower_char c = (let k = (of_char c :: nat) in if 65 \<le> k \<and> k \<le> 90 then char_of (k + 32) else c)"

definition py_lower :: "str \<Rightarrow> str" where
  "py_lower s = map lower_char s"

lemma length_py_upper [simp]: "length (py_upper s) = length s"
  by (simp add: py_upper_def)

lemma py_upper_Nil_iff [simp]: "py_upper s = [] \<longleftrightarrow> s = []"
  by (simp add: py_upper_def)

text \<open>\<open>x or d\<close> on optional strings: both None and the empty string are falsy.\<close>

fun str_or :: "str option \<Rightarrow> str \<Rightarrow> str" where
  "str_or None d = d"
| "str_or (Some s) d = (if s = [] then d else s)"

fun opt_default :: "'a \<Rightarrow> 'a option \<Rightarrow> 'a" where
  "opt_default d None = d"
| "opt_default _ (Some x) = x"

text \<open>\<open>sub in s\<close> on strings.\<close>

fun py_starts :: "str \<Rightarrow> str \<Rightarrow> bool" where
  "py_starts [] s = True"
| "py_starts (c # cs) [] = False"
| "py_starts (c # cs) (d # ds) = (c = d \<and> py_starts cs ds)"

fun py_in :: "str \<Rightarrow> str \<Rightarrow> bool" where
  "py_in sub [] = (sub = [])"
| "py_in sub (c # cs) = (py_starts sub (c # cs) \<or> py_in sub cs)"

text \<open>\<open>s.strip()\<close> on ASCII blanks.\<close>

definition is_blank :: "char \<Rightarrow> bool" where
  "is_blank c \<longleftrightarrow> (let k = (of_char c :: int) in k = 32 \<or> (9 \<le> k \<and> k \<le> 13) \<or> (28 \<le> k \<and> k \<le> 31))"

definition py_strip :: "str \<Rightarrow> str" where
  "py_strip s = rev (dropWhile is_blank (rev (dropWhile is_blank s)))"

section \<open>JSON values\<close>

text \<open>A \<open>dict[str, Any]\<close> of JSON values, in insertion order.\<close>

datatype json = JNull | JBool bool | JNum rat | JStr str | JList "json list"
  | JObj "(str \<times> json) list"

type_synonym meta = "(str \<times> json) list"

fun json_truthy :: "json \<Rightarrow> bool" where
  "json_truthy JNull = False"
| "json_truthy (JBool v) = v"
| "json_truthy (JNum x) = (x \<noteq> 0)"
| "json_truthy (JStr s) = (s \<noteq> [])"
| "json_truthy (JList xs) = (xs \<noteq> [])"
| "json_truthy (JObj m) = (m \<noteq> [])"

section \<open>Numbers\<close>

lemma rat_min_abs: "0 \<le> q \<Longrightarrow> min q \<bar>x\<bar> \<le> q" for q x :: rat
  by simp

text \<open>Python's \<open>int(x)\<close> on a float truncates toward zero.\<close>

definition py_int :: "rat \<Rightarrow> int" where
  "py_int x = (if 0 \<le> x then \<lfloor>x\<rfloor> else \<lceil>x\<rceil>)"

lemma py_int_of_int [simp]: "py_int (of_int k) = k"
  by (simp add: py_int_def)

lemma py_int_nonneg: "0 \<le> x \<Longrightarrow> 0 \<le> py_int x"
  by (simp add: py_int_def)

lemma py_int_le: "0 \<le> x \<Longrightarrow> of_int (py_int x) \<le> x"
  by (simp add: py_int_def)

section \<open>Enumerations with string values\<close>

text \<open>
  A Python \<open>class X(str, Enum)\<close> is a datatype with a value function.  \<open>X(s)\<close> looks a member up by
  its value and raises \<open>ValueError\<close> (here \<open>None\<close>) when there is none.
\<close>

definition enum_of :: "('a \<Rightarrow> str) \<Rightarrow> 'a list \<Rightarrow> str \<Rightarrow> 'a option" where
  "enum_of val members s = List.find (\<lambda>m. val m = s) members"

locale str_enum =
  fixes val :: "'a \<Rightarrow> str"
    and members :: "'a list"
  assumes value_inj: "val x = val y \<Longrightarrow> x = y"
    and members_all: "x \<in> set members"
begin

lemma of_val [simp]: "enum_of val members (val x) = Some x"
proof (cases "enum_of val members (val x)")
  case None
  then have "\<forall>m \<in> set members. val m \<noteq> val x"
    by (auto simp: enum_of_def find_None_iff)
  then show ?thesis
    using members_all by blast
next
  case (Some y)
  then have "val y = val x"
    by (auto simp: enum_of_def find_Some_iff)
  then show ?thesis
    using Some value_inj by simp
qed

lemma of_Some_iff: "enum_of val members s = Some x \<longleftrightarrow> s = val x"
proof
  assume "enum_of val members s = Some x"
  then show "s = val x"
    by (auto simp: enum_of_def find_Some_iff)
qed simp

lemma value_eq_iff: "val x = val y \<longleftrightarrow> x = y"
  using value_inj by blast

end

section \<open>State machines\<close>

text \<open>
  A component that keeps local state is a function \<open>step\<close> of its state and of an event (one
  call of one of its operations, with the clock readings and inputs of that call).  The contract
  is an invariant that every step keeps; its clients get the invariant of every run.
\<close>

locale state_machine =
  fixes step :: "'s \<Rightarrow> 'e \<Rightarrow> 's"
    and inv :: "'s \<Rightarrow> bool"
  assumes inv_step: "inv s \<Longrightarrow> inv (step s e)"
begin

lemma inv_run: "inv s \<Longrightarrow> inv (foldl step s es)"
  by (induction es arbitrary: s) (simp_all add: inv_step)

lemma inv_run_prefix: "inv s \<Longrightarrow> inv (foldl step s (take n es))"
  by (rule inv_run)

end

text \<open>A machine whose steps only move up a preorder: runs move up it as well.\<close>

locale monotone_machine = state_machine +
  fixes le :: "'s \<Rightarrow> 's \<Rightarrow> bool"
  assumes le_refl: "le s s"
    and le_trans: "le s t \<Longrightarrow> le t u \<Longrightarrow> le s u"
    and le_step: "inv s \<Longrightarrow> le s (step s e)"
begin

lemma le_run: "inv s \<Longrightarrow> le s (foldl step s es)"
proof (induction es arbitrary: s)
  case Nil
  then show ?case by (simp add: le_refl)
next
  case (Cons e es)
  from Cons.prems have "le s (step s e)" by (rule le_step)
  moreover have "le (step s e) (foldl step (step s e) es)"
    by (rule Cons.IH) (rule inv_step [OF Cons.prems])
  ultimately show ?case by (auto intro: le_trans)
qed

end

section \<open>Flags cached for a time to live\<close>

text \<open>
  Several services keep a flag of the risk-state table in memory and read it again when the copy is
  older than its time to live.  \<open>read\<close> is one read of the store (\<open>None\<close>: it failed), \<open>refresh c\<close>
  the refresh with the clock readings \<open>c\<close>: \<open>test c\<close> at the test, \<open>stamp c\<close> at the assignment of the
  time stamp.  \<open>reads_of\<close> is the read a refresh makes, with its time stamp.
\<close>

definition reads_of :: "('w \<Rightarrow> 'v option \<times> 'w) \<Rightarrow> rat \<Rightarrow> rat \<Rightarrow> rat \<Rightarrow> rat \<Rightarrow> 'w \<Rightarrow> (rat \<times> 'v) list" where
  "reads_of read ttl cached_at t1 t2 w =
    (if t1 - cached_at < ttl then [] else (case fst (read w) of None \<Rightarrow> [] | Some v \<Rightarrow> [(t2, v)]))"

locale ttl_flag =
  fixes refresh :: "'c \<Rightarrow> 's \<times> 'w \<Rightarrow> 's \<times> 'w"
    and test :: "'c \<Rightarrow> rat"
    and stamp :: "'c \<Rightarrow> rat"
    and read :: "'w \<Rightarrow> 'v option \<times> 'w"
    and flag :: "'s \<Rightarrow> 'v"
    and cached_at :: "'s \<Rightarrow> rat"
    and ttl :: rat
  assumes hit: "test c - cached_at s < ttl \<Longrightarrow> refresh c (s, w) = (s, w)"
    and loaded: "\<not> test c - cached_at s < ttl \<Longrightarrow> fst (read w) = Some v \<Longrightarrow>
      flag (fst (refresh c (s, w))) = v \<and> cached_at (fst (refresh c (s, w))) = stamp c"
begin

lemma flag_after_load:
  assumes "\<not> test c - cached_at s < ttl" "fst (read w) = Some v"
  shows "flag (fst (refresh c (s, w))) = v"
  using loaded [OF assms] by simp

text \<open>Once the copy has expired, a flag in the store is seen by the next refresh.\<close>

lemma seen_after_ttl:
  assumes "cached_at s + ttl \<le> test c" "fst (read w) = Some v" "refresh c (s, w) = (s', w')"
  shows "flag s' = v"
  using flag_after_load [of c s w v] assms by simp

end

text \<open>A cache that a failed read leaves as it is, so that the next call reads again.\<close>

locale retrying_flag = ttl_flag +
  assumes failed: "\<not> test c - cached_at s < ttl \<Longrightarrow> fst (read w) = None \<Longrightarrow>
      flag (fst (refresh c (s, w))) = flag s \<and> cached_at (fst (refresh c (s, w))) = cached_at s"
begin

text \<open>The time stamp and the flag of the cache always belong to one recorded read.\<close>

lemma origin_refresh:
  assumes "cached_at s = 0 \<or> (cached_at s, flag s) \<in> set seen"
    and "refresh c (s, w) = (s', w')"
  shows "cached_at s' = 0 \<or>
    (cached_at s', flag s') \<in> set (seen @ reads_of read ttl (cached_at s) (test c) (stamp c) w)"
proof (cases "test c - cached_at s < ttl")
  case True
  then show ?thesis
    using assms by (auto simp: hit)
next
  case False
  then show ?thesis
    using assms loaded [OF False, of w] failed [OF False, of w]
    by (cases "fst (read w)") (auto simp: reads_of_def)
qed

end

end
