(* ===== verification/Dynamo.thy ===== *)
theory Dynamo
  imports QE_Prelude
begin

text \<open>
  The DynamoDB client the services call.  boto3 is not part of the repository, so the client is a
  parameter: a record \<open>'w dynamo\<close> of its calls over an unknown world \<open>'w\<close>, an argument of every
  operation that uses it.  This theory fixes the request language the code sends (keys,
  conditions, update actions) with its documented meaning, states the documented behaviour of the
  calls as the predicate \<open>dynamo_ok R D\<close>, and gives one concrete client, \<open>mem_dynamo\<close>, that has it.

  \<open>R\<close> is the relation by which the other clients of the tables may change them while a call is
  under way.  A call that writes commits in one step: the tables change by \<open>R\<close>, the call's own
  write is applied or refused at that instant, and the tables change by \<open>R\<close> again.
\<close>

section \<open>Data and requests\<close>

datatype attr = S str | N rat | BOOL bool

type_synonym item = "str \<Rightarrow> attr option"
type_synonym key = "str \<times> str"
type_synonym tables = "str \<Rightarrow> key \<Rightarrow> item option"

fun key_item :: "key \<Rightarrow> item" where
  "key_item (pk, sk) = [''PK'' \<mapsto> S pk, ''SK'' \<mapsto> S sk]"

datatype cond =
    NoCond
  | NotExists str
  | Exists str
  | AttrEq str attr
  | AttrNe str attr
  | CondAnd cond cond

text \<open>
  The attributes a condition sees: none of a missing row, and the key attributes of every row that
  exists (DynamoDB stores no row without them).
\<close>

definition row_attrs :: "key \<Rightarrow> item option \<Rightarrow> item" where
  "row_attrs k r = (case r of None \<Rightarrow> Map.empty
     | Some i \<Rightarrow> i(''PK'' \<mapsto> S (fst k), ''SK'' \<mapsto> S (snd k)))"

lemma row_attrs_None [simp]: "row_attrs k None = Map.empty"
  by (simp add: row_attrs_def)

lemma row_attrs_PK [simp]: "row_attrs k r ''PK'' = None \<longleftrightarrow> r = None"
  by (simp add: row_attrs_def split: option.splits)

lemma row_attrs_SK [simp]: "row_attrs k r ''SK'' = None \<longleftrightarrow> r = None"
  by (simp add: row_attrs_def split: option.splits)

lemma row_attrs_other [simp]:
  "a \<noteq> ''PK'' \<Longrightarrow> a \<noteq> ''SK'' \<Longrightarrow> row_attrs k r a = (case r of None \<Rightarrow> None | Some i \<Rightarrow> i a)"
  by (simp add: row_attrs_def split: option.splits)

fun cond_holds :: "cond \<Rightarrow> key \<Rightarrow> item option \<Rightarrow> bool" where
  "cond_holds NoCond k r = True"
| "cond_holds (NotExists a) k r = (row_attrs k r a = None)"
| "cond_holds (Exists a) k r = (row_attrs k r a \<noteq> None)"
| "cond_holds (AttrEq a v) k r = (row_attrs k r a = Some v)"
| "cond_holds (AttrNe a v) k r = (row_attrs k r a \<noteq> Some v)"
| "cond_holds (CondAnd c d) k r = (cond_holds c k r \<and> cond_holds d k r)"

datatype upd =
    SetTo str attr
  | SetPlus str rat rat \<comment> \<open>\<open>SET a = if_not_exists(a, z) + d\<close>\<close>
  | AddNum str rat \<comment> \<open>\<open>ADD a d\<close>\<close>
  | RemoveAttr str

definition num_of :: "rat \<Rightarrow> attr option \<Rightarrow> rat" where
  "num_of z v = (case v of Some (N x) \<Rightarrow> x | _ \<Rightarrow> z)"

fun apply_upd :: "item \<Rightarrow> upd \<Rightarrow> item" where
  "apply_upd i (SetTo a v) = i(a \<mapsto> v)"
| "apply_upd i (SetPlus a z d) = i(a \<mapsto> N (num_of z (i a) + d))"
| "apply_upd i (AddNum a d) = i(a \<mapsto> N (num_of 0 (i a) + d))"
| "apply_upd i (RemoveAttr a) = i(a := None)"

text \<open>\<open>update_item\<close> creates a missing row from its key.\<close>

definition updated_row :: "key \<Rightarrow> upd list \<Rightarrow> item option \<Rightarrow> item" where
  "updated_row k us r = foldl apply_upd (case r of None \<Rightarrow> key_item k | Some i \<Rightarrow> i) us"

fun upd_attr :: "upd \<Rightarrow> str" where
  "upd_attr (SetTo a v) = a"
| "upd_attr (SetPlus a z d) = a"
| "upd_attr (AddNum a d) = a"
| "upd_attr (RemoveAttr a) = a"

lemma foldl_apply_upd_other: "a \<notin> upd_attr ` set us \<Longrightarrow> foldl apply_upd i us a = i a"
proof (induction us arbitrary: i)
  case Nil
  then show ?case by simp
next
  case (Cons u us)
  then show ?case by (cases u) auto
qed

text \<open>Attributes an update does not name keep their value.\<close>

lemma updated_row_frame: "a \<notin> upd_attr ` set us \<Longrightarrow> updated_row k us (Some i) a = i a"
  by (simp add: updated_row_def foldl_apply_upd_other)

definition tables_put :: "tables \<Rightarrow> str \<Rightarrow> key \<Rightarrow> item \<Rightarrow> tables" where
  "tables_put t tbl k i = t(tbl := (t tbl)(k \<mapsto> i))"

lemma tables_put_same [simp]: "tables_put t tbl k i tbl k = Some i"
  by (simp add: tables_put_def)

lemma tables_put_other:
  "tbl' \<noteq> tbl \<or> k' \<noteq> k \<Longrightarrow> tables_put t tbl k i tbl' k' = t tbl' k'"
  by (auto simp: tables_put_def)

lemma tables_put_apply:
  "tables_put t tbl k i tbl' k' = (if tbl' = tbl \<and> k' = k then Some i else t tbl' k')"
  by (simp add: tables_put_def)

section \<open>The client\<close>

text \<open>One element of \<open>transact_write_items\<close>: a conditional put.\<close>

type_synonym tput = "str \<times> key \<times> item \<times> cond"

record 'w dynamo =
  dy_tables :: "'w \<Rightarrow> tables" \<comment> \<open>the committed content, not a call\<close>
  dy_get :: "'w \<Rightarrow> str \<Rightarrow> key \<Rightarrow> item option res \<times> 'w"
  dy_put :: "'w \<Rightarrow> str \<Rightarrow> key \<Rightarrow> item \<Rightarrow> cond \<Rightarrow> unit res \<times> 'w"
  dy_update :: "'w \<Rightarrow> str \<Rightarrow> key \<Rightarrow> upd list \<Rightarrow> cond \<Rightarrow> item res \<times> 'w" \<comment> \<open>returns \<open>ALL_NEW\<close>\<close>
  dy_transact :: "'w \<Rightarrow> tput list \<Rightarrow> unit res \<times> 'w"
  dy_query :: "'w \<Rightarrow> str \<Rightarrow> str \<Rightarrow> (str \<times> str) list \<Rightarrow> str option \<Rightarrow> (item list \<times> str option) res \<times> 'w"
    \<comment> \<open>table, index, the string equalities of the key condition and of the filter,
      \<open>ExclusiveStartKey\<close>; items and \<open>LastEvaluatedKey\<close>\<close>
  dy_scan :: "'w \<Rightarrow> str \<Rightarrow> str \<Rightarrow> str option \<Rightarrow> (item list \<times> str option) res \<times> 'w"
    \<comment> \<open>table, prefix of PK, \<open>ExclusiveStartKey\<close>\<close>

fun tputs_hold :: "tput list \<Rightarrow> tables \<Rightarrow> bool" where
  "tputs_hold [] t = True"
| "tputs_hold ((tbl, k, i, c) # ps) t = (cond_holds c k (t tbl k) \<and> tputs_hold ps t)"

fun tputs_apply :: "tput list \<Rightarrow> tables \<Rightarrow> tables" where
  "tputs_apply [] t = t"
| "tputs_apply ((tbl, k, i, c) # ps) t = tputs_apply ps (tables_put t tbl k i)"

text \<open>
  The effect of a conditional write at the instant it is processed.  Success: the condition held
  and the write is applied.  \<open>ConditionalCheckFailed\<close>: it did not hold, nothing changed.
  \<open>TransactionCanceled\<close>: nothing changed.  Any other failure (a timeout, a lost connection) leaves
  open whether the write was applied.
\<close>

definition write_effect :: "'a res \<Rightarrow> bool \<Rightarrow> tables \<Rightarrow> tables \<Rightarrow> tables \<Rightarrow> bool" where
  "write_effect r holds t applied t' \<longleftrightarrow>
    (case r of
       Inr _ \<Rightarrow> holds \<and> t' = applied
     | Inl ConditionalCheckFailed \<Rightarrow> \<not> holds \<and> t' = t
     | Inl TransactionCanceled \<Rightarrow> t' = t
     | Inl _ \<Rightarrow> t' = t \<or> (holds \<and> t' = applied))"

definition commits :: "(tables \<Rightarrow> tables \<Rightarrow> bool) \<Rightarrow> tables \<Rightarrow> tables \<Rightarrow> 'a res
    \<Rightarrow> (tables \<Rightarrow> bool) \<Rightarrow> (tables \<Rightarrow> tables) \<Rightarrow> bool" where
  "commits R t0 t1 r holds write \<longleftrightarrow>
    (\<exists>t t'. R t0 t \<and> write_effect r (holds t) t (write t) t' \<and> R t' t1)"

text \<open>Documented behaviour of the client.\<close>

definition dynamo_ok :: "(tables \<Rightarrow> tables \<Rightarrow> bool) \<Rightarrow> 'w dynamo \<Rightarrow> bool" where
  "dynamo_ok R D \<longleftrightarrow>
    reflp R \<and> transp R \<and>
    (\<forall>w tbl k r w'. dy_get D w tbl k = (r, w') \<longrightarrow> R (dy_tables D w) (dy_tables D w')) \<and>
    (\<forall>w tbl ix eqs s r w'. dy_query D w tbl ix eqs s = (r, w')
        \<longrightarrow> R (dy_tables D w) (dy_tables D w')) \<and>
    (\<forall>w tbl p s r w'. dy_scan D w tbl p s = (r, w') \<longrightarrow> R (dy_tables D w) (dy_tables D w')) \<and>
    (\<forall>w tbl k i c r w'. dy_put D w tbl k i c = (r, w') \<longrightarrow>
        commits R (dy_tables D w) (dy_tables D w') r
          (\<lambda>t. cond_holds c k (t tbl k)) (\<lambda>t. tables_put t tbl k i)) \<and>
    (\<forall>w tbl k us c r w'. dy_update D w tbl k us c = (r, w') \<longrightarrow>
        commits R (dy_tables D w) (dy_tables D w') r
          (\<lambda>t. cond_holds c k (t tbl k)) (\<lambda>t. tables_put t tbl k (updated_row k us (t tbl k)))) \<and>
    (\<forall>w ps r w'. dy_transact D w ps = (r, w') \<longrightarrow>
        commits R (dy_tables D w) (dy_tables D w') r (tputs_hold ps) (tputs_apply ps))"

lemma dynamo_ok_refl: "dynamo_ok R D \<Longrightarrow> R t t"
  by (auto simp: dynamo_ok_def reflp_def)

lemma dynamo_ok_trans: "dynamo_ok R D \<Longrightarrow> R t u \<Longrightarrow> R u v \<Longrightarrow> R t v"
  by (auto simp: dynamo_ok_def dest: transpD)

lemma dynamo_ok_get:
  "dynamo_ok R D \<Longrightarrow> dy_get D w tbl k = (r, w') \<Longrightarrow> R (dy_tables D w) (dy_tables D w')"
  unfolding dynamo_ok_def by (elim conjE) (erule allE, erule allE, erule allE, erule allE, erule allE, erule mp)

lemma dynamo_ok_put:
  "dynamo_ok R D \<Longrightarrow> dy_put D w tbl k i c = (r, w') \<Longrightarrow>
    commits R (dy_tables D w) (dy_tables D w') r
      (\<lambda>t. cond_holds c k (t tbl k)) (\<lambda>t. tables_put t tbl k i)"
  unfolding dynamo_ok_def by blast

lemma dynamo_ok_update:
  "dynamo_ok R D \<Longrightarrow> dy_update D w tbl k us c = (r, w') \<Longrightarrow>
    commits R (dy_tables D w) (dy_tables D w') r
      (\<lambda>t. cond_holds c k (t tbl k)) (\<lambda>t. tables_put t tbl k (updated_row k us (t tbl k)))"
  unfolding dynamo_ok_def by blast

lemma dynamo_ok_transact:
  "dynamo_ok R D \<Longrightarrow> dy_transact D w ps = (r, w') \<Longrightarrow>
    commits R (dy_tables D w) (dy_tables D w') r (tputs_hold ps) (tputs_apply ps)"
  unfolding dynamo_ok_def by blast

text \<open>
  The rule by which an operation is shown to keep a relation on the tables: other clients keep it,
  and so does the operation's own write whenever its condition holds.
\<close>

lemma commits_le:
  assumes "commits R t0 t1 r holds write"
    and le: "\<And>t t'. R t t' \<Longrightarrow> Q t t'"
    and refl: "\<And>t. Q t t"
    and trans: "\<And>t u v. Q t u \<Longrightarrow> Q u v \<Longrightarrow> Q t v"
    and own: "\<And>t. holds t \<Longrightarrow> Q t (write t)"
  shows "Q t0 t1"
proof -
  from assms(1) obtain t t' where
    a: "R t0 t" and b: "write_effect r (holds t) t (write t) t'" and c: "R t' t1"
    by (auto simp: commits_def)
  from b have "t' = t \<or> holds t \<and> t' = write t"
    by (auto simp: write_effect_def split: sum.splits exn.splits)
  then have "Q t t'"
    using refl own by auto
  with le [OF a] le [OF c] show ?thesis
    by (blast intro: trans)
qed

lemma commits_InrE:
  assumes "commits R t0 t1 (Inr x) holds write"
  obtains t where "R t0 t" "holds t" "R (write t) t1"
  using assms by (auto simp: commits_def write_effect_def)

text \<open>
  The values a client returns: a strongly consistent \<open>get_item\<close> returns the row of one instant of the
  call, \<open>update_item\<close> with \<open>ReturnValues=ALL_NEW\<close> the row as its own write left it.  Stated for a
  client without other writers, where every instant of a read has the same tables.
\<close>

definition dynamo_values :: "'w dynamo \<Rightarrow> bool" where
  "dynamo_values D \<longleftrightarrow>
    (\<forall>w tbl k r. fst (dy_get D w tbl k) = Inr r \<longrightarrow> r = dy_tables D w tbl k) \<and>
    (\<forall>w tbl k us c i. fst (dy_update D w tbl k us c) = Inr i \<longrightarrow>
        i = updated_row k us (dy_tables D w tbl k))"

text \<open>A client with one writer, in the form of rewrite rules.\<close>

lemma sole_get:
  "dynamo_ok (=) D \<Longrightarrow> dynamo_values D \<Longrightarrow> dy_get D w tbl k = (Inr r, w') \<Longrightarrow>
    r = dy_tables D w tbl k \<and> dy_tables D w' = dy_tables D w"
  by (cases k) (auto simp: dynamo_values_def dest: dynamo_ok_get)

lemma sole_put:
  assumes "dynamo_ok (=) D" "dy_put D w tbl k i c = (Inr x, w')"
  shows "cond_holds c k (dy_tables D w tbl k) \<and> dy_tables D w' = tables_put (dy_tables D w) tbl k i"
  using dynamo_ok_put [OF assms] by (auto simp: commits_def write_effect_def)

lemma sole_put_refused:
  assumes "dynamo_ok (=) D" "dy_put D w tbl k i c = (Inl ConditionalCheckFailed, w')"
  shows "\<not> cond_holds c k (dy_tables D w tbl k) \<and> dy_tables D w' = dy_tables D w"
  using dynamo_ok_put [OF assms] by (auto simp: commits_def write_effect_def)

lemma sole_update:
  assumes "dynamo_ok (=) D" "dynamo_values D" "dy_update D w tbl k us c = (Inr i, w')"
  shows "i = updated_row k us (dy_tables D w tbl k) \<and> dy_tables D w' = tables_put (dy_tables D w) tbl k i"
proof -
  have "i = updated_row k us (dy_tables D w tbl k)"
    using assms(2) [unfolded dynamo_values_def, THEN conjunct2, rule_format, of w tbl k us c i] assms(3) by simp
  then show ?thesis
    using dynamo_ok_update [OF assms(1,3)] by (auto simp: commits_def write_effect_def)
qed

section \<open>Paginated scans\<close>

text \<open>
  The loop \<open>while True: scan; collect; stop when there is no LastEvaluatedKey\<close>.  \<open>None\<close> means that
  the pages outnumber the fuel.
\<close>

fun scan_all :: "nat \<Rightarrow> 'w dynamo \<Rightarrow> str \<Rightarrow> str \<Rightarrow> 'w \<Rightarrow> str option \<Rightarrow> item list
    \<Rightarrow> (item list res \<times> 'w) option" where
  "scan_all 0 D tbl prefix w start collected = None"
| "scan_all (Suc n) D tbl prefix w start collected =
    (case dy_scan D w tbl prefix start of
       (Inl e, w) \<Rightarrow> Some (Inl e, w)
     | (Inr (items, None), w) \<Rightarrow> Some (Inr (collected @ items), w)
     | (Inr (items, Some k), w) \<Rightarrow> scan_all n D tbl prefix w (Some k) (collected @ items))"

text \<open>The same loop over an index query.\<close>

fun query_all :: "nat \<Rightarrow> 'w dynamo \<Rightarrow> str \<Rightarrow> str \<Rightarrow> (str \<times> str) list \<Rightarrow> 'w \<Rightarrow> str option \<Rightarrow> item list
    \<Rightarrow> (item list res \<times> 'w) option" where
  "query_all 0 D tbl ix eqs w start collected = None"
| "query_all (Suc n) D tbl ix eqs w start collected =
    (case dy_query D w tbl ix eqs start of
       (Inl e, w) \<Rightarrow> Some (Inl e, w)
     | (Inr (items, None), w) \<Rightarrow> Some (Inr (collected @ items), w)
     | (Inr (items, Some k), w) \<Rightarrow> query_all n D tbl ix eqs w (Some k) (collected @ items))"

text \<open>\<open>n\<close> pages are enough from a world and a start key.\<close>

fun scan_ends :: "nat \<Rightarrow> 'w dynamo \<Rightarrow> str \<Rightarrow> str \<Rightarrow> 'w \<Rightarrow> str option \<Rightarrow> bool" where
  "scan_ends 0 D tbl prefix w start = False"
| "scan_ends (Suc n) D tbl prefix w start =
    (case dy_scan D w tbl prefix start of
       (Inr (items, Some k), w) \<Rightarrow> scan_ends n D tbl prefix w (Some k)
     | _ \<Rightarrow> True)"

lemma scan_all_total:
  "scan_ends n D tbl prefix w start \<Longrightarrow> n \<le> fuel \<Longrightarrow>
    \<exists>r w'. scan_all fuel D tbl prefix w start collected = Some (r, w')"
proof (induction n arbitrary: fuel w start collected)
  case (Suc n)
  then obtain f where "fuel = Suc f" "n \<le> f"
    by (cases fuel) auto
  with Suc show ?case
    by (auto split: prod.splits sum.splits option.splits)
qed simp

fun query_ends :: "nat \<Rightarrow> 'w dynamo \<Rightarrow> str \<Rightarrow> str \<Rightarrow> (str \<times> str) list \<Rightarrow> 'w \<Rightarrow> str option \<Rightarrow> bool" where
  "query_ends 0 D tbl ix eqs w start = False"
| "query_ends (Suc n) D tbl ix eqs w start =
    (case dy_query D w tbl ix eqs start of
       (Inr (items, Some k), w) \<Rightarrow> query_ends n D tbl ix eqs w (Some k)
     | _ \<Rightarrow> True)"

lemma query_all_total:
  "query_ends n D tbl ix eqs w start \<Longrightarrow> n \<le> fuel \<Longrightarrow>
    \<exists>r w'. query_all fuel D tbl ix eqs w start collected = Some (r, w')"
proof (induction n arbitrary: fuel w start collected)
  case (Suc n)
  then obtain f where "fuel = Suc f" "n \<le> f"
    by (cases fuel) auto
  with Suc show ?case
    by (auto split: prod.splits sum.splits option.splits)
qed simp

text \<open>A paginated read leaves the tables to the other clients.\<close>

lemma scan_all_le:
  assumes ok: "dynamo_ok R D"
    and "scan_all n D tbl prefix w start collected = Some (r, w')"
  shows "R (dy_tables D w) (dy_tables D w')"
  using assms(2)
proof (induction n arbitrary: w start collected)
  case (Suc n)
  have step: "R (dy_tables D w) (dy_tables D (snd (dy_scan D w tbl prefix start)))"
    using ok unfolding dynamo_ok_def by (metis prod.collapse)
  then show ?case
    using Suc.prems Suc.IH dynamo_ok_trans [OF ok step]
    by (fastforce split: prod.splits sum.splits option.splits)
qed simp

lemma query_all_le:
  assumes ok: "dynamo_ok R D"
    and "query_all n D tbl ix eqs w start collected = Some (r, w')"
  shows "R (dy_tables D w) (dy_tables D w')"
  using assms(2)
proof (induction n arbitrary: w start collected)
  case (Suc n)
  have step: "R (dy_tables D w) (dy_tables D (snd (dy_query D w tbl ix eqs start)))"
    using ok unfolding dynamo_ok_def by (metis prod.collapse)
  then show ?case
    using Suc.prems Suc.IH dynamo_ok_trans [OF ok step]
    by (fastforce split: prod.splits sum.splits option.splits)
qed simp

section \<open>A concrete client\<close>

text \<open>
  An in-memory table with one client: its world is the list of rows.  It is used only to show that
  the hypotheses about the client can hold.
\<close>

type_synonym mem = "((str \<times> key) \<times> item) list"

definition mem_tables :: "mem \<Rightarrow> tables" where
  "mem_tables m tbl k = map_of m (tbl, k)"

definition mem_get :: "mem \<Rightarrow> str \<Rightarrow> key \<Rightarrow> item option res \<times> mem" where
  "mem_get m tbl k = (Inr (mem_tables m tbl k), m)"

definition mem_put :: "mem \<Rightarrow> str \<Rightarrow> key \<Rightarrow> item \<Rightarrow> cond \<Rightarrow> unit res \<times> mem" where
  "mem_put m tbl k i c =
    (if cond_holds c k (mem_tables m tbl k) then (Inr (), ((tbl, k), i) # m)
     else (Inl ConditionalCheckFailed, m))"

definition mem_update :: "mem \<Rightarrow> str \<Rightarrow> key \<Rightarrow> upd list \<Rightarrow> cond \<Rightarrow> item res \<times> mem" where
  "mem_update m tbl k us c =
    (if cond_holds c k (mem_tables m tbl k)
     then (let i = updated_row k us (mem_tables m tbl k) in (Inr i, ((tbl, k), i) # m))
     else (Inl ConditionalCheckFailed, m))"

fun mem_puts :: "mem \<Rightarrow> tput list \<Rightarrow> mem" where
  "mem_puts m [] = m"
| "mem_puts m ((tbl, k, i, c) # ps) = mem_puts (((tbl, k), i) # m) ps"

definition mem_transact :: "mem \<Rightarrow> tput list \<Rightarrow> unit res \<times> mem" where
  "mem_transact m ps =
    (if tputs_hold ps (mem_tables m) then (Inr (), mem_puts m ps)
     else (Inl TransactionCanceled, m))"

definition mem_query :: "mem \<Rightarrow> str \<Rightarrow> str \<Rightarrow> (str \<times> str) list \<Rightarrow> str option
    \<Rightarrow> (item list \<times> str option) res \<times> mem" where
  "mem_query m tbl ix eqs s =
    (Inr (map snd (filter (\<lambda>e. fst (fst e) = tbl \<and> (\<forall>(a, v) \<in> set eqs. snd e a = Some (S v))) m), None), m)"

definition mem_scan :: "mem \<Rightarrow> str \<Rightarrow> str \<Rightarrow> str option \<Rightarrow> (item list \<times> str option) res \<times> mem" where
  "mem_scan m tbl p s =
    (Inr (map snd (filter (\<lambda>e. fst (fst e) = tbl \<and> py_starts p (fst (snd (fst e)))) m), None), m)"

definition mem_dynamo :: "mem dynamo" where
  "mem_dynamo = \<lparr>dy_tables = mem_tables, dy_get = mem_get, dy_put = mem_put,
    dy_update = mem_update, dy_transact = mem_transact, dy_query = mem_query,
    dy_scan = mem_scan\<rparr>"

lemma mem_tables_Cons: "mem_tables (((tbl, k), i) # m) = tables_put (mem_tables m) tbl k i"
  by (intro ext) (simp add: mem_tables_def tables_put_def)

lemma mem_tables_puts: "mem_tables (mem_puts m ps) = tputs_apply ps (mem_tables m)"
  by (induction ps arbitrary: m) (auto simp: mem_tables_Cons)

lemmas mem_simps = mem_dynamo_def mem_get_def mem_put_def mem_update_def mem_transact_def
  mem_query_def mem_scan_def mem_tables_def

lemma mem_dynamo_values: "dynamo_values mem_dynamo"
  by (auto simp: dynamo_values_def mem_simps Let_def split: if_splits)

lemma mem_dynamo_ok: "dynamo_ok (=) mem_dynamo"
  unfolding dynamo_ok_def mem_dynamo_def
  by (auto simp: reflp_def transp_def mem_get_def mem_query_def mem_scan_def mem_put_def
      mem_update_def mem_transact_def commits_def write_effect_def mem_tables_Cons mem_tables_puts Let_def
      split: if_splits)

end
