(* ===== verification/RiskState.thy ===== *)
theory RiskState
  imports Dynamo
begin

text \<open>
  \<open>services/shared/risk_state.py\<close>: the keys and rows of the risk-state table that every service
  shares, and the readers of attributes.  The readers accept both the low-level form of an
  attribute and the plain value of a resource-style row; \<open>raw\<close> has a constructor for each.
\<close>

section \<open>Keys\<close>

definition RISK_STATE_SCHEMA_VERSION :: str where
  "RISK_STATE_SCHEMA_VERSION = ''1.0''"

definition kill_switch_key :: key where
  "kill_switch_key = (''KILLSWITCH'', ''GLOBAL'')"

definition position_key :: "str \<Rightarrow> key" where
  "position_key symbol = (''POSITION#'' @ symbol, ''CURRENT'')"

definition nav_key :: key where
  "nav_key = (''NAV#CURRENT'', ''STATE'')"

definition risk_decision_key :: "str \<Rightarrow> key" where
  "risk_decision_key signal_id = (''RISK_DECISION#'' @ signal_id, ''DECISION'')"

definition data_outbox_key :: "str \<Rightarrow> key" where
  "data_outbox_key event_id = (''DATA_OUTBOX#PENDING'', ''EVENT#'' @ event_id)"

definition reconciliation_key :: key where
  "reconciliation_key = (''RECONCILIATION#STATE'', ''GLOBAL'')"

definition entry_block_key :: key where
  "entry_block_key = (''ENTRY_BLOCK'', ''GLOBAL'')"

lemmas risk_keys = kill_switch_key_def position_key_def nav_key_def risk_decision_key_def
  data_outbox_key_def reconciliation_key_def entry_block_key_def

section \<open>Rows\<close>

definition kill_switch_item ::
  "bool \<Rightarrow> str \<Rightarrow> str \<Rightarrow> str \<Rightarrow> str option \<Rightarrow> str option \<Rightarrow> str \<Rightarrow> item" where
  "kill_switch_item active reason activated_by updated_at activated_at deactivated_at detail =
    (let item = (key_item kill_switch_key)
           (''active'' \<mapsto> BOOL active,
            ''status'' \<mapsto> S (if active then ''ACTIVE'' else ''INACTIVE''),
            ''scope'' \<mapsto> S ''GLOBAL'',
            ''reason'' \<mapsto> S reason,
            ''activated_by'' \<mapsto> S activated_by,
            ''updated_at'' \<mapsto> S updated_at,
            ''schema_version'' \<mapsto> S RISK_STATE_SCHEMA_VERSION);
         item = (if active then item(''activated_at'' \<mapsto> S (str_or activated_at updated_at))
                 else item(''deactivated_at'' \<mapsto> S (str_or deactivated_at updated_at)))
     in if detail \<noteq> [] then item(''detail'' \<mapsto> S detail) else item)"

definition entry_block_item :: "bool \<Rightarrow> str \<Rightarrow> str \<Rightarrow> str \<Rightarrow> str \<Rightarrow> str \<Rightarrow> item" where
  "entry_block_item blocked reason source action_id idempotency_key created_at =
    (key_item entry_block_key)
      (''blocked'' \<mapsto> BOOL blocked,
       ''status'' \<mapsto> S (if blocked then ''BLOCKED'' else ''CLEAR''),
       ''reason'' \<mapsto> S reason,
       ''source'' \<mapsto> S source,
       ''action_id'' \<mapsto> S action_id,
       ''idempotency_key'' \<mapsto> S idempotency_key,
       ''created_at'' \<mapsto> S created_at,
       ''schema_version'' \<mapsto> S RISK_STATE_SCHEMA_VERSION)"

section \<open>Attribute readers\<close>

text \<open>A raw attribute: the low-level wrapper, a plain string, a plain bool, a plain number.\<close>

datatype raw = Wrapped attr | PlainStr str | PlainBool bool | PlainNum rat

definition TRUE_WORDS :: "str list" where
  "TRUE_WORDS = [''ACTIVE'', ''TRUE'', ''1'', ''YES'']"

fun py_str_bool :: "bool \<Rightarrow> str" where
  "py_str_bool True = ''True''"
| "py_str_bool False = ''False''"

text \<open>
  \<open>str(float)\<close> is the standard library's number printing; it is the argument \<open>num_str\<close>.
\<close>

definition attr_string :: "(rat \<Rightarrow> str) \<Rightarrow> (str \<Rightarrow> raw option) \<Rightarrow> str \<Rightarrow> str \<Rightarrow> str" where
  "attr_string num_str item name dflt =
    (case item name of
       None \<Rightarrow> dflt
     | Some (Wrapped (S v)) \<Rightarrow> v
     | Some (Wrapped (N v)) \<Rightarrow> num_str v
     | Some (Wrapped (BOOL v)) \<Rightarrow> py_str_bool v
     | Some (PlainStr v) \<Rightarrow> v
     | Some (PlainBool v) \<Rightarrow> py_str_bool v
     | Some (PlainNum v) \<Rightarrow> num_str v)"

text \<open>
  A wrapper that is neither \<open>BOOL\<close> nor \<open>S\<close> is a non-empty dict, which is truthy.
\<close>

definition attr_bool :: "(rat \<Rightarrow> str) \<Rightarrow> (str \<Rightarrow> raw option) \<Rightarrow> str \<Rightarrow> bool \<Rightarrow> bool" where
  "attr_bool num_str item name dflt =
    (case item name of
       Some (Wrapped (BOOL v)) \<Rightarrow> v
     | Some (Wrapped (S v)) \<Rightarrow> py_upper v \<in> set TRUE_WORDS
     | Some (Wrapped (N v)) \<Rightarrow> True
     | Some (PlainStr v) \<Rightarrow> py_upper v \<in> set TRUE_WORDS
     | Some (PlainBool v) \<Rightarrow> v
     | Some (PlainNum v) \<Rightarrow> v \<noteq> 0
     | None \<Rightarrow>
         (if name = ''active'' then
            (let status = attr_string num_str item ''status'' [] in
             if status \<noteq> [] then py_upper status = ''ACTIVE'' else dflt)
          else dflt))"

text \<open>
  \<open>float\<close> of a plain string is the standard library's number parser, the argument \<open>parse\<close>
  (\<open>None\<close> is the \<open>ValueError\<close> the code catches).
\<close>

definition attr_number :: "(str \<Rightarrow> rat option) \<Rightarrow> (str \<Rightarrow> raw option) \<Rightarrow> str \<Rightarrow> rat \<Rightarrow> rat" where
  "attr_number parse item name dflt =
    (case item name of
       None \<Rightarrow> dflt
     | Some (Wrapped (N v)) \<Rightarrow> v
     | Some (Wrapped _) \<Rightarrow> dflt
     | Some (PlainStr v) \<Rightarrow> opt_default dflt (parse v)
     | Some (PlainBool v) \<Rightarrow> (if v then 1 else 0)
     | Some (PlainNum v) \<Rightarrow> v)"

text \<open>A stored row read back through the low-level client.\<close>

definition lowlevel :: "item \<Rightarrow> str \<Rightarrow> raw option" where
  "lowlevel i a = map_option Wrapped (i a)"

section \<open>Round trips\<close>

lemma kill_switch_item_apply:
  "kill_switch_item active reason actor ts aat dat d ''active'' = Some (BOOL active)"
  "kill_switch_item active reason actor ts aat dat d ''status''
     = Some (S (if active then ''ACTIVE'' else ''INACTIVE''))"
  "kill_switch_item active reason actor ts aat dat d ''reason'' = Some (S reason)"
  "kill_switch_item active reason actor ts aat dat d ''activated_by'' = Some (S actor)"
  "kill_switch_item active reason actor ts aat dat d ''activated_at''
     = (if active then Some (S (str_or aat ts)) else None)"
  "kill_switch_item active reason actor ts aat dat d ''detail'' = (if d = [] then None else Some (S d))"
  by (simp_all add: kill_switch_item_def Let_def kill_switch_key_def)

lemma entry_block_item_apply:
  "entry_block_item bl reason src aid ik ts ''blocked'' = Some (BOOL bl)"
  "entry_block_item bl reason src aid ik ts ''reason'' = Some (S reason)"
  "entry_block_item bl reason src aid ik ts ''source'' = Some (S src)"
  "entry_block_item bl reason src aid ik ts ''idempotency_key'' = Some (S ik)"
  by (simp_all add: entry_block_item_def entry_block_key_def)

lemma attr_bool_lowlevel_BOOL:
  "i name = Some (BOOL v) \<Longrightarrow> attr_bool ns (lowlevel i) name d = v"
  by (simp add: attr_bool_def lowlevel_def)

lemma attr_string_lowlevel_S:
  "i name = Some (S v) \<Longrightarrow> attr_string ns (lowlevel i) name d = v"
  by (simp add: lowlevel_def attr_string_def)

lemma attr_string_lowlevel_None:
  "i name = None \<Longrightarrow> attr_string ns (lowlevel i) name d = d"
  by (simp add: lowlevel_def attr_string_def)

text \<open>A row written by an older service has only \<open>status\<close>; the reader still sees the flag.\<close>

lemma attr_bool_legacy_status:
  assumes "i ''active'' = None" "i ''status'' = Some (S st)" "st \<noteq> []"
  shows "attr_bool ns (lowlevel i) ''active'' d \<longleftrightarrow> py_upper st = ''ACTIVE''"
  using assms by (simp add: attr_bool_def lowlevel_def attr_string_def)

section \<open>Keys do not clash\<close>

text \<open>Rows of different kinds never share a key, so one service's row cannot overwrite another's.\<close>

lemma position_key_inj: "position_key s = position_key s' \<longleftrightarrow> s = s'"
  by (simp add: position_key_def)

lemma risk_decision_key_inj: "risk_decision_key s = risk_decision_key s' \<longleftrightarrow> s = s'"
  by (simp add: risk_decision_key_def)

lemma risk_keys_distinct:
  "position_key s \<noteq> kill_switch_key" "position_key s \<noteq> nav_key"
  "position_key s \<noteq> risk_decision_key x" "position_key s \<noteq> reconciliation_key"
  "position_key s \<noteq> entry_block_key" "position_key s \<noteq> data_outbox_key e"
  "risk_decision_key x \<noteq> kill_switch_key" "risk_decision_key x \<noteq> nav_key"
  "risk_decision_key x \<noteq> reconciliation_key" "risk_decision_key x \<noteq> entry_block_key"
  "risk_decision_key x \<noteq> data_outbox_key e"
  "kill_switch_key \<noteq> nav_key" "kill_switch_key \<noteq> reconciliation_key"
  "kill_switch_key \<noteq> entry_block_key" "nav_key \<noteq> reconciliation_key"
  "nav_key \<noteq> entry_block_key" "reconciliation_key \<noteq> entry_block_key"
  by (simp_all add: risk_keys)

end
