(* ===== verification/OrderModel.thy ===== *)
theory OrderModel
  imports RiskState "HOL-Library.AList"
begin

text \<open>
  \<open>services/execution_engine/orders/order.py\<close>: the enums and records of the order lifecycle, and
  from \<open>order_manager.py\<close> the transition table and the decoding of a stored row.
\<close>

section \<open>Enums\<close>

datatype order_status =
  PENDING | ACK_UNKNOWN | PLACED | PARTIALLY_FILLED | FILLED | CANCELLED | REJECTED | FLATTENING

fun order_status_value :: "order_status \<Rightarrow> str" where
  "order_status_value PENDING = ''PENDING''"
| "order_status_value ACK_UNKNOWN = ''ACK_UNKNOWN''"
| "order_status_value PLACED = ''PLACED''"
| "order_status_value PARTIALLY_FILLED = ''PARTIALLY_FILLED''"
| "order_status_value FILLED = ''FILLED''"
| "order_status_value CANCELLED = ''CANCELLED''"
| "order_status_value REJECTED = ''REJECTED''"
| "order_status_value FLATTENING = ''FLATTENING''"

definition order_statuses :: "order_status list" where
  "order_statuses = [PENDING, ACK_UNKNOWN, PLACED, PARTIALLY_FILLED, FILLED, CANCELLED, REJECTED,
     FLATTENING]"

abbreviation order_status_of :: "str \<Rightarrow> order_status option" where
  "order_status_of \<equiv> enum_of order_status_value order_statuses"

datatype order_side = BUY | SELL

fun order_side_value :: "order_side \<Rightarrow> str" where
  "order_side_value BUY = ''BUY''"
| "order_side_value SELL = ''SELL''"

definition order_sides :: "order_side list" where
  "order_sides = [BUY, SELL]"

abbreviation order_side_of :: "str \<Rightarrow> order_side option" where
  "order_side_of \<equiv> enum_of order_side_value order_sides"

datatype order_type = MARKET | LIMIT | STOP | STOP_LIMIT | STOP_LOSS_MARKET | TRAILING_STOP

fun order_type_value :: "order_type \<Rightarrow> str" where
  "order_type_value MARKET = ''MARKET''"
| "order_type_value LIMIT = ''LIMIT''"
| "order_type_value STOP = ''STOP''"
| "order_type_value STOP_LIMIT = ''STOP_LIMIT''"
| "order_type_value STOP_LOSS_MARKET = ''SL-M''"
| "order_type_value TRAILING_STOP = ''TRAILING_STOP''"

definition order_types :: "order_type list" where
  "order_types = [MARKET, LIMIT, STOP, STOP_LIMIT, STOP_LOSS_MARKET, TRAILING_STOP]"

abbreviation order_type_of :: "str \<Rightarrow> order_type option" where
  "order_type_of \<equiv> enum_of order_type_value order_types"

datatype market = NSE | US

fun market_value :: "market \<Rightarrow> str" where
  "market_value NSE = ''NSE''"
| "market_value US = ''US''"

definition markets :: "market list" where
  "markets = [NSE, US]"

abbreviation market_of :: "str \<Rightarrow> market option" where
  "market_of \<equiv> enum_of market_value markets"

datatype product_type = CNC | MIS | NRML | DAY

fun product_type_value :: "product_type \<Rightarrow> str" where
  "product_type_value CNC = ''CNC''"
| "product_type_value MIS = ''MIS''"
| "product_type_value NRML = ''NRML''"
| "product_type_value DAY = ''DAY''"

definition product_types :: "product_type list" where
  "product_types = [CNC, MIS, NRML, DAY]"

abbreviation product_type_of :: "str \<Rightarrow> product_type option" where
  "product_type_of \<equiv> enum_of product_type_value product_types"

interpretation status_enum: str_enum order_status_value order_statuses
proof
  show "order_status_value x = order_status_value y \<Longrightarrow> x = y" for x y
    by (cases x; cases y; simp)
  show "x \<in> set order_statuses" for x
    by (cases x; simp add: order_statuses_def)
qed

interpretation side_enum: str_enum order_side_value order_sides
proof
  show "order_side_value x = order_side_value y \<Longrightarrow> x = y" for x y
    by (cases x; cases y; simp)
  show "x \<in> set order_sides" for x
    by (cases x; simp add: order_sides_def)
qed

interpretation type_enum: str_enum order_type_value order_types
proof
  show "order_type_value x = order_type_value y \<Longrightarrow> x = y" for x y
    by (cases x; cases y; simp)
  show "x \<in> set order_types" for x
    by (cases x; simp add: order_types_def)
qed

interpretation market_enum: str_enum market_value markets
proof
  show "market_value x = market_value y \<Longrightarrow> x = y" for x y
    by (cases x; cases y; simp)
  show "x \<in> set markets" for x
    by (cases x; simp add: markets_def)
qed

interpretation product_enum: str_enum product_type_value product_types
proof
  show "product_type_value x = product_type_value y \<Longrightarrow> x = y" for x y
    by (cases x; cases y; simp)
  show "x \<in> set product_types" for x
    by (cases x; simp add: product_types_def)
qed

section \<open>Records\<close>

text \<open>
  \<open>metadata\<close> is a \<open>dict[str, Any]\<close> (\<open>meta\<close>).  A \<open>datetime\<close> is kept by
  the two renderings the code uses of it, \<open>isoformat()\<close> and \<open>strftime("%Y-%m-%d")\<close>.
\<close>

record py_datetime =
  dt_iso :: str
  dt_date :: str

record order_request =
  oq_order_id :: str
  oq_signal_id :: str
  oq_risk_decision_id :: str
  oq_symbol :: str
  oq_market :: market
  oq_side :: order_side
  oq_order_type :: order_type
  oq_quantity :: rat
  oq_limit_price :: "rat option"
  oq_stop_price :: "rat option"
  oq_product_type :: product_type
  oq_extended_hours :: bool
  oq_time_in_force :: str
  oq_created_at :: py_datetime
  oq_metadata :: meta

record order_response =
  op_order_id :: str
  op_broker_order_id :: str
  op_status :: order_status
  op_symbol :: str
  op_market :: market
  op_filled_quantity :: rat
  op_avg_fill_price :: rat
  op_broker_message :: str

record stored_order = order_response +
  so_signal_id :: str
  so_risk_decision_id :: str
  so_side :: order_side
  so_order_type :: order_type
  so_product_type :: product_type
  so_quantity :: rat
  so_limit_price :: "rat option"
  so_stop_price :: "rat option"
  so_parent_order_id :: str
  so_protective_type :: str
  so_is_protective :: bool
  so_protective_stop_order_id :: str
  so_broker_idempotency_key :: str
  so_metadata :: meta

record order_status_update =
  ou_order_id :: str
  ou_broker_order_id :: str
  ou_previous_status :: order_status
  ou_new_status :: order_status
  ou_filled_quantity :: rat
  ou_avg_fill_price :: rat
  ou_slippage :: rat
  ou_broker_message :: str

text \<open>
  The constraints pydantic checks when an \<open>OrderRequest\<close> is built.  \<open>limit_given\<close> says whether the
  caller passed \<open>limit_price\<close>: a field validator does not run on a default value.
\<close>

definition validate_order_request :: "bool \<Rightarrow> order_request \<Rightarrow> order_request res" where
  "validate_order_request limit_given q =
    (if \<not> 0 < oq_quantity q then Inl ValueError
     else if (\<exists>p \<in> set_option (oq_limit_price q). p < 0) then Inl ValueError
     else if (\<exists>p \<in> set_option (oq_stop_price q). p < 0) then Inl ValueError
     else if limit_given \<and> oq_order_type q \<in> {LIMIT, STOP_LIMIT} \<and> oq_limit_price q = None
       then Inl ValueError
     else Inr q)"

section \<open>The transition table\<close>

fun VALID_TRANSITIONS :: "order_status \<Rightarrow> order_status list" where
  "VALID_TRANSITIONS PENDING =
     [ACK_UNKNOWN, PLACED, PARTIALLY_FILLED, FILLED, CANCELLED, REJECTED]"
| "VALID_TRANSITIONS ACK_UNKNOWN = [PLACED, PARTIALLY_FILLED, FILLED, CANCELLED, REJECTED]"
| "VALID_TRANSITIONS PLACED = [FILLED, PARTIALLY_FILLED, CANCELLED, REJECTED]"
| "VALID_TRANSITIONS PARTIALLY_FILLED = [FILLED, CANCELLED]"
| "VALID_TRANSITIONS FILLED = []"
| "VALID_TRANSITIONS CANCELLED = []"
| "VALID_TRANSITIONS REJECTED = []"
| "VALID_TRANSITIONS FLATTENING = []" \<comment> \<open>no entry: \<open>.get(previous_status, set())\<close>\<close>

definition is_valid_status_transition :: "order_status \<Rightarrow> order_status \<Rightarrow> bool" where
  "is_valid_status_transition previous_status new_status \<longleftrightarrow>
    (if previous_status = new_status then True
     else new_status \<in> set (VALID_TRANSITIONS previous_status))"

definition terminal :: "order_status \<Rightarrow> bool" where
  "terminal s \<longleftrightarrow> VALID_TRANSITIONS s = []"

lemma valid_refl [simp]: "is_valid_status_transition s s"
  by (simp add: is_valid_status_transition_def)

lemma valid_trans:
  "is_valid_status_transition s t \<Longrightarrow> is_valid_status_transition t u
    \<Longrightarrow> is_valid_status_transition s u"
  by (cases s; cases t; cases u) (simp_all add: is_valid_status_transition_def)

lemma valid_antisym:
  "is_valid_status_transition s t \<Longrightarrow> is_valid_status_transition t s \<Longrightarrow> s = t"
  by (cases s; cases t) (simp_all add: is_valid_status_transition_def)

lemma terminal_stuck: "terminal s \<Longrightarrow> is_valid_status_transition s t \<longleftrightarrow> t = s"
  by (auto simp: terminal_def is_valid_status_transition_def)

lemma terminal_iff: "terminal s \<longleftrightarrow> s \<in> {FILLED, CANCELLED, REJECTED, FLATTENING}"
  by (cases s) (simp_all add: terminal_def)

section \<open>Reading a stored row\<close>

definition str_attr :: "item \<Rightarrow> str \<Rightarrow> str \<Rightarrow> str" where
  "str_attr i k d = (case i k of Some (S v) \<Rightarrow> v | _ \<Rightarrow> d)"

definition num_attr :: "item \<Rightarrow> str \<Rightarrow> rat \<Rightarrow> rat" where
  "num_attr i k d = (case i k of Some (N v) \<Rightarrow> v | _ \<Rightarrow> d)"

definition num_attr_opt :: "item \<Rightarrow> str \<Rightarrow> rat option" where
  "num_attr_opt i k = (case i k of Some (N v) \<Rightarrow> Some v | _ \<Rightarrow> None)"

definition bool_attr :: "item \<Rightarrow> str \<Rightarrow> bool \<Rightarrow> bool" where
  "bool_attr i k d = (case i k of Some (BOOL v) \<Rightarrow> v | _ \<Rightarrow> d)"

lemmas attr_readers = str_attr_def num_attr_def num_attr_opt_def bool_attr_def

text \<open>
  \<open>hashlib.sha256(..).hexdigest()\<close> and \<open>json.dumps\<close>/\<open>json.loads\<close> are parameters;
  \<open>py_loads\<close> is \<open>None\<close> on a \<open>JSONDecodeError\<close>.
\<close>

record pylib =
  py_sha256_hex :: "str \<Rightarrow> str"
  py_dumps :: "meta \<Rightarrow> str"
  py_loads :: "str \<Rightarrow> json option"

definition load_metadata :: "pylib \<Rightarrow> item \<Rightarrow> meta" where
  "load_metadata L i =
    (case py_loads L (str_attr i ''metadata'' ''{}'') of Some (JObj m) \<Rightarrow> m | _ \<Rightarrow> [])"

definition unmarshal_item :: "pylib \<Rightarrow> item \<Rightarrow> stored_order res" where
  "unmarshal_item L item =
    (case (order_status_of (str_attr item ''order_status'' ''PENDING''),
           market_of (str_attr item ''market'' ''NSE''),
           order_side_of (str_attr item ''side'' ''BUY''),
           order_type_of (str_attr item ''order_type'' ''MARKET''),
           product_type_of (str_attr item ''product_type'' ''DAY'')) of
       (Some st, Some mk, Some sd, Some ot, Some pt) \<Rightarrow>
         if num_attr item ''filled_quantity'' 0 < 0 \<or> num_attr item ''avg_fill_price'' 0 < 0
            \<or> num_attr item ''quantity'' 0 < 0
         then Inl ValueError
         else Inr
           \<lparr>op_order_id = str_attr item ''order_id'' [],
            op_broker_order_id = str_attr item ''broker_order_id'' [],
            op_status = st,
            op_symbol = str_attr item ''symbol'' [],
            op_market = mk,
            op_filled_quantity = num_attr item ''filled_quantity'' 0,
            op_avg_fill_price = num_attr item ''avg_fill_price'' 0,
            op_broker_message = str_attr item ''broker_message'' [],
            so_signal_id = str_attr item ''signal_id'' [],
            so_risk_decision_id = str_attr item ''risk_decision_id'' [],
            so_side = sd, so_order_type = ot, so_product_type = pt,
            so_quantity = num_attr item ''quantity'' 0,
            so_limit_price = num_attr_opt item ''limit_price'',
            so_stop_price = num_attr_opt item ''stop_price'',
            so_parent_order_id = str_attr item ''parent_order_id'' [],
            so_protective_type = str_attr item ''protective_type'' [],
            so_is_protective = bool_attr item ''is_protective'' False,
            so_protective_stop_order_id = str_attr item ''protective_stop_order_id'' [],
            so_broker_idempotency_key = str_attr item ''broker_idempotency_key'' [],
            so_metadata = load_metadata L item\<rparr>
     | _ \<Rightarrow> Inl ValueError)"

lemma unmarshal_status:
  "unmarshal_item L i = Inr so
    \<Longrightarrow> order_status_of (str_attr i ''order_status'' ''PENDING'') = Some (op_status so)"
  by (auto simp: unmarshal_item_def split: option.splits if_splits)

end
