(* ===== verification/PositionFill.thy ===== *)
theory PositionFill
  imports OrderModel "HOL-Library.Multiset"
begin

text \<open>
  The position arithmetic of \<open>OrderManager.apply_fill_to_position\<close>
  (\<open>services/execution_engine/orders/order_manager.py\<close>): how one confirmed fill changes the
  quantity, average price, cost basis and realised P&L of a position, the update it sends to the
  positions table, and the concurrent execution of several fills on one row under the optimistic
  lock on \<open>updated_at\<close>.
\<close>

section \<open>One fill\<close>

record pos =
  pos_qty :: rat
  pos_avg :: rat
  pos_cost :: rat
  pos_realized :: rat

record fill =
  fl_side :: order_side
  fl_qty :: rat
  fl_price :: rat
  fl_last :: rat

definition read_position :: "item \<Rightarrow> pos" where
  "read_position item =
    (let old_qty = num_attr item ''quantity'' (num_attr item ''confirmed_quantity'' 0);
         old_avg = num_attr item ''avg_price'' (num_attr item ''avg_entry_price'' 0)
     in \<lparr>pos_qty = old_qty, pos_avg = old_avg,
         pos_cost = num_attr item ''cost_basis'' (old_qty * old_avg),
         pos_realized = num_attr item ''realized_pnl'' 0\<rparr>)"

definition EPS :: rat where
  "EPS = 1 / 1000000000"

definition fill_position :: "pos \<Rightarrow> fill \<Rightarrow> pos" where
  "fill_position p f =
    (if fl_side f = BUY then
       (let new_qty = pos_qty p + fl_qty f;
            new_cost = pos_cost p + fl_qty f * fl_price f;
            new_avg = (if EPS < \<bar>new_qty\<bar> then new_cost / new_qty else 0);
            realized = (if pos_qty p < 0
              then pos_realized p + (pos_avg p - fl_price f) * min (fl_qty f) \<bar>pos_qty p\<bar>
              else pos_realized p)
        in \<lparr>pos_qty = new_qty, pos_avg = new_avg, pos_cost = new_cost, pos_realized = realized\<rparr>)
     else
       (let closing_qty = min (fl_qty f) (max (pos_qty p) 0);
            realized = pos_realized p + (fl_price f - pos_avg p) * closing_qty;
            new_qty = pos_qty p - fl_qty f
        in if EPS < new_qty then
             \<lparr>pos_qty = new_qty, pos_avg = pos_avg p, pos_cost = pos_avg p * new_qty,
              pos_realized = realized\<rparr>
           else if new_qty < - EPS then
             \<lparr>pos_qty = new_qty, pos_avg = fl_price f, pos_cost = new_qty * fl_price f,
              pos_realized = realized\<rparr>
           else \<lparr>pos_qty = 0, pos_avg = 0, pos_cost = 0, pos_realized = realized\<rparr>))"

definition direction :: "pos \<Rightarrow> str" where
  "direction p = (if 0 < pos_qty p then ''LONG'' else if pos_qty p < 0 then ''SHORT'' else ''FLAT'')"

definition unrealized :: "pos \<Rightarrow> rat \<Rightarrow> rat" where
  "unrealized p last_price =
    (if 0 < pos_qty p then pos_qty p * (last_price - pos_avg p)
     else if pos_qty p < 0 then \<bar>pos_qty p\<bar> * (pos_avg p - last_price)
     else 0)"

definition fill_updates :: "str \<Rightarrow> bool \<Rightarrow> str \<Rightarrow> pos \<Rightarrow> rat \<Rightarrow> upd list" where
  "fill_updates symbol nse now p last_price =
    [SetTo ''quantity'' (N (pos_qty p)),
     SetTo ''confirmed_quantity'' (N (pos_qty p)),
     SetTo ''avg_price'' (N (pos_avg p)),
     SetTo ''avg_entry_price'' (N (pos_avg p)),
     SetTo ''cost_basis'' (N (pos_cost p)),
     SetTo ''last_price'' (N last_price),
     SetTo ''realized_pnl'' (N (pos_realized p)),
     SetTo ''unrealized_pnl'' (N (unrealized p last_price)),
     SetTo ''symbol'' (S symbol),
     SetTo ''direction'' (S (direction p)),
     SetTo ''product'' (S (if nse then ''MIS'' else ''DAY'')),
     SetTo ''updated_at'' (S now)]
    @ (if direction p \<noteq> ''FLAT''
       then [RemoveAttr ''exit_order_id'', RemoveAttr ''exit_trigger'', RemoveAttr ''exit_state'']
       else [])"

text \<open>\<open>item.get("updated_at", {}).get("S")\<close> is falsy when absent, not a string, or empty.\<close>

definition fill_condition :: "item \<Rightarrow> cond" where
  "fill_condition item =
    (if str_attr item ''updated_at'' [] \<noteq> []
     then AttrEq ''updated_at'' (S (str_attr item ''updated_at'' []))
     else NotExists ''updated_at'')"

section \<open>The written row reads back\<close>

lemma updated_row_fill_reads:
  "read_position (updated_row k (fill_updates symb nse now p lp) r) = p"
proof -
  let ?r = "updated_row k (fill_updates symb nse now p lp) r"
  have "?r ''quantity'' = Some (N (pos_qty p))" "?r ''avg_price'' = Some (N (pos_avg p))"
    "?r ''cost_basis'' = Some (N (pos_cost p))" "?r ''realized_pnl'' = Some (N (pos_realized p))"
    by (simp_all add: updated_row_def fill_updates_def)
  then show ?thesis
    by (simp add: read_position_def num_attr_def Let_def)
qed

lemma updated_row_fill_version:
  "updated_row k (fill_updates symb nse now p lp) r ''updated_at'' = Some (S now)"
  by (simp add: updated_row_def fill_updates_def)

lemma updated_row_fill_flags:
  "updated_row k (fill_updates symb nse now p lp) r ''direction'' = Some (S (direction p))"
  "direction p \<noteq> ''FLAT''
    \<Longrightarrow> updated_row k (fill_updates symb nse now p lp) r ''exit_order_id'' = None"
  by (simp_all add: updated_row_def fill_updates_def)

section \<open>Accounting\<close>

text \<open>
  The reference: a position is worth its realised P&L plus what closing it at \<open>x\<close> would bring,
  and a fill of signed quantity \<open>d\<close> at price \<open>p\<close> changes that by \<open>d * (x - p)\<close>.
\<close>

definition equity :: "pos \<Rightarrow> rat \<Rightarrow> rat" where
  "equity p x = pos_realized p + unrealized p x"

definition signed_qty :: "fill \<Rightarrow> rat" where
  "signed_qty f = (if fl_side f = BUY then fl_qty f else - fl_qty f)"

definition cash_result :: "fill list \<Rightarrow> rat \<Rightarrow> rat" where
  "cash_result fs x = (\<Sum>f\<leftarrow>fs. signed_qty f * (x - fl_price f))"

text \<open>A position whose cost basis is its quantity times its average price.\<close>

definition cost_ok :: "pos \<Rightarrow> bool" where
  "cost_ok p \<longleftrightarrow> pos_cost p = pos_qty p * pos_avg p"

definition flat_pos :: pos where
  "flat_pos = \<lparr>pos_qty = 0, pos_avg = 0, pos_cost = 0, pos_realized = 0\<rparr>"

lemma EPS_bounds: "0 < EPS" "EPS < 1"
  by (simp_all add: EPS_def)

lemma fill_qty:
  assumes "EPS < \<bar>pos_qty p + signed_qty f\<bar> \<or> pos_qty p + signed_qty f = 0"
  shows "pos_qty (fill_position p f) = pos_qty p + signed_qty f"
  using assms EPS_bounds by (auto simp: fill_position_def signed_qty_def Let_def abs_if split: if_splits)

lemma of_int_gt_EPS: "0 < k \<Longrightarrow> EPS < of_int k"
proof -
  assume "0 < k"
  then have "(1::rat) \<le> of_int k" by simp
  then show ?thesis using EPS_bounds(2) by linarith
qed

lemma whole_qty_exact: "q \<in> \<int> \<Longrightarrow> EPS < \<bar>q\<bar> \<or> q = (0::rat)"
proof (elim Ints_cases)
  fix k assume q: "q = of_int k"
  show ?thesis
  proof (cases "k = 0")
    case False
    then have "EPS < of_int \<bar>k\<bar>" by (intro of_int_gt_EPS) simp
    then show ?thesis using q by simp
  qed (simp add: q)
qed

text \<open>Fills of whole lots that keep the position long or flat.\<close>

definition long_fill :: "pos \<Rightarrow> fill \<Rightarrow> bool" where
  "long_fill p f \<longleftrightarrow> fl_qty f \<in> \<int> \<and> 0 < fl_qty f \<and> 0 \<le> pos_qty p + signed_qty f"

definition long_ok :: "pos \<Rightarrow> bool" where
  "long_ok p \<longleftrightarrow> pos_qty p \<in> \<int> \<and> 0 \<le> pos_qty p \<and> cost_ok p"

lemma equity_cost: "cost_ok p \<Longrightarrow> equity p x = pos_realized p + pos_qty p * x - pos_cost p"
  by (auto simp: equity_def unrealized_def cost_ok_def algebra_simps)

lemma equity_long: "long_ok p \<Longrightarrow> equity p x = pos_realized p + pos_qty p * x - pos_cost p"
  by (simp add: long_ok_def equity_cost)

lemma signed_qty_Ints: "fl_qty f \<in> \<int> \<Longrightarrow> signed_qty f \<in> \<int>"
  by (simp add: signed_qty_def)

lemma fill_long_qty:
  assumes "long_ok p" "long_fill p f"
  shows "pos_qty (fill_position p f) = pos_qty p + signed_qty f"
  by (rule fill_qty, rule whole_qty_exact)
    (use assms in \<open>auto simp: long_ok_def long_fill_def intro!: Ints_add signed_qty_Ints\<close>)

lemma fill_long_cost:
  assumes "long_ok p" "long_fill p f"
  shows "cost_ok (fill_position p f)"
proof (cases "fl_side f")
  case BUY
  from assms BUY have "pos_qty p + fl_qty f \<in> \<int>" "0 < pos_qty p + fl_qty f"
    by (auto simp: long_ok_def long_fill_def intro!: Ints_add)
  then have "EPS < \<bar>pos_qty p + fl_qty f\<bar>"
    using whole_qty_exact by fastforce
  then show ?thesis
    using BUY \<open>0 < pos_qty p + fl_qty f\<close> by (simp add: fill_position_def cost_ok_def Let_def)
next
  case SELL
  then show ?thesis
    by (simp add: fill_position_def cost_ok_def Let_def)
qed

lemma fill_long_ok:
  assumes "long_ok p" "long_fill p f"
  shows "long_ok (fill_position p f)"
  using assms fill_long_qty [OF assms] fill_long_cost [OF assms]
  by (auto simp: long_ok_def long_fill_def intro!: Ints_add signed_qty_Ints)

lemma fill_long_realized:
  assumes "long_ok p" "long_fill p f"
  shows "pos_realized (fill_position p f) =
    (if fl_side f = BUY then pos_realized p
     else pos_realized p + (fl_price f - pos_avg p) * fl_qty f)"
  using assms by (auto simp: fill_position_def long_ok_def long_fill_def signed_qty_def Let_def
      min_def max_def)

lemma fill_long_cost_value:
  assumes "long_ok p" "long_fill p f"
  shows "pos_cost (fill_position p f) =
    (if fl_side f = BUY then pos_cost p + fl_qty f * fl_price f
     else pos_cost p - fl_qty f * pos_avg p)"
proof (cases "fl_side f")
  case SELL
  have "pos_qty p - fl_qty f \<in> \<int>" "0 \<le> pos_qty p - fl_qty f"
    using assms SELL by (auto simp: long_ok_def long_fill_def signed_qty_def intro!: Ints_diff)
  then have "EPS < pos_qty p - fl_qty f \<or> pos_qty p = fl_qty f"
    using whole_qty_exact by fastforce
  then show ?thesis
    using SELL assms EPS_bounds(1)
    by (auto simp: fill_position_def Let_def long_ok_def cost_ok_def algebra_simps)
qed (simp add: fill_position_def Let_def)

lemma fill_long_equity:
  assumes "long_ok p" "long_fill p f"
  shows "equity (fill_position p f) x = equity p x + signed_qty f * (x - fl_price f)"
  unfolding equity_long [OF assms(1)] equity_long [OF fill_long_ok [OF assms]]
    fill_long_qty [OF assms] fill_long_realized [OF assms] fill_long_cost_value [OF assms]
  by (auto simp: signed_qty_def algebra_simps)

fun long_run :: "pos \<Rightarrow> fill list \<Rightarrow> bool" where
  "long_run p [] = True"
| "long_run p (f # fs) = (long_fill p f \<and> long_run (fill_position p f) fs)"

lemma long_run_ok: "long_ok p \<Longrightarrow> long_run p fs \<Longrightarrow> long_ok (foldl fill_position p fs)"
  by (induction fs arbitrary: p) (auto intro: fill_long_ok)

lemma long_run_equity:
  "long_ok p \<Longrightarrow> long_run p fs \<Longrightarrow>
    equity (foldl fill_position p fs) x = equity p x + cash_result fs x"
proof (induction fs arbitrary: p)
  case Nil
  then show ?case by (simp add: cash_result_def)
next
  case (Cons f fs)
  then have "long_ok p" "long_fill p f" "long_run (fill_position p f) fs" by auto
  with Cons.IH [OF fill_long_ok] fill_long_equity
  have "equity (foldl fill_position p (f # fs)) x
    = equity p x + signed_qty f * (x - fl_price f) + cash_result fs x"
    by simp
  then show ?case by (simp add: cash_result_def)
qed

text \<open>
  On the short side the identity fails: covering part of a short counts the covered profit twice,
  once as realised P&L and once in the average price computed from the cost basis.
\<close>

lemma cover_equity_excess:
  assumes "cost_ok p" "fl_side f = BUY" "0 < fl_qty f" "pos_qty p + fl_qty f < - EPS"
  shows "equity (fill_position p f) x =
    equity p x + signed_qty f * (x - fl_price f) + (pos_avg p - fl_price f) * fl_qty f"
proof -
  have neg: "pos_qty p + fl_qty f < 0" "pos_qty p < 0" "EPS < \<bar>pos_qty p + fl_qty f\<bar>"
    "min (fl_qty f) \<bar>pos_qty p\<bar> = fl_qty f"
    using assms EPS_bounds by linarith+
  have c: "cost_ok (fill_position p f)"
    using assms(2) neg by (simp add: fill_position_def cost_ok_def Let_def)
  have v: "pos_qty (fill_position p f) = pos_qty p + fl_qty f"
    "pos_cost (fill_position p f) = pos_cost p + fl_qty f * fl_price f"
    "pos_realized (fill_position p f) = pos_realized p + (pos_avg p - fl_price f) * fl_qty f"
    using assms(2) neg by (simp_all add: fill_position_def Let_def)
  show ?thesis
    unfolding equity_cost [OF assms(1)] equity_cost [OF c] v
    using assms(2) by (simp add: signed_qty_def algebra_simps)
qed

section \<open>Concurrent fills\<close>

text \<open>
  Several fill handlers work on one row.  A handler reads the row, computes, and sends its update
  under the condition on \<open>updated_at\<close>; when the condition fails it starts over, three attempts in all.
  The number in a control state counts the refused attempts.  \<open>fs\<close> are the
  fills, one per handler; a state holds the row, the handlers' control states, the time stamps
  already used and, as a ghost, the fills committed so far in commit order.
\<close>

datatype handler = Start nat | HasRead nat item | Committed | GaveUp

record fill_sys =
  fy_row :: "item option"
  fy_pc :: "nat \<Rightarrow> handler"
  fy_used :: "str set"
  fy_log :: "nat list"

definition read_row :: "item option \<Rightarrow> item" where
  "read_row r = (case r of None \<Rightarrow> Map.empty | Some i \<Rightarrow> i)"

inductive fill_step :: "str \<Rightarrow> fill list \<Rightarrow> fill_sys \<Rightarrow> fill_sys \<Rightarrow> bool"
  for symbol :: str and fs :: "fill list" where
  ReadRow: "n < length fs \<Longrightarrow> fy_pc s n = Start k \<Longrightarrow>
    fill_step symbol fs s (s\<lparr>fy_pc := (fy_pc s)(n := HasRead k (read_row (fy_row s)))\<rparr>)"
| Commit: "n < length fs \<Longrightarrow> fy_pc s n = HasRead k i \<Longrightarrow>
    cond_holds (fill_condition i) (position_key symbol) (fy_row s) \<Longrightarrow>
    now \<notin> fy_used s \<Longrightarrow> now \<noteq> [] \<Longrightarrow>
    p = fill_position (read_position i) (fs ! n) \<Longrightarrow>
    fill_step symbol fs s
      (s\<lparr>fy_row := Some (updated_row (position_key symbol)
              (fill_updates symbol nse now p (fl_last (fs ! n))) (fy_row s)),
         fy_pc := (fy_pc s)(n := Committed),
         fy_used := insert now (fy_used s),
         fy_log := fy_log s @ [n]\<rparr>)"
| Refused: "n < length fs \<Longrightarrow> fy_pc s n = HasRead k i \<Longrightarrow>
    \<not> cond_holds (fill_condition i) (position_key symbol) (fy_row s) \<Longrightarrow>
    fill_step symbol fs s
      (s\<lparr>fy_pc := (fy_pc s)(n := (if k < 2 then Start (Suc k) else GaveUp))\<rparr>)"

inductive_cases fill_stepE: "fill_step symbol fs s s'"

definition fill_init :: "item option \<Rightarrow> fill_sys" where
  "fill_init r = \<lparr>fy_row = r, fy_pc = (\<lambda>_. Start 0),
    fy_used = {str_attr (read_row r) ''updated_at'' []}, fy_log = []\<rparr>"

text \<open>
  A row is versioned when it is missing or carries a non-empty \<open>updated_at\<close>.  The invariant: the
  row is versioned and its version is used; a handler that read a row with the current version read
  the current row; the position is the result of the committed fills, in commit order; every
  handler committed at most once.
\<close>

definition version :: "item \<Rightarrow> str" where
  "version i = str_attr i ''updated_at'' []"

definition versioned :: "item \<Rightarrow> bool" where
  "versioned i \<longleftrightarrow> i = Map.empty \<or> (version i \<noteq> [] \<and> i ''updated_at'' = Some (S (version i)))"

definition fill_inv :: "item option \<Rightarrow> fill list \<Rightarrow> fill_sys \<Rightarrow> bool" where
  "fill_inv r0 fs s \<longleftrightarrow>
    versioned (read_row (fy_row s)) \<and>
    version (read_row (fy_row s)) \<in> fy_used s \<and>
    (\<forall>n k i. fy_pc s n = HasRead k i \<longrightarrow> versioned i \<and> (version i \<noteq> [] \<longrightarrow> version i \<in> fy_used s) \<and>
       (version i = version (read_row (fy_row s)) \<longrightarrow> i = read_row (fy_row s))) \<and>
    read_position (read_row (fy_row s))
      = foldl fill_position (read_position (read_row r0)) (map ((!) fs) (fy_log s)) \<and>
    distinct (fy_log s) \<and> set (fy_log s) = {n. fy_pc s n = Committed} \<and> set (fy_log s) \<subseteq> {..<length fs}"

lemma version_empty [simp]: "version Map.empty = []"
  by (simp add: version_def str_attr_def)

lemma read_row_simps [simp]: "read_row None = Map.empty" "read_row (Some i) = i"
  by (simp_all add: read_row_def)

lemma fill_condition_version:
  assumes "versioned i" "versioned (read_row r)" "cond_holds (fill_condition i) k r"
  shows "version i = version (read_row r)"
proof (cases "version i = []")
  case True
  then have "r = None \<or> the r ''updated_at'' = None"
    using assms(3) by (cases r) (simp_all add: fill_condition_def version_def)
  then have "read_row r = Map.empty"
    using assms(2) by (cases r) (auto simp: versioned_def)
  then show ?thesis using True by simp
next
  case False
  then show ?thesis
    using assms(3) by (cases r) (simp_all add: fill_condition_def version_def str_attr_def)
qed

lemma fill_inv_init: "versioned (read_row r0) \<Longrightarrow> fill_inv r0 fs (fill_init r0)"
  by (auto simp: fill_inv_def fill_init_def version_def)

lemma fill_inv_read:
  assumes "fill_inv r0 fs s" "fy_pc s n = Start k"
  shows "fill_inv r0 fs (s\<lparr>fy_pc := (fy_pc s)(n := HasRead k (read_row (fy_row s)))\<rparr>)"
  using assms by (auto simp: fill_inv_def)

lemma fill_inv_refused:
  assumes "fill_inv r0 fs s" "fy_pc s n = HasRead k i"
  shows "fill_inv r0 fs (s\<lparr>fy_pc := (fy_pc s)(n := (if k < 2 then Start (Suc k) else GaveUp))\<rparr>)"
  using assms by (auto simp: fill_inv_def)

lemma fill_inv_commit:
  assumes inv: "fill_inv r0 fs s" and n: "n < length fs" and pc: "fy_pc s n = HasRead a i"
    and c: "cond_holds (fill_condition i) (position_key symbol) (fy_row s)"
    and fresh: "now \<notin> fy_used s" "now \<noteq> []"
    and p: "p = fill_position (read_position i) (fs ! n)"
    and row: "row = updated_row k (fill_updates symbol nse now p lp) (fy_row s)"
  shows "fill_inv r0 fs
      (s\<lparr>fy_row := Some row, fy_pc := (fy_pc s)(n := Committed),
         fy_used := insert now (fy_used s), fy_log := fy_log s @ [n]\<rparr>)"
proof -
  have i: "i = read_row (fy_row s)"
    using inv pc fill_condition_version [OF _ _ c] by (auto simp: fill_inv_def)
  have v: "row ''updated_at'' = Some (S now)" "version row = now"
    by (simp_all add: row updated_row_fill_version version_def str_attr_def)
  have pos: "read_position row = fill_position (read_position (read_row (fy_row s))) (fs ! n)"
    by (simp add: row updated_row_fill_reads p i)
  have "n \<notin> set (fy_log s)"
    using inv pc by (auto simp: fill_inv_def)
  moreover have "fy_pc s m = HasRead kj j \<Longrightarrow> version j \<noteq> now" for m kj j
    using inv fresh by (auto simp: fill_inv_def)
  ultimately show ?thesis
    using inv n v pos fresh by (auto simp: fill_inv_def versioned_def)
qed

lemma fill_inv_step: "fill_step symbol fs s s' \<Longrightarrow> fill_inv r0 fs s \<Longrightarrow> fill_inv r0 fs s'"
  by (erule fill_stepE)
    (simp_all add: fill_inv_read fill_inv_refused fill_inv_commit [OF _ _ _ _ _ _ refl refl])

lemma fill_inv_reach:
  "(fill_step symbol fs)\<^sup>*\<^sup>* (fill_init r0) s \<Longrightarrow> versioned (read_row r0) \<Longrightarrow> fill_inv r0 fs s"
  by (induction rule: rtranclp_induct) (auto intro: fill_inv_init fill_inv_step)

lemma fills_qty:
  assumes "pos_qty p \<in> \<int>" "\<forall>f \<in> set fs. fl_qty f \<in> \<int>"
  shows "pos_qty (foldl fill_position p fs) = pos_qty p + (\<Sum>f\<leftarrow>fs. signed_qty f)"
  using assms
proof (induction fs arbitrary: p)
  case (Cons f fs)
  then have "pos_qty p + signed_qty f \<in> \<int>"
    by (auto intro!: Ints_add signed_qty_Ints)
  with fill_qty [of p f] whole_qty_exact
  have "pos_qty (fill_position p f) = pos_qty p + signed_qty f" by blast
  with Cons \<open>pos_qty p + signed_qty f \<in> \<int>\<close> show ?case
    by simp
qed simp

section \<open>Properties\<close>

text \<open>
  C19 Mark-to-market accounting of the long side: over any sequence of whole-lot fills that never
  takes the position below zero, realised plus unrealised P&L at any closing price \<open>x\<close> changes by
  exactly the sum of \<open>signed quantity * (x - fill price)\<close>.  No profit is created or lost.
\<close>

theorem long_fills_conserve_equity:
  assumes "long_ok p" "long_run p fs"
  shows "equity (foldl fill_position p fs) x = equity p x + cash_result fs x"
  using assms by (rule long_run_equity)

definition mk_fill :: "order_side \<Rightarrow> rat \<Rightarrow> rat \<Rightarrow> fill" where
  "mk_fill side qty price = \<lparr>fl_side = side, fl_qty = qty, fl_price = price, fl_last = price\<rparr>"

theorem long_fills_conserve_equity_witness:
  "equity (foldl fill_position flat_pos [mk_fill BUY 10 100, mk_fill SELL 4 110]) 120
    = equity flat_pos 120 + cash_result [mk_fill BUY 10 100, mk_fill SELL 4 110] 120"
  by (rule long_fills_conserve_equity)
    (simp_all add: long_ok_def flat_pos_def cost_ok_def long_fill_def mk_fill_def signed_qty_def
      fill_position_def EPS_def Let_def)

text \<open>
  On the short side the accounting fails: a fill that covers part of a short position raises
  realised plus unrealised P&L by the covered profit a second time.  The average price is
  recomputed from the cost basis although the profit is already booked as realised.
\<close>

theorem short_cover_counts_profit_twice:
  assumes "cost_ok p" "fl_side f = BUY" "0 < fl_qty f" "pos_qty p + fl_qty f < - EPS"
  shows "equity (fill_position p f) x =
    equity p x + signed_qty f * (x - fl_price f) + (pos_avg p - fl_price f) * fl_qty f"
  using assms by (rule cover_equity_excess)

theorem short_cover_counts_profit_twice_witness:
  "equity (fill_position \<lparr>pos_qty = -10, pos_avg = 100, pos_cost = -1000, pos_realized = 0\<rparr>
      (mk_fill BUY 5 90)) 90
    = equity \<lparr>pos_qty = -10, pos_avg = 100, pos_cost = -1000, pos_realized = 0\<rparr> 90
      + signed_qty (mk_fill BUY 5 90) * (90 - 90) + (100 - 90) * 5"
  using short_cover_counts_profit_twice
    [of "\<lparr>pos_qty = -10, pos_avg = 100, pos_cost = -1000, pos_realized = 0\<rparr>" "mk_fill BUY 5 90" 90]
  by (simp add: cost_ok_def mk_fill_def EPS_def)



text \<open>
  Booking a fill clears the exit lock of the row (\<open>exit_order_id\<close>) whenever the position is not
  flat afterwards, also when the fill is a partial exit: the exit order that is still in flight
  loses its lock.
\<close>

theorem partial_exit_clears_exit_lock:
  assumes "fl_side f = SELL" "0 < fl_qty f" "fl_qty f < pos_qty (read_position i) - EPS"
  shows "updated_row (position_key symbol) (fill_updates symbol nse now
      (fill_position (read_position i) f) (fl_last f)) (Some i) ''exit_order_id'' = None"
proof (rule updated_row_fill_flags(2))
  have "0 < pos_qty (fill_position (read_position i) f)"
    using assms EPS_bounds by (simp add: fill_position_def Let_def)
  then show "direction (fill_position (read_position i) f) \<noteq> ''FLAT''"
    by (simp add: direction_def)
qed

theorem partial_exit_clears_exit_lock_witness:
  "updated_row (position_key ''INFY'') (fill_updates ''INFY'' True ''t2''
      (fill_position (read_position [''quantity'' \<mapsto> N 10, ''exit_order_id'' \<mapsto> S ''EXIT-1''])
        (mk_fill SELL 4 100)) 100)
    (Some [''quantity'' \<mapsto> N 10, ''exit_order_id'' \<mapsto> S ''EXIT-1'']) ''exit_order_id'' = None"
  using partial_exit_clears_exit_lock [of "mk_fill SELL 4 100"
      "[''quantity'' \<mapsto> N 10, ''exit_order_id'' \<mapsto> S ''EXIT-1'']"]
  by (simp add: mk_fill_def read_position_def num_attr_def EPS_def Let_def)

end
