(* ===== verification/OrderManager.thy ===== *)
theory OrderManager
  imports PositionFill
begin

text \<open>
  \<open>services/execution_engine/orders/order_manager.py\<close>: the operations of \<open>OrderManager\<close>.  Each
  takes the manager, the world and the clock readings it makes, and returns its result and the
  new world.  Logging is not modelled.
\<close>

section \<open>State and keys\<close>

record 'w order_manager =
  om_dynamo :: "'w dynamo option"
  om_orders_table :: str
  om_positions_table :: str
  om_risk_state_table :: str
  om_portfolio_value :: rat \<comment> \<open>\<open>settings.portfolio_value\<close>\<close>
  om_lib :: pylib

definition order_key :: "str \<Rightarrow> key" where
  "order_key order_id = (''ORDER#'' @ order_id, ''META'')"

definition signal_lock_key :: "str \<Rightarrow> key" where
  "signal_lock_key signal_id = (''SIGNAL#'' @ signal_id, ''LOCK'')"

lemma order_keys [simp]:
  "order_key o1 = order_key o2 \<longleftrightarrow> o1 = o2"
  "signal_lock_key s1 = signal_lock_key s2 \<longleftrightarrow> s1 = s2"
  "order_key o1 \<noteq> signal_lock_key s1" "signal_lock_key s1 \<noteq> order_key o1"
  "order_key o1 \<noteq> position_key sy" "position_key sy \<noteq> order_key o1"
  "order_key o1 \<noteq> nav_key" "nav_key \<noteq> order_key o1"
  "signal_lock_key s1 \<noteq> position_key sy" "position_key sy \<noteq> signal_lock_key s1"
  "signal_lock_key s1 \<noteq> nav_key" "nav_key \<noteq> signal_lock_key s1"
  by (simp_all add: order_key_def signal_lock_key_def position_key_def nav_key_def)

section \<open>Broker idempotency key\<close>

definition broker_idempotency_key :: "pylib \<Rightarrow> str \<Rightarrow> str" where
  "broker_idempotency_key L order_id = ''QE'' @ take 18 (py_sha256_hex L order_id)"

definition attach_broker_idempotency :: "pylib \<Rightarrow> order_request \<Rightarrow> order_request" where
  "attach_broker_idempotency L q =
    (if (case map_of (oq_metadata q) ''broker_idempotency_key'' of None \<Rightarrow> False | Some j \<Rightarrow> json_truthy j)
     then q
     else q\<lparr>oq_metadata := AList.update ''broker_idempotency_key''
              (JStr (broker_idempotency_key L (oq_order_id q))) (oq_metadata q)\<rparr>)"

text \<open>
  The value placed in an \<open>{"S": ..}\<close> attribute; boto rejects one that is not a string.
\<close>

definition idempotency_attr :: "order_request \<Rightarrow> str res" where
  "idempotency_attr q =
    (case map_of (oq_metadata q) ''broker_idempotency_key'' of
       Some (JStr s) \<Rightarrow> Inr s
     | _ \<Rightarrow> Inl OtherError)"

section \<open>Submitting orders\<close>

fun opt_num :: "str \<Rightarrow> rat option \<Rightarrow> item \<Rightarrow> item" where
  "opt_num a None i = i"
| "opt_num a (Some x) i = i(a \<mapsto> N x)"

definition order_item :: "pylib \<Rightarrow> order_request \<Rightarrow> str \<Rightarrow> str \<Rightarrow> item" where
  "order_item L q idem now =
    (key_item (order_key (oq_order_id q)))
      (''order_id'' \<mapsto> S (oq_order_id q),
       ''signal_id'' \<mapsto> S (oq_signal_id q),
       ''risk_decision_id'' \<mapsto> S (oq_risk_decision_id q),
       ''symbol'' \<mapsto> S (oq_symbol q),
       ''market'' \<mapsto> S (market_value (oq_market q)),
       ''side'' \<mapsto> S (order_side_value (oq_side q)),
       ''order_type'' \<mapsto> S (order_type_value (oq_order_type q)),
       ''product_type'' \<mapsto> S (product_type_value (oq_product_type q)),
       ''quantity'' \<mapsto> N (oq_quantity q),
       ''order_status'' \<mapsto> S (order_status_value PENDING),
       ''filled_quantity'' \<mapsto> N 0,
       ''avg_fill_price'' \<mapsto> N 0,
       ''slippage'' \<mapsto> N 0,
       ''created_at'' \<mapsto> S (dt_iso (oq_created_at q)),
       ''updated_at'' \<mapsto> S now,
       ''trade_date'' \<mapsto> S (dt_date (oq_created_at q)),
       ''metadata'' \<mapsto> S (py_dumps L (oq_metadata q)),
       ''broker_idempotency_key'' \<mapsto> S idem,
       ''broker_order_state'' \<mapsto> S ''RESERVED'',
       ''outbox_status'' \<mapsto> S ''BROKER_RESERVED'')"

definition order_prices :: "order_request \<Rightarrow> item \<Rightarrow> item" where
  "order_prices q i = opt_num ''stop_price'' (oq_stop_price q) (opt_num ''limit_price'' (oq_limit_price q) i)"

definition signal_lock_item :: "order_request \<Rightarrow> str \<Rightarrow> item" where
  "signal_lock_item q now =
    (key_item (signal_lock_key (oq_signal_id q)))
      (''order_id'' \<mapsto> S (oq_order_id q), ''created_at'' \<mapsto> S now)"

text \<open>
  The result is the returned bool or the exception, with the order as the call leaves it
  (its metadata is completed in place).
\<close>

definition submit_order :: "'w order_manager \<Rightarrow> 'w \<Rightarrow> order_request \<Rightarrow> str \<Rightarrow> str
    \<Rightarrow> bool res \<times> order_request \<times> 'w" where
  "submit_order m w q now1 now2 =
    (case om_dynamo m of
       None \<Rightarrow> (Inr True, q, w)
     | Some D \<Rightarrow>
        (let q = attach_broker_idempotency (om_lib m) q in
         case idempotency_attr q of
           Inl e \<Rightarrow> (Inl e, q, w)
         | Inr idem \<Rightarrow>
            (let item = order_prices q (order_item (om_lib m) q idem now1);
                 lock = signal_lock_item q now2
             in case dy_transact D w
                  [(om_orders_table m, order_key (oq_order_id q), item, NotExists ''PK''),
                   (om_orders_table m, signal_lock_key (oq_signal_id q), lock, NotExists ''PK'')] of
                  (Inr _, w) \<Rightarrow> (Inr True, q, w)
                | (Inl TransactionCanceled, w) \<Rightarrow> (Inr False, q, w)
                | (Inl e, w) \<Rightarrow> (Inl e, q, w))))"

definition submit_child_order :: "'w order_manager \<Rightarrow> 'w \<Rightarrow> order_request \<Rightarrow> str \<Rightarrow> str \<Rightarrow> str
    \<Rightarrow> bool res \<times> order_request \<times> 'w" where
  "submit_child_order m w q parent_order_id protective_type now =
    (case om_dynamo m of
       None \<Rightarrow> (Inr True, q, w)
     | Some D \<Rightarrow>
        (let q = attach_broker_idempotency (om_lib m) q in
         case idempotency_attr q of
           Inl e \<Rightarrow> (Inl e, q, w)
         | Inr idem \<Rightarrow>
            (let item = order_prices q ((order_item (om_lib m) q idem now)
                   (''parent_order_id'' \<mapsto> S parent_order_id,
                    ''protective_type'' \<mapsto> S protective_type,
                    ''is_protective'' \<mapsto> BOOL True))
             in case dy_put D w (om_orders_table m) (order_key (oq_order_id q)) item
                  (NotExists ''PK'') of
                  (Inr _, w) \<Rightarrow> (Inr True, q, w)
                | (Inl ConditionalCheckFailed, w) \<Rightarrow> (Inr False, q, w)
                | (Inl e, w) \<Rightarrow> (Inl e, q, w))))"

section \<open>Reading orders\<close>

definition get_order :: "'w order_manager \<Rightarrow> 'w \<Rightarrow> str \<Rightarrow> item option \<times> 'w" where
  "get_order m w order_id =
    (case om_dynamo m of
       None \<Rightarrow> (None, w)
     | Some D \<Rightarrow>
        (case dy_get D w (om_orders_table m) (order_key order_id) of
           (Inl _, w) \<Rightarrow> (None, w)
         | (Inr item, w) \<Rightarrow> (item, w)))"

definition get_stored_order :: "'w order_manager \<Rightarrow> 'w \<Rightarrow> str \<Rightarrow> stored_order option res \<times> 'w" where
  "get_stored_order m w order_id =
    (case get_order m w order_id of
       (None, w) \<Rightarrow> (Inr None, w)
     | (Some item, w) \<Rightarrow> (map_sum id Some (unmarshal_item (om_lib m) item), w))"

definition get_order_by_signal :: "'w order_manager \<Rightarrow> 'w \<Rightarrow> str \<Rightarrow> stored_order option \<times> 'w" where
  "get_order_by_signal m w signal_id =
    (case om_dynamo m of
       None \<Rightarrow> (None, w)
     | Some D \<Rightarrow>
        (case dy_query D w (om_orders_table m) ''signal-index'' [(''signal_id'', signal_id)] None of
           (Inl _, w) \<Rightarrow> (None, w)
         | (Inr (items, _), w) \<Rightarrow>
            (case filter (\<lambda>i. i ''SK'' = Some (S ''META'')) items of
               [] \<Rightarrow> (None, w)
             | i # _ \<Rightarrow> (case unmarshal_item (om_lib m) i of Inl _ \<Rightarrow> (None, w) | Inr so \<Rightarrow> (Some so, w)))))"

text \<open>
  Paginated reads of one index bucket.  The loop ends when the reply has no
  \<open>LastEvaluatedKey\<close>; \<open>fuel\<close> bounds the pages and \<open>None\<close> means it ran out.
\<close>

definition query_pages :: "nat \<Rightarrow> 'w dynamo \<Rightarrow> str \<Rightarrow> str \<Rightarrow> 'w \<Rightarrow> str option \<Rightarrow> item list
    \<Rightarrow> (item list res \<times> 'w) option" where
  "query_pages fuel D tbl st w start collected =
    query_all fuel D tbl ''status-index'' [(''order_status'', st)] w start collected"

fun unmarshal_all :: "pylib \<Rightarrow> item list \<Rightarrow> stored_order list res" where
  "unmarshal_all L [] = Inr []"
| "unmarshal_all L (i # is) =
    res_bind (unmarshal_item L i) (\<lambda>so. res_bind (unmarshal_all L is) (\<lambda>sos. Inr (so # sos)))"

definition get_orders_by_status :: "nat \<Rightarrow> 'w order_manager \<Rightarrow> 'w \<Rightarrow> str
    \<Rightarrow> (stored_order list \<times> 'w) option" where
  "get_orders_by_status fuel m w status_value =
    (case om_dynamo m of
       None \<Rightarrow> Some ([], w)
     | Some D \<Rightarrow>
        (case query_pages fuel D (om_orders_table m) status_value w None [] of
           None \<Rightarrow> None
         | Some (r, w) \<Rightarrow> Some (res_or [] (res_bind r (unmarshal_all (om_lib m))), w)))"

text \<open>
  \<open>get_open_orders\<close> queries the four open statuses and merges the replies; a failed bucket is
  skipped.  The concurrent queries only read and are taken one after the other.
\<close>

definition OPEN_STATUSES :: "order_status list" where
  "OPEN_STATUSES = [PENDING, ACK_UNKNOWN, PLACED, PARTIALLY_FILLED]"

fun query_buckets :: "nat \<Rightarrow> 'w dynamo \<Rightarrow> str \<Rightarrow> order_status list \<Rightarrow> 'w
    \<Rightarrow> (item list \<times> 'w) option" where
  "query_buckets fuel D tbl [] w = Some ([], w)"
| "query_buckets fuel D tbl (st # sts) w =
    (case query_pages fuel D tbl (order_status_value st) w None [] of
       None \<Rightarrow> None
     | Some (r, w) \<Rightarrow>
        (case query_buckets fuel D tbl sts w of
           None \<Rightarrow> None
         | Some (items, w) \<Rightarrow> Some (res_or [] r @ items, w)))"

definition get_open_orders :: "nat \<Rightarrow> 'w order_manager \<Rightarrow> 'w \<Rightarrow> (stored_order list \<times> 'w) option" where
  "get_open_orders fuel m w =
    (case om_dynamo m of
       None \<Rightarrow> Some ([], w)
     | Some D \<Rightarrow>
        (case query_buckets fuel D (om_orders_table m) OPEN_STATUSES w of
           None \<Rightarrow> None
         | Some (items, w) \<Rightarrow> Some (res_or [] (unmarshal_all (om_lib m) items), w)))"

section \<open>Status transitions\<close>

record transition =
  tn_order_id :: str
  tn_new_status :: order_status
  tn_filled_quantity :: rat
  tn_average_price :: rat
  tn_broker_message :: str
  tn_expected_previous_status :: "order_status option"
  tn_broker_order_id :: "str option"
  tn_slippage :: rat
  tn_broker_order_state :: "str option"
  tn_outbox_status :: "str option"
  tn_broker_submitted :: bool

text \<open>The keyword defaults of \<open>_transition_order_status\<close>.\<close>

definition transition_defaults :: "str \<Rightarrow> order_status \<Rightarrow> transition" where
  "transition_defaults order_id new_status =
    \<lparr>tn_order_id = order_id, tn_new_status = new_status, tn_filled_quantity = 0,
     tn_average_price = 0, tn_broker_message = [], tn_expected_previous_status = None,
     tn_broker_order_id = None, tn_slippage = 0, tn_broker_order_state = None,
     tn_outbox_status = None, tn_broker_submitted = False\<rparr>"

fun opt_set :: "str \<Rightarrow> str option \<Rightarrow> upd list" where
  "opt_set a None = []"
| "opt_set a (Some v) = [SetTo a (S v)]"

definition transition_updates :: "transition \<Rightarrow> str \<Rightarrow> upd list" where
  "transition_updates a now =
    [SetTo ''order_status'' (S (order_status_value (tn_new_status a))),
     SetTo ''filled_quantity'' (N (tn_filled_quantity a)),
     SetTo ''avg_fill_price'' (N (tn_average_price a)),
     SetTo ''slippage'' (N (tn_slippage a)),
     SetTo ''broker_message'' (S (tn_broker_message a)),
     SetTo ''updated_at'' (S now)]
    @ opt_set ''broker_order_id'' (tn_broker_order_id a)
    @ opt_set ''broker_order_state'' (tn_broker_order_state a)
    @ opt_set ''outbox_status'' (tn_outbox_status a)
    @ (if tn_broker_submitted a then [SetTo ''broker_submitted_at'' (S now)] else [])"

text \<open>
  The status the transition starts from: the caller's, or the one read.  \<open>None\<close> is the early
  return on a missing row or an unknown status.
\<close>

definition previous_status :: "'w order_manager \<Rightarrow> 'w \<Rightarrow> transition \<Rightarrow> order_status option \<times> 'w" where
  "previous_status m w a =
    (case (om_dynamo m, tn_expected_previous_status a) of
       (Some D, None) \<Rightarrow>
         (case get_order m w (tn_order_id a) of
            (None, w) \<Rightarrow> (None, w)
          | (Some item, w) \<Rightarrow> (order_status_of (str_attr item ''order_status'' ''PENDING''), w))
     | (_, Some st) \<Rightarrow> (Some st, w)
     | (None, None) \<Rightarrow> (Some PENDING, w))"

definition transition_order_status :: "'w order_manager \<Rightarrow> 'w \<Rightarrow> transition \<Rightarrow> str
    \<Rightarrow> bool res \<times> 'w" where
  "transition_order_status m w a now =
    (case previous_status m w a of
       (None, w) \<Rightarrow> (Inr False, w)
     | (Some prev, w) \<Rightarrow>
        if \<not> is_valid_status_transition prev (tn_new_status a) then (Inr False, w)
        else (case om_dynamo m of
           None \<Rightarrow> (Inr True, w)
         | Some D \<Rightarrow>
            (case dy_update D w (om_orders_table m) (order_key (tn_order_id a))
                   (transition_updates a now)
                   (AttrEq ''order_status'' (S (order_status_value prev))) of
               (Inr _, w) \<Rightarrow> (Inr True, w)
             | (Inl ConditionalCheckFailed, w) \<Rightarrow>
                 (case get_stored_order m w (tn_order_id a) of
                    (Inl e, w) \<Rightarrow> (Inl e, w)
                  | (Inr None, w) \<Rightarrow> (Inr False, w)
                  | (Inr (Some current), w) \<Rightarrow> (Inr (op_status current = tn_new_status a), w))
             | (Inl _, w) \<Rightarrow> (Inr False, w))))"

definition update_status :: "'w order_manager \<Rightarrow> 'w \<Rightarrow> order_status_update \<Rightarrow> str \<Rightarrow> bool res \<times> 'w" where
  "update_status m w u now =
    transition_order_status m w
      ((transition_defaults (ou_order_id u) (ou_new_status u))
        \<lparr>tn_expected_previous_status := Some (ou_previous_status u),
         tn_filled_quantity := ou_filled_quantity u,
         tn_average_price := ou_avg_fill_price u,
         tn_broker_message := ou_broker_message u,
         tn_broker_order_id := Some (ou_broker_order_id u),
         tn_slippage := ou_slippage u\<rparr>) now"

definition record_order :: "'w order_manager \<Rightarrow> 'w \<Rightarrow> order_response \<Rightarrow> str \<Rightarrow> unit res \<times> 'w" where
  "record_order m w rsp now =
    (case om_dynamo m of
       None \<Rightarrow> (Inr (), w)
     | Some D \<Rightarrow>
        (case transition_order_status m w
               ((transition_defaults (op_order_id rsp) (op_status rsp))
                 \<lparr>tn_filled_quantity := op_filled_quantity rsp,
                  tn_average_price := op_avg_fill_price rsp,
                  tn_broker_message := op_broker_message rsp,
                  tn_broker_order_id := Some (op_broker_order_id rsp),
                  tn_broker_order_state := Some ''SUBMITTED'',
                  tn_outbox_status := Some ''BROKER_ACKED'',
                  tn_broker_submitted := True\<rparr>) now of
           (Inl e, w) \<Rightarrow> (Inl e, w)
         | (Inr updated, w) \<Rightarrow> (if \<not> updated then Inl RuntimeError else Inr (), w)))"

definition mark_order_ack_unknown :: "'w order_manager \<Rightarrow> 'w \<Rightarrow> str \<Rightarrow> str \<Rightarrow> str
    \<Rightarrow> bool res \<times> 'w" where
  "mark_order_ack_unknown m w order_id broker_message now =
    transition_order_status m w
      ((transition_defaults order_id ACK_UNKNOWN)
        \<lparr>tn_broker_message := broker_message,
         tn_broker_order_state := Some ''ACK_UNKNOWN'',
         tn_outbox_status := Some ''BROKER_ACK_UNKNOWN''\<rparr>) now"

definition update_order_status :: "'w order_manager \<Rightarrow> 'w \<Rightarrow> str \<Rightarrow> order_status \<Rightarrow> rat \<Rightarrow> rat
    \<Rightarrow> str \<Rightarrow> str \<Rightarrow> bool res \<times> 'w" where
  "update_order_status m w order_id new_status filled_quantity average_price broker_message now =
    transition_order_status m w
      ((transition_defaults order_id new_status)
        \<lparr>tn_filled_quantity := filled_quantity,
         tn_average_price := average_price,
         tn_broker_message := broker_message\<rparr>) now"

section \<open>Protection\<close>

definition protection_updates :: "str \<Rightarrow> str \<Rightarrow> str \<Rightarrow> str \<Rightarrow> upd list" where
  "protection_updates reason flatten_order_id flatten_broker_order_id now =
    [SetTo ''protection_status'' (S ''PROTECTION_FAILED''),
     SetTo ''protection_failed_at'' (S now),
     SetTo ''protection_failure_reason'' (S (take 1000 reason)),
     SetTo ''updated_at'' (S now)]
    @ (if flatten_order_id \<noteq> []
       then [SetTo ''emergency_flatten_order_id'' (S flatten_order_id)] else [])
    @ (if flatten_broker_order_id \<noteq> []
       then [SetTo ''emergency_flatten_broker_order_id'' (S flatten_broker_order_id)] else [])"

definition mark_protection_failed :: "'w order_manager \<Rightarrow> 'w \<Rightarrow> str \<Rightarrow> str \<Rightarrow> str \<Rightarrow> str \<Rightarrow> str
    \<Rightarrow> unit res \<times> 'w" where
  "mark_protection_failed m w parent_order_id reason flatten_order_id flatten_broker_order_id now =
    (case om_dynamo m of
       None \<Rightarrow> (Inr (), w)
     | Some D \<Rightarrow>
        (case dy_update D w (om_orders_table m) (order_key parent_order_id)
            (protection_updates reason flatten_order_id flatten_broker_order_id now) NoCond of
           (r, w) \<Rightarrow> (map_sum id (\<lambda>_. ()) r, w)))"

definition link_protective_child :: "'w order_manager \<Rightarrow> 'w \<Rightarrow> str \<Rightarrow> str \<Rightarrow> str \<Rightarrow> str \<Rightarrow> rat \<Rightarrow> str
    \<Rightarrow> unit res \<times> 'w" where
  "link_protective_child m w parent_order_id child_order_id child_broker_order_id protective_type
     protected_quantity now =
    (case om_dynamo m of
       None \<Rightarrow> (Inr (), w)
     | Some D \<Rightarrow>
        (case dy_update D w (om_orders_table m) (order_key parent_order_id)
            [SetTo ''protective_stop_order_id'' (S child_order_id),
             SetTo ''protective_stop_broker_order_id'' (S child_broker_order_id),
             SetTo ''protective_type'' (S protective_type),
             SetPlus ''protected_quantity'' 0 protected_quantity,
             SetTo ''updated_at'' (S now)] NoCond of
           (r, w) \<Rightarrow> (map_sum id (\<lambda>_. ()) r, w)))"

section \<open>Fills\<close>

definition calculate_slippage :: "rat \<Rightarrow> rat \<Rightarrow> str \<Rightarrow> rat" where
  "calculate_slippage signal_price fill_price side =
    (if signal_price = 0 then 0
     else if side = ''BUY'' then fill_price - signal_price else signal_price - fill_price)"

text \<open>
  \<open>_write_nav_snapshot\<close> never raises; a failed read or write leaves the row to its old value.
\<close>

definition write_nav_snapshot :: "'w order_manager \<Rightarrow> 'w \<Rightarrow> order_side \<Rightarrow> rat \<Rightarrow> rat \<Rightarrow> str \<Rightarrow> 'w" where
  "write_nav_snapshot m w side filled_quantity avg_fill_price now =
    (case om_dynamo m of
       None \<Rightarrow> w
     | Some D \<Rightarrow>
        if om_risk_state_table m = [] then w
        else
          (let fill_value = filled_quantity * avg_fill_price;
               cash_delta = (if side = SELL then fill_value else - fill_value)
           in case dy_get D w (om_risk_state_table m) nav_key of
                (Inl _, w) \<Rightarrow> w
              | (Inr existing, w) \<Rightarrow>
                 (let old_cash = num_attr (read_row existing) ''realized_cash_flow'' 0;
                      new_cash = old_cash + cash_delta;
                      portfolio_value = om_portfolio_value m + new_cash
                  in snd (dy_update D w (om_risk_state_table m) nav_key
                       [SetTo ''last_fill_at'' (S now), SetTo ''updated_at'' (S now),
                        SetTo ''realized_cash_flow'' (N new_cash),
                        SetTo ''portfolio_value'' (N portfolio_value)] NoCond))))"

text \<open>
  The attempts of \<open>apply_fill_to_position\<close>, one per clock reading in the list.
\<close>

fun fill_attempts :: "'w dynamo \<Rightarrow> str \<Rightarrow> str \<Rightarrow> bool \<Rightarrow> fill \<Rightarrow> str list \<Rightarrow> 'w \<Rightarrow> unit res \<times> 'w" where
  "fill_attempts D tbl symbol nse f [] w = (Inr (), w)"
| "fill_attempts D tbl symbol nse f (now # later) w =
    (case dy_get D w tbl (position_key symbol) of
       (Inl e, w) \<Rightarrow> (Inl e, w)
     | (Inr row, w) \<Rightarrow>
        (let item = read_row row;
             p = fill_position (read_position item) f
         in case dy_update D w tbl (position_key symbol)
                (fill_updates symbol nse now p (fl_last f)) (fill_condition item) of
              (Inr _, w) \<Rightarrow> (Inr (), w)
            | (Inl ConditionalCheckFailed, w) \<Rightarrow>
                if later \<noteq> [] then fill_attempts D tbl symbol nse f later w
                else (Inl ConditionalCheckFailed, w)
            | (Inl e, w) \<Rightarrow> (Inl e, w)))"

definition apply_fill_to_position :: "'w order_manager \<Rightarrow> 'w \<Rightarrow> str \<Rightarrow> fill \<Rightarrow> str option
    \<Rightarrow> str \<times> str \<times> str \<Rightarrow> str \<Rightarrow> bool \<times> 'w" where
  "apply_fill_to_position m w symbol f market_str attempt_times nav_now =
    (case om_dynamo m of
       None \<Rightarrow> (True, w)
     | Some D \<Rightarrow>
        (case attempt_times of (t1, t2, t3) \<Rightarrow>
           (case fill_attempts D (om_positions_table m) symbol (market_str = Some ''NSE'') f
                   [t1, t2, t3] w of
              (Inl _, w) \<Rightarrow> (False, w)
            | (Inr _, w) \<Rightarrow>
                (True, write_nav_snapshot m w (fl_side f) (fl_qty f) (fl_price f) nav_now))))"

definition exit_policy_updates :: "str \<Rightarrow> rat option \<Rightarrow> rat option \<Rightarrow> upd list" where
  "exit_policy_updates pid stop_price take_profit =
    [SetTo ''exit_state'' (S ''EXIT_POLICY_ATTACHED''), SetTo ''exit_policy_id'' (S pid)]
    @ (case stop_price of Some x \<Rightarrow> if 0 < x then [SetTo ''stop_price'' (N x)] else [] | None \<Rightarrow> [])
    @ (case take_profit of Some x \<Rightarrow> if 0 < x then [SetTo ''take_profit'' (N x)] else []
       | None \<Rightarrow> [])"

definition attach_exit_policy :: "'w order_manager \<Rightarrow> 'w \<Rightarrow> str \<Rightarrow> rat option \<Rightarrow> rat option
    \<Rightarrow> str option \<Rightarrow> str \<Rightarrow> bool \<times> 'w" where
  "attach_exit_policy m w symbol stop_price take_profit policy_id now =
    (case om_dynamo m of
       None \<Rightarrow> (True, w)
     | Some D \<Rightarrow>
        (let pid = str_or policy_id (''POLICY-'' @ symbol @ ''-'' @ now)
         in case dy_update D w (om_positions_table m) (position_key symbol)
                (exit_policy_updates pid stop_price take_profit) NoCond of
              (Inr _, w) \<Rightarrow> (True, w)
            | (Inl _, w) \<Rightarrow> (False, w)))"

end
