(* ===== verification/OrderSafety.thy ===== *)
theory OrderSafety
  imports OrderManager
begin

text \<open>
  Properties of \<open>OrderManager\<close>: no call moves an order backwards in its lifecycle, whatever
  other legal clients do meanwhile, and a signal is accepted for execution at most once.
\<close>

section \<open>Calls as events\<close>

text \<open>One call of an operation that writes, with its arguments and clock readings.\<close>

datatype om_call =
    CallSubmit order_request str str
  | CallSubmitChild order_request str str str
  | CallUpdateStatus order_status_update str
  | CallRecordOrder order_response str
  | CallAckUnknown str str str
  | CallUpdateOrderStatus str order_status rat rat str str
  | CallProtectionFailed str str str str str
  | CallLinkChild str str str str rat str
  | CallApplyFill str fill "str option" "str \<times> str \<times> str" str
  | CallAttachExitPolicy str "rat option" "rat option" "str option" str

fun om_step :: "'w order_manager \<Rightarrow> 'w \<Rightarrow> om_call \<Rightarrow> 'w" where
  "om_step m w (CallSubmit q t1 t2) = snd (snd (submit_order m w q t1 t2))"
| "om_step m w (CallSubmitChild q p ty t) = snd (snd (submit_child_order m w q p ty t))"
| "om_step m w (CallUpdateStatus u t) = snd (update_status m w u t)"
| "om_step m w (CallRecordOrder r t) = snd (record_order m w r t)"
| "om_step m w (CallAckUnknown oid msg t) = snd (mark_order_ack_unknown m w oid msg t)"
| "om_step m w (CallUpdateOrderStatus oid st q p msg t) =
     snd (update_order_status m w oid st q p msg t)"
| "om_step m w (CallProtectionFailed oid r f b t) = snd (mark_protection_failed m w oid r f b t)"
| "om_step m w (CallLinkChild p c b ty q t) = snd (link_protective_child m w p c b ty q t)"
| "om_step m w (CallApplyFill sy f mk ts t) = snd (apply_fill_to_position m w sy f mk ts t)"
| "om_step m w (CallAttachExitPolicy sy sp tp pid t) =
     snd (attach_exit_policy m w sy sp tp pid t)"

section \<open>The lifecycle order on tables\<close>

definition row_status :: "item option \<Rightarrow> order_status option" where
  "row_status r = (case r of None \<Rightarrow> None
     | Some i \<Rightarrow> order_status_of (str_attr i ''order_status'' ''PENDING''))"

definition status_le :: "order_status option \<Rightarrow> order_status option \<Rightarrow> bool" where
  "status_le a b \<longleftrightarrow>
    (case a of None \<Rightarrow> True
     | Some s \<Rightarrow> (case b of None \<Rightarrow> False | Some s' \<Rightarrow> is_valid_status_transition s s'))"

text \<open>Every order's status in \<open>t'\<close> is its status in \<open>t\<close> or one the table of transitions allows.\<close>

definition orders_le :: "str \<Rightarrow> tables \<Rightarrow> tables \<Rightarrow> bool" where
  "orders_le T t t' \<longleftrightarrow>
    (\<forall>oid. status_le (row_status (t T (order_key oid))) (row_status (t' T (order_key oid))))"

lemma status_le_refl [simp]: "status_le a a"
  by (simp add: status_le_def split: option.splits)

lemma status_le_trans: "status_le a b \<Longrightarrow> status_le b c \<Longrightarrow> status_le a c"
  by (auto simp: status_le_def split: option.splits intro: valid_trans)

lemma status_le_None [simp]: "status_le None b"
  by (simp add: status_le_def)

lemma orders_le_refl [simp]: "orders_le T t t"
  by (simp add: orders_le_def)

lemma orders_le_trans: "orders_le T t u \<Longrightarrow> orders_le T u v \<Longrightarrow> orders_le T t v"
  by (auto simp: orders_le_def intro: status_le_trans)

lemma orders_le_put:
  assumes "\<And>oid. tbl = T \<Longrightarrow> k = order_key oid \<Longrightarrow>
    status_le (row_status (t tbl k)) (row_status (Some i))"
  shows "orders_le T t (tables_put t tbl k i)"
  using assms by (auto simp: orders_le_def tables_put_apply)

lemma row_status_updated_other:
  assumes "''order_status'' \<notin> upd_attr ` set us"
  shows "status_le (row_status r) (row_status (Some (updated_row k us r)))"
  using updated_row_frame [OF assms] by (cases r) (simp_all add: row_status_def str_attr_def)

lemma row_status_cond:
  "cond_holds (AttrEq ''order_status'' (S (order_status_value prev))) k r
    \<Longrightarrow> row_status r = Some prev"
  by (cases r) (simp_all add: row_status_def str_attr_def)

lemma order_status_not_opt [simp]: "SetTo ''order_status'' v \<notin> set (opt_set a x) \<or> a = ''order_status''"
  by (cases x) auto

lemma upd_attr_opt_set: "upd_attr ` set (opt_set a x) \<subseteq> {a}"
  by (cases x) auto

lemma row_status_transition:
  "row_status (Some (updated_row k (transition_updates a now) r)) = Some (tn_new_status a)"
proof -
  let ?us = "opt_set ''broker_order_id'' (tn_broker_order_id a)
    @ opt_set ''broker_order_state'' (tn_broker_order_state a)
    @ opt_set ''outbox_status'' (tn_outbox_status a)
    @ (if tn_broker_submitted a then [SetTo ''broker_submitted_at'' (S now)] else [])"
  have "''order_status'' \<notin> upd_attr ` set ?us"
    using upd_attr_opt_set by fastforce
  then have "updated_row k (transition_updates a now) r ''order_status''
      = Some (S (order_status_value (tn_new_status a)))"
    using foldl_apply_upd_other [of "''order_status''" ?us]
    by (simp add: updated_row_def transition_updates_def del: foldl_append)
  then show ?thesis by (simp add: row_status_def str_attr_def)
qed

section \<open>Every call keeps the order\<close>

text \<open>
  The client behaves as documented, and the other clients of the tables (services that go through
  the same transition table) move no order backwards.
\<close>

definition lawful_orders_env :: "(tables \<Rightarrow> tables \<Rightarrow> bool) \<Rightarrow> str \<Rightarrow> 'w dynamo \<Rightarrow> bool" where
  "lawful_orders_env R T D \<longleftrightarrow> dynamo_ok R D \<and> (\<forall>t t'. R t t' \<longrightarrow> orders_le T t t')"

lemma put_orders_le:
  assumes "lawful_orders_env R T D" "dy_put D w tbl k i (NotExists ''PK'') = (r, w')"
  shows "orders_le T (dy_tables D w) (dy_tables D w')"
proof (rule commits_le [where Q = "orders_le T"])
  show "commits R (dy_tables D w) (dy_tables D w') r
      (\<lambda>t. cond_holds (NotExists ''PK'') k (t tbl k)) (\<lambda>t. tables_put t tbl k i)"
    by (rule dynamo_ok_put [OF _ assms(2)]) (use assms(1) in \<open>simp add: lawful_orders_env_def\<close>)
qed (use assms(1) in \<open>auto simp: lawful_orders_env_def row_status_def
    intro: orders_le_trans orders_le_put\<close>)

lemma update_orders_le:
  assumes "lawful_orders_env R T D" "dy_update D w tbl k us c = (r, w')"
    and own: "\<And>row. cond_holds c k row \<Longrightarrow>
      status_le (row_status row) (row_status (Some (updated_row k us row)))"
  shows "orders_le T (dy_tables D w) (dy_tables D w')"
proof (rule commits_le [where Q = "orders_le T"])
  show "commits R (dy_tables D w) (dy_tables D w') r (\<lambda>t. cond_holds c k (t tbl k))
      (\<lambda>t. tables_put t tbl k (updated_row k us (t tbl k)))"
    by (rule dynamo_ok_update [OF _ assms(2)]) (use assms(1) in \<open>simp add: lawful_orders_env_def\<close>)
  show "orders_le T t (tables_put t tbl k (updated_row k us (t tbl k)))"
    if "cond_holds c k (t tbl k)" for t
    using own [OF that] by (auto intro: orders_le_put)
qed (use assms(1) in \<open>auto simp: lawful_orders_env_def intro: orders_le_trans\<close>)

lemma update_other_orders_le:
  assumes "lawful_orders_env R T D" "dy_update D w tbl k us c = (r, w')"
    and "''order_status'' \<notin> upd_attr ` set us"
  shows "orders_le T (dy_tables D w) (dy_tables D w')"
  using assms(1,2) by (rule update_orders_le) (rule row_status_updated_other [OF assms(3)])

lemma update_snd_le:
  assumes "lawful_orders_env R T D" "''order_status'' \<notin> upd_attr ` set us"
  shows "orders_le T (dy_tables D w) (dy_tables D (snd (dy_update D w tbl k us c)))"
  by (rule update_other_orders_le [OF assms(1) surjective_pairing assms(2)])

lemma get_orders_le:
  assumes "lawful_orders_env R T D" "dy_get D w tbl k = (r, w')"
  shows "orders_le T (dy_tables D w) (dy_tables D w')"
  using assms by (auto simp: lawful_orders_env_def intro: dynamo_ok_get)

lemma get_order_le:
  assumes "lawful_orders_env R T D" "om_dynamo m = Some D" "get_order m w oid = (r, w')"
  shows "orders_le T (dy_tables D w) (dy_tables D w')"
  using assms(2,3)
  by (auto simp: get_order_def split: prod.splits sum.splits intro: get_orders_le [OF assms(1)])

lemma get_stored_order_le:
  assumes "lawful_orders_env R T D" "om_dynamo m = Some D" "get_stored_order m w oid = (r, w')"
  shows "orders_le T (dy_tables D w) (dy_tables D w')"
  using assms(3)
  by (auto simp: get_stored_order_def split: prod.splits option.splits
      intro: get_order_le [OF assms(1,2)])

lemma previous_status_le:
  assumes "lawful_orders_env R T D" "om_dynamo m = Some D" "previous_status m w a = (r, w')"
  shows "orders_le T (dy_tables D w) (dy_tables D w')"
  using assms(2,3)
  by (auto simp: previous_status_def split: prod.splits option.splits
      intro: get_order_le [OF assms(1,2)])

lemma transition_update_le:
  assumes "lawful_orders_env R T D"
    and "dy_update D w T (order_key oid) (transition_updates a now)
      (AttrEq ''order_status'' (S (order_status_value prev))) = (r, w')"
    and "is_valid_status_transition prev (tn_new_status a)"
  shows "orders_le T (dy_tables D w) (dy_tables D w')"
  using assms(1,2) by (rule update_orders_le)
    (simp only: row_status_cond row_status_transition status_le_def option.case assms(3))

lemma transition_order_status_le:
  assumes env: "lawful_orders_env R (om_orders_table m) D" and D: "om_dynamo m = Some D"
    and run: "transition_order_status m w a now = (r, w')"
  shows "orders_le (om_orders_table m) (dy_tables D w) (dy_tables D w')"
proof -
  obtain prev w1 where p: "previous_status m w a = (prev, w1)" by force
  note le1 = previous_status_le [OF env D p]
  show ?thesis
  proof (cases "\<exists>st. prev = Some st \<and> is_valid_status_transition st (tn_new_status a)")
    case False
    then have "w' = w1"
      using run p by (auto simp: transition_order_status_def split: option.splits if_splits)
    with le1 show ?thesis by simp
  next
    case True
    then obtain st where st: "prev = Some st" "is_valid_status_transition st (tn_new_status a)"
      by blast
    obtain u w2 where u: "dy_update D w1 (om_orders_table m) (order_key (tn_order_id a))
        (transition_updates a now) (AttrEq ''order_status'' (S (order_status_value st))) = (u, w2)"
      by force
    have "w' = w2 \<or> (\<exists>x. get_stored_order m w2 (tn_order_id a) = (x, w'))"
      using run p st u D
      by (auto simp: transition_order_status_def split: sum.splits exn.splits prod.splits
          option.splits)
    then have "orders_le (om_orders_table m) (dy_tables D w2) (dy_tables D w')"
      using get_stored_order_le [OF env D] by auto
    with le1 transition_update_le [OF env u st(2)] show ?thesis
      by (blast intro: orders_le_trans)
  qed
qed

lemma transact_orders_le:
  assumes env: "lawful_orders_env R T D"
    and "dy_transact D w [(T, k1, i1, NotExists ''PK''), (T, k2, i2, NotExists ''PK'')] = (r, w')"
  shows "orders_le T (dy_tables D w) (dy_tables D w')"
proof (rule commits_le [where Q = "orders_le T"])
  let ?ps = "[(T, k1, i1, NotExists ''PK''), (T, k2, i2, NotExists ''PK'')]"
  show "commits R (dy_tables D w) (dy_tables D w') r (tputs_hold ?ps) (tputs_apply ?ps)"
    by (rule dynamo_ok_transact [OF _ assms(2)]) (use env in \<open>simp add: lawful_orders_env_def\<close>)
  show "orders_le T t (tputs_apply ?ps t)" if "tputs_hold ?ps t" for t
    using that by (auto simp: orders_le_def tables_put_apply row_status_def)
qed (use env in \<open>auto simp: lawful_orders_env_def intro: orders_le_trans\<close>)

lemma submit_order_le:
  assumes "lawful_orders_env R (om_orders_table m) D" "om_dynamo m = Some D"
  shows "orders_le (om_orders_table m) (dy_tables D w)
    (dy_tables D (snd (snd (submit_order m w q t1 t2))))"
  using assms(2)
  by (auto simp: submit_order_def Let_def split: sum.splits prod.splits exn.splits
      intro: transact_orders_le [OF assms(1)])

lemma submit_child_order_le:
  assumes "lawful_orders_env R (om_orders_table m) D" "om_dynamo m = Some D"
  shows "orders_le (om_orders_table m) (dy_tables D w)
    (dy_tables D (snd (snd (submit_child_order m w q p ty t))))"
  using assms(2)
  by (auto simp: submit_child_order_def Let_def split: sum.splits prod.splits exn.splits
      intro: put_orders_le [OF assms(1)])

lemma update_frames:
  "''order_status'' \<notin> upd_attr ` set (protection_updates r f b t)"
  "''order_status'' \<notin> upd_attr ` set (exit_policy_updates pid sp tp)"
  by (auto simp: protection_updates_def exit_policy_updates_def split: option.splits)

lemma protection_le:
  assumes "lawful_orders_env R (om_orders_table m) D" "om_dynamo m = Some D"
  shows "orders_le (om_orders_table m) (dy_tables D w)
      (dy_tables D (snd (mark_protection_failed m w oid r f b t)))"
    and "orders_le (om_orders_table m) (dy_tables D w)
      (dy_tables D (snd (link_protective_child m w oid c bc ty q t)))"
  using assms(2)
  by (simp_all add: mark_protection_failed_def link_protective_child_def case_prod_beta
      update_snd_le [OF assms(1)] update_frames)

lemma fill_updates_frame: "''order_status'' \<notin> upd_attr ` set (fill_updates symbol nse now p lp)"
  by (auto simp: fill_updates_def)

lemma fill_attempts_le:
  assumes env: "lawful_orders_env R T D"
  shows "orders_le T (dy_tables D w) (dy_tables D (snd (fill_attempts D tbl symbol nse f ts w)))"
proof (induction ts arbitrary: w)
  case Nil
  then show ?case by simp
next
  case (Cons now later)
  obtain g w1 where g: "dy_get D w tbl (position_key symbol) = (g, w1)" by force
  note le1 = get_orders_le [OF env g]
  show ?case
  proof (cases g)
    case (Inl e)
    then show ?thesis using g le1 by simp
  next
    case (Inr row)
    obtain u w2 where u: "dy_update D w1 tbl (position_key symbol)
        (fill_updates symbol nse now (fill_position (read_position (read_row row)) f) (fl_last f))
        (fill_condition (read_row row)) = (u, w2)"
      by force
    have "orders_le T (dy_tables D w) (dy_tables D w2)"
      using le1 update_other_orders_le [OF env u fill_updates_frame] by (rule orders_le_trans)
    with Cons.IH [of w2] show ?thesis
      using g Inr u
      by (auto simp: Let_def split: sum.splits exn.splits intro: orders_le_trans)
  qed
qed

lemma write_nav_snapshot_le:
  assumes "lawful_orders_env R T D" "om_dynamo m = Some D"
  shows "orders_le T (dy_tables D w) (dy_tables D (write_nav_snapshot m w sd q p now))"
proof -
  obtain g w1 where g: "dy_get D w (om_risk_state_table m) nav_key = (g, w1)" by force
  note le1 = get_orders_le [OF assms(1) g]
  have "orders_le T (dy_tables D w1) (dy_tables D (snd (dy_update D w1 (om_risk_state_table m) nav_key
      [SetTo ''last_fill_at'' (S now), SetTo ''updated_at'' (S now),
       SetTo ''realized_cash_flow'' (N x), SetTo ''portfolio_value'' (N y)] NoCond)))" for x y
    by (rule update_snd_le [OF assms(1)]) simp
  with le1 g assms(2) show ?thesis
    by (auto simp: write_nav_snapshot_def Let_def split: sum.splits intro: orders_le_trans)
qed

lemma apply_fill_le:
  assumes "lawful_orders_env R T D" "om_dynamo m = Some D"
  shows "orders_le T (dy_tables D w) (dy_tables D (snd (apply_fill_to_position m w sy f mk ts now)))"
proof -
  obtain t1 t2 t3 where ts: "ts = (t1, t2, t3)" by (cases ts)
  obtain r w1 where r: "fill_attempts D (om_positions_table m) sy (mk = Some ''NSE'') f
      [t1, t2, t3] w = (r, w1)" by force
  have "orders_le T (dy_tables D w) (dy_tables D w1)"
    using fill_attempts_le [OF assms(1), of w "om_positions_table m"] r by (metis snd_conv)
  moreover have "snd (apply_fill_to_position m w sy f mk ts now)
      \<in> {w1, write_nav_snapshot m w1 (fl_side f) (fl_qty f) (fl_price f) now}"
    using assms(2) r ts by (simp add: apply_fill_to_position_def del: fill_attempts.simps split: sum.splits)
  ultimately show ?thesis
    using write_nav_snapshot_le [OF assms] by (auto intro: orders_le_trans)
qed

lemma attach_exit_policy_le:
  assumes "lawful_orders_env R T D" "om_dynamo m = Some D"
  shows "orders_le T (dy_tables D w) (dy_tables D (snd (attach_exit_policy m w sy sp tp pid now)))"
  using assms(2) update_snd_le [OF assms(1) update_frames(2)]
  by (simp add: attach_exit_policy_def Let_def case_prod_beta split: sum.splits)

lemma om_step_le:
  assumes env: "lawful_orders_env R (om_orders_table m) D" and D: "om_dynamo m = Some D"
  shows "orders_le (om_orders_table m) (dy_tables D w) (dy_tables D (om_step m w c))"
proof -
  have tr: "orders_le (om_orders_table m) (dy_tables D w)
      (dy_tables D (snd (transition_order_status m w a now)))" for a now
    by (rule transition_order_status_le [OF env D]) (rule surjective_pairing)
  have "snd (record_order m w rsp t) = snd (transition_order_status m w
      ((transition_defaults (op_order_id rsp) (op_status rsp))
        \<lparr>tn_filled_quantity := op_filled_quantity rsp, tn_average_price := op_avg_fill_price rsp,
         tn_broker_message := op_broker_message rsp, tn_broker_order_id := Some (op_broker_order_id rsp),
         tn_broker_order_state := Some ''SUBMITTED'', tn_outbox_status := Some ''BROKER_ACKED'',
         tn_broker_submitted := True\<rparr>) t)" for rsp t
    using D by (simp add: record_order_def split: prod.splits sum.splits)
  then show ?thesis
    using tr submit_order_le [OF env D] submit_child_order_le [OF env D] protection_le [OF env D]
      apply_fill_le [OF env D] attach_exit_policy_le [OF env D]
    by (cases c) (simp_all add: update_status_def mark_order_ack_unknown_def
        update_order_status_def)
qed

lemma om_run_le:
  assumes env: "lawful_orders_env R (om_orders_table m) D" and D: "om_dynamo m = Some D"
  shows "orders_le (om_orders_table m) (dy_tables D w) (dy_tables D (foldl (om_step m) w cs))"
  by (induction cs arbitrary: w) (auto intro: orders_le_trans om_step_le [OF env D])

section \<open>A signal is accepted once\<close>

text \<open>No row of the orders table disappears; no service deletes from it.\<close>

definition rows_le :: "str \<Rightarrow> tables \<Rightarrow> tables \<Rightarrow> bool" where
  "rows_le T t t' \<longleftrightarrow> (\<forall>k. t T k \<noteq> None \<longrightarrow> t' T k \<noteq> None)"

lemma rows_leD: "rows_le T t t' \<Longrightarrow> t T k \<noteq> None \<Longrightarrow> t' T k \<noteq> None"
  unfolding rows_le_def by blast

definition keeps_rows_env :: "(tables \<Rightarrow> tables \<Rightarrow> bool) \<Rightarrow> str \<Rightarrow> 'w dynamo \<Rightarrow> bool" where
  "keeps_rows_env R T D \<longleftrightarrow> dynamo_ok R D \<and> (\<forall>t t'. R t t' \<longrightarrow> rows_le T t t')"

lemma submit_order_accepts:
  assumes "dynamo_ok R D" "om_dynamo m = Some D" "submit_order m w q t1 t2 = (Inr True, q', w')"
  obtains t idem where "R (dy_tables D w) t"
    "t (om_orders_table m) (order_key (oq_order_id q)) = None"
    "t (om_orders_table m) (signal_lock_key (oq_signal_id q)) = None"
    "q' = attach_broker_idempotency (om_lib m) q" "idempotency_attr q' = Inr idem"
    "R (tables_put (tables_put t (om_orders_table m) (order_key (oq_order_id q))
          (order_prices q' (order_item (om_lib m) q' idem t1)))
        (om_orders_table m) (signal_lock_key (oq_signal_id q)) (signal_lock_item q' t2))
      (dy_tables D w')"
proof -
  let ?q = "attach_broker_idempotency (om_lib m) q"
  have ids: "oq_order_id ?q = oq_order_id q" "oq_signal_id ?q = oq_signal_id q"
    by (simp_all add: attach_broker_idempotency_def)
  obtain idem where idem: "idempotency_attr ?q = Inr idem" "q' = ?q"
    and tr: "dy_transact D w
       [(om_orders_table m, order_key (oq_order_id q),
         order_prices ?q (order_item (om_lib m) ?q idem t1), NotExists ''PK''),
        (om_orders_table m, signal_lock_key (oq_signal_id q), signal_lock_item ?q t2,
         NotExists ''PK'')] = (Inr (), w')"
    using assms(2,3)
    by (auto simp: submit_order_def Let_def ids split: sum.splits prod.splits exn.splits)
  from dynamo_ok_transact [OF assms(1) tr] show ?thesis
    by (rule commits_InrE) (rule that [OF _ _ _ idem(2)], use idem in auto)
qed

lemma second_submit_refused:
  assumes env: "keeps_rows_env R (om_orders_table m) D" and D: "om_dynamo m = Some D"
    and first: "submit_order m w q t1 t2 = (Inr True, q', w1)"
    and later: "rows_le (om_orders_table m) (dy_tables D w1) (dy_tables D w2)"
    and same: "oq_signal_id p = oq_signal_id q \<or> oq_order_id p = oq_order_id q"
  shows "fst (submit_order m w2 p t3 t4) \<noteq> Inr True"
proof
  assume "fst (submit_order m w2 p t3 t4) = Inr True"
  then obtain p' w3 where second: "submit_order m w2 p t3 t4 = (Inr True, p', w3)"
    by (metis fst_conv surj_pair)
  have ok: "dynamo_ok R D" and le: "R t t' \<Longrightarrow> rows_le (om_orders_table m) t t'" for t t'
    using env by (simp_all add: keeps_rows_env_def)
  obtain t idem where "R (tables_put (tables_put t (om_orders_table m) (order_key (oq_order_id q))
          (order_prices q' (order_item (om_lib m) q' idem t1)))
        (om_orders_table m) (signal_lock_key (oq_signal_id q)) (signal_lock_item q' t2))
      (dy_tables D w1)"
    by (rule submit_order_accepts [OF ok D first])
  note kept = rows_leD [OF later rows_leD [OF le [OF this]]]
  have stay: "dy_tables D w2 (om_orders_table m) (order_key (oq_order_id q)) \<noteq> None"
    "dy_tables D w2 (om_orders_table m) (signal_lock_key (oq_signal_id q)) \<noteq> None"
    by (rule kept; simp add: tables_put_apply)+
  obtain u where "R (dy_tables D w2) u"
    "u (om_orders_table m) (order_key (oq_order_id p)) = None"
    "u (om_orders_table m) (signal_lock_key (oq_signal_id p)) = None"
    by (rule submit_order_accepts [OF ok D second])
  with stay same show False
    using rows_leD [OF le] by metis
qed

section \<open>A stored order reads back\<close>

text \<open>
  After a crash the startup reconciliation rebuilds the order from its row: every parameter of the
  request is recovered.
\<close>

definition stored_matches :: "pylib \<Rightarrow> order_request \<Rightarrow> stored_order \<Rightarrow> bool" where
  "stored_matches L q so \<longleftrightarrow>
    op_order_id so = oq_order_id q \<and> op_status so = PENDING \<and> op_symbol so = oq_symbol q \<and>
    op_market so = oq_market q \<and> op_filled_quantity so = 0 \<and>
    so_signal_id so = oq_signal_id q \<and> so_risk_decision_id so = oq_risk_decision_id q \<and>
    so_side so = oq_side q \<and> so_order_type so = oq_order_type q \<and>
    so_product_type so = oq_product_type q \<and> so_quantity so = oq_quantity q \<and>
    so_limit_price so = oq_limit_price q \<and> so_stop_price so = oq_stop_price q \<and>
    so_metadata so = oq_metadata q"

lemma order_prices_apply:
  "order_prices q i a =
    (if a = ''stop_price'' \<and> oq_stop_price q \<noteq> None then map_option N (oq_stop_price q)
     else if a = ''limit_price'' \<and> oq_limit_price q \<noteq> None then map_option N (oq_limit_price q)
     else i a)"
  by (cases "oq_stop_price q"; cases "oq_limit_price q") (simp_all add: order_prices_def)

lemma order_item_apply:
  "order_item L q idem now ''order_id'' = Some (S (oq_order_id q))"
  "order_item L q idem now ''signal_id'' = Some (S (oq_signal_id q))"
  "order_item L q idem now ''risk_decision_id'' = Some (S (oq_risk_decision_id q))"
  "order_item L q idem now ''symbol'' = Some (S (oq_symbol q))"
  "order_item L q idem now ''market'' = Some (S (market_value (oq_market q)))"
  "order_item L q idem now ''side'' = Some (S (order_side_value (oq_side q)))"
  "order_item L q idem now ''order_type'' = Some (S (order_type_value (oq_order_type q)))"
  "order_item L q idem now ''product_type'' = Some (S (product_type_value (oq_product_type q)))"
  "order_item L q idem now ''quantity'' = Some (N (oq_quantity q))"
  "order_item L q idem now ''order_status'' = Some (S ''PENDING'')"
  "order_item L q idem now ''filled_quantity'' = Some (N 0)"
  "order_item L q idem now ''avg_fill_price'' = Some (N 0)"
  "order_item L q idem now ''metadata'' = Some (S (py_dumps L (oq_metadata q)))"
  "order_item L q idem now ''limit_price'' = None"
  "order_item L q idem now ''stop_price'' = None"
  by (simp_all add: order_item_def order_key_def)

lemma status_of_pending [simp]: "order_status_of ''PENDING'' = Some PENDING"
  using status_enum.of_val [of PENDING] by simp

lemma order_row_reads_back:
  assumes "0 \<le> oq_quantity q" "py_loads L (py_dumps L (oq_metadata q)) = Some (JObj (oq_metadata q))"
  shows "\<exists>so. unmarshal_item L (order_prices q (order_item L q idem now)) = Inr so
    \<and> stored_matches L q so"
  using assms
  by (simp add: unmarshal_item_def attr_readers order_prices_apply order_item_apply load_metadata_def
      stored_matches_def split: option.splits)

section \<open>An applied fill was committed\<close>

lemma fill_attempts_commits:
  assumes ok: "dynamo_ok R D"
  shows "ts \<noteq> [] \<Longrightarrow> fill_attempts D tbl symbol nse f ts w = (Inr (), w') \<Longrightarrow>
    \<exists>v row v1 now t.
      dy_get D v tbl (position_key symbol) = (Inr row, v1) \<and>
      R (dy_tables D v1) t \<and> cond_holds (fill_condition (read_row row)) (position_key symbol)
        (t tbl (position_key symbol)) \<and>
      R (tables_put t tbl (position_key symbol) (updated_row (position_key symbol)
          (fill_updates symbol nse now (fill_position (read_position (read_row row)) f) (fl_last f))
          (t tbl (position_key symbol)))) (dy_tables D w')"
proof (induction ts arbitrary: w)
  case (Cons now later)
  obtain row w1 where g: "dy_get D w tbl (position_key symbol) = (Inr row, w1)"
    using Cons.prems(2) by (auto split: prod.splits sum.splits)
  let ?us = "fill_updates symbol nse now (fill_position (read_position (read_row row)) f) (fl_last f)"
  obtain u w2 where u: "dy_update D w1 tbl (position_key symbol) ?us (fill_condition (read_row row))
      = (u, w2)" by force
  show ?case
  proof (cases u)
    case (Inr x)
    then have "w2 = w'"
      using Cons.prems(2) g u by (simp add: Let_def)
    with dynamo_ok_update [OF ok u] Inr obtain t where "R (dy_tables D w1) t"
      "cond_holds (fill_condition (read_row row)) (position_key symbol) (t tbl (position_key symbol))"
      "R (tables_put t tbl (position_key symbol) (updated_row (position_key symbol) ?us
        (t tbl (position_key symbol)))) (dy_tables D w')"
      by (auto elim: commits_InrE)
    with g show ?thesis
      by (intro exI [of _ w] exI [of _ row] exI [of _ w1] exI [of _ now] exI [of _ t] conjI)
  next
    case (Inl e)
    then have "later \<noteq> []" "fill_attempts D tbl symbol nse f later w2 = (Inr (), w')"
      using Cons.prems(2) g u by (auto simp: Let_def split: exn.splits if_splits)
    then show ?thesis by (rule Cons.IH)
  qed
qed simp

lemma apply_fill_commits:
  assumes "dynamo_ok R D" "om_dynamo m = Some D"
    and "apply_fill_to_position m w symbol f mk tms nav_now = (True, w')"
  shows "\<exists>v row v1 now t w1.
      dy_get D v (om_positions_table m) (position_key symbol) = (Inr row, v1) \<and>
      R (dy_tables D v1) t \<and> cond_holds (fill_condition (read_row row)) (position_key symbol)
        (t (om_positions_table m) (position_key symbol)) \<and>
      R (tables_put t (om_positions_table m) (position_key symbol) (updated_row (position_key symbol)
          (fill_updates symbol (mk = Some ''NSE'') now
            (fill_position (read_position (read_row row)) f) (fl_last f))
          (t (om_positions_table m) (position_key symbol)))) (dy_tables D w1) \<and>
      w' = write_nav_snapshot m w1 (fl_side f) (fl_qty f) (fl_price f) nav_now"
proof -
  obtain t1 t2 t3 where ts: "tms = (t1, t2, t3)" by (cases tms)
  obtain w1 where w1: "fill_attempts D (om_positions_table m) symbol (mk = Some ''NSE'') f
      [t1, t2, t3] w = (Inr (), w1)"
    and w': "w' = write_nav_snapshot m w1 (fl_side f) (fl_qty f) (fl_price f) nav_now"
    using assms(2,3) ts
    by (auto simp: apply_fill_to_position_def simp del: fill_attempts.simps
        split: prod.splits sum.splits)
  from fill_attempts_commits [OF assms(1) _ w1] w' show ?thesis by fast
qed

section \<open>Properties\<close>

text \<open>A manager over the in-memory client, for the witnesses.\<close>

definition demo_lib :: pylib where
  "demo_lib = \<lparr>py_sha256_hex = (\<lambda>s. replicate 64 (CHR ''0'')), py_dumps = (\<lambda>m. ''{}''),
    py_loads = (\<lambda>s. Some (JObj []))\<rparr>"

definition demo_manager :: "mem order_manager" where
  "demo_manager = \<lparr>om_dynamo = Some mem_dynamo, om_orders_table = ''orders'',
    om_positions_table = ''positions'', om_risk_state_table = ''risk'', om_portfolio_value = 1000000,
    om_lib = demo_lib\<rparr>"

definition demo_order :: "str \<Rightarrow> str \<Rightarrow> order_request" where
  "demo_order order_id signal_id =
    \<lparr>oq_order_id = order_id, oq_signal_id = signal_id, oq_risk_decision_id = ''R1'',
     oq_symbol = ''INFY'', oq_market = NSE, oq_side = BUY, oq_order_type = LIMIT, oq_quantity = 10,
     oq_limit_price = Some 1500, oq_stop_price = None, oq_product_type = MIS,
     oq_extended_hours = False, oq_time_in_force = ''DAY'',
     oq_created_at = \<lparr>dt_iso = ''t0'', dt_date = ''d0''\<rparr>, oq_metadata = []\<rparr>"

lemma demo_manager_simps [simp]:
  "om_dynamo demo_manager = Some mem_dynamo" "om_orders_table demo_manager = ''orders''"
  "om_positions_table demo_manager = ''positions''" "om_lib demo_manager = demo_lib"
  by (simp_all add: demo_manager_def)

lemma mem_lawful: "lawful_orders_env (=) T mem_dynamo" "keeps_rows_env (=) T mem_dynamo"
  by (simp_all add: lawful_orders_env_def keeps_rows_env_def mem_dynamo_ok rows_le_def)

text \<open>
  C1 Order lifecycle safety: whatever sequence of \<open>OrderManager\<close> calls runs, and whatever other
  lawful clients write in between and during the calls, every stored order's status afterwards is
  its status before or one reachable in the transition table; an order in a terminal status keeps it.
\<close>

theorem order_lifecycle_monotone:
  assumes "lawful_orders_env R (om_orders_table m) D" "om_dynamo m = Some D"
    and "row_status (dy_tables D w (om_orders_table m) (order_key oid)) = Some st"
  shows "\<exists>st'. row_status (dy_tables D (foldl (om_step m) w calls) (om_orders_table m) (order_key oid))
      = Some st' \<and> is_valid_status_transition st st' \<and> (terminal st \<longrightarrow> st' = st)"
proof -
  have "status_le (row_status (dy_tables D w (om_orders_table m) (order_key oid)))
      (row_status (dy_tables D (foldl (om_step m) w calls) (om_orders_table m) (order_key oid)))"
    using om_run_le [OF assms(1,2), of w calls] unfolding orders_le_def by blast
  then show ?thesis
    using assms(3) by (auto simp: status_le_def terminal_stuck split: option.splits)
qed

theorem order_lifecycle_monotone_witness:
  "row_status (mem_tables (foldl (om_step demo_manager)
      [((''orders'', order_key ''o1''), [''order_status'' \<mapsto> S ''FILLED''])]
      [CallUpdateOrderStatus ''o1'' PENDING 0 0 [] ''t1'', CallAckUnknown ''o1'' [] ''t2''])
      ''orders'' (order_key ''o1'')) = Some FILLED"
proof -
  let ?w = "[((''orders'', order_key ''o1''), [''order_status'' \<mapsto> S ''FILLED''])] :: mem"
  have "row_status (dy_tables mem_dynamo ?w (om_orders_table demo_manager) (order_key ''o1'')) = Some FILLED"
    using status_enum.of_val [of FILLED]
    by (simp add: mem_dynamo_def mem_tables_def row_status_def str_attr_def)
  from order_lifecycle_monotone [OF mem_lawful(1) _ this, of
      "[CallUpdateOrderStatus ''o1'' PENDING 0 0 [] ''t1'', CallAckUnknown ''o1'' [] ''t2'']"]
  show ?thesis
    by (simp add: terminal_def mem_dynamo_def del: om_step.simps)
qed

text \<open>
  C2 A signal is accepted once: after \<open>submit_order\<close> returned True, no later submission of the same
  signal (or of the same order id) by any worker returns True, whatever happened in between.
\<close>

theorem signal_accepted_once:
  assumes "keeps_rows_env R (om_orders_table m) D" "om_dynamo m = Some D"
    and "submit_order m w q t1 t2 = (Inr True, q', w1)"
    and "rows_le (om_orders_table m) (dy_tables D w1) (dy_tables D w2)"
    and "oq_signal_id p = oq_signal_id q \<or> oq_order_id p = oq_order_id q"
  shows "fst (submit_order m w2 p t3 t4) \<noteq> Inr True"
  using assms by (rule second_submit_refused)

lemma demo_submit: "\<exists>q' w1. submit_order demo_manager [] (demo_order ''o1'' ''s1'') ''t1'' ''t2'' = (Inr True, q', w1)"
  by (simp add: submit_order_def attach_broker_idempotency_def idempotency_attr_def demo_order_def
      mem_dynamo_def mem_transact_def mem_tables_def Let_def)

theorem signal_accepted_once_witness:
  "\<exists>q' w1. submit_order demo_manager [] (demo_order ''o1'' ''s1'') ''t1'' ''t2'' = (Inr True, q', w1) \<and>
     fst (submit_order demo_manager w1 (demo_order ''o2'' ''s1'') ''t3'' ''t4'') \<noteq> Inr True"
proof -
  obtain q' w1 where first: "submit_order demo_manager [] (demo_order ''o1'' ''s1'') ''t1'' ''t2'' = (Inr True, q', w1)"
    using demo_submit by blast
  have "fst (submit_order demo_manager w1 (demo_order ''o2'' ''s1'') ''t3'' ''t4'') \<noteq> Inr True"
    by (rule signal_accepted_once [OF mem_lawful(2) _ first])
      (simp_all add: rows_le_def demo_order_def)
  with first show ?thesis by blast
qed

text \<open>
  Crash recovery: the row \<open>submit_order\<close> writes decodes to a stored order with every parameter of
  the request (for a JSON codec that reads back what it wrote).
\<close>

theorem order_row_roundtrip:
  assumes "0 \<le> oq_quantity q" "py_loads L (py_dumps L (oq_metadata q)) = Some (JObj (oq_metadata q))"
  shows "\<exists>so. unmarshal_item L (order_prices q (order_item L q idem now)) = Inr so
    \<and> stored_matches L q so"
  using assms by (rule order_row_reads_back)

theorem order_row_roundtrip_witness:
  "\<exists>so. unmarshal_item demo_lib (order_prices (demo_order ''o1'' ''s1'')
      (order_item demo_lib (demo_order ''o1'' ''s1'') ''k'' ''t1'')) = Inr so
    \<and> so_limit_price so = Some 1500"
proof -
  have "\<exists>so. unmarshal_item demo_lib (order_prices (demo_order ''o1'' ''s1'')
      (order_item demo_lib (demo_order ''o1'' ''s1'') ''k'' ''t1'')) = Inr so
    \<and> stored_matches demo_lib (demo_order ''o1'' ''s1'') so"
    by (rule order_row_roundtrip) (simp_all add: demo_order_def demo_lib_def)
  then show ?thesis
    by (auto simp: stored_matches_def demo_order_def)
qed

text \<open>
  A fill reported as applied was committed: when \<open>apply_fill_to_position\<close> returns True over a
  client, there was a row read and an instant at which the stored row still had the version read,
  and the row was replaced there by the fill applied to the position read.
\<close>

theorem applied_fill_committed:
  assumes "dynamo_ok R D" "om_dynamo m = Some D"
    and "apply_fill_to_position m w symbol f mk tms nav_now = (True, w')"
  shows "\<exists>v row v1 now t w1.
      dy_get D v (om_positions_table m) (position_key symbol) = (Inr row, v1) \<and>
      R (dy_tables D v1) t \<and> cond_holds (fill_condition (read_row row)) (position_key symbol)
        (t (om_positions_table m) (position_key symbol)) \<and>
      R (tables_put t (om_positions_table m) (position_key symbol) (updated_row (position_key symbol)
          (fill_updates symbol (mk = Some ''NSE'') now
            (fill_position (read_position (read_row row)) f) (fl_last f))
          (t (om_positions_table m) (position_key symbol)))) (dy_tables D w1) \<and>
      w' = write_nav_snapshot m w1 (fl_side f) (fl_qty f) (fl_price f) nav_now"
  using assms by (rule apply_fill_commits)

theorem applied_fill_committed_witness:
  "\<exists>w1 w'. apply_fill_to_position demo_manager [] ''INFY'' (mk_fill BUY 5 100) None (''a'', ''b'', ''c'') ''d''
      = (True, w') \<and>
    w' = write_nav_snapshot demo_manager w1 BUY 5 100 ''d''"
proof -
  obtain w' where "apply_fill_to_position demo_manager [] ''INFY'' (mk_fill BUY 5 100) None
      (''a'', ''b'', ''c'') ''d'' = (True, w')"
    by (simp add: apply_fill_to_position_def mem_simps fill_condition_def str_attr_def Let_def)
  with applied_fill_committed [OF mem_dynamo_ok _ this] show ?thesis
    by (auto simp: mk_fill_def)
qed

end
