(* ===== verification/SafeActionModel.thy ===== *)
theory SafeActionModel
  imports QE_Prelude
begin

text \<open>
  \<open>services/execution_engine/safe_actions\<close>: the data model (\<open>safe_action_models.py\<close>), the
  mode-based policy (\<open>safe_action_policy.py\<close>) and the classifier of findings
  (\<open>safe_action_classifier.py\<close>).
\<close>

section \<open>Enumerations and records\<close>

datatype action_type =
    READ_RUNTIME_STATE | SEND_ALERT | RUN_RECONCILIATION | ATTACH_EXIT_POLICY_PAPER
  | REPAIR_PAPER_ZERO_QTY_OPEN | UPDATE_PAPER_DIRECTION_FROM_QUANTITY | FORCE_PAPER_SQUARE_OFF
  | BLOCK_NEW_ENTRIES | PAUSE_STRATEGY_ENTRIES | ACTIVATE_KILL_SWITCH
  | MARK_LIVE_READINESS_BLOCKED | GENERATE_RUNBOOK_COMMAND | FORBIDDEN_ACTION

fun action_type_value :: "action_type \<Rightarrow> str" where
  "action_type_value READ_RUNTIME_STATE = ''READ_RUNTIME_STATE''"
| "action_type_value SEND_ALERT = ''SEND_ALERT''"
| "action_type_value RUN_RECONCILIATION = ''RUN_RECONCILIATION''"
| "action_type_value ATTACH_EXIT_POLICY_PAPER = ''ATTACH_EXIT_POLICY_PAPER''"
| "action_type_value REPAIR_PAPER_ZERO_QTY_OPEN = ''REPAIR_PAPER_ZERO_QTY_OPEN''"
| "action_type_value UPDATE_PAPER_DIRECTION_FROM_QUANTITY = ''UPDATE_PAPER_DIRECTION_FROM_QUANTITY''"
| "action_type_value FORCE_PAPER_SQUARE_OFF = ''FORCE_PAPER_SQUARE_OFF''"
| "action_type_value BLOCK_NEW_ENTRIES = ''BLOCK_NEW_ENTRIES''"
| "action_type_value PAUSE_STRATEGY_ENTRIES = ''PAUSE_STRATEGY_ENTRIES''"
| "action_type_value ACTIVATE_KILL_SWITCH = ''ACTIVATE_KILL_SWITCH''"
| "action_type_value MARK_LIVE_READINESS_BLOCKED = ''MARK_LIVE_READINESS_BLOCKED''"
| "action_type_value GENERATE_RUNBOOK_COMMAND = ''GENERATE_RUNBOOK_COMMAND''"
| "action_type_value FORBIDDEN_ACTION = ''FORBIDDEN''"

datatype action_scope = READ_ONLY | PAPER_ONLY | RISK_REDUCTION | LIVE_HUMAN_GATED | FORBIDDEN_SCOPE

fun action_scope_value :: "action_scope \<Rightarrow> str" where
  "action_scope_value READ_ONLY = ''READ_ONLY''"
| "action_scope_value PAPER_ONLY = ''PAPER_ONLY''"
| "action_scope_value RISK_REDUCTION = ''RISK_REDUCTION''"
| "action_scope_value LIVE_HUMAN_GATED = ''LIVE_HUMAN_GATED''"
| "action_scope_value FORBIDDEN_SCOPE = ''FORBIDDEN''"

datatype risk_level = LOW_RISK | MEDIUM_RISK | HIGH_RISK

datatype trading_mode = PAPER | BACKTEST | LIVE_DISABLED | LIVE_STAGE_1 | LIVE_FULL_BLOCKED

fun trading_mode_value :: "trading_mode \<Rightarrow> str" where
  "trading_mode_value PAPER = ''PAPER''"
| "trading_mode_value BACKTEST = ''BACKTEST''"
| "trading_mode_value LIVE_DISABLED = ''LIVE_DISABLED''"
| "trading_mode_value LIVE_STAGE_1 = ''LIVE_STAGE_1''"
| "trading_mode_value LIVE_FULL_BLOCKED = ''LIVE_FULL_BLOCKED''"

datatype classification_result =
    NO_ACTION | ALERT_ONLY | READ_ONLY_VERIFY | PAPER_REPAIR | REDUCE_RISK | BLOCK_ENTRIES
  | KILL_SWITCH | HUMAN_APPROVAL_REQUIRED | FORBIDDEN_CLASS

record safe_action =
  sa_action_id :: str
  sa_action_type :: action_type
  sa_scope :: action_scope
  sa_mode :: trading_mode
  sa_risk_level :: risk_level
  sa_requires_human_approval :: bool
  sa_idempotency_key :: str
  sa_preconditions :: "str list"
  sa_expected_effect :: str
  sa_rollback_behavior :: str
  sa_audit_payload :: meta

record execution_result =
  er_action_id :: str
  er_action_type :: action_type
  er_executed :: bool
  er_blocked :: bool
  er_blocked_reason :: "str option"
  er_idempotency_skipped :: bool
  er_precondition_failed :: "str option"
  er_error :: "str option"
  er_stub_not_implemented :: bool
  er_result_payload :: meta

text \<open>\<open>ExecutionResult(action_id, action_type, executed, blocked)\<close> with the field defaults.\<close>

definition new_result :: "safe_action \<Rightarrow> bool \<Rightarrow> bool \<Rightarrow> execution_result" where
  "new_result a executed blocked =
    \<lparr>er_action_id = sa_action_id a, er_action_type = sa_action_type a, er_executed = executed,
     er_blocked = blocked, er_blocked_reason = None, er_idempotency_skipped = False,
     er_precondition_failed = None, er_error = None, er_stub_not_implemented = False,
     er_result_payload = []\<rparr>"

text \<open>The one-sentence reasoning text of an observation is left out.\<close>

record classified_observation =
  co_observation_code :: str
  co_subject :: str
  co_classification :: classification_result
  co_proposed_action_types :: "action_type list"
  co_suppress_docker_restart :: bool

section \<open>Policy\<close>

definition FORBIDDEN_CONTEXT_LABELS :: "str list" where
  "FORBIDDEN_CONTEXT_LABELS =
    [''enable_live_trading'', ''set_trading_mode_live'', ''change_capital_limits'',
     ''place_real_broker_order'', ''restart_live_execution_engine'', ''restart_live_risk_engine'',
     ''restart_live_ai_engine'', ''restart_docker_container'', ''mutate_strategy_parameters'',
     ''clear_kill_switch'', ''clear_reconciliation_required'', ''clear_exit_order_id'',
     ''delete_dynamodb_records'', ''auto_promote_strategy_to_live'', ''modify_allowed_symbols'',
     ''modify_allowed_strategies'', ''silence_alerts'']"

definition PAPER_ONLY_TYPES :: "action_type list" where
  "PAPER_ONLY_TYPES =
    [ATTACH_EXIT_POLICY_PAPER, REPAIR_PAPER_ZERO_QTY_OPEN, UPDATE_PAPER_DIRECTION_FROM_QUANTITY,
     FORCE_PAPER_SQUARE_OFF]"

fun MODE_ALLOWED_SCOPES :: "trading_mode \<Rightarrow> action_scope list" where
  "MODE_ALLOWED_SCOPES PAPER = [READ_ONLY, PAPER_ONLY, RISK_REDUCTION, LIVE_HUMAN_GATED]"
| "MODE_ALLOWED_SCOPES BACKTEST = [READ_ONLY]"
| "MODE_ALLOWED_SCOPES LIVE_DISABLED = [READ_ONLY, RISK_REDUCTION, LIVE_HUMAN_GATED]"
| "MODE_ALLOWED_SCOPES LIVE_STAGE_1 = [READ_ONLY, RISK_REDUCTION, LIVE_HUMAN_GATED]"
| "MODE_ALLOWED_SCOPES LIVE_FULL_BLOCKED = [READ_ONLY]"

fun MODE_DENIED_TYPES :: "trading_mode \<Rightarrow> action_type list" where
  "MODE_DENIED_TYPES PAPER = []"
| "MODE_DENIED_TYPES BACKTEST =
    [ACTIVATE_KILL_SWITCH, BLOCK_NEW_ENTRIES, PAUSE_STRATEGY_ENTRIES, MARK_LIVE_READINESS_BLOCKED,
     FORCE_PAPER_SQUARE_OFF, RUN_RECONCILIATION]"
| "MODE_DENIED_TYPES LIVE_DISABLED = PAPER_ONLY_TYPES"
| "MODE_DENIED_TYPES LIVE_STAGE_1 = PAPER_ONLY_TYPES"
| "MODE_DENIED_TYPES LIVE_FULL_BLOCKED = PAPER_ONLY_TYPES @ [BLOCK_NEW_ENTRIES, PAUSE_STRATEGY_ENTRIES]"

definition is_allowed :: "trading_mode \<Rightarrow> action_type \<Rightarrow> action_scope \<Rightarrow> bool \<times> str" where
  "is_allowed mode ty scope =
    (if ty = FORBIDDEN_ACTION then (False, action_type_value ty @ '' is always forbidden'')
     else if scope = FORBIDDEN_SCOPE then (False, ''ActionScope.FORBIDDEN is never executable'')
     else if scope \<notin> set (MODE_ALLOWED_SCOPES mode)
       then (False, ''scope '' @ action_scope_value scope @ '' not permitted in mode ''
               @ trading_mode_value mode)
     else if ty \<in> set (MODE_DENIED_TYPES mode)
       then (False, action_type_value ty @ '' is denied in mode '' @ trading_mode_value mode)
     else (True, []))"

definition policy_requires_human :: "action_type \<Rightarrow> action_scope \<Rightarrow> bool" where
  "policy_requires_human ty scope \<longleftrightarrow> scope = LIVE_HUMAN_GATED \<or> ty = GENERATE_RUNBOOK_COMMAND"

definition is_context_forbidden :: "str \<Rightarrow> bool" where
  "is_context_forbidden label \<longleftrightarrow> label \<in> set FORBIDDEN_CONTEXT_LABELS"

text \<open>
  \<open>from_env\<close>: the arguments are the values of \<open>RISK_PROFILE\<close> and
  \<open>QE_EXECUTION_LIVE_TRADING_ENABLED\<close>, \<open>None\<close> when unset.
\<close>

definition mode_from_env :: "str option \<Rightarrow> str option \<Rightarrow> trading_mode" where
  "mode_from_env risk_profile_var live_flag_var =
    (let risk_profile = py_lower (opt_default [] risk_profile_var);
         live_flag = py_lower (opt_default [] live_flag_var);
         live_enabled = live_flag \<in> set [''1'', ''true'', ''yes'']
     in if \<not> live_enabled then (if risk_profile = ''paper'' then PAPER else LIVE_DISABLED)
        else if risk_profile = ''tiny-live'' then LIVE_STAGE_1
        else LIVE_FULL_BLOCKED)"

section \<open>Classifier\<close>

type_synonym verdict = "classification_result \<times> action_type list"

definition CODE_TABLE :: "(str \<times> verdict) list" where
  "CODE_TABLE =
    [(''service.down'', KILL_SWITCH, [ACTIVATE_KILL_SWITCH, SEND_ALERT]),
     (''service.degraded'', ALERT_ONLY, [SEND_ALERT]),
     (''kafka.unreachable'', KILL_SWITCH, [ACTIVATE_KILL_SWITCH, SEND_ALERT]),
     (''kafka.missing_topics'', BLOCK_ENTRIES, [BLOCK_NEW_ENTRIES, SEND_ALERT]),
     (''kafka.group_idle'', ALERT_ONLY, [SEND_ALERT, READ_RUNTIME_STATE]),
     (''kafka.group_lag_critical'', BLOCK_ENTRIES, [BLOCK_NEW_ENTRIES, SEND_ALERT]),
     (''kafka.group_lag_warning'', ALERT_ONLY, [SEND_ALERT]),
     (''kafka.group_offset_read_error'', ALERT_ONLY, [SEND_ALERT]),
     (''dynamodb.down'', KILL_SWITCH, [ACTIVATE_KILL_SWITCH, SEND_ALERT]),
     (''dynamodb.degraded'', BLOCK_ENTRIES, [BLOCK_NEW_ENTRIES, SEND_ALERT]),
     (''broker.state_unknown'', ALERT_ONLY, [SEND_ALERT, READ_RUNTIME_STATE]),
     (''broker.no_fresh_prices'', BLOCK_ENTRIES, [BLOCK_NEW_ENTRIES, SEND_ALERT]),
     (''broker.feed_very_stale'', BLOCK_ENTRIES, [BLOCK_NEW_ENTRIES, SEND_ALERT]),
     (''broker.feed_stale'', ALERT_ONLY, [SEND_ALERT]),
     (''docker.restart_loop'', ALERT_ONLY, [SEND_ALERT, GENERATE_RUNBOOK_COMMAND]),
     (''docker.restarting'', ALERT_ONLY, [SEND_ALERT]),
     (''docker.down'', ALERT_ONLY, [SEND_ALERT, GENERATE_RUNBOOK_COMMAND]),
     (''logs.errors_present'', ALERT_ONLY, [SEND_ALERT])]"

definition SUBJECT_OVERRIDE :: "((str \<times> str) \<times> verdict) list" where
  "SUBJECT_OVERRIDE =
    [((''ai_engine'', ''service.down''), ALERT_ONLY, [BLOCK_NEW_ENTRIES, SEND_ALERT]),
     ((''ai_engine'', ''docker.down''), ALERT_ONLY,
        [BLOCK_NEW_ENTRIES, SEND_ALERT, GENERATE_RUNBOOK_COMMAND]),
     ((''ai_engine'', ''docker.restart_loop''), ALERT_ONLY,
        [BLOCK_NEW_ENTRIES, SEND_ALERT, GENERATE_RUNBOOK_COMMAND])]"

definition RAW_OBSERVATION_TABLE :: "(str \<times> verdict) list" where
  "RAW_OBSERVATION_TABLE =
    [(''reconciliation_required_live'', BLOCK_ENTRIES,
        [BLOCK_NEW_ENTRIES, SEND_ALERT, MARK_LIVE_READINESS_BLOCKED]),
     (''reconciliation_required_paper'', REDUCE_RISK, [RUN_RECONCILIATION, SEND_ALERT]),
     (''kill_switch_active'', ALERT_ONLY, [SEND_ALERT]),
     (''paper_position_missing_exit_policy'', PAPER_REPAIR, [ATTACH_EXIT_POLICY_PAPER, SEND_ALERT]),
     (''paper_position_zero_qty_open'', PAPER_REPAIR, [REPAIR_PAPER_ZERO_QTY_OPEN, SEND_ALERT]),
     (''paper_position_direction_mismatch'', PAPER_REPAIR,
        [UPDATE_PAPER_DIRECTION_FROM_QUANTITY, SEND_ALERT]),
     (''unmanaged_live_position'', KILL_SWITCH, [ACTIVATE_KILL_SWITCH, SEND_ALERT]),
     (''stale_ltp_market_hours'', BLOCK_ENTRIES, [BLOCK_NEW_ENTRIES, SEND_ALERT])]"

definition observation :: "str \<Rightarrow> str \<Rightarrow> verdict \<Rightarrow> classified_observation" where
  "observation code subject v =
    \<lparr>co_observation_code = code, co_subject = subject, co_classification = fst v,
     co_proposed_action_types = snd v, co_suppress_docker_restart = True\<rparr>"

definition classify_finding :: "str \<Rightarrow> str \<Rightarrow> classified_observation" where
  "classify_finding code subject =
    observation code subject
      (case map_of SUBJECT_OVERRIDE (subject, code) of
         Some v \<Rightarrow> v
       | None \<Rightarrow> (case map_of CODE_TABLE code of Some v \<Rightarrow> v | None \<Rightarrow> (ALERT_ONLY, [SEND_ALERT])))"

definition classify_raw :: "str \<Rightarrow> str \<Rightarrow> classified_observation" where
  "classify_raw key subject =
    observation key subject
      (case map_of RAW_OBSERVATION_TABLE key of Some v \<Rightarrow> v | None \<Rightarrow> (ALERT_ONLY, [SEND_ALERT]))"

definition classify_forbidden_context :: "str \<Rightarrow> classified_observation" where
  "classify_forbidden_context label = observation label [] (FORBIDDEN_CLASS, [FORBIDDEN_ACTION])"

section \<open>Policy facts\<close>

lemma is_allowed_iff:
  "fst (is_allowed mode ty scope) \<longleftrightarrow>
    ty \<noteq> FORBIDDEN_ACTION \<and> scope \<in> set (MODE_ALLOWED_SCOPES mode) \<and> ty \<notin> set (MODE_DENIED_TYPES mode)"
  by (cases mode; cases scope) (auto simp: is_allowed_def)

lemma allowed_paper_only:
  "ty \<in> set PAPER_ONLY_TYPES \<Longrightarrow> fst (is_allowed mode ty scope) \<Longrightarrow>
    mode = PAPER \<or> (mode = BACKTEST \<and> scope = READ_ONLY \<and> ty \<noteq> FORCE_PAPER_SQUARE_OFF)"
  by (cases mode) (auto simp: is_allowed_iff)

lemma allowed_write_types:
  "ty \<in> {BLOCK_NEW_ENTRIES, ACTIVATE_KILL_SWITCH} \<Longrightarrow> fst (is_allowed mode ty scope) \<Longrightarrow>
    mode \<noteq> BACKTEST \<and> (mode = LIVE_FULL_BLOCKED \<longrightarrow> ty = ACTIVATE_KILL_SWITCH \<and> scope = READ_ONLY)"
  by (cases mode) (auto simp: is_allowed_iff)

lemma mode_from_env_live:
  "mode_from_env rp lf = LIVE_STAGE_1 \<Longrightarrow>
    py_lower (opt_default [] lf) \<in> {''1'', ''true'', ''yes''} \<and> py_lower (opt_default [] rp) = ''tiny-live''"
  by (auto simp: mode_from_env_def Let_def split: if_splits)

section \<open>Classifier facts\<close>

text \<open>What a verdict may look like: kill switch exactly when classified so, nothing forbidden.\<close>

definition verdict_ok :: "verdict \<Rightarrow> bool" where
  "verdict_ok v \<longleftrightarrow>
    (ACTIVATE_KILL_SWITCH \<in> set (snd v) \<longleftrightarrow> fst v = KILL_SWITCH) \<and>
    FORBIDDEN_ACTION \<notin> set (snd v) \<and> SEND_ALERT \<in> set (snd v) \<and>
    (\<forall>ty \<in> set PAPER_ONLY_TYPES. ty \<in> set (snd v) \<longrightarrow> fst v = PAPER_REPAIR)"

lemma tables_verdict_ok:
  "v \<in> snd ` set CODE_TABLE \<Longrightarrow> verdict_ok v"
  "v \<in> snd ` set SUBJECT_OVERRIDE \<Longrightarrow> verdict_ok v"
  "v \<in> snd ` set RAW_OBSERVATION_TABLE \<Longrightarrow> verdict_ok v"
  by (auto simp: CODE_TABLE_def SUBJECT_OVERRIDE_def RAW_OBSERVATION_TABLE_def verdict_ok_def
      PAPER_ONLY_TYPES_def)

lemma default_verdict_ok: "verdict_ok (ALERT_ONLY, [SEND_ALERT])"
  by (simp add: verdict_ok_def PAPER_ONLY_TYPES_def)

lemma map_of_range: "map_of xs k = Some v \<Longrightarrow> v \<in> snd ` set xs"
  by (force dest: map_of_SomeD)

lemma classified_verdict_ok:
  "verdict_ok (co_classification (classify_finding code subject),
     co_proposed_action_types (classify_finding code subject))"
  "verdict_ok (co_classification (classify_raw code subject),
     co_proposed_action_types (classify_raw code subject))"
  by (auto simp: classify_finding_def classify_raw_def observation_def default_verdict_ok
      intro: tables_verdict_ok dest!: map_of_range split: option.splits)

lemma ai_engine_down_no_kill_switch:
  assumes "code \<in> {''service.down'', ''docker.down'', ''docker.restart_loop''}"
  shows "ACTIVATE_KILL_SWITCH \<notin> set (co_proposed_action_types (classify_finding code ''ai_engine''))"
  using assms by (auto simp: classify_finding_def observation_def SUBJECT_OVERRIDE_def)

end
