(* ===== verification/SafeActionExecutor.thy ===== *)
theory SafeActionExecutor
  imports SafeActionModel RiskState
begin

text \<open>
  \<open>services/execution_engine/safe_actions\<close>: the durable idempotency store, the DynamoDB writer and
  the executor.  Strings that only reach the log are left out; the runbook text is named by its
  template key.
\<close>

section \<open>Configuration and state\<close>

text \<open>
  \<open>cf_audit_raises\<close> says on which records the audit log raises; \<open>cf_notifier\<close> is the injected
  callable; \<open>cf_str\<close> and \<open>cf_dumps\<close> are \<open>str\<close> and \<open>json.dumps\<close> on JSON values.
\<close>

record 'w sa_config =
  cf_mode :: trading_mode
  cf_notifier :: "(str \<Rightarrow> bool res) option"
  cf_writer :: "('w dynamo \<times> str) option"
  cf_durable :: "('w dynamo \<times> str) option"
  cf_metrics :: bool
  cf_audit_raises :: "safe_action \<Rightarrow> execution_result \<Rightarrow> bool"
  cf_str :: "json \<Rightarrow> str"
  cf_dumps :: "meta \<Rightarrow> str"

record sa_counters =
  ct_block_new_entries :: nat
  ct_kill_switch_activated :: nat
  ct_dynamo_write_failed :: nat
  ct_idempotency_skipped :: nat
  ct_action_blocked :: nat

record 'w sa_state =
  sx_world :: 'w
  sx_store :: "str \<Rightarrow> execution_result option"
  sx_counters :: sa_counters
  sx_audit :: "(safe_action \<times> execution_result) list"
  sx_counts :: "str \<Rightarrow> nat"
  sx_alerts :: "str list"

definition zero_counters :: sa_counters where
  "zero_counters = \<lparr>ct_block_new_entries = 0, ct_kill_switch_activated = 0,
    ct_dynamo_write_failed = 0, ct_idempotency_skipped = 0, ct_action_blocked = 0\<rparr>"

definition new_executor :: "'w \<Rightarrow> 'w sa_state" where
  "new_executor w = \<lparr>sx_world = w, sx_store = Map.empty, sx_counters = zero_counters,
    sx_audit = [], sx_counts = (\<lambda>_. 0), sx_alerts = []\<rparr>"

section \<open>Metrics\<close>

definition metric_inc :: "str list \<Rightarrow> 'w sa_config \<Rightarrow> 'w sa_state \<Rightarrow> 'w sa_state" where
  "metric_inc names cf st =
    (if cf_metrics cf
     then st\<lparr>sx_counts := foldl (\<lambda>c n. c(n := c n + 1)) (sx_counts st) names\<rparr> else st)"

definition metric_blocked :: "action_type \<Rightarrow> str \<Rightarrow> 'w sa_config \<Rightarrow> 'w sa_state \<Rightarrow> 'w sa_state" where
  "metric_blocked ty reason =
    metric_inc (''safe_actions.blocked_total''
      # (if py_in ''FORBIDDEN'' (py_upper (action_type_value ty)) \<or> py_in ''FORBIDDEN'' (py_upper reason)
         then [''safe_actions.forbidden_total''] else []))"

abbreviation metric_executed :: "'w sa_config \<Rightarrow> 'w sa_state \<Rightarrow> 'w sa_state" where
  "metric_executed \<equiv> metric_inc [''safe_actions.executed_total'']"

abbreviation metric_skip :: "'w sa_config \<Rightarrow> 'w sa_state \<Rightarrow> 'w sa_state" where
  "metric_skip \<equiv> metric_inc [''safe_actions.idempotency_skip_total'']"

section \<open>Audit\<close>

definition write_audit :: "'w sa_config \<Rightarrow> safe_action \<Rightarrow> execution_result \<Rightarrow> 'w sa_state
    \<Rightarrow> unit res \<times> 'w sa_state" where
  "write_audit cf a r st =
    (if cf_audit_raises cf a r then (Inl OtherError, st)
     else (Inr (), st\<lparr>sx_audit := sx_audit st @ [(a, r)]\<rparr>))"

definition write_audit_fail_closed :: "'w sa_config \<Rightarrow> safe_action \<Rightarrow> execution_result \<Rightarrow> 'w sa_state
    \<Rightarrow> execution_result \<times> 'w sa_state" where
  "write_audit_fail_closed cf a r st =
    (case write_audit cf a r st of
       (Inr _, st) \<Rightarrow> (r, st)
     | (Inl _, st) \<Rightarrow> ((new_result a False False)\<lparr>er_error := Some ''AuditWriteFailed''\<rparr>, st))"

section \<open>Durable idempotency store\<close>

definition idempotency_row_key :: "str \<Rightarrow> key" where
  "idempotency_row_key k = (''SAFE_ACTION_IDEMPOTENCY'', k)"

definition durable_check :: "'w dynamo \<Rightarrow> str \<Rightarrow> str \<Rightarrow> 'w \<Rightarrow> item option \<times> 'w" where
  "durable_check D tbl k w =
    (case dy_get D w tbl (idempotency_row_key k) of
       (Inl _, w) \<Rightarrow> (None, w)
     | (Inr item, w) \<Rightarrow> (item, w))"

definition durable_mark :: "'w dynamo \<Rightarrow> str \<Rightarrow> str \<Rightarrow> str \<Rightarrow> str \<Rightarrow> str \<Rightarrow> str option \<Rightarrow> str \<Rightarrow> 'w
    \<Rightarrow> bool \<times> 'w" where
  "durable_mark D tbl k action_id ty mode result_json now w =
    (let item = (key_item (idempotency_row_key k))
           (''action_type'' \<mapsto> S ty, ''mode'' \<mapsto> S mode, ''status'' \<mapsto> S ''executed'',
            ''action_id'' \<mapsto> S action_id, ''created_at'' \<mapsto> S now, ''audit_ref'' \<mapsto> S action_id);
         item = (case result_json of None \<Rightarrow> item
                 | Some j \<Rightarrow> item(''result'' \<mapsto> S (take 256 j)))
     in case dy_put D w tbl (idempotency_row_key k) item (NotExists ''SK'') of
          (Inr _, w) \<Rightarrow> (True, w)
        | (Inl _, w) \<Rightarrow> (False, w))"

section \<open>Writer\<close>

record write_result =
  wr_success :: bool
  wr_table :: str
  wr_key :: key
  wr_error_type :: "str option"

fun exn_name :: "exn \<Rightarrow> str" where
  "exn_name ConditionalCheckFailed = ''ConditionalCheckFailedException''"
| "exn_name TransactionCanceled = ''TransactionCanceledException''"
| "exn_name ClientError = ''ClientError''"
| "exn_name ValueError = ''ValueError''"
| "exn_name TypeError = ''TypeError''"
| "exn_name RuntimeError = ''RuntimeError''"
| "exn_name KeyError = ''KeyError''"
| "exn_name TimeoutError = ''TimeoutError''"
| "exn_name OtherError = ''Exception''"

definition writer_put :: "'w dynamo \<Rightarrow> str \<Rightarrow> key \<Rightarrow> item \<Rightarrow> 'w \<Rightarrow> write_result \<times> 'w" where
  "writer_put D tbl k item w =
    (case dy_put D w tbl k item NoCond of
       (Inr _, w) \<Rightarrow> (\<lparr>wr_success = True, wr_table = tbl, wr_key = k, wr_error_type = None\<rparr>, w)
     | (Inl e, w) \<Rightarrow>
         (\<lparr>wr_success = False, wr_table = tbl, wr_key = k, wr_error_type = Some (exn_name e)\<rparr>, w))"

definition write_block_new_entries :: "'w dynamo \<Rightarrow> str \<Rightarrow> str \<Rightarrow> str \<Rightarrow> str \<Rightarrow> str \<Rightarrow> 'w
    \<Rightarrow> write_result \<times> 'w" where
  "write_block_new_entries D tbl action_id idem reason now w =
    writer_put D tbl entry_block_key
      (entry_block_item True reason ''safe_actions'' action_id idem now) w"

definition write_kill_switch_active :: "'w dynamo \<Rightarrow> str \<Rightarrow> str \<Rightarrow> str \<Rightarrow> str \<Rightarrow> str \<Rightarrow> 'w
    \<Rightarrow> write_result \<times> 'w" where
  "write_kill_switch_active D tbl action_id idem reason now w =
    writer_put D tbl kill_switch_key
      (kill_switch_item True reason ''safe_actions'' now (Some now) None
        (''action_id='' @ action_id @ '' idempotency_key='' @ idem @ '' source=safe_actions'')) w"

section \<open>Handlers\<close>

text \<open>\<open>None\<close> is the internal \<open>_StubNotImplemented\<close>.\<close>

type_synonym handler_result = "exn option + execution_result"

definition finish_handler :: "'w sa_config \<Rightarrow> safe_action \<Rightarrow> execution_result \<Rightarrow> 'w sa_state
    \<Rightarrow> handler_result \<times> 'w sa_state" where
  "finish_handler cf a r st =
    (case write_audit cf a r st of
       (Inl e, st) \<Rightarrow> (Inl (Some e), st)
     | (Inr _, st) \<Rightarrow> (Inr r, metric_executed cf st))"

definition handle_send_alert :: "'w sa_config \<Rightarrow> safe_action \<Rightarrow> 'w sa_state
    \<Rightarrow> handler_result \<times> 'w sa_state" where
  "handle_send_alert cf a st =
    (let message = cf_str cf (case map_of (sa_audit_payload a) ''message'' of
           None \<Rightarrow> JStr (sa_expected_effect a) | Some j \<Rightarrow> j);
         delivered = (case cf_notifier cf of None \<Rightarrow> True | Some f \<Rightarrow> res_or False (f message));
         st = (if cf_notifier cf = None then st else st\<lparr>sx_alerts := sx_alerts st @ [message]\<rparr>);
         r = (new_result a True False)
           \<lparr>er_result_payload := [(''message'', JStr message), (''delivered'', JBool delivered)]\<rparr>
     in finish_handler cf a r st)"

definition RUNBOOK_KEYS :: "str list" where
  "RUNBOOK_KEYS = [''ai_engine'', ''execution_engine'', ''risk_engine'', ''default'']"

definition handle_generate_runbook_command :: "'w sa_config \<Rightarrow> safe_action \<Rightarrow> 'w sa_state
    \<Rightarrow> handler_result \<times> 'w sa_state" where
  "handle_generate_runbook_command cf a st =
    (let subject = (case map_of (sa_audit_payload a) ''subject'' of
           None \<Rightarrow> JStr ''default'' | Some j \<Rightarrow> j);
         command = (if cf_str cf subject \<in> set RUNBOOK_KEYS then cf_str cf subject else ''default'');
         r = (new_result a True False)
           \<lparr>er_result_payload := [(''runbook_command'', JStr command), (''subject'', subject)]\<rparr>
     in finish_handler cf a r st)"

definition handle_read_runtime_state :: "'w sa_config \<Rightarrow> safe_action \<Rightarrow> 'w sa_state
    \<Rightarrow> handler_result \<times> 'w sa_state" where
  "handle_read_runtime_state cf a st =
    finish_handler cf a ((new_result a True False)
      \<lparr>er_result_payload := [(''runtime_state'', JObj (sa_audit_payload a))]\<rparr>) st"

definition mark_if_durable :: "'w sa_config \<Rightarrow> safe_action \<Rightarrow> execution_result \<Rightarrow> str
    \<Rightarrow> 'w sa_state \<Rightarrow> 'w sa_state" where
  "mark_if_durable cf a r now st =
    (case cf_durable cf of
       None \<Rightarrow> st
     | Some (D, tbl) \<Rightarrow>
         st\<lparr>sx_world := snd (durable_mark D tbl (sa_idempotency_key a) (sa_action_id a)
              (action_type_value (sa_action_type a)) (trading_mode_value (sa_mode a))
              (Some (cf_dumps cf (er_result_payload r))) now (sx_world st))\<rparr>)"

definition write_payload :: "write_result \<Rightarrow> str \<Rightarrow> meta" where
  "write_payload wr flag =
    [(''dynamodb_pk'', JStr (fst (wr_key wr))), (''dynamodb_sk'', JStr (snd (wr_key wr))),
     (''table'', JStr (wr_table wr)), (flag, JBool True)]"

text \<open>The two write handlers; \<open>now\<close> and \<open>now'\<close> are the clock readings of the writer and the store.\<close>

definition handle_block_new_entries :: "'w sa_config \<Rightarrow> safe_action \<Rightarrow> str \<Rightarrow> str \<Rightarrow> str \<Rightarrow> 'w sa_state
    \<Rightarrow> handler_result \<times> 'w sa_state" where
  "handle_block_new_entries cf a reason now now' st =
    (case cf_writer cf of
       None \<Rightarrow> (Inl None, st)
     | Some (D, tbl) \<Rightarrow>
        (case write_block_new_entries D tbl (sa_action_id a) (sa_idempotency_key a)
                (str_or (Some reason) (sa_expected_effect a)) now (sx_world st) of
           (wr, w) \<Rightarrow>
            (let st = st\<lparr>sx_world := w\<rparr> in
             if wr_success wr then
               (let c = sx_counters st;
                    st = st\<lparr>sx_counters := c\<lparr>ct_block_new_entries := ct_block_new_entries c + 1\<rparr>\<rparr>;
                    r = (new_result a True False)\<lparr>er_result_payload := write_payload wr ''blocked''\<rparr>;
                    st = mark_if_durable cf a r now' st;
                    st = metric_inc [''safe_actions.block_new_entries_total'',
                      ''safe_actions.executed_total''] cf st
                in case write_audit_fail_closed cf a r st of (_, st) \<Rightarrow> (Inr r, st))
             else
               (let c = sx_counters st;
                    st = st\<lparr>sx_counters := c\<lparr>ct_dynamo_write_failed := ct_dynamo_write_failed c + 1\<rparr>\<rparr>;
                    r = (new_result a False False)
                      \<lparr>er_error := Some (str_or (wr_error_type wr) ''DynamoWriteFailed'')\<rparr>;
                    st = metric_inc [''safe_actions.dynamo_write_failed_total''] cf st
                in case write_audit_fail_closed cf a r st of (_, st) \<Rightarrow> (Inr r, st)))))"

definition handle_activate_kill_switch :: "'w sa_config \<Rightarrow> safe_action \<Rightarrow> str \<Rightarrow> str \<Rightarrow> str
    \<Rightarrow> 'w sa_state \<Rightarrow> handler_result \<times> 'w sa_state" where
  "handle_activate_kill_switch cf a reason now now' st =
    (case cf_writer cf of
       None \<Rightarrow> (Inl None, st)
     | Some (D, tbl) \<Rightarrow>
        (case write_kill_switch_active D tbl (sa_action_id a) (sa_idempotency_key a)
                (str_or (Some reason) (sa_expected_effect a)) now (sx_world st) of
           (wr, w) \<Rightarrow>
            (let st = st\<lparr>sx_world := w\<rparr> in
             if wr_success wr then
               (let c = sx_counters st;
                    st = st\<lparr>sx_counters := c\<lparr>ct_kill_switch_activated := ct_kill_switch_activated c + 1\<rparr>\<rparr>;
                    r = (new_result a True False)\<lparr>er_result_payload := write_payload wr ''active''\<rparr>;
                    st = mark_if_durable cf a r now' st;
                    st = metric_inc [''safe_actions.kill_switch_activated_total'',
                      ''safe_actions.executed_total''] cf st
                in case write_audit_fail_closed cf a r st of (_, st) \<Rightarrow> (Inr r, st))
             else
               (let c = sx_counters st;
                    st = st\<lparr>sx_counters := c\<lparr>ct_dynamo_write_failed := ct_dynamo_write_failed c + 1\<rparr>\<rparr>;
                    r = (new_result a False False)
                      \<lparr>er_error := Some (str_or (wr_error_type wr) ''DynamoWriteFailed'')\<rparr>;
                    st = metric_inc [''safe_actions.kill_switch_write_failed_total'',
                      ''safe_actions.dynamo_write_failed_total''] cf st
                in case write_audit_fail_closed cf a r st of (_, st) \<Rightarrow> (Inr r, st)))))"

section \<open>Dispatch\<close>

definition run_handler :: "'w sa_config \<Rightarrow> safe_action \<Rightarrow> str \<Rightarrow> str \<Rightarrow> str \<Rightarrow> 'w sa_state
    \<Rightarrow> handler_result \<times> 'w sa_state" where
  "run_handler cf a reason now now' st =
    (case sa_action_type a of
       SEND_ALERT \<Rightarrow> handle_send_alert cf a st
     | GENERATE_RUNBOOK_COMMAND \<Rightarrow> handle_generate_runbook_command cf a st
     | READ_RUNTIME_STATE \<Rightarrow> handle_read_runtime_state cf a st
     | BLOCK_NEW_ENTRIES \<Rightarrow> handle_block_new_entries cf a reason now now' st
     | ACTIVATE_KILL_SWITCH \<Rightarrow> handle_activate_kill_switch cf a reason now now' st
     | _ \<Rightarrow> (Inl None, st))"

text \<open>The record written and the result returned; a raising audit log escapes.\<close>

definition audited :: "'w sa_config \<Rightarrow> safe_action \<Rightarrow> execution_result \<Rightarrow> 'w sa_state
    \<Rightarrow> execution_result res \<times> 'w sa_state" where
  "audited cf a r st =
    (case write_audit cf a r st of (Inl e, st) \<Rightarrow> (Inl e, st) | (Inr _, st) \<Rightarrow> (Inr r, st))"

definition dispatch :: "'w sa_config \<Rightarrow> safe_action \<Rightarrow> str \<Rightarrow> str \<Rightarrow> str \<Rightarrow> 'w sa_state
    \<Rightarrow> execution_result res \<times> 'w sa_state" where
  "dispatch cf a reason now now' st =
    (case run_handler cf a reason now now' st of
       (Inr r, st) \<Rightarrow> (Inr r, st)
     | (Inl None, st) \<Rightarrow>
         audited cf a ((new_result a False False)
           \<lparr>er_stub_not_implemented := True, er_blocked_reason := Some ''stub_not_implemented''\<rparr>) st
     | (Inl (Some e), st) \<Rightarrow>
         audited cf a ((new_result a False False)\<lparr>er_error := Some (exn_name e)\<rparr>) st)"

section \<open>Execute\<close>

definition WRITE_ACTION_TYPES :: "action_type list" where
  "WRITE_ACTION_TYPES = [BLOCK_NEW_ENTRIES, ACTIVATE_KILL_SWITCH]"

definition skip_result :: "safe_action \<Rightarrow> str \<Rightarrow> str \<Rightarrow> str \<Rightarrow> execution_result" where
  "skip_result a prefix prior_id source =
    (new_result a False False)
      \<lparr>er_idempotency_skipped := True,
       er_blocked_reason := Some (prefix @ '' already executed: '' @ sa_idempotency_key a),
       er_result_payload := [(''prior_action_id'', JStr prior_id), (''source'', JStr source)]\<rparr>"

definition count_blocked :: "'w sa_state \<Rightarrow> 'w sa_state" where
  "count_blocked st = st\<lparr>sx_counters := (sx_counters st)
    \<lparr>ct_action_blocked := ct_action_blocked (sx_counters st) + 1\<rparr>\<rparr>"

definition count_skipped :: "'w sa_state \<Rightarrow> 'w sa_state" where
  "count_skipped st = st\<lparr>sx_counters := (sx_counters st)
    \<lparr>ct_idempotency_skipped := ct_idempotency_skipped (sx_counters st) + 1\<rparr>\<rparr>"

text \<open>The durable gate: \<open>Some\<close> the row found, and the world after the read.\<close>

definition durable_gate :: "'w sa_config \<Rightarrow> safe_action \<Rightarrow> 'w sa_state \<Rightarrow> item option \<times> 'w sa_state" where
  "durable_gate cf a st =
    (case cf_durable cf of
       Some (D, tbl) \<Rightarrow>
         if sa_action_type a \<in> set WRITE_ACTION_TYPES then
           (case durable_check D tbl (sa_idempotency_key a) (sx_world st) of
              (row, w) \<Rightarrow> (row, st\<lparr>sx_world := w\<rparr>))
         else (None, st)
     | None \<Rightarrow> (None, st))"

definition audited_metric :: "'w sa_config \<Rightarrow> safe_action \<Rightarrow> execution_result
    \<Rightarrow> ('w sa_config \<Rightarrow> 'w sa_state \<Rightarrow> 'w sa_state) \<Rightarrow> 'w sa_state
    \<Rightarrow> execution_result res \<times> 'w sa_state" where
  "audited_metric cf a r m st =
    (case audited cf a r st of
       (Inl e, st) \<Rightarrow> (Inl e, st)
     | (Inr r, st) \<Rightarrow> (Inr r, m cf st))"

text \<open>Steps 3b to 5: the in-memory gate, the precondition gate, the dispatch.\<close>

definition execute_ungated :: "'w sa_config \<Rightarrow> safe_action \<Rightarrow> bool \<Rightarrow> str \<Rightarrow> str \<Rightarrow> str \<Rightarrow> str
    \<Rightarrow> 'w sa_state \<Rightarrow> execution_result res \<times> 'w sa_state" where
  "execute_ungated cf a pre_met pre_desc reason now now' st =
    (case sx_store st (sa_idempotency_key a) of
       Some prior \<Rightarrow>
         audited_metric cf a (skip_result a ''idempotency_key'' (er_action_id prior) ''memory'')
           metric_skip (count_skipped st)
     | None \<Rightarrow>
        if \<not> pre_met then
          audited cf a ((new_result a False True)
            \<lparr>er_blocked_reason := Some ''precondition_failed'',
             er_precondition_failed := Some (str_or (Some pre_desc) ''precondition not met'')\<rparr>) st
        else
          (case dispatch cf a reason now now' st of
             (Inl e, st) \<Rightarrow> (Inl e, st)
           | (Inr r, st) \<Rightarrow>
               (Inr r, if er_executed r \<and> \<not> er_idempotency_skipped r
                 then st\<lparr>sx_store := (sx_store st)(sa_idempotency_key a \<mapsto> r)\<rparr> else st)))"

definition human_gated :: "safe_action \<Rightarrow> bool" where
  "human_gated a \<longleftrightarrow>
    sa_requires_human_approval a \<or> policy_requires_human (sa_action_type a) (sa_scope a)"

text \<open>
  The human gate.  A runbook command is human-gated but still produces its text; its handler is
  called directly, so an exception of the audit log escapes.
\<close>

definition execute_human_gated :: "'w sa_config \<Rightarrow> safe_action \<Rightarrow> 'w sa_state
    \<Rightarrow> execution_result res \<times> 'w sa_state" where
  "execute_human_gated cf a st =
    (case audited_metric cf a ((new_result a False True)
            \<lparr>er_blocked_reason := Some ''requires_human_approval'',
             er_result_payload := [(''approval_required'', JBool True),
               (''action_type'', JStr (action_type_value (sa_action_type a))),
               (''idempotency_key'', JStr (sa_idempotency_key a))]\<rparr>)
          (metric_blocked (sa_action_type a) ''requires_human_approval'') st of
       (Inl e, st) \<Rightarrow> (Inl e, st)
     | (Inr r, st) \<Rightarrow>
         if sa_action_type a = GENERATE_RUNBOOK_COMMAND then
           (case handle_generate_runbook_command cf a st of
              (Inl e, st) \<Rightarrow> (Inl (opt_default OtherError e), st)
            | (Inr r, st) \<Rightarrow> (Inr r, st))
         else (Inr r, st))"

definition execute :: "'w sa_config \<Rightarrow> safe_action \<Rightarrow> bool \<Rightarrow> str \<Rightarrow> str \<Rightarrow> str \<Rightarrow> str \<Rightarrow> 'w sa_state
    \<Rightarrow> execution_result res \<times> 'w sa_state" where
  "execute cf a pre_met pre_desc reason now now' st =
    (case is_allowed (cf_mode cf) (sa_action_type a) (sa_scope a) of
       (False, deny_reason) \<Rightarrow>
         audited_metric cf a ((new_result a False True)\<lparr>er_blocked_reason := Some deny_reason\<rparr>)
           (metric_blocked (sa_action_type a) deny_reason) (count_blocked st)
     | (True, _) \<Rightarrow>
        if human_gated a then execute_human_gated cf a st
        else
          (case durable_gate cf a st of
             (Some row, st) \<Rightarrow>
               audited_metric cf a (skip_result a ''durable_idempotency_key''
                   (case row ''action_id'' of Some (S v) \<Rightarrow> v | _ \<Rightarrow> []) ''dynamo'') metric_skip (count_skipped st)
           | (None, st) \<Rightarrow> execute_ungated cf a pre_met pre_desc reason now now' st))"

end
