(* ===== verification/SafeActionSafety.thy ===== *)
theory SafeActionSafety
  imports SafeActionExecutor
begin

text \<open>
  Properties of the safe-action executor: which gates an executed action has passed, what it may
  write, that a key is executed once per session, and what a failing audit log does.
\<close>

section \<open>Results of the parts\<close>

lemma audited_result: "audited cf a r st = (Inr r', st') \<Longrightarrow> r' = r"
  by (auto simp: audited_def split: prod.splits sum.splits)

lemma audited_metric_result: "audited_metric cf a r m st = (Inr r', st') \<Longrightarrow> r' = r"
  by (auto simp: audited_metric_def dest: audited_result split: prod.splits sum.splits)

lemma write_audit_state:
  "sx_store (snd (write_audit cf a r st)) = sx_store st"
  "sx_world (snd (write_audit cf a r st)) = sx_world st"
  by (simp_all add: write_audit_def)

lemma metric_inc_state [simp]:
  "sx_store (metric_inc ns cf st) = sx_store st" "sx_world (metric_inc ns cf st) = sx_world st"
  "sx_audit (metric_inc ns cf st) = sx_audit st"
  "sx_counters (metric_inc ns cf st) = sx_counters st"
  by (simp_all add: metric_inc_def)

lemma metric_blocked_state [simp]:
  "sx_store (metric_blocked ty r cf st) = sx_store st"
  "sx_world (metric_blocked ty r cf st) = sx_world st"
  by (simp_all add: metric_blocked_def)

lemma audited_state:
  "sx_store (snd (audited cf a r st)) = sx_store st"
  "sx_world (snd (audited cf a r st)) = sx_world st"
  by (simp_all add: audited_def write_audit_def)

lemma audited_metric_state:
  assumes "\<And>st. sx_store (m cf st) = sx_store st" "\<And>st. sx_world (m cf st) = sx_world st"
  shows "sx_store (snd (audited_metric cf a r m st)) = sx_store st"
    and "sx_world (snd (audited_metric cf a r m st)) = sx_world st"
  using audited_state [of cf a r st] assms
  by (auto simp: audited_metric_def split: prod.splits sum.splits)

lemma finish_handler_state:
  "sx_store (snd (finish_handler cf a r st)) = sx_store st"
  "sx_world (snd (finish_handler cf a r st)) = sx_world st"
  by (simp_all add: finish_handler_def write_audit_def)

lemma fail_closed_state [simp]:
  "sx_store (snd (write_audit_fail_closed cf a r st)) = sx_store st"
  "sx_world (snd (write_audit_fail_closed cf a r st)) = sx_world st"
  by (simp_all add: write_audit_fail_closed_def write_audit_def)

lemma mark_if_durable_store [simp]: "sx_store (mark_if_durable cf a r now st) = sx_store st"
  by (simp add: mark_if_durable_def split: option.splits prod.splits)

lemma run_handler_store: "sx_store (snd (run_handler cf a reason now now' st)) = sx_store st"
  by (simp add: run_handler_def handle_send_alert_def handle_generate_runbook_command_def
      handle_read_runtime_state_def handle_block_new_entries_def handle_activate_kill_switch_def
      finish_handler_state Let_def case_prod_beta split: action_type.splits option.splits)

lemma dispatch_store: "sx_store (snd (dispatch cf a reason now now' st)) = sx_store st"
  using run_handler_store [of cf a reason now now' st]
  by (auto simp: dispatch_def audited_state split: prod.splits sum.splits option.splits)

lemma dispatch_executed:
  assumes "dispatch cf a reason now now' st = (Inr r, st')" "er_executed r"
  shows "sa_action_type a \<in> {SEND_ALERT, GENERATE_RUNBOOK_COMMAND, READ_RUNTIME_STATE,
      BLOCK_NEW_ENTRIES, ACTIVATE_KILL_SWITCH}"
    and "\<not> er_idempotency_skipped r"
proof -
  have "\<exists>st1. run_handler cf a reason now now' st = (Inr r, st1)"
    using assms by (auto simp: dispatch_def new_result_def dest!: audited_result
        split: prod.splits sum.splits option.splits)
  then obtain st1 where h: "run_handler cf a reason now now' st = (Inr r, st1)" ..
  show "sa_action_type a \<in> {SEND_ALERT, GENERATE_RUNBOOK_COMMAND, READ_RUNTIME_STATE,
      BLOCK_NEW_ENTRIES, ACTIVATE_KILL_SWITCH}"
    using h by (auto simp: run_handler_def split: action_type.splits)
  show "\<not> er_idempotency_skipped r"
    using h by (auto simp: run_handler_def handle_send_alert_def finish_handler_def
        handle_generate_runbook_command_def handle_read_runtime_state_def
        handle_block_new_entries_def handle_activate_kill_switch_def new_result_def Let_def
        split: action_type.splits prod.splits sum.splits option.splits if_splits)
qed

section \<open>Gates\<close>

lemma skip_result_not_executed [simp]: "\<not> er_executed (skip_result a p i s)"
  by (simp add: skip_result_def new_result_def)

lemma new_result_executed [simp]: "er_executed (new_result a e b) = e"
  by (simp add: new_result_def)

lemma execute_ungated_executed:
  assumes "execute_ungated cf a pre_met pd reason now now' st = (Inr r, st')" "er_executed r"
  shows "pre_met" "sx_store st (sa_idempotency_key a) = None"
    "sx_store st' = (sx_store st)(sa_idempotency_key a \<mapsto> r)"
    "\<exists>st1. dispatch cf a reason now now' st = (Inr r, st1)"
proof -
  have store: "sx_store st (sa_idempotency_key a) = None"
  proof (rule ccontr)
    assume "sx_store st (sa_idempotency_key a) \<noteq> None"
    then show False
      using assms by (auto simp: execute_ungated_def dest!: audited_metric_result)
  qed
  have pre: pre_met
  proof (rule ccontr)
    assume "\<not> pre_met"
    then show False
      using assms store by (auto simp: execute_ungated_def dest!: audited_result)
  qed
  obtain r1 st1 where d: "dispatch cf a reason now now' st = (r1, st1)" by force
  then have r1: "r1 = Inr r" and st': "st' = (if er_executed r \<and> \<not> er_idempotency_skipped r
      then st1\<lparr>sx_store := (sx_store st1)(sa_idempotency_key a \<mapsto> r)\<rparr> else st1)"
    using assms store pre by (auto simp: execute_ungated_def split: sum.splits)
  have "\<not> er_idempotency_skipped r"
    using dispatch_executed(2) d r1 assms(2) by blast
  then show "sx_store st' = (sx_store st)(sa_idempotency_key a \<mapsto> r)"
    using st' assms(2) dispatch_store [of cf a reason now now' st] d by simp
  show "pre_met" "sx_store st (sa_idempotency_key a) = None"
    "\<exists>st1. dispatch cf a reason now now' st = (Inr r, st1)"
    using pre store d r1 by auto
qed

lemma durable_gate_store: "sx_store (snd (durable_gate cf a st)) = sx_store st"
  by (simp add: durable_gate_def split: option.splits prod.splits)

lemma execute_not_gated:
  assumes "execute cf a pre_met pd reason now now' st = (Inr r, st')" "er_executed r"
    and "sa_action_type a \<noteq> GENERATE_RUNBOOK_COMMAND"
  shows "fst (is_allowed (cf_mode cf) (sa_action_type a) (sa_scope a))" "\<not> human_gated a"
    "\<exists>st1. durable_gate cf a st = (None, st1)
      \<and> execute_ungated cf a pre_met pd reason now now' st1 = (Inr r, st')"
  using assms
  by (auto simp: execute_def execute_human_gated_def dest!: audited_metric_result
      split: prod.splits bool.splits if_splits sum.splits option.splits)

text \<open>Every gate an executed action has passed.\<close>

lemma execute_gates:
  assumes "execute cf a pre_met pd reason now now' st = (Inr r, st')" "er_executed r"
    and "sa_action_type a \<noteq> GENERATE_RUNBOOK_COMMAND"
  shows "fst (is_allowed (cf_mode cf) (sa_action_type a) (sa_scope a))"
    "\<not> sa_requires_human_approval a" "pre_met"
    "sx_store st (sa_idempotency_key a) = None"
    "fst (durable_gate cf a st) = None"
    "sx_store st' (sa_idempotency_key a) \<noteq> None"
    "sa_action_type a \<in> {SEND_ALERT, READ_RUNTIME_STATE, BLOCK_NEW_ENTRIES, ACTIVATE_KILL_SWITCH}"
proof -
  note g = execute_not_gated [OF assms]
  obtain st1 where d: "durable_gate cf a st = (None, st1)"
    and u: "execute_ungated cf a pre_met pd reason now now' st1 = (Inr r, st')"
    using g(3) by blast
  note e = execute_ungated_executed [OF u assms(2)]
  have "sx_store st1 = sx_store st"
    using durable_gate_store [of cf a st] d by simp
  then show "fst (is_allowed (cf_mode cf) (sa_action_type a) (sa_scope a))"
    "\<not> sa_requires_human_approval a" "pre_met"
    "sx_store st (sa_idempotency_key a) = None"
    "fst (durable_gate cf a st) = None" "sx_store st' (sa_idempotency_key a) \<noteq> None"
    using g(1,2) d e by (auto simp: human_gated_def)
  show "sa_action_type a \<in> {SEND_ALERT, READ_RUNTIME_STATE, BLOCK_NEW_ENTRIES, ACTIVATE_KILL_SWITCH}"
    using e(4) dispatch_executed(1) [OF _ assms(2)] assms(3) by blast
qed

section \<open>Once per session\<close>

record sa_call =
  sc_action :: safe_action
  sc_pre_met :: bool
  sc_pre_desc :: str
  sc_reason :: str
  sc_now :: str
  sc_now' :: str

definition sa_execute :: "'w sa_config \<Rightarrow> 'w sa_state \<Rightarrow> sa_call \<Rightarrow> execution_result res \<times> 'w sa_state" where
  "sa_execute cf st c = execute cf (sc_action c) (sc_pre_met c) (sc_pre_desc c) (sc_reason c)
     (sc_now c) (sc_now' c) st"

fun sa_run :: "'w sa_config \<Rightarrow> 'w sa_state \<Rightarrow> sa_call list \<Rightarrow> (safe_action \<times> execution_result res) list" where
  "sa_run cf st [] = []"
| "sa_run cf st (c # cs) =
    (sc_action c, fst (sa_execute cf st c)) # sa_run cf (snd (sa_execute cf st c)) cs"

definition executed_for :: "str \<Rightarrow> safe_action \<times> execution_result res \<Rightarrow> bool" where
  "executed_for k ar \<longleftrightarrow>
    sa_idempotency_key (fst ar) = k \<and> sa_action_type (fst ar) \<noteq> GENERATE_RUNBOOK_COMMAND \<and>
    (case snd ar of Inl _ \<Rightarrow> False | Inr r \<Rightarrow> er_executed r)"

lemma execute_ungated_store_mono:
  "\<exists>r. sx_store st k = Some r \<Longrightarrow>
    \<exists>r. sx_store (snd (execute_ungated cf a pre_met pd reason now now' st)) k = Some r"
  using dispatch_store [of cf a reason now now' st]
  by (auto simp: execute_ungated_def audited_state audited_metric_state count_skipped_def
      split: option.splits prod.splits sum.splits)

lemma execute_human_gated_store: "sx_store (snd (execute_human_gated cf a st)) = sx_store st"
proof -
  have "sx_store (snd (handle_generate_runbook_command cf a s)) = sx_store s" for s
    by (simp add: handle_generate_runbook_command_def finish_handler_state Let_def)
  moreover have "sx_store (snd (audited_metric cf a r (metric_blocked ty x) st)) = sx_store st" for r ty x
    by (rule audited_metric_state) simp_all
  ultimately show ?thesis
    by (auto simp: execute_human_gated_def split: prod.splits sum.splits) (metis snd_conv)+
qed

lemma execute_store_mono:
  assumes "sx_store st k \<noteq> None"
  shows "sx_store (snd (execute cf a pre_met pd reason now now' st)) k \<noteq> None"
  using assms durable_gate_store [of cf a st] execute_human_gated_store [of cf a st]
  by (auto simp: execute_def audited_metric_state count_blocked_def count_skipped_def
      execute_ungated_store_mono split: prod.splits bool.splits option.splits)

lemma executed_once_from:
  "length (filter (executed_for k) (sa_run cf st cs)) \<le> (if sx_store st k = None then 1 else 0)"
proof (induction cs arbitrary: st)
  case Nil
  then show ?case by simp
next
  case (Cons c cs)
  obtain r st1 where run: "sa_execute cf st c = (r, st1)" by force
  note IH = Cons.IH [of st1]
  have mono: "sx_store st k \<noteq> None \<Longrightarrow> sx_store st1 k \<noteq> None"
    using execute_store_mono run unfolding sa_execute_def by (metis snd_conv)
  show ?case
  proof (cases "executed_for k (sc_action c, r)")
    case True
    then obtain x where x: "r = Inr x" "er_executed x" "sa_idempotency_key (sc_action c) = k"
      "sa_action_type (sc_action c) \<noteq> GENERATE_RUNBOOK_COMMAND"
      by (auto simp: executed_for_def split: sum.splits)
    have e: "execute cf (sc_action c) (sc_pre_met c) (sc_pre_desc c) (sc_reason c) (sc_now c)
        (sc_now' c) st = (Inr x, st1)"
      using run x(1) by (simp add: sa_execute_def)
    have "sx_store st k = None" "sx_store st1 k \<noteq> None"
      using execute_gates(4,6) [OF e x(2) x(4)] x(3) by auto
    then have "length (filter (executed_for k) (sa_run cf st1 cs)) \<le> 0"
      using IH by (simp only: if_False)
    then show ?thesis
      using run True \<open>sx_store st k = None\<close> by simp
  next
    case False
    then show ?thesis
      using IH mono run by (auto split: if_splits)
  qed
qed

section \<open>No exception escapes\<close>

lemma write_audit_total: "\<not> cf_audit_raises cf a r \<Longrightarrow> \<exists>s. write_audit cf a r st = (Inr (), s)"
  by (simp add: write_audit_def)

lemma audited_total: "(\<And>a r. \<not> cf_audit_raises cf a r) \<Longrightarrow> \<exists>r' s. audited cf a r st = (Inr r', s)"
  using write_audit_total [of cf a r st] by (auto simp: audited_def)

lemma audited_metric_total:
  "(\<And>a r. \<not> cf_audit_raises cf a r) \<Longrightarrow> \<exists>r' s. audited_metric cf a r m st = (Inr r', s)"
  using audited_total [of cf a r st] by (auto simp: audited_metric_def)

lemma dispatch_total:
  assumes "\<And>a r. \<not> cf_audit_raises cf a r"
  shows "\<exists>r s. dispatch cf a reason now now' st = (Inr r, s)"
proof -
  obtain h s where "run_handler cf a reason now now' st = (h, s)" by force
  then show ?thesis
    using audited_total [OF assms]
    by (cases h) (auto simp: dispatch_def split: option.splits intro: ex_comm)
qed

lemma execute_total:
  assumes "\<And>a r. \<not> cf_audit_raises cf a r"
  shows "\<exists>r s. execute cf a pre_met pd reason now now' st = (Inr r, s)"
proof -
  have ug: "\<exists>r s. execute_ungated cf a pre_met pd reason now now' st1 = (Inr r, s)" for st1
    using audited_metric_total [OF assms] audited_total [OF assms]
      dispatch_total [OF assms, where a = a and reason = reason and now = now and now' = now' and st = st1]
    by (fastforce simp: execute_ungated_def split: option.splits)
  have rb: "\<exists>r s. handle_generate_runbook_command cf a st1 = (Inr r, s)" for st1
    using assms by (simp add: handle_generate_runbook_command_def finish_handler_def
        write_audit_def Let_def)
  have hg: "\<exists>r s. execute_human_gated cf a st1 = (Inr r, s)" for st1
  proof -
    obtain r s where "audited_metric cf a ((new_result a False True)
            \<lparr>er_blocked_reason := Some ''requires_human_approval'',
             er_result_payload := [(''approval_required'', JBool True),
               (''action_type'', JStr (action_type_value (sa_action_type a))),
               (''idempotency_key'', JStr (sa_idempotency_key a))]\<rparr>)
          (metric_blocked (sa_action_type a) ''requires_human_approval'') st1 = (Inr r, s)"
      using audited_metric_total [OF assms] by blast
    then show ?thesis
      using rb [of s] by (auto simp: execute_human_gated_def)
  qed
  obtain ok why where p: "is_allowed (cf_mode cf) (sa_action_type a) (sa_scope a) = (ok, why)" by force
  obtain row st1 where d: "durable_gate cf a st = (row, st1)" by force
  show ?thesis
    unfolding execute_def p d
    using audited_metric_total [OF assms] hg ug
    by (cases ok; cases row) (auto simp: p d split: prod.splits)
qed

section \<open>What may be written\<close>

definition flag_set :: "str \<Rightarrow> item option \<Rightarrow> bool" where
  "flag_set a r \<longleftrightarrow> (case r of None \<Rightarrow> False | Some i \<Rightarrow> i a = Some (BOOL True))"

text \<open>
  The write surface of the layer: apart from the entry-block row, the kill-switch row and the
  layer's own idempotency rows nothing changes; an active kill switch stays active and a set
  entry block stays set.
\<close>

definition surface_le :: "tables \<Rightarrow> tables \<Rightarrow> bool" where
  "surface_le t t' \<longleftrightarrow>
    (\<forall>T k. k \<noteq> entry_block_key \<and> k \<noteq> kill_switch_key \<and> fst k \<noteq> ''SAFE_ACTION_IDEMPOTENCY''
       \<longrightarrow> t' T k = t T k) \<and>
    (\<forall>T. flag_set ''active'' (t T kill_switch_key) \<longrightarrow> flag_set ''active'' (t' T kill_switch_key)) \<and>
    (\<forall>T. flag_set ''blocked'' (t T entry_block_key) \<longrightarrow> flag_set ''blocked'' (t' T entry_block_key))"

lemma surface_le_refl [simp]: "surface_le t t"
  by (simp add: surface_le_def)

lemma surface_le_trans: "surface_le t u \<Longrightarrow> surface_le u v \<Longrightarrow> surface_le t v"
  unfolding surface_le_def by metis

definition quiet_env :: "(tables \<Rightarrow> tables \<Rightarrow> bool) \<Rightarrow> 'w dynamo \<Rightarrow> bool" where
  "quiet_env R D \<longleftrightarrow> dynamo_ok R D \<and> (\<forall>t t'. R t t' \<longrightarrow> surface_le t t')"

definition surface_put :: "key \<Rightarrow> item \<Rightarrow> bool" where
  "surface_put k i \<longleftrightarrow>
    (k = entry_block_key \<and> i ''blocked'' = Some (BOOL True)) \<or>
    (k = kill_switch_key \<and> i ''active'' = Some (BOOL True)) \<or>
    (\<exists>ik. k = idempotency_row_key ik)"

lemma surface_keys [simp]:
  "kill_switch_key \<noteq> entry_block_key" "entry_block_key \<noteq> kill_switch_key"
  "idempotency_row_key ik \<noteq> kill_switch_key" "idempotency_row_key ik \<noteq> entry_block_key"
  "kill_switch_key \<noteq> idempotency_row_key ik" "entry_block_key \<noteq> idempotency_row_key ik"
  "fst (idempotency_row_key ik) = ''SAFE_ACTION_IDEMPOTENCY''"
  by (simp_all add: kill_switch_key_def entry_block_key_def idempotency_row_key_def)

lemma surface_put_le: "surface_put k i \<Longrightarrow> surface_le t (tables_put t tbl k i)"
  unfolding surface_put_def by (elim disjE exE conjE) (simp_all add: surface_le_def tables_put_apply flag_set_def del: split_paired_All)

lemma put_surface_le:
  assumes env: "quiet_env R D" and k: "surface_put k i"
  shows "surface_le (dy_tables D w) (dy_tables D (snd (dy_put D w tbl k i c)))"
proof (rule commits_le [where Q = surface_le])
  show "commits R (dy_tables D w) (dy_tables D (snd (dy_put D w tbl k i c))) (fst (dy_put D w tbl k i c))
      (\<lambda>t. cond_holds c k (t tbl k)) (\<lambda>t. tables_put t tbl k i)"
    by (rule dynamo_ok_put [OF _ surjective_pairing])
      (use env in \<open>simp add: quiet_env_def\<close>)
qed (use env surface_put_le [OF k] in \<open>auto simp: quiet_env_def intro: surface_le_trans\<close>)

lemma get_surface_le:
  assumes "quiet_env R D"
  shows "surface_le (dy_tables D w) (dy_tables D (snd (dy_get D w tbl k)))"
proof -
  have "dynamo_ok R D" using assms by (simp add: quiet_env_def)
  then have "R (dy_tables D w) (dy_tables D (snd (dy_get D w tbl k)))"
    by (rule dynamo_ok_get [OF _ surjective_pairing])
  then show ?thesis using assms by (simp add: quiet_env_def)
qed

text \<open>The writer and the store use the same client.\<close>

definition uses_client :: "'w dynamo \<Rightarrow> 'w sa_config \<Rightarrow> bool" where
  "uses_client D cf \<longleftrightarrow> fst ` (set_option (cf_writer cf) \<union> set_option (cf_durable cf)) \<subseteq> {D}"

lemma writer_surface_le:
  assumes "quiet_env R D"
  shows "surface_le (dy_tables D w) (dy_tables D (snd (write_block_new_entries D tbl aid ik rs now w)))"
    and "surface_le (dy_tables D w) (dy_tables D (snd (write_kill_switch_active D tbl aid ik rs now w)))"
proof -
  have w: "snd (writer_put D tbl k i w) = snd (dy_put D w tbl k i NoCond)" for k i
    by (simp add: writer_put_def split: prod.splits sum.splits)
  show "surface_le (dy_tables D w) (dy_tables D (snd (write_block_new_entries D tbl aid ik rs now w)))"
    "surface_le (dy_tables D w) (dy_tables D (snd (write_kill_switch_active D tbl aid ik rs now w)))"
    unfolding write_block_new_entries_def write_kill_switch_active_def w
    by (rule put_surface_le [OF assms];
        simp add: surface_put_def entry_block_item_apply kill_switch_item_apply)+
qed

lemma mark_surface_le:
  assumes "quiet_env R D" "uses_client D cf"
  shows "surface_le (dy_tables D (sx_world st)) (dy_tables D (sx_world (mark_if_durable cf a r now st)))"
proof (cases "cf_durable cf")
  case (Some d)
  then obtain tbl where d: "cf_durable cf = Some (D, tbl)"
    using assms(2) by (cases d) (auto simp: uses_client_def)
  have mk: "\<exists>i. snd (durable_mark D tbl k aid ty mode j now w)
      = snd (dy_put D w tbl (idempotency_row_key k) i (NotExists ''SK''))" for k aid ty mode j w
  proof -
    have "snd (case p of (Inr _, w) \<Rightarrow> (True, w) | (Inl _, w) \<Rightarrow> (False, w)) = snd p"
      for p :: "unit res \<times> 'a"
      by (simp split: prod.splits sum.splits)
    then show ?thesis
      unfolding durable_mark_def Let_def by blast
  qed
  obtain i where "sx_world (mark_if_durable cf a r now st) = snd (dy_put D (sx_world st) tbl
      (idempotency_row_key (sa_idempotency_key a)) i (NotExists ''SK''))"
    using mk [of "sa_idempotency_key a" "sa_action_id a" "action_type_value (sa_action_type a)"
        "trading_mode_value (sa_mode a)" "Some (cf_dumps cf (er_result_payload r))" "sx_world st"]
    by (auto simp: mark_if_durable_def d)
  then show ?thesis
    using put_surface_le [OF assms(1)] by (metis surface_put_def)
qed (simp add: mark_if_durable_def)

lemma durable_gate_surface_le:
  assumes "quiet_env R D" "uses_client D cf"
  shows "surface_le (dy_tables D (sx_world st)) (dy_tables D (sx_world (snd (durable_gate cf a st))))"
proof -
  have "snd (durable_check E tbl k w) = snd (dy_get E w tbl (idempotency_row_key k))"
    for E :: "'a dynamo" and tbl k w
    by (simp add: durable_check_def split: prod.splits sum.splits)
  then show ?thesis
    using assms(2)
    by (auto simp: durable_gate_def uses_client_def case_prod_beta split: option.splits
        intro: get_surface_le [OF assms(1)])
qed

lemma run_handler_surface_le:
  assumes "quiet_env R D" "uses_client D cf"
  shows "surface_le (dy_tables D (sx_world st))
    (dy_tables D (sx_world (snd (run_handler cf a reason now now' st))))"
proof -
  have m: "surface_le t (dy_tables D (sx_world s)) \<Longrightarrow>
      surface_le t (dy_tables D (sx_world (mark_if_durable cf a r now s)))" for t s r now
    using mark_surface_le [OF assms] by (blast intro: surface_le_trans)
  have b: "surface_le (dy_tables D (sx_world st))
      (dy_tables D (sx_world (snd (handle_block_new_entries cf a reason now now' st))))"
    using assms(2) writer_surface_le(1) [OF assms(1)]
    by (auto simp: handle_block_new_entries_def uses_client_def Let_def case_prod_beta
        intro!: m split: option.splits)
  have k: "surface_le (dy_tables D (sx_world st))
      (dy_tables D (sx_world (snd (handle_activate_kill_switch cf a reason now now' st))))"
    using assms(2) writer_surface_le(2) [OF assms(1)]
    by (auto simp: handle_activate_kill_switch_def uses_client_def Let_def case_prod_beta
        intro!: m split: option.splits)
  show ?thesis
    using b k by (simp add: run_handler_def handle_send_alert_def finish_handler_state
        handle_generate_runbook_command_def handle_read_runtime_state_def Let_def
        split: action_type.splits)
qed

lemma dispatch_world:
  "sx_world (snd (dispatch cf a reason now now' st)) = sx_world (snd (run_handler cf a reason now now' st))"
  by (auto simp: dispatch_def audited_state split: prod.splits sum.splits option.splits)

lemma execute_ungated_world:
  "sx_world (snd (execute_ungated cf a pre_met pd reason now now' st))
    \<in> {sx_world st, sx_world (snd (run_handler cf a reason now now' st))}"
  using dispatch_world [of cf a reason now now' st]
  by (auto simp: execute_ungated_def audited_state audited_metric_state count_skipped_def
      split: option.splits prod.splits sum.splits)

lemma execute_human_gated_world: "sx_world (snd (execute_human_gated cf a st)) = sx_world st"
proof -
  have "sx_world (snd (handle_generate_runbook_command cf a s)) = sx_world s" for s
    by (simp add: handle_generate_runbook_command_def finish_handler_state Let_def)
  moreover have "sx_world (snd (audited_metric cf a r (metric_blocked ty x) st)) = sx_world st" for r ty x
    by (rule audited_metric_state) simp_all
  ultimately show ?thesis
    by (auto simp: execute_human_gated_def split: prod.splits sum.splits) (metis snd_conv)+
qed

lemma execute_surface_le:
  assumes "quiet_env R D" "uses_client D cf"
  shows "surface_le (dy_tables D (sx_world st))
    (dy_tables D (sx_world (snd (execute cf a pre_met pd reason now now' st))))"
proof -
  obtain row st1 where d: "durable_gate cf a st = (row, st1)" by force
  have g: "surface_le (dy_tables D (sx_world st)) (dy_tables D (sx_world st1))"
    using durable_gate_surface_le [OF assms, of st a] d by simp
  have "surface_le (dy_tables D (sx_world st1))
      (dy_tables D (sx_world (snd (execute_ungated cf a pre_met pd reason now now' st1))))"
    using execute_ungated_world [of cf a pre_met pd reason now now' st1]
      run_handler_surface_le [OF assms, of st1 a reason now now'] by auto
  then have u: "surface_le (dy_tables D (sx_world st))
      (dy_tables D (sx_world (snd (execute_ungated cf a pre_met pd reason now now' st1))))"
    using g by (blast intro: surface_le_trans)
  show ?thesis
    using g u execute_human_gated_world [of cf a st] d
    by (auto simp: execute_def audited_metric_state count_blocked_def count_skipped_def
        split: prod.splits bool.splits option.splits)
qed

fun sa_final :: "'w sa_config \<Rightarrow> 'w sa_state \<Rightarrow> sa_call list \<Rightarrow> 'w sa_state" where
  "sa_final cf st [] = st"
| "sa_final cf st (c # cs) = sa_final cf (snd (sa_execute cf st c)) cs"

lemma sa_final_surface_le:
  assumes "quiet_env R D" "uses_client D cf"
  shows "surface_le (dy_tables D (sx_world st)) (dy_tables D (sx_world (sa_final cf st cs)))"
proof (induction cs arbitrary: st)
  case (Cons c cs)
  have "surface_le (dy_tables D (sx_world st)) (dy_tables D (sx_world (snd (sa_execute cf st c))))"
    unfolding sa_execute_def by (rule execute_surface_le [OF assms])
  also note Cons.IH
  finally (surface_le_trans) show ?case by simp
qed simp

text \<open>A call that a gate stops writes nothing: at most it reads the durable store.\<close>

lemma blocked_writes_nothing:
  assumes "\<not> fst (is_allowed (cf_mode cf) (sa_action_type a) (sa_scope a)) \<or> human_gated a"
  shows "sx_world (snd (execute cf a pre_met pd reason now now' st)) = sx_world st"
  using assms execute_human_gated_world [of cf a st]
  by (auto simp: execute_def audited_metric_state count_blocked_def split: prod.splits bool.splits)

section \<open>Writes that happened\<close>

lemma executed_write_puts:
  assumes "execute cf a pre_met pd reason now now' st = (Inr r, st')" "er_executed r"
    and "sa_action_type a = ACTIVATE_KILL_SWITCH"
  shows "\<exists>D tbl w w' reason'. cf_writer cf = Some (D, tbl) \<and>
    dy_put D w tbl kill_switch_key (kill_switch_item True reason' ''safe_actions'' now (Some now) None
      (''action_id='' @ sa_action_id a @ '' idempotency_key='' @ sa_idempotency_key a
        @ '' source=safe_actions'')) NoCond = (Inr (), w')"
proof -
  obtain st1 where "execute_ungated cf a pre_met pd reason now now' st1 = (Inr r, st')"
    using execute_not_gated(3) [OF assms(1,2)] assms(3) by auto
  then obtain st2 where "dispatch cf a reason now now' st1 = (Inr r, st2)"
    using execute_ungated_executed(4) assms(2) by blast
  then obtain st3 where "handle_activate_kill_switch cf a reason now now' st1 = (Inr r, st3)"
    using assms(2,3) by (auto simp: dispatch_def run_handler_def dest!: audited_result
        split: prod.splits sum.splits option.splits)
  then show ?thesis
    using assms(2)
    by (auto simp: handle_activate_kill_switch_def write_kill_switch_active_def writer_put_def Let_def
        split: option.splits prod.splits sum.splits if_splits)
qed

section \<open>Properties\<close>

text \<open>An executor over the in-memory client, for the witnesses.\<close>

definition demo_sa_config :: "trading_mode \<Rightarrow> bool \<Rightarrow> mem sa_config" where
  "demo_sa_config mode raises =
    \<lparr>cf_mode = mode, cf_notifier = None, cf_writer = Some (mem_dynamo, ''risk''),
     cf_durable = Some (mem_dynamo, ''risk''), cf_metrics = False,
     cf_audit_raises = (\<lambda>_ _. raises), cf_str = (\<lambda>_. []), cf_dumps = (\<lambda>_. [])\<rparr>"

definition demo_action :: "action_type \<Rightarrow> action_scope \<Rightarrow> safe_action" where
  "demo_action ty scope =
    \<lparr>sa_action_id = ''a1'', sa_action_type = ty, sa_scope = scope, sa_mode = PAPER,
     sa_risk_level = HIGH_RISK, sa_requires_human_approval = False, sa_idempotency_key = ''k1'',
     sa_preconditions = [], sa_expected_effect = ''effect'', sa_rollback_behavior = [],
     sa_audit_payload = []\<rparr>"

definition demo_call :: "action_type \<Rightarrow> action_scope \<Rightarrow> sa_call" where
  "demo_call ty scope = \<lparr>sc_action = demo_action ty scope, sc_pre_met = True, sc_pre_desc = [],
     sc_reason = [], sc_now = ''t1'', sc_now' = ''t2''\<rparr>"

lemma mem_quiet: "quiet_env (=) mem_dynamo"
  by (simp add: quiet_env_def mem_dynamo_ok)

lemmas demo_execute_simps = execute_def is_allowed_def human_gated_def policy_requires_human_def
  durable_gate_def durable_check_def WRITE_ACTION_TYPES_def execute_ungated_def dispatch_def
  run_handler_def handle_activate_kill_switch_def write_kill_switch_active_def writer_put_def
  handle_block_new_entries_def write_block_new_entries_def
  mark_if_durable_def durable_mark_def write_audit_fail_closed_def write_audit_def metric_inc_def
  new_result_def mem_simps demo_sa_config_def demo_action_def new_executor_def Let_def

text \<open>
  C15 Write surface of the safe-action layer: no sequence of \<open>execute\<close> calls changes any row other
  than the entry-block row, the kill-switch row and the layer's idempotency rows; it never
  deactivates an active kill switch and never clears an entry block.
\<close>

theorem safe_actions_write_surface:
  assumes "quiet_env R D" "uses_client D cf"
  shows "surface_le (dy_tables D (sx_world st)) (dy_tables D (sx_world (sa_final cf st calls)))"
  using assms by (rule sa_final_surface_le)

theorem safe_actions_write_surface_witness:
  "flag_set ''active'' (mem_tables (sx_world (sa_final (demo_sa_config PAPER False)
      (new_executor [((''risk'', kill_switch_key), [''active'' \<mapsto> BOOL True])])
      [demo_call BLOCK_NEW_ENTRIES RISK_REDUCTION])) ''risk'' kill_switch_key)"
proof -
  let ?w = "[((''risk'', kill_switch_key), [''active'' \<mapsto> BOOL True])] :: mem"
  have "surface_le (dy_tables mem_dynamo (sx_world (new_executor ?w)))
      (dy_tables mem_dynamo (sx_world (sa_final (demo_sa_config PAPER False) (new_executor ?w)
        [demo_call BLOCK_NEW_ENTRIES RISK_REDUCTION])))"
    by (rule safe_actions_write_surface [OF mem_quiet]) (simp add: uses_client_def demo_sa_config_def)
  then have "flag_set ''active'' (mem_tables ?w ''risk'' kill_switch_key) \<longrightarrow>
      flag_set ''active'' (mem_tables (sx_world (sa_final (demo_sa_config PAPER False) (new_executor ?w)
        [demo_call BLOCK_NEW_ENTRIES RISK_REDUCTION])) ''risk'' kill_switch_key)"
    unfolding surface_le_def by (simp add: mem_dynamo_def new_executor_def)
  moreover have "flag_set ''active'' (mem_tables ?w ''risk'' kill_switch_key)"
    by (simp add: flag_set_def mem_tables_def)
  ultimately show ?thesis by blast
qed

text \<open>
  Gates: an action other than a runbook command that is reported executed was allowed by the
  policy of the mode, needed no human approval, met its preconditions, was in neither idempotency
  store, is of an implemented type, and its key is stored afterwards.
\<close>

theorem executed_action_passed_gates:
  assumes "execute cf a pre_met pd reason now now' st = (Inr r, st')" "er_executed r"
    and "sa_action_type a \<noteq> GENERATE_RUNBOOK_COMMAND"
  shows "fst (is_allowed (cf_mode cf) (sa_action_type a) (sa_scope a)) \<and>
    \<not> sa_requires_human_approval a \<and> pre_met \<and>
    sx_store st (sa_idempotency_key a) = None \<and> fst (durable_gate cf a st) = None \<and>
    sx_store st' (sa_idempotency_key a) \<noteq> None \<and>
    sa_action_type a \<in> {SEND_ALERT, READ_RUNTIME_STATE, BLOCK_NEW_ENTRIES, ACTIVATE_KILL_SWITCH}"
  using execute_gates [OF assms] by blast

lemma demo_execute:
  "\<exists>r st'. execute (demo_sa_config PAPER raises) (demo_action ACTIVATE_KILL_SWITCH RISK_REDUCTION)
     True [] [] ''t1'' ''t2'' (new_executor []) = (Inr r, st') \<and> er_executed r"
  by (simp add: demo_execute_simps)

theorem executed_action_passed_gates_witness:
  "\<exists>r st'. execute (demo_sa_config PAPER False) (demo_action ACTIVATE_KILL_SWITCH RISK_REDUCTION)
     True [] [] ''t1'' ''t2'' (new_executor []) = (Inr r, st') \<and> sx_store st' ''k1'' \<noteq> None"
proof -
  obtain r st' where e: "execute (demo_sa_config PAPER False)
      (demo_action ACTIVATE_KILL_SWITCH RISK_REDUCTION) True [] [] ''t1'' ''t2'' (new_executor [])
      = (Inr r, st')" "er_executed r"
    using demo_execute by blast
  from executed_action_passed_gates [OF e] have "sx_store st' ''k1'' \<noteq> None"
    by (simp add: demo_action_def)
  with e(1) show ?thesis by blast
qed

text \<open>
  At most once: in any sequence of \<open>execute\<close> calls of one executor, at most one call per
  idempotency key is reported executed (runbook commands, which have no effect, excepted).
\<close>

theorem executed_once_per_key:
  "length (filter (executed_for k) (sa_run cf st calls)) \<le> 1"
  using executed_once_from [of k cf st calls] by (simp split: if_splits)

text \<open>
  The executor never raises: when the audit log does not raise, every \<open>execute\<close> call returns a
  result, whatever the notifier and DynamoDB do.
\<close>

theorem execute_never_raises:
  assumes "\<And>a r. \<not> cf_audit_raises cf a r"
  shows "\<exists>r st'. execute cf a pre_met pd reason now now' st = (Inr r, st')"
  using assms by (rule execute_total)

theorem execute_never_raises_witness:
  "\<exists>r st'. execute (demo_sa_config BACKTEST False) (demo_action FORBIDDEN_ACTION READ_ONLY)
     True [] [] ''t1'' ''t2'' (new_executor []) = (Inr r, st')"
  by (rule execute_never_raises) (simp add: demo_sa_config_def)

text \<open>
  The fail-closed audit is not wired: when the audit log raises on the record of a write action,
  the action is still reported executed (the docstrings promise \<open>executed=False\<close> with
  \<open>error="AuditWriteFailed"\<close>); no record is written.
\<close>

theorem audit_failure_ignored:
  "\<exists>r st'. execute (demo_sa_config PAPER True) (demo_action ACTIVATE_KILL_SWITCH RISK_REDUCTION)
     True [] [] ''t1'' ''t2'' (new_executor []) = (Inr r, st') \<and>
     er_executed r \<and> er_error r = None \<and> sx_audit st' = []"
  by (simp add: demo_execute_simps)

text \<open>
  Classification is safe: the kill switch is proposed exactly for the KILL_SWITCH class, every
  verdict proposes an alert, none proposes a forbidden action, a paper repair is proposed only in
  the PAPER_REPAIR class, and no Docker restart is ever proposed.
\<close>

theorem classifier_safe:
  "verdict_ok (co_classification (classify_finding code subject),
      co_proposed_action_types (classify_finding code subject)) \<and>
   verdict_ok (co_classification (classify_raw code subject),
      co_proposed_action_types (classify_raw code subject)) \<and>
   co_suppress_docker_restart (classify_finding code subject) \<and>
   co_suppress_docker_restart (classify_raw code subject)"
  using classified_verdict_ok by (simp add: classify_finding_def classify_raw_def observation_def)

end
