(* ===== verification/Signals.thy ===== *)
theory Signals
  imports OrderModel
begin

text \<open>
  The trading signal (\<open>services/shared/models/signal.py\<close>), the risk limits and the result of a
  validator (\<open>services/risk_engine/limits/risk_limits.py\<close>), the pre-fetched risk context
  (\<open>services/shared/models/risk_context.py\<close>) and the mode-aware fallback of the validators
  (\<open>services/risk_engine/validators/common.py\<close>).
\<close>

section \<open>Signal\<close>

datatype signal_status = SIG_PENDING | SIG_APPROVED | SIG_REJECTED | SIG_EXPIRED

fun signal_status_value :: "signal_status \<Rightarrow> str" where
  "signal_status_value SIG_PENDING = ''PENDING''"
| "signal_status_value SIG_APPROVED = ''APPROVED''"
| "signal_status_value SIG_REJECTED = ''REJECTED''"
| "signal_status_value SIG_EXPIRED = ''EXPIRED''"

definition signal_statuses :: "signal_status list" where
  "signal_statuses = [SIG_PENDING, SIG_APPROVED, SIG_REJECTED, SIG_EXPIRED]"

interpretation signal_status_enum: str_enum signal_status_value signal_statuses
proof
  show "signal_status_value x = signal_status_value y \<Longrightarrow> x = y" for x y
    by (cases x; cases y; simp)
  show "x \<in> set signal_statuses" for x
    by (cases x; simp add: signal_statuses_def)
qed

text \<open>
  \<open>Direction\<close> has the members BUY and SELL and is represented by \<open>order_side\<close>.  \<open>generated_at\<close> is
  the time in seconds; \<open>isoformat\<close> and \<open>fromisoformat\<close> are arguments where they are used.
\<close>

record signal =
  sg_signal_id :: str
  sg_symbol :: str
  sg_market :: str
  sg_direction :: order_side
  sg_quantity :: int
  sg_confidence :: rat
  sg_strategy_name :: str
  sg_generated_at :: rat
  sg_status :: signal_status
  sg_price_at_signal :: rat
  sg_stop_loss :: "rat option"
  sg_take_profit :: "rat option"
  sg_paper_trade :: bool
  sg_metadata :: meta

fun opt_json :: "rat option \<Rightarrow> json" where
  "opt_json None = JNull"
| "opt_json (Some x) = JNum x"

definition signal_to_dict :: "(rat \<Rightarrow> str) \<Rightarrow> signal \<Rightarrow> meta" where
  "signal_to_dict isofmt s =
    [(''signal_id'', JStr (sg_signal_id s)), (''symbol'', JStr (sg_symbol s)),
     (''market'', JStr (sg_market s)), (''direction'', JStr (order_side_value (sg_direction s))),
     (''quantity'', JNum (of_int (sg_quantity s))), (''confidence'', JNum (sg_confidence s)),
     (''strategy_name'', JStr (sg_strategy_name s)), (''generated_at'', JStr (isofmt (sg_generated_at s))),
     (''timestamp'', JStr (isofmt (sg_generated_at s))),
     (''status'', JStr (signal_status_value (sg_status s))),
     (''price_at_signal'', JNum (sg_price_at_signal s)), (''stop_loss'', opt_json (sg_stop_loss s)),
     (''take_profit'', opt_json (sg_take_profit s)), (''paper_trade'', JBool (sg_paper_trade s)),
     (''metadata'', JObj (sg_metadata s))]"

text \<open>
  Readers of a JSON field.  Fields that the schema declares as strings or numbers and that hold
  another kind of value are rejected with \<open>TypeError\<close>.
\<close>

fun as_str :: "json option \<Rightarrow> str res" where
  "as_str None = Inl KeyError"
| "as_str (Some (JStr s)) = Inr s"
| "as_str (Some _) = Inl TypeError"

fun as_num :: "json option \<Rightarrow> rat res" where
  "as_num None = Inl KeyError"
| "as_num (Some (JNum x)) = Inr x"
| "as_num (Some (JBool v)) = Inr (if v then 1 else 0)"
| "as_num (Some _) = Inl TypeError"

fun as_opt_num :: "json option \<Rightarrow> rat option res" where
  "as_opt_num None = Inr None"
| "as_opt_num (Some JNull) = Inr None"
| "as_opt_num (Some (JNum x)) = Inr (Some x)"
| "as_opt_num (Some _) = Inl TypeError"

definition truthy_or :: "json option \<Rightarrow> json option \<Rightarrow> json option" where
  "truthy_or a b = (case a of Some j \<Rightarrow> if json_truthy j then a else b | None \<Rightarrow> b)"

definition read_generated_at :: "(str \<Rightarrow> rat option) \<Rightarrow> rat \<Rightarrow> meta \<Rightarrow> rat res" where
  "read_generated_at fromiso now d =
    (case truthy_or (map_of d ''generated_at'') (map_of d ''timestamp'') of
       None \<Rightarrow> Inr now
     | Some (JStr s) \<Rightarrow> (if s = [] then Inr now else of_opt ValueError (fromiso s))
     | Some j \<Rightarrow> (if json_truthy j then Inl TypeError else Inr now))"

definition signal_from_dict :: "(str \<Rightarrow> rat option) \<Rightarrow> rat \<Rightarrow> meta \<Rightarrow> signal res" where
  "signal_from_dict fromiso now d =
    res_bind (read_generated_at fromiso now d) (\<lambda>gen.
    res_bind (as_str (map_of d ''signal_id'')) (\<lambda>sid.
    res_bind (as_str (map_of d ''symbol'')) (\<lambda>sym.
    res_bind (as_str (map_of d ''market'')) (\<lambda>mk.
    res_bind (res_bind (as_str (map_of d ''direction'')) (\<lambda>s. of_opt ValueError (order_side_of s))) (\<lambda>dir.
    res_bind (as_num (map_of d ''quantity'')) (\<lambda>q.
    res_bind (as_num (map_of d ''confidence'')) (\<lambda>conf.
    res_bind (as_str (map_of d ''strategy_name'')) (\<lambda>strat.
    res_bind (case map_of d ''status'' of None \<Rightarrow> Inr SIG_PENDING
       | j \<Rightarrow> res_bind (as_str j) (\<lambda>s. of_opt ValueError (enum_of signal_status_value signal_statuses s))) (\<lambda>st.
    res_bind (case map_of d ''price_at_signal'' of None \<Rightarrow> Inr 0 | j \<Rightarrow> as_num j) (\<lambda>price.
    res_bind (as_opt_num (map_of d ''stop_loss'')) (\<lambda>sl.
    res_bind (as_opt_num (map_of d ''take_profit'')) (\<lambda>tp.
    res_bind (case map_of d ''metadata'' of None \<Rightarrow> Inr [] | Some (JObj m) \<Rightarrow> Inr m | Some _ \<Rightarrow> Inl TypeError) (\<lambda>m.
      Inr \<lparr>sg_signal_id = sid, sg_symbol = sym, sg_market = mk, sg_direction = dir,
           sg_quantity = py_int q, sg_confidence = conf, sg_strategy_name = strat,
           sg_generated_at = gen, sg_status = st, sg_price_at_signal = price, sg_stop_loss = sl,
           sg_take_profit = tp,
           sg_paper_trade = (case map_of d ''paper_trade'' of None \<Rightarrow> False | Some j \<Rightarrow> json_truthy j),
           sg_metadata = m\<rparr>)))))))))))))"

lemma signal_dict_roundtrip_aux:
  assumes "fromiso (isofmt (sg_generated_at s)) = Some (sg_generated_at s)" "isofmt (sg_generated_at s) \<noteq> []"
  shows "signal_from_dict fromiso now (signal_to_dict isofmt s) = Inr s"
proof -
  have "as_opt_num (Some (opt_json x)) = Inr x" for x
    by (cases x) simp_all
  then show ?thesis
    using assms by (simp add: signal_from_dict_def signal_to_dict_def read_generated_at_def truthy_or_def)
qed

text \<open>\<open>signal.metadata.get("is_closeout")\<close> as a condition.\<close>

definition is_closeout :: "signal \<Rightarrow> bool" where
  "is_closeout s \<longleftrightarrow> (case map_of (sg_metadata s) ''is_closeout'' of None \<Rightarrow> False | Some j \<Rightarrow> json_truthy j)"

section \<open>Risk limits\<close>

record risk_limits =
  rl_max_position_size_pct :: rat
  rl_max_total_exposure_pct :: rat
  rl_max_daily_loss_pct :: rat
  rl_max_single_order_value :: rat
  rl_max_open_orders :: rat
  rl_max_position_per_symbol :: rat
  rl_max_concurrent_positions :: rat
  rl_max_sector_exposure_pct :: rat
  rl_cooldown_after_loss_seconds :: rat
  rl_portfolio_value :: rat
  rl_allow_leverage :: bool
  rl_nse_overrides :: "(str \<times> rat) list option"
  rl_us_overrides :: "(str \<times> rat) list option"
  rl_nav_last_updated :: rat

definition default_limits :: risk_limits where
  "default_limits =
    \<lparr>rl_max_position_size_pct = 5, rl_max_total_exposure_pct = 80, rl_max_daily_loss_pct = 2,
     rl_max_single_order_value = 500000, rl_max_open_orders = 50,
     rl_max_position_per_symbol = 10000, rl_max_concurrent_positions = 1,
     rl_max_sector_exposure_pct = 25, rl_cooldown_after_loss_seconds = 300,
     rl_portfolio_value = 1000000, rl_allow_leverage = False, rl_nse_overrides = None,
     rl_us_overrides = None, rl_nav_last_updated = 0\<rparr>"

definition limits_for_profile :: "str \<Rightarrow> rat \<Rightarrow> risk_limits res" where
  "limits_for_profile profile portfolio_value =
    (let normalized = py_lower (py_strip (if profile = [] then ''tiny-live'' else profile));
         base = default_limits\<lparr>rl_portfolio_value := portfolio_value, rl_allow_leverage := False\<rparr>
     in if normalized = ''paper'' then Inr (base
          \<lparr>rl_max_position_size_pct := 5, rl_max_total_exposure_pct := 80, rl_max_daily_loss_pct := 2,
           rl_max_single_order_value := 500000, rl_max_open_orders := 50,
           rl_max_position_per_symbol := 10000, rl_max_concurrent_positions := 10\<rparr>)
        else if normalized = ''shadow'' then Inr (base
          \<lparr>rl_max_position_size_pct := 5, rl_max_total_exposure_pct := 50, rl_max_daily_loss_pct := 1,
           rl_max_single_order_value := 100000, rl_max_open_orders := 5,
           rl_max_position_per_symbol := 2000, rl_max_concurrent_positions := 3\<rparr>)
        else if normalized = ''tiny-live'' then Inr (base
          \<lparr>rl_max_position_size_pct := 5, rl_max_total_exposure_pct := 20, rl_max_daily_loss_pct := 1/2,
           rl_max_single_order_value := 5000, rl_max_open_orders := 1,
           rl_max_position_per_symbol := 100, rl_max_concurrent_positions := 1\<rparr>)
        else if normalized = ''medium-live'' then Inr (base
          \<lparr>rl_max_position_size_pct := 3, rl_max_total_exposure_pct := 35, rl_max_daily_loss_pct := 3/4,
           rl_max_single_order_value := 50000, rl_max_open_orders := 3,
           rl_max_position_per_symbol := 1000, rl_max_concurrent_positions := 3\<rparr>)
        else Inl ValueError)"

definition update_portfolio_value :: "risk_limits \<Rightarrow> rat \<Rightarrow> rat \<Rightarrow> risk_limits" where
  "update_portfolio_value l new_value now =
    (if 0 < new_value then l\<lparr>rl_portfolio_value := new_value, rl_nav_last_updated := now\<rparr> else l)"

text \<open>\<open>nav_staleness_seconds\<close>: \<open>None\<close> is infinity.\<close>

definition nav_staleness_seconds :: "risk_limits \<Rightarrow> rat \<Rightarrow> rat option" where
  "nav_staleness_seconds l now =
    (if rl_nav_last_updated l = 0 then None else Some (now - rl_nav_last_updated l))"

text \<open>\<open>getattr(self, key, 0.0)\<close> on the numeric attributes.\<close>

definition limit_attr :: "risk_limits \<Rightarrow> str \<Rightarrow> rat" where
  "limit_attr l key =
    (case map_of
       [(''max_position_size_pct'', rl_max_position_size_pct l),
        (''max_total_exposure_pct'', rl_max_total_exposure_pct l),
        (''max_daily_loss_pct'', rl_max_daily_loss_pct l),
        (''max_single_order_value'', rl_max_single_order_value l),
        (''max_open_orders'', rl_max_open_orders l),
        (''max_position_per_symbol'', rl_max_position_per_symbol l),
        (''max_concurrent_positions'', rl_max_concurrent_positions l),
        (''max_sector_exposure_pct'', rl_max_sector_exposure_pct l),
        (''cooldown_after_loss_seconds'', rl_cooldown_after_loss_seconds l),
        (''portfolio_value'', rl_portfolio_value l)] key of
       None \<Rightarrow> 0 | Some x \<Rightarrow> x)"

definition override_of :: "(str \<times> rat) list option \<Rightarrow> str \<Rightarrow> rat option" where
  "override_of ov key = (case ov of None \<Rightarrow> None | Some m \<Rightarrow> map_of m key)"

definition get_limit :: "risk_limits \<Rightarrow> str \<Rightarrow> str option \<Rightarrow> rat" where
  "get_limit l key market =
    (if market = Some ''NSE'' \<and> override_of (rl_nse_overrides l) key \<noteq> None
       then the (override_of (rl_nse_overrides l) key)
     else if market = Some ''US'' \<and> override_of (rl_us_overrides l) key \<noteq> None
       then the (override_of (rl_us_overrides l) key)
     else limit_attr l key)"

section \<open>Validator results\<close>

text \<open>
  \<open>rr_reason\<close> is the leading code of the reason text; the numbers interpolated after it and the
  details are left out.
\<close>

record validation_result =
  rr_approved :: bool
  rr_validator_name :: str
  rr_reason :: str

definition approve :: "str \<Rightarrow> str \<Rightarrow> validation_result" where
  "approve name reason = \<lparr>rr_approved = True, rr_validator_name = name, rr_reason = reason\<rparr>"

definition reject :: "str \<Rightarrow> str \<Rightarrow> validation_result" where
  "reject name reason = \<lparr>rr_approved = False, rr_validator_name = name, rr_reason = reason\<rparr>"

definition is_paper_signal :: "signal \<Rightarrow> bool" where
  "is_paper_signal s = sg_paper_trade s"

definition risk_data_unavailable_result :: "signal \<Rightarrow> str \<Rightarrow> validation_result" where
  "risk_data_unavailable_result s name =
    (if is_paper_signal s then approve name ''PAPER_WARN_RISK_DATA_UNAVAILABLE''
     else reject name ''LIVE_RISK_DATA_UNAVAILABLE'')"

lemma result_simps [simp]:
  "rr_approved (approve n r)" "\<not> rr_approved (reject n r)"
  "rr_validator_name (approve n r) = n" "rr_validator_name (reject n r) = n"
  by (simp_all add: approve_def reject_def)

lemma unavailable_approved [simp]:
  "rr_approved (risk_data_unavailable_result s n) \<longleftrightarrow> sg_paper_trade s"
  "rr_validator_name (risk_data_unavailable_result s n) = n"
  by (simp_all add: risk_data_unavailable_result_def is_paper_signal_def)

text \<open>
  The contract of a validator that decides from one piece of data: its results carry its name, and
  without the data a live signal is rejected and a paper signal passes with a warning.
\<close>

locale mode_aware_validator =
  fixes validate :: "signal \<Rightarrow> 'd \<Rightarrow> validation_result"
    and missing :: "'d \<Rightarrow> bool"
    and name :: str
  assumes named: "rr_validator_name (validate s d) = name"
    and fallback: "missing d \<Longrightarrow> validate s d = risk_data_unavailable_result s name"
begin

lemma live_fails_closed: "missing d \<Longrightarrow> \<not> sg_paper_trade s \<Longrightarrow> \<not> rr_approved (validate s d)"
  by (simp add: fallback)

lemma paper_warns: "missing d \<Longrightarrow> sg_paper_trade s \<Longrightarrow> rr_approved (validate s d)"
  by (simp add: fallback)

lemma live_approval_has_data: "rr_approved (validate s d) \<Longrightarrow> \<not> sg_paper_trade s \<Longrightarrow> \<not> missing d"
  using live_fails_closed by blast

end

section \<open>Risk context\<close>

record position_state =
  ps_confirmed_quantity :: rat
  ps_pending_quantity :: rat
  ps_avg_entry_price :: rat

definition total_committed_quantity :: "position_state \<Rightarrow> rat" where
  "total_committed_quantity p = ps_confirmed_quantity p + ps_pending_quantity p"

record analytics_snapshot =
  an_sector_exposures :: "(str \<times> rat) list"
  an_portfolio_var_2pct :: rat
  an_portfolio_pnl_today :: rat
  an_computed_at :: "rat option"

definition analytics_staleness :: "analytics_snapshot \<Rightarrow> rat \<Rightarrow> rat option" where
  "analytics_staleness a now = (case an_computed_at a of None \<Rightarrow> None | Some t \<Rightarrow> Some (max 0 (now - t)))"

record risk_context =
  rc_signal :: signal
  rc_position :: position_state
  rc_current_exposure :: rat
  rc_portfolio_nav :: rat
  rc_analytics :: analytics_snapshot
  rc_live_spread_bps :: "rat option"
  rc_adv_20d :: "rat option"
  rc_fetched_at :: rat
  rc_risk_data_errors :: "str list"

definition signal_notional :: "risk_context \<Rightarrow> rat" where
  "signal_notional c = \<bar>of_int (sg_quantity (rc_signal c)) * sg_price_at_signal (rc_signal c)\<bar>"

definition proposed_exposure :: "risk_context \<Rightarrow> rat" where
  "proposed_exposure c = rc_current_exposure c + signal_notional c"

definition sector_exposure :: "risk_context \<Rightarrow> str \<Rightarrow> rat" where
  "sector_exposure c sector =
    (case map_of (an_sector_exposures (rc_analytics c)) sector of None \<Rightarrow> 0 | Some x \<Rightarrow> x)"

definition sector_exposure_pct :: "risk_context \<Rightarrow> str \<Rightarrow> rat" where
  "sector_exposure_pct c sector =
    (if rc_portfolio_nav c \<le> 0 then 0 else sector_exposure c sector / rc_portfolio_nav c * 100)"

definition proposed_sector_exposure :: "risk_context \<Rightarrow> str \<Rightarrow> rat" where
  "proposed_sector_exposure c sector = sector_exposure c sector + signal_notional c"

definition proposed_sector_exposure_pct :: "risk_context \<Rightarrow> str \<Rightarrow> rat" where
  "proposed_sector_exposure_pct c sector =
    (if rc_portfolio_nav c \<le> 0 then 0 else proposed_sector_exposure c sector / rc_portfolio_nav c * 100)"

definition fetched_at_age_seconds :: "risk_context \<Rightarrow> rat \<Rightarrow> rat" where
  "fetched_at_age_seconds c now = max 0 (now - rc_fetched_at c)"

section \<open>Properties\<close>

text \<open>
  A signal survives transport: \<open>from_dict\<close> of \<open>to_dict\<close> gives the same signal, for a time
  format that parses back.
\<close>

theorem signal_dict_roundtrip:
  assumes "fromiso (isofmt (sg_generated_at s)) = Some (sg_generated_at s)" "isofmt (sg_generated_at s) \<noteq> []"
  shows "signal_from_dict fromiso now (signal_to_dict isofmt s) = Inr s"
  using assms by (rule signal_dict_roundtrip_aux)

definition demo_signal :: "bool \<Rightarrow> signal" where
  "demo_signal paper =
    \<lparr>sg_signal_id = ''s1'', sg_symbol = ''INFY'', sg_market = ''NSE'', sg_direction = BUY,
     sg_quantity = 10, sg_confidence = 3/4, sg_strategy_name = ''orb'', sg_generated_at = 100,
     sg_status = SIG_PENDING, sg_price_at_signal = 1500, sg_stop_loss = Some 1480,
     sg_take_profit = None, sg_paper_trade = paper, sg_metadata = []\<rparr>"

theorem signal_dict_roundtrip_witness:
  "signal_from_dict (\<lambda>_. Some 100) 0 (signal_to_dict (\<lambda>_. ''t'') (demo_signal True)) = Inr (demo_signal True)"
  by (rule signal_dict_roundtrip) (simp_all add: demo_signal_def)

end
