(* ===== verification/EntryBlock.thy ===== *)
theory EntryBlock
  imports RiskState Signals
begin

text \<open>
  The readers of the global entry block and of the reconciliation flag:
  \<open>services/shared/entry_block_reader.py\<close>,
  \<open>services/risk_engine/validators/entry_block_validator.py\<close> and
  \<open>services/risk_engine/validators/reconciliation_validator.py\<close>.  The three caches satisfy the
  contract \<open>ttl_flag\<close> of the prelude; the two entry-block caches also \<open>retrying_flag\<close>.
\<close>

section \<open>EntryBlockState\<close>

record entry_block_state =
  eb_blocked :: bool
  eb_reason :: str
  eb_source :: str
  eb_action_id :: str
  eb_idempotency_key :: str
  eb_created_at :: str
  eb_schema_version :: str
  eb_read_ok :: bool

definition eb_allow :: entry_block_state where
  "eb_allow = \<lparr>eb_blocked = False, eb_reason = [], eb_source = [], eb_action_id = [],
    eb_idempotency_key = [], eb_created_at = [], eb_schema_version = [], eb_read_ok = True\<rparr>"

definition blocked_from_item :: "(rat \<Rightarrow> str) \<Rightarrow> item \<Rightarrow> entry_block_state" where
  "blocked_from_item ns i =
    (let raw = lowlevel i in
     \<lparr>eb_blocked = attr_bool ns raw ''blocked'' False,
      eb_reason = attr_string ns raw ''reason'' [],
      eb_source = attr_string ns raw ''source'' [],
      eb_action_id = attr_string ns raw ''action_id'' [],
      eb_idempotency_key = attr_string ns raw ''idempotency_key'' [],
      eb_created_at = attr_string ns raw ''created_at'' [],
      eb_schema_version = attr_string ns raw ''schema_version'' [],
      eb_read_ok = True\<rparr>)"

definition eb_fail_closed :: entry_block_state where
  "eb_fail_closed = eb_allow\<lparr>eb_blocked := True, eb_reason := ''entry_block_read_failure'', eb_read_ok := False\<rparr>"

definition eb_fail_open :: entry_block_state where
  "eb_fail_open = eb_allow\<lparr>eb_reason := ''entry_block_read_failure'', eb_read_ok := False\<rparr>"

section \<open>EntryBlockReader\<close>

record 'w ebr_config =
  er_dynamo :: "'w dynamo"
  er_table :: str
  er_ttl :: rat
  er_fail_closed :: bool
  er_num_str :: "rat \<Rightarrow> str"

record ebr_state =
  er_cached :: entry_block_state
  er_cached_at :: rat

definition new_reader :: ebr_state where
  "new_reader = \<lparr>er_cached = eb_allow, er_cached_at = 0\<rparr>"

text \<open>\<open>read(force)\<close> at the monotonic time \<open>now\<close>.\<close>

definition eb_read :: "'w ebr_config \<Rightarrow> bool \<Rightarrow> rat \<Rightarrow> ebr_state \<times> 'w
    \<Rightarrow> entry_block_state \<times> ebr_state \<times> 'w" where
  "eb_read cf force now sw =
    (case sw of (s, w) \<Rightarrow>
      if \<not> force \<and> now - er_cached_at s < er_ttl cf then (er_cached s, s, w)
      else
        (case dy_get (er_dynamo cf) w (er_table cf) entry_block_key of
           (Inr found, w) \<Rightarrow>
             (let state = (case found of None \<Rightarrow> eb_allow | Some i \<Rightarrow> blocked_from_item (er_num_str cf) i)
              in (state, \<lparr>er_cached = state, er_cached_at = now\<rparr>, w))
         | (Inl _, w) \<Rightarrow>
             (if er_fail_closed cf then eb_fail_closed else eb_fail_open, s, w)))"

definition eb_invalidate :: "ebr_state \<Rightarrow> ebr_state" where
  "eb_invalidate s = s\<lparr>er_cached_at := 0\<rparr>"

section \<open>EntryBlockValidator\<close>

definition ENTRY_BLOCK_VALIDATOR :: str where
  "ENTRY_BLOCK_VALIDATOR = ''entry_block_validator''"

record 'w ebv_config =
  ev_dynamo :: "'w dynamo"
  ev_table :: str
  ev_profile :: str
  ev_fail_closed :: bool
  ev_ttl :: rat
  ev_num_str :: "rat \<Rightarrow> str"

text \<open>The constructor: \<open>fail_closed_on_error\<close> defaults to true for every profile but paper.\<close>

definition ebv_init :: "'w dynamo \<Rightarrow> str \<Rightarrow> str \<Rightarrow> bool option \<Rightarrow> rat \<Rightarrow> (rat \<Rightarrow> str) \<Rightarrow> 'w ebv_config" where
  "ebv_init D table risk_profile fail_closed_on_error ttl ns =
    (let profile = py_lower risk_profile in
     \<lparr>ev_dynamo = D, ev_table = table, ev_profile = profile,
      ev_fail_closed = (case fail_closed_on_error of Some v \<Rightarrow> v | None \<Rightarrow> profile \<noteq> ''paper''),
      ev_ttl = ttl, ev_num_str = ns\<rparr>)"

record ebv_state =
  ev_blocked :: bool
  ev_reason :: str
  ev_source :: str
  ev_action_id :: str
  ev_read_ok :: bool
  ev_cached_at :: rat

definition new_ebv :: ebv_state where
  "new_ebv = \<lparr>ev_blocked = False, ev_reason = [], ev_source = [], ev_action_id = [],
    ev_read_ok = True, ev_cached_at = 0\<rparr>"

definition ebv_refresh :: "'w ebv_config \<Rightarrow> rat \<Rightarrow> rat \<Rightarrow> ebv_state \<times> 'w \<Rightarrow> ebv_state \<times> 'w" where
  "ebv_refresh cf t1 t2 sw =
    (case sw of (s, w) \<Rightarrow>
      if t1 - ev_cached_at s < ev_ttl cf then (s, w)
      else
        (case dy_get (ev_dynamo cf) w (ev_table cf) entry_block_key of
           (Inl _, w) \<Rightarrow> (s\<lparr>ev_read_ok := False\<rparr>, w)
         | (Inr (Some i), w) \<Rightarrow>
             (\<lparr>ev_blocked = attr_bool (ev_num_str cf) (lowlevel i) ''blocked'' False,
               ev_reason = attr_string (ev_num_str cf) (lowlevel i) ''reason'' [],
               ev_source = attr_string (ev_num_str cf) (lowlevel i) ''source'' [],
               ev_action_id = attr_string (ev_num_str cf) (lowlevel i) ''action_id'' [],
               ev_read_ok = True, ev_cached_at = t2\<rparr>, w)
         | (Inr None, w) \<Rightarrow>
             (\<lparr>ev_blocked = False, ev_reason = [], ev_source = [], ev_action_id = [],
               ev_read_ok = True, ev_cached_at = t2\<rparr>, w)))"

definition ebv_exempt :: "'w ebv_config \<Rightarrow> signal \<Rightarrow> bool" where
  "ebv_exempt cf sg \<longleftrightarrow> is_closeout sg \<or> (is_paper_signal sg \<and> ev_profile cf = ''paper'')"

definition ebv_validate :: "'w ebv_config \<Rightarrow> rat \<Rightarrow> rat \<Rightarrow> signal \<Rightarrow> ebv_state \<times> 'w
    \<Rightarrow> validation_result \<times> ebv_state \<times> 'w" where
  "ebv_validate cf t1 t2 sg sw =
    (if is_closeout sg then (approve ENTRY_BLOCK_VALIDATOR ''closeout_exempt'', sw)
     else if is_paper_signal sg \<and> ev_profile cf = ''paper'' then
       (approve ENTRY_BLOCK_VALIDATOR ''paper_signal_exempt_in_paper_profile'', sw)
     else
       (case ebv_refresh cf t1 t2 sw of (s, w) \<Rightarrow>
         if \<not> ev_read_ok s then
           (if ev_fail_closed cf
              then (reject ENTRY_BLOCK_VALIDATOR ''ENTRY_BLOCK_READ_FAILURE_FAIL_CLOSED'', s, w)
              else (approve ENTRY_BLOCK_VALIDATOR ''ENTRY_BLOCK_READ_FAILURE_WARN_ALLOW'', s, w))
         else if ev_blocked s then (reject ENTRY_BLOCK_VALIDATOR ''ENTRY_BLOCK_ACTIVE'', s, w)
         else (approve ENTRY_BLOCK_VALIDATOR ''entry_block_not_active'', s, w)))"

definition ebv_invalidate :: "ebv_state \<Rightarrow> ebv_state" where
  "ebv_invalidate s = s\<lparr>ev_cached_at := 0\<rparr>"

section \<open>ReconciliationValidator\<close>

definition RECONCILIATION_VALIDATOR :: str where
  "RECONCILIATION_VALIDATOR = ''reconciliation_validator''"

definition RECONCILIATION_CACHE_TTL :: rat where
  "RECONCILIATION_CACHE_TTL = 1"

text \<open>\<open>rv_metric\<close> is the CloudWatch call of a read failure, whose own failure is swallowed.\<close>

record 'w rv_config =
  rv_dynamo :: "'w dynamo"
  rv_table :: str
  rv_metric :: "('w \<Rightarrow> 'w) option"
  rv_num_str :: "rat \<Rightarrow> str"

record rv_state =
  rv_required :: bool
  rv_reason :: str
  rv_set_by :: str
  rv_last_refresh :: rat
  rv_consecutive_read_failures :: nat

definition new_rv :: rv_state where
  "new_rv = \<lparr>rv_required = False, rv_reason = [], rv_set_by = [], rv_last_refresh = 0,
    rv_consecutive_read_failures = 0\<rparr>"

definition emit_read_failure_metric :: "'w rv_config \<Rightarrow> 'w \<Rightarrow> 'w" where
  "emit_read_failure_metric cf w = (case rv_metric cf of None \<Rightarrow> w | Some put \<Rightarrow> put w)"

definition rv_refresh :: "'w rv_config \<Rightarrow> rat \<Rightarrow> rat \<Rightarrow> rv_state \<times> 'w \<Rightarrow> rv_state \<times> 'w" where
  "rv_refresh cf t1 t2 sw =
    (case sw of (s, w) \<Rightarrow>
      if t1 - rv_last_refresh s < RECONCILIATION_CACHE_TTL then (s, w)
      else
        (case dy_get (rv_dynamo cf) w (rv_table cf) reconciliation_key of
           (Inl _, w) \<Rightarrow>
             (s\<lparr>rv_consecutive_read_failures := rv_consecutive_read_failures s + 1,
                rv_required := False, rv_last_refresh := t2\<rparr>, emit_read_failure_metric cf w)
         | (Inr (Some i), w) \<Rightarrow>
             (\<lparr>rv_required = attr_bool (rv_num_str cf) (lowlevel i) ''required'' False,
               rv_reason = attr_string (rv_num_str cf) (lowlevel i) ''reason'' [],
               rv_set_by = attr_string (rv_num_str cf) (lowlevel i) ''set_by'' [],
               rv_last_refresh = t2, rv_consecutive_read_failures = 0\<rparr>, w)
         | (Inr None, w) \<Rightarrow>
             (\<lparr>rv_required = False, rv_reason = [], rv_set_by = [], rv_last_refresh = t2,
               rv_consecutive_read_failures = 0\<rparr>, w)))"

definition rv_validate :: "'w rv_config \<Rightarrow> rat \<Rightarrow> rat \<Rightarrow> signal \<Rightarrow> rv_state \<times> 'w
    \<Rightarrow> validation_result \<times> rv_state \<times> 'w" where
  "rv_validate cf t1 t2 sg sw =
    (if sg_paper_trade sg then (approve RECONCILIATION_VALIDATOR ''paper_trade_exempt'', sw)
     else if is_closeout sg then (approve RECONCILIATION_VALIDATOR ''closeout_exempt'', sw)
     else
       (case rv_refresh cf t1 t2 sw of (s, w) \<Rightarrow>
         if rv_required s then (reject RECONCILIATION_VALIDATOR ''RECONCILIATION_REQUIRED'', s, w)
         else (approve RECONCILIATION_VALIDATOR ''reconciliation_not_required'', s, w)))"

section \<open>The caches satisfy the contract\<close>

text \<open>One read of the flag, as the caches see it.\<close>

definition read_flag :: "(rat \<Rightarrow> str) \<Rightarrow> 'w dynamo \<Rightarrow> str \<Rightarrow> key \<Rightarrow> str \<Rightarrow> 'w \<Rightarrow> bool option \<times> 'w" where
  "read_flag ns D table k name w =
    (case dy_get D w table k of
       (Inl _, w) \<Rightarrow> (None, w)
     | (Inr None, w) \<Rightarrow> (Some False, w)
     | (Inr (Some i), w) \<Rightarrow> (Some (attr_bool ns (lowlevel i) name False), w))"

definition ebv_read :: "'w ebv_config \<Rightarrow> 'w \<Rightarrow> bool option \<times> 'w" where
  "ebv_read cf = read_flag (ev_num_str cf) (ev_dynamo cf) (ev_table cf) entry_block_key ''blocked''"

interpretation ebv: retrying_flag "case_prod (ebv_refresh cf)" fst snd "ebv_read cf"
    ev_blocked ev_cached_at "ev_ttl cf" for cf
  by unfold_locales
    (auto simp: ebv_refresh_def ebv_read_def read_flag_def split: prod.splits sum.splits option.splits)

text \<open>The shared reader takes one clock reading for both.\<close>

interpretation reader: retrying_flag "\<lambda>now sw. snd (eb_read cf False now sw)" id id
    "read_flag (er_num_str cf) (er_dynamo cf) (er_table cf) entry_block_key ''blocked''"
    "\<lambda>s. eb_blocked (er_cached s)" er_cached_at "er_ttl cf" for cf
  by unfold_locales
    (auto simp: eb_read_def read_flag_def blocked_from_item_def eb_allow_def Let_def
      split: prod.splits sum.splits option.splits)

interpretation rv: ttl_flag "case_prod (rv_refresh cf)" fst snd
    "read_flag (rv_num_str cf) (rv_dynamo cf) (rv_table cf) reconciliation_key ''required''"
    rv_required rv_last_refresh RECONCILIATION_CACHE_TTL for cf
  by unfold_locales
    (auto simp: rv_refresh_def read_flag_def split: prod.splits sum.splits option.splits)

section \<open>Runs of the entry-block validator\<close>

text \<open>
  A sequence of \<open>validate\<close> calls, each with its clock readings and preceded by a change \<open>env\<close> of the
  world by the rest of the system; \<open>ebv_seen\<close> are the successful reads the calls made.
\<close>

type_synonym 'w ebv_call = "('w \<Rightarrow> 'w) \<times> rat \<times> rat \<times> signal"

fun ebv_run :: "'w ebv_config \<Rightarrow> 'w ebv_call list \<Rightarrow> ebv_state \<times> 'w \<Rightarrow> ebv_state \<times> 'w" where
  "ebv_run cf [] sw = sw"
| "ebv_run cf ((env, t1, t2, sg) # cs) (s, w) =
    ebv_run cf cs (snd (ebv_validate cf t1 t2 sg (s, env w)))"

fun ebv_seen :: "'w ebv_config \<Rightarrow> 'w ebv_call list \<Rightarrow> ebv_state \<times> 'w \<Rightarrow> (rat \<times> bool) list" where
  "ebv_seen cf [] sw = []"
| "ebv_seen cf ((env, t1, t2, sg) # cs) (s, w) =
    (if ebv_exempt cf sg then []
     else reads_of (ebv_read cf) (ev_ttl cf) (ev_cached_at s) t1 t2 (env w))
    @ ebv_seen cf cs (snd (ebv_validate cf t1 t2 sg (s, env w)))"

lemma entry_block_item_action_id:
  "entry_block_item bl reason src aid ik ts ''action_id'' = Some (S aid)"
  by (simp add: entry_block_item_def entry_block_key_def)

lemma ebv_validate_state:
  "snd (ebv_validate cf t1 t2 sg sw) = (if ebv_exempt cf sg then sw else ebv_refresh cf t1 t2 sw)"
  by (auto simp: ebv_validate_def ebv_exempt_def split: prod.splits)

lemma ebv_validate_live:
  "\<not> ebv_exempt cf sg \<Longrightarrow> ebv_refresh cf t1 t2 sw = (s, w) \<Longrightarrow>
    rr_approved (fst (ebv_validate cf t1 t2 sg sw)) \<longleftrightarrow>
      (if ev_read_ok s then \<not> ev_blocked s else \<not> ev_fail_closed cf)"
  by (auto simp: ebv_validate_def ebv_exempt_def)

lemma ebv_origin_run:
  assumes "ev_cached_at s = 0 \<or> (ev_cached_at s, ev_blocked s) \<in> set seen"
    and "ebv_run cf cs (s, w) = (s', w')"
  shows "ev_cached_at s' = 0 \<or> (ev_cached_at s', ev_blocked s') \<in> set (seen @ ebv_seen cf cs (s, w))"
  using assms
proof (induction cs arbitrary: s w seen)
  case (Cons c cs)
  obtain env t1 t2 sg where c: "c = (env, t1, t2, sg)" by (cases c) auto
  obtain s1 w1 where v: "snd (ebv_validate cf t1 t2 sg (s, env w)) = (s1, w1)" by force
  let ?new = "if ebv_exempt cf sg then []
     else reads_of (ebv_read cf) (ev_ttl cf) (ev_cached_at s) t1 t2 (env w)"
  have "ev_cached_at s1 = 0 \<or> (ev_cached_at s1, ev_blocked s1) \<in> set (seen @ ?new)"
    using Cons.prems(1) v ebv.origin_refresh [of s seen cf "(t1, t2)" "env w" s1 w1]
    by (auto simp: ebv_validate_state split: if_splits)
  from Cons.IH [OF this, of w1] Cons.prems(2) show ?case
    by (simp add: c v)
qed simp

lemma ebv_ok_refresh:
  assumes "ebv_refresh cf t1 t2 (s, w) = (s', w')" "ev_read_ok s'"
  shows "t1 - ev_cached_at s' < ev_ttl cf \<or>
    (\<exists>v. reads_of (ebv_read cf) (ev_ttl cf) (ev_cached_at s) t1 t2 w = [(t2, v)] \<and> ev_cached_at s' = t2 \<and> ev_blocked s' = v)"
  using assms
  by (auto simp: ebv_refresh_def ebv_read_def read_flag_def reads_of_def split: if_splits prod.splits sum.splits option.splits)

section \<open>Properties\<close>

text \<open>
  Bounded staleness of the entry block: in every run of the validator from its start, with other
  processes changing the table between the calls, a non-exempt signal is approved (the profile failing
  closed) only on the strength of a successful read, at most one time to live old, that saw the block
  absent.
\<close>

theorem entry_block_staleness_bounded:
  assumes run: "ebv_run cf cs (new_ebv, w0) = (s, w)"
    and ok: "rr_approved (fst (ebv_validate cf t1 t2 sg (s, env w)))"
    and live: "\<not> ebv_exempt cf sg" "ev_fail_closed cf"
    and clock: "ev_ttl cf \<le> t1" "t1 \<le> t2" "0 < ev_ttl cf"
  shows "\<exists>t. (t, False) \<in> set (ebv_seen cf (cs @ [(env, t1, t2, sg)]) (new_ebv, w0)) \<and> t1 - t < ev_ttl cf"
proof -
  have app: "ebv_seen cf (cs @ [c]) sw = ebv_seen cf cs sw @ ebv_seen cf [c] (ebv_run cf cs sw)" for c sw
    by (induction cs sw rule: ebv_run.induct) (auto split: prod.splits)
  obtain s' w' where r: "ebv_refresh cf t1 t2 (s, env w) = (s', w')" by force
  have b: "ev_read_ok s'" "\<not> ev_blocked s'"
    using ebv_validate_live [OF live(1) r] ok live(2) by (auto split: if_splits)
  have "ev_cached_at s = 0 \<or> (ev_cached_at s, ev_blocked s) \<in> set ([] @ ebv_seen cf cs (new_ebv, w0))"
    by (rule ebv_origin_run [OF _ run]) (simp add: new_ebv_def)
  then have "ev_cached_at s' = 0 \<or> (ev_cached_at s', ev_blocked s') \<in> set (ebv_seen cf (cs @ [(env, t1, t2, sg)]) (new_ebv, w0))"
    using ebv.origin_refresh [of s _ cf "(t1, t2)" "env w" s' w'] r live(1) by (simp add: app run)
  then show ?thesis
    using ebv_ok_refresh [OF r b(1)] b(2) clock live(1)
    by (auto simp: app run)
qed

text \<open>A validator over the in-memory client, as the service builds it for a live profile.\<close>

definition demo_ebv :: "mem ebv_config" where
  "demo_ebv = ebv_init mem_dynamo ''risk'' ''tiny-live'' None 5 (\<lambda>_. [])"

theorem entry_block_staleness_bounded_witness:
  "\<exists>t. (t, False) \<in> set (ebv_seen demo_ebv ([(id, 100, 101, demo_signal False)] @ [(id, 103, 104, demo_signal False)]) (new_ebv, []))
    \<and> 103 - t < (5::rat)"
proof -
  obtain s w where run: "ebv_run demo_ebv [(id, 100, 101, demo_signal False)] (new_ebv, []) = (s, w)" by force
  then have sw: "s = new_ebv\<lparr>ev_cached_at := 101\<rparr>" "w = []"
    by (auto simp: demo_ebv_def ebv_init_def ebv_validate_def ebv_refresh_def new_ebv_def demo_signal_def
        is_closeout_def is_paper_signal_def mem_simps Let_def)
  show ?thesis
    using entry_block_staleness_bounded [OF run, of 103 104 "demo_signal False" id]
    by (simp add: sw demo_ebv_def ebv_init_def ebv_validate_def ebv_refresh_def new_ebv_def demo_signal_def
        is_closeout_def is_paper_signal_def ebv_exempt_def Let_def py_lower_def lower_char_def)
qed

text \<open>
  An entry block written by a safe action is enforced: once the cached copy has expired and the
  store returns the row of \<open>write_block_new_entries\<close>, the validator rejects every non-exempt signal
  and the shared reader reports the block with the writer's reason and action id.
\<close>

theorem written_entry_block_enforced:
  assumes row: "dy_get (ev_dynamo cf) w (ev_table cf) entry_block_key
      = (Inr (Some (entry_block_item True reason src aid ik ts)), w')"
    and sg: "\<not> ebv_exempt cf sg"
    and old: "ev_cached_at s + ev_ttl cf \<le> t1"
    and rd: "er_dynamo rcf = ev_dynamo cf" "er_table rcf = ev_table cf"
  shows "\<not> rr_approved (fst (ebv_validate cf t1 t2 sg (s, w))) \<and>
    eb_blocked (fst (eb_read rcf True t1 (rs, w))) \<and>
    eb_reason (fst (eb_read rcf True t1 (rs, w))) = reason \<and>
    eb_action_id (fst (eb_read rcf True t1 (rs, w))) = aid"
proof -
  obtain s' w2 where r: "ebv_refresh cf t1 t2 (s, w) = (s', w2)" by force
  have rd': "read_flag (ev_num_str cf) (ev_dynamo cf) (ev_table cf) entry_block_key ''blocked'' w = (Some True, w')"
    by (simp add: read_flag_def row attr_bool_lowlevel_BOOL entry_block_item_apply)
  have "ev_blocked s'"
    using ebv.seen_after_ttl [of s cf "(t1, t2)" w True s' w2] old r rd' by (simp add: ebv_read_def)
  moreover have "ev_read_ok s'"
    using r old row by (auto simp: ebv_refresh_def)
  ultimately have "\<not> rr_approved (fst (ebv_validate cf t1 t2 sg (s, w)))"
    using ebv_validate_live [OF sg r] by simp
  moreover have "fst (eb_read rcf True t1 (rs, w)) = blocked_from_item (er_num_str rcf) (entry_block_item True reason src aid ik ts)"
    by (simp add: eb_read_def rd row Let_def)
  ultimately show ?thesis
    by (simp add: blocked_from_item_def Let_def attr_bool_lowlevel_BOOL attr_string_lowlevel_S
        entry_block_item_apply entry_block_item_action_id)
qed

definition demo_reader :: "mem ebr_config" where
  "demo_reader = \<lparr>er_dynamo = mem_dynamo, er_table = ''risk'', er_ttl = 5, er_fail_closed = True, er_num_str = (\<lambda>_. [])\<rparr>"

theorem written_entry_block_enforced_witness:
  "let w = [((''risk'', entry_block_key), entry_block_item True ''drift'' ''agent'' ''a1'' ''k1'' ''t'')]
   in \<not> rr_approved (fst (ebv_validate demo_ebv 100 101 (demo_signal True) (new_ebv, w)))
      \<and> eb_blocked (fst (eb_read demo_reader True 100 (new_reader, w)))"
proof -
  let ?w = "[((''risk'', entry_block_key), entry_block_item True ''drift'' ''agent'' ''a1'' ''k1'' ''t'')]"
  have "\<not> rr_approved (fst (ebv_validate demo_ebv 100 101 (demo_signal True) (new_ebv, ?w))) \<and>
      eb_blocked (fst (eb_read demo_reader True 100 (new_reader, ?w))) \<and>
      eb_reason (fst (eb_read demo_reader True 100 (new_reader, ?w))) = ''drift'' \<and>
      eb_action_id (fst (eb_read demo_reader True 100 (new_reader, ?w))) = ''a1''"
    by (rule written_entry_block_enforced [where cf = demo_ebv and rcf = demo_reader and s = new_ebv and sg = "demo_signal True"
          and reason = "''drift''" and src = "''agent''" and aid = "''a1''" and ik = "''k1''" and ts = "''t''"])
      (simp_all add: demo_ebv_def demo_reader_def ebv_init_def ebv_exempt_def is_closeout_def is_paper_signal_def
        demo_signal_def new_ebv_def mem_simps Let_def py_lower_def lower_char_def)
  then show ?thesis
    by simp
qed

text \<open>
  The reconciliation halt fails open: whatever the cached flag, when the copy has expired and the
  read fails, the live signal is approved, the flag is dropped and the failure counted; the copy
  counts as fresh again, so the next second of signals passes without a read.
\<close>

theorem reconciliation_fails_open:
  assumes "dy_get (rv_dynamo cf) w (rv_table cf) reconciliation_key = (Inl e, w')"
    and "rv_last_refresh s + RECONCILIATION_CACHE_TTL \<le> t1"
    and "rv_validate cf t1 t2 sg (s, w) = (r, s', w'')" "\<not> sg_paper_trade sg" "\<not> is_closeout sg"
    and later: "t3 < t2 + RECONCILIATION_CACHE_TTL" "\<not> sg_paper_trade sg'" "\<not> is_closeout sg'"
  shows "rr_approved r \<and> \<not> rv_required s' \<and>
    rv_consecutive_read_failures s' = rv_consecutive_read_failures s + 1 \<and>
    rr_approved (fst (rv_validate cf t3 t4 sg' (s', v)))"
proof -
  have s': "s' = s\<lparr>rv_consecutive_read_failures := rv_consecutive_read_failures s + 1,
      rv_required := False, rv_last_refresh := t2\<rparr>" and r: "rr_approved r"
    using assms(1-5) by (auto simp: rv_validate_def rv_refresh_def)
  have "rv_refresh cf t3 t4 (s', v) = (s', v)"
    using rv.hit [of "(t3, t4)" s' cf v] later(1) by (simp add: s')
  then show ?thesis
    using r later by (simp add: rv_validate_def s')
qed

definition demo_rv :: "mem rv_config" where
  "demo_rv = \<lparr>rv_dynamo = mem_dynamo\<lparr>dy_get := \<lambda>w tbl k. (Inl TimeoutError, w)\<rparr>, rv_table = ''risk'',
    rv_metric = None, rv_num_str = (\<lambda>_. [])\<rparr>"

theorem reconciliation_fails_open_witness:
  "case rv_validate demo_rv 100 101 (demo_signal False) (new_rv\<lparr>rv_required := True\<rparr>, []) of (r, s, w) \<Rightarrow>
     rr_approved r \<and> rr_approved (fst (rv_validate demo_rv (203/2) 102 (demo_signal False) (s, w)))"
proof -
  obtain r s w where v: "rv_validate demo_rv 100 101 (demo_signal False) (new_rv\<lparr>rv_required := True\<rparr>, []) = (r, s, w)"
    by (metis prod_cases3)
  have "rr_approved r \<and> \<not> rv_required s \<and> rv_consecutive_read_failures s = rv_consecutive_read_failures (new_rv\<lparr>rv_required := True\<rparr>) + 1
      \<and> rr_approved (fst (rv_validate demo_rv (203/2) 102 (demo_signal False) (s, w)))"
    by (rule reconciliation_fails_open [OF _ _ v])
      (simp_all add: demo_rv_def new_rv_def demo_signal_def is_closeout_def RECONCILIATION_CACHE_TTL_def)
  then show ?thesis
    by (simp add: v)
qed

end
