(* ===== verification/GateValidators.thy ===== *)
theory GateValidators
  imports RiskState Signals
begin

text \<open>
  The validators of one signal against one piece of market data:
  \<open>signal_age_validator.py\<close>, \<open>liquidity_validator.py\<close>, \<open>spread_gate_validator.py\<close>,
  \<open>sector_validator.py\<close>, \<open>margin_validator.py\<close> and \<open>slippage_validator.py\<close> under
  \<open>services/risk_engine/validators/\<close>.  The three validators that read the pre-fetched context satisfy
  the contract \<open>mode_aware_validator\<close>.
\<close>

text \<open>\<open>float(item.get(name, {}).get("N", "0"))\<close> on a stored row.\<close>

definition item_float :: "item \<Rightarrow> str \<Rightarrow> rat" where
  "item_float i name = num_of 0 (i name)"

section \<open>Signal age\<close>

definition ABSOLUTE_MAX_AGE_SECONDS :: rat where
  "ABSOLUTE_MAX_AGE_SECONDS = 30"

definition SIGNAL_AGE_VALIDATOR :: str where
  "SIGNAL_AGE_VALIDATOR = ''signal_age_validator''"

definition max_age_seconds :: "rat \<Rightarrow> rat" where
  "max_age_seconds raw_max = min raw_max ABSOLUTE_MAX_AGE_SECONDS"

definition age_validate :: "rat \<Rightarrow> rat \<Rightarrow> signal \<Rightarrow> validation_result" where
  "age_validate raw_max now sg =
    (let age = now - sg_generated_at sg in
     if age < 0 then
       (if 2 < \<bar>age\<bar> then reject SIGNAL_AGE_VALIDATOR ''future timestamp''
        else approve SIGNAL_AGE_VALIDATOR ''Signal age OK'')
     else if max_age_seconds raw_max < age then reject SIGNAL_AGE_VALIDATOR ''Signal is stale''
     else approve SIGNAL_AGE_VALIDATOR ''Signal age within limit'')"

lemma age_validate_iff:
  "rr_approved (age_validate raw_max now sg) \<longleftrightarrow>
    sg_generated_at sg - 2 \<le> now \<and> (now < sg_generated_at sg \<or> now \<le> sg_generated_at sg + max_age_seconds raw_max)"
  by (auto simp: age_validate_def Let_def)

section \<open>Liquidity\<close>

definition LIQUIDITY_VALIDATOR :: str where
  "LIQUIDITY_VALIDATOR = ''liquidity_validator''"

definition LIQUID_ADV_FLOOR :: rat where
  "LIQUID_ADV_FLOOR = 1000000"

text \<open>A threshold with per-symbol overrides, as the liquidity and the spread gate have it.\<close>

record threshold_config =
  th_max :: rat
  th_overrides :: "(str \<times> rat) list"

definition threshold :: "threshold_config \<Rightarrow> str \<Rightarrow> rat" where
  "threshold cf symbol = opt_default (th_max cf) (map_of (th_overrides cf) symbol)"

definition liquidity_validate :: "threshold_config \<Rightarrow> risk_context \<Rightarrow> validation_result" where
  "liquidity_validate cf c =
    (let sg = rc_signal c in
     case rc_adv_20d c of
       None \<Rightarrow> risk_data_unavailable_result sg LIQUIDITY_VALIDATOR
     | Some adv \<Rightarrow>
        if adv \<le> 0 then risk_data_unavailable_result sg LIQUIDITY_VALIDATOR
        else if LIQUID_ADV_FLOOR \<le> adv then approve LIQUIDITY_VALIDATOR ''Liquid instrument''
        else
          (let order_adv_pct = of_int (sg_quantity sg) / adv * 100 in
           if threshold cf (sg_symbol sg) < order_adv_pct then reject LIQUIDITY_VALIDATOR ''exceeds max''
           else approve LIQUIDITY_VALIDATOR ''Order size within threshold''))"

definition adv_missing :: "risk_context \<Rightarrow> bool" where
  "adv_missing c \<longleftrightarrow> (case rc_adv_20d c of None \<Rightarrow> True | Some adv \<Rightarrow> adv \<le> 0)"

interpretation liquidity: mode_aware_validator "\<lambda>s c. liquidity_validate cf (c\<lparr>rc_signal := s\<rparr>)"
    adv_missing LIQUIDITY_VALIDATOR for cf
  by unfold_locales (auto simp: liquidity_validate_def adv_missing_def Let_def split: option.splits)

section \<open>Spread gate\<close>

definition SPREAD_GATE_VALIDATOR :: str where
  "SPREAD_GATE_VALIDATOR = ''spread_gate_validator''"

definition spread_validate :: "threshold_config \<Rightarrow> risk_context \<Rightarrow> validation_result" where
  "spread_validate cf c =
    (let sg = rc_signal c in
     case rc_live_spread_bps c of
       None \<Rightarrow> risk_data_unavailable_result sg SPREAD_GATE_VALIDATOR
     | Some spread_bps \<Rightarrow>
        if threshold cf (sg_symbol sg) < spread_bps then reject SPREAD_GATE_VALIDATOR ''Spread exceeds max''
        else approve SPREAD_GATE_VALIDATOR ''Spread within threshold'')"

definition spread_missing :: "risk_context \<Rightarrow> bool" where
  "spread_missing c \<longleftrightarrow> rc_live_spread_bps c = None"

interpretation spread: mode_aware_validator "\<lambda>s c. spread_validate cf (c\<lparr>rc_signal := s\<rparr>)"
    spread_missing SPREAD_GATE_VALIDATOR for cf
  by unfold_locales (auto simp: spread_validate_def spread_missing_def Let_def split: option.splits)

section \<open>Sector concentration\<close>

definition SECTOR_VALIDATOR :: str where
  "SECTOR_VALIDATOR = ''sector_concentration_validator''"

text \<open>The registry's \<open>get\<close>: raises, has no entry, or gives the entry's sector.\<close>

type_synonym registry = "str \<Rightarrow> str option res"

definition get_sector :: "registry option \<Rightarrow> str \<Rightarrow> str" where
  "get_sector reg symbol =
    (case reg of
       None \<Rightarrow> ''UNKNOWN''
     | Some get \<Rightarrow> (case get symbol of Inr (Some sector) \<Rightarrow> sector | _ \<Rightarrow> ''UNKNOWN''))"

definition sector_validate :: "risk_limits \<Rightarrow> registry option \<Rightarrow> risk_context \<Rightarrow> validation_result" where
  "sector_validate limits reg c =
    (let sg = rc_signal c; sector = get_sector reg (sg_symbol sg) in
     if sector = ''UNKNOWN'' then risk_data_unavailable_result sg SECTOR_VALIDATOR
     else
       (let max_pct = get_limit limits ''max_sector_exposure_pct'' None; nav = rc_portfolio_nav c in
        if nav \<le> 0 then risk_data_unavailable_result sg SECTOR_VALIDATOR
        else
          (let proposed_pct = proposed_sector_exposure c sector / nav * 100 in
           if max_pct < proposed_pct then reject SECTOR_VALIDATOR ''concentration''
           else approve SECTOR_VALIDATOR ''within limit'')))"

text \<open>The validator of one symbol; the sector is a function of the signal's symbol.\<close>

interpretation sector: mode_aware_validator
    "\<lambda>s c. sector_validate limits reg (c\<lparr>rc_signal := s\<lparr>sg_symbol := symbol\<rparr>\<rparr>)"
    "\<lambda>c. get_sector reg symbol = ''UNKNOWN'' \<or> rc_portfolio_nav c \<le> 0" SECTOR_VALIDATOR for limits reg symbol
  by unfold_locales
    (auto simp: sector_validate_def Let_def risk_data_unavailable_result_def is_paper_signal_def)

section \<open>Margin\<close>

definition MARGIN_VALIDATOR :: str where
  "MARGIN_VALIDATOR = ''margin_validator''"

definition MARGIN_CACHE_TTL :: rat where
  "MARGIN_CACHE_TTL = 5"

record margin_snapshot =
  ms_available_cash :: rat
  ms_used_margin :: rat
  ms_collateral_value :: rat
  ms_refreshed_at :: str
  ms_fetched_at_mono :: rat

record 'w margin_config =
  mg_dynamo :: "'w dynamo option"
  mg_table :: str
  mg_buffer_pct :: rat

type_synonym margin_cache = "str \<Rightarrow> margin_snapshot option"

definition margin_key :: "str \<Rightarrow> key" where
  "margin_key market = (''MARGIN#'' @ market, ''CURRENT'')"

definition fetch_margin :: "'w margin_config \<Rightarrow> str \<Rightarrow> rat \<Rightarrow> 'w \<Rightarrow> margin_snapshot option res \<times> 'w" where
  "fetch_margin cf market t2 w =
    (case mg_dynamo cf of
       None \<Rightarrow> (Inl RuntimeError, w)
     | Some D \<Rightarrow>
        (case dy_get D w (mg_table cf) (margin_key market) of
           (Inl e, w) \<Rightarrow> (Inl e, w)
         | (Inr None, w) \<Rightarrow> (Inr None, w)
         | (Inr (Some i), w) \<Rightarrow>
            (Inr (Some \<lparr>ms_available_cash = item_float i ''available_cash'',
               ms_used_margin = item_float i ''used_margin'',
               ms_collateral_value = item_float i ''collateral_value'',
               ms_refreshed_at = (case i ''refreshed_at'' of Some (S s) \<Rightarrow> s | _ \<Rightarrow> []),
               ms_fetched_at_mono = t2\<rparr>), w)))"

definition get_margin_snapshot :: "'w margin_config \<Rightarrow> str \<Rightarrow> rat \<Rightarrow> rat \<Rightarrow> margin_cache \<times> 'w
    \<Rightarrow> margin_snapshot option res \<times> margin_cache \<times> 'w" where
  "get_margin_snapshot cf market t1 t2 cw =
    (case cw of (cache, w) \<Rightarrow>
      (case cache market of
         Some snap \<Rightarrow>
           if t1 - ms_fetched_at_mono snap < MARGIN_CACHE_TTL then (Inr (Some snap), cache, w)
           else (case fetch_margin cf market t2 w of
                  (Inr (Some s), w) \<Rightarrow> (Inr (Some s), cache(market \<mapsto> s), w)
                | (r, w) \<Rightarrow> (r, cache, w))
       | None \<Rightarrow>
           (case fetch_margin cf market t2 w of
              (Inr (Some s), w) \<Rightarrow> (Inr (Some s), cache(market \<mapsto> s), w)
            | (r, w) \<Rightarrow> (r, cache, w))))"

definition margin_market :: "signal \<Rightarrow> str" where
  "margin_market sg = (if sg_market sg \<noteq> [] then py_upper (sg_market sg) else ''UNKNOWN'')"

definition order_value :: "signal \<Rightarrow> rat" where
  "order_value sg = of_int (sg_quantity sg) * sg_price_at_signal sg"

definition margin_required :: "'w margin_config \<Rightarrow> signal \<Rightarrow> rat" where
  "margin_required cf sg = order_value sg * (1 + mg_buffer_pct cf)"

definition margin_validate :: "'w margin_config \<Rightarrow> rat \<Rightarrow> rat \<Rightarrow> signal \<Rightarrow> margin_cache \<times> 'w
    \<Rightarrow> validation_result \<times> margin_cache \<times> 'w" where
  "margin_validate cf t1 t2 sg cw =
    (case get_margin_snapshot cf (margin_market sg) t1 t2 cw of
       (Inr (Some s), cw) \<Rightarrow>
         (if ms_available_cash s + ms_collateral_value s < margin_required cf sg
            then reject MARGIN_VALIDATOR ''Insufficient margin''
            else approve MARGIN_VALIDATOR ''Sufficient margin available'', cw)
     | (_, cw) \<Rightarrow> (risk_data_unavailable_result sg MARGIN_VALIDATOR, cw))"

section \<open>Slippage\<close>

definition SLIPPAGE_VALIDATOR :: str where
  "SLIPPAGE_VALIDATOR = ''slippage_validator''"

definition IMPACT_CONSTANT :: rat where
  "IMPACT_CONSTANT = 1 / 10"

record 'w slippage_config =
  sl_dynamo :: "'w dynamo option"
  sl_table :: str
  sl_max_spread_pct :: rat
  sl_max_adv_pct :: rat
  sl_max_total_cost_pct :: rat
  sl_warn_only :: bool

record slippage_estimate =
  se_spread_cost_pct :: rat
  se_impact_cost_pct :: rat
  se_total_cost_pct :: rat
  se_adv_available :: bool
  se_adv :: rat
  se_order_adv_pct :: rat

text \<open>\<open>getattr(signal, name, 0.0)\<close>: the numeric attributes the \<open>Signal\<close> class declares.\<close>

definition signal_float_attr :: "signal \<Rightarrow> str \<Rightarrow> rat" where
  "signal_float_attr sg name =
    (case map_of
       [(''quantity'', of_int (sg_quantity sg)), (''confidence'', sg_confidence sg),
        (''price_at_signal'', sg_price_at_signal sg)] name of
       None \<Rightarrow> 0 | Some x \<Rightarrow> x)"

definition price_key :: "str \<Rightarrow> key" where
  "price_key symbol = (''PRICE#'' @ symbol, ''LATEST'')"

definition get_adv :: "'w slippage_config \<Rightarrow> str \<Rightarrow> 'w \<Rightarrow> rat res \<times> 'w" where
  "get_adv cf symbol w =
    (case sl_dynamo cf of
       None \<Rightarrow> (Inl RuntimeError, w)
     | Some D \<Rightarrow>
        (case dy_get D w (sl_table cf) (price_key symbol) of
           (Inl e, w) \<Rightarrow> (Inl e, w)
         | (Inr None, w) \<Rightarrow> (Inr 0, w)
         | (Inr (Some i), w) \<Rightarrow>
            (case i ''adv_30d'' of
               None \<Rightarrow> (Inr 0, w)
             | Some (N x) \<Rightarrow> (Inr x, w)
             | Some _ \<Rightarrow> (Inl KeyError, w))))"

definition estimate_cost :: "rat \<Rightarrow> int \<Rightarrow> rat \<Rightarrow> rat \<Rightarrow> rat \<Rightarrow> slippage_estimate" where
  "estimate_cost adv quantity bid ask price =
    (let mid = (if 0 < bid \<and> 0 < ask then (bid + ask) / 2 else price);
         mid = (if mid \<le> 0 then price else mid);
         spread = (if 0 < mid then (ask - bid) / 2 / mid * 100 else 0);
         available = (0 < adv);
         impact = (if available then IMPACT_CONSTANT * (of_int quantity / adv) * 100 else 0)
     in \<lparr>se_spread_cost_pct = spread, se_impact_cost_pct = impact, se_total_cost_pct = spread + impact,
         se_adv_available = available, se_adv = adv,
         se_order_adv_pct = (if available then of_int quantity / adv * 100 else 0)\<rparr>)"

definition slippage_result :: "'w slippage_config \<Rightarrow> signal \<Rightarrow> str \<Rightarrow> validation_result" where
  "slippage_result cf sg reason =
    (if sl_warn_only cf \<and> is_paper_signal sg then approve SLIPPAGE_VALIDATOR ''[WARN_ONLY]''
     else reject SLIPPAGE_VALIDATOR reason)"

text \<open>The checks with the bid and ask the signal carries.\<close>

definition slippage_checks :: "'w slippage_config \<Rightarrow> signal \<Rightarrow> rat \<Rightarrow> rat \<Rightarrow> 'w \<Rightarrow> validation_result \<times> 'w" where
  "slippage_checks cf sg bid ask w =
    (if bid \<le> 0 \<or> ask \<le> 0 then (risk_data_unavailable_result sg SLIPPAGE_VALIDATOR, w)
     else
       (case get_adv cf (sg_symbol sg) w of
          (Inl _, w) \<Rightarrow> (risk_data_unavailable_result sg SLIPPAGE_VALIDATOR, w)
        | (Inr adv, w) \<Rightarrow>
           (let e = estimate_cost adv (sg_quantity sg) bid ask (sg_price_at_signal sg) in
            (if \<not> se_adv_available e then risk_data_unavailable_result sg SLIPPAGE_VALIDATOR
             else if sl_max_spread_pct cf < se_spread_cost_pct e then slippage_result cf sg ''Spread too wide''
             else if sl_max_adv_pct cf < se_order_adv_pct e then slippage_result cf sg ''Order too large''
             else if sl_max_total_cost_pct cf < se_total_cost_pct e then slippage_result cf sg ''cost too high''
             else approve SLIPPAGE_VALIDATOR ''within limit'', w))))"

definition slippage_validate :: "'w slippage_config \<Rightarrow> signal \<Rightarrow> 'w \<Rightarrow> validation_result \<times> 'w" where
  "slippage_validate cf sg w =
    slippage_checks cf sg (signal_float_attr sg ''bid'') (signal_float_attr sg ''ask'') w"

section \<open>Lemmas\<close>

lemma liquidity_live:
  assumes "rr_approved (liquidity_validate cf c)" "\<not> sg_paper_trade (rc_signal c)"
  shows "\<exists>adv. rc_adv_20d c = Some adv \<and> 0 < adv \<and>
    (LIQUID_ADV_FLOOR \<le> adv \<or> of_int (sg_quantity (rc_signal c)) * 100 \<le> threshold cf (sg_symbol (rc_signal c)) * adv)"
proof -
  have "\<not> adv_missing c"
    using liquidity.live_approval_has_data [of cf "rc_signal c" c] assms by simp
  then obtain adv where adv: "rc_adv_20d c = Some adv" "0 < adv"
    by (auto simp: adv_missing_def split: option.splits)
  with assms show ?thesis
    by (auto simp: liquidity_validate_def Let_def field_simps split: if_splits)
qed

lemma spread_live:
  assumes "rr_approved (spread_validate cf c)" "\<not> sg_paper_trade (rc_signal c)"
  shows "\<exists>s. rc_live_spread_bps c = Some s \<and> s \<le> threshold cf (sg_symbol (rc_signal c))"
  using assms by (auto simp: spread_validate_def Let_def split: option.splits if_splits)

lemma sector_live:
  assumes "rr_approved (sector_validate limits reg c)" "\<not> sg_paper_trade (rc_signal c)"
  shows "get_sector reg (sg_symbol (rc_signal c)) \<noteq> ''UNKNOWN'' \<and> 0 < rc_portfolio_nav c \<and>
    proposed_sector_exposure c (get_sector reg (sg_symbol (rc_signal c))) * 100
      \<le> get_limit limits ''max_sector_exposure_pct'' None * rc_portfolio_nav c"
  using assms by (auto simp: sector_validate_def Let_def field_simps split: if_splits)

text \<open>A cached margin snapshot is fresh or was just read.\<close>

lemma get_margin_snapshot_fresh:
  assumes "get_margin_snapshot cf market t1 t2 (cache, w) = (Inr (Some s), cache', w')"
  shows "(cache market = Some s \<and> t1 - ms_fetched_at_mono s < MARGIN_CACHE_TTL) \<or>
    (\<exists>D i. mg_dynamo cf = Some D \<and> fst (dy_get D w (mg_table cf) (margin_key market)) = Inr (Some i) \<and>
      ms_available_cash s = item_float i ''available_cash'' \<and>
      ms_collateral_value s = item_float i ''collateral_value'')"
  using assms
  by (auto simp: get_margin_snapshot_def fetch_margin_def split: option.splits if_splits prod.splits sum.splits)

lemma margin_live:
  assumes "margin_validate cf t1 t2 sg (cache, w) = (r, cache', w')" "rr_approved r" "\<not> sg_paper_trade sg"
  obtains s where "get_margin_snapshot cf (margin_market sg) t1 t2 (cache, w) = (Inr (Some s), cache', w')"
    "margin_required cf sg \<le> ms_available_cash s + ms_collateral_value s"
proof -
  obtain g c1 w1 where g: "get_margin_snapshot cf (margin_market sg) t1 t2 (cache, w) = (g, c1, w1)"
    by (metis prod_cases3)
  then show ?thesis
    using assms that
    by (auto simp: margin_validate_def split: sum.splits option.splits if_splits)
qed

text \<open>A \<open>Signal\<close> has neither a bid nor an ask.\<close>

lemma signal_has_no_quote: "signal_float_attr sg ''bid'' = 0" "signal_float_attr sg ''ask'' = 0"
  by (simp_all add: signal_float_attr_def)

lemma slippage_unavailable:
  "slippage_validate cf sg w = (risk_data_unavailable_result sg SLIPPAGE_VALIDATOR, w)"
  by (simp add: slippage_validate_def slippage_checks_def signal_has_no_quote)

lemma estimate_available: "se_adv_available (estimate_cost adv q bid ask p) \<longleftrightarrow> 0 < adv"
  by (simp add: estimate_cost_def Let_def)

lemma slippage_checks_live:
  assumes "slippage_checks cf sg bid ask w = (r, w')" "rr_approved r" "\<not> sg_paper_trade sg"
  shows "\<exists>adv. fst (get_adv cf (sg_symbol sg) w) = Inr adv \<and> 0 < adv \<and> 0 < bid \<and> 0 < ask \<and>
    se_total_cost_pct (estimate_cost adv (sg_quantity sg) bid ask (sg_price_at_signal sg)) \<le> sl_max_total_cost_pct cf"
  using assms
  by (auto simp: slippage_checks_def slippage_result_def Let_def is_paper_signal_def estimate_available
      split: if_splits prod.splits sum.splits)

section \<open>Properties\<close>

text \<open>
  The slippage gate never runs its checks: a \<open>Signal\<close> carries no bid and no ask, so every live signal
  is rejected and every paper signal approved, whatever the spread, the volume and the thresholds.
\<close>

theorem slippage_gate_blocks_live:
  "rr_approved (fst (slippage_validate cf sg w)) \<longleftrightarrow> sg_paper_trade sg"
  by (simp add: slippage_unavailable)

text \<open>
  The margin gate: a live signal is approved only against a snapshot at most five seconds old or read
  in this call, whose cash and collateral cover the order value and the buffer.
\<close>

theorem margin_gate_sound:
  assumes v: "margin_validate cf t1 t2 sg (cache, w) = (r, cache', w')" and ok: "rr_approved r"
    and live: "\<not> sg_paper_trade sg"
  shows "\<exists>cash collateral. order_value sg * (1 + mg_buffer_pct cf) \<le> cash + collateral \<and>
    ((\<exists>s. cache (margin_market sg) = Some s \<and> t1 - ms_fetched_at_mono s < 5 \<and>
        ms_available_cash s = cash \<and> ms_collateral_value s = collateral) \<or>
     (\<exists>D i. mg_dynamo cf = Some D \<and> fst (dy_get D w (mg_table cf) (margin_key (margin_market sg))) = Inr (Some i) \<and>
        item_float i ''available_cash'' = cash \<and> item_float i ''collateral_value'' = collateral))"
proof -
  obtain s where g: "get_margin_snapshot cf (margin_market sg) t1 t2 (cache, w) = (Inr (Some s), cache', w')"
    and le: "margin_required cf sg \<le> ms_available_cash s + ms_collateral_value s"
    by (rule margin_live [OF v ok live])
  show ?thesis
    using get_margin_snapshot_fresh [OF g] le
    by (intro exI [of _ "ms_available_cash s"] exI [of _ "ms_collateral_value s"])
      (auto simp: margin_required_def MARGIN_CACHE_TTL_def)
qed

definition demo_margin :: "mem margin_config" where
  "demo_margin = \<lparr>mg_dynamo = Some mem_dynamo, mg_table = ''risk'', mg_buffer_pct = 1/5\<rparr>"

definition demo_margin_rows :: mem where
  "demo_margin_rows = [((''risk'', margin_key ''NSE''),
     [''available_cash'' \<mapsto> N 20000, ''collateral_value'' \<mapsto> N 1000])]"

lemma demo_margin_approves:
  "rr_approved (fst (margin_validate demo_margin 100 101 (demo_signal False) (Map.empty, demo_margin_rows)))"
proof -
  have "margin_market (demo_signal False) = ''NSE''"
    by code_simp
  then show ?thesis
    by (simp add: margin_validate_def get_margin_snapshot_def fetch_margin_def demo_margin_def demo_margin_rows_def
        mem_simps margin_required_def order_value_def item_float_def num_of_def)
      (simp add: demo_signal_def)
qed

theorem margin_gate_sound_witness:
  "\<exists>cash collateral. order_value (demo_signal False) * (1 + 1/5) \<le> cash + (collateral :: rat)"
proof -
  obtain r c' w' where v: "margin_validate demo_margin 100 101 (demo_signal False) (Map.empty, demo_margin_rows) = (r, c', w')"
    by (metis prod_cases3)
  have "rr_approved r" "\<not> sg_paper_trade (demo_signal False)"
    using demo_margin_approves v by (simp_all add: demo_signal_def)
  from margin_gate_sound [OF v this] show ?thesis
    by (auto simp: demo_margin_def)
qed

end
