(* ===== verification/LimitValidators.thy ===== *)
theory LimitValidators
  imports GateValidators
begin

text \<open>
  The validators against the account's own state: \<open>position_validator.py\<close> and
  \<open>exposure_validator.py\<close> under \<open>services/risk_engine/validators/\<close>.  A scan of the positions table
  follows its pages with fuel (\<open>scan_all\<close> of \<open>Dynamo\<close>); \<open>None\<close> means that the pages outnumber it.
\<close>

text \<open>\<open>int(item.get(name, {}).get("N", "0"))\<close>: a fractional number raises.\<close>

definition item_int :: "item \<Rightarrow> str \<Rightarrow> int res" where
  "item_int i name =
    (case i name of
       Some (N x) \<Rightarrow> (if of_int \<lfloor>x\<rfloor> = x then Inr \<lfloor>x\<rfloor> else Inl ValueError)
     | _ \<Rightarrow> Inr 0)"

section \<open>Position validator\<close>

definition POSITION_VALIDATOR :: str where
  "POSITION_VALIDATOR = ''position_validator''"

definition IN_FLIGHT_STATUSES :: "str list" where
  "IN_FLIGHT_STATUSES = [''PENDING'', ''PLACED'', ''PARTIALLY_FILLED'']"

record 'w limit_config =
  lm_dynamo :: "'w dynamo option"
  lm_positions_table :: str
  lm_orders_table :: str

definition get_confirmed_position :: "'w limit_config \<Rightarrow> str \<Rightarrow> 'w \<Rightarrow> int res \<times> 'w" where
  "get_confirmed_position cf symbol w =
    (case lm_dynamo cf of
       None \<Rightarrow> (Inl RuntimeError, w)
     | Some D \<Rightarrow>
        (case dy_get D w (lm_positions_table cf) (position_key symbol) of
           (Inl e, w) \<Rightarrow> (Inl e, w)
         | (Inr None, w) \<Rightarrow> (Inr 0, w)
         | (Inr (Some i), w) \<Rightarrow> (item_int i ''quantity'', w)))"

fun sum_quantities :: "item list \<Rightarrow> int \<Rightarrow> int res" where
  "sum_quantities [] acc = Inr acc"
| "sum_quantities (i # is) acc =
    res_bind (item_int i ''quantity'') (\<lambda>q. sum_quantities is (acc + q))"

fun pending_over :: "'w dynamo \<Rightarrow> str \<Rightarrow> str \<Rightarrow> str list \<Rightarrow> int \<Rightarrow> 'w \<Rightarrow> int res \<times> 'w" where
  "pending_over D tbl symbol [] acc w = (Inr acc, w)"
| "pending_over D tbl symbol (st # sts) acc w =
    (case dy_query D w tbl ''symbol-status-index'' [(''symbol'', symbol), (''order_status'', st)] None of
       (Inl e, w) \<Rightarrow> (Inl e, w)
     | (Inr (items, _), w) \<Rightarrow>
        (case sum_quantities items acc of
           Inl e \<Rightarrow> (Inl e, w)
         | Inr acc \<Rightarrow> pending_over D tbl symbol sts acc w))"

definition get_pending_quantity :: "'w limit_config \<Rightarrow> str \<Rightarrow> 'w \<Rightarrow> int res \<times> 'w" where
  "get_pending_quantity cf symbol w =
    (case lm_dynamo cf of
       None \<Rightarrow> (Inl RuntimeError, w)
     | Some D \<Rightarrow> pending_over D (lm_orders_table cf) symbol IN_FLIGHT_STATUSES 0 w)"

text \<open>The three checks on the quantities read.\<close>

definition position_checks :: "risk_limits \<Rightarrow> signal \<Rightarrow> int \<Rightarrow> int \<Rightarrow> validation_result" where
  "position_checks limits sg confirmed pending =
    (let effective = confirmed + pending;
         max_order_value = get_limit limits ''max_single_order_value'' (Some (sg_market sg));
         proposed = effective + sg_quantity sg;
         max_per_symbol = py_int (get_limit limits ''max_position_per_symbol'' (Some (sg_market sg)));
         max_pct = get_limit limits ''max_position_size_pct'' (Some (sg_market sg));
         nav = rl_portfolio_value limits
     in if max_order_value < order_value sg then reject POSITION_VALIDATOR ''Order value exceeds max''
        else if max_per_symbol < proposed then reject POSITION_VALIDATOR ''Effective position exceeds max''
        else if nav = 0 then risk_data_unavailable_result sg POSITION_VALIDATOR \<comment> \<open>ZeroDivisionError\<close>
        else if max_pct < of_int proposed * sg_price_at_signal sg / nav * 100
          then reject POSITION_VALIDATOR ''Effective position percentage exceeds max''
        else approve POSITION_VALIDATOR ''Position size within limits'')"

definition position_validate :: "'w limit_config \<Rightarrow> risk_limits \<Rightarrow> signal \<Rightarrow> 'w \<Rightarrow> validation_result \<times> 'w" where
  "position_validate cf limits sg w =
    (case get_confirmed_position cf (sg_symbol sg) w of
       (confirmed, w) \<Rightarrow>
        (case get_pending_quantity cf (sg_symbol sg) w of
           (pending, w) \<Rightarrow>
            (case (confirmed, pending) of
               (Inr c, Inr p) \<Rightarrow> (position_checks limits sg c p, w)
             | _ \<Rightarrow> (risk_data_unavailable_result sg POSITION_VALIDATOR, w))))"

section \<open>Exposure validator\<close>

definition EXPOSURE_VALIDATOR :: str where
  "EXPOSURE_VALIDATOR = ''exposure_validator''"

definition POSITION_PREFIX :: str where
  "POSITION_PREFIX = ''POSITION#''"

definition row_exposure :: "item \<Rightarrow> rat" where
  "row_exposure i = \<bar>item_float i ''quantity''\<bar> * item_float i ''last_price''"

definition get_total_exposure :: "nat \<Rightarrow> 'w limit_config \<Rightarrow> 'w \<Rightarrow> (rat res \<times> 'w) option" where
  "get_total_exposure fuel cf w =
    (case lm_dynamo cf of
       None \<Rightarrow> Some (Inl RuntimeError, w)
     | Some D \<Rightarrow>
        (case scan_all fuel D (lm_positions_table cf) POSITION_PREFIX w None [] of
           None \<Rightarrow> None
         | Some (Inl e, w) \<Rightarrow> Some (Inl e, w)
         | Some (Inr items, w) \<Rightarrow> Some (Inr (sum_list (map row_exposure items)), w)))"

definition exposure_checks :: "risk_limits \<Rightarrow> signal \<Rightarrow> rat \<Rightarrow> validation_result" where
  "exposure_checks limits sg current =
    (let proposed = current + \<bar>order_value sg\<bar>;
         max_pct = get_limit limits ''max_total_exposure_pct'' (Some (sg_market sg));
         nav = rl_portfolio_value limits
     in if nav = 0 then risk_data_unavailable_result sg EXPOSURE_VALIDATOR \<comment> \<open>ZeroDivisionError\<close>
        else if nav * (max_pct / 100) < proposed then reject EXPOSURE_VALIDATOR ''Proposed total exposure''
        else approve EXPOSURE_VALIDATOR ''Total exposure within limits'')"

definition exposure_validate :: "nat \<Rightarrow> 'w limit_config \<Rightarrow> risk_limits \<Rightarrow> signal \<Rightarrow> 'w
    \<Rightarrow> (validation_result \<times> 'w) option" where
  "exposure_validate fuel cf limits sg w =
    (case get_total_exposure fuel cf w of
       None \<Rightarrow> None
     | Some (Inl _, w) \<Rightarrow> Some (risk_data_unavailable_result sg EXPOSURE_VALIDATOR, w)
     | Some (Inr current, w) \<Rightarrow> Some (exposure_checks limits sg current, w))"

section \<open>Lemmas\<close>

lemma nonpos_share: "x \<le> 0 \<Longrightarrow> 0 < n \<Longrightarrow> x / n * 100 \<le> 0" for x n :: rat
  by (simp add: divide_le_0_iff mult_le_0_iff)

lemma position_live:
  assumes "position_validate cf limits sg w = (r, w')" "rr_approved r" "\<not> sg_paper_trade sg"
  obtains c p where
    "fst (get_confirmed_position cf (sg_symbol sg) w) = Inr c"
    "fst (get_pending_quantity cf (sg_symbol sg) (snd (get_confirmed_position cf (sg_symbol sg) w))) = Inr p"
    "rr_approved (position_checks limits sg c p)"
  using assms
  by (auto simp: position_validate_def split: prod.splits sum.splits)

lemma position_checks_live:
  assumes "rr_approved (position_checks limits sg c p)" "\<not> sg_paper_trade sg"
  shows "order_value sg \<le> get_limit limits ''max_single_order_value'' (Some (sg_market sg)) \<and>
    c + p + sg_quantity sg \<le> py_int (get_limit limits ''max_position_per_symbol'' (Some (sg_market sg))) \<and>
    of_int (c + p + sg_quantity sg) * sg_price_at_signal sg / rl_portfolio_value limits * 100
      \<le> get_limit limits ''max_position_size_pct'' (Some (sg_market sg))"
  using assms unfolding position_checks_def Let_def
  by (simp split: if_splits)

lemma exposure_live:
  assumes "exposure_validate fuel cf limits sg w = Some (r, w')" "rr_approved r" "\<not> sg_paper_trade sg"
  obtains e where "get_total_exposure fuel cf w = Some (Inr e, w')"
    "e + \<bar>order_value sg\<bar> \<le> rl_portfolio_value limits *
      (get_limit limits ''max_total_exposure_pct'' (Some (sg_market sg)) / 100)"
  using assms
  by (auto simp: exposure_validate_def exposure_checks_def Let_def split: option.splits prod.splits sum.splits if_splits)

lemma exposure_total:
  assumes "case lm_dynamo cf of None \<Rightarrow> True | Some D \<Rightarrow>
      scan_ends n D (lm_positions_table cf) POSITION_PREFIX w None" "n \<le> fuel"
  shows "\<exists>r w'. exposure_validate fuel cf limits sg w = Some (r, w')"
proof (cases "lm_dynamo cf")
  case None
  then show ?thesis
    by (simp add: exposure_validate_def get_total_exposure_def)
next
  case (Some D)
  with assms obtain r w' where "scan_all fuel D (lm_positions_table cf) POSITION_PREFIX w None [] = Some (r, w')"
    using scan_all_total by fastforce
  with Some show ?thesis
    by (cases r) (simp_all add: exposure_validate_def get_total_exposure_def)
qed

section \<open>Properties\<close>

text \<open>
  The position gate: a live signal is approved only if its order value, the confirmed quantity plus
  the in-flight orders plus its own quantity, and the resulting share of the portfolio are all within
  the limits of its market.
\<close>

theorem position_gate_sound:
  assumes v: "position_validate cf limits sg w = (r, w')" and ok: "rr_approved r" and live: "\<not> sg_paper_trade sg"
  shows "\<exists>c p. fst (get_confirmed_position cf (sg_symbol sg) w) = Inr c \<and>
    fst (get_pending_quantity cf (sg_symbol sg) (snd (get_confirmed_position cf (sg_symbol sg) w))) = Inr p \<and>
    order_value sg \<le> get_limit limits ''max_single_order_value'' (Some (sg_market sg)) \<and>
    c + p + sg_quantity sg \<le> py_int (get_limit limits ''max_position_per_symbol'' (Some (sg_market sg))) \<and>
    of_int (c + p + sg_quantity sg) * sg_price_at_signal sg / rl_portfolio_value limits * 100
      \<le> get_limit limits ''max_position_size_pct'' (Some (sg_market sg))"
proof -
  obtain c p where cp: "fst (get_confirmed_position cf (sg_symbol sg) w) = Inr c"
    "fst (get_pending_quantity cf (sg_symbol sg) (snd (get_confirmed_position cf (sg_symbol sg) w))) = Inr p"
    "rr_approved (position_checks limits sg c p)"
    by (rule position_live [OF v ok live])
  show ?thesis
    using cp(1,2) position_checks_live [OF cp(3) live] by blast
qed

definition demo_limits :: "mem limit_config" where
  "demo_limits = \<lparr>lm_dynamo = Some mem_dynamo, lm_positions_table = ''positions'', lm_orders_table = ''orders''\<rparr>"

theorem position_gate_sound_witness:
  "\<exists>c p :: int. c + p + 10 \<le> 10000"
proof -
  obtain r w' where v: "position_validate demo_limits default_limits (demo_signal False) [] = (r, w')" by force
  have "rr_approved (fst (position_validate demo_limits default_limits (demo_signal False) []))"
    by (simp add: position_validate_def get_confirmed_position_def get_pending_quantity_def demo_limits_def
        mem_simps IN_FLIGHT_STATUSES_def position_checks_def Let_def default_limits_def get_limit_def
        limit_attr_def override_of_def demo_signal_def order_value_def py_int_def)
  then have "rr_approved r" "\<not> sg_paper_trade (demo_signal False)"
    using v by (simp_all add: demo_signal_def)
  from position_gate_sound [OF v this] obtain c p where
    "c + p + sg_quantity (demo_signal False) \<le> py_int (get_limit default_limits ''max_position_per_symbol'' (Some (sg_market (demo_signal False))))"
    by blast
  then have "c + p + 10 \<le> 10000"
    by (simp add: default_limits_def get_limit_def limit_attr_def override_of_def demo_signal_def py_int_def)
  then show ?thesis by blast
qed

text \<open>
  The position gate ignores the direction of the signal: for a short account (negative confirmed
  quantity) a further SELL, which enlarges the short, is approved whatever its size relative to the
  per-symbol limit, as long as the order value is within its own limit.
\<close>

theorem short_side_unbounded:
  assumes "sg_direction sg = SELL" "sg_quantity sg \<le> - (c + p)" "0 \<le> sg_price_at_signal sg"
    and "order_value sg \<le> get_limit limits ''max_single_order_value'' (Some (sg_market sg))"
    and "0 \<le> get_limit limits ''max_position_per_symbol'' (Some (sg_market sg))"
    and "0 \<le> get_limit limits ''max_position_size_pct'' (Some (sg_market sg))" "0 < rl_portfolio_value limits"
  shows "rr_approved (position_checks limits sg c p)"
proof -
  have neg: "c + p + sg_quantity sg \<le> 0"
    using assms(2) by simp
  then have "of_int (c + p + sg_quantity sg) * sg_price_at_signal sg \<le> 0"
    using assms(3) by (intro mult_nonpos_nonneg) simp_all
  then have "of_int (c + p + sg_quantity sg) * sg_price_at_signal sg / rl_portfolio_value limits * 100 \<le> 0"
    using assms(7) by (rule nonpos_share)
  moreover have "c + p + sg_quantity sg \<le> py_int (get_limit limits ''max_position_per_symbol'' (Some (sg_market sg)))"
    using neg py_int_nonneg [OF assms(5)] by linarith
  ultimately show ?thesis
    using assms(4,6,7) unfolding position_checks_def Let_def by simp
qed

theorem short_side_unbounded_witness:
  "rr_approved (position_checks default_limits (demo_signal False\<lparr>sg_direction := SELL\<rparr>) (- 20000) 0)"
  by (rule short_side_unbounded)
    (simp_all add: demo_signal_def order_value_def default_limits_def get_limit_def limit_attr_def override_of_def)

text \<open>
  The exposure gate: a live signal is approved only if the exposure of all position rows of the
  scan plus its own value is within the portfolio share of its market.
\<close>

theorem exposure_gate_sound:
  assumes v: "exposure_validate fuel cf limits sg w = Some (r, w')" and ok: "rr_approved r"
    and live: "\<not> sg_paper_trade sg"
  shows "\<exists>D items. lm_dynamo cf = Some D \<and>
    scan_all fuel D (lm_positions_table cf) POSITION_PREFIX w None [] = Some (Inr items, w') \<and>
    (\<Sum>i\<leftarrow>items. \<bar>item_float i ''quantity''\<bar> * item_float i ''last_price'') + \<bar>order_value sg\<bar>
      \<le> rl_portfolio_value limits * (get_limit limits ''max_total_exposure_pct'' (Some (sg_market sg)) / 100)"
proof -
  obtain e where e: "get_total_exposure fuel cf w = Some (Inr e, w')"
    and le: "e + \<bar>order_value sg\<bar> \<le> rl_portfolio_value limits *
      (get_limit limits ''max_total_exposure_pct'' (Some (sg_market sg)) / 100)"
    by (rule exposure_live [OF v ok live])
  from e obtain D items where "lm_dynamo cf = Some D"
      "scan_all fuel D (lm_positions_table cf) POSITION_PREFIX w None [] = Some (Inr items, w')"
      "e = sum_list (map row_exposure items)"
    by (auto simp: get_total_exposure_def split: option.splits prod.splits sum.splits)
  moreover have "row_exposure = (\<lambda>i. \<bar>item_float i ''quantity''\<bar> * item_float i ''last_price'')"
    by (simp add: row_exposure_def fun_eq_iff)
  ultimately show ?thesis
    using le by (intro exI [of _ D] exI [of _ items]) simp
qed

theorem exposure_gate_sound_witness:
  "\<exists>r w'. exposure_validate 1 demo_limits default_limits (demo_signal False) [] = Some (r, w') \<and> rr_approved r \<and>
    (\<exists>items. (\<Sum>i\<leftarrow>items. \<bar>item_float i ''quantity''\<bar> * item_float i ''last_price'') + \<bar>order_value (demo_signal False)\<bar>
      \<le> rl_portfolio_value default_limits * (get_limit default_limits ''max_total_exposure_pct'' (Some (sg_market (demo_signal False))) / 100))"
proof -
  obtain r w' where v: "exposure_validate 1 demo_limits default_limits (demo_signal False) [] = Some (r, w')"
    using exposure_total [where cf = demo_limits and w = "[]" and n = 1 and fuel = 1 and limits = default_limits
        and sg = "demo_signal False"] by (auto simp: demo_limits_def mem_simps)
  then have ok: "rr_approved r" "\<not> sg_paper_trade (demo_signal False)"
    by (auto simp: exposure_validate_def get_total_exposure_def demo_limits_def mem_simps exposure_checks_def Let_def
        default_limits_def get_limit_def limit_attr_def override_of_def demo_signal_def order_value_def)
  show ?thesis
    using v ok(1) exposure_gate_sound [OF v ok] by blast
qed

end
