(* ===== verification/RiskContextBuild.thy ===== *)
theory RiskContextBuild
  imports LimitValidators
begin

text \<open>
  The pre-fetch of the validators' inputs (\<open>services/risk_engine/context/risk_context_builder.py\<close>).
  Every read returns its value, the error codes it recorded and the world; the code starts the reads
  together and waits for all of them, the model runs them in the order they are listed.

  The map attribute \<open>sector_exposures\<close> of the analytics row has no counterpart in \<open>attr\<close>; its
  number-valued entries are read by the argument \<open>rb_sectors\<close>.
\<close>

section \<open>Configuration\<close>

record 'w rb_config =
  rb_dynamo :: "'w dynamo option"
  rb_positions_table :: str
  rb_orders_table :: str
  rb_prices_table :: str
  rb_risk_state_table :: str
  rb_fromiso :: "str \<Rightarrow> rat option"
  rb_sectors :: "item \<Rightarrow> (str \<times> rat) list"
  rb_fuel :: nat

definition STALE_QUOTE_THRESHOLD_SECONDS :: rat where
  "STALE_QUOTE_THRESHOLD_SECONDS = 30"

definition quote_key :: "str \<Rightarrow> str \<Rightarrow> key" where
  "quote_key market symbol = (''QUOTE#'' @ market @ ''#'' @ symbol, ''LATEST'')"

definition analytics_key :: key where
  "analytics_key = (''ANALYTICS#SNAPSHOT'', ''CURRENT'')"

definition empty_analytics :: analytics_snapshot where
  "empty_analytics = \<lparr>an_sector_exposures = [], an_portfolio_var_2pct = 0, an_portfolio_pnl_today = 0,
    an_computed_at = None\<rparr>"

definition empty_position :: position_state where
  "empty_position = \<lparr>ps_confirmed_quantity = 0, ps_pending_quantity = 0, ps_avg_entry_price = 0\<rparr>"

section \<open>Reads\<close>

definition fetch_position_state :: "'w rb_config \<Rightarrow> str \<Rightarrow> 'w \<Rightarrow> position_state \<times> str list \<times> 'w" where
  "fetch_position_state cf symbol w =
    (case rb_dynamo cf of
       None \<Rightarrow> (empty_position, [''position_state:dynamo_unavailable''], w)
     | Some D \<Rightarrow>
        (case dy_get D w (rb_positions_table cf) (position_key symbol) of
           (Inl _, w) \<Rightarrow> (empty_position, [''position_state:read_failed''], w)
         | (Inr None, w) \<Rightarrow> (empty_position, [], w)
         | (Inr (Some i), w) \<Rightarrow>
             (empty_position\<lparr>ps_confirmed_quantity := item_float i ''confirmed_quantity'',
                ps_avg_entry_price := item_float i ''avg_entry_price''\<rparr>, [], w)))"

fun pending_floats :: "'w rb_config \<Rightarrow> 'w dynamo \<Rightarrow> str \<Rightarrow> str list \<Rightarrow> 'w \<Rightarrow> rat \<times> str list \<times> 'w" where
  "pending_floats cf D symbol [] w = (0, [], w)"
| "pending_floats cf D symbol (st # sts) w =
    (case dy_query D w (rb_orders_table cf) ''status-index'' [(''order_status'', st), (''symbol'', symbol)] None of
       (Inl _, w) \<Rightarrow>
         (case pending_floats cf D symbol sts w of (q, es, w) \<Rightarrow>
           (q, (''pending_quantity:'' @ py_lower st @ ''_read_failed'') # es, w))
     | (Inr (items, _), w) \<Rightarrow>
         (case pending_floats cf D symbol sts w of (q, es, w) \<Rightarrow>
           (sum_list (map (\<lambda>i. item_float i ''quantity'') items) + q, es, w)))"

definition fetch_pending_quantity :: "'w rb_config \<Rightarrow> str \<Rightarrow> 'w \<Rightarrow> rat \<times> str list \<times> 'w" where
  "fetch_pending_quantity cf symbol w =
    (case rb_dynamo cf of
       None \<Rightarrow> (0, [''pending_quantity:dynamo_unavailable''], w)
     | Some D \<Rightarrow> pending_floats cf D symbol [''PENDING'', ''PLACED''] w)"

text \<open>\<open>float(item[name]["N"])\<close>: another type of attribute raises.\<close>

definition strict_number :: "str \<Rightarrow> attr \<Rightarrow> rat option \<times> str list" where
  "strict_number err a = (case a of N x \<Rightarrow> (Some x, []) | _ \<Rightarrow> (None, [err]))"

definition fetch_adv :: "'w rb_config \<Rightarrow> str \<Rightarrow> 'w \<Rightarrow> rat option \<times> str list \<times> 'w" where
  "fetch_adv cf symbol w =
    (case rb_dynamo cf of
       None \<Rightarrow> (None, [''adv:dynamo_unavailable''], w)
     | Some D \<Rightarrow>
        (case dy_get D w (rb_prices_table cf) (price_key symbol) of
           (Inl _, w) \<Rightarrow> (None, [''adv:read_failed''], w)
         | (Inr None, w) \<Rightarrow> (None, [''adv:missing''], w)
         | (Inr (Some i), w) \<Rightarrow>
            (case (i ''adv_20d'', i ''adv_30d'') of
               (Some a, _) \<Rightarrow> (case strict_number ''adv:read_failed'' a of (v, es) \<Rightarrow> (v, es, w))
             | (None, Some a) \<Rightarrow> (case strict_number ''adv:read_failed'' a of (v, es) \<Rightarrow> (v, es, w))
             | (None, None) \<Rightarrow> (None, [''adv:missing''], w))))"

text \<open>The spread of a quote row at the time \<open>now\<close>.\<close>

definition quote_spread :: "'w rb_config \<Rightarrow> rat \<Rightarrow> item \<Rightarrow> rat option \<times> str list" where
  "quote_spread cf now i =
    (case i ''spread_bps'' of
       Some (N spread) \<Rightarrow>
        (case i ''captured_at'' of
           Some (S ts) \<Rightarrow>
            (if ts = [] then (None, [''live_spread:timestamp_missing''])
             else (case rb_fromiso cf ts of
                None \<Rightarrow> (None, [''live_spread:timestamp_invalid''])
              | Some t \<Rightarrow>
                  if STALE_QUOTE_THRESHOLD_SECONDS < now - t then (None, [''live_spread:stale''])
                  else (Some spread, [])))
         | _ \<Rightarrow> (None, [''live_spread:timestamp_missing'']))
     | _ \<Rightarrow> (None, [''live_spread:missing'']))"

definition fetch_live_spread_bps :: "'w rb_config \<Rightarrow> rat \<Rightarrow> str \<Rightarrow> str \<Rightarrow> 'w \<Rightarrow> rat option \<times> str list \<times> 'w" where
  "fetch_live_spread_bps cf now market symbol w =
    (case rb_dynamo cf of
       None \<Rightarrow> (None, [''live_spread:dynamo_unavailable''], w)
     | Some D \<Rightarrow>
        (case dy_get D w (rb_prices_table cf) (quote_key market symbol) of
           (Inl _, w) \<Rightarrow> (None, [''live_spread:read_failed''], w)
         | (Inr None, w) \<Rightarrow> (None, [''live_spread:missing''], w)
         | (Inr (Some i), w) \<Rightarrow> (case quote_spread cf now i of (v, es) \<Rightarrow> (v, es, w))))"

definition fetch_portfolio_nav :: "'w rb_config \<Rightarrow> risk_limits \<Rightarrow> 'w \<Rightarrow> rat \<times> str list \<times> 'w" where
  "fetch_portfolio_nav cf limits w =
    (case rb_dynamo cf of
       None \<Rightarrow> (rl_portfolio_value limits, [''portfolio_nav:dynamo_unavailable''], w)
     | Some D \<Rightarrow>
        (case dy_get D w (rb_risk_state_table cf) nav_key of
           (Inl _, w) \<Rightarrow> (rl_portfolio_value limits, [''portfolio_nav:read_failed''], w)
         | (Inr found, w) \<Rightarrow>
            (case found of
               Some i \<Rightarrow>
                 (if 0 < item_float i ''portfolio_value'' then (item_float i ''portfolio_value'', [], w)
                  else (rl_portfolio_value limits, [''portfolio_nav:missing_or_non_positive''], w))
             | None \<Rightarrow> (rl_portfolio_value limits, [''portfolio_nav:missing_or_non_positive''], w))))"

definition snapshot_of_row :: "'w rb_config \<Rightarrow> item \<Rightarrow> analytics_snapshot \<times> str list" where
  "snapshot_of_row cf i =
    (let snap = (\<lambda>at_time. \<lparr>an_sector_exposures = rb_sectors cf i,
           an_portfolio_var_2pct = item_float i ''portfolio_var_2pct'',
           an_portfolio_pnl_today = item_float i ''portfolio_pnl_today'', an_computed_at = at_time\<rparr>)
     in case i ''computed_at'' of
          Some (S ts) \<Rightarrow>
            (if ts = [] then (snap None, [''analytics_snapshot:timestamp_missing''])
             else (case rb_fromiso cf ts of
                None \<Rightarrow> (snap None, [''analytics_snapshot:timestamp_invalid''])
              | Some t \<Rightarrow> (snap (Some t), [])))
        | _ \<Rightarrow> (snap None, [''analytics_snapshot:timestamp_missing'']))"

definition fetch_analytics_snapshot :: "'w rb_config \<Rightarrow> 'w \<Rightarrow> analytics_snapshot \<times> str list \<times> 'w" where
  "fetch_analytics_snapshot cf w =
    (case rb_dynamo cf of
       None \<Rightarrow> (empty_analytics, [''analytics_snapshot:dynamo_unavailable''], w)
     | Some D \<Rightarrow>
        (case dy_get D w (rb_risk_state_table cf) analytics_key of
           (Inl _, w) \<Rightarrow> (empty_analytics, [''analytics_snapshot:read_failed''], w)
         | (Inr None, w) \<Rightarrow> (empty_analytics, [''analytics_snapshot:missing''], w)
         | (Inr (Some i), w) \<Rightarrow> (case snapshot_of_row cf i of (a, es) \<Rightarrow> (a, es, w))))"

definition fetch_total_exposure :: "'w rb_config \<Rightarrow> 'w \<Rightarrow> (rat \<times> str list \<times> 'w) option" where
  "fetch_total_exposure cf w =
    (case rb_dynamo cf of
       None \<Rightarrow> Some (0, [''total_exposure:dynamo_unavailable''], w)
     | Some D \<Rightarrow>
        (case scan_all (rb_fuel cf) D (rb_positions_table cf) POSITION_PREFIX w None [] of
           None \<Rightarrow> None
         | Some (Inl _, w) \<Rightarrow> Some (0, [''total_exposure:scan_failed''], w)
         | Some (Inr items, w) \<Rightarrow> Some (sum_list (map row_exposure items), [], w)))"

section \<open>Build\<close>

text \<open>\<open>tuple(dict.fromkeys(errors))\<close>: the first occurrence of every code.\<close>

definition dedup :: "str list \<Rightarrow> str list" where
  "dedup es = rev (remdups (rev es))"

definition build_context :: "'w rb_config \<Rightarrow> risk_limits \<Rightarrow> rat \<Rightarrow> signal \<Rightarrow> 'w \<Rightarrow> (risk_context \<times> 'w) option" where
  "build_context cf limits now sg w =
    (case fetch_position_state cf (sg_symbol sg) w of (pos, e1, w) \<Rightarrow>
     case fetch_pending_quantity cf (sg_symbol sg) w of (pending, e2, w) \<Rightarrow>
     case fetch_adv cf (sg_symbol sg) w of (adv, e3, w) \<Rightarrow>
     case fetch_live_spread_bps cf now (sg_market sg) (sg_symbol sg) w of (spread, e4, w) \<Rightarrow>
     case fetch_portfolio_nav cf limits w of (nav, e5, w) \<Rightarrow>
     case fetch_analytics_snapshot cf w of (analytics, e6, w) \<Rightarrow>
     case fetch_total_exposure cf w of
       None \<Rightarrow> None
     | Some (exposure, e7, w) \<Rightarrow>
         Some (\<lparr>rc_signal = sg, rc_position = pos\<lparr>ps_pending_quantity := pending\<rparr>,
                rc_current_exposure = exposure, rc_portfolio_nav = nav, rc_analytics = analytics,
                rc_live_spread_bps = spread, rc_adv_20d = adv, rc_fetched_at = now,
                rc_risk_data_errors = dedup (e1 @ e2 @ e3 @ e4 @ e5 @ e6 @ e7)\<rparr>, w))"

section \<open>Lemmas\<close>

lemma set_dedup [simp]: "set (dedup es) = set es"
  by (simp add: dedup_def)

lemma distinct_dedup: "distinct (dedup es)"
  by (simp add: dedup_def)

lemma dedup_Nil_iff [simp]: "dedup es = [] \<longleftrightarrow> es = []"
  using set_dedup [of es] by (metis set_empty)

text \<open>A read that records no error has its data.\<close>

lemma fetch_adv_clean:
  assumes "fetch_adv cf symbol w = (v, [], w')"
  shows "\<exists>x. v = Some x"
  using assms
  by (auto simp: fetch_adv_def strict_number_def split: option.splits prod.splits sum.splits attr.splits)

lemma quote_spread_clean: "quote_spread cf now i = (v, []) \<Longrightarrow> \<exists>x ts t. v = Some x \<and> i ''spread_bps'' = Some (N x) \<and>
    i ''captured_at'' = Some (S ts) \<and> rb_fromiso cf ts = Some t \<and> now - t \<le> STALE_QUOTE_THRESHOLD_SECONDS"
  by (auto simp: quote_spread_def split: option.splits attr.splits if_splits)

lemma fetch_spread_clean:
  assumes "fetch_live_spread_bps cf now market symbol w = (v, [], w')"
  shows "\<exists>x. v = Some x"
proof -
  from assms obtain i where "quote_spread cf now i = (v, [])"
    by (auto simp: fetch_live_spread_bps_def split: option.splits prod.splits sum.splits)
  then show ?thesis
    using quote_spread_clean by blast
qed

lemma fetch_nav_clean:
  assumes "fetch_portfolio_nav cf limits w = (v, [], w')"
  shows "0 < v"
  using assms
  by (auto simp: fetch_portfolio_nav_def split: option.splits prod.splits sum.splits if_splits)

section \<open>Properties\<close>

text \<open>
  A context without recorded errors is complete: the spread and the volume are known and the NAV is
  positive, so the validators that read it never meet missing data.
\<close>

theorem clean_context_complete:
  assumes "build_context cf limits now sg w = Some (c, w')" "rc_risk_data_errors c = []"
  shows "rc_signal c = sg \<and> rc_live_spread_bps c \<noteq> None \<and> rc_adv_20d c \<noteq> None \<and> 0 < rc_portfolio_nav c"
  using assms
  by (auto simp: build_context_def split: prod.splits option.splits
      dest!: fetch_adv_clean fetch_spread_clean fetch_nav_clean)

definition demo_rb :: "mem rb_config" where
  "demo_rb = \<lparr>rb_dynamo = Some mem_dynamo, rb_positions_table = ''positions'', rb_orders_table = ''orders'',
    rb_prices_table = ''prices'', rb_risk_state_table = ''risk'', rb_fromiso = (\<lambda>_. Some 90),
    rb_sectors = (\<lambda>_. []), rb_fuel = 1\<rparr>"

definition demo_market_rows :: mem where
  "demo_market_rows =
    [((''prices'', price_key ''INFY''), [''adv_20d'' \<mapsto> N 5000000]),
     ((''prices'', quote_key ''NSE'' ''INFY''), [''spread_bps'' \<mapsto> N 5, ''captured_at'' \<mapsto> S ''t'']),
     ((''risk'', nav_key), [''portfolio_value'' \<mapsto> N 1000000]),
     ((''risk'', analytics_key), [''computed_at'' \<mapsto> S ''t''])]"

lemma demo_context:
  "\<exists>c w'. build_context demo_rb default_limits 100 (demo_signal True) demo_market_rows = Some (c, w') \<and>
    rc_risk_data_errors c = []"
  by (simp add: build_context_def demo_rb_def demo_market_rows_def fetch_position_state_def fetch_pending_quantity_def
      fetch_adv_def strict_number_def fetch_live_spread_bps_def quote_spread_def fetch_portfolio_nav_def
      fetch_analytics_snapshot_def snapshot_of_row_def fetch_total_exposure_def mem_simps demo_signal_def
      price_key_def quote_key_def nav_key_def analytics_key_def position_key_def POSITION_PREFIX_def
      STALE_QUOTE_THRESHOLD_SECONDS_def Let_def item_float_def num_of_def dedup_def)

theorem clean_context_complete_witness:
  "\<exists>c w'. build_context demo_rb default_limits 100 (demo_signal True) demo_market_rows = Some (c, w') \<and>
    rc_live_spread_bps c \<noteq> None \<and> 0 < rc_portfolio_nav c"
proof -
  obtain c w' where c: "build_context demo_rb default_limits 100 (demo_signal True) demo_market_rows = Some (c, w')"
      "rc_risk_data_errors c = []"
    using demo_context by blast
  show ?thesis
    using clean_context_complete [OF c] c(1) by blast
qed

end
