(* ===== verification/KillSwitchModel.thy ===== *)
theory KillSwitchModel
  imports RiskState
begin

text \<open>
  The kill switch (\<open>services/risk_engine/killswitch/killswitch.py\<close>) and its polling cache
  (\<open>services/risk_engine/cache/kill_switch_cache.py\<close>).  A \<open>datetime\<close> is kept as its ISO string.
  Persisting and notifying run concurrently in the code; the model runs them in the order they are
  started.
\<close>

section \<open>State\<close>

text \<open>
  \<open>ks_sns\<close> is the SNS client's \<open>publish\<close> (topic and payload); \<open>ks_iso_ok\<close> says which strings
  \<open>datetime.fromisoformat\<close> accepts; \<open>ks_num_str\<close> is \<open>str\<close> on numbers.
\<close>

record 'w ks_config =
  ks_dynamo :: "'w dynamo option"
  ks_table :: str
  ks_sns :: "('w \<Rightarrow> str \<Rightarrow> meta \<Rightarrow> unit res \<times> 'w) option"
  ks_topic :: str
  ks_iso_ok :: "str \<Rightarrow> bool"
  ks_num_str :: "rat \<Rightarrow> str"

record ks_state =
  ks_active :: bool
  ks_activated_at :: "str option"
  ks_reason :: str
  ks_activated_by :: str

definition new_kill_switch :: ks_state where
  "new_kill_switch = \<lparr>ks_active = False, ks_activated_at = None, ks_reason = [], ks_activated_by = ''unknown''\<rparr>"

definition get_status :: "ks_state \<Rightarrow> meta" where
  "get_status s =
    [(''active'', JBool (ks_active s)), (''reason'', JStr (ks_reason s)),
     (''activated_at'', case ks_activated_at s of None \<Rightarrow> JNull | Some t \<Rightarrow> JStr t),
     (''activated_by'', if ks_active s then JStr (ks_activated_by s) else JNull)]"

section \<open>Persisting and notifying\<close>

definition persisted_row :: "ks_state \<Rightarrow> str \<Rightarrow> item" where
  "persisted_row s now =
    kill_switch_item (ks_active s) (ks_reason s) (ks_activated_by s) now (ks_activated_at s)
      (if \<not> ks_active s then Some now else None) []"

definition persist_state :: "'w ks_config \<Rightarrow> ks_state \<Rightarrow> str \<Rightarrow> 'w \<Rightarrow> 'w" where
  "persist_state cf s now w =
    (case ks_dynamo cf of
       None \<Rightarrow> w
     | Some D \<Rightarrow> snd (dy_put D w (ks_table cf) kill_switch_key (persisted_row s now) NoCond))"

definition publish_sns_event :: "'w ks_config \<Rightarrow> ks_state \<Rightarrow> str \<Rightarrow> str \<Rightarrow> 'w \<Rightarrow> 'w" where
  "publish_sns_event cf s event_type now w =
    (case ks_sns cf of
       None \<Rightarrow> w
     | Some publish \<Rightarrow>
        if ks_topic cf = [] then w
        else snd (publish w (ks_topic cf)
          ([(''event'', JStr (''KILL_SWITCH_'' @ event_type)), (''active'', JBool (ks_active s)),
            (''reason'', JStr (ks_reason s)), (''activated_by'', JStr (ks_activated_by s)),
            (''timestamp'', JStr now)]
           @ (case ks_activated_at s of None \<Rightarrow> [] | Some t \<Rightarrow> [(''activated_at'', JStr t)]))))"

section \<open>Operations\<close>

text \<open>The clock readings: the activation time, the row's time stamp, the event's time stamp.\<close>

definition activate :: "'w ks_config \<Rightarrow> str \<Rightarrow> str \<Rightarrow> str \<Rightarrow> str \<Rightarrow> str \<Rightarrow> ks_state \<times> 'w \<Rightarrow> ks_state \<times> 'w" where
  "activate cf reason activated_by at_time row_time event_time sw =
    (case sw of (s, w) \<Rightarrow>
      if ks_active s then (s, w)
      else
        (let s = \<lparr>ks_active = True, ks_activated_at = Some at_time, ks_reason = reason,
                  ks_activated_by = activated_by\<rparr>
         in (s, publish_sns_event cf s ''ACTIVATED'' event_time (persist_state cf s row_time w))))"

definition deactivate :: "'w ks_config \<Rightarrow> str \<Rightarrow> str \<Rightarrow> ks_state \<times> 'w \<Rightarrow> ks_state \<times> 'w" where
  "deactivate cf row_time event_time sw =
    (case sw of (s, w) \<Rightarrow>
      if \<not> ks_active s then (s, w)
      else
        (let s = \<lparr>ks_active = False, ks_activated_at = None, ks_reason = [], ks_activated_by = []\<rparr>
         in (s, publish_sns_event cf s ''DEACTIVATED'' event_time (persist_state cf s row_time w))))"

text \<open>
  Loading a row.  \<open>fromisoformat\<close> may raise after \<open>_active\<close> has been assigned; the handler logs
  and the other fields keep their values.
\<close>

definition load_row :: "'w ks_config \<Rightarrow> item \<Rightarrow> ks_state \<Rightarrow> ks_state" where
  "load_row cf item s =
    (let raw = lowlevel item;
         active = attr_bool (ks_num_str cf) raw ''active'' False;
         at_str = str_or (Some (attr_string (ks_num_str cf) raw ''activated_at'' []))
                    (attr_string (ks_num_str cf) raw ''activation_time'' []);
         s = s\<lparr>ks_active := active\<rparr>
     in if at_str \<noteq> [] \<and> \<not> ks_iso_ok cf at_str then s
        else
          (let s = (if at_str \<noteq> [] then s\<lparr>ks_activated_at := Some at_str\<rparr>
                    else if \<not> active then s\<lparr>ks_activated_at := None\<rparr> else s)
           in s\<lparr>ks_reason := attr_string (ks_num_str cf) raw ''reason'' [],
                ks_activated_by := attr_string (ks_num_str cf) raw ''activated_by'' ''unknown''\<rparr>))"

definition load_state :: "'w ks_config \<Rightarrow> ks_state \<times> 'w \<Rightarrow> ks_state \<times> 'w" where
  "load_state cf sw =
    (case sw of (s, w) \<Rightarrow>
      (case ks_dynamo cf of
         None \<Rightarrow> (s, w)
       | Some D \<Rightarrow>
          (case dy_get D w (ks_table cf) kill_switch_key of
             (Inl _, w) \<Rightarrow> (s, w)
           | (Inr None, w) \<Rightarrow> (s, w)
           | (Inr (Some item), w) \<Rightarrow> (load_row cf item s, w))))"

section \<open>Cache\<close>

record kc_state =
  kc_switch :: ks_state
  kc_cached_active :: bool
  kc_callbacks :: nat \<comment> \<open>how often \<open>on_activated\<close> ran\<close>

definition cache_start :: "'w ks_config \<Rightarrow> kc_state \<times> 'w \<Rightarrow> kc_state \<times> 'w" where
  "cache_start cf cw =
    (case cw of (c, w) \<Rightarrow>
      (case load_state cf (kc_switch c, w) of (s, w) \<Rightarrow>
        (c\<lparr>kc_switch := s, kc_cached_active := ks_active s\<rparr>, w)))"

text \<open>One round of the poll loop.\<close>

definition poll_round :: "'w ks_config \<Rightarrow> kc_state \<times> 'w \<Rightarrow> kc_state \<times> 'w" where
  "poll_round cf cw =
    (case cw of (c, w) \<Rightarrow>
      (case load_state cf (kc_switch c, w) of (s, w) \<Rightarrow>
        (let c = c\<lparr>kc_switch := s\<rparr> in
         if ks_active s \<noteq> kc_cached_active c then
           (if ks_active s then (c\<lparr>kc_cached_active := True, kc_callbacks := kc_callbacks c + 1\<rparr>, w)
            else (c\<lparr>kc_cached_active := False\<rparr>, w))
         else (c, w))))"

section \<open>Lemmas\<close>

lemma persisted_row_apply:
  "persisted_row s now ''active'' = Some (BOOL (ks_active s))"
  "persisted_row s now ''reason'' = Some (S (ks_reason s))"
  "persisted_row s now ''activated_by'' = Some (S (ks_activated_by s))"
  "ks_active s \<Longrightarrow> persisted_row s now ''activated_at'' = Some (S (str_or (ks_activated_at s) now))"
  by (simp_all add: persisted_row_def kill_switch_item_apply)

text \<open>A row in the canonical active form loads as an active switch with its reason and actor.\<close>

lemma load_active_row:
  assumes "i ''active'' = Some (BOOL True)" "i ''activated_at'' = Some (S t)" "t \<noteq> []" "ks_iso_ok cf t"
    and "i ''reason'' = Some (S r)" "i ''activated_by'' = Some (S actor)"
  shows "load_row cf i s = \<lparr>ks_active = True, ks_activated_at = Some t, ks_reason = r, ks_activated_by = actor\<rparr>"
  using assms by (simp add: load_row_def Let_def attr_bool_lowlevel_BOOL attr_string_lowlevel_S)

lemma load_row_active:
  "i ''active'' = Some (BOOL v) \<Longrightarrow> ks_active (load_row cf i s) = v"
  by (simp add: load_row_def Let_def attr_bool_lowlevel_BOOL)

lemma poll_callback_iff:
  assumes "poll_round cf (c, w) = (c', w')"
  shows "kc_callbacks c' = kc_callbacks c + (if \<not> kc_cached_active c \<and> kc_cached_active c' then 1 else 0)"
    and "kc_cached_active c' = ks_active (kc_switch c')"
  using assms by (auto simp: poll_round_def Let_def split: prod.splits if_splits)

section \<open>Properties\<close>

text \<open>
  An activation propagates: the row \<open>activate\<close> persists, read by any other process, loads there as
  an active switch with the same reason, actor and time.
\<close>

theorem activation_propagates:
  assumes "at_time \<noteq> []" "ks_iso_ok cf at_time"
  shows "load_row cf (persisted_row \<lparr>ks_active = True, ks_activated_at = Some at_time, ks_reason = reason,
      ks_activated_by = actor\<rparr> row_time) s =
    \<lparr>ks_active = True, ks_activated_at = Some at_time, ks_reason = reason, ks_activated_by = actor\<rparr>"
  by (rule load_active_row) (simp_all add: persisted_row_apply assms)

text \<open>A configuration over the in-memory client; \<open>ro\<close> makes every write fail.\<close>

definition mem_readonly :: "mem dynamo" where
  "mem_readonly = mem_dynamo\<lparr>dy_put := \<lambda>w tbl k i c. (Inl TimeoutError, w)\<rparr>"

definition demo_ks :: "mem dynamo \<Rightarrow> mem ks_config" where
  "demo_ks D = \<lparr>ks_dynamo = Some D, ks_table = ''risk'', ks_sns = None, ks_topic = [],
    ks_iso_ok = (\<lambda>_. True), ks_num_str = (\<lambda>_. [])\<rparr>"

theorem activation_propagates_witness:
  "load_row (demo_ks mem_dynamo) (persisted_row \<lparr>ks_active = True, ks_activated_at = Some ''t1'',
      ks_reason = ''loss'', ks_activated_by = ''operator''\<rparr> ''t2'') new_kill_switch =
    \<lparr>ks_active = True, ks_activated_at = Some ''t1'', ks_reason = ''loss'', ks_activated_by = ''operator''\<rparr>"
  by (rule activation_propagates) (simp_all add: demo_ks_def)

text \<open>
  An activation whose persistence fails is lost: \<open>activate\<close> swallows the failed write, and the next
  poll, which reads the old inactive row, clears the halt in memory and in the cache.
\<close>

theorem unpersisted_activation_lost:
  assumes "ks_dynamo cf = Some D" "ks_sns cf = None" "\<not> ks_active s"
    and put: "\<And>w i. dy_put D w (ks_table cf) kill_switch_key i NoCond = (Inl TimeoutError, w)"
    and get: "dy_get D w (ks_table cf) kill_switch_key = (Inr (Some old), w)"
    and old: "old ''active'' = Some (BOOL False)"
    and act: "activate cf reason actor t1 t2 t3 (s, w) = (s1, w1)"
  shows "ks_active s1 \<and>
    \<not> ks_active (kc_switch (fst (poll_round cf (\<lparr>kc_switch = s1, kc_cached_active = True, kc_callbacks = n\<rparr>, w1)))) \<and>
    \<not> kc_cached_active (fst (poll_round cf (\<lparr>kc_switch = s1, kc_cached_active = True, kc_callbacks = n\<rparr>, w1)))"
proof -
  have w1: "w1 = w" and s1: "ks_active s1"
    using act assms(1-3) put
    by (auto simp: activate_def persist_state_def publish_sns_event_def Let_def)
  have "\<not> ks_active (load_row cf old s1)"
    using load_row_active [of old False cf s1] old by simp
  then show ?thesis
    using s1 assms(1) get by (simp add: poll_round_def load_state_def w1 Let_def)
qed

theorem unpersisted_activation_lost_witness:
  "let w = [((''risk'', kill_switch_key), [''active'' \<mapsto> BOOL False])];
       s1w1 = activate (demo_ks mem_readonly) ''loss'' ''loss_validator'' ''t1'' ''t2'' ''t3'' (new_kill_switch, w)
   in ks_active (fst s1w1) \<and>
     \<not> kc_cached_active (fst (poll_round (demo_ks mem_readonly)
        (\<lparr>kc_switch = fst s1w1, kc_cached_active = True, kc_callbacks = 0\<rparr>, snd s1w1)))"
proof -
  let ?w = "[((''risk'', kill_switch_key), [''active'' \<mapsto> BOOL False])] :: mem"
  obtain s1 w1 where act: "activate (demo_ks mem_readonly) ''loss'' ''loss_validator'' ''t1'' ''t2'' ''t3''
      (new_kill_switch, ?w) = (s1, w1)" by force
  show ?thesis
  proof -
    have "ks_active s1 \<and>
      \<not> ks_active (kc_switch (fst (poll_round (demo_ks mem_readonly)
        (\<lparr>kc_switch = s1, kc_cached_active = True, kc_callbacks = 0\<rparr>, w1)))) \<and>
      \<not> kc_cached_active (fst (poll_round (demo_ks mem_readonly)
        (\<lparr>kc_switch = s1, kc_cached_active = True, kc_callbacks = 0\<rparr>, w1)))"
      by (rule unpersisted_activation_lost [OF _ _ _ _ _ _ act, where D = mem_readonly
            and old = "[''active'' \<mapsto> BOOL False]"])
        (simp_all add: demo_ks_def mem_readonly_def new_kill_switch_def mem_simps)
    then show ?thesis
      using act by simp
  qed
qed

end
