(* ===== verification/FillAccounting.thy ===== *)
theory FillAccounting
  imports LimitValidators
begin

text \<open>
  The daily loss validator (\<open>services/risk_engine/validators/loss_validator.py\<close>): the cached daily P&L,
  the loss check, and the recording of a fill into the per-symbol cost basis, the daily aggregate and
  the NAV row.

  \<open>today\<close> and \<open>now_iso\<close> are the date and the time as text; \<open>t\<close> and its variants are readings of the
  monotonic clock.  The limits are shared with the other validators, so they are part of the state.
  Operations that scan take fuel and return \<open>None\<close> when the pages outnumber it.
\<close>

section \<open>State\<close>

record 'w dl_config =
  dl_dynamo :: "'w dynamo option"
  dl_orders_table :: str
  dl_positions_table :: str
  dl_risk_state_table :: str
  dl_opening_nav :: rat
  dl_num_str :: "rat \<Rightarrow> str"
  dl_fuel :: nat

record dl_state =
  dl_cached_realized_pnl :: rat
  dl_cache_date :: "str option"
  dl_fetched_at :: rat
  dl_limits :: risk_limits

definition new_dl :: "risk_limits \<Rightarrow> dl_state" where
  "new_dl limits = \<lparr>dl_cached_realized_pnl = 0, dl_cache_date = None, dl_fetched_at = 0, dl_limits = limits\<rparr>"

definition DAILY_LOSS_VALIDATOR :: str where
  "DAILY_LOSS_VALIDATOR = ''daily_loss_validator''"

definition PNL_CACHE_TTL_SECONDS :: rat where
  "PNL_CACHE_TTL_SECONDS = 30"

definition pnl_day_key :: "str \<Rightarrow> key" where
  "pnl_day_key today = (''PNL_DAY#'' @ today, ''CURRENT'')"

definition pnl_symbol_key :: "str \<Rightarrow> str \<Rightarrow> key" where
  "pnl_symbol_key today symbol = (''PNL_SYMBOL#'' @ today @ ''#'' @ symbol, ''CURRENT'')"

definition fill_key :: "str \<Rightarrow> key" where
  "fill_key event_key = (''FILL#'' @ event_key, ''RISK_PNL'')"

section \<open>Reading the daily P&L\<close>

definition row_realized :: "item \<Rightarrow> rat" where
  "row_realized i = item_float i ''realized_pnl''"

definition row_unrealized :: "item \<Rightarrow> rat" where
  "row_unrealized i = item_float i ''quantity'' * (item_float i ''last_price'' - item_float i ''avg_price'')"

definition fetch_realized_pnl :: "'w dl_config \<Rightarrow> str \<Rightarrow> 'w \<Rightarrow> (rat res \<times> 'w) option" where
  "fetch_realized_pnl cf today w =
    (case dl_dynamo cf of
       None \<Rightarrow> Some (Inl RuntimeError, w)
     | Some D \<Rightarrow>
        (case dy_get D w (dl_risk_state_table cf) (pnl_day_key today) of
           (Inl e, w) \<Rightarrow> Some (Inl e, w)
         | (Inr (Some i), w) \<Rightarrow> Some (Inr (row_realized i), w)
         | (Inr None, w) \<Rightarrow>
            (case query_all (dl_fuel cf) D (dl_orders_table cf) ''DateIndex''
                [(''trade_date'', today), (''order_status'', ''FILLED'')] w None [] of
               None \<Rightarrow> None
             | Some (Inl e, w) \<Rightarrow> Some (Inl e, w)
             | Some (Inr items, w) \<Rightarrow> Some (Inr (sum_list (map row_realized items)), w))))"

definition get_unrealized_pnl :: "'w dl_config \<Rightarrow> 'w \<Rightarrow> (rat res \<times> 'w) option" where
  "get_unrealized_pnl cf w =
    (case dl_dynamo cf of
       None \<Rightarrow> Some (Inl RuntimeError, w)
     | Some D \<Rightarrow>
        (case scan_all (dl_fuel cf) D (dl_positions_table cf) POSITION_PREFIX w None [] of
           None \<Rightarrow> None
         | Some (Inl e, w) \<Rightarrow> Some (Inl e, w)
         | Some (Inr items, w) \<Rightarrow> Some (Inr (sum_list (map row_unrealized items)), w)))"

definition rehydrate :: "'w dl_config \<Rightarrow> str \<Rightarrow> rat \<Rightarrow> dl_state \<times> 'w \<Rightarrow> (unit res \<times> dl_state \<times> 'w) option" where
  "rehydrate cf today t sw =
    (case sw of (s, w) \<Rightarrow>
      (case fetch_realized_pnl cf today w of
         None \<Rightarrow> None
       | Some (Inl e, w) \<Rightarrow> Some (Inl e, s, w)
       | Some (Inr p, w) \<Rightarrow>
           Some (Inr (), s\<lparr>dl_cached_realized_pnl := p, dl_cache_date := Some today, dl_fetched_at := t\<rparr>, w)))"

definition get_realized_pnl :: "'w dl_config \<Rightarrow> str \<Rightarrow> rat \<Rightarrow> dl_state \<times> 'w \<Rightarrow> (rat res \<times> dl_state \<times> 'w) option" where
  "get_realized_pnl cf today t sw =
    (case sw of (s, w) \<Rightarrow>
      if dl_cache_date s \<noteq> Some today \<or> PNL_CACHE_TTL_SECONDS \<le> t - dl_fetched_at s then
        (case fetch_realized_pnl cf today w of
           None \<Rightarrow> None
         | Some (Inl e, w) \<Rightarrow> Some (Inl e, s, w)
         | Some (Inr p, w) \<Rightarrow>
             Some (Inr p, s\<lparr>dl_cached_realized_pnl := p, dl_cache_date := Some today, dl_fetched_at := t\<rparr>, w))
      else Some (Inr (dl_cached_realized_pnl s), s, w))"

definition get_daily_pnl :: "'w dl_config \<Rightarrow> str \<Rightarrow> rat \<Rightarrow> dl_state \<times> 'w \<Rightarrow> (rat res \<times> dl_state \<times> 'w) option" where
  "get_daily_pnl cf today t sw =
    (case get_realized_pnl cf today t sw of
       None \<Rightarrow> None
     | Some (Inl e, sw) \<Rightarrow> Some (Inl e, sw)
     | Some (Inr realized, s, w) \<Rightarrow>
        (case get_unrealized_pnl cf w of
           None \<Rightarrow> None
         | Some (Inl e, w) \<Rightarrow> Some (Inl e, s, w)
         | Some (Inr unrealized, w) \<Rightarrow> Some (Inr (realized + unrealized), s, w)))"

definition loss_checks :: "risk_limits \<Rightarrow> signal \<Rightarrow> rat \<Rightarrow> validation_result" where
  "loss_checks limits sg total_daily_pnl =
    (let nav = rl_portfolio_value limits;
         max_loss_value = nav * (get_limit limits ''max_daily_loss_pct'' (Some (sg_market sg)) / 100)
     in if nav = 0 then risk_data_unavailable_result sg DAILY_LOSS_VALIDATOR \<comment> \<open>ZeroDivisionError\<close>
        else if total_daily_pnl < 0 \<and> max_loss_value \<le> \<bar>total_daily_pnl\<bar>
          then reject DAILY_LOSS_VALIDATOR ''Daily loss exceeds limit''
        else approve DAILY_LOSS_VALIDATOR ''Daily loss within limits'')"

definition loss_validate :: "'w dl_config \<Rightarrow> str \<Rightarrow> rat \<Rightarrow> signal \<Rightarrow> dl_state \<times> 'w
    \<Rightarrow> (validation_result \<times> dl_state \<times> 'w) option" where
  "loss_validate cf today t sg sw =
    (case get_daily_pnl cf today t sw of
       None \<Rightarrow> None
     | Some (Inl _, sw) \<Rightarrow> Some (risk_data_unavailable_result sg DAILY_LOSS_VALIDATOR, sw)
     | Some (Inr tot, s, w) \<Rightarrow> Some (loss_checks (dl_limits s) sg tot, s, w))"

section \<open>Recording a fill\<close>

text \<open>The cost-basis arithmetic: quantity and average price in, quantity, average price and realized delta out.\<close>

definition symbol_pnl :: "rat \<Rightarrow> rat \<Rightarrow> order_side \<Rightarrow> rat \<Rightarrow> rat \<Rightarrow> rat \<times> rat \<times> rat" where
  "symbol_pnl old_qty old_avg side quantity price =
    (case side of
       BUY \<Rightarrow>
         (if old_qty < 0 then
            (let closing = min quantity \<bar>old_qty\<bar>; new_qty = old_qty + quantity in
             (new_qty, if new_qty < 0 then old_avg else if 0 < new_qty then price else 0,
              (old_avg - price) * closing))
          else
            (let new_qty = old_qty + quantity in
             (new_qty, (old_qty * old_avg + quantity * price) / new_qty, 0)))
     | SELL \<Rightarrow>
         (if 0 < old_qty then
            (let closing = min quantity old_qty; new_qty = old_qty - quantity in
             (new_qty, if 0 < new_qty then old_avg else if new_qty < 0 then price else 0,
              (price - old_avg) * closing))
          else
            (let new_qty = old_qty - quantity in
             (new_qty, (\<bar>old_qty\<bar> * old_avg + quantity * price) / \<bar>new_qty\<bar>, 0))))"

definition direction_of :: "str \<Rightarrow> order_side option" where
  "direction_of d = (if d = ''BUY'' then Some BUY else if d = ''SELL'' then Some SELL else None)"

definition pnl_symbol_row :: "str \<Rightarrow> str \<Rightarrow> rat \<Rightarrow> rat \<Rightarrow> rat \<Rightarrow> str \<Rightarrow> item" where
  "pnl_symbol_row today symbol qty avg realized now_iso =
    (key_item (pnl_symbol_key today symbol))
      (''symbol'' \<mapsto> S symbol, ''trade_date'' \<mapsto> S today, ''quantity'' \<mapsto> N qty,
       ''avg_price'' \<mapsto> N avg, ''realized_pnl'' \<mapsto> N realized, ''updated_at'' \<mapsto> S now_iso)"

definition apply_fill_to_symbol :: "'w dl_config \<Rightarrow> 'w dynamo \<Rightarrow> str \<Rightarrow> str \<Rightarrow> str \<Rightarrow> rat \<Rightarrow> rat \<Rightarrow> str \<Rightarrow> 'w
    \<Rightarrow> rat res \<times> 'w" where
  "apply_fill_to_symbol cf D today symbol dirn quantity price now_iso w =
    (case dy_get D w (dl_risk_state_table cf) (pnl_symbol_key today symbol) of
       (Inl e, w) \<Rightarrow> (Inl e, w)
     | (Inr found, w) \<Rightarrow>
        (let i = (case found of None \<Rightarrow> Map.empty | Some i \<Rightarrow> i) in
         case direction_of dirn of
           None \<Rightarrow> (Inl ValueError, w)
         | Some side \<Rightarrow>
            (case symbol_pnl (item_float i ''quantity'') (item_float i ''avg_price'') side quantity price of
               (new_qty, new_avg, delta) \<Rightarrow>
                (case dy_put D w (dl_risk_state_table cf) (pnl_symbol_key today symbol)
                    (pnl_symbol_row today symbol new_qty new_avg (item_float i ''realized_pnl'' + delta) now_iso) NoCond of
                   (Inl e, w) \<Rightarrow> (Inl e, w)
                 | (Inr _, w) \<Rightarrow> (Inr delta, w)))))"

definition nav_row :: "rat \<Rightarrow> rat \<Rightarrow> str \<Rightarrow> item" where
  "nav_row opening realized_today now_iso =
    (key_item nav_key)
      (''portfolio_value'' \<mapsto> N (opening + realized_today), ''opening_nav'' \<mapsto> N opening,
       ''realized_pnl_today'' \<mapsto> N realized_today, ''last_fill_at'' \<mapsto> S now_iso,
       ''updated_at'' \<mapsto> S now_iso)"

definition update_daily_pnl_and_nav :: "'w dl_config \<Rightarrow> 'w dynamo \<Rightarrow> str \<Rightarrow> rat \<Rightarrow> str \<Rightarrow> rat \<Rightarrow> dl_state \<times> 'w
    \<Rightarrow> rat res \<times> dl_state \<times> 'w" where
  "update_daily_pnl_and_nav cf D today delta now_iso t sw =
    (case sw of (s, w) \<Rightarrow>
      (case dy_update D w (dl_risk_state_table cf) (pnl_day_key today)
          [SetTo ''trade_date'' (S today), SetTo ''updated_at'' (S now_iso), AddNum ''realized_pnl'' delta] NoCond of
         (Inl e, w) \<Rightarrow> (Inl e, s, w)
       | (Inr row, w) \<Rightarrow>
          (case row ''realized_pnl'' of
             Some (N realized_today) \<Rightarrow>
               (case dy_put D w (dl_risk_state_table cf) nav_key
                   (nav_row (dl_opening_nav cf) realized_today now_iso) NoCond of
                  (Inl e, w) \<Rightarrow> (Inl e, s, w)
                | (Inr _, w) \<Rightarrow>
                    (Inr realized_today,
                     s\<lparr>dl_limits := update_portfolio_value (dl_limits s) (dl_opening_nav cf + realized_today) t\<rparr>, w))
           | _ \<Rightarrow> (Inl KeyError, s, w))))"

record risk_fill =
  fl_order_id :: str
  fl_symbol :: str
  fl_market :: str
  fl_direction :: str
  fl_quantity :: rat
  fl_price :: rat
  fl_fill_id :: "str option"

definition event_key :: "'w dl_config \<Rightarrow> risk_fill \<Rightarrow> str" where
  "event_key cf f = str_or (fl_fill_id f)
     (fl_order_id f @ '':'' @ fl_direction f @ '':'' @ dl_num_str cf (fl_quantity f) @ '':'' @ dl_num_str cf (fl_price f))"

definition fill_row :: "'w dl_config \<Rightarrow> risk_fill \<Rightarrow> str \<Rightarrow> str \<Rightarrow> item" where
  "fill_row cf f today now_iso =
    (key_item (fill_key (event_key cf f)))
      (''order_id'' \<mapsto> S (fl_order_id f), ''symbol'' \<mapsto> S (fl_symbol f), ''market'' \<mapsto> S (fl_market f),
       ''direction'' \<mapsto> S (fl_direction f), ''quantity'' \<mapsto> N (fl_quantity f), ''price'' \<mapsto> N (fl_price f),
       ''trade_date'' \<mapsto> S today, ''created_at'' \<mapsto> S now_iso)"

record fill_result =
  fr_realized_delta :: rat
  fr_total_daily_pnl :: rat

text \<open>
  The part after the reservation succeeded; \<open>t2\<close> and \<open>t3\<close> are the clock readings of the limits and of
  the cache.
\<close>

definition account_fill :: "'w dl_config \<Rightarrow> 'w dynamo \<Rightarrow> risk_fill \<Rightarrow> str \<Rightarrow> str \<Rightarrow> rat \<Rightarrow> rat \<Rightarrow> dl_state \<times> 'w
    \<Rightarrow> (fill_result res \<times> dl_state \<times> 'w) option" where
  "account_fill cf D f today now_iso t2 t3 sw =
    (case sw of (s, w) \<Rightarrow>
      (case apply_fill_to_symbol cf D today (fl_symbol f) (py_upper (fl_direction f)) (fl_quantity f) (fl_price f) now_iso w of
         (Inl e, w) \<Rightarrow> Some (Inl e, s, w)
       | (Inr delta, w) \<Rightarrow>
          (case update_daily_pnl_and_nav cf D today delta now_iso t2 (s, w) of
             (Inl e, sw) \<Rightarrow> Some (Inl e, sw)
           | (Inr realized_today, s, w) \<Rightarrow>
              (let s = s\<lparr>dl_cached_realized_pnl := realized_today, dl_cache_date := Some today, dl_fetched_at := t3\<rparr> in
               case get_unrealized_pnl cf w of
                 None \<Rightarrow> None
               | Some (Inl e, w) \<Rightarrow> Some (Inl e, s, w)
               | Some (Inr u, w) \<Rightarrow>
                   Some (Inr \<lparr>fr_realized_delta = delta, fr_total_daily_pnl = realized_today + u\<rparr>, s, w)))))"

definition record_fill :: "'w dl_config \<Rightarrow> risk_fill \<Rightarrow> str \<Rightarrow> str \<Rightarrow> rat \<Rightarrow> rat \<Rightarrow> rat \<Rightarrow> dl_state \<times> 'w
    \<Rightarrow> (fill_result res \<times> dl_state \<times> 'w) option" where
  "record_fill cf f today now_iso t1 t2 t3 sw =
    (case dl_dynamo cf of
       None \<Rightarrow> Some (Inl RuntimeError, sw)
     | Some D \<Rightarrow>
        if fl_quantity f \<le> 0 \<or> fl_price f \<le> 0 then Some (Inl ValueError, sw)
        else
          (case sw of (s, w) \<Rightarrow>
            (case dy_put D w (dl_risk_state_table cf) (fill_key (event_key cf f)) (fill_row cf f today now_iso)
                (NotExists ''PK'') of
               (Inl ConditionalCheckFailed, w) \<Rightarrow>
                 (case get_daily_pnl cf today t1 (s, w) of
                    None \<Rightarrow> None
                  | Some (Inl e, sw) \<Rightarrow> Some (Inl e, sw)
                  | Some (Inr tot, sw) \<Rightarrow>
                      Some (Inr \<lparr>fr_realized_delta = 0, fr_total_daily_pnl = tot\<rparr>, sw))
             | (Inl e, w) \<Rightarrow> Some (Inl e, s, w)
             | (Inr _, w) \<Rightarrow> account_fill cf D f today now_iso t2 t3 (s, w))))"

section \<open>Arithmetic\<close>

text \<open>The change of mark-to-market equity of one fill, at the mark price \<open>m\<close>.\<close>

definition fill_value :: "order_side \<Rightarrow> rat \<Rightarrow> rat \<Rightarrow> rat \<Rightarrow> rat" where
  "fill_value side q p m = (case side of BUY \<Rightarrow> q * (m - p) | SELL \<Rightarrow> q * (p - m))"

lemma weighted_share: "n \<noteq> 0 \<Longrightarrow> n * (m - x / n) = n * m - x" for n m x :: rat
  by (simp add: right_diff_distrib)

lemma symbol_pnl_equity:
  assumes "0 < q"
  shows "case symbol_pnl old avg side q p of (qty, avg', delta) \<Rightarrow>
    delta + qty * (m - avg') = old * (m - avg) + fill_value side q p m"
proof (cases side)
  case BUY
  show ?thesis
  proof (cases "old < 0")
    case True
    consider "old + q < 0" | "q = - old" | "0 < old + q" by linarith
    then show ?thesis
      using True BUY assms
      by cases (auto simp: symbol_pnl_def fill_value_def Let_def min_def field_simps)
  next
    case False
    then have "old + q \<noteq> 0"
      using assms by linarith
    then show ?thesis
      using BUY False by (simp add: symbol_pnl_def fill_value_def Let_def weighted_share)
        (simp add: algebra_simps)
  qed
next
  case SELL
  show ?thesis
  proof (cases "0 < old")
    case True
    consider "old - q < 0" | "q = old" | "0 < old - q" by linarith
    then show ?thesis
      using True SELL assms
      by cases (auto simp: symbol_pnl_def fill_value_def Let_def min_def field_simps)
  next
    case False
    then have "old - q < 0" "\<bar>old - q\<bar> = q - old" "\<bar>old\<bar> = - old"
      using assms by linarith+
    then show ?thesis
      using SELL False by (simp add: symbol_pnl_def fill_value_def Let_def field_simps)
  qed
qed

text \<open>A sequence of fills of one symbol on one day: side, quantity and price each.\<close>

fun symbol_fills :: "rat \<times> rat \<times> rat \<Rightarrow> (order_side \<times> rat \<times> rat) list \<Rightarrow> rat \<times> rat \<times> rat" where
  "symbol_fills (qty, avg, realized) [] = (qty, avg, realized)"
| "symbol_fills (qty, avg, realized) ((side, q, p) # fs) =
    (case symbol_pnl qty avg side q p of (qty', avg', delta) \<Rightarrow>
      symbol_fills (qty', avg', realized + delta) fs)"

definition fills_value :: "(order_side \<times> rat \<times> rat) list \<Rightarrow> rat \<Rightarrow> rat" where
  "fills_value fs m = (\<Sum>(side, q, p)\<leftarrow>fs. fill_value side q p m)"

lemma symbol_fills_equity:
  assumes "\<forall>(side, q, p) \<in> set fs. 0 < q"
  shows "case symbol_fills (qty, avg, realized) fs of (qty', avg', realized') \<Rightarrow>
    realized' + qty' * (m - avg') = realized + qty * (m - avg) + fills_value fs m"
  using assms
proof (induction fs arbitrary: qty avg realized)
  case (Cons f fs)
  obtain side q p where f: "f = (side, q, p)" by (cases f)
  obtain qty' avg' delta where s: "symbol_pnl qty avg side q p = (qty', avg', delta)"
    by (metis prod_cases3)
  have "delta + qty' * (m - avg') = qty * (m - avg) + fill_value side q p m"
    using symbol_pnl_equity [where old = qty and avg = avg and side = side and q = q and p = p and m = m] Cons.prems by (simp add: s f)
  then show ?case
    using Cons.IH [where qty = qty' and avg = avg' and realized = "realized + delta"] Cons.prems
    by (auto simp: f s fills_value_def split: prod.splits)
qed (simp add: fills_value_def)

section \<open>The rows of the account\<close>

text \<open>What the rows of one day say: the cost basis of a symbol and the daily aggregate.\<close>

definition account :: "(key \<Rightarrow> item option) \<Rightarrow> str \<Rightarrow> str \<Rightarrow> rat \<times> rat \<times> rat" where
  "account T today symbol =
    (case T (pnl_symbol_key today symbol) of
       None \<Rightarrow> (0, 0, 0)
     | Some i \<Rightarrow> (item_float i ''quantity'', item_float i ''avg_price'', item_float i ''realized_pnl''))"

definition day_realized :: "(key \<Rightarrow> item option) \<Rightarrow> str \<Rightarrow> rat" where
  "day_realized T today = (case T (pnl_day_key today) of None \<Rightarrow> 0 | Some i \<Rightarrow> row_realized i)"

definition account_equity :: "(key \<Rightarrow> item option) \<Rightarrow> str \<Rightarrow> str \<Rightarrow> rat \<Rightarrow> rat" where
  "account_equity T today symbol m =
    (case account T today symbol of (qty, avg, realized) \<Rightarrow> realized + qty * (m - avg))"

lemma fill_keys:
  "pnl_symbol_key today x = pnl_symbol_key today y \<longleftrightarrow> x = y"
  "fill_key e = fill_key e' \<longleftrightarrow> e = e'"
  "pnl_symbol_key today x \<noteq> pnl_day_key today" "pnl_day_key today \<noteq> pnl_symbol_key today x"
  "pnl_symbol_key today x \<noteq> nav_key" "nav_key \<noteq> pnl_symbol_key today x"
  "pnl_day_key today \<noteq> nav_key" "nav_key \<noteq> pnl_day_key today"
  "fill_key e \<noteq> pnl_symbol_key today x" "pnl_symbol_key today x \<noteq> fill_key e"
  "fill_key e \<noteq> pnl_day_key today" "pnl_day_key today \<noteq> fill_key e"
  "fill_key e \<noteq> nav_key" "nav_key \<noteq> fill_key e"
  by (simp_all add: fill_key_def pnl_symbol_key_def pnl_day_key_def nav_key_def)

lemma item_float_simps [simp]:
  "item_float (i(a \<mapsto> N x)) a = x"
  "a \<noteq> b \<Longrightarrow> item_float (i(b := v)) a = item_float i a"
  "item_float Map.empty a = 0"
  by (simp_all add: item_float_def num_of_def)

lemma account_row:
  "T (pnl_symbol_key today x) = Some (pnl_symbol_row today x qty avg realized ts) \<Longrightarrow>
    account T today x = (qty, avg, realized)"
  by (simp add: account_def pnl_symbol_row_def)

text \<open>The two writes of one fill.\<close>

lemma apply_fill_step:
  assumes "dynamo_ok (=) D" "dynamo_values D"
    and "apply_fill_to_symbol cf D today symbol dirn q p now_iso w = (Inr delta, w')"
    and "account (dy_tables D w (dl_risk_state_table cf)) today symbol = (qty, avg, realized)"
  shows "\<exists>side qty' avg'. direction_of dirn = Some side \<and> symbol_pnl qty avg side q p = (qty', avg', delta) \<and>
    dy_tables D w' = tables_put (dy_tables D w) (dl_risk_state_table cf) (pnl_symbol_key today symbol)
      (pnl_symbol_row today symbol qty' avg' (realized + delta) now_iso)"
proof -
  obtain r w1 where g: "dy_get D w (dl_risk_state_table cf) (pnl_symbol_key today symbol) = (Inr r, w1)"
    using assms(3) by (auto simp: apply_fill_to_symbol_def split: prod.splits sum.splits)
  define i where "i = (case r of None \<Rightarrow> Map.empty | Some i \<Rightarrow> i)"
  have r: "r = dy_tables D w (dl_risk_state_table cf) (pnl_symbol_key today symbol)" "dy_tables D w1 = dy_tables D w"
    using sole_get [OF assms(1,2) g] by simp_all
  have i: "item_float i ''quantity'' = qty" "item_float i ''avg_price'' = avg" "item_float i ''realized_pnl'' = realized"
    using assms(4) by (auto simp: account_def i_def r split: option.splits)
  from assms(3) g i show ?thesis
    by (auto simp: apply_fill_to_symbol_def Let_def r(2) simp flip: i_def split: option.splits prod.splits sum.splits
        dest!: sole_put [OF assms(1)])
qed

lemma update_day_step:
  assumes "dynamo_ok (=) D" "dynamo_values D"
    and "update_daily_pnl_and_nav cf D today delta now_iso t (s, w) = (Inr realized_today, s', w')"
  shows "realized_today = day_realized (dy_tables D w (dl_risk_state_table cf)) today + delta \<and>
    (\<exists>row. row_realized row = realized_today \<and>
      dy_tables D w' = tables_put (tables_put (dy_tables D w) (dl_risk_state_table cf) (pnl_day_key today) row)
        (dl_risk_state_table cf) nav_key (nav_row (dl_opening_nav cf) realized_today now_iso))"
proof -
  let ?us = "[SetTo ''trade_date'' (S today), SetTo ''updated_at'' (S now_iso), AddNum ''realized_pnl'' delta]"
  obtain row w1 where u: "dy_update D w (dl_risk_state_table cf) (pnl_day_key today) ?us NoCond = (Inr row, w1)"
    and n: "row ''realized_pnl'' = Some (N realized_today)"
    and p: "\<exists>x. dy_put D w1 (dl_risk_state_table cf) nav_key (nav_row (dl_opening_nav cf) realized_today now_iso) NoCond = (Inr x, w')"
    using assms(3) by (auto simp: update_daily_pnl_and_nav_def split: prod.splits sum.splits option.splits attr.splits)
  have row: "row = updated_row (pnl_day_key today) ?us (dy_tables D w (dl_risk_state_table cf) (pnl_day_key today))"
    and t1: "dy_tables D w1 = tables_put (dy_tables D w) (dl_risk_state_table cf) (pnl_day_key today) row"
    using sole_update [OF assms(1,2) u] by simp_all
  have "row ''realized_pnl'' = Some (N (day_realized (dy_tables D w (dl_risk_state_table cf)) today + delta))"
    by (auto simp: row updated_row_def day_realized_def row_realized_def item_float_def num_of_def pnl_day_key_def
        split: option.splits)
  then have "realized_today = day_realized (dy_tables D w (dl_risk_state_table cf)) today + delta"
    using n by simp
  moreover have "row_realized row = realized_today"
    by (simp add: row_realized_def item_float_def num_of_def n)
  ultimately show ?thesis
    using p sole_put [OF assms(1)] t1 by fastforce
qed

text \<open>One recorded fill over a client without other writers.\<close>

lemma get_unrealized_tables:
  assumes "dynamo_ok (=) D" "dl_dynamo cf = Some D" "get_unrealized_pnl cf w = Some (r, w')"
  shows "dy_tables D w' = dy_tables D w"
  using assms scan_all_le [OF assms(1)]
  by (fastforce simp: get_unrealized_pnl_def split: option.splits prod.splits sum.splits)

lemma account_fill_step:
  assumes "dynamo_ok (=) D" "dynamo_values D" "dl_dynamo cf = Some D"
    and "account_fill cf D f today now_iso t2 t3 (s, w) = Some (Inr r, s', w')"
    and "account (dy_tables D w (dl_risk_state_table cf)) today (fl_symbol f) = (qty, avg, realized)"
  shows "\<exists>side qty' avg' row row'.
    direction_of (py_upper (fl_direction f)) = Some side \<and>
    symbol_pnl qty avg side (fl_quantity f) (fl_price f) = (qty', avg', fr_realized_delta r) \<and>
    row_realized row = day_realized (dy_tables D w (dl_risk_state_table cf)) today + fr_realized_delta r \<and>
    dy_tables D w' (dl_risk_state_table cf) = (dy_tables D w (dl_risk_state_table cf))
      (pnl_symbol_key today (fl_symbol f) \<mapsto>
          pnl_symbol_row today (fl_symbol f) qty' avg' (realized + fr_realized_delta r) now_iso,
       pnl_day_key today \<mapsto> row, nav_key \<mapsto> row')"
proof -
  let ?T = "\<lambda>w. dy_tables D w (dl_risk_state_table cf)"
  obtain delta w1 where a: "apply_fill_to_symbol cf D today (fl_symbol f) (py_upper (fl_direction f))
      (fl_quantity f) (fl_price f) now_iso w = (Inr delta, w1)"
    using assms(4) by (auto simp: account_fill_def split: prod.splits sum.splits)
  obtain rt s1 w2 where u: "update_daily_pnl_and_nav cf D today delta now_iso t2 (s, w1) = (Inr rt, s1, w2)"
    using assms(4) a by (auto simp: account_fill_def split: prod.splits sum.splits)
  have rest: "fr_realized_delta r = delta" "\<exists>x. get_unrealized_pnl cf w2 = Some (x, w')"
    using assms(4) a u by (auto simp: account_fill_def Let_def split: option.splits prod.splits sum.splits)
  have w': "dy_tables D w' = dy_tables D w2"
    using rest(2) get_unrealized_tables [OF assms(1,3)] by blast
  from apply_fill_step [OF assms(1,2) a assms(5)] obtain side qty' avg' where
    s: "direction_of (py_upper (fl_direction f)) = Some side" "symbol_pnl qty avg side (fl_quantity f) (fl_price f) = (qty', avg', delta)"
    and t1: "dy_tables D w1 = tables_put (dy_tables D w) (dl_risk_state_table cf) (pnl_symbol_key today (fl_symbol f))
      (pnl_symbol_row today (fl_symbol f) qty' avg' (realized + delta) now_iso)" by blast
  from update_day_step [OF assms(1,2) u] obtain row where
    row: "row_realized row = day_realized (?T w1) today + delta"
    and t2: "dy_tables D w2 = tables_put (tables_put (dy_tables D w1) (dl_risk_state_table cf) (pnl_day_key today) row)
        (dl_risk_state_table cf) nav_key (nav_row (dl_opening_nav cf) rt now_iso)" by auto
  have "day_realized (?T w1) today = day_realized (?T w) today"
    by (simp add: t1 day_realized_def tables_put_def fill_keys)
  then show ?thesis
    using s row rest(1) by (auto simp: w' t1 t2 tables_put_def)
qed

lemma record_fill_step:
  assumes D: "dynamo_ok (=) D" "dynamo_values D" "dl_dynamo cf = Some D"
    and r: "record_fill cf f today now_iso t1 t2 t3 (s, w) = Some (Inr r, s', w')"
    and new: "dy_tables D w (dl_risk_state_table cf) (fill_key (event_key cf f)) = None"
  shows "0 < fl_quantity f"
    and "day_realized (dy_tables D w' (dl_risk_state_table cf)) today =
      day_realized (dy_tables D w (dl_risk_state_table cf)) today + fr_realized_delta r"
    and "\<exists>side. direction_of (py_upper (fl_direction f)) = Some side \<and>
      account_equity (dy_tables D w' (dl_risk_state_table cf)) today (fl_symbol f) m =
      account_equity (dy_tables D w (dl_risk_state_table cf)) today (fl_symbol f) m +
        fill_value side (fl_quantity f) (fl_price f) m"
    and "x \<noteq> fl_symbol f \<Longrightarrow> account_equity (dy_tables D w' (dl_risk_state_table cf)) today x m =
      account_equity (dy_tables D w (dl_risk_state_table cf)) today x m"
    and "e \<noteq> event_key cf f \<Longrightarrow> dy_tables D w' (dl_risk_state_table cf) (fill_key e) =
      dy_tables D w (dl_risk_state_table cf) (fill_key e)"
proof -
  let ?T = "\<lambda>w. dy_tables D w (dl_risk_state_table cf)"
  show q: "0 < fl_quantity f"
    using r by (auto simp: record_fill_def D(3) split: if_splits)
  obtain x w1 where p: "dy_put D w (dl_risk_state_table cf) (fill_key (event_key cf f)) (fill_row cf f today now_iso)
      (NotExists ''PK'') = (x, w1)" by force
  have "x \<noteq> Inl ConditionalCheckFailed"
    using sole_put_refused [OF D(1)] p new by fastforce
  then have x: "x = Inr ()" and a: "account_fill cf D f today now_iso t2 t3 (s, w1) = Some (Inr r, s', w')"
    using r p by (auto simp: record_fill_def D(3) split: if_splits sum.splits exn.splits)
  have t1: "?T w1 = (?T w)(fill_key (event_key cf f) \<mapsto> fill_row cf f today now_iso)"
    using sole_put [OF D(1)] p x by (auto simp: tables_put_def)
  obtain qty avg realized where acc: "account (?T w) today (fl_symbol f) = (qty, avg, realized)"
    by (metis prod_cases3)
  then have acc1: "account (?T w1) today (fl_symbol f) = (qty, avg, realized)"
    by (simp add: t1 account_def fill_keys)
  from account_fill_step [OF D a acc1] obtain side qty' avg' row row' where
    s: "direction_of (py_upper (fl_direction f)) = Some side" "symbol_pnl qty avg side (fl_quantity f) (fl_price f) = (qty', avg', fr_realized_delta r)"
    and row: "row_realized row = day_realized (?T w1) today + fr_realized_delta r"
    and t': "?T w' = (?T w1)(pnl_symbol_key today (fl_symbol f) \<mapsto>
          pnl_symbol_row today (fl_symbol f) qty' avg' (realized + fr_realized_delta r) now_iso,
       pnl_day_key today \<mapsto> row, nav_key \<mapsto> row')" by blast
  show "day_realized (?T w') today = day_realized (?T w) today + fr_realized_delta r"
    using row by (simp add: day_realized_def t' t1 fill_keys)
  have "account (?T w') today (fl_symbol f) = (qty', avg', realized + fr_realized_delta r)"
    by (rule account_row) (simp add: t' fill_keys)
  then have "account_equity (?T w') today (fl_symbol f) m = account_equity (?T w) today (fl_symbol f) m
      + fill_value side (fl_quantity f) (fl_price f) m"
    using symbol_pnl_equity [OF q, where old = qty and avg = avg and side = side and p = "fl_price f" and m = m]
    by (simp add: account_equity_def acc s)
  then show "\<exists>side. direction_of (py_upper (fl_direction f)) = Some side \<and>
      account_equity (?T w') today (fl_symbol f) m = account_equity (?T w) today (fl_symbol f) m
        + fill_value side (fl_quantity f) (fl_price f) m"
    using s(1) by blast
  show "x \<noteq> fl_symbol f \<Longrightarrow> account_equity (?T w') today x m = account_equity (?T w) today x m"
    for x by (simp add: account_equity_def account_def t' t1 fill_keys)
  show "e \<noteq> event_key cf f \<Longrightarrow> ?T w' (fill_key e) = ?T w (fill_key e)"
    by (simp add: t' t1 fill_keys)
qed

section \<open>Runs\<close>

text \<open>A sequence of \<open>record_fill\<close> calls of one day that all return; the realized deltas they report.\<close>

type_synonym fill_call = "risk_fill \<times> str \<times> rat \<times> rat \<times> rat"

fun record_fills :: "'w dl_config \<Rightarrow> str \<Rightarrow> fill_call list \<Rightarrow> dl_state \<times> 'w \<Rightarrow> (rat list \<times> dl_state \<times> 'w) option" where
  "record_fills cf today [] sw = Some ([], sw)"
| "record_fills cf today ((f, now_iso, t1, t2, t3) # cs) sw =
    (case record_fill cf f today now_iso t1 t2 t3 sw of
       Some (Inr r, sw) \<Rightarrow>
         (case record_fills cf today cs sw of
            None \<Rightarrow> None
          | Some (ds, sw) \<Rightarrow> Some (fr_realized_delta r # ds, sw))
     | _ \<Rightarrow> None)"

text \<open>The fills of one symbol in a run.\<close>

definition fills_of :: "str \<Rightarrow> fill_call list \<Rightarrow> (order_side \<times> rat \<times> rat) list" where
  "fills_of x cs = map (\<lambda>(f, _). (case direction_of (py_upper (fl_direction f)) of Some s \<Rightarrow> s | None \<Rightarrow> BUY,
      fl_quantity f, fl_price f)) (filter (\<lambda>(f, _). fl_symbol f = x) cs)"

lemma record_fills_exact:
  assumes D: "dynamo_ok (=) D" "dynamo_values D" "dl_dynamo cf = Some D"
    and "record_fills cf today cs (s, w) = Some (ds, s', w')"
    and "distinct (map (\<lambda>(f, _). event_key cf f) cs)"
    and "\<forall>(f, _) \<in> set cs. dy_tables D w (dl_risk_state_table cf) (fill_key (event_key cf f)) = None"
  shows "day_realized (dy_tables D w' (dl_risk_state_table cf)) today =
      day_realized (dy_tables D w (dl_risk_state_table cf)) today + sum_list ds \<and>
    account_equity (dy_tables D w' (dl_risk_state_table cf)) today x m =
      account_equity (dy_tables D w (dl_risk_state_table cf)) today x m + fills_value (fills_of x cs) m"
  using assms(4-6)
proof (induction cs arbitrary: s w ds)
  case Nil
  then show ?case by (simp add: fills_of_def fills_value_def)
next
  case (Cons c cs)
  obtain f now_iso t1 t2 t3 where c: "c = (f, now_iso, t1, t2, t3)" by (cases c)
  obtain r s1 w1 ds1 where r: "record_fill cf f today now_iso t1 t2 t3 (s, w) = Some (Inr r, s1, w1)"
    and rs: "record_fills cf today cs (s1, w1) = Some (ds1, s', w')" and ds: "ds = fr_realized_delta r # ds1"
    using Cons.prems(1) by (auto simp: c split: option.splits prod.splits sum.splits)
  have new: "dy_tables D w (dl_risk_state_table cf) (fill_key (event_key cf f)) = None"
    using Cons.prems(3) by (simp add: c)
  note step = record_fill_step [OF D r new]
  have "dy_tables D w1 (dl_risk_state_table cf) (fill_key (event_key cf g)) = None" if "(g, y) \<in> set cs" for g y
  proof -
    have "event_key cf g \<noteq> event_key cf f"
      using Cons.prems(2) that by (force simp: c)
    moreover have "dy_tables D w (dl_risk_state_table cf) (fill_key (event_key cf g)) = None"
      using Cons.prems(3) that by (auto simp: c)
    ultimately show ?thesis
      using step(5) by metis
  qed
  then have "\<forall>(g, _) \<in> set cs. dy_tables D w1 (dl_risk_state_table cf) (fill_key (event_key cf g)) = None"
    by blast
  then have ih: "day_realized (dy_tables D w' (dl_risk_state_table cf)) today =
      day_realized (dy_tables D w1 (dl_risk_state_table cf)) today + sum_list ds1 \<and>
    account_equity (dy_tables D w' (dl_risk_state_table cf)) today x m =
      account_equity (dy_tables D w1 (dl_risk_state_table cf)) today x m + fills_value (fills_of x cs) m"
    using Cons.IH [OF rs] Cons.prems(2) by (simp add: c)
  have "fills_value (fills_of x (c # cs)) m = (if x = fl_symbol f then
      fill_value (case direction_of (py_upper (fl_direction f)) of Some s \<Rightarrow> s | None \<Rightarrow> BUY) (fl_quantity f) (fl_price f) m
      else 0) + fills_value (fills_of x cs) m"
    by (simp add: c fills_of_def fills_value_def)
  then show ?case
    using ih step(2) step(3) [of m] step(4) [of x m] ds
    by (cases "x = fl_symbol f") auto
qed

section \<open>Properties\<close>

text \<open>
  The risk engine's cost basis conserves equity: for every sequence of fills of one symbol, long,
  short, partial, closing or reversing, realized P&L plus the mark-to-market value of the remaining
  quantity equals the sum of the fills' own mark-to-market values, at every mark price.
\<close>

theorem symbol_pnl_conserves_equity:
  assumes "\<forall>(side, q, p) \<in> set fs. 0 < q"
    and "symbol_fills (0, 0, 0) fs = (qty, avg, realized)"
  shows "realized + qty * (m - avg) = fills_value fs m"
  using symbol_fills_equity [OF assms(1), where qty = 0 and avg = 0 and realized = 0 and m = m] assms(2) by simp

theorem symbol_pnl_conserves_equity_witness:
  "let (qty, avg, realized) = symbol_fills (0, 0, 0) [(SELL, 10, 100), (BUY, 4, 90), (BUY, 8, 95)]
   in realized + qty * (97 - avg) = fills_value [(SELL, 10, 100), (BUY, 4, 90), (BUY, 8, 95)] 97"
proof -
  obtain qty avg realized where r: "symbol_fills (0, 0, 0) [(SELL, 10, 100), (BUY, 4, 90), (BUY, 8, 95)] = (qty, avg, realized)"
    by (metis prod_cases3)
  show ?thesis
    unfolding r using symbol_pnl_conserves_equity [OF _ r, of 97] by simp
qed

text \<open>
  C14 Recording fills is exact: after any run of \<open>record_fill\<close> calls with new event keys over a table
  nobody else writes, the daily aggregate has grown by the sum of the realized deltas reported, and
  for every symbol realized P&L plus open value has changed by the value of that symbol's fills.
\<close>

theorem recorded_fills_exact:
  assumes "dynamo_ok (=) D" "dynamo_values D" "dl_dynamo cf = Some D"
    and "record_fills cf today cs (s, w) = Some (ds, s', w')"
    and "distinct (map (\<lambda>(f, _). event_key cf f) cs)"
    and "\<forall>(f, _) \<in> set cs. dy_tables D w (dl_risk_state_table cf) (fill_key (event_key cf f)) = None"
  shows "day_realized (dy_tables D w' (dl_risk_state_table cf)) today =
      day_realized (dy_tables D w (dl_risk_state_table cf)) today + sum_list ds \<and>
    account_equity (dy_tables D w' (dl_risk_state_table cf)) today x m =
      account_equity (dy_tables D w (dl_risk_state_table cf)) today x m + fills_value (fills_of x cs) m"
  using record_fills_exact [OF assms, of x m] .

definition demo_dl :: "mem dl_config" where
  "demo_dl = \<lparr>dl_dynamo = Some mem_dynamo, dl_orders_table = ''orders'', dl_positions_table = ''positions'',
    dl_risk_state_table = ''risk'', dl_opening_nav = 1000000, dl_num_str = (\<lambda>_. []), dl_fuel = 1\<rparr>"

definition demo_fill :: "str \<Rightarrow> str \<Rightarrow> rat \<Rightarrow> rat \<Rightarrow> risk_fill" where
  "demo_fill fid dir q p = \<lparr>fl_order_id = ''o1'', fl_symbol = ''INFY'', fl_market = ''NSE'',
    fl_direction = dir, fl_quantity = q, fl_price = p, fl_fill_id = Some fid\<rparr>"

lemma demo_direction: "py_upper ''BUY'' = ''BUY''" "py_upper ''SELL'' = ''SELL''"
  by code_simp+

lemma demo_recorded:
  "record_fills demo_dl ''d'' [(demo_fill ''f1'' ''BUY'' 10 100, ''t'', 1, 2, 3), (demo_fill ''f2'' ''SELL'' 4 110, ''t'', 4, 5, 6)]
     (new_dl default_limits, []) \<noteq> None"
  by (simp add: demo_dl_def demo_fill_def record_fill_def account_fill_def apply_fill_to_symbol_def
      update_daily_pnl_and_nav_def get_unrealized_pnl_def demo_direction direction_of_def event_key_def Let_def
      mem_simps new_dl_def symbol_pnl_def updated_row_def fill_keys pnl_symbol_row_def)

theorem recorded_fills_exact_witness:
  "\<exists>ds s w. record_fills demo_dl ''d'' [(demo_fill ''f1'' ''BUY'' 10 100, ''t'', 1, 2, 3), (demo_fill ''f2'' ''SELL'' 4 110, ''t'', 4, 5, 6)]
     (new_dl default_limits, []) = Some (ds, s, w) \<and>
    day_realized (mem_tables w ''risk'') ''d'' = sum_list ds"
proof -
  let ?cs = "[(demo_fill ''f1'' ''BUY'' 10 100, ''t'', 1, 2, 3), (demo_fill ''f2'' ''SELL'' 4 110, ''t'', 4, 5, 6)]"
  obtain ds s w where r: "record_fills demo_dl ''d'' ?cs (new_dl default_limits, []) = Some (ds, s, w)"
    using demo_recorded by auto
  have "day_realized (dy_tables mem_dynamo w (dl_risk_state_table demo_dl)) ''d'' =
      day_realized (dy_tables mem_dynamo [] (dl_risk_state_table demo_dl)) ''d'' + sum_list ds"
    by (rule recorded_fills_exact [OF mem_dynamo_ok mem_dynamo_values _ r, THEN conjunct1])
      (simp_all add: demo_dl_def event_key_def demo_fill_def mem_simps)
  then show ?thesis
    using r by (auto simp: demo_dl_def mem_dynamo_def day_realized_def mem_tables_def)
qed

text \<open>
  A fill is counted at most once, and a reserved fill that was not accounted is lost: once the
  reservation row of a fill has been written, whatever became of that call, every later call for the
  same event that returns reports a realized delta of zero and leaves the limits unchanged.
\<close>

theorem reserved_fill_not_recounted:
  assumes ok: "dynamo_ok R D" "dl_dynamo cf = Some D"
    and keeps: "\<And>t t'. R t t' \<Longrightarrow> t (dl_risk_state_table cf) (fill_key (event_key cf f)) \<noteq> None \<Longrightarrow>
        t' (dl_risk_state_table cf) (fill_key (event_key cf f)) \<noteq> None"
    and first: "dy_put D w (dl_risk_state_table cf) (fill_key (event_key cf f)) row (NotExists ''PK'') = (Inr (), w1)"
    and later: "R (dy_tables D w1) (dy_tables D w2)"
    and again: "record_fill cf f today now_iso t1 t2 t3 (s2, w2) = Some (Inr r, s3, w3)"
  shows "fr_realized_delta r = 0 \<and> dl_limits s3 = dl_limits s2"
proof -
  obtain t where "R (tables_put t (dl_risk_state_table cf) (fill_key (event_key cf f)) row) (dy_tables D w1)"
    using dynamo_ok_put [OF ok(1) first] by (rule commits_InrE)
  then have "dy_tables D w1 (dl_risk_state_table cf) (fill_key (event_key cf f)) \<noteq> None"
    by (rule keeps) simp
  then have there: "dy_tables D w2 (dl_risk_state_table cf) (fill_key (event_key cf f)) \<noteq> None"
    by (rule keeps [OF later])
  obtain x w4 where p: "dy_put D w2 (dl_risk_state_table cf) (fill_key (event_key cf f)) (fill_row cf f today now_iso)
      (NotExists ''PK'') = (x, w4)" by force
  have "x \<noteq> Inr u" for u
  proof
    assume x: "x = Inr u"
    obtain t where "R (dy_tables D w2) t" "cond_holds (NotExists ''PK'') (fill_key (event_key cf f))
        (t (dl_risk_state_table cf) (fill_key (event_key cf f)))"
      using dynamo_ok_put [OF ok(1) p [unfolded x]] by (rule commits_InrE)
    then show False
      using keeps there by fastforce
  qed
  moreover have "\<exists>q. get_daily_pnl cf today t1 (s2, w4) = Some (q, s3, w3)" "fr_realized_delta r = 0" if "x = Inl ConditionalCheckFailed"
    using again p that by (auto simp: record_fill_def ok(2) split: if_splits option.splits prod.splits sum.splits)
  moreover have "x = Inl ConditionalCheckFailed \<or> (\<exists>u. x = Inr u)"
    using again p by (auto simp: record_fill_def ok(2) split: if_splits sum.splits exn.splits)
  ultimately show ?thesis
    by (auto simp: get_daily_pnl_def get_realized_pnl_def split: if_splits option.splits prod.splits sum.splits)
qed

theorem reserved_fill_not_recounted_witness:
  "\<exists>r s3 w3. record_fill demo_dl (demo_fill ''f1'' ''SELL'' 10 90) ''d'' ''t2'' 40 41 42
     (new_dl default_limits, snd (dy_put mem_dynamo [] ''risk'' (fill_key ''f1'') Map.empty (NotExists ''PK''))) = Some (Inr r, s3, w3)
     \<and> fr_realized_delta r = 0"
proof -
  let ?w = "snd (dy_put mem_dynamo [] ''risk'' (fill_key ''f1'') Map.empty (NotExists ''PK''))"
  have "\<exists>r s3 w3. record_fill demo_dl (demo_fill ''f1'' ''SELL'' 10 90) ''d'' ''t2'' 40 41 42 (new_dl default_limits, ?w) = Some (Inr r, s3, w3)"
    by (simp add: demo_dl_def demo_fill_def record_fill_def get_daily_pnl_def get_realized_pnl_def fetch_realized_pnl_def
        get_unrealized_pnl_def event_key_def mem_simps new_dl_def fill_keys)
  then obtain r s3 w3 where again: "record_fill demo_dl (demo_fill ''f1'' ''SELL'' 10 90) ''d'' ''t2'' 40 41 42
      (new_dl default_limits, ?w) = Some (Inr r, s3, w3)" by blast
  have "fr_realized_delta r = 0 \<and> dl_limits s3 = dl_limits (new_dl default_limits)"
    by (rule reserved_fill_not_recounted [OF mem_dynamo_ok _ _ _ _ again, where w = "[]" and ?w1.0 = ?w and row = Map.empty])
      (simp_all add: demo_dl_def demo_fill_def event_key_def mem_simps)
  then show ?thesis
    using again by blast
qed

end
