(* ===== verification/AutoTriggers.thy ===== *)
theory AutoTriggers
  imports KillSwitchModel FillAccounting
begin

text \<open>
  The automatic kill-switch triggers (\<open>services/risk_engine/killswitch/auto_triggers.py\<close>): one
  iteration of each of the five monitor loops over the shared monitor state, and the event-report
  methods.  A \<open>datetime\<close> is its time in seconds.  \<open>is_market_hours\<close> takes the hour and the minute of
  the clock.  An iteration that raises is logged and changes nothing, so it has no branch of its own;
  the sleeping between the iterations is left out.
\<close>

section \<open>State\<close>

record 'w am_config =
  am_ks :: "'w ks_config"
  am_order_rate_limit :: nat
  am_order_rate_window :: rat
  am_broker_timeout :: rat
  am_consumer_lag_timeout :: rat
  am_producer_heartbeat_timeout :: rat
  am_strategy_loss_pct :: rat
  am_dynamo :: "'w dynamo option"
  am_prices_table :: str
  am_fromiso :: "str \<Rightarrow> rat option"
  am_start_time :: rat
  am_startup_grace :: rat

record am_state =
  am_order_timestamps :: "rat list"
  am_last_broker_ping :: "rat option"
  am_broker_connected :: bool
  am_last_tick :: "(str \<times> rat) list"
  am_ks_was_active :: bool
  am_strategy_pnl :: "(str \<times> rat) list"
  am_strategy_capital :: "(str \<times> rat) list"

definition new_monitor :: am_state where
  "new_monitor = \<lparr>am_order_timestamps = [], am_last_broker_ping = None, am_broker_connected = False,
    am_last_tick = [], am_ks_was_active = False, am_strategy_pnl = [], am_strategy_capital = []\<rparr>"

text \<open>\<open>data_stale_secs\<close> is the legacy alias of the consumer-lag timeout.\<close>

definition consumer_lag_timeout :: "rat option \<Rightarrow> rat \<Rightarrow> rat" where
  "consumer_lag_timeout data_stale_secs consumer_lag_stale_secs =
    (case data_stale_secs of Some v \<Rightarrow> v | None \<Rightarrow> consumer_lag_stale_secs)"

text \<open>Assignment to a dict key: in place, or appended.\<close>

fun dict_set :: "str \<Rightarrow> 'a \<Rightarrow> (str \<times> 'a) list \<Rightarrow> (str \<times> 'a) list" where
  "dict_set k v [] = [(k, v)]"
| "dict_set k v ((k', v') # d) = (if k' = k then (k, v) # d else (k', v') # dict_set k v d)"

lemma map_of_dict_set: "map_of (dict_set k v d) = (map_of d)(k \<mapsto> v)"
  by (induction d) auto

section \<open>Event reports\<close>

definition record_order_event :: "rat \<Rightarrow> am_state \<Rightarrow> am_state" where
  "record_order_event now s = s\<lparr>am_order_timestamps := am_order_timestamps s @ [now]\<rparr>"

definition record_broker_ping :: "rat \<Rightarrow> am_state \<Rightarrow> am_state" where
  "record_broker_ping now s = s\<lparr>am_last_broker_ping := Some now, am_broker_connected := True\<rparr>"

definition record_data_tick :: "rat \<Rightarrow> str \<Rightarrow> am_state \<Rightarrow> am_state" where
  "record_data_tick now market s = s\<lparr>am_last_tick := dict_set (py_upper market) now (am_last_tick s)\<rparr>"

definition record_strategy_pnl :: "str \<Rightarrow> rat \<Rightarrow> rat \<Rightarrow> am_state \<Rightarrow> am_state" where
  "record_strategy_pnl strategy_id pnl capital s =
    s\<lparr>am_strategy_pnl := dict_set strategy_id pnl (am_strategy_pnl s),
      am_strategy_capital := dict_set strategy_id capital (am_strategy_capital s)\<rparr>"

section \<open>Monitors\<close>

definition is_market_hours :: "nat \<Rightarrow> nat \<Rightarrow> bool" where
  "is_market_hours h mi =
    (let hour = of_nat h + of_nat mi / 60 :: rat in (7/2 \<le> hour \<and> hour \<le> 21/2) \<or> (27/2 \<le> hour \<and> hour \<le> 20))"

text \<open>\<open>activate\<close> at the time stamps of this iteration; the numbers in the reasons are left out.\<close>

definition trigger :: "'w am_config \<Rightarrow> str \<Rightarrow> str \<Rightarrow> str \<Rightarrow> ks_state \<times> 'w \<Rightarrow> ks_state \<times> 'w" where
  "trigger cf reason monitor stamp kw = activate (am_ks cf) reason monitor stamp stamp stamp kw"

definition monitor_order_rate :: "'w am_config \<Rightarrow> rat \<Rightarrow> str \<Rightarrow> am_state \<times> ks_state \<times> 'w \<Rightarrow> am_state \<times> ks_state \<times> 'w" where
  "monitor_order_rate cf now stamp skw =
    (case skw of (s, k, w) \<Rightarrow>
      if ks_active k then (s, k, w)
      else
        (let kept = dropWhile (\<lambda>t. t < now - am_order_rate_window cf) (am_order_timestamps s);
             s = s\<lparr>am_order_timestamps := kept\<rparr>
         in (s, if am_order_rate_limit cf < length kept
                then trigger cf ''Auto-triggered: order rate runaway'' ''order_rate_monitor'' stamp (k, w)
                else (k, w))))"

definition monitor_broker_connectivity :: "'w am_config \<Rightarrow> rat \<Rightarrow> str \<Rightarrow> am_state \<times> ks_state \<times> 'w
    \<Rightarrow> am_state \<times> ks_state \<times> 'w" where
  "monitor_broker_connectivity cf now stamp skw =
    (case skw of (s, k, w) \<Rightarrow>
      if ks_active k then (s, k, w)
      else
        (case am_last_broker_ping s of
           None \<Rightarrow> (s, k, w)
         | Some ping \<Rightarrow>
            if \<not> am_broker_connected s then (s, k, w)
            else (s, if am_broker_timeout cf < now - ping
                then trigger cf ''Auto-triggered: broker connectivity lost'' ''broker_connectivity_monitor'' stamp (k, w)
                else (k, w))))"

definition monitor_consumer_lag :: "'w am_config \<Rightarrow> rat \<Rightarrow> nat \<Rightarrow> nat \<Rightarrow> str \<Rightarrow> am_state \<times> ks_state \<times> 'w
    \<Rightarrow> am_state \<times> ks_state \<times> 'w" where
  "monitor_consumer_lag cf now h mi stamp skw =
    (case skw of (s, k, w) \<Rightarrow>
      (let s = (if am_ks_was_active s \<and> \<not> ks_active k
                then s\<lparr>am_last_tick := map (\<lambda>(market, _). (market, now)) (am_last_tick s)\<rparr> else s);
           s = s\<lparr>am_ks_was_active := ks_active k\<rparr>
       in if ks_active k \<or> \<not> is_market_hours h mi \<or> am_last_tick s = []
             \<or> now - am_start_time cf < am_startup_grace cf then (s, k, w)
          else (s, if \<exists>(market, tick) \<in> set (am_last_tick s). am_consumer_lag_timeout cf < now - tick
                then trigger cf ''Auto-triggered: Kafka consumer lag'' ''consumer_lag_monitor'' stamp (k, w)
                else (k, w))))"

definition heartbeat_key :: "str \<Rightarrow> key" where
  "heartbeat_key market = (''HEARTBEAT#'' @ market, ''CURRENT'')"

text \<open>Is the heartbeat row of a market stale?  A missing row or an unreadable time stamp is skipped.\<close>

definition heartbeat_stale :: "'w am_config \<Rightarrow> rat \<Rightarrow> item option \<Rightarrow> bool" where
  "heartbeat_stale cf now found =
    (case found of
       None \<Rightarrow> False
     | Some i \<Rightarrow>
        (case i ''updated_at'' of
           Some (S ts) \<Rightarrow> (case am_fromiso cf ts of
              None \<Rightarrow> False | Some t \<Rightarrow> ts \<noteq> [] \<and> am_producer_heartbeat_timeout cf < now - t)
         | _ \<Rightarrow> False))"

fun check_heartbeats :: "'w am_config \<Rightarrow> 'w dynamo \<Rightarrow> rat \<Rightarrow> str list \<Rightarrow> 'w \<Rightarrow> bool \<times> 'w" where
  "check_heartbeats cf D now [] w = (False, w)"
| "check_heartbeats cf D now (market # ms) w =
    (case dy_get D w (am_prices_table cf) (heartbeat_key market) of
       (Inl _, w) \<Rightarrow> check_heartbeats cf D now ms w
     | (Inr found, w) \<Rightarrow> if heartbeat_stale cf now found then (True, w) else check_heartbeats cf D now ms w)"

definition monitor_producer_heartbeat :: "'w am_config \<Rightarrow> rat \<Rightarrow> nat \<Rightarrow> nat \<Rightarrow> str \<Rightarrow> am_state \<times> ks_state \<times> 'w
    \<Rightarrow> am_state \<times> ks_state \<times> 'w" where
  "monitor_producer_heartbeat cf now h mi stamp skw =
    (case skw of (s, k, w) \<Rightarrow>
      (case am_dynamo cf of
         None \<Rightarrow> (s, k, w)
       | Some D \<Rightarrow>
          if ks_active k \<or> \<not> is_market_hours h mi \<or> now - am_start_time cf < am_startup_grace cf then (s, k, w)
          else
            (case check_heartbeats cf D now [''NSE'', ''US''] w of
               (stale, w) \<Rightarrow>
                 (s, if stale then trigger cf ''Auto-triggered: WebSocket producer heartbeat stale''
                       ''producer_heartbeat_monitor'' stamp (k, w)
                     else (k, w)))))"

definition strategy_breached :: "'w am_config \<Rightarrow> am_state \<Rightarrow> str \<times> rat \<Rightarrow> bool" where
  "strategy_breached cf s e =
    (case e of (strategy_id, pnl) \<Rightarrow>
      (let capital = opt_default 0 (map_of (am_strategy_capital s) strategy_id) in
       0 < capital \<and> pnl < 0 \<and> am_strategy_loss_pct cf \<le> \<bar>pnl\<bar> / capital * 100))"

definition monitor_strategy_loss :: "'w am_config \<Rightarrow> str \<Rightarrow> am_state \<times> ks_state \<times> 'w \<Rightarrow> am_state \<times> ks_state \<times> 'w" where
  "monitor_strategy_loss cf stamp skw =
    (case skw of (s, k, w) \<Rightarrow>
      if ks_active k then (s, k, w)
      else (s, if list_ex (strategy_breached cf s) (am_strategy_pnl s)
            then trigger cf ''Auto-triggered: strategy loss threshold breached'' ''strategy_loss_monitor'' stamp (k, w)
            else (k, w)))"

section \<open>Runs\<close>

datatype am_event =
    Order rat
  | BrokerPing rat
  | DataTick rat str
  | StrategyPnl str rat rat
  | PollOrderRate rat str
  | PollBroker rat str
  | PollLag rat nat nat str
  | PollHeartbeat rat nat nat str
  | PollStrategy str

fun am_step :: "'w am_config \<Rightarrow> am_state \<times> ks_state \<times> 'w \<Rightarrow> am_event \<Rightarrow> am_state \<times> ks_state \<times> 'w" where
  "am_step cf (s, k, w) (Order now) = (record_order_event now s, k, w)"
| "am_step cf (s, k, w) (BrokerPing now) = (record_broker_ping now s, k, w)"
| "am_step cf (s, k, w) (DataTick now market) = (record_data_tick now market s, k, w)"
| "am_step cf (s, k, w) (StrategyPnl i p c) = (record_strategy_pnl i p c s, k, w)"
| "am_step cf skw (PollOrderRate now stamp) = monitor_order_rate cf now stamp skw"
| "am_step cf skw (PollBroker now stamp) = monitor_broker_connectivity cf now stamp skw"
| "am_step cf skw (PollLag now h mi stamp) = monitor_consumer_lag cf now h mi stamp skw"
| "am_step cf skw (PollHeartbeat now h mi stamp) = monitor_producer_heartbeat cf now h mi stamp skw"
| "am_step cf skw (PollStrategy stamp) = monitor_strategy_loss cf stamp skw"

definition am_active :: "am_state \<times> ks_state \<times> 'w \<Rightarrow> bool" where
  "am_active skw = ks_active (fst (snd skw))"

lemma activate_keeps: "ks_active k \<Longrightarrow> ks_active (fst (activate cf r a t1 t2 t3 (k, w)))"
  by (simp add: activate_def)

lemma activate_activates [simp]: "ks_active (fst (activate cf r a t1 t2 t3 (k, w)))"
  by (simp add: activate_def Let_def)

lemma trigger_activates [simp]: "ks_active (fst (trigger cf r a t kw))"
  by (cases kw) (simp add: trigger_def)

lemma monitors_skip_active:
  assumes "ks_active k"
  shows "fst (snd (monitor_order_rate cf now stamp (s, k, w))) = k"
    "fst (snd (monitor_broker_connectivity cf now stamp (s, k, w))) = k"
    "fst (snd (monitor_consumer_lag cf now h mi stamp (s, k, w))) = k"
    "fst (snd (monitor_producer_heartbeat cf now h mi stamp (s, k, w))) = k"
    "fst (snd (monitor_strategy_loss cf stamp (s, k, w))) = k"
  using assms
  by (simp_all add: monitor_order_rate_def monitor_broker_connectivity_def monitor_consumer_lag_def
      monitor_producer_heartbeat_def monitor_strategy_loss_def Let_def split: option.split)

lemma am_step_keeps_active: "am_active skw \<Longrightarrow> fst (snd (am_step cf skw e)) = fst (snd skw)"
  by (cases skw; cases e) (simp_all add: am_active_def monitors_skip_active)

text \<open>No report and no monitor clears the kill switch: a monotone machine.\<close>

interpretation triggers: monotone_machine "am_step cf" "\<lambda>_. True" "\<lambda>a b. am_active a \<longrightarrow> am_active b" for cf
proof
  show "True \<Longrightarrow> am_active s \<longrightarrow> am_active (am_step cf s e)" for s e
    using am_step_keeps_active [of s cf e] by (simp add: am_active_def)
qed auto

section \<open>The order-rate window\<close>

text \<open>
  The monitor's window counts exactly the orders of the last \<open>am_order_rate_window\<close> seconds when the
  recorded times are ascending.
\<close>

lemma dropWhile_window:
  "sorted ts \<Longrightarrow> dropWhile (\<lambda>t. t < c) ts = filter (\<lambda>t. c \<le> t) ts" for c :: rat
proof (induction ts)
  case (Cons t ts)
  show ?case
  proof (cases "t < c")
    case False
    then have "\<forall>x \<in> set ts. c \<le> x"
      using Cons.prems by fastforce
    then show ?thesis
      using False by simp
  qed (use Cons in simp)
qed simp

section \<open>Properties\<close>

text \<open>
  The order-rate monitor: with ascending order times, one iteration trips an inactive kill switch
  exactly when more orders than the limit lie within the sliding window.
\<close>

theorem order_rate_trips_iff:
  assumes "sorted (am_order_timestamps s)" "\<not> ks_active k"
  shows "am_active (monitor_order_rate cf now stamp (s, k, w)) \<longleftrightarrow>
    am_order_rate_limit cf < length (filter (\<lambda>t. now - am_order_rate_window cf \<le> t) (am_order_timestamps s))"
  using assms by (simp add: monitor_order_rate_def Let_def am_active_def dropWhile_window)

definition demo_am :: "mem am_config" where
  "demo_am = \<lparr>am_ks = demo_ks mem_dynamo, am_order_rate_limit = 2, am_order_rate_window = 60,
    am_broker_timeout = 30, am_consumer_lag_timeout = 300, am_producer_heartbeat_timeout = 60,
    am_strategy_loss_pct = 5, am_dynamo = Some mem_dynamo, am_prices_table = ''prices'',
    am_fromiso = (\<lambda>_. Some 0), am_start_time = 0, am_startup_grace = 600\<rparr>"

theorem order_rate_trips_iff_witness:
  "am_active (monitor_order_rate demo_am 100 ''t'' (new_monitor\<lparr>am_order_timestamps := [30, 50, 60, 70]\<rparr>, new_kill_switch, []))"
proof -
  have "\<not> ks_active new_kill_switch"
    by (simp add: new_kill_switch_def)
  then show ?thesis
    using order_rate_trips_iff [of "new_monitor\<lparr>am_order_timestamps := [30, 50, 60, 70]\<rparr>" new_kill_switch demo_am 100 "''t''" "[]"]
    by (simp add: demo_am_def)
qed

text \<open>
  The automatic triggers only ever halt trading: no sequence of event reports and monitor
  iterations clears an active kill switch.
\<close>

theorem triggers_never_clear:
  assumes "am_active skw"
  shows "am_active (foldl (am_step cf) skw es)"
  using triggers.le_run [of skw cf es] assms by simp

theorem triggers_never_clear_witness:
  "am_active (foldl (am_step demo_am) (new_monitor, new_kill_switch\<lparr>ks_active := True\<rparr>, []) [Order 1, PollOrderRate 2 ''t'', PollStrategy ''t''])"
  by (rule triggers_never_clear) (simp add: am_active_def)

text \<open>
  After a deactivation the lag monitor does not fire again at once: the first iteration that sees
  the switch cleared restarts the clock of every market, so it leaves the switch inactive.
\<close>

theorem lag_clock_reset_after_clear:
  assumes "am_ks_was_active s" "\<not> ks_active k" "0 \<le> am_consumer_lag_timeout cf"
  shows "\<not> am_active (monitor_consumer_lag cf now h mi stamp (s, k, w))"
  using assms by (auto simp: monitor_consumer_lag_def Let_def am_active_def split: if_splits)

theorem lag_clock_reset_after_clear_witness:
  "\<not> am_active (monitor_consumer_lag demo_am 9000 14 30 ''t''
     (new_monitor\<lparr>am_ks_was_active := True, am_last_tick := [(''NSE'', 0)]\<rparr>, new_kill_switch, []))"
  by (rule lag_clock_reset_after_clear) (simp_all add: new_kill_switch_def demo_am_def)

end
