(* ===== verification/Events.thy ===== *)
theory Events
  imports Signals RiskState "HOL-Library.AList" "HOL-Library.List_Lexorder"
begin

text \<open>
  The canonical Kafka events (\<open>services/shared/events/schemas.py\<close>), the publisher of retry and
  dead-letter records (\<open>services/shared/kafka/failure_publisher.py\<close>), the replayer of retry records
  (\<open>services/shared/kafka/retry_replayer.py\<close>) and the local outbox
  (\<open>services/shared/kafka/local_outbox.py\<close>).

  Message bytes are strings.  \<open>codec\<close> holds the standard library's conversions: \<open>json.dumps\<close> and
  \<open>json.loads\<close>, ISO time stamps, \<open>str\<close> and \<open>int\<close>.  The Kafka producer is the argument \<open>producer\<close>.
\<close>

section \<open>Event types and schemas\<close>

definition SCHEMA_VERSION :: str where "SCHEMA_VERSION = ''3.0''"
definition ENRICHED_SCHEMA_VERSION :: str where "ENRICHED_SCHEMA_VERSION = ''4.0''"

definition SIGNALS_PENDING_TOPIC :: str where "SIGNALS_PENDING_TOPIC = ''signals.pending''"
definition SIGNALS_ENRICHED_TOPIC :: str where "SIGNALS_ENRICHED_TOPIC = ''signals.enriched''"
definition SIGNALS_APPROVED_TOPIC :: str where "SIGNALS_APPROVED_TOPIC = ''signals.approved''"
definition ORDER_EVENTS_TOPIC :: str where "ORDER_EVENTS_TOPIC = ''orders.events''"
definition KILL_SWITCH_TOPIC :: str where "KILL_SWITCH_TOPIC = ''risk.kill-switch''"

datatype event_type =
    SIGNAL_PENDING | SIGNAL_ENRICHED | SIGNAL_APPROVED
  | ORDER_SUBMITTED | ORDER_PLACED | ORDER_PARTIAL | ORDER_FILLED | ORDER_REJECTED | ORDER_CANCELLED
  | KILL_SWITCH_ACTIVE | KILL_SWITCH_CLEARED

fun event_type_value :: "event_type \<Rightarrow> str" where
  "event_type_value SIGNAL_PENDING = ''SIGNAL_PENDING''"
| "event_type_value SIGNAL_ENRICHED = ''SIGNAL_ENRICHED''"
| "event_type_value SIGNAL_APPROVED = ''SIGNAL_APPROVED''"
| "event_type_value ORDER_SUBMITTED = ''ORDER_SUBMITTED''"
| "event_type_value ORDER_PLACED = ''ORDER_PLACED''"
| "event_type_value ORDER_PARTIAL = ''ORDER_PARTIAL''"
| "event_type_value ORDER_FILLED = ''ORDER_FILLED''"
| "event_type_value ORDER_REJECTED = ''ORDER_REJECTED''"
| "event_type_value ORDER_CANCELLED = ''ORDER_CANCELLED''"
| "event_type_value KILL_SWITCH_ACTIVE = ''KILL_SWITCH_ACTIVE''"
| "event_type_value KILL_SWITCH_CLEARED = ''KILL_SWITCH_CLEARED''"

definition event_types :: "event_type list" where
  "event_types = [SIGNAL_PENDING, SIGNAL_ENRICHED, SIGNAL_APPROVED, ORDER_SUBMITTED, ORDER_PLACED,
    ORDER_PARTIAL, ORDER_FILLED, ORDER_REJECTED, ORDER_CANCELLED, KILL_SWITCH_ACTIVE, KILL_SWITCH_CLEARED]"

interpretation event_type_enum: str_enum event_type_value event_types
proof
  show "event_type_value x = event_type_value y \<Longrightarrow> x = y" for x y
    by (cases x; cases y; simp)
  show "x \<in> set event_types" for x
    by (cases x; simp add: event_types_def)
qed

definition retry_topic :: "str \<Rightarrow> str" where
  "retry_topic topic = topic @ ''.retry''"

definition dlq_topic :: "str \<Rightarrow> str" where
  "dlq_topic topic = topic @ ''.dlq''"

definition BASE_REQUIRED_FIELDS :: "str list" where
  "BASE_REQUIRED_FIELDS = [''event_id'', ''trace_id'', ''event_type'', ''schema_version'', ''source'', ''published_time'']"

definition SIGNAL_REQUIRED_FIELDS :: "str list" where
  "SIGNAL_REQUIRED_FIELDS = BASE_REQUIRED_FIELDS @
    [''signal_id'', ''strategy_id'', ''strategy_name'', ''instrument_id'', ''market'', ''direction'', ''quantity'',
     ''price_at_signal'', ''confidence'', ''signal_time'', ''expires_at'', ''stop_loss'', ''take_profit'',
     ''product_type'', ''paper_trade'', ''metadata'']"

definition SIGNAL_ENRICHED_REQUIRED_FIELDS :: "str list" where
  "SIGNAL_ENRICHED_REQUIRED_FIELDS = SIGNAL_REQUIRED_FIELDS @
    [''regime'', ''regime_confidence'', ''quality_score'', ''filtered'', ''enriched_at'', ''enrichment_latency_ms'',
     ''model_versions'']"

definition SIGNAL_APPROVED_REQUIRED_FIELDS :: "str list" where
  "SIGNAL_APPROVED_REQUIRED_FIELDS = SIGNAL_REQUIRED_FIELDS @ [''risk_decision_id'', ''approved_at'']"

definition ORDER_REQUIRED_FIELDS :: "str list" where
  "ORDER_REQUIRED_FIELDS = BASE_REQUIRED_FIELDS @
    [''order_id'', ''signal_id'', ''risk_decision_id'', ''strategy_id'', ''instrument_id'', ''market'', ''direction'',
     ''quantity_ordered'', ''quantity_filled'', ''avg_fill_price'', ''broker_order_id'', ''fill_time'', ''reject_reason'',
     ''product_type'', ''expires_at'', ''stop_loss'', ''take_profit'']"

definition KILL_SWITCH_REQUIRED_FIELDS :: "str list" where
  "KILL_SWITCH_REQUIRED_FIELDS = BASE_REQUIRED_FIELDS @ [''reason'', ''activated_by'']"

fun required_fields :: "event_type \<Rightarrow> str list" where
  "required_fields SIGNAL_PENDING = SIGNAL_REQUIRED_FIELDS"
| "required_fields SIGNAL_ENRICHED = SIGNAL_ENRICHED_REQUIRED_FIELDS"
| "required_fields SIGNAL_APPROVED = SIGNAL_APPROVED_REQUIRED_FIELDS"
| "required_fields KILL_SWITCH_ACTIVE = KILL_SWITCH_REQUIRED_FIELDS"
| "required_fields KILL_SWITCH_CLEARED = KILL_SWITCH_REQUIRED_FIELDS"
| "required_fields _ = ORDER_REQUIRED_FIELDS"

lemmas required_fields_defs = SIGNAL_ENRICHED_REQUIRED_FIELDS_def SIGNAL_APPROVED_REQUIRED_FIELDS_def
  SIGNAL_REQUIRED_FIELDS_def ORDER_REQUIRED_FIELDS_def KILL_SWITCH_REQUIRED_FIELDS_def BASE_REQUIRED_FIELDS_def

text \<open>The errors of a validation; the code renders each as a sentence.\<close>

datatype event_error =
    BadSchemaVersion | BadEventType | UnknownExpectedType str | MissingFields "str list"

definition validate_event :: "meta \<Rightarrow> str \<Rightarrow> event_error list" where
  "validate_event event expected =
    (let sv = (if expected = event_type_value SIGNAL_ENRICHED then ENRICHED_SCHEMA_VERSION else SCHEMA_VERSION);
         e1 = (if map_of event ''schema_version'' \<noteq> Some (JStr sv) then [BadSchemaVersion] else []);
         e2 = (if map_of event ''event_type'' \<noteq> Some (JStr expected) then [BadEventType] else [])
     in case enum_of event_type_value event_types expected of
          None \<Rightarrow> e1 @ e2 @ [UnknownExpectedType expected]
        | Some ty \<Rightarrow>
            (let missing = filter (\<lambda>f. map_of event f = None) (required_fields ty)
             in e1 @ e2 @ (if missing \<noteq> [] then [MissingFields (sort missing)] else [])))"

lemma validate_event_Nil_iff:
  "validate_event event (event_type_value ty) = [] \<longleftrightarrow>
    map_of event ''schema_version'' = Some (JStr (if ty = SIGNAL_ENRICHED then ENRICHED_SCHEMA_VERSION else SCHEMA_VERSION)) \<and>
    map_of event ''event_type'' = Some (JStr (event_type_value ty)) \<and>
    (\<forall>f \<in> set (required_fields ty). map_of event f \<noteq> None)"
  by (simp add: validate_event_def Let_def event_type_enum.value_eq_iff filter_empty_conv del: event_type_value.simps)

section \<open>Library conversions and the producer\<close>

record codec =
  jc_dumps :: "meta \<Rightarrow> str"
  jc_loads :: "str \<Rightarrow> json option" \<comment> \<open>\<open>None\<close>: \<open>JSONDecodeError\<close>\<close>
  jc_iso :: "rat \<Rightarrow> str"
  jc_fromiso :: "str \<Rightarrow> rat option" \<comment> \<open>\<open>None\<close>: \<open>ValueError\<close>; a naive time is UTC\<close>
  jc_int_str :: "int \<Rightarrow> str"
  jc_int :: "str \<Rightarrow> int option"
  jc_str :: "json \<Rightarrow> str" \<comment> \<open>Python's \<open>str\<close>\<close>
  jc_fixed4 :: "rat \<Rightarrow> str" \<comment> \<open>the format \<open>.4f\<close>\<close>
  jc_sha256 :: "str \<Rightarrow> str" \<comment> \<open>the hexadecimal digest\<close>

text \<open>Documented behaviour of the conversions.\<close>

definition codec_ok :: "codec \<Rightarrow> bool" where
  "codec_ok c \<longleftrightarrow>
    (\<forall>m. jc_loads c (jc_dumps c m) = Some (JObj m)) \<and>
    (\<forall>t. jc_fromiso c (jc_iso c t) = Some t \<and> jc_iso c t \<noteq> []) \<and>
    (\<forall>n. jc_int c (jc_int_str c n) = Some n \<and> jc_int_str c n \<noteq> []) \<and>
    (\<forall>s. jc_str c (JStr s) = s)"

record 'w producer =
  pr_produce :: "'w \<Rightarrow> str \<Rightarrow> str option \<Rightarrow> str \<Rightarrow> (str \<times> str) list \<Rightarrow> unit res \<times> 'w"
  pr_flush :: "'w \<Rightarrow> nat \<times> 'w" \<comment> \<open>the number of undelivered records\<close>

text \<open>\<open>x or d\<close> on a JSON field; a missing field is \<open>None\<close>.\<close>

definition json_or :: "json option \<Rightarrow> json \<Rightarrow> json" where
  "json_or j d = (case j of None \<Rightarrow> d | Some v \<Rightarrow> if json_truthy v then v else d)"

lemma map_of_update_same [simp]: "map_of (AList.update k v m) = (map_of m)(k \<mapsto> v)"
  by (rule ext) (simp add: update_conv)

text \<open>A consumed message.\<close>

record kmsg =
  km_topic :: str
  km_partition :: int
  km_offset :: int
  km_key :: "str option"
  km_value :: str
  km_headers :: "(str \<times> str option) list"

section \<open>Failure publisher\<close>

record 'w failure_publisher =
  fp_codec :: codec
  fp_producer :: "'w producer option"
  fp_service :: str
  fp_max_retry :: int

text \<open>The first \<open>qe-retry-attempt\<close> header with a value decides.\<close>

fun next_retry_attempt :: "codec \<Rightarrow> (str \<times> str option) list \<Rightarrow> int" where
  "next_retry_attempt c [] = 1"
| "next_retry_attempt c ((name, v) # hs) =
    (case v of
       None \<Rightarrow> next_retry_attempt c hs
     | Some raw \<Rightarrow>
         if name \<noteq> ''qe-retry-attempt'' then next_retry_attempt c hs
         else opt_default 0 (jc_int c raw) + 1)"

definition text_or_null :: "str option \<Rightarrow> json" where
  "text_or_null s = (case s of None \<Rightarrow> JNull | Some t \<Rightarrow> if t = [] then JNull else JStr t)"

definition detail_or :: "json \<Rightarrow> str \<Rightarrow> meta \<Rightarrow> json" where
  "detail_or dflt name details = (case map_of details name of None \<Rightarrow> dflt | Some j \<Rightarrow> j)"

definition failure_envelope :: "'w failure_publisher \<Rightarrow> str \<Rightarrow> str \<Rightarrow> str \<Rightarrow> str \<Rightarrow> str option \<Rightarrow> str option
    \<Rightarrow> str \<Rightarrow> str \<Rightarrow> meta \<Rightarrow> meta" where
  "failure_envelope fp event_id now target source_topic key value reason error_type details =
    [(''event_id'', JStr event_id), (''event_type'', JStr ''KAFKA_FAILURE''), (''schema_version'', JStr SCHEMA_VERSION),
     (''source'', JStr (fp_service fp)), (''published_time'', JStr now), (''source_topic'', JStr source_topic),
     (''failure_topic'', JStr target), (''reason'', JStr reason), (''error_type'', JStr error_type),
     (''details'', JObj details), (''retry_attempt'', detail_or (JNum 0) ''retry_attempt'' details),
     (''max_retry_attempts'', detail_or (JNum (of_int (fp_max_retry fp))) ''max_retry_attempts'' details),
     (''original_key'', text_or_null key), (''original_value'', text_or_null value)]"

definition fp_publish :: "'w failure_publisher \<Rightarrow> str \<Rightarrow> str \<Rightarrow> str \<Rightarrow> str \<Rightarrow> str option \<Rightarrow> str option
    \<Rightarrow> str \<Rightarrow> str \<Rightarrow> meta \<Rightarrow> 'w \<Rightarrow> bool res \<times> 'w" where
  "fp_publish fp event_id now target source_topic key value reason error_type details w =
    (case fp_producer fp of
       None \<Rightarrow> (Inr False, w)
     | Some p \<Rightarrow>
        (case pr_produce p w target key
            (jc_dumps (fp_codec fp)
              (failure_envelope fp event_id now target source_topic key value reason error_type details)) [] of
           (Inr _, w) \<Rightarrow> (Inr True, w)
         | (Inl KafkaError, w) \<Rightarrow> (Inr False, w)
         | (Inl e, w) \<Rightarrow> (Inl e, w)))"

definition publish_dlq :: "'w failure_publisher \<Rightarrow> str \<Rightarrow> str \<Rightarrow> str \<Rightarrow> str option \<Rightarrow> str option
    \<Rightarrow> str \<Rightarrow> str \<Rightarrow> meta \<Rightarrow> 'w \<Rightarrow> bool res \<times> 'w" where
  "publish_dlq fp event_id now source_topic key value reason error_type details w =
    fp_publish fp event_id now (dlq_topic source_topic) source_topic key value reason error_type details w"

definition publish_retry :: "'w failure_publisher \<Rightarrow> str \<Rightarrow> str \<Rightarrow> str \<Rightarrow> str option \<Rightarrow> str option
    \<Rightarrow> str \<Rightarrow> str \<Rightarrow> meta \<Rightarrow> (str \<times> str option) list \<Rightarrow> 'w \<Rightarrow> bool res \<times> 'w" where
  "publish_retry fp event_id now source_topic key value reason error_type details headers w =
    (let attempt = next_retry_attempt (fp_codec fp) headers;
         details = AList.update ''max_retry_attempts'' (JNum (of_int (fp_max_retry fp)))
           (AList.update ''retry_attempt'' (JNum (of_int attempt)) details)
     in if fp_max_retry fp < attempt then
          fp_publish fp event_id now (dlq_topic source_topic) source_topic key value reason
            (error_type @ ''_retry_exhausted'') details w
        else
          fp_publish fp event_id now (retry_topic source_topic) source_topic key value reason error_type details w)"

section \<open>Retry replayer\<close>

record 'w replayer =
  rr_codec :: codec
  rr_source_topics :: "str list"
  rr_max_tick_age :: rat
  rr_service :: str
  rr_producer :: "'w producer"
  rr_commit :: "'w \<Rightarrow> kmsg \<Rightarrow> unit res \<times> 'w"

definition parse_iso :: "codec \<Rightarrow> json \<Rightarrow> rat res" where
  "parse_iso c j = (case j of JStr s \<Rightarrow> of_opt ValueError (jc_fromiso c s) | _ \<Rightarrow> Inl AttributeError)"

text \<open>\<open>int(x)\<close> on a JSON value.\<close>

definition json_int :: "codec \<Rightarrow> json \<Rightarrow> int res" where
  "json_int c j =
    (case j of JNum x \<Rightarrow> Inr (py_int x) | JBool v \<Rightarrow> Inr (if v then 1 else 0)
     | JStr s \<Rightarrow> of_opt ValueError (jc_int c s) | _ \<Rightarrow> Inl TypeError)"

text \<open>A payload that is not an object has no \<open>get\<close>.\<close>

definition is_stale :: "'w replayer \<Rightarrow> rat \<Rightarrow> str \<Rightarrow> str \<Rightarrow> bool res" where
  "is_stale rr now source_topic original_value =
    (case jc_loads (rr_codec rr) original_value of
       None \<Rightarrow> Inr False
     | Some (JObj payload) \<Rightarrow>
        (case truthy_or (map_of payload ''expires_at'') None of
           Some t \<Rightarrow> res_bind (parse_iso (rr_codec rr) t) (\<lambda>t. Inr (t \<le> now))
         | None \<Rightarrow>
            if py_starts ''ticks.'' source_topic then
              (case truthy_or (map_of payload ''exchange_time'') None of
                 None \<Rightarrow> Inr False
               | Some t \<Rightarrow> res_bind (parse_iso (rr_codec rr) t) (\<lambda>t. Inr (rr_max_tick_age rr < now - t)))
            else Inr False)
     | Some _ \<Rightarrow> Inl AttributeError)"

text \<open>\<open>produce\<close> followed by \<open>flush\<close>, which must leave nothing undelivered.\<close>

definition produce_durably :: "'w replayer \<Rightarrow> str \<Rightarrow> str option \<Rightarrow> str \<Rightarrow> (str \<times> str) list \<Rightarrow> 'w \<Rightarrow> unit res \<times> 'w" where
  "produce_durably rr topic key value headers w =
    (case pr_produce (rr_producer rr) w topic key value headers of
       (Inl e, w) \<Rightarrow> (Inl e, w)
     | (Inr _, w) \<Rightarrow>
        (case pr_flush (rr_producer rr) w of (remaining, w) \<Rightarrow>
          (if remaining \<noteq> 0 then Inl RuntimeError else Inr (), w)))"

definition key_text :: "json option \<Rightarrow> str option" where
  "key_text j = (case j of Some (JStr s) \<Rightarrow> Some s | _ \<Rightarrow> None)"

definition publish_retry_dlq :: "'w replayer \<Rightarrow> str \<Rightarrow> str \<Rightarrow> meta \<Rightarrow> str \<Rightarrow> 'w \<Rightarrow> unit res \<times> 'w" where
  "publish_retry_dlq rr stamp source_topic envelope reason w =
    produce_durably rr (dlq_topic source_topic) (key_text (map_of envelope ''original_key''))
      (jc_dumps (rr_codec rr)
        (foldl (\<lambda>m (k, v). AList.update k v m) envelope
          [(''failure_topic'', JStr (dlq_topic source_topic)), (''retry_replay_status'', JStr ''DLQ''),
           (''retry_replay_reason'', JStr reason), (''retry_replayed_at'', JStr stamp)])) [] w"

definition retry_headers :: "codec \<Rightarrow> int \<Rightarrow> meta \<Rightarrow> (str \<times> str) list" where
  "retry_headers c attempt envelope =
    [(''qe-retry-attempt'', jc_int_str c attempt),
     (''qe-retry-source-topic'', jc_str c (json_or (map_of envelope ''failure_topic'') (JStr []))),
     (''qe-retry-event-id'', jc_str c (json_or (map_of envelope ''event_id'') (JStr [])))]"

definition handle_envelope :: "'w replayer \<Rightarrow> rat \<Rightarrow> str \<Rightarrow> meta \<Rightarrow> 'w \<Rightarrow> unit res \<times> 'w" where
  "handle_envelope rr now stamp envelope w =
    (let source_topic = jc_str (rr_codec rr) (json_or (map_of envelope ''source_topic'') (JStr [])) in
     if source_topic \<notin> set (rr_source_topics rr) then (Inl ValueError, w)
     else
      (case map_of envelope ''original_value'' of
         Some (JStr original_value) \<Rightarrow>
          (if original_value = [] then (Inl ValueError, w)
           else
            (case is_stale rr now source_topic original_value of
               Inl e \<Rightarrow> (Inl e, w)
             | Inr True \<Rightarrow> publish_retry_dlq rr stamp source_topic envelope ''retry_payload_stale'' w
             | Inr False \<Rightarrow>
                (case json_int (rr_codec rr) (json_or (map_of envelope ''retry_attempt'') (JNum 1)) of
                   Inl e \<Rightarrow> (Inl e, w)
                 | Inr attempt \<Rightarrow>
                     produce_durably rr source_topic (key_text (map_of envelope ''original_key''))
                       original_value (retry_headers (rr_codec rr) attempt envelope) w)))
       | _ \<Rightarrow> (Inl ValueError, w)))"

definition source_topic_from_retry_topic :: "'w replayer \<Rightarrow> str \<Rightarrow> str option" where
  "source_topic_from_retry_topic rr name =
    (let n = length name - length ''.retry'' in
     if length ''.retry'' \<le> length name \<and> drop n name = ''.retry'' \<and> take n name \<in> set (rr_source_topics rr)
     then Some (take n name) else None)"

definition publish_malformed_retry_dlq :: "'w replayer \<Rightarrow> str \<Rightarrow> kmsg \<Rightarrow> str \<Rightarrow> 'w \<Rightarrow> unit res \<times> 'w" where
  "publish_malformed_retry_dlq rr stamp msg reason w =
    (case source_topic_from_retry_topic rr (km_topic msg) of
       None \<Rightarrow> (Inl ValueError, w)
     | Some source_topic \<Rightarrow>
        produce_durably rr (dlq_topic source_topic) (km_key msg)
          (jc_dumps (rr_codec rr)
            [(''event_id'', JNull), (''event_type'', JStr ''KAFKA_RETRY_ENVELOPE_INVALID''),
             (''schema_version'', JStr SCHEMA_VERSION), (''source'', JStr (rr_service rr)),
             (''published_time'', JStr stamp), (''source_topic'', JStr source_topic),
             (''failure_topic'', JStr (dlq_topic source_topic)), (''retry_topic'', JStr (km_topic msg)),
             (''reason'', JStr reason), (''error_type'', JStr ''retry_envelope_malformed''),
             (''retry_replay_status'', JStr ''DLQ''), (''retry_replayed_at'', JStr stamp),
             (''original_key'', text_or_null (km_key msg)), (''original_value'', JStr (km_value msg))]) [] w)"

text \<open>
  One polled retry message.  \<open>True\<close>: handled and committed.  The texts of the exceptions are left out
  of the records.
\<close>

definition replay_message :: "'w replayer \<Rightarrow> rat \<Rightarrow> str \<Rightarrow> kmsg \<Rightarrow> 'w \<Rightarrow> bool \<times> 'w" where
  "replay_message rr now stamp msg w =
    (case (case jc_loads (rr_codec rr) (km_value msg) of
             None \<Rightarrow> (Inl ValueError, w)
           | Some (JObj envelope) \<Rightarrow>
              (case handle_envelope rr now stamp envelope w of
                 (Inl e, w) \<Rightarrow> (Inl e, w)
               | (Inr _, w) \<Rightarrow> rr_commit rr w msg)
           | Some _ \<Rightarrow> (Inl AttributeError, w)) of
       (Inr _, w) \<Rightarrow> (True, w)
     | (Inl e, w) \<Rightarrow>
        if e = ValueError \<or> e = TypeError then
          (case publish_malformed_retry_dlq rr stamp msg [] w of
             (Inl _, w) \<Rightarrow> (False, w)
           | (Inr _, w) \<Rightarrow>
              (case rr_commit rr w msg of (Inl _, w) \<Rightarrow> (False, w) | (Inr _, w) \<Rightarrow> (True, w)))
        else (False, w))"

end
