(* ===== verification/Outbox.thy ===== *)
theory Outbox
  imports Events
begin

text \<open>
  The SQLite outbox of the publishers (\<open>services/shared/kafka/local_outbox.py\<close>) and the halt of a
  publisher after consecutive delivery failures, which
  \<open>services/strategy_engine/publishers/kafka_signal_publisher.py\<close> and
  \<open>services/risk_engine/publishers/kafka_approved_publisher.py\<close> share.  The table is the list of its
  rows by id; an append keeps the order.  A callback is recorded as a call.
\<close>

section \<open>Outbox\<close>

record outbox_entry =
  oe_topic :: str
  oe_key :: str
  oe_value :: str

record outbox =
  ob_open :: bool
  ob_rows :: "outbox_entry list"
  ob_max_entries :: nat
  ob_overflow_calls :: nat

definition new_outbox :: "nat \<Rightarrow> outbox" where
  "new_outbox max_entries = \<lparr>ob_open = False, ob_rows = [], ob_max_entries = max_entries, ob_overflow_calls = 0\<rparr>"

definition open_outbox :: "outbox \<Rightarrow> outbox" where
  "open_outbox b = b\<lparr>ob_open := True\<rparr>"

definition close_outbox :: "outbox \<Rightarrow> outbox" where
  "close_outbox b = b\<lparr>ob_open := False\<rparr>"

definition enqueue :: "outbox_entry \<Rightarrow> outbox \<Rightarrow> bool \<times> outbox" where
  "enqueue e b =
    (if \<not> ob_open b then (False, b)
     else if ob_max_entries b \<le> length (ob_rows b) then (False, b\<lparr>ob_overflow_calls := ob_overflow_calls b + 1\<rparr>)
     else (True, b\<lparr>ob_rows := ob_rows b @ [e]\<rparr>))"

definition pending_count :: "outbox \<Rightarrow> nat" where
  "pending_count b = (if ob_open b then length (ob_rows b) else 0)"

text \<open>The rows of a batch, until the first one the producer refuses.\<close>

fun drain_rows :: "('w \<Rightarrow> outbox_entry \<Rightarrow> unit res \<times> 'w) \<Rightarrow> outbox_entry list \<Rightarrow> 'w \<Rightarrow> nat \<times> 'w" where
  "drain_rows send [] w = (0, w)"
| "drain_rows send (r # rs) w =
    (case send w r of
       (Inr _, w) \<Rightarrow> (case drain_rows send rs w of (n, w) \<Rightarrow> (Suc n, w))
     | (Inl _, w) \<Rightarrow> (0, w))"

definition drain_batch :: "('w \<Rightarrow> outbox_entry \<Rightarrow> unit res \<times> 'w) \<Rightarrow> outbox \<Rightarrow> 'w \<Rightarrow> nat \<times> outbox \<times> 'w" where
  "drain_batch send b w =
    (if \<not> ob_open b then (0, b, w)
     else (case drain_rows send (take 100 (ob_rows b)) w of
             (n, w) \<Rightarrow> (n, b\<lparr>ob_rows := drop n (ob_rows b)\<rparr>, w)))"

lemma drain_rows_le: "fst (drain_rows send rs w) \<le> length rs"
  by (induction rs arbitrary: w) (auto split: prod.splits sum.splits, metis fst_conv)

text \<open>What a send hands over: a log of the entries it accepted.\<close>

definition logs_accepted :: "('w \<Rightarrow> outbox_entry \<Rightarrow> unit res \<times> 'w) \<Rightarrow> ('w \<Rightarrow> outbox_entry list) \<Rightarrow> bool" where
  "logs_accepted send sent \<longleftrightarrow>
    (\<forall>w e r w'. send w e = (r, w') \<longrightarrow> sent w' = (if res_ok r then sent w @ [e] else sent w))"

lemma drain_rows_sent:
  assumes "logs_accepted send sent"
  shows "drain_rows send rs w = (n, w') \<Longrightarrow> sent w' = sent w @ take n rs"
proof (induction rs arbitrary: w n w')
  case (Cons e rs)
  obtain r w1 where r: "send w e = (r, w1)" by force
  then have s1: "sent w1 = (if res_ok r then sent w @ [e] else sent w)"
    using assms by (auto simp: logs_accepted_def)
  show ?case
  proof (cases r)
    case (Inl x)
    then show ?thesis
      using Cons.prems r s1 by simp
  next
    case (Inr x)
    obtain k w2 where "drain_rows send rs w1 = (k, w2)" by force
    then show ?thesis
      using Cons.prems Cons.IH [of w1 k w2] r s1 Inr by auto
  qed
qed simp

text \<open>The calls on an outbox.\<close>

datatype outbox_call = OpenOb | CloseOb | EnqueueOb outbox_entry | DrainOb nat \<comment> \<open>how many the producer accepts\<close>

text \<open>A producer that accepts the next \<open>k\<close> records.\<close>

definition accept_k :: "nat \<Rightarrow> outbox_entry \<Rightarrow> unit res \<times> nat" where
  "accept_k k e = (case k of 0 \<Rightarrow> (Inl KafkaError, 0) | Suc j \<Rightarrow> (Inr (), j))"

fun outbox_step :: "outbox \<Rightarrow> outbox_call \<Rightarrow> outbox" where
  "outbox_step b OpenOb = open_outbox b"
| "outbox_step b CloseOb = close_outbox b"
| "outbox_step b (EnqueueOb e) = snd (enqueue e b)"
| "outbox_step b (DrainOb k) = fst (snd (drain_batch accept_k b k))"

definition outbox_inv :: "nat \<Rightarrow> outbox \<Rightarrow> bool" where
  "outbox_inv m b \<longleftrightarrow> ob_max_entries b = m \<and> length (ob_rows b) \<le> m"

interpretation outbox_machine: state_machine outbox_step "outbox_inv m"
proof
  show "outbox_inv m (outbox_step b call)" if "outbox_inv m b" for b call
    using that
    by (cases call)
      (auto simp: outbox_inv_def open_outbox_def close_outbox_def enqueue_def drain_batch_def split: prod.splits)
qed

text \<open>
  C20 The outbox loses nothing and keeps the order: a drain hands a prefix of the buffered entries to
  the producer, oldest first, and exactly those leave the table; an accepted entry is the newest row.
\<close>

theorem outbox_fifo:
  assumes "logs_accepted send sent" "drain_batch send b w = (n, b', w')"
  shows "sent w' @ ob_rows b' = sent w @ ob_rows b \<and> n \<le> 100 \<and>
    (\<forall>e b2. enqueue e b' = (True, b2) \<longrightarrow> ob_rows b2 = ob_rows b' @ [e] \<and> length (ob_rows b2) \<le> ob_max_entries b2)"
proof -
  have new: "enqueue e b' = (True, b2) \<Longrightarrow> ob_rows b2 = ob_rows b' @ [e] \<and> length (ob_rows b2) \<le> ob_max_entries b2" for e b2
    by (auto simp: enqueue_def split: if_splits)
  show ?thesis
  proof (cases "ob_open b")
    case False
    then show ?thesis using assms(2) by (auto simp: drain_batch_def enqueue_def)
  next
    case True
    obtain k w1 where d: "drain_rows send (take 100 (ob_rows b)) w = (k, w1)" by force
    have k: "k \<le> length (take 100 (ob_rows b))"
      using drain_rows_le [of send "take 100 (ob_rows b)" w] d by simp
    have e: "n = k" "ob_rows b' = drop k (ob_rows b)" "w' = w1"
      using assms(2) True d by (auto simp: drain_batch_def)
    have "sent w1 = sent w @ take k (ob_rows b)"
      using drain_rows_sent [OF assms(1) d] k by (simp add: min_def split: if_splits)
    then have "sent w' @ ob_rows b' = sent w @ ob_rows b" "n \<le> 100"
      using e k by simp_all
    then show ?thesis
      using new by blast
  qed
qed

definition demo_entry :: "str \<Rightarrow> outbox_entry" where
  "demo_entry v = \<lparr>oe_topic = ''t'', oe_key = ''k'', oe_value = v\<rparr>"

definition demo_send :: "outbox_entry list \<Rightarrow> outbox_entry \<Rightarrow> unit res \<times> outbox_entry list" where
  "demo_send w e = (if length w < 1 then (Inr (), w @ [e]) else (Inl KafkaError, w))"

theorem outbox_fifo_witness:
  "\<exists>b w. drain_batch demo_send (\<lparr>ob_open = True, ob_rows = [demo_entry ''1'', demo_entry ''2''], ob_max_entries = 2,
      ob_overflow_calls = 0\<rparr>) [] = (1, b, w) \<and> w @ ob_rows b = [demo_entry ''1'', demo_entry ''2'']"
proof -
  let ?b = "\<lparr>ob_open = True, ob_rows = [demo_entry ''1'', demo_entry ''2''], ob_max_entries = 2, ob_overflow_calls = 0\<rparr>"
  have log: "logs_accepted demo_send (\<lambda>w. w)"
    by (auto simp: logs_accepted_def demo_send_def split: if_splits)
  obtain n b w where d: "drain_batch demo_send ?b [] = (n, b, w)"
    by (metis prod_cases3)
  then have "n = 1"
    by (auto simp: drain_batch_def demo_send_def)
  then show ?thesis
    using d outbox_fifo [OF log d] by auto
qed

section \<open>Halt of a publisher\<close>

record halt_state =
  hs_consecutive_failures :: nat
  hs_halt_fired :: bool
  hs_on_halt_calls :: nat
  hs_outbox :: "outbox option"

definition new_halt :: "outbox option \<Rightarrow> halt_state" where
  "new_halt b = \<lparr>hs_consecutive_failures = 0, hs_halt_fired = False, hs_on_halt_calls = 0, hs_outbox = b\<rparr>"

text \<open>The payload of the buffered event is the argument \<open>payload\<close>.\<close>

definition kill_switch_payload :: "str \<Rightarrow> str \<Rightarrow> str \<Rightarrow> str \<Rightarrow> str \<Rightarrow> meta" where
  "kill_switch_payload event_id trace_id now source publisher =
    [(''event_id'', JStr event_id), (''trace_id'', JStr trace_id), (''event_type'', JStr (event_type_value KILL_SWITCH_ACTIVE)),
     (''schema_version'', JStr SCHEMA_VERSION), (''source'', JStr source), (''published_time'', JStr now),
     (''reason'', JStr ''kafka_consecutive_delivery_failures''), (''activated_by'', JStr publisher)]"

definition enqueue_kill_switch :: "str \<Rightarrow> halt_state \<Rightarrow> halt_state" where
  "enqueue_kill_switch payload s =
    (case hs_outbox s of None \<Rightarrow> s
     | Some b \<Rightarrow> s\<lparr>hs_outbox := Some (snd (enqueue \<lparr>oe_topic = KILL_SWITCH_TOPIC, oe_key = ''GLOBAL'', oe_value = payload\<rparr> b))\<rparr>)"

definition record_delivery_failure :: "nat \<Rightarrow> str \<Rightarrow> halt_state \<Rightarrow> halt_state" where
  "record_delivery_failure threshold payload s =
    (let s = s\<lparr>hs_consecutive_failures := hs_consecutive_failures s + 1\<rparr> in
     if threshold \<le> hs_consecutive_failures s \<and> \<not> hs_halt_fired s then
       enqueue_kill_switch payload (s\<lparr>hs_halt_fired := True, hs_on_halt_calls := hs_on_halt_calls s + 1\<rparr>)
     else s)"

definition delivery_callback :: "nat \<Rightarrow> str \<Rightarrow> halt_state \<Rightarrow> bool \<Rightarrow> halt_state" where
  "delivery_callback threshold payload s ok =
    (if ok then s\<lparr>hs_consecutive_failures := 0\<rparr> else record_delivery_failure threshold payload s)"

definition halt_inv :: "nat \<Rightarrow> halt_state \<Rightarrow> bool" where
  "halt_inv threshold s \<longleftrightarrow>
    hs_on_halt_calls s = (if hs_halt_fired s then 1 else 0) \<and>
    (threshold \<le> hs_consecutive_failures s \<longrightarrow> hs_halt_fired s \<or> threshold = 0)"

definition halt_le :: "halt_state \<Rightarrow> halt_state \<Rightarrow> bool" where
  "halt_le s t \<longleftrightarrow> (hs_halt_fired s \<longrightarrow> hs_halt_fired t)"

lemma enqueue_kill_switch_frame [simp]:
  "hs_consecutive_failures (enqueue_kill_switch p s) = hs_consecutive_failures s"
  "hs_halt_fired (enqueue_kill_switch p s) = hs_halt_fired s"
  "hs_on_halt_calls (enqueue_kill_switch p s) = hs_on_halt_calls s"
  by (simp_all add: enqueue_kill_switch_def split: option.splits)

interpretation halt: monotone_machine "delivery_callback threshold payload" "halt_inv threshold" halt_le
  by unfold_locales
    (auto simp: delivery_callback_def record_delivery_failure_def halt_inv_def halt_le_def Let_def)

lemma consecutive_failures_count:
  "hs_consecutive_failures (foldl (delivery_callback th p) s (replicate n False)) = hs_consecutive_failures s + n"
proof (induction n arbitrary: s)
  case (Suc n)
  show ?case
    by (simp add: Suc.IH) (simp add: delivery_callback_def record_delivery_failure_def Let_def)
qed simp

text \<open>
  The halt of a publisher fires once: the callback runs at most once in the life of the
  publisher, after any delivery reports, and it has run as soon as the threshold of consecutive
  failures has been reached.  A later outage after a recovery calls it no more.
\<close>

theorem publisher_halts_once:
  fixes reports :: "bool list"
  assumes "0 < threshold" "threshold \<le> n"
  shows "(let s = foldl (delivery_callback threshold payload) (new_halt b) reports;
              t = foldl (delivery_callback threshold payload) s (replicate n False)
          in hs_on_halt_calls s \<le> 1 \<and> hs_on_halt_calls t = 1)"
proof -
  let ?s = "foldl (delivery_callback threshold payload) (new_halt b) reports"
  let ?t = "foldl (delivery_callback threshold payload) ?s (replicate n False)"
  have start: "halt_inv threshold (new_halt b)"
    using assms by (simp add: halt_inv_def new_halt_def)
  have s: "halt_inv threshold ?s"
    by (rule halt.inv_run [OF start])
  have t: "halt_inv threshold ?t"
    by (rule halt.inv_run [OF s])
  have "threshold \<le> hs_consecutive_failures ?t"
    using assms by (simp add: consecutive_failures_count)
  then show ?thesis
    using s t assms by (simp add: halt_inv_def Let_def)
qed

theorem publisher_halts_once_witness:
  "hs_on_halt_calls (foldl (delivery_callback 3 ''p'') (foldl (delivery_callback 3 ''p'') (new_halt None) [True, False])
      (replicate 3 False)) = 1"
  using publisher_halts_once [of 3 3 "''p''" None "[True, False]"] by (simp add: Let_def)

text \<open>The event a halt buffers is a valid kill-switch event.\<close>

lemma kill_switch_payload_valid:
  "validate_event (kill_switch_payload e t now src p) (event_type_value KILL_SWITCH_ACTIVE) = []"
  unfolding validate_event_Nil_iff
  by (simp add: kill_switch_payload_def required_fields_defs)

end
