(* ===== verification/Retry.thy ===== *)
theory Retry
  imports Outbox "HOL-Library.Countable"
begin

text \<open>
  Lemmas on the retry cycle: a failed record goes to the retry topic, the replayer puts it back on its
  source topic with a counted header, and after the configured number of rounds it ends in the
  dead-letter topic.
\<close>

record sent_record =
  sr_topic :: str
  sr_key :: "str option"
  sr_value :: str
  sr_headers :: "(str \<times> str) list"

text \<open>\<open>sent\<close> observes what a producer has accepted; a flush accepts nothing.\<close>

definition logs_produced :: "'w producer \<Rightarrow> ('w \<Rightarrow> sent_record list) \<Rightarrow> bool" where
  "logs_produced p sent \<longleftrightarrow>
    (\<forall>w t k v h. sent (snd (pr_produce p w t k v h)) =
       (if res_ok (fst (pr_produce p w t k v h))
        then sent w @ [\<lparr>sr_topic = t, sr_key = k, sr_value = v, sr_headers = h\<rparr>] else sent w)) \<and>
    (\<forall>w. sent (snd (pr_flush p w)) = sent w)"

lemma topics_distinct [simp]:
  "retry_topic s \<noteq> s" "dlq_topic s \<noteq> s" "dlq_topic s \<noteq> retry_topic s" "s \<noteq> retry_topic s" "s \<noteq> dlq_topic s"
  by (auto simp: retry_topic_def dlq_topic_def)

lemma logs_producedD:
  assumes "logs_produced p sent"
  shows "pr_produce p w t k v h = (r, w') \<Longrightarrow>
      sent w' = (if res_ok r then sent w @ [\<lparr>sr_topic = t, sr_key = k, sr_value = v, sr_headers = h\<rparr>] else sent w)"
    and "sent (snd (pr_flush p w)) = sent w"
  using assms [unfolded logs_produced_def, THEN conjunct1, rule_format, of w t k v h]
    assms [unfolded logs_produced_def, THEN conjunct2] by simp_all

lemma fp_publish_sent:
  assumes "fp_publish fp e now target src key v reason et details w = (Inr True, w')"
    and "fp_producer fp = Some p" "logs_produced p sent"
  shows "sent w' = sent w @ [\<lparr>sr_topic = target, sr_key = key,
    sr_value = jc_dumps (fp_codec fp) (failure_envelope fp e now target src key v reason et details), sr_headers = []\<rparr>]"
proof -
  let ?v = "jc_dumps (fp_codec fp) (failure_envelope fp e now target src key v reason et details)"
  obtain r w1 where r: "pr_produce p w target key ?v [] = (r, w1)" by force
  have "res_ok r \<and> w1 = w'"
  proof (cases r)
    case (Inl x)
    then show ?thesis
      using assms(1,2) r by (cases x) (simp_all add: fp_publish_def)
  next
    case (Inr x)
    then show ?thesis
      using assms(1,2) r by (simp add: fp_publish_def)
  qed
  then show ?thesis
    using logs_producedD(1) [OF assms(3) r] by simp
qed

lemma produce_durably_sent:
  assumes "produce_durably rr topic key v hs w = (Inr (), w')" "logs_produced (rr_producer rr) sent"
  shows "sent w' = sent w @ [\<lparr>sr_topic = topic, sr_key = key, sr_value = v, sr_headers = hs\<rparr>]"
proof -
  obtain r w1 where r: "pr_produce (rr_producer rr) w topic key v hs = (r, w1)" by force
  have "res_ok r \<and> w' = snd (pr_flush (rr_producer rr) w1)"
    using assms(1) r by (auto simp: produce_durably_def split: sum.splits prod.splits if_splits)
  then show ?thesis
    using logs_producedD(1) [OF assms(2) r] logs_producedD(2) [OF assms(2), of w1] by simp
qed

text \<open>What a replayed envelope leads to.\<close>

lemma handle_envelope_cases:
  assumes run: "handle_envelope rr now stamp env w = (Inr (), w')"
    and log: "logs_produced (rr_producer rr) sent"
  obtains src v a where "src = jc_str (rr_codec rr) (json_or (map_of env ''source_topic'') (JStr []))"
      "src \<in> set (rr_source_topics rr)" "map_of env ''original_value'' = Some (JStr v)" "is_stale rr now src v = Inr False"
      "json_int (rr_codec rr) (json_or (map_of env ''retry_attempt'') (JNum 1)) = Inr a"
      "sent w' = sent w @ [\<lparr>sr_topic = src, sr_key = key_text (map_of env ''original_key''), sr_value = v,
        sr_headers = retry_headers (rr_codec rr) a env\<rparr>]"
  | src v r where "src = jc_str (rr_codec rr) (json_or (map_of env ''source_topic'') (JStr []))"
      "src \<in> set (rr_source_topics rr)" "map_of env ''original_value'' = Some (JStr v)" "is_stale rr now src v = Inr True"
      "sent w' = sent w @ [r]" "sr_topic r = dlq_topic src"
proof -
  define src where "src = jc_str (rr_codec rr) (json_or (map_of env ''source_topic'') (JStr []))"
  have src: "src \<in> set (rr_source_topics rr)"
    using run by (auto simp: handle_envelope_def src_def Let_def split: if_splits)
  obtain v where v: "map_of env ''original_value'' = Some (JStr v)" "v \<noteq> []"
    using run src by (auto simp: handle_envelope_def Let_def simp flip: src_def split: option.splits json.splits if_splits)
  obtain st where st: "is_stale rr now src v = Inr st"
    using run src v by (auto simp: handle_envelope_def Let_def simp flip: src_def split: sum.splits)
  show thesis
  proof (cases st)
    case True
    then have "publish_retry_dlq rr stamp src env ''retry_payload_stale'' w = (Inr (), w')"
      using run src v st by (simp add: handle_envelope_def Let_def flip: src_def)
    then show thesis
      using that(2) [OF src_def src v(1)] st True produce_durably_sent [OF _ log]
      unfolding publish_retry_dlq_def by fastforce
  next
    case False
    then obtain a where a: "json_int (rr_codec rr) (json_or (map_of env ''retry_attempt'') (JNum 1)) = Inr a"
      and p: "produce_durably rr src (key_text (map_of env ''original_key'')) v (retry_headers (rr_codec rr) a env) w = (Inr (), w')"
      using run src v st by (auto simp: handle_envelope_def Let_def simp flip: src_def split: sum.splits)
    show thesis
      using that(1) [OF src_def src v(1)] st False a produce_durably_sent [OF p log] by simp
  qed
qed

text \<open>
  One round of a record that keeps failing: the consumer of \<open>src\<close> publishes it for retry, the replayer
  takes the envelope from the retry topic and puts the record back on \<open>src\<close>, with the headers \<open>hs'\<close>.
\<close>

definition retry_round :: "'w failure_publisher \<Rightarrow> 'w replayer \<Rightarrow> ('w \<Rightarrow> sent_record list) \<Rightarrow> str
    \<Rightarrow> (str \<times> str option) list \<Rightarrow> (str \<times> str option) list \<Rightarrow> bool" where
  "retry_round fp rr sent src hs hs' \<longleftrightarrow>
    (\<exists>e t key v reason et details w w1 r1 env now stamp w2 w3 r2.
      publish_retry fp e t src key v reason et details hs w = (Inr True, w1) \<and> sent w1 = sent w @ [r1] \<and>
      sr_topic r1 = retry_topic src \<and> jc_loads (rr_codec rr) (sr_value r1) = Some (JObj env) \<and>
      handle_envelope rr now stamp env w2 = (Inr (), w3) \<and> sent w3 = sent w2 @ [r2] \<and>
      sr_topic r2 = src \<and> hs' = map (\<lambda>(n, x). (n, Some x)) (sr_headers r2))"

lemma next_attempt_nonneg_header:
  "codec_ok c \<Longrightarrow> next_retry_attempt c (map (\<lambda>(n, x). (n, Some x)) (retry_headers c a env)) = a + 1"
  by (simp add: retry_headers_def codec_ok_def)

lemma retry_round_counts:
  assumes c: "codec_ok (fp_codec fp)" "rr_codec rr = fp_codec fp"
    and p: "fp_producer fp = Some p" "logs_produced p sent" "logs_produced (rr_producer rr) sent"
    and hs: "0 < next_retry_attempt (fp_codec fp) hs"
    and round: "retry_round fp rr sent src hs hs'"
  shows "next_retry_attempt (fp_codec fp) hs \<le> fp_max_retry fp \<and>
    next_retry_attempt (fp_codec fp) hs' = next_retry_attempt (fp_codec fp) hs + 1"
proof -
  let ?c = "fp_codec fp" and ?a = "next_retry_attempt (fp_codec fp) hs"
  obtain e t key v reason et details w w1 r1 env now stamp w2 w3 r2 where
    pub: "publish_retry fp e t src key v reason et details hs w = (Inr True, w1)" "sent w1 = sent w @ [r1]"
      "sr_topic r1 = retry_topic src" "jc_loads ?c (sr_value r1) = Some (JObj env)"
    and rep: "handle_envelope rr now stamp env w2 = (Inr (), w3)" "sent w3 = sent w2 @ [r2]"
      "sr_topic r2 = src" "hs' = map (\<lambda>(n, x). (n, Some x)) (sr_headers r2)"
    using round unfolding retry_round_def c(2) by blast
  let ?d = "AList.update ''max_retry_attempts'' (JNum (of_int (fp_max_retry fp)))
      (AList.update ''retry_attempt'' (JNum (of_int ?a)) details)"
  have le: "?a \<le> fp_max_retry fp"
  proof (rule ccontr)
    assume "\<not> ?a \<le> fp_max_retry fp"
    then have "fp_publish fp e t (dlq_topic src) src key v reason (et @ ''_retry_exhausted'') ?d w = (Inr True, w1)"
      using pub(1) by (simp add: publish_retry_def Let_def)
    from fp_publish_sent [OF this p(1,2)] pub(2,3) show False
      by simp
  qed
  then have "fp_publish fp e t (retry_topic src) src key v reason et ?d w = (Inr True, w1)"
    using pub(1) by (simp add: publish_retry_def Let_def)
  from fp_publish_sent [OF this p(1,2)] have env: "env = failure_envelope fp e t (retry_topic src) src key v reason et ?d"
    using pub(2,4) c(1) by (auto simp: codec_ok_def)
  have att: "json_or (map_of env ''retry_attempt'') (JNum 1) = JNum (of_int ?a)"
    using hs by (simp add: env failure_envelope_def json_or_def detail_or_def)
  have "?a + 1 = next_retry_attempt ?c hs'"
    using rep(1) p(3)
  proof (cases rule: handle_envelope_cases)
    case (1 s x a)
    then have "a = ?a"
      using att by (simp add: json_int_def)
    moreover have "sr_headers r2 = retry_headers ?c a env"
      using 1 rep(2) c(2) by simp
    ultimately show ?thesis
      using rep(4) next_attempt_nonneg_header [OF c(1)] by simp
  next
    case (2 s x r)
    have "s = src"
      using 2(1) c by (auto simp: env failure_envelope_def json_or_def codec_ok_def split: if_splits)
    then show ?thesis
      using 2 rep(2,3) by simp
  qed
  then show ?thesis
    using le by simp
qed

section \<open>Properties\<close>

lemma retry_rounds_count:
  assumes "codec_ok (fp_codec fp)" "rr_codec rr = fp_codec fp"
    "fp_producer fp = Some p" "logs_produced p sent" "logs_produced (rr_producer rr) sent"
  shows "(retry_round fp rr sent src ^^ n) [] hs \<Longrightarrow>
    next_retry_attempt (fp_codec fp) hs = int n + 1 \<and> (0 < n \<longrightarrow> int n \<le> fp_max_retry fp)"
proof (induction n arbitrary: hs)
  case (Suc n)
  then obtain hs1 where "(retry_round fp rr sent src ^^ n) [] hs1" and r: "retry_round fp rr sent src hs1 hs"
    by auto
  then have ih: "next_retry_attempt (fp_codec fp) hs1 = int n + 1"
    using Suc.IH by simp
  then show ?case
    using retry_round_counts [OF assms _ r] by simp
qed simp

text \<open>
  C18 A record that keeps failing is retried a bounded number of times: from a record without retry
  header no more rounds through the retry topic are possible than \<open>max_retry_attempts\<close>, whatever the
  reasons, the clock and the rest of the traffic; then it is sent to the dead-letter topic.
\<close>

theorem retry_rounds_bounded:
  assumes codec: "codec_ok (fp_codec fp)" "rr_codec rr = fp_codec fp"
    and prod: "fp_producer fp = Some p" "logs_produced p sent" "logs_produced (rr_producer rr) sent"
    and rounds: "(retry_round fp rr sent src ^^ n) [] hs"
  shows "int n \<le> max 0 (fp_max_retry fp) \<and>
    (fp_max_retry fp \<le> int n \<longrightarrow>
      (\<forall>e t key v reason et details w w'.
        publish_retry fp e t src key v reason et details hs w = (Inr True, w') \<longrightarrow>
        (\<exists>r. sent w' = sent w @ [r] \<and> sr_topic r = dlq_topic src)))"
proof (intro conjI impI allI)
  note count = retry_rounds_count [OF codec prod rounds]
  show "int n \<le> max 0 (fp_max_retry fp)"
    using count by (cases n) auto
  fix e t key v reason et details w w'
  assume max: "fp_max_retry fp \<le> int n"
    and pub: "publish_retry fp e t src key v reason et details hs w = (Inr True, w')"
  have "fp_max_retry fp < next_retry_attempt (fp_codec fp) hs"
    using count max by simp
  then show "\<exists>r. sent w' = sent w @ [r] \<and> sr_topic r = dlq_topic src"
    using pub fp_publish_sent [OF _ prod(1,2)] by (auto simp: publish_retry_def Let_def)
qed

text \<open>
  A failed order event is not replayed once the signal behind the order has expired: the replayer
  judges every record by its \<open>expires_at\<close>, which order events carry too, and moves it to the
  dead-letter topic.  The fill never reaches the accounting.
\<close>

theorem expired_fill_not_replayed:
  assumes codec: "codec_ok (rr_codec rr)" and log: "logs_produced (rr_producer rr) sent"
    and ev: "validate_event ev (event_type_value ORDER_FILLED) = []"
      "map_of ev ''expires_at'' = Some (JStr (jc_iso (rr_codec rr) expiry))" "expiry \<le> now"
    and env: "map_of env ''source_topic'' = Some (JStr ORDER_EVENTS_TOPIC)"
      "map_of env ''original_value'' = Some (JStr (jc_dumps (rr_codec rr) ev))"
    and run: "handle_envelope rr now stamp env w = (Inr (), w')"
  shows "\<exists>r. sent w' = sent w @ [r] \<and> sr_topic r = dlq_topic ORDER_EVENTS_TOPIC"
proof -
  let ?c = "rr_codec rr"
  have src: "jc_str ?c (json_or (map_of env ''source_topic'') (JStr [])) = ORDER_EVENTS_TOPIC"
    using codec env(1) by (simp add: json_or_def ORDER_EVENTS_TOPIC_def codec_ok_def)
  have stale: "is_stale rr now ORDER_EVENTS_TOPIC (jc_dumps ?c ev) = Inr True"
    using codec ev(2,3) by (simp add: is_stale_def codec_ok_def truthy_or_def parse_iso_def)
  show ?thesis
    using run log
  proof (cases rule: handle_envelope_cases)
    case (1 s v a)
    then show ?thesis
      using stale src env(2) by auto
  next
    case (2 s v r)
    then show ?thesis
      using src by auto
  qed
qed

section \<open>Witnesses\<close>

instance json :: countable
  by countable_datatype

text \<open>A codec by enumeration.\<close>

definition unary :: "'a::countable \<Rightarrow> str" where
  "unary x = replicate (Suc (to_nat x)) (CHR ''x'')"

definition of_unary :: "str \<Rightarrow> 'a::countable" where
  "of_unary s = from_nat (length s - 1)"

lemma of_unary [simp]: "of_unary (unary x) = x" "unary x \<noteq> []"
  by (simp_all add: of_unary_def unary_def)

definition demo_codec :: codec where
  "demo_codec = \<lparr>jc_dumps = unary, jc_loads = (\<lambda>s. Some (JObj (of_unary s))), jc_iso = unary,
    jc_fromiso = (\<lambda>s. Some (of_unary s)), jc_int_str = unary, jc_int = (\<lambda>s. Some (of_unary s)),
    jc_str = (\<lambda>j. case j of JStr s \<Rightarrow> s | _ \<Rightarrow> []), jc_fixed4 = unary, jc_sha256 = (\<lambda>s. s)\<rparr>"

lemma demo_codec_ok: "codec_ok demo_codec"
  by (simp add: codec_ok_def demo_codec_def)

definition demo_producer :: "sent_record list producer" where
  "demo_producer = \<lparr>pr_produce = (\<lambda>w t k v h. (Inr (), w @ [\<lparr>sr_topic = t, sr_key = k, sr_value = v, sr_headers = h\<rparr>])),
    pr_flush = (\<lambda>w. (0, w))\<rparr>"

definition demo_failure :: "sent_record list failure_publisher" where
  "demo_failure = \<lparr>fp_codec = demo_codec, fp_producer = Some demo_producer, fp_service = ''risk_engine'', fp_max_retry = 3\<rparr>"

definition demo_replayer :: "sent_record list replayer" where
  "demo_replayer = \<lparr>rr_codec = demo_codec, rr_source_topics = [SIGNALS_PENDING_TOPIC, SIGNALS_ENRICHED_TOPIC, ORDER_EVENTS_TOPIC],
    rr_max_tick_age = 5, rr_service = ''risk_engine'', rr_producer = demo_producer, rr_commit = (\<lambda>w m. (Inr (), w))\<rparr>"

lemma demo_logs: "logs_produced demo_producer (\<lambda>w. w)"
  by (simp add: logs_produced_def demo_producer_def)

lemma demo_round: "\<exists>hs. retry_round demo_failure demo_replayer (\<lambda>w. w) ORDER_EVENTS_TOPIC [] hs"
proof -
  let ?v = "jc_dumps demo_codec []"
  let ?d = "[(''retry_attempt'', JNum 1), (''max_retry_attempts'', JNum 3)]"
  let ?env = "failure_envelope demo_failure ''e'' ''t'' (retry_topic ORDER_EVENTS_TOPIC) ORDER_EVENTS_TOPIC (Some ''k'') (Some ?v) ''r'' ''et'' ?d"
  let ?r1 = "\<lparr>sr_topic = retry_topic ORDER_EVENTS_TOPIC, sr_key = Some ''k'', sr_value = jc_dumps demo_codec ?env, sr_headers = []\<rparr>"
  let ?r2 = "\<lparr>sr_topic = ORDER_EVENTS_TOPIC, sr_key = Some ''k'', sr_value = ?v, sr_headers = retry_headers demo_codec 1 ?env\<rparr>"
  have v: "?v \<noteq> []"
    by (simp add: demo_codec_def)
  have pub: "publish_retry demo_failure ''e'' ''t'' ORDER_EVENTS_TOPIC (Some ''k'') (Some ?v) ''r'' ''et'' [] [] [] = (Inr True, [?r1])"
    by (simp add: publish_retry_def demo_failure_def fp_publish_def demo_producer_def)
  have stale: "is_stale demo_replayer 0 ORDER_EVENTS_TOPIC ?v = Inr False"
    by (simp add: is_stale_def demo_replayer_def demo_codec_def truthy_or_def ORDER_EVENTS_TOPIC_def)
  have fields: "map_of ?env ''source_topic'' = Some (JStr ORDER_EVENTS_TOPIC)" "map_of ?env ''original_value'' = Some (JStr ?v)"
    "map_of ?env ''retry_attempt'' = Some (JNum 1)" "map_of ?env ''original_key'' = Some (JStr ''k'')"
    using v by (simp_all add: failure_envelope_def text_or_null_def detail_or_def)
  have "jc_str demo_codec (json_or (map_of ?env ''source_topic'') (JStr [])) = ORDER_EVENTS_TOPIC"
    by (simp add: failure_envelope_def json_or_def demo_codec_def ORDER_EVENTS_TOPIC_def)
  then have rep: "handle_envelope demo_replayer 0 ''s'' ?env [] = (Inr (), [?r2])"
    using stale v
    by (simp add: py_int_def handle_envelope_def Let_def fields json_or_def json_int_def key_text_def produce_durably_def demo_replayer_def demo_producer_def)
  have "jc_loads (rr_codec demo_replayer) (sr_value ?r1) = Some (JObj ?env)"
    by (simp add: demo_replayer_def demo_codec_def)
  then show ?thesis
    unfolding retry_round_def using pub rep by fastforce
qed

theorem retry_rounds_bounded_witness:
  "\<exists>hs. (retry_round demo_failure demo_replayer (\<lambda>w. w) ORDER_EVENTS_TOPIC ^^ 1) [] hs \<and> int 1 \<le> max 0 (fp_max_retry demo_failure)"
proof -
  obtain hs where r: "(retry_round demo_failure demo_replayer (\<lambda>w. w) ORDER_EVENTS_TOPIC ^^ 1) [] hs"
    using demo_round by auto
  have "codec_ok (fp_codec demo_failure)" "rr_codec demo_replayer = fp_codec demo_failure"
      "fp_producer demo_failure = Some demo_producer" "logs_produced (rr_producer demo_replayer) (\<lambda>w. w)"
    using demo_codec_ok demo_logs by (simp_all add: demo_failure_def demo_replayer_def)
  from retry_rounds_bounded [OF this(1-3) demo_logs this(4) r]
  have "int 1 \<le> max 0 (fp_max_retry demo_failure)"
    by blast
  then show ?thesis
    using r by blast
qed

definition demo_fill_event :: meta where
  "demo_fill_event =
    [(''event_id'', JStr ''e1''), (''trace_id'', JStr ''t1''), (''event_type'', JStr ''ORDER_FILLED''),
     (''schema_version'', JStr ''3.0''), (''source'', JStr ''execution_engine''), (''published_time'', JStr ''p''),
     (''order_id'', JStr ''o1''), (''signal_id'', JStr ''s1''), (''risk_decision_id'', JStr ''d1''), (''strategy_id'', JStr ''st''),
     (''instrument_id'', JStr ''NSE:INFY''), (''market'', JStr ''NSE''), (''direction'', JStr ''BUY''), (''quantity_ordered'', JNum 5),
     (''quantity_filled'', JNum 5), (''avg_fill_price'', JNum 100), (''broker_order_id'', JStr ''b1''), (''product_type'', JStr ''MIS''),
     (''expires_at'', JStr (jc_iso demo_codec 30)), (''stop_loss'', JNull), (''take_profit'', JNull), (''fill_time'', JStr ''f''),
     (''reject_reason'', JNull)]"

theorem expired_fill_not_replayed_witness:
  "\<exists>w r. handle_envelope demo_replayer 31 ''s''
      [(''source_topic'', JStr ORDER_EVENTS_TOPIC), (''original_value'', JStr (jc_dumps demo_codec demo_fill_event))] [] = (Inr (), w) \<and>
     w = [r] \<and> sr_topic r = dlq_topic ORDER_EVENTS_TOPIC"
proof -
  let ?env = "[(''source_topic'', JStr ORDER_EVENTS_TOPIC), (''original_value'', JStr (jc_dumps demo_codec demo_fill_event))]"
  have ev: "validate_event demo_fill_event (event_type_value ORDER_FILLED) = []"
    unfolding validate_event_Nil_iff by (simp add: demo_fill_event_def required_fields_defs SCHEMA_VERSION_def)
  have exp: "map_of demo_fill_event ''expires_at'' = Some (JStr (jc_iso (rr_codec demo_replayer) 30))"
    by (simp add: demo_fill_event_def demo_replayer_def)
  have v: "jc_dumps demo_codec demo_fill_event \<noteq> []"
    by (simp add: demo_codec_def)
  have "is_stale demo_replayer 31 ORDER_EVENTS_TOPIC (jc_dumps demo_codec demo_fill_event) = Inr True"
    using exp demo_codec_ok by (simp add: is_stale_def codec_ok_def truthy_or_def parse_iso_def demo_replayer_def)
  moreover have "jc_str demo_codec (json_or (map_of ?env ''source_topic'') (JStr [])) = ORDER_EVENTS_TOPIC"
    by (simp add: json_or_def demo_codec_def ORDER_EVENTS_TOPIC_def)
  ultimately obtain w where run: "handle_envelope demo_replayer 31 ''s'' ?env [] = (Inr (), w)"
    using v by (simp add: handle_envelope_def Let_def publish_retry_dlq_def produce_durably_def demo_replayer_def demo_producer_def)
  show ?thesis
    using expired_fill_not_replayed [OF _ _ ev exp _ _ _ run, of "\<lambda>w. w"] run demo_codec_ok demo_logs
    by (auto simp: demo_replayer_def)
qed

end
