(* ===== verification/MessagePath.thy ===== *)
theory MessagePath
  imports Retry
begin

text \<open>
  The events of a signal and of its order on their way between the services: the builders of the
  publishers (\<open>strategy_engine/publishers/kafka_signal_publisher.py\<close>,
  \<open>ai_engine/publishers/kafka_enriched_publisher.py\<close>, \<open>risk_engine/publishers/kafka_approved_publisher.py\<close>,
  \<open>execution_engine/publishers/kafka_order_events_publisher.py\<close>), the enriched signal
  (\<open>shared/models/enriched_signal.py\<close>) and the parsers of the consumers
  (\<open>risk_engine/consumers/kafka_signal_consumer.py\<close>, \<open>kafka_enriched_consumer.py\<close>,
  \<open>kafka_order_events_consumer.py\<close>, \<open>execution_engine/consumers/kafka_approved_consumer.py\<close>).

  Fresh identifiers and the clock are arguments.  A builder that rejects its own event raises
  \<open>ValueError\<close>.  The reason texts of retry and dead-letter records are left out.  A body is a JSON object; a field that the schema declares as a string or a number and
  that holds something else is rejected with \<open>TypeError\<close>.
\<close>

section \<open>Instruments and identifiers\<close>

definition instrument_id :: "str \<Rightarrow> str \<Rightarrow> str" where
  "instrument_id market symbol = market @ '':'' @ symbol"

text \<open>\<open>instrument_id.split(":", 1)\<close> unpacked into two names: \<open>None\<close> is the \<open>ValueError\<close>.\<close>

definition split_instrument :: "str \<Rightarrow> (str \<times> str) option" where
  "split_instrument s =
    (case dropWhile (\<lambda>c. c \<noteq> CHR '':'') s of [] \<Rightarrow> None
     | _ # rest \<Rightarrow> Some (takeWhile (\<lambda>c. c \<noteq> CHR '':'') s, rest))"

lemma split_instrument_id [simp]:
  "CHR '':'' \<notin> set market \<Longrightarrow> split_instrument (instrument_id market symbol) = Some (market, symbol)"
  by (simp add: split_instrument_def instrument_id_def dropWhile_append takeWhile_append dropWhile_eq_Nil_conv)

definition make_deterministic_signal_id :: "codec \<Rightarrow> signal \<Rightarrow> str" where
  "make_deterministic_signal_id c sg =
    take 32 (jc_sha256 c
      (sg_strategy_name sg @ ''|'' @ sg_symbol sg @ ''|'' @ order_side_value (sg_direction sg) @ ''|'' @
       jc_fixed4 c (sg_price_at_signal sg) @ ''|'' @ jc_iso c (sg_generated_at sg)))"

definition meta_strategy_id :: "codec \<Rightarrow> signal \<Rightarrow> str" where
  "meta_strategy_id c sg = jc_str c (json_or (map_of (sg_metadata sg) ''strategy_id'') (JStr (sg_strategy_name sg)))"

definition meta_product_type :: "codec \<Rightarrow> signal \<Rightarrow> str" where
  "meta_product_type c sg =
    jc_str c (json_or (map_of (sg_metadata sg) ''product_type'')
      (JStr (if py_upper (sg_market sg) = ''NSE'' then ''MIS'' else ''DAY'')))"

definition checked_event :: "meta \<Rightarrow> event_type \<Rightarrow> meta res" where
  "checked_event event ty = (if validate_event event (event_type_value ty) = [] then Inr event else Inl ValueError)"

section \<open>SIGNAL_PENDING\<close>

definition SIGNAL_TTL_SECONDS :: rat where
  "SIGNAL_TTL_SECONDS = 30"

definition pending_body :: "codec \<Rightarrow> str \<Rightarrow> str \<Rightarrow> str \<Rightarrow> signal \<Rightarrow> str \<Rightarrow> meta" where
  "pending_body c event_id fresh_trace now sg trace_id =
     [(''event_id'', JStr event_id), (''trace_id'', JStr (if trace_id \<noteq> [] then trace_id else fresh_trace)),
      (''event_type'', JStr (event_type_value SIGNAL_PENDING)), (''schema_version'', JStr SCHEMA_VERSION),
      (''source'', JStr ''strategy_engine''), (''published_time'', JStr now),
      (''signal_id'', JStr (make_deterministic_signal_id c sg)), (''strategy_id'', JStr (meta_strategy_id c sg)),
      (''strategy_name'', JStr (sg_strategy_name sg)), (''instrument_id'', JStr (instrument_id (sg_market sg) (sg_symbol sg))),
      (''market'', JStr (sg_market sg)), (''direction'', JStr (order_side_value (sg_direction sg))),
      (''quantity'', JNum (of_int (sg_quantity sg))), (''target_price'', opt_json (sg_take_profit sg)),
      (''stop_loss'', opt_json (sg_stop_loss sg)), (''take_profit'', opt_json (sg_take_profit sg)),
      (''product_type'', JStr (meta_product_type c sg)), (''confidence'', JNum (sg_confidence sg)),
      (''price_at_signal'', JNum (sg_price_at_signal sg)), (''signal_time'', JStr (jc_iso c (sg_generated_at sg))),
      (''expires_at'', JStr (jc_iso c (sg_generated_at sg + SIGNAL_TTL_SECONDS))),
      (''paper_trade'', JBool (sg_paper_trade sg)), (''metadata'', JObj (sg_metadata sg))]"

definition build_signal_event :: "codec \<Rightarrow> str \<Rightarrow> str \<Rightarrow> str \<Rightarrow> signal \<Rightarrow> str \<Rightarrow> meta res" where
  "build_signal_event c event_id fresh_trace now sg trace_id =
    checked_event (pending_body c event_id fresh_trace now sg trace_id) SIGNAL_PENDING"

record signal_event =
  se_signal :: signal
  se_trace_id :: str
  se_strategy_id :: str
  se_product_type :: str
  se_expires_at :: rat
  se_message :: kmsg

text \<open>Readers of the fields.\<close>

definition as_instrument :: "json option \<Rightarrow> (str \<times> str) res" where
  "as_instrument j =
    (case j of None \<Rightarrow> Inl KeyError
     | Some (JStr s) \<Rightarrow> of_opt ValueError (split_instrument s)
     | Some _ \<Rightarrow> Inl AttributeError)"

definition as_time :: "codec \<Rightarrow> json option \<Rightarrow> rat res" where
  "as_time c j = res_bind (as_str j) (\<lambda>s. of_opt ValueError (jc_fromiso c s))"

definition as_direction :: "json option \<Rightarrow> order_side res" where
  "as_direction j =
    (case j of None \<Rightarrow> Inl KeyError
     | Some (JStr s) \<Rightarrow> of_opt ValueError (order_side_of s)
     | Some _ \<Rightarrow> Inl ValueError)"

definition as_num_or :: "rat \<Rightarrow> json option \<Rightarrow> rat res" where
  "as_num_or d j = (case j of None \<Rightarrow> Inr d | _ \<Rightarrow> as_num j)"

definition as_str_or :: "str \<Rightarrow> json option \<Rightarrow> str res" where
  "as_str_or d j = (case j of None \<Rightarrow> Inr d | _ \<Rightarrow> as_str j)"

definition as_truth :: "bool \<Rightarrow> json option \<Rightarrow> bool" where
  "as_truth d j = (case j of None \<Rightarrow> d | Some v \<Rightarrow> json_truthy v)"

text \<open>\<open>dict(x or {})\<close>\<close>

definition as_dict :: "json option \<Rightarrow> meta res" where
  "as_dict j = (case json_or j (JObj []) of JObj m \<Rightarrow> Inr m | _ \<Rightarrow> Inl TypeError)"

lemmas readers = as_instrument_def as_time_def as_direction_def as_num_or_def as_str_or_def as_truth_def

lemma as_dict_obj [simp]: "as_dict (Some (JObj m)) = Inr m"
  by (simp add: as_dict_def json_or_def)

text \<open>The signal of a v3.0 body; both consumers of the risk engine build it the same way.\<close>

definition signal_of_body :: "rat \<Rightarrow> meta \<Rightarrow> signal res" where
  "signal_of_body signal_time body =
    res_bind (as_instrument (map_of body ''instrument_id'')) (\<lambda>(market, symbol).
    res_bind (as_dict (map_of body ''metadata'')) (\<lambda>metadata.
    res_bind (as_str (map_of body ''strategy_id'')) (\<lambda>strategy_id.
    res_bind (as_str (map_of body ''product_type'')) (\<lambda>product_type.
    res_bind (as_str (map_of body ''expires_at'')) (\<lambda>expires_at.
    res_bind (as_str (map_of body ''signal_id'')) (\<lambda>signal_id.
    res_bind (as_str (map_of body ''strategy_name'')) (\<lambda>strategy_name.
    res_bind (as_direction (map_of body ''direction'')) (\<lambda>dir.
    res_bind (as_num (map_of body ''quantity'')) (\<lambda>q.
    res_bind (as_num (map_of body ''price_at_signal'')) (\<lambda>price.
    res_bind (as_num_or 1 (map_of body ''confidence'')) (\<lambda>conf.
    res_bind (as_opt_num (map_of body ''stop_loss'')) (\<lambda>sl.
    res_bind (as_opt_num (map_of body ''take_profit'')) (\<lambda>tp.
      Inr \<lparr>sg_signal_id = signal_id, sg_symbol = symbol, sg_market = market, sg_direction = dir,
           sg_quantity = py_int q, sg_confidence = conf, sg_strategy_name = strategy_name,
           sg_generated_at = signal_time, sg_status = SIG_PENDING, sg_price_at_signal = price,
           sg_stop_loss = sl, sg_take_profit = tp, sg_paper_trade = as_truth False (map_of body ''paper_trade''),
           sg_metadata = AList.update ''expires_at'' (JStr expires_at)
             (AList.update ''product_type'' (JStr product_type)
               (AList.update ''strategy_id'' (JStr strategy_id) metadata))\<rparr>)))))))))))))"

text \<open>
  A parser answers with an event or with the error type of the dead-letter record; an exception of
  the three caught classes makes a \<open>malformed\<close> record, another one leaves the poll.
\<close>

datatype 'e parsed = Parsed 'e | Invalid str

definition parse_signal_message :: "codec \<Rightarrow> kmsg \<Rightarrow> signal_event parsed res" where
  "parse_signal_message c msg =
    (case jc_loads c (km_value msg) of
       None \<Rightarrow> Inl ValueError
     | Some (JObj body) \<Rightarrow>
        (if validate_event body (event_type_value SIGNAL_PENDING) \<noteq> [] then Inr (Invalid ''schema_validation_failed'')
         else
          res_bind (as_time c (map_of body ''signal_time'')) (\<lambda>signal_time.
          res_bind (as_time c (map_of body ''expires_at'')) (\<lambda>expires_at.
          res_bind (signal_of_body signal_time body) (\<lambda>sg.
          res_bind (as_str_or [] (map_of body ''trace_id'')) (\<lambda>trace_id.
          res_bind (as_str (map_of body ''strategy_id'')) (\<lambda>strategy_id.
          res_bind (as_str (map_of body ''product_type'')) (\<lambda>product_type.
            Inr (Parsed \<lparr>se_signal = sg, se_trace_id = trace_id, se_strategy_id = strategy_id,
              se_product_type = product_type, se_expires_at = expires_at, se_message = msg\<rparr>))))))))
     | Some _ \<Rightarrow> Inl AttributeError)"

section \<open>Polling\<close>

record 'w kconsumer =
  kc_codec :: codec
  kc_failure :: "'w failure_publisher option"
  kc_commit :: "'w \<Rightarrow> kmsg \<Rightarrow> unit res \<times> 'w"

definition caught_in_parse :: "exn \<Rightarrow> bool" where
  "caught_in_parse e \<longleftrightarrow> e = KeyError \<or> e = ValueError \<or> e = AttributeError"

definition message_to_dlq :: "'w kconsumer \<Rightarrow> str \<Rightarrow> str \<Rightarrow> str \<Rightarrow> kmsg \<Rightarrow> 'w \<Rightarrow> bool res \<times> 'w" where
  "message_to_dlq kc event_id now error_type msg w =
    (case kc_failure kc of
       None \<Rightarrow> (Inr False, w)
     | Some fp \<Rightarrow>
        publish_dlq fp event_id now (km_topic msg) (km_key msg) (Some (km_value msg)) [] error_type
          [(''partition'', JNum (of_int (km_partition msg))), (''offset'', JNum (of_int (km_offset msg)))] w)"

text \<open>
  The poll of the three v3.0 consumers on a message without broker error: a message that is no event
  is committed only after it has been routed to the dead-letter topic.
\<close>

definition poll_parsed :: "(codec \<Rightarrow> kmsg \<Rightarrow> 'e parsed res) \<Rightarrow> str \<Rightarrow> 'w kconsumer \<Rightarrow> str \<Rightarrow> str \<Rightarrow> kmsg \<Rightarrow> 'w
    \<Rightarrow> 'e option res \<times> 'w" where
  "poll_parsed parse malformed kc event_id now msg w =
    (let dead = (\<lambda>error_type.
       (case message_to_dlq kc event_id now error_type msg w of
          (Inl e, w) \<Rightarrow> (Inl e, w)
        | (Inr False, w) \<Rightarrow> (Inr None, w)
        | (Inr True, w) \<Rightarrow>
           (case kc_commit kc w msg of (Inl e, w) \<Rightarrow> (Inl e, w) | (Inr _, w) \<Rightarrow> (Inr None, w))))
     in case parse (kc_codec kc) msg of
          Inr (Parsed e) \<Rightarrow> (Inr (Some e), w)
        | Inr (Invalid error_type) \<Rightarrow> dead error_type
        | Inl e \<Rightarrow> if caught_in_parse e then dead malformed else (Inl e, w))"

definition poll_signal :: "'w kconsumer \<Rightarrow> str \<Rightarrow> str \<Rightarrow> kmsg \<Rightarrow> 'w \<Rightarrow> signal_event option res \<times> 'w" where
  "poll_signal kc = poll_parsed parse_signal_message ''malformed_signal_pending'' kc"

text \<open>Routing of an event whose processing failed, and of a stale one.\<close>

definition event_to_retry :: "'w kconsumer \<Rightarrow> str \<Rightarrow> str \<Rightarrow> str \<Rightarrow> meta \<Rightarrow> kmsg \<Rightarrow> 'w \<Rightarrow> bool res \<times> 'w" where
  "event_to_retry kc event_id now error_type details msg w =
    (case kc_failure kc of
       None \<Rightarrow> (Inr False, w)
     | Some fp \<Rightarrow> publish_retry fp event_id now (km_topic msg) (km_key msg) (Some (km_value msg)) [] error_type details
         (km_headers msg) w)"

definition event_to_dlq :: "'w kconsumer \<Rightarrow> str \<Rightarrow> str \<Rightarrow> str \<Rightarrow> meta \<Rightarrow> kmsg \<Rightarrow> 'w \<Rightarrow> bool res \<times> 'w" where
  "event_to_dlq kc event_id now error_type details msg w =
    (case kc_failure kc of
       None \<Rightarrow> (Inr False, w)
     | Some fp \<Rightarrow> publish_dlq fp event_id now (km_topic msg) (km_key msg) (Some (km_value msg)) [] error_type details w)"

section \<open>SIGNAL_ENRICHED\<close>

record enriched_signal =
  es_signal_id :: str
  es_strategy_name :: str
  es_symbol :: str
  es_market :: str
  es_direction :: order_side
  es_quantity :: int
  es_confidence :: rat
  es_price_at_signal :: rat
  es_generated_at :: rat
  es_expires_at :: rat
  es_stop_loss :: "rat option"
  es_take_profit :: "rat option"
  es_paper_trade :: bool
  es_strategy_id :: str
  es_product_type :: str
  es_trace_id :: str
  es_metadata :: meta
  es_regime :: str
  es_regime_confidence :: rat
  es_quality_score :: rat
  es_filtered :: bool
  es_enriched_at :: rat
  es_enrichment_latency_ms :: rat
  es_model_versions :: meta
  es_schema_version :: str

definition enriched_to_dict :: "codec \<Rightarrow> enriched_signal \<Rightarrow> meta" where
  "enriched_to_dict c e =
    [(''schema_version'', JStr (es_schema_version e)), (''signal_id'', JStr (es_signal_id e)),
     (''strategy_name'', JStr (es_strategy_name e)), (''strategy_id'', JStr (es_strategy_id e)),
     (''instrument_id'', JStr (instrument_id (es_market e) (es_symbol e))), (''symbol'', JStr (es_symbol e)),
     (''market'', JStr (es_market e)), (''direction'', JStr (order_side_value (es_direction e))),
     (''quantity'', JNum (of_int (es_quantity e))), (''confidence'', JNum (es_confidence e)),
     (''price_at_signal'', JNum (es_price_at_signal e)), (''generated_at'', JStr (jc_iso c (es_generated_at e))),
     (''signal_time'', JStr (jc_iso c (es_generated_at e))), (''expires_at'', JStr (jc_iso c (es_expires_at e))),
     (''stop_loss'', opt_json (es_stop_loss e)), (''take_profit'', opt_json (es_take_profit e)),
     (''paper_trade'', JBool (es_paper_trade e)), (''product_type'', JStr (es_product_type e)),
     (''trace_id'', JStr (es_trace_id e)), (''metadata'', JObj (es_metadata e)), (''regime'', JStr (es_regime e)),
     (''regime_confidence'', JNum (es_regime_confidence e)), (''quality_score'', JNum (es_quality_score e)),
     (''filtered'', JBool (es_filtered e)), (''enriched_at'', JStr (jc_iso c (es_enriched_at e))),
     (''enrichment_latency_ms'', JNum (es_enrichment_latency_ms e)), (''model_versions'', JObj (es_model_versions e))]"

text \<open>A value that is no string stands for the present time.\<close>

definition parse_dt_or_now :: "codec \<Rightarrow> rat \<Rightarrow> json option \<Rightarrow> rat res" where
  "parse_dt_or_now c now j =
    (case j of Some (JStr s) \<Rightarrow> of_opt ValueError (jc_fromiso c s) | _ \<Rightarrow> Inr now)"

definition enriched_from_dict :: "codec \<Rightarrow> rat \<Rightarrow> meta \<Rightarrow> enriched_signal res" where
  "enriched_from_dict c now d =
    res_bind (as_instrument (map_of d ''instrument_id'')) (\<lambda>(market, symbol).
    res_bind (parse_dt_or_now c now (truthy_or (map_of d ''generated_at'') (map_of d ''signal_time''))) (\<lambda>generated_at.
    res_bind (if map_of d ''expires_at'' = None then Inl KeyError else parse_dt_or_now c now (map_of d ''expires_at'')) (\<lambda>expires_at.
    res_bind (if map_of d ''enriched_at'' = None then Inl KeyError else parse_dt_or_now c now (map_of d ''enriched_at'')) (\<lambda>enriched_at.
    res_bind (as_str (map_of d ''signal_id'')) (\<lambda>signal_id.
    res_bind (as_str (map_of d ''strategy_name'')) (\<lambda>strategy_name.
    res_bind (as_str_or strategy_name (map_of d ''strategy_id'')) (\<lambda>strategy_id.
    res_bind (as_direction (map_of d ''direction'')) (\<lambda>dir.
    res_bind (as_num (map_of d ''quantity'')) (\<lambda>q.
    res_bind (as_num_or 1 (map_of d ''confidence'')) (\<lambda>conf.
    res_bind (as_num_or 0 (map_of d ''price_at_signal'')) (\<lambda>price.
    res_bind (as_opt_num (map_of d ''stop_loss'')) (\<lambda>sl.
    res_bind (as_opt_num (map_of d ''take_profit'')) (\<lambda>tp.
    res_bind (as_str_or ''MIS'' (map_of d ''product_type'')) (\<lambda>product_type.
    res_bind (as_str_or [] (map_of d ''trace_id'')) (\<lambda>trace_id.
    res_bind (as_dict (map_of d ''metadata'')) (\<lambda>metadata.
    res_bind (as_str_or ''unknown'' (map_of d ''regime'')) (\<lambda>regime.
    res_bind (as_num_or 0 (map_of d ''regime_confidence'')) (\<lambda>regime_confidence.
    res_bind (as_num_or (1/2) (map_of d ''quality_score'')) (\<lambda>quality_score.
    res_bind (as_num_or 0 (map_of d ''enrichment_latency_ms'')) (\<lambda>latency.
    res_bind (as_dict (map_of d ''model_versions'')) (\<lambda>model_versions.
    res_bind (as_str_or ENRICHED_SCHEMA_VERSION (map_of d ''schema_version'')) (\<lambda>schema_version.
      Inr \<lparr>es_signal_id = signal_id, es_strategy_name = strategy_name, es_symbol = symbol, es_market = market,
        es_direction = dir, es_quantity = py_int q, es_confidence = conf, es_price_at_signal = price,
        es_generated_at = generated_at, es_expires_at = expires_at, es_stop_loss = sl, es_take_profit = tp,
        es_paper_trade = as_truth False (map_of d ''paper_trade''), es_strategy_id = strategy_id,
        es_product_type = product_type, es_trace_id = trace_id, es_metadata = metadata, es_regime = regime,
        es_regime_confidence = regime_confidence, es_quality_score = quality_score,
        es_filtered = as_truth False (map_of d ''filtered''), es_enriched_at = enriched_at,
        es_enrichment_latency_ms = latency, es_model_versions = model_versions,
        es_schema_version = schema_version\<rparr>))))))))))))))))))))))"

text \<open>The annotations the enricher adds.\<close>

record annotation =
  an_regime :: str
  an_regime_confidence :: rat
  an_quality_score :: rat
  an_filtered :: bool
  an_latency_ms :: rat
  an_model_versions :: meta

definition enriched_from_signal :: "signal \<Rightarrow> str \<Rightarrow> str \<Rightarrow> str \<Rightarrow> rat option \<Rightarrow> annotation \<Rightarrow> rat \<Rightarrow> enriched_signal" where
  "enriched_from_signal sg trace_id strategy_id product_type expires_at a now =
    \<lparr>es_signal_id = sg_signal_id sg, es_strategy_name = sg_strategy_name sg, es_symbol = sg_symbol sg,
     es_market = sg_market sg, es_direction = sg_direction sg, es_quantity = sg_quantity sg,
     es_confidence = sg_confidence sg, es_price_at_signal = sg_price_at_signal sg,
     es_generated_at = sg_generated_at sg, es_expires_at = opt_default now expires_at,
     es_stop_loss = sg_stop_loss sg, es_take_profit = sg_take_profit sg, es_paper_trade = sg_paper_trade sg,
     es_strategy_id = (if strategy_id \<noteq> [] then strategy_id else sg_strategy_name sg),
     es_product_type = product_type, es_trace_id = trace_id, es_metadata = sg_metadata sg,
     es_regime = an_regime a, es_regime_confidence = an_regime_confidence a, es_quality_score = an_quality_score a,
     es_filtered = an_filtered a, es_enriched_at = now, es_enrichment_latency_ms = an_latency_ms a,
     es_model_versions = an_model_versions a, es_schema_version = ENRICHED_SCHEMA_VERSION\<rparr>"

definition degraded_enrichment :: "signal \<Rightarrow> str \<Rightarrow> str \<Rightarrow> str \<Rightarrow> rat option \<Rightarrow> rat \<Rightarrow> enriched_signal" where
  "degraded_enrichment sg trace_id strategy_id product_type expires_at now =
    enriched_from_signal sg trace_id strategy_id product_type expires_at
      \<lparr>an_regime = ''unknown'', an_regime_confidence = 0, an_quality_score = 1/2, an_filtered = False,
       an_latency_ms = 0, an_model_versions = []\<rparr> now"

definition build_enriched_event :: "codec \<Rightarrow> str \<Rightarrow> str \<Rightarrow> enriched_signal \<Rightarrow> meta" where
  "build_enriched_event c event_id now e =
    foldl (\<lambda>m (k, v). AList.update k v m) (enriched_to_dict c e)
      [(''event_id'', JStr event_id), (''event_type'', JStr (event_type_value SIGNAL_ENRICHED)),
       (''schema_version'', JStr ENRICHED_SCHEMA_VERSION), (''source'', JStr ''ai_engine''),
       (''published_time'', JStr now), (''instrument_id'', JStr (instrument_id (es_market e) (es_symbol e))),
       (''signal_time'', JStr (jc_iso c (es_generated_at e)))]"

record enriched_event =
  ee_enriched :: enriched_signal
  ee_trace_id :: str
  ee_strategy_id :: str
  ee_product_type :: str
  ee_expires_at :: rat
  ee_message :: kmsg
  ee_schema_version :: str

definition parse_v4 :: "codec \<Rightarrow> rat \<Rightarrow> kmsg \<Rightarrow> meta \<Rightarrow> enriched_event parsed res" where
  "parse_v4 c now msg body =
    (if validate_event body (event_type_value SIGNAL_ENRICHED) \<noteq> [] then Inr (Invalid ''v4_schema_error'')
     else
      res_bind (enriched_from_dict c now body) (\<lambda>e.
      res_bind (as_str_or [] (map_of body ''trace_id'')) (\<lambda>trace_id.
      res_bind (as_str_or (es_strategy_name e) (map_of body ''strategy_id'')) (\<lambda>strategy_id.
      res_bind (as_str_or ''MIS'' (map_of body ''product_type'')) (\<lambda>product_type.
      res_bind (parse_dt_or_now c now (map_of body ''expires_at'')) (\<lambda>expires_at.
        Inr (Parsed \<lparr>ee_enriched = e, ee_trace_id = trace_id, ee_strategy_id = strategy_id,
          ee_product_type = product_type, ee_expires_at = expires_at, ee_message = msg,
          ee_schema_version = ENRICHED_SCHEMA_VERSION\<rparr>)))))))"

text \<open>
  The fallback parser reads \<open>price_at_signal\<close> with a default, which the validated schema makes
  unreachable, and its times with \<open>_parse_dt\<close>.
\<close>

definition parse_v3_fallback :: "codec \<Rightarrow> rat \<Rightarrow> kmsg \<Rightarrow> meta \<Rightarrow> enriched_event parsed res" where
  "parse_v3_fallback c now msg body =
    (if validate_event body (event_type_value SIGNAL_PENDING) \<noteq> [] then Inr (Invalid ''v3_schema_error'')
     else
      res_bind (parse_dt_or_now c now (map_of body ''signal_time'')) (\<lambda>signal_time.
      res_bind (parse_dt_or_now c now (map_of body ''expires_at'')) (\<lambda>expires_at.
      res_bind (signal_of_body signal_time body) (\<lambda>sg.
      res_bind (as_str_or [] (map_of body ''trace_id'')) (\<lambda>trace_id.
      res_bind (as_str (map_of body ''strategy_id'')) (\<lambda>strategy_id.
      res_bind (as_str (map_of body ''product_type'')) (\<lambda>product_type.
        Inr (Parsed \<lparr>ee_enriched =
            degraded_enrichment sg trace_id strategy_id product_type (Some expires_at) now,
          ee_trace_id = trace_id, ee_strategy_id = strategy_id, ee_product_type = product_type,
          ee_expires_at = expires_at, ee_message = msg, ee_schema_version = SCHEMA_VERSION\<rparr>))))))))"

text \<open>
  Unlike the other consumers this one commits a message it cannot use without routing it anywhere.
\<close>

definition poll_enriched :: "'w kconsumer \<Rightarrow> rat \<Rightarrow> kmsg \<Rightarrow> 'w \<Rightarrow> enriched_event option res \<times> 'w" where
  "poll_enriched kc now msg w =
    (let c = kc_codec kc;
         drop_it = (case kc_commit kc w msg of (Inl e, w) \<Rightarrow> (Inl e, w) | (Inr _, w) \<Rightarrow> (Inr None, w))
     in case (case jc_loads c (km_value msg) of
                None \<Rightarrow> Inl ValueError
              | Some (JObj body) \<Rightarrow>
                 (if map_of body ''schema_version'' = Some (JStr ENRICHED_SCHEMA_VERSION) then parse_v4 c now msg body
                  else if map_of body ''schema_version'' = Some (JStr SCHEMA_VERSION) then parse_v3_fallback c now msg body
                  else Inr (Invalid ''unknown_schema''))
              | Some _ \<Rightarrow> Inl AttributeError) of
          Inr (Parsed e) \<Rightarrow> (Inr (Some e), w)
        | Inr (Invalid _) \<Rightarrow> drop_it
        | Inl e \<Rightarrow> if e = KeyError \<or> e = ValueError then drop_it else (Inl e, w))"

section \<open>SIGNAL_APPROVED\<close>

text \<open>The mutable signal the risk engine rebuilds from an enriched event (\<open>_signal_from_enriched\<close>).\<close>

definition signal_from_enriched :: "codec \<Rightarrow> enriched_signal \<Rightarrow> signal" where
  "signal_from_enriched c e =
    \<lparr>sg_signal_id = es_signal_id e, sg_symbol = es_symbol e, sg_market = es_market e, sg_direction = es_direction e,
     sg_quantity = es_quantity e, sg_confidence = es_confidence e, sg_strategy_name = es_strategy_name e,
     sg_generated_at = es_generated_at e, sg_status = SIG_PENDING, sg_price_at_signal = es_price_at_signal e,
     sg_stop_loss = es_stop_loss e, sg_take_profit = es_take_profit e, sg_paper_trade = es_paper_trade e,
     sg_metadata = foldl (\<lambda>m (k, v). AList.update k (JStr v) m) (es_metadata e)
       [(''strategy_id'', es_strategy_id e), (''product_type'', es_product_type e),
        (''expires_at'', jc_iso c (es_expires_at e)), (''regime'', es_regime e),
        (''regime_confidence'', jc_str c (JNum (es_regime_confidence e))),
        (''quality_score'', jc_str c (JNum (es_quality_score e))),
        (''filtered'', jc_str c (JBool (es_filtered e))), (''schema_version'', es_schema_version e),
        (''enrichment_latency_ms'', jc_str c (JNum (es_enrichment_latency_ms e)))]\<rparr>"

definition approved_body :: "codec \<Rightarrow> str \<Rightarrow> str \<Rightarrow> rat \<Rightarrow> signal \<Rightarrow> str \<Rightarrow> str \<Rightarrow> meta" where
  "approved_body c event_id fresh_trace now sg risk_decision_id trace_id =
     [(''event_id'', JStr event_id), (''trace_id'', JStr (if trace_id \<noteq> [] then trace_id else fresh_trace)),
      (''event_type'', JStr (event_type_value SIGNAL_APPROVED)), (''schema_version'', JStr SCHEMA_VERSION),
      (''source'', JStr ''risk_engine''), (''published_time'', JStr (jc_iso c now)), (''signal_id'', JStr (sg_signal_id sg)),
      (''risk_decision_id'', JStr risk_decision_id), (''strategy_id'', JStr (meta_strategy_id c sg)),
      (''instrument_id'', JStr (instrument_id (sg_market sg) (sg_symbol sg))), (''market'', JStr (sg_market sg)),
      (''strategy_name'', JStr (sg_strategy_name sg)), (''direction'', JStr (order_side_value (sg_direction sg))),
      (''quantity'', JNum (of_int (sg_quantity sg))), (''price_at_signal'', JNum (sg_price_at_signal sg)),
      (''stop_loss'', opt_json (sg_stop_loss sg)), (''take_profit'', opt_json (sg_take_profit sg)),
      (''product_type'', JStr (meta_product_type c sg)), (''confidence'', JNum (sg_confidence sg)),
      (''signal_time'', JStr (jc_iso c (sg_generated_at sg))),
      (''expires_at'', JStr (jc_str c (json_or (map_of (sg_metadata sg) ''expires_at'')
         (JStr (jc_iso c (sg_generated_at sg + 30)))))),
      (''approved_at'', JStr (jc_iso c now)), (''paper_trade'', JBool (sg_paper_trade sg)),
      (''metadata'', JObj (sg_metadata sg))]"

definition build_approved_event :: "codec \<Rightarrow> str \<Rightarrow> str \<Rightarrow> rat \<Rightarrow> signal \<Rightarrow> str \<Rightarrow> str \<Rightarrow> meta res" where
  "build_approved_event c event_id fresh_trace now sg risk_decision_id trace_id =
    checked_event (approved_body c event_id fresh_trace now sg risk_decision_id trace_id) SIGNAL_APPROVED"

record approved_event =
  ap_signal_id :: str
  ap_risk_decision_id :: str
  ap_trace_id :: str
  ap_strategy_id :: str
  ap_symbol :: str
  ap_market :: str
  ap_strategy_name :: str
  ap_direction :: str
  ap_quantity :: rat
  ap_price_at_signal :: rat
  ap_stop_loss :: "rat option"
  ap_take_profit :: "rat option"
  ap_product_type :: str
  ap_expires_at :: rat
  ap_confidence :: rat
  ap_signal_time :: rat
  ap_approved_at :: rat
  ap_paper_trade :: bool
  ap_message :: kmsg

definition parse_approved_message :: "codec \<Rightarrow> kmsg \<Rightarrow> approved_event parsed res" where
  "parse_approved_message c msg =
    (case jc_loads c (km_value msg) of
       None \<Rightarrow> Inl ValueError
     | Some (JObj body) \<Rightarrow>
        (if validate_event body (event_type_value SIGNAL_APPROVED) \<noteq> [] then Inr (Invalid ''schema_validation_failed'')
         else
          res_bind (as_instrument (map_of body ''instrument_id'')) (\<lambda>(market, symbol).
          res_bind (as_str (map_of body ''signal_id'')) (\<lambda>signal_id.
          res_bind (as_str (map_of body ''risk_decision_id'')) (\<lambda>risk_decision_id.
          res_bind (as_str_or [] (map_of body ''trace_id'')) (\<lambda>trace_id.
          res_bind (as_str (map_of body ''strategy_id'')) (\<lambda>strategy_id.
          res_bind (as_str (map_of body ''strategy_name'')) (\<lambda>strategy_name.
          res_bind (as_str (map_of body ''direction'')) (\<lambda>dir.
          res_bind (as_num (map_of body ''quantity'')) (\<lambda>q.
          res_bind (as_num (map_of body ''price_at_signal'')) (\<lambda>price.
          res_bind (as_opt_num (map_of body ''stop_loss'')) (\<lambda>sl.
          res_bind (as_opt_num (map_of body ''take_profit'')) (\<lambda>tp.
          res_bind (as_str (map_of body ''product_type'')) (\<lambda>product_type.
          res_bind (as_time c (map_of body ''expires_at'')) (\<lambda>expires_at.
          res_bind (as_num_or 1 (map_of body ''confidence'')) (\<lambda>conf.
          res_bind (as_time c (map_of body ''signal_time'')) (\<lambda>signal_time.
          res_bind (as_time c (map_of body ''approved_at'')) (\<lambda>approved_at.
            Inr (Parsed \<lparr>ap_signal_id = signal_id, ap_risk_decision_id = risk_decision_id, ap_trace_id = trace_id,
              ap_strategy_id = strategy_id, ap_symbol = symbol, ap_market = market, ap_strategy_name = strategy_name,
              ap_direction = py_upper dir, ap_quantity = q, ap_price_at_signal = price, ap_stop_loss = sl,
              ap_take_profit = tp, ap_product_type = product_type, ap_expires_at = expires_at, ap_confidence = conf,
              ap_signal_time = signal_time, ap_approved_at = approved_at,
              ap_paper_trade = as_truth False (map_of body ''paper_trade''), ap_message = msg\<rparr>))))))))))))))))))
     | Some _ \<Rightarrow> Inl AttributeError)"

definition poll_approved :: "'w kconsumer \<Rightarrow> str \<Rightarrow> str \<Rightarrow> kmsg \<Rightarrow> 'w \<Rightarrow> approved_event option res \<times> 'w" where
  "poll_approved kc = poll_parsed parse_approved_message ''malformed_signal_approved'' kc"

section \<open>ORDER events\<close>

record fill_args =
  fa_order_id :: str
  fa_signal_id :: str
  fa_risk_decision_id :: str
  fa_trace_id :: str
  fa_symbol :: str
  fa_market :: str
  fa_direction :: str
  fa_quantity_ordered :: int
  fa_quantity_filled :: int
  fa_avg_fill_price :: rat
  fa_broker_order_id :: str
  fa_fill_time :: "rat option"
  fa_strategy_id :: str
  fa_product_type :: str
  fa_expires_at :: "str option"
  fa_stop_loss :: "rat option"
  fa_take_profit :: "rat option"
  fa_event_type :: "str option"

definition resolved_event_type :: "fill_args \<Rightarrow> str" where
  "resolved_event_type a =
    str_or (fa_event_type a)
      (if fa_quantity_filled a < fa_quantity_ordered a then event_type_value ORDER_PARTIAL else event_type_value ORDER_FILLED)"

fun opt_str_json :: "str option \<Rightarrow> json" where
  "opt_str_json None = JNull"
| "opt_str_json (Some s) = JStr s"

text \<open>An event type outside the schema is rejected by \<open>validate_event\<close>.\<close>

definition fill_body :: "codec \<Rightarrow> str \<Rightarrow> str \<Rightarrow> rat \<Rightarrow> fill_args \<Rightarrow> meta" where
  "fill_body c event_id fresh_trace now a =
      [(''event_id'', JStr event_id), (''trace_id'', JStr (if fa_trace_id a \<noteq> [] then fa_trace_id a else fresh_trace)),
       (''event_type'', JStr (resolved_event_type a)), (''schema_version'', JStr SCHEMA_VERSION),
       (''source'', JStr ''execution_engine''), (''published_time'', JStr (jc_iso c now)),
       (''order_id'', JStr (fa_order_id a)), (''signal_id'', JStr (fa_signal_id a)),
       (''risk_decision_id'', JStr (fa_risk_decision_id a)), (''strategy_id'', JStr (fa_strategy_id a)),
       (''instrument_id'', JStr (instrument_id (fa_market a) (fa_symbol a))), (''market'', JStr (fa_market a)),
       (''direction'', JStr (fa_direction a)), (''quantity_ordered'', JNum (of_int (fa_quantity_ordered a))),
       (''quantity_filled'', JNum (of_int (fa_quantity_filled a))), (''avg_fill_price'', JNum (fa_avg_fill_price a)),
       (''broker_order_id'', JStr (fa_broker_order_id a)), (''product_type'', JStr (fa_product_type a)),
       (''expires_at'', opt_str_json (fa_expires_at a)), (''stop_loss'', opt_json (fa_stop_loss a)),
       (''take_profit'', opt_json (fa_take_profit a)), (''fill_time'', JStr (jc_iso c (opt_default now (fa_fill_time a)))),
       (''reject_reason'', JNull)]"

definition build_fill_event :: "codec \<Rightarrow> str \<Rightarrow> str \<Rightarrow> rat \<Rightarrow> fill_args \<Rightarrow> meta res" where
  "build_fill_event c event_id fresh_trace now a =
    (let event = fill_body c event_id fresh_trace now a
     in if validate_event event (resolved_event_type a) = [] then Inr event else Inl ValueError)"

record fill_event =
  fe_event_type :: str
  fe_order_id :: str
  fe_signal_id :: str
  fe_risk_decision_id :: str
  fe_trace_id :: str
  fe_strategy_id :: str
  fe_market :: str
  fe_symbol :: str
  fe_direction :: str
  fe_quantity_ordered :: int
  fe_quantity_filled :: int
  fe_avg_fill_price :: "rat option"
  fe_broker_order_id :: str
  fe_product_type :: str
  fe_expires_at :: "rat option"
  fe_stop_loss :: "rat option"
  fe_take_profit :: "rat option"
  fe_fill_time :: "rat option"
  fe_reject_reason :: "str option"
  fe_raw_id :: str \<comment> \<open>topic, partition and offset joined by colons\<close>

definition is_fill :: "fill_event \<Rightarrow> bool" where
  "is_fill e \<longleftrightarrow> fe_event_type e = ''ORDER_FILLED'' \<or> fe_event_type e = ''ORDER_PARTIAL''"

definition is_full_fill :: "fill_event \<Rightarrow> bool" where
  "is_full_fill e \<longleftrightarrow> fe_event_type e = ''ORDER_FILLED''"

definition is_rejected :: "fill_event \<Rightarrow> bool" where
  "is_rejected e \<longleftrightarrow> fe_event_type e = ''ORDER_REJECTED''"

definition notional_value :: "fill_event \<Rightarrow> rat" where
  "notional_value e =
    (case fe_avg_fill_price e of None \<Rightarrow> 0
     | Some p \<Rightarrow> if fe_quantity_filled e = 0 then 0 else p * of_int (fe_quantity_filled e))"

text \<open>A time field that is missing, null or empty is \<open>None\<close>.\<close>

definition opt_time :: "codec \<Rightarrow> json option \<Rightarrow> rat option res" where
  "opt_time c j =
    (case truthy_or j None of None \<Rightarrow> Inr None
     | Some v \<Rightarrow> res_bind (as_time c (Some v)) (\<lambda>t. Inr (Some t)))"

definition as_opt_str :: "json option \<Rightarrow> str option res" where
  "as_opt_str j = (case j of None \<Rightarrow> Inr None | Some JNull \<Rightarrow> Inr None | Some (JStr s) \<Rightarrow> Inr (Some s) | _ \<Rightarrow> Inl TypeError)"

definition raw_id :: "codec \<Rightarrow> kmsg \<Rightarrow> str" where
  "raw_id c msg = km_topic msg @ '':'' @ jc_int_str c (km_partition msg) @ '':'' @ jc_int_str c (km_offset msg)"

definition parse_order_message :: "codec \<Rightarrow> kmsg \<Rightarrow> fill_event parsed res" where
  "parse_order_message c msg =
    (case jc_loads c (km_value msg) of
       None \<Rightarrow> Inl ValueError
     | Some (JObj body) \<Rightarrow>
        (case map_of body ''event_type'' of
           Some (JStr ty) \<Rightarrow>
            (if ty \<notin> {''ORDER_FILLED'', ''ORDER_PARTIAL'', ''ORDER_REJECTED''} \<or> validate_event body ty \<noteq> []
             then Inr (Invalid ''schema_validation_failed'')
             else
              res_bind (as_instrument (map_of body ''instrument_id'')) (\<lambda>(market, symbol).
              res_bind (opt_time c (map_of body ''fill_time'')) (\<lambda>fill_time.
              res_bind (as_opt_num (map_of body ''avg_fill_price'')) (\<lambda>price.
              res_bind (opt_time c (map_of body ''expires_at'')) (\<lambda>expires_at.
              res_bind (as_str (map_of body ''order_id'')) (\<lambda>order_id.
              res_bind (as_str (map_of body ''signal_id'')) (\<lambda>signal_id.
              res_bind (as_str (map_of body ''risk_decision_id'')) (\<lambda>risk_decision_id.
              res_bind (as_str_or [] (map_of body ''trace_id'')) (\<lambda>trace_id.
              res_bind (as_str (map_of body ''strategy_id'')) (\<lambda>strategy_id.
              res_bind (as_str (map_of body ''direction'')) (\<lambda>dir.
              res_bind (as_num (map_of body ''quantity_ordered'')) (\<lambda>qo.
              res_bind (as_num_or 0 (map_of body ''quantity_filled'')) (\<lambda>qf.
              res_bind (as_str_or [] (map_of body ''broker_order_id'')) (\<lambda>broker_order_id.
              res_bind (as_str (map_of body ''product_type'')) (\<lambda>product_type.
              res_bind (as_opt_num (map_of body ''stop_loss'')) (\<lambda>sl.
              res_bind (as_opt_num (map_of body ''take_profit'')) (\<lambda>tp.
              res_bind (as_opt_str (map_of body ''reject_reason'')) (\<lambda>reject_reason.
                Inr (Parsed \<lparr>fe_event_type = ty, fe_order_id = order_id, fe_signal_id = signal_id,
                  fe_risk_decision_id = risk_decision_id, fe_trace_id = trace_id, fe_strategy_id = strategy_id,
                  fe_market = market, fe_symbol = symbol, fe_direction = dir, fe_quantity_ordered = py_int qo,
                  fe_quantity_filled = py_int qf, fe_avg_fill_price = price, fe_broker_order_id = broker_order_id,
                  fe_product_type = product_type, fe_expires_at = expires_at, fe_stop_loss = sl, fe_take_profit = tp,
                  fe_fill_time = fill_time, fe_reject_reason = reject_reason, fe_raw_id = raw_id c msg\<rparr>)))))))))))))))))))
         | _ \<Rightarrow> Inr (Invalid ''schema_validation_failed''))
     | Some _ \<Rightarrow> Inl AttributeError)"

definition poll_fill :: "'w kconsumer \<Rightarrow> str \<Rightarrow> str \<Rightarrow> kmsg \<Rightarrow> 'w \<Rightarrow> fill_event option res \<times> 'w" where
  "poll_fill kc = poll_parsed parse_order_message ''malformed_order_event'' kc"

end
