(* ===== verification/RiskPipeline.thy ===== *)
theory RiskPipeline
  imports EntryBlock RiskContextBuild AutoTriggers MessagePath
begin

text \<open>
  The validation of one signal (\<open>RiskEngineService.validate_signal\<close> in
  \<open>services/risk_engine/service.py\<close>) and the accounting of one fill event (\<open>_handle_fill\<close>).

  All clock readings inside one call are those of the record \<open>readings\<close>; a random decision id is an
  argument.  The audit upload to S3 is the argument \<open>rk_audit\<close>, whose failure the code swallows.  The
  reasons are cut to their leading words.  Validation takes fuel through its scans and returns \<open>None\<close>
  when the pages outnumber it.
\<close>

section \<open>State\<close>

datatype decision_status = APPROVED | REJECTED

fun decision_status_value :: "decision_status \<Rightarrow> str" where
  "decision_status_value APPROVED = ''APPROVED''"
| "decision_status_value REJECTED = ''REJECTED''"

record risk_decision =
  rd_id :: str
  rd_signal_id :: str
  rd_status :: decision_status
  rd_reason :: str
  rd_results :: "validation_result list"
  rd_enriched :: bool

record 'w rk_config =
  rk_max_signal_age :: rat
  rk_ebv :: "'w ebv_config"
  rk_rv :: "'w rv_config"
  rk_rb :: "'w rb_config"
  rk_lm :: "'w limit_config"
  rk_fuel :: nat
  rk_liquidity :: threshold_config
  rk_spread :: threshold_config
  rk_registry :: "registry option"
  rk_margin :: "'w margin_config"
  rk_slippage :: "'w slippage_config"
  rk_dl :: "'w dl_config"
  rk_ks :: "'w ks_config"
  rk_audit :: "('w \<Rightarrow> risk_decision \<Rightarrow> 'w) option"

record rk_state =
  rk_monitor :: am_state
  rk_cache :: kc_state \<comment> \<open>the kill switch and its cache\<close>
  rk_ebv_state :: ebv_state
  rk_rv_state :: rv_state
  rk_margin_cache :: margin_cache
  rk_dl_state :: dl_state \<comment> \<open>with the shared limits\<close>

record readings =
  rg_now :: rat
  rg_mono :: rat
  rg_today :: str
  rg_stamp :: str

abbreviation rk_limits :: "rk_state \<Rightarrow> risk_limits" where
  "rk_limits s \<equiv> dl_limits (rk_dl_state s)"

section \<open>Gates\<close>

text \<open>A gate validates the signal and may change the engine's state and the world.\<close>

type_synonym 'w gate = "rk_state \<times> 'w \<Rightarrow> (validation_result \<times> rk_state \<times> 'w) option"

definition position_gate :: "'w rk_config \<Rightarrow> signal \<Rightarrow> 'w gate" where
  "position_gate cf sg sw =
    (case sw of (s, w) \<Rightarrow>
      (case position_validate (rk_lm cf) (rk_limits s) sg w of (r, w) \<Rightarrow> Some (r, s, w)))"

definition exposure_gate :: "'w rk_config \<Rightarrow> signal \<Rightarrow> 'w gate" where
  "exposure_gate cf sg sw =
    (case sw of (s, w) \<Rightarrow>
      (case exposure_validate (rk_fuel cf) (rk_lm cf) (rk_limits s) sg w of
         None \<Rightarrow> None
       | Some (r, w) \<Rightarrow> Some (r, s, w)))"

definition liquidity_gate :: "'w rk_config \<Rightarrow> risk_context \<Rightarrow> 'w gate" where
  "liquidity_gate cf c sw = Some (liquidity_validate (rk_liquidity cf) c, sw)"

definition spread_gate :: "'w rk_config \<Rightarrow> risk_context \<Rightarrow> 'w gate" where
  "spread_gate cf c sw = Some (spread_validate (rk_spread cf) c, sw)"

definition sector_gate :: "'w rk_config \<Rightarrow> risk_context \<Rightarrow> 'w gate" where
  "sector_gate cf c sw = Some (sector_validate (rk_limits (fst sw)) (rk_registry cf) c, sw)"

definition margin_gate :: "'w rk_config \<Rightarrow> readings \<Rightarrow> signal \<Rightarrow> 'w gate" where
  "margin_gate cf rg sg sw =
    (case sw of (s, w) \<Rightarrow>
      (case margin_validate (rk_margin cf) (rg_mono rg) (rg_mono rg) sg (rk_margin_cache s, w) of
         (r, c, w) \<Rightarrow> Some (r, s\<lparr>rk_margin_cache := c\<rparr>, w)))"

definition slippage_gate :: "'w rk_config \<Rightarrow> signal \<Rightarrow> 'w gate" where
  "slippage_gate cf sg sw =
    (case sw of (s, w) \<Rightarrow> (case slippage_validate (rk_slippage cf) sg w of (r, w) \<Rightarrow> Some (r, s, w)))"

definition loss_gate :: "'w rk_config \<Rightarrow> readings \<Rightarrow> signal \<Rightarrow> 'w gate" where
  "loss_gate cf rg sg sw =
    (case sw of (s, w) \<Rightarrow>
      (case loss_validate (rk_dl cf) (rg_today rg) (rg_mono rg) sg (rk_dl_state s, w) of
         None \<Rightarrow> None
       | Some (r, d, w) \<Rightarrow> Some (r, s\<lparr>rk_dl_state := d\<rparr>, w)))"

text \<open>
  The validator loops: run the gates in order, collect their results, stop at the first rejection,
  which is then the last result.
\<close>

fun run_gates :: "'w gate list \<Rightarrow> rk_state \<times> 'w \<Rightarrow> validation_result list
    \<Rightarrow> (validation_result list \<times> rk_state \<times> 'w) option" where
  "run_gates [] sw results = Some (results, sw)"
| "run_gates (g # gs) sw results =
    (case g sw of
       None \<Rightarrow> None
     | Some (r, sw) \<Rightarrow>
         if rr_approved r then run_gates gs sw (results @ [r]) else Some (results @ [r], sw))"

section \<open>validate_signal\<close>

definition log_decision :: "'w rk_config \<Rightarrow> risk_decision \<Rightarrow> 'w \<Rightarrow> 'w" where
  "log_decision cf d w = (case rk_audit cf of None \<Rightarrow> w | Some put \<Rightarrow> put w d)"

definition decide :: "str \<Rightarrow> signal \<Rightarrow> decision_status \<Rightarrow> str \<Rightarrow> validation_result list \<Rightarrow> risk_decision" where
  "decide did sg st reason results =
    \<lparr>rd_id = did, rd_signal_id = sg_signal_id sg, rd_status = st, rd_reason = reason,
     rd_results = results, rd_enriched = False\<rparr>"

definition conclude :: "'w rk_config \<Rightarrow> risk_decision \<Rightarrow> rk_state \<times> 'w \<Rightarrow> risk_decision \<times> rk_state \<times> 'w" where
  "conclude cf d sw = (d, fst sw, log_decision cf d (snd sw))"

definition context_errors_result :: "signal \<Rightarrow> validation_result" where
  "context_errors_result sg =
    (if sg_paper_trade sg then approve ''risk_context_builder'' ''PAPER_WARN_RISK_DATA_UNAVAILABLE''
     else reject ''risk_context_builder'' ''LIVE_RISK_DATA_UNAVAILABLE'')"

text \<open>The gates after the context has been built.\<close>

definition context_gates :: "'w rk_config \<Rightarrow> readings \<Rightarrow> signal \<Rightarrow> risk_context \<Rightarrow> 'w gate list" where
  "context_gates cf rg sg c =
    [position_gate cf sg, exposure_gate cf sg, liquidity_gate cf c, spread_gate cf c, sector_gate cf c,
     margin_gate cf rg sg, slippage_gate cf sg, loss_gate cf rg sg]"

definition all_approved :: "validation_result list \<Rightarrow> bool" where
  "all_approved rs = list_all rr_approved rs"

text \<open>A breached daily loss limit halts trading after its decision has been logged.\<close>

definition halt_on_loss :: "'w rk_config \<Rightarrow> readings \<Rightarrow> validation_result \<Rightarrow> rk_state \<times> 'w \<Rightarrow> rk_state \<times> 'w" where
  "halt_on_loss cf rg r sw =
    (case sw of (s, w) \<Rightarrow>
      if rr_validator_name r = DAILY_LOSS_VALIDATOR then
        (case activate (rk_ks cf) (''Auto-triggered: '' @ rr_reason r) ''loss_validator''
            (rg_stamp rg) (rg_stamp rg) (rg_stamp rg) (kc_switch (rk_cache s), w) of
           (k, w) \<Rightarrow> (s\<lparr>rk_cache := (rk_cache s)\<lparr>kc_switch := k\<rparr>\<rparr>, w))
      else (s, w))"

definition after_context :: "'w rk_config \<Rightarrow> readings \<Rightarrow> str \<Rightarrow> signal \<Rightarrow> risk_context
    \<Rightarrow> validation_result list \<Rightarrow> rk_state \<times> 'w \<Rightarrow> (risk_decision \<times> rk_state \<times> 'w) option" where
  "after_context cf rg did sg c results sw =
    (case run_gates (context_gates cf rg sg c) sw results of
       None \<Rightarrow> None
     | Some (results, sw) \<Rightarrow>
         if all_approved results then
           Some (conclude cf (decide did sg APPROVED ''All risk checks passed'' results) sw)
         else
           (case conclude cf (decide did sg REJECTED (rr_reason (last results)) results) sw of
              (d, sw) \<Rightarrow> Some (d, halt_on_loss cf rg (last results) sw)))"

text \<open>The steps of the pipeline, each with the results collected before it.\<close>

definition context_step :: "'w rk_config \<Rightarrow> readings \<Rightarrow> str \<Rightarrow> signal \<Rightarrow> validation_result list \<Rightarrow> rk_state \<times> 'w
    \<Rightarrow> (risk_decision \<times> rk_state \<times> 'w) option" where
  "context_step cf rg did sg results sw =
    (case sw of (s, w) \<Rightarrow>
      (case build_context (rk_rb cf) (rk_limits s) (rg_now rg) sg w of
         None \<Rightarrow> None
       | Some (c, w) \<Rightarrow>
           if rc_risk_data_errors c \<noteq> [] then
             (let ce = context_errors_result sg; results = results @ [ce] in
              if \<not> rr_approved ce then
                Some (conclude cf (decide did sg REJECTED (rr_reason ce) results) (s, w))
              else after_context cf rg did sg c results (s, w))
           else after_context cf rg did sg c results (s, w)))"

definition reconciliation_step :: "'w rk_config \<Rightarrow> readings \<Rightarrow> str \<Rightarrow> signal \<Rightarrow> validation_result list \<Rightarrow> rk_state \<times> 'w
    \<Rightarrow> (risk_decision \<times> rk_state \<times> 'w) option" where
  "reconciliation_step cf rg did sg results sw =
    (case sw of (s, w) \<Rightarrow>
      (case rv_validate (rk_rv cf) (rg_mono rg) (rg_mono rg) sg (rk_rv_state s, w) of (rc, v, w) \<Rightarrow>
        (let s = s\<lparr>rk_rv_state := v\<rparr>; results = results @ [rc] in
         if \<not> rr_approved rc then
           Some (conclude cf (decide did sg REJECTED (rr_reason rc) results) (s, w))
         else context_step cf rg did sg results (s, w))))"

definition entry_block_step :: "'w rk_config \<Rightarrow> readings \<Rightarrow> str \<Rightarrow> signal \<Rightarrow> validation_result list \<Rightarrow> rk_state \<times> 'w
    \<Rightarrow> (risk_decision \<times> rk_state \<times> 'w) option" where
  "entry_block_step cf rg did sg results sw =
    (case sw of (s, w) \<Rightarrow>
      (case ebv_validate (rk_ebv cf) (rg_mono rg) (rg_mono rg) sg (rk_ebv_state s, w) of (eb, e, w) \<Rightarrow>
        (let s = s\<lparr>rk_ebv_state := e\<rparr> in
         if \<not> rr_approved eb then
           Some (conclude cf (decide did sg REJECTED (rr_reason eb) [eb]) (s, w))
         else reconciliation_step cf rg did sg (results @ [eb]) (s, w))))"

definition validate_signal :: "'w rk_config \<Rightarrow> readings \<Rightarrow> str \<Rightarrow> signal \<Rightarrow> rk_state \<times> 'w
    \<Rightarrow> (risk_decision \<times> rk_state \<times> 'w) option" where
  "validate_signal cf rg did sg sw =
    (let s = (fst sw)\<lparr>rk_monitor := record_data_tick (rg_now rg) (sg_market sg) (rk_monitor (fst sw))\<rparr>;
         w = snd sw;
         age = age_validate (rk_max_signal_age cf) (rg_now rg) sg
     in if \<not> rr_approved age then
          Some (conclude cf (decide did sg REJECTED (rr_reason age) [age]) (s, w))
        else if kc_cached_active (rk_cache s) then
          Some (conclude cf (decide did sg REJECTED (''Kill switch is active: '' @ ks_reason (kc_switch (rk_cache s))) []) (s, w))
        else entry_block_step cf rg did sg [age] (s, w))"

section \<open>Fill events\<close>

definition daily_loss_breached :: "risk_limits \<Rightarrow> str \<Rightarrow> rat \<Rightarrow> bool" where
  "daily_loss_breached limits market pnl \<longleftrightarrow>
    pnl < 0 \<and> rl_portfolio_value limits * (get_limit limits ''max_daily_loss_pct'' (Some market) / 100) \<le> \<bar>pnl\<bar>"

text \<open>An exception of \<open>record_fill\<close> is logged and swallowed.\<close>

definition handle_fill :: "'w rk_config \<Rightarrow> readings \<Rightarrow> fill_event \<Rightarrow> rk_state \<times> 'w \<Rightarrow> (rk_state \<times> 'w) option" where
  "handle_fill cf rg e sw =
    (case fe_avg_fill_price e of
       None \<Rightarrow> Some sw
     | Some price \<Rightarrow>
        if fe_quantity_filled e = 0 then Some sw
        else
          (case sw of (s, w) \<Rightarrow>
            (case record_fill (rk_dl cf)
                \<lparr>fl_order_id = fe_order_id e, fl_symbol = fe_symbol e, fl_market = fe_market e,
                 fl_direction = fe_direction e, fl_quantity = of_int (fe_quantity_filled e), fl_price = price,
                 fl_fill_id = Some (fe_raw_id e)\<rparr>
                (rg_today rg) (rg_stamp rg) (rg_mono rg) (rg_mono rg) (rg_mono rg) (rk_dl_state s, w) of
               None \<Rightarrow> None
             | Some (Inl _, d, w) \<Rightarrow> Some (s\<lparr>rk_dl_state := d\<rparr>, w)
             | Some (Inr r, d, w) \<Rightarrow>
                (let s = s\<lparr>rk_dl_state := d,
                       rk_monitor := record_strategy_pnl (fe_strategy_id e) (fr_total_daily_pnl r) (rl_portfolio_value (dl_limits d))
                         (record_broker_ping (rg_now rg) (rk_monitor s))\<rparr>
                 in if daily_loss_breached (dl_limits d) (fe_market e) (fr_total_daily_pnl r) then
                      (case activate (rk_ks cf) ''Auto-triggered: daily loss'' ''daily_loss_fill_accounting''
                          (rg_stamp rg) (rg_stamp rg) (rg_stamp rg) (kc_switch (rk_cache s), w) of
                         (k, w) \<Rightarrow> Some (s\<lparr>rk_cache := (rk_cache s)\<lparr>kc_switch := k\<rparr>\<rparr>, w))
                    else Some (s, w)))))"

section \<open>Lemmas\<close>

lemma run_gates_Cons_iff:
  "run_gates (g # gs) sw results = Some (rs, sw') \<longleftrightarrow>
    (\<exists>r sw1. g sw = Some (r, sw1) \<and>
      (if rr_approved r then run_gates gs sw1 (results @ [r]) = Some (rs, sw') else rs = results @ [r] \<and> sw' = sw1))"
  by (auto split: option.splits prod.splits)

lemma all_approved_append [simp]: "all_approved (xs @ ys) \<longleftrightarrow> all_approved xs \<and> all_approved ys"
  by (simp add: all_approved_def)

lemma all_approved_Cons [simp]: "all_approved (x # xs) \<longleftrightarrow> rr_approved x \<and> all_approved xs"
  by (simp add: all_approved_def)

lemma all_approved_Nil [simp]: "all_approved []"
  by (simp add: all_approved_def)

text \<open>When all results are approvals every gate has run and approved, in some state.\<close>

lemma run_gates_approved:
  assumes "run_gates gs sw results = Some (rs, sw')" "all_approved rs" "g \<in> set gs"
  shows "\<exists>s w r sw2. g (s, w) = Some (r, sw2) \<and> rr_approved r"
  using assms
proof (induction gs arbitrary: sw results)
  case (Cons h gs)
  obtain r sw1 where h: "h sw = Some (r, sw1)"
    and rest: "if rr_approved r then run_gates gs sw1 (results @ [r]) = Some (rs, sw')
      else rs = results @ [r] \<and> sw' = sw1"
    using Cons.prems(1) unfolding run_gates_Cons_iff by blast
  have r: "rr_approved r"
    using rest Cons.prems(2) by (auto split: if_splits)
  show ?case
  proof (cases "g = h")
    case True
    then show ?thesis
      using h r by (metis surj_pair)
  next
    case False
    then show ?thesis
      using Cons.IH [of sw1 "results @ [r]"] rest r Cons.prems(2,3) by simp
  qed
qed simp

lemma run_gates_keeps_results:
  "run_gates gs sw results = Some (rs, sw') \<Longrightarrow> \<exists>more. rs = results @ more \<and> length more \<le> length gs"
proof (induction gs arbitrary: sw results)
  case (Cons g gs)
  then show ?case
    unfolding run_gates_Cons_iff by (fastforce split: if_splits)
qed simp

text \<open>Only the daily loss gate answers under its name.\<close>

lemma slippage_gate_approves: "slippage_gate cf sg (s, w) = Some (r, sw') \<Longrightarrow> rr_approved r \<longleftrightarrow> sg_paper_trade sg"
  by (auto simp: slippage_gate_def slippage_unavailable)

lemma after_context_status:
  assumes "after_context cf rg did sg c results sw = Some (d, sw')"
  shows "rd_status d = APPROVED \<longleftrightarrow> all_approved (rd_results d)"
    and "rd_status d = APPROVED \<Longrightarrow> \<exists>sw1. run_gates (context_gates cf rg sg c) sw results = Some (rd_results d, sw1)"
    and "rd_signal_id d = sg_signal_id sg" "rd_id d = did"
  using assms
  by (auto simp: after_context_def conclude_def decide_def split: option.splits prod.splits if_splits)

lemma after_context_paper:
  assumes "after_context cf rg did sg c results sw = Some (d, sw')" "rd_status d = APPROVED"
  shows "sg_paper_trade sg"
proof -
  obtain sw1 where "run_gates (context_gates cf rg sg c) sw results = Some (rd_results d, sw1)" "all_approved (rd_results d)"
    using after_context_status [OF assms(1)] assms(2) by blast
  moreover have "slippage_gate cf sg \<in> set (context_gates cf rg sg c)"
    by (simp add: context_gates_def)
  ultimately show ?thesis
    using run_gates_approved slippage_gate_approves by metis
qed

text \<open>An approval went through every step of the pipeline.\<close>

lemma concluded_rejected [simp]:
  "conclude cf (decide did sg REJECTED reason rs) sw = (d, sw') \<Longrightarrow> rd_status d = REJECTED"
  by (auto simp: conclude_def decide_def)

lemma validate_signal_approved:
  assumes "validate_signal cf rg did sg (s, w) = Some (d, sw')" "rd_status d = APPROVED"
  shows "rr_approved (age_validate (rk_max_signal_age cf) (rg_now rg) sg)"
    "\<not> kc_cached_active (rk_cache s)"
    "\<exists>s1. entry_block_step cf rg did sg [age_validate (rk_max_signal_age cf) (rg_now rg) sg] (s1, w) = Some (d, sw')
      \<and> rk_ebv_state s1 = rk_ebv_state s \<and> rk_rv_state s1 = rk_rv_state s \<and> rk_limits s1 = rk_limits s"
  using assms by (auto simp: validate_signal_def Let_def split: if_splits)

lemma entry_block_step_approved:
  assumes "entry_block_step cf rg did sg rs (s, w) = Some (d, sw')" "rd_status d = APPROVED"
  shows "\<exists>eb e w1 s1. ebv_validate (rk_ebv cf) (rg_mono rg) (rg_mono rg) sg (rk_ebv_state s, w) = (eb, e, w1) \<and> rr_approved eb \<and>
    reconciliation_step cf rg did sg (rs @ [eb]) (s1, w1) = Some (d, sw')
    \<and> rk_rv_state s1 = rk_rv_state s \<and> rk_limits s1 = rk_limits s"
  using assms by (auto simp: entry_block_step_def Let_def split: if_splits prod.splits)

lemma reconciliation_step_approved:
  assumes "reconciliation_step cf rg did sg rs (s, w) = Some (d, sw')" "rd_status d = APPROVED"
  shows "\<exists>rc v w1 s1. rv_validate (rk_rv cf) (rg_mono rg) (rg_mono rg) sg (rk_rv_state s, w) = (rc, v, w1) \<and> rr_approved rc \<and>
    context_step cf rg did sg (rs @ [rc]) (s1, w1) = Some (d, sw') \<and> rk_limits s1 = rk_limits s"
  using assms by (auto simp: reconciliation_step_def Let_def split: if_splits prod.splits)

lemma context_step_approved:
  assumes "context_step cf rg did sg rs (s, w) = Some (d, sw')" "rd_status d = APPROVED"
  shows "\<exists>c w1 rs1. build_context (rk_rb cf) (rk_limits s) (rg_now rg) sg w = Some (c, w1) \<and>
    (rc_risk_data_errors c = [] \<or> sg_paper_trade sg) \<and>
    after_context cf rg did sg c rs1 (s, w1) = Some (d, sw')"
  using assms
  by (auto simp: context_step_def Let_def context_errors_result_def split: if_splits prod.splits option.splits)

lemma context_step_decision:
  assumes "context_step cf rg did sg rs (s, w) = Some (d, sw')"
  shows "rd_signal_id d = sg_signal_id sg \<and> rd_id d = did"
  using assms
  by (auto simp: context_step_def Let_def conclude_def decide_def split: if_splits prod.splits option.splits
      dest: after_context_status(3,4))

lemma decision_identity:
  assumes "validate_signal cf rg did sg sw = Some (d, sw')"
  shows "rd_signal_id d = sg_signal_id sg \<and> rd_id d = did"
  using assms
  by (auto simp: validate_signal_def entry_block_step_def reconciliation_step_def Let_def conclude_def decide_def
      split: if_splits prod.splits dest: context_step_decision)

text \<open>The data an approval rests on.\<close>

lemma approval_steps:
  assumes "validate_signal cf rg did sg (s, w) = Some (d, sw')" "rd_status d = APPROVED"
  obtains eb e w1 rc v w2 c w3 rs s1 where
    "rr_approved (age_validate (rk_max_signal_age cf) (rg_now rg) sg)" "\<not> kc_cached_active (rk_cache s)"
    "ebv_validate (rk_ebv cf) (rg_mono rg) (rg_mono rg) sg (rk_ebv_state s, w) = (eb, e, w1)" "rr_approved eb"
    "rv_validate (rk_rv cf) (rg_mono rg) (rg_mono rg) sg (rk_rv_state s, w1) = (rc, v, w2)" "rr_approved rc"
    "build_context (rk_rb cf) (rk_limits s) (rg_now rg) sg w2 = Some (c, w3)"
    "rc_risk_data_errors c = [] \<or> sg_paper_trade sg"
    "after_context cf rg did sg c rs (s1, w3) = Some (d, sw')"
proof -
  note start = validate_signal_approved [OF assms]
  obtain s1 where s1: "entry_block_step cf rg did sg [age_validate (rk_max_signal_age cf) (rg_now rg) sg] (s1, w) = Some (d, sw')"
      "rk_ebv_state s1 = rk_ebv_state s" "rk_rv_state s1 = rk_rv_state s" "rk_limits s1 = rk_limits s"
    using start(3) by blast
  obtain eb e w1 s2 rs2 where eb: "ebv_validate (rk_ebv cf) (rg_mono rg) (rg_mono rg) sg (rk_ebv_state s, w) = (eb, e, w1)"
      "rr_approved eb" "reconciliation_step cf rg did sg rs2 (s2, w1) = Some (d, sw')"
      "rk_rv_state s2 = rk_rv_state s" "rk_limits s2 = rk_limits s"
    using entry_block_step_approved [OF s1(1) assms(2)] s1(2-4) by auto
  obtain rc v w2 s3 rs3 where rc: "rv_validate (rk_rv cf) (rg_mono rg) (rg_mono rg) sg (rk_rv_state s, w1) = (rc, v, w2)"
      "rr_approved rc" "context_step cf rg did sg rs3 (s3, w2) = Some (d, sw')" "rk_limits s3 = rk_limits s"
    using reconciliation_step_approved [OF eb(3) assms(2)] eb(4,5) by auto
  show ?thesis
    using context_step_approved [OF rc(3) assms(2)] start(1,2) eb(1,2) rc(1,2,4) that by auto
qed

section \<open>Totality\<close>

text \<open>\<open>n\<close> pages are enough for every paginated read of the pipeline, from every world.\<close>

definition pages_bounded :: "nat \<Rightarrow> 'w rk_config \<Rightarrow> bool" where
  "pages_bounded n cf \<longleftrightarrow>
    (\<forall>D w. lm_dynamo (rk_lm cf) = Some D \<longrightarrow> scan_ends n D (lm_positions_table (rk_lm cf)) POSITION_PREFIX w None) \<and>
    (\<forall>D w. rb_dynamo (rk_rb cf) = Some D \<longrightarrow> scan_ends n D (rb_positions_table (rk_rb cf)) POSITION_PREFIX w None) \<and>
    (\<forall>D w. dl_dynamo (rk_dl cf) = Some D \<longrightarrow> scan_ends n D (dl_positions_table (rk_dl cf)) POSITION_PREFIX w None) \<and>
    (\<forall>D w eqs. dl_dynamo (rk_dl cf) = Some D \<longrightarrow> query_ends n D (dl_orders_table (rk_dl cf)) ''DateIndex'' eqs w None) \<and>
    n \<le> rk_fuel cf \<and> n \<le> rb_fuel (rk_rb cf) \<and> n \<le> dl_fuel (rk_dl cf)"

lemma scan_all_not_None: "scan_ends n D tbl prefix w start \<Longrightarrow> n \<le> fuel \<Longrightarrow> scan_all fuel D tbl prefix w start c \<noteq> None"
  using scan_all_total [of n D tbl prefix w start fuel c] by auto

lemma query_all_not_None: "query_ends n D tbl ix eqs w start \<Longrightarrow> n \<le> fuel \<Longrightarrow> query_all fuel D tbl ix eqs w start c \<noteq> None"
  using query_all_total [of n D tbl ix eqs w start fuel c] by auto

lemma pages_bounded_reads:
  assumes "pages_bounded n cf"
  shows "lm_dynamo (rk_lm cf) = Some D \<Longrightarrow> scan_all (rk_fuel cf) D (lm_positions_table (rk_lm cf)) POSITION_PREFIX w None [] \<noteq> None"
    and "rb_dynamo (rk_rb cf) = Some D \<Longrightarrow> scan_all (rb_fuel (rk_rb cf)) D (rb_positions_table (rk_rb cf)) POSITION_PREFIX w None [] \<noteq> None"
    and "dl_dynamo (rk_dl cf) = Some D \<Longrightarrow> scan_all (dl_fuel (rk_dl cf)) D (dl_positions_table (rk_dl cf)) POSITION_PREFIX w None [] \<noteq> None"
    and "dl_dynamo (rk_dl cf) = Some D \<Longrightarrow> query_all (dl_fuel (rk_dl cf)) D (dl_orders_table (rk_dl cf)) ''DateIndex'' eqs w None [] \<noteq> None"
  using assms unfolding pages_bounded_def
  by (simp_all add: scan_all_not_None [of n] query_all_not_None [of n])

lemma exposure_gate_total:
  assumes "pages_bounded n cf"
  shows "exposure_gate cf sg sw \<noteq> None"
  by (auto simp del: not_None_eq simp: pages_bounded_reads(1) [OF assms] exposure_gate_def exposure_validate_def get_total_exposure_def split: prod.splits option.splits sum.splits)

lemma build_context_total:
  assumes "pages_bounded n cf"
  shows "build_context (rk_rb cf) limits now sg w \<noteq> None"
proof -
  have e: "fetch_total_exposure (rk_rb cf) w \<noteq> None" for w
    by (auto simp del: not_None_eq simp: pages_bounded_reads(2) [OF assms] fetch_total_exposure_def split: prod.splits option.splits sum.splits)
  show ?thesis
    by (auto simp del: not_None_eq simp: e build_context_def split: prod.splits option.splits)
qed

lemma daily_pnl_total:
  assumes "pages_bounded n cf"
  shows "get_unrealized_pnl (rk_dl cf) w \<noteq> None" "get_daily_pnl (rk_dl cf) today t dw \<noteq> None"
proof -
  show u: "get_unrealized_pnl (rk_dl cf) w \<noteq> None" for w
    by (auto simp del: not_None_eq simp: pages_bounded_reads(3) [OF assms] get_unrealized_pnl_def split: prod.splits option.splits sum.splits)
  have f: "fetch_realized_pnl (rk_dl cf) today w \<noteq> None" for w
    by (auto simp del: not_None_eq simp: pages_bounded_reads(4) [OF assms] fetch_realized_pnl_def split: prod.splits option.splits sum.splits)
  have "get_realized_pnl (rk_dl cf) today t dw \<noteq> None"
    by (auto simp del: not_None_eq simp: f get_realized_pnl_def split: prod.splits option.splits sum.splits)
  then show "get_daily_pnl (rk_dl cf) today t dw \<noteq> None"
    by (auto simp del: not_None_eq simp: u get_daily_pnl_def split: prod.splits option.splits sum.splits)
qed

lemma loss_gate_total:
  assumes "pages_bounded n cf"
  shows "loss_gate cf rg sg sw \<noteq> None"
  by (auto simp del: not_None_eq simp: daily_pnl_total(2) [OF assms] loss_gate_def loss_validate_def split: prod.splits option.splits sum.splits)

lemma run_gates_total: "\<forall>g \<in> set gs. \<forall>sw. g sw \<noteq> None \<Longrightarrow> run_gates gs sw results \<noteq> None"
  by (induction gs arbitrary: sw results) (auto split: option.split prod.split)

lemma context_gates_total:
  assumes "pages_bounded n cf" "g \<in> set (context_gates cf rg sg c)"
  shows "g sw \<noteq> None"
  using assms(2) exposure_gate_total [OF assms(1), of sg sw] loss_gate_total [OF assms(1), of rg sg sw]
  by (auto simp: context_gates_def position_gate_def liquidity_gate_def spread_gate_def sector_gate_def
      margin_gate_def slippage_gate_def split: prod.splits)

lemma after_context_total:
  assumes "pages_bounded n cf"
  shows "after_context cf rg did sg c results sw \<noteq> None"
proof -
  have r: "run_gates (context_gates cf rg sg c) sw results \<noteq> None"
    using context_gates_total [OF assms] by (intro run_gates_total) blast
  show ?thesis
    by (auto simp del: not_None_eq simp: r after_context_def split: option.splits prod.splits)
qed

lemma context_step_total:
  assumes "pages_bounded n cf"
  shows "context_step cf rg did sg results sw \<noteq> None"
  by (auto simp del: not_None_eq simp: build_context_total [OF assms] after_context_total [OF assms] context_step_def Let_def split: option.splits prod.splits)

section \<open>The daily loss halt\<close>

lemma activated: "activate cf r a t1 t2 t3 (k, w) = (k', w') \<Longrightarrow> ks_active k'"
  by (metis activate_activates fst_conv)

text \<open>No gate touches the kill switch or its cache.\<close>

definition keeps_cache :: "'w gate \<Rightarrow> bool" where
  "keeps_cache g \<longleftrightarrow> (\<forall>s w r s' w'. g (s, w) = Some (r, s', w') \<longrightarrow> rk_cache s' = rk_cache s)"

lemma context_gates_keep_cache: "\<forall>g \<in> set (context_gates cf rg sg c). keeps_cache g"
  by (auto simp: keeps_cache_def context_gates_def position_gate_def exposure_gate_def liquidity_gate_def spread_gate_def
      sector_gate_def margin_gate_def slippage_gate_def loss_gate_def split: option.splits prod.splits)

lemma run_gates_keep_cache:
  "\<forall>g \<in> set gs. keeps_cache g \<Longrightarrow> run_gates gs (s, w) results = Some (rs, s', w') \<Longrightarrow> rk_cache s' = rk_cache s"
proof (induction gs arbitrary: s w results)
  case (Cons g gs)
  obtain r s1 w1 where g: "g (s, w) = Some (r, s1, w1)"
    and rest: "if rr_approved r then run_gates gs (s1, w1) (results @ [r]) = Some (rs, s', w')
      else rs = results @ [r] \<and> (s', w') = (s1, w1)"
    using Cons.prems(2) unfolding run_gates_Cons_iff by auto
  have "rk_cache s1 = rk_cache s"
    using Cons.prems(1) g unfolding keeps_cache_def by (metis list.set_intros(1))
  then show ?case
    using rest Cons.IH [of s1 w1 "results @ [r]"] Cons.prems(1) by (auto split: if_splits)
qed simp

lemma loss_validate_named: "loss_validate cf today t sg dw = Some (r, x) \<Longrightarrow> rr_validator_name r = DAILY_LOSS_VALIDATOR"
  by (auto simp: loss_validate_def loss_checks_def Let_def split: option.splits sum.splits if_splits)

section \<open>Properties\<close>

text \<open>
  C17 No live signal is ever approved: whatever the configuration, the limits and the data, an approved
  signal is a paper signal, because the slippage gate needs a bid and an ask that the signal does not
  carry.
\<close>

theorem only_paper_signals_approved:
  assumes "validate_signal cf rg did sg sw = Some (d, sw')" "rd_status d = APPROVED"
  shows "sg_paper_trade sg"
proof -
  obtain s w where sw: "sw = (s, w)" by (cases sw)
  show ?thesis
    by (rule approval_steps [OF assms(1) [unfolded sw] assms(2)]) (rule after_context_paper [OF _ assms(2)])
qed

text \<open>
  Validation returns: with fuel for the pages of its scans, \<open>validate_signal\<close> gives a decision for
  the signal it was asked about, under the id it was given, whatever the store answers or raises.
\<close>

theorem validate_signal_total:
  assumes "pages_bounded n cf"
  shows "\<exists>d sw'. validate_signal cf rg did sg sw = Some (d, sw') \<and> rd_signal_id d = sg_signal_id sg \<and> rd_id d = did"
proof -
  have r: "reconciliation_step cf rg did sg results sw \<noteq> None" for results sw
    by (auto simp del: not_None_eq simp: context_step_total [OF assms] reconciliation_step_def Let_def split: prod.splits)
  have e: "entry_block_step cf rg did sg results sw \<noteq> None" for results sw
    by (auto simp del: not_None_eq simp: r entry_block_step_def Let_def split: prod.splits)
  have "validate_signal cf rg did sg sw \<noteq> None"
    by (auto simp del: not_None_eq simp: e validate_signal_def Let_def)
  then obtain d sw' where "validate_signal cf rg did sg sw = Some (d, sw')"
    by auto
  then show ?thesis
    using decision_identity by blast
qed

text \<open>
  A halted engine decides without the store: while the cached kill switch is active every signal is
  rejected, and apart from the audit record nothing is read or written.
\<close>

theorem halted_engine_rejects:
  assumes "kc_cached_active (rk_cache s)"
  shows "\<exists>d s'. validate_signal cf rg did sg (s, w) = Some (d, s', log_decision cf d w) \<and> rd_status d = REJECTED
    \<and> rk_cache s' = rk_cache s \<and> rk_dl_state s' = rk_dl_state s"
  using assms by (simp add: validate_signal_def conclude_def decide_def Let_def)

text \<open>
  A breached loss limit halts, but only at the next poll: the rejection activates the kill switch,
  while the cache that later validations consult keeps its old value until \<open>poll_round\<close> reads the
  persisted row.
\<close>

theorem loss_rejection_halts_at_poll:
  assumes run: "after_context cf rg did sg c results (s, w) = Some (d, s', w')"
    and rej: "rd_results d \<noteq> []" "\<not> rr_approved (last (rd_results d))"
      "rr_validator_name (last (rd_results d)) = DAILY_LOSS_VALIDATOR"
  shows "rd_status d = REJECTED \<and> ks_active (kc_switch (rk_cache s')) \<and>
    kc_cached_active (rk_cache s') = kc_cached_active (rk_cache s)"
proof -
  obtain rs s1 w1 where r: "run_gates (context_gates cf rg sg c) (s, w) results = Some (rs, s1, w1)"
    using run by (auto simp: after_context_def split: option.splits)
  have rs: "rs = rd_results d"
    using run r by (auto simp: after_context_def conclude_def decide_def split: if_splits)
  have "rk_cache s1 = rk_cache s"
    by (rule run_gates_keep_cache [OF context_gates_keep_cache r])
  moreover have "\<not> all_approved rs"
    using rej(1,2) by (auto simp: rs all_approved_def list_all_iff)
  ultimately show ?thesis
    using run r rej(3) rs
    by (auto simp: after_context_def conclude_def decide_def halt_on_loss_def split: prod.splits
        dest: activated)
qed

section \<open>A concrete engine\<close>

text \<open>An engine of the paper profile without a store; the engine state at its start.\<close>

definition demo_engine :: "mem rk_config" where
  "demo_engine =
    \<lparr>rk_max_signal_age = 5, rk_ebv = ebv_init mem_dynamo ''risk'' ''paper'' None 5 (\<lambda>_. []),
     rk_rv = demo_rv, rk_rb = demo_rb\<lparr>rb_dynamo := None\<rparr>, rk_lm = demo_limits\<lparr>lm_dynamo := None\<rparr>, rk_fuel = 1,
     rk_liquidity = \<lparr>th_max = 1, th_overrides = []\<rparr>, rk_spread = \<lparr>th_max = 50, th_overrides = []\<rparr>,
     rk_registry = None, rk_margin = demo_margin\<lparr>mg_dynamo := None\<rparr>,
     rk_slippage = \<lparr>sl_dynamo = None, sl_table = ''prices'', sl_max_spread_pct = 1/5, sl_max_adv_pct = 1/2,
       sl_max_total_cost_pct = 3/10, sl_warn_only = False\<rparr>,
     rk_dl = demo_dl, rk_ks = demo_ks mem_dynamo, rk_audit = None\<rparr>"

definition demo_rk_state :: rk_state where
  "demo_rk_state =
    \<lparr>rk_monitor = new_monitor,
     rk_cache = \<lparr>kc_switch = new_kill_switch, kc_cached_active = False, kc_callbacks = 0\<rparr>,
     rk_ebv_state = new_ebv, rk_rv_state = new_rv, rk_margin_cache = Map.empty, rk_dl_state = new_dl default_limits\<rparr>"

definition demo_readings :: readings where
  "demo_readings = \<lparr>rg_now = 101, rg_mono = 500, rg_today = ''d'', rg_stamp = ''t''\<rparr>"

lemma demo_pages: "pages_bounded 1 demo_engine"
  by (simp add: pages_bounded_def demo_engine_def demo_limits_def demo_rb_def demo_dl_def mem_simps)

lemma demo_profile: "py_lower ''paper'' = ''paper''"
  by code_simp

lemma demo_approves:
  "\<exists>d sw'. validate_signal demo_engine demo_readings ''d1'' (demo_signal True) (demo_rk_state, []) = Some (d, sw') \<and> rd_status d = APPROVED"
proof -
  have "\<exists>r x. loss_validate demo_dl ''d'' 500 (demo_signal True) (new_dl default_limits, []) = Some (r, x) \<and> rr_approved r"
    by (simp add: loss_validate_def get_daily_pnl_def get_realized_pnl_def fetch_realized_pnl_def get_unrealized_pnl_def
        demo_dl_def mem_simps new_dl_def loss_checks_def Let_def default_limits_def)
  then obtain r d1 w1 where l: "loss_validate demo_dl ''d'' 500 (demo_signal True) (new_dl default_limits, []) = Some (r, d1, w1)" "rr_approved r"
    by auto
  have c: "\<exists>c. build_context (demo_rb\<lparr>rb_dynamo := None\<rparr>) default_limits 101 (demo_signal True) [] = Some (c, []) \<and>
      rc_signal c = demo_signal True \<and> rc_adv_20d c = None \<and> rc_live_spread_bps c = None"
    by (simp add: build_context_def fetch_position_state_def fetch_pending_quantity_def fetch_adv_def
        fetch_live_spread_bps_def fetch_portfolio_nav_def fetch_analytics_snapshot_def fetch_total_exposure_def)
  then obtain c where c: "build_context (demo_rb\<lparr>rb_dynamo := None\<rparr>) default_limits 101 (demo_signal True) [] = Some (c, [])"
      "rc_signal c = demo_signal True" "rc_adv_20d c = None" "rc_live_spread_bps c = None" by blast
  have paper: "sg_paper_trade (demo_signal True)" "\<not> is_closeout (demo_signal True)" "sg_generated_at (demo_signal True) = 100"
    by (simp_all add: demo_signal_def is_closeout_def)
  have gates: "\<exists>rs sw. run_gates (context_gates demo_engine demo_readings (demo_signal True) c) (s, []) results = Some (rs, sw) \<and> all_approved rs"
    if "all_approved results" "rk_dl_state s = new_dl default_limits" "rk_margin_cache s = Map.empty" for s results
    using that l c(2-4) paper(1)
    by (auto simp: context_gates_def position_gate_def exposure_gate_def liquidity_gate_def spread_gate_def sector_gate_def
        margin_gate_def slippage_gate_def loss_gate_def demo_engine_def demo_readings_def slippage_unavailable
        exposure_validate_def get_total_exposure_def position_validate_def get_confirmed_position_def get_pending_quantity_def
        liquidity_validate_def spread_validate_def sector_validate_def get_sector_def Let_def
        margin_validate_def get_margin_snapshot_def fetch_margin_def)
  have "\<exists>d sw'. after_context demo_engine demo_readings ''d1'' (demo_signal True) c results (s, []) = Some (d, sw') \<and> rd_status d = APPROVED"
    if "all_approved results" "rk_dl_state s = new_dl default_limits" "rk_margin_cache s = Map.empty" for s results
    using gates [OF that] by (auto simp: after_context_def conclude_def decide_def)
  then show ?thesis
    using c(1) paper
    by (simp add: validate_signal_def entry_block_step_def reconciliation_step_def context_step_def demo_engine_def
        demo_rk_state_def demo_readings_def age_validate_def max_age_seconds_def ABSOLUTE_MAX_AGE_SECONDS_def Let_def
        ebv_validate_def ebv_init_def is_paper_signal_def demo_profile rv_validate_def context_errors_result_def new_dl_def)
qed

theorem only_paper_signals_approved_witness:
  "\<exists>d sw'. validate_signal demo_engine demo_readings ''d1'' (demo_signal True) (demo_rk_state, []) = Some (d, sw') \<and>
     rd_status d = APPROVED \<and> sg_paper_trade (demo_signal True)"
  using demo_approves only_paper_signals_approved by blast

theorem validate_signal_total_witness:
  "\<exists>d sw'. validate_signal demo_engine demo_readings ''d1'' (demo_signal False) (demo_rk_state, []) = Some (d, sw')"
  using validate_signal_total [OF demo_pages, of demo_readings "''d1''" "demo_signal False" "(demo_rk_state, [])"] by blast

theorem halted_engine_rejects_witness:
  "\<exists>d s' w'. validate_signal demo_engine demo_readings ''d1'' (demo_signal True)
      (demo_rk_state\<lparr>rk_cache := (rk_cache demo_rk_state)\<lparr>kc_cached_active := True\<rparr>\<rparr>, []) = Some (d, s', w') \<and> rd_status d = REJECTED"
  using halted_engine_rejects [of "demo_rk_state\<lparr>rk_cache := (rk_cache demo_rk_state)\<lparr>kc_cached_active := True\<rparr>\<rparr>"
      demo_engine demo_readings "''d1''" "demo_signal True" "[]"] by auto

definition demo_loss_rows :: mem where
  "demo_loss_rows = [((''risk'', pnl_day_key ''d''), [''realized_pnl'' \<mapsto> N (- 30000)])]"

theorem loss_rejection_halts_at_poll_witness:
  "\<exists>c d s' w'. after_context demo_engine demo_readings ''d1'' (demo_signal True) c [] (demo_rk_state, demo_loss_rows) = Some (d, s', w') \<and>
     rd_status d = REJECTED \<and> ks_active (kc_switch (rk_cache s')) \<and> \<not> kc_cached_active (rk_cache s')"
proof -
  obtain c w1 where c: "build_context (demo_rb\<lparr>rb_dynamo := None\<rparr>) default_limits 101 (demo_signal True) [] = Some (c, w1)"
      "rc_signal c = demo_signal True" "rc_adv_20d c = None" "rc_live_spread_bps c = None"
    by (simp add: build_context_def fetch_position_state_def fetch_pending_quantity_def fetch_adv_def
        fetch_live_spread_bps_def fetch_portfolio_nav_def fetch_analytics_snapshot_def fetch_total_exposure_def)
  have "\<exists>r x. loss_validate demo_dl ''d'' 500 (demo_signal True) (new_dl default_limits, demo_loss_rows) = Some (r, x) \<and> \<not> rr_approved r"
    by (simp add: loss_validate_def get_daily_pnl_def get_realized_pnl_def fetch_realized_pnl_def get_unrealized_pnl_def
        demo_dl_def mem_simps new_dl_def demo_loss_rows_def row_realized_def item_float_def num_of_def)
      (simp add: loss_checks_def default_limits_def get_limit_def limit_attr_def override_of_def)
  then obtain r d1 w2 where l: "loss_validate demo_dl ''d'' 500 (demo_signal True) (new_dl default_limits, demo_loss_rows) = Some (r, d1, w2)"
      "\<not> rr_approved r" "rr_validator_name r = DAILY_LOSS_VALIDATOR"
    using loss_validate_named by (metis prod.collapse)
  have paper: "sg_paper_trade (demo_signal True)"
    by (simp add: demo_signal_def)
  have "\<exists>rs sw. run_gates (context_gates demo_engine demo_readings (demo_signal True) c) (demo_rk_state, demo_loss_rows) [] = Some (rs, sw)
      \<and> \<not> all_approved rs \<and> rs \<noteq> [] \<and> last rs = r"
    using l c(2-4) paper
    by (auto simp: context_gates_def position_gate_def exposure_gate_def liquidity_gate_def spread_gate_def sector_gate_def
        margin_gate_def slippage_gate_def loss_gate_def demo_engine_def demo_readings_def slippage_unavailable demo_rk_state_def
        exposure_validate_def get_total_exposure_def position_validate_def get_confirmed_position_def get_pending_quantity_def
        liquidity_validate_def spread_validate_def sector_validate_def get_sector_def Let_def
        margin_validate_def get_margin_snapshot_def fetch_margin_def)
  then obtain rs sw where g: "run_gates (context_gates demo_engine demo_readings (demo_signal True) c) (demo_rk_state, demo_loss_rows) [] = Some (rs, sw)"
      "\<not> all_approved rs" "rs \<noteq> []" "last rs = r"
    by blast
  have "\<exists>d sw'. after_context demo_engine demo_readings ''d1'' (demo_signal True) c [] (demo_rk_state, demo_loss_rows) = Some (d, sw')
      \<and> rd_results d = rs"
    by (cases sw) (simp add: after_context_def g conclude_def decide_def split: prod.splits)
  then obtain d s' w' where run: "after_context demo_engine demo_readings ''d1'' (demo_signal True) c [] (demo_rk_state, demo_loss_rows) = Some (d, s', w')"
      and d: "rd_results d \<noteq> []" "last (rd_results d) = r"
    using g(3,4) by (metis prod.collapse)
  show ?thesis
    using run loss_rejection_halts_at_poll [OF run d(1)] l(2,3) d(2) by (auto simp: demo_rk_state_def)
qed

text \<open>
  C12 An approval respects the halts: it was given with the cached kill switch inactive, to a signal
  inside the age window, and, for a signal the entry block applies to under a profile that fails
  closed, after a refresh that succeeded and showed no block.
\<close>

theorem approval_respects_halts:
  assumes "validate_signal cf rg did sg (s, w) = Some (d, sw')" "rd_status d = APPROVED"
  shows "\<not> kc_cached_active (rk_cache s) \<and>
    sg_generated_at sg - 2 \<le> rg_now rg \<and>
    (rg_now rg < sg_generated_at sg \<or> rg_now rg \<le> sg_generated_at sg + min (rk_max_signal_age cf) 30) \<and>
    (ebv_exempt (rk_ebv cf) sg \<or> \<not> ev_fail_closed (rk_ebv cf) \<or>
      (let e = fst (ebv_refresh (rk_ebv cf) (rg_mono rg) (rg_mono rg) (rk_ebv_state s, w)) in
       ev_read_ok e \<and> \<not> ev_blocked e))"
proof -
  obtain eb e w1 where age: "rr_approved (age_validate (rk_max_signal_age cf) (rg_now rg) sg)"
    and ks: "\<not> kc_cached_active (rk_cache s)"
    and eb: "ebv_validate (rk_ebv cf) (rg_mono rg) (rg_mono rg) sg (rk_ebv_state s, w) = (eb, e, w1)" "rr_approved eb"
    by (rule approval_steps [OF assms]) blast
  obtain e' w' where r: "ebv_refresh (rk_ebv cf) (rg_mono rg) (rg_mono rg) (rk_ebv_state s, w) = (e', w')" by force
  have "ebv_exempt (rk_ebv cf) sg \<or> (if ev_read_ok e' then \<not> ev_blocked e' else \<not> ev_fail_closed (rk_ebv cf))"
    using ebv_validate_live [OF _ r] eb by (metis fst_conv)
  then show ?thesis
    using age ks by (auto simp: age_validate_iff r max_age_seconds_def ABSOLUTE_MAX_AGE_SECONDS_def split: if_splits)
qed

theorem approval_respects_halts_witness:
  "\<exists>d sw'. validate_signal demo_engine demo_readings ''d1'' (demo_signal True) (demo_rk_state, []) = Some (d, sw') \<and>
     rd_status d = APPROVED \<and> \<not> kc_cached_active (rk_cache demo_rk_state)"
proof -
  obtain d sw' where run: "validate_signal demo_engine demo_readings ''d1'' (demo_signal True) (demo_rk_state, []) = Some (d, sw')"
      "rd_status d = APPROVED"
    using demo_approves by blast
  show ?thesis
    using run approval_respects_halts [OF run] by blast
qed

end
