(* ===== verification/RiskFrame.thy ===== *)
theory RiskFrame
  imports RiskPipeline
begin

text \<open>
  What the validation of a signal writes.  Every read of the pipeline changes the tables only as the
  other clients do (the relation \<open>R\<close> of \<open>dynamo_ok R D\<close>); the only write is the kill-switch row.
\<close>

section \<open>One client\<close>

definition on_client :: "'w dynamo \<Rightarrow> 'w dynamo option \<Rightarrow> bool" where
  "on_client D oc \<longleftrightarrow> (\<forall>E. oc = Some E \<longrightarrow> E = D)"

lemma on_client_Some [simp]: "on_client D (Some E) \<longleftrightarrow> E = D"
  by (auto simp: on_client_def)

lemma on_client_None [simp]: "on_client D None"
  by (simp add: on_client_def)

text \<open>An effect outside DynamoDB: it leaves the tables alone.\<close>

definition sink :: "'w dynamo \<Rightarrow> ('w \<Rightarrow> 'w) option \<Rightarrow> bool" where
  "sink D f \<longleftrightarrow> (\<forall>g w. f = Some g \<longrightarrow> dy_tables D (g w) = dy_tables D w)"

text \<open>All parts of the engine use the client \<open>D\<close>; metrics, audit and notifications are no tables.\<close>

definition engine_on :: "'w dynamo \<Rightarrow> 'w rk_config \<Rightarrow> bool" where
  "engine_on D cf \<longleftrightarrow>
    ev_dynamo (rk_ebv cf) = D \<and> rv_dynamo (rk_rv cf) = D \<and> sink D (rv_metric (rk_rv cf)) \<and>
    on_client D (rb_dynamo (rk_rb cf)) \<and> on_client D (lm_dynamo (rk_lm cf)) \<and>
    on_client D (mg_dynamo (rk_margin cf)) \<and> on_client D (dl_dynamo (rk_dl cf)) \<and>
    on_client D (ks_dynamo (rk_ks cf)) \<and>
    (\<forall>put w d. rk_audit cf = Some put \<longrightarrow> dy_tables D (put w d) = dy_tables D w) \<and>
    (\<forall>pub w tp m. ks_sns (rk_ks cf) = Some pub \<longrightarrow> dy_tables D (snd (pub w tp m)) = dy_tables D w)"

section \<open>Reads\<close>

lemma fetch_position_state_le:
  assumes "dynamo_ok R D" "on_client D (rb_dynamo cf)" "fetch_position_state cf s w = (v, es, w')"
  shows "R (dy_tables D w) (dy_tables D w')"
  using assms dynamo_ok_refl [OF assms(1)]
  by (auto simp: fetch_position_state_def intro: dynamo_ok_get split: option.splits prod.splits sum.splits)

lemma query_le:
  "dynamo_ok R D \<Longrightarrow> dy_query D w tbl ix eqs s = (r, w') \<Longrightarrow> R (dy_tables D w) (dy_tables D w')"
  unfolding dynamo_ok_def by (elim conjE) (erule allE, erule allE, erule allE, erule allE, erule allE, erule allE, erule allE, erule mp)

lemma pending_floats_le:
  assumes ok: "dynamo_ok R D"
  shows "pending_floats cf D s sts w = (q, es, w') \<Longrightarrow> R (dy_tables D w) (dy_tables D w')"
proof (induction sts arbitrary: w q es w')
  case Nil
  then show ?case using dynamo_ok_refl [OF ok] by simp
next
  case (Cons st sts)
  obtain r w1 where r: "dy_query D w (rb_orders_table cf) ''status-index'' [(''order_status'', st), (''symbol'', s)] None = (r, w1)"
    by force
  obtain q1 es1 w2 where rest: "pending_floats cf D s sts w1 = (q1, es1, w2)"
    by (cases "pending_floats cf D s sts w1") auto
  have "w2 = w'"
    using Cons.prems r rest by (auto split: sum.splits prod.splits)
  then show ?case
    using query_le [OF ok r] Cons.IH [OF rest] dynamo_ok_trans [OF ok] by blast
qed

lemma fetch_pending_le:
  assumes "dynamo_ok R D" "on_client D (rb_dynamo cf)" "fetch_pending_quantity cf s w = (v, es, w')"
  shows "R (dy_tables D w) (dy_tables D w')"
  using assms dynamo_ok_refl [OF assms(1)]
  by (auto simp: fetch_pending_quantity_def simp del: pending_floats.simps intro: pending_floats_le [OF assms(1)] split: option.splits)

lemma fetch_adv_le:
  assumes "dynamo_ok R D" "on_client D (rb_dynamo cf)" "fetch_adv cf s w = (v, es, w')"
  shows "R (dy_tables D w) (dy_tables D w')"
  using assms dynamo_ok_refl [OF assms(1)]
  by (auto simp: fetch_adv_def intro: dynamo_ok_get split: option.splits prod.splits sum.splits)

lemma fetch_spread_le:
  assumes "dynamo_ok R D" "on_client D (rb_dynamo cf)" "fetch_live_spread_bps cf now mk s w = (v, es, w')"
  shows "R (dy_tables D w) (dy_tables D w')"
  using assms dynamo_ok_refl [OF assms(1)]
  by (auto simp: fetch_live_spread_bps_def intro: dynamo_ok_get split: option.splits prod.splits sum.splits)

lemma fetch_nav_le:
  assumes "dynamo_ok R D" "on_client D (rb_dynamo cf)" "fetch_portfolio_nav cf l w = (v, es, w')"
  shows "R (dy_tables D w) (dy_tables D w')"
  using assms dynamo_ok_refl [OF assms(1)]
  by (auto simp: fetch_portfolio_nav_def intro: dynamo_ok_get split: option.splits prod.splits sum.splits if_splits)

lemma fetch_analytics_le:
  assumes "dynamo_ok R D" "on_client D (rb_dynamo cf)" "fetch_analytics_snapshot cf w = (v, es, w')"
  shows "R (dy_tables D w) (dy_tables D w')"
  using assms dynamo_ok_refl [OF assms(1)]
  by (auto simp: fetch_analytics_snapshot_def intro: dynamo_ok_get split: option.splits prod.splits sum.splits)

lemma fetch_total_exposure_le:
  assumes "dynamo_ok R D" "on_client D (rb_dynamo cf)" "fetch_total_exposure cf w = Some (v, es, w')"
  shows "R (dy_tables D w) (dy_tables D w')"
  using assms dynamo_ok_refl [OF assms(1)]
  by (auto simp: fetch_total_exposure_def intro: scan_all_le split: option.splits prod.splits sum.splits)

lemma build_context_le:
  assumes ok: "dynamo_ok R D" and on: "on_client D (rb_dynamo cf)" and run: "build_context cf l now sg w = Some (c, w')"
  shows "R (dy_tables D w) (dy_tables D w')"
proof -
  obtain a1 e1 w1 where 1: "fetch_position_state cf (sg_symbol sg) w = (a1, e1, w1)" by (metis prod_cases3)
  obtain a2 e2 w2 where 2: "fetch_pending_quantity cf (sg_symbol sg) w1 = (a2, e2, w2)" by (metis prod_cases3)
  obtain a3 e3 w3 where 3: "fetch_adv cf (sg_symbol sg) w2 = (a3, e3, w3)" by (metis prod_cases3)
  obtain a4 e4 w4 where 4: "fetch_live_spread_bps cf now (sg_market sg) (sg_symbol sg) w3 = (a4, e4, w4)" by (metis prod_cases3)
  obtain a5 e5 w5 where 5: "fetch_portfolio_nav cf l w4 = (a5, e5, w5)" by (metis prod_cases3)
  obtain a6 e6 w6 where 6: "fetch_analytics_snapshot cf w5 = (a6, e6, w6)" by (metis prod_cases3)
  obtain a7 e7 where 7: "fetch_total_exposure cf w6 = Some (a7, e7, w')"
    using run by (auto simp: build_context_def 1 2 3 4 5 6 split: option.splits)
  show ?thesis
    using dynamo_ok_trans [OF ok] fetch_position_state_le [OF ok on 1] fetch_pending_le [OF ok on 2] fetch_adv_le [OF ok on 3]
      fetch_spread_le [OF ok on 4] fetch_nav_le [OF ok on 5] fetch_analytics_le [OF ok on 6] fetch_total_exposure_le [OF ok on 7]
    by blast
qed

lemma ebv_validate_le:
  assumes "dynamo_ok R D" "ev_dynamo cf = D" "ebv_validate cf t1 t2 sg (s, w) = (r, s', w')"
  shows "R (dy_tables D w) (dy_tables D w')"
  using assms dynamo_ok_refl [OF assms(1)]
  by (auto simp: ebv_validate_def ebv_refresh_def intro: dynamo_ok_get split: if_splits option.splits prod.splits sum.splits)

lemma rv_validate_le:
  assumes ok: "dynamo_ok R (rv_dynamo cf)" and sk: "sink (rv_dynamo cf) (rv_metric cf)"
    and run: "rv_validate cf t1 t2 sg (s, w) = (r, s', w')"
  shows "R (dy_tables (rv_dynamo cf) w) (dy_tables (rv_dynamo cf) w')"
proof -
  have metric: "dy_tables (rv_dynamo cf) (emit_read_failure_metric cf x) = dy_tables (rv_dynamo cf) x" for x
    using sk by (auto simp: emit_read_failure_metric_def sink_def split: option.splits)
  obtain s1 w1 where r: "rv_refresh cf t1 t2 (s, w) = (s1, w1)" by force
  have "R (dy_tables (rv_dynamo cf) w) (dy_tables (rv_dynamo cf) w1)"
    using r dynamo_ok_refl [OF ok]
    by (auto simp: rv_refresh_def metric split: if_splits option.splits prod.splits sum.splits dest: dynamo_ok_get [OF ok])
  then show ?thesis
    using run dynamo_ok_refl [OF ok] by (auto simp: rv_validate_def r split: if_splits)
qed

lemma pending_over_le:
  assumes ok: "dynamo_ok R D"
  shows "pending_over D tbl s sts acc w = (q, w') \<Longrightarrow> R (dy_tables D w) (dy_tables D w')"
proof (induction sts arbitrary: w acc)
  case Nil
  then show ?case using dynamo_ok_refl [OF ok] by simp
next
  case (Cons st sts)
  then show ?case
    using dynamo_ok_trans [OF ok]
    by (auto split: sum.splits prod.splits dest: query_le [OF ok])
qed

lemma position_gate_le:
  assumes ok: "dynamo_ok R D" and on: "on_client D (lm_dynamo (rk_lm cf))"
    and run: "position_gate cf sg (s, w) = Some (r, s', w')"
  shows "R (dy_tables D w) (dy_tables D w')"
proof -
  obtain c w1 where 1: "get_confirmed_position (rk_lm cf) (sg_symbol sg) w = (c, w1)" by force
  obtain p w2 where 2: "get_pending_quantity (rk_lm cf) (sg_symbol sg) w1 = (p, w2)" by force
  have "R (dy_tables D w) (dy_tables D w1)"
    using 1 on dynamo_ok_refl [OF ok]
    by (auto simp: get_confirmed_position_def intro: dynamo_ok_get [OF ok] split: option.splits prod.splits sum.splits)
  moreover have "R (dy_tables D w1) (dy_tables D w2)"
    using 2 on dynamo_ok_refl [OF ok]
    by (auto simp: get_pending_quantity_def intro: pending_over_le [OF ok] split: option.splits)
  moreover have "w' = w2"
    using run by (auto simp: position_gate_def position_validate_def 1 2 split: sum.splits)
  ultimately show ?thesis
    using dynamo_ok_trans [OF ok] by blast
qed

lemma exposure_gate_le:
  assumes "dynamo_ok R D" "on_client D (lm_dynamo (rk_lm cf))" "exposure_gate cf sg (s, w) = Some (r, s', w')"
  shows "R (dy_tables D w) (dy_tables D w')"
  using assms dynamo_ok_refl [OF assms(1)]
  by (auto simp: exposure_gate_def exposure_validate_def get_total_exposure_def intro: scan_all_le
      split: option.splits prod.splits sum.splits)

lemma fetch_margin_le:
  assumes "dynamo_ok R D" "on_client D (mg_dynamo cf)" "fetch_margin cf m t w = (r, w')"
  shows "R (dy_tables D w) (dy_tables D w')"
  using assms dynamo_ok_refl [OF assms(1)]
  by (auto simp: fetch_margin_def intro: dynamo_ok_get split: option.splits prod.splits sum.splits)

lemma margin_gate_le:
  assumes ok: "dynamo_ok R D" and on: "on_client D (mg_dynamo (rk_margin cf))"
    and run: "margin_gate cf rg sg (s, w) = Some (r, s', w')"
  shows "R (dy_tables D w) (dy_tables D w')"
proof -
  obtain g c w1 where 1: "get_margin_snapshot (rk_margin cf) (margin_market sg) (rg_mono rg) (rg_mono rg) (rk_margin_cache s, w) = (g, c, w1)"
    by (metis prod_cases3)
  have "R (dy_tables D w) (dy_tables D w1)"
    using 1 dynamo_ok_refl [OF ok]
    by (auto simp: get_margin_snapshot_def split: option.splits if_splits prod.splits sum.splits
        dest: fetch_margin_le [OF ok on])
  moreover have "w' = w1"
    using run by (auto simp: margin_gate_def margin_validate_def 1 split: sum.splits option.splits prod.splits if_splits)
  ultimately show ?thesis by simp
qed

lemma get_daily_pnl_le:
  assumes ok: "dynamo_ok R D" and on: "on_client D (dl_dynamo cf)" and run: "get_daily_pnl cf today t (s, w) = Some (r, s', w')"
  shows "R (dy_tables D w) (dy_tables D w')"
proof -
  have fetch: "fetch_realized_pnl cf today w = Some (x, w1) \<Longrightarrow> R (dy_tables D w) (dy_tables D w1)" for x w1
    using on dynamo_ok_refl [OF ok]
    by (auto simp: fetch_realized_pnl_def split: option.splits prod.splits sum.splits
        intro: dynamo_ok_trans [OF ok] dest: dynamo_ok_get [OF ok] query_all_le [OF ok])
  have unreal: "get_unrealized_pnl cf v = Some (x, w1) \<Longrightarrow> R (dy_tables D v) (dy_tables D w1)" for x v w1
    using on dynamo_ok_refl [OF ok]
    by (auto simp: get_unrealized_pnl_def split: option.splits prod.splits sum.splits dest: scan_all_le [OF ok])
  have real: "get_realized_pnl cf today t (s, w) = Some (x, s1, w1) \<Longrightarrow> R (dy_tables D w) (dy_tables D w1)" for x s1 w1
    using dynamo_ok_refl [OF ok]
    by (auto simp: get_realized_pnl_def split: option.splits prod.splits sum.splits if_splits dest: fetch)
  show ?thesis
    using run
    by (auto simp: get_daily_pnl_def split: option.splits prod.splits sum.splits dest!: real unreal
        intro: dynamo_ok_trans [OF ok])
qed

lemma loss_gate_le:
  assumes ok: "dynamo_ok R D" and on: "on_client D (dl_dynamo (rk_dl cf))" and run: "loss_gate cf rg sg (s, w) = Some (r, s', w')"
  shows "R (dy_tables D w) (dy_tables D w')"
  using run
  by (auto simp: loss_gate_def loss_validate_def split: option.splits prod.splits sum.splits dest: get_daily_pnl_le [OF ok on])

section \<open>The whole validation\<close>

text \<open>
  A relation on tables that the other clients keep and that a write of the kill-switch row keeps.
\<close>

definition tolerates :: "(tables \<Rightarrow> tables \<Rightarrow> bool) \<Rightarrow> (tables \<Rightarrow> tables \<Rightarrow> bool) \<Rightarrow> str \<Rightarrow> key \<Rightarrow> bool" where
  "tolerates Q R tbl k \<longleftrightarrow>
    reflp Q \<and> transp Q \<and> (\<forall>t t'. R t t' \<longrightarrow> Q t t') \<and> (\<forall>t i. Q t (tables_put t tbl k i))"

lemma toleratesD:
  assumes "tolerates Q R tbl k"
  shows "Q t t" "Q t u \<Longrightarrow> Q u v \<Longrightarrow> Q t v" "R t u \<Longrightarrow> Q t u" "Q t (tables_put t tbl k i)"
  using assms by (auto simp: tolerates_def reflp_def dest: transpD)

lemma put_tolerated:
  assumes ok: "dynamo_ok R D" and tol: "tolerates Q R tbl k" and run: "dy_put D w tbl k i c = (r, w')"
  shows "Q (dy_tables D w) (dy_tables D w')"
  by (rule commits_le [OF dynamo_ok_put [OF ok run], where Q = Q]) (use toleratesD [OF tol] in blast)+

lemma activate_le:
  assumes ok: "dynamo_ok R D" and tol: "tolerates Q R (ks_table kc) kill_switch_key"
    and on: "on_client D (ks_dynamo kc)"
    and sns: "\<forall>pub w tp m. ks_sns kc = Some pub \<longrightarrow> dy_tables D (snd (pub w tp m)) = dy_tables D w"
  shows "Q (dy_tables D w) (dy_tables D (snd (activate kc reason by t1 t2 t3 (s, w))))"
proof -
  have pub: "dy_tables D (publish_sns_event kc k ev now x) = dy_tables D x" for k ev now x
    using sns by (auto simp: publish_sns_event_def split: option.splits)
  have "Q (dy_tables D x) (dy_tables D (persist_state kc k now x))" for k now x
  proof (cases "ks_dynamo kc")
    case None
    then show ?thesis
      by (simp add: persist_state_def toleratesD(1) [OF tol])
  next
    case (Some E)
    then show ?thesis
      using on put_tolerated [OF ok tol] by (simp add: persist_state_def) (metis prod.collapse)
  qed
  then show ?thesis
    by (simp add: activate_def Let_def pub toleratesD(1) [OF tol])
qed

lemma context_gate_le:
  assumes ok: "dynamo_ok R D" and on: "engine_on D cf" and g: "g \<in> set (context_gates cf rg sg c)"
    and run: "g (s, w) = Some (r, s', w')"
  shows "R (dy_tables D w) (dy_tables D w')"
proof -
  have "on_client D (lm_dynamo (rk_lm cf))" "on_client D (mg_dynamo (rk_margin cf))" "on_client D (dl_dynamo (rk_dl cf))"
    using on by (simp_all add: engine_on_def)
  note le = position_gate_le [OF ok this(1)] exposure_gate_le [OF ok this(1)] margin_gate_le [OF ok this(2)] loss_gate_le [OF ok this(3)]
  have slip: "slippage_gate cf sg (s, w) = Some (r, s', w') \<Longrightarrow> w' = w"
    by (simp add: slippage_gate_def slippage_unavailable)
  have pure: "g (s, w) = Some (r, s', w') \<Longrightarrow> w' = w"
    if "g \<in> {liquidity_gate cf c, spread_gate cf c, sector_gate cf c}"
    using that by (auto simp: liquidity_gate_def spread_gate_def sector_gate_def)
  show ?thesis
    using g run le slip pure dynamo_ok_refl [OF ok] by (auto simp: context_gates_def)
qed

lemma run_gates_le:
  assumes ok: "dynamo_ok R D"
    and step: "\<And>g s w r s' w'. g \<in> set gs \<Longrightarrow> g (s, w) = Some (r, s', w') \<Longrightarrow> R (dy_tables D w) (dy_tables D w')"
    and run: "run_gates gs (s, w) rs = Some (rs', s', w')"
  shows "R (dy_tables D w) (dy_tables D w')"
  using step run
proof (induction gs arbitrary: s w rs)
  case Nil
  then show ?case using dynamo_ok_refl [OF ok] by simp
next
  case (Cons g gs)
  obtain r s1 w1 where g: "g (s, w) = Some (r, s1, w1)"
      and rest: "if rr_approved r then run_gates gs (s1, w1) (rs @ [r]) = Some (rs', s', w') else w' = w1"
    using Cons.prems(2) unfolding run_gates_Cons_iff by (auto split: if_splits)
  have le1: "R (dy_tables D w) (dy_tables D w1)"
    using Cons.prems(1) [of g s w r s1 w1] g by simp
  show ?case
  proof (cases "rr_approved r")
    case True
    have "R (dy_tables D w1) (dy_tables D w')"
    proof (rule Cons.IH)
      show "R (dy_tables D x) (dy_tables D x')" if "h \<in> set gs" "h (a, x) = Some (q, a', x')" for h a x q a' x'
        using that Cons.prems(1) [of h a x q a' x'] by simp
      show "run_gates gs (s1, w1) (rs @ [r]) = Some (rs', s', w')"
        using rest True by simp
    qed
    then show ?thesis
      using le1 dynamo_ok_trans [OF ok] by blast
  next
    case False
    then show ?thesis
      using rest le1 by simp
  qed
qed

lemma conclude_le:
  assumes "engine_on D cf" "conclude cf d sw = (d', s', w')"
  shows "dy_tables D w' = dy_tables D (snd sw)"
  using assms by (auto simp: conclude_def log_decision_def engine_on_def split: option.splits)

lemma after_context_le:
  assumes ok: "dynamo_ok R D" and on: "engine_on D cf" and tol: "tolerates Q R (ks_table (rk_ks cf)) kill_switch_key"
    and run: "after_context cf rg did sg c rs (s, w) = Some (d, s', w')"
  shows "Q (dy_tables D w) (dy_tables D w')"
proof -
  obtain rs1 s1 w1 where g: "run_gates (context_gates cf rg sg c) (s, w) rs = Some (rs1, s1, w1)"
    using run by (auto simp: after_context_def split: option.splits)
  have le1: "Q (dy_tables D w) (dy_tables D w1)"
    using run_gates_le [OF ok _ g] context_gate_le [OF ok on] toleratesD(3) [OF tol] by blast
  have cl: "dy_tables D (snd (snd (conclude cf x (s1, w1)))) = dy_tables D w1" for x
    using conclude_le [OF on] by (metis prod.collapse snd_conv)
  have hl: "Q (dy_tables D x) (dy_tables D (snd (halt_on_loss cf rg r (s1, x))))" for r x
    using activate_le [OF ok tol] on toleratesD(1) [OF tol]
    by (auto simp: halt_on_loss_def engine_on_def split: prod.splits) (metis snd_conv)
  have "w' = snd (snd (conclude cf d (s1, w1))) \<or> (\<exists>r x. w' = snd (halt_on_loss cf rg r (s1, snd (snd (conclude cf x (s1, w1))))))"
    using run g by (auto simp: after_context_def conclude_def split: if_splits) (metis snd_conv)+
  then have "Q (dy_tables D w1) (dy_tables D w')"
    using cl hl toleratesD(1) [OF tol] by metis
  then show ?thesis
    using le1 toleratesD(2) [OF tol] by blast
qed

lemma context_step_le:
  assumes ok: "dynamo_ok R D" and on: "engine_on D cf" and tol: "tolerates Q R (ks_table (rk_ks cf)) kill_switch_key"
    and run: "context_step cf rg did sg rs (s, w) = Some (d, s', w')"
  shows "Q (dy_tables D w) (dy_tables D w')"
proof -
  have rb: "on_client D (rb_dynamo (rk_rb cf))" using on by (simp add: engine_on_def)
  obtain c w1 where c: "build_context (rk_rb cf) (rk_limits s) (rg_now rg) sg w = Some (c, w1)"
    using run by (auto simp: context_step_def split: option.splits)
  have le1: "Q (dy_tables D w) (dy_tables D w1)"
    using build_context_le [OF ok rb c] toleratesD(3) [OF tol] by blast
  have "(\<exists>x. conclude cf x (s, w1) = (d, s', w')) \<or> (\<exists>rs. after_context cf rg did sg c rs (s, w1) = Some (d, s', w'))"
    using run c by (auto simp: context_step_def Let_def split: if_splits)
  then have "Q (dy_tables D w1) (dy_tables D w')"
    using conclude_le [OF on] after_context_le [OF ok on tol] toleratesD(1) [OF tol] by (metis snd_conv)
  then show ?thesis
    using le1 toleratesD(2) [OF tol] by blast
qed

lemma validate_signal_le:
  assumes ok: "dynamo_ok R D" and on: "engine_on D cf" and tol: "tolerates Q R (ks_table (rk_ks cf)) kill_switch_key"
    and run: "validate_signal cf rg did sg (s, w) = Some (d, s', w')"
  shows "Q (dy_tables D w) (dy_tables D w')"
proof -
  have recon: "Q (dy_tables D x) (dy_tables D w')"
    if run: "reconciliation_step cf rg did sg rs (a, x) = Some (d, s', w')" for a x rs
  proof -
    obtain rc v w1 where rv: "rv_validate (rk_rv cf) (rg_mono rg) (rg_mono rg) sg (rk_rv_state a, x) = (rc, v, w1)"
      by (metis prod_cases3)
    have "Q (dy_tables D x) (dy_tables D w1)"
      using rv_validate_le [OF _ _ rv] ok on toleratesD(3) [OF tol] by (auto simp: engine_on_def)
    moreover have "(\<exists>y z. conclude cf y (z, w1) = (d, s', w')) \<or> (\<exists>rs z. context_step cf rg did sg rs (z, w1) = Some (d, s', w'))"
      using run rv by (auto simp: reconciliation_step_def Let_def split: if_splits)
    then have "Q (dy_tables D w1) (dy_tables D w')"
      using conclude_le [OF on] context_step_le [OF ok on tol] toleratesD(1) [OF tol] by (metis snd_conv)
    ultimately show ?thesis
      using toleratesD(2) [OF tol] by blast
  qed
  have block: "Q (dy_tables D x) (dy_tables D w')"
    if run: "entry_block_step cf rg did sg rs (a, x) = Some (d, s', w')" for a x rs
  proof -
    obtain eb e w1 where ev: "ebv_validate (rk_ebv cf) (rg_mono rg) (rg_mono rg) sg (rk_ebv_state a, x) = (eb, e, w1)"
      by (metis prod_cases3)
    have "Q (dy_tables D x) (dy_tables D w1)"
      using ebv_validate_le [OF ok _ ev] on toleratesD(3) [OF tol] by (auto simp: engine_on_def)
    moreover have "(\<exists>y z. conclude cf y (z, w1) = (d, s', w')) \<or> (\<exists>rs z. reconciliation_step cf rg did sg rs (z, w1) = Some (d, s', w'))"
      using run ev by (auto simp: entry_block_step_def Let_def split: if_splits)
    then have "Q (dy_tables D w1) (dy_tables D w')"
      using conclude_le [OF on] recon toleratesD(1) [OF tol] by (metis snd_conv)
    ultimately show ?thesis
      using toleratesD(2) [OF tol] by blast
  qed
  have "(\<exists>y z. conclude cf y (z, w) = (d, s', w')) \<or> (\<exists>rs z. entry_block_step cf rg did sg rs (z, w) = Some (d, s', w'))"
    using run by (auto simp: validate_signal_def Let_def split: if_splits)
  then show ?thesis
    using conclude_le [OF on] block toleratesD(1) [OF tol] by (metis snd_conv)
qed

text \<open>
  The validation of a signal writes nothing but the kill-switch row: without other writers every
  other row of every table, positions, orders, limits and reservations included, is afterwards what it
  was before, whatever the decision.
\<close>

theorem validation_writes_only_kill_switch:
  assumes ok: "dynamo_ok (=) D" and on: "engine_on D cf"
    and run: "validate_signal cf rg did sg (s, w) = Some (d, s', w')"
  shows "(tbl, k) = (ks_table (rk_ks cf), kill_switch_key) \<or> dy_tables D w' tbl k = dy_tables D w tbl k"
proof -
  let ?Q = "\<lambda>t t'. \<forall>tbl k. (tbl, k) = (ks_table (rk_ks cf), kill_switch_key) \<or> t' tbl k = t tbl k"
  have "tolerates ?Q (=) (ks_table (rk_ks cf)) kill_switch_key"
    unfolding tolerates_def reflp_def transp_def tables_put_def
    by (intro conjI allI impI) (metis, metis, simp, auto)
  from validate_signal_le [OF ok on this run] show ?thesis
    by blast
qed

definition demo_engine_on :: "mem rk_config" where
  "demo_engine_on = demo_engine\<lparr>rk_rv := demo_rv\<lparr>rv_dynamo := mem_dynamo\<rparr>\<rparr>"

lemma demo_engine_on: "engine_on mem_dynamo demo_engine_on"
  by (auto simp: demo_engine_on_def engine_on_def demo_engine_def demo_dl_def demo_rb_def sink_def ebv_init_def demo_rv_def
      demo_ks_def Let_def)

theorem validation_writes_only_kill_switch_witness:
  "\<exists>d s' w'. validate_signal demo_engine_on demo_readings ''d1'' (demo_signal False) (demo_rk_state, demo_loss_rows) = Some (d, s', w') \<and>
    dy_tables mem_dynamo w' ''risk'' (pnl_day_key ''d'') = dy_tables mem_dynamo demo_loss_rows ''risk'' (pnl_day_key ''d'')"
proof -
  have "pages_bounded 1 demo_engine_on"
    using demo_pages by (simp add: pages_bounded_def demo_engine_on_def)
  then obtain d s' w' where run: "validate_signal demo_engine_on demo_readings ''d1'' (demo_signal False) (demo_rk_state, demo_loss_rows) = Some (d, s', w')"
    using validate_signal_total [of 1 demo_engine_on demo_readings "''d1''" "demo_signal False" "(demo_rk_state, demo_loss_rows)"] by auto
  have "pnl_day_key ''d'' \<noteq> kill_switch_key"
    by (simp add: pnl_day_key_def kill_switch_key_def)
  then show ?thesis
    using validation_writes_only_kill_switch [OF mem_dynamo_ok demo_engine_on run, of "''risk''" "pnl_day_key ''d''"] run by auto
qed

end
