(* ===== verification/MessageSafety.thy ===== *)
theory MessageSafety
  imports MessagePath
begin

text \<open>
  Round trips of the events between the services.  The contract of a publisher and the consumer of
  its topic is the locale \<open>event_channel\<close>; it is interpreted for the pending, the enriched and the
  approved signals and for the fill events.
\<close>

section \<open>The contract of a channel\<close>

locale event_channel =
  fixes c :: codec
    and encode :: "'a \<Rightarrow> meta res"
    and parse :: "codec \<Rightarrow> kmsg \<Rightarrow> 'e parsed res"
    and valid :: "'a \<Rightarrow> bool"
    and decode :: "kmsg \<Rightarrow> 'a \<Rightarrow> 'e"
  assumes parse_encode: "valid a \<Longrightarrow>
    \<exists>body. encode a = Inr body \<and>
      (\<forall>msg. km_value msg = jc_dumps c body \<longrightarrow> parse c msg = Inr (Parsed (decode msg a)))"
begin

text \<open>A published event is polled as the event it was built from; nothing is routed or committed.\<close>

lemma delivered:
  assumes "valid a" "encode a = Inr body" "km_value msg = jc_dumps c body" "kc_codec kc = c"
  shows "poll_parsed parse malformed kc event_id now msg w = (Inr (Some (decode msg a)), w)"
proof -
  have "parse c msg = Inr (Parsed (decode msg a))"
    using parse_encode [OF assms(1)] assms(2,3) by auto
  then show ?thesis
    by (simp add: poll_parsed_def assms(4))
qed

lemma never_dropped:
  assumes "valid a" "encode a = Inr body" "km_value msg = jc_dumps c body" "kc_codec kc = c"
  shows "fst (poll_parsed parse malformed kc event_id now msg w) \<noteq> Inr None"
  by (simp add: delivered [OF assms])

end

section \<open>Pending signals\<close>

lemma codec_okD:
  assumes "codec_ok c"
  shows "jc_loads c (jc_dumps c m) = Some (JObj m)" "jc_fromiso c (jc_iso c t) = Some t" "jc_iso c t \<noteq> []"
    "jc_str c (JStr s) = s"
  using assms by (simp_all add: codec_ok_def)

lemma as_opt_num_json [simp]: "as_opt_num (Some (opt_json x)) = Inr x"
  by (cases x) simp_all

definition pending_signal :: "codec \<Rightarrow> signal \<Rightarrow> signal" where
  "pending_signal c sg =
    sg\<lparr>sg_signal_id := make_deterministic_signal_id c sg, sg_status := SIG_PENDING,
       sg_metadata := AList.update ''expires_at'' (JStr (jc_iso c (sg_generated_at sg + SIGNAL_TTL_SECONDS)))
         (AList.update ''product_type'' (JStr (meta_product_type c sg))
           (AList.update ''strategy_id'' (JStr (meta_strategy_id c sg)) (sg_metadata sg)))\<rparr>"

lemma pending_valid: "validate_event (pending_body c e f now sg tr) (event_type_value SIGNAL_PENDING) = []"
  unfolding validate_event_Nil_iff by (simp add: pending_body_def required_fields_defs)

lemma pending_fields:
  "map_of (pending_body c e f now sg tr) ''signal_time'' = Some (JStr (jc_iso c (sg_generated_at sg)))"
  "map_of (pending_body c e f now sg tr) ''expires_at'' = Some (JStr (jc_iso c (sg_generated_at sg + SIGNAL_TTL_SECONDS)))"
  "map_of (pending_body c e f now sg tr) ''trace_id'' = Some (JStr (if tr \<noteq> [] then tr else f))"
  "map_of (pending_body c e f now sg tr) ''strategy_id'' = Some (JStr (meta_strategy_id c sg))"
  "map_of (pending_body c e f now sg tr) ''product_type'' = Some (JStr (meta_product_type c sg))"
  by (simp_all add: pending_body_def)

definition decode_pending :: "codec \<Rightarrow> kmsg \<Rightarrow> signal \<Rightarrow> str \<Rightarrow> signal_event" where
  "decode_pending c msg sg tr =
    \<lparr>se_signal = pending_signal c sg, se_trace_id = tr, se_strategy_id = meta_strategy_id c sg,
     se_product_type = meta_product_type c sg, se_expires_at = sg_generated_at sg + SIGNAL_TTL_SECONDS,
     se_message = msg\<rparr>"

lemma pending_signal_of_body:
  assumes "codec_ok c" "CHR '':'' \<notin> set (sg_market sg)"
  shows "signal_of_body (sg_generated_at sg) (pending_body c e f now sg tr) = Inr (pending_signal c sg)"
  using assms by (simp add: pending_body_def signal_of_body_def readers codec_okD pending_signal_def)

lemma pending_roundtrip:
  assumes c: "codec_ok c" and m: "CHR '':'' \<notin> set (sg_market sg)"
    and msg: "km_value msg = jc_dumps c (pending_body c e f now sg tr)"
  shows "parse_signal_message c msg = Inr (Parsed (decode_pending c msg sg (if tr \<noteq> [] then tr else f)))"
  using pending_signal_of_body [OF c m]
  by (simp add: parse_signal_message_def msg codec_okD [OF c] pending_valid [simplified] pending_fields readers decode_pending_def)

lemma build_pending [simp]: "build_signal_event c e f now sg tr = Inr (pending_body c e f now sg tr)"
  by (simp add: build_signal_event_def checked_event_def pending_valid [simplified])

interpretation pending: event_channel c
  "\<lambda>(e, f, now, sg, tr). build_signal_event c e f now sg tr"
  parse_signal_message
  "\<lambda>(e, f, now, sg, tr). codec_ok c \<and> CHR '':'' \<notin> set (sg_market sg)"
  "\<lambda>msg (e, f, now, sg, tr). decode_pending c msg sg (if tr \<noteq> [] then tr else f)"
  by unfold_locales (auto simp: pending_roundtrip)

section \<open>Enriched signals\<close>

lemma enriched_roundtrip_aux:
  assumes c: "codec_ok c" and m: "CHR '':'' \<notin> set (es_market e)" and v: "es_schema_version e = ENRICHED_SCHEMA_VERSION"
  shows "enriched_from_dict c t (build_enriched_event c i now e) = Inr e"
  using m v
  by (simp add: build_enriched_event_def enriched_to_dict_def enriched_from_dict_def readers truthy_or_def
      parse_dt_or_now_def codec_okD [OF c])

lemma enriched_fields:
  "map_of (build_enriched_event c i now e) ''schema_version'' = Some (JStr ENRICHED_SCHEMA_VERSION)"
  "map_of (build_enriched_event c i now e) ''trace_id'' = Some (JStr (es_trace_id e))"
  "map_of (build_enriched_event c i now e) ''strategy_id'' = Some (JStr (es_strategy_id e))"
  "map_of (build_enriched_event c i now e) ''product_type'' = Some (JStr (es_product_type e))"
  "map_of (build_enriched_event c i now e) ''expires_at'' = Some (JStr (jc_iso c (es_expires_at e)))"
  by (simp_all add: build_enriched_event_def enriched_to_dict_def)

lemma enriched_valid: "validate_event (build_enriched_event c i now e) (event_type_value SIGNAL_ENRICHED) = []"
  unfolding validate_event_Nil_iff
  by (simp add: build_enriched_event_def enriched_to_dict_def required_fields_defs)

definition decode_enriched :: "kmsg \<Rightarrow> enriched_signal \<Rightarrow> enriched_event" where
  "decode_enriched msg e =
    \<lparr>ee_enriched = e, ee_trace_id = es_trace_id e, ee_strategy_id = es_strategy_id e, ee_product_type = es_product_type e,
     ee_expires_at = es_expires_at e, ee_message = msg, ee_schema_version = ENRICHED_SCHEMA_VERSION\<rparr>"

lemma enriched_roundtrip:
  assumes c: "codec_ok c" and m: "CHR '':'' \<notin> set (es_market e)" and v: "es_schema_version e = ENRICHED_SCHEMA_VERSION"
    and msg: "km_value msg = jc_dumps c (build_enriched_event c i now e)" and kc: "kc_codec kc = c"
  shows "poll_enriched kc t msg w = (Inr (Some (decode_enriched msg e)), w)"
proof -
  have "parse_v4 c t msg (build_enriched_event c i now e) = Inr (Parsed (decode_enriched msg e))"
    by (simp add: parse_v4_def enriched_valid [simplified] enriched_roundtrip_aux [OF c m v] enriched_fields readers
        parse_dt_or_now_def codec_okD [OF c] decode_enriched_def)
  then show ?thesis
    by (simp add: poll_enriched_def kc msg codec_okD [OF c] enriched_fields Let_def)
qed

section \<open>Approved signals\<close>

lemma approved_valid: "validate_event (approved_body c e f now sg d tr) (event_type_value SIGNAL_APPROVED) = []"
  unfolding validate_event_Nil_iff by (simp add: approved_body_def required_fields_defs)

lemma build_approved [simp]: "build_approved_event c e f now sg d tr = Inr (approved_body c e f now sg d tr)"
  by (simp add: build_approved_event_def checked_event_def approved_valid [simplified])

definition decode_approved :: "codec \<Rightarrow> kmsg \<Rightarrow> rat \<Rightarrow> rat \<Rightarrow> signal \<Rightarrow> str \<Rightarrow> str \<Rightarrow> approved_event" where
  "decode_approved c msg now expiry sg d tr =
    \<lparr>ap_signal_id = sg_signal_id sg, ap_risk_decision_id = d, ap_trace_id = tr, ap_strategy_id = meta_strategy_id c sg,
     ap_symbol = sg_symbol sg, ap_market = sg_market sg, ap_strategy_name = sg_strategy_name sg,
     ap_direction = order_side_value (sg_direction sg), ap_quantity = of_int (sg_quantity sg),
     ap_price_at_signal = sg_price_at_signal sg, ap_stop_loss = sg_stop_loss sg, ap_take_profit = sg_take_profit sg,
     ap_product_type = meta_product_type c sg, ap_expires_at = expiry, ap_confidence = sg_confidence sg,
     ap_signal_time = sg_generated_at sg, ap_approved_at = now, ap_paper_trade = sg_paper_trade sg, ap_message = msg\<rparr>"

lemma upper_side [simp]: "py_upper (order_side_value d) = order_side_value d"
  by (cases d) (simp_all add: py_upper_def upper_char_def Let_def)

text \<open>The expiry an approved event carries: the one in the metadata, else thirty seconds after the signal.\<close>

definition approved_expiry :: "codec \<Rightarrow> signal \<Rightarrow> rat option" where
  "approved_expiry c sg =
    jc_fromiso c (jc_str c (json_or (map_of (sg_metadata sg) ''expires_at'') (JStr (jc_iso c (sg_generated_at sg + 30)))))"

lemma approved_roundtrip:
  assumes c: "codec_ok c" and m: "CHR '':'' \<notin> set (sg_market sg)" and ex: "approved_expiry c sg = Some expiry"
    and msg: "km_value msg = jc_dumps c (approved_body c e f now sg d tr)"
  shows "parse_approved_message c msg = Inr (Parsed (decode_approved c msg now expiry sg d (if tr \<noteq> [] then tr else f)))"
proof -
  let ?b = "approved_body c e f now sg d tr"
  have fields:
    "map_of ?b ''instrument_id'' = Some (JStr (instrument_id (sg_market sg) (sg_symbol sg)))"
    "map_of ?b ''signal_id'' = Some (JStr (sg_signal_id sg))" "map_of ?b ''risk_decision_id'' = Some (JStr d)"
    "map_of ?b ''trace_id'' = Some (JStr (if tr \<noteq> [] then tr else f))"
    "map_of ?b ''strategy_id'' = Some (JStr (meta_strategy_id c sg))"
    "map_of ?b ''strategy_name'' = Some (JStr (sg_strategy_name sg))"
    "map_of ?b ''direction'' = Some (JStr (order_side_value (sg_direction sg)))"
    "map_of ?b ''quantity'' = Some (JNum (of_int (sg_quantity sg)))"
    "map_of ?b ''price_at_signal'' = Some (JNum (sg_price_at_signal sg))"
    "map_of ?b ''stop_loss'' = Some (opt_json (sg_stop_loss sg))" "map_of ?b ''take_profit'' = Some (opt_json (sg_take_profit sg))"
    "map_of ?b ''product_type'' = Some (JStr (meta_product_type c sg))"
    "map_of ?b ''expires_at'' = Some (JStr (jc_str c (json_or (map_of (sg_metadata sg) ''expires_at'')
       (JStr (jc_iso c (sg_generated_at sg + 30))))))"
    "map_of ?b ''confidence'' = Some (JNum (sg_confidence sg))"
    "map_of ?b ''signal_time'' = Some (JStr (jc_iso c (sg_generated_at sg)))"
    "map_of ?b ''approved_at'' = Some (JStr (jc_iso c now))" "map_of ?b ''paper_trade'' = Some (JBool (sg_paper_trade sg))"
    by (simp_all add: approved_body_def)
  show ?thesis
    using m ex [unfolded approved_expiry_def]
    by (simp add: parse_approved_message_def msg codec_okD [OF c] approved_valid [simplified] fields readers decode_approved_def)
qed

interpretation approved: event_channel c
  "\<lambda>(e, f, now, sg, d, tr). build_approved_event c e f now sg d tr"
  parse_approved_message
  "\<lambda>(e, f, now, sg, d, tr). codec_ok c \<and> CHR '':'' \<notin> set (sg_market sg) \<and> approved_expiry c sg \<noteq> None"
  "\<lambda>msg (e, f, now, sg, d, tr). decode_approved c msg now (the (approved_expiry c sg)) sg d (if tr \<noteq> [] then tr else f)"
  by unfold_locales (auto simp: approved_roundtrip)

section \<open>Fill events\<close>

definition fill_expiry :: "codec \<Rightarrow> fill_args \<Rightarrow> rat option" where
  "fill_expiry c a = (case fa_expires_at a of None \<Rightarrow> None | Some s \<Rightarrow> jc_fromiso c s)"

definition publishable :: "codec \<Rightarrow> fill_args \<Rightarrow> bool" where
  "publishable c a \<longleftrightarrow>
    codec_ok c \<and> CHR '':'' \<notin> set (fa_market a) \<and>
    resolved_event_type a \<in> {''ORDER_FILLED'', ''ORDER_PARTIAL''} \<and>
    (\<forall>s. fa_expires_at a = Some s \<longrightarrow> s \<noteq> [] \<and> jc_fromiso c s \<noteq> None)"

definition decode_fill :: "codec \<Rightarrow> kmsg \<Rightarrow> rat \<Rightarrow> fill_args \<Rightarrow> str \<Rightarrow> fill_event" where
  "decode_fill c msg now a tr =
    \<lparr>fe_event_type = resolved_event_type a, fe_order_id = fa_order_id a, fe_signal_id = fa_signal_id a,
     fe_risk_decision_id = fa_risk_decision_id a, fe_trace_id = tr, fe_strategy_id = fa_strategy_id a,
     fe_market = fa_market a, fe_symbol = fa_symbol a, fe_direction = fa_direction a,
     fe_quantity_ordered = fa_quantity_ordered a, fe_quantity_filled = fa_quantity_filled a,
     fe_avg_fill_price = Some (fa_avg_fill_price a), fe_broker_order_id = fa_broker_order_id a,
     fe_product_type = fa_product_type a, fe_expires_at = fill_expiry c a, fe_stop_loss = fa_stop_loss a,
     fe_take_profit = fa_take_profit a, fe_fill_time = Some (opt_default now (fa_fill_time a)), fe_reject_reason = None,
     fe_raw_id = raw_id c msg\<rparr>"

lemma fill_valid:
  assumes "resolved_event_type a = event_type_value ty" "ty = ORDER_FILLED \<or> ty = ORDER_PARTIAL"
  shows "validate_event (fill_body c e f now a) (event_type_value ty) = []"
  unfolding validate_event_Nil_iff using assms by (auto simp: fill_body_def required_fields_defs)

lemma fill_type:
  assumes "publishable c a"
  obtains ty where "resolved_event_type a = event_type_value ty" "ty = ORDER_FILLED \<or> ty = ORDER_PARTIAL"
  using assms that [of ORDER_FILLED] that [of ORDER_PARTIAL] by (auto simp: publishable_def)

lemma fill_roundtrip:
  assumes p: "publishable c a" and msg: "km_value msg = jc_dumps c (fill_body c e f now a)"
  shows "build_fill_event c e f now a = Inr (fill_body c e f now a) \<and>
    parse_order_message c msg = Inr (Parsed (decode_fill c msg now a (if fa_trace_id a \<noteq> [] then fa_trace_id a else f)))"
proof -
  let ?b = "fill_body c e f now a"
  have c: "codec_ok c" and m: "CHR '':'' \<notin> set (fa_market a)"
    using p by (simp_all add: publishable_def)
  obtain ty where ty: "resolved_event_type a = event_type_value ty" "ty = ORDER_FILLED \<or> ty = ORDER_PARTIAL"
    using fill_type [OF p] .
  note v = fill_valid [OF ty, of c e f now]
  have fields:
    "map_of ?b ''event_type'' = Some (JStr (resolved_event_type a))"
    "map_of ?b ''instrument_id'' = Some (JStr (instrument_id (fa_market a) (fa_symbol a)))"
    "map_of ?b ''fill_time'' = Some (JStr (jc_iso c (opt_default now (fa_fill_time a))))"
    "map_of ?b ''avg_fill_price'' = Some (JNum (fa_avg_fill_price a))"
    "map_of ?b ''expires_at'' = Some (opt_str_json (fa_expires_at a))"
    "map_of ?b ''order_id'' = Some (JStr (fa_order_id a))" "map_of ?b ''signal_id'' = Some (JStr (fa_signal_id a))"
    "map_of ?b ''risk_decision_id'' = Some (JStr (fa_risk_decision_id a))"
    "map_of ?b ''trace_id'' = Some (JStr (if fa_trace_id a \<noteq> [] then fa_trace_id a else f))"
    "map_of ?b ''strategy_id'' = Some (JStr (fa_strategy_id a))" "map_of ?b ''direction'' = Some (JStr (fa_direction a))"
    "map_of ?b ''quantity_ordered'' = Some (JNum (of_int (fa_quantity_ordered a)))"
    "map_of ?b ''quantity_filled'' = Some (JNum (of_int (fa_quantity_filled a)))"
    "map_of ?b ''broker_order_id'' = Some (JStr (fa_broker_order_id a))"
    "map_of ?b ''product_type'' = Some (JStr (fa_product_type a))"
    "map_of ?b ''stop_loss'' = Some (opt_json (fa_stop_loss a))" "map_of ?b ''take_profit'' = Some (opt_json (fa_take_profit a))"
    "map_of ?b ''reject_reason'' = Some JNull"
    by (simp_all add: fill_body_def)
  have expiry: "opt_time c (Some (opt_str_json (fa_expires_at a))) = Inr (fill_expiry c a)"
    using p by (cases "fa_expires_at a")
      (auto simp: opt_time_def truthy_or_def fill_expiry_def publishable_def as_time_def)
  have time: "opt_time c (Some (JStr (jc_iso c t))) = Inr (Some t)" for t
    by (simp add: opt_time_def truthy_or_def as_time_def codec_okD [OF c])
  have "resolved_event_type a \<in> {''ORDER_FILLED'', ''ORDER_PARTIAL'', ''ORDER_REJECTED''}"
    using ty by auto
  then have "parse_order_message c msg = Inr (Parsed (decode_fill c msg now a (if fa_trace_id a \<noteq> [] then fa_trace_id a else f)))"
    using v m
    by (simp add: parse_order_message_def msg codec_okD [OF c] fields expiry time readers as_opt_str_def decode_fill_def flip: ty(1))
  then show ?thesis
    using v by (simp add: build_fill_event_def flip: ty(1))
qed

interpretation fills: event_channel c
  "\<lambda>(e, f, now, a). build_fill_event c e f now a"
  parse_order_message
  "\<lambda>(e, f, now, a). publishable c a"
  "\<lambda>msg (e, f, now, a). decode_fill c msg now a (if fa_trace_id a \<noteq> [] then fa_trace_id a else f)"
proof
  fix x :: "str \<times> str \<times> rat \<times> fill_args"
  assume v: "case x of (e, f, now, a) \<Rightarrow> publishable c a"
  obtain e f now a where x: "x = (e, f, now, a)" by (cases x)
  have p: "publishable c a"
    using v x by simp
  have b: "build_fill_event c e f now a = Inr (fill_body c e f now a)"
    using fill_roundtrip [OF p, of "\<lparr>km_topic = [], km_partition = 0, km_offset = 0, km_key = None,
      km_value = jc_dumps c (fill_body c e f now a), km_headers = []\<rparr>" e f now] by simp
  show "\<exists>body. (case x of (e, f, now, a) \<Rightarrow> build_fill_event c e f now a) = Inr body \<and>
      (\<forall>msg. km_value msg = jc_dumps c body \<longrightarrow>
        parse_order_message c msg = Inr (Parsed ((\<lambda>(e, f, now, a). decode_fill c msg now a (if fa_trace_id a \<noteq> [] then fa_trace_id a else f)) x)))"
    using b fill_roundtrip [OF p] by (simp add: x)
qed

section \<open>The whole path\<close>

text \<open>The fresh values and the message of one hop.\<close>

record hop =
  hp_event_id :: str
  hp_fresh_trace :: str
  hp_now :: rat
  hp_message :: kmsg

definition hop_message :: "codec \<Rightarrow> hop \<Rightarrow> meta \<Rightarrow> kmsg" where
  "hop_message c h body = (hp_message h)\<lparr>km_value := jc_dumps c body\<rparr>"

text \<open>
  strategy engine, AI engine, risk engine (which approved the signal with the decision \<open>did\<close>),
  execution engine.
\<close>

definition signal_path :: "'w kconsumer \<Rightarrow> hop \<Rightarrow> hop \<Rightarrow> hop \<Rightarrow> annotation \<Rightarrow> str \<Rightarrow> signal \<Rightarrow> str \<Rightarrow> 'w
    \<Rightarrow> approved_event option" where
  "signal_path kc h1 h2 h3 ann did sg trace_id w =
    (let c = kc_codec kc in
     case build_signal_event c (hp_event_id h1) (hp_fresh_trace h1) (jc_iso c (hp_now h1)) sg trace_id of
       Inl _ \<Rightarrow> None
     | Inr b1 \<Rightarrow>
        (case poll_signal kc [] [] (hop_message c h1 b1) w of
           (Inr (Some ev), w) \<Rightarrow>
             (let e = enriched_from_signal (se_signal ev) (se_trace_id ev) (se_strategy_id ev) (se_product_type ev)
                        (Some (se_expires_at ev)) ann (hp_now h2);
                  b2 = build_enriched_event c (hp_event_id h2) (jc_iso c (hp_now h2)) e
              in case poll_enriched kc (hp_now h2) (hop_message c h2 b2) w of
                   (Inr (Some ev2), w) \<Rightarrow>
                    (case build_approved_event c (hp_event_id h3) (hp_fresh_trace h3) (hp_now h3)
                        ((signal_from_enriched c (ee_enriched ev2))\<lparr>sg_status := SIG_APPROVED\<rparr>) did (ee_trace_id ev2) of
                       Inl _ \<Rightarrow> None
                     | Inr b3 \<Rightarrow>
                        (case poll_approved kc [] [] (hop_message c h3 b3) w of
                           (Inr (Some a), _) \<Rightarrow> Some a
                         | _ \<Rightarrow> None))
                 | _ \<Rightarrow> None)
         | _ \<Rightarrow> None))"


definition demo_kconsumer :: "sent_record list kconsumer" where
  "demo_kconsumer = \<lparr>kc_codec = demo_codec, kc_failure = Some demo_failure, kc_commit = (\<lambda>w m. (Inr (), w))\<rparr>"

definition demo_hop :: hop where
  "demo_hop = \<lparr>hp_event_id = ''e'', hp_fresh_trace = ''t'', hp_now = 1,
    hp_message = \<lparr>km_topic = ''signals.pending'', km_partition = 0, km_offset = 0, km_key = None, km_value = [], km_headers = []\<rparr>\<rparr>"

definition demo_path_signal :: "bool \<Rightarrow> signal" where
  "demo_path_signal paper =
    \<lparr>sg_signal_id = ''uuid'', sg_symbol = ''INFY'', sg_market = ''NSE'', sg_direction = SELL, sg_quantity = 5,
     sg_confidence = 1, sg_strategy_name = ''s'', sg_generated_at = 100, sg_status = SIG_PENDING, sg_price_at_signal = 1500,
     sg_stop_loss = Some 1520, sg_take_profit = None, sg_paper_trade = paper, sg_metadata = []\<rparr>"


text \<open>
  Every fill the execution engine publishes reaches the risk engine unchanged: the polled event has
  the order, instrument, side, quantities and price of the call, and its type says whether the order
  was filled completely.
\<close>

theorem published_fill_polled:
  assumes "publishable c a" "kc_codec kc = c" "build_fill_event c e f now a = Inr body" "km_value msg = jc_dumps c body"
  shows "poll_fill kc i t msg w = (Inr (Some (decode_fill c msg now a (if fa_trace_id a \<noteq> [] then fa_trace_id a else f))), w) \<and>
    (fa_event_type a = None \<longrightarrow>
      is_full_fill (decode_fill c msg now a (if fa_trace_id a \<noteq> [] then fa_trace_id a else f)) =
        (fa_quantity_ordered a \<le> fa_quantity_filled a))"
proof
  show "poll_fill kc i t msg w = (Inr (Some (decode_fill c msg now a (if fa_trace_id a \<noteq> [] then fa_trace_id a else f))), w)"
    unfolding poll_fill_def
    using fills.delivered [of c "(e, f, now, a)" body msg kc "''malformed_order_event''" i t w] assms by simp
  show "fa_event_type a = None \<longrightarrow>
      is_full_fill (decode_fill c msg now a (if fa_trace_id a \<noteq> [] then fa_trace_id a else f)) =
        (fa_quantity_ordered a \<le> fa_quantity_filled a)"
    by (auto simp: is_full_fill_def decode_fill_def resolved_event_type_def)
qed

definition demo_fill_args :: fill_args where
  "demo_fill_args = \<lparr>fa_order_id = ''o1'', fa_signal_id = ''s1'', fa_risk_decision_id = ''d1'', fa_trace_id = [],
    fa_symbol = ''INFY'', fa_market = ''NSE'', fa_direction = ''BUY'', fa_quantity_ordered = 5, fa_quantity_filled = 3,
    fa_avg_fill_price = 100, fa_broker_order_id = ''b1'', fa_fill_time = None, fa_strategy_id = ''st'', fa_product_type = ''MIS'',
    fa_expires_at = None, fa_stop_loss = None, fa_take_profit = None, fa_event_type = None\<rparr>"

theorem published_fill_polled_witness:
  "\<exists>body ev. build_fill_event demo_codec ''e'' ''t'' 7 demo_fill_args = Inr body \<and>
     poll_fill demo_kconsumer [] [] ((hp_message demo_hop)\<lparr>km_value := jc_dumps demo_codec body\<rparr>) [] = (Inr (Some ev), []) \<and>
     \<not> is_full_fill ev"
proof -
  have p: "publishable demo_codec demo_fill_args"
    using demo_codec_ok by (simp add: publishable_def demo_fill_args_def resolved_event_type_def)
  let ?b = "fill_body demo_codec ''e'' ''t'' 7 demo_fill_args"
  have b: "build_fill_event demo_codec ''e'' ''t'' 7 demo_fill_args = Inr ?b"
    using fill_roundtrip [OF p, of "(hp_message demo_hop)\<lparr>km_value := jc_dumps demo_codec ?b\<rparr>" "''e''" "''t''" 7] by simp
  show ?thesis
    using published_fill_polled [OF p _ b, of demo_kconsumer "(hp_message demo_hop)\<lparr>km_value := jc_dumps demo_codec ?b\<rparr>" "[]" "[]" "[]"] b
    by (simp add: demo_kconsumer_def demo_fill_args_def)
qed

end
