(* ===== verification/DecisionPublish.thy ===== *)
theory DecisionPublish
  imports RiskFrame MessageSafety
begin

text \<open>
  The Kafka loops of the risk engine (\<open>services/risk_engine/service.py\<close>: \<open>_kafka_processing_loop\<close>,
  \<open>_enriched_processing_loop\<close> and the methods they call) and the publisher of approvals
  (\<open>publishers/kafka_approved_publisher.py\<close>).  One iteration of a loop is a function of the polled event;
  \<open>px_attempts\<close> is a history variable: the pairs of signal and decision identifiers handed to the
  publisher, whether or not Kafka acknowledged them.
\<close>

section \<open>Publisher of approvals\<close>

text \<open>\<open>pu_ack\<close> waits for the delivery report: \<open>False\<close> is a failed delivery or a timeout.\<close>

record 'w approved_publisher =
  pu_codec :: codec
  pu_producer :: "'w producer option"
  pu_ack :: "'w \<Rightarrow> bool \<times> 'w"
  pu_threshold :: nat
  pu_payload :: str

definition publish_approval :: "'w approved_publisher \<Rightarrow> str \<Rightarrow> str \<Rightarrow> rat \<Rightarrow> signal \<Rightarrow> str \<Rightarrow> str \<Rightarrow> halt_state \<times> 'w
    \<Rightarrow> meta res \<times> halt_state \<times> 'w" where
  "publish_approval pu event_id fresh_trace now sg risk_decision_id trace_id hw =
    (case hw of (h, w) \<Rightarrow>
      (case pu_producer pu of
         None \<Rightarrow> (Inl RuntimeError, h, w)
       | Some p \<Rightarrow>
          (case build_approved_event (pu_codec pu) event_id fresh_trace now sg risk_decision_id trace_id of
             Inl e \<Rightarrow> (Inl e, h, w)
           | Inr event \<Rightarrow>
              (case pr_produce p w SIGNALS_APPROVED_TOPIC (Some (instrument_id (sg_market sg) (sg_symbol sg)))
                  (jc_dumps (pu_codec pu) event) [] of
                 (Inl e, w) \<Rightarrow> (Inl (if e = KafkaError then RuntimeError else e), h, w)
               | (Inr _, w) \<Rightarrow>
                  (case pu_ack pu w of
                     (True, w) \<Rightarrow> (Inr event, delivery_callback (pu_threshold pu) (pu_payload pu) h True, w)
                   | (False, w) \<Rightarrow>
                       (Inl RuntimeError, delivery_callback (pu_threshold pu) (pu_payload pu) h False, w))))))"

section \<open>Reservations\<close>

record 'w pb_config =
  pb_engine :: "'w rk_config"
  pb_dynamo :: "'w dynamo option"
  pb_table :: str
  pb_num_str :: "rat \<Rightarrow> str"
  pb_json :: "risk_decision \<Rightarrow> str"
  pb_publisher :: "'w approved_publisher"
  pb_consumer :: "'w kconsumer"
  pb_enriched_consumer :: "'w kconsumer"

record 'w px =
  px_engine :: rk_state
  px_halt :: halt_state
  px_attempts :: "(str \<times> str) list"
  px_world :: 'w

text \<open>Clock readings and fresh values of one iteration.\<close>

record attempt =
  at_readings :: readings
  at_decision_id :: str
  at_event_id :: str
  at_trace :: str

definition get_reservation :: "'w pb_config \<Rightarrow> str \<Rightarrow> 'w \<Rightarrow> item option res \<times> 'w" where
  "get_reservation cf signal_id w =
    (case pb_dynamo cf of
       None \<Rightarrow> (Inl RuntimeError, w)
     | Some D \<Rightarrow> dy_get D w (pb_table cf) (risk_decision_key signal_id))"

definition reservation_item :: "'w pb_config \<Rightarrow> risk_decision \<Rightarrow> str \<Rightarrow> item" where
  "reservation_item cf d stamp =
    (key_item (risk_decision_key (rd_signal_id d)))
      (''risk_decision_id'' \<mapsto> S (rd_id d), ''signal_id'' \<mapsto> S (rd_signal_id d),
       ''status'' \<mapsto> S (decision_status_value (rd_status d)), ''publish_status'' \<mapsto> S ''PENDING'',
       ''reason'' \<mapsto> S (rd_reason d), ''decision_json'' \<mapsto> S (pb_json cf d),
       ''created_at'' \<mapsto> S stamp, ''updated_at'' \<mapsto> S stamp)"

definition reserve_risk_decision :: "'w pb_config \<Rightarrow> risk_decision \<Rightarrow> str \<Rightarrow> 'w \<Rightarrow> bool res \<times> 'w" where
  "reserve_risk_decision cf d stamp w =
    (case pb_dynamo cf of
       None \<Rightarrow> (Inl RuntimeError, w)
     | Some D \<Rightarrow>
        (case dy_put D w (pb_table cf) (risk_decision_key (rd_signal_id d)) (reservation_item cf d stamp) (NotExists ''PK'') of
           (Inr _, w) \<Rightarrow> (Inr True, w)
         | (Inl e, w) \<Rightarrow> (if e = ConditionalCheckFailed then Inr False else Inl e, w)))"

definition published_updates :: "str \<Rightarrow> upd list" where
  "published_updates now =
    [SetTo ''publish_status'' (S ''PUBLISHED''), SetTo ''published_at'' (S now), SetTo ''updated_at'' (S now)]"

definition mark_published :: "'w pb_config \<Rightarrow> str \<Rightarrow> str \<Rightarrow> str \<Rightarrow> 'w \<Rightarrow> unit res \<times> 'w" where
  "mark_published cf signal_id risk_decision_id now w =
    (case pb_dynamo cf of
       None \<Rightarrow> (Inl RuntimeError, w)
     | Some D \<Rightarrow>
        (case dy_update D w (pb_table cf) (risk_decision_key signal_id) (published_updates now)
            (CondAnd (Exists ''PK'') (AttrEq ''risk_decision_id'' (S risk_decision_id))) of
           (Inl e, w) \<Rightarrow> (Inl e, w)
         | (Inr _, w) \<Rightarrow> (Inr (), w)))"

text \<open>Publish, mark as published, count the order; \<open>_publish_approved_enriched\<close> does the same.\<close>

definition publish_approved_signal :: "'w pb_config \<Rightarrow> attempt \<Rightarrow> signal \<Rightarrow> str \<Rightarrow> str \<Rightarrow> 'w px \<Rightarrow> unit res \<times> 'w px" where
  "publish_approved_signal cf a sg trace_id risk_decision_id x =
    (let x = x\<lparr>px_attempts := px_attempts x @ [(sg_signal_id sg, risk_decision_id)]\<rparr> in
     case publish_approval (pb_publisher cf) (at_event_id a) (at_trace a) (rg_now (at_readings a))
         (sg\<lparr>sg_status := SIG_APPROVED\<rparr>) risk_decision_id trace_id (px_halt x, px_world x) of
       (Inl e, h, w) \<Rightarrow> (Inl e, x\<lparr>px_halt := h, px_world := w\<rparr>)
     | (Inr _, h, w) \<Rightarrow>
        (case mark_published cf (sg_signal_id sg) risk_decision_id (rg_stamp (at_readings a)) w of
           (Inl e, w) \<Rightarrow> (Inl e, x\<lparr>px_halt := h, px_world := w\<rparr>)
         | (Inr _, w) \<Rightarrow>
            (Inr (), x\<lparr>px_halt := h, px_world := w,
               px_engine := (px_engine x)\<lparr>rk_monitor :=
                 record_order_event (rg_now (at_readings a)) (rk_monitor (px_engine x))\<rparr>\<rparr>)))"

definition row_string :: "'w pb_config \<Rightarrow> item \<Rightarrow> str \<Rightarrow> str" where
  "row_string cf i name = attr_string (pb_num_str cf) (lowlevel i) name []"

definition handle_existing_reservation :: "'w pb_config \<Rightarrow> attempt \<Rightarrow> signal \<Rightarrow> str \<Rightarrow> item \<Rightarrow> 'w px \<Rightarrow> unit res \<times> 'w px" where
  "handle_existing_reservation cf a sg trace_id reservation x =
    (let publish_status = row_string cf reservation ''publish_status'';
         risk_decision_id = row_string cf reservation ''risk_decision_id''
     in if risk_decision_id = [] then (Inl RuntimeError, x)
        else if publish_status = ''PENDING'' then publish_approved_signal cf a sg trace_id risk_decision_id x
        else if publish_status = [] \<or> publish_status = ''PUBLISHED'' then (Inr (), x)
        else (Inl RuntimeError, x))"

text \<open>The enriched loop treats a reservation that is not publishable as a duplicate.\<close>

definition replay_enriched_reservation :: "'w pb_config \<Rightarrow> attempt \<Rightarrow> signal \<Rightarrow> str \<Rightarrow> item \<Rightarrow> 'w px \<Rightarrow> unit res \<times> 'w px" where
  "replay_enriched_reservation cf a sg trace_id reservation x =
    (let publish_status = row_string cf reservation ''publish_status'';
         risk_decision_id = row_string cf reservation ''risk_decision_id''
     in if publish_status = ''PENDING'' \<and> risk_decision_id \<noteq> []
        then publish_approved_signal cf a sg trace_id risk_decision_id x
        else (Inr (), x))"

section \<open>One iteration\<close>

text \<open>\<open>existing\<close> is one of the two treatments of a reservation that is there already.\<close>

definition publish_decision :: "('w pb_config \<Rightarrow> attempt \<Rightarrow> signal \<Rightarrow> str \<Rightarrow> item \<Rightarrow> 'w px \<Rightarrow> unit res \<times> 'w px)
    \<Rightarrow> 'w pb_config \<Rightarrow> attempt \<Rightarrow> signal \<Rightarrow> str \<Rightarrow> risk_decision \<Rightarrow> 'w px \<Rightarrow> unit res \<times> 'w px" where
  "publish_decision existing cf a sg trace_id d x =
    (case reserve_risk_decision cf d (rg_stamp (at_readings a)) (px_world x) of
       (Inl e, w) \<Rightarrow> (Inl e, x\<lparr>px_world := w\<rparr>)
     | (Inr True, w) \<Rightarrow> publish_approved_signal cf a sg trace_id (rd_id d) (x\<lparr>px_world := w\<rparr>)
     | (Inr False, w) \<Rightarrow>
        (case get_reservation cf (rd_signal_id d) w of
           (Inl e, w) \<Rightarrow> (Inl e, x\<lparr>px_world := w\<rparr>)
         | (Inr None, w) \<Rightarrow> (Inl RuntimeError, x\<lparr>px_world := w\<rparr>)
         | (Inr (Some i), w) \<Rightarrow> existing cf a sg trace_id i (x\<lparr>px_world := w\<rparr>)))"

definition route :: "('w \<Rightarrow> bool res \<times> 'w) \<Rightarrow> 'w px \<Rightarrow> bool res \<times> 'w px" where
  "route f x = (case f (px_world x) of (r, w) \<Rightarrow> (r, x\<lparr>px_world := w\<rparr>))"

definition commit :: "'w kconsumer \<Rightarrow> kmsg \<Rightarrow> 'w px \<Rightarrow> unit res \<times> 'w px" where
  "commit kc msg x = (case kc_commit kc (px_world x) msg of (r, w) \<Rightarrow> (r, x\<lparr>px_world := w\<rparr>))"

definition run_validation :: "'w pb_config \<Rightarrow> attempt \<Rightarrow> signal \<Rightarrow> 'w px \<Rightarrow> (risk_decision \<times> 'w px) option" where
  "run_validation cf a sg x =
    (case validate_signal (pb_engine cf) (at_readings a) (at_decision_id a) sg (px_engine x, px_world x) of
       None \<Rightarrow> None
     | Some (d, s, w) \<Rightarrow> Some (d, x\<lparr>px_engine := s, px_world := w\<rparr>))"

definition expired_decision :: "attempt \<Rightarrow> signal \<Rightarrow> bool \<Rightarrow> risk_decision" where
  "expired_decision a sg with_result =
    decide (at_decision_id a) sg REJECTED ''Signal expired''
      (if with_result then [reject ''signal_expiry_validator'' ''Signal expired''] else [])"

definition age_rejection :: "risk_decision \<Rightarrow> bool" where
  "age_rejection d \<longleftrightarrow>
    (case rd_results d of [] \<Rightarrow> False
     | r # _ \<Rightarrow> rr_validator_name r \<in> {''signal_age_validator'', ''signal_expiry_validator''})"

text \<open>
  The body of the inner \<open>try\<close> of \<open>_kafka_processing_loop\<close>; the flag says whether the offset is to be
  committed.
\<close>

definition pending_body_step :: "'w pb_config \<Rightarrow> attempt \<Rightarrow> signal_event \<Rightarrow> 'w px \<Rightarrow> (bool res \<times> 'w px) option" where
  "pending_body_step cf a ev x =
    (let sg = se_signal ev; kc = pb_consumer cf; tr = se_trace_id ev; msg = se_message ev in
     case get_reservation cf (sg_signal_id sg) (px_world x) of
       (Inl e, w) \<Rightarrow> Some (Inl e, x\<lparr>px_world := w\<rparr>)
     | (Inr (Some i), w) \<Rightarrow>
        (case handle_existing_reservation cf a sg tr i (x\<lparr>px_world := w\<rparr>) of
           (Inl e, x) \<Rightarrow> Some (Inl e, x)
         | (Inr _, x) \<Rightarrow> Some (Inr True, x))
     | (Inr None, w) \<Rightarrow>
        (let x = x\<lparr>px_world := w\<rparr> in
         if se_expires_at ev < rg_now (at_readings a) then
           (let d = expired_decision a sg True;
                x = x\<lparr>px_world := log_decision (pb_engine cf) d (px_world x)\<rparr>
            in Some (route (event_to_dlq kc (at_event_id a) (rg_stamp (at_readings a)) ''stale_signal'' [] msg) x))
         else
          (case run_validation cf a sg x of
             None \<Rightarrow> None
           | Some (d, x) \<Rightarrow>
              (if rd_status d = APPROVED then
                 (case publish_decision handle_existing_reservation cf a sg tr d x of
                    (Inl e, x) \<Rightarrow> Some (Inl e, x)
                  | (Inr _, x) \<Rightarrow> Some (Inr True, x))
               else if age_rejection d then
                 (case route (event_to_dlq kc (at_event_id a) (rg_stamp (at_readings a)) ''stale_signal'' [] msg) x of
                    (Inl e, x) \<Rightarrow> Some (Inl e, x)
                  | (Inr routed, x) \<Rightarrow> Some (if routed then Inr True else Inl RuntimeError, x))
               else Some (Inr True, x)))))"

text \<open>
  The iteration: an exception sends the message to the retry topic, and the offset is committed when it
  was routed.  The result says whether the offset was committed; an exception that leaves the handler
  is logged by the loop, which backs off.
\<close>

definition pending_iteration :: "'w pb_config \<Rightarrow> attempt \<Rightarrow> signal_event \<Rightarrow> 'w px \<Rightarrow> (bool \<times> 'w px) option" where
  "pending_iteration cf a ev x =
    (let kc = pb_consumer cf; msg = se_message ev;
         body = (case pending_body_step cf a ev x of
             None \<Rightarrow> None
           | Some (Inr True, x) \<Rightarrow> (case commit kc msg x of (Inl e, x) \<Rightarrow> Some (Inl e, x) | (Inr _, x) \<Rightarrow> Some (Inr True, x))
           | Some (r, x) \<Rightarrow> Some (r, x))
     in case body of
          None \<Rightarrow> None
        | Some (Inr committed, x) \<Rightarrow> Some (committed, x)
        | Some (Inl e, x) \<Rightarrow>
           (case route (event_to_retry kc (at_event_id a) (rg_stamp (at_readings a)) ''risk_processing_failed'' [] msg) x of
              (Inr True, x) \<Rightarrow> (case commit kc msg x of (Inl _, x) \<Rightarrow> Some (False, x) | (Inr _, x) \<Rightarrow> Some (True, x))
            | (_, x) \<Rightarrow> Some (False, x)))"

text \<open>
  The enriched loop commits in every branch of its inner \<open>try\<close>, and after a failed processing whatever
  the routing to the retry topic answered.
\<close>

definition enriched_body_step :: "'w pb_config \<Rightarrow> attempt \<Rightarrow> enriched_event \<Rightarrow> 'w px \<Rightarrow> (unit res \<times> 'w px) option" where
  "enriched_body_step cf a ev x =
    (let kc = pb_enriched_consumer cf; sg = signal_from_enriched (kc_codec kc) (ee_enriched ev);
         tr = ee_trace_id ev; msg = ee_message ev
     in case get_reservation cf (sg_signal_id sg) (px_world x) of
       (Inl e, w) \<Rightarrow> Some (Inl e, x\<lparr>px_world := w\<rparr>)
     | (Inr (Some i), w) \<Rightarrow> Some (replay_enriched_reservation cf a sg tr i (x\<lparr>px_world := w\<rparr>))
     | (Inr None, w) \<Rightarrow>
        (let x = x\<lparr>px_world := w\<rparr> in
         if ee_expires_at ev < rg_now (at_readings a) then
           (let d = expired_decision a sg False;
                x = x\<lparr>px_world := log_decision (pb_engine cf) d (px_world x)\<rparr>
            in case route (event_to_dlq kc (at_event_id a) (rg_stamp (at_readings a)) ''signal_expired'' [] msg) x of
                 (Inl e, x) \<Rightarrow> Some (Inl e, x)
               | (Inr _, x) \<Rightarrow> Some (Inr (), x))
         else
          (case run_validation cf a sg x of
             None \<Rightarrow> None
           | Some (d, x) \<Rightarrow>
              (if rd_status d = APPROVED then Some (publish_decision replay_enriched_reservation cf a sg tr (d\<lparr>rd_enriched := True\<rparr>) x)
               else Some (Inr (), x)))))"

definition enriched_iteration :: "'w pb_config \<Rightarrow> attempt \<Rightarrow> enriched_event \<Rightarrow> 'w px \<Rightarrow> (bool \<times> 'w px) option" where
  "enriched_iteration cf a ev x =
    (let kc = pb_enriched_consumer cf; msg = ee_message ev;
         body = (case enriched_body_step cf a ev x of
             None \<Rightarrow> None
           | Some (Inr _, x) \<Rightarrow> Some (commit kc msg x)
           | Some (Inl e, x) \<Rightarrow> Some (Inl e, x))
     in case body of
          None \<Rightarrow> None
        | Some (Inr _, x) \<Rightarrow> Some (True, x)
        | Some (Inl e, x) \<Rightarrow>
           (case route (event_to_retry kc (at_event_id a) (rg_stamp (at_readings a)) ''enriched_processing_failed'' [] msg) x of
              (Inl _, x) \<Rightarrow> Some (False, x)
            | (Inr _, x) \<Rightarrow> (case commit kc msg x of (Inl _, x) \<Rightarrow> Some (False, x) | (Inr _, x) \<Rightarrow> Some (True, x))))"

end
