(* ===== verification/PublishSafety.thy ===== *)
theory PublishSafety
  imports DecisionPublish
begin

text \<open>
  The publication of approvals: however the risk engine's replicas, replays and the two loops
  interleave, a signal is published under one decision identifier.
\<close>

section \<open>Reservations only get added\<close>

definition reserved_id :: "'w pb_config \<Rightarrow> tables \<Rightarrow> str \<Rightarrow> str" where
  "reserved_id cf t signal_id =
    (case t (pb_table cf) (risk_decision_key signal_id) of None \<Rightarrow> [] | Some i \<Rightarrow> row_string cf i ''risk_decision_id'')"

definition decisions_le :: "'w pb_config \<Rightarrow> tables \<Rightarrow> tables \<Rightarrow> bool" where
  "decisions_le cf t t' \<longleftrightarrow>
    (\<forall>signal_id. reserved_id cf t signal_id \<noteq> [] \<longrightarrow> reserved_id cf t' signal_id = reserved_id cf t signal_id)"

lemma decisions_le_refl [simp]: "decisions_le cf t t"
  by (simp add: decisions_le_def)

lemma decisions_le_trans: "decisions_le cf t u \<Longrightarrow> decisions_le cf u v \<Longrightarrow> decisions_le cf t v"
  by (simp add: decisions_le_def)

lemma decisions_le_put:
  assumes "\<And>sid. tbl = pb_table cf \<Longrightarrow> k = risk_decision_key sid \<Longrightarrow>
    reserved_id cf t sid = [] \<or> row_string cf i ''risk_decision_id'' = reserved_id cf t sid"
  shows "decisions_le cf t (tables_put t tbl k i)"
  using assms by (auto simp: decisions_le_def reserved_id_def tables_put_def)

section \<open>Environment\<close>

text \<open>Kafka's producers, acknowledgements and commits are no tables.\<close>

definition producer_on :: "'w dynamo \<Rightarrow> 'w producer option \<Rightarrow> bool" where
  "producer_on D op \<longleftrightarrow>
    (\<forall>p w t k v h. op = Some p \<longrightarrow> dy_tables D (snd (pr_produce p w t k v h)) = dy_tables D w)"

definition consumer_on :: "'w dynamo \<Rightarrow> 'w kconsumer \<Rightarrow> bool" where
  "consumer_on D kc \<longleftrightarrow>
    (\<forall>fp. kc_failure kc = Some fp \<longrightarrow> producer_on D (fp_producer fp)) \<and>
    (\<forall>w m. dy_tables D (snd (kc_commit kc w m)) = dy_tables D w)"

text \<open>
  The other clients of the tables (replicas of the engine among them) never change the decision of a
  reservation, and a read, which need not be strongly consistent, returns the row of an earlier state.
\<close>

definition publish_env :: "(tables \<Rightarrow> tables \<Rightarrow> bool) \<Rightarrow> 'w dynamo \<Rightarrow> 'w pb_config \<Rightarrow> bool" where
  "publish_env R D cf \<longleftrightarrow>
    dynamo_ok R D \<and> engine_on D (pb_engine cf) \<and> on_client D (pb_dynamo cf) \<and>
    (\<forall>t t'. R t t' \<longrightarrow> decisions_le cf t t') \<and>
    (\<forall>w k r w'. dy_get D w (pb_table cf) k = (Inr r, w') \<longrightarrow>
      (\<exists>t. decisions_le cf t (dy_tables D w') \<and> r = t (pb_table cf) k)) \<and>
    producer_on D (pu_producer (pb_publisher cf)) \<and>
    (\<forall>w. dy_tables D (snd (pu_ack (pb_publisher cf) w)) = dy_tables D w) \<and>
    consumer_on D (pb_consumer cf) \<and> consumer_on D (pb_enriched_consumer cf)"

definition px_tables :: "'w dynamo \<Rightarrow> 'w px \<Rightarrow> tables" where
  "px_tables D x = dy_tables D (px_world x)"

text \<open>Every attempt carries the decision its signal is reserved with.\<close>

definition attempts_reserved :: "'w pb_config \<Rightarrow> 'w dynamo \<Rightarrow> 'w px \<Rightarrow> bool" where
  "attempts_reserved cf D x \<longleftrightarrow>
    (\<forall>(sid, d) \<in> set (px_attempts x). d \<noteq> [] \<and> reserved_id cf (px_tables D x) sid = d)"

text \<open>What one operation does to the invariant.\<close>

definition px_le :: "'w pb_config \<Rightarrow> 'w dynamo \<Rightarrow> 'w px \<Rightarrow> 'w px \<Rightarrow> bool" where
  "px_le cf D x y \<longleftrightarrow>
    decisions_le cf (px_tables D x) (px_tables D y) \<and>
    (attempts_reserved cf D x \<longrightarrow> attempts_reserved cf D y)"

lemma px_le_refl [simp]: "px_le cf D x x"
  by (simp add: px_le_def)

lemma px_le_trans: "px_le cf D x y \<Longrightarrow> px_le cf D y z \<Longrightarrow> px_le cf D x z"
  by (auto simp: px_le_def intro: decisions_le_trans)

lemma px_le_same_attempts:
  "decisions_le cf (px_tables D x) (px_tables D y) \<Longrightarrow> px_attempts y = px_attempts x \<Longrightarrow> px_le cf D x y"
  by (auto simp: px_le_def attempts_reserved_def decisions_le_def)

lemma px_le_world:
  "decisions_le cf (dy_tables D (px_world x)) (dy_tables D w) \<Longrightarrow> px_le cf D x (x\<lparr>px_world := w\<rparr>)"
  by (rule px_le_same_attempts) (simp_all add: px_tables_def)

section \<open>Every operation keeps the invariant\<close>

lemma get_reservation_le:
  assumes "publish_env R D cf" "get_reservation cf sid w = (r, w')"
  shows "decisions_le cf (dy_tables D w) (dy_tables D w')"
  using assms by (auto simp: publish_env_def get_reservation_def split: option.splits dest: dynamo_ok_get)

lemma get_reservation_seen:
  assumes "publish_env R D cf" "get_reservation cf sid w = (Inr (Some i), w')"
    and "row_string cf i ''risk_decision_id'' \<noteq> []"
  shows "reserved_id cf (dy_tables D w') sid = row_string cf i ''risk_decision_id''"
proof -
  have "dy_get D w (pb_table cf) (risk_decision_key sid) = (Inr (Some i), w')"
    using assms(1,2) by (auto simp: publish_env_def get_reservation_def split: option.splits)
  then obtain t where t: "decisions_le cf t (dy_tables D w')" "t (pb_table cf) (risk_decision_key sid) = Some i"
    using assms(1) unfolding publish_env_def by metis
  then have "reserved_id cf t sid = row_string cf i ''risk_decision_id''"
    by (simp add: reserved_id_def)
  then show ?thesis
    using t(1) assms(3) by (simp add: decisions_le_def)
qed

lemma reserve_le:
  assumes env: "publish_env R D cf" and run: "reserve_risk_decision cf d stamp w = (r, w')"
  shows "decisions_le cf (dy_tables D w) (dy_tables D w')"
    and "r = Inr True \<Longrightarrow> rd_id d \<noteq> [] \<Longrightarrow> reserved_id cf (dy_tables D w') (rd_signal_id d) = rd_id d"
proof -
  let ?k = "risk_decision_key (rd_signal_id d)" and ?i = "reservation_item cf d stamp"
  obtain u w1 where u: "dy_put D w (pb_table cf) ?k ?i (NotExists ''PK'') = (u, w1)" by force
  have w1: "pb_dynamo cf \<noteq> None \<Longrightarrow> w' = w1 \<and> (r = Inr True \<longleftrightarrow> res_ok u)"
    using run u env by (auto simp: reserve_risk_decision_def publish_env_def split: sum.splits if_splits)
  have ok: "dynamo_ok R D" and R: "\<And>t t'. R t t' \<Longrightarrow> decisions_le cf t t'"
    using env by (simp_all add: publish_env_def)
  have row: "row_string cf ?i ''risk_decision_id'' = rd_id d"
    by (simp add: row_string_def reservation_item_def attr_string_def lowlevel_def)
  have own: "decisions_le cf t (tables_put t (pb_table cf) ?k ?i)" if "cond_holds (NotExists ''PK'') ?k (t (pb_table cf) ?k)" for t
    using that by (intro decisions_le_put) (auto simp: reserved_id_def risk_decision_key_inj)
  have le: "decisions_le cf (dy_tables D w) (dy_tables D w1)"
    by (rule commits_le [OF dynamo_ok_put [OF ok u], where Q = "decisions_le cf"])
      (use R own in \<open>auto intro: decisions_le_trans\<close>)
  show "decisions_le cf (dy_tables D w) (dy_tables D w')"
    using le w1 run by (cases "pb_dynamo cf") (auto simp: reserve_risk_decision_def)
  assume r: "r = Inr True" and ne: "rd_id d \<noteq> []"
  have some: "pb_dynamo cf \<noteq> None"
    using run r by (auto simp: reserve_risk_decision_def split: option.splits)
  then obtain x where "u = Inr x"
    using w1 r by (cases u) auto
  then obtain t where "R (tables_put t (pb_table cf) ?k ?i) (dy_tables D w1)"
    using dynamo_ok_put [OF ok u] by (auto elim: commits_InrE)
  from R [OF this] show "reserved_id cf (dy_tables D w') (rd_signal_id d) = rd_id d"
    using w1 some ne row by (simp add: decisions_le_def reserved_id_def tables_put_def split: option.splits)
qed

lemma mark_published_le:
  assumes env: "publish_env R D cf" and run: "mark_published cf sid d now w = (r, w')"
  shows "decisions_le cf (dy_tables D w) (dy_tables D w')"
proof -
  let ?k = "risk_decision_key sid" and ?c = "CondAnd (Exists ''PK'') (AttrEq ''risk_decision_id'' (S d))"
  obtain u w1 where u: "dy_update D w (pb_table cf) ?k (published_updates now) ?c = (u, w1)" by force
  have ok: "dynamo_ok R D" and R: "\<And>t t'. R t t' \<Longrightarrow> decisions_le cf t t'"
    using env by (simp_all add: publish_env_def)
  have own: "decisions_le cf t (tables_put t (pb_table cf) ?k (updated_row ?k (published_updates now) (t (pb_table cf) ?k)))"
    if "cond_holds ?c ?k (t (pb_table cf) ?k)" for t
    using that
    by (intro decisions_le_put)
      (auto simp: reserved_id_def risk_decision_key_inj published_updates_def updated_row_def row_string_def
        attr_string_def lowlevel_def split: option.splits)
  have "decisions_le cf (dy_tables D w) (dy_tables D w1)"
    by (rule commits_le [OF dynamo_ok_update [OF ok u], where Q = "decisions_le cf"])
      (use R own in \<open>auto intro: decisions_le_trans\<close>)
  then show ?thesis
    using run u env by (auto simp: mark_published_def publish_env_def split: option.splits sum.splits)
qed

lemma publish_approval_tables:
  assumes "publish_env R D cf" "publish_approval (pb_publisher cf) e f now sg d tr (h, w) = (r, h', w')"
  shows "dy_tables D w' = dy_tables D w"
proof -
  have p: "pu_producer (pb_publisher cf) = Some p \<Longrightarrow> dy_tables D (snd (pr_produce p v t k b hs)) = dy_tables D v" for p v t k b hs
    using assms(1) by (simp add: publish_env_def producer_on_def)
  have a: "dy_tables D (snd (pu_ack (pb_publisher cf) v)) = dy_tables D v" for v
    using assms(1) by (simp add: publish_env_def)
  show ?thesis
    using assms(2) p a
    by (auto simp: publish_approval_def split: option.splits sum.splits prod.splits bool.splits) (metis snd_conv)+
qed

text \<open>An attempt keeps the invariant when its signal is reserved with its decision.\<close>

lemma publish_approved_le:
  assumes env: "publish_env R D cf"
    and res: "reserved_id cf (px_tables D x) (sg_signal_id sg) = d" "d \<noteq> []"
    and run: "publish_approved_signal cf a sg tr d x = (r, y)"
  shows "px_le cf D x y"
proof -
  obtain p h w where p: "publish_approval (pb_publisher cf) (at_event_id a) (at_trace a) (rg_now (at_readings a))
      (sg\<lparr>sg_status := SIG_APPROVED\<rparr>) d tr (px_halt x, px_world x) = (p, h, w)"
    by (metis prod_cases3)
  note t1 = publish_approval_tables [OF env p]
  obtain m w2 where m: "mark_published cf (sg_signal_id sg) d (rg_stamp (at_readings a)) w = (m, w2)" by force
  note t2 = mark_published_le [OF env m]
  have y: "px_attempts y = px_attempts x @ [(sg_signal_id sg, d)]" "px_world y = w \<or> px_world y = w2"
    using run p m by (auto simp: publish_approved_signal_def Let_def split: sum.splits)
  have le: "decisions_le cf (px_tables D x) (px_tables D y)"
    using y(2) t1 t2 by (auto simp: px_tables_def)
  then show ?thesis
    using y(1) res by (auto simp: px_le_def attempts_reserved_def decisions_le_def)
qed

lemma handle_existing_le:
  assumes env: "publish_env R D cf"
    and seen: "row_string cf i ''risk_decision_id'' \<noteq> [] \<Longrightarrow>
      reserved_id cf (px_tables D x) (sg_signal_id sg) = row_string cf i ''risk_decision_id''"
  shows "handle_existing_reservation cf a sg tr i x = (r, y) \<Longrightarrow> px_le cf D x y"
    and "replay_enriched_reservation cf a sg tr i x = (r, y) \<Longrightarrow> px_le cf D x y"
  using publish_approved_le [OF env seen]
  by (auto simp: handle_existing_reservation_def replay_enriched_reservation_def Let_def split: if_splits)

lemma publish_decision_le:
  assumes env: "publish_env R D cf" and d: "rd_signal_id d = sg_signal_id sg" "rd_id d \<noteq> []"
    and ex: "existing = handle_existing_reservation \<or> existing = replay_enriched_reservation"
    and run: "publish_decision existing cf a sg tr d x = (r, y)"
  shows "px_le cf D x y"
proof -
  obtain u w where u: "reserve_risk_decision cf d (rg_stamp (at_readings a)) (px_world x) = (u, w)" by force
  note le1 = px_le_world [OF reserve_le(1) [OF env u]]
  obtain g w2 where g: "get_reservation cf (rd_signal_id d) w = (g, w2)" by force
  have le2: "px_le cf D (x\<lparr>px_world := w\<rparr>) (x\<lparr>px_world := w2\<rparr>)"
    using px_le_world [of cf D "x\<lparr>px_world := w\<rparr>" w2] get_reservation_le [OF env g] by simp
  have "px_le cf D (x\<lparr>px_world := w\<rparr>) y" if "u = Inr True"
    using run u that reserve_le(2) [OF env u that d(2)] d
    by (intro publish_approved_le [OF env]) (auto simp: publish_decision_def px_tables_def)
  moreover have "px_le cf D (x\<lparr>px_world := w2\<rparr>) y" if "u = Inr False" "g = Inr (Some i)" for i
  proof -
    have run2: "existing cf a sg tr i (x\<lparr>px_world := w2\<rparr>) = (r, y)"
      using run u g that by (simp add: publish_decision_def)
    have seen: "row_string cf i ''risk_decision_id'' \<noteq> [] \<Longrightarrow>
      reserved_id cf (px_tables D (x\<lparr>px_world := w2\<rparr>)) (sg_signal_id sg) = row_string cf i ''risk_decision_id''"
      using get_reservation_seen [OF env] g that d(1) by (simp add: px_tables_def)
    show ?thesis
      using ex run2 handle_existing_le [OF env seen] by auto
  qed
  moreover have "y = x\<lparr>px_world := w\<rparr> \<or> y = x\<lparr>px_world := w2\<rparr>"
    if "u \<noteq> Inr True" "\<not> (u = Inr False \<and> (\<exists>i. g = Inr (Some i)))"
    using run u g that by (auto simp: publish_decision_def split: sum.splits option.splits bool.splits)
  ultimately show ?thesis
    using le1 le2 px_le_trans px_le_refl by metis
qed

lemma failure_publish_tables:
  assumes "producer_on D (fp_producer fp)" "fp_publish fp e t tgt src k v rs et ds w = (r, w')"
  shows "dy_tables D w' = dy_tables D w"
proof (cases "fp_producer fp")
  case None
  then show ?thesis using assms(2) by (simp add: fp_publish_def)
next
  case (Some p)
  obtain u w1 where u: "pr_produce p w tgt k (jc_dumps (fp_codec fp) (failure_envelope fp e t tgt src k v rs et ds)) [] = (u, w1)" by force
  have "dy_tables D w1 = dy_tables D w"
    using assms(1) Some u unfolding producer_on_def by (metis snd_conv)
  moreover have "w' = w1"
  proof (cases u)
    case (Inl x)
    then show ?thesis using assms(2) Some u by (cases x) (simp_all add: fp_publish_def)
  next
    case (Inr x)
    then show ?thesis using assms(2) Some u by (simp add: fp_publish_def)
  qed
  ultimately show ?thesis by simp
qed

lemma routing_tables:
  assumes "consumer_on D kc"
  shows "event_to_dlq kc e t et ds msg w = (r, w') \<Longrightarrow> dy_tables D w' = dy_tables D w"
    and "event_to_retry kc e t et ds msg w = (r, w') \<Longrightarrow> dy_tables D w' = dy_tables D w"
  using assms failure_publish_tables
  by (auto simp: event_to_dlq_def event_to_retry_def publish_dlq_def publish_retry_def consumer_on_def Let_def
      split: option.splits if_splits)

lemma route_le:
  assumes "\<And>w r w'. f w = (r, w') \<Longrightarrow> dy_tables D w' = dy_tables D w" "route f x = (r, y)"
  shows "px_le cf D x y"
proof -
  obtain r' w where f: "f (px_world x) = (r', w)" by force
  show ?thesis
    using assms(1) [OF f] assms(2) f px_le_world [of cf D x w] by (auto simp: route_def)
qed

lemma dlq_route_le:
  assumes "consumer_on D kc" "route (event_to_dlq kc e t et ds msg) x = (r, y)"
  shows "px_le cf D x y"
  by (rule route_le [OF routing_tables(1) [OF assms(1)] assms(2)])

lemma commit_le:
  assumes "consumer_on D kc" "commit kc msg x = (r, y)"
  shows "px_le cf D x y"
proof -
  obtain r' w where f: "kc_commit kc (px_world x) msg = (r', w)" by force
  have "dy_tables D w = dy_tables D (px_world x)"
    using assms(1) f unfolding consumer_on_def by (metis snd_conv)
  then show ?thesis
    using assms(2) f px_le_world [of cf D x w] by (auto simp: commit_def)
qed

lemma run_validation_le:
  assumes env: "publish_env R D cf" and run: "run_validation cf a sg x = Some (d, y)"
  shows "px_le cf D x y \<and> rd_signal_id d = sg_signal_id sg \<and> rd_id d = at_decision_id a"
proof -
  obtain s w where v: "validate_signal (pb_engine cf) (at_readings a) (at_decision_id a) sg (px_engine x, px_world x) = Some (d, s, w)"
      and y: "y = x\<lparr>px_engine := s, px_world := w\<rparr>"
    using run by (auto simp: run_validation_def split: option.splits)
  have ok: "dynamo_ok R D" and on: "engine_on D (pb_engine cf)" and R: "\<forall>t t'. R t t' \<longrightarrow> decisions_le cf t t'"
    using env by (simp_all add: publish_env_def)
  have tol: "tolerates (decisions_le cf) R (ks_table (rk_ks (pb_engine cf))) kill_switch_key"
    unfolding tolerates_def
  proof (intro conjI allI)
    show "reflp (decisions_le cf)" by (simp add: reflp_def)
    show "transp (decisions_le cf)" by (auto simp: transp_def intro: decisions_le_trans)
    show "R t t' \<longrightarrow> decisions_le cf t t'" for t t' using R by blast
    show "decisions_le cf t (tables_put t tbl kill_switch_key i)" for t tbl i
      by (rule decisions_le_put) (metis risk_keys_distinct(7))
  qed
  have "px_le cf D x y"
    using validate_signal_le [OF ok on tol v] y by (intro px_le_same_attempts) (simp_all add: px_tables_def)
  then show ?thesis
    using decision_identity [OF v] by simp
qed

lemma log_decision_le:
  assumes "publish_env R D cf"
  shows "px_le cf D x (x\<lparr>px_world := log_decision (pb_engine cf) d (px_world x)\<rparr>)"
proof -
  have "dy_tables D (log_decision (pb_engine cf) d (px_world x)) = dy_tables D (px_world x)"
    using assms by (auto simp: publish_env_def engine_on_def log_decision_def split: option.splits)
  then show ?thesis
    using px_le_world [of cf D x] by simp
qed

lemma consumers:
  assumes "publish_env R D cf"
  shows "consumer_on D (pb_consumer cf)" "consumer_on D (pb_enriched_consumer cf)"
  using assms by (simp_all add: publish_env_def)

text \<open>The lookup that starts an iteration.\<close>

lemma lookup_le:
  assumes env: "publish_env R D cf" and g: "get_reservation cf sid (px_world x) = (g, w)"
  shows "px_le cf D x (x\<lparr>px_world := w\<rparr>)"
    and "g = Inr (Some i) \<Longrightarrow> row_string cf i ''risk_decision_id'' \<noteq> [] \<Longrightarrow>
      reserved_id cf (px_tables D (x\<lparr>px_world := w\<rparr>)) sid = row_string cf i ''risk_decision_id''"
  using px_le_world [OF get_reservation_le [OF env g]] get_reservation_seen [OF env] g by (simp_all add: px_tables_def)

lemma pending_body_le:
  assumes env: "publish_env R D cf" and ids: "at_decision_id a \<noteq> []"
    and run: "pending_body_step cf a ev x = Some (r, y)"
  shows "px_le cf D x y"
proof -
  let ?sg = "se_signal ev" and ?kc = "pb_consumer cf"
  obtain g w where g: "get_reservation cf (sg_signal_id ?sg) (px_world x) = (g, w)" by force
  let ?x = "x\<lparr>px_world := w\<rparr>"
  note le1 = lookup_le(1) [OF env g]
  note rt = dlq_route_le [OF consumers(1) [OF env]]
  have "px_le cf D ?x y"
  proof (cases g)
    case (Inl e)
    then show ?thesis using run g by (simp add: pending_body_step_def Let_def)
  next
    case (Inr o')
    show ?thesis
    proof (cases o')
      case (Some i)
      obtain r' z where h: "handle_existing_reservation cf a ?sg (se_trace_id ev) i ?x = (r', z)" by force
      have "px_le cf D ?x z"
        by (rule handle_existing_le(1) [OF env _ h]) (use lookup_le(2) [OF env g] Inr Some in simp)
      moreover have "y = z"
        using run g h Inr Some by (auto simp: pending_body_step_def Let_def split: sum.splits)
      ultimately show ?thesis by simp
    next
      case None
      show ?thesis
      proof (cases "se_expires_at ev < rg_now (at_readings a)")
        case True
        then have "route (event_to_dlq ?kc (at_event_id a) (rg_stamp (at_readings a)) ''stale_signal'' [] (se_message ev))
            (?x\<lparr>px_world := log_decision (pb_engine cf) (expired_decision a ?sg True) (px_world ?x)\<rparr>) = (r, y)"
          using run g Inr None by (simp add: pending_body_step_def Let_def)
        then show ?thesis
          using rt log_decision_le [OF env, of ?x] px_le_trans by blast
      next
        case False
        then obtain d z where v: "run_validation cf a ?sg ?x = Some (d, z)"
          using run g Inr None by (auto simp: pending_body_step_def Let_def split: option.splits)
        note vd = run_validation_le [OF env v]
        obtain p z1 where p: "publish_decision handle_existing_reservation cf a ?sg (se_trace_id ev) d z = (p, z1)" by force
        have pl: "px_le cf D z z1"
          by (rule publish_decision_le [OF env _ _ _ p]) (use vd ids in auto)
        obtain q z2 where q: "route (event_to_dlq ?kc (at_event_id a) (rg_stamp (at_readings a)) ''stale_signal'' [] (se_message ev)) z = (q, z2)"
          by force
        have "y \<in> {z, z1, z2}"
          using run g Inr None False v p q by (auto simp: pending_body_step_def Let_def split: sum.splits if_splits)
        then show ?thesis
          using vd pl rt [OF q] px_le_trans by blast
      qed
    qed
  qed
  then show ?thesis
    using le1 px_le_trans by blast
qed

lemma enriched_body_le:
  assumes env: "publish_env R D cf" and ids: "at_decision_id a \<noteq> []"
    and run: "enriched_body_step cf a ev x = Some (r, y)"
  shows "px_le cf D x y"
proof -
  let ?kc = "pb_enriched_consumer cf"
  let ?sg = "signal_from_enriched (kc_codec ?kc) (ee_enriched ev)"
  obtain g w where g: "get_reservation cf (sg_signal_id ?sg) (px_world x) = (g, w)" by force
  let ?x = "x\<lparr>px_world := w\<rparr>"
  note le1 = lookup_le(1) [OF env g]
  note rt = dlq_route_le [OF consumers(2) [OF env]]
  have "px_le cf D ?x y"
  proof (cases g)
    case (Inl e)
    then show ?thesis using run g by (simp add: enriched_body_step_def Let_def)
  next
    case (Inr o')
    show ?thesis
    proof (cases o')
      case (Some i)
      have "replay_enriched_reservation cf a ?sg (ee_trace_id ev) i ?x = (r, y)"
        using run g Inr Some by (simp add: enriched_body_step_def Let_def)
      then show ?thesis
        by (rule handle_existing_le(2) [OF env, rotated]) (use lookup_le(2) [OF env g] Inr Some in simp)
    next
      case None
      show ?thesis
      proof (cases "ee_expires_at ev < rg_now (at_readings a)")
        case True
        obtain q z where q: "route (event_to_dlq ?kc (at_event_id a) (rg_stamp (at_readings a)) ''signal_expired'' [] (ee_message ev))
            (?x\<lparr>px_world := log_decision (pb_engine cf) (expired_decision a ?sg False) (px_world ?x)\<rparr>) = (q, z)" by force
        have "y = z"
          using run g Inr None True q by (auto simp: enriched_body_step_def Let_def split: sum.splits)
        then show ?thesis
          using rt [OF q] log_decision_le [OF env, of ?x] px_le_trans by blast
      next
        case False
        then obtain d z where v: "run_validation cf a ?sg ?x = Some (d, z)"
          using run g Inr None by (auto simp: enriched_body_step_def Let_def split: option.splits)
        note vd = run_validation_le [OF env v]
        have "y = z \<or> publish_decision replay_enriched_reservation cf a ?sg (ee_trace_id ev) (d\<lparr>rd_enriched := True\<rparr>) z = (r, y)"
          using run g Inr None False v by (auto simp: enriched_body_step_def Let_def split: if_splits)
        moreover have "px_le cf D z y"
          if "publish_decision replay_enriched_reservation cf a ?sg (ee_trace_id ev) (d\<lparr>rd_enriched := True\<rparr>) z = (r, y)"
          by (rule publish_decision_le [OF env _ _ _ that]) (use vd ids in auto)
        ultimately show ?thesis
          using vd px_le_trans by blast
      qed
    qed
  qed
  then show ?thesis
    using le1 px_le_trans by blast
qed

section \<open>Runs of the loops\<close>

datatype job = PendingJob attempt signal_event | EnrichedJob attempt enriched_event

fun job_attempt :: "job \<Rightarrow> attempt" where
  "job_attempt (PendingJob a _) = a"
| "job_attempt (EnrichedJob a _) = a"

fun run_job :: "'w pb_config \<Rightarrow> job \<Rightarrow> 'w px \<Rightarrow> 'w px option" where
  "run_job cf (PendingJob a ev) x = map_option snd (pending_iteration cf a ev x)"
| "run_job cf (EnrichedJob a ev) x = map_option snd (enriched_iteration cf a ev x)"

fun run_jobs :: "'w pb_config \<Rightarrow> job list \<Rightarrow> 'w px \<Rightarrow> 'w px option" where
  "run_jobs cf [] x = Some x"
| "run_jobs cf (j # js) x = (case run_job cf j x of None \<Rightarrow> None | Some x \<Rightarrow> run_jobs cf js x)"

lemma recovery_le:
  assumes env: "consumer_on D kc"
    and r: "route (event_to_retry kc e t et ds msg) x = (q, z)"
  shows "px_le cf D x z" "commit kc msg z = (u, v) \<Longrightarrow> px_le cf D x v"
proof -
  show z: "px_le cf D x z"
    by (rule route_le [OF routing_tables(2) [OF env] r])
  show "commit kc msg z = (u, v) \<Longrightarrow> px_le cf D x v"
    using commit_le [OF env] z px_le_trans by blast
qed

lemma run_job_le:
  assumes env: "publish_env R D cf" and ids: "at_decision_id (job_attempt j) \<noteq> []" and run: "run_job cf j x = Some y"
  shows "px_le cf D x y"
proof (cases j)
  case (PendingJob a ev)
  let ?kc = "pb_consumer cf" and ?msg = "se_message ev"
  note on = consumers(1) [OF env]
  have it: "\<exists>c. pending_iteration cf a ev x = Some (c, y)"
    using run PendingJob by auto
  obtain r z where b: "pending_body_step cf a ev x = Some (r, z)"
    using it by (auto simp: pending_iteration_def Let_def split: option.splits)
  have bl: "px_le cf D x z"
    by (rule pending_body_le [OF env _ b]) (use ids PendingJob in simp)
  obtain c z1 where c: "commit ?kc ?msg z = (c, z1)" by force
  obtain q z2 where q: "route (event_to_retry ?kc (at_event_id a) (rg_stamp (at_readings a)) ''risk_processing_failed'' [] ?msg) z = (q, z2)" by force
  obtain q' z3 where q': "route (event_to_retry ?kc (at_event_id a) (rg_stamp (at_readings a)) ''risk_processing_failed'' [] ?msg) z1 = (q', z3)" by force
  obtain c2 z4 where c2: "commit ?kc ?msg z2 = (c2, z4)" by force
  obtain c3 z5 where c3: "commit ?kc ?msg z3 = (c3, z5)" by force
  have "y \<in> {z, z1, z2, z3, z4, z5}"
    using it b c q q' c2 c3 by (auto simp: pending_iteration_def Let_def split: sum.splits bool.splits)
  moreover have "px_le cf D z z1" "px_le cf D z z2" "px_le cf D z z4"
    using commit_le [OF on c] recovery_le(1) [OF on q] recovery_le(2) [OF on q c2] by blast+
  moreover have "px_le cf D z1 z3" "px_le cf D z1 z5"
    using recovery_le(1) [OF on q'] recovery_le(2) [OF on q' c3] by blast+
  ultimately show ?thesis
    using bl px_le_trans [of cf D] by (elim insertE) blast+
next
  case (EnrichedJob a ev)
  let ?kc = "pb_enriched_consumer cf" and ?msg = "ee_message ev"
  note on = consumers(2) [OF env]
  have it: "\<exists>c. enriched_iteration cf a ev x = Some (c, y)"
    using run EnrichedJob by auto
  obtain r z where b: "enriched_body_step cf a ev x = Some (r, z)"
    using it by (auto simp: enriched_iteration_def Let_def split: option.splits)
  have bl: "px_le cf D x z"
    by (rule enriched_body_le [OF env _ b]) (use ids EnrichedJob in simp)
  obtain c z1 where c: "commit ?kc ?msg z = (c, z1)" by force
  obtain q z2 where q: "route (event_to_retry ?kc (at_event_id a) (rg_stamp (at_readings a)) ''enriched_processing_failed'' [] ?msg) z = (q, z2)" by force
  obtain q' z3 where q': "route (event_to_retry ?kc (at_event_id a) (rg_stamp (at_readings a)) ''enriched_processing_failed'' [] ?msg) z1 = (q', z3)" by force
  obtain c2 z4 where c2: "commit ?kc ?msg z2 = (c2, z4)" by force
  obtain c3 z5 where c3: "commit ?kc ?msg z3 = (c3, z5)" by force
  have "y \<in> {z, z1, z2, z3, z4, z5}"
    using it b c q q' c2 c3 by (auto simp: enriched_iteration_def Let_def split: sum.splits)
  moreover have "px_le cf D z z1" "px_le cf D z z2" "px_le cf D z z4"
    using commit_le [OF on c] recovery_le(1) [OF on q] recovery_le(2) [OF on q c2] by blast+
  moreover have "px_le cf D z1 z3" "px_le cf D z1 z5"
    using recovery_le(1) [OF on q'] recovery_le(2) [OF on q' c3] by blast+
  ultimately show ?thesis
    using bl px_le_trans [of cf D] by (elim insertE) blast+
qed

lemma run_jobs_le:
  assumes env: "publish_env R D cf"
  shows "\<forall>j \<in> set js. at_decision_id (job_attempt j) \<noteq> [] \<Longrightarrow> run_jobs cf js x = Some y \<Longrightarrow> px_le cf D x y"
proof (induction js arbitrary: x)
  case (Cons j js)
  then obtain z where j: "run_job cf j x = Some z" and rest: "run_jobs cf js z = Some y"
    by (auto split: option.splits)
  have "px_le cf D x z"
    by (rule run_job_le [OF env _ j]) (use Cons.prems in simp)
  moreover have "px_le cf D z y"
    using Cons.IH [OF _ rest] Cons.prems by simp
  ultimately show ?case
    by (rule px_le_trans)
qed simp

text \<open>
  C3 A signal is published under one decision: over any sequence of iterations of the two loops, with
  replays, lost races and failures of Kafka, while other replicas change the tables, all approvals
  handed to the publisher for a signal carry the decision its reservation holds.
\<close>

theorem one_decision_per_signal:
  assumes env: "publish_env R D cf" and ids: "\<forall>j \<in> set js. at_decision_id (job_attempt j) \<noteq> []"
    and start: "px_attempts x = []" and run: "run_jobs cf js x = Some y"
    and pub: "(sid, d1) \<in> set (px_attempts y)" "(sid, d2) \<in> set (px_attempts y)"
  shows "d1 = d2 \<and> reserved_id cf (dy_tables D (px_world y)) sid = d1"
proof -
  have "attempts_reserved cf D x"
    using start by (simp add: attempts_reserved_def)
  then have "attempts_reserved cf D y"
    using run_jobs_le [OF env ids run] by (simp add: px_le_def)
  then have "\<forall>(s, d) \<in> set (px_attempts y). reserved_id cf (px_tables D y) s = d"
    by (auto simp: attempts_reserved_def)
  from bspec [OF this pub(1)] bspec [OF this pub(2)] show ?thesis
    by (simp add: px_tables_def)
qed

definition demo_mem_producer :: "mem producer" where
  "demo_mem_producer = \<lparr>pr_produce = (\<lambda>w t k v h. (Inr (), w)), pr_flush = (\<lambda>w. (0, w))\<rparr>"

definition demo_publisher :: "mem approved_publisher" where
  "demo_publisher = \<lparr>pu_codec = demo_codec, pu_producer = Some demo_mem_producer, pu_ack = (\<lambda>w. (True, w)),
    pu_threshold = 3, pu_payload = []\<rparr>"

text \<open>\<open>routed\<close>: whether the failure publisher has been started.\<close>

definition demo_mem_consumer :: "bool \<Rightarrow> mem kconsumer" where
  "demo_mem_consumer routed =
    \<lparr>kc_codec = demo_codec,
     kc_failure = (if routed then Some \<lparr>fp_codec = demo_codec, fp_producer = Some demo_mem_producer,
       fp_service = ''risk_engine'', fp_max_retry = 3\<rparr> else None),
     kc_commit = (\<lambda>w m. (Inr (), w))\<rparr>"

definition demo_pb :: "mem dynamo option \<Rightarrow> mem pb_config" where
  "demo_pb D = \<lparr>pb_engine = demo_engine_on, pb_dynamo = D, pb_table = ''risk'', pb_num_str = (\<lambda>x. []),
    pb_json = (\<lambda>d. []), pb_publisher = demo_publisher, pb_consumer = demo_mem_consumer False,
    pb_enriched_consumer = demo_mem_consumer False\<rparr>"

definition demo_event :: signal_event where
  "demo_event = \<lparr>se_signal = demo_path_signal True, se_trace_id = ''t'', se_strategy_id = ''s'', se_product_type = ''MIS'',
    se_expires_at = 130, se_message = hp_message demo_hop\<rparr>"

definition demo_attempt :: attempt where
  "demo_attempt = \<lparr>at_readings = demo_readings, at_decision_id = ''d9'', at_event_id = ''e'', at_trace = ''t''\<rparr>"

definition demo_px :: "mem px" where
  "demo_px = \<lparr>px_engine = demo_rk_state, px_halt = new_halt None, px_attempts = [],
    px_world = [((''risk'', risk_decision_key ''uuid''),
      [''risk_decision_id'' \<mapsto> S ''d0'', ''publish_status'' \<mapsto> S ''PENDING''])]\<rparr>"

lemma demo_publish_env: "publish_env (=) mem_dynamo (demo_pb (Some mem_dynamo))"
proof -
  have "engine_on mem_dynamo demo_engine_on"
    by (rule demo_engine_on)
  moreover have "\<exists>t. decisions_le cf t (dy_tables mem_dynamo w') \<and> r = t tbl k"
    if "dy_get mem_dynamo w tbl k = (Inr r, w')" for cf :: "mem pb_config" and w tbl k r w'
    using that by (intro exI [of _ "mem_tables w'"]) (auto simp: mem_dynamo_def mem_get_def)
  ultimately show ?thesis
    unfolding publish_env_def demo_pb_def using mem_dynamo_ok
    by (simp add: demo_publisher_def demo_mem_producer_def producer_on_def consumer_on_def demo_mem_consumer_def)
qed

lemma demo_jobs: "\<exists>y. run_jobs (demo_pb (Some mem_dynamo)) [PendingJob demo_attempt demo_event, PendingJob demo_attempt demo_event] demo_px = Some y
  \<and> px_attempts y = [(''uuid'', ''d0'')]"
  by (simp add: pending_iteration_def pending_body_step_def get_reservation_def demo_pb_def demo_px_def demo_event_def
      demo_path_signal_def demo_attempt_def mem_simps handle_existing_reservation_def row_string_def attr_string_def
      lowlevel_def publish_approved_signal_def publish_approval_def demo_publisher_def demo_mem_producer_def
      mark_published_def risk_decision_key_def published_updates_def updated_row_def commit_def demo_mem_consumer_def
      Let_def)

theorem one_decision_per_signal_witness:
  "\<exists>y. run_jobs (demo_pb (Some mem_dynamo)) [PendingJob demo_attempt demo_event, PendingJob demo_attempt demo_event] demo_px = Some y \<and>
    px_attempts y = [(''uuid'', ''d0'')] \<and> reserved_id (demo_pb (Some mem_dynamo)) (dy_tables mem_dynamo (px_world y)) ''uuid'' = ''d0''"
proof -
  obtain y where y: "run_jobs (demo_pb (Some mem_dynamo)) [PendingJob demo_attempt demo_event, PendingJob demo_attempt demo_event] demo_px = Some y"
      "px_attempts y = [(''uuid'', ''d0'')]"
    using demo_jobs by blast
  have "px_attempts demo_px = []" by (simp add: demo_px_def)
  from one_decision_per_signal [OF demo_publish_env _ this y(1), of "''uuid''" "''d0''" "''d0''"] y show ?thesis
    by (simp add: demo_attempt_def)
qed

section \<open>Failures that could not be routed\<close>

text \<open>
  A message whose processing failed and that the failure publisher did not accept stays uncommitted
  in the pending loop, so Kafka delivers it again; the enriched loop commits it all the same, and the
  signal is in no topic any more.
\<close>

theorem unrouted_failure_lost_in_enriched_loop:
  assumes p: "pending_body_step cf a ev x = Some (Inl e, y)"
      "route (event_to_retry (pb_consumer cf) (at_event_id a) (rg_stamp (at_readings a)) ''risk_processing_failed'' [] (se_message ev)) y = (Inr False, z)"
    and q: "enriched_body_step cf a ev' x = Some (Inl e', y')"
      "route (event_to_retry (pb_enriched_consumer cf) (at_event_id a) (rg_stamp (at_readings a)) ''enriched_processing_failed'' [] (ee_message ev')) y' = (Inr False, z')"
      "commit (pb_enriched_consumer cf) (ee_message ev') z' = (Inr (), v)"
  shows "pending_iteration cf a ev x = Some (False, z) \<and> enriched_iteration cf a ev' x = Some (True, v)"
  using assms by (simp add: pending_iteration_def enriched_iteration_def Let_def)

definition demo_enriched_event :: enriched_event where
  "demo_enriched_event = decode_enriched (hp_message demo_hop) (degraded_enrichment (demo_path_signal True) [] [] [] None 0)"

theorem unrouted_failure_lost_in_enriched_loop_witness:
  "pending_iteration (demo_pb None) demo_attempt demo_event demo_px = Some (False, demo_px) \<and>
   enriched_iteration (demo_pb None) demo_attempt demo_enriched_event demo_px = Some (True, demo_px)"
proof (rule unrouted_failure_lost_in_enriched_loop)
  show "pending_body_step (demo_pb None) demo_attempt demo_event demo_px = Some (Inl RuntimeError, demo_px)"
    by (simp add: pending_body_step_def get_reservation_def demo_pb_def)
  show "enriched_body_step (demo_pb None) demo_attempt demo_enriched_event demo_px = Some (Inl RuntimeError, demo_px)"
    by (simp add: enriched_body_step_def get_reservation_def demo_pb_def)
qed (simp_all add: route_def event_to_retry_def demo_pb_def demo_mem_consumer_def commit_def)

end
