(* ===== verification/ExitModels.thy ===== *)
theory ExitModels
  imports OrderManager
begin

text \<open>
  \<open>services/execution_engine/exit/exit_models.py\<close> and \<open>exit/exit_policy_config.py\<close>: the exit
  vocabulary, the requests the exit engines route, and the side-aware price arithmetic of the exit
  policy tiers with the validation of their configuration.
\<close>

section \<open>Enumerations\<close>

datatype exit_trigger = STOP_LOSS | TAKE_PROFIT | MIS_CLOSE | KILL_SWITCH | TRAILING | BREAKEVEN
  | PARTIAL_PROFIT | FINAL_TARGET | TIME_EXIT

fun exit_trigger_value :: "exit_trigger \<Rightarrow> str" where
  "exit_trigger_value STOP_LOSS = ''STOP_LOSS''"
| "exit_trigger_value TAKE_PROFIT = ''TAKE_PROFIT''"
| "exit_trigger_value MIS_CLOSE = ''MIS_CLOSE''"
| "exit_trigger_value KILL_SWITCH = ''KILL_SWITCH''"
| "exit_trigger_value TRAILING = ''TRAILING''"
| "exit_trigger_value BREAKEVEN = ''BREAKEVEN''"
| "exit_trigger_value PARTIAL_PROFIT = ''PARTIAL_PROFIT''"
| "exit_trigger_value FINAL_TARGET = ''FINAL_TARGET''"
| "exit_trigger_value TIME_EXIT = ''TIME_EXIT''"

definition exit_triggers :: "exit_trigger list" where
  "exit_triggers = [STOP_LOSS, TAKE_PROFIT, MIS_CLOSE, KILL_SWITCH, TRAILING, BREAKEVEN,
    PARTIAL_PROFIT, FINAL_TARGET, TIME_EXIT]"

interpretation exit_trigger_enum: str_enum exit_trigger_value exit_triggers
proof
  show "x = y" if "exit_trigger_value x = exit_trigger_value y" for x y
    using that by (cases x; cases y) simp_all
  show "x \<in> set exit_triggers" for x
    by (cases x) (simp_all add: exit_triggers_def)
qed

section \<open>Exit policies and requests\<close>

record trade_exit_policy =
  tp_policy_id :: str
  tp_symbol :: str
  tp_market :: str
  tp_direction :: str
  tp_entry_price :: rat
  tp_signed_quantity :: rat
  tp_stop_price :: rat
  tp_target_1 :: "rat option"
  tp_target_2 :: "rat option"
  tp_final_target :: "rat option"
  tp_breakeven_trigger :: "rat option"
  tp_profit_lock_trigger :: "rat option"
  tp_tier :: "str option"
  tp_atr_at_entry :: "rat option"
  tp_attached_at :: rat
  tp_version :: int

definition policy_close_side :: "trade_exit_policy \<Rightarrow> str" where
  "policy_close_side p = (if tp_direction p = ''LONG'' then ''SELL'' else ''BUY'')"

definition policy_close_qty :: "trade_exit_policy \<Rightarrow> rat" where
  "policy_close_qty p = \<bar>tp_signed_quantity p\<bar>"

text \<open>The field validators; pydantic raises one \<open>ValidationError\<close>, a \<open>ValueError\<close>.\<close>

definition validate_exit_policy :: "trade_exit_policy \<Rightarrow> trade_exit_policy res" where
  "validate_exit_policy p =
    (if (tp_direction p = ''LONG'' \<or> tp_direction p = ''SHORT'') \<and> \<not> tp_stop_price p \<le> 0 \<and> \<not> tp_entry_price p \<le> 0
     then Inr p else Inl ValueError)"

record exit_request =
  er_exit_id :: str
  er_symbol :: str
  er_market :: str
  er_position_direction :: str
  er_close_side :: str
  er_close_qty :: rat
  er_trigger :: exit_trigger
  er_order_type :: str
  er_exit_price :: "rat option"
  er_product_type :: str
  er_is_kill_switch :: bool
  er_avg_entry_price :: rat

definition validate_exit_request :: "exit_request \<Rightarrow> exit_request res" where
  "validate_exit_request q =
    (if \<not> er_close_qty q \<le> 0 \<and> (er_close_side q = ''BUY'' \<or> er_close_side q = ''SELL'')
     then Inr q else Inl ValueError)"

definition make_exit_id :: "str \<Rightarrow> str \<Rightarrow> exit_trigger \<Rightarrow> str \<Rightarrow> str" where
  "make_exit_id symbol mkt trigger session_date =
    ''EXIT-'' @ symbol @ ''-'' @ mkt @ ''-'' @ exit_trigger_value trigger @ ''-'' @ session_date"

definition exit_request_from_position :: "str \<Rightarrow> str \<Rightarrow> str \<Rightarrow> rat \<Rightarrow> exit_trigger \<Rightarrow> str \<Rightarrow> rat
    \<Rightarrow> rat option \<Rightarrow> bool \<Rightarrow> exit_request res" where
  "exit_request_from_position symbol mkt dir signed_quantity trigger session_date avg_entry
     exit_price is_kill_switch =
    validate_exit_request
      \<lparr>er_exit_id = make_exit_id symbol mkt trigger session_date, er_symbol = symbol, er_market = mkt,
       er_position_direction = dir,
       er_close_side = (if dir = ''LONG'' then ''SELL'' else ''BUY''),
       er_close_qty = \<bar>signed_quantity\<bar>, er_trigger = trigger,
       er_order_type = (if exit_price \<noteq> None then ''LIMIT'' else ''MARKET''),
       er_exit_price = exit_price, er_product_type = ''MIS'', er_is_kill_switch = is_kill_switch,
       er_avg_entry_price = avg_entry\<rparr>"

section \<open>Tiers\<close>

text \<open>\<open>_direction_sign\<close> raises on anything but the two directions.\<close>

definition direction_sign :: "str \<Rightarrow> rat res" where
  "direction_sign d = (if d = ''LONG'' then Inr 1 else if d = ''SHORT'' then Inr (- 1) else Inl ValueError)"

record profit_lock_tier =
  pl_trigger_pct :: rat
  pl_lock_pct :: rat

record exit_tier_policy =
  et_initial_stop_loss_pct :: rat
  et_atr_stop_multiplier :: rat
  et_atr_trail_multiplier :: rat
  et_target_1_pct :: rat
  et_target_2_pct :: rat
  et_final_target_pct :: rat
  et_breakeven_trigger_pct :: rat
  et_profit_lock_tiers :: "profit_lock_tier list"
  et_partial_profit_trigger_pct :: rat
  et_partial_profit_qty_pct :: rat
  et_trailing_activation_pct :: rat
  et_trailing_stop_pct :: rat

text \<open>The field constraints, \<open>_tiers_ascending\<close> and \<open>_targets_ordered\<close>.\<close>

definition tier_fields_ok :: "exit_tier_policy \<Rightarrow> bool" where
  "tier_fields_ok t \<longleftrightarrow>
    0 < et_initial_stop_loss_pct t \<and> 0 < et_atr_stop_multiplier t \<and> 0 < et_atr_trail_multiplier t \<and>
    0 < et_target_1_pct t \<and> 0 < et_target_2_pct t \<and> 0 < et_final_target_pct t \<and>
    0 < et_breakeven_trigger_pct t \<and>
    list_all (\<lambda>l. 0 < pl_trigger_pct l \<and> 0 \<le> pl_lock_pct l) (et_profit_lock_tiers t) \<and>
    0 < et_partial_profit_trigger_pct t \<and>
    0 < et_partial_profit_qty_pct t \<and> et_partial_profit_qty_pct t \<le> 100 \<and>
    0 < et_trailing_activation_pct t \<and> 0 < et_trailing_stop_pct t"

definition tiers_ascending :: "profit_lock_tier list \<Rightarrow> bool" where
  "tiers_ascending ls \<longleftrightarrow>
    map pl_trigger_pct ls = sort (map pl_trigger_pct ls) \<and> map pl_lock_pct ls = sort (map pl_lock_pct ls)"

definition targets_ordered :: "exit_tier_policy \<Rightarrow> bool" where
  "targets_ordered t \<longleftrightarrow> et_target_1_pct t \<le> et_target_2_pct t \<and> et_target_2_pct t \<le> et_final_target_pct t"

definition tier_valid :: "exit_tier_policy \<Rightarrow> bool" where
  "tier_valid t \<longleftrightarrow> tier_fields_ok t \<and> tiers_ascending (et_profit_lock_tiers t) \<and> targets_ordered t"

definition favourable :: "rat \<Rightarrow> str \<Rightarrow> rat \<Rightarrow> rat res" where
  "favourable entry d pct = res_bind (direction_sign d) (\<lambda>s. Inr (entry * (1 + s * pct / 100)))"

definition adverse :: "rat \<Rightarrow> str \<Rightarrow> rat \<Rightarrow> rat res" where
  "adverse entry d pct = res_bind (direction_sign d) (\<lambda>s. Inr (entry * (1 - s * pct / 100)))"

definition initial_stop_price :: "exit_tier_policy \<Rightarrow> rat \<Rightarrow> str \<Rightarrow> rat option \<Rightarrow> rat res" where
  "initial_stop_price t entry d atr =
    (case atr of
       Some a \<Rightarrow>
         if 0 < a then res_bind (direction_sign d) (\<lambda>s. Inr (entry - s * et_atr_stop_multiplier t * a))
         else adverse entry d (et_initial_stop_loss_pct t)
     | None \<Rightarrow> adverse entry d (et_initial_stop_loss_pct t))"

text \<open>A missing dictionary key raises \<open>KeyError\<close>.\<close>

definition target_price :: "exit_tier_policy \<Rightarrow> rat \<Rightarrow> str \<Rightarrow> str \<Rightarrow> rat res" where
  "target_price t entry d which =
    res_bind (of_opt KeyError (map_of [(''1'', et_target_1_pct t), (''2'', et_target_2_pct t),
        (''final'', et_final_target_pct t)] which))
      (favourable entry d)"

definition breakeven_trigger_price :: "exit_tier_policy \<Rightarrow> rat \<Rightarrow> str \<Rightarrow> rat res" where
  "breakeven_trigger_price t entry d = favourable entry d (et_breakeven_trigger_pct t)"

definition partial_trigger_price :: "exit_tier_policy \<Rightarrow> rat \<Rightarrow> str \<Rightarrow> rat res" where
  "partial_trigger_price t entry d = favourable entry d (et_partial_profit_trigger_pct t)"

definition trailing_activation_price :: "exit_tier_policy \<Rightarrow> rat \<Rightarrow> str \<Rightarrow> rat res" where
  "trailing_activation_price t entry d = favourable entry d (et_trailing_activation_pct t)"

definition trailing_stop_from :: "exit_tier_policy \<Rightarrow> rat \<Rightarrow> str \<Rightarrow> rat option \<Rightarrow> rat res" where
  "trailing_stop_from t best d atr =
    (case atr of
       Some a \<Rightarrow>
         if 0 < a then res_bind (direction_sign d) (\<lambda>s. Inr (best - s * et_atr_trail_multiplier t * a))
         else adverse best d (et_trailing_stop_pct t)
     | None \<Rightarrow> adverse best d (et_trailing_stop_pct t))"

text \<open>The division by a zero entry price raises.\<close>

definition favourable_move_pct :: "rat \<Rightarrow> rat \<Rightarrow> str \<Rightarrow> rat res" where
  "favourable_move_pct entry last_price d =
    res_bind (direction_sign d)
      (\<lambda>s. if entry = 0 then Inl OtherError else Inr (s * (last_price - entry) / entry * 100))"

text \<open>The loop of \<open>profit_lock_stop\<close>, with the last armed tier so far.\<close>

fun armed_tier :: "rat \<Rightarrow> profit_lock_tier option \<Rightarrow> profit_lock_tier list \<Rightarrow> profit_lock_tier option" where
  "armed_tier move armed [] = armed"
| "armed_tier move armed (l # ls) =
    (if pl_trigger_pct l \<le> move + EPS then armed_tier move (Some l) ls else armed)"

definition profit_lock_stop :: "exit_tier_policy \<Rightarrow> rat \<Rightarrow> str \<Rightarrow> rat \<Rightarrow> rat option res" where
  "profit_lock_stop t entry d move =
    (case armed_tier move None (et_profit_lock_tiers t) of
       None \<Rightarrow> Inr None
     | Some l \<Rightarrow> res_bind (favourable entry d (pl_lock_pct l)) (\<lambda>p. Inr (Some p)))"

definition tighter_stop :: "rat option \<Rightarrow> rat \<Rightarrow> str \<Rightarrow> rat" where
  "tighter_stop existing candidate d =
    (case existing of
       None \<Rightarrow> candidate
     | Some e \<Rightarrow> if d = ''LONG'' then max e candidate else min e candidate)"

section \<open>Timing\<close>

text \<open>
  \<open>int(s)\<close> on a string: blanks around it, a sign, ASCII digits in groups joined by single
  underscores.  Other decimal digits of Unicode are left out.
\<close>

definition digit_value :: "char \<Rightarrow> int option" where
  "digit_value c = (let k = (of_char c :: int) in if 48 \<le> k \<and> k \<le> 57 then Some (k - 48) else None)"

fun digits_int :: "int \<Rightarrow> bool \<Rightarrow> str \<Rightarrow> int option" where
  "digits_int acc ended [] = (if ended then Some acc else None)"
| "digits_int acc ended (c # cs) =
    (case digit_value c of
       Some d \<Rightarrow> digits_int (acc * 10 + d) True cs
     | None \<Rightarrow> if c = CHR ''_'' \<and> ended then digits_int acc False cs else None)"

definition py_int_str :: "str \<Rightarrow> int option" where
  "py_int_str s =
    (case py_strip s of
       [] \<Rightarrow> None
     | c # cs \<Rightarrow>
        if c = CHR ''-'' then map_option uminus (digits_int 0 False cs)
        else if c = CHR ''+'' then digits_int 0 False cs
        else digits_int 0 False (c # cs))"

text \<open>\<open>s.split(":")\<close> unpacked into two names: exactly one colon.  A time is its minutes since midnight.\<close>

fun split_colon :: "str \<Rightarrow> str list" where
  "split_colon [] = [[]]"
| "split_colon (c # cs) =
    (if c = CHR '':'' then [] # split_colon cs
     else (case split_colon cs of [] \<Rightarrow> [[c]] | w # ws \<Rightarrow> (c # w) # ws))"

definition parse_hhmm :: "str \<Rightarrow> int res" where
  "parse_hhmm s =
    (case split_colon s of
       [hh, mm] \<Rightarrow>
         (case (py_int_str hh, py_int_str mm) of
            (Some h, Some m) \<Rightarrow>
              if 0 \<le> h \<and> h \<le> 23 \<and> 0 \<le> m \<and> m \<le> 59 then Inr (h * 60 + m) else Inl RuntimeError
          | _ \<Rightarrow> Inl RuntimeError)
     | _ \<Rightarrow> Inl RuntimeError)"

record exit_timing =
  xt_no_new_entry_after :: str
  xt_time_exit_after :: str
  xt_mis_square_off :: str
  xt_square_off_deadline :: str
  xt_broker_auto_square_off :: str

definition default_timing :: exit_timing where
  "default_timing = \<lparr>xt_no_new_entry_after = ''14:45'', xt_time_exit_after = ''14:55'',
    xt_mis_square_off = ''15:05'', xt_square_off_deadline = ''15:10'', xt_broker_auto_square_off = ''15:15''\<rparr>"

definition timing_keys :: "exit_timing \<Rightarrow> str list" where
  "timing_keys t = [xt_no_new_entry_after t, xt_time_exit_after t, xt_mis_square_off t,
    xt_square_off_deadline t, xt_broker_auto_square_off t]"

fun parse_all :: "str list \<Rightarrow> int list res" where
  "parse_all [] = Inr []"
| "parse_all (s # ss) = res_bind (parse_hhmm s) (\<lambda>x. res_bind (parse_all ss) (\<lambda>xs. Inr (x # xs)))"

definition validate_timing :: "exit_timing \<Rightarrow> unit res" where
  "validate_timing t =
    res_bind (parse_all (timing_keys t)) (\<lambda>mins. if mins = sort mins then Inr () else Inl RuntimeError)"

section \<open>The configuration\<close>

record exit_policy_config =
  xc_mode :: str
  xc_live_trading_enabled :: bool
  xc_timing :: exit_timing
  xc_default_tier :: str
  xc_tiers :: "(str \<times> exit_tier_policy) list"
  xc_symbol_tiers :: "(str \<times> str) list"

text \<open>
  \<open>ExitPolicyConfigError\<close> is a \<open>RuntimeError\<close>, so it leaves the validators at once; the failures of
  fields and tiers are collected into one \<open>ValidationError\<close>.
\<close>

definition validate_coherence :: "exit_policy_config \<Rightarrow> unit res" where
  "validate_coherence c =
    (if xc_mode c = ''paper'' \<and> xc_live_trading_enabled c then Inl RuntimeError
     else if map_of (xc_tiers c) (xc_default_tier c) = None then Inl RuntimeError
     else if list_ex (\<lambda>(_, tier). map_of (xc_tiers c) tier = None) (xc_symbol_tiers c) then Inl RuntimeError
     else Inr ())"

definition config_from_dict :: "exit_policy_config \<Rightarrow> exit_policy_config res" where
  "config_from_dict c =
    res_bind (validate_timing (xc_timing c)) (\<lambda>_.
      if \<not> (xc_mode c = ''paper'' \<or> xc_mode c = ''live'') \<or> \<not> list_all (\<lambda>(_, t). tier_valid t) (xc_tiers c)
      then Inl ValueError
      else res_bind (validate_coherence c) (\<lambda>_. Inr c))"

definition tier_name_for :: "exit_policy_config \<Rightarrow> str \<Rightarrow> str" where
  "tier_name_for c symbol = opt_default (xc_default_tier c) (map_of (xc_symbol_tiers c) symbol)"

definition resolve_tier :: "exit_policy_config \<Rightarrow> str \<Rightarrow> exit_tier_policy res" where
  "resolve_tier c symbol = of_opt KeyError (map_of (xc_tiers c) (tier_name_for c symbol))"

section \<open>Accepted configurations\<close>

lemma config_accepted:
  assumes "config_from_dict c0 = Inr c"
  shows "c = c0" "list_all (\<lambda>(_, t). tier_valid t) (xc_tiers c)" "validate_coherence c = Inr ()"
    "validate_timing (xc_timing c) = Inr ()"
  using assms by (auto simp: config_from_dict_def res_bind_Inr_iff split: if_splits)

lemma resolve_tier_total:
  assumes "validate_coherence c = Inr ()"
  shows "\<exists>t. resolve_tier c symbol = Inr t"
proof (cases "map_of (xc_symbol_tiers c) symbol")
  case None
  then show ?thesis
    using assms by (auto simp: resolve_tier_def tier_name_for_def validate_coherence_def split: if_splits)
next
  case (Some tier)
  then have "(symbol, tier) \<in> set (xc_symbol_tiers c)"
    by (rule map_of_SomeD)
  then have "map_of (xc_tiers c) tier \<noteq> None"
    using assms by (auto simp: validate_coherence_def list_ex_iff split: if_splits)
  then show ?thesis
    using Some by (auto simp: resolve_tier_def tier_name_for_def)
qed

lemma resolved_tier_valid:
  assumes "list_all (\<lambda>(_, t). tier_valid t) (xc_tiers c)" "resolve_tier c symbol = Inr t"
  shows "tier_valid t"
  using assms by (auto simp: resolve_tier_def list_all_iff dest!: map_of_SomeD)

section \<open>The side of a price level\<close>

lemma direction_sign_cases:
  assumes "direction_sign d = Inr s"
  obtains "d = ''LONG''" "s = 1" | "d = ''SHORT''" "s = - 1"
  using assms by (auto simp: direction_sign_def split: if_splits)

lemma favourable_eq:
  "direction_sign d = Inr s \<Longrightarrow> favourable entry d pct = Inr (entry + s * (entry * pct / 100))"
  by (simp add: favourable_def algebra_simps)

lemma adverse_eq:
  "direction_sign d = Inr s \<Longrightarrow> adverse entry d pct = Inr (entry - s * (entry * pct / 100))"
  by (simp add: adverse_def algebra_simps)

lemma sign_square: "direction_sign d = Inr s \<Longrightarrow> s * (s * x) = x" for x :: rat
  by (auto elim: direction_sign_cases)

lemma signed_favourable:
  "direction_sign d = Inr s \<Longrightarrow> favourable entry d pct = Inr p \<Longrightarrow> s * p = s * entry + entry * pct / 100"
  by (auto simp: favourable_eq distrib_left sign_square)

lemma signed_adverse:
  "direction_sign d = Inr s \<Longrightarrow> adverse entry d pct = Inr p \<Longrightarrow> s * p = s * entry - entry * pct / 100"
  by (auto simp: adverse_eq right_diff_distrib sign_square)

lemma initial_stop_side:
  assumes t: "tier_valid t" and s: "direction_sign d = Inr s" and e: "0 < entry"
  shows "\<exists>stop. initial_stop_price t entry d atr = Inr stop \<and> s * stop < s * entry"
proof (cases "\<exists>a. atr = Some a \<and> 0 < a")
  case True
  then obtain a where a: "atr = Some a" "0 < a" by blast
  have "s * (entry - s * et_atr_stop_multiplier t * a) = s * entry - et_atr_stop_multiplier t * a"
    using sign_square [OF s, of "et_atr_stop_multiplier t * a"] by (simp add: algebra_simps)
  moreover have "0 < et_atr_stop_multiplier t * a"
    using t a by (simp add: tier_valid_def tier_fields_ok_def)
  ultimately show ?thesis
    using a s by (simp add: initial_stop_price_def)
next
  case False
  then have "initial_stop_price t entry d atr = adverse entry d (et_initial_stop_loss_pct t)"
    by (auto simp: initial_stop_price_def split: option.splits)
  moreover have "0 < entry * et_initial_stop_loss_pct t / 100"
    using t e by (simp add: tier_valid_def tier_fields_ok_def)
  moreover obtain p where p: "adverse entry d (et_initial_stop_loss_pct t) = Inr p"
    by (simp add: adverse_eq [OF s])
  ultimately show ?thesis
    using signed_adverse [OF s p] by auto
qed

lemma target_prices:
  "target_price t entry d ''1'' = favourable entry d (et_target_1_pct t)"
  "target_price t entry d ''2'' = favourable entry d (et_target_2_pct t)"
  "target_price t entry d ''final'' = favourable entry d (et_final_target_pct t)"
  by (simp_all add: target_price_def)

section \<open>The profit-lock ladder\<close>

text \<open>The loop finds the last tier whose trigger has been reached.\<close>

lemma armed_tier_filter:
  assumes "sorted (map pl_trigger_pct ls)"
  shows "armed_tier move armed ls =
    (let reached = filter (\<lambda>l. pl_trigger_pct l \<le> move + EPS) ls
     in if reached = [] then armed else Some (last reached))"
  using assms
proof (induction ls arbitrary: armed)
  case (Cons l ls)
  show ?case
  proof (cases "pl_trigger_pct l \<le> move + EPS")
    case True
    then show ?thesis using Cons by (simp add: Let_def)
  next
    case False
    then have "filter (\<lambda>l. pl_trigger_pct l \<le> move + EPS) ls = []"
      using Cons.prems by (auto simp: filter_empty_conv)
    then show ?thesis using False by simp
  qed
qed simp

lemma armed_tier_mem: "armed_tier move armed ls = Some l \<Longrightarrow> armed = Some l \<or> l \<in> set ls"
  by (induction ls arbitrary: armed) (auto split: if_splits)

lemma armed_tier_mono:
  assumes "sorted (map pl_lock_pct ls)" "move \<le> move'"
    and "armed_tier move armed ls = Some l"
    and "\<And>a k. armed = Some a \<Longrightarrow> k \<in> set ls \<Longrightarrow> pl_lock_pct a \<le> pl_lock_pct k"
  shows "\<exists>l'. armed_tier move' armed ls = Some l' \<and> pl_lock_pct l \<le> pl_lock_pct l'"
  using assms
proof (induction ls arbitrary: armed)
  case (Cons k ks)
  show ?case
  proof (cases "pl_trigger_pct k \<le> move + EPS")
    case True
    moreover from True have "pl_trigger_pct k \<le> move' + EPS"
      using Cons.prems(2) by simp
    moreover have "\<exists>l'. armed_tier move' (Some k) ks = Some l' \<and> pl_lock_pct l \<le> pl_lock_pct l'"
      by (rule Cons.IH) (use Cons.prems True in auto)
    ultimately show ?thesis by simp
  next
    case False
    then have l: "armed = Some l"
      using Cons.prems(3) by simp
    show ?thesis
    proof (cases "pl_trigger_pct k \<le> move' + EPS")
      case True
      have "pl_lock_pct l \<le> pl_lock_pct k'" if "armed_tier move' (Some k) ks = Some k'" for k'
        using armed_tier_mem [OF that] Cons.prems(4) [OF l] by auto
      moreover have "\<exists>k'. armed_tier move' (Some k) ks = Some k'"
      proof -
        have "armed_tier move' (Some a) xs \<noteq> None" for a xs
          by (induction xs arbitrary: a) auto
        then show ?thesis by blast
      qed
      ultimately show ?thesis using True by auto
    next
      case False
      then show ?thesis using l by simp
    qed
  qed
qed simp

section \<open>Properties\<close>

text \<open>
  The levels of an accepted exit policy bracket the entry price on the correct sides: for every
  symbol of a configuration that \<open>from_dict\<close> accepts, the tier resolves and, in the direction of the
  position, the initial stop (by percentage or by any ATR) lies strictly behind the entry price and
  the three targets lie strictly ahead of it, in their order.
\<close>

theorem exit_levels_bracket_entry:
  assumes "config_from_dict c0 = Inr c" "direction_sign d = Inr s" "0 < entry"
  shows "\<exists>t stop t1 t2 final. resolve_tier c symbol = Inr t \<and>
    initial_stop_price t entry d atr = Inr stop \<and> target_price t entry d ''1'' = Inr t1 \<and>
    target_price t entry d ''2'' = Inr t2 \<and> target_price t entry d ''final'' = Inr final \<and>
    s * stop < s * entry \<and> s * entry < s * t1 \<and> s * t1 \<le> s * t2 \<and> s * t2 \<le> s * final"
proof -
  note acc = config_accepted [OF assms(1)]
  obtain t where t: "resolve_tier c symbol = Inr t"
    using resolve_tier_total [OF acc(3)] by blast
  have valid: "tier_valid t"
    by (rule resolved_tier_valid [OF acc(2) t])
  obtain stop where stop: "initial_stop_price t entry d atr = Inr stop" "s * stop < s * entry"
    using initial_stop_side [OF valid assms(2,3)] by blast
  obtain t1 t2 f where p: "favourable entry d (et_target_1_pct t) = Inr t1"
    "favourable entry d (et_target_2_pct t) = Inr t2" "favourable entry d (et_final_target_pct t) = Inr f"
    by (simp add: favourable_eq [OF assms(2)])
  have "0 < et_target_1_pct t" "et_target_1_pct t \<le> et_target_2_pct t" "et_target_2_pct t \<le> et_final_target_pct t"
    using valid by (auto simp: tier_valid_def tier_fields_ok_def targets_ordered_def)
  then have "s * entry < s * t1 \<and> s * t1 \<le> s * t2 \<and> s * t2 \<le> s * f"
    using assms(3) by (simp add: p [THEN signed_favourable [OF assms(2)]] divide_right_mono)
  then show ?thesis
    using t stop p by (auto simp: target_prices)
qed

text \<open>
  The profit lock only tightens: for a valid tier, a larger favourable move never disarms an armed
  lock nor moves its stop back, and every armed stop is at the entry price or in profit.
\<close>

theorem profit_lock_only_tightens:
  assumes "tier_valid t" "direction_sign d = Inr s" "0 \<le> entry" "move \<le> move'"
    and "profit_lock_stop t entry d move = Inr (Some p)"
  shows "\<exists>p'. profit_lock_stop t entry d move' = Inr (Some p') \<and> s * p \<le> s * p' \<and> s * entry \<le> s * p"
proof -
  let ?ls = "et_profit_lock_tiers t"
  obtain l where l: "armed_tier move None ?ls = Some l" "favourable entry d (pl_lock_pct l) = Inr p"
    using assms(5) by (auto simp: profit_lock_stop_def res_bind_Inr_iff split: option.splits)
  have "sorted (map pl_lock_pct ?ls)"
    using assms(1) by (auto simp: tier_valid_def tiers_ascending_def) (metis sorted_sort)
  then obtain l' where l': "armed_tier move' None ?ls = Some l'" "pl_lock_pct l \<le> pl_lock_pct l'"
    using armed_tier_mono [OF _ assms(4) l(1)] by auto
  obtain p' where p': "favourable entry d (pl_lock_pct l') = Inr p'"
    by (simp add: favourable_eq [OF assms(2)])
  have "0 \<le> pl_lock_pct l"
    using armed_tier_mem [OF l(1)] assms(1) by (auto simp: tier_valid_def tier_fields_ok_def list_all_iff)
  then show ?thesis
    using l' p' assms(3) signed_favourable [OF assms(2) l(2)] signed_favourable [OF assms(2) p']
    by (simp add: profit_lock_stop_def mult_left_mono divide_right_mono)
qed

text \<open>A configuration in the form of \<open>configs/exit_policy.yaml\<close>, for the witnesses.\<close>

definition demo_tier :: exit_tier_policy where
  "demo_tier = \<lparr>et_initial_stop_loss_pct = 1, et_atr_stop_multiplier = 3 / 2, et_atr_trail_multiplier = 2,
    et_target_1_pct = 1, et_target_2_pct = 2, et_final_target_pct = 3, et_breakeven_trigger_pct = 1,
    et_profit_lock_tiers = [\<lparr>pl_trigger_pct = 1, pl_lock_pct = 0\<rparr>, \<lparr>pl_trigger_pct = 2, pl_lock_pct = 1\<rparr>],
    et_partial_profit_trigger_pct = 2, et_partial_profit_qty_pct = 50, et_trailing_activation_pct = 5 / 4,
    et_trailing_stop_pct = 3 / 5\<rparr>"

definition demo_policy :: exit_policy_config where
  "demo_policy = \<lparr>xc_mode = ''paper'', xc_live_trading_enabled = False, xc_timing = default_timing,
    xc_default_tier = ''default'', xc_tiers = [(''default'', demo_tier)], xc_symbol_tiers = []\<rparr>"

lemma demo_tier_valid: "tier_valid demo_tier"
  by (simp add: tier_valid_def tier_fields_ok_def tiers_ascending_def targets_ordered_def demo_tier_def)

lemma default_timing_valid: "validate_timing default_timing = Inr ()"
  by code_simp

lemma demo_policy_accepted: "config_from_dict demo_policy = Inr demo_policy"
  by (simp add: config_from_dict_def validate_coherence_def demo_policy_def default_timing_valid demo_tier_valid)

theorem exit_levels_bracket_entry_witness:
  "\<exists>t stop. resolve_tier demo_policy ''INFY'' = Inr t \<and>
    initial_stop_price t 100 ''SHORT'' None = Inr stop \<and> - stop < - 100"
  using exit_levels_bracket_entry [OF demo_policy_accepted, of "''SHORT''" "- 1" 100 "''INFY''" None]
  by (auto simp: direction_sign_def)

theorem profit_lock_only_tightens_witness:
  "\<exists>p'. profit_lock_stop demo_tier 100 ''LONG'' 2 = Inr (Some p') \<and> 100 \<le> p'"
  using profit_lock_only_tightens [OF demo_tier_valid, of "''LONG''" 1 100 1 2 100]
  by (auto simp: direction_sign_def profit_lock_stop_def demo_tier_def favourable_def EPS_def)

end
