(* ===== verification/OrderEvents.thy ===== *)
theory OrderEvents
  imports MessagePath
begin

text \<open>
  \<open>services/execution_engine/publishers/kafka_order_events_publisher.py\<close>: the publisher of the order
  events, with the count of the records that await delivery.  The producer's own task that collects
  delivery reports calls \<open>order_delivery\<close>.
\<close>

record 'w order_publisher =
  oe_producer :: "'w producer option" \<comment> \<open>\<open>None\<close> before \<open>start\<close> and after \<open>stop\<close>\<close>
  oe_codec :: codec

text \<open>
  \<open>KafkaError\<close> stands for the \<open>KafkaException\<close> and the \<open>BufferError\<close> that \<open>_produce\<close> catches: the
  event is logged and dropped.
\<close>

definition produce_order_event :: "'w order_publisher \<Rightarrow> str \<Rightarrow> meta \<Rightarrow> int \<times> 'w \<Rightarrow> unit res \<times> int \<times> 'w" where
  "produce_order_event P order_id event s =
    (case (oe_producer P, s) of
       (None, n, w) \<Rightarrow> (Inr (), n, w)
     | (Some p, n, w) \<Rightarrow>
        (case pr_produce p w ORDER_EVENTS_TOPIC (Some order_id) (jc_dumps (oe_codec P) event) [] of
           (Inr _, w) \<Rightarrow> (Inr (), n + 1, w)
         | (Inl e, w) \<Rightarrow> if e = KafkaError then (Inr (), n, w) else (Inl e, n + 1, w)))"

definition publish_fill :: "'w order_publisher \<Rightarrow> str \<Rightarrow> str \<Rightarrow> rat \<Rightarrow> fill_args \<Rightarrow> int \<times> 'w \<Rightarrow> unit res \<times> int \<times> 'w" where
  "publish_fill P event_id fresh_trace now a s =
    (case build_fill_event (oe_codec P) event_id fresh_trace now a of
       Inl e \<Rightarrow> (Inl e, s)
     | Inr event \<Rightarrow> produce_order_event P (fa_order_id a) event s)"

record rejection_args =
  ra_order_id :: str
  ra_signal_id :: str
  ra_risk_decision_id :: str
  ra_trace_id :: str
  ra_symbol :: str
  ra_market :: str
  ra_direction :: str
  ra_quantity_ordered :: int
  ra_broker_order_id :: str
  ra_reject_reason :: str
  ra_strategy_id :: str
  ra_product_type :: str
  ra_expires_at :: "str option"
  ra_stop_loss :: "rat option"
  ra_take_profit :: "rat option"

definition rejection_body :: "codec \<Rightarrow> str \<Rightarrow> str \<Rightarrow> rat \<Rightarrow> rejection_args \<Rightarrow> meta" where
  "rejection_body c event_id fresh_trace now a =
      [(''event_id'', JStr event_id), (''trace_id'', JStr (if ra_trace_id a \<noteq> [] then ra_trace_id a else fresh_trace)),
       (''event_type'', JStr (event_type_value ORDER_REJECTED)), (''schema_version'', JStr SCHEMA_VERSION),
       (''source'', JStr ''execution_engine''), (''published_time'', JStr (jc_iso c now)),
       (''order_id'', JStr (ra_order_id a)), (''signal_id'', JStr (ra_signal_id a)),
       (''risk_decision_id'', JStr (ra_risk_decision_id a)), (''strategy_id'', JStr (ra_strategy_id a)),
       (''instrument_id'', JStr (instrument_id (ra_market a) (ra_symbol a))), (''market'', JStr (ra_market a)),
       (''direction'', JStr (ra_direction a)), (''quantity_ordered'', JNum (of_int (ra_quantity_ordered a))),
       (''quantity_filled'', JNum 0), (''avg_fill_price'', JNull),
       (''broker_order_id'', JStr (ra_broker_order_id a)), (''product_type'', JStr (ra_product_type a)),
       (''expires_at'', opt_str_json (ra_expires_at a)), (''stop_loss'', opt_json (ra_stop_loss a)),
       (''take_profit'', opt_json (ra_take_profit a)), (''fill_time'', JNull),
       (''reject_reason'', JStr (ra_reject_reason a))]"

definition publish_rejection :: "'w order_publisher \<Rightarrow> str \<Rightarrow> str \<Rightarrow> rat \<Rightarrow> rejection_args \<Rightarrow> int \<times> 'w
    \<Rightarrow> unit res \<times> int \<times> 'w" where
  "publish_rejection P event_id fresh_trace now a s =
    (let event = rejection_body (oe_codec P) event_id fresh_trace now a
     in if validate_event event (event_type_value ORDER_REJECTED) \<noteq> [] then (Inl ValueError, s)
        else produce_order_event P (ra_order_id a) event s)"

text \<open>A delivery report, good or bad.\<close>

definition order_delivery :: "int \<Rightarrow> int" where
  "order_delivery n = max 0 (n - 1)"

lemma rejection_valid: "validate_event (rejection_body c event_id fresh_trace now a) (event_type_value ORDER_REJECTED) = []"
  unfolding validate_event_Nil_iff by (auto simp: rejection_body_def required_fields_defs)

text \<open>A rejection is always well formed and reaches the producer.\<close>

lemma publish_rejection_produces:
  "publish_rejection P event_id fresh_trace now a s =
    produce_order_event P (ra_order_id a) (rejection_body (oe_codec P) event_id fresh_trace now a) s"
  by (simp add: publish_rejection_def rejection_valid Let_def del: event_type_value.simps)

lemma publish_fill_never_kafka_error:
  "fst (publish_fill P event_id fresh_trace now a s) \<noteq> Inl KafkaError"
  by (cases s)
    (auto simp: publish_fill_def produce_order_event_def build_fill_event_def Let_def split: sum.splits prod.splits option.splits)

end
