(* ===== verification/ExitRouter.thy ===== *)
theory ExitRouter
  imports ExitModels OrderEvents OrderSafety
begin

text \<open>
  \<open>services/execution_engine/exit/exit_order_router.py\<close>: \<open>ExitOrderRouter\<close>, the single dispatch point
  of the exit orders, with its lock on the position row, its three modes and the counters it keeps.
  The broker's \<open>place_order\<close> is an argument of the router (it is declared \<open>Any\<close>); the method of the
  repository's own client is \<open>zerodha_place_kwargs\<close>.
\<close>

section \<open>State\<close>

datatype router_mode = PAPER | LIVE | BACKTEST

fun router_mode_value :: "router_mode \<Rightarrow> str" where
  "router_mode_value PAPER = ''paper''"
| "router_mode_value LIVE = ''live''"
| "router_mode_value BACKTEST = ''backtest''"

text \<open>The counters of \<open>LiveCounters\<close> that the exit engine and the router write.\<close>

record live_counters =
  router_paper_exits :: int
  router_backtest_exits :: int
  router_live_attempts :: int
  router_live_blocked :: int
  router_live_exits :: int
  router_idempotency_successes :: int
  router_idempotency_skips :: int
  router_failed_routes :: int
  realized_pnl :: rat
  tee_running :: bool
  tee_poll_interval :: int
  tee_stop_loss_hits :: int
  tee_take_profit_hits :: int
  tee_trailing_activated :: int
  tee_trailing_hits :: int
  tee_unmanaged_detections :: int
  tee_stale_ltp_blocks :: int

text \<open>The keyword arguments of the broker call.\<close>

record place_args =
  pa_symbol :: str
  pa_side :: str
  pa_quantity :: rat
  pa_product_type :: str
  pa_order_type :: str
  pa_tag :: str

record 'w exit_router =
  xr_mode :: router_mode
  xr_dynamo :: "'w dynamo option"
  xr_positions_table :: str
  xr_order_manager :: "'w order_manager option"
  xr_zerodha :: "('w \<Rightarrow> place_args \<Rightarrow> unit res \<times> 'w) option" \<comment> \<open>under \<open>wait_for\<close>: \<open>TimeoutError\<close> when it takes too long\<close>
  xr_publisher :: "'w order_publisher option"
  xr_live_enabled :: bool

record 'w router_state =
  xs_counters :: "live_counters option"
  xs_pending :: int \<comment> \<open>of the order-event publisher\<close>
  xs_world :: 'w

text \<open>Clock readings and fresh identifiers of one call.\<close>

record exit_readings =
  xq_order_id :: str
  xq_attempts :: "str \<times> str \<times> str"
  xq_nav_now :: str
  xq_event_id :: str
  xq_trace :: str
  xq_now :: rat

definition bump :: "(live_counters \<Rightarrow> live_counters) \<Rightarrow> 'w router_state \<Rightarrow> 'w router_state" where
  "bump f s = s\<lparr>xs_counters := map_option f (xs_counters s)\<rparr>"

lemma bump_simps [simp]:
  "xs_world (bump f s) = xs_world s" "xs_pending (bump f s) = xs_pending s"
  "xs_counters (bump f s) = map_option f (xs_counters s)"
  by (simp_all add: bump_def)

section \<open>The lock\<close>

definition lock_updates :: "exit_request \<Rightarrow> upd list" where
  "lock_updates q = [SetTo ''exit_order_id'' (S (er_exit_id q)), SetTo ''exit_trigger'' (S (exit_trigger_value (er_trigger q)))]"

definition lock_condition :: "exit_request \<Rightarrow> cond" where
  "lock_condition q =
    (if er_is_kill_switch q then AttrNe ''direction'' (S ''FLAT'')
     else CondAnd (NotExists ''exit_order_id'') (AttrNe ''direction'' (S ''FLAT'')))"

definition acquire_exit_lock :: "'w exit_router \<Rightarrow> exit_request \<Rightarrow> 'w router_state \<Rightarrow> bool \<times> 'w router_state" where
  "acquire_exit_lock X q s =
    (case xr_dynamo X of
       None \<Rightarrow> (False, s)
     | Some D \<Rightarrow>
        (case dy_update D (xs_world s) (xr_positions_table X) (position_key (er_symbol q))
            (lock_updates q) (lock_condition q) of
           (Inr _, w) \<Rightarrow>
             (True, bump (\<lambda>c. c\<lparr>router_idempotency_successes := router_idempotency_successes c + 1\<rparr>) (s\<lparr>xs_world := w\<rparr>))
         | (Inl _, w) \<Rightarrow> (False, s\<lparr>xs_world := w\<rparr>)))"

definition release_exit_lock :: "'w exit_router \<Rightarrow> exit_request \<Rightarrow> 'w router_state \<Rightarrow> 'w router_state" where
  "release_exit_lock X q s =
    (case xr_dynamo X of
       None \<Rightarrow> s
     | Some D \<Rightarrow>
        s\<lparr>xs_world := snd (dy_update D (xs_world s) (xr_positions_table X) (position_key (er_symbol q))
            [RemoveAttr ''exit_order_id'', RemoveAttr ''exit_trigger''] (AttrEq ''exit_order_id'' (S (er_exit_id q))))\<rparr>)"

section \<open>Mode handlers\<close>

definition exit_fill_price :: "exit_request \<Rightarrow> rat" where
  "exit_fill_price q = opt_default (er_avg_entry_price q) (er_exit_price q)"

text \<open>\<open>apply_fill_to_position\<close> reports a failure by its result, which is ignored.\<close>

definition paper_position :: "'w exit_router \<Rightarrow> exit_readings \<Rightarrow> exit_request \<Rightarrow> 'w router_state \<Rightarrow> 'w router_state" where
  "paper_position X r q s =
    (case xr_order_manager X of
       None \<Rightarrow> s
     | Some m \<Rightarrow>
        s\<lparr>xs_world := snd (apply_fill_to_position m (xs_world s) (er_symbol q)
            \<lparr>fl_side = (if er_close_side q = ''SELL'' then SELL else BUY), fl_qty = er_close_qty q,
             fl_price = exit_fill_price q, fl_last = exit_fill_price q\<rparr>
            (Some (if er_market q = ''NSE'' then ''NSE'' else ''US'')) (xq_attempts r) (xq_nav_now r))\<rparr>)"

definition paper_fill_args :: "exit_readings \<Rightarrow> exit_request \<Rightarrow> fill_args" where
  "paper_fill_args r q =
    \<lparr>fa_order_id = xq_order_id r, fa_signal_id = er_exit_id q, fa_risk_decision_id = ''exit-auto'', fa_trace_id = [],
     fa_symbol = er_symbol q, fa_market = er_market q, fa_direction = er_close_side q,
     fa_quantity_ordered = py_int (er_close_qty q), fa_quantity_filled = py_int (er_close_qty q),
     fa_avg_fill_price = exit_fill_price q, fa_broker_order_id = xq_order_id r, fa_fill_time = None,
     fa_strategy_id = [], fa_product_type = er_product_type q, fa_expires_at = None, fa_stop_loss = None,
     fa_take_profit = None, fa_event_type = None\<rparr>"

definition paper_event :: "'w exit_router \<Rightarrow> exit_readings \<Rightarrow> exit_request \<Rightarrow> 'w router_state \<Rightarrow> 'w router_state" where
  "paper_event X r q s =
    (case xr_publisher X of
       None \<Rightarrow> s
     | Some P \<Rightarrow>
        (case publish_fill P (xq_event_id r) (xq_trace r) (xq_now r) (paper_fill_args r q) (xs_pending s, xs_world s) of
           (_, n, w) \<Rightarrow> s\<lparr>xs_pending := n, xs_world := w\<rparr>))"

definition exit_pnl :: "exit_request \<Rightarrow> rat" where
  "exit_pnl q =
    (if er_close_side q = ''SELL'' then (exit_fill_price q - er_avg_entry_price q) * er_close_qty q
     else (er_avg_entry_price q - exit_fill_price q) * er_close_qty q)"

definition route_paper :: "'w exit_router \<Rightarrow> exit_readings \<Rightarrow> exit_request \<Rightarrow> 'w router_state \<Rightarrow> bool \<times> 'w router_state" where
  "route_paper X r q s =
    (True, bump (\<lambda>c. c\<lparr>router_paper_exits := router_paper_exits c + 1, realized_pnl := realized_pnl c + exit_pnl q\<rparr>)
      (paper_event X r q (paper_position X r q s)))"

definition exit_place_args :: "exit_request \<Rightarrow> place_args" where
  "exit_place_args q = \<lparr>pa_symbol = er_symbol q, pa_side = er_close_side q, pa_quantity = er_close_qty q,
    pa_product_type = er_product_type q, pa_order_type = ''MARKET'', pa_tag = take 20 (er_exit_id q)\<rparr>"

definition route_live :: "'w exit_router \<Rightarrow> exit_request \<Rightarrow> 'w router_state \<Rightarrow> bool \<times> 'w router_state" where
  "route_live X q s =
    (let s = bump (\<lambda>c. c\<lparr>router_live_attempts := router_live_attempts c + 1\<rparr>) s in
     case xr_zerodha X of
       None \<Rightarrow> (False, release_exit_lock X q (bump (\<lambda>c. c\<lparr>router_live_blocked := router_live_blocked c + 1\<rparr>) s))
     | Some place \<Rightarrow>
        (case place (xs_world s) (exit_place_args q) of
           (Inr _, w) \<Rightarrow>
             (True, bump (\<lambda>c. c\<lparr>router_live_exits := router_live_exits c + 1\<rparr>) (s\<lparr>xs_world := w\<rparr>))
         | (Inl e, w) \<Rightarrow>
             (let s = bump (\<lambda>c. c\<lparr>router_failed_routes := router_failed_routes c + 1\<rparr>) (s\<lparr>xs_world := w\<rparr>)
              in (False, if e = TimeoutError then s else release_exit_lock X q s))))"

definition route_backtest :: "'w router_state \<Rightarrow> bool \<times> 'w router_state" where
  "route_backtest s = (True, bump (\<lambda>c. c\<lparr>router_backtest_exits := router_backtest_exits c + 1\<rparr>) s)"

section \<open>Routing\<close>

definition route_exit :: "'w exit_router \<Rightarrow> exit_readings \<Rightarrow> exit_request \<Rightarrow> 'w router_state \<Rightarrow> bool \<times> 'w router_state" where
  "route_exit X r q s =
    (if xr_mode X = LIVE \<and> \<not> xr_live_enabled X then
       (False, bump (\<lambda>c. c\<lparr>router_live_attempts := router_live_attempts c + 1,
          router_live_blocked := router_live_blocked c + 1\<rparr>) s)
     else
       (case acquire_exit_lock X q s of
          (False, s) \<Rightarrow> (False, bump (\<lambda>c. c\<lparr>router_idempotency_skips := router_idempotency_skips c + 1\<rparr>) s)
        | (True, s) \<Rightarrow>
           (case xr_mode X of
              PAPER \<Rightarrow> route_paper X r q s
            | LIVE \<Rightarrow> route_live X q s
            | BACKTEST \<Rightarrow> route_backtest s)))"

text \<open>
  The signature of \<open>ZerodhaBrokerClient.place_order\<close> is \<open>(self, order)\<close>; called with the keywords of
  \<open>_route_live\<close> it raises before its body runs.
\<close>

definition zerodha_place_kwargs :: "'w \<Rightarrow> place_args \<Rightarrow> unit res \<times> 'w" where
  "zerodha_place_kwargs w a = (Inl TypeError, w)"

end
