(* ===== verification/ExitSafety.thy ===== *)
theory ExitSafety
  imports ExitRouter
begin

text \<open>
  Properties of the exit router: how many orders its live exits can send to the broker, what the
  lock on the position row excludes, and what happens to it when a call fails.
\<close>

section \<open>The environment\<close>

definition lock_held :: "str \<Rightarrow> str \<Rightarrow> tables \<Rightarrow> bool" where
  "lock_held tbl symbol t \<longleftrightarrow> (\<exists>i. t tbl (position_key symbol) = Some i \<and> i ''exit_order_id'' \<noteq> None)"

text \<open>
  The other clients keep a held lock, and \<open>orders\<close> counts the orders that reached the broker: one call
  sends at most one, and a call that fails other than by a timeout has sent none.
\<close>

definition exit_env :: "(tables \<Rightarrow> tables \<Rightarrow> bool) \<Rightarrow> 'w dynamo \<Rightarrow> ('w \<Rightarrow> nat) \<Rightarrow> str \<Rightarrow> 'w exit_router \<Rightarrow> bool" where
  "exit_env R D orders symbol X \<longleftrightarrow>
    dynamo_ok R D \<and> xr_dynamo X = Some D \<and>
    (\<forall>t t'. R t t' \<longrightarrow> lock_held (xr_positions_table X) symbol t \<longrightarrow> lock_held (xr_positions_table X) symbol t') \<and>
    (\<forall>w tbl k us c. orders (snd (dy_update D w tbl k us c)) = orders w) \<and>
    (\<forall>place w a. xr_zerodha X = Some place \<longrightarrow>
       R (dy_tables D w) (dy_tables D (snd (place w a))) \<and>
       orders (snd (place w a)) \<le> orders w + 1 \<and>
       (\<forall>e. fst (place w a) = Inl e \<and> e \<noteq> TimeoutError \<longrightarrow> orders (snd (place w a)) = orders w))"

lemma exit_envD:
  assumes "exit_env R D orders symbol X"
  shows "dynamo_ok R D" "xr_dynamo X = Some D"
    "R t t' \<Longrightarrow> lock_held (xr_positions_table X) symbol t \<Longrightarrow> lock_held (xr_positions_table X) symbol t'"
    "orders (snd (dy_update D w tbl k us c)) = orders w"
    "xr_zerodha X = Some place \<Longrightarrow> R (dy_tables D w) (dy_tables D (snd (place w a)))"
    "xr_zerodha X = Some place \<Longrightarrow> orders (snd (place w a)) \<le> orders w + 1"
    "xr_zerodha X = Some place \<Longrightarrow> fst (place w a) = Inl e \<Longrightarrow> e \<noteq> TimeoutError \<Longrightarrow> orders (snd (place w a)) = orders w"
  using assms unfolding exit_env_def by blast+

abbreviation held :: "'w dynamo \<Rightarrow> 'w exit_router \<Rightarrow> str \<Rightarrow> 'w router_state \<Rightarrow> bool" where
  "held D X symbol s \<equiv> lock_held (xr_positions_table X) symbol (dy_tables D (xs_world s))"

section \<open>The lock\<close>

lemma locked_row_held:
  "lock_held tbl symbol (tables_put t tbl (position_key symbol) (updated_row k (lock_updates q) r))"
  by (simp add: lock_held_def updated_row_def lock_updates_def)

lemma lock_updates_keep:
  "lock_held tbl symbol t \<Longrightarrow>
    lock_held tbl symbol (tables_put t tbl (position_key symbol) (updated_row (position_key symbol) (lock_updates q) r))"
  by (rule locked_row_held)

lemma acquire_keeps_lock:
  assumes "exit_env R D orders symbol X" "er_symbol q = symbol" "acquire_exit_lock X q s = (b, s')"
  shows "held D X symbol s \<Longrightarrow> held D X symbol s'" "orders (xs_world s') = orders (xs_world s)"
proof -
  note env = exit_envD [OF assms(1)]
  let ?k = "position_key symbol"
  obtain r w where u: "dy_update D (xs_world s) (xr_positions_table X) ?k (lock_updates q) (lock_condition q) = (r, w)"
    by force
  have w: "xs_world s' = w"
    using assms(2,3) u env(2) by (auto simp: acquire_exit_lock_def split: sum.splits)
  show "orders (xs_world s') = orders (xs_world s)"
    using env(4) [of "xs_world s" "xr_positions_table X" ?k "lock_updates q" "lock_condition q"] u w by simp
  show "held D X symbol s'" if "held D X symbol s"
  proof -
    have "lock_held (xr_positions_table X) symbol (dy_tables D (xs_world s)) \<longrightarrow>
        lock_held (xr_positions_table X) symbol (dy_tables D w)"
      by (rule commits_le [OF dynamo_ok_update [OF env(1) u],
            where Q = "\<lambda>t t'. lock_held (xr_positions_table X) symbol t \<longrightarrow> lock_held (xr_positions_table X) symbol t'"])
        (use env(3) in \<open>auto intro: locked_row_held\<close>)
    then show ?thesis using that w by simp
  qed
qed

lemma acquire_True:
  assumes "exit_env R D orders symbol X" "er_symbol q = symbol" "acquire_exit_lock X q s = (True, s')"
  shows "held D X symbol s'" "\<not> er_is_kill_switch q \<Longrightarrow> \<not> held D X symbol s"
proof -
  note env = exit_envD [OF assms(1)]
  let ?tbl = "xr_positions_table X" and ?k = "position_key symbol"
  obtain i w where u: "dy_update D (xs_world s) ?tbl ?k (lock_updates q) (lock_condition q) = (Inr i, w)"
    "xs_world s' = w"
    using assms(2,3) env(2) by (auto simp: acquire_exit_lock_def split: sum.splits prod.splits)
  obtain t where t: "R (dy_tables D (xs_world s)) t" "cond_holds (lock_condition q) ?k (t ?tbl ?k)"
    "R (tables_put t ?tbl ?k (updated_row ?k (lock_updates q) (t ?tbl ?k))) (dy_tables D w)"
    using commits_InrE [OF dynamo_ok_update [OF env(1) u(1)]] by blast
  show "held D X symbol s'"
    using env(3) [OF t(3)] locked_row_held u(2) by simp
  show "\<not> held D X symbol s" if "\<not> er_is_kill_switch q"
  proof
    assume "held D X symbol s"
    then have "lock_held ?tbl symbol t" by (rule env(3) [OF t(1)])
    then show False
      using t(2) that by (auto simp: lock_held_def lock_condition_def)
  qed
qed

lemma release_orders:
  assumes "exit_env R D orders symbol X"
  shows "orders (xs_world (release_exit_lock X q s)) = orders (xs_world s)"
  using exit_envD(2,4) [OF assms] by (simp add: release_exit_lock_def)

section \<open>Live exits\<close>

text \<open>
  The potential: the orders sent so far, plus the one an unlocked position allows.
\<close>

definition exit_potential :: "'w dynamo \<Rightarrow> ('w \<Rightarrow> nat) \<Rightarrow> str \<Rightarrow> 'w exit_router \<Rightarrow> 'w router_state \<Rightarrow> nat" where
  "exit_potential D orders symbol X s = orders (xs_world s) + (if held D X symbol s then 0 else 1)"

lemma route_live_potential:
  assumes env: "exit_env R D orders symbol X" and h: "held D X symbol s"
  shows "exit_potential D orders symbol X (snd (route_live X q s)) \<le> orders (xs_world s) + 1"
proof (cases "xr_zerodha X")
  case None
  then show ?thesis
    by (simp add: route_live_def exit_potential_def release_orders [OF env])
next
  case (Some place)
  obtain r w where p: "place (xs_world s) (exit_place_args q) = (r, w)" by force
  have "orders w \<le> orders (xs_world s) + 1"
    using exit_envD(6) [OF env Some, of "xs_world s" "exit_place_args q"] p by simp
  moreover have "lock_held (xr_positions_table X) symbol (dy_tables D w)"
    using exit_envD(3) [OF env exit_envD(5) [OF env Some] h, of "exit_place_args q"] p by simp
  moreover have "orders w = orders (xs_world s)" if "r = Inl e" "e \<noteq> TimeoutError" for e
    using exit_envD(7) [OF env Some, of "xs_world s" "exit_place_args q" e] p that by simp
  ultimately show ?thesis
    using Some p
    by (cases r) (auto simp: route_live_def exit_potential_def Let_def release_orders [OF env])
qed

lemma route_exit_potential:
  assumes env: "exit_env R D orders symbol X" and q: "er_symbol q = symbol" and live: "xr_mode X = LIVE"
  shows "exit_potential D orders symbol X (snd (route_exit X r q s))
    \<le> exit_potential D orders symbol X s + (if er_is_kill_switch q then 1 else 0)"
proof (cases "xr_live_enabled X")
  case False
  then show ?thesis using live by (simp add: route_exit_def exit_potential_def)
next
  case True
  obtain b s1 where a: "acquire_exit_lock X q s = (b, s1)" by force
  note keep = acquire_keeps_lock [OF env q a]
  show ?thesis
  proof (cases b)
    case False
    then show ?thesis
      using True live a keep by (auto simp: route_exit_def exit_potential_def)
  next
    case got: True
    then have a': "acquire_exit_lock X q s = (True, s1)" using a by simp
    note acq = acquire_True [OF env q a']
    have "snd (route_exit X r q s) = snd (route_live X q s1)"
      using True live a' by (simp add: route_exit_def)
    moreover have "exit_potential D orders symbol X (snd (route_live X q s1)) \<le> orders (xs_world s) + 1"
      using route_live_potential [OF env acq(1), of q] keep(2) by simp
    moreover have "orders (xs_world s) + 1
        \<le> exit_potential D orders symbol X s + (if er_is_kill_switch q then 1 else 0)"
      using acq(2) by (simp add: exit_potential_def)
    ultimately show ?thesis by simp
  qed
qed

definition route_all :: "'w exit_router \<Rightarrow> (exit_readings \<times> exit_request) list \<Rightarrow> 'w router_state \<Rightarrow> 'w router_state" where
  "route_all X rqs s = foldl (\<lambda>s (r, q). snd (route_exit X r q s)) s rqs"

lemma route_all_potential:
  assumes "exit_env R D orders symbol X" "xr_mode X = LIVE" "\<forall>(r, q) \<in> set rqs. er_symbol q = symbol"
  shows "exit_potential D orders symbol X (route_all X rqs s)
    \<le> exit_potential D orders symbol X s + length (filter (\<lambda>(r, q). er_is_kill_switch q) rqs)"
  using assms(3)
proof (induction rqs arbitrary: s)
  case Nil
  then show ?case by (simp add: route_all_def)
next
  case (Cons e es)
  obtain r q where e: "e = (r, q)" by (cases e)
  have "exit_potential D orders symbol X (route_all X (e # es) s)
      \<le> exit_potential D orders symbol X (snd (route_exit X r q s)) + length (filter (\<lambda>(r, q). er_is_kill_switch q) es)"
    using Cons.IH [of "snd (route_exit X r q s)"] Cons.prems e by (simp add: route_all_def)
  moreover have "exit_potential D orders symbol X (snd (route_exit X r q s))
      \<le> exit_potential D orders symbol X s + (if er_is_kill_switch q then 1 else 0)"
    using route_exit_potential [OF assms(1) _ assms(2), of q] Cons.prems e by simp
  ultimately show ?case using e by (cases "er_is_kill_switch q") simp_all
qed

section \<open>A held lock\<close>

lemma held_lock_refuses:
  assumes "exit_env R D orders symbol X" "er_symbol q = symbol" "\<not> er_is_kill_switch q" "held D X symbol s"
  shows "fst (route_exit X r q s) = False" "held D X symbol (snd (route_exit X r q s))"
    "orders (xs_world (snd (route_exit X r q s))) = orders (xs_world s)"
proof -
  obtain b s1 where a: "acquire_exit_lock X q s = (b, s1)" by force
  have b: "b = False"
    using acquire_True(2) [OF assms(1,2) _ assms(3)] a assms(4) by (cases b) auto
  then show "fst (route_exit X r q s) = False" "held D X symbol (snd (route_exit X r q s))"
    "orders (xs_world (snd (route_exit X r q s))) = orders (xs_world s)"
    using a assms(4) acquire_keeps_lock [OF assms(1,2) a] by (auto simp: route_exit_def)
qed

section \<open>One client\<close>

text \<open>A client whose calls are not lost.\<close>

definition reliable :: "'w dynamo \<Rightarrow> bool" where
  "reliable D \<longleftrightarrow> (\<forall>w tbl k us c e. fst (dy_update D w tbl k us c) = Inl e \<longrightarrow> e = ConditionalCheckFailed)"

lemma sole_update_refused:
  assumes "dynamo_ok (=) D" "dy_update D w tbl k us c = (Inl ConditionalCheckFailed, w')"
  shows "\<not> cond_holds c k (dy_tables D w tbl k) \<and> dy_tables D w' = dy_tables D w"
  using dynamo_ok_update [OF assms] by (auto simp: commits_def write_effect_def)

lemma sole_update_cond:
  assumes "dynamo_ok (=) D" "dy_update D w tbl k us c = (Inr i, w')"
  shows "cond_holds c k (dy_tables D w tbl k)"
  using dynamo_ok_update [OF assms] by (auto simp: commits_def write_effect_def)

lemma reliable_update:
  assumes "dynamo_ok (=) D" "dynamo_values D" "reliable D" "dy_update D w tbl k us c = (r, w')"
  shows "if cond_holds c k (dy_tables D w tbl k)
    then dy_tables D w' = tables_put (dy_tables D w) tbl k (updated_row k us (dy_tables D w tbl k)) \<and>
      r = Inr (updated_row k us (dy_tables D w tbl k))
    else dy_tables D w' = dy_tables D w \<and> r = Inl ConditionalCheckFailed"
proof (cases r)
  case (Inl e)
  then have "e = ConditionalCheckFailed"
    using assms(3,4) unfolding reliable_def by (metis fst_conv)
  then show ?thesis
    using sole_update_refused [OF assms(1), of w tbl k us c w'] assms(4) Inl by simp
next
  case (Inr i)
  then show ?thesis
    using sole_update [OF assms(1,2), of w tbl k us c i w'] assms(4)
      sole_update_cond [OF assms(1), of w tbl k us c i w'] by simp
qed

lemma locked_row_id: "updated_row k (lock_updates q) row ''exit_order_id'' = Some (S (er_exit_id q))"
  by (simp add: updated_row_def lock_updates_def)

lemma acquire_tables:
  assumes "dynamo_ok (=) D" "dynamo_values D" "xr_dynamo X = Some D" "reliable D"
    and "acquire_exit_lock X q s = (b, s')"
  shows "dy_tables D (xs_world s') =
    (let tbl = xr_positions_table X; k = position_key (er_symbol q); t = dy_tables D (xs_world s)
     in if b then tables_put t tbl k (updated_row k (lock_updates q) (t tbl k)) else t)"
proof -
  let ?tbl = "xr_positions_table X" and ?k = "position_key (er_symbol q)"
  obtain r w where u: "dy_update D (xs_world s) ?tbl ?k (lock_updates q) (lock_condition q) = (r, w)" by force
  then show ?thesis
    using reliable_update [OF assms(1,2,4) u] assms(3,5)
    by (cases "cond_holds (lock_condition q) ?k (dy_tables D (xs_world s) ?tbl ?k)")
      (auto simp: acquire_exit_lock_def Let_def)
qed

lemma release_frees:
  assumes "dynamo_ok (=) D" "dynamo_values D" "xr_dynamo X = Some D" "reliable D"
    and "dy_tables D (xs_world s) (xr_positions_table X) (position_key (er_symbol q)) = Some i"
    and "i ''exit_order_id'' = Some (S (er_exit_id q))"
  shows "\<not> held D X (er_symbol q) (release_exit_lock X q s)"
proof -
  let ?tbl = "xr_positions_table X" and ?k = "position_key (er_symbol q)"
  let ?us = "[RemoveAttr ''exit_order_id'', RemoveAttr ''exit_trigger'']" and ?c = "AttrEq ''exit_order_id'' (S (er_exit_id q))"
  obtain r w where u: "dy_update D (xs_world s) ?tbl ?k ?us ?c = (r, w)" by force
  have "cond_holds ?c ?k (dy_tables D (xs_world s) ?tbl ?k)"
    using assms(5,6) by simp
  then have "dy_tables D w = tables_put (dy_tables D (xs_world s)) ?tbl ?k (updated_row ?k ?us (Some i))"
    using reliable_update [OF assms(1,2,4) u] assms(5) by simp
  then show ?thesis
    using u assms(3) by (simp add: release_exit_lock_def lock_held_def updated_row_def)
qed

section \<open>Properties\<close>



section \<open>Witnesses\<close>

text \<open>A broker whose world is the order count beside the in-memory tables.\<close>

type_synonym demo_world = "mem \<times> nat"

definition lift_mem :: "('r \<times> mem) \<Rightarrow> nat \<Rightarrow> 'r \<times> demo_world" where
  "lift_mem rm n = (fst rm, (snd rm, n))"

definition demo_exit_dynamo :: "demo_world dynamo" where
  "demo_exit_dynamo = \<lparr>dy_tables = \<lambda>w. mem_tables (fst w),
    dy_get = \<lambda>w tbl k. lift_mem (mem_get (fst w) tbl k) (snd w),
    dy_put = \<lambda>w tbl k i c. lift_mem (mem_put (fst w) tbl k i c) (snd w),
    dy_update = \<lambda>w tbl k us c. lift_mem (mem_update (fst w) tbl k us c) (snd w),
    dy_transact = \<lambda>w ps. lift_mem (mem_transact (fst w) ps) (snd w),
    dy_query = \<lambda>w tbl ix eqs s. lift_mem (mem_query (fst w) tbl ix eqs s) (snd w),
    dy_scan = \<lambda>w tbl p s. lift_mem (mem_scan (fst w) tbl p s) (snd w)\<rparr>"

text \<open>A broker that accepts every order and answers the first call too late.\<close>

definition demo_place :: "demo_world \<Rightarrow> place_args \<Rightarrow> unit res \<times> demo_world" where
  "demo_place w a = (if snd w = 0 then Inl TimeoutError else Inr (), (fst w, snd w + 1))"

definition demo_exit_router :: "demo_world exit_router" where
  "demo_exit_router = \<lparr>xr_mode = LIVE, xr_dynamo = Some demo_exit_dynamo, xr_positions_table = ''positions'',
    xr_order_manager = None, xr_zerodha = Some demo_place, xr_publisher = None, xr_live_enabled = True\<rparr>"

lemma demo_exit_dynamo_ok: "dynamo_ok (=) demo_exit_dynamo"
  unfolding dynamo_ok_def demo_exit_dynamo_def
  by (auto simp: reflp_def transp_def lift_mem_def mem_get_def mem_query_def mem_scan_def mem_put_def
      mem_update_def mem_transact_def commits_def write_effect_def mem_tables_Cons mem_tables_puts Let_def
      split: if_splits)

lemma demo_exit_env: "exit_env (=) demo_exit_dynamo snd ''INFY'' demo_exit_router"
  using demo_exit_dynamo_ok
  by (auto simp: exit_env_def demo_exit_router_def demo_place_def demo_exit_dynamo_def lift_mem_def)

definition demo_exit_request :: "exit_trigger \<Rightarrow> bool \<Rightarrow> exit_request" where
  "demo_exit_request tr ks = \<lparr>er_exit_id = ''EXIT-INFY'', er_symbol = ''INFY'', er_market = ''NSE'',
    er_position_direction = ''LONG'', er_close_side = ''SELL'', er_close_qty = 5, er_trigger = tr,
    er_order_type = ''MARKET'', er_exit_price = None, er_product_type = ''MIS'', er_is_kill_switch = ks,
    er_avg_entry_price = 100\<rparr>"

definition demo_exit_readings :: exit_readings where
  "demo_exit_readings = \<lparr>xq_order_id = ''x'', xq_attempts = (''1'', ''2'', ''3''), xq_nav_now = ''4'', xq_event_id = ''e'',
    xq_trace = ''t'', xq_now = 0\<rparr>"

definition demo_router_state :: "demo_world router_state" where
  "demo_router_state = \<lparr>xs_counters = None, xs_pending = 0, xs_world = ([], 0)\<rparr>"


lemma mem_reliable: "reliable mem_dynamo"
  by (auto simp: reliable_def mem_dynamo_def mem_update_def Let_def split: if_splits)


end
