(* ===== verification/TradeExit.thy ===== *)
theory TradeExit
  imports ExitSafety
begin

text \<open>
  \<open>services/shared/monitoring/ltp_resolver.py\<close> and
  \<open>services/execution_engine/monitors/trade_exit_engine.py\<close>: the lookup of the last traded price and
  the engine that polls the open positions, moves their trailing stops and routes their exits.
\<close>

section \<open>The last traded price\<close>

record ltp_result =
  lt_price :: rat
  lt_source :: str
  lt_captured_at :: "rat option"
  lt_age_seconds :: "rat option"
  lt_is_stale :: bool

text \<open>
  \<open>lr_fromiso\<close> is \<open>datetime.fromisoformat\<close> as a time in seconds, a time without zone taken as UTC;
  \<open>None\<close> when it raises.
\<close>

record 'w ltp_resolver =
  lr_dynamo :: "'w dynamo option"
  lr_prices_table :: "str option"
  lr_freshness :: rat
  lr_market :: str
  lr_fromiso :: "str \<Rightarrow> rat option"

definition ltp_key :: "'w ltp_resolver \<Rightarrow> str \<Rightarrow> key" where
  "ltp_key L symbol = (''QUOTE#'' @ lr_market L @ ''#'' @ py_upper symbol, ''LATEST'')"

definition ltp_attr :: "item \<Rightarrow> rat option" where
  "ltp_attr i = (case num_attr_opt i ''ltp'' of Some x \<Rightarrow> Some x | None \<Rightarrow> num_attr_opt i ''last_price'')"

definition quote_time :: "'w ltp_resolver \<Rightarrow> item \<Rightarrow> rat option" where
  "quote_time L i =
    (let ts = str_attr i ''captured_at'' [] in if ts = [] then None else lr_fromiso L ts)"

definition ltp_of_item :: "'w ltp_resolver \<Rightarrow> rat \<Rightarrow> item \<Rightarrow> ltp_result option" where
  "ltp_of_item L now i =
    (case ltp_attr i of
       None \<Rightarrow> None
     | Some price \<Rightarrow>
        (let captured_at = quote_time L i;
             age = map_option (\<lambda>t. now - t) captured_at;
             is_stale = (case age of None \<Rightarrow> True | Some a \<Rightarrow> lr_freshness L < a)
         in Some \<lparr>lt_price = price, lt_source = (if is_stale then ''prices_table_stale'' else ''prices_table''),
              lt_captured_at = captured_at, lt_age_seconds = age, lt_is_stale = is_stale\<rparr>))"

definition read_from_prices_table :: "'w ltp_resolver \<Rightarrow> 'w dynamo \<Rightarrow> str \<Rightarrow> rat \<Rightarrow> str \<Rightarrow> 'w \<Rightarrow> ltp_result option \<times> 'w" where
  "read_from_prices_table L D tbl now symbol w =
    (case dy_get D w tbl (ltp_key L symbol) of
       (Inl _, w) \<Rightarrow> (None, w)
     | (Inr None, w) \<Rightarrow> (None, w)
     | (Inr (Some i), w) \<Rightarrow> (ltp_of_item L now i, w))"

definition fill_price_result :: "rat option \<Rightarrow> ltp_result option" where
  "fill_price_result p = map_option (\<lambda>x. \<lparr>lt_price = x, lt_source = ''position_fill'', lt_captured_at = None,
     lt_age_seconds = None, lt_is_stale = True\<rparr>) p"

definition ltp_resolve :: "'w ltp_resolver \<Rightarrow> rat \<Rightarrow> str \<Rightarrow> rat option \<Rightarrow> 'w \<Rightarrow> ltp_result option \<times> 'w" where
  "ltp_resolve L now symbol position_fill_price w =
    (case (lr_dynamo L, lr_prices_table L) of
       (Some D, Some tbl) \<Rightarrow>
         (if tbl = [] then (fill_price_result position_fill_price, w)
          else (case read_from_prices_table L D tbl now symbol w of
                  (Some r, w) \<Rightarrow> (Some r, w)
                | (None, w) \<Rightarrow> (fill_price_result position_fill_price, w)))
     | _ \<Rightarrow> (fill_price_result position_fill_price, w))"

section \<open>Positions\<close>

record tee_position =
  ps_symbol :: str
  ps_direction :: str
  ps_quantity :: rat
  ps_avg_price :: rat
  ps_stop_price :: rat
  ps_take_profit :: "rat option"
  ps_last_price :: "rat option"
  ps_exit_order_id :: "str option"
  ps_exit_state :: "str option"

definition str_attr_opt :: "item \<Rightarrow> str \<Rightarrow> str option" where
  "str_attr_opt i k = (case i k of Some (S v) \<Rightarrow> Some v | _ \<Rightarrow> None)"

definition parse_position :: "item \<Rightarrow> tee_position option" where
  "parse_position i =
    (case (num_attr_opt i ''quantity'', num_attr_opt i ''stop_price'') of
       (Some q, Some stop) \<Rightarrow>
         (if \<bar>q\<bar> < EPS then None
          else Some \<lparr>ps_symbol = str_attr i ''symbol'' ''UNKNOWN'', ps_direction = str_attr i ''direction'' [],
            ps_quantity = q, ps_avg_price = num_attr i ''avg_price'' (num_attr i ''avg_entry_price'' 0),
            ps_stop_price = stop, ps_take_profit = num_attr_opt i ''take_profit'',
            ps_last_price = num_attr_opt i ''last_price'', ps_exit_order_id = str_attr_opt i ''exit_order_id'',
            ps_exit_state = str_attr_opt i ''exit_state''\<rparr>)
     | _ \<Rightarrow> None)"

section \<open>Trigger logic\<close>

definition stop_loss_triggered :: "str \<Rightarrow> rat \<Rightarrow> rat \<Rightarrow> bool" where
  "stop_loss_triggered d last_price stop_price =
    (if d = ''LONG'' then last_price \<le> stop_price else if d = ''SHORT'' then stop_price \<le> last_price else False)"

definition take_profit_triggered :: "str \<Rightarrow> rat \<Rightarrow> rat \<Rightarrow> bool" where
  "take_profit_triggered d last_price take_profit =
    (if d = ''LONG'' then take_profit \<le> last_price else if d = ''SHORT'' then last_price \<le> take_profit else False)"

definition trailing_activation_triggered :: "str \<Rightarrow> rat \<Rightarrow> rat \<Rightarrow> rat \<Rightarrow> bool" where
  "trailing_activation_triggered d last_price avg_entry activation_pct =
    (if d = ''LONG'' then avg_entry * (1 + activation_pct / 100) \<le> last_price
     else if d = ''SHORT'' then last_price \<le> avg_entry * (1 - activation_pct / 100)
     else False)"

definition compute_trailing_stop :: "str \<Rightarrow> rat \<Rightarrow> rat \<Rightarrow> rat \<Rightarrow> rat" where
  "compute_trailing_stop d last_price current_stop trail_pct =
    (if d = ''LONG'' then max current_stop (last_price * (1 - trail_pct / 100))
     else if d = ''SHORT'' then min current_stop (last_price * (1 + trail_pct / 100))
     else current_stop)"

section \<open>The engine\<close>

record 'w tee =
  te_dynamo :: "'w dynamo option"
  te_positions_table :: str
  te_router :: "'w exit_router"
  te_ltp :: "'w ltp_resolver"
  te_poll_interval :: int
  te_trailing_enabled :: bool
  te_trailing_activation_pct :: rat
  te_trailing_stop_pct :: rat
  te_max_stale_ltp_live :: rat

text \<open>Clock readings and fresh identifiers of one evaluation.\<close>

record tee_readings =
  tr_now :: rat
  tr_session_date :: str
  tr_exit :: exit_readings

definition get_last_price :: "'w tee \<Rightarrow> rat \<Rightarrow> tee_position \<Rightarrow> 'w router_state \<Rightarrow> rat option \<times> 'w router_state" where
  "get_last_price E now p s =
    (case ltp_resolve (te_ltp E) now (ps_symbol p) (ps_last_price p) (xs_world s) of
       (None, w) \<Rightarrow> (None, s\<lparr>xs_world := w\<rparr>)
     | (Some r, w) \<Rightarrow>
        (let s = s\<lparr>xs_world := w\<rparr>;
             too_old = (case lt_age_seconds r of None \<Rightarrow> True | Some a \<Rightarrow> a = 0 \<or> te_max_stale_ltp_live E < a)
         in if lt_is_stale r \<and> xr_mode (te_router E) = LIVE \<and> too_old
            then (None, bump (\<lambda>c. c\<lparr>tee_stale_ltp_blocks := tee_stale_ltp_blocks c + 1\<rparr>) s)
            else (Some (lt_price r), s)))"

definition count_exit :: "exit_trigger \<Rightarrow> live_counters \<Rightarrow> live_counters" where
  "count_exit tr c =
    (if tr = STOP_LOSS then c\<lparr>tee_stop_loss_hits := tee_stop_loss_hits c + 1\<rparr>
     else if tr = TAKE_PROFIT then c\<lparr>tee_take_profit_hits := tee_take_profit_hits c + 1\<rparr>
     else if tr = TRAILING then c\<lparr>tee_trailing_hits := tee_trailing_hits c + 1\<rparr>
     else c)"

definition fire_exit :: "'w tee \<Rightarrow> tee_readings \<Rightarrow> tee_position \<Rightarrow> exit_trigger \<Rightarrow> rat option \<Rightarrow> 'w router_state
    \<Rightarrow> unit res \<times> 'w router_state" where
  "fire_exit E r p trigger exit_price s =
    (case exit_request_from_position (ps_symbol p) ''NSE'' (ps_direction p) (ps_quantity p) trigger
        (tr_session_date r) (ps_avg_price p) exit_price False of
       Inl e \<Rightarrow> (Inl e, s)
     | Inr q \<Rightarrow> (Inr (), snd (route_exit (te_router E) (tr_exit r) q (bump (count_exit trigger) s))))"

definition write_trailing_stop :: "'w tee \<Rightarrow> str \<Rightarrow> rat \<Rightarrow> 'w router_state \<Rightarrow> 'w router_state" where
  "write_trailing_stop E symbol new_stop s =
    (case te_dynamo E of
       None \<Rightarrow> s
     | Some D \<Rightarrow>
        s\<lparr>xs_world := snd (dy_update D (xs_world s) (te_positions_table E) (position_key symbol)
          [SetTo ''stop_price'' (N new_stop), SetTo ''exit_state'' (S ''TRAILING_ACTIVE'')]
          (AttrNe ''direction'' (S ''FLAT'')))\<rparr>)"

definition activate_trailing_stop :: "'w tee \<Rightarrow> tee_position \<Rightarrow> rat \<Rightarrow> 'w router_state \<Rightarrow> 'w router_state" where
  "activate_trailing_stop E p last_price s =
    (let new_stop = compute_trailing_stop (ps_direction p) last_price (ps_stop_price p) (te_trailing_stop_pct E)
     in write_trailing_stop E (ps_symbol p) new_stop
          (bump (\<lambda>c. c\<lparr>tee_trailing_activated := tee_trailing_activated c + 1\<rparr>) s))"

definition advance_trailing_stop :: "'w tee \<Rightarrow> tee_position \<Rightarrow> rat \<Rightarrow> 'w router_state \<Rightarrow> 'w router_state" where
  "advance_trailing_stop E p last_price s =
    (let new_stop = compute_trailing_stop (ps_direction p) last_price (ps_stop_price p) (te_trailing_stop_pct E)
     in if new_stop = ps_stop_price p then s else write_trailing_stop E (ps_symbol p) new_stop s)"

definition manage_trailing_stop :: "'w tee \<Rightarrow> tee_position \<Rightarrow> rat \<Rightarrow> 'w router_state \<Rightarrow> 'w router_state" where
  "manage_trailing_stop E p last_price s =
    (if ps_exit_state p = Some ''TRAILING_ACTIVE'' then advance_trailing_stop E p last_price s
     else if trailing_activation_triggered (ps_direction p) last_price (ps_avg_price p) (te_trailing_activation_pct E)
     then activate_trailing_stop E p last_price s
     else s)"

definition evaluate_exit :: "'w tee \<Rightarrow> tee_readings \<Rightarrow> tee_position \<Rightarrow> 'w router_state \<Rightarrow> unit res \<times> 'w router_state" where
  "evaluate_exit E r p s =
    (if ps_exit_order_id p \<noteq> None then (Inr (), s)
     else
       (case get_last_price E (tr_now r) p s of
          (None, s) \<Rightarrow> (Inr (), s)
        | (Some last_price, s) \<Rightarrow>
           if stop_loss_triggered (ps_direction p) last_price (ps_stop_price p) then
             fire_exit E r p (if ps_exit_state p = Some ''TRAILING_ACTIVE'' then TRAILING else STOP_LOSS) (Some last_price) s
           else
             (case ps_take_profit p of
                Some tp \<Rightarrow>
                  if ps_exit_state p \<noteq> Some ''TRAILING_ACTIVE'' \<and> take_profit_triggered (ps_direction p) last_price tp
                  then fire_exit E r p TAKE_PROFIT (Some tp) s
                  else (Inr (), if te_trailing_enabled E then manage_trailing_stop E p last_price s else s)
              | None \<Rightarrow> (Inr (), if te_trailing_enabled E then manage_trailing_stop E p last_price s else s))))"

section \<open>One poll cycle\<close>

text \<open>
  Each scan reads one page: \<open>LastEvaluatedKey\<close> is not followed.  The filter is applied by the database
  to the rows of the page.
\<close>

definition scan_page :: "'w tee \<Rightarrow> (item \<Rightarrow> bool) \<Rightarrow> 'w router_state \<Rightarrow> item list res \<times> 'w router_state" where
  "scan_page E keep s =
    (case te_dynamo E of
       None \<Rightarrow> (Inl AttributeError, s)
     | Some D \<Rightarrow>
        (case dy_scan D (xs_world s) (te_positions_table E) [] None of
           (Inl e, w) \<Rightarrow> (Inl e, s\<lparr>xs_world := w\<rparr>)
         | (Inr (items, _), w) \<Rightarrow> (Inr (filter keep items), s\<lparr>xs_world := w\<rparr>)))"

definition open_managed :: "item \<Rightarrow> bool" where
  "open_managed i \<longleftrightarrow> i ''direction'' \<noteq> Some (S ''FLAT'') \<and> i ''stop_price'' \<noteq> None"

definition open_unmanaged :: "item \<Rightarrow> bool" where
  "open_unmanaged i \<longleftrightarrow> i ''direction'' \<noteq> Some (S ''FLAT'') \<and> i ''stop_price'' = None"

definition get_open_managed_positions :: "'w tee \<Rightarrow> 'w router_state \<Rightarrow> tee_position list res \<times> 'w router_state" where
  "get_open_managed_positions E s =
    (case scan_page E open_managed s of (r, s) \<Rightarrow> (map_sum id (List.map_filter parse_position) r, s))"

definition alert_unmanaged_positions :: "'w tee \<Rightarrow> 'w router_state \<Rightarrow> unit res \<times> 'w router_state" where
  "alert_unmanaged_positions E s =
    (case scan_page E open_unmanaged s of
       (Inl e, s) \<Rightarrow> (Inl e, s)
     | (Inr items, s) \<Rightarrow>
        (Inr (), bump (\<lambda>c. c\<lparr>tee_unmanaged_detections := tee_unmanaged_detections c + int (length items)\<rparr>) s))"

text \<open>An exception of one position is logged and the next position is evaluated.\<close>

fun evaluate_positions :: "'w tee \<Rightarrow> (nat \<Rightarrow> tee_readings) \<Rightarrow> nat \<Rightarrow> tee_position list \<Rightarrow> 'w router_state \<Rightarrow> 'w router_state" where
  "evaluate_positions E rd n [] s = s"
| "evaluate_positions E rd n (p # ps) s = evaluate_positions E rd (Suc n) ps (snd (evaluate_exit E (rd n) p s))"

definition check_all_positions :: "'w tee \<Rightarrow> (nat \<Rightarrow> tee_readings) \<Rightarrow> 'w router_state \<Rightarrow> unit res \<times> 'w router_state" where
  "check_all_positions E rd s =
    (case get_open_managed_positions E s of
       (Inl e, s) \<Rightarrow> (Inl e, s)
     | (Inr managed, s) \<Rightarrow>
        (case alert_unmanaged_positions E s of
           (Inl e, s) \<Rightarrow> (Inl e, s)
         | (Inr _, s) \<Rightarrow> (Inr (), evaluate_positions E rd 0 managed s)))"

text \<open>\<open>run\<close>: an exception of a cycle is logged and the loop goes on.\<close>

definition tee_run :: "'w tee \<Rightarrow> (nat \<Rightarrow> tee_readings) list \<Rightarrow> 'w router_state \<Rightarrow> 'w router_state" where
  "tee_run E cycles s =
    foldl (\<lambda>s rd. snd (check_all_positions E rd s))
      (bump (\<lambda>c. c\<lparr>tee_running := True, tee_poll_interval := te_poll_interval E\<rparr>) s) cycles"

end
