(* ===== verification/TradeExitSafety.thy ===== *)
theory TradeExitSafety
  imports TradeExit
begin

text \<open>
  Properties of the trade exit engine: the age of the price a live exit is decided on, the trailing
  stop, and the effect of a triggered paper exit on the stored position.
\<close>

section \<open>Relations kept by the fill path\<close>

text \<open>
  The rule by which \<open>apply_fill_to_position\<close> keeps a relation on the tables: the other clients keep
  it, and so does every update of the position row and of the NAV row.
\<close>

lemma fill_attempts_keep:
  assumes ok: "dynamo_ok R D" and env: "\<And>t t'. R t t' \<Longrightarrow> Q t t'"
    and refl: "\<And>t. Q t t" and trans: "\<And>t u v. Q t u \<Longrightarrow> Q u v \<Longrightarrow> Q t v"
    and own: "\<And>t now p. Q t (tables_put t tbl (position_key symbol)
        (updated_row (position_key symbol) (fill_updates symbol nse now p (fl_last f)) (t tbl (position_key symbol))))"
  shows "Q (dy_tables D w) (dy_tables D (snd (fill_attempts D tbl symbol nse f ts w)))"
proof (induction ts arbitrary: w)
  case Nil
  then show ?case by (simp add: refl)
next
  case (Cons now later)
  obtain g w1 where g: "dy_get D w tbl (position_key symbol) = (g, w1)" by force
  note le1 = env [OF dynamo_ok_get [OF ok g]]
  show ?case
  proof (cases g)
    case (Inl e)
    then show ?thesis using g le1 by simp
  next
    case (Inr row)
    obtain u w2 where u: "dy_update D w1 tbl (position_key symbol)
        (fill_updates symbol nse now (fill_position (read_position (read_row row)) f) (fl_last f))
        (fill_condition (read_row row)) = (u, w2)"
      by force
    have "Q (dy_tables D w1) (dy_tables D w2)"
      by (rule commits_le [OF dynamo_ok_update [OF ok u]]) (use env refl trans own in blast)+
    then have "Q (dy_tables D w) (dy_tables D w2)"
      using le1 trans by blast
    moreover from this have "Q (dy_tables D w) (dy_tables D (snd (fill_attempts D tbl symbol nse f later w2)))"
      using Cons.IH [of w2] trans by blast
    ultimately show ?thesis
      using g Inr u by (simp add: Let_def split: sum.splits exn.splits)
  qed
qed

lemma write_nav_keep:
  assumes ok: "dynamo_ok R D" and m: "om_dynamo m = Some D" and env: "\<And>t t'. R t t' \<Longrightarrow> Q t t'"
    and refl: "\<And>t. Q t t" and trans: "\<And>t u v. Q t u \<Longrightarrow> Q u v \<Longrightarrow> Q t v"
    and own: "\<And>t i. Q t (tables_put t (om_risk_state_table m) nav_key i)"
  shows "Q (dy_tables D w) (dy_tables D (write_nav_snapshot m w sd q p now))"
proof -
  obtain g w1 where g: "dy_get D w (om_risk_state_table m) nav_key = (g, w1)" by force
  have u: "Q (dy_tables D w1) (dy_tables D (snd (dy_update D w1 (om_risk_state_table m) nav_key us NoCond)))" for us
    by (rule commits_le [OF dynamo_ok_update [OF ok], of _ _ _ _ _ "fst (dy_update D w1 (om_risk_state_table m) nav_key us NoCond)"])
      (use env refl trans own in \<open>auto simp: surjective_pairing\<close>)
  then show ?thesis
    using env [OF dynamo_ok_get [OF ok g]] trans g m refl
    by (auto simp: write_nav_snapshot_def Let_def split: sum.splits)
qed

lemma apply_fill_keep:
  assumes ok: "dynamo_ok R D" and m: "om_dynamo m = Some D" and env: "\<And>t t'. R t t' \<Longrightarrow> Q t t'"
    and refl: "\<And>t. Q t t" and trans: "\<And>t u v. Q t u \<Longrightarrow> Q u v \<Longrightarrow> Q t v"
    and fill: "\<And>t nse now p lp. Q t (tables_put t (om_positions_table m) (position_key symbol)
        (updated_row (position_key symbol) (fill_updates symbol nse now p lp) (t (om_positions_table m) (position_key symbol))))"
    and nav: "\<And>t i. Q t (tables_put t (om_risk_state_table m) nav_key i)"
  shows "Q (dy_tables D w) (dy_tables D (snd (apply_fill_to_position m w symbol f mk ts now)))"
proof -
  obtain t1 t2 t3 where ts: "ts = (t1, t2, t3)" by (metis prod_cases3)
  obtain r w1 where r: "fill_attempts D (om_positions_table m) symbol (mk = Some ''NSE'') f [t1, t2, t3] w = (r, w1)"
    by force
  have "Q (dy_tables D w) (dy_tables D (snd (fill_attempts D (om_positions_table m) symbol (mk = Some ''NSE'') f [t1, t2, t3] w)))"
    by (rule fill_attempts_keep [OF ok, where Q = Q]) (use env refl trans fill in blast)+
  then have "Q (dy_tables D w) (dy_tables D w1)"
    using r by simp
  moreover have "Q (dy_tables D w1) (dy_tables D (write_nav_snapshot m w1 (fl_side f) (fl_qty f) (fl_price f) now))"
    by (rule write_nav_keep [OF ok m, where Q = Q]) (use env refl trans nav in blast)+
  moreover have "snd (apply_fill_to_position m w symbol f mk ts now) =
      (case r of Inl _ \<Rightarrow> w1 | Inr _ \<Rightarrow> write_nav_snapshot m w1 (fl_side f) (fl_qty f) (fl_price f) now)"
    using m ts r by (simp add: apply_fill_to_position_def del: fill_attempts.simps split: sum.splits)
  ultimately show ?thesis
    using trans [of "dy_tables D w" "dy_tables D w1"] by (cases r) simp_all
qed

section \<open>Relations kept by a routed exit\<close>

text \<open>The broker and the producer do not write the tables of the client.\<close>

definition outside_calls :: "'w dynamo \<Rightarrow> 'w exit_router \<Rightarrow> bool" where
  "outside_calls D X \<longleftrightarrow>
    (\<forall>place w a. xr_zerodha X = Some place \<longrightarrow> dy_tables D (snd (place w a)) = dy_tables D w) \<and>
    (\<forall>P p w t k v h. xr_publisher X = Some P \<longrightarrow> oe_producer P = Some p \<longrightarrow>
       dy_tables D (snd (pr_produce p w t k v h)) = dy_tables D w) \<and>
    (\<forall>m. xr_order_manager X = Some m \<longrightarrow> om_dynamo m = Some D)"

lemma publish_fill_tables:
  assumes "\<forall>p w t k v h. oe_producer P = Some p \<longrightarrow> dy_tables D (snd (pr_produce p w t k v h)) = dy_tables D w"
  shows "dy_tables D (snd (snd (publish_fill P e tr now a (n, w)))) = dy_tables D w"
  using assms
  by (auto simp: publish_fill_def produce_order_event_def split: sum.splits option.splits prod.splits) (metis snd_conv)+

lemma paper_event_tables:
  assumes "outside_calls D X"
  shows "dy_tables D (xs_world (paper_event X r q s)) = dy_tables D (xs_world s)"
proof (cases "xr_publisher X")
  case None
  then show ?thesis by (simp add: paper_event_def)
next
  case (Some P)
  then have "dy_tables D (snd (snd (publish_fill P (xq_event_id r) (xq_trace r) (xq_now r) (paper_fill_args r q)
      (xs_pending s, xs_world s)))) = dy_tables D (xs_world s)"
    using assms by (intro publish_fill_tables) (auto simp: outside_calls_def)
  then show ?thesis
    using Some by (simp add: paper_event_def case_prod_beta)
qed

lemma client_update_keep:
  assumes "dynamo_ok R D" "\<And>t t'. R t t' \<Longrightarrow> Q t t'" "\<And>t. Q t t" "\<And>t u v. Q t u \<Longrightarrow> Q u v \<Longrightarrow> Q t v"
    and "\<And>t. Q t (tables_put t tbl k (updated_row k us (t tbl k)))"
  shows "Q (dy_tables D w) (dy_tables D (snd (dy_update D w tbl k us c)))"
  by (rule commits_le [OF dynamo_ok_update [OF assms(1)], of _ _ _ _ _ "fst (dy_update D w tbl k us c)"])
    (use assms in \<open>auto simp: surjective_pairing\<close>)

lemma route_exit_keep:
  assumes ok: "dynamo_ok R D" and X: "xr_dynamo X = Some D" "outside_calls D X"
    and env: "\<And>t t'. R t t' \<Longrightarrow> Q t t'" and refl: "\<And>t. Q t t" and trans: "\<And>t u v. Q t u \<Longrightarrow> Q u v \<Longrightarrow> Q t v"
    and lock: "\<And>t. Q t (tables_put t (xr_positions_table X) (position_key (er_symbol q))
        (updated_row (position_key (er_symbol q)) (lock_updates q) (t (xr_positions_table X) (position_key (er_symbol q)))))"
    and unlock: "\<And>t. Q t (tables_put t (xr_positions_table X) (position_key (er_symbol q))
        (updated_row (position_key (er_symbol q)) [RemoveAttr ''exit_order_id'', RemoveAttr ''exit_trigger'']
          (t (xr_positions_table X) (position_key (er_symbol q)))))"
    and fill: "\<And>m t nse now p lp. xr_order_manager X = Some m \<Longrightarrow>
        Q t (tables_put t (om_positions_table m) (position_key (er_symbol q))
        (updated_row (position_key (er_symbol q)) (fill_updates (er_symbol q) nse now p lp)
          (t (om_positions_table m) (position_key (er_symbol q)))))"
    and nav: "\<And>m t i. xr_order_manager X = Some m \<Longrightarrow> Q t (tables_put t (om_risk_state_table m) nav_key i)"
  shows "Q (dy_tables D (xs_world s)) (dy_tables D (xs_world (snd (route_exit X r q s))))"
proof -
  have upd: "Q (dy_tables D w) (dy_tables D (snd (dy_update D w tbl k us c)))"
    if "\<And>t. Q t (tables_put t tbl k (updated_row k us (t tbl k)))" for w tbl k us c
    by (rule client_update_keep [OF ok, where Q = Q]) (use env refl trans that in blast)+
  have acq: "Q (dy_tables D (xs_world s)) (dy_tables D (xs_world s'))" if "acquire_exit_lock X q s = (b, s')" for b s'
  proof -
    obtain u w where u: "dy_update D (xs_world s) (xr_positions_table X) (position_key (er_symbol q)) (lock_updates q)
        (lock_condition q) = (u, w)" by force
    then have "Q (dy_tables D (xs_world s)) (dy_tables D w)"
      using upd [OF lock] by (metis snd_conv)
    then show ?thesis
      using that u X(1) by (cases u) (auto simp: acquire_exit_lock_def)
  qed
  have rel: "Q (dy_tables D (xs_world s)) (dy_tables D (xs_world (release_exit_lock X q s)))" for s
    using upd [OF unlock] X(1) by (simp add: release_exit_lock_def)
  have pos: "Q (dy_tables D (xs_world s)) (dy_tables D (xs_world (paper_position X r q s)))" for s
  proof (cases "xr_order_manager X")
    case None
    then show ?thesis by (simp add: paper_position_def refl)
  next
    case (Some m)
    then have m: "om_dynamo m = Some D"
      using X(2) by (simp add: outside_calls_def)
    have "Q (dy_tables D w) (dy_tables D (snd (apply_fill_to_position m w (er_symbol q) f mk ts now)))" for w f mk ts now
      by (rule apply_fill_keep [OF ok m, where Q = Q]) (use env refl trans fill [OF Some] nav [OF Some] in blast)+
    then show ?thesis
      using Some by (simp add: paper_position_def)
  qed
  have live: "Q (dy_tables D (xs_world s)) (dy_tables D (xs_world (snd (route_live X q s))))" for s
  proof (cases "xr_zerodha X")
    case None
    then show ?thesis
      using rel [of "bump (\<lambda>c. c\<lparr>router_live_blocked := router_live_blocked c + 1\<rparr>)
        (bump (\<lambda>c. c\<lparr>router_live_attempts := router_live_attempts c + 1\<rparr>) s)"] by (simp add: route_live_def Let_def)
  next
    case (Some place)
    obtain a w where a: "place (xs_world s) (exit_place_args q) = (a, w)" by force
    have same: "dy_tables D w = dy_tables D (xs_world s)"
      using X(2) Some a unfolding outside_calls_def by (metis snd_conv)
    show ?thesis
    proof (cases a)
      case (Inr u)
      then show ?thesis using Some a same refl by (simp add: route_live_def Let_def)
    next
      case (Inl e)
      then show ?thesis
        using Some a same refl rel [of "bump (\<lambda>c. c\<lparr>router_failed_routes := router_failed_routes c + 1\<rparr>)
          (bump (\<lambda>c. c\<lparr>router_live_attempts := router_live_attempts c + 1\<rparr>) s\<lparr>xs_world := w\<rparr>)"]
        by (simp add: route_live_def Let_def)
    qed
  qed
  obtain b s1 where a: "acquire_exit_lock X q s = (b, s1)" by force
  have "Q (dy_tables D (xs_world s1)) (dy_tables D (xs_world (snd (route_paper X r q s1))))"
    using pos [of s1] by (simp add: route_paper_def paper_event_tables [OF X(2)])
  then have "Q (dy_tables D (xs_world s)) (dy_tables D (xs_world (snd (route_paper X r q s1))))"
    "Q (dy_tables D (xs_world s)) (dy_tables D (xs_world (snd (route_live X q s1))))"
    using trans [OF acq [OF a]] live [of s1] by blast+
  then show ?thesis
    using acq [OF a] a refl
    by (cases b; cases "xr_mode X") (simp_all add: route_exit_def route_backtest_def)
qed

section \<open>The stop price of a row\<close>

text \<open>In the direction of sign \<open>s\<close>, the row's stop price stays where it is or moves with the position.\<close>

definition stop_le :: "str \<Rightarrow> str \<Rightarrow> rat \<Rightarrow> tables \<Rightarrow> tables \<Rightarrow> bool" where
  "stop_le tbl symbol s t t' \<longleftrightarrow>
    (\<forall>i x. t tbl (position_key symbol) = Some i \<longrightarrow> i ''stop_price'' = Some (N x) \<longrightarrow>
      (\<exists>i' x'. t' tbl (position_key symbol) = Some i' \<and> i' ''stop_price'' = Some (N x') \<and> s * x \<le> s * x'))"

lemma stop_le_refl [simp]: "stop_le tbl symbol s t t"
  by (auto simp: stop_le_def)

lemma stop_le_trans: "stop_le tbl symbol s t u \<Longrightarrow> stop_le tbl symbol s u v \<Longrightarrow> stop_le tbl symbol s t v"
  unfolding stop_le_def by (meson order_trans)

lemma stop_le_update:
  assumes "''stop_price'' \<notin> upd_attr ` set us"
  shows "stop_le tbl symbol s t (tables_put t tbl' k (updated_row k us (t tbl' k)))"
  using assms by (auto simp: stop_le_def tables_put_apply updated_row_frame)

lemma stop_le_nav: "stop_le tbl symbol s t (tables_put t tbl' nav_key i)"
  by (auto simp: stop_le_def tables_put_apply risk_keys_distinct)

lemma route_exit_stop:
  assumes "dynamo_ok (=) D" "xr_dynamo X = Some D" "outside_calls D X"
  shows "stop_le tbl symbol sg (dy_tables D (xs_world s)) (dy_tables D (xs_world (snd (route_exit X r q s))))"
  by (rule route_exit_keep [OF assms, where Q = "stop_le tbl symbol sg"])
    (auto intro!: stop_le_update stop_le_nav intro: stop_le_trans simp: lock_updates_def fill_updates_def)

lemma get_last_price_tables:
  assumes "dynamo_ok (=) D" "lr_dynamo (te_ltp E) = Some D" "get_last_price E now p s = (x, s')"
  shows "dy_tables D (xs_world s') = dy_tables D (xs_world s)"
proof -
  have "dy_tables D (snd (ltp_resolve (te_ltp E) now symbol f w)) = dy_tables D w" for symbol f w
    using assms(2) dynamo_ok_get [OF assms(1)]
    by (auto simp: ltp_resolve_def read_from_prices_table_def split: option.splits sum.splits prod.splits)
  then show ?thesis
    using assms(3)
    by (auto simp: get_last_price_def Let_def split: prod.splits option.splits if_splits) (metis snd_conv)+
qed

section \<open>The trailing stop\<close>

lemma signed_trailing:
  assumes "direction_sign d = Inr s"
  shows "s * compute_trailing_stop d x stop pct = max (s * stop) (s * x - x * pct / 100)"
  using assms
proof (cases rule: direction_sign_cases)
  case 1
  then show ?thesis by (simp add: compute_trailing_stop_def algebra_simps)
next
  case 2
  then show ?thesis by (simp add: compute_trailing_stop_def algebra_simps minus_min_eq_max)
qed

text \<open>The engine's arithmetic is that of the shared policy.\<close>

lemma trailing_stop_policy:
  assumes "direction_sign d = Inr s" "et_trailing_stop_pct t = pct"
  shows "trailing_stop_from t x d None = Inr c \<Longrightarrow> compute_trailing_stop d x stop pct = tighter_stop (Some stop) c d"
  using assms
  by (auto simp: trailing_stop_from_def adverse_def tighter_stop_def compute_trailing_stop_def elim!: direction_sign_cases)

lemma write_trailing_stop_le:
  assumes ok: "dynamo_ok (=) D" and E: "te_dynamo E = Some D" and d: "direction_sign d = Inr sg"
    and row: "dy_tables D (xs_world s) (te_positions_table E) (position_key symbol) = Some i" "i ''stop_price'' = Some (N stop)"
    and new: "sg * stop \<le> sg * new_stop"
  shows "stop_le (te_positions_table E) symbol sg (dy_tables D (xs_world s))
    (dy_tables D (xs_world (write_trailing_stop E symbol new_stop s)))"
proof -
  let ?us = "[SetTo ''stop_price'' (N new_stop), SetTo ''exit_state'' (S ''TRAILING_ACTIVE'')]"
  obtain u w where u: "dy_update D (xs_world s) (te_positions_table E) (position_key symbol) ?us
      (AttrNe ''direction'' (S ''FLAT'')) = (u, w)" by force
  have "dy_tables D w = dy_tables D (xs_world s) \<or>
      dy_tables D w = tables_put (dy_tables D (xs_world s)) (te_positions_table E) (position_key symbol)
        (updated_row (position_key symbol) ?us (dy_tables D (xs_world s) (te_positions_table E) (position_key symbol)))"
    using dynamo_ok_update [OF ok u] by (auto simp: commits_def write_effect_def split: sum.splits exn.splits)
  then show ?thesis
    using E u row new
    by (auto simp: write_trailing_stop_def stop_le_def updated_row_def)
qed

lemma fire_exit_stop:
  assumes "dynamo_ok (=) D" "xr_dynamo (te_router E) = Some D" "outside_calls D (te_router E)"
  shows "stop_le tbl symbol sg (dy_tables D (xs_world s)) (dy_tables D (xs_world (snd (fire_exit E r p tr ep s))))"
  using route_exit_stop [OF assms, of tbl symbol sg "bump (count_exit tr) s"]
  by (auto simp: fire_exit_def split: sum.splits)

lemma manage_trailing_stop_le:
  assumes ok: "dynamo_ok (=) D" and E: "te_dynamo E = Some D" and d: "direction_sign (ps_direction p) = Inr sg"
    and row: "dy_tables D (xs_world s) (te_positions_table E) (position_key (ps_symbol p)) = Some i"
      "i ''stop_price'' = Some (N (ps_stop_price p))"
  shows "stop_le (te_positions_table E) (ps_symbol p) sg (dy_tables D (xs_world s))
    (dy_tables D (xs_world (manage_trailing_stop E p x s)))"
proof -
  let ?b = "bump (\<lambda>c. c\<lparr>tee_trailing_activated := tee_trailing_activated c + 1\<rparr>)"
  let ?new = "compute_trailing_stop (ps_direction p) x (ps_stop_price p) (te_trailing_stop_pct E)"
  have new: "sg * ps_stop_price p \<le> sg * ?new"
    by (simp add: signed_trailing [OF d])
  have "stop_le (te_positions_table E) (ps_symbol p) sg (dy_tables D (xs_world s))
      (dy_tables D (xs_world (write_trailing_stop E (ps_symbol p) ?new s)))"
    by (rule write_trailing_stop_le [OF ok E d row new])
  moreover have "stop_le (te_positions_table E) (ps_symbol p) sg (dy_tables D (xs_world s))
      (dy_tables D (xs_world (write_trailing_stop E (ps_symbol p) ?new (?b s))))"
    using write_trailing_stop_le [OF ok E d, of "?b s" "ps_symbol p" i "ps_stop_price p" ?new] row new by simp
  ultimately show ?thesis
    by (auto simp: manage_trailing_stop_def advance_trailing_stop_def activate_trailing_stop_def Let_def)
qed

section \<open>A paper exit by the only client\<close>

text \<open>Reads that do not fail, and a row whose version attribute can be compared.\<close>

definition reads_succeed :: "'w dynamo \<Rightarrow> bool" where
  "reads_succeed D \<longleftrightarrow> (\<forall>w tbl k. res_ok (fst (dy_get D w tbl k)))"

definition comparable_version :: "item \<Rightarrow> bool" where
  "comparable_version i \<longleftrightarrow> i ''updated_at'' = None \<or> (\<exists>v. v \<noteq> [] \<and> i ''updated_at'' = Some (S v))"

definition sole_client :: "'w dynamo \<Rightarrow> bool" where
  "sole_client D \<longleftrightarrow> dynamo_ok (=) D \<and> dynamo_values D \<and> reliable D \<and> reads_succeed D"

lemma sole_client_get:
  assumes "sole_client D"
  obtains w' where "dy_get D w tbl k = (Inr (dy_tables D w tbl k), w')" "dy_tables D w' = dy_tables D w"
proof -
  obtain r w' where g: "dy_get D w tbl k = (r, w')" by force
  moreover have "res_ok r"
    using assms g unfolding sole_client_def reads_succeed_def by (metis fst_conv)
  ultimately obtain row where "r = Inr row"
    by (cases r) auto
  then show ?thesis
    using that sole_get [of D w tbl k row w'] g assms by (auto simp: sole_client_def)
qed

lemma version_holds:
  "comparable_version i \<Longrightarrow> cond_holds (fill_condition i) k (Some i)"
  by (auto simp: fill_condition_def comparable_version_def str_attr_def)

lemma fill_attempts_sole:
  assumes D: "sole_client D" and row: "dy_tables D w tbl (position_key symbol) = Some i" "comparable_version i"
  shows "\<exists>w'. fill_attempts D tbl symbol nse f (now # later) w = (Inr (), w') \<and>
    dy_tables D w' tbl (position_key symbol) =
      Some (updated_row (position_key symbol) (fill_updates symbol nse now (fill_position (read_position i) f) (fl_last f)) (Some i))"
proof -
  let ?k = "position_key symbol" and ?us = "fill_updates symbol nse now (fill_position (read_position i) f) (fl_last f)"
  obtain w1 where g: "dy_get D w tbl ?k = (Inr (Some i), w1)" "dy_tables D w1 = dy_tables D w"
    using sole_client_get [OF D, of w tbl ?k] row(1) by metis
  obtain u w2 where u: "dy_update D w1 tbl ?k ?us (fill_condition i) = (u, w2)" by force
  have "u = Inr (updated_row ?k ?us (Some i)) \<and> dy_tables D w2 = tables_put (dy_tables D w) tbl ?k (updated_row ?k ?us (Some i))"
    using reliable_update [OF _ _ _ u] D version_holds [OF row(2), of ?k] row(1) g(2)
    by (simp add: sole_client_def)
  then show ?thesis
    using g u by (simp add: read_row_def Let_def)
qed

lemma apply_fill_sole:
  assumes D: "sole_client D" and m: "om_dynamo m = Some D"
    and row: "dy_tables D w (om_positions_table m) (position_key symbol) = Some i" "comparable_version i"
  shows "\<exists>now. dy_tables D (snd (apply_fill_to_position m w symbol f mk ts nav)) (om_positions_table m) (position_key symbol) =
      Some (updated_row (position_key symbol) (fill_updates symbol (mk = Some ''NSE'') now (fill_position (read_position i) f)
        (fl_last f)) (Some i))"
proof -
  obtain t1 t2 t3 where ts: "ts = (t1, t2, t3)" by (metis prod_cases3)
  obtain w1 where w1: "fill_attempts D (om_positions_table m) symbol (mk = Some ''NSE'') f [t1, t2, t3] w = (Inr (), w1)"
    "dy_tables D w1 (om_positions_table m) (position_key symbol) =
      Some (updated_row (position_key symbol) (fill_updates symbol (mk = Some ''NSE'') t1
        (fill_position (read_position i) f) (fl_last f)) (Some i))"
    using fill_attempts_sole [OF D row] by blast
  have "dy_tables D w1 (om_positions_table m) (position_key symbol) =
      dy_tables D (write_nav_snapshot m w1 (fl_side f) (fl_qty f) (fl_price f) nav) (om_positions_table m) (position_key symbol)"
    by (rule write_nav_keep [where R = "(=)" and Q = "\<lambda>t t'. t (om_positions_table m) (position_key symbol) =
        t' (om_positions_table m) (position_key symbol)"])
      (use D m in \<open>auto simp: sole_client_def tables_put_apply risk_keys_distinct\<close>)
  moreover have "snd (apply_fill_to_position m w symbol f mk ts nav) =
      write_nav_snapshot m w1 (fl_side f) (fl_qty f) (fl_price f) nav"
    using w1(1) m ts by (simp add: apply_fill_to_position_def del: fill_attempts.simps)
  ultimately show ?thesis
    using w1(2) by (intro exI [of _ t1]) simp
qed

lemma closing_request:
  "qty \<noteq> 0 \<Longrightarrow> \<exists>q. exit_request_from_position symbol mkt d qty tr sd avg (Some x) ks = Inr q \<and>
    er_symbol q = symbol \<and> er_close_side q = (if d = ''LONG'' then ''SELL'' else ''BUY'') \<and>
    er_close_qty q = \<bar>qty\<bar> \<and> er_exit_price q = Some x \<and> er_market q = mkt"
  by (simp add: exit_request_from_position_def validate_exit_request_def)

lemma str_attr_Nil: "str_attr i k [] \<noteq> [] \<Longrightarrow> i k = Some (S (str_attr i k []))"
  by (simp add: str_attr_def split: option.splits attr.splits)

lemma parse_position_row:
  assumes "parse_position i = Some p"
  shows "num_attr_opt i ''quantity'' = Some (ps_quantity p)" "ps_avg_price p = pos_avg (read_position i)"
    "ps_exit_order_id p = str_attr_opt i ''exit_order_id''" "ps_direction p = str_attr i ''direction'' []"
  using assms
  by (simp_all add: parse_position_def read_position_def Let_def split: option.splits if_splits)
    (auto)

lemma acquire_succeeds:
  assumes D: "sole_client D" and X: "xr_dynamo X = Some D"
    and row: "dy_tables D (xs_world s) (xr_positions_table X) (position_key (er_symbol q)) = Some i"
    and c: "i ''exit_order_id'' = None" "i ''direction'' \<noteq> Some (S ''FLAT'')"
  shows "\<exists>s1. acquire_exit_lock X q s = (True, s1) \<and>
    dy_tables D (xs_world s1) (xr_positions_table X) (position_key (er_symbol q)) =
      Some (updated_row (position_key (er_symbol q)) (lock_updates q) (Some i))"
proof -
  let ?k = "position_key (er_symbol q)"
  obtain u w where u: "dy_update D (xs_world s) (xr_positions_table X) ?k (lock_updates q) (lock_condition q) = (u, w)"
    by force
  have "cond_holds (lock_condition q) ?k (Some i)"
    using c by (simp add: lock_condition_def)
  then have "u = Inr (updated_row ?k (lock_updates q) (Some i)) \<and>
      dy_tables D w = tables_put (dy_tables D (xs_world s)) (xr_positions_table X) ?k (updated_row ?k (lock_updates q) (Some i))"
    using reliable_update [OF _ _ _ u] D row by (simp add: sole_client_def)
  then show ?thesis
    using u X by (simp add: acquire_exit_lock_def)
qed

text \<open>Closing exactly the quantity held leaves a flat position and realises the difference.\<close>

lemma closing_fill:
  assumes "direction_sign d = Inr sg" "0 < sg * pos_qty p" "fl_side f = (if d = ''LONG'' then SELL else BUY)"
    "fl_qty f = \<bar>pos_qty p\<bar>"
  shows "pos_qty (fill_position p f) = 0"
    "pos_realized (fill_position p f) = pos_realized p + sg * (fl_price f - pos_avg p) * \<bar>pos_qty p\<bar>"
  using assms by (auto simp: fill_position_def Let_def EPS_def elim!: direction_sign_cases)

section \<open>Properties\<close>

text \<open>
  C23 The exit engine never loosens a stop: one evaluation of a position on its current row, in any mode,
  whether it routes an exit, activates or advances the trailing stop or does nothing, and whichever of
  its calls fail, leaves the stop price of the row where it was or moves it in the direction of the
  position.
\<close>

theorem stop_never_loosens:
  assumes "dynamo_ok (=) D" "te_dynamo E = Some D" "xr_dynamo (te_router E) = Some D"
    "lr_dynamo (te_ltp E) = Some D" "outside_calls D (te_router E)"
    and "dy_tables D (xs_world s) (te_positions_table E) (position_key (ps_symbol p)) = Some i" "parse_position i = Some p"
    and "direction_sign (ps_direction p) = Inr sg"
  shows "stop_le (te_positions_table E) (ps_symbol p) sg (dy_tables D (xs_world s))
    (dy_tables D (xs_world (snd (evaluate_exit E r p s))))"
proof -
  obtain x s1 where x: "get_last_price E (tr_now r) p s = (x, s1)" by force
  note same = get_last_price_tables [OF assms(1,4) x]
  have stop: "i ''stop_price'' = Some (N (ps_stop_price p))"
    using assms(7) by (auto simp: parse_position_def num_attr_opt_def split: option.splits attr.splits if_splits)
  note fire = fire_exit_stop [OF assms(1,3,5), of "te_positions_table E" "ps_symbol p" sg s1]
  have manage: "stop_le (te_positions_table E) (ps_symbol p) sg (dy_tables D (xs_world s))
      (dy_tables D (xs_world (manage_trailing_stop E p lp s1)))" for lp
    using manage_trailing_stop_le [OF assms(1,2,8), of s1 i lp] assms(6) stop same by simp
  show ?thesis
    using x fire manage same
    by (auto simp: evaluate_exit_def split: option.splits if_splits)
qed

text \<open>
  A live exit is decided only on a quote of the prices table whose age is known and at most the larger
  of the resolver's freshness window and \<open>TEE_MAX_STALE_LTP_LIVE_SECONDS\<close>; the entry fill price is never used.
\<close>

theorem live_price_is_recent:
  assumes "xr_mode (te_router E) = LIVE" "get_last_price E now p s = (Some x, s')"
  shows "\<exists>D tbl i t w. lr_dynamo (te_ltp E) = Some D \<and> lr_prices_table (te_ltp E) = Some tbl \<and>
    dy_get D (xs_world s) tbl (ltp_key (te_ltp E) (ps_symbol p)) = (Inr (Some i), w) \<and> ltp_attr i = Some x \<and>
    quote_time (te_ltp E) i = Some t \<and> now - t \<le> max (lr_freshness (te_ltp E)) (te_max_stale_ltp_live E)"
proof -
  obtain r w where r: "ltp_resolve (te_ltp E) now (ps_symbol p) (ps_last_price p) (xs_world s) = (Some r, w)"
    "lt_price r = x" and fresh: "\<not> lt_is_stale r \<or> (\<exists>a. lt_age_seconds r = Some a \<and> a \<le> te_max_stale_ltp_live E)"
    using assms by (auto simp: get_last_price_def Let_def split: prod.splits option.splits if_splits)
  have "fill_price_result (ps_last_price p) \<noteq> Some r"
    using fresh by (auto simp: fill_price_result_def)
  then obtain D tbl i where D: "lr_dynamo (te_ltp E) = Some D" "lr_prices_table (te_ltp E) = Some tbl"
    and i: "dy_get D (xs_world s) tbl (ltp_key (te_ltp E) (ps_symbol p)) = (Inr (Some i), w)"
      "ltp_of_item (te_ltp E) now i = Some r"
    using r(1)
    by (auto simp: ltp_resolve_def read_from_prices_table_def split: option.splits sum.splits prod.splits if_splits)
  have "ltp_attr i = Some x" "\<exists>t. quote_time (te_ltp E) i = Some t \<and>
      now - t \<le> max (lr_freshness (te_ltp E)) (te_max_stale_ltp_live E)"
    using i(2) r(2) fresh by (auto simp: ltp_of_item_def Let_def split: option.splits)
  then show ?thesis using D i(1) by blast
qed


section \<open>Witnesses\<close>

text \<open>An engine over the in-memory client, with one long position and one quote four seconds old.\<close>

definition demo_tee :: "router_mode \<Rightarrow> mem tee" where
  "demo_tee mode = \<lparr>te_dynamo = Some mem_dynamo, te_positions_table = ''positions'',
    te_router = \<lparr>xr_mode = mode, xr_dynamo = Some mem_dynamo, xr_positions_table = ''positions'',
      xr_order_manager = Some demo_manager, xr_zerodha = None, xr_publisher = None, xr_live_enabled = True\<rparr>,
    te_ltp = \<lparr>lr_dynamo = Some mem_dynamo, lr_prices_table = Some ''prices'', lr_freshness = 5,
      lr_market = ''NSE'', lr_fromiso = (\<lambda>_. Some 100)\<rparr>,
    te_poll_interval = 30, te_trailing_enabled = True, te_trailing_activation_pct = 5 / 4,
    te_trailing_stop_pct = 3 / 5, te_max_stale_ltp_live = 3\<rparr>"

definition demo_row :: item where
  "demo_row = [''symbol'' \<mapsto> S ''INFY'', ''direction'' \<mapsto> S ''LONG'', ''quantity'' \<mapsto> N 10, ''avg_price'' \<mapsto> N 100,
    ''stop_price'' \<mapsto> N 95]"

definition demo_quote :: "rat \<Rightarrow> item" where
  "demo_quote x = [''ltp'' \<mapsto> N x, ''captured_at'' \<mapsto> S ''t'']"

definition demo_tee_state :: "rat \<Rightarrow> mem router_state" where
  "demo_tee_state x = \<lparr>xs_counters = None, xs_pending = 0,
    xs_world = [((''positions'', position_key ''INFY''), demo_row), ((''prices'', ''QUOTE#NSE#INFY'', ''LATEST''), demo_quote x)]\<rparr>"

definition demo_position :: tee_position where
  "demo_position = \<lparr>ps_symbol = ''INFY'', ps_direction = ''LONG'', ps_quantity = 10, ps_avg_price = 100,
    ps_stop_price = 95, ps_take_profit = None, ps_last_price = None, ps_exit_order_id = None, ps_exit_state = None\<rparr>"

definition demo_tee_readings :: tee_readings where
  "demo_tee_readings = \<lparr>tr_now = 104, tr_session_date = ''d'', tr_exit = demo_exit_readings\<rparr>"

lemma demo_ltp_key: "ltp_key (te_ltp (demo_tee mode)) ''INFY'' = (''QUOTE#NSE#INFY'', ''LATEST'')"
proof -
  have "py_upper ''INFY'' = ''INFY''" by code_simp
  then show ?thesis by (simp add: ltp_key_def demo_tee_def)
qed

lemma demo_price:
  "get_last_price (demo_tee mode) 104 demo_position (demo_tee_state x) = (Some x, demo_tee_state x)"
proof -
  have "dy_get mem_dynamo (xs_world (demo_tee_state x)) ''prices'' (''QUOTE#NSE#INFY'', ''LATEST'') =
      (Inr (Some (demo_quote x)), xs_world (demo_tee_state x))"
    by (simp add: mem_simps demo_tee_state_def)
  then have "ltp_resolve (te_ltp (demo_tee mode)) 104 ''INFY'' None (xs_world (demo_tee_state x)) =
      (ltp_of_item (te_ltp (demo_tee mode)) 104 (demo_quote x), xs_world (demo_tee_state x))"
    using demo_ltp_key [of mode]
    by (simp add: ltp_resolve_def read_from_prices_table_def demo_tee_def ltp_of_item_def ltp_attr_def num_attr_opt_def
        demo_quote_def Let_def)
  then show ?thesis
    by (simp add: get_last_price_def demo_position_def ltp_of_item_def ltp_attr_def num_attr_opt_def demo_quote_def
        quote_time_def str_attr_def demo_tee_def Let_def)
qed

lemma demo_parsed: "parse_position demo_row = Some demo_position"
  by (simp add: parse_position_def demo_row_def demo_position_def num_attr_opt_def num_attr_def str_attr_def
      str_attr_opt_def EPS_def)

lemma demo_stored:
  "dy_tables mem_dynamo (xs_world (demo_tee_state x)) ''positions'' (position_key ''INFY'') = Some demo_row"
  by (simp add: mem_simps demo_tee_state_def)

lemma demo_outside: "outside_calls mem_dynamo (te_router (demo_tee mode))"
  by (simp add: outside_calls_def demo_tee_def demo_manager_def)

lemma mem_sole: "sole_client mem_dynamo"
  using mem_dynamo_ok mem_dynamo_values mem_reliable
  by (simp add: sole_client_def reads_succeed_def mem_dynamo_def mem_get_def)

theorem stop_never_loosens_witness:
  "stop_le ''positions'' ''INFY'' 1 (mem_tables (xs_world (demo_tee_state 110)))
    (mem_tables (xs_world (snd (evaluate_exit (demo_tee LIVE) demo_tee_readings demo_position (demo_tee_state 110)))))"
  using stop_never_loosens [OF mem_dynamo_ok _ _ _ demo_outside _ demo_parsed, of LIVE "demo_tee_state 110" 1 demo_tee_readings]
    demo_stored [of 110]
  by (simp add: demo_tee_def demo_position_def direction_sign_def) (simp add: mem_dynamo_def)

text \<open>A live exit is decided on a quote older than the live threshold of three seconds.\<close>

theorem live_price_is_recent_witness:
  "\<exists>i t w. mem_get (xs_world (demo_tee_state 90)) ''prices'' (''QUOTE#NSE#INFY'', ''LATEST'') = (Inr (Some i), w) \<and>
    ltp_attr i = Some 90 \<and> quote_time (te_ltp (demo_tee LIVE)) i = Some t \<and> 104 - t \<le> 5"
proof -
  have live: "xr_mode (te_router (demo_tee LIVE)) = LIVE"
    by (simp add: demo_tee_def)
  show ?thesis
    using live_price_is_recent [OF live demo_price, of 90] demo_ltp_key [of LIVE]
    by (simp add: demo_tee_def demo_position_def) (simp add: mem_dynamo_def)
qed


end
