(* ===== verification/RateLimiter.thy ===== *)
theory RateLimiter
  imports QE_Prelude
begin

text \<open>
  \<open>services/shared/zerodha/rate_limiter.py\<close>: the limiter of the broker's REST calls, with one token
  bucket per endpoint class, a queue of waiters by priority, a reserve of tokens for critical calls
  and three windows that cap the orders per second, minute and day.  The clock readings of one call
  are taken as equal; the asyncio lock serialises the calls.
\<close>

section \<open>State\<close>

datatype priority = CRITICAL | HIGH | MEDIUM | LOW

fun priority_value :: "priority \<Rightarrow> nat" where
  "priority_value CRITICAL = 0"
| "priority_value HIGH = 1"
| "priority_value MEDIUM = 2"
| "priority_value LOW = 3"

datatype endpoint_class = ORDER_PLACE | ORDER_CONTROL | QUOTE | HISTORICAL | OTHER

fun endpoint_value :: "endpoint_class \<Rightarrow> str" where
  "endpoint_value ORDER_PLACE = ''order_place''"
| "endpoint_value ORDER_CONTROL = ''order_control''"
| "endpoint_value QUOTE = ''quote''"
| "endpoint_value HISTORICAL = ''historical''"
| "endpoint_value OTHER = ''other''"

definition endpoint_classes :: "endpoint_class list" where
  "endpoint_classes = [ORDER_PLACE, ORDER_CONTROL, QUOTE, HISTORICAL, OTHER]"

interpretation endpoint_enum: str_enum endpoint_value endpoint_classes
proof
  show "x = y" if "endpoint_value x = endpoint_value y" for x y
    using that by (cases x; cases y) simp_all
  show "x \<in> set endpoint_classes" for x
    by (cases x) (simp_all add: endpoint_classes_def)
qed

record bucket =
  bk_rate :: rat
  bk_burst :: rat
  bk_tokens :: rat
  bk_last_refill :: rat

text \<open>A waiter is known by the identity of its future; \<open>wt_done\<close>: the future was cancelled.\<close>

record waiter =
  wt_id :: nat
  wt_priority :: priority
  wt_endpoint :: endpoint_class
  wt_units :: rat
  wt_enqueued_at :: rat
  wt_done :: bool

record limiter =
  li_buckets :: "endpoint_class \<Rightarrow> bucket"
  li_reserved :: rat
  li_waiters :: "waiter list"
  li_max_second :: int
  li_max_minute :: int
  li_max_day :: int
  li_second :: "rat list"
  li_minute :: "rat list"
  li_day :: "rat list"
  li_day_key :: int
  li_total_acquired :: int
  li_total_waited :: int
  li_peak :: nat
  li_phase :: str
  li_priority_counts :: "priority \<Rightarrow> int"
  li_endpoint_counts :: "endpoint_class \<Rightarrow> int"
  li_woken :: "nat list" \<comment> \<open>the futures set, in order\<close>

definition new_bucket :: "rat \<Rightarrow> rat \<Rightarrow> rat \<Rightarrow> bucket" where
  "new_bucket rate burst now = \<lparr>bk_rate = rate, bk_burst = burst, bk_tokens = burst, bk_last_refill = now\<rparr>"

record limits =
  lm_capacity :: int
  lm_quote :: int
  lm_historical :: int
  lm_order :: int
  lm_other :: int
  lm_reserved :: int
  lm_per_second :: int
  lm_per_minute :: int
  lm_per_day :: int

definition new_limiter :: "limits \<Rightarrow> rat \<Rightarrow> int \<Rightarrow> limiter" where
  "new_limiter c now today =
    \<lparr>li_buckets = (\<lambda>e. case e of
       ORDER_PLACE \<Rightarrow> new_bucket (of_int (lm_order c)) (of_int (min (lm_order c) (lm_per_second c))) now
     | ORDER_CONTROL \<Rightarrow> new_bucket (of_int (lm_other c)) (of_int (min (lm_other c) (lm_capacity c))) now
     | QUOTE \<Rightarrow> new_bucket (of_int (lm_quote c)) (of_int (max 1 (lm_quote c))) now
     | HISTORICAL \<Rightarrow> new_bucket (of_int (lm_historical c)) (of_int (max 1 (lm_historical c))) now
     | OTHER \<Rightarrow> new_bucket (of_int (lm_other c)) (of_int (min (lm_other c) (lm_capacity c))) now),
     li_reserved = of_int (max 0 (lm_reserved c)), li_waiters = [],
     li_max_second = lm_per_second c, li_max_minute = lm_per_minute c, li_max_day = lm_per_day c,
     li_second = [], li_minute = [], li_day = [], li_day_key = today, li_total_acquired = 0, li_total_waited = 0,
     li_peak = 0, li_phase = ''UNKNOWN'', li_priority_counts = (\<lambda>_. 0), li_endpoint_counts = (\<lambda>_. 0), li_woken = []\<rparr>"

section \<open>Endpoint names\<close>

definition endpoint_aliases :: "(str \<times> endpoint_class) list" where
  "endpoint_aliases = [(''order'', ORDER_PLACE), (''place_order'', ORDER_PLACE), (''order_place'', ORDER_PLACE),
    (''cancel'', ORDER_CONTROL), (''cancel_order'', ORDER_CONTROL), (''modify_order'', ORDER_CONTROL),
    (''order_control'', ORDER_CONTROL), (''quotes'', QUOTE), (''quote'', QUOTE), (''historical'', HISTORICAL),
    (''historical_data'', HISTORICAL), (''other'', OTHER)]"

definition normalise_endpoint :: "str \<Rightarrow> endpoint_class res" where
  "normalise_endpoint s =
    (let raw = map (\<lambda>c. if c = CHR ''-'' then CHR ''_'' else c) (py_lower (py_strip s))
     in case map_of endpoint_aliases raw of
          Some e \<Rightarrow> Inr e
        | None \<Rightarrow> of_opt ValueError (enum_of endpoint_value endpoint_classes raw))"

section \<open>Tokens and windows\<close>

definition refill_bucket :: "rat \<Rightarrow> bucket \<Rightarrow> bucket" where
  "refill_bucket now b = b\<lparr>bk_tokens := min (bk_burst b) (bk_tokens b + (now - bk_last_refill b) * bk_rate b),
     bk_last_refill := now\<rparr>"

definition prune :: "rat \<Rightarrow> int \<Rightarrow> limiter \<Rightarrow> limiter" where
  "prune now today L =
    (let L = (if today \<noteq> li_day_key L then L\<lparr>li_day_key := today, li_day := []\<rparr> else L)
     in L\<lparr>li_second := dropWhile (\<lambda>x. 1 \<le> now - x) (li_second L),
          li_minute := dropWhile (\<lambda>x. 60 \<le> now - x) (li_minute L)\<rparr>)"

definition order_caps_available :: "rat \<Rightarrow> int \<Rightarrow> limiter \<Rightarrow> bool" where
  "order_caps_available now today L =
    (let L = prune now today L
     in int (length (li_second L)) < li_max_second L \<and> int (length (li_minute L)) < li_max_minute L \<and>
        int (length (li_day L)) < li_max_day L)"

definition reserved_floor :: "limiter \<Rightarrow> endpoint_class \<Rightarrow> priority \<Rightarrow> rat" where
  "reserved_floor L e p =
    (if p = CRITICAL then 0
     else if e \<in> {ORDER_PLACE, ORDER_CONTROL, OTHER}
     then min (li_reserved L) (max 0 (bk_burst (li_buckets L e) - 1))
     else 0)"

definition can_acquire :: "rat \<Rightarrow> int \<Rightarrow> limiter \<Rightarrow> endpoint_class \<Rightarrow> priority \<Rightarrow> rat \<Rightarrow> bool" where
  "can_acquire now today L e p units \<longleftrightarrow>
    \<not> bk_tokens (li_buckets L e) - units < reserved_floor L e p \<and>
    (e = ORDER_PLACE \<longrightarrow> order_caps_available now today L)"

definition consume :: "rat \<Rightarrow> endpoint_class \<Rightarrow> priority \<Rightarrow> rat \<Rightarrow> limiter \<Rightarrow> limiter" where
  "consume now e p units L =
    (let b = li_buckets L e;
         stamps = (if e = ORDER_PLACE then replicate (nat (py_int units)) now else [])
     in L\<lparr>li_buckets := (li_buckets L)(e := b\<lparr>bk_tokens := bk_tokens b - units\<rparr>),
          li_second := li_second L @ stamps, li_minute := li_minute L @ stamps, li_day := li_day L @ stamps,
          li_total_acquired := li_total_acquired L + 1,
          li_priority_counts := (li_priority_counts L)(p := li_priority_counts L p + 1),
          li_endpoint_counts := (li_endpoint_counts L)(e := li_endpoint_counts L e + 1)\<rparr>)"

section \<open>The queue\<close>

text \<open>\<open>list.sort\<close> is stable; the order is by priority, then by the time of arrival.\<close>

definition sort_waiters :: "waiter list \<Rightarrow> waiter list" where
  "sort_waiters ws = sort_key (priority_value \<circ> wt_priority) (sort_key wt_enqueued_at ws)"

lemma set_sort_waiters [simp]: "set (sort_waiters ws) = set ws"
  by (simp add: sort_waiters_def)

lemma length_sort_waiters [simp]: "length (sort_waiters ws) = length ws"
  by (simp add: sort_waiters_def)

lemma find_waiter: "List.find P (sort_waiters ws) = Some w \<Longrightarrow> w \<in> set ws \<and> P w"
  by (auto simp: find_Some_iff) (metis length_sort_waiters nth_mem set_sort_waiters)

definition ready :: "rat \<Rightarrow> int \<Rightarrow> limiter \<Rightarrow> waiter \<Rightarrow> bool" where
  "ready now today L w \<longleftrightarrow> wt_done w \<or> can_acquire now today L (wt_endpoint w) (wt_priority w) (wt_units w)"

definition serve :: "rat \<Rightarrow> waiter \<Rightarrow> limiter \<Rightarrow> limiter" where
  "serve now w L =
    (let L = L\<lparr>li_waiters := remove1 w (li_waiters L)\<rparr>
     in if wt_done w then L
        else (consume now (wt_endpoint w) (wt_priority w) (wt_units w) L)\<lparr>li_woken := li_woken L @ [wt_id w]\<rparr>)"

lemma serve_waiters [simp]: "li_waiters (serve now w L) = remove1 w (li_waiters L)"
  by (simp add: serve_def consume_def Let_def)

text \<open>The loop of \<open>_refill\<close>: the first waiter that can go on is served until none can.\<close>

function wake :: "rat \<Rightarrow> int \<Rightarrow> limiter \<Rightarrow> limiter" where
  "wake now today L =
    (let L = L\<lparr>li_waiters := sort_waiters (li_waiters L)\<rparr>
     in case List.find (ready now today L) (li_waiters L) of
          None \<Rightarrow> L
        | Some w \<Rightarrow> wake now today (serve now w L))"
  by pat_completeness auto
termination
proof (relation "measure (\<lambda>(now, today, L). length (li_waiters L))")
  fix now today L M w
  assume "M = L\<lparr>li_waiters := sort_waiters (li_waiters L)\<rparr>" "List.find (ready now today M) (li_waiters M) = Some w"
  then have "w \<in> set (li_waiters L)"
    using find_waiter [of _ "li_waiters L" w] by auto
  moreover have "li_waiters M = sort_waiters (li_waiters L)"
    using \<open>M = _\<close> by simp
  ultimately show "((now, today, serve now w M), now, today, L) \<in> measure (\<lambda>(now, today, L). length (li_waiters L))"
    by (auto simp: length_remove1 intro!: diff_less length_pos_if_in_set)
qed simp

declare wake.simps [simp del]

definition refill :: "rat \<Rightarrow> int \<Rightarrow> limiter \<Rightarrow> limiter" where
  "refill now today L =
    wake now today (prune now today (L\<lparr>li_buckets := (\<lambda>e. refill_bucket now (li_buckets L e))\<rparr>))"

definition daily_cap_exhausted :: "rat \<Rightarrow> int \<Rightarrow> limiter \<Rightarrow> endpoint_class \<Rightarrow> bool" where
  "daily_cap_exhausted now today L e \<longleftrightarrow>
    e = ORDER_PLACE \<and> li_max_day L \<le> int (length (li_day (prune now today L)))"

text \<open>
  The result: \<open>Inr True\<close> the token was there, \<open>Inr False\<close> the call waits for its future, \<open>Inl\<close> the
  \<open>ZerodhaRateLimitExceeded\<close>, a \<open>RuntimeError\<close>.
\<close>

definition acquire :: "nat \<Rightarrow> priority \<Rightarrow> endpoint_class \<Rightarrow> rat \<Rightarrow> rat \<Rightarrow> int \<Rightarrow> limiter \<Rightarrow> bool res \<times> limiter" where
  "acquire i p e units now today L =
    (if units \<le> 0 then (Inr True, L)
     else
      (let L = refill now today L in
       if daily_cap_exhausted now today L e then (Inl RuntimeError, prune now today L)
       else if can_acquire now today L e p units then (Inr True, consume now e p units L)
       else
        (let ws = sort_waiters (li_waiters L @ [\<lparr>wt_id = i, wt_priority = p, wt_endpoint = e, wt_units = units,
               wt_enqueued_at = now, wt_done = False\<rparr>])
         in (Inr False, L\<lparr>li_waiters := ws, li_peak := max (li_peak L) (length ws), li_total_waited := li_total_waited L + 1\<rparr>))))"

definition set_market_phase :: "str \<Rightarrow> limiter \<Rightarrow> limiter" where
  "set_market_phase phase L = L\<lparr>li_phase := phase\<rparr>"

definition cancel_wait :: "nat \<Rightarrow> limiter \<Rightarrow> limiter" where
  "cancel_wait i L = L\<lparr>li_waiters := map (\<lambda>w. if wt_id w = i then w\<lparr>wt_done := True\<rparr> else w) (li_waiters L)\<rparr>"

section \<open>Runs\<close>

datatype limiter_call =
    AcquireCall nat priority endpoint_class rat rat int
  | DrainTick rat int
  | CancelWait nat
  | PhaseCall str

fun limiter_step :: "limiter \<Rightarrow> limiter_call \<Rightarrow> limiter" where
  "limiter_step L (AcquireCall i p e units now today) = snd (acquire i p e units now today L)"
| "limiter_step L (DrainTick now today) = refill now today L"
| "limiter_step L (CancelWait i) = cancel_wait i L"
| "limiter_step L (PhaseCall phase) = set_market_phase phase L"

fun call_time :: "limiter_call \<Rightarrow> rat option" where
  "call_time (AcquireCall i p e units now today) = Some now"
| "call_time (DrainTick now today) = Some now"
| "call_time (CancelWait i) = None"
| "call_time (PhaseCall phase) = None"

text \<open>
  The times at which order placements were let through, read off the counter \<open>_endpoint_counts\<close>.
\<close>

definition orders_let :: "limiter \<Rightarrow> limiter_call \<Rightarrow> rat list" where
  "orders_let L c =
    (case call_time c of
       None \<Rightarrow> []
     | Some now \<Rightarrow> replicate (nat (li_endpoint_counts (limiter_step L c) ORDER_PLACE - li_endpoint_counts L ORDER_PLACE)) now)"

fun order_log :: "limiter \<Rightarrow> limiter_call list \<Rightarrow> rat list" where
  "order_log L [] = []"
| "order_log L (c # cs) = orders_let L c @ order_log (limiter_step L c) cs"

text \<open>Calls on a clock that does not run backwards, with one unit per order placement.\<close>

fun calls_ok :: "rat \<Rightarrow> limiter_call list \<Rightarrow> bool" where
  "calls_ok T [] = True"
| "calls_ok T (AcquireCall i p e units now today # cs) = (T \<le> now \<and> (e = ORDER_PLACE \<longrightarrow> units = 1) \<and> calls_ok now cs)"
| "calls_ok T (DrainTick now today # cs) = (T \<le> now \<and> calls_ok now cs)"
| "calls_ok T (_ # cs) = calls_ok T cs"

section \<open>Windows over a log\<close>

definition window_ok :: "rat \<Rightarrow> int \<Rightarrow> rat list \<Rightarrow> bool" where
  "window_ok d m lg \<longleftrightarrow> (\<forall>t. int (length (filter (\<lambda>x. t \<le> x \<and> x < t + d) lg)) \<le> m)"

lemma window_ok_grow:
  assumes "window_ok d m lg" "\<forall>x \<in> set lg. x \<le> now" "int (length (filter (\<lambda>x. now - x < d) lg)) < m"
  shows "window_ok d m (lg @ [now])"
  unfolding window_ok_def
proof
  fix t
  show "int (length (filter (\<lambda>x. t \<le> x \<and> x < t + d) (lg @ [now]))) \<le> m"
  proof (cases "t \<le> now \<and> now < t + d")
    case True
    have "length (filter (\<lambda>x. t \<le> x \<and> x < t + d) lg) \<le> length (filter (\<lambda>x. now - x < d) lg)"
      using True by (induction lg) auto
    then show ?thesis using True assms(3) by simp
  next
    case False
    then show ?thesis using assms(1) by (auto simp: window_ok_def)
  qed
qed

lemma dropWhile_filter:
  fixes d :: rat
  assumes "sorted lg" "p \<le> now"
  shows "dropWhile (\<lambda>x. d \<le> now - x) (filter (\<lambda>x. p - x < d) lg) = filter (\<lambda>x. now - x < d) lg"
  using assms
proof (induction lg)
  case (Cons a lg)
  show ?case
  proof (cases "now - a < d")
    case True
    then have "p - a < d" using Cons.prems(2) by simp
    moreover have "\<forall>x \<in> set lg. now - x < d \<and> p - x < d"
      using Cons.prems True by fastforce
    then have "filter (\<lambda>x. p - x < d) lg = lg" "filter (\<lambda>x. now - x < d) lg = lg"
      by (simp_all add: filter_id_conv)
    ultimately show ?thesis using True by simp
  next
    case False
    then show ?thesis using Cons by auto
  qed
qed simp

section \<open>The invariant\<close>

text \<open>
  At the time \<open>p\<close> of the last pruning the two windows hold exactly the orders of the last second and of
  the last minute, and no window of the whole log exceeds its cap.
\<close>

definition windows_at :: "rat \<Rightarrow> limiter \<Rightarrow> rat list \<Rightarrow> bool" where
  "windows_at p L lg \<longleftrightarrow>
    li_second L = filter (\<lambda>x. p - x < 1) lg \<and> li_minute L = filter (\<lambda>x. p - x < 60) lg"

definition caps_ok :: "int \<Rightarrow> int \<Rightarrow> limiter \<Rightarrow> rat list \<Rightarrow> bool" where
  "caps_ok m n L lg \<longleftrightarrow>
    li_max_second L = m \<and> li_max_minute L = n \<and> window_ok 1 m lg \<and> window_ok 60 n lg"

definition limiter_inv :: "int \<Rightarrow> int \<Rightarrow> rat \<Rightarrow> limiter \<Rightarrow> rat list \<Rightarrow> bool" where
  "limiter_inv m n T L lg \<longleftrightarrow>
    sorted lg \<and> (\<forall>x \<in> set lg. x \<le> T) \<and> windows_at T L lg \<and> caps_ok m n L lg \<and>
    (\<forall>w \<in> set (li_waiters L). wt_endpoint w = ORDER_PLACE \<longrightarrow> wt_units w = 1)"

lemma prune_inv:
  assumes "limiter_inv m n p L lg" "p \<le> now"
  shows "limiter_inv m n now (prune now today L) lg"
  using assms dropWhile_filter [of lg p now 1] dropWhile_filter [of lg p now 60]
  by (auto simp: limiter_inv_def windows_at_def caps_ok_def prune_def Let_def)

lemma prune_same:
  assumes "limiter_inv m n now L lg"
  shows "li_second (prune now today L) = li_second L" "li_minute (prune now today L) = li_minute L"
  using assms dropWhile_filter [of lg now now 1] dropWhile_filter [of lg now now 60]
  by (simp_all add: limiter_inv_def windows_at_def prune_def Let_def)

lemma consume_inv:
  assumes inv: "limiter_inv m n now L lg" and can: "can_acquire now today L e p units"
    and u: "e = ORDER_PLACE \<longrightarrow> units = 1"
  shows "limiter_inv m n now (consume now e p units L) (lg @ (if e = ORDER_PLACE then [now] else []))"
proof (cases "e = ORDER_PLACE")
  case False
  then show ?thesis
    using inv by (simp add: limiter_inv_def windows_at_def caps_ok_def consume_def Let_def)
next
  case True
  have room: "int (length (filter (\<lambda>x. now - x < 1) lg)) < li_max_second L"
    "int (length (filter (\<lambda>x. now - x < 60) lg)) < li_max_minute L"
    using can True prune_same [OF inv, of today] inv
    by (simp_all add: can_acquire_def order_caps_available_def limiter_inv_def windows_at_def Let_def)
      (auto simp: prune_def Let_def caps_ok_def split: if_splits)
  have "window_ok 1 m (lg @ [now])" "window_ok 60 n (lg @ [now])"
    using inv room by (auto intro!: window_ok_grow simp: limiter_inv_def caps_ok_def)
  moreover have "nat (py_int 1) = 1"
    by (simp add: py_int_def)
  ultimately show ?thesis
    using inv u True
    by (auto simp: limiter_inv_def windows_at_def caps_ok_def consume_def sorted_append Let_def)
qed

lemma consume_count:
  "li_endpoint_counts (consume now e p units L) ORDER_PLACE =
    li_endpoint_counts L ORDER_PLACE + (if e = ORDER_PLACE then 1 else 0)"
  by (simp add: consume_def Let_def)

lemma inv_waiters:
  "limiter_inv m n now L lg \<Longrightarrow> set ws \<subseteq> set (li_waiters L) \<Longrightarrow> limiter_inv m n now (L\<lparr>li_waiters := ws\<rparr>) lg"
  by (auto simp: limiter_inv_def windows_at_def caps_ok_def)

lemma can_acquire_waiters [simp]:
  "can_acquire now today (L\<lparr>li_waiters := ws\<rparr>) e p units = can_acquire now today L e p units"
  by (simp add: can_acquire_def reserved_floor_def order_caps_available_def prune_def Let_def)

text \<open>How far an operation that runs at one instant takes the log.\<close>

definition lets :: "int \<Rightarrow> int \<Rightarrow> rat \<Rightarrow> limiter \<Rightarrow> rat list \<Rightarrow> limiter \<Rightarrow> bool" where
  "lets m n now L lg L' \<longleftrightarrow>
    (\<exists>k. limiter_inv m n now L' (lg @ replicate k now) \<and>
      li_endpoint_counts L' ORDER_PLACE = li_endpoint_counts L ORDER_PLACE + int k)"

lemma lets_refl: "limiter_inv m n now L lg \<Longrightarrow> lets m n now L lg L"
  by (auto simp: lets_def intro!: exI [of _ 0])

lemma lets_bind:
  assumes "lets m n now L lg L'"
    and "\<And>lg'. limiter_inv m n now L' lg' \<Longrightarrow> lets m n now L' lg' L''"
  shows "lets m n now L lg L''"
proof -
  obtain k where k: "limiter_inv m n now L' (lg @ replicate k now)"
    "li_endpoint_counts L' ORDER_PLACE = li_endpoint_counts L ORDER_PLACE + int k"
    using assms(1) by (auto simp: lets_def)
  then obtain j where "limiter_inv m n now L'' ((lg @ replicate k now) @ replicate j now)"
    "li_endpoint_counts L'' ORDER_PLACE = li_endpoint_counts L' ORDER_PLACE + int j"
    using assms(2) [OF k(1)] by (auto simp: lets_def)
  then show ?thesis
    using k(2) by (auto simp: lets_def replicate_add intro!: exI [of _ "k + j"])
qed

lemma consume_lets:
  assumes "limiter_inv m n now L lg" "can_acquire now today L e p units" "e = ORDER_PLACE \<longrightarrow> units = 1"
  shows "lets m n now L lg (consume now e p units L)"
  using consume_inv [OF assms] consume_count [of now e p units L]
  by (auto simp: lets_def intro!: exI [of _ "if e = ORDER_PLACE then 1 else 0"])

lemma serve_lets:
  assumes inv: "limiter_inv m n now L lg" and w: "w \<in> set (li_waiters L)" "ready now today L w"
  shows "lets m n now L lg (serve now w L)"
proof (cases "wt_done w")
  case True
  then show ?thesis
    using inv_waiters [OF inv, of "remove1 w (li_waiters L)"] set_remove1_subset [of w "li_waiters L"]
    by (auto simp: serve_def lets_def intro!: exI [of _ 0])
next
  case False
  let ?L = "L\<lparr>li_waiters := remove1 w (li_waiters L)\<rparr>"
  have "limiter_inv m n now ?L lg"
    by (rule inv_waiters [OF inv set_remove1_subset])
  moreover have "can_acquire now today ?L (wt_endpoint w) (wt_priority w) (wt_units w)"
    using w(2) False by (simp add: ready_def)
  moreover have "wt_endpoint w = ORDER_PLACE \<longrightarrow> wt_units w = 1"
    using inv w(1) by (auto simp: limiter_inv_def)
  ultimately have "lets m n now ?L lg (consume now (wt_endpoint w) (wt_priority w) (wt_units w) ?L)"
    by (rule consume_lets)
  then show ?thesis
    using False by (simp add: serve_def lets_def limiter_inv_def windows_at_def caps_ok_def Let_def)
qed

lemma wake_lets: "limiter_inv m n now L lg \<Longrightarrow> lets m n now L lg (wake now today L)"
proof (induction now today L arbitrary: lg rule: wake.induct)
  case (1 now today L)
  let ?L = "L\<lparr>li_waiters := sort_waiters (li_waiters L)\<rparr>"
  have inv: "limiter_inv m n now ?L lg"
    by (rule inv_waiters [OF "1.prems"]) simp
  have same: "lets m n now L lg X = lets m n now ?L lg X" for X
    by (simp add: lets_def)
  show ?case
  proof (cases "List.find (ready now today ?L) (li_waiters ?L)")
    case None
    then show ?thesis
      using lets_refl [OF inv] same by (subst wake.simps) (simp add: Let_def)
  next
    case (Some w)
    have w: "w \<in> set (li_waiters ?L)" "ready now today ?L w"
      using find_waiter [of "ready now today ?L" "li_waiters L" w] Some by simp_all
    have "lets m n now ?L lg (wake now today (serve now w ?L))"
      by (rule lets_bind [OF serve_lets [OF inv w]]) (rule "1.IH" [OF refl Some])
    then show ?thesis
      using Some same by (subst wake.simps) (simp add: Let_def)
  qed
qed

lemma refill_lets:
  assumes "limiter_inv m n p L lg" "p \<le> now"
  shows "lets m n now L lg (refill now today L)"
proof -
  let ?L = "L\<lparr>li_buckets := \<lambda>e. refill_bucket now (li_buckets L e)\<rparr>"
  have "limiter_inv m n p ?L lg"
    using assms(1) by (simp add: limiter_inv_def windows_at_def caps_ok_def)
  then have "lets m n now (prune now today ?L) lg (refill now today L)"
    unfolding refill_def by (intro wake_lets prune_inv [OF _ assms(2)])
  then show ?thesis
    by (simp add: lets_def prune_def Let_def split: if_splits)
qed

lemma acquire_lets:
  assumes "limiter_inv m n q L lg" "q \<le> now" "e = ORDER_PLACE \<longrightarrow> units = 1" "0 < units"
  shows "lets m n now L lg (snd (acquire i p e units now today L))"
proof -
  let ?R = "refill now today L"
  have "lets m n now ?R lg' (snd (acquire i p e units now today L))" if inv: "limiter_inv m n now ?R lg'" for lg'
  proof -
    have "lets m n now ?R lg' (prune now today ?R)"
      using prune_inv [OF inv order_refl, of today]
      by (auto simp: lets_def prune_def Let_def intro!: exI [of _ 0])
    moreover have "lets m n now ?R lg' (consume now e p units ?R)" if "can_acquire now today ?R e p units"
      by (rule consume_lets [OF inv that assms(3)])
    moreover have "lets m n now ?R lg' (?R\<lparr>li_waiters := ws, li_peak := k, li_total_waited := j\<rparr>)"
      if "ws = sort_waiters (li_waiters ?R @ [\<lparr>wt_id = i, wt_priority = p, wt_endpoint = e, wt_units = units,
               wt_enqueued_at = now, wt_done = False\<rparr>])" for ws k j
      using inv assms(3) that by (auto simp: lets_def limiter_inv_def windows_at_def caps_ok_def intro!: exI [of _ 0])
    ultimately show ?thesis
      using assms(4) by (simp add: acquire_def Let_def)
  qed
  then show ?thesis
    by (rule lets_bind [OF refill_lets [OF assms(1,2)]])
qed

lemma inv_later:
  assumes "limiter_inv m n p L lg" "li_endpoint_counts L' ORDER_PLACE = li_endpoint_counts L ORDER_PLACE"
    "li_second L' = li_second L" "li_minute L' = li_minute L" "li_max_second L' = li_max_second L" "li_max_minute L' = li_max_minute L"
    "\<forall>w \<in> set (li_waiters L'). \<exists>v \<in> set (li_waiters L). wt_endpoint w = wt_endpoint v \<and> wt_units w = wt_units v"
  shows "limiter_inv m n p L' lg"
  using assms by (fastforce simp: limiter_inv_def windows_at_def caps_ok_def)

lemma step_inv:
  assumes "\<exists>p \<le> T. limiter_inv m n p L lg" "calls_ok T (c # cs)"
  shows "\<exists>T'. (\<exists>p \<le> T'. limiter_inv m n p (limiter_step L c) (lg @ orders_let L c)) \<and> calls_ok T' cs"
proof -
  obtain p where p: "p \<le> T" "limiter_inv m n p L lg"
    using assms(1) by blast
  have at: "\<exists>p' \<le> now. limiter_inv m n p' (limiter_step L c) (lg @ orders_let L c)"
    if "lets m n now L lg (limiter_step L c)" "call_time c = Some now" for now
    using that by (auto simp: lets_def orders_let_def)
  show ?thesis
  proof (cases c)
    case (AcquireCall i pr e units now today)
    show ?thesis
    proof (cases "units \<le> 0")
      case True
      then have "limiter_step L c = L" "orders_let L c = []"
        using AcquireCall by (simp_all add: acquire_def orders_let_def)
      then show ?thesis
        using p assms(2) AcquireCall by (auto intro: order_trans)
    next
      case False
      have "lets m n now L lg (limiter_step L c)"
        using acquire_lets [OF p(2), of now e units i pr today] p(1) assms(2) AcquireCall False by simp
      then show ?thesis
        using at [of now] assms(2) AcquireCall by auto
    qed
  next
    case (DrainTick now today)
    have "lets m n now L lg (limiter_step L c)"
      using refill_lets [OF p(2), of now today] p(1) assms(2) DrainTick by simp
    then show ?thesis
      using at [of now] assms(2) DrainTick by auto
  next
    case (CancelWait i)
    have "limiter_inv m n p (limiter_step L c) lg"
      using CancelWait by (intro inv_later [OF p(2)]) (auto simp: cancel_wait_def)
    then show ?thesis
      using CancelWait p(1) assms(2) by (auto simp: orders_let_def)
  next
    case (PhaseCall phase)
    have "limiter_inv m n p (limiter_step L c) lg"
      using PhaseCall by (intro inv_later [OF p(2)]) (auto simp: set_market_phase_def)
    then show ?thesis
      using PhaseCall p(1) assms(2) by (auto simp: orders_let_def)
  qed
qed

lemma run_caps:
  "\<exists>p \<le> T. limiter_inv m n p L lg \<Longrightarrow> calls_ok T cs \<Longrightarrow>
    window_ok 1 m (lg @ order_log L cs) \<and> window_ok 60 n (lg @ order_log L cs)"
proof (induction cs arbitrary: T L lg)
  case Nil
  then show ?case by (auto simp: limiter_inv_def caps_ok_def)
next
  case (Cons c cs)
  obtain T' where T': "\<exists>p \<le> T'. limiter_inv m n p (limiter_step L c) (lg @ orders_let L c)" "calls_ok T' cs"
    using step_inv [OF Cons.prems] by blast
  show ?case
    using Cons.IH [OF T'] by simp
qed

lemma new_limiter_inv:
  "0 \<le> lm_per_second c \<Longrightarrow> 0 \<le> lm_per_minute c \<Longrightarrow>
    limiter_inv (lm_per_second c) (lm_per_minute c) now (new_limiter c now today) []"
  by (simp add: limiter_inv_def windows_at_def caps_ok_def window_ok_def new_limiter_def)

section \<open>Properties\<close>

text \<open>
  C25 The order caps of the rate limiter hold in every window: whatever calls reach a new limiter, of any
  priorities and endpoints, with waits, cancelled waits and drain ticks, on a clock that does not run
  backwards and with one unit per order placement, no second lets more than \<open>max_orders_per_second\<close>
  order placements through, and no minute more than \<open>max_orders_per_minute\<close>.
\<close>

theorem order_rate_capped:
  assumes "calls_ok now cs" "0 \<le> lm_per_second c" "0 \<le> lm_per_minute c"
  shows "window_ok 1 (lm_per_second c) (order_log (new_limiter c now today) cs) \<and>
    window_ok 60 (lm_per_minute c) (order_log (new_limiter c now today) cs)"
  using run_caps [of now "lm_per_second c" "lm_per_minute c" "new_limiter c now today" "[]" cs]
    new_limiter_inv [OF assms(2,3), of now today] assms(1) by auto

definition demo_limits :: limits where
  "demo_limits = \<lparr>lm_capacity = 10, lm_quote = 1, lm_historical = 3, lm_order = 10, lm_other = 10, lm_reserved = 2,
    lm_per_second = 2, lm_per_minute = 400, lm_per_day = 5000\<rparr>"

theorem order_rate_capped_witness:
  "window_ok 1 2 (order_log (new_limiter demo_limits 0 0)
    [AcquireCall 1 HIGH ORDER_PLACE 1 0 0, AcquireCall 2 CRITICAL ORDER_PLACE 1 0 0, AcquireCall 3 HIGH ORDER_PLACE 1 (1/2) 0,
     DrainTick 1 0])"
  using order_rate_capped [of 0 "[AcquireCall 1 HIGH ORDER_PLACE 1 0 0, AcquireCall 2 CRITICAL ORDER_PLACE 1 0 0,
      AcquireCall 3 HIGH ORDER_PLACE 1 (1/2) 0, DrainTick 1 0]" demo_limits 0]
  by (simp add: demo_limits_def)

end
