(* ===== verification/Prog.thy ===== *)
theory Prog
  imports QE_Prelude
begin

text \<open>
  Programs over a service's state.  A program takes the state to a result and a new state; \<open>None\<close> says that
  a paginated read outran its fuel, \<open>Inl\<close> that an exception leaves the program.  The state changes made
  before an exception stay.  The rules \<open>keeps_intros\<close> show, construct by construct, that a program only
  moves the state along a relation.
\<close>

named_theorems keeps_intros \<open>rules for \<open>keeps\<close>\<close>

type_synonym ('s, 'a) prog = "'s \<Rightarrow> ('a res \<times> 's) option"

section \<open>Constructs\<close>

definition ret :: "'a \<Rightarrow> ('s, 'a) prog" where
  "ret x s = Some (Inr x, s)"

definition throw :: "exn \<Rightarrow> ('s, 'a) prog" where
  "throw e s = Some (Inl e, s)"

definition seq :: "('s, 'a) prog \<Rightarrow> ('a \<Rightarrow> ('s, 'b) prog) \<Rightarrow> ('s, 'b) prog" where
  "seq m f s =
    (case m s of
       None \<Rightarrow> None
     | Some (r, t) \<Rightarrow> (case r of Inl e \<Rightarrow> Some (Inl e, t) | Inr x \<Rightarrow> f x t))"

text \<open>\<open>try: m except Exception as e: h e\<close>\<close>

definition try_catch :: "('s, 'a) prog \<Rightarrow> (exn \<Rightarrow> ('s, 'a) prog) \<Rightarrow> ('s, 'a) prog" where
  "try_catch m h s =
    (case m s of
       None \<Rightarrow> None
     | Some (r, t) \<Rightarrow> (case r of Inl e \<Rightarrow> h e t | Inr x \<Rightarrow> Some (Inr x, t)))"

definition read :: "('s \<Rightarrow> 'a) \<Rightarrow> ('s, 'a) prog" where
  "read f s = Some (Inr (f s), s)"

definition modify :: "('s \<Rightarrow> 's) \<Rightarrow> ('s, unit) prog" where
  "modify f s = Some (Inr (), f s)"

definition of_res :: "'a res \<Rightarrow> ('s, 'a) prog" where
  "of_res r s = Some (r, s)"

fun for_each :: "('x \<Rightarrow> ('s, unit) prog) \<Rightarrow> 'x list \<Rightarrow> ('s, unit) prog" where
  "for_each f [] = ret ()"
| "for_each f (x # xs) = seq (f x) (\<lambda>_. for_each f xs)"

lemmas prog_defs = ret_def throw_def seq_def try_catch_def read_def modify_def of_res_def

lemma seq_simps [simp]:
  "seq (ret x) f = f x"
  "seq (throw e) f = throw e"
  "seq (read g) f s = f (g s) s"
  "seq (modify u) h s = h () (u s)"
  by (simp_all add: prog_defs fun_eq_iff)

lemma try_catch_simps [simp]:
  "try_catch (ret x) h = ret x"
  "try_catch (throw e) h = h e"
  by (simp_all add: prog_defs fun_eq_iff)

lemma seq_assoc: "seq (seq m f) g = seq m (\<lambda>x. seq (f x) g)"
  by (rule ext) (auto simp: seq_def split: option.splits prod.splits sum.splits)

section \<open>Frames\<close>

definition keeps :: "('s \<Rightarrow> 's \<Rightarrow> bool) \<Rightarrow> ('s, 'a) prog \<Rightarrow> bool" where
  "keeps Q m \<longleftrightarrow> (\<forall>s r t. m s = Some (r, t) \<longrightarrow> Q s t)"

lemma keepsI: "(\<And>s r t. m s = Some (r, t) \<Longrightarrow> Q s t) \<Longrightarrow> keeps Q m"
  by (simp add: keeps_def)

lemma keepsD: "keeps Q m \<Longrightarrow> m s = Some (r, t) \<Longrightarrow> Q s t"
  by (simp add: keeps_def)

text \<open>The contract of a relation that programs can be shown to keep construct by construct.\<close>

locale frame =
  fixes Q :: "'s \<Rightarrow> 's \<Rightarrow> bool"
  assumes Q_refl: "Q s s"
    and Q_trans: "Q s t \<Longrightarrow> Q t u \<Longrightarrow> Q s u"
begin

lemma keeps_ret: "keeps Q (ret x)"
  by (simp add: keeps_def ret_def Q_refl)

lemma keeps_throw: "keeps Q (throw e)"
  by (simp add: keeps_def throw_def Q_refl)

lemma keeps_read: "keeps Q (read f)"
  by (simp add: keeps_def read_def Q_refl)

lemma keeps_of_res: "keeps Q (of_res r)"
  by (simp add: keeps_def of_res_def Q_refl)

lemma keeps_modify: "(\<And>s. Q s (f s)) \<Longrightarrow> keeps Q (modify f)"
  by (simp add: keeps_def modify_def)

lemma keeps_seq:
  assumes "keeps Q m" "\<And>x. keeps Q (f x)"
  shows "keeps Q (seq m f)"
proof (rule keepsI)
  fix s r u
  assume "seq m f s = Some (r, u)"
  then obtain r' t where t: "m s = Some (r', t)" and u: "(case r' of Inl e \<Rightarrow> Some (Inl e, t) | Inr x \<Rightarrow> f x t) = Some (r, u)"
    by (auto simp: seq_def split: option.splits)
  have "Q t u"
    using u Q_refl keepsD [OF assms(2)] by (cases r') auto
  then show "Q s u"
    by (rule Q_trans [OF keepsD [OF assms(1) t]])
qed

lemma keeps_try:
  assumes "keeps Q m" "\<And>e. keeps Q (h e)"
  shows "keeps Q (try_catch m h)"
proof (rule keepsI)
  fix s r u
  assume "try_catch m h s = Some (r, u)"
  then obtain r' t where t: "m s = Some (r', t)" and u: "(case r' of Inl e \<Rightarrow> h e t | Inr x \<Rightarrow> Some (Inr x, t)) = Some (r, u)"
    by (auto simp: try_catch_def split: option.splits)
  have "Q t u"
    using u Q_refl keepsD [OF assms(2)] by (cases r') auto
  then show "Q s u"
    by (rule Q_trans [OF keepsD [OF assms(1) t]])
qed

lemma keeps_for_each: "(\<And>x. keeps Q (f x)) \<Longrightarrow> keeps Q (for_each f xs)"
  by (induction xs) (simp_all add: keeps_ret keeps_seq)

lemma keeps_if: "keeps Q m \<Longrightarrow> keeps Q n \<Longrightarrow> keeps Q (if b then m else n)"
  by simp

lemma keeps_let: "(\<And>x. keeps Q (f x)) \<Longrightarrow> keeps Q (let x = a in f x)"
  by simp

lemma keeps_option:
  "(v = None \<Longrightarrow> keeps Q m) \<Longrightarrow> (\<And>x. v = Some x \<Longrightarrow> keeps Q (f x)) \<Longrightarrow> keeps Q (case v of None \<Rightarrow> m | Some x \<Rightarrow> f x)"
  by (cases v) simp_all

lemma keeps_sum: "(\<And>e. keeps Q (g e)) \<Longrightarrow> (\<And>x. keeps Q (f x)) \<Longrightarrow> keeps Q (case v of Inl e \<Rightarrow> g e | Inr x \<Rightarrow> f x)"
  by (cases v) simp_all

lemmas keeps_rules = keeps_ret keeps_throw keeps_read keeps_of_res keeps_seq keeps_try keeps_for_each keeps_if
  keeps_let keeps_option keeps_sum

end

section \<open>Results\<close>

text \<open>A postcondition of the runs that end, by a value or by an exception.\<close>

definition ensures :: "('s \<Rightarrow> bool) \<Rightarrow> ('s, 'a) prog \<Rightarrow> ('a res \<Rightarrow> 's \<Rightarrow> bool) \<Rightarrow> bool" where
  "ensures P m Z \<longleftrightarrow> (\<forall>s r t. P s \<longrightarrow> m s = Some (r, t) \<longrightarrow> Z r t)"

lemma ensuresD: "ensures P m Z \<Longrightarrow> P s \<Longrightarrow> m s = Some (r, t) \<Longrightarrow> Z r t"
  by (simp add: ensures_def)

lemma ensures_seq:
  assumes "ensures P m (\<lambda>r t. case r of Inl e \<Rightarrow> Z (Inl e) t | Inr x \<Rightarrow> W x t)" "\<And>x. ensures (W x) (f x) Z"
  shows "ensures P (seq m f) Z"
  unfolding ensures_def
proof (intro allI impI)
  fix s r u
  assume P: "P s" and run: "seq m f s = Some (r, u)"
  then obtain r' t where t: "m s = Some (r', t)" and u: "(case r' of Inl e \<Rightarrow> Some (Inl e, t) | Inr x \<Rightarrow> f x t) = Some (r, u)"
    by (auto simp: seq_def split: option.splits)
  have "case r' of Inl e \<Rightarrow> Z (Inl e) t | Inr x \<Rightarrow> W x t"
    by (rule ensuresD [OF assms(1) P t])
  then show "Z r u"
    using u ensuresD [OF assms(2)] by (cases r') auto
qed

section \<open>Agreement\<close>

text \<open>
  Two programs do the same from every state that satisfies \<open>A\<close>, and stay within \<open>A\<close>.
\<close>

definition agree :: "('s \<Rightarrow> bool) \<Rightarrow> ('s, 'a) prog \<Rightarrow> ('s, 'a) prog \<Rightarrow> bool" where
  "agree A m n \<longleftrightarrow> (\<forall>s. A s \<longrightarrow> m s = n s \<and> (\<forall>r t. m s = Some (r, t) \<longrightarrow> A t))"

lemma agreeD: "agree A m n \<Longrightarrow> A s \<Longrightarrow> m s = n s"
  by (simp add: agree_def)

lemma agree_inv: "agree A m n \<Longrightarrow> A s \<Longrightarrow> m s = Some (r, t) \<Longrightarrow> A t"
  by (simp add: agree_def)

lemma agree_same: "keeps (\<lambda>s t. A s \<longrightarrow> A t) m \<Longrightarrow> agree A m m"
  by (simp add: agree_def keeps_def)

lemma agree_seq:
  assumes "agree A m n" "\<And>x. agree A (f x) (g x)"
  shows "agree A (seq m f) (seq n g)"
  unfolding agree_def
proof (intro allI impI)
  fix s
  assume s: "A s"
  show "seq m f s = seq n g s \<and> (\<forall>r u. seq m f s = Some (r, u) \<longrightarrow> A u)"
  proof (cases "m s")
    case None
    then show ?thesis using agreeD [OF assms(1) s] by (simp add: seq_def)
  next
    case (Some p)
    obtain r t where p: "p = (r, t)" by fastforce
    note t = agree_inv [OF assms(1) s Some [unfolded p]]
    show ?thesis
      using Some p t agreeD [OF assms(1) s] agreeD [OF assms(2) t] agree_inv [OF assms(2) t]
      by (cases r) (simp_all add: seq_def)
  qed
qed

lemma agree_try:
  assumes "agree A m n" "\<And>e. agree A (f e) (g e)"
  shows "agree A (try_catch m f) (try_catch n g)"
  unfolding agree_def
proof (intro allI impI)
  fix s
  assume s: "A s"
  show "try_catch m f s = try_catch n g s \<and> (\<forall>r u. try_catch m f s = Some (r, u) \<longrightarrow> A u)"
  proof (cases "m s")
    case None
    then show ?thesis using agreeD [OF assms(1) s] by (simp add: try_catch_def)
  next
    case (Some p)
    obtain r t where p: "p = (r, t)" by fastforce
    note t = agree_inv [OF assms(1) s Some [unfolded p]]
    show ?thesis
      using Some p t agreeD [OF assms(1) s] agreeD [OF assms(2) t] agree_inv [OF assms(2) t]
      by (cases r) (simp_all add: try_catch_def)
  qed
qed

lemma agree_if: "agree A m n \<Longrightarrow> agree A m' n' \<Longrightarrow> agree A (if b then m else m') (if b then n else n')"
  by simp

lemma agree_option:
  "agree A m n \<Longrightarrow> (\<And>x. agree A (f x) (g x)) \<Longrightarrow>
    agree A (case v of None \<Rightarrow> m | Some x \<Rightarrow> f x) (case v of None \<Rightarrow> n | Some x \<Rightarrow> g x)"
  by (cases v) simp_all

lemma agree_for_each: "(\<And>x. x \<in> set xs \<Longrightarrow> agree A (f x) (g x)) \<Longrightarrow> agree A (for_each f xs) (for_each g xs)"
  by (induction xs) (simp_all add: agree_seq agree_same keeps_def ret_def)

text \<open>A test that every state of \<open>A\<close> passes hides the other branch.\<close>

lemma agree_guard:
  assumes "\<And>s. A s \<Longrightarrow> b s" "agree A m n"
  shows "agree A (seq (read b) (\<lambda>h. if h then m else f)) (seq (read b) (\<lambda>h. if h then n else g))"
  using assms by (simp add: agree_def)

lemmas agree_rules = agree_seq agree_try agree_if agree_option

section \<open>Termination\<close>

text \<open>A program that returns or raises from every state.\<close>

definition ends :: "('s, 'a) prog \<Rightarrow> bool" where
  "ends m \<longleftrightarrow> (\<forall>s. m s \<noteq> None)"

lemma ends_simple: "ends (ret x)" "ends (throw e)" "ends (read f)" "ends (modify g)" "ends (of_res r)"
  by (simp_all add: ends_def prog_defs)

lemma ends_seq: "ends m \<Longrightarrow> (\<And>x. ends (f x)) \<Longrightarrow> ends (seq m f)"
  by (auto simp: ends_def seq_def split: option.splits sum.splits)

lemma ends_try: "ends m \<Longrightarrow> (\<And>e. ends (h e)) \<Longrightarrow> ends (try_catch m h)"
  by (auto simp: ends_def try_catch_def split: option.splits sum.splits)

lemma ends_for_each: "(\<And>x. ends (f x)) \<Longrightarrow> ends (for_each f xs)"
  by (induction xs) (simp_all add: ends_simple ends_seq)

lemma ends_cases:
  "ends m \<Longrightarrow> ends n \<Longrightarrow> ends (if b then m else n)"
  "ends m \<Longrightarrow> (\<And>x. ends (f x)) \<Longrightarrow> ends (case v of None \<Rightarrow> m | Some x \<Rightarrow> f x)"
  "(\<And>x. ends (f x)) \<Longrightarrow> ends (let x = a in f x)"
  by (auto split: option.splits)

lemmas ends_rules = ends_simple ends_seq ends_try ends_for_each ends_cases

end
