(* ===== verification/RetryHandlerModel.thy ===== *)
theory RetryHandlerModel
  imports QE_Prelude
begin

text \<open>
  \<open>services/execution_engine/retry/retry_handler.py\<close>: retries with exponential backoff behind a circuit
  breaker.  The function under retry, the monotonic clock and the sleep work on an unknown world; the
  handler's own state is \<open>circuit\<close>.  \<open>CircuitBreakerOpen\<close> is \<open>OtherError\<close>.
\<close>

section \<open>State\<close>

datatype circuit_state = CLOSED | OPEN | HALF_OPEN

record circuit =
  ci_state :: circuit_state
  ci_failures :: int
  ci_last_failure :: rat

record 'w retry_handler =
  rh_max_retries :: nat
  rh_base_delay :: rat
  rh_max_delay :: rat
  rh_backoff_factor :: rat
  rh_failure_threshold :: int
  rh_cooldown :: rat
  rh_mono :: "'w \<Rightarrow> rat \<times> 'w"
  rh_sleep :: "rat \<Rightarrow> 'w \<Rightarrow> 'w"

definition new_circuit :: circuit where
  "new_circuit = \<lparr>ci_state = CLOSED, ci_failures = 0, ci_last_failure = 0\<rparr>"

section \<open>Circuit breaker\<close>

definition check_circuit :: "'w retry_handler \<Rightarrow> circuit \<times> 'w \<Rightarrow> unit res \<times> circuit \<times> 'w" where
  "check_circuit H s =
    (case s of (c, w) \<Rightarrow>
      (case ci_state c of
         CLOSED \<Rightarrow> (Inr (), c, w)
       | HALF_OPEN \<Rightarrow> (Inr (), c, w)
       | OPEN \<Rightarrow>
          (case rh_mono H w of (now, w) \<Rightarrow>
            if rh_cooldown H \<le> now - ci_last_failure c then (Inr (), c\<lparr>ci_state := HALF_OPEN\<rparr>, w)
            else (Inl OtherError, c, w))))"

definition record_success :: "circuit \<Rightarrow> circuit" where
  "record_success c = c\<lparr>ci_state := CLOSED, ci_failures := 0\<rparr>"

definition record_failure :: "'w retry_handler \<Rightarrow> circuit \<times> 'w \<Rightarrow> circuit \<times> 'w" where
  "record_failure H s =
    (case s of (c, w) \<Rightarrow>
      (case rh_mono H w of (now, w) \<Rightarrow>
        (let c = c\<lparr>ci_failures := ci_failures c + 1, ci_last_failure := now\<rparr>
         in if ci_state c = HALF_OPEN then (c\<lparr>ci_state := OPEN\<rparr>, w)
            else if rh_failure_threshold H \<le> ci_failures c then (c\<lparr>ci_state := OPEN\<rparr>, w)
            else (c, w))))"

definition retry_reset :: "circuit \<Rightarrow> circuit" where
  "retry_reset c = \<lparr>ci_state = CLOSED, ci_failures = 0, ci_last_failure = 0\<rparr>"

section \<open>Retries\<close>

definition retry_delay :: "'w retry_handler \<Rightarrow> nat \<Rightarrow> rat" where
  "retry_delay H attempt = min (rh_base_delay H * rh_backoff_factor H ^ (attempt - 1)) (rh_max_delay H)"

text \<open>
  The attempts from number \<open>attempt\<close> on, \<open>left\<close> of them.  With no attempt at all the last statement raises
  \<open>None\<close>, a \<open>TypeError\<close>.
\<close>

fun attempts :: "'w retry_handler \<Rightarrow> ('w \<Rightarrow> 'a res \<times> 'w) \<Rightarrow> nat \<Rightarrow> nat \<Rightarrow> circuit \<times> 'w \<Rightarrow> 'a res \<times> circuit \<times> 'w" where
  "attempts H func attempt 0 s = (Inl TypeError, s)"
| "attempts H func attempt (Suc left) (c, w) =
    (case func w of
       (Inr x, w) \<Rightarrow> (Inr x, record_success c, w)
     | (Inl e, w) \<Rightarrow>
        if e = NonRetryableBrokerError then (Inl e, c, w)
        else
         (case record_failure H (c, w) of (c, w) \<Rightarrow>
           if left = 0 then (Inl e, c, w)
           else
            (case check_circuit H (c, rh_sleep H (retry_delay H attempt) w) of
               (Inl e, s) \<Rightarrow> (Inl e, s)
             | (Inr _, s) \<Rightarrow> attempts H func (Suc attempt) left s)))"

definition execute_with_retry :: "'w retry_handler \<Rightarrow> ('w \<Rightarrow> 'a res \<times> 'w) \<Rightarrow> circuit \<times> 'w \<Rightarrow> 'a res \<times> circuit \<times> 'w" where
  "execute_with_retry H func s =
    (case check_circuit H s of
       (Inl e, s) \<Rightarrow> (Inl e, s)
     | (Inr _, s) \<Rightarrow> attempts H func 1 (rh_max_retries H) s)"

section \<open>Behaviour\<close>

text \<open>
  A relation on the worlds that the clock, the sleep and each call of the function keep is kept by the
  whole execution.
\<close>

lemma check_circuit_le:
  assumes "check_circuit H s = (r, s')" "\<And>w. Q w w" "\<And>w. Q w (snd (rh_mono H w))"
  shows "Q (snd s) (snd s')"
proof -
  obtain c w where s: "s = (c, w)" by fastforce
  obtain now v where m: "rh_mono H w = (now, v)" by fastforce
  have "Q w v" using assms(3) [of w] m by simp
  then show ?thesis
    using assms(1) assms(2) [of w] s m by (cases "ci_state c") (auto simp: check_circuit_def split: if_splits)
qed

lemma record_failure_le:
  assumes "\<And>w. Q w (snd (rh_mono H w))"
  shows "Q (snd s) (snd (record_failure H s))"
  using assms [of "snd s"] by (cases s; cases "rh_mono H (snd s)") (simp add: record_failure_def Let_def)

lemma attempts_le:
  assumes refl: "\<And>w. Q w w" and trans: "\<And>u v w. Q u v \<Longrightarrow> Q v w \<Longrightarrow> Q u w"
    and mono: "\<And>w. Q w (snd (rh_mono H w))" and sleep: "\<And>d w. Q w (rh_sleep H d w)"
    and func: "\<And>w. Q w (snd (func w))"
  shows "attempts H func attempt left (c, w) = (r, c', w') \<Longrightarrow> Q w w'"
proof (induction left arbitrary: attempt c w)
  case 0
  then show ?case using refl by simp
next
  case (Suc left)
  obtain r1 w1 where f: "func w = (r1, w1)" by fastforce
  then have q1: "Q w w1" using func [of w] by simp
  show ?case
  proof (cases r1)
    case (Inr x)
    then show ?thesis using Suc.prems f q1 by simp
  next
    case (Inl e)
    obtain c2 w2 where rf: "record_failure H (c, w1) = (c2, w2)" by fastforce
    have "Q w1 w2" using record_failure_le [of Q H "(c, w1)", OF mono] rf by simp
    then have q2: "Q w w2" by (rule trans [OF q1])
    obtain r3 c3 w3 where ck: "check_circuit H (c2, rh_sleep H (retry_delay H attempt) w2) = (r3, c3, w3)"
      by (metis surj_pair)
    have "Q (rh_sleep H (retry_delay H attempt) w2) w3"
      using check_circuit_le [where Q = Q, OF ck refl mono] by simp
    then have q3: "Q w w3"
      by (rule trans [OF trans [OF q2 sleep]])
    have run: "(if e = NonRetryableBrokerError then (Inl e, c, w1)
        else if left = 0 then (Inl e, c2, w2)
        else case r3 of Inl e \<Rightarrow> (Inl e, c3, w3) | Inr _ \<Rightarrow> attempts H func (Suc attempt) left (c3, w3)) = (r, c', w')"
      using Suc.prems f Inl rf ck by (cases r3; cases left; cases "e = NonRetryableBrokerError") simp_all
    consider "w' = w1" | "w' = w2" | "w' = w3" | "attempts H func (Suc attempt) left (c3, w3) = (r, c', w')"
      using run by (cases r3) (auto split: if_splits)
    then show ?thesis
    proof cases
      case 4
      then show ?thesis by (rule trans [OF q3 Suc.IH])
    qed (use q1 q2 q3 in simp_all)
  qed
qed

lemma execute_le:
  assumes "\<And>w. Q w w" "\<And>u v w. Q u v \<Longrightarrow> Q v w \<Longrightarrow> Q u w"
    and "\<And>w. Q w (snd (rh_mono H w))" "\<And>d w. Q w (rh_sleep H d w)" "\<And>w. Q w (snd (func w))"
    and "execute_with_retry H func (c, w) = (r, c', w')"
  shows "Q w w'"
proof -
  obtain r1 c1 w1 where ck: "check_circuit H (c, w) = (r1, c1, w1)" by (metis surj_pair)
  have q: "Q w w1" using check_circuit_le [OF ck, of Q] assms(1,3) by simp
  show ?thesis
  proof (cases r1)
    case (Inl e)
    then show ?thesis using assms(6) ck q by (simp add: execute_with_retry_def)
  next
    case (Inr u)
    then have "attempts H func 1 (rh_max_retries H) (c1, w1) = (r, c', w')"
      using assms(6) ck by (simp add: execute_with_retry_def)
    then show ?thesis
      using attempts_le [where Q = Q and H = H and func = func, of 1 "rh_max_retries H" c1 w1 r c' w'] assms(1,3,4,5) assms(2) q
      by blast
  qed
qed

text \<open>
  An execution calls the function at most \<open>max_retries\<close> times; \<open>calls\<close> counts the calls.
\<close>

definition counts_calls :: "('w \<Rightarrow> nat) \<Rightarrow> 'w retry_handler \<Rightarrow> ('w \<Rightarrow> 'a res \<times> 'w) \<Rightarrow> bool" where
  "counts_calls calls H func \<longleftrightarrow>
    (\<forall>w. calls (snd (rh_mono H w)) = calls w) \<and> (\<forall>d w. calls (rh_sleep H d w) = calls w) \<and>
    (\<forall>w. calls (snd (func w)) = calls w + 1)"

lemma check_circuit_calls:
  "counts_calls calls H func \<Longrightarrow> check_circuit H s = (r, s') \<Longrightarrow> calls (snd s') = calls (snd s)"
  using check_circuit_le [of H s r s' "\<lambda>u v. calls v = calls u"] by (simp add: counts_calls_def)

lemma record_failure_calls: "counts_calls calls H func \<Longrightarrow> calls (snd (record_failure H s)) = calls (snd s)"
  using record_failure_le [of "\<lambda>u v. calls v = calls u" H s] by (simp add: counts_calls_def)

lemma attempts_calls:
  assumes "counts_calls calls H func"
  shows "attempts H func attempt left (c, w) = (r, c', w') \<Longrightarrow> calls w' \<le> calls w + left"
proof (induction left arbitrary: attempt c w)
  case (Suc left)
  obtain r1 w1 where f: "func w = (r1, w1)" by fastforce
  then have n1: "calls w1 = calls w + 1" using assms by (simp add: counts_calls_def) (metis snd_conv)
  show ?case
  proof (cases r1)
    case (Inr x)
    then show ?thesis using Suc.prems f n1 by simp
  next
    case (Inl e)
    obtain c2 w2 where rf: "record_failure H (c, w1) = (c2, w2)" by fastforce
    then have n2: "calls w2 = calls w1" using record_failure_calls [OF assms, of "(c, w1)"] by simp
    obtain r3 c3 w3 where ck: "check_circuit H (c2, rh_sleep H (retry_delay H attempt) w2) = (r3, c3, w3)"
      by (metis surj_pair)
    have n3: "calls w3 = calls w2"
      using check_circuit_calls [OF assms ck] assms by (simp add: counts_calls_def)
    show ?thesis
      using Suc.prems Inl f rf ck n1 n2 n3 Suc.IH [of "Suc attempt" c3 w3]
      by (auto split: if_splits sum.splits)
  qed
qed simp

lemma retry_attempts_bounded:
  assumes "counts_calls calls H func" "execute_with_retry H func (c, w) = (r, c', w')"
  shows "calls w' \<le> calls w + rh_max_retries H"
proof -
  obtain r1 c1 w1 where ck: "check_circuit H (c, w) = (r1, c1, w1)" by (metis surj_pair)
  have "calls w1 = calls w" using check_circuit_calls [OF assms(1) ck] by simp
  then show ?thesis
    using assms(2) ck attempts_calls [OF assms(1), of 1 "rh_max_retries H" c1 w1 r c' w']
    by (cases r1) (simp_all add: execute_with_retry_def)
qed

text \<open>An open circuit in its cooldown refuses without a call.\<close>

lemma open_circuit_refuses:
  assumes "counts_calls calls H func" "ci_state c = OPEN" "fst (rh_mono H w) - ci_last_failure c < rh_cooldown H"
  shows "fst (execute_with_retry H func (c, w)) = Inl OtherError \<and>
    calls (snd (snd (execute_with_retry H func (c, w)))) = calls w"
  using assms
  by (cases "rh_mono H w") (simp add: execute_with_retry_def check_circuit_def counts_calls_def, metis snd_conv)

text \<open>A permanent rejection ends the attempts and leaves the circuit as it is.\<close>

lemma non_retryable_at_once:
  assumes "func w = (Inl NonRetryableBrokerError, w')" "ci_state c \<noteq> OPEN" "0 < rh_max_retries H"
  shows "execute_with_retry H func (c, w) = (Inl NonRetryableBrokerError, c, w')"
proof -
  obtain k where "rh_max_retries H = Suc k" using assms(3) gr0_conv_Suc by blast
  then show ?thesis
    using assms(1,2) by (cases "ci_state c") (simp_all add: execute_with_retry_def check_circuit_def)
qed

text \<open>Enough failed executions in a row open the circuit.\<close>

lemma failure_opens:
  assumes "rh_failure_threshold H \<le> ci_failures c + 1"
  shows "ci_state (fst (record_failure H (c, w))) = OPEN"
  using assms by (cases "rh_mono H w") (simp add: record_failure_def Let_def)

end
