(* ===== verification/UniverseGate.thy ===== *)
theory UniverseGate
  imports QE_Prelude
begin

text \<open>
  \<open>services/shared/universe/order_validator.py\<close> with the modes and the snapshot it reads
  (\<open>modes.py\<close>, \<open>models.py\<close>): the check of an order's symbol against the approved universe of the day.
  A date is its ordinal; reason texts, log records and the checksum are left out.
\<close>

section \<open>Modes and snapshots\<close>

datatype universe_mode = PAPER_SAFE_START | PAPER_EXPAND | LIVE_ADVANCED

fun universe_mode_value :: "universe_mode \<Rightarrow> str" where
  "universe_mode_value PAPER_SAFE_START = ''PAPER_SAFE_START''"
| "universe_mode_value PAPER_EXPAND = ''PAPER_EXPAND''"
| "universe_mode_value LIVE_ADVANCED = ''LIVE_ADVANCED''"

definition universe_modes :: "universe_mode list" where
  "universe_modes = [PAPER_SAFE_START, PAPER_EXPAND, LIVE_ADVANCED]"

interpretation universe_enum: str_enum universe_mode_value universe_modes
proof
  show "x = y" if "universe_mode_value x = universe_mode_value y" for x y
    using that by (cases x; cases y) simp_all
  show "x \<in> set universe_modes" for x
    by (cases x) (simp_all add: universe_modes_def)
qed

definition mode_is_paper :: "universe_mode \<Rightarrow> bool" where
  "mode_is_paper m \<longleftrightarrow> m \<in> {PAPER_SAFE_START, PAPER_EXPAND}"

definition mode_is_live :: "universe_mode \<Rightarrow> bool" where
  "mode_is_live m \<longleftrightarrow> m = LIVE_ADVANCED"

definition dynamo_namespace :: "universe_mode \<Rightarrow> str" where
  "dynamo_namespace m = (if mode_is_paper m then ''PAPER'' else ''LIVE'')"

fun can_promote_to :: "universe_mode \<Rightarrow> universe_mode option" where
  "can_promote_to PAPER_SAFE_START = Some PAPER_EXPAND"
| "can_promote_to PAPER_EXPAND = Some LIVE_ADVANCED"
| "can_promote_to LIVE_ADVANCED = None"

definition universe_mode_from_string :: "str \<Rightarrow> universe_mode res" where
  "universe_mode_from_string s = of_opt ValueError (enum_of universe_mode_value universe_modes (py_upper s))"

datatype snapshot_failure = PARTIAL | FALLBACK | EMERGENCY | FAILED

record universe_snapshot =
  us_mode :: universe_mode
  us_trading_date :: int
  us_approved :: "str list" \<comment> \<open>the members of the frozenset\<close>
  us_failure :: "snapshot_failure option"

definition new_snapshot :: "universe_mode \<Rightarrow> int \<Rightarrow> str list \<Rightarrow> snapshot_failure option \<Rightarrow> universe_snapshot res" where
  "new_snapshot mode d approved failure =
    (if approved = [] \<and> failure = None then Inl ValueError
     else Inr \<lparr>us_mode = mode, us_trading_date = d, us_approved = approved, us_failure = failure\<rparr>)"

definition snapshot_contains :: "universe_snapshot \<Rightarrow> str \<Rightarrow> bool" where
  "snapshot_contains sn symbol \<longleftrightarrow> py_upper symbol \<in> set (us_approved sn)"

section \<open>The validator\<close>

record universe_validator =
  uv_snapshot :: "universe_snapshot option"
  uv_mode :: "universe_mode option"

record universe_result =
  ur_approved :: bool
  ur_symbol :: str
  ur_market :: str
  ur_mode :: universe_mode
  ur_snapshot_date :: "int option"

definition new_universe_validator :: "universe_snapshot option \<Rightarrow> universe_mode option \<Rightarrow> universe_validator" where
  "new_universe_validator sn mode =
    \<lparr>uv_snapshot = sn, uv_mode = (case mode of Some m \<Rightarrow> Some m | None \<Rightarrow> map_option us_mode sn)\<rparr>"

definition universe_validate :: "universe_validator \<Rightarrow> str \<Rightarrow> str \<Rightarrow> int \<Rightarrow> universe_result" where
  "universe_validate v symbol market today =
    (let sy = py_upper symbol;
         mkt = py_upper market;
         mode = opt_default LIVE_ADVANCED (uv_mode v);
         answer = (\<lambda>ok m d. \<lparr>ur_approved = ok, ur_symbol = sy, ur_market = mkt, ur_mode = m, ur_snapshot_date = d\<rparr>)
     in if mkt \<noteq> ''NSE'' then answer True mode None
        else
         (case uv_snapshot v of
            None \<Rightarrow> answer (\<not> mode_is_live mode) mode None
          | Some sn \<Rightarrow>
              if us_trading_date sn \<noteq> today \<and> mode_is_live mode then answer False mode (Some (us_trading_date sn))
              else if us_failure sn = Some PARTIAL \<and> mode_is_live mode then answer False mode (Some (us_trading_date sn))
              else answer (snapshot_contains sn sy) (us_mode sn) (Some (us_trading_date sn))))"

definition update_snapshot :: "universe_validator \<Rightarrow> universe_snapshot \<Rightarrow> universe_validator res" where
  "update_snapshot v sn =
    (case uv_mode v of
       Some m \<Rightarrow> if us_mode sn \<noteq> m then Inl ValueError else Inr (new_universe_validator (Some sn) (uv_mode v))
     | None \<Rightarrow> Inr (new_universe_validator (Some sn) None))"

text \<open>
  \<open>build_validator_for_today\<close>; \<open>built\<close> is what the universe builder answered or raised.
\<close>

definition build_validator_for_today :: "universe_mode \<Rightarrow> bool \<Rightarrow> universe_snapshot res \<Rightarrow> universe_validator res" where
  "build_validator_for_today mode fail_if_no_snapshot built =
    (case built of
       Inr sn \<Rightarrow> Inr (new_universe_validator (Some sn) (Some mode))
     | Inl e \<Rightarrow> if fail_if_no_snapshot then Inl e else Inr (new_universe_validator None (Some mode)))"

section \<open>What an approval means\<close>

lemma upper_idem [simp]: "py_upper (py_upper s) = py_upper s"
  by (induction s) (auto simp: py_upper_def upper_char_def Let_def)

lemma mode_cases: "mode_is_live m \<longleftrightarrow> \<not> mode_is_paper m"
  by (cases m) (simp_all add: mode_is_live_def mode_is_paper_def)

text \<open>
  A symbol of the NSE approved by a live validator is in the healthy snapshot of that very day; a paper
  validator with a snapshot enforces membership but not freshness.
\<close>

lemma live_approval:
  assumes "ur_approved (universe_validate v symbol ''NSE'' today)" "opt_default LIVE_ADVANCED (uv_mode v) = LIVE_ADVANCED"
  shows "\<exists>sn. uv_snapshot v = Some sn \<and> us_trading_date sn = today \<and> us_failure sn \<noteq> Some PARTIAL \<and>
    py_upper symbol \<in> set (us_approved sn)"
proof -
  have "py_upper ''NSE'' = ''NSE''" by code_simp
  then show ?thesis
    using assms by (auto simp: universe_validate_def mode_is_live_def snapshot_contains_def Let_def split: option.splits if_splits)
qed

lemma paper_approval:
  assumes "ur_approved (universe_validate v symbol ''NSE'' today)" "uv_snapshot v = Some sn"
  shows "py_upper symbol \<in> set (us_approved sn)"
proof -
  have "py_upper ''NSE'' = ''NSE''" by code_simp
  then show ?thesis
    using assms by (auto simp: universe_validate_def snapshot_contains_def Let_def split: if_splits)
qed

end
