(* ===== verification/ExecutionModel.thy ===== *)
theory ExecutionModel
  imports Prog OrderSafety OrderEvents RateLimiter RetryHandlerModel UniverseGate
begin

text \<open>
  \<open>services/execution_engine/service.py\<close>: \<open>ExecutionService\<close>, from an approved signal to the broker.
  The methods are programs over the service's fields (\<open>exec_state\<close>).  The two brokers are records of the
  calls of \<open>BrokerClient\<close>; the clocks, the fresh identifiers and the acquisition of a broker token work on
  the world.  \<open>start\<close> sets the order manager, the consumer and the publisher before any of these methods
  runs, so they are not optional here.  The methods of one service run one after the other: the per-signal
  locks and the semaphore of the US market have no further effect.
\<close>

section \<open>Broker clients\<close>

record 'w broker =
  br_place :: "'w \<Rightarrow> order_request \<Rightarrow> order_response res \<times> 'w"
  br_find :: "'w \<Rightarrow> str \<Rightarrow> order_request \<Rightarrow> order_response option res \<times> 'w"
  br_cancel :: "'w \<Rightarrow> str \<Rightarrow> order_status_update res \<times> 'w"
  br_status :: "'w \<Rightarrow> str \<Rightarrow> order_status_update res \<times> 'w"

section \<open>The service\<close>

record paper_config =
  pc_seed :: str
  pc_slippage_bps :: rat
  pc_spread_bps :: rat
  pc_gap_bps :: rat
  pc_circuit_lock_probability :: rat
  pc_reject_probability :: rat
  pc_partial_probability :: rat
  pc_partial_min_pct :: rat

record 'w execution =
  ex_zerodha :: "'w broker"
  ex_alpaca :: "'w broker"
  ex_manager :: "'w order_manager"
  ex_dynamo :: "'w dynamo option"
  ex_risk_table :: str
  ex_publisher :: "'w order_publisher"
  ex_consumer :: "'w kconsumer"
  ex_acquire :: "priority \<Rightarrow> endpoint_class \<Rightarrow> 'w \<Rightarrow> unit res \<times> 'w"
  ex_retry :: "'w retry_handler"
  ex_codec :: codec
  ex_num_str :: "rat \<Rightarrow> str"
  ex_fixed8 :: "rat \<Rightarrow> str" \<comment> \<open>the format \<open>.8f\<close>\<close>
  ex_exn_str :: "exn \<Rightarrow> str"
  ex_utc :: "'w \<Rightarrow> rat \<times> 'w"
  ex_mono :: "'w \<Rightarrow> rat \<times> 'w"
  ex_hex :: "'w \<Rightarrow> str \<times> 'w" \<comment> \<open>\<open>uuid4().hex\<close>\<close>
  ex_uuid :: "'w \<Rightarrow> str \<times> 'w" \<comment> \<open>\<open>str(uuid4())\<close>\<close>
  ex_datetime :: "rat \<Rightarrow> py_datetime"
  ex_random :: "str \<Rightarrow> rat" \<comment> \<open>\<open>random.Random(material).random()\<close>\<close>
  ex_poll_interval :: rat
  ex_paper :: paper_config
  ex_fuel :: nat

record 'w exec_state =
  es_ks_active :: bool
  es_ks_reason :: str
  es_ks_checked_at :: rat
  es_failures :: int
  es_paused :: bool
  es_paused_until :: rat
  es_universe :: "universe_validator option"
  es_circuit :: circuit
  es_pending :: int
  es_world :: 'w

text \<open>Calls on the world.\<close>

definition world :: "('w \<Rightarrow> 'a res \<times> 'w) \<Rightarrow> ('w exec_state, 'a) prog" where
  "world f s = (case f (es_world s) of (r, w) \<Rightarrow> Some (r, s\<lparr>es_world := w\<rparr>))"

definition plain :: "('w \<Rightarrow> 'a \<times> 'w) \<Rightarrow> ('w exec_state, 'a) prog" where
  "plain f = world (\<lambda>w. case f w of (x, w) \<Rightarrow> (Inr x, w))"

definition now_iso :: "'w execution \<Rightarrow> ('w exec_state, str) prog" where
  "now_iso X = seq (plain (ex_utc X)) (\<lambda>t. ret (jc_iso (ex_codec X) t))"

text \<open>A call of the order manager that reads the clock once.\<close>

definition stamped :: "'w execution \<Rightarrow> (str \<Rightarrow> 'w \<Rightarrow> 'a res \<times> 'w) \<Rightarrow> ('w exec_state, 'a) prog" where
  "stamped X f = seq (now_iso X) (\<lambda>now. world (f now))"

abbreviation set_status :: "'w execution \<Rightarrow> str \<Rightarrow> order_status \<Rightarrow> rat \<Rightarrow> rat \<Rightarrow> str \<Rightarrow> ('w exec_state, bool) prog" where
  "set_status X order_id st qty avg msg \<equiv>
    stamped X (\<lambda>now w. update_order_status (ex_manager X) w order_id st qty avg msg now)"

abbreviation record_response :: "'w execution \<Rightarrow> order_response \<Rightarrow> ('w exec_state, unit) prog" where
  "record_response X r \<equiv> stamped X (\<lambda>now w. record_order (ex_manager X) w r now)"

definition with_request :: "bool res \<times> order_request \<times> 'w \<Rightarrow> (bool \<times> order_request) res \<times> 'w" where
  "with_request r = (case r of (b, q, w) \<Rightarrow> (map_sum id (\<lambda>b. (b, q)) b, w))"

definition submit :: "'w execution \<Rightarrow> order_request \<Rightarrow> ('w exec_state, bool \<times> order_request) prog" where
  "submit X q =
    seq (now_iso X) (\<lambda>now1. seq (now_iso X) (\<lambda>now2.
      world (\<lambda>w. with_request (submit_order (ex_manager X) w q now1 now2))))"

definition submit_child :: "'w execution \<Rightarrow> order_request \<Rightarrow> str \<Rightarrow> str \<Rightarrow> ('w exec_state, bool \<times> order_request) prog" where
  "submit_child X q parent_order_id protective_type =
    stamped X (\<lambda>now w. with_request (submit_child_order (ex_manager X) w q parent_order_id protective_type now))"

definition apply_fill :: "'w execution \<Rightarrow> str \<Rightarrow> fill \<Rightarrow> str \<Rightarrow> ('w exec_state, bool) prog" where
  "apply_fill X symbol f market_str =
    seq (now_iso X) (\<lambda>t1. seq (now_iso X) (\<lambda>t2. seq (now_iso X) (\<lambda>t3. seq (now_iso X) (\<lambda>t4.
      plain (\<lambda>w. apply_fill_to_position (ex_manager X) w symbol f (Some market_str) (t1, t2, t3) t4)))))"

definition emit_fill :: "'w execution \<Rightarrow> fill_args \<Rightarrow> ('w exec_state, unit) prog" where
  "emit_fill X a =
    seq (plain (ex_uuid X)) (\<lambda>event_id. seq (plain (ex_uuid X)) (\<lambda>fresh. seq (plain (ex_utc X)) (\<lambda>now s.
      (case publish_fill (ex_publisher X) event_id fresh now a (es_pending s, es_world s) of
         (r, n, w) \<Rightarrow> Some (r, s\<lparr>es_pending := n, es_world := w\<rparr>)))))"

definition emit_rejection :: "'w execution \<Rightarrow> rejection_args \<Rightarrow> ('w exec_state, unit) prog" where
  "emit_rejection X a =
    seq (plain (ex_uuid X)) (\<lambda>event_id. seq (plain (ex_uuid X)) (\<lambda>fresh. seq (plain (ex_utc X)) (\<lambda>now s.
      (case publish_rejection (ex_publisher X) event_id fresh now a (es_pending s, es_world s) of
         (r, n, w) \<Rightarrow> Some (r, s\<lparr>es_pending := n, es_world := w\<rparr>)))))"

definition get_broker :: "'w execution \<Rightarrow> market \<Rightarrow> 'w broker" where
  "get_broker X mk = (case mk of NSE \<Rightarrow> ex_zerodha X | US \<Rightarrow> ex_alpaca X)"

section \<open>Placement pause\<close>

definition PLACEMENT_PAUSE_THRESHOLD_FAILURES :: int where
  "PLACEMENT_PAUSE_THRESHOLD_FAILURES = 3"

definition PLACEMENT_PAUSE_BACKOFF_SECONDS :: rat where
  "PLACEMENT_PAUSE_BACKOFF_SECONDS = 30"

definition record_placement_failure :: "'w execution \<Rightarrow> market \<Rightarrow> ('w exec_state, unit) prog" where
  "record_placement_failure X mk =
    (if mk \<noteq> NSE then ret ()
     else
      seq (modify (\<lambda>s. s\<lparr>es_failures := es_failures s + 1\<rparr>)) (\<lambda>_.
      seq (read (\<lambda>s. PLACEMENT_PAUSE_THRESHOLD_FAILURES \<le> es_failures s \<and> \<not> es_paused s)) (\<lambda>trip.
        if trip then
          seq (plain (ex_mono X)) (\<lambda>now. modify (\<lambda>s. s\<lparr>es_paused := True,
            es_paused_until := now + PLACEMENT_PAUSE_BACKOFF_SECONDS\<rparr>))
        else ret ())))"

section \<open>Placement behind the idempotency key\<close>

definition json_get :: "meta \<Rightarrow> str \<Rightarrow> json" where
  "json_get m k = (case map_of m k of None \<Rightarrow> JNull | Some j \<Rightarrow> j)"

definition request_key :: "'w execution \<Rightarrow> order_request \<Rightarrow> str" where
  "request_key X q = jc_str (ex_codec X) (json_get (oq_metadata q) ''broker_idempotency_key'')"

definition acknowledged :: "order_response option \<Rightarrow> order_response option" where
  "acknowledged found = (case found of Some r \<Rightarrow> if op_broker_order_id r \<noteq> [] then Some r else None | None \<Rightarrow> None)"

definition keyed :: "'w execution \<Rightarrow> order_request \<Rightarrow> order_request" where
  "keyed X q = attach_broker_idempotency (om_lib (ex_manager X)) q"

definition recover_ack_unknown_order :: "'w execution \<Rightarrow> 'w broker \<Rightarrow> order_request \<Rightarrow> ('w exec_state, order_response) prog" where
  "recover_ack_unknown_order X broker q =
    (let q = keyed X q in
     seq (world (\<lambda>w. br_find broker w (request_key X q) q)) (\<lambda>found.
       case acknowledged found of Some r \<Rightarrow> ret r | None \<Rightarrow> throw RuntimeError))"

definition placement_priority :: "str \<Rightarrow> priority" where
  "placement_priority reason =
    (if reason \<in> {''protective_stop'', ''square_off'', ''kill_switch''} then CRITICAL else HIGH)"

text \<open>The broker call and the treatment of its two kinds of failure.\<close>

definition send_order :: "'w execution \<Rightarrow> 'w broker \<Rightarrow> order_request \<Rightarrow> market \<Rightarrow> str \<Rightarrow> ('w exec_state, order_response) prog" where
  "send_order X broker q mk reason =
    try_catch
      (seq (world (\<lambda>w. br_place broker w q)) (\<lambda>r. seq (modify (\<lambda>s. s\<lparr>es_failures := 0\<rparr>)) (\<lambda>_. ret r)))
      (\<lambda>e. if e = NonRetryableBrokerError then
             seq (set_status X (oq_order_id q) REJECTED 0 0 ''Non-retryable broker rejection during placement'') (\<lambda>_.
             seq (modify (\<lambda>s. s\<lparr>es_failures := 0\<rparr>)) (\<lambda>_. throw e))
           else
             seq (stamped X (\<lambda>now w. mark_order_ack_unknown (ex_manager X) w (oq_order_id q)
               (''Broker placement acknowledgement unknown after '' @ reason @ '': '' @ ex_exn_str X e) now)) (\<lambda>_.
             seq (record_placement_failure X mk) (\<lambda>_. recover_ack_unknown_order X broker q)))"

definition place_idempotent :: "'w execution \<Rightarrow> 'w broker \<Rightarrow> order_request \<Rightarrow> market \<Rightarrow> bool \<Rightarrow> str
    \<Rightarrow> ('w exec_state, order_response) prog" where
  "place_idempotent X broker q mk allow reason =
    (let q = keyed X q in
     seq (read es_ks_active) (\<lambda>halted.
       if halted \<and> \<not> allow then throw RuntimeError
       else
         seq (world (\<lambda>w. br_find broker w (request_key X q) q)) (\<lambda>found.
           case acknowledged found of
             Some r \<Rightarrow> ret r
           | None \<Rightarrow>
               seq (if mk = NSE then world (ex_acquire X (placement_priority reason) ORDER_PLACE) else ret ()) (\<lambda>_.
                 send_order X broker q mk reason))))"

section \<open>Kill switch\<close>

definition is_protective_order :: "bool \<Rightarrow> meta \<Rightarrow> str \<Rightarrow> bool" where
  "is_protective_order flag metadata order_id \<longleftrightarrow>
    flag \<or> json_truthy (json_get metadata ''protective_type'') \<or> py_starts ''SL-'' order_id"

abbreviation stored_protective :: "stored_order \<Rightarrow> bool" where
  "stored_protective so \<equiv> is_protective_order (so_is_protective so) (so_metadata so) (op_order_id so)"

definition open_orders :: "'w execution \<Rightarrow> ('w exec_state, stored_order list) prog" where
  "open_orders X s =
    (case get_open_orders (ex_fuel X) (ex_manager X) (es_world s) of
       None \<Rightarrow> None
     | Some (os, w) \<Rightarrow> Some (Inr os, s\<lparr>es_world := w\<rparr>))"

definition retrying :: "'w execution \<Rightarrow> ('w \<Rightarrow> 'a res \<times> 'w) \<Rightarrow> ('w exec_state, 'a) prog" where
  "retrying X f s =
    (case execute_with_retry (ex_retry X) f (es_circuit s, es_world s) of
       (r, c, w) \<Rightarrow> Some (r, s\<lparr>es_circuit := c, es_world := w\<rparr>))"

definition cancel_one_open_order :: "'w execution \<Rightarrow> stored_order \<Rightarrow> str \<Rightarrow> ('w exec_state, unit) prog" where
  "cancel_one_open_order X so reason =
    (if stored_protective so then ret ()
     else if op_status so = PENDING \<and> op_broker_order_id so = [] then
       seq (set_status X (op_order_id so) CANCELLED (op_filled_quantity so) (op_avg_fill_price so)
         (''Cancelled locally by execution kill switch: '' @ reason)) (\<lambda>_. ret ())
     else if op_status so = ACK_UNKNOWN \<and> op_broker_order_id so = [] then ret ()
     else if op_broker_order_id so = [] then ret ()
     else
       try_catch
         (seq (if op_market so = NSE then world (ex_acquire X CRITICAL ORDER_CONTROL) else ret ()) (\<lambda>_.
          seq (retrying X (\<lambda>w. br_cancel (get_broker X (op_market so)) w (op_broker_order_id so))) (\<lambda>update.
          seq (set_status X (op_order_id so) CANCELLED (op_filled_quantity so) (op_avg_fill_price so)
            (str_or (Some (ou_broker_message update)) (''Cancelled by kill switch: '' @ reason))) (\<lambda>_. ret ()))))
         (\<lambda>_. ret ()))"

definition cancel_open_orders :: "'w execution \<Rightarrow> str \<Rightarrow> ('w exec_state, unit) prog" where
  "cancel_open_orders X reason =
    seq (open_orders X) (\<lambda>os. for_each (\<lambda>so. try_catch (cancel_one_open_order X so reason) (\<lambda>_. ret ())) os)"

definition handle_kill_switch_activation :: "'w execution \<Rightarrow> str \<Rightarrow> ('w exec_state, unit) prog" where
  "handle_kill_switch_activation X reason =
    seq (modify (\<lambda>s. s\<lparr>es_ks_active := True, es_ks_reason := reason\<rparr>)) (\<lambda>_. cancel_open_orders X reason)"

definition handle_kill_switch_clear :: "('w exec_state, unit) prog" where
  "handle_kill_switch_clear = modify (\<lambda>s. s\<lparr>es_ks_active := False, es_ks_reason := []\<rparr>)"

definition durable_row :: "'w execution \<Rightarrow> 'w dynamo \<Rightarrow> ('w exec_state, item option option) prog" where
  "durable_row X D =
    try_catch (seq (world (\<lambda>w. dy_get D w (ex_risk_table X) kill_switch_key)) (\<lambda>row. ret (Some row))) (\<lambda>_. ret None)"

text \<open>The refresh only ever activates.\<close>

definition refresh_kill_switch :: "'w execution \<Rightarrow> bool \<Rightarrow> bool \<Rightarrow> ('w exec_state, bool) prog" where
  "refresh_kill_switch X force cancel =
    seq (plain (ex_mono X)) (\<lambda>now.
    seq (read (\<lambda>s. \<not> force \<and> now - es_ks_checked_at s < ex_poll_interval X)) (\<lambda>recent.
      if recent then read es_ks_active
      else
        seq (modify (\<lambda>s. s\<lparr>es_ks_checked_at := now\<rparr>)) (\<lambda>_.
          case ex_dynamo X of
            None \<Rightarrow> read es_ks_active
          | Some D \<Rightarrow>
              if ex_risk_table X = [] then read es_ks_active
              else
                seq (durable_row X D) (\<lambda>row.
                  case row of
                    Some (Some i) \<Rightarrow>
                      if attr_bool (ex_num_str X) (lowlevel i) ''active'' False then
                        (let reason = attr_string (ex_num_str X) (lowlevel i) ''reason'' ''Durable kill switch active'' in
                         seq (read es_ks_active) (\<lambda>halted.
                           if halted then
                             seq (modify (\<lambda>s. s\<lparr>es_ks_reason := str_or (Some (es_ks_reason s)) reason\<rparr>)) (\<lambda>_. ret True)
                           else if cancel then seq (handle_kill_switch_activation X reason) (\<lambda>_. ret True)
                           else seq (modify (\<lambda>s. s\<lparr>es_ks_active := True, es_ks_reason := reason\<rparr>)) (\<lambda>_. ret True)))
                      else read es_ks_active
                  | _ \<Rightarrow> read es_ks_active))))"

text \<open>One round of \<open>_durable_kill_switch_poll_loop\<close>.\<close>

definition kill_switch_poll_round :: "'w execution \<Rightarrow> ('w exec_state, unit) prog" where
  "kill_switch_poll_round X = try_catch (seq (refresh_kill_switch X True True) (\<lambda>_. ret ())) (\<lambda>_. ret ())"

definition drift_reason :: "'w execution \<Rightarrow> str \<Rightarrow> rat \<Rightarrow> rat \<Rightarrow> str" where
  "drift_reason X symbol broker_qty dynamo_qty =
    ''POSITION_DRIFT_DETECTED symbol='' @ symbol @ '' broker_qty='' @ jc_str (ex_codec X) (JNum broker_qty) @
    '' dynamo_qty='' @ jc_str (ex_codec X) (JNum dynamo_qty)"

definition handle_position_drift :: "'w execution \<Rightarrow> str \<Rightarrow> rat \<Rightarrow> rat \<Rightarrow> ('w exec_state, unit) prog" where
  "handle_position_drift X symbol broker_qty dynamo_qty =
    handle_kill_switch_activation X (drift_reason X symbol broker_qty dynamo_qty)"

end
