(* ===== verification/ExecutionOrders.thy ===== *)
theory ExecutionOrders
  imports ExecutionModel
begin

text \<open>
  \<open>services/execution_engine/service.py\<close>, continued: protective stops and emergency flattening,
  \<open>execute_approved_signal\<close>, and the reconciliation of the stored orders at start-up.
\<close>

section \<open>Requests from what is known of an order\<close>

definition new_request :: "'w execution \<Rightarrow> rat \<Rightarrow> str \<Rightarrow> str \<Rightarrow> str \<Rightarrow> str \<Rightarrow> market \<Rightarrow> order_side \<Rightarrow> order_type \<Rightarrow> rat
    \<Rightarrow> product_type \<Rightarrow> meta \<Rightarrow> order_request" where
  "new_request X now order_id signal_id risk_decision_id symbol mk side otype quantity product metadata =
    \<lparr>oq_order_id = order_id, oq_signal_id = signal_id, oq_risk_decision_id = risk_decision_id, oq_symbol = symbol,
     oq_market = mk, oq_side = side, oq_order_type = otype, oq_quantity = quantity, oq_limit_price = None,
     oq_stop_price = None, oq_product_type = product, oq_extended_hours = False, oq_time_in_force = ''DAY'',
     oq_created_at = ex_datetime X now, oq_metadata = metadata\<rparr>"

text \<open>What the protective code reads of a parent, which is an \<open>OrderRequest\<close> or a \<open>StoredOrder\<close>.\<close>

record parent_view =
  pv_is_protective :: bool
  pv_order_id :: str
  pv_metadata :: meta
  pv_stop_price :: "rat option"
  pv_side :: order_side
  pv_signal_id :: str
  pv_risk_decision_id :: str
  pv_symbol :: str
  pv_market :: market
  pv_product_type :: product_type

definition request_view :: "order_request \<Rightarrow> parent_view" where
  "request_view q = \<lparr>pv_is_protective = False, pv_order_id = oq_order_id q, pv_metadata = oq_metadata q,
     pv_stop_price = oq_stop_price q, pv_side = oq_side q, pv_signal_id = oq_signal_id q,
     pv_risk_decision_id = oq_risk_decision_id q, pv_symbol = oq_symbol q, pv_market = oq_market q,
     pv_product_type = oq_product_type q\<rparr>"

definition stored_view :: "stored_order \<Rightarrow> parent_view" where
  "stored_view so = \<lparr>pv_is_protective = so_is_protective so, pv_order_id = op_order_id so, pv_metadata = so_metadata so,
     pv_stop_price = so_stop_price so, pv_side = so_side so, pv_signal_id = so_signal_id so,
     pv_risk_decision_id = so_risk_decision_id so, pv_symbol = op_symbol so, pv_market = op_market so,
     pv_product_type = so_product_type so\<rparr>"

definition opposite :: "order_side \<Rightarrow> order_side" where
  "opposite sd = (if sd = BUY then SELL else BUY)"

definition protective_fill_key :: "'w execution \<Rightarrow> str \<Rightarrow> rat \<Rightarrow> str" where
  "protective_fill_key X order_id filled_quantity =
    take 12 (py_sha256_hex (om_lib (ex_manager X)) (order_id @ ''|'' @ ex_fixed8 X filled_quantity))"

section \<open>Emergency flattening\<close>

definition flatten_request :: "'w execution \<Rightarrow> rat \<Rightarrow> parent_view \<Rightarrow> order_response \<Rightarrow> rat \<Rightarrow> str \<Rightarrow> order_request" where
  "flatten_request X now p entry filled_quantity fill_id =
    new_request X now (''FLATTEN-'' @ op_order_id entry @ ''-'' @ fill_id) (pv_signal_id p @ ''#FLATTEN#'' @ fill_id)
      (pv_risk_decision_id p) (pv_symbol p) (pv_market p) (opposite (pv_side p)) MARKET filled_quantity (pv_product_type p)
      [(''parent_order_id'', JStr (op_order_id entry)), (''parent_broker_order_id'', JStr (op_broker_order_id entry)),
       (''protective_type'', JStr ''EMERGENCY_FLATTEN''), (''entry_fill_id'', JStr fill_id),
       (''reason'', JStr ''protective_stop_failed'')]"

definition place_emergency_flatten :: "'w execution \<Rightarrow> parent_view \<Rightarrow> order_response \<Rightarrow> rat \<Rightarrow> str
    \<Rightarrow> ('w exec_state, order_response option) prog" where
  "place_emergency_flatten X p entry filled_quantity fill_id =
    (if filled_quantity \<le> 0 then ret None
     else
      seq (plain (ex_utc X)) (\<lambda>now.
      seq (of_res (validate_order_request False (flatten_request X now p entry filled_quantity fill_id))) (\<lambda>q.
      seq (submit_child X (keyed X q) (op_order_id entry) ''EMERGENCY_FLATTEN'') (\<lambda>created.
      seq (if fst created then ret None
           else seq (world (\<lambda>w. get_stored_order (ex_manager X) w (oq_order_id q))) (\<lambda>so.
             ret (acknowledged (map_option order_response.truncate so)))) (\<lambda>existing.
        case existing of
          Some r \<Rightarrow> ret (Some r)
        | None \<Rightarrow>
           seq (place_idempotent X (get_broker X (pv_market p)) (snd created) (pv_market p) True ''square_off'') (\<lambda>r.
           seq (record_response X r) (\<lambda>_. ret (Some r))))))))"

section \<open>Protective stops\<close>

definition halt_reason :: "'w execution \<Rightarrow> parent_view \<Rightarrow> order_response \<Rightarrow> str \<Rightarrow> rat \<Rightarrow> exn \<Rightarrow> str" where
  "halt_reason X p entry child_id filled_quantity e =
    ''PROTECTIVE_STOP_FAILED parent_order_id='' @ op_order_id entry @ '' child_order_id='' @ child_id @
    '' symbol='' @ pv_symbol p @ '' qty='' @ jc_str (ex_codec X) (JNum filled_quantity) @ '' reason='' @ ex_exn_str X e"

definition handle_protective_stop_failure :: "'w execution \<Rightarrow> parent_view \<Rightarrow> order_response \<Rightarrow> str \<Rightarrow> rat \<Rightarrow> str \<Rightarrow> exn
    \<Rightarrow> ('w exec_state, unit) prog" where
  "handle_protective_stop_failure X p entry child_id filled_quantity fill_id e =
    (let reason = halt_reason X p entry child_id filled_quantity e in
     seq (handle_kill_switch_activation X reason) (\<lambda>_.
     seq (try_catch
           (seq (set_status X child_id REJECTED 0 0
              ''Protective stop could not be confirmed; emergency flatten attempted'') (\<lambda>_.
            seq (place_emergency_flatten X p entry filled_quantity fill_id) (\<lambda>r.
              ret (case r of None \<Rightarrow> ([], []) | Some r \<Rightarrow> (op_order_id r, op_broker_order_id r)))))
           (\<lambda>_. ret ([], []))) (\<lambda>ids.
       stamped X (\<lambda>now w. mark_protection_failed (ex_manager X) w (op_order_id entry) reason (fst ids) (snd ids) now))))"

definition child_id_of :: "order_response \<Rightarrow> str \<Rightarrow> str" where
  "child_id_of entry fill_id = ''SL-'' @ op_order_id entry @ ''-'' @ fill_id"

definition child_request :: "'w execution \<Rightarrow> rat \<Rightarrow> parent_view \<Rightarrow> order_response \<Rightarrow> rat \<Rightarrow> str \<Rightarrow> order_request" where
  "child_request X now p entry filled_quantity fill_id =
    (new_request X now (child_id_of entry fill_id) (pv_signal_id p @ ''#SL#'' @ fill_id)
      (pv_risk_decision_id p) (pv_symbol p) (pv_market p) (opposite (pv_side p)) STOP_LOSS_MARKET filled_quantity
      (pv_product_type p)
      [(''parent_order_id'', JStr (op_order_id entry)), (''parent_broker_order_id'', JStr (op_broker_order_id entry)),
       (''protective_type'', JStr ''STOP_LOSS''), (''entry_fill_id'', JStr fill_id),
       (''take_profit'', json_get (pv_metadata p) ''take_profit'')])\<lparr>oq_stop_price := pv_stop_price p\<rparr>"

definition needs_protection :: "parent_view \<Rightarrow> rat \<Rightarrow> bool" where
  "needs_protection p filled_quantity \<longleftrightarrow>
    \<not> is_protective_order (pv_is_protective p) (pv_metadata p) (pv_order_id p) \<and>
    (case pv_stop_price p of None \<Rightarrow> False | Some x \<Rightarrow> 0 < x) \<and> 0 < filled_quantity"

text \<open>The placement of the reserved child; its failure halts the service and flattens the fill.\<close>

definition place_child :: "'w execution \<Rightarrow> parent_view \<Rightarrow> order_response \<Rightarrow> rat \<Rightarrow> str \<Rightarrow> order_request
    \<Rightarrow> ('w exec_state, order_response option) prog" where
  "place_child X p entry filled_quantity fill_id q =
    seq (try_catch
          (seq (place_idempotent X (get_broker X (pv_market p)) q (pv_market p) True ''protective_stop'') (\<lambda>r. ret (Some r)))
          (\<lambda>e. seq (handle_protective_stop_failure X p entry (child_id_of entry fill_id) filled_quantity fill_id e)
            (\<lambda>_. ret None))) (\<lambda>placed.
      case placed of
        None \<Rightarrow> ret None
      | Some r \<Rightarrow>
         seq (record_response X r) (\<lambda>_.
         seq (stamped X (\<lambda>now w. link_protective_child (ex_manager X) w (op_order_id entry) (op_order_id r)
           (op_broker_order_id r) ''STOP_LOSS'' filled_quantity now)) (\<lambda>_. ret (Some r))))"

definition maybe_place_protective_stop :: "'w execution \<Rightarrow> parent_view \<Rightarrow> order_response \<Rightarrow> rat \<Rightarrow> str
    \<Rightarrow> ('w exec_state, order_response option) prog" where
  "maybe_place_protective_stop X p entry filled_quantity fill_id =
    (if \<not> needs_protection p filled_quantity then ret None
     else
      seq (plain (ex_utc X)) (\<lambda>now.
      seq (of_res (validate_order_request False (child_request X now p entry filled_quantity fill_id))) (\<lambda>q.
      seq (submit_child X (keyed X q) (op_order_id entry) ''STOP_LOSS'') (\<lambda>created.
        if \<not> fst created then
          seq (world (\<lambda>w. get_stored_order (ex_manager X) w (child_id_of entry fill_id))) (\<lambda>so.
            ret (map_option order_response.truncate so))
        else place_child X p entry filled_quantity fill_id (snd created)))))"

section \<open>Approved signals\<close>

record exec_call =
  xc_signal_id :: str
  xc_risk_decision_id :: str
  xc_symbol :: str
  xc_side :: order_side
  xc_quantity :: rat
  xc_order_type :: order_type
  xc_market :: market
  xc_limit_price :: "rat option"
  xc_stop_price :: "rat option"
  xc_product_type :: "product_type option"
  xc_take_profit :: json
  xc_expires_at :: "rat option"

definition expiry_json :: "'w execution \<Rightarrow> rat option \<Rightarrow> json" where
  "expiry_json X t = (case t of None \<Rightarrow> JNull | Some t \<Rightarrow> JStr (jc_iso (ex_codec X) t))"

text \<open>\<open>{**existing.metadata, ...}\<close>\<close>

definition merged_metadata :: "'w execution \<Rightarrow> stored_order \<Rightarrow> json \<Rightarrow> rat option \<Rightarrow> meta" where
  "merged_metadata X so take_profit expires_at =
    AList.update ''broker_idempotency_key''
      (JStr (str_or (Some (so_broker_idempotency_key so)) (broker_idempotency_key (om_lib (ex_manager X)) (op_order_id so))))
      (AList.update ''expires_at'' (expiry_json X expires_at)
        (AList.update ''take_profit'' take_profit (so_metadata so)))"

definition pending_request :: "'w execution \<Rightarrow> rat \<Rightarrow> stored_order \<Rightarrow> exec_call \<Rightarrow> order_request" where
  "pending_request X now so c =
    (new_request X now (op_order_id so) (xc_signal_id c) (xc_risk_decision_id c) (xc_symbol c) (xc_market c) (xc_side c)
      (xc_order_type c) (xc_quantity c) (opt_default (so_product_type so) (xc_product_type c))
      (merged_metadata X so (xc_take_profit c) (xc_expires_at c)))
      \<lparr>oq_limit_price := xc_limit_price c, oq_stop_price := xc_stop_price c\<rparr>"

text \<open>\<open>_rebuild_order_request_from_existing\<close>; no reader of a row sets \<open>order_created_at\<close>, so the time is now.\<close>

definition rebuilt_request :: "'w execution \<Rightarrow> rat \<Rightarrow> stored_order \<Rightarrow> str \<Rightarrow> rat option \<Rightarrow> rat option \<Rightarrow> json \<Rightarrow> rat option
    \<Rightarrow> order_request" where
  "rebuilt_request X now so risk_decision_id limit_price stop_price take_profit expires_at =
    (new_request X now (op_order_id so) (so_signal_id so) (str_or (Some risk_decision_id) (so_risk_decision_id so))
      (op_symbol so) (op_market so) (so_side so) (so_order_type so) (so_quantity so) (so_product_type so)
      (merged_metadata X so take_profit expires_at))
      \<lparr>oq_limit_price := (case limit_price of None \<Rightarrow> so_limit_price so | Some x \<Rightarrow> Some x),
       oq_stop_price := (case stop_price of None \<Rightarrow> so_stop_price so | Some x \<Rightarrow> Some x)\<rparr>"

definition fresh_request :: "'w execution \<Rightarrow> rat \<Rightarrow> str \<Rightarrow> exec_call \<Rightarrow> order_request" where
  "fresh_request X now order_id c =
    (new_request X now order_id (xc_signal_id c) (xc_risk_decision_id c) (xc_symbol c) (xc_market c) (xc_side c)
      (xc_order_type c) (xc_quantity c) (opt_default (if xc_market c = NSE then MIS else DAY) (xc_product_type c))
      [(''take_profit'', xc_take_profit c), (''expires_at'', expiry_json X (xc_expires_at c))])
      \<lparr>oq_limit_price := xc_limit_price c, oq_stop_price := xc_stop_price c\<rparr>"

definition generate_order_id :: "'w execution \<Rightarrow> ('w exec_state, str) prog" where
  "generate_order_id X =
    seq (plain (ex_utc X)) (\<lambda>t. seq (plain (ex_hex X)) (\<lambda>h.
      ret (''QE-'' @ jc_int_str (ex_codec X) (py_int (t * 1000)) @ ''-'' @ take 8 h)))"

text \<open>The end shared by the three paths that get a broker response: record it, protect the fill.\<close>

definition settle :: "'w execution \<Rightarrow> order_request \<Rightarrow> order_response \<Rightarrow> ('w exec_state, order_response) prog" where
  "settle X q r =
    seq (record_response X r) (\<lambda>_.
    seq (maybe_place_protective_stop X (request_view q) r (op_filled_quantity r)
      (protective_fill_key X (op_order_id r) (op_filled_quantity r))) (\<lambda>_. ret r))"

definition retry_pending :: "'w execution \<Rightarrow> exec_call \<Rightarrow> stored_order \<Rightarrow> ('w exec_state, order_response) prog" where
  "retry_pending X c so =
    seq (plain (ex_utc X)) (\<lambda>now.
    seq (of_res (validate_order_request True (pending_request X now so c))) (\<lambda>q.
    seq (place_idempotent X (get_broker X (xc_market c)) q (xc_market c) False ''entry'') (settle X q)))"

definition resume_unknown :: "'w execution \<Rightarrow> exec_call \<Rightarrow> stored_order \<Rightarrow> ('w exec_state, order_response) prog" where
  "resume_unknown X c so =
    seq (plain (ex_utc X)) (\<lambda>now.
    seq (of_res (validate_order_request True (rebuilt_request X now so (xc_risk_decision_id c) (xc_limit_price c)
      (xc_stop_price c) (xc_take_profit c) (xc_expires_at c)))) (\<lambda>q.
    seq (recover_ack_unknown_order X (get_broker X (xc_market c)) q) (settle X q)))"

definition submit_first :: "'w execution \<Rightarrow> exec_call \<Rightarrow> ('w exec_state, order_response) prog" where
  "submit_first X c =
    seq (generate_order_id X) (\<lambda>order_id.
    seq (plain (ex_utc X)) (\<lambda>now.
    seq (of_res (validate_order_request True (fresh_request X now order_id c))) (\<lambda>q.
    seq (submit X (keyed X q)) (\<lambda>submitted.
      if \<not> fst submitted then
        seq (plain (\<lambda>w. get_order_by_signal (ex_manager X) w (xc_signal_id c))) (\<lambda>existing.
          case existing of Some so \<Rightarrow> ret (order_response.truncate so) | None \<Rightarrow> throw RuntimeError)
      else
        seq (place_idempotent X (get_broker X (xc_market c)) (snd submitted) (xc_market c) False ''entry'')
          (settle X (snd submitted))))))"

definition dispatch_signal :: "'w execution \<Rightarrow> exec_call \<Rightarrow> ('w exec_state, order_response) prog" where
  "dispatch_signal X c =
    seq (plain (\<lambda>w. get_order_by_signal (ex_manager X) w (xc_signal_id c))) (\<lambda>existing.
      case existing of
        None \<Rightarrow> submit_first X c
      | Some so \<Rightarrow>
          if op_status so = PENDING then retry_pending X c so
          else if op_status so = ACK_UNKNOWN then resume_unknown X c so
          else ret (order_response.truncate so))"

definition utc_date :: "rat \<Rightarrow> int" where
  "utc_date t = \<lfloor>t / 86400\<rfloor>"

definition universe_step :: "'w execution \<Rightarrow> exec_call \<Rightarrow> ('w exec_state, unit) prog" where
  "universe_step X c =
    seq (read es_universe) (\<lambda>v.
      case v of
        None \<Rightarrow> ret ()
      | Some v \<Rightarrow>
         seq (plain (ex_utc X)) (\<lambda>t.
           if ur_approved (universe_validate v (xc_symbol c) (market_value (xc_market c)) (utc_date t)) then ret ()
           else throw ValueError))"

definition check_expiry :: "'w execution \<Rightarrow> exec_call \<Rightarrow> ('w exec_state, unit) prog" where
  "check_expiry X c =
    (case xc_expires_at c of
       None \<Rightarrow> ret ()
     | Some t \<Rightarrow> seq (plain (ex_utc X)) (\<lambda>now. if t < now then throw ValueError else ret ()))"

definition execute_approved_signal :: "'w execution \<Rightarrow> exec_call \<Rightarrow> ('w exec_state, order_response) prog" where
  "execute_approved_signal X c =
    (if xc_risk_decision_id c = [] then throw ValueError
     else
      seq (check_expiry X c) (\<lambda>_.
      seq (refresh_kill_switch X False True) (\<lambda>_.
      seq (read es_ks_active) (\<lambda>halted.
        if halted then throw RuntimeError
        else seq (universe_step X c) (\<lambda>_. dispatch_signal X c)))))"

section \<open>Fill slices\<close>

definition calculate_delta_fill_price :: "rat \<Rightarrow> rat \<Rightarrow> rat \<Rightarrow> rat \<Rightarrow> rat" where
  "calculate_delta_fill_price prior_qty prior_avg new_qty new_avg =
    (let delta_qty = new_qty - prior_qty in
     if delta_qty \<le> 0 then new_avg
     else max 0 ((new_qty * new_avg - prior_qty * prior_avg) / delta_qty))"

section \<open>Start-up reconciliation\<close>

definition is_paper_order :: "str \<Rightarrow> meta \<Rightarrow> str \<Rightarrow> bool" where
  "is_paper_order broker_order_id metadata order_id \<longleftrightarrow>
    py_starts ''PAPER-'' broker_order_id \<or> json_truthy (json_get metadata ''paper_trade'') \<or> py_starts ''PAPER-'' order_id"

definition place_pending_protective :: "'w execution \<Rightarrow> stored_order \<Rightarrow> ('w exec_state, unit) prog" where
  "place_pending_protective X so =
    (let parent = str_or (Some (so_parent_order_id so))
           (case json_get (so_metadata so) ''parent_order_id'' of
              j \<Rightarrow> if json_truthy j then jc_str (ex_codec X) j else [])
     in if (case so_stop_price so of None \<Rightarrow> True | Some x \<Rightarrow> x \<le> 0) \<or> so_quantity so \<le> 0 then ret ()
        else if parent = [] then ret ()
        else
         seq (plain (ex_utc X)) (\<lambda>now.
         seq (of_res (validate_order_request True
           ((new_request X now (op_order_id so) (so_signal_id so) (so_risk_decision_id so) (op_symbol so) (op_market so)
              (so_side so) (so_order_type so) (so_quantity so) (so_product_type so) (so_metadata so))
              \<lparr>oq_limit_price := so_limit_price so, oq_stop_price := so_stop_price so\<rparr>))) (\<lambda>q.
         seq (place_idempotent X (get_broker X (op_market so)) q (op_market so) True ''pending_protective_reconcile'') (\<lambda>r.
         seq (record_response X r) (\<lambda>_.
           stamped X (\<lambda>now w. link_protective_child (ex_manager X) w parent (op_order_id r) (op_broker_order_id r)
             (str_or (Some (so_protective_type so)) ''STOP_LOSS'') (so_quantity so) now))))))"

definition reconcile_unknown :: "'w execution \<Rightarrow> stored_order \<Rightarrow> ('w exec_state, unit) prog" where
  "reconcile_unknown X so =
    seq (plain (ex_utc X)) (\<lambda>now.
    seq (of_res (validate_order_request True (rebuilt_request X now so (so_risk_decision_id so) (so_limit_price so)
      (so_stop_price so) (json_get (so_metadata so) ''take_profit'') None))) (\<lambda>q.
    seq (recover_ack_unknown_order X (get_broker X (op_market so)) q) (record_response X)))"

definition stored_expiry :: "'w execution \<Rightarrow> stored_order \<Rightarrow> rat option" where
  "stored_expiry X so =
    (let j = json_get (so_metadata so) ''expires_at'' in
     if json_truthy j then jc_fromiso (ex_codec X) (jc_str (ex_codec X) j) else None)"

definition stored_call :: "'w execution \<Rightarrow> stored_order \<Rightarrow> exec_call" where
  "stored_call X so =
    \<lparr>xc_signal_id = so_signal_id so, xc_risk_decision_id = so_risk_decision_id so, xc_symbol = op_symbol so,
     xc_side = so_side so, xc_quantity = so_quantity so, xc_order_type = so_order_type so, xc_market = op_market so,
     xc_limit_price = so_limit_price so, xc_stop_price = so_stop_price so, xc_product_type = Some (so_product_type so),
     xc_take_profit = json_get (so_metadata so) ''take_profit'', xc_expires_at = stored_expiry X so\<rparr>"

definition reconcile_pending :: "'w execution \<Rightarrow> stored_order \<Rightarrow> ('w exec_state, unit) prog" where
  "reconcile_pending X so =
    (if stored_protective so then place_pending_protective X so
     else if so_signal_id so = [] \<or> so_risk_decision_id so = [] then
       seq (set_status X (op_order_id so) REJECTED 0 0 ''Corrupt PENDING record: missing signal_id/risk_decision_id'') (\<lambda>_. ret ())
     else seq (execute_approved_signal X (stored_call X so)) (\<lambda>_. ret ()))"

definition apply_status_fill :: "'w execution \<Rightarrow> stored_order \<Rightarrow> order_status_update \<Rightarrow> ('w exec_state, unit) prog" where
  "apply_status_fill X so u =
    (let prior = op_filled_quantity so;
         delta = max 0 (ou_filled_quantity u - prior);
         price = calculate_delta_fill_price prior (op_avg_fill_price so) (ou_filled_quantity u) (ou_avg_fill_price u)
     in if ou_new_status u \<in> {FILLED, PARTIALLY_FILLED} \<and> 0 < delta then
          seq (apply_fill X (op_symbol so) \<lparr>fl_side = so_side so, fl_qty = delta, fl_price = price, fl_last = price\<rparr>
            (market_value (op_market so))) (\<lambda>_.
          seq (maybe_place_protective_stop X (stored_view so) (order_response.truncate so) delta
            (protective_fill_key X (op_order_id so) (ou_filled_quantity u))) (\<lambda>_. ret ()))
        else ret ())"

definition reconcile_placed :: "'w execution \<Rightarrow> stored_order \<Rightarrow> ('w exec_state, unit) prog" where
  "reconcile_placed X so =
    seq (world (\<lambda>w. br_status (get_broker X (op_market so)) w (op_broker_order_id so))) (\<lambda>u.
      if ou_new_status u = op_status so then ret ()
      else
        seq (set_status X (op_order_id so) (ou_new_status u) (ou_filled_quantity u) (ou_avg_fill_price u) []) (\<lambda>_.
          apply_status_fill X so u))"

text \<open>Only the second pass looks whether the order is a paper order.\<close>

definition reconcile_order :: "'w execution \<Rightarrow> stored_order \<Rightarrow> ('w exec_state, unit) prog" where
  "reconcile_order X so =
    (if op_status so = ACK_UNKNOWN then try_catch (reconcile_unknown X so) (\<lambda>_. ret ())
     else if op_status so = PENDING then try_catch (reconcile_pending X so) (\<lambda>_. ret ())
     else if op_broker_order_id so = [] then ret ()
     else if is_paper_order (op_broker_order_id so) (so_metadata so) (op_order_id so) then ret ()
     else try_catch (reconcile_placed X so) (\<lambda>_. ret ()))"

definition reconcile_state :: "'w execution \<Rightarrow> ('w exec_state, unit) prog" where
  "reconcile_state X = seq (open_orders X) (for_each (reconcile_order X))"

end
