(* ===== verification/ExecutionLoop.thy ===== *)
theory ExecutionLoop
  imports ExecutionOrders
begin

text \<open>
  \<open>services/execution_engine/service.py\<close>, continued: the paper order simulator, the handling of one
  approved signal, the iteration of the Kafka loop, and the listener of the kill-switch topic
  (\<open>consumers/kafka_kill_switch_listener.py\<close>).  Metrics and log records are left out.
\<close>

section \<open>Paper simulator\<close>

definition paper_probability_hit :: "'w execution \<Rightarrow> approved_event \<Rightarrow> str \<Rightarrow> rat \<Rightarrow> bool" where
  "paper_probability_hit X ap salt probability =
    (if probability \<le> 0 then False
     else if 1 \<le> probability then True
     else ex_random X (pc_seed (ex_paper X) @ ''|'' @ ap_signal_id ap @ ''|'' @ ap_risk_decision_id ap @ ''|'' @ salt)
       < probability)"

text \<open>\<open>round(x, 4)\<close>: to the nearest multiple of one ten-thousandth, ties to the even one.\<close>

definition py_round4 :: "rat \<Rightarrow> rat" where
  "py_round4 x =
    (let y = x * 10000; f = \<lfloor>y\<rfloor>; d = y - of_int f
     in (if d < 1 / 2 then of_int f else if 1 / 2 < d then of_int f + 1
         else if even f then of_int f else of_int f + 1) / 10000)"

definition adverse_bps :: "paper_config \<Rightarrow> rat" where
  "adverse_bps cf = pc_slippage_bps cf + pc_spread_bps cf / 2 + pc_gap_bps cf"

definition paper_fill_price :: "paper_config \<Rightarrow> approved_event \<Rightarrow> order_side \<Rightarrow> rat" where
  "paper_fill_price cf ap side =
    py_round4 (ap_price_at_signal ap * (1 + (if side = BUY then 1 else - 1) * adverse_bps cf / 10000))"

text \<open>\<open>int(s, 16)\<close> on hexadecimal digits.\<close>

definition hex_digit :: "char \<Rightarrow> int" where
  "hex_digit c =
    (let k = (of_char c :: int) in
     if 48 \<le> k \<and> k \<le> 57 then k - 48 else if 97 \<le> k \<and> k \<le> 102 then k - 87 else 0)"

definition hex_value :: "str \<Rightarrow> int" where
  "hex_value s = foldl (\<lambda>n c. 16 * n + hex_digit c) 0 s"

definition paper_partial_quantity :: "pylib \<Rightarrow> paper_config \<Rightarrow> approved_event \<Rightarrow> rat" where
  "paper_partial_quantity L cf ap =
    (let qty = ap_quantity ap in
     if qty \<le> 1 then qty
     else
      (let min_pct = min (max (pc_partial_min_pct cf) (1 / 100)) (99 / 100);
           raw = ap_signal_id ap @ ''|partial_qty|'' @ pc_seed cf;
           bucket = of_int (hex_value (take 8 (py_sha256_hex L raw))) / 4294967295;
           fill_pct = min_pct + (95 / 100 - min_pct) * bucket
       in max 1 (min (qty - 1) (of_int (py_int (qty * fill_pct))))))"

text \<open>The outcome of the simulation: the reject reason, the filled quantity and the status.\<close>

record paper_outcome =
  po_reject :: "str option"
  po_quantity :: rat
  po_status :: order_status

definition simulate_paper :: "'w execution \<Rightarrow> approved_event \<Rightarrow> paper_outcome" where
  "simulate_paper X ap =
    (let cf = ex_paper X;
         reject = (if paper_probability_hit X ap ''circuit_lock'' (pc_circuit_lock_probability cf) then Some ''PAPER_CIRCUIT_LOCK''
           else if paper_probability_hit X ap ''reject'' (pc_reject_probability cf) then Some ''PAPER_REJECTED_BY_SIMULATOR''
           else None);
         partial = paper_partial_quantity (om_lib (ex_manager X)) cf ap
     in if reject \<noteq> None then \<lparr>po_reject = reject, po_quantity = 0, po_status = REJECTED\<rparr>
        else if paper_probability_hit X ap ''partial'' (pc_partial_probability cf) then
          \<lparr>po_reject = None, po_quantity = partial,
           po_status = (if partial < ap_quantity ap then PARTIALLY_FILLED else FILLED)\<rparr>
        else \<lparr>po_reject = None, po_quantity = ap_quantity ap, po_status = FILLED\<rparr>)"

section \<open>Paper orders\<close>

definition paper_request :: "'w execution \<Rightarrow> rat \<Rightarrow> str \<Rightarrow> approved_event \<Rightarrow> order_side \<Rightarrow> market \<Rightarrow> order_request res" where
  "paper_request X now order_id ap side mk =
    res_bind (of_opt ValueError (product_type_of (ap_product_type ap))) (\<lambda>product.
      validate_order_request True
        ((new_request X now order_id (ap_signal_id ap) (ap_risk_decision_id ap) (ap_symbol ap) mk side MARKET (ap_quantity ap)
           product
           [(''take_profit'', opt_json (ap_take_profit ap)), (''paper_trade'', JBool True),
            (''paper_slippage_bps'', JNum (pc_slippage_bps (ex_paper X))),
            (''paper_spread_bps'', JNum (pc_spread_bps (ex_paper X))),
            (''paper_market_open_gap_bps'', JNum (pc_gap_bps (ex_paper X)))])
          \<lparr>oq_limit_price := Some (ap_price_at_signal ap), oq_stop_price := ap_stop_loss ap\<rparr>))"

definition paper_response :: "str \<Rightarrow> approved_event \<Rightarrow> market \<Rightarrow> paper_outcome \<Rightarrow> rat \<Rightarrow> order_response res" where
  "paper_response order_id ap mk out price =
    (let avg = (if 0 < po_quantity out then price else 0) in
     if po_quantity out < 0 \<or> avg < 0 then Inl ValueError
     else Inr \<lparr>op_order_id = order_id, op_broker_order_id = order_id, op_status = po_status out, op_symbol = ap_symbol ap,
       op_market = mk, op_filled_quantity = po_quantity out, op_avg_fill_price = avg,
       op_broker_message = str_or (po_reject out) (order_status_value (po_status out))\<rparr>)"

text \<open>The order row; the result says whether the handler goes on.\<close>

definition record_paper_order :: "'w execution \<Rightarrow> str \<Rightarrow> approved_event \<Rightarrow> order_side \<Rightarrow> market \<Rightarrow> paper_outcome \<Rightarrow> rat
    \<Rightarrow> ('w exec_state, bool) prog" where
  "record_paper_order X order_id ap side mk out price =
    try_catch
      (seq (plain (ex_utc X)) (\<lambda>now.
       seq (of_res (paper_request X now order_id ap side mk)) (\<lambda>q.
       seq (of_res (paper_response order_id ap mk out price)) (\<lambda>r.
       seq (submit X q) (\<lambda>submitted.
         if \<not> fst submitted then ret False
         else seq (record_response X r) (\<lambda>_. ret True))))))
      (\<lambda>_. ret True)"

definition paper_rejection_args :: "'w execution \<Rightarrow> str \<Rightarrow> approved_event \<Rightarrow> str option \<Rightarrow> rejection_args" where
  "paper_rejection_args X order_id ap reason =
    \<lparr>ra_order_id = order_id, ra_signal_id = ap_signal_id ap, ra_risk_decision_id = ap_risk_decision_id ap,
     ra_trace_id = ap_trace_id ap, ra_symbol = ap_symbol ap, ra_market = ap_market ap, ra_direction = ap_direction ap,
     ra_quantity_ordered = py_int (ap_quantity ap), ra_broker_order_id = order_id,
     ra_reject_reason = str_or reason ''PAPER_REJECTED'', ra_strategy_id = ap_strategy_id ap,
     ra_product_type = ap_product_type ap, ra_expires_at = Some (jc_iso (ex_codec X) (ap_expires_at ap)),
     ra_stop_loss = ap_stop_loss ap, ra_take_profit = ap_take_profit ap\<rparr>"

definition fill_event_args :: "'w execution \<Rightarrow> approved_event \<Rightarrow> str \<Rightarrow> rat \<Rightarrow> rat \<Rightarrow> str \<Rightarrow> rat option \<Rightarrow> fill_args" where
  "fill_event_args X ap order_id qty price broker_order_id fill_time =
    \<lparr>fa_order_id = order_id, fa_signal_id = ap_signal_id ap, fa_risk_decision_id = ap_risk_decision_id ap,
     fa_trace_id = ap_trace_id ap, fa_symbol = ap_symbol ap, fa_market = ap_market ap, fa_direction = ap_direction ap,
     fa_quantity_ordered = py_int (ap_quantity ap), fa_quantity_filled = py_int qty, fa_avg_fill_price = price,
     fa_broker_order_id = broker_order_id, fa_fill_time = fill_time, fa_strategy_id = ap_strategy_id ap,
     fa_product_type = ap_product_type ap, fa_expires_at = Some (jc_iso (ex_codec X) (ap_expires_at ap)),
     fa_stop_loss = ap_stop_loss ap, fa_take_profit = ap_take_profit ap, fa_event_type = None\<rparr>"

definition announce_paper_order :: "'w execution \<Rightarrow> str \<Rightarrow> approved_event \<Rightarrow> paper_outcome \<Rightarrow> rat \<Rightarrow> ('w exec_state, unit) prog" where
  "announce_paper_order X order_id ap out price =
    try_catch
      (if po_status out = REJECTED then emit_rejection X (paper_rejection_args X order_id ap (po_reject out))
       else seq (plain (ex_utc X)) (\<lambda>now. emit_fill X (fill_event_args X ap order_id (po_quantity out) price order_id (Some now))))
      (\<lambda>_. ret ())"

definition settle_paper_position :: "'w execution \<Rightarrow> approved_event \<Rightarrow> order_side \<Rightarrow> paper_outcome \<Rightarrow> rat \<Rightarrow> ('w exec_state, unit) prog" where
  "settle_paper_position X ap side out price =
    (if 0 < po_quantity out \<and> po_status out \<noteq> REJECTED then
      seq (apply_fill X (ap_symbol ap) \<lparr>fl_side = side, fl_qty = po_quantity out, fl_price = price, fl_last = price\<rparr>
        (ap_market ap)) (\<lambda>_.
      seq (now_iso X) (\<lambda>now.
      seq (plain (\<lambda>w. attach_exit_policy (ex_manager X) w (ap_symbol ap) (ap_stop_loss ap) (ap_take_profit ap)
        (Some (''POLICY-'' @ ap_signal_id ap)) now)) (\<lambda>_. ret ())))
     else ret ())"

definition handle_paper_order :: "'w execution \<Rightarrow> approved_event \<Rightarrow> order_side \<Rightarrow> market \<Rightarrow> ('w exec_state, unit) prog" where
  "handle_paper_order X ap side mk =
    seq (plain (\<lambda>w. get_order_by_signal (ex_manager X) w (ap_signal_id ap))) (\<lambda>existing.
      case existing of
        Some so \<Rightarrow> ret ()
      | None \<Rightarrow>
         seq (plain (ex_hex X)) (\<lambda>h.
          (let order_id = ''PAPER-'' @ py_upper (take 16 h);
               out = simulate_paper X ap;
               price = paper_fill_price (ex_paper X) ap side
           in seq (record_paper_order X order_id ap side mk out price) (\<lambda>go.
                if \<not> go then ret ()
                else
                  seq (announce_paper_order X order_id ap out price) (\<lambda>_.
                    settle_paper_position X ap side out price)))))"

section \<open>One approved signal\<close>

definition live_call :: "approved_event \<Rightarrow> order_side \<Rightarrow> market \<Rightarrow> product_type \<Rightarrow> exec_call" where
  "live_call ap side mk product =
    \<lparr>xc_signal_id = ap_signal_id ap, xc_risk_decision_id = ap_risk_decision_id ap, xc_symbol = ap_symbol ap, xc_side = side,
     xc_quantity = ap_quantity ap, xc_order_type = MARKET, xc_market = mk, xc_limit_price = Some (ap_price_at_signal ap),
     xc_stop_price = ap_stop_loss ap, xc_product_type = Some product, xc_take_profit = opt_json (ap_take_profit ap),
     xc_expires_at = Some (ap_expires_at ap)\<rparr>"

definition acked_id :: "order_response \<Rightarrow> str" where
  "acked_id r = str_or (Some (op_broker_order_id r)) (op_order_id r)"

definition live_rejection_args :: "'w execution \<Rightarrow> approved_event \<Rightarrow> order_response \<Rightarrow> rejection_args" where
  "live_rejection_args X ap r =
    (paper_rejection_args X (op_order_id r) ap None)
      \<lparr>ra_broker_order_id := acked_id r, ra_reject_reason := op_broker_message r\<rparr>"

definition report_response :: "'w execution \<Rightarrow> approved_event \<Rightarrow> order_side \<Rightarrow> market \<Rightarrow> order_response \<Rightarrow> ('w exec_state, unit) prog" where
  "report_response X ap side mk r =
    (if op_status r \<in> {FILLED, PARTIALLY_FILLED} then
      seq (if 0 < op_filled_quantity r then
             seq (apply_fill X (ap_symbol ap) \<lparr>fl_side = side, fl_qty = op_filled_quantity r, fl_price = op_avg_fill_price r,
               fl_last = op_avg_fill_price r\<rparr> (market_value mk)) (\<lambda>_. ret ())
           else ret ()) (\<lambda>_.
        emit_fill X (fill_event_args X ap (op_order_id r) (op_filled_quantity r) (op_avg_fill_price r) (acked_id r) None))
     else if op_status r = REJECTED then emit_rejection X (live_rejection_args X ap r)
     else ret ())"

definition handle_live_order :: "'w execution \<Rightarrow> approved_event \<Rightarrow> order_side \<Rightarrow> market \<Rightarrow> ('w exec_state, bool) prog" where
  "handle_live_order X ap side mk =
    try_catch
      (seq (of_res (of_opt ValueError (product_type_of (ap_product_type ap)))) (\<lambda>product.
       seq (execute_approved_signal X (live_call ap side mk product)) (\<lambda>r.
       seq (report_response X ap side mk r) (\<lambda>_. ret True))))
      (\<lambda>_. ret False)"

definition handle_approved_signal_event :: "'w execution \<Rightarrow> approved_event \<Rightarrow> ('w exec_state, bool) prog" where
  "handle_approved_signal_event X ap =
    seq (plain (ex_utc X)) (\<lambda>now.
      if ap_expires_at ap < now then ret True
      else
        seq (of_res (of_opt ValueError (order_side_of (py_upper (ap_direction ap))))) (\<lambda>side.
        seq (of_res (of_opt ValueError (market_of (py_upper (ap_market ap))))) (\<lambda>mk.
          if ap_paper_trade ap then
            try_catch (seq (handle_paper_order X ap side mk) (\<lambda>_. ret True)) (\<lambda>_. ret False)
          else handle_live_order X ap side mk)))"

section \<open>The Kafka loop\<close>

definition commit_offset :: "'w execution \<Rightarrow> kmsg \<Rightarrow> ('w exec_state, unit) prog" where
  "commit_offset X msg = world (\<lambda>w. kc_commit (ex_consumer X) w msg)"

definition event_details :: "'w execution \<Rightarrow> approved_event \<Rightarrow> meta" where
  "event_details X ap =
    [(''signal_id'', JStr (ap_signal_id ap)), (''risk_decision_id'', JStr (ap_risk_decision_id ap)),
     (''raw_topic'', JStr (km_topic (ap_message ap))), (''raw_offset'', JNum (of_int (km_offset (ap_message ap))))]"

definition route_retry :: "'w execution \<Rightarrow> approved_event \<Rightarrow> ('w exec_state, bool) prog" where
  "route_retry X ap =
    seq (plain (ex_uuid X)) (\<lambda>event_id. stamped X (\<lambda>now w.
      event_to_retry (ex_consumer X) event_id now ''execution_processing_failed'' (event_details X ap) (ap_message ap) w))"

definition route_dlq :: "'w execution \<Rightarrow> approved_event \<Rightarrow> ('w exec_state, bool) prog" where
  "route_dlq X ap =
    seq (plain (ex_uuid X)) (\<lambda>event_id. stamped X (\<lambda>now w.
      event_to_dlq (ex_consumer X) event_id now ''stale_approved_signal'' (event_details X ap) (ap_message ap) w))"

definition commit_if :: "'w execution \<Rightarrow> approved_event \<Rightarrow> bool \<Rightarrow> ('w exec_state, bool) prog" where
  "commit_if X ap routed = (if routed then seq (commit_offset X (ap_message ap)) (\<lambda>_. ret True) else ret False)"

text \<open>The body of the inner \<open>try\<close>; the result says whether the offset was committed.\<close>

definition process_approved :: "'w execution \<Rightarrow> approved_event \<Rightarrow> ('w exec_state, bool) prog" where
  "process_approved X ap =
    seq (plain (ex_utc X)) (\<lambda>now.
      if ap_expires_at ap < now then seq (route_dlq X ap) (commit_if X ap)
      else
        seq (handle_approved_signal_event X ap) (\<lambda>handled.
          if handled then commit_if X ap True else seq (route_retry X ap) (commit_if X ap)))"

definition process_or_retry :: "'w execution \<Rightarrow> approved_event \<Rightarrow> ('w exec_state, bool) prog" where
  "process_or_retry X ap =
    try_catch (process_approved X ap)
      (\<lambda>e. seq (route_retry X ap) (\<lambda>routed. if routed then commit_if X ap True else throw e))"

definition poll_event :: "'w execution \<Rightarrow> kmsg option \<Rightarrow> ('w exec_state, approved_event option) prog" where
  "poll_event X msg =
    (case msg of
       None \<Rightarrow> ret None
     | Some msg \<Rightarrow>
        seq (plain (ex_uuid X)) (\<lambda>event_id. stamped X (\<lambda>now. poll_approved (ex_consumer X) event_id now msg)))"

text \<open>The gate of the placement pause: the iteration goes on when it answers True.\<close>

definition pause_gate :: "'w execution \<Rightarrow> ('w exec_state, bool) prog" where
  "pause_gate X =
    seq (read es_paused) (\<lambda>paused.
      if \<not> paused then ret True
      else
        seq (plain (ex_mono X)) (\<lambda>now.
        seq (read (\<lambda>s. es_paused_until s \<le> now)) (\<lambda>over.
          if over then seq (modify (\<lambda>s. s\<lparr>es_paused := False, es_failures := 0\<rparr>)) (\<lambda>_. ret True)
          else ret False)))"

text \<open>\<open>msg\<close> is what the client's \<open>poll\<close> would return in this iteration.\<close>

definition loop_iteration :: "'w execution \<Rightarrow> kmsg option \<Rightarrow> ('w exec_state, bool) prog" where
  "loop_iteration X msg =
    seq (pause_gate X) (\<lambda>go.
      if \<not> go then ret False
      else
        try_catch
          (seq (poll_event X msg) (\<lambda>ap. case ap of None \<Rightarrow> ret False | Some ap \<Rightarrow> process_or_retry X ap))
          (\<lambda>_. ret False))"

section \<open>The kill-switch topic\<close>

datatype switch_event = SwitchActive str | SwitchCleared | SwitchInvalid

text \<open>\<open>_poll_once\<close> on the body of a record without broker error; a body that is no object has no \<open>get\<close>.\<close>

definition classify_switch :: "codec \<Rightarrow> str \<Rightarrow> switch_event" where
  "classify_switch c payload =
    (case jc_loads c payload of
       Some (JObj body) \<Rightarrow>
         (case map_of body ''event_type'' of
            Some (JStr t) \<Rightarrow>
              if t \<noteq> event_type_value KILL_SWITCH_ACTIVE \<and> t \<noteq> event_type_value KILL_SWITCH_CLEARED then SwitchInvalid
              else if validate_event body t \<noteq> [] then SwitchInvalid
              else if t = event_type_value KILL_SWITCH_CLEARED then SwitchCleared
              else SwitchActive (case map_of body ''reason'' of None \<Rightarrow> ''Kill switch event received'' | Some j \<Rightarrow> jc_str c j)
          | _ \<Rightarrow> SwitchInvalid)
     | _ \<Rightarrow> SwitchInvalid)"

definition invalid_switch :: "'w execution \<Rightarrow> kmsg \<Rightarrow> ('w exec_state, unit) prog" where
  "invalid_switch X msg =
    seq (plain (ex_uuid X)) (\<lambda>event_id.
    seq (stamped X (\<lambda>now w. message_to_dlq (ex_consumer X) event_id now ''execution_kill_switch_event_invalid'' msg w)) (\<lambda>routed.
      if routed then commit_offset X msg else ret ()))"

definition listen_iteration :: "'w execution \<Rightarrow> kmsg \<Rightarrow> ('w exec_state, unit) prog" where
  "listen_iteration X msg =
    try_catch
      (case classify_switch (ex_codec X) (km_value msg) of
         SwitchInvalid \<Rightarrow> invalid_switch X msg
       | SwitchActive reason \<Rightarrow> seq (handle_kill_switch_activation X reason) (\<lambda>_. commit_offset X msg)
       | SwitchCleared \<Rightarrow> seq handle_kill_switch_clear (\<lambda>_. commit_offset X msg))
      (\<lambda>_. ret ())"

end
