(* ===== verification/ManagerFrame.thy ===== *)
theory ManagerFrame
  imports OrderSafety
begin

text \<open>
  Worlds under the order manager.  If each call of the DynamoDB client moves the world along a preorder,
  so does each operation of \<open>OrderManager\<close>.  Clients whose state includes more than the tables (a broker,
  say) use these rules to show what an operation leaves alone.
\<close>

definition client_moves :: "('w \<Rightarrow> 'w \<Rightarrow> bool) \<Rightarrow> 'w dynamo \<Rightarrow> bool" where
  "client_moves V D \<longleftrightarrow>
    (\<forall>w tbl k. V w (snd (dy_get D w tbl k))) \<and> (\<forall>w tbl k i c. V w (snd (dy_put D w tbl k i c))) \<and>
    (\<forall>w tbl k us c. V w (snd (dy_update D w tbl k us c))) \<and> (\<forall>w ps. V w (snd (dy_transact D w ps))) \<and>
    (\<forall>w tbl ix eqs st. V w (snd (dy_query D w tbl ix eqs st))) \<and> (\<forall>w tbl p st. V w (snd (dy_scan D w tbl p st)))"

locale manager_frame =
  fixes V :: "'w \<Rightarrow> 'w \<Rightarrow> bool"
    and m :: "'w order_manager"
  assumes V_refl: "V w w"
    and V_trans: "V u v \<Longrightarrow> V v w \<Longrightarrow> V u w"
    and moves: "om_dynamo m = Some D \<Longrightarrow> client_moves V D"
begin

lemma calls:
  assumes "om_dynamo m = Some D"
  shows "dy_get D w tbl k = (r1, w') \<Longrightarrow> V w w'" "dy_put D w tbl k i c = (r2, w') \<Longrightarrow> V w w'"
    "dy_update D w tbl k us c = (r3, w') \<Longrightarrow> V w w'" "dy_transact D w ps = (r2, w') \<Longrightarrow> V w w'"
    "dy_query D w tbl ix eqs st = (r5, w') \<Longrightarrow> V w w'"
  using moves [OF assms] unfolding client_moves_def by (metis snd_conv)+

lemma submit_order_moves: "submit_order m w q n1 n2 = (r, q', w') \<Longrightarrow> V w w'"
  by (auto simp: submit_order_def Let_def V_refl dest: calls split: option.splits sum.splits prod.splits exn.splits)

lemma submit_child_order_moves: "submit_child_order m w q p pt n = (r, q', w') \<Longrightarrow> V w w'"
  by (auto simp: submit_child_order_def Let_def V_refl dest: calls split: option.splits sum.splits prod.splits exn.splits)

lemma get_order_moves: "get_order m w i = (r, w') \<Longrightarrow> V w w'"
  by (auto simp: get_order_def V_refl dest: calls split: option.splits sum.splits prod.splits)

lemma get_stored_order_moves: "get_stored_order m w i = (r, w') \<Longrightarrow> V w w'"
  by (auto simp: get_stored_order_def dest: get_order_moves split: option.splits prod.splits)

lemma get_order_by_signal_moves: "get_order_by_signal m w i = (r, w') \<Longrightarrow> V w w'"
  by (auto simp: get_order_by_signal_def V_refl dest: calls split: option.splits sum.splits prod.splits list.splits)

lemma query_all_moves:
  assumes "om_dynamo m = Some D"
  shows "query_all n D tbl ix eqs w st coll = Some (r, w') \<Longrightarrow> V w w'"
proof (induction n arbitrary: w st coll)
  case (Suc n)
  obtain q w1 where q: "dy_query D w tbl ix eqs st = (q, w1)" by fastforce
  note step = calls(5) [OF assms q]
  show ?case
    using Suc.prems q step V_trans [OF step Suc.IH] by (auto split: sum.splits prod.splits option.splits)
qed simp

lemma query_buckets_moves:
  assumes "om_dynamo m = Some D"
  shows "query_buckets n D tbl sts w = Some (r, w') \<Longrightarrow> V w w'"
proof (induction sts arbitrary: w r)
  case Nil
  then show ?case by (simp add: V_refl)
next
  case (Cons st sts)
  then obtain p w1 items where p: "query_pages n D tbl (order_status_value st) w None [] = Some (p, w1)"
    and rest: "query_buckets n D tbl sts w1 = Some (items, w')"
    by (auto split: option.splits)
  show ?case
    using V_trans [OF query_all_moves [OF assms] Cons.IH [OF rest]] p by (simp add: query_pages_def)
qed

lemma get_open_orders_moves: "get_open_orders n m w = Some (r, w') \<Longrightarrow> V w w'"
  by (auto simp: get_open_orders_def V_refl split: option.splits dest: query_buckets_moves)

lemma previous_status_moves: "previous_status m w a = (r, w') \<Longrightarrow> V w w'"
  by (auto simp: previous_status_def V_refl split: option.splits prod.splits dest: get_order_moves)

lemma transition_moves:
  assumes "transition_order_status m w a now = (r, w')"
  shows "V w w'"
proof -
  obtain p w1 where p: "previous_status m w a = (p, w1)" by fastforce
  note one = previous_status_moves [OF p]
  show ?thesis
  proof (cases "w' = w1")
    case False
    then obtain D prev u w2 where u: "om_dynamo m = Some D" "p = Some prev"
        "dy_update D w1 (om_orders_table m) (order_key (tn_order_id a)) (transition_updates a now)
           (AttrEq ''order_status'' (S (order_status_value prev))) = (u, w2)"
      using assms p by (fastforce simp: transition_order_status_def split: option.splits if_splits prod.splits)
    note two = V_trans [OF one calls(3) [OF u(1,3)]]
    show ?thesis
    proof (cases "w' = w2")
      case False
      then have "\<exists>x. get_stored_order m w2 (tn_order_id a) = (x, w')"
        using assms p u \<open>w' \<noteq> w1\<close>
        by (auto simp: transition_order_status_def split: if_splits sum.splits exn.splits option.splits prod.splits)
      then show ?thesis
        using two V_trans get_stored_order_moves by blast
    qed (use two in simp)
  qed (use one in simp)
qed

lemma update_order_status_moves: "update_order_status m w i st q a msg n = (r, w') \<Longrightarrow> V w w'"
  unfolding update_order_status_def by (rule transition_moves)

lemma mark_ack_unknown_moves: "mark_order_ack_unknown m w i msg n = (r, w') \<Longrightarrow> V w w'"
  unfolding mark_order_ack_unknown_def by (rule transition_moves)

lemma record_order_moves: "record_order m w rsp n = (r, w') \<Longrightarrow> V w w'"
  by (auto simp: record_order_def V_refl dest: transition_moves split: option.splits sum.splits prod.splits if_splits)

lemma mark_protection_failed_moves: "mark_protection_failed m w i why f1 f2 n = (r, w') \<Longrightarrow> V w w'"
  by (auto simp: mark_protection_failed_def V_refl dest: calls split: option.splits prod.splits)

lemma link_protective_child_moves: "link_protective_child m w i c cb pt q n = (r, w') \<Longrightarrow> V w w'"
  by (auto simp: link_protective_child_def V_refl dest: calls split: option.splits prod.splits)

lemma write_nav_moves: "V w (write_nav_snapshot m w sd q p now)"
proof (cases "om_dynamo m")
  case (Some D)
  obtain g w1 where g: "dy_get D w (om_risk_state_table m) nav_key = (g, w1)" by fastforce
  have "V w1 (snd (dy_update D w1 (om_risk_state_table m) nav_key us NoCond))" for us
    using calls(3) [OF Some] surjective_pairing by blast
  then show ?thesis
    using Some g V_trans [OF calls(1) [OF Some g]] calls(1) [OF Some g] V_refl
    by (auto simp: write_nav_snapshot_def Let_def split: sum.splits)
qed (simp add: write_nav_snapshot_def V_refl)

lemma fill_attempts_moves:
  assumes "om_dynamo m = Some D"
  shows "fill_attempts D tbl symbol nse f ts w = (r, w') \<Longrightarrow> V w w'"
proof (induction ts arbitrary: w)
  case Nil
  then show ?case by (simp add: V_refl)
next
  case (Cons now later)
  obtain g w1 where g: "dy_get D w tbl (position_key symbol) = (g, w1)" by fastforce
  note one = calls(1) [OF assms g]
  show ?case
  proof (cases g)
    case (Inl e)
    then show ?thesis using Cons.prems g one by simp
  next
    case (Inr row)
    obtain u w2 where u: "dy_update D w1 tbl (position_key symbol)
        (fill_updates symbol nse now (fill_position (read_position (read_row row)) f) (fl_last f))
        (fill_condition (read_row row)) = (u, w2)"
      by fastforce
    note two = V_trans [OF one calls(3) [OF assms u]]
    have "w' = w2 \<or> fill_attempts D tbl symbol nse f later w2 = (r, w')"
      using Cons.prems g Inr u by (auto simp: Let_def split: sum.splits exn.splits if_splits)
    then show ?thesis
      using two V_trans [OF two Cons.IH] by blast
  qed
qed

lemma apply_fill_moves: "apply_fill_to_position m w symbol f mk ts now = (r, w') \<Longrightarrow> V w w'"
proof (cases "om_dynamo m")
  case (Some D)
  assume run: "apply_fill_to_position m w symbol f mk ts now = (r, w')"
  obtain t1 t2 t3 where ts: "ts = (t1, t2, t3)" by (metis prod_cases3)
  obtain x w1 where x: "fill_attempts D (om_positions_table m) symbol (mk = Some ''NSE'') f [t1, t2, t3] w = (x, w1)"
    by fastforce
  note one = fill_attempts_moves [OF Some x]
  show ?thesis
    using run Some ts x one V_trans [OF one write_nav_moves]
    by (cases x) (auto simp: apply_fill_to_position_def simp del: fill_attempts.simps)
qed (simp add: apply_fill_to_position_def V_refl)

lemma attach_exit_policy_moves: "attach_exit_policy m w symbol sp tp pid now = (r, w') \<Longrightarrow> V w w'"
  by (auto simp: attach_exit_policy_def V_refl Let_def dest: calls split: option.splits sum.splits prod.splits)

end

end
