(* ===== verification/ExecutionFrame.thy ===== *)
theory ExecutionFrame
  imports ExecutionLoop ManagerFrame
begin

text \<open>
  Frames of the execution service: a relation that the calls of the environment keep, and that the broker
  placements and cancellations keep as wholes, is kept by every entry point of the service.
\<close>

section \<open>Environment\<close>

definition producer_moves :: "('w \<Rightarrow> 'w \<Rightarrow> bool) \<Rightarrow> 'w producer option \<Rightarrow> bool" where
  "producer_moves V p \<longleftrightarrow> (\<forall>P w t k v h. p = Some P \<longrightarrow> V w (snd (pr_produce P w t k v h)))"

definition reads_move :: "('w \<Rightarrow> 'w \<Rightarrow> bool) \<Rightarrow> 'w broker \<Rightarrow> bool" where
  "reads_move V b \<longleftrightarrow> (\<forall>w k q. V w (snd (br_find b w k q))) \<and> (\<forall>w i. V w (snd (br_status b w i)))"

text \<open>Every call the service makes, other than the placement and the cancellation of a broker order.\<close>

definition env_moves :: "('w \<Rightarrow> 'w \<Rightarrow> bool) \<Rightarrow> 'w execution \<Rightarrow> bool" where
  "env_moves V X \<longleftrightarrow>
    reflp V \<and> transp V \<and>
    (\<forall>D. om_dynamo (ex_manager X) = Some D \<longrightarrow> client_moves V D) \<and>
    (\<forall>D. ex_dynamo X = Some D \<longrightarrow> client_moves V D) \<and>
    producer_moves V (oe_producer (ex_publisher X)) \<and>
    (\<forall>fp. kc_failure (ex_consumer X) = Some fp \<longrightarrow> producer_moves V (fp_producer fp)) \<and>
    (\<forall>w msg. V w (snd (kc_commit (ex_consumer X) w msg))) \<and>
    (\<forall>p e w. V w (snd (ex_acquire X p e w))) \<and>
    (\<forall>w. V w (snd (ex_utc X w)) \<and> V w (snd (ex_mono X w)) \<and> V w (snd (ex_hex X w)) \<and> V w (snd (ex_uuid X w))) \<and>
    (\<forall>w. V w (snd (rh_mono (ex_retry X) w))) \<and> (\<forall>d w. V w (rh_sleep (ex_retry X) d w)) \<and>
    reads_move V (ex_zerodha X) \<and> reads_move V (ex_alpaca X)"

lemma env_movesD:
  assumes "env_moves V X"
  shows "V w w"
    "om_dynamo (ex_manager X) = Some D \<Longrightarrow> client_moves V D" "ex_dynamo X = Some D \<Longrightarrow> client_moves V D"
    "producer_moves V (oe_producer (ex_publisher X))"
    "kc_failure (ex_consumer X) = Some fp \<Longrightarrow> producer_moves V (fp_producer fp)"
    "V w (snd (kc_commit (ex_consumer X) w msg))" "V w (snd (ex_acquire X p e w))"
    "V w (snd (ex_utc X w))" "V w (snd (ex_mono X w))" "V w (snd (ex_hex X w))" "V w (snd (ex_uuid X w))"
    "V w (snd (rh_mono (ex_retry X) w))" "V w (rh_sleep (ex_retry X) d w)"
    "reads_move V (get_broker X mk)"
  using assms unfolding env_moves_def
  by (simp_all add: reflpD get_broker_def split: market.split)

lemma env_moves_trans: "env_moves V X \<Longrightarrow> V u v \<Longrightarrow> V v w \<Longrightarrow> V u w"
  unfolding env_moves_def by (meson transpD)

section \<open>Kept relations\<close>

locale exec_base = frame Q for Q :: "'w exec_state \<Rightarrow> 'w exec_state \<Rightarrow> bool" +
  fixes V :: "'w \<Rightarrow> 'w \<Rightarrow> bool"
    and X :: "'w execution"
  assumes env: "env_moves V X"
    and world_ok: "V (es_world s) w \<Longrightarrow> Q s (s\<lparr>es_world := w\<rparr>)"
    and control_ok: "es_world t = es_world s \<Longrightarrow> (es_ks_active s \<longrightarrow> es_ks_active t) \<Longrightarrow> Q s t"
begin

declare keeps_rules [keeps_intros]

lemmas base_rules = keeps_rules

end

sublocale exec_base \<subseteq> om: manager_frame V "ex_manager X"
  by unfold_locales (use env_movesD(1,2) [OF env] env_moves_trans [OF env] in blast)+

context exec_base
begin

lemma keeps_world: "(\<And>w r w'. f w = (r, w') \<Longrightarrow> V w w') \<Longrightarrow> keeps Q (world f)"
  by (rule keepsI) (auto simp: world_def world_ok split: prod.splits)

lemma keeps_plain: "(\<And>w r w'. f w = (r, w') \<Longrightarrow> V w w') \<Longrightarrow> keeps Q (plain f)"
  unfolding plain_def by (rule keeps_world) (auto split: prod.splits)

lemma keeps_control:
  "(\<And>s. es_world (f s) = es_world s \<and> (es_ks_active s \<longrightarrow> es_ks_active (f s))) \<Longrightarrow> keeps Q (modify f)"
  by (rule keeps_modify) (simp add: control_ok)

lemma snd_moves: "f w = (r, w') \<Longrightarrow> V w (snd (f w)) \<Longrightarrow> V w w'"
  by simp

lemma clocks [keeps_intros]:
  "keeps Q (plain (ex_utc X))" "keeps Q (plain (ex_mono X))" "keeps Q (plain (ex_hex X))" "keeps Q (plain (ex_uuid X))"
  by (rule keeps_plain, erule snd_moves, rule env_movesD [OF env])+

lemma tokens [keeps_intros]: "keeps Q (world (ex_acquire X p e))"
  by (rule keeps_world, erule snd_moves, rule env_movesD [OF env])

lemma finds [keeps_intros]:
  "keeps Q (world (\<lambda>w. br_find (get_broker X mk) w i q))" "keeps Q (world (\<lambda>w. br_status (get_broker X mk) w i))"
  using env_movesD(14) [OF env, of mk] by (auto simp: reads_move_def intro!: keeps_world elim: snd_moves)

lemma commits [keeps_intros]: "keeps Q (commit_offset X msg)"
  unfolding commit_offset_def by (rule keeps_world, erule snd_moves, rule env_movesD [OF env])

lemma iso [keeps_intros]: "keeps Q (now_iso X)"
  unfolding now_iso_def by (intro keeps_intros)

lemma stamps [keeps_intros]:
  assumes "\<And>now w r w'. f now w = (r, w') \<Longrightarrow> V w w'"
  shows "keeps Q (stamped X f)"
  unfolding stamped_def by (intro keeps_intros keeps_world) (rule assms)

lemma manager_calls [keeps_intros]:
  "keeps Q (set_status X i st qty avg msg)" "keeps Q (record_response X r)"
  "keeps Q (stamped X (\<lambda>now w. mark_order_ack_unknown (ex_manager X) w i msg now))"
  "keeps Q (stamped X (\<lambda>now w. mark_protection_failed (ex_manager X) w i why f1 f2 now))"
  "keeps Q (stamped X (\<lambda>now w. link_protective_child (ex_manager X) w i c cb pt q now))"
  "keeps Q (world (\<lambda>w. get_stored_order (ex_manager X) w i))"
  "keeps Q (plain (\<lambda>w. get_order_by_signal (ex_manager X) w i))"
  "keeps Q (plain (\<lambda>w. attach_exit_policy (ex_manager X) w sy sp tp pid now))"
  by (rule stamps keeps_world keeps_plain, erule om.update_order_status_moves om.record_order_moves
      om.mark_ack_unknown_moves om.mark_protection_failed_moves om.link_protective_child_moves
      om.get_stored_order_moves om.get_order_by_signal_moves om.attach_exit_policy_moves)+

lemma submits [keeps_intros]: "keeps Q (submit X q)" "keeps Q (submit_child X q p pt)"
  unfolding submit_def submit_child_def
  by (intro keeps_intros keeps_world stamps; auto simp: with_request_def split: prod.splits
      dest: om.submit_order_moves om.submit_child_order_moves)+

lemma fills [keeps_intros]: "keeps Q (apply_fill X sy f mk)"
  unfolding apply_fill_def by (intro keeps_intros keeps_plain) (erule om.apply_fill_moves)

lemma produce_moves:
  "produce_order_event (ex_publisher X) i event (n, w) = (r, n', w') \<Longrightarrow> V w w'"
  using env_movesD(4) [OF env] env_movesD(1) [OF env]
  by (auto simp: produce_order_event_def producer_moves_def split: option.splits sum.splits prod.splits if_splits)
    (metis snd_conv)+

lemma emits [keeps_intros]: "keeps Q (emit_fill X a)" "keeps Q (emit_rejection X ra)"
proof -
  have q: "Q s (s\<lparr>es_pending := n, es_world := w\<rparr>)" if "V (es_world s) w" for s n w
    using Q_trans [OF control_ok [of "s\<lparr>es_pending := n\<rparr>" s] world_ok [of "s\<lparr>es_pending := n\<rparr>" w]] that by simp
  have "keeps Q (\<lambda>s. case publish_fill (ex_publisher X) e f t a (es_pending s, es_world s) of
      (r, n, w) \<Rightarrow> Some (r, s\<lparr>es_pending := n, es_world := w\<rparr>))" for e f t
    by (rule keepsI)
      (auto simp: publish_fill_def Q_refl intro!: q env_movesD(1) [OF env] dest: produce_moves split: prod.splits sum.splits)
  then show "keeps Q (emit_fill X a)"
    unfolding emit_fill_def by (intro keeps_intros)
  have "keeps Q (\<lambda>s. case publish_rejection (ex_publisher X) e f t ra (es_pending s, es_world s) of
      (r, n, w) \<Rightarrow> Some (r, s\<lparr>es_pending := n, es_world := w\<rparr>))" for e f t
    by (rule keepsI) (auto simp: publish_rejection_produces intro!: q dest: produce_moves split: prod.splits)
  then show "keeps Q (emit_rejection X ra)"
    unfolding emit_rejection_def by (intro keeps_intros)
qed

lemma opens [keeps_intros]: "keeps Q (open_orders X)"
  by (rule keepsI) (auto simp: open_orders_def world_ok om.get_open_orders_moves split: option.splits prod.splits)

lemma controls [keeps_intros]:
  "keeps Q (modify (\<lambda>s. s\<lparr>es_failures := n\<rparr>))" "keeps Q (modify (\<lambda>s. s\<lparr>es_ks_checked_at := t\<rparr>))"
  "keeps Q (modify (\<lambda>s. s\<lparr>es_ks_active := True, es_ks_reason := g s\<rparr>))" "keeps Q (modify (\<lambda>s. s\<lparr>es_ks_reason := g s\<rparr>))"
  "keeps Q (modify (\<lambda>s. s\<lparr>es_paused := p, es_failures := n\<rparr>))"
  by (rule keeps_control, simp)+

section \<open>Kill switch\<close>

lemma recovery [keeps_intros]: "keeps Q (recover_ack_unknown_order X (get_broker X mk) q)"
  unfolding recover_ack_unknown_order_def by (intro keeps_intros)

text \<open>When the brokers' own calls keep the relation, so do the placement and the cancellation.\<close>

lemma place_kept:
  assumes "\<And>w q. V w (snd (br_place (get_broker X mk) w q))"
  shows "keeps Q (place_idempotent X (get_broker X mk) q mk allow reason)"
proof -
  have "keeps Q (world (\<lambda>w. br_place (get_broker X mk) w q))" for q
    by (rule keeps_world, erule snd_moves) (rule assms)
  moreover have "keeps Q (record_placement_failure X mk)"
    unfolding record_placement_failure_def by (intro keeps_intros keeps_control) simp_all
  ultimately show ?thesis
    unfolding place_idempotent_def send_order_def by (intro keeps_intros) simp_all
qed

lemma cancel_kept:
  assumes "\<And>w. V w (snd (br_cancel (get_broker X mk) w i))"
  shows "keeps Q (retrying X (\<lambda>w. br_cancel (get_broker X mk) w i))"
proof (rule keepsI)
  fix s r t
  assume run: "retrying X (\<lambda>w. br_cancel (get_broker X mk) w i) s = Some (r, t)"
  obtain c w where e: "execute_with_retry (ex_retry X) (\<lambda>w. br_cancel (get_broker X mk) w i) (es_circuit s, es_world s) = (r, c, w)"
    using run by (auto simp: retrying_def split: prod.splits)
  have "V (es_world s) w"
  proof (rule execute_le [where Q = V, OF _ _ _ _ _ e])
    show "V u v \<Longrightarrow> V v w \<Longrightarrow> V u w" for u v w
      by (rule env_moves_trans [OF env])
  qed (rule env_movesD [OF env] assms)+
  then have "Q (s\<lparr>es_circuit := c\<rparr>) (s\<lparr>es_circuit := c, es_world := w\<rparr>)"
    using world_ok [of "s\<lparr>es_circuit := c\<rparr>" w] by simp
  moreover have "Q s (s\<lparr>es_circuit := c\<rparr>)"
    by (rule control_ok) simp_all
  ultimately have "Q s (s\<lparr>es_circuit := c, es_world := w\<rparr>)"
    using Q_trans by blast
  then show "Q s t"
    using run e by (simp add: retrying_def)
qed

end

locale exec_frame = exec_base +
  assumes place_ok: "keeps Q (place_idempotent X (get_broker X mk) q mk allow reason)"
    and cancel_ok: "keeps Q (retrying X (\<lambda>w. br_cancel (get_broker X mk) w i))"
begin

declare place_ok [keeps_intros] cancel_ok [keeps_intros]

lemma cancel_one [keeps_intros]: "keeps Q (cancel_one_open_order X so reason)"
  unfolding cancel_one_open_order_def by (intro keeps_intros)

lemma cancel_all [keeps_intros]: "keeps Q (cancel_open_orders X reason)"
  unfolding cancel_open_orders_def by (intro keeps_intros)

lemma activation [keeps_intros]: "keeps Q (handle_kill_switch_activation X reason)"
  unfolding handle_kill_switch_activation_def by (intro keeps_intros)

lemma durable [keeps_intros]: "ex_dynamo X = Some D \<Longrightarrow> keeps Q (durable_row X D)"
  using env_movesD(3) [OF env] unfolding durable_row_def client_moves_def
  by (intro keeps_intros keeps_world) (metis snd_conv)

lemma refreshes [keeps_intros]: "keeps Q (refresh_kill_switch X force cancel)"
  unfolding refresh_kill_switch_def by (intro keeps_intros)

lemma poll_rounds [keeps_intros]: "keeps Q (kill_switch_poll_round X)" "keeps Q (handle_position_drift X sy bq dq)"
  unfolding kill_switch_poll_round_def handle_position_drift_def by (intro keeps_intros)+

section \<open>Orders\<close>

lemma flattens [keeps_intros]: "keeps Q (place_emergency_flatten X p entry qty fill_id)"
  unfolding place_emergency_flatten_def by (intro keeps_intros)

lemma failures [keeps_intros]: "keeps Q (handle_protective_stop_failure X p entry c qty fill_id e)"
  unfolding handle_protective_stop_failure_def by (intro keeps_intros)

lemma children [keeps_intros]: "keeps Q (place_child X p entry qty fill_id q)"
  unfolding place_child_def by (intro keeps_intros)

lemma protections [keeps_intros]: "keeps Q (maybe_place_protective_stop X p entry qty fill_id)"
  unfolding maybe_place_protective_stop_def by (intro keeps_intros)

lemma settles [keeps_intros]: "keeps Q (settle X q r)"
  unfolding settle_def by (intro keeps_intros)

lemma dispatches [keeps_intros]: "keeps Q (dispatch_signal X c)"
  unfolding dispatch_signal_def submit_first_def retry_pending_def resume_unknown_def generate_order_id_def
  by (intro keeps_intros)

lemma executes [keeps_intros]: "keeps Q (execute_approved_signal X c)"
  unfolding execute_approved_signal_def check_expiry_def universe_step_def by (intro keeps_intros)

lemma reconciles [keeps_intros]: "keeps Q (reconcile_order X so)"
  unfolding reconcile_order_def reconcile_unknown_def reconcile_pending_def place_pending_protective_def
    reconcile_placed_def apply_status_fill_def
  by (intro keeps_intros)

lemma start_up [keeps_intros]: "keeps Q (reconcile_state X)"
  unfolding reconcile_state_def by (intro keeps_intros)

section \<open>Events\<close>

lemma papers [keeps_intros]: "keeps Q (handle_paper_order X ap sd mk)"
  unfolding handle_paper_order_def record_paper_order_def announce_paper_order_def settle_paper_position_def
  by (intro keeps_intros)

lemma handles [keeps_intros]: "keeps Q (handle_approved_signal_event X ap)"
  unfolding handle_approved_signal_event_def handle_live_order_def report_response_def by (intro keeps_intros)

lemma fp_publish_moves:
  assumes "kc_failure (ex_consumer X) = Some fp"
  shows "fp_publish fp e n t st k v why et d w = (r, w') \<Longrightarrow> V w w'"
  using env_movesD(5) [OF env assms] env_movesD(1) [OF env]
  by (auto simp: fp_publish_def producer_moves_def split: option.splits sum.splits prod.splits exn.splits) (metis snd_conv)+

lemma route_moves:
  "event_to_retry (ex_consumer X) e n et d msg w = (r, w') \<Longrightarrow> V w w'"
  "event_to_dlq (ex_consumer X) e n et d msg w = (r, w') \<Longrightarrow> V w w'"
  "message_to_dlq (ex_consumer X) e n et msg w = (r, w') \<Longrightarrow> V w w'"
  using env_movesD(1) [OF env]
  by (auto simp: event_to_retry_def event_to_dlq_def message_to_dlq_def publish_retry_def publish_dlq_def Let_def
      dest: fp_publish_moves split: option.splits if_splits)

lemma dead_moves:
  assumes "(case message_to_dlq (ex_consumer X) e n et msg w of
      (Inl x, w) \<Rightarrow> (Inl x, w)
    | (Inr False, w) \<Rightarrow> (Inr None, w)
    | (Inr True, w) \<Rightarrow> (case kc_commit (ex_consumer X) w msg of (Inl x, w) \<Rightarrow> (Inl x, w) | (Inr _, w) \<Rightarrow> (Inr None, w))) = (r, w')"
  shows "V w w'"
proof -
  obtain b w1 where b: "message_to_dlq (ex_consumer X) e n et msg w = (b, w1)" by fastforce
  note one = route_moves(3) [OF b]
  obtain c w2 where c: "kc_commit (ex_consumer X) w1 msg = (c, w2)" by fastforce
  have "V w w2"
    using env_moves_trans [OF env one] env_movesD(6) [OF env, of w1 msg] c by simp
  then show ?thesis
    using assms b c one by (auto split: sum.splits bool.splits)
qed

lemma poll_moves: "poll_approved (ex_consumer X) e n msg w = (r, w') \<Longrightarrow> V w w'"
  using env_movesD(1) [OF env]
  by (auto simp: poll_approved_def poll_parsed_def Let_def split: sum.splits parsed.splits if_splits elim: dead_moves)

lemma routes [keeps_intros]: "keeps Q (route_retry X ap)" "keeps Q (route_dlq X ap)"
  unfolding route_retry_def route_dlq_def by (intro keeps_intros, erule route_moves)+

lemma polls [keeps_intros]: "keeps Q (poll_event X msg)"
  unfolding poll_event_def by (intro keeps_intros) (erule poll_moves)

lemma gates [keeps_intros]: "keeps Q (pause_gate X)"
  unfolding pause_gate_def by (intro keeps_intros)

lemma iterations [keeps_intros]: "keeps Q (loop_iteration X msg)"
  unfolding loop_iteration_def process_or_retry_def process_approved_def commit_if_def by (intro keeps_intros)

end

end
