(* ===== verification/MarketPhases.thy ===== *)
theory MarketPhases
  imports RateLimiter
begin

text \<open>
  \<open>services/shared/zerodha/market_phase.py\<close>: the phases of the exchange's day, the schedule, the advisory
  budget and the governor that tells its listeners of a change.  A time of day is its number of seconds.
\<close>

section \<open>Phases\<close>

datatype market_phase = PRE_OPEN | PRE_AUCTION | MARKET_OPEN | NORMAL_SESSION | PRE_CLOSE | CLOSING | POST_CLOSE

fun market_phase_value :: "market_phase \<Rightarrow> str" where
  "market_phase_value PRE_OPEN = ''PRE_OPEN''"
| "market_phase_value PRE_AUCTION = ''PRE_AUCTION''"
| "market_phase_value MARKET_OPEN = ''MARKET_OPEN''"
| "market_phase_value NORMAL_SESSION = ''NORMAL''"
| "market_phase_value PRE_CLOSE = ''PRE_CLOSE''"
| "market_phase_value CLOSING = ''CLOSING''"
| "market_phase_value POST_CLOSE = ''POST_CLOSE''"

definition market_phases :: "market_phase list" where
  "market_phases = [PRE_OPEN, PRE_AUCTION, MARKET_OPEN, NORMAL_SESSION, PRE_CLOSE, CLOSING, POST_CLOSE]"

interpretation phase_enum: str_enum market_phase_value market_phases
proof
  show "x = y" if "market_phase_value x = market_phase_value y" for x y
    using that by (cases x; cases y) simp_all
  show "x \<in> set market_phases" for x
    by (cases x) (simp_all add: market_phases_def)
qed

definition market_phase_of :: "str \<Rightarrow> market_phase option" where
  "market_phase_of s = enum_of market_phase_value market_phases s"

definition clock :: "int \<Rightarrow> int \<Rightarrow> rat" where
  "clock h m = of_int (3600 * h + 60 * m)"

definition PHASE_SCHEDULE :: "(rat \<times> market_phase) list" where
  "PHASE_SCHEDULE =
    [(clock 8 0, PRE_OPEN), (clock 9 0, PRE_AUCTION), (clock 9 15, MARKET_OPEN), (clock 9 30, NORMAL_SESSION),
     (clock 14 45, PRE_CLOSE), (clock 15 20, CLOSING), (clock 15 30, POST_CLOSE)]"

definition compute_phase :: "rat \<Rightarrow> market_phase" where
  "compute_phase now_ist =
    (case find (\<lambda>(boundary, phase). boundary \<le> now_ist) (rev PHASE_SCHEDULE) of
       Some (boundary, phase) \<Rightarrow> phase
     | None \<Rightarrow> POST_CLOSE)"

section \<open>Budget\<close>

record phase_budget =
  pb_place_order :: rat
  pb_bulk_fill_poll :: rat
  pb_get_positions :: rat
  pb_get_margins :: rat
  pb_get_quotes :: rat
  pb_candle_stream :: rat
  pb_reconcile_audit :: rat
  pb_reserve :: rat

abbreviation budget :: "rat \<Rightarrow> rat \<Rightarrow> rat \<Rightarrow> rat \<Rightarrow> rat \<Rightarrow> rat \<Rightarrow> rat \<Rightarrow> rat \<Rightarrow> phase_budget" where
  "budget place poll pos marg quotes candle rec res \<equiv>
    \<lparr>pb_place_order = place, pb_bulk_fill_poll = poll, pb_get_positions = pos, pb_get_margins = marg,
     pb_get_quotes = quotes, pb_candle_stream = candle, pb_reconcile_audit = rec, pb_reserve = res\<rparr>"

fun PHASE_BUDGET :: "market_phase \<Rightarrow> phase_budget" where
  "PHASE_BUDGET PRE_OPEN = budget 0 0 0 0 0 3 2 5"
| "PHASE_BUDGET PRE_AUCTION = budget 0 (1 / 2) (1 / 2) (1 / 2) (1 / 2) 2 1 5"
| "PHASE_BUDGET MARKET_OPEN = budget 4 3 1 (1 / 2) (1 / 2) 3 0 1"
| "PHASE_BUDGET NORMAL_SESSION = budget 2 2 1 1 2 1 0 1"
| "PHASE_BUDGET PRE_CLOSE = budget 3 3 2 (1 / 2) (1 / 2) 3 0 1"
| "PHASE_BUDGET CLOSING = budget 1 2 2 1 0 1 0 3"
| "PHASE_BUDGET POST_CLOSE = budget 0 1 1 0 0 0 2 3"

text \<open>The candle stream has a budget of its own.\<close>

definition order_api_budget :: "phase_budget \<Rightarrow> rat" where
  "order_api_budget b =
    pb_place_order b + pb_bulk_fill_poll b + pb_get_positions b + pb_get_margins b + pb_get_quotes b +
    pb_reconcile_audit b + pb_reserve b"

lemma phase_budget_capped: "order_api_budget (PHASE_BUDGET p) \<le> 10 \<and> 1 \<le> pb_reserve (PHASE_BUDGET p)"
  by (cases p) (simp_all add: order_api_budget_def)

section \<open>The governor\<close>

text \<open>\<open>gv_told\<close>: the phase names that the listeners have been called with, latest first.\<close>

record governor =
  gv_phase :: market_phase
  gv_running :: bool
  gv_told :: "str list"

definition new_governor :: "rat \<Rightarrow> governor" where
  "new_governor now_ist = \<lparr>gv_phase = compute_phase now_ist, gv_running = False, gv_told = []\<rparr>"

definition is_market_open :: "governor \<Rightarrow> bool" where
  "is_market_open g \<longleftrightarrow> gv_phase g \<in> {MARKET_OPEN, NORMAL_SESSION, PRE_CLOSE, CLOSING}"

definition is_mis_window :: "governor \<Rightarrow> bool" where
  "is_mis_window g \<longleftrightarrow> gv_phase g = PRE_CLOSE"

definition is_candle_prefetch_time :: "governor \<Rightarrow> bool" where
  "is_candle_prefetch_time g \<longleftrightarrow> gv_phase g = PRE_OPEN"

definition broadcast :: "market_phase \<Rightarrow> governor \<Rightarrow> governor" where
  "broadcast p g = g\<lparr>gv_told := market_phase_value p # gv_told g\<rparr>"

definition governor_start :: "governor \<Rightarrow> governor" where
  "governor_start g = broadcast (gv_phase g) (g\<lparr>gv_running := True\<rparr>)"

text \<open>One round of the loop of \<open>run\<close>.\<close>

definition governor_check :: "rat \<Rightarrow> governor \<Rightarrow> governor" where
  "governor_check now_ist g =
    (let new_phase = compute_phase now_ist
     in if new_phase \<noteq> gv_phase g then broadcast new_phase (g\<lparr>gv_phase := new_phase\<rparr>) else g)"

section \<open>The day\<close>

lemmas clock_values = clock_def PHASE_SCHEDULE_def

text \<open>The schedule read from the morning to the evening.\<close>

lemma compute_phase_day:
  "compute_phase t =
    (if t < clock 8 0 then POST_CLOSE else if t < clock 9 0 then PRE_OPEN else if t < clock 9 15 then PRE_AUCTION
     else if t < clock 9 30 then MARKET_OPEN else if t < clock 14 45 then NORMAL_SESSION
     else if t < clock 15 20 then PRE_CLOSE else if t < clock 15 30 then CLOSING else POST_CLOSE)"
  by (simp add: compute_phase_def clock_values)

text \<open>At every moment of a running governor the listeners know the phase.\<close>

lemma listeners_know_phase:
  assumes "gv_told g \<noteq> []" "hd (gv_told g) = market_phase_value (gv_phase g)"
  shows "gv_told (fold governor_check ts g) \<noteq> [] \<and>
    hd (gv_told (fold governor_check ts g)) = market_phase_value (gv_phase (fold governor_check ts g))"
  using assms by (induction ts arbitrary: g) (simp_all add: governor_check_def broadcast_def Let_def)

lemma governor_in_time:
  "gv_phase (fold governor_check (ts @ [t]) g) = compute_phase t"
  by (simp add: governor_check_def broadcast_def Let_def)

text \<open>The rate limiter that listens is in the phase of the governor's last check.\<close>

lemma limiter_follows_governor:
  assumes "ts \<noteq> []"
  shows "li_phase (fold set_market_phase (rev (gv_told (fold governor_check ts (governor_start (new_governor t0))))) L) =
    market_phase_value (compute_phase (last ts))"
proof -
  let ?g = "fold governor_check ts (governor_start (new_governor t0))"
  have known: "gv_told ?g \<noteq> [] \<and> hd (gv_told ?g) = market_phase_value (gv_phase ?g)"
    by (rule listeners_know_phase) (simp_all add: governor_start_def broadcast_def)
  have "gv_phase ?g = compute_phase (last ts)"
    using governor_in_time [of "butlast ts" "last ts"] assms by simp
  moreover have "li_phase (fold set_market_phase (rev ps) L) = hd ps" if "ps \<noteq> []" for ps
    using that by (cases ps) (simp_all add: set_market_phase_def)
  ultimately show ?thesis
    using known by simp
qed

end
