(* ===== verification/BulkPoller.thy ===== *)
theory BulkPoller
  imports ExecutionFrame MarketPhases
begin

text \<open>
  \<open>services/execution_engine/polling/bulk_order_poller.py\<close>: the detection of fills from the broker's list of
  orders, with the record in the fills table that lets each fill through once.  The protective stop callback
  is the service's \<open>_maybe_place_protective_stop\<close>, as \<open>start\<close> wires it.  The tasks of one cycle run one after
  the other; their exceptions are only logged.
\<close>

section \<open>The poller\<close>

text \<open>What the poller reads of one row of \<open>kite.orders()\<close>.\<close>

record broker_row =
  bw_order_id :: str
  bw_status :: str
  bw_filled_quantity :: rat
  bw_average_price :: rat
  bw_status_message :: str

record 'w poller =
  bp_all_orders :: "'w \<Rightarrow> broker_row list res \<times> 'w"
  bp_dynamo :: "'w dynamo option"
  bp_fills_table :: str
  bp_protects :: bool \<comment> \<open>a callback was given\<close>
  bp_publishes :: bool \<comment> \<open>a publisher was given\<close>

record 'w poll_state =
  pl_phase :: market_phase
  pl_tracked :: "str list"
  pl_errors :: nat
  pl_service :: "'w exec_state"

definition on_service :: "('w exec_state, 'a) prog \<Rightarrow> ('w poll_state, 'a) prog" where
  "on_service m s =
    (case m (pl_service s) of None \<Rightarrow> None | Some (r, t) \<Rightarrow> Some (r, s\<lparr>pl_service := t\<rparr>))"

definition on_phase_change :: "str \<Rightarrow> 'w poll_state \<Rightarrow> 'w poll_state" where
  "on_phase_change name s = (case market_phase_of name of Some p \<Rightarrow> s\<lparr>pl_phase := p\<rparr> | None \<Rightarrow> s)"

definition get_poll_interval :: "market_phase \<Rightarrow> nat \<Rightarrow> rat" where
  "get_poll_interval phase open_order_count =
    (if phase = PRE_CLOSE then 3 / 10
     else if open_order_count = 0 then 2
     else if open_order_count \<le> 2 then 1
     else if open_order_count \<le> 5 then 1 / 2
     else 3 / 10)"

section \<open>The gate of the fills table\<close>

definition compute_fill_id :: "'w execution \<Rightarrow> str \<Rightarrow> rat \<Rightarrow> rat \<Rightarrow> str" where
  "compute_fill_id X broker_order_id filled_quantity avg_fill_price =
    take 16 (py_sha256_hex (om_lib (ex_manager X)) (broker_order_id @ ''|'' @ jc_str (ex_codec X) (JNum filled_quantity) @
      ''|'' @ jc_str (ex_codec X) (JNum avg_fill_price)))"

definition fill_record_key :: "str \<Rightarrow> key" where
  "fill_record_key fill_id = (''FILL#'' @ fill_id, ''META'')"

definition fill_record :: "str \<Rightarrow> stored_order \<Rightarrow> rat \<Rightarrow> rat \<Rightarrow> str \<Rightarrow> int \<Rightarrow> item" where
  "fill_record fill_id so filled_quantity avg_fill_price stamp ttl =
    (key_item (fill_record_key fill_id))
      (''fill_id'' \<mapsto> S fill_id, ''order_id'' \<mapsto> S (op_order_id so), ''broker_order_id'' \<mapsto> S (op_broker_order_id so),
       ''signal_id'' \<mapsto> S (so_signal_id so), ''symbol'' \<mapsto> S (op_symbol so), ''market'' \<mapsto> S (market_value (op_market so)),
       ''side'' \<mapsto> S (order_side_value (so_side so)), ''filled_quantity'' \<mapsto> N filled_quantity,
       ''avg_fill_price'' \<mapsto> N avg_fill_price, ''fill_source'' \<mapsto> S ''zerodha_bulk_polling'', ''created_at'' \<mapsto> S stamp,
       ''TTL'' \<mapsto> N (of_int ttl))"

definition FILL_TTL_SECONDS :: int where
  "FILL_TTL_SECONDS = 86400"

definition write_fill_record :: "'w execution \<Rightarrow> 'w poller \<Rightarrow> str \<Rightarrow> stored_order \<Rightarrow> rat \<Rightarrow> rat \<Rightarrow> str \<Rightarrow> int
    \<Rightarrow> ('w exec_state, bool) prog" where
  "write_fill_record X P fill_id so filled_quantity avg_fill_price stamp ttl =
    (case bp_dynamo P of
       None \<Rightarrow> ret True
     | Some D \<Rightarrow>
        try_catch
          (seq (world (\<lambda>w. dy_put D w (bp_fills_table P) (fill_record_key fill_id)
             (fill_record fill_id so filled_quantity avg_fill_price stamp ttl) (NotExists ''PK''))) (\<lambda>_. ret True))
          (\<lambda>e. if e = ConditionalCheckFailed then ret False else throw e))"

text \<open>The gate with the clock readings of its two callers.\<close>

definition admit_fill :: "'w execution \<Rightarrow> 'w poller \<Rightarrow> stored_order \<Rightarrow> rat \<Rightarrow> rat \<Rightarrow> ('w exec_state, bool) prog" where
  "admit_fill X P so filled_quantity avg_fill_price =
    seq (now_iso X) (\<lambda>now. seq (plain (ex_utc X)) (\<lambda>t.
      write_fill_record X P (compute_fill_id X (op_broker_order_id so) filled_quantity avg_fill_price) so filled_quantity
        avg_fill_price now (py_int t + FILL_TTL_SECONDS)))"

section \<open>Fills\<close>

definition protect_delta :: "'w execution \<Rightarrow> 'w poller \<Rightarrow> stored_order \<Rightarrow> rat \<Rightarrow> str \<Rightarrow> ('w exec_state, unit) prog" where
  "protect_delta X P so delta_qty fill_id =
    (if \<not> bp_protects P \<or> delta_qty \<le> 0 then ret ()
     else if so_is_protective so then ret ()
     else
       try_catch
         (seq (maybe_place_protective_stop X (stored_view so) (order_response.truncate so) delta_qty fill_id) (\<lambda>_. ret ()))
         (\<lambda>_. ret ()))"

definition book_delta :: "'w execution \<Rightarrow> stored_order \<Rightarrow> rat \<Rightarrow> rat \<Rightarrow> ('w exec_state, unit) prog" where
  "book_delta X so delta_qty delta_price =
    seq (apply_fill X (op_symbol so) \<lparr>fl_side = so_side so, fl_qty = delta_qty, fl_price = delta_price, fl_last = delta_price\<rparr>
      (market_value (op_market so))) (\<lambda>_. ret ())"

definition polled_fill_args :: "stored_order \<Rightarrow> rat \<Rightarrow> rat \<Rightarrow> str \<Rightarrow> fill_args" where
  "polled_fill_args so delta_qty delta_price event_type =
    \<lparr>fa_order_id = op_order_id so, fa_signal_id = so_signal_id so, fa_risk_decision_id = so_risk_decision_id so,
     fa_trace_id = ''poller:'' @ op_order_id so, fa_symbol = op_symbol so, fa_market = market_value (op_market so),
     fa_direction = order_side_value (so_side so), fa_quantity_ordered = py_int (so_quantity so),
     fa_quantity_filled = py_int delta_qty, fa_avg_fill_price = delta_price, fa_broker_order_id = op_broker_order_id so,
     fa_fill_time = None, fa_strategy_id = [], fa_product_type = ''DAY'', fa_expires_at = None, fa_stop_loss = None,
     fa_take_profit = None, fa_event_type = Some event_type\<rparr>"

definition polled_rejection_args :: "stored_order \<Rightarrow> str \<Rightarrow> rejection_args" where
  "polled_rejection_args so broker_message =
    \<lparr>ra_order_id = op_order_id so, ra_signal_id = so_signal_id so, ra_risk_decision_id = so_risk_decision_id so,
     ra_trace_id = ''poller:'' @ op_order_id so, ra_symbol = op_symbol so, ra_market = market_value (op_market so),
     ra_direction = order_side_value (so_side so), ra_quantity_ordered = py_int (so_quantity so),
     ra_broker_order_id = op_broker_order_id so, ra_reject_reason = str_or (Some broker_message) ''broker_rejected'',
     ra_strategy_id = [], ra_product_type = ''DAY'', ra_expires_at = None, ra_stop_loss = None, ra_take_profit = None\<rparr>"

definition handle_fill :: "'w execution \<Rightarrow> 'w poller \<Rightarrow> stored_order \<Rightarrow> rat \<Rightarrow> rat \<Rightarrow> str \<Rightarrow> ('w exec_state, unit) prog" where
  "handle_fill X P so filled_quantity avg_fill_price broker_message =
    (let fill_id = compute_fill_id X (op_broker_order_id so) filled_quantity avg_fill_price;
         delta_qty = max 0 (filled_quantity - op_filled_quantity so);
         delta_price = calculate_delta_fill_price (op_filled_quantity so) (op_avg_fill_price so) filled_quantity avg_fill_price
     in seq (admit_fill X P so filled_quantity avg_fill_price) (\<lambda>is_new.
          if \<not> is_new then ret ()
          else
            seq (set_status X (op_order_id so) FILLED filled_quantity avg_fill_price broker_message) (\<lambda>_.
            seq (if 0 < delta_qty then
                   seq (protect_delta X P so delta_qty fill_id) (\<lambda>_. book_delta X so delta_qty delta_price)
                 else ret ()) (\<lambda>_.
              if bp_publishes P then
                try_catch (emit_fill X (polled_fill_args so delta_qty delta_price ''ORDER_FILLED'')) (\<lambda>_. ret ())
              else ret ()))))"

definition handle_partial :: "'w execution \<Rightarrow> 'w poller \<Rightarrow> stored_order \<Rightarrow> rat \<Rightarrow> rat \<Rightarrow> str \<Rightarrow> ('w exec_state, unit) prog" where
  "handle_partial X P so filled_quantity avg_fill_price broker_message =
    (let prior_qty = op_filled_quantity so;
         fill_id = compute_fill_id X (op_broker_order_id so) filled_quantity avg_fill_price;
         delta_qty = filled_quantity - prior_qty;
         delta_price = calculate_delta_fill_price prior_qty (op_avg_fill_price so) filled_quantity avg_fill_price
     in if filled_quantity \<le> prior_qty then ret ()
        else
          seq (admit_fill X P so filled_quantity avg_fill_price) (\<lambda>is_new.
            if \<not> is_new then ret ()
            else
              seq (set_status X (op_order_id so) PARTIALLY_FILLED filled_quantity avg_fill_price broker_message) (\<lambda>_.
              seq (protect_delta X P so delta_qty fill_id) (\<lambda>_.
              seq (book_delta X so delta_qty delta_price) (\<lambda>_.
                if bp_publishes P then emit_fill X (polled_fill_args so delta_qty delta_price ''ORDER_PARTIAL'')
                else ret ())))))"

definition handle_terminal :: "'w execution \<Rightarrow> 'w poller \<Rightarrow> stored_order \<Rightarrow> str \<Rightarrow> str \<Rightarrow> rat \<Rightarrow> rat
    \<Rightarrow> ('w exec_state, unit) prog" where
  "handle_terminal X P so kite_status broker_message filled_quantity avg_fill_price =
    (let new_status = (if kite_status = ''CANCELLED'' then CANCELLED else REJECTED);
         prior_qty = op_filled_quantity so;
         fill_id = compute_fill_id X (op_broker_order_id so) filled_quantity avg_fill_price;
         delta_qty = filled_quantity - prior_qty;
         delta_price = calculate_delta_fill_price prior_qty (op_avg_fill_price so) filled_quantity avg_fill_price
     in seq (if prior_qty < filled_quantity then
               seq (admit_fill X P so filled_quantity avg_fill_price) (\<lambda>is_new.
                 if is_new then
                   seq (protect_delta X P so delta_qty fill_id) (\<lambda>_. book_delta X so delta_qty delta_price)
                 else ret ())
             else ret ()) (\<lambda>_.
        seq (set_status X (op_order_id so) new_status (max filled_quantity prior_qty)
          (if avg_fill_price \<noteq> 0 then avg_fill_price else op_avg_fill_price so) broker_message) (\<lambda>_.
          if new_status = REJECTED \<and> bp_publishes P then
            try_catch (emit_rejection X (polled_rejection_args so broker_message)) (\<lambda>_. ret ())
          else ret ())))"

section \<open>One cycle\<close>

definition tracked_order :: "stored_order \<Rightarrow> bool" where
  "tracked_order so \<longleftrightarrow>
    op_market so = NSE \<and> op_broker_order_id so \<noteq> [] \<and> op_status so \<in> {PLACED, PARTIALLY_FILLED}"

text \<open>The task of one row; of several orders with one broker id the last read is the one of the dict.\<close>

definition row_task :: "'w execution \<Rightarrow> 'w poller \<Rightarrow> stored_order list \<Rightarrow> broker_row \<Rightarrow> ('w exec_state, unit) prog" where
  "row_task X P ours b =
    (case map_of (rev (map (\<lambda>so. (op_broker_order_id so, so)) ours)) (bw_order_id b) of
       None \<Rightarrow> ret ()
     | Some so \<Rightarrow>
        (let st = py_upper (bw_status b); q = bw_filled_quantity b; price = bw_average_price b; msg = bw_status_message b
         in if st = ''COMPLETE'' then handle_fill X P so q price msg
            else if (st = ''OPEN PENDING'' \<or> py_in ''PARTIALLY'' st) \<and> op_filled_quantity so < q then
              handle_partial X P so q price msg
            else if st \<in> {''CANCELLED'', ''REJECTED''} then handle_terminal X P so st msg q price
            else ret ()))"

definition poll_cycle :: "'w execution \<Rightarrow> 'w poller \<Rightarrow> ('w poll_state, unit) prog" where
  "poll_cycle X P =
    seq (on_service (open_orders X)) (\<lambda>open_orders.
      (let ours = filter tracked_order open_orders; ids = remdups (map op_broker_order_id ours)
       in seq (modify (\<lambda>s. s\<lparr>pl_tracked := ids\<rparr>)) (\<lambda>_.
            if ids = [] then ret ()
            else
              seq (on_service (world (ex_acquire X HIGH OTHER))) (\<lambda>_.
              seq (on_service (world (bp_all_orders P))) (\<lambda>rows.
                on_service (for_each (\<lambda>b. try_catch (row_task X P ours b) (\<lambda>_. ret ())) rows))))))"

text \<open>One round of \<open>_poll_loop\<close>.\<close>

definition poll_round :: "'w execution \<Rightarrow> 'w poller \<Rightarrow> ('w poll_state, unit) prog" where
  "poll_round X P =
    try_catch (seq (poll_cycle X P) (\<lambda>_. modify (\<lambda>s. s\<lparr>pl_errors := 0\<rparr>)))
      (\<lambda>_. modify (\<lambda>s. s\<lparr>pl_errors := pl_errors s + 1\<rparr>))"

end
