(* ===== verification/ExecutionSafety.thy ===== *)
theory ExecutionSafety
  imports ExecutionFrame
begin

text \<open>
  Properties of the execution service: the orders that can reach a broker, what a halt and a failed
  protective stop stop, the isolation of the paper orders, and the cases in which the code falls short of it.
\<close>

section \<open>Runs\<close>

datatype service_call =
    Iterate "kmsg option"
  | Listen kmsg
  | KillSwitchPoll
  | Drift str rat rat
  | StartUp

fun service_step :: "'w execution \<Rightarrow> service_call \<Rightarrow> ('w exec_state, unit) prog" where
  "service_step X (Iterate msg) = seq (loop_iteration X msg) (\<lambda>_. ret ())"
| "service_step X (Listen msg) = listen_iteration X msg"
| "service_step X KillSwitchPoll = kill_switch_poll_round X"
| "service_step X (Drift symbol bq dq) = handle_position_drift X symbol bq dq"
| "service_step X StartUp = reconcile_state X"

definition run_service :: "'w execution \<Rightarrow> service_call list \<Rightarrow> ('w exec_state, unit) prog" where
  "run_service X cs = for_each (service_step X) cs"

definition clears :: "'w execution \<Rightarrow> service_call \<Rightarrow> bool" where
  "clears X c \<longleftrightarrow> (\<exists>msg. c = Listen msg \<and> classify_switch (ex_codec X) (km_value msg) = SwitchCleared)"

context exec_frame
begin

lemma invalids [keeps_intros]: "keeps Q (invalid_switch X msg)"
  unfolding invalid_switch_def by (intro keeps_intros) (erule route_moves)

lemma listens:
  assumes "keeps Q handle_kill_switch_clear \<or> classify_switch (ex_codec X) (km_value msg) \<noteq> SwitchCleared"
  shows "keeps Q (listen_iteration X msg)"
  using assms unfolding listen_iteration_def
  by (cases "classify_switch (ex_codec X) (km_value msg)") (auto intro!: keeps_intros)

lemma steps:
  assumes "keeps Q handle_kill_switch_clear \<or> \<not> clears X c"
  shows "keeps Q (service_step X c)"
  using assms by (cases c) (auto intro!: keeps_intros listens simp: clears_def)

end

section \<open>The kill switch stays active\<close>

lemma true_moves: "env_moves (\<lambda>_ _. True) X"
  by (simp add: env_moves_def reflp_def transp_def client_moves_def producer_moves_def reads_move_def)

abbreviation halts_on :: "'w exec_state \<Rightarrow> 'w exec_state \<Rightarrow> bool" where
  "halts_on s t \<equiv> es_ks_active s \<longrightarrow> es_ks_active t"

interpretation halt_base: exec_base halts_on "\<lambda>_ _. True" X for X :: "'w execution"
  by unfold_locales (auto simp: true_moves)

interpretation halt_frame: exec_frame halts_on "\<lambda>_ _. True" X for X :: "'w execution"
  by unfold_locales (auto intro: halt_base.place_kept halt_base.cancel_kept)

lemma active_switch_stays:
  assumes "\<forall>c \<in> set cs. \<not> clears X c" "es_ks_active s" "run_service X cs s = Some (r, t)"
  shows "es_ks_active t"
proof -
  have "agree es_ks_active (run_service X cs) (run_service X cs)"
    unfolding run_service_def using assms(1) by (intro agree_for_each agree_same halt_frame.steps) blast
  then show ?thesis
    using assms(2,3) by (rule agree_inv)
qed

section \<open>A halted service places nothing\<close>

text \<open>The same service in front of brokers that answer a placement differently.\<close>

definition other_placement :: "('w \<Rightarrow> order_request \<Rightarrow> order_response res \<times> 'w) \<Rightarrow> ('w \<Rightarrow> order_request \<Rightarrow> order_response res \<times> 'w)
    \<Rightarrow> 'w execution \<Rightarrow> 'w execution" where
  "other_placement p1 p2 X =
    X\<lparr>ex_zerodha := (ex_zerodha X)\<lparr>br_place := p1\<rparr>, ex_alpaca := (ex_alpaca X)\<lparr>br_place := p2\<rparr>\<rparr>"

lemma other_simps [simp]:
  "ex_manager (other_placement p1 p2 X) = ex_manager X" "ex_dynamo (other_placement p1 p2 X) = ex_dynamo X"
  "ex_risk_table (other_placement p1 p2 X) = ex_risk_table X" "ex_publisher (other_placement p1 p2 X) = ex_publisher X"
  "ex_consumer (other_placement p1 p2 X) = ex_consumer X" "ex_acquire (other_placement p1 p2 X) = ex_acquire X"
  "ex_retry (other_placement p1 p2 X) = ex_retry X" "ex_codec (other_placement p1 p2 X) = ex_codec X"
  "ex_num_str (other_placement p1 p2 X) = ex_num_str X" "ex_exn_str (other_placement p1 p2 X) = ex_exn_str X"
  "ex_utc (other_placement p1 p2 X) = ex_utc X" "ex_mono (other_placement p1 p2 X) = ex_mono X"
  "ex_hex (other_placement p1 p2 X) = ex_hex X" "ex_uuid (other_placement p1 p2 X) = ex_uuid X"
  "ex_datetime (other_placement p1 p2 X) = ex_datetime X" "ex_random (other_placement p1 p2 X) = ex_random X"
  "ex_poll_interval (other_placement p1 p2 X) = ex_poll_interval X" "ex_paper (other_placement p1 p2 X) = ex_paper X"
  "ex_fuel (other_placement p1 p2 X) = ex_fuel X" "ex_fixed8 (other_placement p1 p2 X) = ex_fixed8 X"
  "br_cancel (get_broker (other_placement p1 p2 X) mk) = br_cancel (get_broker X mk)"
  "br_find (get_broker (other_placement p1 p2 X) mk) = br_find (get_broker X mk)"
  "br_status (get_broker (other_placement p1 p2 X) mk) = br_status (get_broker X mk)"
  by (simp_all add: other_placement_def get_broker_def split: market.split)

text \<open>The programs that do not depend on the brokers at all.\<close>

lemmas broker_free_defs = stamped_def now_iso_def submit_def apply_fill_def emit_fill_def emit_rejection_def
  commit_offset_def event_details_def route_retry_def route_dlq_def commit_if_def poll_event_def pause_gate_def
  check_expiry_def universe_step_def paper_request_def new_request_def fill_event_args_def paper_rejection_args_def
  live_rejection_args_def record_paper_order_def announce_paper_order_def settle_paper_position_def
  paper_probability_hit_def simulate_paper_def handle_paper_order_def report_response_def invalid_switch_def

lemma other_world [simp]:
  "open_orders (other_placement p1 p2 X) = open_orders X"
  "retrying (other_placement p1 p2 X) f = retrying X f"
  by (simp_all add: open_orders_def retrying_def fun_eq_iff)

lemma other_halts [simp]:
  "cancel_open_orders (other_placement p1 p2 X) reason = cancel_open_orders X reason"
  unfolding cancel_open_orders_def cancel_one_open_order_def stamped_def now_iso_def other_simps other_world ..

lemma other_activation [simp]:
  "handle_kill_switch_activation (other_placement p1 p2 X) reason = handle_kill_switch_activation X reason"
  "refresh_kill_switch (other_placement p1 p2 X) force cancel = refresh_kill_switch X force cancel"
  unfolding handle_kill_switch_activation_def refresh_kill_switch_def durable_row_def other_simps other_halts
  by (rule refl)+

lemma other_events [simp]:
  "poll_event (other_placement p1 p2 X) msg = poll_event X msg" "pause_gate (other_placement p1 p2 X) = pause_gate X"
  "route_retry (other_placement p1 p2 X) ap = route_retry X ap" "route_dlq (other_placement p1 p2 X) ap = route_dlq X ap"
  "commit_if (other_placement p1 p2 X) ap b = commit_if X ap b"
  "handle_paper_order (other_placement p1 p2 X) ap sd mk = handle_paper_order X ap sd mk"
  "report_response (other_placement p1 p2 X) ap sd mk r = report_response X ap sd mk r"
  "check_expiry (other_placement p1 p2 X) c = check_expiry X c"
  "invalid_switch (other_placement p1 p2 X) km = invalid_switch X km"
  "commit_offset (other_placement p1 p2 X) km = commit_offset X km"
  unfolding broker_free_defs other_simps by (rule refl)+

lemma halted_agree: "keeps halts_on m \<Longrightarrow> agree es_ks_active m m"
  by (rule agree_same)

lemma execute_halted:
  "agree es_ks_active (execute_approved_signal (other_placement p1 p2 X) c) (execute_approved_signal X c)"
proof -
  have "agree es_ks_active (throw e :: ('a exec_state, order_response) prog) (throw e)" for e
    by (rule agree_same) (simp add: keeps_def throw_def)
  then show ?thesis
    unfolding execute_approved_signal_def
    by (simp, intro agree_rules agree_guard impI halted_agree)
      (auto simp: check_expiry_def intro!: halt_frame.refreshes halt_base.keeps_rules halt_base.clocks)
qed

lemma handle_halted:
  "agree es_ks_active (handle_approved_signal_event (other_placement p1 p2 X) ap) (handle_approved_signal_event X ap)"
  unfolding handle_approved_signal_event_def handle_live_order_def other_simps other_events
  by (intro agree_rules execute_halted)
    (auto intro!: agree_same halt_base.keeps_rules halt_base.clocks halt_frame.papers
      simp: report_response_def intro: halt_base.fills halt_base.emits)

lemma iteration_halted:
  "agree es_ks_active (loop_iteration (other_placement p1 p2 X) msg) (loop_iteration X msg)"
  unfolding loop_iteration_def process_or_retry_def process_approved_def other_simps other_events
  by (intro agree_rules handle_halted)
    (auto intro!: agree_same halt_base.keeps_rules halt_base.clocks halt_frame.gates halt_frame.polls halt_frame.routes
      simp: commit_if_def intro: halt_base.commits)

definition starts :: "service_call \<Rightarrow> bool" where
  "starts c \<longleftrightarrow> c = StartUp"

lemma step_halted:
  assumes "\<not> clears X c" "\<not> starts c"
  shows "agree es_ks_active (service_step (other_placement p1 p2 X) c) (service_step X c)"
proof (cases c)
  case (Iterate msg)
  then show ?thesis
    by (simp, intro agree_seq iteration_halted agree_same halt_base.keeps_ret)
next
  case (Listen msg)
  then have "service_step (other_placement p1 p2 X) c = service_step X c"
    by (simp add: listen_iteration_def cong: switch_event.case_cong)
  then show ?thesis
    using halt_frame.steps [of X c] assms(1) agree_same by metis
next
  case KillSwitchPoll
  then have "service_step (other_placement p1 p2 X) c = service_step X c"
    by (simp add: kill_switch_poll_round_def)
  then show ?thesis
    using halt_frame.steps [of X c] assms(1) agree_same by metis
next
  case (Drift symbol bq dq)
  then have "service_step (other_placement p1 p2 X) c = service_step X c"
    by (simp add: handle_position_drift_def drift_reason_def)
  then show ?thesis
    using halt_frame.steps [of X c] assms(1) agree_same by metis
qed (use assms(2) in \<open>simp add: starts_def\<close>)


section \<open>Paper orders never reach a broker\<close>

definition other_brokers :: "'w broker \<Rightarrow> 'w broker \<Rightarrow> (priority \<Rightarrow> endpoint_class \<Rightarrow> 'w \<Rightarrow> unit res \<times> 'w) \<Rightarrow> 'w execution
    \<Rightarrow> 'w execution" where
  "other_brokers z a acq X = X\<lparr>ex_zerodha := z, ex_alpaca := a, ex_acquire := acq\<rparr>"

lemma other_brokers_simps:
  "ex_manager (other_brokers z a acq X) = ex_manager X" "ex_publisher (other_brokers z a acq X) = ex_publisher X"
  "ex_consumer (other_brokers z a acq X) = ex_consumer X" "ex_codec (other_brokers z a acq X) = ex_codec X"
  "ex_utc (other_brokers z a acq X) = ex_utc X" "ex_hex (other_brokers z a acq X) = ex_hex X"
  "ex_uuid (other_brokers z a acq X) = ex_uuid X" "ex_datetime (other_brokers z a acq X) = ex_datetime X"
  "ex_random (other_brokers z a acq X) = ex_random X" "ex_paper (other_brokers z a acq X) = ex_paper X"
  by (simp_all add: other_brokers_def)

lemma paper_broker_free:
  "handle_paper_order (other_brokers z a acq X) ap sd mk = handle_paper_order X ap sd mk"
  "route_retry (other_brokers z a acq X) ap = route_retry X ap" "route_dlq (other_brokers z a acq X) ap = route_dlq X ap"
  "commit_if (other_brokers z a acq X) ap b = commit_if X ap b"
  unfolding broker_free_defs other_brokers_simps by (rule refl)+

text \<open>
  C7 Paper orders never reach a broker: the handling of an approved paper signal, with its retries and
  commits, is the same whatever the two broker clients and the rate limiter of the broker calls are.
\<close>

theorem paper_signals_isolated:
  assumes "ap_paper_trade ap"
  shows "process_or_retry (other_brokers z a acq X) ap = process_or_retry X ap"
  unfolding process_or_retry_def process_approved_def handle_approved_signal_event_def other_brokers_simps paper_broker_free
    if_P [OF assms] ..

section \<open>A failed protective stop halts the service\<close>

lemma seq_Some:
  "seq m f s = Some (r, u) \<longleftrightarrow>
    (\<exists>e. m s = Some (Inl e, u) \<and> r = Inl e) \<or> (\<exists>x t. m s = Some (Inr x, t) \<and> f x t = Some (r, u))"
  by (auto simp: seq_def split: option.splits sum.splits)

lemma try_Some:
  "try_catch m h s = Some (r, u) \<longleftrightarrow>
    (\<exists>x. m s = Some (Inr x, u) \<and> r = Inr x) \<or> (\<exists>e t. m s = Some (Inl e, t) \<and> h e t = Some (r, u))"
  by (auto simp: try_catch_def split: option.splits sum.splits)

lemma failure_halts:
  assumes "handle_protective_stop_failure X p entry c qty fill_id e s = Some (r, t)"
  shows "es_ks_active t"
proof -
  let ?s = "s\<lparr>es_ks_active := True, es_ks_reason := halt_reason X p entry c qty e\<rparr>"
  have "keeps halts_on (seq (cancel_open_orders X (halt_reason X p entry c qty e)) (\<lambda>_.
      seq (try_catch
           (seq (set_status X c REJECTED 0 0
              ''Protective stop could not be confirmed; emergency flatten attempted'') (\<lambda>_.
            seq (place_emergency_flatten X p entry qty fill_id) (\<lambda>r.
              ret (case r of None \<Rightarrow> ([], []) | Some r \<Rightarrow> (op_order_id r, op_broker_order_id r)))))
           (\<lambda>_. ret ([], []))) (\<lambda>ids.
       stamped X (\<lambda>now w. mark_protection_failed (ex_manager X) w (op_order_id entry) (halt_reason X p entry c qty e)
         (fst ids) (snd ids) now))))"
    by (intro halt_base.keeps_rules halt_frame.cancel_all halt_base.manager_calls halt_frame.flattens)
  from keepsD [OF this, of ?s r t] show ?thesis
    using assms by (simp add: handle_protective_stop_failure_def handle_kill_switch_activation_def seq_assoc Let_def)
qed


section \<open>One broker order per idempotency key\<close>

text \<open>
  \<open>placed w mk t\<close> is the number of orders with the client tag \<open>t\<close> that the broker of market \<open>mk\<close> has
  received.  The client of a market makes its tag of the idempotency key (\<open>tag mk k\<close>).  Nobody else uses the
  service's tags, a placement adds at most one order under the tag of its request, and the broker's order search
  shows every order it has received.
\<close>

definition tagged_by :: "(market \<Rightarrow> str \<Rightarrow> str) \<Rightarrow> ('w \<Rightarrow> market \<Rightarrow> str \<Rightarrow> nat) \<Rightarrow> 'w execution \<Rightarrow> bool" where
  "tagged_by tag placed X \<longleftrightarrow>
    env_moves (\<lambda>w w'. placed w' = placed w) X \<and>
    (\<forall>mk w i. placed (snd (br_cancel (get_broker X mk) w i)) = placed w) \<and>
    (\<forall>mk w q mk' k. placed (snd (br_place (get_broker X mk) w (keyed X q))) mk' k \<le>
       placed w mk' k + (if mk' = mk \<and> k = tag mk (request_key X (keyed X q)) then 1 else 0)) \<and>
    (\<forall>mk w k q found. fst (br_find (get_broker X mk) w k q) = Inr found \<and> acknowledged found = None \<longrightarrow> placed w mk (tag mk k) = 0)"

definition tagged_orders :: "('w \<Rightarrow> market \<Rightarrow> str \<Rightarrow> nat) \<Rightarrow> 'w execution \<Rightarrow> bool" where
  "tagged_orders placed X \<longleftrightarrow> (\<exists>tag. tagged_by tag placed X)"

lemma tagged_orders_env: "tagged_orders placed X \<Longrightarrow> env_moves (\<lambda>w w'. placed w' = placed w) X"
  by (auto simp: tagged_orders_def tagged_by_def)

lemma tagged_orders_cancel: "tagged_orders placed X \<Longrightarrow> placed (snd (br_cancel (get_broker X mk) w i)) = placed w"
  by (auto simp: tagged_orders_def tagged_by_def)

definition at_most_one :: "('w \<Rightarrow> market \<Rightarrow> str \<Rightarrow> nat) \<Rightarrow> 'w \<Rightarrow> bool" where
  "at_most_one placed w \<longleftrightarrow> (\<forall>mk k. placed w mk k \<le> 1)"

lemma tagged_base:
  assumes "tagged_orders placed X"
  shows "exec_base (\<lambda>s t. placed (es_world t) = placed (es_world s)) (\<lambda>w w'. placed w' = placed w) X"
  using tagged_orders_env [OF assms] by unfold_locales auto

lemma at_most_one_base:
  assumes "tagged_orders placed X"
  shows "exec_base (\<lambda>s t. at_most_one placed (es_world s) \<longrightarrow> at_most_one placed (es_world t))
    (\<lambda>w w'. at_most_one placed w \<longrightarrow> at_most_one placed w') X"
proof unfold_locales
  have "env_moves (\<lambda>w w'. placed w' = placed w) X"
    by (rule tagged_orders_env [OF assms])
  then show "env_moves (\<lambda>w w'. at_most_one placed w \<longrightarrow> at_most_one placed w') X"
    unfolding env_moves_def client_moves_def producer_moves_def reads_move_def at_most_one_def reflp_def transp_def
    by simp
qed auto

lemma send_order_adds:
  assumes tagged: "tagged_by tag placed X" and run: "send_order X (get_broker X mk) (keyed X q) mk reason s = Some (r, t)"
  shows "placed (es_world t) mk' k \<le>
    placed (es_world s) mk' k + (if mk' = mk \<and> k = tag mk (request_key X (keyed X q)) then 1 else 0)"
proof -
  have "tagged_orders placed X"
    using tagged by (auto simp: tagged_orders_def)
  note base = tagged_base [OF this]
  let ?q = "keyed X q"
  let ?E = "\<lambda>s t. placed (es_world t) = placed (es_world s)"
  let ?h = "\<lambda>e. if e = NonRetryableBrokerError then
             seq (set_status X (oq_order_id ?q) REJECTED 0 0 ''Non-retryable broker rejection during placement'') (\<lambda>_.
             seq (modify (\<lambda>s. s\<lparr>es_failures := 0\<rparr>)) (\<lambda>_. throw e))
           else
             seq (stamped X (\<lambda>now w. mark_order_ack_unknown (ex_manager X) w (oq_order_id ?q)
               (''Broker placement acknowledgement unknown after '' @ reason @ '': '' @ ex_exn_str X e) now)) (\<lambda>_.
             seq (record_placement_failure X mk) (\<lambda>_. recover_ack_unknown_order X (get_broker X mk) ?q))"
  have "keeps ?E (record_placement_failure X mk)"
    unfolding record_placement_failure_def
    by (intro exec_base.base_rules [OF base] exec_base.clocks [OF base] exec_base.keeps_control [OF base]) simp_all
  then have handler: "keeps ?E (?h e)" for e
    by (intro exec_base.base_rules [OF base] exec_base.manager_calls [OF base] exec_base.controls [OF base]
        exec_base.recovery [OF base])
  obtain r1 s1 where p: "world (\<lambda>w. br_place (get_broker X mk) w ?q) s = Some (r1, s1)" and "placed (es_world t) = placed (es_world s1)"
    using run keepsD [OF handler] by (auto simp: send_order_def try_Some seq_Some modify_def ret_def)
  moreover have "placed (es_world s1) mk' k \<le> placed (es_world s) mk' k + (if mk' = mk \<and> k = tag mk (request_key X ?q) then 1 else 0)"
  proof -
    have "es_world s1 = snd (br_place (get_broker X mk) (es_world s) ?q)"
      using p by (auto simp: world_def split: prod.splits)
    then show ?thesis
      using tagged unfolding tagged_by_def by metis
  qed
  ultimately show ?thesis
    by simp
qed

lemma place_idempotent_run:
  assumes "place_idempotent X b q mk allow reason s = Some (r, t)"
  obtains (early) "t = s"
    | (found) f s1 where "world (\<lambda>w. br_find b w (request_key X (keyed X q)) (keyed X q)) s = Some (f, s1)" "t = s1"
    | (unfound) found s1 x s2 where
        "world (\<lambda>w. br_find b w (request_key X (keyed X q)) (keyed X q)) s = Some (Inr found, s1)" "acknowledged found = None"
        "(if mk = NSE then world (ex_acquire X (placement_priority reason) ORDER_PLACE) else ret ()) s1 = Some (x, s2)"
        "t = s2 \<or> send_order X b (keyed X q) mk reason s2 = Some (r, t)"
proof (cases "es_ks_active s \<and> \<not> allow")
  case True
  then show ?thesis
    using assms early by (simp add: place_idempotent_def Let_def throw_def)
next
  case False
  obtain f s1 where f: "world (\<lambda>w. br_find b w (request_key X (keyed X q)) (keyed X q)) s = Some (f, s1)"
    by (metis (no_types, lifting) case_prod_conv surj_pair world_def)
  show ?thesis
  proof (cases "\<exists>found. f = Inr found \<and> acknowledged found = None")
    case True
    then obtain found where "f = Inr found" "acknowledged found = None" by blast
    moreover from this have "seq (if mk = NSE then world (ex_acquire X (placement_priority reason) ORDER_PLACE) else ret ())
        (\<lambda>_. send_order X b (keyed X q) mk reason) s1 = Some (r, t)"
      using assms False f unfolding place_idempotent_def Let_def seq_simps by (auto simp: seq_def)
    ultimately show ?thesis
      using f unfound [of found s1] unfolding seq_Some by blast
  next
    case none: False
    then have "t = s1"
      using assms False f by (auto simp: place_idempotent_def Let_def seq_Some ret_def split: option.splits)
    then show ?thesis using f found by blast
  qed
qed

lemma placement_at_most_one:
  assumes tagged: "tagged_orders placed X"
  shows "keeps (\<lambda>s t. at_most_one placed (es_world s) \<longrightarrow> at_most_one placed (es_world t))
    (place_idempotent X (get_broker X mk) q mk allow reason)"
proof (rule keepsI, rule impI)
  obtain tag where by_tag: "tagged_by tag placed X"
    using tagged by (auto simp: tagged_orders_def)
  note base = tagged_base [OF tagged]
  let ?q = "keyed X q"
  fix s r t
  assume run: "place_idempotent X (get_broker X mk) q mk allow reason s = Some (r, t)" and one: "at_most_one placed (es_world s)"
  show "at_most_one placed (es_world t)"
    using run
  proof (cases rule: place_idempotent_run)
    case early
    then show ?thesis using one by simp
  next
    case (found f s1)
    then have "placed (es_world s1) = placed (es_world s)"
      using keepsD [OF exec_base.finds(1) [OF base]] by blast
    then show ?thesis using one found by (simp add: at_most_one_def)
  next
    case (unfound found s1 x s2)
    have "placed (es_world s1) = placed (es_world s)"
      using keepsD [OF exec_base.finds(1) [OF base] unfound(1)] .
    moreover have "placed (es_world s2) = placed (es_world s1)"
      using unfound(3) keepsD [OF exec_base.tokens [OF base]] by (auto simp: ret_def split: if_splits)
    ultimately have same: "placed (es_world s2) = placed (es_world s)"
      by simp
    have "fst (br_find (get_broker X mk) (es_world s) (request_key X ?q) ?q) = Inr found"
      using unfound(1) by (auto simp: world_def split: prod.splits)
    then have zero: "placed (es_world s) mk (tag mk (request_key X ?q)) = 0"
      using by_tag unfound(2) unfolding tagged_by_def by blast
    show ?thesis
      using unfound(4)
    proof
      assume "t = s2"
      then show ?thesis using one same by (simp add: at_most_one_def)
    next
      assume send: "send_order X (get_broker X mk) ?q mk reason s2 = Some (r, t)"
      have "placed (es_world t) mk' k \<le> 1" for mk' k
        using send_order_adds [OF by_tag send, of mk' k] same zero one [unfolded at_most_one_def, rule_format, of mk' k]
        by (auto split: if_splits)
      then show ?thesis by (simp add: at_most_one_def)
    qed
  qed
qed

lemma at_most_one_frame:
  assumes "tagged_orders placed X"
  shows "exec_frame (\<lambda>s t. at_most_one placed (es_world s) \<longrightarrow> at_most_one placed (es_world t))
    (\<lambda>w w'. at_most_one placed w \<longrightarrow> at_most_one placed w') X"
proof -
  note base = at_most_one_base [OF assms]
  show ?thesis
    by (rule exec_frame.intro [OF base], unfold_locales, rule placement_at_most_one [OF assms],
        rule exec_base.cancel_kept [OF base]) (simp add: tagged_orders_cancel [OF assms] at_most_one_def)
qed

text \<open>
  One broker order per idempotency key: starting from a broker that holds at most one order under each
  client tag, no sequence of approved signals, redeliveries, retries, kill-switch events, emergency
  flattenings and start-up reconciliations makes it hold a second one, although the reply of any call may be
  lost, any write refused and any call fail.
\<close>

theorem one_broker_order_per_key:
  assumes "tagged_orders placed X" "at_most_one placed (es_world s)" "run_service X cs s = Some (r, t)"
  shows "at_most_one placed (es_world t)"
proof -
  let ?Q = "\<lambda>s t. at_most_one placed (es_world s) \<longrightarrow> at_most_one placed (es_world t)"
  note frame = at_most_one_frame [OF assms(1)]
  have "keeps ?Q (service_step X c)" for c
    by (rule exec_frame.steps [OF frame]) (simp add: handle_kill_switch_clear_def keeps_def modify_def)
  then have "keeps ?Q (run_service X cs)"
    unfolding run_service_def by (rule exec_base.base_rules(7) [OF at_most_one_base [OF assms(1)]])
  then show ?thesis
    using assms(2,3) by (auto dest: keepsD)
qed

end
