(* ===== verification/ExecutionCases.thy ===== *)
theory ExecutionCases
  imports ExecutionSafety
begin

text \<open>
  Runs of the execution service on a concrete environment: in-memory tables beside a log of the orders the
  brokers received.  They show that the hypotheses of the properties can hold, and the cases in which the
  code does not do what its comments promise.
\<close>

section \<open>The environment\<close>

type_synonym book = "mem \<times> (market \<times> str) list"

definition on_tables :: "(mem \<Rightarrow> 'r \<times> mem) \<Rightarrow> book \<Rightarrow> 'r \<times> book" where
  "on_tables f w = (case f (fst w) of (r, m) \<Rightarrow> (r, (m, snd w)))"

definition book_dynamo :: "book dynamo" where
  "book_dynamo = \<lparr>dy_tables = (\<lambda>w. mem_tables (fst w)),
    dy_get = (\<lambda>w tbl k. on_tables (\<lambda>m. mem_get m tbl k) w),
    dy_put = (\<lambda>w tbl k i c. on_tables (\<lambda>m. mem_put m tbl k i c) w),
    dy_update = (\<lambda>w tbl k us c. on_tables (\<lambda>m. mem_update m tbl k us c) w),
    dy_transact = (\<lambda>w ps. on_tables (\<lambda>m. mem_transact m ps) w),
    dy_query = (\<lambda>w tbl ix eqs st. on_tables (\<lambda>m. mem_query m tbl ix eqs st) w),
    dy_scan = (\<lambda>w tbl p st. on_tables (\<lambda>m. mem_scan m tbl p st) w)\<rparr>"

definition book_response :: "market \<Rightarrow> str \<Rightarrow> order_request \<Rightarrow> order_response" where
  "book_response mk tag q = \<lparr>op_order_id = oq_order_id q, op_broker_order_id = ''B-'' @ tag, op_status = PLACED,
     op_symbol = oq_symbol q, op_market = mk, op_filled_quantity = 0, op_avg_fill_price = 0, op_broker_message = []\<rparr>"

definition book_tag :: "order_request \<Rightarrow> str" where
  "book_tag q = (case json_get (oq_metadata q) ''broker_idempotency_key'' of JStr s \<Rightarrow> s | _ \<Rightarrow> [])"

text \<open>\<open>lost\<close>: the broker takes the order, but its reply does not arrive.\<close>

definition book_broker :: "bool \<Rightarrow> market \<Rightarrow> book broker" where
  "book_broker lost mk =
    \<lparr>br_place = (\<lambda>w q. (if lost then Inl TimeoutError else Inr (book_response mk (book_tag q) q),
       (fst w, (mk, book_tag q) # snd w))),
     br_find = (\<lambda>w k q. (Inr (if (mk, k) \<in> set (snd w) then Some (book_response mk k q) else None), w)),
     br_cancel = (\<lambda>w i. (Inl OtherError, w)), br_status = (\<lambda>w i. (Inl OtherError, w))\<rparr>"

definition book_codec :: codec where
  "book_codec = \<lparr>jc_dumps = (\<lambda>m. []), jc_loads = (\<lambda>s. None), jc_iso = (\<lambda>t. ''t''), jc_fromiso = (\<lambda>s. None),
    jc_int_str = (\<lambda>n. ''1''), jc_int = (\<lambda>s. None), jc_str = (\<lambda>j. case j of JStr s \<Rightarrow> s | _ \<Rightarrow> []),
    jc_fixed4 = (\<lambda>x. []), jc_sha256 = (\<lambda>s. s)\<rparr>"

text \<open>The metadata of an order, as far as it says that the order is a paper order.\<close>

definition book_lib :: pylib where
  "book_lib = \<lparr>py_sha256_hex = (\<lambda>s. replicate 64 (CHR ''0'')),
    py_dumps = (\<lambda>m. if map_of m ''paper_trade'' = Some (JBool True) then ''P'' else ''{}''),
    py_loads = (\<lambda>s. Some (JObj (if s = ''P'' then [(''paper_trade'', JBool True)] else [])))\<rparr>"

definition book_manager :: "book order_manager" where
  "book_manager = \<lparr>om_dynamo = Some book_dynamo, om_orders_table = ''orders'', om_positions_table = ''positions'',
    om_risk_state_table = ''risk'', om_portfolio_value = 1000000, om_lib = book_lib\<rparr>"

definition book_paper :: paper_config where
  "book_paper = \<lparr>pc_seed = ''seed'', pc_slippage_bps = 5, pc_spread_bps = 10, pc_gap_bps = 0,
    pc_circuit_lock_probability = 0, pc_reject_probability = 0, pc_partial_probability = 0, pc_partial_min_pct = 1 / 4\<rparr>"

definition book_execution :: "bool \<Rightarrow> book execution" where
  "book_execution lost =
    \<lparr>ex_zerodha = book_broker lost NSE, ex_alpaca = book_broker lost US, ex_manager = book_manager,
     ex_dynamo = Some book_dynamo, ex_risk_table = ''risk'',
     ex_publisher = \<lparr>oe_producer = None, oe_codec = book_codec\<rparr>,
     ex_consumer = \<lparr>kc_codec = book_codec, kc_failure = None, kc_commit = (\<lambda>w msg. (Inr (), w))\<rparr>,
     ex_acquire = (\<lambda>p e w. (Inr (), w)),
     ex_retry = \<lparr>rh_max_retries = 3, rh_base_delay = 1, rh_max_delay = 30, rh_backoff_factor = 2,
       rh_failure_threshold = 5, rh_cooldown = 60, rh_mono = (\<lambda>w. (0, w)), rh_sleep = (\<lambda>d w. w)\<rparr>,
     ex_codec = book_codec, ex_num_str = (\<lambda>x. []), ex_fixed8 = (\<lambda>x. ''q''), ex_exn_str = (\<lambda>e. []),
     ex_utc = (\<lambda>w. (0, w)), ex_mono = (\<lambda>w. (0, w)), ex_hex = (\<lambda>w. (''abc'', w)), ex_uuid = (\<lambda>w. (''u'', w)),
     ex_datetime = (\<lambda>t. \<lparr>dt_iso = ''t'', dt_date = ''d''\<rparr>), ex_random = (\<lambda>s. 0), ex_poll_interval = 1,
     ex_paper = book_paper, ex_fuel = 1\<rparr>"

definition book_state :: "book \<Rightarrow> book exec_state" where
  "book_state w = \<lparr>es_ks_active = False, es_ks_reason = [], es_ks_checked_at = 0, es_failures = 0, es_paused = False,
    es_paused_until = 0, es_universe = None, es_circuit = new_circuit, es_pending = 0, es_world = w\<rparr>"

definition book_placed :: "book \<Rightarrow> market \<Rightarrow> str \<Rightarrow> nat" where
  "book_placed w mk k = count_list (snd w) (mk, k)"

lemma book_moves: "env_moves (\<lambda>w w'. f (snd w') = f (snd w)) (book_execution lost)"
  by (auto simp: env_moves_def reflp_def transp_def client_moves_def producer_moves_def reads_move_def book_execution_def
      book_manager_def book_dynamo_def on_tables_def book_broker_def split: prod.splits)

section \<open>Evaluation\<close>

lemmas prog_run = prog_defs world_def plain_def now_iso_def stamped_def with_request_def

lemmas book_run = book_dynamo_def on_tables_def book_broker_def book_manager_def book_execution_def book_codec_def
  book_paper_def mem_get_def mem_put_def mem_update_def mem_transact_def mem_query_def mem_scan_def mem_tables_def

lemmas placement_run = place_idempotent_def send_order_def settle_def maybe_place_protective_stop_def needs_protection_def
  keyed_def attach_broker_idempotency_def request_view_def new_request_def request_key_def acknowledged_def
  validate_order_request_def json_get_def get_broker_def book_tag_def book_response_def

lemmas status_run = record_order_def mark_order_ack_unknown_def transition_order_status_def previous_status_def get_order_def
  transition_updates_def transition_defaults_def updated_row_def str_attr_def is_valid_status_transition_def order_key_def

lemma enum_members:
  "order_status_of ''PENDING'' = Some PENDING" "order_status_of ''FILLED'' = Some FILLED"
  "order_status_of ''ACK_UNKNOWN'' = Some ACK_UNKNOWN" "order_status_of ''PLACED'' = Some PLACED"
  "market_of ''NSE'' = Some NSE" "order_side_of ''BUY'' = Some BUY" "order_type_of ''MARKET'' = Some MARKET"
  "product_type_of ''MIS'' = Some MIS"
  by code_simp+

lemma upper_members: "py_upper ''BUY'' = ''BUY''" "py_upper ''NSE'' = ''NSE''" "py_upper ''abc'' = ''ABC''"
  by code_simp+

lemma book_fields:
  "ex_manager (book_execution lost) = book_manager" "ex_fuel (book_execution lost) = 1"
  "es_world (book_state w) = w" "(book_state w)\<lparr>es_world := w'\<rparr> = book_state w'"
  by (simp_all add: book_execution_def book_state_def)

lemma book_refresh:
  "mem_tables (fst w) ''risk'' kill_switch_key = None \<Longrightarrow>
    refresh_kill_switch (book_execution lost) False True (book_state w) = Some (Inr False, book_state w)"
  by (simp add: refresh_kill_switch_def prog_run book_state_def durable_row_def book_run)

section \<open>A lost reply\<close>

text \<open>A row that was reserved before the process stopped.\<close>

definition reserved_row :: "str \<Rightarrow> item" where
  "reserved_row order_id = [''PK'' \<mapsto> S (''ORDER#'' @ order_id), ''SK'' \<mapsto> S ''META'', ''order_id'' \<mapsto> S order_id,
    ''signal_id'' \<mapsto> S ''s1'', ''risk_decision_id'' \<mapsto> S ''d1'', ''symbol'' \<mapsto> S ''INFY'', ''market'' \<mapsto> S ''NSE'',
    ''side'' \<mapsto> S ''BUY'', ''order_type'' \<mapsto> S ''MARKET'', ''product_type'' \<mapsto> S ''MIS'', ''quantity'' \<mapsto> N 10,
    ''order_status'' \<mapsto> S ''PENDING'', ''broker_idempotency_key'' \<mapsto> S ''QE0'']"

definition reserved_mem :: "str \<Rightarrow> mem" where
  "reserved_mem order_id = [((''orders'', order_key order_id), reserved_row order_id)]"

definition reserved_order :: "str \<Rightarrow> stored_order" where
  "reserved_order order_id =
    \<lparr>op_order_id = order_id, op_broker_order_id = [], op_status = PENDING, op_symbol = ''INFY'', op_market = NSE,
     op_filled_quantity = 0, op_avg_fill_price = 0, op_broker_message = [], so_signal_id = ''s1'',
     so_risk_decision_id = ''d1'', so_side = BUY, so_order_type = MARKET, so_product_type = MIS, so_quantity = 10,
     so_limit_price = None, so_stop_price = None, so_parent_order_id = [], so_protective_type = [], so_is_protective = False,
     so_protective_stop_order_id = [], so_broker_idempotency_key = ''QE0'', so_metadata = []\<rparr>"

lemma reserved_decoded: "unmarshal_item book_lib (reserved_row i) = Inr (reserved_order i)"
  by (simp add: unmarshal_item_def reserved_row_def attr_readers load_metadata_def book_lib_def reserved_order_def enum_members)

lemma reserved_open: "get_open_orders 1 book_manager (reserved_mem i, lg) = Some ([reserved_order i], (reserved_mem i, lg))"
  using reserved_decoded [of i]
  by (simp add: get_open_orders_def OPEN_STATUSES_def query_pages_def book_run reserved_mem_def order_key_def reserved_row_def)

lemma reserved_by_signal:
  "get_order_by_signal book_manager (reserved_mem i, lg) ''s1'' = (Some (reserved_order i), (reserved_mem i, lg))"
  using reserved_decoded [of i]
  by (simp add: get_order_by_signal_def book_run reserved_mem_def order_key_def reserved_row_def)

lemma reserved_quiet: "mem_tables (reserved_mem i) ''risk'' kill_switch_key = None"
  by (simp add: mem_tables_def reserved_mem_def)

lemma pending_start:
  assumes "get_open_orders 1 book_manager w = Some ([so], w)"
  shows "reconcile_state (book_execution lost) (book_state w) =
    seq (reconcile_order (book_execution lost) so) (\<lambda>_. ret ()) (book_state w)"
  using assms by (simp add: reconcile_state_def seq_def open_orders_def book_fields)

lemma pending_execute:
  assumes "mem_tables (fst w) ''risk'' kill_switch_key = None"
    "get_order_by_signal book_manager w (so_signal_id so) = (Some so, w)" "op_status so = PENDING"
    "so_risk_decision_id so \<noteq> []" "json_get (so_metadata so) ''expires_at'' = JNull"
  shows "execute_approved_signal (book_execution lost) (stored_call (book_execution lost) so) (book_state w) =
    retry_pending (book_execution lost) (stored_call (book_execution lost) so) so (book_state w)"
  using assms book_refresh [of w lost, OF assms(1), unfolded book_state_def]
  by (simp add: execute_approved_signal_def stored_call_def seq_def check_expiry_def stored_expiry_def
      universe_step_def dispatch_signal_def read_def ret_def plain_def world_def book_fields(1,2) book_state_def)

lemma reserved_placed:
  "\<exists>r t. retry_pending (book_execution lost) (stored_call (book_execution lost) (reserved_order i)) (reserved_order i)
      (book_state (reserved_mem i, [])) = Some (Inr r, t) \<and> snd (es_world t) = [(NSE, ''QE0'')]"
  by (cases lost)
    (simp_all add: retry_pending_def stored_call_def reserved_order_def reserved_mem_def reserved_row_def placement_run
      prog_run book_run book_state_def pending_request_def merged_metadata_def expiry_json_def stored_expiry_def Let_def
      status_run enum_members recover_ack_unknown_order_def record_placement_failure_def)

lemma reserved_recovered:
  assumes "\<not> py_starts ''SL-'' i"
  shows "\<exists>t. reconcile_state (book_execution lost) (book_state (reserved_mem i, [])) = Some (Inr (), t) \<and>
    snd (es_world t) = [(NSE, ''QE0'')]"
proof -
  obtain r t where "execute_approved_signal (book_execution lost) (stored_call (book_execution lost) (reserved_order i))
      (book_state (reserved_mem i, [])) = Some (Inr r, t)" "snd (es_world t) = [(NSE, ''QE0'')]"
    using reserved_placed [of lost i] pending_execute [of "(reserved_mem i, [])" "reserved_order i" lost]
      reserved_by_signal [of i "[]"] reserved_quiet [of i] by (auto simp: reserved_order_def json_get_def)
  then show ?thesis
    unfolding pending_start [OF reserved_open] using assms
    by (simp add: reconcile_order_def reconcile_pending_def reserved_order_def is_protective_order_def json_get_def
        seq_def try_catch_def ret_def)
qed

text \<open>The hypotheses of the placement property hold of this environment.\<close>

lemma book_tag_key: "request_key (book_execution lost) q = book_tag q"
  by (simp add: request_key_def book_execution_def book_codec_def book_tag_def)

lemma book_tagged: "tagged_orders book_placed (book_execution lost)"
proof -
  have "env_moves (\<lambda>w w'. book_placed w' = book_placed w) (book_execution lost)"
    using book_moves [of "\<lambda>lg mk k. count_list lg (mk, k)" lost] by (simp add: book_placed_def [abs_def])
  moreover have "get_broker (book_execution lost) mk = book_broker lost mk" for mk
    by (cases mk) (simp_all add: get_broker_def book_execution_def)
  moreover have "acknowledged (Some (book_response mk k q)) = Some (book_response mk k q)" for mk k q
    by (simp add: acknowledged_def book_response_def)
  ultimately show ?thesis
    unfolding tagged_orders_def
    by (intro exI [of _ "\<lambda>_ k. k"], simp add: tagged_by_def book_tag_key book_placed_def)
      (auto simp: book_broker_def count_list_0_iff split: if_splits)
qed

lemma one_broker_order_per_key_witness:
  "\<exists>t. run_service (book_execution True) [StartUp] (book_state (reserved_mem ''a'', [])) = Some (Inr (), t) \<and>
    at_most_one book_placed (es_world t) \<and> book_placed (es_world t) NSE ''QE0'' = 1"
proof -
  obtain t where "reconcile_state (book_execution True) (book_state (reserved_mem ''a'', [])) = Some (Inr (), t)"
      "snd (es_world t) = [(NSE, ''QE0'')]"
    using reserved_recovered [of "''a''" True] by auto
  moreover from this(1) have "run_service (book_execution True) [StartUp] (book_state (reserved_mem ''a'', [])) = Some (Inr (), t)"
    by (simp add: run_service_def seq_def ret_def)
  moreover have "at_most_one book_placed (es_world (book_state (reserved_mem ''a'', [])))"
    by (simp add: at_most_one_def book_placed_def book_state_def)
  ultimately show ?thesis
    using one_broker_order_per_key [OF book_tagged] by (auto simp: book_placed_def)
qed

end
