(* ===== verification/PollerSafety.thy ===== *)
theory PollerSafety
  imports BulkPoller ExecutionCases
begin

text \<open>
  Properties of the bulk order poller beside the execution service: the broker orders of the two together,
  the gate that books every reported fill once, and the fill that is counted twice when a status write is lost.
\<close>

section \<open>Frames of the poller\<close>

definition poller_moves :: "('w \<Rightarrow> 'w \<Rightarrow> bool) \<Rightarrow> 'w poller \<Rightarrow> bool" where
  "poller_moves V P \<longleftrightarrow>
    (\<forall>D. bp_dynamo P = Some D \<longrightarrow> client_moves V D) \<and> (\<forall>w. V w (snd (bp_all_orders P w)))"

locale poll_frame = exec_frame +
  fixes P :: "'w poller"
  assumes poller: "poller_moves V P"
begin

lemma fills_move: "bp_dynamo P = Some D \<Longrightarrow> client_moves V D"
  and rows_move: "V w (snd (bp_all_orders P w))"
  using poller by (simp_all add: poller_moves_def)

lemma records [keeps_intros]: "keeps Q (write_fill_record X P i so q p stamp ttl)"
  unfolding write_fill_record_def
proof (intro keeps_intros keeps_world)
  fix D w r w'
  assume D: "bp_dynamo P = Some D"
    and put: "dy_put D w (bp_fills_table P) (fill_record_key i) (fill_record i so q p stamp ttl) (NotExists ''PK'') = (r, w')"
  show "V w w'"
    using fills_move [OF D] put unfolding client_moves_def by (metis snd_conv)
qed

lemma admissions [keeps_intros]: "keeps Q (admit_fill X P so q p)"
  unfolding admit_fill_def by (intro keeps_intros)

lemma bookings [keeps_intros]: "keeps Q (protect_delta X P so d i)" "keeps Q (book_delta X so d price)"
  unfolding protect_delta_def book_delta_def by (intro keeps_intros)+

lemma handlers [keeps_intros]:
  "keeps Q (handle_fill X P so q p msg)" "keeps Q (handle_partial X P so q p msg)" "keeps Q (handle_terminal X P so st msg q p)"
  unfolding handle_fill_def handle_partial_def handle_terminal_def Let_def by (intro keeps_intros)+

lemma rows [keeps_intros]: "keeps Q (row_task X P ours b)" "keeps Q (world (bp_all_orders P))"
  unfolding row_task_def Let_def by (intro keeps_intros) (rule keeps_world, metis rows_move snd_conv)

text \<open>The poller's own fields are outside the relation.\<close>

abbreviation lifted :: "'w poll_state \<Rightarrow> 'w poll_state \<Rightarrow> bool" where
  "lifted s t \<equiv> Q (pl_service s) (pl_service t)"

lemma lifted_frame: "frame lifted"
  by unfold_locales (auto intro: Q_refl Q_trans)

lemma lifted_service: "keeps Q m \<Longrightarrow> keeps lifted (on_service m)"
  by (auto simp: keeps_def on_service_def split: option.splits prod.splits)

lemma rounds: "keeps lifted (poll_round X P)"
proof -
  note rules = frame.keeps_rules [OF lifted_frame] frame.keeps_modify [OF lifted_frame]
  have "keeps lifted (poll_cycle X P)"
    unfolding poll_cycle_def Let_def
    by (intro rules lifted_service keeps_intros) (simp_all add: Q_refl)
  then show ?thesis
    unfolding poll_round_def by (intro rules) (simp_all add: Q_refl)
qed

end

section \<open>The service and the poller together\<close>

datatype fleet_call = ServiceCall service_call | PollRound | PhaseChange str

fun fleet_step :: "'w execution \<Rightarrow> 'w poller \<Rightarrow> fleet_call \<Rightarrow> ('w poll_state, unit) prog" where
  "fleet_step X P (ServiceCall c) = on_service (service_step X c)"
| "fleet_step X P PollRound = poll_round X P"
| "fleet_step X P (PhaseChange name) = modify (on_phase_change name)"

definition run_fleet :: "'w execution \<Rightarrow> 'w poller \<Rightarrow> fleet_call list \<Rightarrow> ('w poll_state, unit) prog" where
  "run_fleet X P cs = for_each (fleet_step X P) cs"

lemma phase_change_service [simp]: "pl_service (on_phase_change name s) = pl_service s"
  by (simp add: on_phase_change_def split: option.split)

context poll_frame
begin

lemma fleet_steps:
  assumes "keeps Q handle_kill_switch_clear \<or> (\<forall>c \<in> set cs. \<forall>d. c = ServiceCall d \<longrightarrow> \<not> clears X d)"
  shows "keeps lifted (run_fleet X P cs)"
  using assms
proof (induction cs)
  case Nil
  then show ?case by (simp add: run_fleet_def keeps_def ret_def Q_refl)
next
  case (Cons c cs)
  have "keeps lifted (fleet_step X P c)"
  proof (cases c)
    case (ServiceCall d)
    then show ?thesis
      using Cons.prems steps [of d] by (auto intro: lifted_service)
  next
    case PollRound
    then show ?thesis by (simp add: rounds)
  qed (simp add: keeps_def modify_def Q_refl)
  then show ?case
    using Cons by (auto simp: run_fleet_def intro: frame.keeps_seq [OF lifted_frame])
qed

end

text \<open>The poller does not touch the kill switch of the service.\<close>

interpretation halt_polls: poll_frame halts_on "\<lambda>_ _. True" X P for X :: "'w execution" and P :: "'w poller"
  by unfold_locales (simp add: poller_moves_def client_moves_def)

lemma fleet_stays_halted:
  assumes "\<forall>c \<in> set cs. \<forall>d. c = ServiceCall d \<longrightarrow> \<not> clears X d" "es_ks_active (pl_service s)" "run_fleet X P cs s = Some (r, t)"
  shows "es_ks_active (pl_service t)"
  using keepsD [OF halt_polls.fleet_steps [of cs] assms(3)] assms(1,2) by blast

text \<open>
  C4 One broker order per idempotency key: starting from a broker that holds at most one order under each
  client tag, no sequence of approved signals, redeliveries, retries, kill-switch events, emergency
  flattenings, start-up reconciliations and rounds of the order poller, which protects the fills it finds with
  stops of its own, makes it hold a second one, although the reply of any call may be lost, any write refused
  and any call fail.
\<close>

theorem fleet_places_once:
  assumes "tagged_orders placed X" "poller_moves (\<lambda>w w'. placed w' = placed w) P"
    "at_most_one placed (es_world (pl_service s))" "run_fleet X P cs s = Some (r, t)"
  shows "at_most_one placed (es_world (pl_service t))"
proof -
  have "poller_moves (\<lambda>w w'. at_most_one placed w \<longrightarrow> at_most_one placed w') P"
    using assms(2) by (simp add: poller_moves_def client_moves_def at_most_one_def)
  note fleet = poll_frame.fleet_steps [OF poll_frame.intro [OF at_most_one_frame [OF assms(1)] poll_frame_axioms.intro [OF this]], of cs]
  show ?thesis
    using keepsD [OF fleet assms(4)] assms(3) by (simp add: handle_kill_switch_clear_def keeps_def modify_def)
qed

section \<open>The fills gate\<close>

definition keeps_fills :: "'w dynamo \<Rightarrow> 'w poller \<Rightarrow> 'w \<Rightarrow> 'w \<Rightarrow> bool" where
  "keeps_fills D P w w' \<longleftrightarrow>
    (\<forall>k. dy_tables D w (bp_fills_table P) k \<noteq> None \<longrightarrow> dy_tables D w' (bp_fills_table P) k \<noteq> None)"

definition recorded :: "'w dynamo \<Rightarrow> 'w poller \<Rightarrow> str \<Rightarrow> 'w exec_state \<Rightarrow> bool" where
  "recorded D P fill_id s \<longleftrightarrow> dy_tables D (es_world s) (bp_fills_table P) (fill_record_key fill_id) \<noteq> None"

text \<open>The clients of the fills table never delete a row, and every other call leaves the rows of the table.\<close>

definition fills_stay :: "(tables \<Rightarrow> tables \<Rightarrow> bool) \<Rightarrow> 'w dynamo \<Rightarrow> 'w execution \<Rightarrow> 'w poller \<Rightarrow> bool" where
  "fills_stay R D X P \<longleftrightarrow>
    bp_dynamo P = Some D \<and> dynamo_ok R D \<and>
    (\<forall>t t' k. R t t' \<longrightarrow> t (bp_fills_table P) k \<noteq> None \<longrightarrow> t' (bp_fills_table P) k \<noteq> None) \<and>
    env_moves (keeps_fills D P) X \<and> poller_moves (keeps_fills D P) P \<and>
    (\<forall>mk w q. keeps_fills D P w (snd (br_place (get_broker X mk) w q))) \<and>
    (\<forall>mk w i. keeps_fills D P w (snd (br_cancel (get_broker X mk) w i)))"

lemma fills_frame:
  assumes "fills_stay R D X P"
  shows "poll_frame (\<lambda>s t. keeps_fills D P (es_world s) (es_world t)) (keeps_fills D P) X P"
proof -
  have base: "exec_base (\<lambda>s t. keeps_fills D P (es_world s) (es_world t)) (keeps_fills D P) X"
    using assms by unfold_locales (auto simp: fills_stay_def keeps_fills_def)
  have "exec_frame (\<lambda>s t. keeps_fills D P (es_world s) (es_world t)) (keeps_fills D P) X"
    using assms exec_base.place_kept [OF base] exec_base.cancel_kept [OF base]
    by (intro exec_frame.intro [OF base] exec_frame_axioms.intro) (simp_all add: fills_stay_def)
  then show ?thesis
    using assms by (intro poll_frame.intro poll_frame_axioms.intro) (simp_all add: fills_stay_def)
qed

lemma recorded_kept: "keeps_fills D P (es_world s) (es_world t) \<Longrightarrow> recorded D P i s \<Longrightarrow> recorded D P i t"
  unfolding keeps_fills_def recorded_def by blast

text \<open>A write of the record that is answered leaves a record, and is answered \<open>False\<close> when there was one.\<close>

lemma gate_writes:
  assumes stay: "fills_stay R D X P" and run: "write_fill_record X P i so q p stamp ttl s = Some (Inr b, t)"
  shows "recorded D P i t \<and> (recorded D P i s \<longrightarrow> \<not> b)"
proof -
  let ?k = "fill_record_key i" and ?T = "bp_fills_table P" and ?item = "fill_record i so q p stamp ttl"
  have D: "bp_dynamo P = Some D" "dynamo_ok R D"
    and keep: "R t t' \<Longrightarrow> t ?T k \<noteq> None \<Longrightarrow> t' ?T k \<noteq> None" for t t' k
    using stay unfolding fills_stay_def by blast+
  obtain x w where put: "dy_put D (es_world s) ?T ?k ?item (NotExists ''PK'') = (x, w)" by fastforce
  obtain u v where steps: "R (dy_tables D (es_world s)) u" "R v (dy_tables D w)"
    and effect: "write_effect x (cond_holds (NotExists ''PK'') ?k (u ?T ?k)) u (tables_put u ?T ?k ?item) v"
    using dynamo_ok_put [OF D(2) put] unfolding commits_def by blast
  consider "x = Inr ()" "b" | "x = Inl ConditionalCheckFailed" "\<not> b"
    using run put D by (cases x) (auto simp: write_fill_record_def prog_defs world_def split: if_splits)
  then show ?thesis
  proof cases
    case 1
    then have "u ?T ?k = None" "v ?T ?k \<noteq> None"
      using effect by (simp_all add: write_effect_def)
    then have "\<not> recorded D P i s" "dy_tables D w ?T ?k \<noteq> None"
      using keep [OF steps(1), of ?k] keep [OF steps(2), of ?k] unfolding recorded_def by blast+
    then show ?thesis
      using run put D 1 by (auto simp: write_fill_record_def prog_defs world_def recorded_def)
  next
    case 2
    then have "dy_tables D w ?T ?k \<noteq> None"
      using effect keep [OF steps(2)] by (simp add: write_effect_def)
    then show ?thesis
      using run put D 2 by (auto simp: write_fill_record_def prog_defs world_def recorded_def)
  qed
qed

lemma gate_admits:
  assumes "fills_stay R D X P" "admit_fill X P so q p s = Some (Inr b, t)"
  shows "recorded D P (compute_fill_id X (op_broker_order_id so) q p) t \<and>
    (recorded D P (compute_fill_id X (op_broker_order_id so) q p) s \<longrightarrow> \<not> b)"
proof -
  note base = exec_frame.axioms(1) [OF poll_frame.axioms(1) [OF fills_frame [OF assms(1)]]]
  let ?i = "compute_fill_id X (op_broker_order_id so) q p"
  obtain now s1 u s2 where
      steps: "now_iso X s = Some (Inr now, s1)" "plain (ex_utc X) s1 = Some (Inr u, s2)"
    and recording: "write_fill_record X P ?i so q p now (py_int u + FILL_TTL_SECONDS) s2 = Some (Inr b, t)"
    using assms(2) by (auto simp: admit_fill_def seq_def split: option.splits sum.splits prod.splits)
  have "keeps_fills D P (es_world s) (es_world s1)" "keeps_fills D P (es_world s1) (es_world s2)"
    using keepsD [OF exec_base.iso [OF base] steps(1)] keepsD [OF exec_base.clocks(1) [OF base] steps(2)] .
  then show ?thesis
    using gate_writes [OF assms(1) recording] recorded_kept by blast
qed

text \<open>What a handler does when its fill is recorded: it asks the gate.\<close>

lemma recorded_fill_ignored:
  assumes "fills_stay R D X P" "recorded D P (compute_fill_id X (op_broker_order_id so) q p) s"
  shows "handle_fill X P so q p msg s = seq (admit_fill X P so q p) (\<lambda>_. ret ()) s"
proof (cases "admit_fill X P so q p s")
  case None
  then show ?thesis by (simp add: handle_fill_def Let_def seq_def)
next
  case (Some y)
  obtain x t where y: "y = (x, t)" by fastforce
  have "\<not> b" if "x = Inr b" for b
    using gate_admits [OF assms(1) Some [unfolded y that]] assms(2) by blast
  then show ?thesis
    using Some y by (cases x) (simp_all add: handle_fill_def Let_def seq_def)
qed

lemma handled_fill_recorded:
  assumes "fills_stay R D X P" "handle_fill X P so q p msg s = Some (Inr (), t)"
  shows "recorded D P (compute_fill_id X (op_broker_order_id so) q p) t"
proof -
  let ?Q = "\<lambda>s t. keeps_fills D P (es_world s) (es_world t)"
  note frame = fills_frame [OF assms(1)]
  note exec = poll_frame.axioms(1) [OF frame]
  note base = exec_frame.axioms(1) [OF exec]
  obtain b t1 f where admitted: "admit_fill X P so q p s = Some (Inr b, t1)" and rest: "f t1 = Some (Inr (), t)" and "keeps ?Q f"
  proof -
    obtain g where g: "handle_fill X P so q p msg = seq (admit_fill X P so q p) g" and kept: "keeps ?Q (g b)" for b
    proof
      show "handle_fill X P so q p msg = seq (admit_fill X P so q p) (\<lambda>is_new.
          if \<not> is_new then ret ()
          else
            seq (set_status X (op_order_id so) FILLED q p msg) (\<lambda>_.
            seq (if 0 < max 0 (q - op_filled_quantity so) then
                   seq (protect_delta X P so (max 0 (q - op_filled_quantity so)) (compute_fill_id X (op_broker_order_id so) q p))
                     (\<lambda>_. book_delta X so (max 0 (q - op_filled_quantity so))
                       (calculate_delta_fill_price (op_filled_quantity so) (op_avg_fill_price so) q p))
                 else ret ()) (\<lambda>_.
              if bp_publishes P then
                try_catch (emit_fill X (polled_fill_args so (max 0 (q - op_filled_quantity so))
                  (calculate_delta_fill_price (op_filled_quantity so) (op_avg_fill_price so) q p) ''ORDER_FILLED'')) (\<lambda>_. ret ())
              else ret ())))"
        by (simp add: handle_fill_def Let_def)
    qed (intro exec_base.base_rules [OF base] exec_base.manager_calls [OF base] poll_frame.bookings [OF frame]
        exec_base.emits [OF base])
    then show ?thesis
      using assms(2) that unfolding g by (auto simp: seq_def split: option.splits sum.splits prod.splits)
  qed
  then have "recorded D P (compute_fill_id X (op_broker_order_id so) q p) t1"
    using gate_admits [OF assms(1)] by blast
  then show ?thesis
    using keepsD [OF \<open>keeps ?Q f\<close> rest] recorded_kept by blast
qed

text \<open>
  C11 A reported fill is booked once: after the poller handled a completed order without an exception, and
  whatever the service, the kill switch and further rounds of the poller do in between, a second report of the
  same cumulative quantity and price of that broker order only asks the fills table: it changes no order, no
  position and no stop and publishes nothing, also when the order row that it is compared with is out of date.
\<close>

theorem reported_fill_booked_once:
  assumes "fills_stay R D X P" "handle_fill X P so q p msg (pl_service s) = Some (Inr (), t1)"
    "run_fleet X P cs (s\<lparr>pl_service := t1\<rparr>) = Some (r, s2)" "op_broker_order_id so' = op_broker_order_id so"
  shows "handle_fill X P so' q p msg' (pl_service s2) = seq (admit_fill X P so' q p) (\<lambda>_. ret ()) (pl_service s2)"
proof -
  note frame = fills_frame [OF assms(1)]
  have "keeps (\<lambda>s t. keeps_fills D P (es_world s) (es_world t)) handle_kill_switch_clear"
    by (simp add: handle_kill_switch_clear_def keeps_def modify_def keeps_fills_def)
  then have "keeps_fills D P (es_world t1) (es_world (pl_service s2))"
    using keepsD [OF poll_frame.fleet_steps [OF frame] assms(3)] by auto
  then have "recorded D P (compute_fill_id X (op_broker_order_id so') q p) (pl_service s2)"
    using handled_fill_recorded [OF assms(1,2)] recorded_kept assms(4) by (metis (no_types))
  then show ?thesis
    by (rule recorded_fill_ignored [OF assms(1)])
qed

end
