(* ===== verification/ExecutionFacts.thy ===== *)
theory ExecutionFacts
  imports ExecutionSafety
begin

text \<open>
  Arithmetic and termination of the execution service: the fill slices that cumulative broker reports are
  split into, the prices and quantities of the paper simulator, and the end of every step of the service.
\<close>

section \<open>Fill slices\<close>

text \<open>
  The fills that successive cumulative reports \<open>(filled quantity, average price)\<close> of one order are booked as,
  each with the quantity and the price that \<open>apply_status_fill\<close> computes from the previous report.
\<close>

fun booked_slices :: "order_side \<Rightarrow> rat \<times> rat \<Rightarrow> (rat \<times> rat) list \<Rightarrow> fill list" where
  "booked_slices side prior [] = []"
| "booked_slices side (q0, a0) ((q, a) # later) =
    (let delta = max 0 (q - q0); price = calculate_delta_fill_price q0 a0 q a
     in (if 0 < delta then [\<lparr>fl_side = side, fl_qty = delta, fl_price = price, fl_last = price\<rparr>] else []) @
        booked_slices side (q, a) later)"

text \<open>Reports of one order: quantity and cost only grow.\<close>

fun cumulative :: "rat \<times> rat \<Rightarrow> (rat \<times> rat) list \<Rightarrow> bool" where
  "cumulative prior [] = True"
| "cumulative (q0, a0) ((q, a) # later) \<longleftrightarrow> q0 < q \<and> q0 * a0 \<le> q * a \<and> cumulative (q, a) later"

abbreviation buy :: "rat \<Rightarrow> rat \<Rightarrow> fill" where
  "buy q price \<equiv> \<lparr>fl_side = BUY, fl_qty = q, fl_price = price, fl_last = price\<rparr>"

lemma delta_price:
  assumes "q0 < q" "q0 * a0 \<le> q * a"
  shows "calculate_delta_fill_price q0 a0 q a = (q * a - q0 * a0) / (q - q0)"
  using assms by (simp add: calculate_delta_fill_price_def Let_def max_def divide_less_0_iff not_le)

lemma two_buys:
  assumes "0 \<le> pos_qty p" "0 < d1" "0 < d2"
  shows "fill_position (fill_position p (buy d1 x1)) (buy d2 x2) =
    fill_position p (buy (d1 + d2) ((d1 * x1 + d2 * x2) / (d1 + d2)))"
proof -
  have "(d1 + d2) * ((d1 * x1 + d2 * x2) / (d1 + d2)) = d1 * x1 + d2 * x2"
    using assms(2,3) by simp
  then show ?thesis
    using assms by (simp add: fill_position_def Let_def add.assoc)
qed

lemma buy_qty: "0 \<le> pos_qty p \<Longrightarrow> 0 < d \<Longrightarrow> 0 \<le> pos_qty (fill_position p (buy d x))"
  by (simp add: fill_position_def Let_def)

lemma slices_telescope:
  "cumulative (q0, a0) reports \<Longrightarrow> reports \<noteq> [] \<Longrightarrow> last reports = (q, a) \<Longrightarrow> 0 \<le> pos_qty p \<Longrightarrow>
    q0 < q \<and> fold (\<lambda>f p. fill_position p f) (booked_slices BUY (q0, a0) reports) p =
      fill_position p (buy (q - q0) ((q * a - q0 * a0) / (q - q0)))"
proof (induction BUY "(q0, a0)" reports arbitrary: q0 a0 p rule: booked_slices.induct)
  case (2 q0 a0 q1 a1 later)
  let ?x = "(q1 * a1 - q0 * a0) / (q1 - q0)"
  have step: "q0 < q1" "calculate_delta_fill_price q0 a0 q1 a1 = ?x"
    using "2.prems"(1) delta_price by auto
  show ?case
  proof (cases "later = []")
    case True
    then show ?thesis using "2.prems" step by (simp add: Let_def)
  next
    case False
    have "0 \<le> pos_qty (fill_position p (buy (q1 - q0) ?x))"
      using "2.prems"(4) step(1) by (intro buy_qty) auto
    from "2.hyps" [OF _ _ _ _ _ this] False "2.prems" step
    have rest: "q1 < q" "fold (\<lambda>f p. fill_position p f) (booked_slices BUY (q1, a1) later)
        (fill_position p (buy (q1 - q0) ?x)) =
        fill_position (fill_position p (buy (q1 - q0) ?x)) (buy (q - q1) ((q * a - q1 * a1) / (q - q1)))"
      by auto
    have "(q1 - q0) * ?x + (q - q1) * ((q * a - q1 * a1) / (q - q1)) = q * a - q0 * a0"
      using step(1) rest(1) by simp
    then show ?thesis
      using rest step "2.prems"(4) two_buys [of p "q1 - q0" "q - q1" ?x "(q * a - q1 * a1) / (q - q1)"]
      by (simp add: Let_def)
  qed
qed simp



section \<open>The paper simulator\<close>

lemma round4_near: "\<bar>py_round4 x - x\<bar> \<le> 1 / 20000"
proof -
  let ?y = "x * 10000"
  have f: "of_int \<lfloor>?y\<rfloor> \<le> ?y" "?y < of_int \<lfloor>?y\<rfloor> + 1"
    by linarith+
  define d where "d = ?y - of_int \<lfloor>?y\<rfloor>"
  define z :: rat where "z = (if d < 1 / 2 then of_int \<lfloor>?y\<rfloor> else if 1 / 2 < d then of_int \<lfloor>?y\<rfloor> + 1
    else if even \<lfloor>?y\<rfloor> then of_int \<lfloor>?y\<rfloor> else of_int \<lfloor>?y\<rfloor> + 1)"
  have r: "py_round4 x = z / 10000"
    by (simp only: py_round4_def Let_def z_def d_def)
  have "z = of_int \<lfloor>?y\<rfloor> \<and> d \<le> 1 / 2 \<or> z = of_int \<lfloor>?y\<rfloor> + 1 \<and> 1 / 2 \<le> d"
    by (simp add: z_def)
  then have "\<bar>z - ?y\<bar> \<le> 1 / 2"
    using f by (auto simp: abs_le_iff d_def)
  then have "\<bar>(z - ?y) / 10000\<bar> \<le> 1 / 20000"
    by simp
  then show ?thesis
    by (simp add: r diff_divide_distrib)
qed

text \<open>
  The paper simulator never flatters: with non-negative cost settings a simulated buy is filled at no less
  and a simulated sell at no more than the signal's price plus or minus the configured basis points, up to the
  rounding to four decimals.
\<close>

theorem paper_fill_is_adverse:
  "\<bar>paper_fill_price cf ap side -
    (ap_price_at_signal ap + (if side = BUY then 1 else - 1) * (ap_price_at_signal ap * adverse_bps cf / 10000))\<bar> \<le> 1 / 20000"
  using round4_near [of "ap_price_at_signal ap * (1 + (if side = BUY then 1 else - 1) * adverse_bps cf / 10000)"]
  by (auto simp: paper_fill_price_def algebra_simps)

lemma clamp_range:
  fixes qty :: rat
  assumes "1 < qty"
  shows "0 < max 1 (min (qty - 1) x) \<and> max 1 (min (qty - 1) x) \<le> qty"
  using assms by (simp add: less_max_iff_disj min_le_iff_disj)

lemma partial_quantity_range:
  assumes "0 < ap_quantity ap"
  shows "0 < paper_partial_quantity L cf ap \<and> paper_partial_quantity L cf ap \<le> ap_quantity ap"
  using assms clamp_range [of "ap_quantity ap"] unfolding paper_partial_quantity_def Let_def by (simp only: not_le split: if_split) simp

text \<open>
  Every simulated outcome is consistent: a rejected order has no filled quantity and a reason, a filled one
  exactly the ordered quantity, a partially filled one a quantity strictly between nothing and the order.
\<close>

theorem simulated_outcome_consistent:
  assumes "0 < ap_quantity ap"
  shows "case po_status (simulate_paper X ap) of
      REJECTED \<Rightarrow> po_quantity (simulate_paper X ap) = 0 \<and> po_reject (simulate_paper X ap) \<noteq> None
    | FILLED \<Rightarrow> po_quantity (simulate_paper X ap) = ap_quantity ap \<and> po_reject (simulate_paper X ap) = None
    | PARTIALLY_FILLED \<Rightarrow> 0 < po_quantity (simulate_paper X ap) \<and> po_quantity (simulate_paper X ap) < ap_quantity ap \<and>
        po_reject (simulate_paper X ap) = None
    | _ \<Rightarrow> False"
  using partial_quantity_range [OF assms, of "om_lib (ex_manager X)" "ex_paper X"]
  by (simp add: simulate_paper_def Let_def)

section \<open>Every step ends\<close>

text \<open>The only unbounded loop is the pagination of the open orders.\<close>

definition pages_fit :: "'w execution \<Rightarrow> bool" where
  "pages_fit X \<longleftrightarrow> (\<forall>w. get_open_orders (ex_fuel X) (ex_manager X) w \<noteq> None)"

named_theorems ends_intros "programs that return or raise from every state"

declare ends_rules [ends_intros]

lemma ends_outside [ends_intros]:
  "ends (world f)" "ends (plain g)" "ends (now_iso X)" "ends (stamped X h)" "ends (retrying X i)"
  "ends (emit_fill X a)" "ends (emit_rejection X b)" "ends (submit X q)" "ends (submit_child X q' c d)" "ends (apply_fill X sy fl ms)"
  by (auto simp: ends_def prog_defs world_def plain_def now_iso_def stamped_def retrying_def emit_fill_def emit_rejection_def
      submit_def submit_child_def apply_fill_def split: prod.splits sum.splits option.splits)

lemma ends_open [ends_intros]: "pages_fit X \<Longrightarrow> ends (open_orders X)"
  by (auto simp: ends_def open_orders_def pages_fit_def split: option.splits)

lemma ends_halts [ends_intros]:
  "ends (record_placement_failure X mk)" "ends (recover_ack_unknown_order X b q)" "ends (send_order X b q mk reason)"
  "ends (place_idempotent X b q mk allow reason)" "ends (cancel_one_open_order X so why)"
  unfolding record_placement_failure_def recover_ack_unknown_order_def send_order_def place_idempotent_def cancel_one_open_order_def
  by (intro ends_intros)+

lemma ends_activation [ends_intros]: "pages_fit X \<Longrightarrow> ends (handle_kill_switch_activation X reason)"
  unfolding handle_kill_switch_activation_def cancel_open_orders_def by (intro ends_intros)

lemma ends_refresh [ends_intros]: "pages_fit X \<Longrightarrow> ends (refresh_kill_switch X force cancel)"
  unfolding refresh_kill_switch_def durable_row_def by (intro ends_intros)

lemma ends_protection [ends_intros]: "pages_fit X \<Longrightarrow> ends (maybe_place_protective_stop X p entry qty fill_id)"
  unfolding maybe_place_protective_stop_def place_child_def handle_protective_stop_failure_def place_emergency_flatten_def Let_def
  by (intro ends_intros)

lemma ends_execute [ends_intros]: "pages_fit X \<Longrightarrow> ends (execute_approved_signal X c)"
  unfolding execute_approved_signal_def check_expiry_def universe_step_def dispatch_signal_def submit_first_def retry_pending_def
    resume_unknown_def generate_order_id_def settle_def
  by (intro ends_intros)

lemma ends_reconcile [ends_intros]: "pages_fit X \<Longrightarrow> ends (reconcile_state X)"
  unfolding reconcile_state_def reconcile_order_def reconcile_unknown_def reconcile_pending_def place_pending_protective_def
    reconcile_placed_def apply_status_fill_def Let_def
  by (intro ends_intros)

lemma ends_iteration [ends_intros]: "pages_fit X \<Longrightarrow> ends (loop_iteration X msg)"
  unfolding loop_iteration_def process_or_retry_def process_approved_def commit_if_def pause_gate_def poll_event_def
    handle_approved_signal_event_def handle_live_order_def report_response_def handle_paper_order_def record_paper_order_def
    announce_paper_order_def settle_paper_position_def route_retry_def route_dlq_def commit_offset_def Let_def
  by (intro ends_intros)

lemma ends_listen [ends_intros]: "pages_fit X \<Longrightarrow> ends (listen_iteration X msg)"
  unfolding listen_iteration_def invalid_switch_def handle_kill_switch_clear_def commit_offset_def
  by (cases "classify_switch (ex_codec X) (km_value msg)") (auto intro!: ends_intros)

text \<open>
  Every run of the service ends: when the paginated read of the open orders fits the fuel, every sequence of
  loop iterations, kill-switch records, polls, drift reports and start-ups returns, whatever the brokers, the
  tables and the topics answer or raise.
\<close>

theorem service_runs_end:
  assumes "\<forall>w. get_open_orders (ex_fuel X) (ex_manager X) w \<noteq> None"
  shows "\<exists>r t. run_service X cs s = Some (r, t)"
proof -
  have "pages_fit X"
    using assms by (simp add: pages_fit_def)
  then have "ends (service_step X c)" for c
    by (cases c) (auto simp: kill_switch_poll_round_def handle_position_drift_def intro!: ends_intros)
  then have "ends (run_service X cs)"
    unfolding run_service_def by (intro ends_intros)
  then show ?thesis
    by (auto simp: ends_def)
qed

section \<open>The approved universe\<close>

abbreviation same_universe :: "'w exec_state \<Rightarrow> 'w exec_state \<Rightarrow> bool" where
  "same_universe s t \<equiv> es_universe t = es_universe s"

interpretation universe: frame same_universe
  by unfold_locales simp_all

lemma universe_outside [keeps_intros]:
  "keeps same_universe (world f)" "keeps same_universe (plain g)" "keeps same_universe (stamped X h)"
  "keeps same_universe (retrying X i)" "keeps same_universe (open_orders X)"
  by (auto simp: keeps_def prog_defs world_def plain_def now_iso_def stamped_def retrying_def open_orders_def
      split: prod.splits sum.splits option.splits)

lemma universe_refresh: "keeps same_universe (refresh_kill_switch X force cancel)"
  unfolding refresh_kill_switch_def durable_row_def handle_kill_switch_activation_def cancel_open_orders_def
    cancel_one_open_order_def
  by (intro universe.keeps_rules keeps_intros universe.keeps_modify) simp_all

definition outside_universe :: "'w exec_state \<Rightarrow> exec_call \<Rightarrow> bool" where
  "outside_universe s c \<longleftrightarrow> xc_market c = NSE \<and>
    (\<exists>v. es_universe s = Some v \<and> uv_mode v = Some LIVE_ADVANCED \<and>
      (\<forall>sn. uv_snapshot v = Some sn \<longrightarrow> py_upper (xc_symbol c) \<notin> set (us_approved sn)))"

lemma outside_refused:
  assumes "outside_universe s c"
  shows "\<exists>e t. universe_step X c s = Some (Inl e, t)"
proof -
  obtain v where v: "es_universe s = Some v" "uv_mode v = Some LIVE_ADVANCED"
      "\<forall>sn. uv_snapshot v = Some sn \<longrightarrow> py_upper (xc_symbol c) \<notin> set (us_approved sn)" "xc_market c = NSE"
    using assms by (auto simp: outside_universe_def)
  have "\<not> ur_approved (universe_validate v (xc_symbol c) ''NSE'' today)" for today
    using live_approval [of v "xc_symbol c" today] v(2,3) by auto
  then show ?thesis
    using v by (simp add: universe_step_def prog_defs plain_def world_def split: prod.splits)
qed

lemma raises_after:
  assumes "keeps Q m" "\<And>x t. Q s t \<Longrightarrow> f x t = g x t \<and> (\<forall>r u. g x t = Some (r, u) \<longrightarrow> isl r)"
  shows "seq m f s = seq m g s \<and> (\<forall>r u. seq m g s = Some (r, u) \<longrightarrow> isl r)"
proof (cases "m s")
  case (Some p)
  obtain r t where p: "p = (r, t)" by fastforce
  then show ?thesis
    using assms(2) [OF keepsD [OF assms(1) Some [unfolded p]]] Some by (cases r) (simp_all add: seq_def)
qed (simp add: seq_def)

lemma outside_kept: "outside_universe s c \<Longrightarrow> same_universe s t \<Longrightarrow> outside_universe t c"
  by (simp add: outside_universe_def)

text \<open>
  No live order outside the universe: with a live validator whose snapshot does not contain the symbol (or
  without a snapshot) the execution of an approved NSE signal raises, and its outcome does not depend on what
  the brokers' \<open>place_order\<close> would answer, on every day and in every state.
\<close>

theorem unapproved_symbol_refused:
  assumes "outside_universe s c"
  shows "execute_approved_signal (other_placement p1 p2 X) c s = execute_approved_signal X c s \<and>
    (\<forall>r t. execute_approved_signal X c s = Some (r, t) \<longrightarrow> isl r)"
proof (cases "xc_risk_decision_id c = []")
  case True
  then show ?thesis by (simp add: execute_approved_signal_def throw_def)
next
  case False
  let ?Y = "other_placement p1 p2 X"
  have "universe_step ?Y c = universe_step X c"
    unfolding universe_step_def other_simps ..
  then have last: "seq (universe_step ?Y c) (\<lambda>_. dispatch_signal ?Y c) u = seq (universe_step X c) (\<lambda>_. dispatch_signal X c) u \<and>
      (\<forall>r t. seq (universe_step X c) (\<lambda>_. dispatch_signal X c) u = Some (r, t) \<longrightarrow> isl r)"
    if "same_universe s u" for u
    using outside_refused [OF outside_kept [OF assms that], of X] by (auto simp: seq_def)
  have gate: "(if es_ks_active u then throw RuntimeError else seq (universe_step ?Y c) (\<lambda>_. dispatch_signal ?Y c)) u =
        (if es_ks_active u then throw RuntimeError else seq (universe_step X c) (\<lambda>_. dispatch_signal X c)) u \<and>
      (\<forall>r t. (if es_ks_active u then throw RuntimeError else seq (universe_step X c) (\<lambda>_. dispatch_signal X c)) u = Some (r, t)
        \<longrightarrow> isl r)"
    if "same_universe s u" for u
    using last [OF that] by (auto simp: throw_def)
  have expiry: "keeps same_universe (check_expiry X c)"
    unfolding check_expiry_def by (intro universe.keeps_rules keeps_intros)
  show ?thesis
    unfolding execute_approved_signal_def if_not_P [OF False] other_events other_activation
  proof (rule raises_after [OF expiry], rule raises_after [OF universe_refresh])
    fix x y t u
    assume "same_universe s t" "same_universe t u"
    then have "same_universe s u" by simp
    then show "seq (read es_ks_active) (\<lambda>halted. if halted then throw RuntimeError
          else seq (universe_step ?Y c) (\<lambda>_. dispatch_signal ?Y c)) u =
        seq (read es_ks_active) (\<lambda>halted. if halted then throw RuntimeError
          else seq (universe_step X c) (\<lambda>_. dispatch_signal X c)) u \<and>
        (\<forall>r v. seq (read es_ks_active) (\<lambda>halted. if halted then throw RuntimeError
          else seq (universe_step X c) (\<lambda>_. dispatch_signal X c)) u = Some (r, v) \<longrightarrow> isl r)"
      unfolding seq_simps by (rule gate)
  qed
qed

end
