(* ===== verification/ExecutionFaults.thy ===== *)
theory ExecutionFaults
  imports ExecutionCases ExecutionFacts
begin

text \<open>
  Concrete runs of the execution service in which it does not keep what its comments promise: a stranded paper
  order that the start-up reconciliation places at the real broker, and a redelivered signal whose fill is
  booked a second time; and the witnesses of the properties of \<open>ExecutionSafety\<close> that use these events.
\<close>

section \<open>A paper order that reaches the real broker\<close>

definition book_event :: "bool \<Rightarrow> approved_event" where
  "book_event paper =
    \<lparr>ap_signal_id = ''s1'', ap_risk_decision_id = ''d1'', ap_trace_id = ''tr'', ap_strategy_id = ''st'', ap_symbol = ''INFY'',
     ap_market = ''NSE'', ap_strategy_name = ''n'', ap_direction = ''BUY'', ap_quantity = 10, ap_price_at_signal = 100,
     ap_stop_loss = Some 95, ap_take_profit = None, ap_product_type = ''MIS'', ap_expires_at = 60, ap_confidence = 1,
     ap_signal_time = 0, ap_approved_at = 0, ap_paper_trade = paper,
     ap_message = \<lparr>km_topic = ''signals.approved'', km_partition = 0, km_offset = 7, km_key = None, km_value = [], km_headers = []\<rparr>\<rparr>"

text \<open>The same environment while the updates of the orders table fail.\<close>

definition failing_updates :: "book execution" where
  "failing_updates = (book_execution False)\<lparr>ex_manager := book_manager\<lparr>om_dynamo :=
     Some (book_dynamo\<lparr>dy_update := \<lambda>w tbl k us c. (Inl OtherError, w)\<rparr>)\<rparr>\<rparr>"

text \<open>The order that the paper handler reserves, before and after the key of the broker call is attached.\<close>

definition paper_order :: order_request where
  "paper_order =
    \<lparr>oq_order_id = ''PAPER-ABC'', oq_signal_id = ''s1'', oq_risk_decision_id = ''d1'', oq_symbol = ''INFY'', oq_market = NSE,
     oq_side = BUY, oq_order_type = MARKET, oq_quantity = 10, oq_limit_price = Some 100, oq_stop_price = Some 95,
     oq_product_type = MIS, oq_extended_hours = False, oq_time_in_force = ''DAY'',
     oq_created_at = \<lparr>dt_iso = ''t'', dt_date = ''d''\<rparr>,
     oq_metadata = [(''take_profit'', JNull), (''paper_trade'', JBool True), (''paper_slippage_bps'', JNum 5),
       (''paper_spread_bps'', JNum 10), (''paper_market_open_gap_bps'', JNum 0)]\<rparr>"

definition keyed_paper_order :: order_request where
  "keyed_paper_order = attach_broker_idempotency book_lib paper_order"

abbreviation paper_tag :: str where
  "paper_tag \<equiv> ''QE000000000000000000''"

definition stranded_row :: item where
  "stranded_row = order_prices keyed_paper_order (order_item book_lib keyed_paper_order paper_tag ''t'')"

definition stranded_mem :: mem where
  "stranded_mem =
    [((''orders'', signal_lock_key ''s1''), signal_lock_item keyed_paper_order ''t''),
     ((''orders'', order_key ''PAPER-ABC''), stranded_row)]"

definition stranded_order :: stored_order where
  "stranded_order =
    \<lparr>op_order_id = ''PAPER-ABC'', op_broker_order_id = [], op_status = PENDING, op_symbol = ''INFY'', op_market = NSE,
     op_filled_quantity = 0, op_avg_fill_price = 0, op_broker_message = [], so_signal_id = ''s1'',
     so_risk_decision_id = ''d1'', so_side = BUY, so_order_type = MARKET, so_product_type = MIS, so_quantity = 10,
     so_limit_price = Some 100, so_stop_price = Some 95, so_parent_order_id = [], so_protective_type = [],
     so_is_protective = False, so_protective_stop_order_id = [], so_broker_idempotency_key = paper_tag,
     so_metadata = [(''paper_trade'', JBool True)]\<rparr>"

lemma paper_facts:
  "paper_request failing_updates 0 ''PAPER-ABC'' (book_event True) BUY NSE = Inr paper_order"
  "paper_fill_price (ex_paper failing_updates) (book_event True) BUY = 1001 / 10"
  "simulate_paper failing_updates (book_event True) = \<lparr>po_reject = None, po_quantity = 10, po_status = FILLED\<rparr>"
  "idempotency_attr keyed_paper_order = Inr paper_tag"
  "unmarshal_item book_lib stranded_row = Inr stranded_order"
  by code_simp+

lemma stranded_attrs:
  "stranded_row ''order_status'' = Some (S ''PENDING'')" "stranded_row ''signal_id'' = Some (S ''s1'')"
  "stranded_row ''PK'' = Some (S ''ORDER#PAPER-ABC'')" "stranded_row ''SK'' = Some (S ''META'')"
  by code_simp+

lemma paper_submitted:
  "submit_order (ex_manager failing_updates) ([], []) paper_order ''t'' ''t'' =
    (Inr True, keyed_paper_order, (stranded_mem, []))"
  using paper_facts(4)
  by (simp add: submit_order_def failing_updates_def book_manager_def book_dynamo_def on_tables_def mem_transact_def Let_def
      keyed_paper_order_def [symmetric] mem_tables_def stranded_mem_def stranded_row_def)
    (simp add: keyed_paper_order_def paper_order_def attach_broker_idempotency_def)

lemma stuck_fields:
  "ex_utc failing_updates = (\<lambda>w. (0, w))" "ex_hex failing_updates = (\<lambda>w. (''abc'', w))" "ex_codec failing_updates = book_codec"
  "ex_uuid failing_updates = (\<lambda>w. (''u'', w))" "ex_datetime failing_updates = (\<lambda>t. \<lparr>dt_iso = ''t'', dt_date = ''d''\<rparr>)"
  "ex_publisher failing_updates = \<lparr>oe_producer = None, oe_codec = book_codec\<rparr>"
  by (simp_all add: failing_updates_def book_execution_def)

lemma event_fields:
  "ap_expires_at (book_event p) = 60" "ap_direction (book_event p) = ''BUY''" "ap_market (book_event p) = ''NSE''"
  "ap_signal_id (book_event p) = ''s1''" "ap_paper_trade (book_event p) = p"
  by (simp_all add: book_event_def)

lemma stuck_position:
  "apply_fill_to_position (ex_manager failing_updates) (m, lg) sy f mk (t1, t2, t3) now = (False, (m, lg))"
  "attach_exit_policy (ex_manager failing_updates) (m, lg) sy sl tp pid now = (False, (m, lg))"
  by (simp_all add: apply_fill_to_position_def attach_exit_policy_def failing_updates_def book_manager_def book_dynamo_def
      on_tables_def mem_get_def Let_def)

lemma unrecorded: "\<exists>e. record_order (ex_manager failing_updates) (stranded_mem, []) r now = (Inl e, (stranded_mem, []))"
  by (simp add: status_run failing_updates_def book_manager_def book_dynamo_def on_tables_def mem_get_def stranded_mem_def
      stranded_attrs enum_members split: option.splits sum.splits)

lemma paper_handled:
  "handle_approved_signal_event failing_updates (book_event True) (book_state ([], [])) =
    Some (Inr True, book_state (stranded_mem, []))"
proof -
  let ?X = failing_updates and ?s = "book_state ([], [])" and ?t = "book_state (stranded_mem, [])"
  let ?out = "\<lparr>po_reject = None, po_quantity = 10, po_status = FILLED\<rparr>"
  have fresh: "get_order_by_signal (ex_manager ?X) ([], []) ''s1'' = (None, ([], []))"
    by (simp add: get_order_by_signal_def failing_updates_def book_manager_def book_dynamo_def on_tables_def mem_query_def)
  obtain e where "record_order (ex_manager ?X) (stranded_mem, [])
      \<lparr>op_order_id = ''PAPER-ABC'', op_broker_order_id = ''PAPER-ABC'', op_status = FILLED,
       op_symbol = ap_symbol (book_event True), op_market = NSE, op_filled_quantity = 10, op_avg_fill_price = 1001 / 10,
       op_broker_message = ''FILLED''\<rparr> ''t'' = (Inl e, (stranded_mem, []))"
    using unrecorded by blast
  then have recorded: "record_paper_order ?X ''PAPER-ABC'' (book_event True) BUY NSE ?out (1001 / 10) ?s = Some (Inr True, ?t)"
    using paper_submitted paper_facts(1)
    by (simp add: record_paper_order_def prog_run stuck_fields submit_def book_codec_def book_state_def paper_response_def)
  have announced: "announce_paper_order ?X ''PAPER-ABC'' (book_event True) ?out (1001 / 10) ?t = Some (Inr (), ?t)"
    by (simp add: announce_paper_order_def prog_run stuck_fields emit_fill_def publish_fill_def produce_order_event_def book_state_def split: sum.splits)
  have settled: "settle_paper_position ?X (book_event True) BUY ?out (1001 / 10) ?t = Some (Inr (), ?t)"
    by (simp add: settle_paper_position_def prog_run stuck_fields apply_fill_def stuck_position book_codec_def book_state_def)
  show ?thesis
    using fresh recorded announced settled
    by (simp add: handle_approved_signal_event_def handle_paper_order_def prog_run stuck_fields book_state_def Let_def
        paper_facts upper_members event_fields enum_members)
qed

lemma stranded_open: "get_open_orders 1 book_manager (stranded_mem, lg) = Some ([stranded_order], (stranded_mem, lg))"
  using paper_facts(5) stranded_attrs
  by (simp add: get_open_orders_def OPEN_STATUSES_def query_pages_def book_run stranded_mem_def signal_lock_item_def signal_lock_key_def)

lemma stranded_by_signal: "get_order_by_signal book_manager (stranded_mem, lg) ''s1'' = (Some stranded_order, (stranded_mem, lg))"
  using paper_facts(5) stranded_attrs
  by (simp add: get_order_by_signal_def book_run stranded_mem_def signal_lock_item_def signal_lock_key_def)

lemma stranded_quiet: "mem_tables stranded_mem ''risk'' kill_switch_key = None"
  by (simp add: mem_tables_def stranded_mem_def)

lemma stranded_placed:
  "\<exists>r t. retry_pending (book_execution False) (stored_call (book_execution False) stranded_order) stranded_order
      (book_state (stranded_mem, [])) = Some (Inr r, t) \<and> snd (es_world t) = [(NSE, paper_tag)]"
  using stranded_attrs
  by (simp add: retry_pending_def stored_call_def stranded_order_def stranded_mem_def placement_run
      prog_run book_run book_state_def pending_request_def merged_metadata_def expiry_json_def stored_expiry_def Let_def
      status_run enum_members recover_ack_unknown_order_def record_placement_failure_def signal_lock_key_def)

text \<open>
  C10 A paper order can reach the real broker: when the write of a paper order's result fails, the handler
  reports success and leaves its row PENDING; the start-up reconciliation has no paper check and places that
  row, whose metadata says that it is a paper order, at the broker.
\<close>

theorem paper_order_placed_at_broker:
  "\<exists>s1 t. handle_approved_signal_event failing_updates (book_event True) (book_state ([], [])) = Some (Inr True, s1) \<and>
    snd (es_world s1) = [] \<and> reconcile_state (book_execution False) s1 = Some (Inr (), t) \<and>
    snd (es_world t) = [(NSE, paper_tag)]"
proof -
  obtain r t where "execute_approved_signal (book_execution False) (stored_call (book_execution False) stranded_order)
      (book_state (stranded_mem, [])) = Some (Inr r, t)" "snd (es_world t) = [(NSE, paper_tag)]"
    using stranded_placed pending_execute [of "(stranded_mem, [])" stranded_order False] stranded_by_signal stranded_quiet
    by (auto simp: stranded_order_def json_get_def)
  then have "reconcile_state (book_execution False) (book_state (stranded_mem, [])) = Some (Inr (), t)"
    unfolding pending_start [OF stranded_open]
    by (simp add: reconcile_order_def reconcile_pending_def stranded_order_def is_protective_order_def json_get_def
        seq_def try_catch_def ret_def)
  then show ?thesis
    using paper_handled \<open>snd (es_world t) = _\<close> by (auto simp: book_fields(3))
qed

section \<open>A fill that is booked twice\<close>

text \<open>The rows after an approved signal was executed and its fill applied.\<close>

definition filled_row :: item where
  "filled_row = (reserved_row ''QE1'')(''order_status'' \<mapsto> S ''FILLED'', ''filled_quantity'' \<mapsto> N 10,
     ''avg_fill_price'' \<mapsto> N 100, ''broker_order_id'' \<mapsto> S ''B-QE0'')"

definition filled_position :: item where
  "filled_position = [''PK'' \<mapsto> S ''INFY'', ''quantity'' \<mapsto> N 10, ''avg_price'' \<mapsto> N 100, ''cost_basis'' \<mapsto> N 1000,
     ''updated_at'' \<mapsto> S ''t'']"

definition filled_mem :: mem where
  "filled_mem = [((''orders'', order_key ''QE1''), filled_row), ((''positions'', position_key ''INFY''), filled_position)]"

definition filled_order :: stored_order where
  "filled_order = (reserved_order ''QE1'')\<lparr>op_status := FILLED, op_filled_quantity := 10, op_avg_fill_price := 100,
     op_broker_order_id := ''B-QE0''\<rparr>"

definition filled_response :: order_response where
  "filled_response = order_response.truncate filled_order"

lemma filled_response_fields:
  "op_status filled_response = FILLED" "op_filled_quantity filled_response = 10" "op_avg_fill_price filled_response = 100"
  "op_order_id filled_response = ''QE1''"
  by (simp_all add: filled_response_def order_response.truncate_def filled_order_def reserved_order_def)

lemma filled_facts:
  "unmarshal_item book_lib filled_row = Inr filled_order"
  "filled_row ''PK'' = Some (S ''ORDER#QE1'')" "filled_row ''SK'' = Some (S ''META'')" "filled_row ''signal_id'' = Some (S ''s1'')"
  "read_position filled_position = \<lparr>pos_qty = 10, pos_avg = 100, pos_cost = 1000, pos_realized = 0\<rparr>"
  "fill_condition filled_position = AttrEq ''updated_at'' (S ''t'')" "filled_position ''updated_at'' = Some (S ''t'')"
  by code_simp+

lemma filled_by_signal: "get_order_by_signal book_manager (filled_mem, lg) ''s1'' = (Some filled_order, (filled_mem, lg))"
  using filled_facts
  by (simp add: get_order_by_signal_def book_run filled_mem_def order_key_def filled_position_def)

lemma filled_quiet: "mem_tables filled_mem ''risk'' kill_switch_key = None"
  by (simp add: mem_tables_def filled_mem_def)

lemma refilled:
  "\<exists>m. apply_fill_to_position book_manager (filled_mem, lg) ''INFY'' \<lparr>fl_side = BUY, fl_qty = 10, fl_price = 100, fl_last = 100\<rparr>
      (Some ''NSE'') (t1, t2, t3) now = (True, (m, lg)) \<and>
    (\<exists>i. mem_tables m ''positions'' (position_key ''INFY'') = Some i \<and> pos_qty (read_position i) = 20)"
  using filled_facts
  by (simp add: apply_fill_to_position_def book_run filled_mem_def order_key_def position_key_def write_nav_snapshot_def Let_def
      read_row_def fill_position_def updated_row_fill_reads)

lemma event_symbol: "ap_symbol (book_event p) = ''INFY''" "ap_product_type (book_event p) = ''MIS''"
  by (simp_all add: book_event_def)

lemma book_outside:
  "ex_utc (book_execution lost) = (\<lambda>w. (0, w))" "ex_uuid (book_execution lost) = (\<lambda>w. (''u'', w))"
  "ex_codec (book_execution lost) = book_codec" "ex_publisher (book_execution lost) = \<lparr>oe_producer = None, oe_codec = book_codec\<rparr>"
  by (simp_all add: book_execution_def)

lemma filled_execute:
  "execute_approved_signal (book_execution lost) (live_call (book_event False) BUY NSE MIS) (book_state (filled_mem, lg)) =
    Some (Inr (filled_response), book_state (filled_mem, lg))"
  using book_refresh [of "(filled_mem, lg)" lost, unfolded book_state_def] filled_quiet filled_by_signal [of lg]
  by (simp add: execute_approved_signal_def live_call_def book_event_def seq_def check_expiry_def universe_step_def
      dispatch_signal_def read_def ret_def plain_def world_def book_fields(1,2) book_state_def book_execution_def
      filled_order_def reserved_order_def filled_response_def)

lemma filled_announced:
  "emit_fill (book_execution False) (fill_event_args (book_execution False) (book_event False) ''QE1'' 10 100
      (acked_id filled_response) None) (book_state w) = Some (Inr (), book_state w)"
proof -
  have "case build_fill_event book_codec ''u'' ''u'' 0 (fill_event_args (book_execution False) (book_event False) ''QE1'' 10 100
      (acked_id filled_response) None) of Inl e \<Rightarrow> False | Inr b \<Rightarrow> True"
    by code_simp
  then show ?thesis
    by (simp add: emit_fill_def publish_fill_def produce_order_event_def prog_run book_outside book_state_def split: sum.splits)
qed

text \<open>
  A redelivered approved signal is booked twice: the order is filled and its fill is in the position (10
  shares); the same event arrives again, as after a commit that failed.  No second order is placed, but the
  handler applies the fill of the stored order to the position once more, which then holds 20.
\<close>

theorem redelivered_fill_booked_twice:
  "\<exists>t i. handle_approved_signal_event (book_execution False) (book_event False) (book_state (filled_mem, [])) = Some (Inr True, t) \<and>
    pos_qty (read_position filled_position) = 10 \<and>
    mem_tables (fst (es_world t)) ''positions'' (position_key ''INFY'') = Some i \<and> pos_qty (read_position i) = 20 \<and>
    snd (es_world t) = []"
proof -
  obtain m i where fill: "apply_fill_to_position book_manager (filled_mem, []) ''INFY''
      \<lparr>fl_side = BUY, fl_qty = 10, fl_price = 100, fl_last = 100\<rparr> (Some ''NSE'') (''t'', ''t'', ''t'') ''t'' = (True, (m, []))"
      "mem_tables m ''positions'' (position_key ''INFY'') = Some i" "pos_qty (read_position i) = 20"
    using refilled [of "[]" "''t''" "''t''" "''t''" "''t''"] by auto
  have "report_response (book_execution False) (book_event False) BUY NSE (filled_response)
      (book_state (filled_mem, [])) = Some (Inr (), book_state (m, []))"
    using fill(1) filled_announced [of "(m, [])", unfolded book_state_def]
    by (simp add: report_response_def filled_response_fields prog_run apply_fill_def book_state_def book_fields(1) book_outside
        event_fields event_symbol book_codec_def)
  then show ?thesis
    using filled_execute [of False "[]"] fill filled_facts(5)
    by (simp add: handle_approved_signal_event_def handle_live_order_def prog_run book_fields(1) book_outside event_fields
        event_symbol upper_members enum_members book_state_def)
qed

section \<open>Witnesses\<close>

definition halted_state :: "book exec_state" where
  "halted_state = (book_state ([], []))\<lparr>es_ks_active := True, es_ks_reason := ''manual''\<rparr>"


lemma paper_signals_isolated_witness:
  "process_or_retry (other_brokers (book_broker True NSE) (book_broker True US) (\<lambda>p e w. (Inl RuntimeError, w)) failing_updates)
      (book_event True) = process_or_retry failing_updates (book_event True)"
  by (rule paper_signals_isolated) (simp add: book_event_def)

lemma book_pages: "get_open_orders 1 book_manager w \<noteq> None"
  by (simp add: get_open_orders_def OPEN_STATUSES_def query_pages_def book_run split: sum.splits)

lemma service_runs_end_witness:
  "\<exists>r t. run_service (book_execution True) [StartUp, Iterate None, KillSwitchPoll] (book_state (reserved_mem ''a'', [])) = Some (r, t)"
  using service_runs_end [of "book_execution True"] book_pages by (simp add: book_fields)

lemma unapproved_symbol_refused_witness:
  "\<exists>e t. execute_approved_signal (book_execution False) (live_call (book_event False) BUY NSE MIS)
    ((book_state ([], []))\<lparr>es_universe := Some (new_universe_validator None (Some LIVE_ADVANCED))\<rparr>) = Some (Inl e, t)"
proof -
  let ?s = "(book_state ([], []))\<lparr>es_universe := Some (new_universe_validator None (Some LIVE_ADVANCED))\<rparr>"
  let ?c = "live_call (book_event False) BUY NSE MIS"
  have "ends (execute_approved_signal (book_execution False) ?c)"
    using book_pages by (intro ends_execute) (simp only: pages_fit_def book_fields, blast)
  then obtain r t where run: "execute_approved_signal (book_execution False) ?c ?s = Some (r, t)"
    unfolding ends_def by (metis not_Some_eq surj_pair)
  moreover have "outside_universe ?s ?c"
    by (simp add: outside_universe_def live_call_def new_universe_validator_def)
  ultimately have "isl r"
    using unapproved_symbol_refused [of ?s ?c "\<lambda>w q. (Inl TimeoutError, w)" "\<lambda>w q. (Inl TimeoutError, w)" "book_execution False"]
    by blast
  then show ?thesis
    using run by (cases r) auto
qed

lemma simulated_outcome_consistent_witness:
  "po_status (simulate_paper failing_updates (book_event True)) = FILLED \<and>
    po_quantity (simulate_paper failing_updates (book_event True)) = ap_quantity (book_event True)"
  using simulated_outcome_consistent [of "book_event True" failing_updates] paper_facts(3) by (simp add: book_event_def)

text \<open>A broker that refuses every order, without tables.\<close>

definition refusing :: "book execution" where
  "refusing = (book_execution False)\<lparr>ex_zerodha := (book_broker False NSE)\<lparr>br_place := \<lambda>w q. (Inl NonRetryableBrokerError, w)\<rparr>,
     ex_manager := book_manager\<lparr>om_dynamo := None\<rparr>\<rparr>"

lemma refusing_fields:
  "ex_zerodha refusing = (book_broker False NSE)\<lparr>br_place := \<lambda>w q. (Inl NonRetryableBrokerError, w)\<rparr>"
  "om_dynamo (ex_manager refusing) = None" "ex_fuel refusing = 1" "ex_acquire refusing = (\<lambda>p e w. (Inr (), w))"
  "ex_utc refusing = (\<lambda>w. (0, w))"
  by (simp_all add: refusing_def book_execution_def)

lemma refusing_view: "pv_market (request_view keyed_paper_order) = NSE"
  by code_simp

lemma refusing_flatten:
  "validate_order_request False (flatten_request refusing now p filled_response 10 f) = Inr (flatten_request refusing now p filled_response 10 f)"
  by (simp add: validate_order_request_def flatten_request_def new_request_def)


end
