(* ===== verification/PollerFaults.thy ===== *)
theory PollerFaults
  imports PollerSafety ExecutionFaults
begin

text \<open>
  A run of the bulk order poller in which a fill is counted twice, because the poller does not look at the
  result of its status write; and the witnesses of the properties of \<open>PollerSafety\<close>.
\<close>

section \<open>A partial fill that is counted twice\<close>

text \<open>The updates of the orders table fail; the tables of positions and fills work.\<close>

definition polled_row :: item where
  "polled_row = (reserved_row ''QE1'')(''order_status'' \<mapsto> S ''PLACED'', ''broker_order_id'' \<mapsto> S ''B-QE0'')"

definition polled_mem :: mem where
  "polled_mem = [((''orders'', order_key ''QE1''), polled_row)]"

definition polled_execution :: "book execution" where
  "polled_execution = (book_execution False)\<lparr>
     ex_codec := book_codec\<lparr>jc_str := \<lambda>j. if j = JNum 4 then ''4'' else ''10''\<rparr>,
     ex_manager := book_manager\<lparr>om_lib := book_lib\<lparr>py_sha256_hex := \<lambda>s. s\<rparr>,
       om_dynamo := Some (book_dynamo\<lparr>dy_update := \<lambda>w tbl k us c. if tbl = ''orders'' then (Inl OtherError, w)
         else on_tables (\<lambda>m. mem_update m tbl k us c) w\<rparr>)\<rparr>\<rparr>"

definition book_poller :: "str \<Rightarrow> rat \<Rightarrow> book poller" where
  "book_poller st q = \<lparr>bp_all_orders = (\<lambda>w. (Inr [\<lparr>bw_order_id = ''B-QE0'', bw_status = st, bw_filled_quantity = q,
      bw_average_price = 100, bw_status_message = []\<rparr>], w)), bp_dynamo = Some book_dynamo, bp_fills_table = ''fills'',
    bp_protects = False, bp_publishes = False\<rparr>"

definition book_polls :: "str list \<Rightarrow> mem \<Rightarrow> book poll_state" where
  "book_polls ids m = \<lparr>pl_phase = NORMAL_SESSION, pl_tracked = ids, pl_errors = 0, pl_service = book_state (m, [])\<rparr>"

definition polled_order :: stored_order where
  "polled_order = (reserved_order ''QE1'')\<lparr>op_status := PLACED, op_broker_order_id := ''B-QE0''\<rparr>"

lemma polled_facts:
  "unmarshal_item (book_lib\<lparr>py_sha256_hex := \<lambda>s. s\<rparr>) polled_row = Inr polled_order"
  "polled_row ''PK'' = Some (S ''ORDER#QE1'')" "polled_row ''SK'' = Some (S ''META'')"
  "polled_row ''order_status'' = Some (S ''PLACED'')"
  by code_simp+

lemma polled_open:
  assumes "filter (\<lambda>e. fst (fst e) = ''orders'') m = [((''orders'', order_key ''QE1''), polled_row)]"
  shows "get_open_orders 1 (ex_manager polled_execution) (m, lg) = Some ([polled_order], (m, lg))"
proof -
  have "filter (\<lambda>e. fst (fst e) = ''orders'' \<and> P e) m = (if P ((''orders'', order_key ''QE1''), polled_row) then
      [((''orders'', order_key ''QE1''), polled_row)] else [])" for P
    using arg_cong [OF assms, of "filter P"] by (simp add: conj_commute)
  then show ?thesis
    using polled_facts
    by (simp add: get_open_orders_def OPEN_STATUSES_def query_pages_def book_run polled_execution_def order_key_def)
qed

lemma polled_client:
  "om_dynamo (ex_manager polled_execution) = Some (book_dynamo\<lparr>dy_update := \<lambda>w tbl k us c. if tbl = ''orders'' then (Inl OtherError, w)
     else on_tables (\<lambda>m. mem_update m tbl k us c) w\<rparr>)"
  "om_positions_table (ex_manager polled_execution) = ''positions''" "om_risk_state_table (ex_manager polled_execution) = ''risk''"
  "om_orders_table (ex_manager polled_execution) = ''orders''"
  by (simp_all add: polled_execution_def book_manager_def)

lemma polled_nav:
  "\<exists>ms. write_nav_snapshot (ex_manager polled_execution) (m, lg) side q p now = (ms @ m, lg) \<and> (\<forall>e \<in> set ms. fst (fst e) = ''risk'')"
  unfolding write_nav_snapshot_def polled_client
  by (simp add: book_dynamo_def on_tables_def mem_get_def mem_put_def mem_update_def Let_def)

lemma polled_booking:
  assumes "case mem_tables m ''positions'' (position_key ''INFY'') of None \<Rightarrow> q0 = 0
     | Some i \<Rightarrow> i ''updated_at'' = Some (S ''t'') \<and> pos_qty (read_position i) = q0"
  shows "\<exists>ms i. apply_fill_to_position (ex_manager polled_execution) (m, lg) ''INFY''
      \<lparr>fl_side = BUY, fl_qty = q, fl_price = p, fl_last = p\<rparr> (Some ''NSE'') (''t'', ''t'', ''t'') ''t'' = (True, (ms @ m, lg)) \<and>
    (\<forall>e \<in> set ms. fst (fst e) \<in> {''positions'', ''risk''}) \<and>
    mem_tables (ms @ m) ''positions'' (position_key ''INFY'') = Some i \<and>
    i ''updated_at'' = Some (S ''t'') \<and> pos_qty (read_position i) = q0 + q"
proof -
  let ?row = "mem_tables m ''positions'' (position_key ''INFY'')"
  let ?p = "fill_position (read_position (read_row ?row)) \<lparr>fl_side = BUY, fl_qty = q, fl_price = p, fl_last = p\<rparr>"
  define i where "i = updated_row (position_key ''INFY'') (fill_updates ''INFY'' True ''t'' ?p p) ?row"
  have "read_position Map.empty = \<lparr>pos_qty = 0, pos_avg = 0, pos_cost = 0, pos_realized = 0\<rparr>"
    by code_simp
  then have qty: "pos_qty ?p = q0 + q" and free: "cond_holds (fill_condition (read_row ?row)) (position_key ''INFY'') ?row"
    using assms by (auto simp: fill_position_def read_row_def fill_condition_def str_attr_def position_key_def Let_def split: option.splits)
  obtain ms where nav: "write_nav_snapshot (ex_manager polled_execution) (((''positions'', position_key ''INFY''), i) # m, lg) BUY q p ''t'' =
      (ms @ ((''positions'', position_key ''INFY''), i) # m, lg)" and ms: "\<forall>e \<in> set ms. fst (fst e) = ''risk''"
    using polled_nav by blast
  have "mem_tables (ms @ m') ''positions'' k = mem_tables m' ''positions'' k" for m' k
    using ms by (induction ms) (auto simp: mem_tables_def)
  from this [of "((''positions'', position_key ''INFY''), i) # m" "position_key ''INFY''"]
  have "mem_tables ((ms @ [((''positions'', position_key ''INFY''), i)]) @ m) ''positions'' (position_key ''INFY'') = Some i"
    by (simp add: mem_tables_def)
  moreover have "apply_fill_to_position (ex_manager polled_execution) (m, lg) ''INFY''
      \<lparr>fl_side = BUY, fl_qty = q, fl_price = p, fl_last = p\<rparr> (Some ''NSE'') (''t'', ''t'', ''t'') ''t'' =
    (True, ((ms @ [((''positions'', position_key ''INFY''), i)]) @ m, lg))"
    using nav free unfolding apply_fill_to_position_def polled_client
    by (simp add: book_dynamo_def on_tables_def mem_get_def mem_update_def Let_def i_def)
  moreover have "i ''updated_at'' = Some (S ''t'')" "pos_qty (read_position i) = q0 + q"
    using qty by (simp_all add: i_def updated_row_fill_reads updated_row_fill_version)
  moreover have "\<forall>e \<in> set (ms @ [((''positions'', position_key ''INFY''), i)]). fst (fst e) \<in> {''positions'', ''risk''}"
    using ms by simp
  ultimately show ?thesis
    by blast
qed

lemma polled_status:
  assumes "mem_tables m ''orders'' (order_key ''QE1'') = Some polled_row"
  shows "update_order_status (ex_manager polled_execution) (m, lg) ''QE1'' st q p msg now = (Inr False, (m, lg))"
proof -
  have "get_order (ex_manager polled_execution) (m, lg) ''QE1'' = (Some polled_row, (m, lg))"
    unfolding get_order_def polled_client using assms by (simp add: book_dynamo_def on_tables_def mem_get_def)
  then show ?thesis
    unfolding update_order_status_def transition_order_status_def previous_status_def polled_client
    by (simp add: transition_defaults_def str_attr_def polled_facts enum_members)
qed

text \<open>One round that finds the order in the broker's list.\<close>

lemma polled_round:
  assumes "filter (\<lambda>e. fst (fst e) = ''orders'') m = [((''orders'', order_key ''QE1''), polled_row)]"
    "row_task polled_execution (book_poller st q) [polled_order] \<lparr>bw_order_id = ''B-QE0'', bw_status = st,
       bw_filled_quantity = q, bw_average_price = 100, bw_status_message = []\<rparr> (book_state (m, [])) = Some (Inr (), book_state (m', []))"
  shows "poll_round polled_execution (book_poller st q) (book_polls ids m) = Some (Inr (), book_polls [''B-QE0''] m')"
proof -
  have fields: "ex_fuel polled_execution = 1" "ex_acquire polled_execution = (\<lambda>p e w. (Inr (), w))"
    by (simp_all add: polled_execution_def book_execution_def)
  have order: "tracked_order polled_order" "op_broker_order_id polled_order = ''B-QE0''"
    by (simp_all add: tracked_order_def polled_order_def reserved_order_def)
  have rows: "bp_all_orders (book_poller st q) = (\<lambda>w. (Inr [\<lparr>bw_order_id = ''B-QE0'', bw_status = st, bw_filled_quantity = q,
      bw_average_price = 100, bw_status_message = []\<rparr>], w))"
    by (simp add: book_poller_def)
  have "on_service (open_orders polled_execution) (book_polls ids m) = Some (Inr [polled_order], book_polls ids m)"
    using polled_open [OF assms(1)]
    by (simp add: on_service_def open_orders_def book_polls_def book_state_def fields)
  then show ?thesis
    using assms(2) unfolding poll_round_def poll_cycle_def
    by (simp add: try_catch_def seq_def on_service_def prog_defs world_def book_polls_def book_state_def fields order rows Let_def)
qed

lemma polled_clock:
  "ex_utc polled_execution = (\<lambda>w. (0, w))"
  "now_iso polled_execution s = Some (Inr ''t'', s)"
  by (simp_all add: now_iso_def polled_execution_def book_execution_def plain_def world_def prog_defs book_codec_def)

lemma polled_gate:
  assumes "mem_tables m ''fills'' (fill_record_key (compute_fill_id polled_execution (op_broker_order_id so) q p)) = None"
  shows "\<exists>r. admit_fill polled_execution (book_poller st b) so q p (book_state (m, lg)) = Some (Inr True, book_state
    (((''fills'', fill_record_key (compute_fill_id polled_execution (op_broker_order_id so) q p)), r) # m, lg))"
  using assms
  by (simp add: admit_fill_def polled_clock plain_def write_fill_record_def book_poller_def prog_defs world_def book_dynamo_def
      on_tables_def mem_put_def book_state_def)

lemma polled_set_status:
  assumes "mem_tables m ''orders'' (order_key ''QE1'') = Some polled_row"
  shows "set_status polled_execution ''QE1'' st q p msg (book_state (m, lg)) = Some (Inr False, book_state (m, lg))"
  using polled_status [OF assms]
  by (simp add: stamped_def polled_clock plain_def prog_defs world_def book_state_def)

lemma polled_order_fields:
  "op_order_id polled_order = ''QE1''" "op_broker_order_id polled_order = ''B-QE0''" "op_symbol polled_order = ''INFY''"
  "op_market polled_order = NSE" "so_side polled_order = BUY" "op_filled_quantity polled_order = 0" "op_avg_fill_price polled_order = 0"
  by (simp_all add: polled_order_def reserved_order_def)

lemma polled_fill_price: "0 < q \<Longrightarrow> calculate_delta_fill_price 0 0 q 100 = 100"
  by (simp add: calculate_delta_fill_price_def)

text \<open>A report that the gate lets through is booked; the failed write leaves the row of the order as it was.\<close>

lemma polled_report:
  assumes "st = ''PARTIALLY FILLED'' \<or> st = ''COMPLETE''" "0 < q"
    and new: "mem_tables m ''fills'' (fill_record_key (compute_fill_id polled_execution ''B-QE0'' q 100)) = None"
    and order: "mem_tables m ''orders'' (order_key ''QE1'') = Some polled_row"
    and held: "case mem_tables m ''positions'' (position_key ''INFY'') of None \<Rightarrow> q0 = 0
     | Some i \<Rightarrow> i ''updated_at'' = Some (S ''t'') \<and> pos_qty (read_position i) = q0"
  shows "\<exists>ms r i. row_task polled_execution (book_poller st q) [polled_order] \<lparr>bw_order_id = ''B-QE0'', bw_status = st,
      bw_filled_quantity = q, bw_average_price = 100, bw_status_message = []\<rparr> (book_state (m, [])) =
        Some (Inr (), book_state (ms @ ((''fills'', fill_record_key (compute_fill_id polled_execution ''B-QE0'' q 100)), r) # m, [])) \<and>
    (\<forall>e \<in> set ms. fst (fst e) \<in> {''positions'', ''risk''}) \<and>
    mem_tables (ms @ ((''fills'', fill_record_key (compute_fill_id polled_execution ''B-QE0'' q 100)), r) # m) ''positions''
      (position_key ''INFY'') = Some i \<and> i ''updated_at'' = Some (S ''t'') \<and> pos_qty (read_position i) = q0 + q"
proof -
  let ?k = "(''fills'', fill_record_key (compute_fill_id polled_execution ''B-QE0'' q 100))"
  obtain r where gate: "admit_fill polled_execution (book_poller st q) polled_order q 100 (book_state (m, [])) =
      Some (Inr True, book_state ((?k, r) # m, []))"
    using polled_gate [of m polled_order q 100 st q "[]"] new by (auto simp: polled_order_fields)
  let ?m = "(?k, r) # m"
  have status: "set_status polled_execution ''QE1'' s q 100 [] (book_state (?m, [])) = Some (Inr False, book_state (?m, []))" for s
    by (rule polled_set_status) (use order in \<open>simp add: mem_tables_def\<close>)
  have held': "case mem_tables ?m ''positions'' (position_key ''INFY'') of None \<Rightarrow> q0 = 0
     | Some i \<Rightarrow> i ''updated_at'' = Some (S ''t'') \<and> pos_qty (read_position i) = q0"
    using held by (simp add: mem_tables_def)
  obtain ms i where book: "apply_fill_to_position (ex_manager polled_execution) (?m, []) ''INFY''
      \<lparr>fl_side = BUY, fl_qty = q, fl_price = 100, fl_last = 100\<rparr> (Some ''NSE'') (''t'', ''t'', ''t'') ''t'' = (True, (ms @ ?m, []))"
    and ms: "\<forall>e \<in> set ms. fst (fst e) \<in> {''positions'', ''risk''}"
    and pos: "mem_tables (ms @ ?m) ''positions'' (position_key ''INFY'') = Some i"
      "i ''updated_at'' = Some (S ''t'')" "pos_qty (read_position i) = q0 + q"
    using polled_booking [OF held', of "[]" q 100] by blast
  have fill: "book_delta polled_execution polled_order q 100 (book_state (?m, [])) = Some (Inr (), book_state (ms @ ?m, []))"
    using book by (simp add: book_delta_def apply_fill_def polled_clock plain_def prog_defs world_def book_state_def polled_order_fields)
  have free: "protect_delta polled_execution (book_poller st q) so d fid = ret ()" "\<not> bp_publishes (book_poller st q)" for so d fid
    by (simp_all add: protect_delta_def book_poller_def)
  have texts: "py_upper ''PARTIALLY FILLED'' = ''PARTIALLY FILLED''" "py_upper ''COMPLETE'' = ''COMPLETE''"
      "py_in ''PARTIALLY'' ''PARTIALLY FILLED''"
    by code_simp+
  have "row_task polled_execution (book_poller st q) [polled_order] \<lparr>bw_order_id = ''B-QE0'', bw_status = st,
      bw_filled_quantity = q, bw_average_price = 100, bw_status_message = []\<rparr> (book_state (m, [])) = Some (Inr (), book_state (ms @ ?m, []))"
    using assms(1,2) gate status fill
    by (auto simp: row_task_def polled_order_fields texts handle_fill_def handle_partial_def polled_fill_price free seq_def Let_def ret_def)
  then show ?thesis
    using ms pos by blast
qed

lemma polled_orders_kept:
  assumes "\<forall>e \<in> set ms. fst (fst e) \<in> {''positions'', ''risk''}"
  shows "filter (\<lambda>e. fst (fst e) = ''orders'') ms = []" "mem_tables (ms @ m) ''fills'' k = mem_tables m ''fills'' k"
    "mem_tables (ms @ m) ''orders'' k = mem_tables m ''orders'' k"
  using assms by (induction ms) (auto simp: mem_tables_def)

text \<open>
  A partial fill is counted twice when the status write is lost: the poller sees 4 of 10 shares filled,
  records the fill, cannot write the status (the client error is answered by \<open>False\<close>, which the poller does
  not look at) and books 4 shares; when the order is complete it computes the increment from the row, which
  still says nothing was filled, and books 10 more.  The broker filled 10, the position holds 14, and both
  rounds count as without error.
\<close>

theorem partial_fill_counted_twice:
  "\<exists>t i. seq (poll_round polled_execution (book_poller ''PARTIALLY FILLED'' 4))
      (\<lambda>_. poll_round polled_execution (book_poller ''COMPLETE'' 10)) (book_polls [] polled_mem) = Some (Inr (), t) \<and>
    mem_tables (fst (es_world (pl_service t))) ''positions'' (position_key ''INFY'') = Some i \<and>
    pos_qty (read_position i) = 14 \<and> pl_errors t = 0"
proof -
  let ?k = "\<lambda>q. fill_record_key (compute_fill_id polled_execution ''B-QE0'' q 100)"
  have keys: "?k 4 \<noteq> ?k 10"
    by code_simp
  have start: "mem_tables polled_mem ''fills'' (?k 4) = None" "mem_tables polled_mem ''orders'' (order_key ''QE1'') = Some polled_row"
      "mem_tables polled_mem ''positions'' (position_key ''INFY'') = None"
    by (simp_all add: polled_mem_def mem_tables_def)
  obtain m1 r1 i1 where one: "row_task polled_execution (book_poller ''PARTIALLY FILLED'' 4) [polled_order] \<lparr>bw_order_id = ''B-QE0'',
      bw_status = ''PARTIALLY FILLED'', bw_filled_quantity = 4, bw_average_price = 100, bw_status_message = []\<rparr>
        (book_state (polled_mem, [])) = Some (Inr (), book_state (m1 @ ((''fills'', ?k 4), r1) # polled_mem, []))"
    and m1: "\<forall>e \<in> set m1. fst (fst e) \<in> {''positions'', ''risk''}"
    and i1: "mem_tables (m1 @ ((''fills'', ?k 4), r1) # polled_mem) ''positions'' (position_key ''INFY'') = Some i1"
      "i1 ''updated_at'' = Some (S ''t'')" "pos_qty (read_position i1) = 4"
    using polled_report [of "''PARTIALLY FILLED''" 4 polled_mem 0] start by auto
  let ?m = "m1 @ ((''fills'', ?k 4), r1) # polled_mem"
  have kept: "filter (\<lambda>e. fst (fst e) = ''orders'') ?m = [((''orders'', order_key ''QE1''), polled_row)]"
      "mem_tables ?m ''fills'' (?k 10) = None" "mem_tables ?m ''orders'' (order_key ''QE1'') = Some polled_row"
    using polled_orders_kept [OF m1] keys by (simp_all add: polled_mem_def) (simp_all add: mem_tables_def)
  obtain m2 i2 where two: "row_task polled_execution (book_poller ''COMPLETE'' 10) [polled_order] \<lparr>bw_order_id = ''B-QE0'',
      bw_status = ''COMPLETE'', bw_filled_quantity = 10, bw_average_price = 100, bw_status_message = []\<rparr>
        (book_state (?m, [])) = Some (Inr (), book_state (m2, []))"
    and i2: "mem_tables m2 ''positions'' (position_key ''INFY'') = Some i2" "pos_qty (read_position i2) = 14"
    using polled_report [of "''COMPLETE''" 10 ?m 4] kept i1 by auto
  show ?thesis
    using polled_round [OF _ one, of "[]"] polled_round [OF kept(1) two] i2
    by (simp add: seq_def polled_mem_def) (simp add: book_polls_def book_state_def)
qed

section \<open>Witnesses\<close>

lemma fleet_places_once_witness:
  "\<exists>t. run_fleet (book_execution True) (book_poller ''COMPLETE'' 10) [ServiceCall StartUp, PhaseChange ''CLOSING'']
      (book_polls [] (reserved_mem ''a'')) = Some (Inr (), t) \<and>
    at_most_one book_placed (es_world (pl_service t)) \<and> book_placed (es_world (pl_service t)) NSE ''QE0'' = 1"
proof -
  obtain u where u: "reconcile_state (book_execution True) (book_state (reserved_mem ''a'', [])) = Some (Inr (), u)"
      "snd (es_world u) = [(NSE, ''QE0'')]"
    using reserved_recovered [of "''a''" True] by auto
  let ?t = "on_phase_change ''CLOSING'' ((book_polls [] (reserved_mem ''a''))\<lparr>pl_service := u\<rparr>)"
  have run: "run_fleet (book_execution True) (book_poller ''COMPLETE'' 10) [ServiceCall StartUp, PhaseChange ''CLOSING'']
      (book_polls [] (reserved_mem ''a'')) = Some (Inr (), ?t)"
    using u(1) by (simp add: run_fleet_def prog_defs on_service_def book_polls_def)
  have calm: "poller_moves (\<lambda>w w'. book_placed w' = book_placed w) (book_poller ''COMPLETE'' 10)"
    by (simp add: poller_moves_def client_moves_def book_poller_def book_dynamo_def on_tables_def book_placed_def [abs_def] split: prod.splits)
  have "at_most_one book_placed (es_world (pl_service (book_polls [] (reserved_mem ''a''))))"
    by (simp add: at_most_one_def book_placed_def book_polls_def book_state_def)
  from fleet_places_once [OF book_tagged calm this run] show ?thesis
    using run u(2) by (auto simp: book_placed_def)
qed

text \<open>The tables of the concrete environment only grow.\<close>

definition grows :: "tables \<Rightarrow> tables \<Rightarrow> bool" where
  "grows t t' \<longleftrightarrow> (\<forall>tbl k. t tbl k \<noteq> None \<longrightarrow> t' tbl k \<noteq> None)"

lemma grows_rules [simp]:
  "grows t t" "grows t (tables_put t tbl k i)" "grows t (tputs_apply ps t)"
proof -
  have put: "grows t (tables_put t tbl k i)" for t tbl k i
    by (simp add: grows_def tables_put_apply)
  then show "grows t (tables_put t tbl k i)" .
  show "grows t (tputs_apply ps t)"
  proof (induction ps t rule: tputs_apply.induct)
    case (2 tbl k i c ps t)
    then show ?case using put [of t tbl k i] unfolding grows_def tputs_apply.simps by blast
  qed (simp add: grows_def)
qed (simp add: grows_def)

lemma book_calls_grow:
  "client_moves (\<lambda>w w'. grows (mem_tables (fst w)) (mem_tables (fst w'))) book_dynamo"
  by (auto simp: client_moves_def book_dynamo_def on_tables_def mem_get_def mem_put_def mem_update_def mem_transact_def
      mem_query_def mem_scan_def mem_tables_Cons mem_tables_puts Let_def)

lemma book_dynamo_ok: "dynamo_ok (=) book_dynamo"
  unfolding dynamo_ok_def book_dynamo_def
  by (auto simp: reflp_def transp_def on_tables_def mem_get_def mem_query_def mem_scan_def mem_put_def
      mem_update_def mem_transact_def commits_def write_effect_def mem_tables_Cons mem_tables_puts Let_def
      split: if_splits)

abbreviation tables_grow :: "book \<Rightarrow> book \<Rightarrow> bool" where
  "tables_grow w w' \<equiv> grows (mem_tables (fst w)) (mem_tables (fst w'))"

lemma book_env: "env_moves tables_grow (book_execution lost)"
proof -
  have "transp tables_grow"
    unfolding transp_def grows_def by blast
  moreover have "ex_dynamo (book_execution lost) = Some book_dynamo" "om_dynamo (ex_manager (book_execution lost)) = Some book_dynamo"
    by (simp_all add: book_execution_def book_manager_def)
  ultimately show ?thesis
    using book_calls_grow unfolding env_moves_def by (auto simp: reflp_def producer_moves_def reads_move_def book_execution_def book_broker_def)
qed

lemma polled_same:
  "ex_dynamo polled_execution = ex_dynamo (book_execution False)" "ex_publisher polled_execution = ex_publisher (book_execution False)"
  "ex_consumer polled_execution = ex_consumer (book_execution False)" "ex_acquire polled_execution = ex_acquire (book_execution False)"
  "ex_utc polled_execution = ex_utc (book_execution False)" "ex_mono polled_execution = ex_mono (book_execution False)"
  "ex_hex polled_execution = ex_hex (book_execution False)" "ex_uuid polled_execution = ex_uuid (book_execution False)"
  "ex_retry polled_execution = ex_retry (book_execution False)" "ex_zerodha polled_execution = ex_zerodha (book_execution False)"
  "ex_alpaca polled_execution = ex_alpaca (book_execution False)"
  by (simp_all add: polled_execution_def)

lemma polled_env: "env_moves tables_grow polled_execution"
proof -
  have "client_moves tables_grow
      (book_dynamo\<lparr>dy_update := \<lambda>w tbl k us c. if tbl = ''orders'' then (Inl OtherError, w) else on_tables (\<lambda>m. mem_update m tbl k us c) w\<rparr>)"
    using book_calls_grow by (simp add: client_moves_def) (simp add: book_dynamo_def)
  then show ?thesis
    using book_env [of False] unfolding env_moves_def polled_client(1) polled_same by simp
qed

lemma client_moves_mono:
  assumes "client_moves V D" "\<And>w w'. V w w' \<Longrightarrow> V' w w'"
  shows "client_moves V' D"
  using assms(1) unfolding client_moves_def by (simp add: assms(2))

lemma env_moves_mono:
  assumes "env_moves V X" "\<And>w w'. V w w' \<Longrightarrow> V' w w'" "reflp V'" "transp V'"
  shows "env_moves V' X"
proof -
  have producers: "producer_moves V p \<Longrightarrow> producer_moves V' p" and reads: "reads_move V b \<Longrightarrow> reads_move V' b" for p b
    unfolding producer_moves_def reads_move_def by (simp_all add: assms(2))
  have clients: "client_moves V D \<Longrightarrow> client_moves V' D" for D
    by (rule client_moves_mono [OF _ assms(2)])
  show ?thesis
    using assms(1) unfolding env_moves_def by (simp add: assms(2-4) producers reads clients)
qed

lemma polled_fills_stay: "fills_stay (=) book_dynamo polled_execution (book_poller st q)"
proof -
  have grow: "keeps_fills book_dynamo P w w'" if "grows (mem_tables (fst w)) (mem_tables (fst w'))" for w w' P
    using that by (simp add: keeps_fills_def grows_def book_dynamo_def)
  have "reflp (keeps_fills book_dynamo P)" "transp (keeps_fills book_dynamo P)" for P
    by (simp add: reflp_def keeps_fills_def, unfold transp_def keeps_fills_def, blast)
  then have "env_moves (keeps_fills book_dynamo (book_poller st q)) polled_execution"
    using env_moves_mono [OF polled_env] grow by blast
  moreover have "poller_moves (keeps_fills book_dynamo (book_poller st q)) (book_poller st q)"
    using client_moves_mono [OF book_calls_grow] grow by (simp add: poller_moves_def) (simp add: book_poller_def)
  moreover have "get_broker polled_execution mk = book_broker False mk" for mk
    by (cases mk) (simp_all add: get_broker_def polled_execution_def book_execution_def)
  ultimately show ?thesis
    by (simp add: fills_stay_def book_dynamo_ok) (auto simp: book_poller_def book_broker_def intro!: grow)
qed

lemma reported_fill_booked_once_witness:
  "\<exists>t s. handle_fill polled_execution (book_poller ''COMPLETE'' 10) polled_order 10 100 [] (book_state (polled_mem, [])) = Some (Inr (), t) \<and>
    run_fleet polled_execution (book_poller ''COMPLETE'' 10) [PhaseChange ''CLOSING''] ((book_polls [] polled_mem)\<lparr>pl_service := t\<rparr>) =
      Some (Inr (), s) \<and>
    handle_fill polled_execution (book_poller ''COMPLETE'' 10) polled_order 10 100 [] (pl_service s) =
      seq (admit_fill polled_execution (book_poller ''COMPLETE'' 10) polled_order 10 100) (\<lambda>_. ret ()) (pl_service s)"
proof -
  let ?P = "book_poller ''COMPLETE'' 10"
  have upper: "py_upper ''COMPLETE'' = ''COMPLETE''"
    by code_simp
  obtain t where "row_task polled_execution ?P [polled_order] \<lparr>bw_order_id = ''B-QE0'', bw_status = ''COMPLETE'',
      bw_filled_quantity = 10, bw_average_price = 100, bw_status_message = []\<rparr> (book_state (polled_mem, [])) = Some (Inr (), t)"
    using polled_report [of "''COMPLETE''" 10 polled_mem 0] by (auto simp: polled_mem_def mem_tables_def)
  then have t: "handle_fill polled_execution ?P polled_order 10 100 [] (pl_service (book_polls [] polled_mem)) = Some (Inr (), t)"
    by (simp add: row_task_def polled_order_fields upper book_polls_def)
  have run: "run_fleet polled_execution ?P [PhaseChange ''CLOSING''] ((book_polls [] polled_mem)\<lparr>pl_service := t\<rparr>) =
      Some (Inr (), on_phase_change ''CLOSING'' ((book_polls [] polled_mem)\<lparr>pl_service := t\<rparr>))"
    by (simp add: run_fleet_def prog_defs)
  show ?thesis
    using t run reported_fill_booked_once [OF polled_fills_stay t run refl, of "[]"] by (auto simp: book_polls_def)
qed

end
