(* ===== verification/StrategyMath.thy ===== *)
theory StrategyMath
  imports ExecutionLoop
begin

text \<open>
  The indicators of the strategies (\<open>services/strategy_engine/strategies/_math.py\<close>) and the position sizer
  (\<open>_position_sizer.py\<close>), with the ranges that the values of an indicator lie in.  A result of
  \<open>float("nan")\<close> is \<open>None\<close>.  The windows and periods are positive, as every caller passes them; the lists of
  one call have the same length.  \<open>math.sqrt\<close> is an argument.
\<close>

section \<open>Moving averages\<close>

definition last_n :: "nat \<Rightarrow> 'a list \<Rightarrow> 'a list" where
  "last_n n xs = drop (length xs - n) xs"

definition mean :: "rat list \<Rightarrow> rat" where
  "mean xs = sum_list xs / of_nat (length xs)"

definition sma :: "rat list \<Rightarrow> nat \<Rightarrow> rat option" where
  "sma values window =
    (if length values < window then None else Some (sum_list (last_n window values) / of_nat window))"

text \<open>The loop of \<open>ema_series\<close> after the seed.\<close>

fun ema_from :: "rat \<Rightarrow> rat \<Rightarrow> rat list \<Rightarrow> rat list" where
  "ema_from k current [] = []"
| "ema_from k current (v # vs) = (let current = v * k + current * (1 - k) in current # ema_from k current vs)"

definition ema_series :: "rat list \<Rightarrow> nat \<Rightarrow> rat option list" where
  "ema_series values period =
    (if length values < period then replicate (length values) None
     else
       (let k = 2 / of_nat (period + 1);
            seed = sum_list (take period values) / of_nat period
        in replicate (period - 1) None @ map Some (seed # ema_from k seed (drop period values))))"

definition ema :: "rat list \<Rightarrow> nat \<Rightarrow> rat option" where
  "ema values period = (let series = ema_series values period in if series = [] then None else last series)"

section \<open>True range\<close>

definition true_range :: "rat \<Rightarrow> rat \<Rightarrow> rat \<Rightarrow> rat" where
  "true_range high low prev_close = max (max (high - low) \<bar>high - prev_close\<bar>) \<bar>low - prev_close\<bar>"

definition true_ranges :: "rat list \<Rightarrow> rat list \<Rightarrow> rat list \<Rightarrow> rat list" where
  "true_ranges highs lows closes =
    map (\<lambda>i. true_range (highs ! i) (lows ! i) (closes ! (i - 1))) [1..<length closes]"

text \<open>Wilder's smoothing: the mean of the first \<open>period\<close> values, then one step per value.\<close>

definition wilder_step :: "nat \<Rightarrow> rat \<Rightarrow> rat \<Rightarrow> rat" where
  "wilder_step period a x = (of_nat (period - 1) * a + x) / of_nat period"

definition wilder :: "rat list \<Rightarrow> nat \<Rightarrow> rat option" where
  "wilder xs period =
    (if length xs < period then None
     else Some (foldl (wilder_step period) (sum_list (take period xs) / of_nat period) (drop period xs)))"

definition atr_wilder :: "rat list \<Rightarrow> rat list \<Rightarrow> rat list \<Rightarrow> nat \<Rightarrow> rat option" where
  "atr_wilder highs lows closes period =
    (if length closes < period + 1 then None else wilder (true_ranges highs lows closes) period)"

section \<open>VWAP\<close>

definition typical_price :: "rat \<Rightarrow> rat \<Rightarrow> rat \<Rightarrow> rat" where
  "typical_price high low close = (high + low + close) / 3"

definition priced_volumes :: "rat list \<Rightarrow> rat list \<Rightarrow> rat list \<Rightarrow> int list \<Rightarrow> (rat \<times> rat) list" where
  "priced_volumes highs lows closes volumes =
    map (\<lambda>(h, l, c, v). (typical_price h l c, of_int v)) (zip highs (zip lows (zip closes volumes)))"

definition vwap :: "rat list \<Rightarrow> rat list \<Rightarrow> rat list \<Rightarrow> int list \<Rightarrow> rat option" where
  "vwap highs lows closes volumes =
    (let pv = priced_volumes highs lows closes volumes;
         total_pv = sum_list (map (\<lambda>(tp, v). tp * v) pv);
         total_v = sum_list (map snd pv)
     in if 0 < total_v then Some (total_pv / total_v) else None)"

definition vwap_bands :: "(rat \<Rightarrow> rat) \<Rightarrow> rat list \<Rightarrow> rat list \<Rightarrow> rat list \<Rightarrow> int list \<Rightarrow> rat \<Rightarrow> (rat \<times> rat \<times> rat) option" where
  "vwap_bands msqrt highs lows closes volumes n_std =
    (case vwap highs lows closes volumes of
       None \<Rightarrow> None
     | Some vw \<Rightarrow>
        (let total_v = of_int (sum_list volumes)
         in if total_v = 0 then Some (vw, vw, vw)
            else
              (let variance = sum_list (map (\<lambda>(tp, v). v * (tp - vw) ^ 2) (priced_volumes highs lows closes volumes));
                   std = msqrt (variance / total_v)
               in Some (vw, vw + n_std * std, vw - n_std * std))))"

section \<open>Directional index\<close>

text \<open>\<open>_wilder_smooth\<close>: running sums that lose a \<open>period\<close>-th at every step.\<close>

fun smooth_from :: "nat \<Rightarrow> rat \<Rightarrow> rat list \<Rightarrow> rat list" where
  "smooth_from period s [] = []"
| "smooth_from period s (v # vs) = (let s = s - s / of_nat period + v in s # smooth_from period s vs)"

definition wilder_smooth :: "nat \<Rightarrow> rat list \<Rightarrow> rat list" where
  "wilder_smooth period data =
    (let s = sum_list (take period data) in s # smooth_from period s (drop period data))"

definition plus_dm :: "rat \<Rightarrow> rat \<Rightarrow> rat" where
  "plus_dm up_move down_move = (if down_move < up_move \<and> 0 < up_move then up_move else 0)"

definition moves :: "rat list \<Rightarrow> rat list \<Rightarrow> (rat \<times> rat) list" where
  "moves highs lows = map (\<lambda>i. (highs ! i - highs ! (i - 1), lows ! (i - 1) - lows ! i)) [1..<length highs]"

definition dx :: "rat \<Rightarrow> rat \<Rightarrow> rat \<Rightarrow> rat" where
  "dx atr_s p_s m_s =
    (if atr_s = 0 then 0
     else
       (let plus_di = 100 * p_s / atr_s; minus_di = 100 * m_s / atr_s; denom = plus_di + minus_di
        in if 0 < denom then 100 * \<bar>plus_di - minus_di\<bar> / denom else 0))"

definition adx :: "rat list \<Rightarrow> rat list \<Rightarrow> rat list \<Rightarrow> nat \<Rightarrow> rat option" where
  "adx highs lows closes period =
    (if length closes < period * 2 then None
     else
       (let ms = moves highs lows;
            trs = true_ranges highs lows closes;
            tr_smooth = wilder_smooth period trs;
            plus_smooth = wilder_smooth period (map (\<lambda>(u, d). plus_dm u d) ms);
            minus_smooth = wilder_smooth period (map (\<lambda>(u, d). plus_dm d u) ms);
            dxs = map (\<lambda>(a, p, m). dx a p m) (zip tr_smooth (zip plus_smooth minus_smooth))
        in if length trs < period then None else wilder dxs period))"

section \<open>Position size\<close>

text \<open>\<open>round(x, 2)\<close>, with ties to the even digit as \<open>py_round4\<close>.\<close>

definition py_round2 :: "rat \<Rightarrow> rat" where
  "py_round2 x =
    (let y = x * 100; f = \<lfloor>y\<rfloor>; d = y - of_int f
     in (if d < 1 / 2 then of_int f else if 1 / 2 < d then of_int f + 1
         else if even f then of_int f else of_int f + 1) / 100)"

definition py_round3 :: "rat \<Rightarrow> rat" where
  "py_round3 x =
    (let y = x * 1000; f = \<lfloor>y\<rfloor>; d = y - of_int f
     in (if d < 1 / 2 then of_int f else if 1 / 2 < d then of_int f + 1
         else if even f then of_int f else of_int f + 1) / 1000)"

record sizing_result =
  sr_qty :: int
  sr_nav_used :: rat
  sr_target_notional :: rat
  sr_max_allowed_notional :: rat
  sr_sizing_reason :: str
  sr_rejected_if_exceeds_cap :: bool

definition TARGET_PCT_DEFAULT :: rat where "TARGET_PCT_DEFAULT = 25 / 1000"
definition TARGET_PCT_HIGH_CONV :: rat where "TARGET_PCT_HIGH_CONV = 5 / 100"
definition HARD_CAP_PCT :: rat where "HARD_CAP_PCT = 5 / 100"
definition MAX_LOSS_PCT :: rat where "MAX_LOSS_PCT = 25 / 10000"
definition HIGH_CONVICTION_THRESHOLD :: rat where "HIGH_CONVICTION_THRESHOLD = 8 / 10"

definition size_position_with :: "rat \<Rightarrow> rat \<Rightarrow> rat \<Rightarrow> rat \<Rightarrow> rat option \<Rightarrow> rat \<Rightarrow> rat \<Rightarrow> sizing_result" where
  "size_position_with price stop_distance nav confidence target_pct hard_cap_pct max_loss_pct =
    (let max_allowed = nav * hard_cap_pct
     in if price \<le> 0 \<or> stop_distance \<le> 0 \<or> nav \<le> 0 then
          \<lparr>sr_qty = 0, sr_nav_used = nav, sr_target_notional = 0, sr_max_allowed_notional = max_allowed,
           sr_sizing_reason = ''invalid_inputs'', sr_rejected_if_exceeds_cap = False\<rparr>
        else
          (let resolved = (case target_pct of
                 None \<Rightarrow> if HIGH_CONVICTION_THRESHOLD \<le> confidence then TARGET_PCT_HIGH_CONV else TARGET_PCT_DEFAULT
               | Some p \<Rightarrow> p);
               target_notional = nav * resolved;
               max_loss_amount = nav * max_loss_pct;
               by_target = \<lfloor>target_notional / price\<rfloor>;
               by_cap = \<lfloor>max_allowed / price\<rfloor>;
               by_stop = \<lfloor>max_loss_amount / stop_distance\<rfloor>;
               raw = min (min by_target by_cap) by_stop;
               qty = max 1 raw;
               reason = (if raw \<le> 0 then ''risk_stop_floor_one''
                         else if raw = by_stop \<and> by_stop < by_target then ''risk_stop''
                         else if raw = by_target \<and> by_target \<le> by_cap then ''target_notional''
                         else ''hard_cap'')
           in \<lparr>sr_qty = qty, sr_nav_used = nav, sr_target_notional = py_round2 target_notional,
               sr_max_allowed_notional = py_round2 max_allowed, sr_sizing_reason = reason,
               sr_rejected_if_exceeds_cap = (max_allowed < of_int qty * price)\<rparr>))"

definition size_position :: "rat \<Rightarrow> rat \<Rightarrow> rat \<Rightarrow> rat \<Rightarrow> sizing_result" where
  "size_position price stop_distance nav confidence =
    size_position_with price stop_distance nav confidence None HARD_CAP_PCT MAX_LOSS_PCT"

definition sizing_metadata :: "sizing_result \<Rightarrow> meta" where
  "sizing_metadata r =
    [(''nav_used'', JNum (sr_nav_used r)), (''target_notional'', JNum (py_round2 (sr_target_notional r))),
     (''max_allowed_notional'', JNum (py_round2 (sr_max_allowed_notional r))),
     (''sizing_reason'', JStr (sr_sizing_reason r)),
     (''rejected_if_exceeds_cap'', JBool (sr_rejected_if_exceeds_cap r))]"

section \<open>Ranges\<close>

text \<open>\<open>in_range a b\<close>: the closed interval as a predicate on lists.\<close>

definition in_range :: "rat \<Rightarrow> rat \<Rightarrow> rat list \<Rightarrow> bool" where
  "in_range a b xs \<longleftrightarrow> (\<forall>x \<in> set xs. a \<le> x \<and> x \<le> b)"

lemma in_range_simps [simp]:
  "in_range a b []" "in_range a b (x # xs) \<longleftrightarrow> a \<le> x \<and> x \<le> b \<and> in_range a b xs"
  "in_range a b (xs @ ys) \<longleftrightarrow> in_range a b xs \<and> in_range a b ys"
  by (auto simp: in_range_def)

lemma within_take: "in_range a b xs \<Longrightarrow> in_range a b (take n xs)"
  and within_drop: "in_range a b xs \<Longrightarrow> in_range a b (drop n xs)"
  by (auto simp: in_range_def dest: in_set_takeD in_set_dropD)

lemma within_last_n: "in_range a b xs \<Longrightarrow> in_range a b (last_n n xs)"
  by (simp add: last_n_def within_drop)

text \<open>A sum with non-negative weights lies between the weighted bounds.\<close>

lemma weighted_sum_range:
  fixes a b :: rat
  assumes "\<forall>(x, w) \<in> set xs. a \<le> x \<and> x \<le> b \<and> 0 \<le> w"
  shows "a * sum_list (map snd xs) \<le> sum_list (map (\<lambda>(x, w). x * w) xs) \<and>
    sum_list (map (\<lambda>(x, w). x * w) xs) \<le> b * sum_list (map snd xs)"
  using assms
proof (induction xs)
  case (Cons y xs)
  obtain x w where y: "y = (x, w)" by fastforce
  have "a * w \<le> x * w" "x * w \<le> b * w"
    using Cons.prems y by (auto simp: mult_right_mono)
  then show ?case
    using Cons y by (auto simp: distrib_left)
qed simp

lemma sum_range: "in_range a b xs \<Longrightarrow> a * of_nat (length xs) \<le> sum_list xs \<and> sum_list xs \<le> b * of_nat (length xs)"
  by (induction xs) (auto simp: algebra_simps)

lemma mean_range:
  assumes "in_range a b xs" "length xs = n" "0 < n"
  shows "a \<le> sum_list xs / of_nat n \<and> sum_list xs / of_nat n \<le> b"
  using sum_range [OF assms(1)] assms(2,3) by (simp add: field_simps)

lemma mix_range:
  assumes "a \<le> (x :: rat)" "x \<le> b" "a \<le> y" "y \<le> b" "0 \<le> k" "k \<le> 1"
  shows "a \<le> x * k + y * (1 - k) \<and> x * k + y * (1 - k) \<le> b"
proof -
  have "a * k \<le> x * k" "x * k \<le> b * k" "a * (1 - k) \<le> y * (1 - k)" "y * (1 - k) \<le> b * (1 - k)"
    using assms by (auto intro: mult_right_mono)
  then show ?thesis
    by (simp add: algebra_simps)
qed

lemma sma_range: "in_range a b values \<Longrightarrow> 0 < window \<Longrightarrow> sma values window = Some x \<Longrightarrow> a \<le> x \<and> x \<le> b"
  using mean_range [OF within_last_n, of a b "values" window window]
  by (auto simp: sma_def last_n_def split: if_splits)

lemma ema_from_range: "0 \<le> k \<Longrightarrow> k \<le> 1 \<Longrightarrow> a \<le> current \<Longrightarrow> current \<le> b \<Longrightarrow> in_range a b vs \<Longrightarrow> in_range a b (ema_from k current vs)"
proof (induction vs arbitrary: current)
  case (Cons v vs)
  then have "a \<le> v * k + current * (1 - k) \<and> v * k + current * (1 - k) \<le> b"
    by (intro mix_range) simp_all
  then show ?case
    using Cons by (simp add: Let_def)
qed simp

lemma ema_series_range:
  assumes "in_range a b values" "0 < period" "Some x \<in> set (ema_series values period)"
  shows "a \<le> x \<and> x \<le> b"
proof -
  let ?k = "2 / of_nat (period + 1) :: rat" and ?seed = "sum_list (take period values) / of_nat period"
  have enough: "period \<le> length values"
    using assms(3) by (auto simp: ema_series_def split: if_splits)
  then have "a \<le> ?seed \<and> ?seed \<le> b"
    using mean_range [OF within_take [OF assms(1)], of period period] assms(2) by simp
  then have "in_range a b (?seed # ema_from ?k ?seed (drop period values))"
    using ema_from_range [of ?k a ?seed b "drop period values"] within_drop [OF assms(1)] assms(2) by simp
  then show ?thesis
    using assms(3) enough by (auto simp: ema_series_def Let_def in_range_def)
qed

lemma wilder_step_range:
  assumes "a \<le> s" "s \<le> b" "a \<le> x" "x \<le> b" "0 < period"
  shows "a \<le> wilder_step period s x \<and> wilder_step period s x \<le> b"
proof -
  have "wilder_step period s x = x * (1 / of_nat period) + s * (1 - 1 / of_nat period)"
    using assms(5) by (simp add: wilder_step_def of_nat_diff field_simps)
  then show ?thesis
    using mix_range [of a x b s "1 / of_nat period"] assms by simp
qed

lemma wilder_range:
  assumes "in_range a b xs" "0 < period" "wilder xs period = Some y"
  shows "a \<le> y \<and> y \<le> b"
proof -
  have fold: "a \<le> s \<Longrightarrow> s \<le> b \<Longrightarrow> in_range a b vs \<Longrightarrow> a \<le> foldl (wilder_step period) s vs \<and> foldl (wilder_step period) s vs \<le> b" for s vs
    by (induction vs arbitrary: s) (use wilder_step_range assms(2) in auto)
  have "length (take period xs) = period"
    using assms(3) by (auto simp: wilder_def split: if_splits)
  then show ?thesis
    using assms(3) mean_range [OF within_take [OF assms(1)] _ assms(2)] fold [OF _ _ within_drop [OF assms(1)]]
    by (auto simp: wilder_def split: if_splits)
qed

lemma true_range_nonneg: "0 \<le> true_range h l c"
  by (simp add: true_range_def le_max_iff_disj)

lemma true_ranges_nonneg: "x \<in> set (true_ranges hs ls cs) \<Longrightarrow> 0 \<le> x"
  by (auto simp: true_ranges_def true_range_nonneg)

lemma length_true_ranges [simp]: "length (true_ranges hs ls cs) = length cs - 1"
  by (simp add: true_ranges_def)

lemma atr_nonneg:
  assumes "atr_wilder hs ls cs period = Some a" "0 < period"
  shows "0 \<le> a"
proof -
  let ?trs = "true_ranges hs ls cs"
  have "wilder ?trs period = Some a"
    using assms by (auto simp: atr_wilder_def split: if_splits)
  moreover have "in_range 0 (sum_list ?trs) ?trs"
    using true_ranges_nonneg member_le_sum_list [of _ ?trs] by (auto simp: in_range_def)
  ultimately show ?thesis
    using wilder_range assms(2) by blast
qed

text \<open>The VWAP lies between the lowest low and the highest high of its bars.\<close>

lemma vwap_range:
  assumes "in_range a b hs" "in_range a b ls" "in_range a b cs" "\<forall>v \<in> set vs. 0 \<le> v" "vwap hs ls cs vs = Some x"
  shows "a \<le> x \<and> x \<le> b"
proof -
  let ?pv = "priced_volumes hs ls cs vs"
  have "\<forall>(tp, v) \<in> set ?pv. a \<le> tp \<and> tp \<le> b \<and> 0 \<le> v"
  proof safe
    fix tp v
    assume "(tp, v) \<in> set ?pv"
    then obtain h l c u where z: "(h, l, c, u) \<in> set (zip hs (zip ls (zip cs vs)))" "tp = typical_price h l c" "v = of_int u"
      by (auto simp: priced_volumes_def)
    then have "h \<in> set hs" "l \<in> set ls" "c \<in> set cs" "u \<in> set vs"
      by (auto dest: set_zip_leftD set_zip_rightD)
    then have "a \<le> h" "h \<le> b" "a \<le> l" "l \<le> b" "a \<le> c" "c \<le> b" "0 \<le> u"
      using assms(1-4) by (auto simp: in_range_def)
    then show "a \<le> tp" "tp \<le> b" "0 \<le> v"
      using z(2,3) by (simp_all add: typical_price_def)
  qed
  from weighted_sum_range [OF this] show ?thesis
    using assms(5) by (auto simp: vwap_def Let_def field_simps split: if_splits)
qed

section \<open>The directional index is a percentage\<close>

lemma smooth_nonneg:
  assumes "1 \<le> period" "0 \<le> s" "\<forall>v \<in> set vs. 0 \<le> v"
  shows "\<forall>x \<in> set (smooth_from period s vs). 0 \<le> x"
  using assms(2,3)
proof (induction vs arbitrary: s)
  case (Cons v vs)
  have "s / of_nat period \<le> s"
    using assms(1) Cons.prems(1) by (simp add: divide_le_eq mult_le_cancel_left1)
  then have "0 \<le> s - s / of_nat period + v"
    using Cons.prems(2) by simp
  with Cons.IH [of "s - s / of_nat period + v"] Cons.prems(2) show ?case
    by (simp add: Let_def)
qed simp

lemma wilder_smooth_nonneg:
  assumes "1 \<le> period" "\<forall>v \<in> set vs. 0 \<le> v" "x \<in> set (wilder_smooth period vs)"
  shows "0 \<le> x"
proof -
  have "0 \<le> sum_list (take period vs)"
    using assms(2) by (intro sum_list_nonneg) (auto dest: in_set_takeD)
  then show ?thesis
    using assms smooth_nonneg [OF assms(1), of "sum_list (take period vs)" "drop period vs"]
    by (auto simp: wilder_smooth_def Let_def dest: in_set_dropD)
qed

lemma dx_range:
  assumes "0 \<le> p" "0 \<le> m" "0 \<le> a"
  shows "0 \<le> dx a p m \<and> dx a p m \<le> 100"
proof -
  let ?u = "100 * p / a" and ?v = "100 * m / a"
  have "0 \<le> ?u" "0 \<le> ?v"
    using assms by simp_all
  then have "\<bar>?u - ?v\<bar> \<le> ?u + ?v"
    by linarith
  then have "0 < ?u + ?v \<Longrightarrow> \<bar>?u - ?v\<bar> / (?u + ?v) \<le> 1"
    by (simp add: pos_divide_le_eq)
  then have "0 < ?u + ?v \<Longrightarrow> 100 * \<bar>?u - ?v\<bar> / (?u + ?v) \<le> 100"
    by linarith
  then show ?thesis
    by (simp only: dx_def Let_def) simp
qed

lemma adx_range:
  assumes "adx hs ls cs period = Some x" "1 \<le> period"
  shows "0 \<le> x \<and> x \<le> 100"
proof -
  let ?ms = "moves hs ls"
  let ?dxs = "map (\<lambda>(a, p, m). dx a p m) (zip (wilder_smooth period (true_ranges hs ls cs))
      (zip (wilder_smooth period (map (\<lambda>(u, d). plus_dm u d) ?ms)) (wilder_smooth period (map (\<lambda>(u, d). plus_dm d u) ?ms))))"
  have dm: "\<forall>v \<in> set (map (\<lambda>(u, d). plus_dm u d) ?ms). 0 \<le> v" "\<forall>v \<in> set (map (\<lambda>(u, d). plus_dm d u) ?ms). 0 \<le> v"
    by (auto simp: plus_dm_def)
  note moved = wilder_smooth_nonneg [OF assms(2) dm(1)] wilder_smooth_nonneg [OF assms(2) dm(2)]
    wilder_smooth_nonneg [OF assms(2), of "true_ranges hs ls cs"]
  have "in_range 0 100 ?dxs"
  proof -
    have "0 \<le> dx a p m \<and> dx a p m \<le> 100"
      if "(a, p, m) \<in> set (zip (wilder_smooth period (true_ranges hs ls cs))
        (zip (wilder_smooth period (map (\<lambda>(u, d). plus_dm u d) ?ms)) (wilder_smooth period (map (\<lambda>(u, d). plus_dm d u) ?ms))))"
      for a p m
      using set_zip_leftD [OF that] set_zip_rightD [OF that] true_ranges_nonneg [of _ hs ls cs]
      by (intro dx_range moved(1,2) moved(3)) (auto dest: set_zip_leftD set_zip_rightD)
    then show ?thesis
      unfolding in_range_def by auto
  qed
  then show ?thesis
    using wilder_range [of 0 100 ?dxs period x] assms by (auto simp: adx_def Let_def split: if_splits)
qed

section \<open>The size of a position\<close>

text \<open>A size above one share respects the three limits; one share is taken however much it costs.\<close>

lemma size_position_limits:
  assumes "0 < price" "0 < stop" "0 < nav" "1 < sr_qty (size_position price stop nav c)"
  shows "of_int (sr_qty (size_position price stop nav c)) * price \<le> nav * HARD_CAP_PCT \<and>
    of_int (sr_qty (size_position price stop nav c)) * stop \<le> nav * MAX_LOSS_PCT"
proof -
  let ?q = "sr_qty (size_position price stop nav c)"
  have "\<exists>T. ?q = max 1 (min (min T \<lfloor>nav * HARD_CAP_PCT / price\<rfloor>) \<lfloor>nav * MAX_LOSS_PCT / stop\<rfloor>)"
    using assms(1-3) by (simp add: size_position_def size_position_with_def Let_def) blast
  then have "?q \<le> \<lfloor>nav * HARD_CAP_PCT / price\<rfloor>" "?q \<le> \<lfloor>nav * MAX_LOSS_PCT / stop\<rfloor>"
    using assms(4) by (auto simp: max_def min_def split: if_splits)
  then have "of_int ?q \<le> nav * HARD_CAP_PCT / price" "of_int ?q \<le> nav * MAX_LOSS_PCT / stop"
    by (simp_all add: le_floor_iff)
  then show ?thesis
    using assms(1,2) by (simp add: pos_le_divide_eq)
qed

lemma size_position_nonneg: "0 \<le> sr_qty (size_position price stop nav c)"
  by (simp add: size_position_def size_position_with_def Let_def le_max_iff_disj)

lemma size_position_valid:
  "0 < price \<Longrightarrow> 0 < stop \<Longrightarrow> 0 < nav \<Longrightarrow> 1 \<le> sr_qty (size_position price stop nav c)"
  by (simp add: size_position_def size_position_with_def Let_def)

lemma size_position_capped:
  assumes "\<not> sr_rejected_if_exceeds_cap (size_position price stop nav c)" "sr_qty (size_position price stop nav c) \<noteq> 0"
  shows "of_int (sr_qty (size_position price stop nav c)) * price \<le> nav * HARD_CAP_PCT"
  using assms by (auto simp: size_position_def size_position_with_def Let_def split: if_splits)

end
