(* ===== verification/StrategyBase.thy ===== *)
theory StrategyBase
  imports StrategyMath Signals
begin

text \<open>
  The interface of the strategies (\<open>services/strategy_engine/strategies/base_strategy.py\<close>) and the momentum
  strategy (\<open>momentum_strategy.py\<close>).  A time is its number of seconds since the epoch; the id and the time that
  a \<open>Signal\<close> takes by default are arguments of the operation that builds it.  A handler returns its exception
  beside the state that it leaves.  Logging is left out.
\<close>

section \<open>Bars and signals\<close>

datatype data_quality = NORMAL_QUALITY | WARMING_UP | GAP | STALE

record bar =
  ba_symbol :: str
  ba_market :: str
  ba_open :: rat
  ba_high :: rat
  ba_low :: rat
  ba_close :: rat
  ba_volume :: int
  ba_timestamp :: rat
  ba_interval :: str
  ba_data_quality :: data_quality

definition proper_bar :: "bar \<Rightarrow> bool" where
  "proper_bar b \<longleftrightarrow> ba_low b \<le> ba_high b"

text \<open>Minutes of the day in Indian time.\<close>

definition ist_min :: "rat \<Rightarrow> int" where
  "ist_min t = \<lfloor>(t + 19800) / 60\<rfloor> mod 1440"

text \<open>\<open>append\<close> on a \<open>deque(maxlen=n)\<close>.\<close>

definition push :: "nat \<Rightarrow> 'a list \<Rightarrow> 'a \<Rightarrow> 'a list" where
  "push n xs x = last_n n (xs @ [x])"

type_synonym stamp = "str \<times> rat"

text \<open>The call \<open>Signal(...)\<close> of the strategies.\<close>

definition build_signal :: "stamp \<Rightarrow> str \<Rightarrow> str \<Rightarrow> order_side \<Rightarrow> int \<Rightarrow> rat \<Rightarrow> str \<Rightarrow> rat \<Rightarrow> rat \<Rightarrow> rat \<Rightarrow> meta \<Rightarrow> signal" where
  "build_signal st symbol market side quantity confidence strategy price stop_loss take_profit metadata =
    \<lparr>sg_signal_id = fst st, sg_symbol = symbol, sg_market = market, sg_direction = side, sg_quantity = quantity,
     sg_confidence = confidence, sg_strategy_name = strategy, sg_generated_at = snd st, sg_status = SIG_PENDING,
     sg_price_at_signal = price, sg_stop_loss = Some stop_loss, sg_take_profit = Some take_profit,
     sg_paper_trade = False, sg_metadata = metadata\<rparr>"

section \<open>The interface\<close>

record 'st strategy =
  st_name :: str
  st_symbols :: "str list"
  st_interval :: str \<comment> \<open>\<open>candle_interval\<close>\<close>
  st_on_tick :: "str \<Rightarrow> rat \<Rightarrow> int \<Rightarrow> rat \<Rightarrow> 'st \<Rightarrow> unit res \<times> 'st"
  st_on_bar :: "stamp \<Rightarrow> bar \<Rightarrow> 'st \<Rightarrow> unit res \<times> 'st"
  st_generate_signal :: "'st \<Rightarrow> signal option \<times> 'st"

text \<open>\<open>on_tick\<close> of the strategies that act on bars only.\<close>

definition ignore_tick :: "str \<Rightarrow> rat \<Rightarrow> int \<Rightarrow> rat \<Rightarrow> 'st \<Rightarrow> unit res \<times> 'st" where
  "ignore_tick symbol price volume timestamp s = (Inr (), s)"

text \<open>
  What the runner relies on: \<open>generate_signal\<close> hands out the pending signal and clears it, and a handler leaves
  the pending signal of the state as it is or puts one there that satisfies \<open>good\<close>.
\<close>

locale base_strategy =
  fixes S :: "'st strategy"
    and pending :: "'st \<Rightarrow> signal option"
    and inv :: "'st \<Rightarrow> bool"
    and good :: "signal \<Rightarrow> bool"
  assumes generate: "st_generate_signal S s = (pending s, t) \<Longrightarrow> pending t = None \<and> (inv s \<longrightarrow> inv t)"
    and generate_pending: "fst (st_generate_signal S s) = pending s"
    and tick_ok: "inv s \<Longrightarrow> st_on_tick S sy p v ts s = (r, t) \<Longrightarrow> inv t \<and> pending t = pending s"
    and bar_ok: "inv s \<Longrightarrow> proper_bar b \<Longrightarrow> st_on_bar S st b s = (r, t) \<Longrightarrow>
      inv t \<and> (pending t = pending s \<or> (\<exists>sg. pending t = Some sg \<and> good sg))"
begin

definition pending_good :: "'st \<Rightarrow> bool" where
  "pending_good s \<longleftrightarrow> inv s \<and> (\<forall>sg. pending s = Some sg \<longrightarrow> good sg)"

lemma after_bar: "pending_good s \<Longrightarrow> proper_bar b \<Longrightarrow> st_on_bar S st b s = (r, t) \<Longrightarrow> pending_good t"
  using bar_ok unfolding pending_good_def by (metis option.inject)

lemma after_tick: "pending_good s \<Longrightarrow> st_on_tick S sy p v ts s = (r, t) \<Longrightarrow> pending_good t"
  using tick_ok unfolding pending_good_def by metis

lemma generated:
  assumes "pending_good s" "st_generate_signal S s = (x, t)"
  shows "pending_good t \<and> (\<forall>sg. x = Some sg \<longrightarrow> good sg)"
proof -
  have x: "x = pending s"
    using generate_pending [of s] assms(2) by simp
  then show ?thesis
    using generate [of s t] assms by (simp add: pending_good_def)
qed

end

text \<open>
  The levels of a signal are on their sides of the price, to within the rounding to four digits, and the
  quantity is positive.
\<close>

definition brackets :: "signal \<Rightarrow> bool" where
  "brackets sg \<longleftrightarrow>
    0 < sg_quantity sg \<and>
    (case (sg_stop_loss sg, sg_take_profit sg) of
       (Some sl, Some tp) \<Rightarrow>
         (let p = sg_price_at_signal sg; e = 1 / 20000
          in if sg_direction sg = BUY then sl < p + e \<and> p < tp + e else p < sl + e \<and> tp < p + e)
     | _ \<Rightarrow> False)"

text \<open>A strategy fed with bars, as its runner does it: the signals that come out.\<close>

fun feed :: "'st strategy \<Rightarrow> (stamp \<times> bar) list \<Rightarrow> 'st \<Rightarrow> signal list \<times> 'st" where
  "feed St [] s = ([], s)"
| "feed St ((st, b) # bs) s =
    (case st_on_bar St st b s of
       (Inl e, s) \<Rightarrow> feed St bs s
     | (Inr _, s) \<Rightarrow>
        (case st_generate_signal St s of
           (x, s) \<Rightarrow> (case feed St bs s of (sgs, s) \<Rightarrow> ((case x of None \<Rightarrow> sgs | Some sg \<Rightarrow> sg # sgs), s))))"

definition sg_side :: "signal \<Rightarrow> str \<times> order_side" where
  "sg_side sg = (sg_symbol sg, sg_direction sg)"

text \<open>
  A strategy that counts its signals per key, the symbol or the symbol and the side, and stops at \<open>cap\<close>.  The
  counter is what the state remembers; the lemma bounds the signals themselves.
\<close>

locale counting_strategy = base_strategy S pending inv good
  for S :: "'st strategy" and pending :: "'st \<Rightarrow> signal option" and inv :: "'st \<Rightarrow> bool" and good :: "signal \<Rightarrow> bool" +
  fixes key :: "signal \<Rightarrow> 'k"
    and used :: "'st \<Rightarrow> 'k \<Rightarrow> nat"
    and cap :: nat
  assumes used_generate: "used (snd (st_generate_signal S s)) = used s"
    and used_mono: "st_on_bar S st b s = (r, t) \<Longrightarrow> used s k \<le> used t k"
    and used_new: "st_on_bar S st b s = (r, t) \<Longrightarrow> pending s = None \<Longrightarrow> pending t = Some sg \<Longrightarrow> key sg = k \<Longrightarrow>
      used s k < used t k \<and> used t k \<le> cap"
    and raised: "st_on_bar S st b s = (Inl e, t) \<Longrightarrow> pending t = pending s"
begin

lemma feed_counted:
  assumes "pending s = None"
  shows "length (filter ((\<lambda>sg. key sg = k)) (fst (feed S bs s))) + used s k \<le> max cap (used s k)"
  using assms
proof (induction bs arbitrary: s)
  case (Cons sb bs)
  obtain st b where sb: "sb = (st, b)" by fastforce
  obtain r t where t: "st_on_bar S st b s = (r, t)" by fastforce
  note more = used_mono [OF t, of k]
  show ?case
  proof (cases r)
    case (Inl e)
    then show ?thesis
      using Cons.IH [of t] raised t Cons.prems more by (simp add: sb)
  next
    case (Inr z)
    obtain y u where u: "st_generate_signal S t = (y, u)" by fastforce
    have y: "y = pending t" "used u = used t" "pending u = None"
      using u generate_pending [of t] used_generate [of t] generate [of t u] by auto
    obtain sgs w where f: "feed S bs u = (sgs, w)" by fastforce
    have IH: "length (filter ((\<lambda>sg. key sg = k)) sgs) + used t k \<le> max cap (used t k)"
      using Cons.IH [OF y(3)] by (simp add: f y(2))
    have out: "fst (feed S (sb # bs) s) = (case pending t of None \<Rightarrow> sgs | Some sg \<Rightarrow> sg # sgs)"
      by (simp add: sb t Inr u f y(1))
    show ?thesis
    proof (cases "\<exists>sg. pending t = Some sg \<and> key sg = k")
      case True
      then obtain sg where sg: "pending t = Some sg" "key sg = k" by blast
      show ?thesis
        using IH used_new [OF t Cons.prems sg] by (simp add: out sg)
    next
      case False
      have "length (filter ((\<lambda>sg. key sg = k)) sgs) + used s k \<le> max cap (used s k)"
        using IH more by (simp add: max_def split: if_splits)
      with False show ?thesis
        by (cases "pending t") (simp_all add: out)
    qed
  qed
qed simp

end

section \<open>Momentum\<close>

record momentum_config =
  mo_name :: str
  mo_market :: str
  mo_short_window :: nat
  mo_long_window :: nat
  mo_atr_period :: nat
  mo_stop_mult :: rat
  mo_tp_mult :: rat
  mo_min_confidence :: rat
  mo_nav :: rat

definition new_momentum_config :: "str \<Rightarrow> str \<Rightarrow> nat \<Rightarrow> nat \<Rightarrow> nat \<Rightarrow> rat \<Rightarrow> rat \<Rightarrow> rat \<Rightarrow> rat \<Rightarrow> momentum_config res" where
  "new_momentum_config name market short long atr_period stop_mult tp_mult min_conf nav =
    (if long \<le> short then Inl ValueError
     else if atr_period < 2 then Inl ValueError
     else Inr \<lparr>mo_name = name, mo_market = market, mo_short_window = short, mo_long_window = long, mo_atr_period = atr_period,
       mo_stop_mult = stop_mult, mo_tp_mult = tp_mult, mo_min_confidence = min_conf, mo_nav = nav\<rparr>)"

record momentum =
  mt_closes :: "str \<Rightarrow> rat list option"
  mt_true_ranges :: "str \<Rightarrow> rat list option"
  mt_prev_close :: "str \<Rightarrow> rat option"
  mt_prev_above :: "str \<Rightarrow> bool option"
  mt_pending :: "signal option"

definition new_momentum :: momentum where
  "new_momentum = \<lparr>mt_closes = Map.empty, mt_true_ranges = Map.empty, mt_prev_close = Map.empty,
     mt_prev_above = Map.empty, mt_pending = None\<rparr>"

definition momentum_on_tick :: "momentum_config \<Rightarrow> str \<Rightarrow> rat \<Rightarrow> int \<Rightarrow> rat \<Rightarrow> momentum \<Rightarrow> unit res \<times> momentum" where
  "momentum_on_tick C symbol price volume timestamp s =
    (let closes = (case mt_closes s symbol of None \<Rightarrow> [] | Some xs \<Rightarrow> xs)
     in (Inr (), s\<lparr>mt_closes := (mt_closes s)(symbol \<mapsto> push (mo_long_window C) closes price)\<rparr>))"

text \<open>\<open>_update_buffers\<close>: both buffers are created when the closes are missing, one of them is used unchecked.\<close>

definition update_buffers :: "momentum_config \<Rightarrow> bar \<Rightarrow> momentum \<Rightarrow> unit res \<times> momentum" where
  "update_buffers C b s =
    (let symbol = ba_symbol b;
         s = (if mt_closes s symbol = None
              then s\<lparr>mt_closes := (mt_closes s)(symbol \<mapsto> []), mt_true_ranges := (mt_true_ranges s)(symbol \<mapsto> [])\<rparr>
              else s);
         s = s\<lparr>mt_closes := (mt_closes s)(symbol \<mapsto> push (mo_long_window C) (opt_default [] (mt_closes s symbol)) (ba_close b))\<rparr>;
         prev_close = opt_default (ba_close b) (mt_prev_close s symbol);
         tr = true_range (ba_high b) (ba_low b) prev_close
     in case mt_true_ranges s symbol of
          None \<Rightarrow> (Inl KeyError, s)
        | Some trs \<Rightarrow>
            (Inr (), s\<lparr>mt_true_ranges := (mt_true_ranges s)(symbol \<mapsto> push (mo_atr_period C * 3) trs tr),
                       mt_prev_close := (mt_prev_close s)(symbol \<mapsto> ba_close b)\<rparr>))"

definition momentum_confidence :: "rat \<Rightarrow> rat \<Rightarrow> rat \<Rightarrow> rat \<Rightarrow> rat" where
  "momentum_confidence short_ma long_ma atr price =
    (if price \<le> 0 \<or> atr \<le> 0 then 0
     else (let divergence_pct = \<bar>short_ma - long_ma\<bar> / price; atr_pct = atr / price;
               raw = divergence_pct / max atr_pct (1 / 1000000000)
           in max 0 (min 1 raw)))"

definition momentum_signal :: "momentum_config \<Rightarrow> stamp \<Rightarrow> bar \<Rightarrow> order_side \<Rightarrow> rat \<Rightarrow> rat \<Rightarrow> rat \<Rightarrow> rat \<Rightarrow> signal res" where
  "momentum_signal C st b side confidence atr short_ma long_ma =
    (let price = ba_close b;
         stop_distance = mo_stop_mult C * atr;
         tp_distance = mo_tp_mult C * atr;
         stop_loss = (if side = BUY then price - stop_distance else price + stop_distance);
         take_profit = (if side = BUY then price + tp_distance else price - tp_distance);
         sizing = size_position price stop_distance (mo_nav C) confidence;
         quantity = (if 0 < sr_qty sizing \<and> \<not> sr_rejected_if_exceeds_cap sizing then sr_qty sizing else 1)
     in if stop_distance = 0 then Inl OtherError
        else Inr (build_signal st (ba_symbol b) (mo_market C) side quantity confidence (mo_name C) price stop_loss take_profit
          ([(''short_ma'', JNum (py_round4 short_ma)), (''long_ma'', JNum (py_round4 long_ma)), (''atr'', JNum (py_round4 atr)),
            (''atr_stop_mult'', JNum (mo_stop_mult C)), (''atr_tp_mult'', JNum (mo_tp_mult C)),
            (''stop_distance'', JNum (py_round4 stop_distance)),
            (''risk_reward_ratio'', JNum (py_round2 (tp_distance / stop_distance)))] @ sizing_metadata sizing)))"

definition momentum_on_bar :: "momentum_config \<Rightarrow> stamp \<Rightarrow> bar \<Rightarrow> momentum \<Rightarrow> unit res \<times> momentum" where
  "momentum_on_bar C st b s =
    (case update_buffers C b s of
       (Inl e, s) \<Rightarrow> (Inl e, s)
     | (Inr _, s) \<Rightarrow>
        (let symbol = ba_symbol b;
             closes = opt_default [] (mt_closes s symbol);
             trs = opt_default [] (mt_true_ranges s symbol)
         in if length closes < max (mo_long_window C) (mo_atr_period C) \<or> length trs < mo_atr_period C then (Inr (), s)
            else
              (case (sma closes (mo_short_window C), sma closes (mo_long_window C), wilder trs (mo_atr_period C)) of
                 (Some short_ma, Some long_ma, Some atr) \<Rightarrow>
                   if atr \<le> 0 then (Inr (), s)
                   else
                     (let above = (long_ma < short_ma);
                          confidence = momentum_confidence short_ma long_ma atr (ba_close b);
                          crossed = (case mt_prev_above s symbol of None \<Rightarrow> False | Some prev \<Rightarrow> above \<noteq> prev);
                          seen = (\<lambda>s. s\<lparr>mt_prev_above := (mt_prev_above s)(symbol \<mapsto> above)\<rparr>)
                      in if crossed \<and> mo_min_confidence C \<le> confidence then
                           (case momentum_signal C st b (if above then BUY else SELL) confidence atr short_ma long_ma of
                              Inl e \<Rightarrow> (Inl e, s)
                            | Inr sg \<Rightarrow> (Inr (), seen (s\<lparr>mt_pending := Some sg\<rparr>)))
                         else (Inr (), seen s))
               | _ \<Rightarrow> (Inr (), s))))"

definition momentum_generate :: "momentum \<Rightarrow> signal option \<times> momentum" where
  "momentum_generate s = (mt_pending s, s\<lparr>mt_pending := None\<rparr>)"

definition momentum_strategy :: "momentum_config \<Rightarrow> str list \<Rightarrow> momentum strategy" where
  "momentum_strategy C symbols =
    \<lparr>st_name = mo_name C, st_symbols = symbols, st_interval = ''minute'', st_on_tick = momentum_on_tick C,
     st_on_bar = momentum_on_bar C, st_generate_signal = momentum_generate\<rparr>"

text \<open>The signal of a crossover is bracketed when the multipliers are positive.\<close>

definition momentum_proper :: "momentum_config \<Rightarrow> bool" where
  "momentum_proper C \<longleftrightarrow> 0 < mo_stop_mult C \<and> 0 < mo_tp_mult C"

lemma momentum_signal_brackets:
  assumes "momentum_proper C" "\<not> atr \<le> 0" "momentum_signal C st b d c atr s l = Inr sg"
  shows "brackets sg"
proof -
  have "0 < mo_stop_mult C * atr" "0 < mo_tp_mult C * atr"
    using assms(1,2) by (simp_all add: momentum_proper_def)
  then show ?thesis
    using assms(3) by (auto simp: momentum_signal_def build_signal_def brackets_def Let_def split: if_splits)
qed

lemma update_buffers_pending: "update_buffers C b s = (r, t) \<Longrightarrow> mt_pending t = mt_pending s"
  by (auto simp: update_buffers_def Let_def split: option.splits if_splits)

lemma momentum_on_bar_pending:
  assumes "momentum_proper C" "momentum_on_bar C st b s = (r, t)"
  shows "mt_pending t = mt_pending s \<or> (\<exists>sg. mt_pending t = Some sg \<and> brackets sg)"
proof -
  obtain r1 s1 where u: "update_buffers C b s = (r1, s1)" by fastforce
  show ?thesis
    using assms(2) u update_buffers_pending [OF u]
    by (auto simp: momentum_on_bar_def Let_def split: sum.splits option.splits if_splits
        dest: momentum_signal_brackets [OF assms(1), rotated])
qed

interpretation mom: base_strategy "momentum_strategy C symbols" mt_pending "\<lambda>_. momentum_proper C" brackets
  for C :: momentum_config and symbols :: "str list"
  using momentum_on_bar_pending
  by unfold_locales (auto simp: momentum_strategy_def momentum_generate_def momentum_on_tick_def Let_def)

end
