(* ===== verification/StrategiesRange.thy ===== *)
theory StrategiesRange
  imports StrategyBase ExecutionFacts
begin

text \<open>
  The two strategies that trade against a band of the session's prices: the opening range breakout
  (\<open>strategies/orb_strategy.py\<close>) and the reversion to the VWAP (\<open>strategies/vwap_reversion_strategy.py\<close>).
  The dictionaries of a strategy get their entries of a symbol together, so the state holds one record per symbol.
\<close>

section \<open>Opening range breakout\<close>

record orb_config =
  or_name :: str
  or_market :: str
  or_end_minutes :: int
  or_min_range_mult :: rat
  or_vol_multiplier :: rat
  or_atr_period :: nat
  or_atr_stop_mult :: rat
  or_rr_ratio :: rat
  or_min_confidence :: rat
  or_nav :: rat
  or_paper_trade :: bool

record orb_symbol =
  ob_high :: "rat option"
  ob_low :: "rat option"
  ob_confirmed :: bool
  ob_fired :: "order_side set"
  ob_highs :: "rat list"
  ob_lows :: "rat list"
  ob_closes :: "rat list"
  ob_volumes :: "int list"

record orb =
  ob_symbols :: "str \<Rightarrow> orb_symbol option"
  ob_pending :: "signal option"

definition new_orb :: orb where
  "new_orb = \<lparr>ob_symbols = Map.empty, ob_pending = None\<rparr>"

text \<open>\<open>_ensure_buffers\<close>\<close>

definition orb_buffers :: "orb \<Rightarrow> str \<Rightarrow> orb_symbol" where
  "orb_buffers s symbol =
    (case ob_symbols s symbol of
       Some u \<Rightarrow> u
     | None \<Rightarrow> \<lparr>ob_high = None, ob_low = None, ob_confirmed = False, ob_fired = {}, ob_highs = [], ob_lows = [],
         ob_closes = [], ob_volumes = []\<rparr>)"

definition orb_record :: "orb_config \<Rightarrow> bar \<Rightarrow> orb_symbol \<Rightarrow> orb_symbol" where
  "orb_record C b u =
    (let n = or_atr_period C * 3
     in u\<lparr>ob_highs := push n (ob_highs u) (ba_high b), ob_lows := push n (ob_lows u) (ba_low b),
          ob_closes := push n (ob_closes u) (ba_close b), ob_volumes := push 20 (ob_volumes u) (ba_volume b)\<rparr>)"

definition MARKET_OPEN_IST :: int where
  "MARKET_OPEN_IST = 9 * 60 + 15"

definition orb_atr :: "orb_config \<Rightarrow> orb_symbol \<Rightarrow> rat option" where
  "orb_atr C u = atr_wilder (ob_highs u) (ob_lows u) (ob_closes u) (or_atr_period C)"

text \<open>Phase 1: the range grows with every bar before its end.\<close>

definition widen_range :: "bar \<Rightarrow> orb_symbol \<Rightarrow> orb_symbol" where
  "widen_range b u =
    (case (ob_high u, ob_low u) of
       (Some h, Some l) \<Rightarrow> u\<lparr>ob_high := Some (max h (ba_high b)), ob_low := Some (min l (ba_low b)), ob_confirmed := False\<rparr>
     | _ \<Rightarrow> u\<lparr>ob_high := Some (ba_high b), ob_low := Some (ba_low b), ob_confirmed := False\<rparr>)"

text \<open>Phase 2: the range is confirmed by the bar of its end.\<close>

definition confirm_range :: "orb_config \<Rightarrow> orb_symbol \<Rightarrow> orb_symbol" where
  "confirm_range C u =
    (case (ob_high u, ob_low u) of
       (Some h, Some l) \<Rightarrow>
         (let min_range = (case orb_atr C u of None \<Rightarrow> 0 | Some atr \<Rightarrow> or_min_range_mult C * atr)
          in if min_range \<le> h - l then u\<lparr>ob_confirmed := True\<rparr> else u)
     | _ \<Rightarrow> u)"

text \<open>The mean volume of the ten bars before the last one, when there are that many.\<close>

definition avg_volume_10 :: "int list \<Rightarrow> rat" where
  "avg_volume_10 volumes =
    (if 11 \<le> length volumes then of_int (sum_list (butlast (last_n 11 volumes))) / 10 else 0)"

definition volume_ok :: "rat \<Rightarrow> int list \<Rightarrow> bar \<Rightarrow> bool" where
  "volume_ok factor volumes b \<longleftrightarrow> avg_volume_10 volumes \<le> 0 \<or> factor * avg_volume_10 volumes \<le> of_int (ba_volume b)"

text \<open>The tighter of the ATR stop and the middle of the range.\<close>

definition orb_stop :: "orb_config \<Rightarrow> order_side \<Rightarrow> rat \<Rightarrow> rat \<Rightarrow> rat \<Rightarrow> rat" where
  "orb_stop C side price or_mid atr =
    (if side = BUY then max (price - or_atr_stop_mult C * atr) or_mid else min (price + or_atr_stop_mult C * atr) or_mid)"

definition orb_signal :: "orb_config \<Rightarrow> stamp \<Rightarrow> bar \<Rightarrow> order_side \<Rightarrow> rat \<Rightarrow> rat \<Rightarrow> rat \<Rightarrow> signal option" where
  "orb_signal C st b side or_high or_low atr =
    (let price = ba_close b;
         or_mid = (or_high + or_low) / 2;
         stop_loss = orb_stop C side price or_mid atr;
         stop_distance = \<bar>price - stop_loss\<bar>;
         tp_distance = stop_distance * or_rr_ratio C;
         take_profit = (if side = BUY then price + tp_distance else price - tp_distance);
         boundary = (if side = BUY then or_high else or_low);
         confidence = min 1 (1 / 2 + \<bar>price - boundary\<bar> / (atr * 2));
         sizing = size_position price stop_distance (or_nav C) confidence
     in if stop_distance \<le> 0 then None
        else if confidence < or_min_confidence C then None
        else if sr_qty sizing = 0 \<or> sr_rejected_if_exceeds_cap sizing then None
        else Some (build_signal st (ba_symbol b) (or_market C) side (sr_qty sizing) (py_round4 confidence) (or_name C) price
          (py_round4 stop_loss) (py_round4 take_profit)
          ([(''or_high'', JNum (py_round4 or_high)), (''or_low'', JNum (py_round4 or_low)),
            (''or_range'', JNum (py_round4 (or_high - or_low))), (''or_mid'', JNum (py_round4 or_mid)),
            (''atr'', JNum (py_round4 atr)), (''stop_distance'', JNum (py_round4 stop_distance)),
            (''rr_ratio'', JNum (or_rr_ratio C)), (''paper_trade'', JBool (or_paper_trade C)),
            (''strategy_version'', JStr ''orb_v1'')] @ sizing_metadata sizing)))"

text \<open>Phase 3: the first close beyond each boundary.\<close>

definition orb_breakout :: "orb_config \<Rightarrow> stamp \<Rightarrow> bar \<Rightarrow> orb_symbol \<Rightarrow> (order_side \<times> signal) option" where
  "orb_breakout C st b u =
    (case (ob_high u, ob_low u, orb_atr C u) of
       (Some h, Some l, Some atr) \<Rightarrow>
         if \<not> volume_ok (or_vol_multiplier C) (ob_volumes u) b \<or> atr \<le> 0 then None
         else if h < ba_close b \<and> BUY \<notin> ob_fired u then map_option (Pair BUY) (orb_signal C st b BUY h l atr)
         else if ba_close b < l \<and> SELL \<notin> ob_fired u then map_option (Pair SELL) (orb_signal C st b SELL h l atr)
         else None
     | _ \<Rightarrow> None)"

definition orb_on_bar :: "orb_config \<Rightarrow> stamp \<Rightarrow> bar \<Rightarrow> orb \<Rightarrow> unit res \<times> orb" where
  "orb_on_bar C st b s =
    (let symbol = ba_symbol b;
         u = orb_record C b (orb_buffers s symbol);
         m = ist_min (ba_timestamp b);
         or_end = MARKET_OPEN_IST + or_end_minutes C;
         put = (\<lambda>u. s\<lparr>ob_symbols := (ob_symbols s)(symbol \<mapsto> u)\<rparr>)
     in if MARKET_OPEN_IST \<le> m \<and> m < or_end then (Inr (), put (widen_range b u))
        else if m = or_end \<and> \<not> ob_confirmed u then (Inr (), put (confirm_range C u))
        else if \<not> ob_confirmed u \<or> m < or_end \<or> 14 * 60 + 45 \<le> m then (Inr (), put u)
        else
          (case orb_breakout C st b u of
             None \<Rightarrow> (Inr (), put u)
           | Some (side, sg) \<Rightarrow> (Inr (), (put (u\<lparr>ob_fired := insert side (ob_fired u)\<rparr>))\<lparr>ob_pending := Some sg\<rparr>)))"

definition orb_generate :: "orb \<Rightarrow> signal option \<times> orb" where
  "orb_generate s = (ob_pending s, s\<lparr>ob_pending := None\<rparr>)"

definition orb_reset_daily :: "orb \<Rightarrow> orb" where
  "orb_reset_daily s =
    s\<lparr>ob_symbols := (\<lambda>symbol. map_option (\<lambda>u. u\<lparr>ob_high := None, ob_low := None, ob_confirmed := False, ob_fired := {}\<rparr>)
      (ob_symbols s symbol))\<rparr>"

definition orb_strategy :: "orb_config \<Rightarrow> str list \<Rightarrow> orb strategy" where
  "orb_strategy C symbols =
    \<lparr>st_name = or_name C, st_symbols = symbols, st_interval = ''minute'', st_on_tick = ignore_tick,
     st_on_bar = orb_on_bar C, st_generate_signal = orb_generate\<rparr>"

section \<open>Reversion to the VWAP\<close>

record vwap_config =
  vr_name :: str
  vr_market :: str
  vr_band_std :: rat
  vr_atr_period :: nat
  vr_atr_stop_mult :: rat
  vr_min_confidence :: rat
  vr_cooldown :: int
  vr_min_wick_ratio :: rat
  vr_nav :: rat
  vr_paper_trade :: bool

record vwap_symbol =
  vs_highs :: "rat list"
  vs_lows :: "rat list"
  vs_closes :: "rat list"
  vs_volumes :: "int list"
  vs_atr_highs :: "rat list"
  vs_atr_lows :: "rat list"
  vs_atr_closes :: "rat list"
  vs_bars_since :: int

record vwap_state =
  vw_symbols :: "str \<Rightarrow> vwap_symbol option"
  vw_pending :: "signal option"

definition new_vwap :: vwap_state where
  "new_vwap = \<lparr>vw_symbols = Map.empty, vw_pending = None\<rparr>"

definition vwap_buffers :: "vwap_config \<Rightarrow> vwap_state \<Rightarrow> str \<Rightarrow> vwap_symbol" where
  "vwap_buffers C s symbol =
    (case vw_symbols s symbol of
       Some u \<Rightarrow> u
     | None \<Rightarrow> \<lparr>vs_highs = [], vs_lows = [], vs_closes = [], vs_volumes = [], vs_atr_highs = [], vs_atr_lows = [],
         vs_atr_closes = [], vs_bars_since = vr_cooldown C\<rparr>)"

definition vwap_record :: "bar \<Rightarrow> vwap_symbol \<Rightarrow> vwap_symbol" where
  "vwap_record b u =
    (let m = ist_min (ba_timestamp b);
         u = (if m < MARKET_OPEN_IST then u\<lparr>vs_highs := [], vs_lows := [], vs_closes := [], vs_volumes := []\<rparr>
              else u\<lparr>vs_highs := vs_highs u @ [ba_high b], vs_lows := vs_lows u @ [ba_low b],
                     vs_closes := vs_closes u @ [ba_close b], vs_volumes := vs_volumes u @ [ba_volume b]\<rparr>)
     in u\<lparr>vs_atr_highs := push 60 (vs_atr_highs u) (ba_high b), vs_atr_lows := push 60 (vs_atr_lows u) (ba_low b),
          vs_atr_closes := push 60 (vs_atr_closes u) (ba_close b), vs_bars_since := vs_bars_since u + 1\<rparr>)"

text \<open>\<open>_emit\<close>\<close>

definition vwap_signal :: "vwap_config \<Rightarrow> stamp \<Rightarrow> bar \<Rightarrow> order_side \<Rightarrow> rat \<Rightarrow> rat \<Rightarrow> rat \<Rightarrow> rat \<Rightarrow> rat \<Rightarrow> signal option" where
  "vwap_signal C st b side vw upper lower atr confidence =
    (let price = ba_close b;
         stop_dist = max (vr_atr_stop_mult C * atr) (\<bar>upper - lower\<bar> / 2);
         stop_loss = (if side = BUY then price - stop_dist else price + stop_dist);
         sizing = size_position price stop_dist (vr_nav C) confidence
     in if stop_dist \<le> 0 then None
        else if sr_qty sizing = 0 \<or> sr_rejected_if_exceeds_cap sizing then None
        else Some (build_signal st (ba_symbol b) (vr_market C) side (sr_qty sizing) (py_round4 confidence) (vr_name C) price
          (py_round4 stop_loss) (py_round4 vw)
          ([(''vwap'', JNum (py_round4 vw)), (''upper_band'', JNum (py_round4 upper)), (''lower_band'', JNum (py_round4 lower)),
            (''band_std'', JNum (vr_band_std C)), (''atr'', JNum (py_round4 atr)), (''stop_distance'', JNum (py_round4 stop_dist)),
            (''paper_trade'', JBool (vr_paper_trade C)), (''strategy_version'', JStr ''vwap_rev_v1'')] @ sizing_metadata sizing)))"

text \<open>The deviation in band widths and the wick that rejects it give the confidence.\<close>

definition reversion_confidence :: "rat \<Rightarrow> rat \<Rightarrow> rat \<Rightarrow> rat" where
  "reversion_confidence deviation band wick_ratio =
    min 1 (1 / 2 + (if band = 0 then 0 else deviation / band) * (1 / 4) + wick_ratio * (1 / 4))"

definition vwap_reversion :: "vwap_config \<Rightarrow> (rat \<Rightarrow> rat) \<Rightarrow> stamp \<Rightarrow> bar \<Rightarrow> vwap_symbol \<Rightarrow> signal option" where
  "vwap_reversion C msqrt st b u =
    (case (vwap_bands msqrt (vs_highs u) (vs_lows u) (vs_closes u) (vs_volumes u) (vr_band_std C),
           atr_wilder (vs_atr_highs u) (vs_atr_lows u) (vs_atr_closes u) (vr_atr_period C)) of
       (Some (vw, upper, lower), Some atr) \<Rightarrow>
         (let bar_range = ba_high b - ba_low b; close = ba_close b
          in if atr \<le> 0 \<or> bar_range \<le> 0 then None
             else if close < lower then
               (let wick_ratio = (close - ba_low b) / bar_range;
                    confidence = reversion_confidence (vw - close) (vw - lower) wick_ratio
                in if vr_min_wick_ratio C \<le> wick_ratio \<and> vr_min_confidence C \<le> confidence
                   then vwap_signal C st b BUY vw upper lower atr confidence else None)
             else if upper < close then
               (let wick_ratio = (ba_high b - close) / bar_range;
                    confidence = reversion_confidence (close - vw) (upper - vw) wick_ratio
                in if vr_min_wick_ratio C \<le> wick_ratio \<and> vr_min_confidence C \<le> confidence
                   then vwap_signal C st b SELL vw upper lower atr confidence else None)
             else None)
     | _ \<Rightarrow> None)"

definition vwap_on_bar :: "vwap_config \<Rightarrow> (rat \<Rightarrow> rat) \<Rightarrow> stamp \<Rightarrow> bar \<Rightarrow> vwap_state \<Rightarrow> unit res \<times> vwap_state" where
  "vwap_on_bar C msqrt st b s =
    (let symbol = ba_symbol b;
         u = vwap_record b (vwap_buffers C s symbol);
         m = ist_min (ba_timestamp b);
         put = (\<lambda>u. s\<lparr>vw_symbols := (vw_symbols s)(symbol \<mapsto> u)\<rparr>)
     in if m < 9 * 60 + 30 \<or> 14 * 60 + 30 \<le> m \<or> length (vs_closes u) < 5 \<or> vs_bars_since u < vr_cooldown C
        then (Inr (), put u)
        else
          (case vwap_reversion C msqrt st b u of
             None \<Rightarrow> (Inr (), put u)
           | Some sg \<Rightarrow> (Inr (), (put (u\<lparr>vs_bars_since := 0\<rparr>))\<lparr>vw_pending := Some sg\<rparr>)))"

definition vwap_generate :: "vwap_state \<Rightarrow> signal option \<times> vwap_state" where
  "vwap_generate s = (vw_pending s, s\<lparr>vw_pending := None\<rparr>)"

definition vwap_reset_daily :: "vwap_config \<Rightarrow> vwap_state \<Rightarrow> vwap_state" where
  "vwap_reset_daily C s =
    s\<lparr>vw_symbols := (\<lambda>symbol. map_option (\<lambda>u. u\<lparr>vs_highs := [], vs_lows := [], vs_closes := [], vs_volumes := [],
      vs_bars_since := vr_cooldown C\<rparr>) (vw_symbols s symbol))\<rparr>"

definition vwap_strategy :: "vwap_config \<Rightarrow> (rat \<Rightarrow> rat) \<Rightarrow> str list \<Rightarrow> vwap_state strategy" where
  "vwap_strategy C msqrt symbols =
    \<lparr>st_name = vr_name C, st_symbols = symbols, st_interval = ''minute'', st_on_tick = ignore_tick,
     st_on_bar = vwap_on_bar C msqrt, st_generate_signal = vwap_generate\<rparr>"

section \<open>Levels\<close>

lemma round4_bounds: "x - 1 / 20000 \<le> py_round4 x" "py_round4 x \<le> x + 1 / 20000"
  using round4_near [of x] unfolding abs_le_iff by simp_all

lemma guarded_Some: "(if a then None else x) = Some y \<longleftrightarrow> \<not> a \<and> x = Some y" "Some u = Some y \<longleftrightarrow> u = y"
  "\<not> (a \<or> b) \<longleftrightarrow> \<not> a \<and> \<not> b"
  by simp_all

definition orb_proper :: "orb_config \<Rightarrow> bool" where
  "orb_proper C \<longleftrightarrow> 0 < or_atr_stop_mult C \<and> 0 < or_rr_ratio C"

lemma sized_signal:
  assumes "0 < d" "0 < e" "sl \<le> p - d \<or> side \<noteq> BUY" "p + d \<le> sl \<or> side = BUY" "p + e \<le> tp \<or> side \<noteq> BUY" "tp \<le> p - e \<or> side = BUY"
    "0 < q"
  shows "brackets (build_signal st sy mk side q c n p (py_round4 sl) (py_round4 tp) md)"
  using assms round4_bounds [of sl] round4_bounds [of tp]
  by (auto simp: brackets_def build_signal_def Let_def)

lemma orb_signal_brackets:
  assumes "orb_proper C" "0 < atr" "l \<le> h" "side = BUY \<longrightarrow> h < ba_close b" "side = SELL \<longrightarrow> ba_close b < l"
    "orb_signal C st b side h l atr = Some sg"
  shows "brackets sg"
proof -
  let ?p = "ba_close b" and ?sl = "orb_stop C side (ba_close b) ((h + l) / 2) atr"
  let ?d = "\<bar>?p - ?sl\<bar>"
  let ?e = "?d * or_rr_ratio C"
  let ?tp = "if side = BUY then ?p + ?e else ?p - ?e"
  have "0 < or_atr_stop_mult C * atr"
    using assms(1,2) by (simp add: orb_proper_def)
  then have "?sl < ?p \<or> side \<noteq> BUY" "?p < ?sl \<or> side = BUY"
    using assms(3-5) by (cases side; simp add: orb_stop_def)+
  then have d: "0 < ?d" and sl: "?sl \<le> ?p - ?d \<or> side \<noteq> BUY" "?p + ?d \<le> ?sl \<or> side = BUY"
    by auto
  let ?c = "min 1 (1 / 2 + \<bar>?p - (if side = BUY then h else l)\<bar> / (atr * 2))"
  let ?q = "sr_qty (size_position ?p ?d (or_nav C) ?c)"
  obtain md where sg: "sg = build_signal st (ba_symbol b) (or_market C) side ?q (py_round4 ?c) (or_name C) ?p (py_round4 ?sl) (py_round4 ?tp) md"
    and "?q \<noteq> 0"
    using assms(6) unfolding orb_signal_def Let_def guarded_Some by blast
  then have q: "0 < ?q"
    using size_position_nonneg [of ?p ?d "or_nav C" ?c] by linarith
  have e: "0 < ?e"
    using assms(1) d by (simp add: orb_proper_def)
  then have tp: "?p + ?e \<le> ?tp \<or> side \<noteq> BUY" "?tp \<le> ?p - ?e \<or> side = BUY"
    by simp_all
  show ?thesis
    unfolding sg by (rule sized_signal [OF d e sl tp q])
qed

text \<open>A bar leaves its symbol in one of two ways.\<close>

lemma orb_breakout_Some:
  assumes "orb_breakout C st b u = Some (side, sg)"
  obtains h l atr where "ob_high u = Some h" "ob_low u = Some l" "0 < atr" "side = BUY \<longrightarrow> h < ba_close b"
    "side = SELL \<longrightarrow> ba_close b < l" "side \<notin> ob_fired u" "orb_signal C st b side h l atr = Some sg"
  using assms unfolding orb_breakout_def
  by (auto split: option.splits if_splits simp: not_le)

lemma orb_signal_fields:
  "orb_signal C st b side h l atr = Some sg \<Longrightarrow> sg_symbol sg = ba_symbol b \<and> sg_direction sg = side"
  unfolding orb_signal_def Let_def guarded_Some by (auto simp: build_signal_def)

definition proper_range :: "orb_symbol \<Rightarrow> bool" where
  "proper_range u \<longleftrightarrow> (\<forall>h l. ob_high u = Some h \<longrightarrow> ob_low u = Some l \<longrightarrow> l \<le> h)"

definition end_of_range :: "orb_config \<Rightarrow> bar \<Rightarrow> bool" where
  "end_of_range C b \<longleftrightarrow> ist_min (ba_timestamp b) = MARKET_OPEN_IST + or_end_minutes C"

lemma orb_record_simps [simp]:
  "ob_high (orb_record C b u) = ob_high u" "ob_low (orb_record C b u) = ob_low u"
  "ob_confirmed (orb_record C b u) = ob_confirmed u" "ob_fired (orb_record C b u) = ob_fired u"
  by (simp_all add: orb_record_def Let_def)

lemma widen_range_simps [simp]:
  "ob_fired (widen_range b u) = ob_fired u" "\<not> ob_confirmed (widen_range b u)"
  "proper_bar b \<Longrightarrow> proper_range u \<Longrightarrow> proper_range (widen_range b u)"
  by (auto simp: widen_range_def proper_range_def proper_bar_def le_max_iff_disj min_le_iff_disj split: option.splits)

lemma confirm_range_simps [simp]:
  "ob_fired (confirm_range C u) = ob_fired u" "proper_range (confirm_range C u) = proper_range u"
  by (auto simp: confirm_range_def proper_range_def Let_def split: option.splits)

lemma proper_range_record [simp]: "proper_range (orb_record C b u) = proper_range u"
  by (simp add: proper_range_def)

lemma orb_on_bar_cases:
  assumes "orb_on_bar C st b s = (r, t)"
  obtains
    (quiet) u where "r = Inr ()" "t = s\<lparr>ob_symbols := (ob_symbols s)(ba_symbol b \<mapsto> u)\<rparr>"
      "ob_fired u = ob_fired (orb_buffers s (ba_symbol b))"
      "ob_confirmed u \<Longrightarrow> ob_confirmed (orb_buffers s (ba_symbol b)) \<or> end_of_range C b"
      "proper_bar b \<Longrightarrow> proper_range (orb_buffers s (ba_symbol b)) \<Longrightarrow> proper_range u"
  | (signal) u side sg where "r = Inr ()"
      "t = s\<lparr>ob_symbols := (ob_symbols s)(ba_symbol b \<mapsto> u\<lparr>ob_fired := insert side (ob_fired u)\<rparr>), ob_pending := Some sg\<rparr>"
      "u = orb_record C b (orb_buffers s (ba_symbol b))" "ob_confirmed u" "orb_breakout C st b u = Some (side, sg)"
proof -
  let ?u = "orb_record C b (orb_buffers s (ba_symbol b))" and ?m = "ist_min (ba_timestamp b)"
  let ?e = "MARKET_OPEN_IST + or_end_minutes C"
  note run = assms [unfolded orb_on_bar_def Let_def, symmetric]
  consider (forming) "MARKET_OPEN_IST \<le> ?m \<and> ?m < ?e"
    | (ending) "\<not> (MARKET_OPEN_IST \<le> ?m \<and> ?m < ?e)" "?m = ?e \<and> \<not> ob_confirmed ?u"
    | (closed) "\<not> (MARKET_OPEN_IST \<le> ?m \<and> ?m < ?e)" "\<not> (?m = ?e \<and> \<not> ob_confirmed ?u)"
        "\<not> ob_confirmed ?u \<or> ?m < ?e \<or> 14 * 60 + 45 \<le> ?m"
    | (watching) "\<not> (MARKET_OPEN_IST \<le> ?m \<and> ?m < ?e)" "\<not> (?m = ?e \<and> \<not> ob_confirmed ?u)"
        "\<not> (\<not> ob_confirmed ?u \<or> ?m < ?e \<or> 14 * 60 + 45 \<le> ?m)"
    by blast
  then show ?thesis
  proof cases
    case forming
    then show ?thesis using run quiet [of "widen_range b ?u"] by simp
  next
    case ending
    then show ?thesis using run quiet [of "confirm_range C ?u"] by (simp add: end_of_range_def)
  next
    case closed
    show ?thesis using run quiet [of ?u] by (simp only: closed if_False if_True) simp
  next
    case watching
    show ?thesis
    proof (cases "orb_breakout C st b ?u")
      case None
      show ?thesis using run quiet [of ?u] by (simp only: watching if_False None option.case) simp
    next
      case (Some p)
      obtain side sg where p: "p = (side, sg)" by fastforce
      have conf: "ob_confirmed ?u"
        using watching(3) by blast
      show ?thesis
        using run signal [where u = ?u and side = side and sg = sg] Some by (simp only: watching if_False Some p option.case prod.case) (use conf in simp)
    qed
  qed
qed

text \<open>The range of a symbol is proper, as long as the bars are.\<close>

definition orb_inv :: "orb_config \<Rightarrow> orb \<Rightarrow> bool" where
  "orb_inv C s \<longleftrightarrow> orb_proper C \<and> (\<forall>x. proper_range (orb_buffers s x))"

lemma orb_buffers_update:
  "orb_buffers (s\<lparr>ob_symbols := (ob_symbols s)(y \<mapsto> u)\<rparr>) x = (if x = y then u else orb_buffers s x)"
  "orb_buffers (s\<lparr>ob_symbols := m, ob_pending := p\<rparr>) x = orb_buffers (s\<lparr>ob_symbols := m\<rparr>) x"
  "orb_buffers (s\<lparr>ob_pending := p\<rparr>) x = orb_buffers s x"
  by (simp_all add: orb_buffers_def)

lemma orb_on_bar_inv:
  assumes "orb_inv C s" "proper_bar b" "orb_on_bar C st b s = (r, t)"
  shows "orb_inv C t \<and> (ob_pending t = ob_pending s \<or> (\<exists>sg. ob_pending t = Some sg \<and> brackets sg))"
  using assms(3)
proof (cases rule: orb_on_bar_cases)
  case (quiet u)
  then show ?thesis
    using assms(1,2) by (simp add: orb_inv_def orb_buffers_update)
next
  case (signal u side sg)
  obtain h l atr where at: "ob_high u = Some h" "ob_low u = Some l" "0 < atr" "side = BUY \<longrightarrow> h < ba_close b"
    "side = SELL \<longrightarrow> ba_close b < l" "orb_signal C st b side h l atr = Some sg"
    using orb_breakout_Some [OF signal(5)] by metis
  have proper: "proper_range u" "orb_proper C"
    using assms(1) signal(3) by (simp_all add: orb_inv_def)
  then have "l \<le> h"
    using at(1,2) by (simp add: proper_range_def)
  then have "brackets sg"
    using orb_signal_brackets [OF proper(2) at(3) _ at(4-6)] by simp
  moreover have "proper_range (u\<lparr>ob_fired := insert side (ob_fired u)\<rparr>)"
    using proper(1) by (simp add: proper_range_def)
  ultimately show ?thesis
    using assms(1) signal(2) by (simp add: orb_inv_def orb_buffers_update)
qed

interpretation orb: base_strategy "orb_strategy C symbols" ob_pending "orb_inv C" brackets
  for C :: orb_config and symbols :: "str list"
proof (unfold_locales, goal_cases)
  case (4 s b st r t)
  then show ?case
    using orb_on_bar_inv [of C s b st r t] by (simp add: orb_strategy_def)
qed (auto simp: orb_strategy_def orb_generate_def ignore_tick_def orb_inv_def orb_buffers_update)

section \<open>What a breakout strategy can emit\<close>

lemma orb_feed:
  "feed (orb_strategy C symbols) ((st, b) # bs) s =
    (case orb_on_bar C st b s of (r, s) \<Rightarrow>
       (case feed (orb_strategy C symbols) bs (s\<lparr>ob_pending := None\<rparr>) of
          (sgs, t) \<Rightarrow> ((case ob_pending s of None \<Rightarrow> sgs | Some sg \<Rightarrow> sg # sgs), t)))"
  by (auto simp: orb_strategy_def orb_generate_def elim: orb_on_bar_cases split: sum.splits prod.splits option.splits)

text \<open>Each side of a symbol fires once.\<close>

definition orb_used :: "orb \<Rightarrow> str \<times> order_side \<Rightarrow> nat" where
  "orb_used s k = (if snd k \<in> ob_fired (orb_buffers s (fst k)) then 1 else 0)"

lemma orb_on_bar_used:
  assumes "orb_on_bar C st b s = (r, t)"
  shows "orb_used s k \<le> orb_used t k \<and> r = Inr () \<and>
    (ob_pending t = ob_pending s \<or> (\<exists>sg. ob_pending t = Some sg \<and> (sg_side sg = k \<longrightarrow> orb_used s k = 0 \<and> orb_used t k = 1)))"
  using assms
proof (cases rule: orb_on_bar_cases)
  case (quiet u)
  then show ?thesis by (simp add: orb_used_def orb_buffers_update)
next
  case (signal u side sg)
  have "side \<notin> ob_fired (orb_buffers s (ba_symbol b))" "sg_symbol sg = ba_symbol b" "sg_direction sg = side"
    using signal(3) orb_breakout_Some [OF signal(5)] orb_signal_fields by (metis orb_record_simps(4))+
  then show ?thesis
    using signal(1-3) by (auto simp: orb_used_def orb_buffers_update sg_side_def)
qed

interpretation orb_once: counting_strategy "orb_strategy C symbols" ob_pending "orb_inv C" brackets sg_side orb_used 1
  for C :: orb_config and symbols :: "str list"
proof (unfold_locales, goal_cases)
  case (1 s)
  then show ?case
    by (simp add: orb_strategy_def orb_generate_def orb_used_def [abs_def] orb_buffers_update)
next
  case (2 st b s r t k)
  then show ?case using orb_on_bar_used [of C st b s r t k] by (simp add: orb_strategy_def)
next
  case (3 st b s r t sg k)
  then show ?case using orb_on_bar_used [of C st b s r t k] by (auto simp: orb_strategy_def)
next
  case (4 st b s e t)
  then show ?case using orb_on_bar_used [of C st b s "Inl e" t] by (auto simp: orb_strategy_def)
qed

lemma orb_feed_silent:
  assumes "ob_pending s = None" "\<not> ob_confirmed (orb_buffers s x)" "\<forall>(st, b) \<in> set bs. ba_symbol b = x \<longrightarrow> \<not> end_of_range C b"
  shows "\<forall>sg \<in> set (fst (feed (orb_strategy C symbols) bs s)). sg_symbol sg \<noteq> x"
  using assms
proof (induction bs arbitrary: s)
  case (Cons sb bs)
  obtain st b where sb: "sb = (st, b)" by fastforce
  obtain r t where t: "orb_on_bar C st b s = (r, t)" by fastforce
  obtain sgs t2 where f: "feed (orb_strategy C symbols) bs (t\<lparr>ob_pending := None\<rparr>) = (sgs, t2)" by fastforce
  have out: "fst (feed (orb_strategy C symbols) (sb # bs) s) = (case ob_pending t of None \<Rightarrow> sgs | Some sg \<Rightarrow> sg # sgs)"
    by (simp only: sb orb_feed t f prod.case fst_conv)
  have late: "ba_symbol b = x \<longrightarrow> \<not> end_of_range C b" "\<forall>(st, b) \<in> set bs. ba_symbol b = x \<longrightarrow> \<not> end_of_range C b"
    using Cons.prems(3) by (auto simp: sb)
  from t show ?case
  proof (cases rule: orb_on_bar_cases)
    case (quiet u)
    then have "\<not> ob_confirmed (orb_buffers t x)"
      using Cons.prems(2) late(1) by (auto simp: orb_buffers_update)
    then show ?thesis
      using Cons.IH [of "t\<lparr>ob_pending := None\<rparr>"] late(2) f Cons.prems(1) quiet unfolding out by (simp add: orb_buffers_update)
  next
    case (signal u side sg)
    have "ba_symbol b \<noteq> x"
      using signal(3,4) Cons.prems(2) by auto
    moreover from this have "\<not> ob_confirmed (orb_buffers t x)"
      using Cons.prems(2) signal(2) by (simp add: orb_buffers_update)
    moreover have "sg_symbol sg = ba_symbol b"
      using orb_breakout_Some [OF signal(5)] orb_signal_fields by metis
    ultimately show ?thesis
      using Cons.IH [of "t\<lparr>ob_pending := None\<rparr>"] late(2) f signal(2) unfolding out by (simp add: orb_buffers_update)
  qed
qed simp

section \<open>Reversion\<close>

definition vwap_proper :: "vwap_config \<Rightarrow> (rat \<Rightarrow> rat) \<Rightarrow> bool" where
  "vwap_proper C msqrt \<longleftrightarrow> 0 < vr_atr_stop_mult C \<and> 0 \<le> vr_band_std C \<and> (\<forall>x. 0 \<le> msqrt x)"

lemma vwap_bands_order:
  assumes "vwap_proper C msqrt" "vwap_bands msqrt hs ls cs vs (vr_band_std C) = Some (vw, upper, lower)"
  shows "lower \<le> vw \<and> vw \<le> upper"
  using assms by (auto simp: vwap_proper_def vwap_bands_def Let_def split: option.splits if_splits)

lemma vwap_signal_brackets:
  assumes "0 < vr_atr_stop_mult C" "0 < atr" "side = BUY \<longrightarrow> ba_close b < vw" "side = SELL \<longrightarrow> vw < ba_close b"
    "vwap_signal C st b side vw upper lower atr c = Some sg"
  shows "brackets sg \<and> sg_symbol sg = ba_symbol b"
proof -
  let ?p = "ba_close b" and ?d = "max (vr_atr_stop_mult C * atr) (\<bar>upper - lower\<bar> / 2)"
  let ?sl = "if side = BUY then ?p - ?d else ?p + ?d" and ?q = "sr_qty (size_position ?p ?d (vr_nav C) c)"
  obtain md where sg: "sg = build_signal st (ba_symbol b) (vr_market C) side ?q (py_round4 c) (vr_name C) ?p (py_round4 ?sl) (py_round4 vw) md"
    and "?q \<noteq> 0"
    using assms(5) unfolding vwap_signal_def Let_def guarded_Some by blast
  then have q: "0 < ?q"
    using size_position_nonneg [of ?p ?d "vr_nav C" c] by linarith
  have d: "0 < ?d"
    using assms(1,2) by (simp add: less_max_iff_disj)
  have "brackets sg"
    unfolding sg
  proof (rule sized_signal [OF d _ _ _ _ _ q])
    show "0 < \<bar>vw - ?p\<bar>" "?p + \<bar>vw - ?p\<bar> \<le> vw \<or> side \<noteq> BUY" "vw \<le> ?p - \<bar>vw - ?p\<bar> \<or> side = BUY"
      using assms(3,4) by (cases side; simp)+
  qed simp_all
  then show ?thesis
    by (simp add: sg build_signal_def)
qed

lemma vwap_reversion_Some:
  assumes "vwap_proper C msqrt" "vwap_reversion C msqrt st b u = Some sg"
  shows "brackets sg \<and> sg_symbol sg = ba_symbol b"
proof -
  obtain vw upper lower atr where bands: "vwap_bands msqrt (vs_highs u) (vs_lows u) (vs_closes u) (vs_volumes u) (vr_band_std C) = Some (vw, upper, lower)"
    and atr: "atr_wilder (vs_atr_highs u) (vs_atr_lows u) (vs_atr_closes u) (vr_atr_period C) = Some atr"
    using assms(2) by (auto simp: vwap_reversion_def split: option.splits)
  obtain side c where "0 < atr" "side = BUY \<longrightarrow> ba_close b < lower" "side = SELL \<longrightarrow> upper < ba_close b"
      "vwap_signal C st b side vw upper lower atr c = Some sg"
    using assms(2) unfolding vwap_reversion_def bands atr Let_def
    by (auto simp: not_le split: if_splits)
  then show ?thesis
    using vwap_signal_brackets [of C atr side b vw st upper lower c sg] vwap_bands_order [OF assms(1) bands] assms(1)
    by (auto simp: vwap_proper_def)
qed

lemma vwap_on_bar_pending:
  assumes "vwap_proper C msqrt" "vwap_on_bar C msqrt st b s = (r, t)"
  shows "vw_pending t = vw_pending s \<or> (\<exists>sg. vw_pending t = Some sg \<and> brackets sg)"
  using assms(2) unfolding vwap_on_bar_def Let_def
  by (auto split: if_splits option.splits dest: vwap_reversion_Some [OF assms(1)])

interpretation vw: base_strategy "vwap_strategy C msqrt symbols" vw_pending "\<lambda>_. vwap_proper C msqrt" brackets
  for C :: vwap_config and msqrt :: "rat \<Rightarrow> rat" and symbols :: "str list"
proof (unfold_locales, goal_cases)
  case (4 s b st r t)
  then show ?case
    using vwap_on_bar_pending [of C msqrt st b s r t] by (simp add: vwap_strategy_def)
qed (auto simp: vwap_strategy_def vwap_generate_def ignore_tick_def)

section \<open>The properties of the breakout strategy\<close>

definition nse_orb :: orb_config where
  "nse_orb = \<lparr>or_name = ''nse_orb_15m'', or_market = ''NSE'', or_end_minutes = 15, or_min_range_mult = 1 / 2, or_vol_multiplier = 3 / 2,
     or_atr_period = 14, or_atr_stop_mult = 3 / 2, or_rr_ratio = 2, or_min_confidence = 13 / 20, or_nav = 1000000, or_paper_trade = True\<rparr>"

definition tcs_bar :: "rat \<Rightarrow> bar" where
  "tcs_bar t = \<lparr>ba_symbol = ''TCS'', ba_market = ''NSE'', ba_open = 100, ba_high = 102, ba_low = 99, ba_close = 101, ba_volume = 500,
     ba_timestamp = t, ba_interval = ''minute'', ba_data_quality = NORMAL_QUALITY\<rparr>"

text \<open>
  However many bars of however many days it gets, a breakout strategy that was just constructed emits at most one
  signal for every symbol and side.
\<close>

theorem breakout_fires_once:
  "length (filter (\<lambda>sg. sg_side sg = k) (fst (feed (orb_strategy C symbols) bs new_orb))) \<le> 1"
  using orb_once.feed_counted [of new_orb k C symbols bs] by (simp add: new_orb_def orb_used_def orb_buffers_def)

text \<open>
  The range of a symbol is confirmed by the bar of the minute at which the range ends and by no later one: without
  that bar the symbol gets no signal, whatever the other bars are.
\<close>

theorem missed_bar_silences_breakout:
  assumes "\<forall>(st, b) \<in> set bs. ba_symbol b = x \<longrightarrow> ist_min (ba_timestamp b) \<noteq> MARKET_OPEN_IST + or_end_minutes C"
  shows "filter (\<lambda>sg. sg_symbol sg = x) (fst (feed (orb_strategy C symbols) bs new_orb)) = []"
  using orb_feed_silent [of new_orb x bs C symbols] assms
  by (auto simp: new_orb_def orb_buffers_def end_of_range_def filter_empty_conv)

theorem missed_bar_silences_breakout_witness:
  "filter (\<lambda>sg. sg_symbol sg = ''TCS'') (fst (feed (orb_strategy nse_orb [''TCS''])
    [((''s1'', 0), tcs_bar 14340), ((''s2'', 0), tcs_bar 14460)] new_orb)) = []"
  by (rule missed_bar_silences_breakout) (simp add: tcs_bar_def nse_orb_def MARKET_OPEN_IST_def ist_min_def)

end
