(* ===== verification/StrategiesTrend.thy ===== *)
theory StrategiesTrend
  imports StrategiesRange
begin

text \<open>
  The two strategies that follow the session's direction: the pre-close momentum on 5-minute candles
  (\<open>strategies/preclose_momentum_strategy.py\<close>) and the 15-minute trend (\<open>strategies/intraday_trend_15m_strategy.py\<close>).
  \<open>ZeroDivisionError\<close> is \<open>OtherError\<close>; the look-back and the periods are positive.
\<close>

section \<open>Pre-close momentum\<close>

record preclose_config =
  pc_name :: str
  pc_market :: str
  pc_lookback :: nat
  pc_min_bias :: rat
  pc_max_atr_pct :: rat
  pc_atr_period :: nat
  pc_atr_stop_mult :: rat
  pc_tp_pct :: rat
  pc_nav :: rat
  pc_paper_trade :: bool

definition new_preclose_config :: "str \<Rightarrow> str \<Rightarrow> nat \<Rightarrow> rat \<Rightarrow> rat \<Rightarrow> nat \<Rightarrow> rat \<Rightarrow> rat \<Rightarrow> rat \<Rightarrow> bool \<Rightarrow> preclose_config" where
  "new_preclose_config name market lookback min_bias max_atr_pct atr_period stop_mult tp_pct nav paper =
    \<lparr>pc_name = name, pc_market = market, pc_lookback = lookback, pc_min_bias = min_bias, pc_max_atr_pct = max_atr_pct / 100,
     pc_atr_period = atr_period, pc_atr_stop_mult = stop_mult, pc_tp_pct = tp_pct / 100, pc_nav = nav, pc_paper_trade = paper\<rparr>"

definition preclose_buf :: "preclose_config \<Rightarrow> nat" where
  "preclose_buf C = max (pc_lookback C + 2) (pc_atr_period C * 2)"

record preclose_symbol =
  ps_closes :: "rat list"
  ps_opens :: "rat list"
  ps_highs :: "rat list"
  ps_lows :: "rat list"
  ps_volumes :: "int list"
  ps_vwap_h :: "rat list"
  ps_vwap_l :: "rat list"
  ps_vwap_c :: "rat list"
  ps_vwap_v :: "int list"
  ps_fired :: bool

record preclose =
  pr_symbols :: "str \<Rightarrow> preclose_symbol option"
  pr_pending :: "signal option"

definition new_preclose :: preclose where
  "new_preclose = \<lparr>pr_symbols = Map.empty, pr_pending = None\<rparr>"

text \<open>\<open>_ensure\<close>\<close>

definition preclose_buffers :: "preclose \<Rightarrow> str \<Rightarrow> preclose_symbol" where
  "preclose_buffers s symbol =
    (case pr_symbols s symbol of
       Some u \<Rightarrow> u
     | None \<Rightarrow> \<lparr>ps_closes = [], ps_opens = [], ps_highs = [], ps_lows = [], ps_volumes = [], ps_vwap_h = [], ps_vwap_l = [],
         ps_vwap_c = [], ps_vwap_v = [], ps_fired = False\<rparr>)"

definition preclose_record :: "preclose_config \<Rightarrow> bar \<Rightarrow> preclose_symbol \<Rightarrow> preclose_symbol" where
  "preclose_record C b u =
    (let n = preclose_buf C;
         u = u\<lparr>ps_closes := push n (ps_closes u) (ba_close b), ps_opens := push n (ps_opens u) (ba_open b),
               ps_highs := push n (ps_highs u) (ba_high b), ps_lows := push n (ps_lows u) (ba_low b),
               ps_volumes := push n (ps_volumes u) (ba_volume b)\<rparr>
     in if MARKET_OPEN_IST \<le> ist_min (ba_timestamp b)
        then u\<lparr>ps_vwap_h := ps_vwap_h u @ [ba_high b], ps_vwap_l := ps_vwap_l u @ [ba_low b],
               ps_vwap_c := ps_vwap_c u @ [ba_close b], ps_vwap_v := ps_vwap_v u @ [ba_volume b]\<rparr>
        else u)"

definition compute_bias :: "rat list \<Rightarrow> rat list \<Rightarrow> order_side option \<times> rat" where
  "compute_bias closes opens =
    (let n = length closes
     in if n < 2 then (None, 0)
        else
          (let bull_bars = length (filter (\<lambda>(c, p). p < c) (zip closes opens));
               bear_bars = int n - int bull_bars;
               total_return = (if 0 < hd closes then (last closes - hd closes) / hd closes else 0);
               last_bullish = last opens < last closes
           in if total_return = 0 then (None, 0)
              else
                (let side = (if 0 < total_return then BUY else SELL)
                 in if side = BUY \<and> \<not> last_bullish then (None, 0)
                    else if side = SELL \<and> last_bullish then (None, 0)
                    else
                      (let bar_ratio = (if side = BUY then of_nat bull_bars / of_nat n else of_int bear_bars / of_nat n);
                           momentum_mag = min (3 / 10) (\<bar>total_return\<bar> * 100);
                           score = bar_ratio * (7 / 10) + momentum_mag
                       in (Some side, min 1 score)))))"

definition preclose_signal :: "preclose_config \<Rightarrow> stamp \<Rightarrow> bar \<Rightarrow> order_side \<Rightarrow> rat \<Rightarrow> rat \<Rightarrow> rat option \<Rightarrow> signal option" where
  "preclose_signal C st b side bias_score atr vw =
    (let price = ba_close b;
         stop_dist = pc_atr_stop_mult C * atr;
         tp_dist = max (price * pc_tp_pct C) (stop_dist * (3 / 2));
         stop_loss = (if side = BUY then price - stop_dist else price + stop_dist);
         take_profit = (if side = BUY then price + tp_dist else price - tp_dist);
         confidence = min 1 (1 / 2 + (bias_score - pc_min_bias C));
         sizing = size_position price stop_dist (pc_nav C) confidence
     in if sr_qty sizing = 0 \<or> sr_rejected_if_exceeds_cap sizing then None
        else Some (build_signal st (ba_symbol b) (pc_market C) side (sr_qty sizing) (py_round4 confidence) (pc_name C) price
          (py_round4 stop_loss) (py_round4 take_profit)
          ([(''bias_score'', JNum (py_round4 bias_score)), (''atr'', JNum (py_round4 atr)),
            (''vwap'', (case vw of None \<Rightarrow> JNull | Some v \<Rightarrow> JNum (py_round4 v))),
            (''stop_distance'', JNum (py_round4 stop_dist)), (''must_close_by'', JStr ''15:10 IST''),
            (''paper_trade'', JBool (pc_paper_trade C)), (''strategy_version'', JStr ''preclose_mom_v1'')] @ sizing_metadata sizing)))"

text \<open>The part of \<open>on_bar\<close> after the gates: the signal, if any, or the error of the division by the price.\<close>

definition preclose_decide :: "preclose_config \<Rightarrow> stamp \<Rightarrow> bar \<Rightarrow> preclose_symbol \<Rightarrow> signal option res" where
  "preclose_decide C st b u =
    (let price = ba_close b; n = pc_lookback C
     in case atr_wilder (ps_highs u) (ps_lows u) (ps_closes u) (pc_atr_period C) of
          None \<Rightarrow> Inr None
        | Some atr \<Rightarrow>
            if atr \<le> 0 then Inr None
            else if price = 0 then Inl OtherError
            else if pc_max_atr_pct C < atr / price then Inr None
            else
              (case compute_bias (last_n n (ps_closes u)) (last_n n (ps_opens u)) of
                 (None, score) \<Rightarrow> Inr None
               | (Some side, score) \<Rightarrow>
                   if score < pc_min_bias C then Inr None
                   else
                     (let vw = vwap (ps_vwap_h u) (ps_vwap_l u) (ps_vwap_c u) (ps_vwap_v u)
                      in if (case vw of None \<Rightarrow> False | Some v \<Rightarrow> side = BUY \<and> price < v \<or> side = SELL \<and> v < price) then Inr None
                         else Inr (preclose_signal C st b side score atr vw))))"

definition preclose_on_bar :: "preclose_config \<Rightarrow> stamp \<Rightarrow> bar \<Rightarrow> preclose \<Rightarrow> unit res \<times> preclose" where
  "preclose_on_bar C st b s =
    (let symbol = ba_symbol b;
         u = preclose_record C b (preclose_buffers s symbol);
         m = ist_min (ba_timestamp b);
         put = (\<lambda>u. s\<lparr>pr_symbols := (pr_symbols s)(symbol \<mapsto> u)\<rparr>)
     in if \<not> (14 * 60 + 45 \<le> m \<and> m < 15 * 60 + 10) \<or> ps_fired u \<or> length (ps_closes u) < pc_lookback C then (Inr (), put u)
        else
          (case preclose_decide C st b u of
             Inl e \<Rightarrow> (Inl e, put u)
           | Inr None \<Rightarrow> (Inr (), put u)
           | Inr (Some sg) \<Rightarrow> (Inr (), (put (u\<lparr>ps_fired := True\<rparr>))\<lparr>pr_pending := Some sg\<rparr>)))"

definition preclose_generate :: "preclose \<Rightarrow> signal option \<times> preclose" where
  "preclose_generate s = (pr_pending s, s\<lparr>pr_pending := None\<rparr>)"

definition preclose_reset_daily :: "preclose \<Rightarrow> preclose" where
  "preclose_reset_daily s =
    s\<lparr>pr_symbols := (\<lambda>symbol. map_option (\<lambda>u. u\<lparr>ps_fired := False, ps_vwap_h := [], ps_vwap_l := [], ps_vwap_c := [],
      ps_vwap_v := []\<rparr>) (pr_symbols s symbol))\<rparr>"

definition preclose_strategy :: "preclose_config \<Rightarrow> str list \<Rightarrow> preclose strategy" where
  "preclose_strategy C symbols =
    \<lparr>st_name = pc_name C, st_symbols = symbols, st_interval = ''5minute'', st_on_tick = ignore_tick,
     st_on_bar = preclose_on_bar C, st_generate_signal = preclose_generate\<rparr>"

lemma levels_bracket:
  assumes "0 < d" "0 < e" "0 < q"
  shows "brackets (build_signal st sy mk side q c n p (py_round4 (if side = BUY then p - d else p + d))
    (py_round4 (if side = BUY then p + e else p - e)) md)"
  by (rule sized_signal [OF assms(1,2) _ _ _ _ assms(3)]) simp_all

lemma signal_fields [simp]:
  "sg_symbol (build_signal st sy mk side q c n p sl tp md) = sy" "sg_direction (build_signal st sy mk side q c n p sl tp md) = side"
  by (simp_all add: build_signal_def)

lemma sized_positive: "sr_qty (size_position p d nav c) \<noteq> 0 \<Longrightarrow> 0 < sr_qty (size_position p d nav c)"
  using size_position_nonneg [of p d nav c] by linarith

definition preclose_proper :: "preclose_config \<Rightarrow> bool" where
  "preclose_proper C \<longleftrightarrow> 0 < pc_atr_stop_mult C"

lemma preclose_signal_Some:
  assumes "preclose_signal C st b side score atr vw = Some sg"
  shows "sg_symbol sg = ba_symbol b \<and> (preclose_proper C \<longrightarrow> 0 < atr \<longrightarrow> brackets sg)"
proof -
  let ?p = "ba_close b" and ?d = "pc_atr_stop_mult C * atr" and ?c = "min 1 (1 / 2 + (score - pc_min_bias C))"
  let ?e = "max (?p * pc_tp_pct C) (?d * (3 / 2))" and ?q = "sr_qty (size_position ?p ?d (pc_nav C) ?c)"
  obtain md where sg: "sg = build_signal st (ba_symbol b) (pc_market C) side ?q (py_round4 ?c) (pc_name C) ?p
      (py_round4 (if side = BUY then ?p - ?d else ?p + ?d)) (py_round4 (if side = BUY then ?p + ?e else ?p - ?e)) md" and "?q \<noteq> 0"
    using assms unfolding preclose_signal_def Let_def guarded_Some by blast
  then have q: "0 < ?q" by (intro sized_positive)
  have "0 < ?d \<and> 0 < ?e" if "preclose_proper C" "0 < atr"
    using that by (simp add: preclose_proper_def less_max_iff_disj)
  then show ?thesis
    using levels_bracket [OF _ _ q, of ?d ?e] unfolding sg by simp
qed

lemma preclose_decide_Some:
  assumes "preclose_decide C st b u = Inr (Some sg)"
  obtains side score atr vw where "0 < atr" "preclose_signal C st b side score atr vw = Some sg"
  using assms unfolding preclose_decide_def Let_def
  by (auto split: option.splits if_splits prod.splits simp: not_le)

lemma preclose_buffers_update [simp]:
  "preclose_buffers (s\<lparr>pr_symbols := (pr_symbols s)(y \<mapsto> u)\<rparr>) x = (if x = y then u else preclose_buffers s x)"
  "preclose_buffers (s\<lparr>pr_symbols := m, pr_pending := p\<rparr>) x = preclose_buffers (s\<lparr>pr_symbols := m\<rparr>) x"
  "preclose_buffers (s\<lparr>pr_pending := p\<rparr>) x = preclose_buffers s x"
  by (simp_all add: preclose_buffers_def)

lemma preclose_record_fired [simp]: "ps_fired (preclose_record C b u) = ps_fired u"
  by (simp add: preclose_record_def Let_def)

definition preclose_used :: "preclose \<Rightarrow> str \<Rightarrow> nat" where
  "preclose_used s x = (if ps_fired (preclose_buffers s x) then 1 else 0)"

lemma preclose_on_bar_cases:
  assumes "preclose_on_bar C st b s = (r, t)"
  obtains
    (quiet) "pr_pending t = pr_pending s" "\<And>x. preclose_used t x = preclose_used s x"
  | (signal) sg where "r = Inr ()" "pr_pending t = Some sg" "sg_symbol sg = ba_symbol b" "preclose_proper C \<Longrightarrow> brackets sg"
      "preclose_used s (ba_symbol b) = 0" "preclose_used t (ba_symbol b) = 1" "\<And>x. preclose_used s x \<le> preclose_used t x"
proof -
  let ?u = "preclose_record C b (preclose_buffers s (ba_symbol b))" and ?m = "ist_min (ba_timestamp b)"
  have run: "(r, t) = preclose_on_bar C st b s"
    using assms by simp
  show ?thesis
  proof (cases "\<not> (14 * 60 + 45 \<le> ?m \<and> ?m < 15 * 60 + 10) \<or> ps_fired ?u \<or> length (ps_closes ?u) < pc_lookback C")
    case True
    have "t = s\<lparr>pr_symbols := (pr_symbols s)(ba_symbol b \<mapsto> ?u)\<rparr>"
      using run unfolding preclose_on_bar_def Let_def if_P [OF True] by simp
    then show ?thesis by (intro quiet) (simp_all add: preclose_used_def)
  next
    case False
    note run = run [unfolded preclose_on_bar_def Let_def if_not_P [OF False]]
    show ?thesis
    proof (cases "\<exists>sg. preclose_decide C st b ?u = Inr (Some sg)")
      case True
      then obtain sg where sg: "preclose_decide C st b ?u = Inr (Some sg)" by blast
      then have "sg_symbol sg = ba_symbol b" "preclose_proper C \<Longrightarrow> brackets sg"
        using preclose_signal_Some by (metis preclose_decide_Some)+
      moreover have "\<not> ps_fired (preclose_buffers s (ba_symbol b))"
        using False by simp
      ultimately show ?thesis
        using run sg by (intro signal [of sg]) (simp_all add: preclose_used_def)
    next
      case none: False
      have "t = s\<lparr>pr_symbols := (pr_symbols s)(ba_symbol b \<mapsto> ?u)\<rparr>"
        using run none by (cases "preclose_decide C st b ?u") (auto split: option.splits)
      then show ?thesis by (intro quiet) (simp_all add: preclose_used_def)
    qed
  qed
qed

interpretation preclose: counting_strategy "preclose_strategy C symbols" pr_pending "\<lambda>_. preclose_proper C" brackets
    sg_symbol preclose_used 1
  for C :: preclose_config and symbols :: "str list"
proof (unfold_locales, goal_cases)
  case (4 s b st r t)
  from 4(3) have "preclose_on_bar C st b s = (r, t)" by (simp add: preclose_strategy_def)
  then show ?case using 4(1) by (cases rule: preclose_on_bar_cases) auto
next
  case (5 s)
  then show ?case by (simp add: preclose_strategy_def preclose_generate_def preclose_used_def [abs_def])
next
  case (6 st b s r t k)
  from 6 have "preclose_on_bar C st b s = (r, t)" by (simp add: preclose_strategy_def)
  then show ?case by (cases rule: preclose_on_bar_cases) auto
next
  case (7 st b s r t sg k)
  from 7(1) have "preclose_on_bar C st b s = (r, t)" by (simp add: preclose_strategy_def)
  then show ?case using 7(2-) by (cases rule: preclose_on_bar_cases) auto
next
  case (8 st b s e t)
  from 8 have "preclose_on_bar C st b s = (Inl e, t)" by (simp add: preclose_strategy_def)
  then show ?case by (cases rule: preclose_on_bar_cases) auto
qed (auto simp: preclose_strategy_def preclose_generate_def ignore_tick_def)

section \<open>The 15-minute trend\<close>

record trend_config =
  tr_name :: str
  tr_market :: str
  tr_fast :: nat
  tr_slow :: nat
  tr_trend :: nat
  tr_adx_period :: nat
  tr_adx_threshold :: rat
  tr_atr_period :: nat
  tr_atr_stop_mult :: rat
  tr_rr :: rat
  tr_min_bars :: int
  tr_min_confidence :: rat
  tr_nav :: rat
  tr_paper_trade :: bool

definition trend_buf :: "trend_config \<Rightarrow> nat" where
  "trend_buf C = max (tr_trend C) (tr_adx_period C) * 3"

record trend_symbol =
  ts_closes :: "rat list"
  ts_highs :: "rat list"
  ts_lows :: "rat list"
  ts_prev_fast_above :: "bool option"
  ts_fired :: "order_side set"
  ts_bar_count :: int

record trend =
  tn_symbols :: "str \<Rightarrow> trend_symbol option"
  tn_pending :: "signal option"

definition new_trend :: trend where
  "new_trend = \<lparr>tn_symbols = Map.empty, tn_pending = None\<rparr>"

definition trend_buffers :: "trend \<Rightarrow> str \<Rightarrow> trend_symbol" where
  "trend_buffers s symbol =
    (case tn_symbols s symbol of
       Some u \<Rightarrow> u
     | None \<Rightarrow> \<lparr>ts_closes = [], ts_highs = [], ts_lows = [], ts_prev_fast_above = None, ts_fired = {}, ts_bar_count = 0\<rparr>)"

definition trend_record :: "trend_config \<Rightarrow> bar \<Rightarrow> trend_symbol \<Rightarrow> trend_symbol" where
  "trend_record C b u =
    (let n = trend_buf C
     in u\<lparr>ts_closes := push n (ts_closes u) (ba_close b), ts_highs := push n (ts_highs u) (ba_high b),
          ts_lows := push n (ts_lows u) (ba_low b), ts_bar_count := ts_bar_count u + 1\<rparr>)"

text \<open>\<open>_build\<close>\<close>

definition trend_signal ::
  "trend_config \<Rightarrow> stamp \<Rightarrow> bar \<Rightarrow> order_side \<Rightarrow> rat \<Rightarrow> rat \<Rightarrow> rat \<Rightarrow> rat \<Rightarrow> rat \<Rightarrow> rat \<Rightarrow> signal option" where
  "trend_signal C st b side fast slow trend_ema atr adx_v confidence =
    (let price = ba_close b;
         stop_dist = tr_atr_stop_mult C * atr;
         tp_dist = stop_dist * tr_rr C;
         stop_loss = (if side = BUY then price - stop_dist else price + stop_dist);
         take_profit = (if side = BUY then price + tp_dist else price - tp_dist);
         sizing = size_position price stop_dist (tr_nav C) confidence
     in if sr_qty sizing = 0 \<or> sr_rejected_if_exceeds_cap sizing then None
        else Some (build_signal st (ba_symbol b) (tr_market C) side (sr_qty sizing) (py_round4 confidence) (tr_name C) price
          (py_round4 stop_loss) (py_round4 take_profit)
          ([(''fast_ema'', JNum (py_round4 fast)), (''slow_ema'', JNum (py_round4 slow)), (''trend_ema'', JNum (py_round4 trend_ema)),
            (''adx'', JNum (py_round2 adx_v)), (''atr'', JNum (py_round4 atr)), (''rr_ratio'', JNum (tr_rr C)),
            (''paper_trade'', JBool (tr_paper_trade C)), (''strategy_version'', JStr ''trend_15m_v1'')] @ sizing_metadata sizing)))"

text \<open>The filters between a crossing and its signal; a crossing that passes uses its side up, signal or not.\<close>

definition trend_filter :: "trend_config \<Rightarrow> bar \<Rightarrow> trend_symbol \<Rightarrow> order_side \<Rightarrow> rat \<Rightarrow> rat \<Rightarrow> rat \<Rightarrow> (rat \<times> rat \<times> rat) option" where
  "trend_filter C b u side fast slow trend_ema =
    (let price = ba_close b
     in if side = BUY \<and> price < trend_ema \<or> side = SELL \<and> trend_ema < price then None
        else
          (case (atr_wilder (ts_highs u) (ts_lows u) (ts_closes u) (tr_atr_period C), adx (ts_highs u) (ts_lows u) (ts_closes u) (tr_adx_period C)) of
             (Some atr, Some adx_v) \<Rightarrow>
               if atr \<le> 0 \<or> adx_v < tr_adx_threshold C then None
               else
                 (let spread = \<bar>fast - slow\<bar>;
                      conf_ema = min (4 / 10) (spread / (atr * 2));
                      conf_adx = min (4 / 10) ((adx_v - tr_adx_threshold C) / 50);
                      confidence = min 1 (2 / 10 + conf_ema + conf_adx)
                  in if confidence < tr_min_confidence C then None else Some (atr, adx_v, confidence))
           | _ \<Rightarrow> None))"

definition crossing :: "rat list \<Rightarrow> nat \<Rightarrow> nat \<Rightarrow> (rat \<times> rat \<times> rat \<times> rat) option" where
  "crossing closes fast slow =
    (let f = ema_series closes fast; s = ema_series closes slow
     in case (last f, last s, last (butlast f), last (butlast s)) of
          (Some fast_now, Some slow_now, Some fast_prev, Some slow_prev) \<Rightarrow> Some (fast_now, slow_now, fast_prev, slow_prev)
        | _ \<Rightarrow> None)"

definition trend_on_symbol :: "trend_config \<Rightarrow> stamp \<Rightarrow> bar \<Rightarrow> trend_symbol \<Rightarrow> signal option \<times> trend_symbol" where
  "trend_on_symbol C st b u =
    (let u = trend_record C b u; m = ist_min (ba_timestamp b)
     in if \<not> (9 * 60 + 30 \<le> m \<and> m < 14 * 60 + 15) \<or> ts_bar_count u < tr_min_bars C \<or> ts_fired u = {BUY, SELL}
           \<or> length (ts_closes u) < tr_trend C + 2 then (None, u)
        else
          (case (crossing (ts_closes u) (tr_fast C) (tr_slow C), last (ema_series (ts_closes u) (tr_trend C))) of
             (Some (fast_now, slow_now, fast_prev, slow_prev), Some trend_ema) \<Rightarrow>
               (let above_now = slow_now < fast_now; above_prev = slow_prev < fast_prev;
                    marked = u\<lparr>ts_prev_fast_above := Some above_now\<rparr>;
                    side = (if above_now then BUY else SELL)
                in if above_now = above_prev \<or> side \<in> ts_fired u then (None, marked)
                   else
                     (case trend_filter C b u side fast_now slow_now trend_ema of
                        None \<Rightarrow> (None, marked)
                      | Some (atr, adx_v, confidence) \<Rightarrow>
                          (trend_signal C st b side fast_now slow_now trend_ema atr adx_v confidence,
                           marked\<lparr>ts_fired := insert side (ts_fired u)\<rparr>)))
           | _ \<Rightarrow> (None, u)))"

definition trend_on_bar :: "trend_config \<Rightarrow> stamp \<Rightarrow> bar \<Rightarrow> trend \<Rightarrow> unit res \<times> trend" where
  "trend_on_bar C st b s =
    (case trend_on_symbol C st b (trend_buffers s (ba_symbol b)) of
       (x, u) \<Rightarrow>
         (let s = s\<lparr>tn_symbols := (tn_symbols s)(ba_symbol b \<mapsto> u)\<rparr>
          in (Inr (), case x of None \<Rightarrow> s | Some sg \<Rightarrow> s\<lparr>tn_pending := Some sg\<rparr>)))"

definition trend_generate :: "trend \<Rightarrow> signal option \<times> trend" where
  "trend_generate s = (tn_pending s, s\<lparr>tn_pending := None\<rparr>)"

definition trend_reset_daily :: "trend \<Rightarrow> trend" where
  "trend_reset_daily s =
    s\<lparr>tn_symbols := (\<lambda>symbol. map_option (\<lambda>u. u\<lparr>ts_fired := {}, ts_bar_count := 0\<rparr>) (tn_symbols s symbol))\<rparr>"

definition trend_strategy :: "trend_config \<Rightarrow> str list \<Rightarrow> trend strategy" where
  "trend_strategy C symbols =
    \<lparr>st_name = tr_name C, st_symbols = symbols, st_interval = ''15minute'', st_on_tick = ignore_tick,
     st_on_bar = trend_on_bar C, st_generate_signal = trend_generate\<rparr>"

definition trend_proper :: "trend_config \<Rightarrow> bool" where
  "trend_proper C \<longleftrightarrow> 0 < tr_atr_stop_mult C \<and> 0 < tr_rr C"

lemma trend_signal_Some:
  assumes "trend_signal C st b side f s e atr a c = Some sg"
  shows "sg_symbol sg = ba_symbol b \<and> sg_direction sg = side \<and> (trend_proper C \<longrightarrow> 0 < atr \<longrightarrow> brackets sg)"
proof -
  let ?p = "ba_close b" and ?d = "tr_atr_stop_mult C * atr"
  let ?e = "?d * tr_rr C" and ?q = "sr_qty (size_position ?p ?d (tr_nav C) c)"
  obtain md where sg: "sg = build_signal st (ba_symbol b) (tr_market C) side ?q (py_round4 c) (tr_name C) ?p
      (py_round4 (if side = BUY then ?p - ?d else ?p + ?d)) (py_round4 (if side = BUY then ?p + ?e else ?p - ?e)) md" and "?q \<noteq> 0"
    using assms unfolding trend_signal_def Let_def guarded_Some by blast
  then have q: "0 < ?q" by (intro sized_positive)
  have "0 < ?d \<and> 0 < ?e" if "trend_proper C" "0 < atr"
    using that by (simp add: trend_proper_def)
  then show ?thesis
    using levels_bracket [OF _ _ q, of ?d ?e] unfolding sg by simp
qed

lemma trend_filter_Some: "trend_filter C b u side f s e = Some (atr, a, c) \<Longrightarrow> 0 < atr"
  unfolding trend_filter_def Let_def by (auto split: option.splits if_splits)

lemma trend_record_fired [simp]: "ts_fired (trend_record C b u) = ts_fired u"
  by (simp add: trend_record_def Let_def)

lemma trend_on_symbol_fired:
  assumes "trend_on_symbol C st b u = (x, v)"
  shows "ts_fired u \<subseteq> ts_fired v \<and>
    (\<forall>sg. x = Some sg \<longrightarrow> sg_symbol sg = ba_symbol b \<and> (trend_proper C \<longrightarrow> brackets sg) \<and>
      sg_direction sg \<notin> ts_fired u \<and> sg_direction sg \<in> ts_fired v)"
  using assms unfolding trend_on_symbol_def Let_def
  by (auto split: if_splits option.splits prod.splits dest: trend_signal_Some trend_filter_Some)

lemma trend_buffers_update [simp]:
  "trend_buffers (s\<lparr>tn_symbols := (tn_symbols s)(y \<mapsto> u)\<rparr>) x = (if x = y then u else trend_buffers s x)"
  "trend_buffers (s\<lparr>tn_symbols := m, tn_pending := p\<rparr>) x = trend_buffers (s\<lparr>tn_symbols := m\<rparr>) x"
  "trend_buffers (s\<lparr>tn_pending := p\<rparr>) x = trend_buffers s x"
  by (simp_all add: trend_buffers_def)

definition trend_used :: "trend \<Rightarrow> str \<times> order_side \<Rightarrow> nat" where
  "trend_used s k = (if snd k \<in> ts_fired (trend_buffers s (fst k)) then 1 else 0)"

lemma trend_on_bar_cases:
  assumes "trend_on_bar C st b s = (r, t)"
  obtains
    (quiet) "r = Inr ()" "tn_pending t = tn_pending s" "\<And>k. trend_used s k \<le> trend_used t k"
  | (signal) sg where "r = Inr ()" "tn_pending t = Some sg" "trend_proper C \<Longrightarrow> brackets sg"
      "trend_used s (sg_side sg) = 0" "trend_used t (sg_side sg) = 1" "\<And>k. trend_used s k \<le> trend_used t k"
proof -
  obtain x u where u: "trend_on_symbol C st b (trend_buffers s (ba_symbol b)) = (x, u)" by fastforce
  note fired = trend_on_symbol_fired [OF u]
  have t: "r = Inr ()" "t = (let s = s\<lparr>tn_symbols := (tn_symbols s)(ba_symbol b \<mapsto> u)\<rparr> in case x of None \<Rightarrow> s | Some sg \<Rightarrow> s\<lparr>tn_pending := Some sg\<rparr>)"
    using assms by (simp_all add: trend_on_bar_def u Let_def)
  have mono: "trend_used s k \<le> trend_used t k" for k
    using fired by (cases x) (auto simp: t(2) trend_used_def)
  show ?thesis
  proof (cases x)
    case None
    then show ?thesis using quiet mono t by simp
  next
    case (Some sg)
    then show ?thesis
      using fired by (intro signal [of sg] t(1) mono) (auto simp: t(2) trend_used_def sg_side_def)
  qed
qed

interpretation trend: counting_strategy "trend_strategy C symbols" tn_pending "\<lambda>_. trend_proper C" brackets
    sg_side trend_used 1
  for C :: trend_config and symbols :: "str list"
proof (unfold_locales, goal_cases)
  case (4 s b st r t)
  from 4(3) have "trend_on_bar C st b s = (r, t)" by (simp add: trend_strategy_def)
  then show ?case using 4(1) by (cases rule: trend_on_bar_cases) auto
next
  case (5 s)
  then show ?case by (simp add: trend_strategy_def trend_generate_def trend_used_def [abs_def])
next
  case (6 st b s r t k)
  from 6 have "trend_on_bar C st b s = (r, t)" by (simp add: trend_strategy_def)
  then show ?case by (cases rule: trend_on_bar_cases) auto
next
  case (7 st b s r t sg k)
  from 7(1) have "trend_on_bar C st b s = (r, t)" by (simp add: trend_strategy_def)
  then show ?case using 7(2-) by (cases rule: trend_on_bar_cases) auto
next
  case (8 st b s e t)
  from 8 have "trend_on_bar C st b s = (Inl e, t)" by (simp add: trend_strategy_def)
  then show ?case by (cases rule: trend_on_bar_cases) auto
qed (auto simp: trend_strategy_def trend_generate_def ignore_tick_def)

end
