(* ===== verification/StrategyScalp.thy ===== *)
theory StrategyScalp
  imports StrategiesTrend
begin

text \<open>
  The 1-minute scalp strategy (\<open>services/strategy_engine/strategies/scalp_1m_strategy.py\<close>): a crossing of two
  averages, the filters, the stop as the largest of four floors, and the test that the target pays the costs.
\<close>

section \<open>Configuration and state\<close>

record scalp_config =
  sc_name :: str
  sc_market :: str
  sc_fast :: nat
  sc_slow :: nat
  sc_atr_period :: nat
  sc_atr_stop_mult :: rat
  sc_rr :: rat
  sc_vol_mult :: rat
  sc_min_body_pct :: rat
  sc_min_conf :: rat
  sc_max_sig :: int
  sc_min_stop_pct :: rat
  sc_min_target_pct :: rat
  sc_min_spread_mult :: rat
  sc_min_tick_mult :: rat
  sc_max_spread_pct :: rat
  sc_min_net_edge_pct :: rat
  sc_reject_if_spread_unavailable :: bool
  sc_reject_if_ltp_stale :: bool
  sc_nav :: rat
  sc_paper_trade :: bool

text \<open>The constructor: the periods are checked, the percentages become fractions, but not the net edge.\<close>

definition new_scalp_config :: "scalp_config \<Rightarrow> scalp_config res" where
  "new_scalp_config args =
    (if sc_slow args \<le> sc_fast args then Inl ValueError
     else Inr (args\<lparr>sc_min_stop_pct := sc_min_stop_pct args / 100, sc_min_target_pct := sc_min_target_pct args / 100,
       sc_max_spread_pct := sc_max_spread_pct args / 100\<rparr>))"

definition TICK_SIZE_NSE :: rat where "TICK_SIZE_NSE = 5 / 100"
definition COST_ROUNDTRIP_PCT :: rat where "COST_ROUNDTRIP_PCT = 15 / 100"
definition MAX_CANDLE_AGE_SECONDS :: rat where "MAX_CANDLE_AGE_SECONDS = 120"

record scalp_symbol =
  ss_closes :: "rat list"
  ss_highs :: "rat list"
  ss_lows :: "rat list"
  ss_volumes :: "int list"
  ss_bar_ranges :: "rat list"
  ss_prev_fast_above :: "bool option"
  ss_count :: "order_side \<Rightarrow> nat"

record scalp =
  sl_symbols :: "str \<Rightarrow> scalp_symbol option"
  sl_pending :: "signal option"
  sl_rejected_spread_wide :: nat
  sl_rejected_net_edge :: nat
  sl_rejected_stale :: nat
  sl_rejected_spread_unavailable :: nat
  sl_rejected_tp_inside_spread :: nat

definition new_scalp :: scalp where
  "new_scalp = \<lparr>sl_symbols = Map.empty, sl_pending = None, sl_rejected_spread_wide = 0, sl_rejected_net_edge = 0,
     sl_rejected_stale = 0, sl_rejected_spread_unavailable = 0, sl_rejected_tp_inside_spread = 0\<rparr>"

definition scalp_buffers :: "scalp \<Rightarrow> str \<Rightarrow> scalp_symbol" where
  "scalp_buffers s symbol =
    (case sl_symbols s symbol of
       Some u \<Rightarrow> u
     | None \<Rightarrow> \<lparr>ss_closes = [], ss_highs = [], ss_lows = [], ss_volumes = [], ss_bar_ranges = [], ss_prev_fast_above = None,
         ss_count = (\<lambda>side. 0)\<rparr>)"

definition scalp_record :: "scalp_config \<Rightarrow> bar \<Rightarrow> scalp_symbol \<Rightarrow> scalp_symbol" where
  "scalp_record C b u =
    (let n = sc_slow C * 3
     in u\<lparr>ss_closes := push n (ss_closes u) (ba_close b), ss_highs := push n (ss_highs u) (ba_high b),
          ss_lows := push n (ss_lows u) (ba_low b), ss_volumes := push 20 (ss_volumes u) (ba_volume b),
          ss_bar_ranges := push 10 (ss_bar_ranges u) (ba_high b - ba_low b)\<rparr>)"

section \<open>The stop floor\<close>

record scalp_stop_result =
  sf_stop_distance :: rat
  sf_stop_distance_source :: str
  sf_tp_distance :: rat
  sf_tp_distance_source :: str
  sf_atr_stop_distance :: rat
  sf_spread_floor_distance :: rat
  sf_tick_floor_distance :: rat
  sf_pct_floor_distance :: rat
  sf_spread_estimate :: rat
  sf_net_expected_edge_pct :: rat

definition estimate_spread :: "rat \<Rightarrow> rat list \<Rightarrow> rat" where
  "estimate_spread price recent_ranges =
    (let spread_from_range =
           (if recent_ranges = [] then 0
            else (let sample = sort (last_n 5 recent_ranges) in sample ! (length sample div 2) * (1 / 10)))
     in max spread_from_range (price * (5 / 10000)))"

text \<open>\<open>max(candidates, key=...)\<close>: the first of the largest.\<close>

definition first_largest :: "(rat \<times> str) \<Rightarrow> (rat \<times> str) list \<Rightarrow> rat \<times> str" where
  "first_largest c cs = foldl (\<lambda>best c. if fst best < fst c then c else best) c cs"

definition compute_stop_floor :: "scalp_config \<Rightarrow> rat \<Rightarrow> rat \<Rightarrow> rat list \<Rightarrow> scalp_stop_result res" where
  "compute_stop_floor C price atr recent_ranges =
    (let spread_est = estimate_spread price recent_ranges;
         atr_dist = sc_atr_stop_mult C * atr;
         spread_dist = sc_min_spread_mult C * spread_est;
         tick_dist = sc_min_tick_mult C * TICK_SIZE_NSE;
         pct_dist = sc_min_stop_pct C * price;
         (stop_distance, stop_source) =
           first_largest (atr_dist, ''ATR'') [(spread_dist, ''SPREAD_FLOOR''), (tick_dist, ''TICK_FLOOR''), (pct_dist, ''PCT_FLOOR'')];
         rr_tp = stop_distance * sc_rr C;
         pct_tp = sc_min_target_pct C * price;
         (tp_distance, tp_source) = (if pct_tp \<le> rr_tp then (rr_tp, ''RR'') else (pct_tp, ''PCT_FLOOR''))
     in if price = 0 then Inl OtherError
        else Inr \<lparr>sf_stop_distance = stop_distance, sf_stop_distance_source = stop_source, sf_tp_distance = tp_distance,
          sf_tp_distance_source = tp_source, sf_atr_stop_distance = atr_dist, sf_spread_floor_distance = spread_dist,
          sf_tick_floor_distance = tick_dist, sf_pct_floor_distance = pct_dist, sf_spread_estimate = spread_est,
          sf_net_expected_edge_pct = tp_distance / price * 100 - COST_ROUNDTRIP_PCT\<rparr>)"

text \<open>Why a crossing is counted as rejected.  The reason strings of \<open>_check_viability\<close> are told apart by their first word.\<close>

datatype rejection = VIABLE | SPREAD_TOO_WIDE | TP_INSIDE_SPREAD | NET_EDGE_TOO_SMALL | STALE_CANDLE | SPREAD_UNAVAILABLE

definition check_viability :: "scalp_config \<Rightarrow> rat \<Rightarrow> scalp_stop_result \<Rightarrow> rejection" where
  "check_viability C price f =
    (if sc_max_spread_pct C * 100 < sf_spread_estimate f / price * 100 then SPREAD_TOO_WIDE
     else if sf_tp_distance f < 2 * sf_spread_estimate f then TP_INSIDE_SPREAD
     else if sf_net_expected_edge_pct f < sc_min_net_edge_pct C then NET_EDGE_TOO_SMALL
     else VIABLE)"

section \<open>Signals\<close>

definition scalp_signal ::
  "scalp_config \<Rightarrow> stamp \<Rightarrow> bar \<Rightarrow> order_side \<Rightarrow> rat \<Rightarrow> rat \<Rightarrow> rat \<Rightarrow> rat \<Rightarrow> scalp_stop_result \<Rightarrow> signal option" where
  "scalp_signal C st b side fast slow atr confidence f =
    (let price = ba_close b;
         stop_loss = (if side = BUY then price - sf_stop_distance f else price + sf_stop_distance f);
         take_profit = (if side = BUY then price + sf_tp_distance f else price - sf_tp_distance f);
         sizing = size_position price (sf_stop_distance f) (sc_nav C) confidence
     in if sr_qty sizing = 0 \<or> sr_rejected_if_exceeds_cap sizing then None
        else Some (build_signal st (ba_symbol b) (sc_market C) side (sr_qty sizing) (py_round4 confidence) (sc_name C) price
          (py_round4 stop_loss) (py_round4 take_profit)
          ([(''fast_ema'', JNum (py_round4 fast)), (''slow_ema'', JNum (py_round4 slow)),
            (''ema_spread'', JNum (py_round4 \<bar>fast - slow\<bar>)), (''atr'', JNum (py_round4 atr)),
            (''bar_volume'', JNum (of_int (ba_volume b))), (''stop_distance'', JNum (py_round4 (sf_stop_distance f))),
            (''stop_distance_source'', JStr (sf_stop_distance_source f)),
            (''atr_stop_distance'', JNum (py_round4 (sf_atr_stop_distance f))),
            (''spread_floor_distance'', JNum (py_round4 (sf_spread_floor_distance f))),
            (''tick_floor_distance'', JNum (py_round4 (sf_tick_floor_distance f))),
            (''pct_floor_distance'', JNum (py_round4 (sf_pct_floor_distance f))),
            (''tp_distance'', JNum (py_round4 (sf_tp_distance f))), (''tp_distance_source'', JStr (sf_tp_distance_source f)),
            (''spread_estimate'', JNum (py_round4 (sf_spread_estimate f))),
            (''net_expected_edge_pct'', JNum (py_round3 (sf_net_expected_edge_pct f))), (''rr_ratio'', JNum (sc_rr C)),
            (''paper_trade'', JBool (sc_paper_trade C)), (''strategy_version'', JStr ''scalp_1m_v2'')] @ sizing_metadata sizing)))"

text \<open>\<open>_build_signal\<close>: the signal and the verdict that the rejection counters follow.\<close>

definition scalp_build ::
  "scalp_config \<Rightarrow> stamp \<Rightarrow> bar \<Rightarrow> order_side \<Rightarrow> rat \<Rightarrow> rat \<Rightarrow> rat \<Rightarrow> rat \<Rightarrow> rat list \<Rightarrow> (rejection \<times> signal option) res" where
  "scalp_build C st b side fast slow atr confidence recent_ranges =
    (case compute_stop_floor C (ba_close b) atr recent_ranges of
       Inl e \<Rightarrow> Inl e
     | Inr f \<Rightarrow>
        (let v = check_viability C (ba_close b) f
         in Inr (v, if v = VIABLE then scalp_signal C st b side fast slow atr confidence f else None)))"

text \<open>The filters between the crossing and the build: a rejection, counted or not, or the ATR and the confidence.\<close>

definition scalp_filter :: "scalp_config \<Rightarrow> rat \<Rightarrow> bar \<Rightarrow> scalp_symbol \<Rightarrow> order_side \<Rightarrow> rat \<Rightarrow> rat \<Rightarrow> rejection + (rat \<times> rat)" where
  "scalp_filter C now b u side fast slow =
    (if sc_max_sig C \<le> int (ss_count u side) then Inl VIABLE
     else if sc_reject_if_ltp_stale C \<and> MAX_CANDLE_AGE_SECONDS < now - ba_timestamp b then Inl STALE_CANDLE
     else if \<not> volume_ok (sc_vol_mult C) (ss_volumes u) b then Inl VIABLE
     else
       (case atr_wilder (ss_highs u) (ss_lows u) (ss_closes u) (sc_atr_period C) of
          None \<Rightarrow> Inl VIABLE
        | Some atr \<Rightarrow>
            if atr \<le> 0 then Inl VIABLE
            else if \<bar>ba_close b - ba_open b\<bar> < sc_min_body_pct C * atr then Inl VIABLE
            else
              (let confidence = min 1 (1 / 2 + \<bar>fast - slow\<bar> / (atr * 2))
               in if confidence < sc_min_conf C then Inl VIABLE
                  else if sc_reject_if_spread_unavailable C \<and> ba_high b - ba_low b \<le> 0 then Inl SPREAD_UNAVAILABLE
                  else Inr (atr, confidence))))"

text \<open>\<open>on_bar\<close> on the buffers of its symbol: the rejection to count and the signal, or the error of the build.\<close>

definition scalp_on_symbol :: "scalp_config \<Rightarrow> stamp \<Rightarrow> bar \<Rightarrow> scalp_symbol \<Rightarrow> (rejection \<times> signal option) res \<times> scalp_symbol" where
  "scalp_on_symbol C st b u =
    (let u = scalp_record C b u; m = ist_min (ba_timestamp b)
     in if \<not> (9 * 60 + 30 \<le> m \<and> m < 14 * 60 + 45) \<or> length (ss_closes u) < sc_slow C + 2 then (Inr (VIABLE, None), u)
        else
          (case crossing (ss_closes u) (sc_fast C) (sc_slow C) of
             None \<Rightarrow> (Inr (VIABLE, None), u)
           | Some (fast_now, slow_now, fast_prev, slow_prev) \<Rightarrow>
              (let above_now = slow_now < fast_now; above_prev = slow_prev < fast_prev;
                   marked = u\<lparr>ss_prev_fast_above := Some above_now\<rparr>;
                   side = (if above_now then BUY else SELL)
               in if above_now = above_prev then (Inr (VIABLE, None), marked)
                  else
                    (case scalp_filter C (snd st) b u side fast_now slow_now of
                       Inl v \<Rightarrow> (Inr (v, None), marked)
                     | Inr (atr, confidence) \<Rightarrow>
                         (case scalp_build C st b side fast_now slow_now atr confidence (ss_bar_ranges u) of
                            Inl e \<Rightarrow> (Inl e, u)
                          | Inr (v, x) \<Rightarrow>
                              (Inr (v, x), marked\<lparr>ss_count := (ss_count u)(side := ss_count u side + 1)\<rparr>))))))"

definition count_rejection :: "rejection \<Rightarrow> scalp \<Rightarrow> scalp" where
  "count_rejection v s =
    (case v of
       VIABLE \<Rightarrow> s
     | SPREAD_TOO_WIDE \<Rightarrow> s\<lparr>sl_rejected_spread_wide := sl_rejected_spread_wide s + 1\<rparr>
     | TP_INSIDE_SPREAD \<Rightarrow> s\<lparr>sl_rejected_tp_inside_spread := sl_rejected_tp_inside_spread s + 1\<rparr>
     | NET_EDGE_TOO_SMALL \<Rightarrow> s\<lparr>sl_rejected_net_edge := sl_rejected_net_edge s + 1\<rparr>
     | STALE_CANDLE \<Rightarrow> s\<lparr>sl_rejected_stale := sl_rejected_stale s + 1\<rparr>
     | SPREAD_UNAVAILABLE \<Rightarrow> s\<lparr>sl_rejected_spread_unavailable := sl_rejected_spread_unavailable s + 1\<rparr>)"

definition scalp_on_bar :: "scalp_config \<Rightarrow> stamp \<Rightarrow> bar \<Rightarrow> scalp \<Rightarrow> unit res \<times> scalp" where
  "scalp_on_bar C st b s =
    (case scalp_on_symbol C st b (scalp_buffers s (ba_symbol b)) of
       (y, u) \<Rightarrow>
         (let s = s\<lparr>sl_symbols := (sl_symbols s)(ba_symbol b \<mapsto> u)\<rparr>
          in case y of
               Inl e \<Rightarrow> (Inl e, s)
             | Inr (v, None) \<Rightarrow> (Inr (), count_rejection v s)
             | Inr (v, Some sg) \<Rightarrow> (Inr (), (count_rejection v s)\<lparr>sl_pending := Some sg\<rparr>)))"

definition scalp_generate :: "scalp \<Rightarrow> signal option \<times> scalp" where
  "scalp_generate s = (sl_pending s, s\<lparr>sl_pending := None\<rparr>)"

definition scalp_reset_daily :: "scalp \<Rightarrow> scalp" where
  "scalp_reset_daily s =
    s\<lparr>sl_symbols := (\<lambda>symbol. map_option (\<lambda>u. u\<lparr>ss_count := (\<lambda>side. 0)\<rparr>) (sl_symbols s symbol)),
      sl_rejected_spread_wide := 0, sl_rejected_net_edge := 0, sl_rejected_stale := 0, sl_rejected_spread_unavailable := 0,
      sl_rejected_tp_inside_spread := 0\<rparr>"

definition scalp_strategy :: "scalp_config \<Rightarrow> str list \<Rightarrow> scalp strategy" where
  "scalp_strategy C symbols =
    \<lparr>st_name = sc_name C, st_symbols = symbols, st_interval = ''minute'', st_on_tick = ignore_tick,
     st_on_bar = scalp_on_bar C, st_generate_signal = scalp_generate\<rparr>"

section \<open>The target pays the costs\<close>

definition scalp_proper :: "scalp_config \<Rightarrow> bool" where
  "scalp_proper C \<longleftrightarrow> 0 < sc_atr_stop_mult C \<and> 0 < sc_rr C"

text \<open>
  The distance of the target, up to the rounding of the level, covers the round-trip costs and the net edge asked for.
\<close>

definition pays_costs :: "scalp_config \<Rightarrow> signal \<Rightarrow> bool" where
  "pays_costs C sg \<longleftrightarrow>
    (case sg_take_profit sg of
       None \<Rightarrow> False
     | Some tp \<Rightarrow>
        (let p = sg_price_at_signal sg; gain = (if sg_direction sg = BUY then tp - p else p - tp) + 1 / 20000
         in p * (sc_min_net_edge_pct C + COST_ROUNDTRIP_PCT) / 100 \<le> gain))"

lemma first_largest_ge:
  "fst c \<le> fst (first_largest c cs) \<and> (\<forall>x \<in> set cs. fst x \<le> fst (first_largest c cs))"
  unfolding first_largest_def
proof (induction cs arbitrary: c)
  case (Cons a cs)
  show ?case
    using Cons.IH [of "if fst c < fst a then a else c"] by (auto split: if_splits)
qed simp

text \<open>The stop is none of its floors' below; the target is at least the asked multiple of the stop.\<close>

lemma stop_floor_bounds:
  assumes "compute_stop_floor C p atr rs = Inr f"
  shows "sc_atr_stop_mult C * atr \<le> sf_stop_distance f \<and> sc_min_spread_mult C * sf_spread_estimate f \<le> sf_stop_distance f \<and>
    sc_min_tick_mult C * TICK_SIZE_NSE \<le> sf_stop_distance f \<and> sc_min_stop_pct C * p \<le> sf_stop_distance f \<and>
    sf_stop_distance f * sc_rr C \<le> sf_tp_distance f \<and> sc_min_target_pct C * p \<le> sf_tp_distance f \<and>
    sf_net_expected_edge_pct f = sf_tp_distance f / p * 100 - COST_ROUNDTRIP_PCT \<and> p \<noteq> 0"
proof -
  let ?c = "(sc_atr_stop_mult C * atr, ''ATR'')"
  let ?cs = "[(sc_min_spread_mult C * estimate_spread p rs, ''SPREAD_FLOOR''), (sc_min_tick_mult C * TICK_SIZE_NSE, ''TICK_FLOOR''),
    (sc_min_stop_pct C * p, ''PCT_FLOOR'')]"
  obtain d n where d: "first_largest ?c ?cs = (d, n)" by fastforce
  have "fst ?c \<le> d" "\<forall>x \<in> set ?cs. fst x \<le> d"
    using first_largest_ge [of ?c ?cs] unfolding d fst_conv by blast+
  moreover have "p \<noteq> 0" "sf_stop_distance f = d" "sf_spread_estimate f = estimate_spread p rs"
    "sf_tp_distance f = max (sc_min_target_pct C * p) (d * sc_rr C)"
    "sf_net_expected_edge_pct f = sf_tp_distance f / p * 100 - COST_ROUNDTRIP_PCT"
    using assms unfolding compute_stop_floor_def Let_def d by (auto split: if_splits)
  ultimately show ?thesis by simp
qed

lemma scalp_signal_good:
  assumes "scalp_signal C st b side fast slow atr c f = Some sg"
  shows "sg_symbol sg = ba_symbol b" "sg_direction sg = side" "0 < sf_stop_distance f \<Longrightarrow> 0 < sf_tp_distance f \<Longrightarrow> brackets sg"
    "ba_close b * (sc_min_net_edge_pct C + COST_ROUNDTRIP_PCT) / 100 \<le> sf_tp_distance f \<Longrightarrow> pays_costs C sg"
proof -
  let ?p = "ba_close b" and ?d = "sf_stop_distance f" and ?e = "sf_tp_distance f"
  let ?q = "sr_qty (size_position ?p ?d (sc_nav C) c)"
  obtain md where sg: "sg = build_signal st (ba_symbol b) (sc_market C) side ?q (py_round4 c) (sc_name C) ?p
      (py_round4 (if side = BUY then ?p - ?d else ?p + ?d)) (py_round4 (if side = BUY then ?p + ?e else ?p - ?e)) md" and "?q \<noteq> 0"
    using assms unfolding scalp_signal_def Let_def guarded_Some by blast
  then have q: "0 < ?q" by (intro sized_positive)
  show "sg_symbol sg = ba_symbol b" "sg_direction sg = side" "0 < ?d \<Longrightarrow> 0 < ?e \<Longrightarrow> brackets sg"
    using levels_bracket [OF _ _ q, of ?d ?e] unfolding sg by simp_all
  show "pays_costs C sg" if "?p * (sc_min_net_edge_pct C + COST_ROUNDTRIP_PCT) / 100 \<le> ?e"
    using that round4_bounds [of "?p + ?e"] round4_bounds [of "?p - ?e"]
    unfolding sg pays_costs_def by (simp add: build_signal_def Let_def)
qed

definition scalp_good :: "scalp_config \<Rightarrow> signal \<Rightarrow> bool" where
  "scalp_good C sg \<longleftrightarrow> brackets sg \<and> (0 < sg_price_at_signal sg \<longrightarrow> pays_costs C sg)"

lemma scalp_signal_price: "scalp_signal C st b side fast slow atr c f = Some sg \<Longrightarrow> sg_price_at_signal sg = ba_close b"
  unfolding scalp_signal_def Let_def guarded_Some by (auto simp: build_signal_def)

lemma scalp_build_Some:
  assumes "scalp_build C st b side fast slow atr c rs = Inr (v, Some sg)" "0 < atr"
  shows "sg_symbol sg = ba_symbol b \<and> sg_direction sg = side \<and> (scalp_proper C \<longrightarrow> scalp_good C sg)"
proof -
  obtain f where f: "compute_stop_floor C (ba_close b) atr rs = Inr f" and v: "check_viability C (ba_close b) f = VIABLE"
    and sg: "scalp_signal C st b side fast slow atr c f = Some sg"
    using assms(1) by (auto simp: scalp_build_def Let_def split: sum.splits if_splits)
  note bounds = stop_floor_bounds [OF f]
  have "scalp_good C sg" if C: "scalp_proper C"
  proof -
    have d: "0 < sf_stop_distance f"
      using bounds C assms(2) by (smt (verit) mult_pos_pos scalp_proper_def order_less_le_trans)
    then have e: "0 < sf_tp_distance f"
      using bounds C by (meson mult_pos_pos scalp_proper_def order_less_le_trans)
    have "ba_close b * (sc_min_net_edge_pct C + COST_ROUNDTRIP_PCT) / 100 \<le> sf_tp_distance f" if p: "0 < ba_close b"
    proof -
      have "sc_min_net_edge_pct C + COST_ROUNDTRIP_PCT \<le> sf_tp_distance f / ba_close b * 100"
        using v bounds by (auto simp: check_viability_def split: if_splits)
      then show ?thesis using p by (simp add: field_simps)
    qed
    then show ?thesis
      using scalp_signal_good [OF sg] scalp_signal_price [OF sg] d e by (simp add: scalp_good_def)
  qed
  then show ?thesis using scalp_signal_good [OF sg] by blast
qed

section \<open>Counting\<close>

lemma count_rejection_simps [simp]:
  "sl_symbols (count_rejection v s) = sl_symbols s" "sl_pending (count_rejection v s) = sl_pending s"
  by (simp_all add: count_rejection_def split: rejection.splits)

lemma scalp_record_count [simp]: "ss_count (scalp_record C b u) = ss_count u"
  by (simp add: scalp_record_def Let_def)

definition scalp_used :: "scalp \<Rightarrow> str \<times> order_side \<Rightarrow> nat" where
  "scalp_used s k = ss_count (scalp_buffers s (fst k)) (snd k)"

lemma scalp_used_put:
  "sl_symbols t = (sl_symbols s)(y \<mapsto> u) \<Longrightarrow> scalp_used t k = (if fst k = y then ss_count u (snd k) else scalp_used s k)"
  by (simp add: scalp_used_def scalp_buffers_def)

lemma scalp_filter_Inr:
  "scalp_filter C now b u side f s = Inr (atr, c) \<Longrightarrow> int (ss_count u side) < sc_max_sig C \<and> 0 < atr"
  unfolding scalp_filter_def Let_def by (auto split: option.splits if_splits)

lemma scalp_on_symbol_count:
  assumes "scalp_on_symbol C st b u = (y, v)"
  shows "ss_count u d \<le> ss_count v d \<and>
    (\<forall>w sg. y = Inr (w, Some sg) \<longrightarrow> sg_symbol sg = ba_symbol b \<and> (scalp_proper C \<longrightarrow> scalp_good C sg) \<and>
      int (ss_count u (sg_direction sg)) < sc_max_sig C \<and> ss_count v (sg_direction sg) = ss_count u (sg_direction sg) + 1)"
  using assms unfolding scalp_on_symbol_def Let_def
  by (auto split: if_splits option.splits prod.splits sum.splits dest!: scalp_filter_Inr dest: scalp_build_Some)

lemma scalp_on_bar_cases:
  assumes "scalp_on_bar C st b s = (r, t)"
  obtains
    (quiet) "sl_pending t = sl_pending s" "\<And>k. scalp_used s k \<le> scalp_used t k"
  | (signal) sg where "r = Inr ()" "sl_pending t = Some sg" "scalp_proper C \<Longrightarrow> scalp_good C sg"
      "int (scalp_used s (sg_side sg)) < sc_max_sig C" "scalp_used t (sg_side sg) = scalp_used s (sg_side sg) + 1"
      "\<And>k. scalp_used s k \<le> scalp_used t k"
proof -
  obtain y u where u: "scalp_on_symbol C st b (scalp_buffers s (ba_symbol b)) = (y, u)" by fastforce
  note counted = scalp_on_symbol_count [OF u]
  have sym: "sl_symbols t = (sl_symbols s)(ba_symbol b \<mapsto> u)"
    using assms by (auto simp: scalp_on_bar_def u Let_def split: sum.splits option.splits prod.splits)
  have mono: "scalp_used s k \<le> scalp_used t k" for k
    using counted [of "snd k"] unfolding scalp_used_put [OF sym] by (simp add: scalp_used_def)
  show ?thesis
  proof (cases "\<exists>w sg. y = Inr (w, Some sg)")
    case False
    then have "sl_pending t = sl_pending s"
      using assms by (auto simp: scalp_on_bar_def u Let_def split: sum.splits option.splits prod.splits)
    then show ?thesis using quiet mono by blast
  next
    case True
    then obtain w sg where y: "y = Inr (w, Some sg)" by blast
    then have "r = Inr ()" "sl_pending t = Some sg"
      using assms by (auto simp: scalp_on_bar_def u Let_def)
    then show ?thesis
      using counted y by (intro signal [of sg] mono) (auto simp: scalp_used_put [OF sym] sg_side_def, simp_all add: scalp_used_def)
  qed
qed

interpretation scalp: counting_strategy "scalp_strategy C symbols" sl_pending "\<lambda>_. scalp_proper C" "scalp_good C"
    sg_side scalp_used "nat (sc_max_sig C)"
  for C :: scalp_config and symbols :: "str list"
proof (unfold_locales, goal_cases)
  case (4 s b st r t)
  from 4(3) have "scalp_on_bar C st b s = (r, t)" by (simp add: scalp_strategy_def)
  then show ?case using 4(1) by (cases rule: scalp_on_bar_cases) auto
next
  case (5 s)
  then show ?case by (simp add: scalp_strategy_def scalp_generate_def scalp_used_def [abs_def] scalp_buffers_def)
next
  case (6 st b s r t k)
  from 6 have "scalp_on_bar C st b s = (r, t)" by (simp add: scalp_strategy_def)
  then show ?case by (cases rule: scalp_on_bar_cases) auto
next
  case (7 st b s r t sg k)
  from 7(1) have "scalp_on_bar C st b s = (r, t)" by (simp add: scalp_strategy_def)
  then show ?case using 7(2-) by (cases rule: scalp_on_bar_cases) auto
next
  case (8 st b s e t)
  from 8 have "scalp_on_bar C st b s = (Inl e, t)" by (simp add: scalp_strategy_def)
  then show ?case by (cases rule: scalp_on_bar_cases) auto
qed (auto simp: scalp_strategy_def scalp_generate_def ignore_tick_def)

end
