(* ===== verification/CircuitBreakerModel.thy ===== *)
theory CircuitBreakerModel
  imports QE_Prelude
begin

text \<open>
  \<open>services/strategy_engine/runners/circuit_breaker.py\<close>: the per-strategy circuit breaker.  Every
  \<open>time.monotonic()\<close> reading is an argument; within one call the readings are taken to be equal.
\<close>

section \<open>State and operations\<close>

datatype circuit_state = CLOSED | OPEN | HALF_OPEN

record circuit_breaker =
  cb_consecutive_threshold :: int
  cb_rate_threshold :: int
  cb_rate_window_seconds :: rat
  cb_reset_seconds :: rat
  cb_success_threshold :: int
  cb_state :: circuit_state
  cb_consecutive_errors :: int
  cb_half_open_successes :: int
  cb_open_at :: "rat option"
  cb_error_times :: "rat list"

definition new_circuit_breaker :: circuit_breaker where
  "new_circuit_breaker =
    \<lparr>cb_consecutive_threshold = 5, cb_rate_threshold = 10, cb_rate_window_seconds = 300,
     cb_reset_seconds = 300, cb_success_threshold = 3, cb_state = CLOSED, cb_consecutive_errors = 0,
     cb_half_open_successes = 0, cb_open_at = None, cb_error_times = []\<rparr>"

definition transition_to_open :: "rat \<Rightarrow> circuit_breaker \<Rightarrow> circuit_breaker" where
  "transition_to_open now cb = cb\<lparr>cb_state := OPEN, cb_open_at := Some now, cb_half_open_successes := 0\<rparr>"

definition transition_to_half_open :: "circuit_breaker \<Rightarrow> circuit_breaker" where
  "transition_to_half_open cb = cb\<lparr>cb_state := HALF_OPEN, cb_half_open_successes := 0\<rparr>"

definition transition_to_closed :: "circuit_breaker \<Rightarrow> circuit_breaker" where
  "transition_to_closed cb = cb\<lparr>cb_state := CLOSED, cb_consecutive_errors := 0,
     cb_half_open_successes := 0, cb_open_at := None, cb_error_times := []\<rparr>"

definition check_half_open_transition :: "rat \<Rightarrow> circuit_breaker \<Rightarrow> circuit_breaker" where
  "check_half_open_transition now cb =
    (if cb_state cb = OPEN \<and> (case cb_open_at cb of None \<Rightarrow> False | Some t \<Rightarrow> cb_reset_seconds cb \<le> now - t)
     then transition_to_half_open cb else cb)"

definition evict_old_errors :: "rat \<Rightarrow> circuit_breaker \<Rightarrow> circuit_breaker" where
  "evict_old_errors now cb =
    cb\<lparr>cb_error_times := dropWhile (\<lambda>t. t < now - cb_rate_window_seconds cb) (cb_error_times cb)\<rparr>"

text \<open>The property \<open>state\<close>: reading it may move OPEN to HALF_OPEN.\<close>

definition read_state :: "rat \<Rightarrow> circuit_breaker \<Rightarrow> circuit_state \<times> circuit_breaker" where
  "read_state now cb = (let cb = check_half_open_transition now cb in (cb_state cb, cb))"

definition is_open :: "rat \<Rightarrow> circuit_breaker \<Rightarrow> bool \<times> circuit_breaker" where
  "is_open now cb = (case read_state now cb of (st, cb) \<Rightarrow> (st = OPEN, cb))"

definition is_closed :: "rat \<Rightarrow> circuit_breaker \<Rightarrow> bool \<times> circuit_breaker" where
  "is_closed now cb = (case read_state now cb of (st, cb) \<Rightarrow> (st = CLOSED, cb))"

definition errors_in_window :: "rat \<Rightarrow> circuit_breaker \<Rightarrow> nat \<times> circuit_breaker" where
  "errors_in_window now cb = (let cb = evict_old_errors now cb in (length (cb_error_times cb), cb))"

definition record_success :: "rat \<Rightarrow> circuit_breaker \<Rightarrow> circuit_breaker" where
  "record_success now cb =
    (let cb = evict_old_errors now cb in
     case cb_state cb of
       CLOSED \<Rightarrow> cb\<lparr>cb_consecutive_errors := 0\<rparr>
     | HALF_OPEN \<Rightarrow>
        (let cb = cb\<lparr>cb_half_open_successes := cb_half_open_successes cb + 1\<rparr>
         in if cb_success_threshold cb \<le> cb_half_open_successes cb then transition_to_closed cb else cb)
     | OPEN \<Rightarrow> cb)"

definition record_failure :: "rat \<Rightarrow> circuit_breaker \<Rightarrow> bool \<times> circuit_breaker" where
  "record_failure now cb =
    (let cb = cb\<lparr>cb_consecutive_errors := cb_consecutive_errors cb + 1,
                 cb_error_times := cb_error_times cb @ [now]\<rparr>;
         cb = evict_old_errors now cb
     in case cb_state cb of
          OPEN \<Rightarrow> (False, cb)
        | HALF_OPEN \<Rightarrow> (True, transition_to_open now cb)
        | CLOSED \<Rightarrow>
           (if cb_rate_threshold cb \<le> int (length (cb_error_times cb))
               \<or> cb_consecutive_threshold cb \<le> cb_consecutive_errors cb
            then (True, transition_to_open now cb) else (False, cb)))"

definition cb_reset :: "circuit_breaker \<Rightarrow> circuit_breaker" where
  "cb_reset cb = transition_to_closed cb"

definition update_thresholds :: "int option \<Rightarrow> int option \<Rightarrow> circuit_breaker \<Rightarrow> circuit_breaker" where
  "update_thresholds consecutive rate cb =
    (let cb = (case consecutive of None \<Rightarrow> cb | Some n \<Rightarrow> cb\<lparr>cb_consecutive_threshold := n\<rparr>)
     in case rate of None \<Rightarrow> cb | Some n \<Rightarrow> cb\<lparr>cb_rate_threshold := n\<rparr>)"

section \<open>The machine\<close>

datatype cb_event = Success rat | Failure rat | ReadState rat | Reset | Thresholds "int option" "int option"

fun cb_step :: "circuit_breaker \<Rightarrow> cb_event \<Rightarrow> circuit_breaker" where
  "cb_step cb (Success now) = record_success now cb"
| "cb_step cb (Failure now) = snd (record_failure now cb)"
| "cb_step cb (ReadState now) = snd (read_state now cb)"
| "cb_step cb Reset = cb_reset cb"
| "cb_step cb (Thresholds c r) = update_thresholds c r cb"

text \<open>
  An OPEN or HALF_OPEN breaker knows when it opened, a CLOSED one has no such time; successes are
  counted only in HALF_OPEN and stay below the threshold; the error count is not negative.
\<close>

definition cb_inv :: "circuit_breaker \<Rightarrow> bool" where
  "cb_inv cb \<longleftrightarrow>
    (cb_state cb = CLOSED \<longleftrightarrow> cb_open_at cb = None) \<and>
    0 \<le> cb_half_open_successes cb \<and> 0 < cb_success_threshold cb \<and>
    (cb_state cb \<noteq> HALF_OPEN \<longrightarrow> cb_half_open_successes cb = 0) \<and>
    cb_half_open_successes cb < cb_success_threshold cb \<and>
    0 \<le> cb_consecutive_errors cb"

lemmas cb_defs = record_success_def record_failure_def read_state_def cb_reset_def update_thresholds_def
  evict_old_errors_def transition_to_open_def transition_to_half_open_def transition_to_closed_def
  check_half_open_transition_def Let_def

lemma cb_inv_step: "cb_inv cb \<Longrightarrow> cb_inv (cb_step cb e)"
  by (cases e; cases "cb_state cb")
    (auto simp: cb_inv_def cb_defs split: option.splits if_splits)

interpretation breaker: state_machine cb_step cb_inv
  by unfold_locales (rule cb_inv_step)

lemma cb_inv_new: "cb_inv new_circuit_breaker"
  by (simp add: cb_inv_def new_circuit_breaker_def)

text \<open>\<open>record_failure\<close> returns True exactly when it opens the circuit.\<close>

lemma record_failure_opens:
  "fst (record_failure now cb) \<longleftrightarrow> cb_state cb \<noteq> OPEN \<and> cb_state (snd (record_failure now cb)) = OPEN"
  by (cases "cb_state cb") (auto simp: cb_defs)

text \<open>An open circuit stays open until \<open>reset_seconds\<close> have passed or an operator resets it.\<close>

definition event_time :: "cb_event \<Rightarrow> rat option" where
  "event_time e = (case e of Success t \<Rightarrow> Some t | Failure t \<Rightarrow> Some t | ReadState t \<Rightarrow> Some t | _ \<Rightarrow> None)"

lemma open_step:
  assumes "cb_state cb = OPEN" "cb_open_at cb = Some t0" "e \<noteq> Reset"
    and "\<And>t. event_time e = Some t \<Longrightarrow> t - t0 < cb_reset_seconds cb"
  shows "cb_state (cb_step cb e) = OPEN \<and> cb_open_at (cb_step cb e) = Some t0
    \<and> cb_reset_seconds (cb_step cb e) = cb_reset_seconds cb"
  using assms by (cases e) (auto simp: cb_defs event_time_def split: option.splits)

lemma open_run:
  assumes "cb_state cb = OPEN" "cb_open_at cb = Some t0" "Reset \<notin> set es"
    and "\<And>e t. e \<in> set es \<Longrightarrow> event_time e = Some t \<Longrightarrow> t - t0 < cb_reset_seconds cb"
  shows "cb_state (foldl cb_step cb es) = OPEN"
  using assms
proof (induction es arbitrary: cb)
  case (Cons e es)
  have "cb_state (cb_step cb e) = OPEN \<and> cb_open_at (cb_step cb e) = Some t0
      \<and> cb_reset_seconds (cb_step cb e) = cb_reset_seconds cb"
    using Cons.prems by (intro open_step) auto
  moreover have "e' \<in> set es \<Longrightarrow> event_time e' = Some t \<Longrightarrow> t - t0 < cb_reset_seconds cb" for e' t
    by (rule Cons.prems(4)) simp_all
  ultimately have "cb_state (foldl cb_step (cb_step cb e) es) = OPEN"
    using Cons.prems(3) by (intro Cons.IH) simp_all
  then show ?case by simp
qed simp

text \<open>Consecutive failures open a closed circuit.\<close>

lemma failure_counts:
  assumes "cb_state (snd (record_failure now cb)) = CLOSED"
  shows "cb_consecutive_errors (snd (record_failure now cb)) = cb_consecutive_errors cb + 1"
    and "cb_consecutive_errors cb + 1 < cb_consecutive_threshold cb"
    and "cb_consecutive_threshold (snd (record_failure now cb)) = cb_consecutive_threshold cb"
    and "cb_state cb = CLOSED"
proof -
  have "cb_consecutive_errors (snd (record_failure now cb)) = cb_consecutive_errors cb + 1 \<and>
    cb_consecutive_errors cb + 1 < cb_consecutive_threshold cb \<and>
    cb_consecutive_threshold (snd (record_failure now cb)) = cb_consecutive_threshold cb \<and>
    cb_state cb = CLOSED"
    using assms by (cases "cb_state cb") (simp_all add: cb_defs split: if_splits)
  then show "cb_consecutive_errors (snd (record_failure now cb)) = cb_consecutive_errors cb + 1"
    "cb_consecutive_errors cb + 1 < cb_consecutive_threshold cb"
    "cb_consecutive_threshold (snd (record_failure now cb)) = cb_consecutive_threshold cb"
    "cb_state cb = CLOSED" by auto
qed

lemma failures_open:
  assumes "cb_state (foldl cb_step cb (map Failure ts)) = CLOSED" "ts \<noteq> []"
  shows "cb_consecutive_errors cb + int (length ts) < cb_consecutive_threshold cb"
  using assms
proof (induction ts arbitrary: cb)
  case (Cons t ts)
  have stays: "cb_state (foldl cb_step b (map Failure us)) = CLOSED \<Longrightarrow> cb_state b = CLOSED" for b us
  proof (induction us arbitrary: b)
    case (Cons u us)
    then have "cb_state (snd (record_failure u b)) = CLOSED" by simp
    then show ?case by (rule failure_counts(4))
  qed simp
  have c: "cb_state (snd (record_failure t cb)) = CLOSED"
    by (rule stays [of _ ts]) (use Cons.prems(1) in simp)
  show ?case
  proof (cases ts)
    case Nil
    with failure_counts(2) [OF c] show ?thesis by simp
  next
    case (Cons u us)
    then show ?thesis
      using Cons.IH [of "snd (record_failure t cb)"] Cons.prems failure_counts(1,3) [OF c] by simp
  qed
qed simp

section \<open>Properties\<close>

text \<open>
  Circuit breaker invariant: after any sequence of calls on a new breaker, the opening time is known
  exactly while it is not CLOSED, half-open successes are counted only in HALF_OPEN and below the
  threshold.
\<close>

theorem circuit_breaker_invariant: "cb_inv (foldl cb_step new_circuit_breaker es)"
  by (rule breaker.inv_run) (rule cb_inv_new)

text \<open>
  An open circuit blocks for its reset time: whatever successes, failures, reads and threshold
  updates happen, it stays OPEN until \<open>reset_seconds\<close> after opening, unless it is reset manually.
\<close>

theorem circuit_stays_open:
  assumes "cb_state cb = OPEN" "cb_open_at cb = Some t0" "Reset \<notin> set es"
    and "\<And>e t. e \<in> set es \<Longrightarrow> event_time e = Some t \<Longrightarrow> t - t0 < cb_reset_seconds cb"
  shows "cb_state (foldl cb_step cb es) = OPEN"
  using assms by (rule open_run)

theorem circuit_stays_open_witness:
  "cb_state (foldl cb_step (transition_to_open 1000 new_circuit_breaker)
     [ReadState 1100, Success 1200, Failure 1250, ReadState 1299]) = OPEN"
  by (rule circuit_stays_open [where ?t0.0 = 1000])
    (auto simp: transition_to_open_def new_circuit_breaker_def event_time_def)

text \<open>
  Consecutive failures open the circuit: after \<open>consecutive_threshold\<close> failures in a row it is not
  CLOSED.
\<close>

theorem consecutive_failures_open:
  assumes "cb_inv cb" "cb_consecutive_threshold cb \<le> int (length ts)" "ts \<noteq> []"
  shows "cb_state (foldl cb_step cb (map Failure ts)) \<noteq> CLOSED"
  using failures_open [of cb ts] assms by (auto simp: cb_inv_def)

theorem consecutive_failures_open_witness:
  "cb_state (foldl cb_step new_circuit_breaker (map Failure [1, 2, 3, 4, 5])) \<noteq> CLOSED"
  by (rule consecutive_failures_open [OF cb_inv_new]) (simp_all add: new_circuit_breaker_def)

end
