(* ===== verification/StrategyRunnerModel.thy ===== *)
theory StrategyRunnerModel
  imports StrategyScalp CircuitBreakerModel
begin

text \<open>
  \<open>services/strategy_engine/runners/strategy_runner.py\<close>: the wrapper that makes every strategy a failure domain
  of its own.  A clock reading is a pair: the monotonic time the circuit breaker reads and the UTC date.
\<close>

section \<open>State and operations\<close>

datatype interface_type = TICK | CANDLE

record strategy_config =
  rc_enabled :: bool
  rc_paper_trade :: bool
  rc_max_signals_per_day :: int
  rc_consecutive :: int
  rc_rate :: int

definition default_strategy_config :: strategy_config where
  "default_strategy_config =
    \<lparr>rc_enabled = True, rc_paper_trade = True, rc_max_signals_per_day = 0, rc_consecutive = 5, rc_rate = 10\<rparr>"

type_synonym clock = "rat \<times> int"

record 'st runner =
  rn_strategy :: 'st
  rn_interface :: interface_type
  rn_config :: strategy_config
  rn_circuit :: circuit_breaker
  rn_signals_today :: int
  rn_cap_date :: int
  rn_total_signals :: int
  rn_total_paper_signals :: int

definition new_runner :: "'st \<Rightarrow> interface_type \<Rightarrow> strategy_config option \<Rightarrow> int \<Rightarrow> 'st runner" where
  "new_runner st i config today =
    (let c = opt_default default_strategy_config config
     in \<lparr>rn_strategy = st, rn_interface = i, rn_config = c,
          rn_circuit = new_circuit_breaker\<lparr>cb_consecutive_threshold := rc_consecutive c, cb_rate_threshold := rc_rate c\<rparr>,
          rn_signals_today = 0, rn_cap_date = today, rn_total_signals = 0, rn_total_paper_signals = 0\<rparr>)"

definition apply_config :: "strategy_config \<Rightarrow> bool \<Rightarrow> 'st runner \<Rightarrow> bool \<times> 'st runner" where
  "apply_config new_config reset_cb r =
    (let r = r\<lparr>rn_config := new_config,
               rn_circuit := update_thresholds (Some (rc_consecutive new_config)) (Some (rc_rate new_config)) (rn_circuit r)\<rparr>
     in if reset_cb then (True, r\<lparr>rn_circuit := cb_reset (rn_circuit r)\<rparr>) else (False, r))"

definition should_dispatch :: "clock \<Rightarrow> 'st runner \<Rightarrow> bool \<times> 'st runner" where
  "should_dispatch ck r =
    (if \<not> rc_enabled (rn_config r) then (False, r)
     else (case is_open (fst ck) (rn_circuit r) of (opened, cb) \<Rightarrow> (\<not> opened, r\<lparr>rn_circuit := cb\<rparr>)))"

definition reset_daily_cap :: "clock \<Rightarrow> 'st runner \<Rightarrow> 'st runner" where
  "reset_daily_cap ck r = r\<lparr>rn_signals_today := 0, rn_cap_date := snd ck\<rparr>"

definition check_cap :: "clock \<Rightarrow> signal option \<Rightarrow> 'st runner \<Rightarrow> signal option \<times> 'st runner" where
  "check_cap ck x r =
    (case x of
       None \<Rightarrow> (None, r)
     | Some sg \<Rightarrow>
        (let r = (if snd ck \<noteq> rn_cap_date r then reset_daily_cap ck r else r);
             cap = rc_max_signals_per_day (rn_config r)
         in if 0 < cap \<and> cap \<le> rn_signals_today r then (None, r)
            else (Some sg, r\<lparr>rn_signals_today := rn_signals_today r + 1, rn_total_signals := rn_total_signals r + 1\<rparr>)))"

definition apply_paper_flag :: "signal option \<Rightarrow> 'st runner \<Rightarrow> signal option \<times> 'st runner" where
  "apply_paper_flag x r =
    (case x of
       None \<Rightarrow> (None, r)
     | Some sg \<Rightarrow>
        (let paper = rc_paper_trade (rn_config r)
         in (Some (sg\<lparr>sg_paper_trade := paper\<rparr>),
             if paper then r\<lparr>rn_total_paper_signals := rn_total_paper_signals r + 1\<rparr> else r)))"

text \<open>\<open>_on_failure\<close> logs; the properties it reads evict old errors and may move an open circuit to half-open.\<close>

definition on_failure :: "clock \<Rightarrow> bool \<Rightarrow> 'st runner \<Rightarrow> 'st runner" where
  "on_failure ck opened r =
    (let cb = snd (errors_in_window (fst ck) (rn_circuit r));
         cb = snd (read_state (fst ck) cb);
         cb = (if opened then snd (errors_in_window (fst ck) cb) else cb)
     in r\<lparr>rn_circuit := cb\<rparr>)"

text \<open>The guarded part of both dispatchers: the handler, then the pending signal through the cap and the paper flag.\<close>

definition dispatch_guarded ::
  "'st strategy \<Rightarrow> ('st \<Rightarrow> unit res \<times> 'st) \<Rightarrow> clock \<Rightarrow> 'st runner \<Rightarrow> signal option \<times> 'st runner" where
  "dispatch_guarded St handler ck r =
    (case handler (rn_strategy r) of
       (Inl e, s) \<Rightarrow>
         (let r = r\<lparr>rn_strategy := s\<rparr>
          in case record_failure (fst ck) (rn_circuit r) of
               (opened, cb) \<Rightarrow> (None, on_failure ck opened (r\<lparr>rn_circuit := cb\<rparr>)))
     | (Inr _, s) \<Rightarrow>
         (case st_generate_signal St s of
            (x, s) \<Rightarrow>
              (let r = r\<lparr>rn_strategy := s, rn_circuit := record_success (fst ck) (rn_circuit r)\<rparr>
               in case x of
                    None \<Rightarrow> (None, r)
                  | Some sg \<Rightarrow> (case check_cap ck (Some sg) r of (x, r) \<Rightarrow> apply_paper_flag x r))))"

definition dispatch_tick ::
  "'st strategy \<Rightarrow> clock \<Rightarrow> str \<Rightarrow> rat \<Rightarrow> int \<Rightarrow> rat \<Rightarrow> 'st runner \<Rightarrow> signal option \<times> 'st runner" where
  "dispatch_tick St ck symbol price volume timestamp r =
    (if rn_interface r \<noteq> TICK then (None, r)
     else (case should_dispatch ck r of
             (False, r) \<Rightarrow> (None, r)
           | (True, r) \<Rightarrow> dispatch_guarded St (st_on_tick St symbol price volume timestamp) ck r))"

definition dispatch_bar :: "'st strategy \<Rightarrow> clock \<Rightarrow> stamp \<Rightarrow> bar \<Rightarrow> 'st runner \<Rightarrow> signal option \<times> 'st runner" where
  "dispatch_bar St ck st b r =
    (if rn_interface r \<noteq> CANDLE then (None, r)
     else if ba_data_quality b \<noteq> NORMAL_QUALITY then (None, r)
     else (case should_dispatch ck r of
             (False, r) \<Rightarrow> (None, r)
           | (True, r) \<Rightarrow> dispatch_guarded St (st_on_bar St st b) ck r))"

section \<open>Sequences of calls\<close>

datatype runner_event =
    TickEvent clock str rat int rat
  | BarEvent clock stamp bar
  | ConfigEvent strategy_config bool
  | CapReset clock

fun runner_step :: "'st strategy \<Rightarrow> runner_event \<Rightarrow> 'st runner \<Rightarrow> signal option \<times> 'st runner" where
  "runner_step St (TickEvent ck symbol price volume timestamp) r = dispatch_tick St ck symbol price volume timestamp r"
| "runner_step St (BarEvent ck st b) r = dispatch_bar St ck st b r"
| "runner_step St (ConfigEvent c reset) r = (None, snd (apply_config c reset r))"
| "runner_step St (CapReset ck) r = (None, reset_daily_cap ck r)"

fun run_runner :: "'st strategy \<Rightarrow> runner_event list \<Rightarrow> 'st runner \<Rightarrow> signal list \<times> 'st runner" where
  "run_runner St [] r = ([], r)"
| "run_runner St (e # es) r =
    (case runner_step St e r of
       (x, r) \<Rightarrow> (case run_runner St es r of (sgs, r) \<Rightarrow> ((case x of None \<Rightarrow> sgs | Some sg \<Rightarrow> sg # sgs), r)))"

section \<open>What a dispatch does\<close>

lemma on_failure_simps [simp]:
  "rn_strategy (on_failure ck d r) = rn_strategy r" "rn_config (on_failure ck d r) = rn_config r"
  "rn_interface (on_failure ck d r) = rn_interface r" "rn_signals_today (on_failure ck d r) = rn_signals_today r"
  "rn_cap_date (on_failure ck d r) = rn_cap_date r"
  by (simp_all add: on_failure_def Let_def)

text \<open>The signals counted for a date: a counter of another date is reset before it is used.\<close>

definition used_on :: "int \<Rightarrow> 'st runner \<Rightarrow> int" where
  "used_on d r = (if rn_cap_date r = d then rn_signals_today r else 0)"

definition below_cap :: "clock \<Rightarrow> 'st runner \<Rightarrow> bool" where
  "below_cap ck r \<longleftrightarrow> rc_max_signals_per_day (rn_config r) \<le> 0 \<or> used_on (snd ck) r < rc_max_signals_per_day (rn_config r)"

lemma dispatch_guarded_cases:
  assumes "dispatch_guarded St h ck r = (x, t)"
  obtains
    (failed) e s where "h (rn_strategy r) = (Inl e, s)" "x = None" "rn_strategy t = s" "rn_config t = rn_config r"
      "rn_interface t = rn_interface r" "used_on d t = used_on d r"
  | (quiet) u s s' y where "h (rn_strategy r) = (Inr u, s)" "st_generate_signal St s = (y, s')" "x = None" "rn_strategy t = s'"
      "rn_config t = rn_config r" "rn_interface t = rn_interface r" "rn_circuit t = record_success (fst ck) (rn_circuit r)"
      "d = snd ck \<Longrightarrow> used_on d t = used_on d r"
  | (signal) u s s' sg where "h (rn_strategy r) = (Inr u, s)" "st_generate_signal St s = (Some sg, s')"
      "x = Some (sg\<lparr>sg_paper_trade := rc_paper_trade (rn_config r)\<rparr>)" "rn_strategy t = s'" "rn_config t = rn_config r"
      "rn_interface t = rn_interface r" "rn_circuit t = record_success (fst ck) (rn_circuit r)" "below_cap ck r"
      "d = snd ck \<Longrightarrow> used_on d t = used_on d r + 1"
proof (cases "h (rn_strategy r)")
  case (Pair z s)
  show ?thesis
  proof (cases z)
    case (Inl e)
    then show ?thesis
      using assms failed [of e s] Pair by (auto simp: dispatch_guarded_def used_on_def Let_def split: prod.splits)
  next
    case (Inr u)
    obtain y s' where y: "st_generate_signal St s = (y, s')" by fastforce
    show ?thesis
    proof (cases y)
      case None
      then show ?thesis
        using assms quiet [of u s y s'] Pair Inr y by (auto simp: dispatch_guarded_def used_on_def Let_def)
    next
      case (Some sg)
      define q where "q = r\<lparr>rn_strategy := s', rn_circuit := record_success (fst ck) (rn_circuit r)\<rparr>"
      have run: "(x, t) = (case check_cap ck (Some sg) q of (x, r) \<Rightarrow> apply_paper_flag x r)"
        using assms Pair Inr y Some by (simp add: dispatch_guarded_def q_def)
      show ?thesis
      proof (cases "below_cap ck r")
        case True
        then show ?thesis
          using run signal [of u s sg s'] Pair Inr y Some
          by (simp add: check_cap_def apply_paper_flag_def reset_daily_cap_def below_cap_def used_on_def q_def Let_def split: if_splits)
      next
        case False
        then show ?thesis
          using run quiet [of u s y s'] Pair Inr y
          by (simp add: check_cap_def apply_paper_flag_def reset_daily_cap_def below_cap_def used_on_def q_def Let_def split: if_splits)
      qed
    qed
  qed
qed

text \<open>A dispatcher is either closed or hands its handler to the guarded part.\<close>

lemma should_dispatch_frame:
  "should_dispatch ck r = (y, t) \<Longrightarrow> t = r\<lparr>rn_circuit := rn_circuit t\<rparr>"
  by (auto simp: should_dispatch_def split: if_splits prod.splits)

lemma runner_step_cases:
  assumes "runner_step St e r = (x, t)"
  obtains
    (config) c b where "e = ConfigEvent c b" "x = None" "t = snd (apply_config c b r)"
  | (reset) ck where "e = CapReset ck" "x = None" "t = reset_daily_cap ck r"
  | (closed) cb where "x = None" "t = r\<lparr>rn_circuit := cb\<rparr>"
  | (tick) ck sy p v ts cb where "e = TickEvent ck sy p v ts" "rn_interface r = TICK"
      "dispatch_guarded St (st_on_tick St sy p v ts) ck (r\<lparr>rn_circuit := cb\<rparr>) = (x, t)"
  | (bar) ck st b cb where "e = BarEvent ck st b" "rn_interface r = CANDLE" "ba_data_quality b = NORMAL_QUALITY"
      "dispatch_guarded St (st_on_bar St st b) ck (r\<lparr>rn_circuit := cb\<rparr>) = (x, t)"
proof (cases e)
  case (TickEvent ck sy p v ts)
  obtain y q where q: "should_dispatch ck r = (y, q)" by fastforce
  show ?thesis
    using assms TickEvent q closed [of "rn_circuit q"] closed [of "rn_circuit r"] should_dispatch_frame [OF q] tick [of ck sy p v ts "rn_circuit q"]
    by (cases y) (auto simp: dispatch_tick_def split: if_splits)
next
  case (BarEvent ck st b)
  obtain y q where q: "should_dispatch ck r = (y, q)" by fastforce
  show ?thesis
    using assms BarEvent q closed [of "rn_circuit q"] closed [of "rn_circuit r"] should_dispatch_frame [OF q] bar [of ck st b "rn_circuit q"]
    by (cases y) (auto simp: dispatch_bar_def split: if_splits)
next
  case (ConfigEvent c b)
  then show ?thesis using assms config [of c b] by simp
next
  case (CapReset ck)
  then show ?thesis using assms reset [of ck] by simp
qed

lemma used_on_circuit [simp]: "used_on d (r\<lparr>rn_circuit := cb\<rparr>) = used_on d r" "below_cap ck (r\<lparr>rn_circuit := cb\<rparr>) = below_cap ck r"
  by (simp_all add: used_on_def below_cap_def)

lemma apply_config_simps [simp]:
  "rn_config (snd (apply_config c b r)) = c" "rn_strategy (snd (apply_config c b r)) = rn_strategy r"
  "rn_interface (snd (apply_config c b r)) = rn_interface r" "used_on d (snd (apply_config c b r)) = used_on d r"
  by (simp_all add: apply_config_def used_on_def Let_def)

lemma reset_daily_cap_simps [simp]:
  "rn_config (reset_daily_cap ck r) = rn_config r" "rn_strategy (reset_daily_cap ck r) = rn_strategy r"
  "rn_interface (reset_daily_cap ck r) = rn_interface r"
  by (simp_all add: reset_daily_cap_def)

section \<open>The daily cap\<close>

fun on_day :: "int \<Rightarrow> int \<Rightarrow> runner_event \<Rightarrow> bool" where
  "on_day d n (TickEvent ck symbol price volume timestamp) = (snd ck = d)"
| "on_day d n (BarEvent ck st b) = (snd ck = d)"
| "on_day d n (ConfigEvent c reset) = (rc_max_signals_per_day c = n)"
| "on_day d n (CapReset ck) = False"

lemma day_step:
  assumes "runner_step St e r = (x, t)" "on_day d n e" "rc_max_signals_per_day (rn_config r) = n" "0 < n"
  shows "rc_max_signals_per_day (rn_config t) = n \<and>
    (if x = None then used_on d t = used_on d r else used_on d r < n \<and> used_on d t = used_on d r + 1)"
  using assms(1)
proof (cases rule: runner_step_cases)
  case (tick ck sy p v ts cb)
  from tick(3) show ?thesis
    using assms(2-4) tick(1) by (cases rule: dispatch_guarded_cases [where d = d]) (auto simp: below_cap_def)
next
  case (bar ck st b cb)
  from bar(4) show ?thesis
    using assms(2-4) bar(1) by (cases rule: dispatch_guarded_cases [where d = d]) (auto simp: below_cap_def)
qed (use assms(2-4) in auto)

lemma day_counted:
  assumes "\<forall>e \<in> set es. on_day d n e" "rc_max_signals_per_day (rn_config r) = n" "0 < n"
  shows "int (length (fst (run_runner St es r))) + used_on d r \<le> max n (used_on d r)"
  using assms
proof (induction es arbitrary: r)
  case (Cons e es)
  obtain x t where t: "runner_step St e r = (x, t)" by fastforce
  obtain sgs u where u: "run_runner St es t = (sgs, u)" by fastforce
  have step: "rc_max_signals_per_day (rn_config t) = n" "if x = None then used_on d t = used_on d r else used_on d r < n \<and> used_on d t = used_on d r + 1"
    using day_step [OF t, of d n] Cons.prems by simp_all
  have "int (length sgs) + used_on d t \<le> max n (used_on d t)"
    using Cons.IH [of t] Cons.prems step(1) u by simp
  then show ?case
    using step(2) by (cases x) (simp_all add: t u)
qed simp

section \<open>The signals that come out\<close>

fun proper_event :: "runner_event \<Rightarrow> bool" where
  "proper_event (BarEvent ck st b) = proper_bar b"
| "proper_event e = True"

context base_strategy
begin

lemma runner_emits:
  assumes stamp: "\<And>sg p. good sg \<Longrightarrow> good (sg\<lparr>sg_paper_trade := p\<rparr>)"
    and "pending_good (rn_strategy r)" "\<forall>e \<in> set es. proper_event e"
  shows "\<forall>sg \<in> set (fst (run_runner S es r)). good sg"
  using assms(2,3)
proof (induction es arbitrary: r)
  case (Cons e es)
  obtain x t where t: "runner_step S e r = (x, t)" by fastforce
  have handled: "pending_good (rn_strategy t) \<and> (\<forall>sg. x = Some sg \<longrightarrow> good sg)"
    if g: "dispatch_guarded S h ck (r\<lparr>rn_circuit := cb\<rparr>) = (x, t)" and h: "\<And>z s. h (rn_strategy r) = (z, s) \<Longrightarrow> pending_good s" for h ck cb
    using g
  proof (cases rule: dispatch_guarded_cases [where d = 0])
    case (signal u s s' sg)
    then show ?thesis using h [of "Inr u" s] generated [of s "Some sg" s'] stamp by simp
  qed (use h generated in auto)
  have "pending_good (rn_strategy t) \<and> (\<forall>sg. x = Some sg \<longrightarrow> good sg)"
    using t
  proof (cases rule: runner_step_cases)
    case (tick ck sy p v ts cb)
    show ?thesis using handled [OF tick(3)] after_tick [OF Cons.prems(1)] by blast
  next
    case (bar ck st b cb)
    show ?thesis using handled [OF bar(4)] after_bar [OF Cons.prems(1)] Cons.prems(2) bar(1) by fastforce
  qed (use Cons.prems(1) in auto)
  then show ?case
    using Cons.IH [of t] Cons.prems(2) t by (auto split: option.splits prod.splits)
qed simp

lemma new_runner_emits:
  assumes "\<And>sg p. good sg \<Longrightarrow> good (sg\<lparr>sg_paper_trade := p\<rparr>)" "\<forall>e \<in> set es. proper_event e" "inv s" "pending s = None"
  shows "\<forall>sg \<in> set (fst (run_runner S es (new_runner s i config today))). good sg"
  by (rule runner_emits [OF assms(1) _ assms(2)]) (use assms(3,4) in \<open>simp_all add: new_runner_def Let_def pending_good_def\<close>)

text \<open>Ticks leave the pending signal alone, so a runner of the tick interface has nothing to hand out.\<close>

lemma tick_runner_silent:
  assumes "rn_interface r = TICK" "inv (rn_strategy r)" "pending (rn_strategy r) = None"
  shows "fst (run_runner S es r) = []"
  using assms
proof (induction es arbitrary: r)
  case (Cons e es)
  obtain x t where t: "runner_step S e r = (x, t)" by fastforce
  have "x = None \<and> rn_interface t = TICK \<and> inv (rn_strategy t) \<and> pending (rn_strategy t) = None"
    using t
  proof (cases rule: runner_step_cases)
    case (tick ck sy p v ts cb)
    have out: "inv s \<and> pending s = None" if "st_on_tick S sy p v ts (rn_strategy r) = (z, s)" for z s
      using tick_ok [OF Cons.prems(2) that] Cons.prems(3) by simp
    have gen: "y = None \<and> inv s' \<and> pending s' = None" if "st_generate_signal S s = (y, s')" "inv s \<and> pending s = None" for y s s'
      using that generate [of s s'] generate_pending [of s] by auto
    from tick(3) show ?thesis
      using Cons.prems(1) by (cases rule: dispatch_guarded_cases [where d = 0]) (use out gen in \<open>auto dest!: out gen\<close>)
  qed (use Cons.prems in auto)
  then show ?case
    using Cons.IH [of t] by (simp add: t split: prod.splits)
qed simp

end

section \<open>Recovery\<close>

text \<open>\<open>n\<close> further successes are enough to close the circuit, once the reset time has passed.\<close>

definition recovering :: "rat \<Rightarrow> rat \<Rightarrow> nat \<Rightarrow> circuit_breaker \<Rightarrow> bool" where
  "recovering t0 reset n cb \<longleftrightarrow>
    0 < cb_success_threshold cb \<and> cb_reset_seconds cb = reset \<and>
    (case cb_state cb of
       CLOSED \<Rightarrow> True
     | HALF_OPEN \<Rightarrow> cb_half_open_successes cb < cb_success_threshold cb \<and>
                      cb_success_threshold cb \<le> cb_half_open_successes cb + int n
     | OPEN \<Rightarrow> cb_open_at cb = Some t0 \<and> cb_success_threshold cb \<le> int n)"

lemma recovering_success:
  assumes "recovering t0 reset (Suc n) cb" "t0 + reset \<le> now"
  shows "fst (is_open now cb) = False \<and> recovering t0 reset n (record_success now (snd (is_open now cb)))"
  using assms by (cases "cb_state cb") (auto simp: recovering_def is_open_def cb_defs)

fun good_bar :: "rat \<Rightarrow> runner_event \<Rightarrow> bool" where
  "good_bar since (BarEvent ck st b) = (ba_data_quality b = NORMAL_QUALITY \<and> since \<le> fst ck)"
| "good_bar since e = False"

lemma recovery_step:
  assumes "\<And>st b s. \<exists>u t. st_on_bar St st b s = (Inr u, t)"
    and "rn_interface r = CANDLE" "rc_enabled (rn_config r)" "recovering t0 reset (Suc n) (rn_circuit r)" "good_bar (t0 + reset) e"
    and "runner_step St e r = (x, t)"
  shows "rn_interface t = CANDLE \<and> rc_enabled (rn_config t) \<and> recovering t0 reset n (rn_circuit t)"
proof -
  obtain ck st b where e: "e = BarEvent ck st b" "ba_data_quality b = NORMAL_QUALITY" "t0 + reset \<le> fst ck"
    using assms(5) by (cases e) auto
  obtain cb where cb: "is_open (fst ck) (rn_circuit r) = (False, cb)" "recovering t0 reset n (record_success (fst ck) cb)"
    using recovering_success [OF assms(4) e(3)] by (metis fst_conv prod.collapse snd_conv)
  have "dispatch_guarded St (st_on_bar St st b) ck (r\<lparr>rn_circuit := cb\<rparr>) = (x, t)"
    using assms(2,3,6) e cb(1) by (simp add: dispatch_bar_def should_dispatch_def)
  then show ?thesis
    using assms(1) [of st b "rn_strategy r"] assms(2,3) cb(2)
    by (cases rule: dispatch_guarded_cases [where d = 0]) auto
qed

lemma circuit_recovery:
  assumes "\<And>st b s. \<exists>u t. st_on_bar St st b s = (Inr u, t)"
    and "rn_interface r = CANDLE" "rc_enabled (rn_config r)" "recovering t0 reset (length es) (rn_circuit r)"
    and "\<forall>e \<in> set es. good_bar (t0 + reset) e"
  shows "recovering t0 reset 0 (rn_circuit (snd (run_runner St es r)))"
  using assms(2-)
proof (induction es arbitrary: r)
  case (Cons e es)
  obtain x t where t: "runner_step St e r = (x, t)" by fastforce
  obtain sgs u where u: "run_runner St es t = (sgs, u)" by fastforce
  show ?case
    using recovery_step [OF assms(1) Cons.prems(1,2) _ _ t, of t0 reset "length es"] Cons.prems(3,4) Cons.IH [of t]
    by (simp add: t u)
qed simp

section \<open>The properties of a runner\<close>


text \<open>
  Recovery: a runner whose circuit opened is closed again after as many bars as the success threshold asks for,
  when they arrive after the reset time and its strategy handles them.
\<close>

theorem runner_recovers:
  assumes "\<And>st b s. \<exists>u t. st_on_bar St st b s = (Inr u, t)"
    and "rn_interface r = CANDLE" "rc_enabled (rn_config r)"
    and "cb_state (rn_circuit r) = OPEN" "cb_open_at (rn_circuit r) = Some t0" "cb_reset_seconds (rn_circuit r) = reset"
    and "0 < cb_success_threshold (rn_circuit r)" "cb_success_threshold (rn_circuit r) \<le> int (length es)"
    and "\<forall>e \<in> set es. good_bar (t0 + reset) e"
  shows "cb_state (rn_circuit (snd (run_runner St es r))) = CLOSED"
proof -
  have "recovering t0 reset (length es) (rn_circuit r)"
    using assms(4-8) by (simp add: recovering_def)
  then have "recovering t0 reset 0 (rn_circuit (snd (run_runner St es r)))"
    using circuit_recovery [OF assms(1-3)] assms(9) by blast
  then show ?thesis
    by (auto simp: recovering_def split: circuit_state.splits)
qed


theorem runner_recovers_witness:
  "cb_state (rn_circuit (snd (run_runner (orb_strategy nse_orb [''TCS''])
     [BarEvent (400, 5) (''s1'', 0) (tcs_bar 13500), BarEvent (460, 5) (''s2'', 0) (tcs_bar 13560),
      BarEvent (520, 5) (''s3'', 0) (tcs_bar 13620)]
     ((new_runner new_orb CANDLE None 5)\<lparr>rn_circuit := transition_to_open 50 new_circuit_breaker\<rparr>)))) = CLOSED"
proof (rule runner_recovers [of _ _ 50 300])
  show "\<exists>u t. st_on_bar (orb_strategy nse_orb [''TCS'']) st b s = (Inr u, t)" for st b s
    using orb_on_bar_used [of nse_orb st b s] by (cases "orb_on_bar nse_orb st b s") (simp add: orb_strategy_def)
qed (simp_all add: new_runner_def default_strategy_config_def transition_to_open_def new_circuit_breaker_def tcs_bar_def)

interpretation mom_tick: base_strategy "momentum_strategy C symbols" mt_pending "\<lambda>_. True" "\<lambda>_. True"
  for C :: momentum_config and symbols :: "str list"
proof (unfold_locales, goal_cases)
  case (4 s b st r t)
  obtain r1 s1 where "update_buffers C b s = (r1, s1)" by fastforce
  with 4 update_buffers_pending [OF this] show ?case
    by (auto simp: momentum_strategy_def momentum_on_bar_def Let_def split: sum.splits option.splits if_splits)
qed (auto simp: momentum_strategy_def momentum_generate_def momentum_on_tick_def Let_def)

text \<open>
  The momentum strategy is registered on the tick interface, where its handler only buffers prices: no sequence of
  ticks, bars and reloads makes its runner hand out a signal.
\<close>

theorem momentum_runner_silent:
  "fst (run_runner (momentum_strategy C symbols) es (new_runner new_momentum TICK config today)) = []"
  by (rule mom_tick.tick_runner_silent) (simp_all add: new_runner_def new_momentum_def Let_def)

text \<open>The levels of every signal that the other bar strategies hand out.\<close>

lemma brackets_paper [simp]: "brackets (sg\<lparr>sg_paper_trade := p\<rparr>) = brackets sg" "scalp_good C (sg\<lparr>sg_paper_trade := p\<rparr>) = scalp_good C sg"
  unfolding brackets_def scalp_good_def pays_costs_def Let_def by (simp_all split: option.splits)

lemma orb_runner_levels:
  assumes "orb_proper B" "\<forall>e \<in> set es. proper_event e"
  shows "\<forall>sg \<in> set (fst (run_runner (orb_strategy B symbols) es (new_runner new_orb i config today))). brackets sg"
  by (rule orb.new_runner_emits [OF _ assms(2)]) (use assms(1) in \<open>simp_all add: new_orb_def orb_inv_def orb_buffers_def proper_range_def\<close>)

lemma vwap_runner_levels:
  assumes "vwap_proper V msqrt" "\<forall>e \<in> set es. proper_event e"
  shows "\<forall>sg \<in> set (fst (run_runner (vwap_strategy V msqrt symbols) es (new_runner new_vwap i config today))). brackets sg"
  by (rule vw.new_runner_emits [OF _ assms(2)]) (use assms(1) in \<open>simp_all add: new_vwap_def\<close>)

lemma preclose_runner_levels:
  assumes "preclose_proper P" "\<forall>e \<in> set es. proper_event e"
  shows "\<forall>sg \<in> set (fst (run_runner (preclose_strategy P symbols) es (new_runner new_preclose i config today))). brackets sg"
  by (rule preclose.new_runner_emits [OF _ assms(2)]) (use assms(1) in \<open>simp_all add: new_preclose_def\<close>)

lemma trend_runner_levels:
  assumes "trend_proper T" "\<forall>e \<in> set es. proper_event e"
  shows "\<forall>sg \<in> set (fst (run_runner (trend_strategy T symbols) es (new_runner new_trend i config today))). brackets sg"
  by (rule trend.new_runner_emits [OF _ assms(2)]) (use assms(1) in \<open>simp_all add: new_trend_def\<close>)

text \<open>
  C35 Whatever ticks, bars, reloads and resets the runner of the scalp strategy gets, every signal it hands out has
  its stop and its target on their sides of the price, and a target that covers the round-trip costs and the net edge
  that the configuration asks for.
\<close>

theorem scalp_signals_pay_costs:
  assumes "scalp_proper C" "\<forall>e \<in> set es. proper_event e"
  shows "\<forall>sg \<in> set (fst (run_runner (scalp_strategy C symbols) es (new_runner new_scalp i config today))). scalp_good C sg"
  by (rule scalp.new_runner_emits [OF _ assms(2)]) (use assms(1) in \<open>simp_all add: new_scalp_def\<close>)

definition nse_scalp :: scalp_config where
  "nse_scalp = \<lparr>sc_name = ''nse_scalp_1m'', sc_market = ''NSE'', sc_fast = 9, sc_slow = 21, sc_atr_period = 14, sc_atr_stop_mult = 1 / 2,
     sc_rr = 3 / 2, sc_vol_mult = 3 / 2, sc_min_body_pct = 3 / 10, sc_min_conf = 55 / 100, sc_max_sig = 3, sc_min_stop_pct = 15 / 10000,
     sc_min_target_pct = 25 / 10000, sc_min_spread_mult = 3, sc_min_tick_mult = 5, sc_max_spread_pct = 8 / 10000,
     sc_min_net_edge_pct = 12 / 100, sc_reject_if_spread_unavailable = True, sc_reject_if_ltp_stale = True, sc_nav = 1000000,
     sc_paper_trade = True\<rparr>"

theorem scalp_signals_pay_costs_witness:
  "list_all (scalp_good nse_scalp) (fst (run_runner (scalp_strategy nse_scalp [''TCS''])
    [BarEvent (400, 5) (''s1'', 0) (tcs_bar 13500), CapReset (500, 6)] (new_runner new_scalp CANDLE None 5)))"
  unfolding list_all_iff
  by (rule scalp_signals_pay_costs) (simp_all add: nse_scalp_def scalp_proper_def tcs_bar_def proper_bar_def)

end
