(* ===== verification/StrategyConfigTable.thy ===== *)
theory StrategyConfigTable
  imports StrategyRunnerModel Dynamo
begin

text \<open>
  The table of strategy configurations: \<open>services/strategy_engine/config/strategy_config_loader.py\<close>, which reads it
  into the runners, and the operator's commands \<open>scripts/strategy/config.py\<close> and
  \<open>scripts/strategy/reset_circuit_breaker.py\<close>, which write it.  \<open>parse\<close> is \<open>int\<close> of a string; printing is left out.
\<close>

section \<open>Keys and rows\<close>

text \<open>\<open>env_text.split(".", 1)[1]\<close>\<close>

definition after_dot :: "str \<Rightarrow> str" where
  "after_dot s = tl (dropWhile (\<lambda>c. c \<noteq> CHR ''.'') s)"

definition environment_alias :: "str \<Rightarrow> str option" where
  "environment_alias = map_of [(''dev'', ''development''), (''prod'', ''production''), (''stage'', ''staging'')]"

definition normalize_environment :: "str \<Rightarrow> str" where
  "normalize_environment env =
    (let env_text = py_strip env;
         env_text = (if py_starts ''environment.'' (py_lower env_text) then after_dot env_text else env_text);
         env_text = py_lower env_text
     in opt_default env_text (environment_alias env_text))"

definition loader_key :: "str \<Rightarrow> str \<Rightarrow> key" where
  "loader_key env strategy = (''STRATEGY_CONFIG#'' @ strategy, ''ENV#'' @ normalize_environment env)"

definition operator_key :: "str \<Rightarrow> str \<Rightarrow> key" where
  "operator_key env strategy = (''STRATEGY#'' @ strategy, ''CONFIG#'' @ env)"

text \<open>\<open>bool(item.get(a, d))\<close> and \<open>int(item.get(a, d))\<close> of a row of the table resource.\<close>

fun attr_true :: "attr \<Rightarrow> bool" where
  "attr_true (S s) = (s \<noteq> [])"
| "attr_true (N x) = (x \<noteq> 0)"
| "attr_true (BOOL b) = b"

fun int_attr :: "(str \<Rightarrow> int option) \<Rightarrow> attr \<Rightarrow> int res" where
  "int_attr parse (S s) = (case parse s of None \<Rightarrow> Inl ValueError | Some n \<Rightarrow> Inr n)"
| "int_attr parse (N x) = Inr (py_int x)"
| "int_attr parse (BOOL b) = Inr (if b then 1 else 0)"

definition row_bool :: "item \<Rightarrow> str \<Rightarrow> bool \<Rightarrow> bool" where
  "row_bool i a d = (case i a of None \<Rightarrow> d | Some v \<Rightarrow> attr_true v)"

definition row_int :: "(str \<Rightarrow> int option) \<Rightarrow> item \<Rightarrow> str \<Rightarrow> int \<Rightarrow> int res" where
  "row_int parse i a d = (case i a of None \<Rightarrow> Inr d | Some v \<Rightarrow> int_attr parse v)"

definition unconfigured :: strategy_config where
  "unconfigured =
    \<lparr>rc_enabled = True, rc_paper_trade = True, rc_max_signals_per_day = 10, rc_consecutive = 5, rc_rate = 10\<rparr>"

definition config_of_row :: "(str \<Rightarrow> int option) \<Rightarrow> item \<Rightarrow> (strategy_config \<times> bool) res" where
  "config_of_row parse i =
    res_bind (row_int parse i ''max_signals_per_day'' 0) (\<lambda>n.
    res_bind (row_int parse i ''circuit_breaker_threshold_consecutive'' 5) (\<lambda>c.
    res_bind (row_int parse i ''circuit_breaker_threshold_rate'' 10) (\<lambda>q.
      Inr (\<lparr>rc_enabled = row_bool i ''enabled'' True, rc_paper_trade = row_bool i ''paper_trade'' True,
            rc_max_signals_per_day = n, rc_consecutive = c, rc_rate = q\<rparr>,
           row_bool i ''circuit_breaker_reset'' False))))"

section \<open>The loader\<close>

record 'w loader =
  ld_dynamo :: "'w dynamo"
  ld_table :: str
  ld_env :: str
  ld_parse :: "str \<Rightarrow> int option"

definition load_config :: "'w loader \<Rightarrow> str \<Rightarrow> 'w \<Rightarrow> (strategy_config \<times> bool) res \<times> 'w" where
  "load_config L strategy w =
    (case dy_get (ld_dynamo L) w (ld_table L) (loader_key (ld_env L) strategy) of
       (Inl e, w) \<Rightarrow> (Inl e, w)
     | (Inr None, w) \<Rightarrow> (Inr (unconfigured, False), w)
     | (Inr (Some i), w) \<Rightarrow> (config_of_row (ld_parse L) i, w))"

text \<open>A failed update is logged.\<close>

definition clear_reset_flag :: "'w loader \<Rightarrow> str \<Rightarrow> str \<Rightarrow> 'w \<Rightarrow> 'w" where
  "clear_reset_flag L now strategy w =
    snd (dy_update (ld_dynamo L) w (ld_table L) (loader_key (ld_env L) strategy)
      [SetTo ''circuit_breaker_reset'' (BOOL False), SetTo ''updated_at'' (S now),
       SetTo ''updated_by'' (S ''strategy_engine:auto_clear_reset'')] NoCond)"

text \<open>The body of the loop of \<open>refresh_all\<close> for one runner; the flag says whether its configuration was applied.\<close>

definition refresh_runner :: "'w loader \<Rightarrow> str \<Rightarrow> str \<Rightarrow> 'st runner \<times> 'w \<Rightarrow> bool \<times> 'st runner \<times> 'w" where
  "refresh_runner L now strategy rw =
    (case rw of (r, w) \<Rightarrow>
      (case load_config L strategy w of
         (Inl e, w) \<Rightarrow> (False, r, w)
       | (Inr (config, reset_cb), w) \<Rightarrow>
          (case apply_config config reset_cb r of
             (did_reset, r) \<Rightarrow> (True, r, if reset_cb \<and> did_reset then clear_reset_flag L now strategy w else w))))"

text \<open>The dictionary of the runners, in the order of their registration; the number of updates and of errors.\<close>

fun refresh_all :: "'w loader \<Rightarrow> str \<Rightarrow> (str \<times> 'st runner) list \<times> 'w \<Rightarrow> (nat \<times> nat) \<times> (str \<times> 'st runner) list \<times> 'w" where
  "refresh_all L now ([], w) = ((0, 0), [], w)"
| "refresh_all L now ((strategy, r) # rs, w) =
    (case refresh_runner L now strategy (r, w) of
       (done, r, w) \<Rightarrow>
         (case refresh_all L now (rs, w) of
            ((updated, errors), rs, w) \<Rightarrow>
              (if done then (Suc updated, errors) else (updated, Suc errors), (strategy, r) # rs, w)))"

text \<open>\<open>register\<close>: an entry of the same name is replaced in its place.\<close>

definition register :: "str \<Rightarrow> 'st runner \<Rightarrow> (str \<times> 'st runner) list \<Rightarrow> (str \<times> 'st runner) list" where
  "register strategy r rs = AList.update strategy r rs"

definition seed_row :: "key \<Rightarrow> int \<Rightarrow> str \<Rightarrow> str \<Rightarrow> item" where
  "seed_row k max_signals now actor = (key_item k)
    (''enabled'' \<mapsto> BOOL True, ''paper_trade'' \<mapsto> BOOL True, ''max_signals_per_day'' \<mapsto> N (of_int max_signals),
     ''circuit_breaker_threshold_consecutive'' \<mapsto> N 5, ''circuit_breaker_threshold_rate'' \<mapsto> N 10,
     ''circuit_breaker_state'' \<mapsto> S ''CLOSED'', ''circuit_breaker_reset'' \<mapsto> BOOL False,
     ''updated_at'' \<mapsto> S now, ''updated_by'' \<mapsto> S actor)"

text \<open>Every error of a write, the refused condition among them, is logged.\<close>

fun seed_defaults :: "'w loader \<Rightarrow> str \<Rightarrow> (str \<times> int) list \<Rightarrow> 'w \<Rightarrow> 'w" where
  "seed_defaults L now [] w = w"
| "seed_defaults L now ((strategy, n) # ss) w =
    (let k = loader_key (ld_env L) strategy
     in seed_defaults L now ss (snd (dy_put (ld_dynamo L) w (ld_table L) k (seed_row k n now ''seed_defaults'') (NotExists ''PK''))))"

section \<open>The operator's commands\<close>

record config_change =
  ch_enabled :: "bool option"
  ch_paper_trade :: "bool option"
  ch_max_signals_per_day :: "int option"
  ch_cb_consecutive :: "int option"
  ch_cb_rate :: "int option"

definition change_updates :: "config_change \<Rightarrow> upd list" where
  "change_updates ch =
    (case ch_enabled ch of None \<Rightarrow> [] | Some v \<Rightarrow> [SetTo ''enabled'' (BOOL v)]) @
    (case ch_paper_trade ch of None \<Rightarrow> [] | Some v \<Rightarrow> [SetTo ''paper_trade'' (BOOL v)]) @
    (case ch_max_signals_per_day ch of None \<Rightarrow> [] | Some n \<Rightarrow> [SetTo ''max_signals_per_day'' (N (of_int n))]) @
    (case ch_cb_consecutive ch of None \<Rightarrow> [] | Some n \<Rightarrow> [SetTo ''circuit_breaker_threshold_consecutive'' (N (of_int n))]) @
    (case ch_cb_rate ch of None \<Rightarrow> [] | Some n \<Rightarrow> [SetTo ''circuit_breaker_threshold_rate'' (N (of_int n))])"

text \<open>\<open>set\<close>: the exit code.  An error that is not a \<open>ClientError\<close> ends the command.\<close>

definition cmd_set :: "'w dynamo \<Rightarrow> str \<Rightarrow> str \<Rightarrow> str \<Rightarrow> str \<Rightarrow> str \<Rightarrow> config_change \<Rightarrow> 'w \<Rightarrow> int res \<times> 'w" where
  "cmd_set D tbl strategy env operator now ch w =
    (let updates = change_updates ch
     in if updates = [] then (Inr 1, w)
        else
          (case dy_update D w tbl (operator_key env strategy)
                  (updates @ [SetTo ''updated_at'' (S now), SetTo ''updated_by'' (S operator)]) NoCond of
             (Inr row, w) \<Rightarrow> (Inr 0, w)
           | (Inl e, w) \<Rightarrow> (if e = ClientError \<or> e = ConditionalCheckFailed then Inr 1 else Inl e, w)))"

text \<open>
  \<open>reset_circuit_breaker\<close>, whose operator confirms: \<open>confirmed closed\<close> is the answer to the question of a circuit that is
  closed or not.
\<close>

definition reset_circuit_breaker :: "'w dynamo \<Rightarrow> str \<Rightarrow> str \<Rightarrow> str \<Rightarrow> str \<Rightarrow> str \<Rightarrow> bool \<Rightarrow> (bool \<Rightarrow> bool) \<Rightarrow> 'w \<Rightarrow> int res \<times> 'w" where
  "reset_circuit_breaker D tbl strategy env operator now yes confirmed w =
    (let k = operator_key env strategy
     in case dy_get D w tbl k of
          (Inl e, w) \<Rightarrow> (Inl e, w)
        | (Inr None, w) \<Rightarrow> (Inr 1, w)
        | (Inr (Some i), w) \<Rightarrow>
           (let current_state = opt_default (S ''CLOSED'') (i ''circuit_breaker_state'');
                asked = \<not> yes \<and> current_state \<in> {S ''CLOSED'', S ''OPEN'', S ''HALF_OPEN''}
            in if asked \<and> \<not> confirmed (current_state = S ''CLOSED'') then (Inr 0, w)
               else
                 (case dy_update D w tbl k
                         [SetTo ''circuit_breaker_reset'' (BOOL True), SetTo ''updated_at'' (S now), SetTo ''updated_by'' (S operator)]
                         NoCond of
                    (Inr row, w) \<Rightarrow> (Inr 0, w)
                  | (Inl e, w) \<Rightarrow> (if e = ClientError \<or> e = ConditionalCheckFailed then Inr 1 else Inl e, w))))"


text \<open>\<open>seed\<close>; the attribute that it stores as NULL is left out.\<close>

definition KNOWN_STRATEGIES :: "(str \<times> int) list" where
  "KNOWN_STRATEGIES = [(''nse_momentum_v1'', 20), (''us_momentum_v1'', 10), (''nse_orb_15m'', 4), (''nse_scalp_1m'', 6),
     (''nse_vwap_reversion'', 5), (''nse_intraday_trend_15m'', 4), (''nse_preclose_momentum'', 3)]"

fun cmd_seed :: "'w dynamo \<Rightarrow> str \<Rightarrow> str \<Rightarrow> str \<Rightarrow> str \<Rightarrow> (str \<times> int) list \<Rightarrow> 'w \<Rightarrow> int res \<times> 'w" where
  "cmd_seed D tbl env operator now [] w = (Inr 0, w)"
| "cmd_seed D tbl env operator now ((strategy, n) # ss) w =
    (let k = operator_key env strategy
     in case dy_put D w tbl k (seed_row k n now operator) (NotExists ''PK'') of
          (Inr _, w) \<Rightarrow> cmd_seed D tbl env operator now ss w
        | (Inl e, w) \<Rightarrow> if e = ClientError \<or> e = ConditionalCheckFailed then cmd_seed D tbl env operator now ss w else (Inl e, w))"

datatype operator_command =
    SetConfig str str str str config_change
  | ResetCircuit str str str str bool "bool \<Rightarrow> bool"
  | SeedConfigs str str str

fun run_command :: "'w dynamo \<Rightarrow> str \<Rightarrow> operator_command \<Rightarrow> 'w \<Rightarrow> int res \<times> 'w" where
  "run_command D tbl (SetConfig strategy env operator now ch) w = cmd_set D tbl strategy env operator now ch w"
| "run_command D tbl (ResetCircuit strategy env operator now yes confirmed) w =
    reset_circuit_breaker D tbl strategy env operator now yes confirmed w"
| "run_command D tbl (SeedConfigs env operator now) w = cmd_seed D tbl env operator now KNOWN_STRATEGIES w"

section \<open>The operator's rows are not the loader's\<close>

lemma keys_differ [simp]: "operator_key env strategy \<noteq> loader_key env' strategy'" "loader_key env' strategy' \<noteq> operator_key env strategy"
  by (simp_all add: operator_key_def loader_key_def)

definition keeps_loader_rows :: "tables \<Rightarrow> tables \<Rightarrow> bool" where
  "keeps_loader_rows t t' \<longleftrightarrow> (\<forall>tbl env strategy. t' tbl (loader_key env strategy) = t tbl (loader_key env strategy))"

lemma keeps_refl [simp]: "keeps_loader_rows t t"
  by (simp add: keeps_loader_rows_def)

lemma keeps_trans: "keeps_loader_rows t u \<Longrightarrow> keeps_loader_rows u v \<Longrightarrow> keeps_loader_rows t v"
  by (simp add: keeps_loader_rows_def)

lemma keeps_put: "keeps_loader_rows t (tables_put t tbl (operator_key env strategy) i)"
  by (simp add: keeps_loader_rows_def tables_put_def)

lemma keeps_commits:
  assumes "commits (=) t t' r holds (\<lambda>t. tables_put t tbl (operator_key env strategy) (f t))"
  shows "keeps_loader_rows t t'"
  by (rule commits_le [OF assms]) (auto intro: keeps_trans keeps_put)

lemma cmd_set_keeps:
  assumes "dynamo_ok (=) D" "cmd_set D tbl strategy env operator now ch w = (z, w')"
  shows "keeps_loader_rows (dy_tables D w) (dy_tables D w')"
  using assms(2) keeps_commits [OF dynamo_ok_update [OF assms(1)]]
  by (auto simp: cmd_set_def Let_def split: if_splits prod.splits sum.splits)

lemma reset_keeps:
  assumes "dynamo_ok (=) D" "reset_circuit_breaker D tbl strategy env operator now yes confirmed w = (z, w')"
  shows "keeps_loader_rows (dy_tables D w) (dy_tables D w')"
proof -
  obtain g w1 where g: "dy_get D w tbl (operator_key env strategy) = (g, w1)" by fastforce
  have same: "dy_tables D w1 = dy_tables D w"
    using dynamo_ok_get [OF assms(1) g] by simp
  show ?thesis
    using assms(2) keeps_commits [OF dynamo_ok_update [OF assms(1)]] same
    by (fastforce simp: reset_circuit_breaker_def g Let_def split: if_splits prod.splits sum.splits option.splits)
qed

lemma seed_keeps:
  assumes "dynamo_ok (=) D" "cmd_seed D tbl env operator now ss w = (z, w')"
  shows "keeps_loader_rows (dy_tables D w) (dy_tables D w')"
  using assms(2)
proof (induction ss arbitrary: w)
  case (Cons sn ss)
  obtain strategy n where sn: "sn = (strategy, n)" by fastforce
  obtain g w1 where g: "dy_put D w tbl (operator_key env strategy) (seed_row (operator_key env strategy) n now operator) (NotExists ''PK'') = (g, w1)"
    by fastforce
  have "keeps_loader_rows (dy_tables D w) (dy_tables D w1)"
    by (rule keeps_commits [OF dynamo_ok_put [OF assms(1) g]])
  then show ?case
    using Cons.IH [of w1] Cons.prems by (auto simp: sn g Let_def split: sum.splits if_splits intro: keeps_trans)
qed simp

lemma run_command_keeps:
  assumes "dynamo_ok (=) D" "run_command D tbl c w = (z, w')"
  shows "keeps_loader_rows (dy_tables D w) (dy_tables D w')"
  using assms by (cases c) (auto intro: cmd_set_keeps reset_keeps seed_keeps)

section \<open>A runner beside its table\<close>

datatype table_event = Dispatch runner_event | Refresh str | Operator operator_command

fun table_step :: "'w loader \<Rightarrow> str \<Rightarrow> 'st strategy \<Rightarrow> table_event \<Rightarrow> 'st runner \<times> 'w \<Rightarrow> signal option \<times> 'st runner \<times> 'w" where
  "table_step L strategy St (Dispatch e) (r, w) = (case runner_step St e r of (x, r) \<Rightarrow> (x, r, w))"
| "table_step L strategy St (Refresh now) (r, w) = (None, snd (refresh_runner L now strategy (r, w)))"
| "table_step L strategy St (Operator c) (r, w) = (None, r, snd (run_command (ld_dynamo L) (ld_table L) c w))"

fun run_table :: "'w loader \<Rightarrow> str \<Rightarrow> 'st strategy \<Rightarrow> table_event list \<Rightarrow> 'st runner \<times> 'w \<Rightarrow> signal list \<times> 'st runner \<times> 'w" where
  "run_table L strategy St [] rw = ([], rw)"
| "run_table L strategy St (e # es) rw =
    (case table_step L strategy St e rw of
       (x, rw) \<Rightarrow> (case run_table L strategy St es rw of (sgs, rw) \<Rightarrow> ((case x of None \<Rightarrow> sgs | Some sg \<Rightarrow> sg # sgs), rw)))"

fun no_reload :: "table_event \<Rightarrow> bool" where
  "no_reload (Dispatch (ConfigEvent c reset)) = False"
| "no_reload e = True"

lemma runner_step_config:
  assumes "runner_step St e r = (x, t)" "no_reload (Dispatch e)"
  shows "rn_config t = rn_config r \<and> (\<forall>sg. x = Some sg \<longrightarrow> sg_paper_trade sg = rc_paper_trade (rn_config r))"
  using assms(1)
proof (cases rule: runner_step_cases)
  case (tick ck sy p v ts cb)
  from tick(3) show ?thesis by (cases rule: dispatch_guarded_cases [where d = 0]) auto
next
  case (bar ck st b cb)
  from bar(4) show ?thesis by (cases rule: dispatch_guarded_cases [where d = 0]) auto
qed (use assms(2) in auto)

text \<open>What holds of the runner of a strategy that has no row of its own.\<close>

definition unreached :: "'w loader \<Rightarrow> str \<Rightarrow> strategy_config \<Rightarrow> 'st runner \<times> 'w \<Rightarrow> bool" where
  "unreached L strategy c rw \<longleftrightarrow>
    dy_tables (ld_dynamo L) (snd rw) (ld_table L) (loader_key (ld_env L) strategy) = None \<and>
    rn_config (fst rw) \<in> {c, unconfigured}"

lemma unreached_step:
  assumes ok: "dynamo_ok (=) (ld_dynamo L)" "dynamo_values (ld_dynamo L)"
    and "unreached L strategy c (r, w)" "no_reload e" "table_step L strategy St e (r, w) = (x, t, w')"
  shows "unreached L strategy c (t, w') \<and> (\<forall>sg. x = Some sg \<longrightarrow> sg_paper_trade sg = rc_paper_trade (rn_config r))"
proof (cases e)
  case (Dispatch d)
  obtain y u where y: "runner_step St d r = (y, u)" by fastforce
  with Dispatch assms(3-5) runner_step_config [OF y] show ?thesis by (auto simp: unreached_def)
next
  case (Refresh now)
  obtain g w1 where g: "dy_get (ld_dynamo L) w (ld_table L) (loader_key (ld_env L) strategy) = (g, w1)" by fastforce
  have w1: "dy_tables (ld_dynamo L) w1 = dy_tables (ld_dynamo L) w"
    using dynamo_ok_get [OF ok(1) g] by simp
  have none: "i = None" if "g = Inr i" for i
    using sole_get [OF ok] g that assms(3) by (fastforce simp: unreached_def)
  show ?thesis
    using assms(3,5) Refresh w1 none
    by (cases g) (auto simp: unreached_def refresh_runner_def load_config_def g apply_config_def Let_def)
next
  case (Operator d)
  obtain y u where y: "run_command (ld_dynamo L) (ld_table L) d w = (y, u)" by fastforce
  with Operator assms(3,5) run_command_keeps [OF ok(1) y] show ?thesis
    by (auto simp: unreached_def keeps_loader_rows_def)
qed

lemma unreached_run:
  assumes ok: "dynamo_ok (=) (ld_dynamo L)" "dynamo_values (ld_dynamo L)"
    and "\<forall>e \<in> set es. no_reload e" "unreached L strategy c rw"
  shows "unreached L strategy c (snd (run_table L strategy St es rw)) \<and>
    (rc_paper_trade c \<longrightarrow> (\<forall>sg \<in> set (fst (run_table L strategy St es rw)). sg_paper_trade sg))"
  using assms(3,4)
proof (induction es arbitrary: rw)
  case (Cons e es)
  obtain r w where rw: "rw = (r, w)" by fastforce
  obtain x t w' where t: "table_step L strategy St e (r, w) = (x, t, w')" by (metis prod_cases3)
  obtain sgs u where u: "run_table L strategy St es (t, w') = (sgs, u)" by (metis surj_pair)
  have step: "unreached L strategy c (t, w') \<and> (\<forall>sg. x = Some sg \<longrightarrow> sg_paper_trade sg = rc_paper_trade (rn_config r))"
    by (rule unreached_step [OF ok _ _ t]) (use Cons.prems in \<open>simp_all add: rw\<close>)
  have "rc_paper_trade c \<Longrightarrow> rc_paper_trade (rn_config r)"
    using Cons.prems(2) by (auto simp: rw unreached_def unconfigured_def)
  then show ?case
    using step Cons.IH [of "(t, w')"] Cons.prems(1) by (auto simp: rw t u split: option.splits)
qed simp

section \<open>Properties\<close>

text \<open>
  The operator's commands do not reach the engine: the configuration of the runner of a strategy that has no row
  under the loader's key stays what it was or the default, in whatever order dispatches, refreshes and the operator's
  \<open>set\<close>, \<open>seed\<close> and circuit-reset commands come, for the commands write under another key.
\<close>

theorem operator_commands_unseen:
  assumes "dynamo_ok (=) (ld_dynamo L)" "dynamo_values (ld_dynamo L)"
    and "dy_tables (ld_dynamo L) w (ld_table L) (loader_key (ld_env L) strategy) = None"
    and "\<forall>e \<in> set es. no_reload e"
  shows "rn_config (fst (snd (run_table L strategy St es (new_runner s i (Some c) today, w)))) \<in> {c, unconfigured}"
proof -
  have "unreached L strategy c (new_runner s i (Some c) today, w)"
    using assms(3) by (simp add: unreached_def new_runner_def Let_def)
  from unreached_run [OF assms(1,2,4) this] show ?thesis
    by (simp add: unreached_def)
qed


definition demo_loader :: "mem loader" where
  "demo_loader = \<lparr>ld_dynamo = mem_dynamo, ld_table = ''qe-strategy-config'', ld_env = ''production'', ld_parse = \<lambda>s. None\<rparr>"

definition demo_promotion :: "table_event list" where
  "demo_promotion = [Operator (SetConfig ''nse_orb_15m'' ''production'' ''ops'' ''t'' \<lparr>ch_enabled = Some False, ch_paper_trade = Some False,
     ch_max_signals_per_day = None, ch_cb_consecutive = None, ch_cb_rate = None\<rparr>), Refresh ''t'',
     Dispatch (BarEvent (400, 5) (''s1'', 0) (tcs_bar 13500))]"

theorem operator_commands_unseen_witness:
  "rn_config (fst (snd (run_table demo_loader ''nse_orb_15m'' (orb_strategy nse_orb [''TCS'']) demo_promotion
     (new_runner new_orb CANDLE (Some default_strategy_config) 5, [])))) \<in> {default_strategy_config, unconfigured}"
  by (rule operator_commands_unseen)
    (simp_all add: demo_loader_def demo_promotion_def mem_dynamo_ok mem_dynamo_values, simp add: mem_simps)


end
