(* ===== verification/CandleStream.thy ===== *)
theory CandleStream
  imports StrategyBase Dynamo MarketPhases
begin

text \<open>
  \<open>services/data_ingestion/candle_stream.py\<close>: the queues of instruments, the fetch of their candles and the rows of
  the candle cache.  Instants are numbers of UTC seconds; ISO strings, number formats and the hash are parameters.
\<close>

section \<open>Candles\<close>

record candle_data =
  ca_market :: str
  ca_instrument :: str
  ca_interval :: str
  ca_dt :: rat
  ca_open :: rat
  ca_high :: rat
  ca_low :: rat
  ca_close :: rat
  ca_volume :: int
  ca_quality :: str

record candle_codec =
  cc_iso_format :: "rat \<Rightarrow> str"
  cc_iso_parse :: "str \<Rightarrow> rat option"
  cc_float :: "str \<Rightarrow> rat option"
  cc_int :: "str \<Rightarrow> int option"
  cc_str :: "rat \<Rightarrow> str"
  cc_sha256 :: "str \<Rightarrow> str"

text \<open>A candle as the broker's client returns it; a missing number is 0, a value that is none raises.\<close>

record raw_candle =
  rw_date :: "rat option"
  rw_open :: "json option"
  rw_high :: "json option"
  rw_low :: "json option"
  rw_close :: "json option"
  rw_volume :: "json option"

fun py_float :: "candle_codec \<Rightarrow> json option \<Rightarrow> rat option" where
  "py_float k None = Some 0"
| "py_float k (Some (JNum x)) = Some x"
| "py_float k (Some (JBool v)) = Some (if v then 1 else 0)"
| "py_float k (Some (JStr s)) = cc_float k s"
| "py_float k (Some v) = None"

fun py_whole :: "candle_codec \<Rightarrow> json option \<Rightarrow> int option" where
  "py_whole k None = Some 0"
| "py_whole k (Some (JNum x)) = Some (py_int x)"
| "py_whole k (Some (JBool v)) = Some (if v then 1 else 0)"
| "py_whole k (Some (JStr s)) = cc_int k s"
| "py_whole k (Some v) = None"

section \<open>State\<close>

definition CANDLE_LOOKBACK_MINUTES :: rat where "CANDLE_LOOKBACK_MINUTES = 5"
definition CANDLE_TTL_SECONDS :: int where "CANDLE_TTL_SECONDS = 7200"
definition CANDLE_CACHE_BUCKET :: str where "CANDLE_CACHE_BUCKET = ''ACTIVE''"
definition CANDLE_TTL_ATTRIBUTE :: str where "CANDLE_TTL_ATTRIBUTE = ''expires_at''"
definition FEATURE_HISTORY_SIZE :: nat where "FEATURE_HISTORY_SIZE = 40"

definition ACTIVE_PHASES :: "market_phase set" where
  "ACTIVE_PHASES = {PRE_OPEN, PRE_AUCTION, MARKET_OPEN, NORMAL_SESSION, PRE_CLOSE, CLOSING}"

text \<open>The broker's history, the table, the callback and the features are functions on the world.\<close>

record 'w stream_config =
  sk_codec :: candle_codec
  sk_tokens :: "(str \<times> int) list"
  sk_interval :: str
  sk_intervals :: "str list"
  sk_history :: "int \<Rightarrow> rat \<Rightarrow> rat \<Rightarrow> str \<Rightarrow> 'w \<Rightarrow> raw_candle list res \<times> 'w"
  sk_put_item :: "(item \<Rightarrow> 'w \<Rightarrow> unit res \<times> 'w) option"
  sk_on_candle :: "(candle_data \<Rightarrow> 'w \<Rightarrow> unit res \<times> 'w) option"
  sk_features :: "(str \<Rightarrow> candle_data list \<Rightarrow> 'w \<Rightarrow> 'w) option"

record candle_stream =
  cs_phase :: market_phase
  cs_consecutive_errors :: nat
  cs_candle_history :: "str \<Rightarrow> candle_data list option"
  cs_standard_queue :: "(str \<times> str) list"
  cs_priority_instruments :: "str list"
  cs_priority_queue :: "(str \<times> str) list"
  cs_last_candle_dt :: "str \<Rightarrow> str option"
  cs_warm_until :: "rat option"

definition pairs :: "str list \<Rightarrow> str list \<Rightarrow> (str \<times> str) list" where
  "pairs instruments intervals = concat (map (\<lambda>i. map (Pair i) intervals) instruments)"

definition interval_alias :: "str \<Rightarrow> str option" where
  "interval_alias = map_of [(''1m'', ''minute''), (''1min'', ''minute''), (''5m'', ''5minute''), (''5min'', ''5minute''),
     (''15m'', ''15minute''), (''15min'', ''15minute'')]"

text \<open>\<open>_normalise_intervals\<close>\<close>

definition normalise_intervals :: "str list \<Rightarrow> str list" where
  "normalise_intervals intervals =
    (let result = foldl (\<lambda>result raw.
           let interval = opt_default (py_strip raw) (interval_alias (py_lower (py_strip raw)))
           in if interval \<noteq> [] \<and> interval \<notin> set result then result @ [interval] else result) [] intervals
     in if result = [] then [''minute''] else result)"

definition new_candle_stream :: "'w stream_config \<Rightarrow> candle_stream" where
  "new_candle_stream K =
    \<lparr>cs_phase = POST_CLOSE, cs_consecutive_errors = 0, cs_candle_history = Map.empty,
     cs_standard_queue = pairs (map fst (sk_tokens K)) (sk_intervals K), cs_priority_instruments = [], cs_priority_queue = [],
     cs_last_candle_dt = Map.empty, cs_warm_until = None\<rparr>"

section \<open>Phases and warm-up\<close>

definition notify_reconnect :: "rat \<Rightarrow> rat \<Rightarrow> candle_stream \<Rightarrow> candle_stream" where
  "notify_reconnect now warmup_seconds s = s\<lparr>cs_warm_until := Some (now + warmup_seconds)\<rparr>"

definition current_data_quality :: "rat \<Rightarrow> candle_stream \<Rightarrow> str \<times> candle_stream" where
  "current_data_quality now s =
    (case cs_warm_until s of
       None \<Rightarrow> (''NORMAL'', s)
     | Some t \<Rightarrow> if now < t then (''WARMING_UP'', s) else (''NORMAL'', s\<lparr>cs_warm_until := None\<rparr>))"

definition stream_phase_change :: "str \<Rightarrow> candle_stream \<Rightarrow> candle_stream" where
  "stream_phase_change phase_name s =
    (case market_phase_of phase_name of None \<Rightarrow> s | Some p \<Rightarrow> s\<lparr>cs_phase := p\<rparr>)"

section \<open>Queues\<close>

text \<open>The set of instruments is a list in the order its iteration has.\<close>

definition set_priority_instruments :: "'w stream_config \<Rightarrow> str list \<Rightarrow> candle_stream \<Rightarrow> candle_stream" where
  "set_priority_instruments K instruments s =
    (let known = filter (\<lambda>i. i \<in> fst ` set (sk_tokens K)) instruments
     in s\<lparr>cs_priority_instruments := known, cs_priority_queue := pairs known (sk_intervals K)\<rparr>)"

definition next_instrument_interval :: "'w stream_config \<Rightarrow> candle_stream \<Rightarrow> (str \<times> str) option \<times> candle_stream" where
  "next_instrument_interval K s =
    (case cs_priority_queue s of
       it # rest \<Rightarrow>
         (Some it, s\<lparr>cs_priority_queue :=
            (if rest = [] \<and> cs_priority_instruments s \<noteq> [] then pairs (cs_priority_instruments s) (sk_intervals K) else rest)\<rparr>)
     | [] \<Rightarrow>
        (case cs_standard_queue s of
           it # rest \<Rightarrow> (Some it, s\<lparr>cs_standard_queue := rest @ [it]\<rparr>)
         | [] \<Rightarrow> (None, s)))"

section \<open>Fetching\<close>

definition split_exchange :: "str \<Rightarrow> (str \<times> str) option" where
  "split_exchange s = (if CHR '':'' \<in> set s then Some (takeWhile (\<lambda>c. c \<noteq> CHR '':'') s, tl (dropWhile (\<lambda>c. c \<noteq> CHR '':'') s)) else None)"

text \<open>
  \<open>_parse_candle\<close>: any error gives no candle; a candle without a date is built, and its date is \<open>None\<close>.
\<close>

definition parse_candle :: "candle_codec \<Rightarrow> str \<Rightarrow> raw_candle \<Rightarrow> str \<Rightarrow> str \<Rightarrow> (rat option \<times> candle_data) option" where
  "parse_candle k instrument_key raw interval quality =
    (let (exchange, symbol) = opt_default (''NSE'', instrument_key) (split_exchange instrument_key);
         market = (if exchange \<in> {''NSE'', ''BSE'', ''NFO'', ''BFO''} then ''NSE'' else ''US'')
     in case (py_float k (rw_open raw), py_float k (rw_high raw), py_float k (rw_low raw), py_float k (rw_close raw), py_whole k (rw_volume raw)) of
          (Some op, Some hi, Some lo, Some cl, Some vol) \<Rightarrow>
            Some (rw_date raw, \<lparr>ca_market = market, ca_instrument = symbol, ca_interval = interval, ca_dt = opt_default 0 (rw_date raw),
              ca_open = op, ca_high = hi, ca_low = lo, ca_close = cl, ca_volume = vol, ca_quality = quality\<rparr>)
        | _ \<Rightarrow> None)"

definition candle_pk :: "candle_codec \<Rightarrow> candle_data \<Rightarrow> str" where
  "candle_pk k c = ca_market c @ ''#'' @ ca_instrument c @ ''#'' @ ca_interval c @ ''#'' @ cc_iso_format k (ca_dt c)"

text \<open>The row that \<open>_write_candle\<close> puts.\<close>

definition candle_item :: "candle_codec \<Rightarrow> rat \<Rightarrow> candle_data \<Rightarrow> item" where
  "candle_item k now c =
    [''PK'' \<mapsto> S (candle_pk k c), ''cache_bucket'' \<mapsto> S CANDLE_CACHE_BUCKET, ''market'' \<mapsto> S (ca_market c),
     ''instrument'' \<mapsto> S (ca_instrument c), ''interval'' \<mapsto> S (ca_interval c), ''candle_open_time'' \<mapsto> S (cc_iso_format k (ca_dt c)),
     ''open'' \<mapsto> N (ca_open c), ''high'' \<mapsto> N (ca_high c), ''low'' \<mapsto> N (ca_low c), ''close'' \<mapsto> N (ca_close c),
     ''volume'' \<mapsto> N (of_int (ca_volume c)), ''data_quality'' \<mapsto> S (ca_quality c), ''captured_at'' \<mapsto> S (cc_iso_format k now),
     CANDLE_TTL_ATTRIBUTE \<mapsto> N (of_int (\<lfloor>now\<rfloor> + CANDLE_TTL_SECONDS))]"

definition write_candle :: "'w stream_config \<Rightarrow> rat \<Rightarrow> candle_data \<Rightarrow> 'w \<Rightarrow> 'w" where
  "write_candle K now c w =
    (case sk_put_item K of None \<Rightarrow> w | Some put \<Rightarrow> snd (put (candle_item (sk_codec K) now c) w))"

definition update_candle_history :: "str \<Rightarrow> candle_data \<Rightarrow> candle_stream \<Rightarrow> candle_stream" where
  "update_candle_history instrument c s =
    (let key = instrument @ ''|'' @ ca_interval c
     in s\<lparr>cs_candle_history := (cs_candle_history s)
          (key \<mapsto> push FEATURE_HISTORY_SIZE (opt_default [] (cs_candle_history s key)) c)\<rparr>)"

definition maybe_compute_features :: "'w stream_config \<Rightarrow> str \<Rightarrow> str \<Rightarrow> candle_stream \<Rightarrow> 'w \<Rightarrow> 'w" where
  "maybe_compute_features K instrument interval s w =
    (case sk_features K of
       None \<Rightarrow> w
     | Some f \<Rightarrow>
        if interval \<noteq> ''minute'' then w
        else (case opt_default [] (cs_candle_history s (instrument @ ''|'' @ interval)) of
                [] \<Rightarrow> w
              | history \<Rightarrow> f instrument history w))"

text \<open>One candle of a response; \<open>AttributeError\<close> is \<open>None.isoformat()\<close>.\<close>

definition fetch_one :: "'w stream_config \<Rightarrow> rat \<Rightarrow> str \<Rightarrow> str \<Rightarrow> raw_candle \<Rightarrow> candle_stream \<times> 'w \<Rightarrow> unit res \<times> candle_stream \<times> 'w" where
  "fetch_one K now instrument interval raw sw =
    (case sw of (s, w) \<Rightarrow>
      (case current_data_quality now s of (quality, s) \<Rightarrow>
        (case parse_candle (sk_codec K) instrument raw interval quality of
           None \<Rightarrow> (Inr (), s, w)
         | Some (None, c) \<Rightarrow> (Inl AttributeError, s, w)
         | Some (Some dt, c) \<Rightarrow>
            (let dt_iso = cc_iso_format (sk_codec K) dt; last_key = instrument @ ''|'' @ interval
             in if cs_last_candle_dt s last_key = Some dt_iso then (Inr (), s, w)
                else
                  (let s = s\<lparr>cs_last_candle_dt := (cs_last_candle_dt s)(last_key \<mapsto> dt_iso)\<rparr>;
                       w = write_candle K now c w;
                       w = (case sk_on_candle K of None \<Rightarrow> w | Some f \<Rightarrow> snd (f c w));
                       s = update_candle_history instrument c s
                   in (Inr (), s, maybe_compute_features K instrument interval s w))))))"

fun fetch_each :: "'w stream_config \<Rightarrow> rat \<Rightarrow> str \<Rightarrow> str \<Rightarrow> raw_candle list \<Rightarrow> candle_stream \<times> 'w \<Rightarrow> unit res \<times> candle_stream \<times> 'w" where
  "fetch_each K now instrument interval [] sw = (Inr (), sw)"
| "fetch_each K now instrument interval (raw # raws) sw =
    (case fetch_one K now instrument interval raw sw of
       (Inl e, sw) \<Rightarrow> (Inl e, sw)
     | (Inr _, sw) \<Rightarrow> fetch_each K now instrument interval raws sw)"

definition fetch_candles :: "'w stream_config \<Rightarrow> rat \<Rightarrow> str \<Rightarrow> str \<Rightarrow> candle_stream \<times> 'w \<Rightarrow> unit res \<times> candle_stream \<times> 'w" where
  "fetch_candles K now instrument interval sw =
    (case sw of (s, w) \<Rightarrow>
      (case map_of (sk_tokens K) instrument of
         None \<Rightarrow> (Inr (), s, w)
       | Some token \<Rightarrow>
          (case sk_history K token (now - (CANDLE_LOOKBACK_MINUTES + 2) * 60) now interval w of
             (Inl e, w) \<Rightarrow> (Inl e, s, w)
           | (Inr raws, w) \<Rightarrow> fetch_each K now instrument interval raws (s, w))))"

text \<open>One iteration of \<open>_stream_loop\<close>; the sleeps have no effect on the state.\<close>

definition stream_iteration :: "'w stream_config \<Rightarrow> rat \<Rightarrow> candle_stream \<times> 'w \<Rightarrow> candle_stream \<times> 'w" where
  "stream_iteration K now sw =
    (case sw of (s, w) \<Rightarrow>
      if cs_phase s \<notin> ACTIVE_PHASES then (s, w)
      else
        (case next_instrument_interval K s of
           (None, s) \<Rightarrow> (s, w)
         | (Some (instrument, interval), s) \<Rightarrow>
            (case fetch_candles K now instrument interval (s, w) of
               (Inr _, s, w) \<Rightarrow> (s\<lparr>cs_consecutive_errors := 0\<rparr>, w)
             | (Inl e, s, w) \<Rightarrow> (s\<lparr>cs_consecutive_errors := cs_consecutive_errors s + 1\<rparr>, w))))"

section \<open>Which instruments are fetched\<close>

fun next_items :: "nat \<Rightarrow> 'w stream_config \<Rightarrow> candle_stream \<Rightarrow> (str \<times> str) list \<times> candle_stream" where
  "next_items 0 K s = ([], s)"
| "next_items (Suc n) K s =
    (case next_instrument_interval K s of
       (None, s) \<Rightarrow> next_items n K s
     | (Some it, s) \<Rightarrow> (case next_items n K s of (its, s) \<Rightarrow> (it # its, s)))"

lemma next_items_round:
  assumes "cs_priority_queue s = []" "cs_standard_queue s = xs @ ys"
  shows "next_items (length xs) K s = (xs, s\<lparr>cs_standard_queue := ys @ xs\<rparr>)"
  using assms
proof (induction xs arbitrary: s ys)
  case (Cons x xs)
  let ?t = "s\<lparr>cs_standard_queue := xs @ ys @ [x]\<rparr>"
  have "next_instrument_interval K s = (Some x, ?t)"
    using Cons.prems by (simp add: next_instrument_interval_def)
  moreover have "next_items (length xs) K ?t = (xs, ?t\<lparr>cs_standard_queue := (ys @ [x]) @ xs\<rparr>)"
    by (rule Cons.IH) (simp_all add: Cons.prems)
  ultimately show ?case by simp
qed simp

lemma pairs_Nil_iff: "pairs is vs = [] \<longleftrightarrow> is = [] \<or> vs = []"
  by (cases "is") (auto simp: pairs_def)

lemma pairs_fst: "it \<in> set (pairs is vs) \<Longrightarrow> fst it \<in> set is"
  by (auto simp: pairs_def)

definition only_priority :: "'w stream_config \<Rightarrow> str list \<Rightarrow> candle_stream \<Rightarrow> bool" where
  "only_priority K is s \<longleftrightarrow> cs_priority_instruments s = is \<and> cs_priority_queue s \<noteq> [] \<and> fst ` set (cs_priority_queue s) \<subseteq> set is"

lemma only_priority_next:
  assumes "only_priority K is s" "sk_intervals K \<noteq> []"
  obtains it t where "next_instrument_interval K s = (Some it, t)" "fst it \<in> set is" "only_priority K is t"
proof -
  obtain it rest where q: "cs_priority_queue s = it # rest"
    using assms(1) by (cases "cs_priority_queue s") (auto simp: only_priority_def)
  have "is \<noteq> []"
    using assms(1) q by (auto simp: only_priority_def)
  let ?q = "if rest = [] then pairs is (sk_intervals K) else rest"
  have "next_instrument_interval K s = (Some it, s\<lparr>cs_priority_queue := ?q\<rparr>)"
    using assms(1) q \<open>is \<noteq> []\<close> by (simp add: next_instrument_interval_def only_priority_def)
  moreover have "?q \<noteq> []" "fst ` set ?q \<subseteq> set is"
    using assms q \<open>is \<noteq> []\<close> by (auto simp: only_priority_def pairs_Nil_iff dest: pairs_fst)
  ultimately show ?thesis
    using that assms(1) q by (simp add: only_priority_def)
qed

lemma only_priority_items:
  assumes "only_priority K is s" "sk_intervals K \<noteq> []"
  shows "fst ` set (fst (next_items n K s)) \<subseteq> set is \<and> length (fst (next_items n K s)) = n"
  using assms(1)
proof (induction n arbitrary: s)
  case (Suc n)
  obtain it t where t: "next_instrument_interval K s = (Some it, t)" "fst it \<in> set is" "only_priority K is t"
    by (rule only_priority_next [OF Suc.prems assms(2)])
  obtain its u where u: "next_items n K t = (its, u)" by fastforce
  show ?case using Suc.IH [OF t(3)] t(1,2) u by simp
qed simp

text \<open>
  Without priority instruments the queue is fair: in as many picks as it has pairs of an instrument and an interval,
  every pair is fetched, in order, and the stream is back where it was.
\<close>

theorem round_robin_fair:
  assumes "cs_priority_queue s = []"
  shows "next_items (length (cs_standard_queue s)) K s = (cs_standard_queue s, s)"
  using next_items_round [of s "cs_standard_queue s" "[]" K] assms by simp

text \<open>
  As soon as one known instrument has priority, no other instrument is ever picked again, although the stream
  documents a share of a third for them.
\<close>

theorem priority_starves_the_rest:
  assumes "i \<in> set instruments" "i \<in> fst ` set (sk_tokens K)" "sk_intervals K \<noteq> []"
  shows "fst ` set (fst (next_items n K (set_priority_instruments K instruments s))) \<subseteq> set instruments"
proof -
  let ?known = "filter (\<lambda>i. i \<in> fst ` set (sk_tokens K)) instruments"
  have "?known \<noteq> []"
    using assms(1,2) by (auto simp: filter_empty_conv)
  then have "only_priority K ?known (set_priority_instruments K instruments s)"
    using assms(3) pairs_Nil_iff pairs_fst by (fastforce simp: only_priority_def set_priority_instruments_def Let_def)
  from only_priority_items [OF this assms(3), of n] show ?thesis by auto
qed

section \<open>Fetching the same candles again\<close>

definition whole_raw :: "candle_codec \<Rightarrow> raw_candle \<Rightarrow> bool" where
  "whole_raw k raw \<longleftrightarrow>
    rw_date raw \<noteq> None \<and> py_float k (rw_open raw) \<noteq> None \<and> py_float k (rw_high raw) \<noteq> None \<and> py_float k (rw_low raw) \<noteq> None \<and>
    py_float k (rw_close raw) \<noteq> None \<and> py_whole k (rw_volume raw) \<noteq> None"

definition raw_iso :: "candle_codec \<Rightarrow> raw_candle \<Rightarrow> str" where
  "raw_iso k raw = cc_iso_format k (opt_default 0 (rw_date raw))"

text \<open>A table that only remembers what is put, and nothing else that listens.\<close>

definition writes_only :: "item list stream_config \<Rightarrow> bool" where
  "writes_only K \<longleftrightarrow> sk_put_item K = Some (\<lambda>i w. (Inr (), w @ [i])) \<and> sk_on_candle K = None \<and> sk_features K = None"

lemma parse_whole:
  assumes "whole_raw k raw"
  shows "\<exists>dt c. rw_date raw = Some dt \<and> parse_candle k ins raw iv q = Some (Some dt, c)"
  using assms unfolding whole_raw_def parse_candle_def by (auto simp: Let_def split: prod.splits)

lemma fetch_one_new:
  assumes "writes_only K" "whole_raw (sk_codec K) raw" "cs_last_candle_dt s (ins @ ''|'' @ iv) \<noteq> Some (raw_iso (sk_codec K) raw)"
  shows "\<exists>t i. fetch_one K now ins iv raw (s, w) = (Inr (), t, w @ [i]) \<and>
    cs_last_candle_dt t (ins @ ''|'' @ iv) = Some (raw_iso (sk_codec K) raw)"
proof -
  obtain q s1 where q: "current_data_quality now s = (q, s1)" by fastforce
  then have s1: "cs_last_candle_dt s1 = cs_last_candle_dt s"
    by (auto simp: current_data_quality_def split: option.splits if_splits)
  obtain dt c where c: "rw_date raw = Some dt" "parse_candle (sk_codec K) ins raw iv q = Some (Some dt, c)"
    using parse_whole [OF assms(2)] by blast
  let ?t = "update_candle_history ins c (s1\<lparr>cs_last_candle_dt := (cs_last_candle_dt s1)(ins @ ''|'' @ iv \<mapsto> raw_iso (sk_codec K) raw)\<rparr>)"
  have "fetch_one K now ins iv raw (s, w) = (Inr (), ?t, w @ [candle_item (sk_codec K) now c])"
    using assms(1,3) s1 q c by (simp add: fetch_one_def raw_iso_def writes_only_def write_candle_def maybe_compute_features_def Let_def)
  moreover have "cs_last_candle_dt ?t (ins @ ''|'' @ iv) = Some (raw_iso (sk_codec K) raw)"
    by (simp add: update_candle_history_def Let_def)
  ultimately show ?thesis by blast
qed

lemma fetch_each_new:
  assumes "writes_only K" "\<forall>raw \<in> set raws. whole_raw (sk_codec K) raw" "distinct_adj (map (raw_iso (sk_codec K)) raws)" "raws \<noteq> []"
    and "cs_last_candle_dt s (ins @ ''|'' @ iv) \<noteq> Some (raw_iso (sk_codec K) (hd raws))"
  shows "\<exists>t items. fetch_each K now ins iv raws (s, w) = (Inr (), t, w @ items) \<and> length items = length raws \<and>
    cs_last_candle_dt t (ins @ ''|'' @ iv) = Some (raw_iso (sk_codec K) (last raws))"
  using assms(2-)
proof (induction raws arbitrary: s w)
  case (Cons raw raws)
  obtain t i where t: "fetch_one K now ins iv raw (s, w) = (Inr (), t, w @ [i])"
      "cs_last_candle_dt t (ins @ ''|'' @ iv) = Some (raw_iso (sk_codec K) raw)"
    using fetch_one_new [OF assms(1), of raw s ins iv now w] Cons.prems by auto
  show ?case
  proof (cases raws)
    case (Cons raw2 rest)
    have "\<exists>u items. fetch_each K now ins iv raws (t, w @ [i]) = (Inr (), u, (w @ [i]) @ items) \<and> length items = length raws \<and>
        cs_last_candle_dt u (ins @ ''|'' @ iv) = Some (raw_iso (sk_codec K) (last raws))"
      by (rule Cons.IH) (use Cons.prems t(2) Cons in auto)
    then obtain u items where "fetch_each K now ins iv raws (t, w @ [i]) = (Inr (), u, w @ i # items)" "length items = length raws"
        "cs_last_candle_dt u (ins @ ''|'' @ iv) = Some (raw_iso (sk_codec K) (last raws))" by auto
    then show ?thesis using t(1) Cons by (intro exI [of _ u] exI [of _ "i # items"]) simp
  qed (use t in \<open>auto intro!: exI [of _ t] exI [of _ "[i]"]\<close>)
qed simp

lemma distinct_adjacent: "distinct xs \<Longrightarrow> distinct_adj xs"
  by (induction xs rule: induct_list012) auto

text \<open>
  Only the last candle of a response is remembered as processed.  When the same candles are fetched again, and they
  are more than one, every one of them is written again, on top of the row it already has, and enters the feature
  history a second time.
\<close>

theorem refetched_candles_rewritten:
  assumes "writes_only K" "map_of (sk_tokens K) ins = Some token"
    and "sk_history K = (\<lambda>token from_dt to_dt iv w. (Inr raws, w))"
    and "\<forall>raw \<in> set raws. whole_raw (sk_codec K) raw" "distinct (map (raw_iso (sk_codec K)) raws)" "2 \<le> length raws"
    and "cs_last_candle_dt s (ins @ ''|'' @ iv) = None"
    and "fetch_candles K now1 ins iv (s, []) = (r1, t1, w1)" "fetch_candles K now2 ins iv (t1, w1) = (r2, t2, w2)"
  shows "length w1 = length raws \<and> length w2 = 2 * length raws"
proof -
  have raws: "raws \<noteq> []" "distinct_adj (map (raw_iso (sk_codec K)) raws)"
    using assms(5,6) distinct_adjacent by auto
  have run1: "fetch_each K now1 ins iv raws (s, []) = (r1, t1, w1)" and run2: "fetch_each K now2 ins iv raws (t1, w1) = (r2, t2, w2)"
    using assms(2,3,8,9) by (simp_all add: fetch_candles_def)
  have first: "length w1 = length raws" "cs_last_candle_dt t1 (ins @ ''|'' @ iv) = Some (raw_iso (sk_codec K) (last raws))"
    using fetch_each_new [OF assms(1,4) raws(2,1), of s ins iv now1 "[]"] run1 assms(7) by auto
  have "raw_iso (sk_codec K) (hd raws) \<noteq> raw_iso (sk_codec K) (last raws)"
    using assms(5,6) by (cases raws) (auto simp: image_iff dest: last_in_set)
  then show ?thesis
    using fetch_each_new [OF assms(1,4) raws(2,1), of t1 ins iv now2 w1] run2 first by auto
qed

definition two_candles :: "raw_candle list" where
  "two_candles = map (\<lambda>t. \<lparr>rw_date = Some t, rw_open = Some (JNum 100), rw_high = Some (JNum 102), rw_low = Some (JNum 99),
     rw_close = Some (JNum 101), rw_volume = Some (JNum 500)\<rparr>) [0, 60]"

definition tcs_stream :: "item list stream_config" where
  "tcs_stream = \<lparr>sk_codec = \<lparr>cc_iso_format = (\<lambda>t. if t < 60 then ''a'' else ''b''), cc_iso_parse = (\<lambda>s. None), cc_float = (\<lambda>s. None),
       cc_int = (\<lambda>s. None), cc_str = (\<lambda>x. ''0''), cc_sha256 = (\<lambda>s. s)\<rparr>,
     sk_tokens = [(''NSE:TCS'', 1), (''NSE:INFY'', 2)], sk_interval = ''minute'', sk_intervals = [''minute''],
     sk_history = (\<lambda>token from_dt to_dt iv w. (Inr two_candles, w)), sk_put_item = Some (\<lambda>i w. (Inr (), w @ [i])),
     sk_on_candle = None, sk_features = None\<rparr>"

theorem refetched_candles_rewritten_witness:
  "\<exists>r1 t1 w1 r2 t2 w2. fetch_candles tcs_stream 120 ''NSE:TCS'' ''minute'' (new_candle_stream tcs_stream, []) = (r1, t1, w1) \<and>
    fetch_candles tcs_stream 180 ''NSE:TCS'' ''minute'' (t1, w1) = (r2, t2, w2) \<and> length w1 = 2 \<and> length w2 = 4"
proof -
  obtain r1 t1 w1 where run1: "fetch_candles tcs_stream 120 ''NSE:TCS'' ''minute'' (new_candle_stream tcs_stream, []) = (r1, t1, w1)"
    by (metis prod_cases3)
  obtain r2 t2 w2 where run2: "fetch_candles tcs_stream 180 ''NSE:TCS'' ''minute'' (t1, w1) = (r2, t2, w2)"
    by (metis prod_cases3)
  have "length w1 = length two_candles \<and> length w2 = 2 * length two_candles"
    by (rule refetched_candles_rewritten [OF _ _ _ _ _ _ _ run1 run2, of 1])
      (simp_all add: tcs_stream_def two_candles_def writes_only_def whole_raw_def raw_iso_def new_candle_stream_def)
  with run1 run2 show ?thesis by (auto simp: two_candles_def)
qed

theorem round_robin_fair_witness:
  "next_items 2 tcs_stream (new_candle_stream tcs_stream) =
    ([(''NSE:TCS'', ''minute''), (''NSE:INFY'', ''minute'')], new_candle_stream tcs_stream)"
  using round_robin_fair [of "new_candle_stream tcs_stream" tcs_stream]
  by (simp add: new_candle_stream_def tcs_stream_def pairs_def numeral_2_eq_2)

theorem priority_starves_the_rest_witness:
  "fst ` set (fst (next_items 100 tcs_stream (set_priority_instruments tcs_stream [''NSE:TCS''] (new_candle_stream tcs_stream)))) \<subseteq> {''NSE:TCS''}"
  using priority_starves_the_rest [of "''NSE:TCS''" "[''NSE:TCS'']" tcs_stream 100 "new_candle_stream tcs_stream"]
  by (simp add: tcs_stream_def)

end
