(* ===== verification/CandleConsumer.thy ===== *)
theory CandleConsumer
  imports CandleStream "HOL-Library.Countable"
begin

text \<open>
  \<open>services/strategy_engine/consumers/dynamo_candle_consumer.py\<close>: the poll of the candle cache, with its lookback
  window and its set of keys already handed out.
\<close>

section \<open>Rows\<close>

definition INTERVAL_MINUTES :: "str \<Rightarrow> int option" where
  "INTERVAL_MINUTES = map_of [(''minute'', 1), (''1min'', 1), (''3minute'', 3), (''5minute'', 5), (''5min'', 5), (''10minute'', 10),
     (''15minute'', 15), (''15min'', 15), (''30minute'', 30), (''60minute'', 60), (''1h'', 60), (''day'', 1440), (''1d'', 1440)]"

definition PAUSED_PHASES :: "market_phase set" where
  "PAUSED_PHASES = {POST_CLOSE}"

record candle_result =
  cr_market :: str
  cr_symbol :: str
  cr_interval :: str
  cr_open_time :: rat
  cr_close_time :: rat
  cr_open :: rat
  cr_high :: rat
  cr_low :: rat
  cr_close :: rat
  cr_volume :: int
  cr_trace_id :: str
  cr_data_quality :: str

definition make_candle_trace_id :: "candle_codec \<Rightarrow> str \<Rightarrow> str \<Rightarrow> str \<Rightarrow> rat \<Rightarrow> str" where
  "make_candle_trace_id k market symbol interval t =
    take 32 (cc_sha256 k (''candle|'' @ market @ ''|'' @ symbol @ ''|'' @ interval @ ''|'' @ cc_iso_format k t))"

definition dedup_key :: "candle_codec \<Rightarrow> candle_result \<Rightarrow> str" where
  "dedup_key k c = cr_market c @ ''#'' @ cr_symbol c @ ''#'' @ cr_interval c @ ''#'' @ cc_iso_format k (cr_open_time c)"

definition quality_of :: "str \<Rightarrow> data_quality" where
  "quality_of s =
    (if s = ''WARMING_UP'' then WARMING_UP else if s = ''GAP'' then GAP else if s = ''STALE'' then STALE else NORMAL_QUALITY)"

definition to_bar :: "candle_result \<Rightarrow> bar" where
  "to_bar c =
    \<lparr>ba_symbol = cr_symbol c, ba_market = cr_market c, ba_open = cr_open c, ba_high = cr_high c, ba_low = cr_low c,
     ba_close = cr_close c, ba_volume = cr_volume c, ba_timestamp = cr_close_time c, ba_interval = cr_interval c,
     ba_data_quality = quality_of (cr_data_quality c)\<rparr>"

text \<open>\<open>str(x)\<close>, \<open>float(x)\<close> and \<open>int(x)\<close> of an attribute that the table resource returns.\<close>

fun attr_str :: "candle_codec \<Rightarrow> attr \<Rightarrow> str" where
  "attr_str k (S s) = s"
| "attr_str k (N x) = cc_str k x"
| "attr_str k (BOOL v) = (if v then ''True'' else ''False'')"

fun attr_float :: "candle_codec \<Rightarrow> attr \<Rightarrow> rat option" where
  "attr_float k (S s) = cc_float k s"
| "attr_float k (N x) = Some x"
| "attr_float k (BOOL v) = Some (if v then 1 else 0)"

fun attr_int :: "candle_codec \<Rightarrow> attr \<Rightarrow> int option" where
  "attr_int k (S s) = cc_int k s"
| "attr_int k (N x) = Some (py_int x)"
| "attr_int k (BOOL v) = Some (if v then 1 else 0)"

definition item_is_live :: "candle_codec \<Rightarrow> int \<Rightarrow> item \<Rightarrow> bool" where
  "item_is_live k now_epoch i =
    (case i CANDLE_TTL_ATTRIBUTE of
       None \<Rightarrow> False
     | Some a \<Rightarrow> (case attr_float k a of None \<Rightarrow> False | Some x \<Rightarrow> now_epoch < py_int x))"

text \<open>
  \<open>_parse_item\<close>: a missing or malformed field gives \<open>None\<close>.  An open time that is not a string has no \<open>tzinfo\<close>;
  that \<open>AttributeError\<close> is not among the errors caught.  A time without an offset is read as UTC by the parser.
\<close>

definition parse_item :: "candle_codec \<Rightarrow> item \<Rightarrow> candle_result option res" where
  "parse_item k i =
    (case (i ''market'', i ''instrument'', i ''interval'', i ''candle_open_time'') of
       (Some m, Some sy, Some iv, Some (S t)) \<Rightarrow>
         (case cc_iso_parse k t of
            None \<Rightarrow> Inr None
          | Some open_time \<Rightarrow>
              (let market = attr_str k m; symbol = attr_str k sy; interval = attr_str k iv
               in case (i ''open'', i ''high'', i ''low'', i ''close'', i ''volume'') of
                    (Some op, Some hi, Some lo, Some cl, Some vol) \<Rightarrow>
                      (case (attr_float k op, attr_float k hi, attr_float k lo, attr_float k cl, attr_int k vol) of
                         (Some op, Some hi, Some lo, Some cl, Some vol) \<Rightarrow>
                           Inr (Some \<lparr>cr_market = market, cr_symbol = symbol, cr_interval = interval, cr_open_time = open_time,
                             cr_close_time = open_time + of_int (opt_default 1 (INTERVAL_MINUTES interval)) * 60,
                             cr_open = op, cr_high = hi, cr_low = lo, cr_close = cl, cr_volume = vol,
                             cr_trace_id = make_candle_trace_id k market symbol interval open_time,
                             cr_data_quality = (case i ''data_quality'' of None \<Rightarrow> ''NORMAL'' | Some a \<Rightarrow> attr_str k a)\<rparr>)
                       | _ \<Rightarrow> Inr None)
                  | _ \<Rightarrow> Inr None))
     | (Some m, Some sy, Some iv, Some a) \<Rightarrow> Inl AttributeError
     | _ \<Rightarrow> Inr None)"

section \<open>Reading the cache\<close>

record 'w cache_client =
  cl_query :: "str \<Rightarrow> int \<Rightarrow> str option \<Rightarrow> 'w \<Rightarrow> (item list \<times> str option) res \<times> 'w"
  cl_scan :: "str \<Rightarrow> int \<Rightarrow> str option \<Rightarrow> 'w \<Rightarrow> (item list \<times> str option) res \<times> 'w"

fun read_pages :: "nat \<Rightarrow> (str option \<Rightarrow> 'w \<Rightarrow> (item list \<times> str option) res \<times> 'w) \<Rightarrow> item list \<Rightarrow> str option \<Rightarrow> 'w \<Rightarrow>
    (item list res \<times> 'w) option" where
  "read_pages 0 fetch items start w = None"
| "read_pages (Suc n) fetch items start w =
    (case fetch start w of
       (Inl e, w) \<Rightarrow> Some (Inl e, w)
     | (Inr (page, None), w) \<Rightarrow> Some (Inr (items @ page), w)
     | (Inr (page, Some k), w) \<Rightarrow> read_pages n fetch (items @ page) (Some k) w)"

definition query_candle_cache :: "nat \<Rightarrow> 'w cache_client \<Rightarrow> str \<Rightarrow> int \<Rightarrow> 'w \<Rightarrow> (item list res \<times> 'w) option" where
  "query_candle_cache fuel D cutoff_iso now_epoch w = read_pages fuel (cl_query D cutoff_iso now_epoch) [] None w"

definition scan_candle_cache :: "nat \<Rightarrow> 'w cache_client \<Rightarrow> str \<Rightarrow> int \<Rightarrow> 'w \<Rightarrow> (item list res \<times> 'w) option" where
  "scan_candle_cache fuel D cutoff_iso now_epoch w = read_pages fuel (cl_scan D cutoff_iso now_epoch) [] None w"

definition read_candle_cache :: "nat \<Rightarrow> 'w cache_client \<Rightarrow> str \<Rightarrow> int \<Rightarrow> 'w \<Rightarrow> (item list res \<times> 'w) option" where
  "read_candle_cache fuel D cutoff_iso now_epoch w =
    (case query_candle_cache fuel D cutoff_iso now_epoch w of
       None \<Rightarrow> None
     | Some (Inr items, w) \<Rightarrow> Some (Inr items, w)
     | Some (Inl e, w) \<Rightarrow> scan_candle_cache fuel D cutoff_iso now_epoch w)"

section \<open>The poll\<close>

record consumer_config =
  cf_codec :: candle_codec
  cf_lookback_minutes :: rat
  cf_startup_lookback :: rat

record candle_consumer =
  cn_startup_done :: bool
  cn_dedup :: "str \<Rightarrow> rat option"
  cn_last_evict :: rat

definition new_candle_consumer :: "rat \<Rightarrow> candle_consumer" where
  "new_candle_consumer mt = \<lparr>cn_startup_done = False, cn_dedup = Map.empty, cn_last_evict = mt\<rparr>"

definition DEDUP_EVICT_SECONDS :: rat where "DEDUP_EVICT_SECONDS = 300"

definition evict_dedup :: "rat \<Rightarrow> candle_consumer \<Rightarrow> candle_consumer" where
  "evict_dedup mt s =
    (if mt - cn_last_evict s < 30 then s
     else s\<lparr>cn_last_evict := mt,
            cn_dedup := (\<lambda>k. case cn_dedup s k of
                               None \<Rightarrow> None
                             | Some t \<Rightarrow> if t < mt - DEDUP_EVICT_SECONDS then None else Some t)\<rparr>)"

text \<open>The loop over the rows: the candles not handed out yet, or the error that ends the poll.\<close>

fun new_candles :: "candle_codec \<Rightarrow> rat \<Rightarrow> int \<Rightarrow> rat \<Rightarrow> item list \<Rightarrow> (str \<Rightarrow> rat option) \<Rightarrow> candle_result list res \<times> (str \<Rightarrow> rat option)" where
  "new_candles k cutoff now_epoch mt [] dedup = (Inr [], dedup)"
| "new_candles k cutoff now_epoch mt (i # items) dedup =
    (if \<not> item_is_live k now_epoch i then new_candles k cutoff now_epoch mt items dedup
     else
       (case parse_item k i of
          Inl e \<Rightarrow> (Inl e, dedup)
        | Inr None \<Rightarrow> new_candles k cutoff now_epoch mt items dedup
        | Inr (Some c) \<Rightarrow>
            if cr_open_time c < cutoff \<or> dedup (dedup_key k c) \<noteq> None then new_candles k cutoff now_epoch mt items dedup
            else
              (case new_candles k cutoff now_epoch mt items (dedup(dedup_key k c \<mapsto> mt)) of
                 (Inl e, dedup) \<Rightarrow> (Inl e, dedup)
               | (Inr cs, dedup) \<Rightarrow> (Inr (c # cs), dedup))))"

definition poll_new_candles ::
  "nat \<Rightarrow> 'w cache_client \<Rightarrow> consumer_config \<Rightarrow> market_phase option \<Rightarrow> rat \<Rightarrow> rat \<Rightarrow> candle_consumer \<times> 'w \<Rightarrow>
    (candle_result list res \<times> candle_consumer \<times> 'w) option" where
  "poll_new_candles fuel D C phase now mt sw =
    (case sw of (s, w) \<Rightarrow>
      if (case phase of None \<Rightarrow> False | Some p \<Rightarrow> p \<in> PAUSED_PHASES) then Some (Inr [], s, w)
      else
        (let lookback = (if cn_startup_done s then cf_lookback_minutes C else cf_startup_lookback C);
             cutoff = now - lookback * 60;
             s = evict_dedup mt (s\<lparr>cn_startup_done := True\<rparr>)
         in case read_candle_cache fuel D (cc_iso_format (cf_codec C) cutoff) \<lfloor>now\<rfloor> w of
              None \<Rightarrow> None
            | Some (Inl e, w) \<Rightarrow> Some (Inr [], s, w)
            | Some (Inr raw_items, w) \<Rightarrow>
                (case new_candles (cf_codec C) cutoff \<lfloor>now\<rfloor> mt raw_items (cn_dedup s) of
                   (r, dedup) \<Rightarrow> Some (r, s\<lparr>cn_dedup := dedup\<rparr>, w))))"

section \<open>Every candle once\<close>

definition proper_codec :: "candle_codec \<Rightarrow> bool" where
  "proper_codec k \<longleftrightarrow> (\<forall>x y. cc_iso_format k x = cc_iso_format k y \<longrightarrow> x = y) \<and> (\<forall>x. CHR ''#'' \<notin> set (cc_iso_format k x))"

lemma last_part:
  assumes "CHR ''#'' \<notin> set x"
  shows "rev (takeWhile (\<lambda>c. c \<noteq> CHR ''#'') (rev (a @ ''#'' @ x))) = x"
proof -
  have "takeWhile (\<lambda>c. c \<noteq> CHR ''#'') (rev x @ CHR ''#'' # rev a) = rev x @ takeWhile (\<lambda>c. c \<noteq> CHR ''#'') (CHR ''#'' # rev a)"
    using assms by (intro takeWhile_append2) auto
  then show ?thesis by simp
qed

lemma same_last_part:
  "a @ ''#'' @ x = b @ ''#'' @ y \<Longrightarrow> CHR ''#'' \<notin> set x \<Longrightarrow> CHR ''#'' \<notin> set y \<Longrightarrow> x = y"
  using last_part by metis

lemma dedup_key_open_time:
  assumes "proper_codec k" "dedup_key k c = dedup_key k d"
  shows "cr_open_time c = cr_open_time d"
proof -
  have "cc_iso_format k (cr_open_time c) = cc_iso_format k (cr_open_time d)"
    by (rule same_last_part [of "cr_market c @ ''#'' @ cr_symbol c @ ''#'' @ cr_interval c" _ "cr_market d @ ''#'' @ cr_symbol d @ ''#'' @ cr_interval d"])
      (use assms in \<open>simp_all add: dedup_key_def proper_codec_def\<close>)
  then show ?thesis using assms(1) by (simp add: proper_codec_def)
qed

lemma new_candles_cases:
  obtains
    (skip) "new_candles k cutoff e mt (i # items) dedup = new_candles k cutoff e mt items dedup"
  | (failed) x where "new_candles k cutoff e mt (i # items) dedup = (Inl x, dedup)"
  | (fresh) c where "parse_item k i = Inr (Some c)" "cutoff \<le> cr_open_time c" "dedup (dedup_key k c) = None"
      "new_candles k cutoff e mt (i # items) dedup =
        (case new_candles k cutoff e mt items (dedup(dedup_key k c \<mapsto> mt)) of
           (Inl e, dedup) \<Rightarrow> (Inl e, dedup)
         | (Inr cs, dedup) \<Rightarrow> (Inr (c # cs), dedup))"
proof (cases "item_is_live k e i")
  case True
  show ?thesis
  proof (cases "parse_item k i")
    case (Inl x)
    then show ?thesis using True failed by simp
  next
    case (Inr y)
    show ?thesis
    proof (cases "\<exists>c. y = Some c \<and> \<not> (cr_open_time c < cutoff \<or> dedup (dedup_key k c) \<noteq> None)")
      case False
      then show ?thesis using True Inr skip by (cases y) auto
    next
      case fresh_c: True
      then obtain c where c: "y = Some c" "\<not> (cr_open_time c < cutoff \<or> dedup (dedup_key k c) \<noteq> None)" by blast
      then show ?thesis using True Inr fresh [of c] by simp
    qed
  qed
qed (use skip in simp)

lemma new_candles_keeps:
  assumes "new_candles k cutoff e mt items dedup = (r, dedup')"
  shows "(dedup x \<noteq> None \<longrightarrow> dedup' x = dedup x) \<and> (dedup' x = dedup x \<or> dedup' x = Some mt)"
  using assms
proof (induction items arbitrary: dedup r dedup')
  case (Cons i items)
  show ?case
  proof (cases rule: new_candles_cases [of k cutoff e mt i items dedup])
    case skip
    then show ?thesis using Cons.IH [of dedup r dedup'] Cons.prems by simp
  next
    case failed
    then show ?thesis using Cons.prems by simp
  next
    case (fresh c)
    obtain r1 d1 where r1: "new_candles k cutoff e mt items (dedup(dedup_key k c \<mapsto> mt)) = (r1, d1)" by fastforce
    then have "dedup' = d1"
      using Cons.prems fresh(4) by (auto split: sum.splits)
    then show ?thesis
      using Cons.IH [OF r1] fresh(3) by (auto split: if_splits)
  qed
qed simp

lemma new_candles_result:
  assumes "new_candles k cutoff e mt items dedup = (Inr cs, dedup')"
  shows "distinct (map (dedup_key k) cs) \<and> (\<forall>c \<in> set cs. dedup (dedup_key k c) = None \<and> cutoff \<le> cr_open_time c \<and>
    dedup' (dedup_key k c) = Some mt \<and> (\<exists>i \<in> set items. parse_item k i = Inr (Some c)))"
  using assms
proof (induction items arbitrary: dedup cs dedup')
  case (Cons i items)
  show ?case
  proof (cases rule: new_candles_cases [of k cutoff e mt i items dedup])
    case skip
    then show ?thesis using Cons.IH [of dedup cs dedup'] Cons.prems by fastforce
  next
    case failed
    then show ?thesis using Cons.prems by simp
  next
    case (fresh c)
    obtain r1 d1 where r1: "new_candles k cutoff e mt items (dedup(dedup_key k c \<mapsto> mt)) = (r1, d1)" by fastforce
    then obtain cs1 where cs: "r1 = Inr cs1" "cs = c # cs1" "dedup' = d1"
      using Cons.prems fresh(4) by (auto split: sum.splits)
    note IH = Cons.IH [OF r1 [unfolded cs(1)]]
    have "d1 (dedup_key k c) = Some mt"
      using new_candles_keeps [OF r1, of "dedup_key k c"] by simp
    moreover have "dedup_key k c \<noteq> dedup_key k d \<and> dedup (dedup_key k d) = None" if "d \<in> set cs1" for d
      using IH that by (auto split: if_splits)
    ultimately show ?thesis
      using IH fresh(1-3) cs by (auto simp: image_iff)
  qed
qed simp

section \<open>Runs\<close>

text \<open>Polls at given phases and times; the candles of all of them.  A poll that raises hands out nothing.\<close>

fun run_polls :: "nat \<Rightarrow> 'w cache_client \<Rightarrow> consumer_config \<Rightarrow> (market_phase option \<times> rat \<times> rat) list \<Rightarrow> candle_consumer \<times> 'w \<Rightarrow>
    (candle_result list \<times> candle_consumer \<times> 'w) option" where
  "run_polls fuel D C [] sw = Some ([], sw)"
| "run_polls fuel D C ((phase, now, mt) # ps) sw =
    (case poll_new_candles fuel D C phase now mt sw of
       None \<Rightarrow> None
     | Some (r, sw) \<Rightarrow>
        (case run_polls fuel D C ps sw of
           None \<Rightarrow> None
         | Some (cs, sw) \<Rightarrow> Some ((case r of Inl e \<Rightarrow> [] | Inr c \<Rightarrow> c) @ cs, sw)))"

text \<open>What the table holds when it is read: \<open>P now_epoch c\<close> of every candle in a page.\<close>

definition rows_satisfy :: "candle_codec \<Rightarrow> 'w cache_client \<Rightarrow> (int \<Rightarrow> candle_result \<Rightarrow> bool) \<Rightarrow> bool" where
  "rows_satisfy k D P \<longleftrightarrow>
    (\<forall>cutoff epoch start w page next w'.
       cl_query D cutoff epoch start w = (Inr (page, next), w') \<or> cl_scan D cutoff epoch start w = (Inr (page, next), w') \<longrightarrow>
       (\<forall>i \<in> set page. \<forall>c. parse_item k i = Inr (Some c) \<longrightarrow> P epoch c))"

lemma read_pages_all:
  assumes "\<And>start w page next w'. fetch start w = (Inr (page, next), w') \<Longrightarrow> \<forall>i \<in> set page. Q i"
    and "read_pages fuel fetch items start w = Some (Inr result, w')" "\<forall>i \<in> set items. Q i"
  shows "\<forall>i \<in> set result. Q i"
  using assms(2,3)
proof (induction fuel arbitrary: items start w)
  case (Suc n)
  obtain r w1 where r: "fetch start w = (r, w1)" by fastforce
  show ?case
  proof (cases r)
    case (Inr x)
    obtain page nx where x: "x = (page, nx)" by fastforce
    have "\<forall>i \<in> set (items @ page). Q i"
      using assms(1) [of start w page nx w1] r Inr x Suc.prems(2) by auto
    then show ?thesis
      using Suc.prems Suc.IH [of "items @ page"] r Inr x by (cases nx) auto
  qed (use Suc.prems r in simp)
qed simp

lemma read_cache_all:
  assumes "rows_satisfy k D P" "read_candle_cache fuel D cutoff epoch w = Some (Inr items, w')"
  shows "\<forall>i \<in> set items. \<forall>c. parse_item k i = Inr (Some c) \<longrightarrow> P epoch c"
proof -
  let ?Q = "\<lambda>i. \<forall>c. parse_item k i = Inr (Some c) \<longrightarrow> P epoch c"
  have pages: "\<forall>i \<in> set page. ?Q i"
    if "cl_query D cutoff epoch start v = (Inr (page, next), v') \<or> cl_scan D cutoff epoch start v = (Inr (page, next), v')"
    for start v page "next" v'
    using assms(1) that unfolding rows_satisfy_def by blast
  have ok: "\<forall>i \<in> set result. ?Q i"
    if "read_pages fuel (cl_query D cutoff epoch) [] None v = Some (Inr result, v') \<or>
      read_pages fuel (cl_scan D cutoff epoch) [] None v = Some (Inr result, v')" for result v v'
    using that
  proof
    assume r: "read_pages fuel (cl_query D cutoff epoch) [] None v = Some (Inr result, v')"
    show ?thesis by (rule read_pages_all [OF _ r]) (use pages in blast, simp)
  next
    assume r: "read_pages fuel (cl_scan D cutoff epoch) [] None v = Some (Inr result, v')"
    show ?thesis by (rule read_pages_all [OF _ r]) (use pages in blast, simp)
  qed
  obtain v where "read_pages fuel (cl_query D cutoff epoch) [] None v = Some (Inr items, w') \<or>
      read_pages fuel (cl_scan D cutoff epoch) [] None v = Some (Inr items, w')"
    using assms(2) unfolding read_candle_cache_def query_candle_cache_def scan_candle_cache_def
    by (auto split: option.splits sum.splits prod.splits)
  then show ?thesis by (rule ok)
qed

text \<open>\<open>C\<close> looks back at most the age at which keys are forgotten.\<close>

definition short_lookback :: "consumer_config \<Rightarrow> bool" where
  "short_lookback C \<longleftrightarrow> cf_lookback_minutes C * 60 \<le> DEDUP_EVICT_SECONDS \<and> cf_startup_lookback C * 60 \<le> DEDUP_EVICT_SECONDS"

lemma poll_cases:
  assumes "poll_new_candles fuel D C phase now mt (s, w) = Some (r, t, w')"
  obtains
    (quiet) "r = Inr []" "cn_dedup t = cn_dedup s \<or> cn_dedup t = cn_dedup (evict_dedup mt (s\<lparr>cn_startup_done := True\<rparr>))"
  | (read) items cutoff w1 where "new_candles (cf_codec C) cutoff \<lfloor>now\<rfloor> mt items (cn_dedup (evict_dedup mt (s\<lparr>cn_startup_done := True\<rparr>))) = (r, cn_dedup t)"
      "cutoff = now - cf_lookback_minutes C * 60 \<or> cutoff = now - cf_startup_lookback C * 60 \<and> \<not> cn_startup_done s"
      "read_candle_cache fuel D (cc_iso_format (cf_codec C) cutoff) \<lfloor>now\<rfloor> w = Some (Inr items, w1)" "cn_startup_done t"
  using assms unfolding poll_new_candles_def Let_def
  by (auto split: if_splits option.splits sum.splits prod.splits simp: evict_dedup_def)

text \<open>The keys of the candles handed out until \<open>T\<close>: remembered, or too old to come again.\<close>

definition remembered :: "candle_codec \<Rightarrow> rat \<Rightarrow> rat \<Rightarrow> candle_consumer \<Rightarrow> candle_result \<Rightarrow> bool" where
  "remembered k off T s c \<longleftrightarrow>
    cr_open_time c \<le> T \<and>
    (case cn_dedup s (dedup_key k c) of
       Some m \<Rightarrow> cr_open_time c \<le> m + off
     | None \<Rightarrow> cr_open_time c + DEDUP_EVICT_SECONDS < T)"

lemma remembered_evict:
  assumes "remembered k off T s c" "T \<le> now" "mt = now - off"
  shows "remembered k off now (evict_dedup mt (s\<lparr>cn_startup_done := True\<rparr>)) c"
  using assms by (auto simp: remembered_def evict_dedup_def split: option.splits)

lemma remembered_poll:
  assumes "proper_codec (cf_codec C)" "short_lookback C" "rows_satisfy (cf_codec C) D (\<lambda>epoch c. cr_open_time c \<le> of_int epoch)"
    and "poll_new_candles fuel D C phase now mt (s, w) = Some (r, t, w')" "mt = now - off" "T \<le> now"
    and "\<forall>c \<in> set R. remembered (cf_codec C) off T s c"
  shows "(\<forall>c \<in> set R. remembered (cf_codec C) off now t c) \<and>
    (\<forall>cs. r = Inr cs \<longrightarrow> distinct (map (dedup_key (cf_codec C)) cs) \<and> (\<forall>c \<in> set cs. remembered (cf_codec C) off now t c) \<and>
      (\<forall>c \<in> set cs. \<forall>d \<in> set R. dedup_key (cf_codec C) c \<noteq> dedup_key (cf_codec C) d))"
  using assms(4)
proof (cases rule: poll_cases)
  case quiet
  have "remembered (cf_codec C) off now t c" if "c \<in> set R" for c
    using remembered_evict [of "cf_codec C" off T s c now mt] assms(5-7) that quiet(2)
    by (auto simp: remembered_def split: option.splits)
  then show ?thesis using quiet(1) by simp
next
  case (read items cutoff w1)
  let ?k = "cf_codec C" and ?e = "evict_dedup mt (s\<lparr>cn_startup_done := True\<rparr>)"
  have cut: "now - DEDUP_EVICT_SECONDS \<le> cutoff"
    using assms(2) read(2) by (auto simp: short_lookback_def)
  have opened: "parse_item ?k i = Inr (Some c) \<Longrightarrow> i \<in> set items \<Longrightarrow> cr_open_time c \<le> now" for i c
    using read_cache_all [OF assms(3) read(3)] of_int_floor_le [of now] order_trans by blast
  have old: "remembered ?k off now ?e c" if "c \<in> set R" for c
    using remembered_evict assms(5-7) that by blast
  have kept: "remembered ?k off now t c" if "remembered ?k off now ?e c" for c
    using that new_candles_keeps [OF read(1), of "dedup_key ?k c"] assms(5)
    by (auto simp: remembered_def split: option.splits)
  have "distinct (map (dedup_key ?k) cs) \<and> (\<forall>c \<in> set cs. remembered ?k off now t c) \<and>
      (\<forall>c \<in> set cs. \<forall>d \<in> set R. dedup_key ?k c \<noteq> dedup_key ?k d)" if r: "r = Inr cs" for cs
  proof -
    note new = new_candles_result [OF read(1) [unfolded r]]
    have "dedup_key ?k c \<noteq> dedup_key ?k d" if "c \<in> set cs" "d \<in> set R" for c d
    proof
      assume same: "dedup_key ?k c = dedup_key ?k d"
      then have "cr_open_time d + DEDUP_EVICT_SECONDS < now"
        using old [OF that(2)] new that(1) by (auto simp: remembered_def)
      moreover have "cr_open_time c = cr_open_time d"
        by (rule dedup_key_open_time [OF assms(1) same])
      ultimately show False
        using new that(1) cut by fastforce
    qed
    moreover have "remembered ?k off now t c" if "c \<in> set cs" for c
      using new that opened assms(5) by (fastforce simp: remembered_def)
    ultimately show ?thesis using new by blast
  qed
  then show ?thesis using old kept by blast
qed

lemma polls_distinct:
  assumes "proper_codec (cf_codec C)" "short_lookback C" "rows_satisfy (cf_codec C) D (\<lambda>epoch c. cr_open_time c \<le> of_int epoch)"
    and "run_polls fuel D C ps (s, w) = Some (cs, t, w')"
    and "sorted (T # map (\<lambda>(phase, now, mt). now) ps)" "\<forall>(phase, now, mt) \<in> set ps. mt = now - off"
    and "\<forall>c \<in> set R. remembered (cf_codec C) off T s c"
  shows "distinct (map (dedup_key (cf_codec C)) cs) \<and> (\<forall>c \<in> set cs. \<forall>d \<in> set R. dedup_key (cf_codec C) c \<noteq> dedup_key (cf_codec C) d)"
  using assms(4-7)
proof (induction ps arbitrary: s w cs T R)
  case (Cons p ps)
  let ?key = "dedup_key (cf_codec C)"
  obtain phase now mt where p: "p = (phase, now, mt)" by (cases p)
  obtain r s1 w1 where r: "poll_new_candles fuel D C phase now mt (s, w) = Some (r, s1, w1)"
    using Cons.prems(1) by (auto simp: p split: option.splits)
  obtain cs1 where cs1: "run_polls fuel D C ps (s1, w1) = Some (cs1, t, w')" "cs = (case r of Inl e \<Rightarrow> [] | Inr c \<Rightarrow> c) @ cs1"
    using Cons.prems(1) r by (auto simp: p split: option.splits)
  define new where "new = (case r of Inl e \<Rightarrow> [] | Inr c \<Rightarrow> c)"
  note poll = remembered_poll [OF assms(1-3) r, of off T R]
  have rem: "\<forall>c \<in> set (new @ R). remembered (cf_codec C) off now s1 c" and fresh: "distinct (map ?key new)"
      "\<forall>c \<in> set new. \<forall>d \<in> set R. ?key c \<noteq> ?key d"
    using poll Cons.prems(2-4) by (auto simp: p new_def split: sum.splits)
  have rest: "distinct (map ?key cs1) \<and> (\<forall>c \<in> set cs1. \<forall>d \<in> set (new @ R). ?key c \<noteq> ?key d)"
    by (rule Cons.IH [OF cs1(1) _ _ rem]) (use Cons.prems(2,3) in \<open>simp_all add: p\<close>)
  have "?key c \<noteq> ?key d" if "c \<in> set new" "d \<in> set cs1" for c d
    using rest that by (simp add: not_sym)
  then have "?key ` set new \<inter> ?key ` set cs1 = {}"
    by auto
  then show ?case
    using fresh rest unfolding cs1(2) new_def [symmetric] by auto
qed simp

lemma parse_item_close:
  "parse_item k i = Inr (Some c) \<Longrightarrow> cr_close_time c = cr_open_time c + of_int (opt_default 1 (INTERVAL_MINUTES (cr_interval c))) * 60"
  by (auto simp: parse_item_def Let_def split: option.splits attr.splits)

lemma polls_recent:
  assumes "rows_satisfy (cf_codec C) D (\<lambda>epoch c. cr_close_time c \<le> of_int epoch)"
    and "cf_startup_lookback C \<le> cf_lookback_minutes C"
    and "run_polls fuel D C ps sw = Some (cs, sw')"
  shows "\<forall>c \<in> set cs. of_int (opt_default 1 (INTERVAL_MINUTES (cr_interval c))) \<le> cf_lookback_minutes C"
  using assms(3)
proof (induction ps arbitrary: sw cs)
  case (Cons p ps)
  obtain phase now mt where p: "p = (phase, now, mt)" by (cases p)
  obtain s w where sw: "sw = (s, w)" by fastforce
  obtain r s1 w1 where r: "poll_new_candles fuel D C phase now mt (s, w) = Some (r, s1, w1)"
    using Cons.prems by (auto simp: p sw split: option.splits)
  obtain cs1 where cs1: "run_polls fuel D C ps (s1, w1) = Some (cs1, sw')" "cs = (case r of Inl e \<Rightarrow> [] | Inr c \<Rightarrow> c) @ cs1"
    using Cons.prems r by (auto simp: p sw split: option.splits)
  have "of_int (opt_default 1 (INTERVAL_MINUTES (cr_interval c))) \<le> cf_lookback_minutes C" if "r = Inr new" "c \<in> set new" for new c
    using r
  proof (cases rule: poll_cases)
    case (read items cutoff w2)
    have c: "cutoff \<le> cr_open_time c" and "\<exists>i \<in> set items. parse_item (cf_codec C) i = Inr (Some c)"
      using new_candles_result [OF read(1) [unfolded that(1)]] that(2) by blast+
    then obtain i where i: "i \<in> set items" "parse_item (cf_codec C) i = Inr (Some c)" by blast
    have "cr_close_time c \<le> now"
      using read_cache_all [OF assms(1) read(3)] i of_int_floor_le [of now] order_trans by blast
    moreover have "now - cf_lookback_minutes C * 60 \<le> cutoff"
      using read(2) assms(2) by auto
    ultimately show ?thesis
      using c parse_item_close [OF i(2)] by simp
  qed (use that in simp)
  then show ?case
    using Cons.IH [OF cs1(1)] cs1(2) by (auto split: sum.splits)
qed simp

section \<open>Written and read back\<close>

definition result_of :: "candle_codec \<Rightarrow> candle_data \<Rightarrow> candle_result" where
  "result_of k c =
    \<lparr>cr_market = ca_market c, cr_symbol = ca_instrument c, cr_interval = ca_interval c, cr_open_time = ca_dt c,
     cr_close_time = ca_dt c + of_int (opt_default 1 (INTERVAL_MINUTES (ca_interval c))) * 60,
     cr_open = ca_open c, cr_high = ca_high c, cr_low = ca_low c, cr_close = ca_close c, cr_volume = ca_volume c,
     cr_trace_id = make_candle_trace_id k (ca_market c) (ca_instrument c) (ca_interval c) (ca_dt c), cr_data_quality = ca_quality c\<rparr>"

text \<open>
  The row that the candle stream writes is read back as the candle it was written from, and it is live for two
  hours less a second.
\<close>

theorem candle_row_roundtrip:
  assumes "cc_iso_parse k (cc_iso_format k (ca_dt c)) = Some (ca_dt c)" "epoch < \<lfloor>now\<rfloor> + CANDLE_TTL_SECONDS"
  shows "item_is_live k epoch (candle_item k now c) \<and> parse_item k (candle_item k now c) = Inr (Some (result_of k c))"
  using assms py_int_of_int [of "\<lfloor>now\<rfloor> + CANDLE_TTL_SECONDS"]
  by (simp add: item_is_live_def candle_item_def parse_item_def result_of_def CANDLE_TTL_ATTRIBUTE_def Let_def)

text \<open>
  C39 With a lookback of at most the age at which its keys are forgotten, the consumer hands out every candle at most
  once, however often it polls and whatever the table holds, as long as it holds no candle of the future.
\<close>

theorem candle_handed_out_once:
  assumes "proper_codec (cf_codec C)" "short_lookback C" "rows_satisfy (cf_codec C) D (\<lambda>epoch c. cr_open_time c \<le> of_int epoch)"
    and "run_polls fuel D C ps (new_candle_consumer m0, w) = Some (cs, sw)"
    and "sorted (map (\<lambda>(phase, now, mt). now) ps)" "\<forall>(phase, now, mt) \<in> set ps. mt = now - off"
  shows "distinct (map (dedup_key (cf_codec C)) cs)"
proof (cases ps)
  case (Cons p qs)
  obtain t w' where sw: "sw = (t, w')" by fastforce
  obtain phase now mt where "p = (phase, now, mt)" by (cases p)
  then have "sorted (now # map (\<lambda>(phase, now, mt). now) ps)"
    using assms(5) Cons by auto
  then show ?thesis
    using polls_distinct [OF assms(1-3) assms(4) [unfolded sw] _ assms(6), of now "[]"] by simp
qed (use assms(4) in simp)

text \<open>
  The service looks back three minutes, and a candle is in the table only once it is closed: no poll ever hands out
  a candle of five or of fifteen minutes, the intervals of the pre-close and of the trend strategy.
\<close>

theorem slow_candles_never_handed_out:
  assumes "cf_lookback_minutes C = 3" "cf_startup_lookback C = 0"
    and "rows_satisfy (cf_codec C) D (\<lambda>epoch c. cr_close_time c \<le> of_int epoch)"
    and "run_polls fuel D C ps (new_candle_consumer m0, w) = Some (cs, sw)"
  shows "\<forall>c \<in> set cs. cr_interval c \<notin> {''5minute'', ''15minute''}"
  using polls_recent [OF assms(3) _ assms(4)] assms(1,2) by (fastforce simp: INTERVAL_MINUTES_def)

section \<open>A table with one candle\<close>

definition unary_codec :: candle_codec where
  "unary_codec = \<lparr>cc_iso_format = (\<lambda>x. replicate (to_nat x) (CHR ''x'')), cc_iso_parse = (\<lambda>s. Some (from_nat (length s))),
     cc_float = (\<lambda>s. None), cc_int = (\<lambda>s. None), cc_str = (\<lambda>x. ''0''), cc_sha256 = (\<lambda>s. s)\<rparr>"

definition demo_candle :: candle_data where
  "demo_candle = \<lparr>ca_market = ''NSE'', ca_instrument = ''TCS'', ca_interval = ''minute'', ca_dt = 600, ca_open = 100, ca_high = 102,
     ca_low = 99, ca_close = 101, ca_volume = 500, ca_quality = ''NORMAL''\<rparr>"

definition demo_cache :: "unit cache_client" where
  "demo_cache =
    (let read = (\<lambda>cutoff epoch start w. (Inr (if epoch < 660 then [] else [candle_item unary_codec 660 demo_candle], None), w))
     in \<lparr>cl_query = read, cl_scan = read\<rparr>)"

definition service_consumer :: consumer_config where
  "service_consumer = \<lparr>cf_codec = unary_codec, cf_lookback_minutes = 3, cf_startup_lookback = 0\<rparr>"

lemma demo_iso [simp]: "cc_iso_parse unary_codec (cc_iso_format unary_codec x) = Some x"
  by (simp add: unary_codec_def)

lemma demo_proper: "proper_codec unary_codec"
  by (auto simp: proper_codec_def unary_codec_def dest: arg_cong [where f = length])

lemma demo_parse: "parse_item unary_codec (candle_item unary_codec now demo_candle) = Inr (Some (result_of unary_codec demo_candle))"
  by (simp add: candle_item_def parse_item_def result_of_def CANDLE_TTL_ATTRIBUTE_def Let_def)

lemma demo_result: "cr_close_time (result_of unary_codec demo_candle) = 660" "cr_open_time (result_of unary_codec demo_candle) = 600"
  by (simp_all add: result_of_def demo_candle_def INTERVAL_MINUTES_def)

lemma demo_rows:
  "rows_satisfy unary_codec demo_cache (\<lambda>epoch c. cr_close_time c \<le> of_int epoch)"
  "rows_satisfy unary_codec demo_cache (\<lambda>epoch c. cr_open_time c \<le> of_int epoch)"
proof -
  have "660 \<le> (of_int epoch :: rat)" if "\<not> epoch < 660" for epoch :: int
    using that of_int_le_iff [of 660 epoch, where 'a = rat] by simp
  then show "rows_satisfy unary_codec demo_cache (\<lambda>epoch c. cr_close_time c \<le> of_int epoch)"
    "rows_satisfy unary_codec demo_cache (\<lambda>epoch c. cr_open_time c \<le> of_int epoch)"
    by (fastforce simp: rows_satisfy_def demo_cache_def Let_def demo_parse demo_result split: if_splits)+
qed

lemma demo_polls: "\<exists>cs t w. run_polls (Suc n) demo_cache C ps (s, v) = Some (cs, t, w)"
proof (induction ps arbitrary: s v)
  case (Cons p ps)
  obtain phase now mt where p: "p = (phase, now, mt)" by (cases p)
  have "\<exists>r t w. poll_new_candles (Suc n) demo_cache C phase now mt (s, v) = Some (r, t, w)"
    by (simp add: poll_new_candles_def read_candle_cache_def query_candle_cache_def demo_cache_def Let_def split: prod.splits option.splits)
  then obtain r t w where "poll_new_candles (Suc n) demo_cache C phase now mt (s, v) = Some (r, t, w)" by blast
  with Cons.IH [of t w] show ?case by (auto simp: p)
qed simp

theorem candle_row_roundtrip_witness:
  "item_is_live unary_codec 700 (candle_item unary_codec 660 demo_candle) \<and>
    parse_item unary_codec (candle_item unary_codec 660 demo_candle) = Inr (Some (result_of unary_codec demo_candle))"
  by (rule candle_row_roundtrip) (simp_all add: CANDLE_TTL_SECONDS_def)

definition demo_times :: "(market_phase option \<times> rat \<times> rat) list" where
  "demo_times = [(None, 600, 100), (None, 661, 161), (None, 662, 162), (Some NORMAL_SESSION, 1100, 600)]"

theorem candle_handed_out_once_witness:
  "\<exists>cs sw. run_polls 1 demo_cache service_consumer demo_times (new_candle_consumer 90, ()) = Some (cs, sw) \<and>
    distinct (map (dedup_key unary_codec) cs)"
proof -
  obtain cs t w where run: "run_polls 1 demo_cache service_consumer demo_times (new_candle_consumer 90, ()) = Some (cs, t, w)"
    using demo_polls [of 0] by fastforce
  have "distinct (map (dedup_key (cf_codec service_consumer)) cs)"
    by (rule candle_handed_out_once [OF _ _ _ run, of 500])
      (simp_all add: service_consumer_def demo_proper demo_rows short_lookback_def DEDUP_EVICT_SECONDS_def demo_times_def)
  with run show ?thesis by (auto simp: service_consumer_def)
qed

theorem slow_candles_never_handed_out_witness:
  "\<exists>cs sw. run_polls 1 demo_cache service_consumer demo_times (new_candle_consumer 90, ()) = Some (cs, sw) \<and>
    list_all (\<lambda>c. cr_interval c \<notin> {''5minute'', ''15minute''}) cs"
proof -
  obtain cs t w where run: "run_polls 1 demo_cache service_consumer demo_times (new_candle_consumer 90, ()) = Some (cs, t, w)"
    using demo_polls [of 0] by fastforce
  have "\<forall>c \<in> set cs. cr_interval c \<notin> {''5minute'', ''15minute''}"
    by (rule slow_candles_never_handed_out [OF _ _ _ run]) (simp_all add: service_consumer_def demo_rows)
  then have "list_all (\<lambda>c. cr_interval c \<notin> {''5minute'', ''15minute''}) cs" by (simp only: list_all_iff)
  with run show ?thesis by blast
qed

end
