(* ===== verification/StrategyEngineModel.thy ===== *)
theory StrategyEngineModel
  imports StrategyConfigTable CandleConsumer MessagePath EntryBlock
begin

text \<open>
  The strategy engine: \<open>services/strategy_engine/service.py\<close> with its tick consumer
  (\<open>consumers/kafka_tick_consumer.py\<close>) and the \<open>publish\<close> of \<open>publishers/kafka_signal_publisher.py\<close>.  The three loops
  are modelled as rounds; a round is one pass through the body of its loop and runs as a whole.  The clock
  readings, identifiers and texts of time that a round takes come as a list of moments, one for each runner.
  Logging and metrics are left out.  \<open>en_attempts\<close> records every signal handed to the publisher; the code has no such
  variable.
\<close>

section \<open>The tick consumer\<close>

record tick_event =
  te_symbol :: str
  te_market :: str
  te_price :: rat
  te_volume :: int
  te_timestamp :: rat
  te_trace_id :: str
  te_sequence_id :: int
  te_gap_detected :: bool
  te_message :: kmsg

definition coerce_bool :: "json \<Rightarrow> bool" where
  "coerce_bool v =
    (case v of
       JBool b \<Rightarrow> b
     | JStr s \<Rightarrow> py_lower (py_strip s) \<in> {''1'', ''true'', ''yes'', ''y''}
     | _ \<Rightarrow> json_truthy v)"

text \<open>\<open>float(x)\<close> and \<open>int(x)\<close> of a JSON value; \<open>parse\<close> is the number parser of the standard library.\<close>

definition json_float :: "(str \<Rightarrow> rat option) \<Rightarrow> json \<Rightarrow> rat res" where
  "json_float parse v =
    (case v of
       JNum x \<Rightarrow> Inr x
     | JBool b \<Rightarrow> Inr (if b then 1 else 0)
     | JStr s \<Rightarrow> of_opt ValueError (parse s)
     | _ \<Rightarrow> Inl TypeError)"

definition json_int :: "codec \<Rightarrow> json \<Rightarrow> int res" where
  "json_int c v =
    (case v of
       JNum x \<Rightarrow> Inr (py_int x)
     | JBool b \<Rightarrow> Inr (if b then 1 else 0)
     | JStr s \<Rightarrow> of_opt ValueError (jc_int c s)
     | _ \<Rightarrow> Inl TypeError)"

text \<open>A trace id that is not a string counts as missing.\<close>

definition parse_tick_message :: "(str \<Rightarrow> rat option) \<Rightarrow> codec \<Rightarrow> kmsg \<Rightarrow> tick_event parsed res" where
  "parse_tick_message float c msg =
    (case jc_loads c (km_value msg) of
       None \<Rightarrow> Inl ValueError
     | Some (JObj body) \<Rightarrow>
        (if map_of body ''schema_version'' \<noteq> Some (JStr SCHEMA_VERSION) then Inr (Invalid ''schema_validation_failed'')
         else
          res_bind (as_instrument (map_of body ''instrument_id'')) (\<lambda>(market, symbol).
          res_bind (as_time c (map_of body ''exchange_time'')) (\<lambda>timestamp.
          res_bind (case map_of body ''ltp'' of None \<Rightarrow> Inl KeyError | Some v \<Rightarrow> json_float float v) (\<lambda>price.
          res_bind (json_int c (json_or (map_of body ''volume'') (JNum 0))) (\<lambda>volume.
          res_bind (json_int c (opt_default (JNum 0) (map_of body ''sequence_id''))) (\<lambda>sequence_id.
            Inr (Parsed \<lparr>te_symbol = symbol, te_market = market, te_price = price, te_volume = volume, te_timestamp = timestamp,
              te_trace_id = (case map_of body ''trace_id'' of Some (JStr s) \<Rightarrow> s | _ \<Rightarrow> []), te_sequence_id = sequence_id,
              te_gap_detected = coerce_bool (opt_default (JBool False) (map_of body ''gap_detected'')), te_message = msg\<rparr>)))))))
     | Some _ \<Rightarrow> Inl AttributeError)"

definition poll_tick :: "(str \<Rightarrow> rat option) \<Rightarrow> 'w kconsumer \<Rightarrow> str \<Rightarrow> str \<Rightarrow> kmsg \<Rightarrow> 'w \<Rightarrow> tick_event option res \<times> 'w" where
  "poll_tick float kc = poll_parsed (parse_tick_message float) ''malformed_tick'' kc"

section \<open>State\<close>

record 'w signal_publisher =
  sp_codec :: codec
  sp_producer :: "'w producer option"

record 'w engine_config =
  ec_dynamo :: "'w dynamo"
  ec_table :: str
  ec_num_str :: "rat \<Rightarrow> str"
  ec_poll_interval :: rat
  ec_reader :: "'w ebr_config option"
  ec_publisher :: "'w signal_publisher"
  ec_float :: "str \<Rightarrow> rat option"
  ec_consumer :: "'w kconsumer"
  ec_cache :: "'w cache_client"
  ec_candles :: consumer_config
  ec_loader :: "'w loader"

record 'w engine =
  en_ks_active :: bool
  en_ks_checked_at :: rat
  en_reader :: ebr_state
  en_entry_blocked_total :: nat
  en_read_failure_total :: nat
  en_candle_consumer :: candle_consumer
  en_attempts :: "(signal \<times> str) list"
  en_world :: 'w

text \<open>The runners, with the strategies they wrap, in the order of their registration.\<close>

type_synonym 'st slot = "'st strategy \<times> 'st runner"

record moment =
  mo_clock :: clock
  mo_stamp :: stamp
  mo_event_id :: str
  mo_trace_id :: str
  mo_iso :: str

section \<open>Checks\<close>

text \<open>A row of the table resource holds plain values.\<close>

definition plain_row :: "item \<Rightarrow> str \<Rightarrow> raw option" where
  "plain_row i a = map_option (\<lambda>v. case v of S s \<Rightarrow> PlainStr s | N x \<Rightarrow> PlainNum x | BOOL b \<Rightarrow> PlainBool b) (i a)"

definition row_halts :: "'w engine_config \<Rightarrow> item option \<Rightarrow> bool" where
  "row_halts cf found = (case found of None \<Rightarrow> False | Some i \<Rightarrow> attr_bool (ec_num_str cf) (plain_row i) ''active'' False)"

definition is_kill_switch_active :: "'w engine_config \<Rightarrow> rat \<Rightarrow> 'w engine \<Rightarrow> bool \<times> 'w engine" where
  "is_kill_switch_active cf now c =
    (if now - en_ks_checked_at c < ec_poll_interval cf then (en_ks_active c, c)
     else
       (case dy_get (ec_dynamo cf) (en_world c) (ec_table cf) kill_switch_key of
          (Inl e, w) \<Rightarrow> (en_ks_active c, c\<lparr>en_world := w\<rparr>)
        | (Inr found, w) \<Rightarrow>
            (row_halts cf found, c\<lparr>en_ks_active := row_halts cf found, en_ks_checked_at := now, en_world := w\<rparr>)))"

definition is_entry_blocked :: "'w engine_config \<Rightarrow> rat \<Rightarrow> 'w engine \<Rightarrow> bool \<times> 'w engine" where
  "is_entry_blocked cf now c =
    (case ec_reader cf of
       None \<Rightarrow> (False, c)
     | Some rd \<Rightarrow>
        (case eb_read rd False now (en_reader c, en_world c) of
           (state, reader, w) \<Rightarrow>
             (eb_blocked state,
              c\<lparr>en_reader := reader, en_world := w,
                en_read_failure_total := en_read_failure_total c + (if eb_read_ok state then 0 else 1)\<rparr>)))"

section \<open>Publication\<close>

definition publish_pending :: "'w signal_publisher \<Rightarrow> moment \<Rightarrow> signal \<Rightarrow> str \<Rightarrow> 'w \<Rightarrow> bool res \<times> 'w" where
  "publish_pending P mo sg trace_id w =
    (case sp_producer P of
       None \<Rightarrow> (Inr False, w)
     | Some p \<Rightarrow>
        (case build_signal_event (sp_codec P) (mo_event_id mo) (mo_trace_id mo) (mo_iso mo) sg trace_id of
           Inl e \<Rightarrow> (Inl e, w)
         | Inr event \<Rightarrow>
            (case pr_produce p w SIGNALS_PENDING_TOPIC (Some (instrument_id (sg_market sg) (sg_symbol sg)))
                    (jc_dumps (sp_codec P) event) [] of
               (Inl e, w) \<Rightarrow> (Inr False, w)
             | (Inr _, w) \<Rightarrow> (Inr True, w))))"

definition publish_signal :: "'w engine_config \<Rightarrow> moment \<Rightarrow> signal \<Rightarrow> str \<Rightarrow> 'w engine \<Rightarrow> bool \<times> 'w engine" where
  "publish_signal cf mo sg trace_id c =
    (let c = c\<lparr>en_attempts := en_attempts c @ [(sg, trace_id)]\<rparr>
     in case publish_pending (ec_publisher cf) mo sg trace_id (en_world c) of
          (Inl e, w) \<Rightarrow> (False, c\<lparr>en_world := w\<rparr>)
        | (Inr ok, w) \<Rightarrow> (ok, c\<lparr>en_world := w\<rparr>))"

section \<open>Ticks\<close>

definition feed_tick :: "'st strategy \<Rightarrow> str \<Rightarrow> rat \<Rightarrow> int \<Rightarrow> rat \<Rightarrow> 'st runner \<Rightarrow> signal option res \<times> 'st runner" where
  "feed_tick St symbol price volume timestamp r =
    (case st_on_tick St symbol price volume timestamp (rn_strategy r) of
       (Inl e, s) \<Rightarrow> (Inl e, r\<lparr>rn_strategy := s\<rparr>)
     | (Inr _, s) \<Rightarrow> (Inr None, r\<lparr>rn_strategy := s\<rparr>))"

text \<open>The body of the loop of \<open>process_tick\<close>.\<close>

definition tick_slot ::
  "'w engine_config \<Rightarrow> str \<Rightarrow> rat \<Rightarrow> int \<Rightarrow> rat \<Rightarrow> bool \<Rightarrow> str \<Rightarrow> moment \<Rightarrow> 'st slot \<Rightarrow> 'w engine \<Rightarrow>
    signal option res \<times> 'st slot \<times> 'w engine" where
  "tick_slot cf symbol price volume timestamp suppress trace_id mo slot c =
    (case slot of (St, r) \<Rightarrow>
      if rn_interface r \<noteq> TICK \<or> symbol \<notin> set (st_symbols St) then (Inr None, (St, r), c)
      else if suppress then
        (case feed_tick St symbol price volume timestamp r of (z, r) \<Rightarrow> (z, (St, r), c))
      else
        (case is_entry_blocked cf (fst (mo_clock mo)) c of
           (True, c) \<Rightarrow>
             (case feed_tick St symbol price volume timestamp r of
                (Inl e, r) \<Rightarrow> (Inl e, (St, r), c)
              | (Inr x, r) \<Rightarrow> (Inr None, (St, r), c\<lparr>en_entry_blocked_total := en_entry_blocked_total c + 1\<rparr>))
         | (False, c) \<Rightarrow>
             (case dispatch_tick St (mo_clock mo) symbol price volume timestamp r of
                (None, r) \<Rightarrow> (Inr None, (St, r), c)
              | (Some sg, r) \<Rightarrow>
                  (case publish_signal cf mo sg trace_id c of
                     (True, c) \<Rightarrow> (Inr (Some sg), (St, r), c)
                   | (False, c) \<Rightarrow> (Inl RuntimeError, (St, r), c)))))"

fun process_tick ::
  "'w engine_config \<Rightarrow> str \<Rightarrow> rat \<Rightarrow> int \<Rightarrow> rat \<Rightarrow> bool \<Rightarrow> str \<Rightarrow> (nat \<Rightarrow> moment) \<Rightarrow> 'st slot list \<Rightarrow> 'w engine \<Rightarrow>
    signal list res \<times> 'st slot list \<times> 'w engine" where
  "process_tick cf symbol price volume timestamp suppress trace_id mos [] c = (Inr [], [], c)"
| "process_tick cf symbol price volume timestamp suppress trace_id mos (slot # slots) c =
    (case tick_slot cf symbol price volume timestamp suppress trace_id (mos 0) slot c of
       (Inl e, slot, c) \<Rightarrow> (Inl e, slot # slots, c)
     | (Inr x, slot, c) \<Rightarrow>
        (case process_tick cf symbol price volume timestamp suppress trace_id (\<lambda>i. mos (Suc i)) slots c of
           (Inl e, slots, c) \<Rightarrow> (Inl e, slot # slots, c)
         | (Inr sgs, slots, c) \<Rightarrow> (Inr ((case x of None \<Rightarrow> sgs | Some sg \<Rightarrow> sg # sgs)), slot # slots, c)))"

definition handle_kafka_tick ::
  "'w engine_config \<Rightarrow> (nat \<Rightarrow> moment) \<Rightarrow> tick_event \<Rightarrow> 'st slot list \<times> 'w engine \<Rightarrow> signal list res \<times> 'st slot list \<times> 'w engine" where
  "handle_kafka_tick cf mos t sc =
    (case sc of (slots, c) \<Rightarrow>
      process_tick cf (te_symbol t) (te_price t) (te_volume t) (te_timestamp t) (te_gap_detected t) (te_trace_id t) mos slots c)"

text \<open>
  One round of \<open>_kafka_processing_loop\<close>; \<open>now1\<close> and \<open>now2\<close> are the times of its two checks of the kill switch,
  \<open>polled\<close> is what the broker delivers.  The exceptions of the round are logged.
\<close>

record kafka_input =
  kr_now1 :: rat
  kr_now2 :: rat
  kr_polled :: "kmsg option"
  kr_event_id :: str
  kr_iso :: str
  kr_moments :: "nat \<Rightarrow> moment"

definition route_failed :: "'w engine_config \<Rightarrow> kafka_input \<Rightarrow> tick_event \<Rightarrow> 'w \<Rightarrow> unit res \<times> 'w" where
  "route_failed cf k t w =
    (case event_to_retry (ec_consumer cf) (kr_event_id k) (kr_iso k) ''strategy_tick_processing_failed''
            [(''symbol'', JStr (te_symbol t)), (''market'', JStr (te_market t)),
             (''raw_offset'', JNum (of_int (km_offset (te_message t))))] (te_message t) w of
       (Inl e, w) \<Rightarrow> (Inl e, w)
     | (Inr False, w) \<Rightarrow> (Inl RuntimeError, w)
     | (Inr True, w) \<Rightarrow> kc_commit (ec_consumer cf) w (te_message t))"

definition kafka_round :: "'w engine_config \<Rightarrow> kafka_input \<Rightarrow> 'st slot list \<times> 'w engine \<Rightarrow> 'st slot list \<times> 'w engine" where
  "kafka_round cf k sc =
    (case sc of (slots, c) \<Rightarrow>
      (case is_kill_switch_active cf (kr_now1 k) c of
         (True, c) \<Rightarrow> (slots, c)
       | (False, c) \<Rightarrow>
          (case kr_polled k of
             None \<Rightarrow> (slots, c)
           | Some msg \<Rightarrow>
              (case poll_tick (ec_float cf) (ec_consumer cf) (kr_event_id k) (kr_iso k) msg (en_world c) of
                 (Inl e, w) \<Rightarrow> (slots, c\<lparr>en_world := w\<rparr>)
               | (Inr None, w) \<Rightarrow> (slots, c\<lparr>en_world := w\<rparr>)
               | (Inr (Some t), w) \<Rightarrow>
                  (case is_kill_switch_active cf (kr_now2 k) (c\<lparr>en_world := w\<rparr>) of
                     (True, c) \<Rightarrow> (slots, c)
                   | (False, c) \<Rightarrow>
                      (case handle_kafka_tick cf (kr_moments k) t (slots, c) of
                         (Inr sgs, slots, c) \<Rightarrow>
                           (case kc_commit (ec_consumer cf) (en_world c) (te_message t) of
                              (Inr _, w) \<Rightarrow> (slots, c\<lparr>en_world := w\<rparr>)
                            | (Inl e, w) \<Rightarrow> (slots, c\<lparr>en_world := snd (route_failed cf k t w)\<rparr>))
                       | (Inl e, slots, c) \<Rightarrow>
                           (slots, c\<lparr>en_world := snd (route_failed cf k t (en_world c))\<rparr>)))))))"

section \<open>Candles\<close>

text \<open>The body of the inner loop of \<open>_candle_processing_loop\<close>: one candle at one runner.\<close>

definition candle_slot :: "'w engine_config \<Rightarrow> candle_result \<Rightarrow> moment \<Rightarrow> 'st slot \<Rightarrow> 'w engine \<Rightarrow> 'st slot \<times> 'w engine" where
  "candle_slot cf candle mo slot c =
    (case slot of (St, r) \<Rightarrow>
      if rn_interface r = TICK \<or> st_interval St \<noteq> cr_interval candle \<or> ba_symbol (to_bar candle) \<notin> set (st_symbols St)
      then ((St, r), c)
      else
        (case is_entry_blocked cf (fst (mo_clock mo)) c of
           (True, c) \<Rightarrow> ((St, r), c\<lparr>en_entry_blocked_total := en_entry_blocked_total c + 1\<rparr>)
         | (False, c) \<Rightarrow>
             (case dispatch_bar St (mo_clock mo) (mo_stamp mo) (to_bar candle) r of
                (None, r) \<Rightarrow> ((St, r), c)
              | (Some sg, r) \<Rightarrow>
                  ((St, r), snd (publish_signal cf mo (sg\<lparr>sg_generated_at := cr_close_time candle\<rparr>) (cr_trace_id candle) c)))))"

fun candle_slots :: "'w engine_config \<Rightarrow> candle_result \<Rightarrow> (nat \<Rightarrow> moment) \<Rightarrow> 'st slot list \<Rightarrow> 'w engine \<Rightarrow> 'st slot list \<times> 'w engine" where
  "candle_slots cf candle mos [] c = ([], c)"
| "candle_slots cf candle mos (slot # slots) c =
    (case candle_slot cf candle (mos 0) slot c of
       (slot, c) \<Rightarrow> (case candle_slots cf candle (\<lambda>i. mos (Suc i)) slots c of (slots, c) \<Rightarrow> (slot # slots, c)))"

fun dispatch_candles :: "'w engine_config \<Rightarrow> candle_result list \<Rightarrow> (nat \<Rightarrow> nat \<Rightarrow> moment) \<Rightarrow> 'st slot list \<times> 'w engine \<Rightarrow>
    'st slot list \<times> 'w engine" where
  "dispatch_candles cf [] mos sc = sc"
| "dispatch_candles cf (candle # candles) mos sc =
    dispatch_candles cf candles (\<lambda>i. mos (Suc i)) (candle_slots cf candle (mos 0) (fst sc) (snd sc))"

text \<open>
  \<open>_get_market_phase\<close> calls \<open>MarketPhase.current\<close>, which does not exist; the exception is caught and the phase is \<open>None\<close>.
\<close>

definition get_market_phase :: "market_phase option" where
  "get_market_phase = None"

record candle_input =
  cn_now1 :: rat
  cn_utc :: rat
  cn_mono :: rat
  cn_moments :: "nat \<Rightarrow> nat \<Rightarrow> moment"

text \<open>One round of \<open>_candle_processing_loop\<close>; \<open>None\<close> when the pages of the cache outnumber the fuel.\<close>

definition candle_round :: "nat \<Rightarrow> 'w engine_config \<Rightarrow> candle_input \<Rightarrow> 'st slot list \<times> 'w engine \<Rightarrow> ('st slot list \<times> 'w engine) option" where
  "candle_round fuel cf k sc =
    (case sc of (slots, c) \<Rightarrow>
      (case is_kill_switch_active cf (cn_now1 k) c of
         (True, c) \<Rightarrow> Some (slots, c)
       | (False, c) \<Rightarrow>
          (case poll_new_candles fuel (ec_cache cf) (ec_candles cf) get_market_phase (cn_utc k) (cn_mono k)
                  (en_candle_consumer c, en_world c) of
             None \<Rightarrow> None
           | Some (r, consumer, w) \<Rightarrow>
              (let c = c\<lparr>en_candle_consumer := consumer, en_world := w\<rparr>
               in case r of
                    Inl e \<Rightarrow> Some (slots, c)
                  | Inr candles \<Rightarrow> Some (dispatch_candles cf candles (cn_moments k) (slots, c))))))"

section \<open>Configurations\<close>

fun refresh_slots :: "'w loader \<Rightarrow> str \<Rightarrow> 'st slot list \<Rightarrow> 'w \<Rightarrow> 'st slot list \<times> 'w" where
  "refresh_slots L now [] w = ([], w)"
| "refresh_slots L now ((St, r) # slots) w =
    (case refresh_runner L now (st_name St) (r, w) of
       (done, r, w) \<Rightarrow> (case refresh_slots L now slots w of (slots, w) \<Rightarrow> ((St, r) # slots, w)))"

definition config_round :: "'w engine_config \<Rightarrow> str \<Rightarrow> 'st slot list \<times> 'w engine \<Rightarrow> 'st slot list \<times> 'w engine" where
  "config_round cf now sc =
    (case sc of (slots, c) \<Rightarrow>
      (case refresh_slots (ec_loader cf) now slots (en_world c) of (slots, w) \<Rightarrow> (slots, c\<lparr>en_world := w\<rparr>)))"

text \<open>The registered intervals that the data ingestion does not produce; the engine refuses to start when there are any.\<close>

definition missing_configured_candle_intervals :: "str list \<Rightarrow> 'st slot list \<Rightarrow> str set" where
  "missing_configured_candle_intervals produced slots =
    {st_interval St |St r. (St, r) \<in> set slots \<and> rn_interface r \<noteq> TICK} - set produced"

section \<open>Runs\<close>

datatype engine_round = KafkaRound kafka_input | CandleRound candle_input | ConfigRound str

fun engine_step :: "nat \<Rightarrow> 'w engine_config \<Rightarrow> engine_round \<Rightarrow> 'st slot list \<times> 'w engine \<Rightarrow> ('st slot list \<times> 'w engine) option" where
  "engine_step fuel cf (KafkaRound k) sc = Some (kafka_round cf k sc)"
| "engine_step fuel cf (CandleRound k) sc = candle_round fuel cf k sc"
| "engine_step fuel cf (ConfigRound now) sc = Some (config_round cf now sc)"

fun run_engine :: "nat \<Rightarrow> 'w engine_config \<Rightarrow> engine_round list \<Rightarrow> 'st slot list \<times> 'w engine \<Rightarrow> ('st slot list \<times> 'w engine) option" where
  "run_engine fuel cf [] sc = Some sc"
| "run_engine fuel cf (k # ks) sc =
    (case engine_step fuel cf k sc of None \<Rightarrow> None | Some sc \<Rightarrow> run_engine fuel cf ks sc)"

end
