(* ===== verification/StrategyEngineSafety.thy ===== *)
theory StrategyEngineSafety
  imports StrategyEngineModel
begin

text \<open>
  What stops the strategy engine from emitting signals (the kill switch, the entry block, the gap flag of a tick) and what
  its candle signals are stamped with.
\<close>

section \<open>The kill switch\<close>

text \<open>The check is a cache of the contract \<open>retrying_flag\<close>.\<close>

definition read_halts :: "'w engine_config \<Rightarrow> 'w \<Rightarrow> bool option \<times> 'w" where
  "read_halts cf w =
    (case dy_get (ec_dynamo cf) w (ec_table cf) kill_switch_key of
       (Inl e, w) \<Rightarrow> (None, w)
     | (Inr found, w) \<Rightarrow> (Some (row_halts cf found), w))"

definition refresh_halt :: "'w engine_config \<Rightarrow> rat \<Rightarrow> 'w engine \<times> 'w \<Rightarrow> 'w engine \<times> 'w" where
  "refresh_halt cf now cw =
    (case cw of (c, w) \<Rightarrow>
      (case is_kill_switch_active cf now (c\<lparr>en_world := w\<rparr>) of (b, d) \<Rightarrow> (d\<lparr>en_world := en_world c\<rparr>, en_world d)))"

interpretation halt: retrying_flag "refresh_halt cf" id id "read_halts cf" en_ks_active en_ks_checked_at "ec_poll_interval cf" for cf
  by unfold_locales
    (auto simp: refresh_halt_def is_kill_switch_active_def read_halts_def split: prod.splits sum.splits)

text \<open>Every read of the kill switch's row succeeds and finds it active.\<close>

definition halt_in_store :: "'w engine_config \<Rightarrow> bool" where
  "halt_in_store cf \<longleftrightarrow> (\<forall>w. fst (read_halts cf w) = Some True)"

definition halting :: "'w engine_config \<Rightarrow> rat \<Rightarrow> 'w engine \<Rightarrow> bool" where
  "halting cf t c \<longleftrightarrow> en_ks_active c \<or> en_ks_checked_at c + ec_poll_interval cf \<le> t"

lemma check_result: "is_kill_switch_active cf now c = (b, d) \<Longrightarrow> b = en_ks_active d \<and> en_attempts d = en_attempts c"
  by (auto simp: is_kill_switch_active_def split: if_splits prod.splits sum.splits)

lemma check_halting:
  assumes "halt_in_store cf" "halting cf t c" "t \<le> now" "is_kill_switch_active cf now c = (b, d)"
  shows "b \<and> halting cf t d \<and> en_attempts d = en_attempts c"
proof -
  have "en_ks_active d"
  proof (cases "now - en_ks_checked_at c < ec_poll_interval cf")
    case True
    then show ?thesis using assms(2-4) by (auto simp: is_kill_switch_active_def halting_def)
  next
    case False
    have "en_ks_active (fst (refresh_halt cf now (c, en_world c)))"
      using halt.flag_after_load [of now c cf "en_world c" True] False assms(1) by (simp add: halt_in_store_def)
    then show ?thesis using assms(4) by (simp add: refresh_halt_def)
  qed
  then show ?thesis using check_result [OF assms(4)] by (simp add: halting_def)
qed

fun checked_from :: "rat \<Rightarrow> engine_round \<Rightarrow> bool" where
  "checked_from t (KafkaRound k) \<longleftrightarrow> t \<le> kr_now1 k"
| "checked_from t (CandleRound k) \<longleftrightarrow> t \<le> cn_now1 k"
| "checked_from t (ConfigRound now) \<longleftrightarrow> True"

lemma config_round_frame: "config_round cf now (slots, c) = (slots', c') \<Longrightarrow> c' = c\<lparr>en_world := en_world c'\<rparr>"
  by (auto simp: config_round_def split: prod.splits)

lemma halted_step:
  assumes "halt_in_store cf" "halting cf t c" "checked_from t k" "engine_step fuel cf k (slots, c) = Some (slots', c')"
  shows "halting cf t c' \<and> en_attempts c' = en_attempts c"
proof (cases k)
  case (KafkaRound q)
  obtain b d where "is_kill_switch_active cf (kr_now1 q) c = (b, d)" by fastforce
  with check_halting [OF assms(1,2) _ this] KafkaRound assms(3,4) show ?thesis by (simp add: kafka_round_def)
next
  case (CandleRound q)
  obtain b d where "is_kill_switch_active cf (cn_now1 q) c = (b, d)" by fastforce
  with check_halting [OF assms(1,2) _ this] CandleRound assms(3,4) show ?thesis by (simp add: candle_round_def)
next
  case (ConfigRound now)
  obtain w where "c' = c\<lparr>en_world := w\<rparr>"
    using ConfigRound assms(4) config_round_frame [of cf now slots c slots' c'] by fastforce
  with assms(2) show ?thesis by (simp add: halting_def)
qed

text \<open>
  C37 Once the kill switch is active in the store, and the reads of it succeed, the engine hands no signal to its publisher
  from the first rounds that start a poll interval after its last check, whatever ticks, candles and reloads come.
\<close>

theorem halted_engine_emits_nothing:
  assumes "halt_in_store cf" "en_ks_checked_at c + ec_poll_interval cf \<le> t" "\<forall>k \<in> set ks. checked_from t k"
    and "run_engine fuel cf ks (slots, c) = Some (slots', c')"
  shows "en_attempts c' = en_attempts c"
proof -
  have "halting cf t c \<Longrightarrow> \<forall>k \<in> set ks. checked_from t k \<Longrightarrow> run_engine fuel cf ks (slots, c) = Some (slots', c') \<Longrightarrow>
    en_attempts c' = en_attempts c" for slots c
  proof (induction ks arbitrary: slots c)
    case (Cons k ks)
    then obtain s d where "engine_step fuel cf k (slots, c) = Some (s, d)"
      by (auto split: option.splits)
    with Cons.IH [of d s] Cons.prems halted_step [OF assms(1) Cons.prems(1) _ this] show ?case by simp
  qed simp
  with assms(2-) show ?thesis by (simp add: halting_def)
qed

section \<open>The entry block\<close>

text \<open>Every read of the entry block finds it set, or fails where the reader fails closed.\<close>

definition entries_closed :: "'w ebr_config \<Rightarrow> bool" where
  "entries_closed rd \<longleftrightarrow>
    (\<forall>w. case fst (dy_get (er_dynamo rd) w (er_table rd) entry_block_key) of
           Inl e \<Rightarrow> er_fail_closed rd
         | Inr None \<Rightarrow> False
         | Inr (Some i) \<Rightarrow> eb_blocked (blocked_from_item (er_num_str rd) i))"

definition blocking :: "'w ebr_config \<Rightarrow> rat \<Rightarrow> 'w engine \<Rightarrow> bool" where
  "blocking rd t c \<longleftrightarrow> eb_blocked (er_cached (en_reader c)) \<or> er_cached_at (en_reader c) + er_ttl rd \<le> t"

lemma entry_check_blocking:
  assumes "ec_reader cf = Some rd" "entries_closed rd" "blocking rd t c" "t \<le> now" "is_entry_blocked cf now c = (b, d)"
  shows "b \<and> blocking rd t d \<and> en_attempts d = en_attempts c"
proof (cases "now - er_cached_at (en_reader c) < er_ttl rd")
  case True
  then show ?thesis using assms by (auto simp: is_entry_blocked_def eb_read_def blocking_def)
next
  case False
  obtain g w where g: "dy_get (er_dynamo rd) (en_world c) (er_table rd) entry_block_key = (g, w)" by fastforce
  have "case g of Inl e \<Rightarrow> er_fail_closed rd | Inr None \<Rightarrow> False | Inr (Some i) \<Rightarrow> eb_blocked (blocked_from_item (er_num_str rd) i)"
    using assms(2) [unfolded entries_closed_def, rule_format, of "en_world c"] g by simp
  then show ?thesis
    using assms False
    by (auto simp: is_entry_blocked_def eb_read_def g blocking_def eb_fail_closed_def Let_def split: sum.splits option.splits)
qed

text \<open>What stays as it was at a runner: everything but its strategy and the circuit breaker.\<close>

definition uncounted :: "'st slot \<Rightarrow> 'st slot \<Rightarrow> bool" where
  "uncounted x y \<longleftrightarrow> fst y = fst x \<and> rn_signals_today (snd y) = rn_signals_today (snd x) \<and>
    rn_total_signals (snd y) = rn_total_signals (snd x)"

lemma uncounted_refl [simp]: "uncounted x x"
  by (simp add: uncounted_def)

lemma uncounted_trans: "uncounted x y \<Longrightarrow> uncounted y z \<Longrightarrow> uncounted x z"
  by (simp add: uncounted_def)

lemma uncounted_strategy [simp]: "uncounted (St, r) (St, r\<lparr>rn_strategy := s\<rparr>)"
  by (simp add: uncounted_def)

lemmas uncounted_list_refl [simp] = list_all2_refl [of uncounted, OF uncounted_refl]

lemma uncounted_list_trans:
  "list_all2 uncounted xs ys \<Longrightarrow> list_all2 uncounted ys zs \<Longrightarrow> list_all2 uncounted xs zs"
  by (rule list_all2_trans [OF uncounted_trans])

lemma feed_tick_frame:
  "feed_tick St symbol price volume timestamp r = (z, t) \<Longrightarrow>
    (\<exists>s. t = r\<lparr>rn_strategy := s\<rparr>) \<and> (z = Inr None \<or> (\<exists>e. z = Inl e))"
  by (auto simp: feed_tick_def split: prod.splits sum.splits)

definition quiet :: "'w ebr_config \<Rightarrow> rat \<Rightarrow> 'w engine \<Rightarrow> 'w engine \<Rightarrow> bool" where
  "quiet rd t c d \<longleftrightarrow> blocking rd t d \<and> en_attempts d = en_attempts c"

lemma blocked_tick:
  assumes "ec_reader cf = Some rd" "entries_closed rd" "blocking rd t c" "t \<le> fst (mo_clock mo)"
    and "tick_slot cf symbol price volume timestamp suppress trace_id mo slot c = (z, slot', d)"
  shows "quiet rd t c d \<and> uncounted slot slot' \<and> (z = Inr None \<or> (\<exists>e. z = Inl e))"
proof -
  obtain St r where slot: "slot = (St, r)" by fastforce
  obtain x q where x: "feed_tick St symbol price volume timestamp r = (x, q)" by fastforce
  obtain b e where e: "is_entry_blocked cf (fst (mo_clock mo)) c = (b, e)" by fastforce
  note fed = feed_tick_frame [OF x] and check = entry_check_blocking [OF assms(1-4) e]
  show ?thesis
  proof (cases "rn_interface r \<noteq> TICK \<or> symbol \<notin> set (st_symbols St)")
    case True
    then show ?thesis using assms(3,5) by (auto simp: tick_slot_def slot quiet_def)
  next
    case watched: False
    show ?thesis
    proof (cases suppress)
      case True
      then show ?thesis using watched assms(3,5) fed by (auto simp: tick_slot_def slot x quiet_def)
    next
      case False
      then show ?thesis
        using watched assms(5) fed check
        by (auto simp: tick_slot_def slot x e quiet_def blocking_def split: sum.splits)
    qed
  qed
qed

lemma blocked_ticks:
  assumes "ec_reader cf = Some rd" "entries_closed rd" "blocking rd t c" "\<forall>i. t \<le> fst (mo_clock (mos i))"
    and "process_tick cf symbol price volume timestamp suppress trace_id mos slots c = (z, slots', d)"
  shows "quiet rd t c d \<and> list_all2 uncounted slots slots'"
  using assms(3-)
proof (induction slots arbitrary: mos c z slots' d)
  case (Cons slot slots)
  obtain x s e where x: "tick_slot cf symbol price volume timestamp suppress trace_id (mos 0) slot c = (x, s, e)"
    by (metis prod_cases3)
  obtain y u f where y: "process_tick cf symbol price volume timestamp suppress trace_id (\<lambda>i. mos (Suc i)) slots e = (y, u, f)"
    by (metis prod_cases3)
  note head = blocked_tick [OF assms(1,2) Cons.prems(1) _ x] and tail = Cons.IH [OF _ _ y]
  have e: "quiet rd t c e" "uncounted slot s"
    using head Cons.prems(2) by auto
  then have "quiet rd t e f \<and> list_all2 uncounted slots u"
    using tail Cons.prems(2) by (simp add: quiet_def)
  with e Cons.prems(3) x y show ?case
    by (auto simp: quiet_def split: sum.splits)
qed (simp add: quiet_def)

lemma blocked_candle:
  assumes "ec_reader cf = Some rd" "entries_closed rd" "blocking rd t c" "t \<le> fst (mo_clock mo)" "candle_slot cf candle mo slot c = (slot', d)"
  shows "quiet rd t c d \<and> slot' = slot"
proof -
  obtain b e where e: "is_entry_blocked cf (fst (mo_clock mo)) c = (b, e)" by fastforce
  show ?thesis
    using assms entry_check_blocking [OF assms(1-4) e]
    by (auto simp: candle_slot_def e quiet_def blocking_def split: prod.splits if_splits)
qed

lemma blocked_candle_slots:
  assumes "ec_reader cf = Some rd" "entries_closed rd" "blocking rd t c" "\<forall>i. t \<le> fst (mo_clock (mos i))" "candle_slots cf candle mos slots c = (slots', d)"
  shows "quiet rd t c d \<and> slots' = slots"
  using assms(3-)
proof (induction slots arbitrary: mos c slots' d)
  case (Cons slot slots)
  obtain s e where x: "candle_slot cf candle (mos 0) slot c = (s, e)" by fastforce
  obtain u f where y: "candle_slots cf candle (\<lambda>i. mos (Suc i)) slots e = (u, f)" by fastforce
  have "quiet rd t c e \<and> s = slot"
    using blocked_candle [OF assms(1,2) Cons.prems(1) _ x] Cons.prems(2) by blast
  with Cons.IH [OF _ _ y] Cons.prems(2,3) x y show ?case by (auto simp: quiet_def)
qed (simp add: quiet_def)

lemma blocked_candles:
  assumes "ec_reader cf = Some rd" "entries_closed rd" "blocking rd t c" "\<forall>i j. t \<le> fst (mo_clock (mos i j))" "dispatch_candles cf candles mos (slots, c) = (slots', d)"
  shows "quiet rd t c d \<and> slots' = slots"
  using assms(3-)
proof (induction candles arbitrary: mos c)
  case (Cons candle candles)
  obtain s e where x: "candle_slots cf candle (mos 0) slots c = (s, e)" by fastforce
  have "quiet rd t c e \<and> s = slots"
    using blocked_candle_slots [OF assms(1,2) Cons.prems(1) _ x] Cons.prems(2) by blast
  with Cons.IH [of e "\<lambda>i. mos (Suc i)"] Cons.prems(2,3) x show ?case by (auto simp: quiet_def)
qed (simp add: quiet_def)

lemma check_reader: "is_kill_switch_active cf now c = (b, d) \<Longrightarrow> en_reader d = en_reader c"
  by (auto simp: is_kill_switch_active_def split: if_splits prod.splits sum.splits)

lemma checked_quiet:
  assumes "blocking rd t c" "is_kill_switch_active cf now c = (b, d)"
  shows "quiet rd t c d"
  using assms check_result [OF assms(2)] check_reader [OF assms(2)] by (simp add: quiet_def blocking_def)

lemma quiet_trans: "quiet rd t c d \<Longrightarrow> quiet rd t d e \<Longrightarrow> quiet rd t c e"
  by (simp add: quiet_def)

lemma quiet_blocking: "quiet rd t c d \<Longrightarrow> blocking rd t d"
  by (simp add: quiet_def)

lemma quiet_world [simp]:
  "blocking rd t (c\<lparr>en_world := w\<rparr>) = blocking rd t c" "quiet rd t c (d\<lparr>en_world := w\<rparr>) = quiet rd t c d"
  "quiet rd t (c\<lparr>en_world := w\<rparr>) d = quiet rd t c d" "quiet rd t c c = blocking rd t c"
  "blocking rd t (c\<lparr>en_candle_consumer := k\<rparr>) = blocking rd t c" "quiet rd t (c\<lparr>en_candle_consumer := k\<rparr>) d = quiet rd t c d"
  "quiet rd t c (d\<lparr>en_candle_consumer := k\<rparr>) = quiet rd t c d"
  by (simp_all add: quiet_def blocking_def)

lemma blocked_kafka_round:
  assumes "ec_reader cf = Some rd" "entries_closed rd" "blocking rd t c" "\<forall>i. t \<le> fst (mo_clock (kr_moments k i))"
    and "kafka_round cf k (slots, c) = (slots', c')"
  shows "quiet rd t c c' \<and> list_all2 uncounted slots slots'"
proof -
  obtain b1 c1 where c1: "is_kill_switch_active cf (kr_now1 k) c = (b1, c1)" by fastforce
  note q1 = checked_quiet [OF assms(3) c1]
  show ?thesis
  proof (cases "b1 \<or> kr_polled k = None")
    case True
    then show ?thesis using assms(5) c1 q1 by (auto simp: kafka_round_def split: bool.splits)
  next
    case False
    then obtain msg where msg: "\<not> b1" "kr_polled k = Some msg" by auto
    obtain z w where z: "poll_tick (ec_float cf) (ec_consumer cf) (kr_event_id k) (kr_iso k) msg (en_world c1) = (z, w)" by fastforce
    show ?thesis
    proof (cases "\<exists>e. z = Inr (Some e)")
      case False
      then show ?thesis using assms(5) c1 q1 msg z by (auto simp: kafka_round_def split: sum.splits option.splits)
    next
      case True
      then obtain e where e: "z = Inr (Some e)" by blast
      obtain b2 c2 where c2: "is_kill_switch_active cf (kr_now2 k) (c1\<lparr>en_world := w\<rparr>) = (b2, c2)" by fastforce
      have "quiet rd t (c1\<lparr>en_world := w\<rparr>) c2"
        by (rule checked_quiet [OF _ c2]) (use quiet_blocking [OF q1] in simp)
      then have q2: "quiet rd t c c2"
        using quiet_trans [OF q1] by simp
      obtain y s d where y: "handle_kafka_tick cf (kr_moments k) e (slots, c2) = (y, s, d)" by (metis prod_cases3)
      have "quiet rd t c2 d \<and> list_all2 uncounted slots s"
        using blocked_ticks [OF assms(1,2) quiet_blocking [OF q2] assms(4)] y by (fastforce simp: handle_kafka_tick_def)
      then have "quiet rd t c d \<and> list_all2 uncounted slots s"
        using quiet_trans [OF q2] by blast
      with assms(5) c1 msg z e c2 y q2 show ?thesis
        by (auto simp: kafka_round_def quiet_blocking split: bool.splits sum.splits prod.splits)
    qed
  qed
qed

lemma blocked_candle_round:
  assumes "ec_reader cf = Some rd" "entries_closed rd" "blocking rd t c" "\<forall>i j. t \<le> fst (mo_clock (cn_moments k i j))"
    and "candle_round fuel cf k (slots, c) = Some (slots', c')"
  shows "quiet rd t c c' \<and> list_all2 uncounted slots slots'"
proof -
  obtain b1 c1 where c1: "is_kill_switch_active cf (cn_now1 k) c = (b1, c1)" by fastforce
  note q1 = checked_quiet [OF assms(3) c1]
  show ?thesis
  proof (cases b1)
    case True
    then show ?thesis using assms(5) c1 q1 by (simp add: candle_round_def)
  next
    case False
    then obtain r consumer w where p: "poll_new_candles fuel (ec_cache cf) (ec_candles cf) get_market_phase (cn_utc k) (cn_mono k)
        (en_candle_consumer c1, en_world c1) = Some (r, consumer, w)"
      using assms(5) c1 by (auto simp: candle_round_def split: option.splits)
    let ?c2 = "c1\<lparr>en_candle_consumer := consumer, en_world := w\<rparr>"
    have q2: "quiet rd t c ?c2" using q1 by simp
    show ?thesis
    proof (cases r)
      case (Inl e)
      then show ?thesis using assms(5) c1 False p q2 by (simp add: candle_round_def Let_def)
    next
      case (Inr candles)
      then have "dispatch_candles cf candles (cn_moments k) (slots, ?c2) = (slots', c')"
        using assms(5) c1 False p by (simp add: candle_round_def Let_def)
      from blocked_candles [OF assms(1,2) quiet_blocking [OF q2] assms(4) this] quiet_trans [OF q2]
      show ?thesis by simp
    qed
  qed
qed

lemma refresh_slots_uncounted: "refresh_slots L now slots w = (slots', w') \<Longrightarrow> list_all2 uncounted slots slots'"
proof (induction slots arbitrary: w slots' w')
  case (Cons slot slots)
  obtain St r where slot: "slot = (St, r)" by fastforce
  obtain b q w1 where q: "refresh_runner L now (st_name St) (r, w) = (b, q, w1)" by (metis prod_cases3)
  have "uncounted (St, r) (St, q)"
    using q by (auto simp: refresh_runner_def apply_config_def uncounted_def Let_def split: prod.splits sum.splits if_splits)
  with Cons q slot show ?case by (auto split: prod.splits)
qed simp

fun dispatches_from :: "rat \<Rightarrow> engine_round \<Rightarrow> bool" where
  "dispatches_from t (KafkaRound k) \<longleftrightarrow> (\<forall>i. t \<le> fst (mo_clock (kr_moments k i)))"
| "dispatches_from t (CandleRound k) \<longleftrightarrow> (\<forall>i j. t \<le> fst (mo_clock (cn_moments k i j)))"
| "dispatches_from t (ConfigRound now) \<longleftrightarrow> True"

lemma blocked_step:
  assumes "ec_reader cf = Some rd" "entries_closed rd" "blocking rd t c" "dispatches_from t k"
    and "engine_step fuel cf k (slots, c) = Some (slots', c')"
  shows "quiet rd t c c' \<and> list_all2 uncounted slots slots'"
proof (cases k)
  case (ConfigRound now)
  then have run: "config_round cf now (slots, c) = (slots', c')" using assms(5) by simp
  then have "list_all2 uncounted slots slots'"
    by (auto simp: config_round_def refresh_slots_uncounted split: prod.splits)
  moreover have "c' = c\<lparr>en_world := en_world c'\<rparr>" by (rule config_round_frame [OF run])
  ultimately show ?thesis using assms(3) quiet_world(2,4) by metis
next
  case (KafkaRound q)
  with blocked_kafka_round [OF assms(1-3), of q slots slots' c'] assms(4,5) show ?thesis by simp
next
  case (CandleRound q)
  with blocked_candle_round [OF assms(1-3) _, of q fuel slots slots' c'] assms(4,5) show ?thesis by simp
qed

text \<open>
  While the entry block is set in the store, or unreadable with a reader that fails closed, the engine emits no signal
  from the first rounds after the cached copy has expired, and the blocked signals use up no runner's daily allowance.
\<close>

theorem blocked_engine_emits_nothing:
  assumes "ec_reader cf = Some rd" "entries_closed rd" "er_cached_at (en_reader c) + er_ttl rd \<le> t"
    and "\<forall>k \<in> set ks. dispatches_from t k" "run_engine fuel cf ks (slots, c) = Some (slots', c')"
  shows "en_attempts c' = en_attempts c \<and> list_all2 uncounted slots slots'"
proof -
  have "blocking rd t c \<Longrightarrow> \<forall>k \<in> set ks. dispatches_from t k \<Longrightarrow> run_engine fuel cf ks (slots, c) = Some (slots', c') \<Longrightarrow>
    en_attempts c' = en_attempts c \<and> list_all2 uncounted slots slots'" for slots c
  proof (induction ks arbitrary: slots c)
    case (Cons k ks)
    then obtain s d where "engine_step fuel cf k (slots, c) = Some (s, d)"
      by (auto split: option.splits)
    with blocked_step [OF assms(1,2) Cons.prems(1) _ this] Cons.IH [of d s] Cons.prems show ?case
      by (auto simp: quiet_def intro: uncounted_list_trans)
  qed simp
  from this [OF _ assms(4,5)] assms(3) show ?thesis by (simp add: blocking_def)
qed

section \<open>Ticks after a gap\<close>

text \<open>
  A tick that the feed flags as following a gap only warms the strategies up: the engine and everything of a runner but
  its strategy's state stay as they were, so no signal is emitted, counted or kept from the circuit breaker.
\<close>

theorem gap_tick_only_warms_up:
  "case process_tick cf symbol price volume timestamp True trace_id mos slots c of (z, slots', c') \<Rightarrow>
     c' = c \<and> list_all2 (\<lambda>x y. \<exists>s. y = (fst x, (snd x)\<lparr>rn_strategy := s\<rparr>)) slots slots'"
proof (induction slots arbitrary: mos)
  case (Cons slot slots)
  obtain St r where slot: "slot = (St, r)" by fastforce
  obtain x q where x: "feed_tick St symbol price volume timestamp r = (x, q)" by fastforce
  have same: "list_all2 (\<lambda>x y. \<exists>s. y = (fst x, (snd x)\<lparr>rn_strategy := s\<rparr>)) slots slots"
    by (rule list.rel_refl) (metis prod.collapse runner.surjective runner.update_convs(1))
  have "\<exists>y. tick_slot cf symbol price volume timestamp True trace_id (mos 0) slot c = (fst y, snd y, c) \<and>
    (\<exists>s. snd y = (St, r\<lparr>rn_strategy := s\<rparr>))"
  proof (cases "rn_interface r \<noteq> TICK \<or> symbol \<notin> set (st_symbols St)")
    case True
    then show ?thesis by (intro exI [of _ "(Inr None, (St, r))"]) (auto simp: tick_slot_def slot intro: exI [of _ "rn_strategy r"])
  next
    case False
    then show ?thesis
      using feed_tick_frame [OF x] by (intro exI [of _ "(x, (St, q))"]) (auto simp: tick_slot_def slot x)
  qed
  then obtain y s where y: "tick_slot cf symbol price volume timestamp True trace_id (mos 0) slot c = (y, (St, r\<lparr>rn_strategy := s\<rparr>), c)"
    by auto
  show ?case
    using Cons.IH [of "\<lambda>i. mos (Suc i)"] same by (auto simp: slot y [unfolded slot] split: sum.splits prod.splits)
qed simp

section \<open>The time stamp of candle signals\<close>

lemma publish_signal_attempts: "en_attempts (snd (publish_signal cf mo sg trace_id c)) = en_attempts c @ [(sg, trace_id)]"
  by (auto simp: publish_signal_def Let_def split: prod.splits sum.splits)

definition stamped :: "candle_result list \<Rightarrow> signal \<times> str \<Rightarrow> bool" where
  "stamped candles a \<longleftrightarrow> (\<exists>candle \<in> set candles. sg_generated_at (fst a) = cr_close_time candle \<and> snd a = cr_trace_id candle)"

definition extends_by :: "candle_result list \<Rightarrow> 'w engine \<Rightarrow> 'w engine \<Rightarrow> bool" where
  "extends_by candles c d \<longleftrightarrow> (\<exists>xs. en_attempts d = en_attempts c @ xs \<and> list_all (stamped candles) xs)"

lemma extends_refl: "en_attempts d = en_attempts c \<Longrightarrow> extends_by candles c d"
  by (auto simp: extends_by_def)

lemma extends_trans: "extends_by candles c d \<Longrightarrow> extends_by candles d e \<Longrightarrow> extends_by candles c e"
  by (auto simp: extends_by_def)

lemma entry_check_attempts: "is_entry_blocked cf now c = (b, d) \<Longrightarrow> en_attempts d = en_attempts c"
  by (auto simp: is_entry_blocked_def split: option.splits prod.splits)

lemma candle_slot_stamped:
  assumes "candle_slot cf candle mo slot c = (slot', d)" "candle \<in> set candles"
  shows "extends_by candles c d"
proof -
  obtain b e where e: "is_entry_blocked cf (fst (mo_clock mo)) c = (b, e)" by fastforce
  note same = entry_check_attempts [OF e]
  show ?thesis
    using assms same
    by (auto simp: candle_slot_def e extends_by_def stamped_def publish_signal_attempts split: prod.splits if_splits bool.splits option.splits)
qed

lemma candle_slots_stamped:
  assumes "candle_slots cf candle mos slots c = (slots', d)" "candle \<in> set candles"
  shows "extends_by candles c d"
  using assms(1)
proof (induction slots arbitrary: mos c slots')
  case (Cons slot slots)
  obtain s e where e: "candle_slot cf candle (mos 0) slot c = (s, e)" by fastforce
  obtain u where "candle_slots cf candle (\<lambda>i. mos (Suc i)) slots e = (u, d)"
    using Cons.prems e by (auto split: prod.splits)
  from extends_trans [OF candle_slot_stamped [OF e assms(2)] Cons.IH [OF this]] show ?case .
qed (simp add: extends_refl)

text \<open>
  Every signal that a batch of candles makes the engine emit carries the close time and the trace of one of these candles,
  whatever the clock shows, as the identifier that is computed from that time needs.
\<close>

theorem candle_signals_stamped:
  assumes "dispatch_candles cf candles mos (slots, c) = (slots', c')"
  shows "\<exists>xs. en_attempts c' = en_attempts c @ xs \<and> list_all (stamped candles) xs"
proof -
  have "set cs \<subseteq> set candles \<Longrightarrow> dispatch_candles cf cs mos (slots, c) = (slots', c') \<Longrightarrow> extends_by candles c c'" for cs mos slots c
  proof (induction cs arbitrary: mos slots c)
    case (Cons candle cs)
    obtain s e where e: "candle_slots cf candle (mos 0) slots c = (s, e)" by fastforce
    from Cons.prems e have "dispatch_candles cf cs (\<lambda>i. mos (Suc i)) (s, e) = (slots', c')" by simp
    with extends_trans [OF candle_slots_stamped [OF e]] Cons.IH Cons.prems(1) show ?case by simp
  qed (simp add: extends_refl)
  from this [OF subset_refl assms] show ?thesis by (simp add: extends_by_def)
qed

section \<open>Witnesses\<close>

text \<open>A store whose only row is the given one, and an engine with the opening-range strategy over it.\<close>

definition row_dynamo :: "item \<Rightarrow> unit dynamo" where
  "row_dynamo i = \<lparr>dy_tables = \<lambda>w tbl k. Some i, dy_get = \<lambda>w tbl k. (Inr (Some i), w), dy_put = \<lambda>w tbl k j c. (Inl ClientError, w),
     dy_update = \<lambda>w tbl k us c. (Inl ClientError, w), dy_transact = \<lambda>w ps. (Inl ClientError, w),
     dy_query = \<lambda>w tbl ix eqs s. (Inl ClientError, w), dy_scan = \<lambda>w tbl p s. (Inl ClientError, w)\<rparr>"

definition demo_reader_config :: "item \<Rightarrow> unit ebr_config" where
  "demo_reader_config i = \<lparr>er_dynamo = row_dynamo i, er_table = ''risk-state'', er_ttl = 5, er_fail_closed = True, er_num_str = \<lambda>x. []\<rparr>"

definition demo_engine_config :: "item \<Rightarrow> unit engine_config" where
  "demo_engine_config i =
    \<lparr>ec_dynamo = row_dynamo i, ec_table = ''risk-state'', ec_num_str = \<lambda>x. [], ec_poll_interval = 1,
     ec_reader = Some (demo_reader_config i), ec_publisher = \<lparr>sp_codec = demo_codec, sp_producer = None\<rparr>, ec_float = \<lambda>s. None,
     ec_consumer = \<lparr>kc_codec = demo_codec, kc_failure = None, kc_commit = \<lambda>w m. (Inr (), w)\<rparr>, ec_cache = demo_cache,
     ec_candles = service_consumer,
     ec_loader = \<lparr>ld_dynamo = row_dynamo i, ld_table = ''strategy-config'', ld_env = ''production'', ld_parse = \<lambda>s. None\<rparr>\<rparr>"

definition new_engine :: "'w \<Rightarrow> 'w engine" where
  "new_engine w = \<lparr>en_ks_active = False, en_ks_checked_at = 0, en_reader = new_reader, en_entry_blocked_total = 0,
     en_read_failure_total = 0, en_candle_consumer = new_candle_consumer 0, en_attempts = [], en_world = w\<rparr>"

definition demo_moment :: moment where
  "demo_moment = \<lparr>mo_clock = (700, 5), mo_stamp = (''s1'', 700), mo_event_id = ''e1'', mo_trace_id = ''t1'', mo_iso = ''now''\<rparr>"

definition demo_rounds :: "engine_round list" where
  "demo_rounds = [ConfigRound ''now'',
     CandleRound \<lparr>cn_now1 = 700, cn_utc = 661, cn_mono = 700, cn_moments = \<lambda>i j. demo_moment\<rparr>,
     KafkaRound \<lparr>kr_now1 = 701, kr_now2 = 702, kr_polled = None, kr_event_id = ''e2'', kr_iso = ''now'', kr_moments = \<lambda>i. demo_moment\<rparr>]"

definition demo_slots :: "orb slot list" where
  "demo_slots = [(orb_strategy nse_orb [''TCS''], new_runner new_orb CANDLE None 5)]"

lemma demo_candle_round: "ec_cache cf = demo_cache \<Longrightarrow> \<exists>s d. candle_round (Suc n) cf k (slots, c) = Some (s, d)"
  using demo_polls [of n "ec_candles cf"]
  by (auto simp: candle_round_def poll_new_candles_def read_candle_cache_def query_candle_cache_def demo_cache_def get_market_phase_def Let_def
      split: prod.splits sum.splits option.splits bool.splits)

lemma demo_run:
  assumes "ec_cache cf = demo_cache"
  shows "\<exists>s d. run_engine (Suc n) cf ks (slots, c) = Some (s, d)"
proof (induction ks arbitrary: slots c)
  case (Cons k ks)
  have "\<exists>s d. engine_step (Suc n) cf k (slots, c) = Some (s, d)"
    using demo_candle_round [OF assms] by (cases k) simp_all
  with Cons.IH show ?case by fastforce
qed simp

theorem halted_engine_emits_nothing_witness:
  "\<exists>s d. run_engine 1 (demo_engine_config [''active'' \<mapsto> BOOL True]) demo_rounds (demo_slots, new_engine ()) = Some (s, d) \<and>
    en_attempts d = []"
proof -
  let ?cf = "demo_engine_config [''active'' \<mapsto> BOOL True]"
  obtain s d where run: "run_engine 1 ?cf demo_rounds (demo_slots, new_engine ()) = Some (s, d)"
    using demo_run [of ?cf 0] by (fastforce simp: demo_engine_config_def)
  have "en_attempts d = en_attempts (new_engine ())"
    by (rule halted_engine_emits_nothing [OF _ _ _ run, of 1])
      (simp_all add: halt_in_store_def read_halts_def demo_engine_config_def row_dynamo_def row_halts_def plain_row_def attr_bool_def
        new_engine_def demo_rounds_def)
  with run show ?thesis by (simp add: new_engine_def)
qed

theorem blocked_engine_emits_nothing_witness:
  "\<exists>s d. run_engine 1 (demo_engine_config [''blocked'' \<mapsto> BOOL True]) demo_rounds (demo_slots, new_engine ()) = Some (s, d) \<and>
    en_attempts d = [] \<and> list_all2 uncounted demo_slots s"
proof -
  let ?cf = "demo_engine_config [''blocked'' \<mapsto> BOOL True]"
  let ?rd = "demo_reader_config [''blocked'' \<mapsto> BOOL True]"
  obtain s d where run: "run_engine 1 ?cf demo_rounds (demo_slots, new_engine ()) = Some (s, d)"
    using demo_run [of ?cf 0] by (fastforce simp: demo_engine_config_def)
  have closed: "entries_closed ?rd"
    by (simp add: entries_closed_def demo_reader_config_def row_dynamo_def blocked_from_item_def attr_bool_lowlevel_BOOL Let_def)
  have "en_attempts d = en_attempts (new_engine ()) \<and> list_all2 uncounted demo_slots s"
    by (rule blocked_engine_emits_nothing [OF _ closed _ _ run, of 5])
      (simp_all add: demo_engine_config_def demo_reader_config_def new_engine_def new_reader_def demo_rounds_def demo_moment_def)
  with run show ?thesis by (simp add: new_engine_def)
qed

text \<open>A strategy that answers every bar with a signal.\<close>

definition eager_strategy :: "unit strategy" where
  "eager_strategy = \<lparr>st_name = ''eager'', st_symbols = [''TCS''], st_interval = ''minute'', st_on_tick = ignore_tick,
     st_on_bar = \<lambda>st b s. (Inr (), s), st_generate_signal = \<lambda>s. (Some (demo_signal True), s)\<rparr>"

theorem candle_signals_stamped_witness:
  "\<exists>sg s d. dispatch_candles (demo_engine_config Map.empty) [result_of unary_codec demo_candle] (\<lambda>i j. demo_moment)
      ([(eager_strategy, new_runner () CANDLE None 5)], new_engine ()) = (s, d) \<and>
    en_attempts d = [sg] \<and> list_all (stamped [result_of unary_codec demo_candle]) [sg]"
proof -
  let ?candle = "result_of unary_codec demo_candle"
  obtain s d where run: "dispatch_candles (demo_engine_config Map.empty) [?candle] (\<lambda>i j. demo_moment)
      ([(eager_strategy, new_runner () CANDLE None 5)], new_engine ()) = (s, d)"
    by fastforce
  then have "length (en_attempts d) = 1"
    by (auto simp add: publish_signal_attempts candle_slot_def eager_strategy_def new_runner_def default_strategy_config_def demo_candle_def result_of_def
        to_bar_def is_entry_blocked_def demo_engine_config_def demo_reader_config_def row_dynamo_def eb_read_def blocked_from_item_def
        attr_bool_def lowlevel_def new_engine_def new_reader_def demo_moment_def eb_allow_def Let_def dispatch_bar_def should_dispatch_def
        is_open_def read_state_def cb_defs new_circuit_breaker_def dispatch_guarded_def check_cap_def reset_daily_cap_def apply_paper_flag_def quality_of_def)
  then obtain sg where "en_attempts d = [sg]"
    by (auto simp: length_Suc_conv)
  moreover obtain xs where "en_attempts d = en_attempts (new_engine ()) @ xs" "list_all (stamped [?candle]) xs"
    using candle_signals_stamped [OF run] by blast
  ultimately show ?thesis using run by (auto simp: new_engine_def)
qed

end
