(* ===== verification/MisSquareOff.thy ===== *)
theory MisSquareOff
  imports OrderManager RiskState
begin

text \<open>
  \<open>services/execution_engine/mis_square_off.py\<close>: the closing of the intraday positions before the broker does it.
  A time is its number of seconds since the epoch in Indian time.  The broker's client is that of
  \<open>brokers/zerodha_broker.py\<close>: \<open>place_order\<close> returns an \<open>OrderResponse\<close>, \<open>get_positions\<close> rows with the keys of
  \<open>zerodha_positions\<close>.  Logging is left out.
\<close>

section \<open>Times\<close>

definition day_start :: "rat \<Rightarrow> rat" where
  "day_start now = of_int (\<lfloor>now / 86400\<rfloor>) * 86400"

text \<open>\<open>_seconds_until_ist\<close>: zero when the time of the day has passed.\<close>

definition seconds_until_ist :: "rat \<Rightarrow> rat \<Rightarrow> rat" where
  "seconds_until_ist target now = max 0 (day_start now + target - now)"

definition IST_OFFSET_SECONDS :: rat where
  "IST_OFFSET_SECONDS = 19800"

section \<open>Positions\<close>

record mis_position =
  mp_symbol :: str
  mp_quantity :: rat
  mp_effective_dir :: str
  mp_close_side :: order_side
  mp_close_qty :: rat
  mp_avg_entry_price :: rat
  mp_last_price :: rat

definition exit_id :: "item \<Rightarrow> str option" where
  "exit_id i = (case i ''exit_order_id'' of Some (S s) \<Rightarrow> if s = [] then None else Some s | _ \<Rightarrow> None)"

definition resolve_position :: "item \<Rightarrow> str list \<Rightarrow> mis_position option" where
  "resolve_position i valid =
    (let avg_price = num_attr i ''avg_entry_price'' 0;
         last_price = (if num_attr i ''last_price'' 0 = 0 then avg_price else num_attr i ''last_price'' 0)
     in if (\<exists>e \<in> set_option (exit_id i). e \<in> set valid) then None
        else
          (case num_attr_opt i ''quantity'' of
             None \<Rightarrow> None
           | Some quantity \<Rightarrow>
              if \<bar>quantity\<bar> < 1 / 1000000000 then None
              else Some \<lparr>mp_symbol = str_attr i ''symbol'' ''UNKNOWN'', mp_quantity = quantity,
                mp_effective_dir = (if 0 < quantity then ''LONG'' else ''SHORT''),
                mp_close_side = (if 0 < quantity then SELL else BUY), mp_close_qty = \<bar>quantity\<bar>,
                mp_avg_entry_price = avg_price, mp_last_price = last_price\<rparr>))"

text \<open>\<open>_build_valid_exit_ids\<close>: an order that cannot be read, is missing or has ended counts as stale.\<close>

fun valid_ids :: "'w order_manager \<Rightarrow> item list \<Rightarrow> 'w \<Rightarrow> str list \<times> 'w" where
  "valid_ids m [] w = ([], w)"
| "valid_ids m (i # is) w =
    (case exit_id i of
       None \<Rightarrow> valid_ids m is w
     | Some e \<Rightarrow>
        (case get_stored_order m w e of
           (stored, w) \<Rightarrow>
             (case valid_ids m is w of
                (ids, w) \<Rightarrow>
                  (case stored of
                     Inr (Some so) \<Rightarrow> if op_status so \<in> {FILLED, CANCELLED, REJECTED} then ids else e # ids
                   | _ \<Rightarrow> ids, w))))"

definition build_valid_exit_ids :: "'w order_manager option \<Rightarrow> item list \<Rightarrow> 'w \<Rightarrow> str list \<times> 'w" where
  "build_valid_exit_ids om items w = (case om of None \<Rightarrow> ([], w) | Some m \<Rightarrow> valid_ids m items w)"

section \<open>The broker's rows\<close>

text \<open>A net position of the Kite API, and the row that \<open>get_positions\<close> of the broker's client makes of it.\<close>

record kite_position =
  kp_tradingsymbol :: str
  kp_exchange :: str
  kp_quantity :: rat
  kp_average_price :: rat
  kp_last_price :: rat
  kp_pnl :: rat
  kp_product :: str

definition zerodha_row :: "kite_position \<Rightarrow> meta" where
  "zerodha_row p =
    [(''symbol'', JStr (kp_tradingsymbol p)), (''exchange'', JStr (kp_exchange p)), (''quantity'', JNum (kp_quantity p)),
     (''average_price'', JNum (kp_average_price p)), (''last_price'', JNum (kp_last_price p)), (''pnl'', JNum (kp_pnl p)),
     (''product'', JStr (kp_product p))]"

definition zerodha_positions :: "('w \<Rightarrow> kite_position list res \<times> 'w) \<Rightarrow> 'w \<Rightarrow> meta list res \<times> 'w" where
  "zerodha_positions kite w = (case kite w of (r, w) \<Rightarrow> (map_sum id (map zerodha_row) r, w))"

text \<open>The quantity of the first row of a symbol; a row of another shape is skipped, and no row counts as zero.\<close>

fun broker_quantity :: "str \<Rightarrow> meta list \<Rightarrow> rat" where
  "broker_quantity symbol [] = 0"
| "broker_quantity symbol (p # ps) =
    (if map_of p ''tradingsymbol'' = Some (JStr symbol) \<and> map_of p ''product'' = Some (JStr ''MIS'')
     then (case map_of p ''quantity'' of Some (JNum q) \<Rightarrow> \<bar>q\<bar> | _ \<Rightarrow> 0)
     else broker_quantity symbol ps)"

section \<open>The manager\<close>

record 'w mis_config =
  mi_scan :: "'w \<Rightarrow> (item list \<times> str option) res \<times> 'w" \<comment> \<open>the filtered scan: the first page\<close>
  mi_manager :: "'w order_manager option"
  mi_place :: "'w \<Rightarrow> order_request \<Rightarrow> order_response res \<times> 'w"
  mi_kite :: "'w \<Rightarrow> kite_position list res \<times> 'w"
  mi_dynamo :: "'w dynamo"
  mi_kill_switch_table :: str
  mi_alert :: "('w \<Rightarrow> str \<Rightarrow> unit res \<times> 'w) option"
  mi_paper :: bool
  mi_close_time :: rat
  mi_deadline_time :: rat

record mis_counters =
  mc_positions_discovered :: "int option"
  mc_long_discovered :: "int option"
  mc_short_discovered :: "int option"
  mc_orders_placed :: "int option"
  mc_orders_rejected :: "int option"
  mc_positions_flat :: "int option"
  mc_at_deadline :: "bool option"
  mc_kill_switch_activated :: bool

text \<open>The state: the shared counters, when there are any, and the world.\<close>

type_synonym 'w mis = "mis_counters option \<times> 'w"

definition count :: "(mis_counters \<Rightarrow> mis_counters) \<Rightarrow> 'w mis \<Rightarrow> 'w mis" where
  "count f s = (map_option f (fst s), snd s)"

definition get_open_mis_positions :: "'w mis_config \<Rightarrow> 'w \<Rightarrow> mis_position list res \<times> 'w" where
  "get_open_mis_positions cf w =
    (case mi_scan cf w of
       (Inl e, w) \<Rightarrow> (Inl e, w)
     | (Inr (items, next_key), w) \<Rightarrow>
        (case build_valid_exit_ids (mi_manager cf) items w of
           (valid, w) \<Rightarrow> (Inr (List.map_filter (\<lambda>i. resolve_position i valid) items), w)))"

definition close_request :: "str \<Rightarrow> py_datetime \<Rightarrow> mis_position \<Rightarrow> order_request" where
  "close_request order_id now p =
    \<lparr>oq_order_id = order_id, oq_signal_id = ''mis-square-off-'' @ mp_symbol p, oq_risk_decision_id = ''mis-auto-close'',
     oq_symbol = mp_symbol p, oq_market = NSE, oq_side = mp_close_side p, oq_order_type = MARKET, oq_quantity = mp_close_qty p,
     oq_limit_price = None, oq_stop_price = None, oq_product_type = MIS, oq_extended_hours = False, oq_time_in_force = ''DAY'',
     oq_created_at = now, oq_metadata = []\<rparr>"

text \<open>
  \<open>_place_mis_close_order\<close>.  The paper fill is booked with the keyword \<open>market\<close>, which \<open>apply_fill_to_position\<close> does
  not take: the \<open>TypeError\<close> is caught.  The live branch asks the \<open>OrderResponse\<close> for \<open>success\<close>, an attribute it does not have.
\<close>

definition place_mis_close_order :: "'w mis_config \<Rightarrow> str \<Rightarrow> py_datetime \<Rightarrow> mis_position \<Rightarrow> 'w \<Rightarrow> str option res \<times> 'w" where
  "place_mis_close_order cf order_id now p w =
    (if mp_close_qty p \<le> 0 then (Inr None, w)
     else if mi_paper cf then (Inr None, w)
     else
       (case mi_place cf w (close_request order_id now p) of
          (Inl e, w) \<Rightarrow> (Inl e, w)
        | (Inr response, w) \<Rightarrow> (Inl AttributeError, w)))"

text \<open>The loop over the positions: the ids of the placed orders and the number of the others.\<close>

fun place_all :: "'w mis_config \<Rightarrow> (nat \<Rightarrow> str \<times> py_datetime) \<Rightarrow> mis_position list \<Rightarrow> 'w \<Rightarrow> (str list \<times> nat) \<times> 'w" where
  "place_all cf fresh [] w = (([], 0), w)"
| "place_all cf fresh (p # ps) w =
    (case place_mis_close_order cf (fst (fresh 0)) (snd (fresh 0)) p w of
       (r, w) \<Rightarrow>
         (case place_all cf (\<lambda>i. fresh (Suc i)) ps w of
            ((ids, rejected), w) \<Rightarrow>
              ((case r of Inr (Some order_id) \<Rightarrow> (order_id # ids, rejected) | _ \<Rightarrow> (ids, Suc rejected)), w)))"

definition send_critical_alert :: "'w mis_config \<Rightarrow> str \<Rightarrow> 'w \<Rightarrow> 'w" where
  "send_critical_alert cf message w = (case mi_alert cf of None \<Rightarrow> w | Some publish \<Rightarrow> snd (publish w message))"

definition activate_kill_switch :: "'w mis_config \<Rightarrow> str \<Rightarrow> str \<Rightarrow> 'w mis \<Rightarrow> 'w mis" where
  "activate_kill_switch cf reason now s =
    (case dy_put (mi_dynamo cf) (snd s) (mi_kill_switch_table cf) kill_switch_key
            (kill_switch_item True reason ''mis-square-off-manager'' now (Some now) None []) NoCond of
       (Inl e, w) \<Rightarrow> (fst s, w)
     | (Inr _, w) \<Rightarrow> count (\<lambda>c. c\<lparr>mc_kill_switch_activated := True\<rparr>) (fst s, w))"

text \<open>One round of the checks: the symbols that are still pending.\<close>

fun still_pending :: "'w mis_config \<Rightarrow> str list \<Rightarrow> 'w \<Rightarrow> str list \<times> 'w" where
  "still_pending cf [] w = ([], w)"
| "still_pending cf (symbol # symbols) w =
    (case zerodha_positions (mi_kite cf) w of
       (r, w) \<Rightarrow>
         (case still_pending cf symbols w of
            (pending, w) \<Rightarrow>
              ((case r of Inr rows \<Rightarrow> if broker_quantity symbol rows = 0 then pending else symbol # pending
                 | Inl e \<Rightarrow> symbol # pending), w)))"

text \<open>
  The loop of \<open>_await_fills_or_escalate\<close>; \<open>clk k\<close> is the time of its \<open>k\<close>-th test of the deadline.  \<open>None\<close> when the
  rounds outnumber the fuel.
\<close>

fun await_fills :: "nat \<Rightarrow> 'w mis_config \<Rightarrow> (nat \<Rightarrow> rat) \<Rightarrow> str list \<Rightarrow> 'w \<Rightarrow> (str list \<times> 'w) option" where
  "await_fills fuel cf clk [] w = Some ([], w)"
| "await_fills 0 cf clk (symbol # symbols) w = None"
| "await_fills (Suc n) cf clk (symbol # symbols) w =
    (if seconds_until_ist (mi_deadline_time cf) (clk 0) = 0 then Some (symbol # symbols, w)
     else (case still_pending cf (symbol # symbols) w of
             (pending, w) \<Rightarrow> await_fills n cf (\<lambda>i. clk (Suc i)) pending w))"

definition await_fills_or_escalate ::
  "nat \<Rightarrow> 'w mis_config \<Rightarrow> (nat \<Rightarrow> rat) \<Rightarrow> str \<Rightarrow> str \<Rightarrow> mis_position list \<Rightarrow> 'w mis \<Rightarrow> 'w mis option" where
  "await_fills_or_escalate fuel cf clk reason now positions s =
    (case await_fills fuel cf clk (remdups (map mp_symbol positions)) (snd s) of
       None \<Rightarrow> None
     | Some (pending, w) \<Rightarrow>
        (let s = count (\<lambda>c. c\<lparr>mc_positions_flat := Some (int (length positions) - int (length pending))\<rparr>) (fst s, w)
         in if pending \<noteq> [] then
              (let s = activate_kill_switch cf reason now (count (\<lambda>c. c\<lparr>mc_at_deadline := Some True\<rparr>) s)
               in Some (fst s, send_critical_alert cf reason (snd s)))
            else Some (count (\<lambda>c. c\<lparr>mc_at_deadline := Some False\<rparr>) s)))"

text \<open>What an execution takes from outside: identifiers, times and the texts of its alerts.\<close>

record mis_inputs =
  mx_fresh :: "nat \<Rightarrow> str \<times> py_datetime"
  mx_clock :: "nat \<Rightarrow> rat"
  mx_now :: str
  mx_reason :: str
  mx_fetch_alert :: str

definition execute_mis_square_off :: "nat \<Rightarrow> 'w mis_config \<Rightarrow> mis_inputs \<Rightarrow> 'w mis \<Rightarrow> 'w mis option" where
  "execute_mis_square_off fuel cf x s =
    (case get_open_mis_positions cf (snd s) of
       (Inl e, w) \<Rightarrow> Some (fst s, send_critical_alert cf (mx_fetch_alert x) w)
     | (Inr positions, w) \<Rightarrow>
        (if positions = [] then
           Some (count (\<lambda>c. c\<lparr>mc_positions_discovered := Some 0, mc_long_discovered := Some 0, mc_short_discovered := Some 0,
             mc_orders_placed := Some 0, mc_orders_rejected := Some 0, mc_positions_flat := Some 0, mc_at_deadline := Some False\<rparr>) (fst s, w))
         else
           (let long_count = length (filter (\<lambda>p. mp_effective_dir p = ''LONG'') positions);
                short_count = length (filter (\<lambda>p. mp_effective_dir p = ''SHORT'') positions);
                s = count (\<lambda>c. c\<lparr>mc_positions_discovered := Some (int (length positions)), mc_long_discovered := Some (int long_count),
                  mc_short_discovered := Some (int short_count)\<rparr>) (fst s, w)
            in case place_all cf (mx_fresh x) positions (snd s) of
                 ((ids, rejected), w) \<Rightarrow>
                   await_fills_or_escalate fuel cf (mx_clock x) (mx_reason x) (mx_now x) positions
                     (count (\<lambda>c. c\<lparr>mc_orders_placed := Some (int (length ids)), mc_orders_rejected := Some (int rejected)\<rparr>) (fst s, w)))))"

section \<open>The daily loop\<close>

text \<open>
  One round of \<open>run\<close> that starts at \<open>now\<close>, with an execution that takes \<open>took\<close>: the time of the execution, if there is one, and
  the time at which the next round starts.
\<close>

definition mis_round :: "rat \<Rightarrow> rat \<Rightarrow> rat \<Rightarrow> rat \<Rightarrow> rat option \<times> rat" where
  "mis_round close_time deadline_time took now =
    (let wait_secs = seconds_until_ist close_time now
     in if wait_secs = 0 \<and> seconds_until_ist deadline_time now = 0 then (None, now + (86400 - IST_OFFSET_SECONDS))
        else (Some (now + wait_secs), now + wait_secs + took + 3600))"

fun mis_fires :: "rat \<Rightarrow> rat \<Rightarrow> rat list \<Rightarrow> rat \<Rightarrow> rat list" where
  "mis_fires close_time deadline_time [] now = []"
| "mis_fires close_time deadline_time (took # rounds) now =
    (case mis_round close_time deadline_time took now of
       (fired, after) \<Rightarrow> (case fired of None \<Rightarrow> [] | Some t \<Rightarrow> [t]) @ mis_fires close_time deadline_time rounds after)"

end
