(* ===== verification/MisSafety.thy ===== *)
theory MisSafety
  imports MisSquareOff
begin

text \<open>
  The closing of the intraday positions: on which days it runs, which orders it sends, what it reports and when it halts
  the trading.
\<close>

section \<open>The days on which it runs\<close>

lemma day_start_of [simp]:
  assumes "0 \<le> s" "s < 86400"
  shows "day_start (86400 * of_int d + s) = 86400 * of_int d"
proof -
  have "\<lfloor>(86400 * of_int d + s) / 86400\<rfloor> = d"
    by (rule floor_unique) (use assms in \<open>simp_all add: field_simps\<close>)
  then show ?thesis by (simp add: day_start_def)
qed

lemma seconds_until_of:
  "0 \<le> s \<Longrightarrow> s < 86400 \<Longrightarrow> seconds_until_ist target (86400 * of_int d + s) = max 0 (target - s)"
  by (simp add: seconds_until_ist_def)

lemma until_today: "0 \<le> t \<Longrightarrow> t < 86400 \<Longrightarrow> seconds_until_ist target t = max 0 (target - t)"
  using seconds_until_of [of t target 0] by simp

lemma mis_round_before:
  assumes "0 \<le> s" "s \<le> c" "c < dl" "dl < 86400"
  shows "mis_round c dl took (86400 * of_int d + s) = (Some (86400 * of_int d + c), 86400 * of_int d + (c + took + 3600))"
  using assms by (simp add: mis_round_def seconds_until_of Let_def)

lemma mis_round_after:
  assumes "dl \<le> s" "c < dl" "0 \<le> c" "s < 86400"
  shows "mis_round c dl took (86400 * of_int d + s) = (None, 86400 * of_int d + (s + 66600))"
  using assms by (simp add: mis_round_def seconds_until_of Let_def IST_OFFSET_SECONDS_def)

lemma next_day: "86400 * of_int d + (s + 66600) = 86400 * of_int (d + 1) + (s - 19800 :: rat)"
  by simp

text \<open>Two rounds make a day: the execution, and the skip that follows it.\<close>

lemma mis_day:
  assumes "0 \<le> s" "s \<le> 54300" "0 \<le> took" "took \<le> 16000"
  shows "mis_fires 54300 54600 (took # skip # rounds) (86400 * of_int d + s) =
    (86400 * of_int d + 54300) # mis_fires 54300 54600 rounds (86400 * of_int (d + 1) + (38100 + took))"
proof -
  have fire: "mis_round 54300 54600 took (86400 * of_int d + s) = (Some (86400 * of_int d + 54300), 86400 * of_int d + (57900 + took))"
    using mis_round_before [OF assms(1,2), of 54600 took d] by (simp add: algebra_simps)
  have "mis_round 54300 54600 skip (86400 * of_int d + (57900 + took)) = (None, 86400 * of_int d + (57900 + took + 66600))"
    by (rule mis_round_after) (use assms in simp_all)
  then have "mis_round 54300 54600 skip (86400 * of_int d + (57900 + took)) = (None, 86400 * of_int (d + 1) + (38100 + took))"
    by (simp add: algebra_simps)
  with fire show ?thesis by simp
qed

text \<open>
  C40 The square-off fires every day: started on a day before its closing time, with the default times and executions that
  take at most 16000 seconds, it runs at 15:05 of that day and of every day after it.
\<close>

theorem square_off_every_day:
  assumes "0 \<le> s" "s \<le> 54300" "length rounds = 2 * n" "\<forall>took \<in> set rounds. 0 \<le> took \<and> took \<le> 16000"
  shows "mis_fires 54300 54600 rounds (86400 * of_int d + s) = map (\<lambda>k. 86400 * of_int (d + int k) + 54300) [0..<n]"
  using assms
proof (induction n arbitrary: rounds d s)
  case (Suc n)
  then obtain took skip rest where rounds: "rounds = took # skip # rest" "length rest = 2 * n"
    by (cases rounds; cases "tl rounds") auto
  have IH: "mis_fires 54300 54600 rest (86400 * of_int (d + 1) + (38100 + took)) =
      map (\<lambda>k. 86400 * of_int (d + 1 + int k) + 54300) [0..<n]"
    by (rule Suc.IH) (use Suc.prems(4) rounds in auto)
  have "mis_fires 54300 54600 rounds (86400 * of_int d + s) =
      (86400 * of_int d + 54300) # map (\<lambda>k. 86400 * of_int (d + 1 + int k) + 54300) [0..<n]"
    using mis_day [of s took skip rest d] IH Suc.prems rounds by simp
  also have "\<dots> = map (\<lambda>k. 86400 * of_int (d + int k) + 54300) [0..<Suc n]"
    by (simp add: upt_conv_Cons map_Suc_upt [symmetric] comp_def algebra_simps del: upt_Suc)
  finally show ?case .
qed simp

lemma fires_later:
  assumes "\<forall>took \<in> set rounds. 0 \<le> took"
  shows "list_all (\<lambda>t. now \<le> t) (mis_fires c dl rounds now)"
  using assms
proof (induction rounds arbitrary: now)
  case (Cons took rounds)
  obtain fired after where r: "mis_round c dl took now = (fired, after)" by fastforce
  have "now \<le> after" "case fired of None \<Rightarrow> True | Some t \<Rightarrow> now \<le> t"
    using r Cons.prems by (auto simp: mis_round_def Let_def IST_OFFSET_SECONDS_def seconds_until_ist_def split: if_splits)
  moreover have "list_all (\<lambda>t. after \<le> t) (mis_fires c dl rounds after)"
    using Cons by simp
  ultimately show ?case
    by (auto simp: r list_all_iff split: option.splits)
qed simp

text \<open>
  A service that starts between 20:40 and midnight sleeps past the deadline of the next day: the square-off does not run on
  that day at all.
\<close>

theorem late_start_misses_next_day:
  assumes "74400 \<le> s" "s < 86400" "\<forall>took \<in> set rounds. 0 \<le> took"
  shows "list_all (\<lambda>t. 86400 * of_int (d + 2) \<le> t) (mis_fires 54300 54600 rounds (86400 * of_int d + s))"
proof (cases rounds)
  case (Cons took rest)
  have one: "mis_round 54300 54600 took (86400 * of_int d + s) = (None, 86400 * of_int (d + 1) + (s - 19800))"
    using mis_round_after [of 54600 s 54300 took d] assms(1,2) by (simp add: algebra_simps)
  show ?thesis
  proof (cases rest)
    case Nil
    then show ?thesis using Cons one by simp
  next
    case inner: (Cons skip rest')
    have two: "mis_round 54300 54600 skip (86400 * of_int (d + 1) + (s - 19800)) = (None, 86400 * of_int (d + 1) + (s - 19800 + 66600))"
      by (rule mis_round_after) (use assms(1,2) in simp_all)
    have "mis_fires 54300 54600 rounds (86400 * of_int d + s) =
        mis_fires 54300 54600 rest' (86400 * of_int (d + 1) + (s - 19800 + 66600))"
      by (simp only: Cons inner mis_fires.simps one two prod.case option.case append.simps)
    moreover have "list_all (\<lambda>t. 86400 * of_int (d + 1) + (s - 19800 + 66600) \<le> t)
        (mis_fires 54300 54600 rest' (86400 * of_int (d + 1) + (s - 19800 + 66600)))"
      by (rule fires_later) (use assms(3) Cons inner in auto)
    ultimately show ?thesis
      using assms(1) by (auto simp: list_all_iff)
  qed
qed simp

theorem square_off_every_day_witness:
  "mis_fires 54300 54600 [120, 0, 310, 0] (86400 * of_int 20000 + 33300) = [86400 * of_int 20000 + 54300, 86400 * of_int 20001 + 54300]"
  using square_off_every_day [of 33300 "[120, 0, 310, 0]" 2 20000] by (simp add: numeral_2_eq_2)

theorem late_start_misses_next_day_witness:
  "list_all (\<lambda>t. 86400 * of_int (20000 + 2) \<le> t) (mis_fires 54300 54600 [0, 0, 60] (86400 * of_int 20000 + 76000))"
  by (rule late_start_misses_next_day) simp_all

section \<open>What the broker's rows show\<close>

lemma zerodha_rows_never_match: "broker_quantity symbol (map zerodha_row ps) = 0"
  by (induction ps) (simp_all add: zerodha_row_def)

definition kite_answers :: "'w mis_config \<Rightarrow> bool" where
  "kite_answers cf \<longleftrightarrow> (\<forall>w. \<exists>ps w'. mi_kite cf w = (Inr ps, w'))"

lemma nothing_pending: "kite_answers cf \<Longrightarrow> fst (still_pending cf symbols w) = []"
proof (induction symbols arbitrary: w)
  case (Cons symbol symbols)
  obtain ps w1 where k: "mi_kite cf w = (Inr ps, w1)"
    using Cons.prems unfolding kite_answers_def by blast
  obtain pending w2 where p: "still_pending cf symbols w1 = (pending, w2)" by fastforce
  have "pending = []"
    using Cons.IH [OF Cons.prems, of w1] by (simp add: p)
  then show ?case
    by (simp add: zerodha_positions_def k p zerodha_rows_never_match)
qed simp

lemma await_at_once:
  assumes "kite_answers cf" "seconds_until_ist (mi_deadline_time cf) (clk 0) \<noteq> 0" "0 < fuel"
  shows "\<exists>w'. await_fills fuel cf clk symbols w = Some ([], w')"
proof (cases symbols)
  case (Cons symbol symbols')
  obtain n where n: "fuel = Suc n" using assms(3) by (cases fuel) auto
  obtain pending w1 where p: "still_pending cf symbols w = (pending, w1)" by fastforce
  have "pending = []"
    using nothing_pending [OF assms(1), of symbols w] by (simp add: p)
  then show ?thesis using assms(2) Cons n p by simp
qed (cases fuel; simp)

lemma place_nothing: "\<exists>w'. place_all cf fresh ps w = (([], length ps), w')"
proof (induction ps arbitrary: fresh w)
  case (Cons p ps)
  obtain r w1 where r: "place_mis_close_order cf (fst (fresh 0)) (snd (fresh 0)) p w = (r, w1)" by fastforce
  then have "case r of Inr (Some i) \<Rightarrow> False | _ \<Rightarrow> True"
    by (auto simp: place_mis_close_order_def split: if_splits prod.splits sum.splits)
  with Cons.IH [of "\<lambda>i. fresh (Suc i)" w1] r show ?case
    by (auto split: sum.splits option.splits)
qed simp

text \<open>
  Whatever the broker holds, and in both modes, a run over open positions that starts before the deadline with a broker
  that answers reports no order placed, every order rejected and every position closed.
\<close>

theorem square_off_report_is_fixed:
  assumes "get_open_mis_positions cf w = (Inr ps, w1)" "ps \<noteq> []" "kite_answers cf"
    and "seconds_until_ist (mi_deadline_time cf) (mx_clock x 0) \<noteq> 0" "0 < fuel" "distinct (map mp_symbol ps)"
  shows "\<exists>c' w'. execute_mis_square_off fuel cf x (Some c, w) = Some (Some c', w') \<and>
    mc_orders_placed c' = Some 0 \<and> mc_orders_rejected c' = Some (int (length ps)) \<and>
    mc_positions_flat c' = Some (int (length ps)) \<and> mc_at_deadline c' = Some False"
proof -
  obtain w2 where w2: "place_all cf (mx_fresh x) ps w1 = (([], length ps), w2)"
    using place_nothing [of cf "mx_fresh x" ps w1] by blast
  obtain w3 where w3: "await_fills fuel cf (mx_clock x) (remdups (map mp_symbol ps)) w2 = Some ([], w3)"
    using await_at_once [of cf "mx_clock x" fuel, OF assms(3,4,5)] by blast
  show ?thesis
    using assms(1,2) w2 w3
    by (simp add: execute_mis_square_off_def await_fills_or_escalate_def count_def Let_def)
qed

section \<open>Orders sent\<close>

definition signed_quantity :: "order_request \<Rightarrow> rat" where
  "signed_quantity q = (if oq_side q = BUY then oq_quantity q else - oq_quantity q)"

lemma resolved:
  "resolve_position i valid = Some p \<Longrightarrow> 0 < mp_close_qty p \<and> signed_quantity (close_request order_id now p) = - mp_quantity p"
  by (auto simp: resolve_position_def Let_def signed_quantity_def close_request_def split: if_splits option.splits)

text \<open>
  \<open>sent\<close> reads off the world the orders that reached the broker, \<open>rows\<close> the open positions of the positions table.  No
  other call of the manager sends an order, and none but the write of the kill switch changes a table.
\<close>

definition mis_world :: "'w mis_config \<Rightarrow> ('w \<Rightarrow> order_request list) \<Rightarrow> ('w \<Rightarrow> item list) \<Rightarrow> bool" where
  "mis_world cf sent rows \<longleftrightarrow>
    (\<forall>w. fst (mi_scan cf w) = Inr (rows w, None) \<and> sent (snd (mi_scan cf w)) = sent w \<and> rows (snd (mi_scan cf w)) = rows w) \<and>
    (\<forall>w q. sent (snd (mi_place cf w q)) = sent w @ [q] \<and> rows (snd (mi_place cf w q)) = rows w) \<and>
    (\<forall>w. sent (snd (mi_kite cf w)) = sent w \<and> rows (snd (mi_kite cf w)) = rows w) \<and>
    (\<forall>w i c. sent (snd (dy_put (mi_dynamo cf) w (mi_kill_switch_table cf) kill_switch_key i c)) = sent w \<and>
      rows (snd (dy_put (mi_dynamo cf) w (mi_kill_switch_table cf) kill_switch_key i c)) = rows w) \<and>
    (\<forall>publish w m. mi_alert cf = Some publish \<longrightarrow> sent (snd (publish w m)) = sent w \<and> rows (snd (publish w m)) = rows w)"

definition same_books :: "('w \<Rightarrow> order_request list) \<Rightarrow> ('w \<Rightarrow> item list) \<Rightarrow> 'w \<Rightarrow> 'w \<Rightarrow> bool" where
  "same_books sent rows w w' \<longleftrightarrow> sent w' = sent w \<and> rows w' = rows w"

lemma same_books_trans: "same_books sent rows u v \<Longrightarrow> same_books sent rows v w \<Longrightarrow> same_books sent rows u w"
  by (simp add: same_books_def)

lemma same_books_refl [simp]: "same_books sent rows w w"
  by (simp add: same_books_def)

lemma still_pending_books:
  "mis_world cf sent rows \<Longrightarrow> same_books sent rows w (snd (still_pending cf symbols w))"
proof (induction symbols arbitrary: w)
  case (Cons symbol symbols)
  obtain r w1 where k: "mi_kite cf w = (r, w1)" by fastforce
  have "same_books sent rows w w1"
    using Cons.prems k by (metis mis_world_def same_books_def snd_conv)
  with Cons.IH [OF Cons.prems, of w1] show ?case
    by (auto simp: zerodha_positions_def k split: prod.splits intro: same_books_trans)
qed simp

lemma await_books:
  "mis_world cf sent rows \<Longrightarrow> await_fills fuel cf clk symbols w = Some (pending, w') \<Longrightarrow> same_books sent rows w w'"
proof (induction fuel arbitrary: clk symbols w)
  case 0
  then show ?case by (cases symbols) auto
next
  case (Suc n)
  show ?case
  proof (cases symbols)
    case (Cons symbol symbols')
    obtain p w1 where p: "still_pending cf symbols w = (p, w1)" by fastforce
    have "same_books sent rows w w1"
      using still_pending_books [OF Suc.prems(1), of w symbols] by (simp add: p)
    with Suc.IH [OF Suc.prems(1), of "\<lambda>i. clk (Suc i)" p w1] Suc.prems(2) Cons p show ?thesis
      by (auto split: if_splits intro: same_books_trans)
  qed (use Suc.prems in auto)
qed

lemma escalate_books:
  assumes "mis_world cf sent rows" "await_fills_or_escalate fuel cf clk reason now ps s = Some s'"
  shows "same_books sent rows (snd s) (snd s')"
proof -
  obtain pending w where w: "await_fills fuel cf clk (remdups (map mp_symbol ps)) (snd s) = Some (pending, w)"
    using assms(2) by (auto simp: await_fills_or_escalate_def split: option.splits)
  note waited = await_books [OF assms(1) w]
  have put: "same_books sent rows v (snd (dy_put (mi_dynamo cf) v (mi_kill_switch_table cf) kill_switch_key i c))" for v i c
    using assms(1) by (simp add: mis_world_def same_books_def)
  have alert: "same_books sent rows v (send_critical_alert cf m v)" for v m
    using assms(1) by (auto simp: mis_world_def same_books_def send_critical_alert_def split: option.splits)
  have halted: "same_books sent rows (snd z) (snd (activate_kill_switch cf reason now z))" for z
    using put [of "snd z"] by (auto simp: activate_kill_switch_def count_def split: prod.splits sum.splits) (metis snd_conv)+
  show ?thesis
  proof (cases "pending = []")
    case True
    then show ?thesis using assms(2) w waited by (auto simp: await_fills_or_escalate_def count_def Let_def)
  next
    case False
    define z where "z = count (\<lambda>c. c\<lparr>mc_at_deadline := Some True\<rparr>)
      (count (\<lambda>c. c\<lparr>mc_positions_flat := Some (int (length ps) - int (length pending))\<rparr>) (fst s, w))"
    have "snd s' = send_critical_alert cf reason (snd (activate_kill_switch cf reason now z))" "snd z = w"
      using assms(2) w False by (auto simp: await_fills_or_escalate_def z_def count_def Let_def)
    with waited halted [of z] alert show ?thesis
      by (metis same_books_trans)
  qed
qed

fun requests :: "(nat \<Rightarrow> str \<times> py_datetime) \<Rightarrow> mis_position list \<Rightarrow> order_request list" where
  "requests fresh [] = []"
| "requests fresh (p # ps) = close_request (fst (fresh 0)) (snd (fresh 0)) p # requests (\<lambda>i. fresh (Suc i)) ps"

lemma place_all_sends:
  assumes "mis_world cf sent rows" "\<not> mi_paper cf" "\<forall>p \<in> set ps. 0 < mp_close_qty p"
  shows "sent (snd (place_all cf fresh ps w)) = sent w @ requests fresh ps \<and> rows (snd (place_all cf fresh ps w)) = rows w"
  using assms(3)
proof (induction ps arbitrary: fresh w)
  case (Cons p ps)
  obtain r w1 where r: "place_mis_close_order cf (fst (fresh 0)) (snd (fresh 0)) p w = (r, w1)" by fastforce
  have w1: "w1 = snd (mi_place cf w (close_request (fst (fresh 0)) (snd (fresh 0)) p))"
    using r assms(2) Cons.prems by (auto simp: place_mis_close_order_def split: prod.splits sum.splits)
  have "sent w1 = sent w @ [close_request (fst (fresh 0)) (snd (fresh 0)) p]" "rows w1 = rows w"
    using assms(1) by (simp_all add: mis_world_def w1)
  with Cons.IH [of "\<lambda>i. fresh (Suc i)" w1] Cons.prems r show ?case
    by (auto split: prod.splits)
qed simp

definition open_positions :: "item list \<Rightarrow> mis_position list" where
  "open_positions items = List.map_filter (\<lambda>i. resolve_position i []) items"

lemma open_position_resolved: "p \<in> set (open_positions items) \<Longrightarrow> \<exists>i. resolve_position i [] = Some p"
  by (auto simp: open_positions_def List.map_filter_def)

lemma signed_requests: "set ps \<subseteq> set (open_positions items) \<Longrightarrow> map signed_quantity (requests fresh ps) = map (\<lambda>p. - mp_quantity p) ps"
proof (induction ps arbitrary: fresh)
  case (Cons p ps)
  with open_position_resolved [of p items] resolved show ?case by fastforce
qed simp

lemma no_exit_ids: "list_all (\<lambda>i. exit_id i = None) items \<Longrightarrow> build_valid_exit_ids om items w = ([], w)"
  by (cases om; induction items) (simp_all add: build_valid_exit_ids_def)

lemma one_run:
  assumes "mis_world cf sent rows" "\<not> mi_paper cf" "list_all (\<lambda>i. exit_id i = None) (rows (snd s))"
    and "execute_mis_square_off fuel cf x s = Some s'"
  shows "\<exists>qs. sent (snd s') = sent (snd s) @ qs \<and> rows (snd s') = rows (snd s) \<and>
    map signed_quantity qs = map (\<lambda>p. - mp_quantity p) (open_positions (rows (snd s)))"
proof -
  let ?ps = "open_positions (rows (snd s))"
  obtain r w where scan: "mi_scan cf (snd s) = (r, w)" by fastforce
  have r: "r = Inr (rows (snd s), None)" and w: "sent w = sent (snd s)" "rows w = rows (snd s)"
    using assms(1) scan unfolding mis_world_def by (metis fst_conv snd_conv)+
  have get: "get_open_mis_positions cf (snd s) = (Inr ?ps, w)"
    using no_exit_ids [OF assms(3), of "mi_manager cf" w] by (simp add: get_open_mis_positions_def scan r open_positions_def)
  show ?thesis
  proof (cases "?ps = []")
    case True
    then show ?thesis
      using assms(4) get w by (auto simp: execute_mis_square_off_def count_def)
  next
    case False
    have pos: "\<forall>p \<in> set ?ps. 0 < mp_close_qty p"
      using open_position_resolved resolved by blast
    obtain c ids n w1 where w1: "place_all cf (mx_fresh x) ?ps w = ((ids, n), w1)"
      and run: "await_fills_or_escalate fuel cf (mx_clock x) (mx_reason x) (mx_now x) ?ps (c, w1) = Some s'"
      using assms(4) get False by (auto simp: execute_mis_square_off_def count_def Let_def split: prod.splits)
    have "sent w1 = sent w @ requests (mx_fresh x) ?ps" "rows w1 = rows w"
      using place_all_sends [OF assms(1,2) pos, of "mx_fresh x" w] by (simp_all add: w1)
    moreover have "same_books sent rows w1 (snd s')"
      using escalate_books [OF assms(1) run] by simp
    ultimately show ?thesis
      using w signed_requests [of ?ps "rows (snd s)" "mx_fresh x"] by (auto simp: same_books_def)
  qed
qed

text \<open>
  A second run of the live square-off, after a restart before the deadline, sends the closing orders a second time: the first run
  records neither an order nor a fill, so the two together trade twice the stored quantity and reverse every position.
\<close>

theorem restart_closes_twice:
  assumes "mis_world cf sent rows" "\<not> mi_paper cf" "list_all (\<lambda>i. exit_id i = None) (rows (snd s))"
    and "execute_mis_square_off fuel cf x s = Some t" "execute_mis_square_off fuel' cf x' (c, snd t) = Some u"
  shows "\<exists>qs. sent (snd u) = sent (snd s) @ qs \<and>
    map signed_quantity qs = concat (replicate 2 (map (\<lambda>p. - mp_quantity p) (open_positions (rows (snd s)))))"
proof -
  obtain qs where qs: "sent (snd t) = sent (snd s) @ qs" "rows (snd t) = rows (snd s)"
      "map signed_quantity qs = map (\<lambda>p. - mp_quantity p) (open_positions (rows (snd s)))"
    using one_run [OF assms(1-4)] by blast
  obtain qs' where "sent (snd u) = sent (snd t) @ qs'"
      "map signed_quantity qs' = map (\<lambda>p. - mp_quantity p) (open_positions (rows (snd t)))"
    using one_run [OF assms(1,2) _ assms(5)] assms(3) qs(2) by auto
  with qs show ?thesis
    by (intro exI [of _ "qs @ qs'"]) (simp add: numeral_2_eq_2)
qed

section \<open>The deadline\<close>

lemma await_ends:
  "k < fuel \<Longrightarrow> seconds_until_ist (mi_deadline_time cf) (clk k) = 0 \<Longrightarrow> \<exists>pending w'. await_fills fuel cf clk symbols w = Some (pending, w')"
proof (induction fuel arbitrary: k clk symbols w)
  case (Suc n)
  show ?case
  proof (cases symbols)
    case (Cons symbol symbols')
    show ?thesis
    proof (cases k)
      case 0
      then show ?thesis using Suc.prems Cons by simp
    next
      case (Suc j)
      obtain pending w1 where p: "still_pending cf (symbol # symbols') w = (pending, w1)" by fastforce
      have "\<exists>q w'. await_fills n cf (\<lambda>i. clk (Suc i)) pending w1 = Some (q, w')"
        by (rule Suc.IH [of j]) (use Suc.prems Suc in simp_all)
      then show ?thesis using Cons p by simp
    qed
  qed simp
qed simp

text \<open>
  When the broker could not be asked about a position until the deadline, the run ends with an active kill switch in
  the risk-state table, provided that its write succeeds.
\<close>

theorem unconfirmed_position_halts:
  assumes "dynamo_ok (=) (mi_dynamo cf)"
    and "\<forall>w i. \<exists>w'. dy_put (mi_dynamo cf) w (mi_kill_switch_table cf) kill_switch_key i NoCond = (Inr (), w')"
    and "\<forall>publish w m. mi_alert cf = Some publish \<longrightarrow> dy_tables (mi_dynamo cf) (snd (publish w m)) = dy_tables (mi_dynamo cf) w"
    and "await_fills fuel cf clk (remdups (map mp_symbol ps)) (snd s) = Some (pending, w)" "pending \<noteq> []"
    and "await_fills_or_escalate fuel cf clk reason now ps s = Some s'"
  shows "\<exists>i. dy_tables (mi_dynamo cf) (snd s') (mi_kill_switch_table cf) kill_switch_key = Some i \<and> i ''active'' = Some (BOOL True)"
proof -
  let ?i = "kill_switch_item True reason ''mis-square-off-manager'' now (Some now) None []"
  obtain w1 where put: "dy_put (mi_dynamo cf) w (mi_kill_switch_table cf) kill_switch_key ?i NoCond = (Inr (), w1)"
    using assms(2) by blast
  have row: "dy_tables (mi_dynamo cf) w1 (mi_kill_switch_table cf) kill_switch_key = Some ?i"
    using sole_put [OF assms(1) put] by simp
  have "\<exists>m. snd s' = send_critical_alert cf m w1"
    using assms(4-6) put by (auto simp: await_fills_or_escalate_def activate_kill_switch_def count_def Let_def)
  then have "dy_tables (mi_dynamo cf) (snd s') = dy_tables (mi_dynamo cf) w1"
    using assms(3) by (auto simp: send_critical_alert_def split: option.splits)
  with row show ?thesis by (simp add: kill_switch_item_apply)
qed

section \<open>Witnesses\<close>

definition demo_row :: item where
  "demo_row = [''symbol'' \<mapsto> S ''TCS'', ''direction'' \<mapsto> S ''LONG'', ''quantity'' \<mapsto> N 10, ''avg_entry_price'' \<mapsto> N 100, ''product'' \<mapsto> S ''MIS'']"

definition demo_position :: mis_position where
  "demo_position = \<lparr>mp_symbol = ''TCS'', mp_quantity = 10, mp_effective_dir = ''LONG'', mp_close_side = SELL, mp_close_qty = 10,
     mp_avg_entry_price = 100, mp_last_price = 100\<rparr>"

text \<open>A world that is the list of the orders sent.\<close>

definition demo_response :: order_response where
  "demo_response = \<lparr>op_order_id = ''o'', op_broker_order_id = ''b'', op_status = PLACED, op_symbol = ''TCS'', op_market = NSE,
     op_filled_quantity = 0, op_avg_fill_price = 0, op_broker_message = []\<rparr>"

definition demo_mis :: "bool \<Rightarrow> order_request list mis_config" where
  "demo_mis paper = \<lparr>mi_scan = \<lambda>w. (Inr ([demo_row], None), w), mi_manager = None, mi_place = \<lambda>w q. (Inr demo_response, w @ [q]),
     mi_kite = \<lambda>w. (Inr [], w),
     mi_dynamo = \<lparr>dy_tables = \<lambda>w tbl k. None, dy_get = \<lambda>w tbl k. (Inr None, w), dy_put = \<lambda>w tbl k i c. (Inr (), w),
       dy_update = \<lambda>w tbl k us c. (Inl ClientError, w), dy_transact = \<lambda>w ps. (Inl ClientError, w),
       dy_query = \<lambda>w tbl ix eqs s. (Inl ClientError, w), dy_scan = \<lambda>w tbl p s. (Inl ClientError, w)\<rparr>,
     mi_kill_switch_table = ''risk-state'', mi_alert = None, mi_paper = paper, mi_close_time = 54300, mi_deadline_time = 54600\<rparr>"

definition demo_inputs :: mis_inputs where
  "demo_inputs = \<lparr>mx_fresh = \<lambda>i. (''mis-close-1'', \<lparr>dt_iso = [], dt_date = []\<rparr>), mx_clock = \<lambda>k. 54400, mx_now = ''now'',
     mx_reason = ''r'', mx_fetch_alert = ''f''\<rparr>"

definition zero_counters :: mis_counters where
  "zero_counters = \<lparr>mc_positions_discovered = None, mc_long_discovered = None, mc_short_discovered = None, mc_orders_placed = None,
     mc_orders_rejected = None, mc_positions_flat = None, mc_at_deadline = None, mc_kill_switch_activated = False\<rparr>"

lemma demo_resolved: "resolve_position demo_row valid = Some demo_position"
  by (simp add: resolve_position_def demo_row_def demo_position_def exit_id_def attr_readers Let_def)

lemma demo_open: "get_open_mis_positions (demo_mis paper) w = (Inr [demo_position], w)"
  by (simp add: get_open_mis_positions_def demo_mis_def build_valid_exit_ids_def List.map_filter_def demo_resolved)

theorem square_off_report_is_fixed_witness:
  "\<exists>c' w'. execute_mis_square_off 1 (demo_mis True) demo_inputs (Some zero_counters, []) = Some (Some c', w') \<and>
    mc_orders_placed c' = Some 0 \<and> mc_orders_rejected c' = Some 1 \<and> mc_positions_flat c' = Some 1 \<and> mc_at_deadline c' = Some False"
proof -
  have "\<exists>c' w'. execute_mis_square_off 1 (demo_mis True) demo_inputs (Some zero_counters, []) = Some (Some c', w') \<and>
    mc_orders_placed c' = Some 0 \<and> mc_orders_rejected c' = Some (int (length [demo_position])) \<and>
    mc_positions_flat c' = Some (int (length [demo_position])) \<and> mc_at_deadline c' = Some False"
    by (rule square_off_report_is_fixed [OF demo_open])
      (simp_all add: kite_answers_def demo_mis_def demo_inputs_def until_today)
  then show ?thesis by simp
qed

lemma demo_square_off_run: "execute_mis_square_off (Suc 0) (demo_mis False) demo_inputs (None, w) =
    Some (None, w @ [close_request ''mis-close-1'' \<lparr>dt_iso = [], dt_date = []\<rparr> demo_position])"
  unfolding execute_mis_square_off_def demo_open
  by (simp add: demo_mis_def demo_inputs_def until_today demo_position_def count_def place_mis_close_order_def
      await_fills_or_escalate_def zerodha_positions_def Let_def)

theorem restart_closes_twice_witness:
  "\<exists>t u. execute_mis_square_off 1 (demo_mis False) demo_inputs (None, []) = Some t \<and>
    execute_mis_square_off 1 (demo_mis False) demo_inputs (None, snd t) = Some u \<and>
    map signed_quantity (snd u) = [-10, -10]"
proof -
  obtain t u where runs: "execute_mis_square_off 1 (demo_mis False) demo_inputs (None, []) = Some t"
      "execute_mis_square_off 1 (demo_mis False) demo_inputs (None, snd t) = Some u"
    by (simp add: demo_square_off_run)
  have "\<exists>qs. snd u = [] @ qs \<and>
      map signed_quantity qs = concat (replicate 2 (map (\<lambda>p. - mp_quantity p) (open_positions [demo_row])))"
    using restart_closes_twice [of "demo_mis False" "\<lambda>w. w" "\<lambda>w. [demo_row]" "(None, [])", OF _ _ _ runs]
    by (simp add: mis_world_def demo_mis_def exit_id_def demo_row_def)
  then have "map signed_quantity (snd u) = [-10, -10]"
    by (simp add: open_positions_def List.map_filter_def demo_resolved demo_position_def numeral_2_eq_2)
  with runs show ?thesis by (intro exI conjI)
qed

definition silent_mis :: "mem mis_config" where
  "silent_mis = \<lparr>mi_scan = \<lambda>w. (Inr ([demo_row], None), w), mi_manager = None, mi_place = \<lambda>w q. (Inl ClientError, w),
     mi_kite = \<lambda>w. (Inl ClientError, w), mi_dynamo = mem_dynamo, mi_kill_switch_table = ''risk-state'', mi_alert = None,
     mi_paper = False, mi_close_time = 54300, mi_deadline_time = 54600\<rparr>"

theorem unconfirmed_position_halts_witness:
  "\<exists>s' i. await_fills_or_escalate 3 silent_mis (\<lambda>k. 54400 + 150 * of_nat k) ''r'' ''now'' [demo_position] (None, []) = Some s' \<and>
    dy_tables mem_dynamo (snd s') ''risk-state'' kill_switch_key = Some i \<and> i ''active'' = Some (BOOL True)"
proof -
  have wait: "await_fills 3 silent_mis (\<lambda>k. 54400 + 150 * of_nat k) (remdups (map mp_symbol [demo_position])) (snd (None, [])) = Some ([''TCS''], [])"
    by (simp add: numeral_3_eq_3 silent_mis_def demo_position_def until_today zerodha_positions_def)
  then obtain s' where run: "await_fills_or_escalate 3 silent_mis (\<lambda>k. 54400 + 150 * of_nat k) ''r'' ''now'' [demo_position] (None, []) = Some s'"
    by (simp add: await_fills_or_escalate_def Let_def)
  have "\<exists>i. dy_tables (mi_dynamo silent_mis) (snd s') (mi_kill_switch_table silent_mis) kill_switch_key = Some i \<and>
      i ''active'' = Some (BOOL True)"
    by (rule unconfirmed_position_halts [OF _ _ _ wait _ run])
      (simp_all add: silent_mis_def mem_dynamo_ok, simp add: mem_simps)
  with run show ?thesis by (auto simp: silent_mis_def)
qed

end
