(* ===== verification/ZerodhaAuth.thy ===== *)
theory ZerodhaAuth
  imports Dynamo Events
begin

text \<open>
  \<open>services/execution_engine/auth/zerodha_auth.py\<close>: \<open>ZerodhaTokenManager\<close>, the daily access token of the
  Indian broker, and the token loop of \<open>brokers/zerodha_broker.py\<close> that swaps it while the service runs.
  Times are seconds of UTC since the epoch.  Secrets Manager, the environment and Kite's session endpoint
  are parameters.  The loop sees the token row through \<open>rows\<close>: the answer of \<open>get_item\<close> at each time.
\<close>

section \<open>The token manager\<close>

record 'w token_config =
  tc_dynamo :: "'w dynamo option"
  tc_table :: str
  tc_codec :: codec
  tc_secrets :: "('w \<Rightarrow> (str option \<times> str option) res \<times> 'w) option"
    \<comment> \<open>\<open>json.loads(get_secret_value(...)["SecretString"])\<close>: its two keys\<close>
  tc_env :: "(str \<times> str) res" \<comment> \<open>\<open>settings.zerodha\<close>\<close>
  tc_now :: "'w \<Rightarrow> rat \<times> 'w"
  tc_installed :: bool \<comment> \<open>\<open>kiteconnect\<close> can be imported\<close>
  tc_session :: "str \<Rightarrow> str \<Rightarrow> str \<Rightarrow> 'w \<Rightarrow> str option res \<times> 'w"
    \<comment> \<open>\<open>KiteConnect(api_key).generate_session(request_token, api_secret)\<close>: its \<open>access_token\<close>\<close>

record token_state =
  tk_key :: "str option"
  tk_secret :: "str option"
  tk_token :: "str option"
  tk_expires :: "rat option"

definition new_token_state :: token_state where
  "new_token_state = \<lparr>tk_key = None, tk_secret = None, tk_token = None, tk_expires = None\<rparr>"

definition given :: "str option \<Rightarrow> bool" where
  "given s \<longleftrightarrow> s \<noteq> None \<and> s \<noteq> Some []"

definition TOKEN_KEY :: key where
  "TOKEN_KEY = (''ZERODHA#TOKEN'', ''CURRENT'')"

text \<open>\<open>now.replace(hour=..., minute=..., second=0, microsecond=0)\<close>\<close>

definition at_time_of_day :: "rat \<Rightarrow> rat \<Rightarrow> rat" where
  "at_time_of_day now tod = of_int \<lfloor>now / 86400\<rfloor> * 86400 + tod"

definition TOKEN_EXPIRY_SECONDS :: rat where
  "TOKEN_EXPIRY_SECONDS = 2 * 3600"

definition next_expiry_utc :: "rat \<Rightarrow> rat" where
  "next_expiry_utc now =
    (let today_boundary = at_time_of_day now TOKEN_EXPIRY_SECONDS
     in if now < today_boundary then today_boundary else today_boundary + 86400)"

text \<open>A key of the secret that is missing raises after the keys before it were assigned.\<close>

definition env_credentials :: "'w token_config \<Rightarrow> token_state \<Rightarrow> (str \<times> str) res \<times> token_state" where
  "env_credentials C s =
    (case tc_env C of
       Inr (k, sec) \<Rightarrow> if k \<noteq> [] \<and> sec \<noteq> [] then (Inr (k, sec), s\<lparr>tk_key := Some k, tk_secret := Some sec\<rparr>) else (Inl ValueError, s)
     | Inl _ \<Rightarrow> (Inl ValueError, s))"

definition load_credentials :: "'w token_config \<Rightarrow> token_state \<Rightarrow> 'w \<Rightarrow> (str \<times> str) res \<times> token_state \<times> 'w" where
  "load_credentials C s w =
    (if given (tk_key s) \<and> given (tk_secret s) then (Inr (the (tk_key s), the (tk_secret s)), s, w)
     else
       (case tc_secrets C of
          None \<Rightarrow> (case env_credentials C s of (r, s) \<Rightarrow> (r, s, w))
        | Some get \<Rightarrow>
           (case get w of
              (Inr (Some k, Some sec), w) \<Rightarrow> (Inr (k, sec), s\<lparr>tk_key := Some k, tk_secret := Some sec\<rparr>, w)
            | (Inr (Some k, None), w) \<Rightarrow> (case env_credentials C (s\<lparr>tk_key := Some k\<rparr>) of (r, s) \<Rightarrow> (r, s, w))
            | (_, w) \<Rightarrow> (case env_credentials C s of (r, s) \<Rightarrow> (r, s, w)))))"

text \<open>The \<open>(access_token, expires_at)\<close> that \<open>_load_token_from_dynamo\<close> makes of the answer of \<open>get_item\<close>.\<close>

definition token_of_response :: "codec \<Rightarrow> item option res \<Rightarrow> str option \<times> rat option" where
  "token_of_response c r =
    (case r of
       Inr (Some i) \<Rightarrow>
         (let access_token = (case i ''access_token'' of Some (S t) \<Rightarrow> Some t | _ \<Rightarrow> None);
              expires_at_str = (case i ''expires_at'' of Some (S e) \<Rightarrow> e | _ \<Rightarrow> [])
          in if expires_at_str = [] then (access_token, None)
             else case jc_fromiso c expires_at_str of None \<Rightarrow> (None, None) | Some e \<Rightarrow> (access_token, Some e))
     | _ \<Rightarrow> (None, None))"

definition load_token_from_dynamo :: "'w token_config \<Rightarrow> 'w \<Rightarrow> (str option \<times> rat option) \<times> 'w" where
  "load_token_from_dynamo C w =
    (case tc_dynamo C of
       None \<Rightarrow> ((None, None), w)
     | Some D \<Rightarrow> (case dy_get D w (tc_table C) TOKEN_KEY of (r, w) \<Rightarrow> (token_of_response (tc_codec C) r, w)))"

text \<open>\<open>get_valid_token\<close>; \<open>TokenExpiredError\<close> is \<open>OtherError\<close>.\<close>

definition stored_token :: "'w token_config \<Rightarrow> token_state \<Rightarrow> 'w \<Rightarrow> str res \<times> token_state \<times> 'w" where
  "stored_token C s w =
    (case load_token_from_dynamo C w of
       ((None, _), w) \<Rightarrow> (Inl OtherError, s, w)
     | ((Some t, None), w) \<Rightarrow> (Inr t, s\<lparr>tk_token := Some t, tk_expires := None\<rparr>, w)
     | ((Some t, Some e), w) \<Rightarrow>
        (case tc_now C w of (now, w) \<Rightarrow>
           if e \<le> now then (Inl OtherError, s, w)
           else (Inr t, s\<lparr>tk_token := Some t, tk_expires := Some e\<rparr>, w)))"

definition get_valid_token :: "'w token_config \<Rightarrow> token_state \<Rightarrow> 'w \<Rightarrow> str res \<times> token_state \<times> 'w" where
  "get_valid_token C s w =
    (case (tk_token s, tk_expires s) of
       (Some t, Some e) \<Rightarrow>
         (if t \<noteq> [] then
            (case tc_now C w of (now, w) \<Rightarrow>
               if now < e then (Inr t, s, w) else stored_token C (s\<lparr>tk_token := None, tk_expires := None\<rparr>) w)
          else stored_token C s w)
     | _ \<Rightarrow> stored_token C s w)"

definition is_token_valid :: "'w token_config \<Rightarrow> token_state \<Rightarrow> 'w \<Rightarrow> bool \<times> 'w" where
  "is_token_valid C s w =
    (case (tk_token s, tk_expires s) of
       (Some t, Some e) \<Rightarrow> if t \<noteq> [] then (case tc_now C w of (now, w) \<Rightarrow> (now < e, w)) else (False, w)
     | _ \<Rightarrow> (False, w))"

definition token_item :: "codec \<Rightarrow> str \<Rightarrow> str \<Rightarrow> rat \<Rightarrow> rat \<Rightarrow> item" where
  "token_item c access_token api_key expiry now =
    (key_item TOKEN_KEY)(''access_token'' \<mapsto> S access_token, ''api_key'' \<mapsto> S api_key, ''expires_at'' \<mapsto> S (jc_iso c expiry),
      ''ttl'' \<mapsto> N (of_int (py_int expiry)), ''created_at'' \<mapsto> S (jc_iso c now))"

definition store_token :: "'w token_config \<Rightarrow> str \<Rightarrow> str \<Rightarrow> rat \<Rightarrow> 'w \<Rightarrow> unit res \<times> 'w" where
  "store_token C access_token api_key expiry w =
    (case tc_dynamo C of
       None \<Rightarrow> (Inr (), w)
     | Some D \<Rightarrow> (case tc_now C w of (now, w) \<Rightarrow>
         dy_put D w (tc_table C) TOKEN_KEY (token_item (tc_codec C) access_token api_key expiry now) NoCond))"

definition exchange_request_token :: "'w token_config \<Rightarrow> str \<Rightarrow> token_state \<Rightarrow> 'w \<Rightarrow> str res \<times> token_state \<times> 'w" where
  "exchange_request_token C request_token s w =
    (if \<not> tc_installed C then (Inl OtherError, s, w)
     else
       (case load_credentials C s w of
          (Inl e, s, w) \<Rightarrow> (Inl e, s, w)
        | (Inr (k, sec), s, w) \<Rightarrow>
           (case tc_session C k request_token sec w of
              (Inl _, w) \<Rightarrow> (Inl RuntimeError, s, w)
            | (Inr None, w) \<Rightarrow> (Inl KeyError, s, w)
            | (Inr (Some t), w) \<Rightarrow>
               (case tc_now C w of (now, w) \<Rightarrow>
                  let expires_at = next_expiry_utc now
                  in case store_token C t k expires_at w of
                       (Inl e, w) \<Rightarrow> (Inl e, s, w)
                     | (Inr _, w) \<Rightarrow> (Inr t, s\<lparr>tk_token := Some t, tk_expires := Some expires_at\<rparr>, w)))))"

section \<open>The token loop of the broker client\<close>

text \<open>
  \<open>start_token_refresh_loop\<close> works on these fields of the client: the two flags, the token of the Kite
  object (\<open>None\<close>: there is no such object), the manager's cache, and the token with which the running
  ticker was opened.  \<open>sn_subscribed\<close>: symbols and a callback were stored by \<open>subscribe_quotes\<close>.
\<close>

record token_session =
  sn_needs_authentication :: bool
  sn_connected :: bool
  sn_kite :: "str option"
  sn_cached :: "str option"
  sn_cached_expires :: "rat option"
  sn_subscribed :: bool
  sn_ticker :: "str option"

datatype resubscription = ResolveFails | NoTokens | Started

text \<open>\<open>subscribe_quotes\<close> on the stored symbols: whether it raises, and the ticker it leaves.\<close>

definition resubscribe :: "resubscription \<Rightarrow> token_session \<Rightarrow> token_session" where
  "resubscribe outcome s =
    (if \<not> sn_connected s \<or> sn_kite s = None then s
     else case outcome of Started \<Rightarrow> s\<lparr>sn_ticker := sn_kite s\<rparr> | _ \<Rightarrow> s)"

definition apply_fresh_token :: "resubscription \<Rightarrow> str \<Rightarrow> token_session \<Rightarrow> token_session" where
  "apply_fresh_token outcome t s =
    (let s = s\<lparr>sn_kite := map_option (\<lambda>_. t) (sn_kite s), sn_cached := Some t, sn_connected := True,
       sn_needs_authentication := False\<rparr>
     in if sn_subscribed s then resubscribe outcome s else s)"

definition fresh_token :: "codec \<Rightarrow> item option res \<Rightarrow> rat \<Rightarrow> str option" where
  "fresh_token c r now =
    (case token_of_response c r of
       (Some t, Some e) \<Rightarrow> if t \<noteq> [] \<and> now + 1800 < e then Some t else None
     | _ \<Rightarrow> None)"

text \<open>
  \<open>_wait_for_fresh_token\<close> from time \<open>t\<close>.  The \<open>n\<close>-th delay is what the \<open>n\<close>-th sleep and read take beyond
  \<open>poll_interval\<close>; \<open>None\<close>: the wait is still under way when the delays are used up.  It gives the time of the
  return and the token.
\<close>

fun wait_for_fresh_token :: "codec \<Rightarrow> (rat \<Rightarrow> item option res) \<Rightarrow> rat \<Rightarrow> rat \<Rightarrow> rat \<Rightarrow> rat list \<Rightarrow> (rat \<times> str option) option" where
  "wait_for_fresh_token c rows poll_interval deadline t delays =
    (if t < deadline then
       (case delays of
          [] \<Rightarrow> None
        | d # ds \<Rightarrow>
           (let u = t + poll_interval + d
            in case fresh_token c (rows u) u of
                 Some tok \<Rightarrow> Some (u, Some tok)
               | None \<Rightarrow> wait_for_fresh_token c rows poll_interval deadline u ds))
     else Some (t, None))"

declare wait_for_fresh_token.simps [simp del]

definition POLL_INTERVAL :: rat where
  "POLL_INTERVAL = 30"

definition MAX_WAIT_SECS :: rat where
  "MAX_WAIT_SECS = 1800"

definition seconds_until_token_refresh :: "rat \<Rightarrow> rat" where
  "seconds_until_token_refresh now =
    (let target = at_time_of_day now (1 * 3600 + 55 * 60);
         target = (if target \<le> now then target + 86400 else target)
     in max 0 (target - now))"

text \<open>Each poll clears the manager's cache.\<close>

definition polled :: "token_session \<Rightarrow> token_session" where
  "polled s = s\<lparr>sn_cached := None, sn_cached_expires := None\<rparr>"

definition startup_wait ::
  "codec \<Rightarrow> (rat \<Rightarrow> item option res) \<Rightarrow> resubscription \<Rightarrow> rat list \<Rightarrow> rat \<times> token_session \<Rightarrow> (rat \<times> token_session) option" where
  "startup_wait c rows outcome delays p =
    (case p of (t, s) \<Rightarrow>
       if sn_needs_authentication s then
         (case wait_for_fresh_token c rows POLL_INTERVAL (t + MAX_WAIT_SECS) t delays of
            None \<Rightarrow> None
          | Some (u, Some tok) \<Rightarrow> Some (u, apply_fresh_token outcome tok (polled s))
          | Some (u, None) \<Rightarrow> Some (u, polled s))
       else Some (t, s))"

text \<open>One round of \<open>while True\<close>; the sleep until 01:55 UTC ends on time.\<close>

definition refresh_round ::
  "codec \<Rightarrow> (rat \<Rightarrow> item option res) \<Rightarrow> resubscription \<Rightarrow> rat list \<Rightarrow> rat \<times> token_session \<Rightarrow> (rat \<times> token_session) option" where
  "refresh_round c rows outcome delays p =
    (case p of (t, s) \<Rightarrow>
       let t1 = t + seconds_until_token_refresh t
       in case wait_for_fresh_token c rows POLL_INTERVAL (t1 + MAX_WAIT_SECS) t1 delays of
            None \<Rightarrow> None
          | Some (u, Some tok) \<Rightarrow> Some (u, apply_fresh_token outcome tok (polled s))
          | Some (u, None) \<Rightarrow> Some (u, (polled s)\<lparr>sn_needs_authentication := True, sn_connected := False\<rparr>))"

fun refresh_rounds ::
  "codec \<Rightarrow> (rat \<Rightarrow> item option res) \<Rightarrow> (resubscription \<times> rat list) list \<Rightarrow> rat \<times> token_session \<Rightarrow> (rat \<times> token_session) option" where
  "refresh_rounds c rows [] p = Some p"
| "refresh_rounds c rows ((outcome, delays) # rest) p =
    (case refresh_round c rows outcome delays p of None \<Rightarrow> None | Some q \<Rightarrow> refresh_rounds c rows rest q)"

definition token_refresh_loop ::
  "codec \<Rightarrow> (rat \<Rightarrow> item option res) \<Rightarrow> resubscription \<times> rat list \<Rightarrow> (resubscription \<times> rat list) list \<Rightarrow>
   rat \<times> token_session \<Rightarrow> (rat \<times> token_session) option" where
  "token_refresh_loop c rows startup rounds p =
    (case startup_wait c rows (fst startup) (snd startup) p of None \<Rightarrow> None | Some q \<Rightarrow> refresh_rounds c rows rounds q)"

section \<open>Times of the day\<close>

lemma at_time_of_day_le: "at_time_of_day now 0 \<le> now" "now < at_time_of_day now 86400"
proof -
  have "of_int \<lfloor>now / 86400\<rfloor> \<le> now / 86400" "now / 86400 < of_int \<lfloor>now / 86400\<rfloor> + 1"
    by linarith+
  then show "at_time_of_day now 0 \<le> now" "now < at_time_of_day now 86400"
    by (simp_all add: at_time_of_day_def field_simps)
qed

lemma at_time_of_day_shift: "at_time_of_day now a = at_time_of_day now 0 + a"
  by (simp add: at_time_of_day_def)

lemma at_time_of_day_unique:
  assumes "of_int d * 86400 \<le> t" "t < of_int d * 86400 + 86400"
  shows "at_time_of_day t a = of_int d * 86400 + a"
proof -
  have "\<lfloor>t / 86400\<rfloor> = d"
    using assms by (simp add: floor_eq_iff field_simps)
  then show ?thesis by (simp add: at_time_of_day_def)
qed

text \<open>The expiry is the next 02:00 UTC, at most one day away.\<close>

lemma next_expiry_bounds: "now < next_expiry_utc now" "next_expiry_utc now \<le> now + 86400"
  using at_time_of_day_le [of now] at_time_of_day_shift [of now TOKEN_EXPIRY_SECONDS] at_time_of_day_shift [of now 86400]
  by (auto simp: next_expiry_utc_def Let_def TOKEN_EXPIRY_SECONDS_def)

lemma seconds_until_bounds: "0 < seconds_until_token_refresh now" "seconds_until_token_refresh now \<le> 86400"
  using at_time_of_day_le [of now] at_time_of_day_shift [of now 6900] at_time_of_day_shift [of now 86400]
  by (auto simp: seconds_until_token_refresh_def Let_def)

text \<open>The loop wakes at 01:55 UTC.\<close>

lemma wakes_at: "at_time_of_day (now + seconds_until_token_refresh now) 6900 = now + seconds_until_token_refresh now"
proof -
  let ?d = "\<lfloor>now / 86400\<rfloor>"
  have b: "at_time_of_day now 6900 = of_int ?d * 86400 + 6900"
    by (simp add: at_time_of_day_def)
  show ?thesis
  proof (cases "at_time_of_day now 6900 \<le> now")
    case True
    then have e: "now + seconds_until_token_refresh now = of_int (?d + 1) * 86400 + 6900"
      using at_time_of_day_le(2) [of now] b at_time_of_day_shift [of now 86400] at_time_of_day_shift [of now 6900]
      by (simp add: seconds_until_token_refresh_def Let_def)
    show ?thesis
      unfolding e by (rule at_time_of_day_unique) simp_all
  next
    case False
    then have e: "now + seconds_until_token_refresh now = of_int ?d * 86400 + 6900"
      using b by (simp add: seconds_until_token_refresh_def Let_def)
    show ?thesis
      unfolding e by (rule at_time_of_day_unique) simp_all
  qed
qed

end
