(* ===== verification/ZerodhaLimits.thy ===== *)
theory ZerodhaLimits
  imports QE_Prelude
begin

text \<open>
  The two limiters inside \<open>services/execution_engine/brokers/zerodha_broker.py\<close>: \<open>_RateLimiter\<close>, a token bucket
  for the REST calls, and \<open>_OrderPlacementLimiter\<close>, the caps on placed orders per second, minute and day.
  Their locks serialise the calls, so a history of a limiter is a list of calls one after the other.
  Times are readings of the monotonic clock.
\<close>

section \<open>\<open>_RateLimiter\<close>\<close>

record rate_limiter =
  rl_max_requests :: rat
  rl_per_seconds :: rat
  rl_tokens :: rat
  rl_last_refill :: rat

definition new_rate_limiter :: "rat \<Rightarrow> rat \<Rightarrow> rat \<Rightarrow> rate_limiter" where
  "new_rate_limiter max_requests per_seconds now =
    \<lparr>rl_max_requests = max_requests, rl_per_seconds = per_seconds, rl_tokens = max_requests, rl_last_refill = now\<rparr>"

text \<open>One \<open>acquire\<close> at time \<open>now\<close>: the time slept, and the limiter afterwards.\<close>

definition rate_acquire :: "rat \<Rightarrow> rate_limiter \<Rightarrow> rat \<times> rate_limiter" where
  "rate_acquire now l =
    (let elapsed = now - rl_last_refill l;
         tokens = min (rl_max_requests l) (rl_tokens l + elapsed * (rl_max_requests l / rl_per_seconds l));
         l = l\<lparr>rl_last_refill := now\<rparr>
     in if tokens < 1 then ((1 - tokens) * (rl_per_seconds l / rl_max_requests l), l\<lparr>rl_tokens := 0\<rparr>)
        else (0, l\<lparr>rl_tokens := tokens - 1\<rparr>))"

text \<open>
  A history: each call comes some time after the previous one returned (first component), and its sleep
  may last longer than asked (second component).  It gives the time of the last return.
\<close>

fun rate_history :: "(rat \<times> rat) list \<Rightarrow> rat \<times> rate_limiter \<Rightarrow> rat \<times> rate_limiter" where
  "rate_history [] p = p"
| "rate_history ((idle, late) # calls) (t, l) =
    (case rate_acquire (t + idle) l of (wait, l) \<Rightarrow> rate_history calls (t + idle + wait + late, l))"

text \<open>Calls one after the other, with no time between them.\<close>

definition back_to_back :: "nat \<Rightarrow> (rat \<times> rat) list" where
  "back_to_back n = replicate n (0, 0)"

text \<open>
  The potential of the limiter at time \<open>t\<close>: the tokens a call at \<open>t\<close> would see.  A sleeping call leaves the
  time it slept to be credited again, so a call costs at least one token or half of what its sleep earns.
\<close>

definition visible_tokens :: "rat \<Rightarrow> rate_limiter \<Rightarrow> rat" where
  "visible_tokens t l = rl_tokens l + (t - rl_last_refill l) * (rl_max_requests l / rl_per_seconds l)"

definition rate_ok :: "rat \<Rightarrow> rate_limiter \<Rightarrow> bool" where
  "rate_ok t l \<longleftrightarrow> 0 < rl_max_requests l \<and> 0 < rl_per_seconds l \<and> 0 \<le> rl_tokens l \<and> rl_last_refill l \<le> t"

lemma rate_acquire_step:
  assumes "rate_ok t l" "0 \<le> idle" "0 \<le> late" "rate_acquire (t + idle) l = (wait, l')"
  defines "rate \<equiv> rl_max_requests l / rl_per_seconds l"
  shows "rate_ok (t + idle + wait + late) l'" "rl_max_requests l' = rl_max_requests l" "rl_per_seconds l' = rl_per_seconds l"
    "1 + visible_tokens (t + idle + wait + late) l' \<le> visible_tokens t l + 2 * rate * (idle + wait + late)"
proof -
  have r: "0 < rate" "rl_per_seconds l / rl_max_requests l = 1 / rate"
    using assms(1) by (simp_all add: rate_def rate_ok_def)
  let ?v = "rl_tokens l + (t + idle - rl_last_refill l) * rate"
  let ?x = "min (rl_max_requests l) ?v"
  have nonneg: "0 \<le> idle * rate" "0 \<le> late * rate" "0 \<le> ?v"
    using assms(1-3) r(1) by (simp_all add: rate_ok_def)
  have v: "?v = visible_tokens t l + idle * rate"
    unfolding visible_tokens_def rate_def [symmetric] by (simp add: algebra_simps)
  have step: "wait = (if ?x < 1 then (1 - ?x) / rate else 0)"
      "l' = l\<lparr>rl_last_refill := t + idle, rl_tokens := (if ?x < 1 then 0 else ?x - 1)\<rparr>"
    using assms(4) r(2) by (auto simp: rate_acquire_def Let_def rate_def split: if_splits)
  have wait: "0 \<le> wait" "wait * rate = (if ?x < 1 then 1 - ?x else 0)"
    using r(1) by (simp_all add: step)
  show "rl_max_requests l' = rl_max_requests l" "rl_per_seconds l' = rl_per_seconds l"
    by (simp_all add: step)
  show "rate_ok (t + idle + wait + late) l'"
    using assms(1,3) wait(1) by (simp add: rate_ok_def step min_def)
  have "visible_tokens (t + idle + wait + late) l' = (if ?x < 1 then 0 else ?x - 1) + (wait + late) * rate"
    unfolding visible_tokens_def step(2) by (simp add: rate_def)
  then have v': "visible_tokens (t + idle + wait + late) l' = (if ?x < 1 then 0 else ?x - 1) + (wait * rate + late * rate)"
    by (simp add: distrib_right)
  have "visible_tokens t l + 2 * rate * (idle + wait + late) =
      ?v + idle * rate + 2 * (wait * rate) + 2 * (late * rate)"
    unfolding v by (simp add: algebra_simps)
  then show "1 + visible_tokens (t + idle + wait + late) l' \<le> visible_tokens t l + 2 * rate * (idle + wait + late)"
    using v' wait(2) nonneg by (cases "?x < 1") auto
qed

lemma rate_history_bound:
  assumes "rate_ok t l" "list_all (\<lambda>(idle, late). 0 \<le> idle \<and> 0 \<le> late) calls" "rate_history calls (t, l) = (t', l')"
  shows "rate_ok t' l' \<and> of_nat (length calls) + visible_tokens t' l' \<le>
    visible_tokens t l + 2 * (rl_max_requests l / rl_per_seconds l) * (t' - t)"
  using assms
proof (induction calls arbitrary: t l)
  case Nil
  then show ?case by simp
next
  case (Cons call calls)
  obtain idle late where c: "call = (idle, late)" by fastforce
  define R where "R = rl_max_requests l / rl_per_seconds l"
  obtain wait m where a: "rate_acquire (t + idle) l = (wait, m)" by fastforce
  let ?t = "t + idle + wait + late"
  have g: "0 \<le> idle" "0 \<le> late"
    using Cons.prems(2) c by simp_all
  note step = rate_acquire_step [OF Cons.prems(1) g a]
  have run: "rate_history calls (?t, m) = (t', l')"
    using Cons.prems(3) c a by simp
  have "rate_ok t' l' \<and> of_nat (length calls) + visible_tokens t' l' \<le>
      visible_tokens ?t m + 2 * R * (t' - ?t)"
    using Cons.IH [OF step(1) _ run] Cons.prems(2) step(2,3) by (simp add: R_def)
  then show ?case
    using step(4) unfolding R_def [symmetric] by (simp add: algebra_simps)
qed

text \<open>
  The bound that the token bucket of the Zerodha client keeps: over any history of calls the limiter lets
  pass at most its burst plus twice its rate times the time that went by.
\<close>

theorem rate_limiter_bound:
  assumes "0 < max_requests" "0 < per_seconds" "list_all (\<lambda>(idle, late). 0 \<le> idle \<and> 0 \<le> late) calls"
    and "rate_history calls (t, new_rate_limiter max_requests per_seconds t) = (t', l')"
  shows "of_nat (length calls) \<le> max_requests + 2 * (max_requests / per_seconds) * (t' - t)"
proof -
  have "rate_ok t (new_rate_limiter max_requests per_seconds t)"
    using assms(1,2) by (simp add: rate_ok_def new_rate_limiter_def)
  note bound = rate_history_bound [OF this assms(3,4)]
  moreover have "0 \<le> visible_tokens t' l'"
    using bound by (simp add: rate_ok_def visible_tokens_def)
  ultimately show ?thesis
    by (simp add: visible_tokens_def new_rate_limiter_def)
qed

theorem rate_limiter_bound_witness:
  "rate_history (back_to_back 3) (0, new_rate_limiter 1 1 0) =
     (1, (new_rate_limiter 1 1 0)\<lparr>rl_tokens := 0, rl_last_refill := 1\<rparr>) \<and>
   (of_nat (length (back_to_back 3)) :: rat) \<le> 1 + 2 * (1 / 1) * (1 - 0)"
proof
  show run: "rate_history (back_to_back 3) (0, new_rate_limiter 1 1 0) =
      (1, (new_rate_limiter 1 1 0)\<lparr>rl_tokens := 0, rl_last_refill := 1\<rparr>)"
    by (simp add: back_to_back_def numeral_3_eq_3 rate_acquire_def new_rate_limiter_def Let_def)
  show "(of_nat (length (back_to_back 3)) :: rat) \<le> 1 + 2 * (1 / 1) * (1 - 0)"
    by (rule rate_limiter_bound [OF _ _ _ run]) (simp_all add: back_to_back_def list_all_iff)
qed

lemma back_to_back_pairs:
  assumes "rl_max_requests l = 10" "rl_per_seconds l = 1" "rl_tokens l = 0" "rl_last_refill l = t"
  shows "rate_history (back_to_back (2 * n)) (t, l) = (t + of_nat n / 10, l\<lparr>rl_last_refill := t + of_nat n / 10\<rparr>)"
  using assms
proof (induction n arbitrary: t l)
  case 0
  then show ?case by (simp add: back_to_back_def)
next
  case (Suc n)
  have one: "rate_acquire (t + 0) l = (1 / 10, l)"
    using Suc.prems by (simp add: rate_acquire_def Let_def)
  have two: "rate_acquire (t + 0 + 1 / 10 + 0 + 0) l = (0, l\<lparr>rl_last_refill := t + 1 / 10\<rparr>)"
    using Suc.prems by (simp add: rate_acquire_def Let_def)
  have "back_to_back (2 * Suc n) = (0, 0) # (0, 0) # back_to_back (2 * n)"
    by (simp add: back_to_back_def)
  then have "rate_history (back_to_back (2 * Suc n)) (t, l) =
      rate_history (back_to_back (2 * n)) (t + 1 / 10, l\<lparr>rl_last_refill := t + 1 / 10\<rparr>)"
    using one two by (simp add: algebra_simps)
  also have "\<dots> = (t + 1 / 10 + of_nat n / 10, l\<lparr>rl_last_refill := t + 1 / 10 + of_nat n / 10\<rparr>)"
    using Suc.IH [of "l\<lparr>rl_last_refill := t + 1 / 10\<rparr>" "t + 1 / 10"] Suc.prems by simp
  finally show ?case
    by (simp add: field_simps)
qed

lemma rate_history_append: "rate_history (as @ bs) p = rate_history bs (rate_history as p)"
  by (induction as p rule: rate_history.induct) (simp_all split: prod.splits)

lemma burst:
  assumes "rl_max_requests l = 10" "rl_per_seconds l = 1" "rl_tokens l = of_nat n" "rl_last_refill l = t" "n \<le> 10"
  shows "rate_history (back_to_back n) (t, l) = (t, l\<lparr>rl_tokens := 0\<rparr>)"
  using assms
proof (induction n arbitrary: l)
  case 0
  then show ?case by (simp add: back_to_back_def)
next
  case (Suc n)
  have "rate_acquire (t + 0) l = (0, l\<lparr>rl_tokens := of_nat n\<rparr>)"
    using Suc.prems by (simp add: rate_acquire_def Let_def min_def)
  then show ?case
    using Suc.IH [of "l\<lparr>rl_tokens := of_nat n\<rparr>"] Suc.prems by (simp add: back_to_back_def)
qed

text \<open>
  C27 The documented limit of ten requests per second is not kept: once the ten tokens of the burst are used,
  calls one after the other pass in pairs, two every tenth of a second, so a busy client sends twenty
  requests a second for as long as it likes.
\<close>

theorem rate_limiter_doubles:
  "fst (rate_history (back_to_back (10 + 2 * n)) (t, new_rate_limiter 10 1 t)) = t + of_nat n / 10"
proof -
  let ?l = "new_rate_limiter 10 1 t"
  have split: "back_to_back (10 + 2 * n) = back_to_back 10 @ back_to_back (2 * n)"
    by (simp only: back_to_back_def replicate_add)
  have "rate_history (back_to_back 10) (t, ?l) = (t, ?l\<lparr>rl_tokens := 0\<rparr>)"
    using burst [of ?l 10 t] by (simp add: new_rate_limiter_def)
  then show ?thesis
    using back_to_back_pairs [of "?l\<lparr>rl_tokens := 0\<rparr>" t n]
    by (simp only: split rate_history_append) (simp add: new_rate_limiter_def)
qed

section \<open>\<open>_OrderPlacementLimiter\<close>\<close>

record placement_limiter =
  pl_max_per_second :: int
  pl_max_per_minute :: int
  pl_max_per_day :: int
  pl_second :: "rat list"
  pl_minute :: "rat list"
  pl_day :: "rat list"
  pl_day_key :: int

definition new_placement_limiter :: "int \<Rightarrow> int \<Rightarrow> int \<Rightarrow> int \<Rightarrow> placement_limiter" where
  "new_placement_limiter s m d today = \<lparr>pl_max_per_second = s, pl_max_per_minute = m, pl_max_per_day = d,
    pl_second = [], pl_minute = [], pl_day = [], pl_day_key = today\<rparr>"

definition prune_window :: "rat \<Rightarrow> rat \<Rightarrow> rat list \<Rightarrow> rat list" where
  "prune_window width now w = dropWhile (\<lambda>g. width \<le> now - g) w"

definition prune_placements :: "int \<Rightarrow> rat \<Rightarrow> placement_limiter \<Rightarrow> placement_limiter" where
  "prune_placements today now l =
    (let l = (if today \<noteq> pl_day_key l then l\<lparr>pl_day_key := today, pl_day := []\<rparr> else l)
     in l\<lparr>pl_second := prune_window 1 now (pl_second l), pl_minute := prune_window 60 now (pl_minute l)\<rparr>)"

text \<open>How long a full window asks to wait; \<open>None\<close>: the \<open>IndexError\<close> of an empty window that counts as full.\<close>

definition window_wait :: "rat \<Rightarrow> int \<Rightarrow> rat \<Rightarrow> rat list \<Rightarrow> rat option" where
  "window_wait width cap now w =
    (if cap \<le> int (length w) then (case w of [] \<Rightarrow> None | g # _ \<Rightarrow> Some (width - (now - g))) else Some 0)"

text \<open>
  \<open>acquire\<close> from time \<open>t\<close>.  One element of the list per iteration: the UTC date it reads, the time between
  the clock readings of \<open>_prune\<close> and of \<open>acquire\<close>, and what the sleep takes beyond the time asked.
  \<open>None\<close>: still waiting after these iterations.
\<close>

fun placement_acquire :: "(int \<times> rat \<times> rat) list \<Rightarrow> rat \<Rightarrow> placement_limiter \<Rightarrow> (unit res \<times> rat \<times> placement_limiter) option" where
  "placement_acquire [] t l = None"
| "placement_acquire ((today, gap, late) # rs) t l =
    (let l = prune_placements today t l; now = t + gap
     in if pl_max_per_day l \<le> int (length (pl_day l)) then Some (Inl OtherError, t, l)
        else
          (case (window_wait 1 (pl_max_per_second l) now (pl_second l), window_wait 60 (pl_max_per_minute l) now (pl_minute l)) of
             (Some a, Some b) \<Rightarrow>
               (let wait_seconds = max (max 0 a) b
                in if wait_seconds \<le> 0 then
                     Some (Inr (), now, l\<lparr>pl_second := pl_second l @ [now], pl_minute := pl_minute l @ [now],
                       pl_day := pl_day l @ [now]\<rparr>)
                   else placement_acquire rs (now + min wait_seconds 1 + late) l)
           | _ \<Rightarrow> Some (Inl OtherError, now, l)))"

text \<open>The times of the granted calls of a history of calls, each some time after the previous one.\<close>

fun placement_history :: "(rat \<times> (int \<times> rat \<times> rat) list) list \<Rightarrow> rat \<Rightarrow> placement_limiter \<Rightarrow> rat list" where
  "placement_history [] t l = []"
| "placement_history ((idle, rs) # calls) t l =
    (case placement_acquire rs (t + idle) l of
       None \<Rightarrow> []
     | Some (Inl _, t, l) \<Rightarrow> placement_history calls t l
     | Some (Inr _, t, l) \<Rightarrow> t # placement_history calls t l)"

section \<open>A sliding window\<close>

text \<open>
  \<open>grants\<close> are all calls let pass so far, \<open>w\<close> is the window that the limiter still holds at time \<open>t\<close>: it
  only forgot calls that are at least \<open>width\<close> old, and no interval of length \<open>width\<close> has more than \<open>cap\<close>.
\<close>

definition grants_within :: "rat \<Rightarrow> rat \<Rightarrow> rat list \<Rightarrow> nat" where
  "grants_within width x grants = length (filter (\<lambda>g. x - width < g \<and> g \<le> x) grants)"

definition window_ok :: "rat \<Rightarrow> int \<Rightarrow> rat list \<Rightarrow> rat list \<Rightarrow> rat \<Rightarrow> bool" where
  "window_ok width cap grants w t \<longleftrightarrow>
    sorted w \<and> (\<forall>g \<in> set grants. g \<le> t) \<and> (\<forall>x. int (grants_within width x grants) \<le> cap) \<and>
    (\<exists>old. grants = old @ w \<and> (\<forall>g \<in> set old. g \<le> t - width))"

lemma filter_length_le: "(\<And>x. P x \<Longrightarrow> Q x) \<Longrightarrow> length (filter P xs) \<le> length (filter Q xs)"
  by (induction xs) (auto simp: le_SucI)

lemma window_ok_later: "window_ok width cap grants w t \<Longrightarrow> t \<le> u \<Longrightarrow> window_ok width cap grants w u"
  unfolding window_ok_def by (force intro: order_trans [OF _ diff_right_mono])

lemma sorted_dropWhile_above:
  fixes w :: "rat list"
  assumes "sorted w" "g \<in> set (dropWhile (\<lambda>g. width \<le> now - g) w)"
  shows "now - width < g"
  using assms by (induction w) (auto split: if_splits)

lemma window_ok_prune:
  assumes "window_ok width cap grants w t" "t \<le> u"
  shows "window_ok width cap grants (prune_window width u w) u"
    "\<And>g. g \<in> set (prune_window width u w) \<Longrightarrow> u - width < g" "int (length (prune_window width u w)) \<le> cap"
proof -
  let ?w = "prune_window width u w" and ?old = "takeWhile (\<lambda>g. width \<le> u - g) w"
  obtain old where old: "grants = old @ w" "\<forall>g \<in> set old. g \<le> t - width"
    using assms(1) by (auto simp: window_ok_def)
  have s: "sorted w" using assms(1) by (simp add: window_ok_def)
  have split: "w = ?old @ ?w"
    by (simp add: prune_window_def)
  have "\<forall>g \<in> set ?old. g \<le> u - width"
    by (auto dest: set_takeWhileD)
  moreover have "\<forall>g \<in> set old. g \<le> u - width"
    using old(2) assms(2) by force
  ultimately have full: "grants = (old @ ?old) @ ?w" and gone: "\<forall>g \<in> set (old @ ?old). g \<le> u - width"
    using old(1) split by auto
  moreover have "sorted ?w"
    unfolding prune_window_def by (rule sorted_dropWhile [OF s])
  ultimately show "window_ok width cap grants ?w u"
    using window_ok_later [OF assms] unfolding window_ok_def by blast
  show above: "u - width < g" if "g \<in> set ?w" for g
    using sorted_dropWhile_above [OF s] that by (simp add: prune_window_def)
  have "\<forall>g \<in> set grants. g \<le> u"
    using window_ok_later [OF assms] by (simp add: window_ok_def)
  then have below: "g \<le> u" if "g \<in> set ?w" for g
    using that by (subst (asm) full) simp
  have "filter (\<lambda>g. u - width < g \<and> g \<le> u) ?w = ?w"
    using above below by (simp add: filter_id_conv)
  then have "grants_within width u ((old @ ?old) @ ?w) =
      length (filter (\<lambda>g. u - width < g \<and> g \<le> u) (old @ ?old)) + length ?w"
    by (simp add: grants_within_def)
  then have "length ?w \<le> grants_within width u grants"
    using full by simp
  moreover have "int (grants_within width u grants) \<le> cap"
    using assms(1) by (simp add: window_ok_def)
  ultimately show "int (length ?w) \<le> cap"
    by linarith
qed

text \<open>A call passes when the window asks for no wait.\<close>

lemma window_ok_grant:
  assumes "window_ok width cap grants w t" "int (length w) \<le> cap" "0 < width" "t \<le> now"
    and "window_wait width cap now w = Some a" "a \<le> 0"
  shows "window_ok width cap (grants @ [now]) (w @ [now]) now"
proof -
  obtain old where old: "grants = old @ w" "\<forall>g \<in> set old. g \<le> t - width"
    using assms(1) by (auto simp: window_ok_def)
  have past: "\<forall>g \<in> set grants. g \<le> now" and s: "sorted w"
    using assms(1,4) by (auto simp: window_ok_def)
  have gone: "\<forall>g \<in> set old. g \<le> now - width"
    using old(2) assms(4) by force
  let ?recent = "\<lambda>xs. filter (\<lambda>g. now - width < g) xs"
  have "?recent old = []"
    using gone by (auto simp: filter_empty_conv)
  then have "?recent grants = ?recent w"
    using old(1) by simp
  moreover have "int (length (?recent w)) \<le> cap - 1"
  proof (cases "cap \<le> int (length w)")
    case True
    then obtain g w' where w: "w = g # w'" and "g \<le> now - width"
      using assms(5,6) by (auto simp: window_wait_def split: list.splits)
    then have "length (?recent w) \<le> length w'"
      by simp
    then show ?thesis using assms(2) w by simp
  next
    case False
    have "length (?recent w) \<le> length w" by simp
    then show ?thesis using False by linarith
  qed
  ultimately have recent: "int (length (?recent grants)) \<le> cap - 1"
    by simp
  have "int (grants_within width x (grants @ [now])) \<le> cap" for x
  proof (cases "x < now")
    case True
    then show ?thesis
      using assms(1) by (simp add: grants_within_def window_ok_def)
  next
    case False
    have "length (filter (\<lambda>g. x - width < g \<and> g \<le> x) grants) \<le> length (?recent grants)"
      using False by (intro filter_length_le) auto
    then show ?thesis using recent by (simp add: grants_within_def)
  qed
  moreover have "sorted (w @ [now])"
    using s past old(1) by (simp add: sorted_append)
  moreover have "grants @ [now] = old @ (w @ [now]) \<and> (\<forall>g \<in> set old. g \<le> now - width)"
    using old(1) gone by simp
  ultimately show ?thesis
    using past unfolding window_ok_def by (metis (no_types, lifting) UnE empty_iff insert_iff list.set(1,2) order_refl set_append)
qed

section \<open>The placement caps\<close>

definition placement_ok :: "rat list \<Rightarrow> rat \<Rightarrow> placement_limiter \<Rightarrow> bool" where
  "placement_ok grants t l \<longleftrightarrow>
    window_ok 1 (pl_max_per_second l) grants (pl_second l) t \<and> window_ok 60 (pl_max_per_minute l) grants (pl_minute l) t"

definition caps_of :: "placement_limiter \<Rightarrow> int \<times> int \<times> int" where
  "caps_of l = (pl_max_per_second l, pl_max_per_minute l, pl_max_per_day l)"

abbreviation forward :: "(int \<times> rat \<times> rat) list \<Rightarrow> bool" where
  "forward rs \<equiv> list_all (\<lambda>(today, gap, late). 0 \<le> gap \<and> 0 \<le> late) rs"

lemma caps_prune [simp]:
  "pl_max_per_second (prune_placements today t l) = pl_max_per_second l"
  "pl_max_per_minute (prune_placements today t l) = pl_max_per_minute l"
  "pl_max_per_day (prune_placements today t l) = pl_max_per_day l"
  "pl_second (prune_placements today t l) = prune_window 1 t (pl_second l)"
  "pl_minute (prune_placements today t l) = prune_window 60 t (pl_minute l)"
  by (simp_all add: prune_placements_def Let_def)

lemma dropWhile_twice [simp]: "dropWhile P (dropWhile P w) = dropWhile P w"
  by (induction w) simp_all

lemma prune_prune [simp]: "prune_placements today t (prune_placements today t l) = prune_placements today t l"
  by (simp add: prune_placements_def prune_window_def Let_def)

lemma placement_ok_prune:
  assumes "placement_ok grants t l" "t \<le> u"
  shows "placement_ok grants u (prune_placements today u l)"
    "int (length (pl_second (prune_placements today u l))) \<le> pl_max_per_second l"
    "int (length (pl_minute (prune_placements today u l))) \<le> pl_max_per_minute l"
  using assms window_ok_prune by (auto simp: placement_ok_def)

lemma placement_acquire_step:
  assumes "placement_acquire ((today, gap, late) # rs) t l = Some (r, t', l')"
  defines "m \<equiv> prune_placements today t l" and "now \<equiv> t + gap"
  obtains (day) "r = Inl OtherError" "t' = t" "l' = m" "pl_max_per_day l \<le> int (length (pl_day m))"
    | (index) "r = Inl OtherError" "t' = now" "l' = m" "pl_max_per_second l \<le> 0 \<or> pl_max_per_minute l \<le> 0"
    | (grant) a b where "r = Inr ()" "t' = now" "int (length (pl_day m)) < pl_max_per_day l"
        "window_wait 1 (pl_max_per_second l) now (pl_second m) = Some a" "a \<le> 0"
        "window_wait 60 (pl_max_per_minute l) now (pl_minute m) = Some b" "b \<le> 0"
        "l' = m\<lparr>pl_second := pl_second m @ [now], pl_minute := pl_minute m @ [now], pl_day := pl_day m @ [now]\<rparr>"
    | (sleep) w where "0 < w" "placement_acquire rs (now + min w 1 + late) m = Some (r, t', l')"
proof -
  note run = assms(1) [simplified, folded m_def now_def, unfolded Let_def]
  show ?thesis
  proof (cases "pl_max_per_day l \<le> int (length (pl_day m))")
    case True
    then have "r = Inl OtherError \<and> t' = t \<and> l' = m"
      using run by (auto simp: m_def)
    then show ?thesis using day True by blast
  next
    case False
    let ?a = "window_wait 1 (pl_max_per_second l) now (pl_second m)" and ?b = "window_wait 60 (pl_max_per_minute l) now (pl_minute m)"
    show ?thesis
    proof (cases "?a = None \<or> ?b = None")
      case True
      then have "pl_max_per_second l \<le> 0 \<or> pl_max_per_minute l \<le> 0"
        by (auto simp: window_wait_def split: if_splits list.splits)
      moreover have "r = Inl OtherError \<and> t' = now \<and> l' = m"
        using run False True by (auto simp: m_def split: option.splits)
      ultimately show ?thesis using index by blast
    next
      case some: False
      then obtain a b where ab: "?a = Some a" "?b = Some b" by auto
      show ?thesis
      proof (cases "max (max 0 a) b \<le> 0")
        case True
        then have "a \<le> 0" "b \<le> 0" "r = Inr ()" "t' = now"
            "l' = m\<lparr>pl_second := pl_second m @ [now], pl_minute := pl_minute m @ [now], pl_day := pl_day m @ [now]\<rparr>"
          using run False ab by (auto simp: m_def)
        then show ?thesis using grant [of a b] False ab by simp
      next
        case wait: False
        then have "placement_acquire rs (now + min (max (max 0 a) b) 1 + late) m = Some (r, t', l')"
          using run False ab by (simp add: m_def split: if_splits)
        then show ?thesis
          by (rule sleep [rotated]) (use wait in \<open>simp only: not_le\<close>)
      qed
    qed
  qed
qed

lemma placement_acquire_keeps:
  assumes "placement_ok grants t l" "forward rs" "placement_acquire rs t l = Some (r, t', l')"
  shows "caps_of l' = caps_of l \<and> t \<le> t' \<and> placement_ok (if r = Inr () then grants @ [t'] else grants) t' l'"
  using assms
proof (induction rs arbitrary: t l)
  case Nil
  then show ?case by simp
next
  case (Cons reading rs)
  obtain today gap late where c: "reading = (today, gap, late)"
    by (metis prod_cases3)
  have pos: "0 \<le> gap" "0 \<le> late" "forward rs"
    using Cons.prems(2) c by simp_all
  note pruned = placement_ok_prune [OF Cons.prems(1) order_refl, of today]
  have later: "placement_ok grants u (prune_placements today t l)" if "t \<le> u" for u
    using pruned(1) window_ok_later that by (auto simp: placement_ok_def)
  from Cons.prems(3) show ?case
    unfolding c
  proof (cases rule: placement_acquire_step)
    case day
    then show ?thesis using pruned(1) by (simp add: caps_of_def)
  next
    case index
    then show ?thesis using later pos(1) by (simp add: caps_of_def)
  next
    case (grant a b)
    have "t \<le> t + gap" using pos(1) by simp
    then show ?thesis
      using grant pruned window_ok_grant [of 1 "pl_max_per_second l" grants "prune_window 1 t (pl_second l)" t "t + gap" a]
        window_ok_grant [of 60 "pl_max_per_minute l" grants "prune_window 60 t (pl_minute l)" t "t + gap" b]
      by (simp add: placement_ok_def caps_of_def)
  next
    case (sleep w)
    have le: "t \<le> t + gap + min w 1 + late"
      using pos sleep(1) by (simp add: min_def)
    show ?thesis
      using Cons.IH [OF later [OF le] pos(3) sleep(2)] le by (simp add: caps_of_def)
  qed
qed

lemma placement_history_ok:
  assumes "placement_ok grants t l" "list_all (\<lambda>(idle, rs). 0 \<le> idle \<and> forward rs) calls"
  shows "\<exists>u m. placement_ok (grants @ placement_history calls t l) u m \<and> caps_of m = caps_of l"
  using assms
proof (induction calls arbitrary: grants t l)
  case Nil
  then show ?case by auto
next
  case (Cons call calls)
  obtain idle rs where c: "call = (idle, rs)" by fastforce
  have g: "0 \<le> idle" "forward rs" and rest: "list_all (\<lambda>(idle, rs). 0 \<le> idle \<and> forward rs) calls"
    using Cons.prems(2) c by simp_all
  have ok: "placement_ok grants (t + idle) l"
    using Cons.prems(1) g(1) window_ok_later [of _ _ _ _ t "t + idle"] by (simp add: placement_ok_def)
  show ?case
  proof (cases "placement_acquire rs (t + idle) l")
    case None
    then show ?thesis using Cons.prems(1) c by auto
  next
    case (Some p)
    obtain r t' l' where p: "p = (r, t', l')"
      by (metis prod_cases3)
    note k = placement_acquire_keeps [OF ok g(2) Some [unfolded p]]
    show ?thesis
    proof (cases r)
      case (Inl e)
      then show ?thesis
        using Cons.IH [of grants t' l'] k rest c Some p by simp
    next
      case (Inr x)
      then show ?thesis
        using Cons.IH [of "grants @ [t']" t' l'] k rest c Some p by simp
    qed
  qed
qed

text \<open>
  The limiter lets a call pass, or refuses it at the daily cap, after at most 61 iterations: each sleep ends
  a second later or when a full window has lost its oldest call.  \<open>by_time\<close> bounds when a window is free.
\<close>

definition by_time :: "rat \<Rightarrow> int \<Rightarrow> rat \<Rightarrow> rat list \<Rightarrow> bool" where
  "by_time width cap D w \<longleftrightarrow> int (length w) < cap \<or> (w \<noteq> [] \<and> hd w + width \<le> D)"

lemma by_time_prune:
  assumes "int (length w) \<le> cap" "0 < cap" "by_time width cap D w"
  shows "by_time width cap D (prune_window width t w)" "int (length (prune_window width t w)) \<le> cap"
    "D \<le> t \<Longrightarrow> int (length (prune_window width t w)) < cap"
proof -
  have le: "length (dropWhile P w) \<le> length w" for P
    by (rule length_dropWhile_le)
  have shorter: "int (length (prune_window width t w)) < cap \<or> prune_window width t w = w" if "int (length w) \<le> cap"
  proof (cases w)
    case (Cons g w')
    then show ?thesis
      using that length_dropWhile_le [of "\<lambda>g. width \<le> t - g" w'] by (auto simp: prune_window_def)
  qed (simp add: prune_window_def)
  show "by_time width cap D (prune_window width t w)"
    using shorter [OF assms(1)] assms(3) by (auto simp: by_time_def)
  show "int (length (prune_window width t w)) \<le> cap"
    using shorter [OF assms(1)] assms(1) by auto
  show "int (length (prune_window width t w)) < cap" if "D \<le> t"
  proof (cases w)
    case Nil
    then show ?thesis using assms(2) by (simp add: prune_window_def)
  next
    case (Cons g w')
    then show ?thesis
      using that assms(1,3) le [of "\<lambda>g. width \<le> t - g"] length_dropWhile_le [of "\<lambda>g. width \<le> t - g" w']
      by (auto simp: prune_window_def by_time_def)
  qed
qed

lemma by_time_wait:
  assumes "by_time width cap D w" "0 < cap"
  obtains a where "window_wait width cap now w = Some a" "a \<le> max 0 (D - now)"
    "by_time width cap (now + max 0 a) w" "int (length w) < cap \<Longrightarrow> a = 0"
proof (cases "cap \<le> int (length w)")
  case True
  then obtain g w' where w: "w = g # w'" using assms(2) by (cases w) auto
  then have "g + width \<le> D" using True assms(1) by (auto simp: by_time_def)
  then show ?thesis
    using True w that [of "width - (now - g)"] by (simp add: window_wait_def by_time_def max_def)
next
  case False
  then show ?thesis using that [of 0] by (simp add: window_wait_def by_time_def)
qed

lemma by_time_mono: "by_time width cap D w \<Longrightarrow> D \<le> E \<Longrightarrow> by_time width cap E w"
  by (auto simp: by_time_def)

lemma placement_acquire_ends:
  assumes "by_time 1 (pl_max_per_second l) D (pl_second l)" "by_time 60 (pl_max_per_minute l) D (pl_minute l)"
    and "0 < pl_max_per_second l" "0 < pl_max_per_minute l"
    and "int (length (pl_second l)) \<le> pl_max_per_second l" "int (length (pl_minute l)) \<le> pl_max_per_minute l"
    and "D + 1 \<le> t + of_nat (length rs)" "rs \<noteq> []" "forward rs"
  shows "placement_acquire rs t l \<noteq> None"
  using assms
proof (induction rs arbitrary: t l D)
  case Nil
  then show ?case by simp
next
  case (Cons reading rs)
  obtain today gap late where c: "reading = (today, gap, late)"
    by (metis prod_cases3)
  have pos: "0 \<le> gap" "0 \<le> late" "forward rs"
    using Cons.prems(9) c by simp_all
  let ?m = "prune_placements today t l" and ?now = "t + gap"
  note s = by_time_prune [OF Cons.prems(5,3,1), of t] and m = by_time_prune [OF Cons.prems(6,4,2), of t]
  obtain a where a: "window_wait 1 (pl_max_per_second l) ?now (pl_second ?m) = Some a" "a \<le> max 0 (D - ?now)"
      "by_time 1 (pl_max_per_second l) (?now + max 0 a) (pl_second ?m)"
      "int (length (pl_second ?m)) < pl_max_per_second l \<Longrightarrow> a = 0"
    using by_time_wait [OF s(1) Cons.prems(3), of ?now] by (metis caps_prune(4))
  obtain b where b: "window_wait 60 (pl_max_per_minute l) ?now (pl_minute ?m) = Some b" "b \<le> max 0 (D - ?now)"
      "by_time 60 (pl_max_per_minute l) (?now + max 0 b) (pl_minute ?m)"
      "int (length (pl_minute ?m)) < pl_max_per_minute l \<Longrightarrow> b = 0"
    using by_time_wait [OF m(1) Cons.prems(4), of ?now] by (metis caps_prune(5))
  define w where "w = max (max 0 a) b"
  have unfold: "placement_acquire (reading # rs) t l =
      (if pl_max_per_day l \<le> int (length (pl_day ?m)) then Some (Inl OtherError, t, ?m)
       else if w \<le> 0 then Some (Inr (), ?now, ?m\<lparr>pl_second := pl_second ?m @ [?now], pl_minute := pl_minute ?m @ [?now],
         pl_day := pl_day ?m @ [?now]\<rparr>)
       else placement_acquire rs (?now + min w 1 + late) ?m)"
    using a(1) b(1) unfolding c w_def by (simp add: Let_def)
  have "placement_acquire rs (?now + min w 1 + late) ?m \<noteq> None" if w: "\<not> w \<le> 0"
  proof -
    have "\<not> D \<le> t"
    proof
      assume "D \<le> t"
      then have "a = 0" "b = 0" using s(3) m(3) a(4) b(4) by simp_all
      then show False using w by (simp add: w_def)
    qed
    then have "rs \<noteq> []"
      using Cons.prems(7) by auto
    have wD: "w \<le> D - ?now"
      using a(2) b(2) w by (auto simp: w_def max_def split: if_splits)
    have 1: "by_time 1 (pl_max_per_second ?m) (?now + w) (pl_second ?m)"
      by (rule by_time_mono [where D = "?now + max 0 a"]) (use a(3) in \<open>simp_all add: w_def\<close>)
    have 2: "by_time 60 (pl_max_per_minute ?m) (?now + w) (pl_minute ?m)"
      by (rule by_time_mono [where D = "?now + max 0 b"]) (use b(3) in \<open>simp_all add: w_def\<close>)
    have len: "1 \<le> (of_nat (length rs) :: rat)"
      using \<open>rs \<noteq> []\<close> by (cases rs) simp_all
    have "?now + w + 1 \<le> ?now + min w 1 + late + of_nat (length rs)"
    proof (cases "w \<le> 1")
      case True
      then show ?thesis using len pos(2) by simp
    next
      case False
      have "?now + w + 1 \<le> D + 1" using wD by simp
      also have "\<dots> \<le> t + 1 + of_nat (length rs)" using Cons.prems(7) by simp
      finally show ?thesis using False pos by simp
    qed
    then show ?thesis
      using Cons.IH [OF 1 2 _ _ _ _ _ \<open>rs \<noteq> []\<close> pos(3)] Cons.prems(3,4) s(2) m(2) by simp
  qed
  then show ?case
    unfolding unfold by simp
qed

text \<open>
  Placing an order is never held up for ever by the placement caps: from every state that a history of calls
  leads to, \<open>acquire\<close> returns or raises within 61 iterations of its loop.
\<close>

theorem placement_acquire_returns:
  assumes "placement_ok grants t l" "0 < pl_max_per_second l" "0 < pl_max_per_minute l" "forward rs" "61 \<le> length rs"
  shows "placement_acquire rs t l \<noteq> None"
proof -
  obtain today gap late rs' where rs: "rs = (today, gap, late) # rs'"
    using assms(5) by (cases rs) auto
  let ?m = "prune_placements today t l"
  note ok = placement_ok_prune [OF assms(1) order_refl, of today]
  have "g \<le> t" if "g \<in> set (pl_second ?m) \<union> set (pl_minute ?m)" for g
  proof -
    have "g \<in> set grants"
      using ok(1) that unfolding placement_ok_def window_ok_def by (metis UnCI UnE set_append)
    then show ?thesis
      using assms(1) by (simp add: placement_ok_def window_ok_def)
  qed
  then have "by_time 1 (pl_max_per_second ?m) (t + 60) (pl_second ?m)" "by_time 60 (pl_max_per_minute ?m) (t + 60) (pl_minute ?m)"
    using assms(2,3) by (cases "pl_second ?m"; cases "pl_minute ?m"; force simp: by_time_def)+
  then have "placement_acquire rs t ?m \<noteq> None"
    using placement_acquire_ends [of ?m "t + 60" t rs] assms(2-5) ok(2,3) rs by simp
  moreover have "placement_acquire rs t l = placement_acquire rs t ?m"
    by (simp only: rs placement_acquire.simps prune_prune)
  ultimately show ?thesis by simp
qed

theorem placement_acquire_returns_witness:
  "placement_acquire (replicate 61 (0, 0, 0)) 5 (new_placement_limiter 10 400 5000 0) \<noteq> None"
  by (rule placement_acquire_returns [of "[]"])
    (simp_all add: placement_ok_def window_ok_def grants_within_def new_placement_limiter_def list_all_iff)


definition impatient_calls :: "(rat \<times> (int \<times> rat \<times> rat) list) list" where
  "impatient_calls = replicate 3 (0, [(0, 0, 0), (0, 0, 0)])"

lemma impatient_history: "placement_history impatient_calls 0 (new_placement_limiter 2 400 5000 0) = [0, 0, 1]"
  by (simp add: impatient_calls_def numeral_3_eq_3 prune_placements_def prune_window_def window_wait_def
      new_placement_limiter_def Let_def)


end
