(* ===== verification/ZerodhaBroker.thy ===== *)
theory ZerodhaBroker
  imports ExecutionModel ZerodhaAuth ZerodhaLimits
begin

text \<open>
  \<open>services/execution_engine/brokers/zerodha_broker.py\<close>: \<open>ZerodhaBrokerClient\<close>, the client of the Indian broker.
  Kite Connect is a parameter, the record \<open>'k kite\<close> of its calls over an unknown world \<open>'k\<close>.  The methods are
  programs over \<open>'k clients\<close>, the fields of the two broker clients and that world; a program is \<open>None\<close> while
  it still waits in the placement limiter.  \<open>BrokerAPIError\<close> is \<open>OtherError\<close>.
\<close>

section \<open>Kite Connect\<close>

text \<open>A value of a response: the key is absent, its value is null, or it is there.\<close>

datatype 'a field = Absent | Nil_value | Given 'a

definition field_or :: "'a \<Rightarrow> 'a field \<Rightarrow> 'a" where
  "field_or d f = (case f of Given x \<Rightarrow> x | _ \<Rightarrow> d)"

definition field_str :: "str \<Rightarrow> str field \<Rightarrow> str" where
  "field_str d f = (case f of Absent \<Rightarrow> d | Nil_value \<Rightarrow> ''None'' | Given s \<Rightarrow> s)"

record kite_order =
  ko_order_id :: "str field"
  ko_status :: "str field"
  ko_tag :: "str field"
  ko_tradingsymbol :: "str field"
  ko_filled_quantity :: "rat field"
  ko_average_price :: "rat field"
  ko_status_message :: "str field"

record kite_params =
  kq_variety :: str
  kq_exchange :: str
  kq_tradingsymbol :: str
  kq_transaction_type :: str
  kq_quantity :: int
  kq_order_type :: str
  kq_product :: str
  kq_tag :: str
  kq_price :: "rat option"
  kq_trigger_price :: "rat option"

datatype kite_exn_class = InputException | DataException | TokenException | PermissionException | OrderException
  | NetworkException | GeneralException | UnclassifiedException

type_synonym kite_exn = "kite_exn_class \<times> str"

record kite_equity =
  ke_cash :: "rat field"
  ke_debits :: "rat field"
  ke_collateral :: "rat field"

record kite_instrument =
  ki_tradingsymbol :: "str field"
  ki_token :: "int field"

record 'k kite =
  kt_place :: "kite_params \<Rightarrow> 'k \<Rightarrow> (kite_exn + str) \<times> 'k"
  kt_cancel :: "str \<Rightarrow> str \<Rightarrow> 'k \<Rightarrow> (kite_exn + unit) \<times> 'k"
  kt_orders :: "'k \<Rightarrow> (kite_exn + kite_order list) \<times> 'k"
  kt_history :: "str \<Rightarrow> 'k \<Rightarrow> (kite_exn + kite_order list) \<times> 'k"
  kt_margins :: "'k \<Rightarrow> (kite_exn + kite_equity) \<times> 'k"
  kt_instruments :: "str \<Rightarrow> 'k \<Rightarrow> (kite_exn + kite_instrument list) \<times> 'k"

section \<open>State\<close>

record 'k clients =
  cs_needs_authentication :: bool
  cs_connected :: bool
  cs_kite :: "str option option" \<comment> \<open>the Kite object, if there is one, and its access token\<close>
  cs_tokens :: token_state
  cs_placement :: placement_limiter
  cs_order_rate :: rate_limiter
  cs_us_connected :: bool
  cs_us_client :: bool
  cs_us_rate :: rate_limiter
  cs_outside :: 'k

record 'k zerodha =
  zc_kite :: "'k kite"
  zc_installed :: bool
  zc_str :: "json \<Rightarrow> str"
  zc_mono :: "'k \<Rightarrow> rat \<times> 'k"
  zc_sleep :: "rat \<Rightarrow> 'k \<Rightarrow> 'k"
  zc_schedule :: "'k \<Rightarrow> (int \<times> rat \<times> rat) list \<times> 'k"
    \<comment> \<open>how the iterations of the next \<open>placement_acquire\<close> will run\<close>
  zc_tokens :: "'k token_config"
  zc_env_token :: "str res" \<comment> \<open>\<open>settings.zerodha.access_token\<close>\<close>

definition outside :: "('k \<Rightarrow> 'a \<times> 'k) \<Rightarrow> ('k clients, 'a) prog" where
  "outside f s = (case f (cs_outside s) of (r, k) \<Rightarrow> Some (Inr r, s\<lparr>cs_outside := k\<rparr>))"

section \<open>Errors\<close>

definition NON_RETRYABLE_ZERODHA_KEYWORDS :: "str list" where
  "NON_RETRYABLE_ZERODHA_KEYWORDS =
    [''insufficient funds'', ''insufficient margin'', ''insufficient balance'', ''margin shortfall'', ''margin exceeded'',
     ''exceeds available margin'', ''invalid instrument'', ''instrument not found'', ''scrip not found'',
     ''trading symbol not found'', ''not found'', ''invalid quantity'', ''quantity should be'', ''lot size'',
     ''order not found'', ''already cancelled'', ''already complete'', ''account blocked'', ''account suspended'',
     ''account restricted'', ''permission denied'', ''segment not activated'', ''not subscribed'',
     ''not enabled for trading'', ''cannot be placed'', ''order type not allowed'', ''product type not allowed'']"

definition keyword_error :: "str list \<Rightarrow> str \<Rightarrow> exn" where
  "keyword_error keywords msg =
    (if list_ex (\<lambda>kw. py_in kw (py_lower msg)) keywords then NonRetryableBrokerError else OtherError)"

text \<open>\<open>_raise_classified_zerodha_error\<close>: the exception it raises.\<close>

definition classified_zerodha_error :: "bool \<Rightarrow> kite_exn \<Rightarrow> exn" where
  "classified_zerodha_error installed e =
    (let keyword = keyword_error NON_RETRYABLE_ZERODHA_KEYWORDS (snd e)
     in if installed then
          (case fst e of
             InputException \<Rightarrow> NonRetryableBrokerError
           | DataException \<Rightarrow> NonRetryableBrokerError
           | TokenException \<Rightarrow> NonRetryableBrokerError
           | PermissionException \<Rightarrow> NonRetryableBrokerError
           | OrderException \<Rightarrow> NonRetryableBrokerError
           | NetworkException \<Rightarrow> OtherError
           | GeneralException \<Rightarrow> OtherError
           | UnclassifiedException \<Rightarrow> keyword)
        else keyword)"

section \<open>Translation\<close>

fun kite_order_type :: "order_type \<Rightarrow> str" where
  "kite_order_type MARKET = ''MARKET''"
| "kite_order_type LIMIT = ''LIMIT''"
| "kite_order_type STOP = ''SL-M''"
| "kite_order_type STOP_LIMIT = ''SL''"
| "kite_order_type STOP_LOSS_MARKET = ''SL-M''"
| "kite_order_type TRAILING_STOP = ''MARKET''" \<comment> \<open>not in the map: its default\<close>

fun kite_product :: "product_type \<Rightarrow> str" where
  "kite_product CNC = ''CNC''"
| "kite_product MIS = ''MIS''"
| "kite_product NRML = ''NRML''"
| "kite_product DAY = ''MIS''"

text \<open>\<open>str(order.metadata.get("broker_idempotency_key", order.order_id))\<close>\<close>

definition client_key :: "(json \<Rightarrow> str) \<Rightarrow> order_request \<Rightarrow> str" where
  "client_key to_str q =
    (case map_of (oq_metadata q) ''broker_idempotency_key'' of None \<Rightarrow> oq_order_id q | Some j \<Rightarrow> to_str j)"

definition translate_order :: "(json \<Rightarrow> str) \<Rightarrow> order_request \<Rightarrow> kite_params" where
  "translate_order to_str q =
    \<lparr>kq_variety = ''regular'', kq_exchange = ''NSE'', kq_tradingsymbol = oq_symbol q,
     kq_transaction_type = order_side_value (oq_side q), kq_quantity = py_int (oq_quantity q),
     kq_order_type = kite_order_type (oq_order_type q), kq_product = kite_product (oq_product_type q),
     kq_tag = take 20 (client_key to_str q), kq_price = oq_limit_price q, kq_trigger_price = oq_stop_price q\<rparr>"

definition translate_status :: "str \<Rightarrow> order_status" where
  "translate_status kite_status =
    (case map_of [(''COMPLETE'', FILLED), (''REJECTED'', REJECTED), (''CANCELLED'', CANCELLED), (''OPEN'', PLACED),
       (''PENDING'', PENDING), (''TRIGGER PENDING'', PLACED)] (py_upper kite_status) of
       Some st \<Rightarrow> st | None \<Rightarrow> PLACED)"

section \<open>Limiters and guards\<close>

definition order_slot :: "'k zerodha \<Rightarrow> ('k clients, unit) prog" where
  "order_slot Z =
    seq (outside (zc_mono Z)) (\<lambda>now.
    seq (outside (zc_schedule Z)) (\<lambda>rs s.
      case placement_acquire rs now (cs_placement s) of
        None \<Rightarrow> None
      | Some (r, t, l) \<Rightarrow> Some (r, s\<lparr>cs_placement := l, cs_outside := zc_sleep Z (t - now) (cs_outside s)\<rparr>)))"

definition rate_slot :: "'k zerodha \<Rightarrow> ('k clients, unit) prog" where
  "rate_slot Z =
    seq (outside (zc_mono Z)) (\<lambda>now s.
      case rate_acquire now (cs_order_rate s) of
        (wait, l) \<Rightarrow> Some (Inr (), s\<lparr>cs_order_rate := l,
          cs_outside := (if wait = 0 then cs_outside s else zc_sleep Z wait (cs_outside s))\<rparr>))"

definition zerodha_ready :: "'k clients \<Rightarrow> bool" where
  "zerodha_ready s \<longleftrightarrow> cs_connected s \<and> cs_kite s \<noteq> None"

definition require :: "('s \<Rightarrow> bool) \<Rightarrow> ('s, 'a) prog \<Rightarrow> ('s, 'a) prog" where
  "require ok m = seq (read ok) (\<lambda>b. if b then m else throw OtherError)"

text \<open>A call of Kite inside the \<open>try\<close> of a method.\<close>

definition kite_call :: "'k zerodha \<Rightarrow> ('k \<Rightarrow> (kite_exn + 'a) \<times> 'k) \<Rightarrow> ('k clients, 'a) prog" where
  "kite_call Z call =
    seq (outside call) (\<lambda>r. case r of Inl e \<Rightarrow> throw (classified_zerodha_error (zc_installed Z) e) | Inr x \<Rightarrow> ret x)"

section \<open>Orders\<close>

definition zerodha_place_order :: "'k zerodha \<Rightarrow> order_request \<Rightarrow> ('k clients, order_response) prog" where
  "zerodha_place_order Z q =
    require (\<lambda>s. \<not> cs_needs_authentication s) (require zerodha_ready (
    seq (order_slot Z) (\<lambda>_.
    seq (rate_slot Z) (\<lambda>_.
    seq (kite_call Z (kt_place (zc_kite Z) (translate_order (zc_str Z) q))) (\<lambda>broker_order_id.
      ret \<lparr>op_order_id = oq_order_id q, op_broker_order_id = broker_order_id, op_status = PLACED, op_symbol = oq_symbol q,
        op_market = oq_market q, op_filled_quantity = 0, op_avg_fill_price = 0, op_broker_message = []\<rparr>)))))"

definition zerodha_get_all_orders :: "'k zerodha \<Rightarrow> ('k clients, kite_order list) prog" where
  "zerodha_get_all_orders Z =
    require zerodha_ready (seq (rate_slot Z) (\<lambda>_. kite_call Z (kt_orders (zc_kite Z))))"

text \<open>The first row with the tag; the quantities must pass pydantic's \<open>ge=0\<close>.\<close>

fun first_tagged :: "str \<Rightarrow> kite_order list \<Rightarrow> kite_order option" where
  "first_tagged tag [] = None"
| "first_tagged tag (o1 # os) = (if field_str [] (ko_tag o1) = tag then Some o1 else first_tagged tag os)"

definition found_response :: "order_request \<Rightarrow> kite_order \<Rightarrow> order_response res" where
  "found_response q row =
    (let filled = field_or 0 (ko_filled_quantity row); price = field_or 0 (ko_average_price row)
     in if filled < 0 \<or> price < 0 then Inl ValueError
        else Inr \<lparr>op_order_id = oq_order_id q, op_broker_order_id = field_str [] (ko_order_id row),
          op_status = translate_status (field_str [] (ko_status row)), op_symbol = oq_symbol q, op_market = oq_market q,
          op_filled_quantity = filled, op_avg_fill_price = price, op_broker_message = field_str [] (ko_status_message row)\<rparr>)"

definition zerodha_find_order :: "'k zerodha \<Rightarrow> str \<Rightarrow> order_request \<Rightarrow> ('k clients, order_response option) prog" where
  "zerodha_find_order Z client_order_id q =
    (if client_order_id = [] then ret None
     else
       seq (zerodha_get_all_orders Z) (\<lambda>all_orders.
         case first_tagged (take 20 client_order_id) all_orders of
           None \<Rightarrow> ret None
         | Some row \<Rightarrow> of_res (map_sum id Some (found_response q row))))"

definition cancelled_update :: "str \<Rightarrow> str \<Rightarrow> order_status_update" where
  "cancelled_update broker_order_id msg = \<lparr>ou_order_id = [], ou_broker_order_id = broker_order_id, ou_previous_status = PLACED,
    ou_new_status = CANCELLED, ou_filled_quantity = 0, ou_avg_fill_price = 0, ou_slippage = 0, ou_broker_message = msg\<rparr>"

definition zerodha_cancel_order :: "'k zerodha \<Rightarrow> str \<Rightarrow> ('k clients, order_status_update) prog" where
  "zerodha_cancel_order Z broker_order_id =
    require zerodha_ready (
    seq (rate_slot Z) (\<lambda>_.
    seq (kite_call Z (kt_cancel (zc_kite Z) ''regular'' broker_order_id)) (\<lambda>_.
      ret (cancelled_update broker_order_id ''Order cancelled successfully''))))"

text \<open>
  The update \<open>get_order_status\<close> makes of the last row of the history.  A null status has no \<open>upper\<close>, a null
  number is no \<open>float\<close>, and pydantic takes no null message: the exceptions are raised inside the \<open>try\<close>, and
  their texts hold none of the keywords.
\<close>

definition status_update_of :: "str \<Rightarrow> kite_order \<Rightarrow> order_status_update res" where
  "status_update_of broker_order_id row =
    (if ko_status row = Nil_value \<or> ko_filled_quantity row = Nil_value \<or> ko_average_price row = Nil_value
        \<or> ko_status_message row = Nil_value then Inl OtherError
     else
       let filled = field_or 0 (ko_filled_quantity row); price = field_or 0 (ko_average_price row)
       in if filled < 0 \<or> price < 0 then Inl OtherError
          else Inr \<lparr>ou_order_id = [], ou_broker_order_id = broker_order_id, ou_previous_status = PLACED,
            ou_new_status = translate_status (field_or [] (ko_status row)), ou_filled_quantity = filled,
            ou_avg_fill_price = price, ou_slippage = 0, ou_broker_message = field_or [] (ko_status_message row)\<rparr>)"

definition zerodha_get_order_status :: "'k zerodha \<Rightarrow> str \<Rightarrow> ('k clients, order_status_update) prog" where
  "zerodha_get_order_status Z broker_order_id =
    require zerodha_ready (
    seq (rate_slot Z) (\<lambda>_.
    seq (kite_call Z (kt_history (zc_kite Z) broker_order_id)) (\<lambda>order_history.
      if order_history = [] then throw OtherError else of_res (status_update_of broker_order_id (last order_history)))))"

section \<open>Account and instruments\<close>

definition zerodha_get_margins :: "'k zerodha \<Rightarrow> ('k clients, rat \<times> rat \<times> rat) prog" where
  "zerodha_get_margins Z =
    seq (read zerodha_ready) (\<lambda>ready.
      if \<not> ready then ret (0, 0, 0)
      else seq (outside (kt_margins (zc_kite Z))) (\<lambda>r.
        case r of
          Inl _ \<Rightarrow> ret (0, 0, 0)
        | Inr e \<Rightarrow>
            if ke_cash e = Nil_value \<or> ke_debits e = Nil_value \<or> ke_collateral e = Nil_value then ret (0, 0, 0)
            else ret (field_or 0 (ke_cash e), field_or 0 (ke_debits e), field_or 0 (ke_collateral e))))"

text \<open>The table \<open>"exchange:symbol"\<close> to token; \<open>int\<close> of a token that is there.\<close>

definition add_instrument :: "str \<Rightarrow> str list option \<Rightarrow> kite_instrument \<Rightarrow> (str \<times> int) list \<Rightarrow> (str \<times> int) list" where
  "add_instrument exchange symbols item result =
    (let tradingsymbol = field_or [] (ki_tradingsymbol item)
     in case ki_token item of
          Given token \<Rightarrow>
            if tradingsymbol = [] then result
            else if (case symbols of None \<Rightarrow> True | Some xs \<Rightarrow> tradingsymbol \<in> set xs)
            then AList.update (exchange @ '':'' @ tradingsymbol) token result else result
        | _ \<Rightarrow> result)"

definition zerodha_get_instrument_tokens :: "'k zerodha \<Rightarrow> str \<Rightarrow> str list option \<Rightarrow> ('k clients, (str \<times> int) list) prog" where
  "zerodha_get_instrument_tokens Z exchange symbols =
    require zerodha_ready (
    seq (kite_call Z (kt_instruments (zc_kite Z) exchange)) (\<lambda>raw.
      ret (fold (add_instrument exchange symbols) raw [])))"

section \<open>Quotes\<close>

text \<open>\<open>_on_ticks\<close>: the quotes handed to the callback, in order; an exception ends the batch.\<close>

record kite_level =
  lv_price :: "rat field"
  lv_quantity :: "rat field"

record kite_tick =
  kk_token :: "int field"
  kk_last_price :: "rat field"
  kk_buy :: "kite_level list"
  kk_sell :: "kite_level list"
  kk_volume :: "rat field"

record live_quote =
  lq_symbol :: str
  lq_last_price :: rat
  lq_bid :: rat
  lq_ask :: rat
  lq_bid_quantity :: int
  lq_ask_quantity :: int
  lq_volume :: int

definition level_value :: "(kite_level \<Rightarrow> rat field) \<Rightarrow> kite_level list \<Rightarrow> rat res" where
  "level_value f levels =
    (case levels of [] \<Rightarrow> Inr 0 | l # _ \<Rightarrow> (case f l of Absent \<Rightarrow> Inr 0 | Nil_value \<Rightarrow> Inl TypeError | Given x \<Rightarrow> Inr x))"

definition quote_of_tick :: "str \<Rightarrow> kite_tick \<Rightarrow> live_quote res" where
  "quote_of_tick symbol t =
    res_bind (level_value lv_price (kk_buy t)) (\<lambda>bid.
    res_bind (level_value lv_price (kk_sell t)) (\<lambda>ask.
    res_bind (level_value lv_quantity (kk_buy t)) (\<lambda>bq.
    res_bind (level_value lv_quantity (kk_sell t)) (\<lambda>aq.
      Inr \<lparr>lq_symbol = symbol, lq_last_price = field_or 0 (kk_last_price t), lq_bid = bid, lq_ask = ask,
        lq_bid_quantity = py_int bq, lq_ask_quantity = py_int aq, lq_volume = py_int (field_or 0 (kk_volume t))\<rparr>))))"

fun on_ticks :: "(int \<Rightarrow> str option) \<Rightarrow> kite_tick list \<Rightarrow> live_quote list" where
  "on_ticks token_to_symbol [] = []"
| "on_ticks token_to_symbol (t # ts) =
    (case token_to_symbol (field_or (- 1) (kk_token t)) of
       None \<Rightarrow> on_ticks token_to_symbol ts
     | Some symbol \<Rightarrow>
         if symbol = [] then on_ticks token_to_symbol ts
         else (case quote_of_tick symbol t of Inl _ \<Rightarrow> [] | Inr q \<Rightarrow> q # on_ticks token_to_symbol ts))"

section \<open>Connection\<close>

definition with_tokens :: "(token_state \<Rightarrow> 'k \<Rightarrow> 'a res \<times> token_state \<times> 'k) \<Rightarrow> ('k clients, 'a) prog" where
  "with_tokens f s =
    (case f (cs_tokens s) (cs_outside s) of (r, tk, k) \<Rightarrow> Some (r, s\<lparr>cs_tokens := tk, cs_outside := k\<rparr>))"

definition set_token :: "str \<Rightarrow> 'k clients \<Rightarrow> 'k clients" where
  "set_token t s = s\<lparr>cs_kite := map_option (\<lambda>_. Some t) (cs_kite s), cs_connected := True, cs_needs_authentication := False\<rparr>"

text \<open>
  \<open>connect\<close>: the token of DynamoDB, else that of the environment, else \<open>needs_authentication\<close> (the flag
  \<open>_connected\<close> keeps its value); the login address is only logged.  A failure other than \<open>TokenExpiredError\<close>
  cannot come out of \<open>get_valid_token\<close>.
\<close>

definition zerodha_connect :: "'k zerodha \<Rightarrow> ('k clients, unit) prog" where
  "zerodha_connect Z =
    (if \<not> zc_installed Z then throw OtherError
     else
       seq (try_catch (with_tokens (load_credentials (zc_tokens Z))) (\<lambda>_. throw OtherError)) (\<lambda>_.
       seq (modify (\<lambda>s. s\<lparr>cs_kite := Some None\<rparr>)) (\<lambda>_.
       try_catch (seq (with_tokens (get_valid_token (zc_tokens Z))) (\<lambda>t. modify (set_token t))) (\<lambda>_.
         case zc_env_token Z of
           Inr t \<Rightarrow> if t \<noteq> [] then modify (set_token t) else modify (\<lambda>s. s\<lparr>cs_needs_authentication := True\<rparr>)
         | Inl _ \<Rightarrow> modify (\<lambda>s. s\<lparr>cs_needs_authentication := True\<rparr>)))))"

text \<open>\<open>disconnect\<close>; the ticker it closes is part of \<open>token_session\<close>.\<close>

definition zerodha_disconnect :: "('k clients, unit) prog" where
  "zerodha_disconnect = modify (\<lambda>s. s\<lparr>cs_connected := False\<rparr>)"

definition zerodha_refresh_access_token :: "'k zerodha \<Rightarrow> str \<Rightarrow> ('k clients, str) prog" where
  "zerodha_refresh_access_token Z request_token =
    seq (try_catch (with_tokens (exchange_request_token (zc_tokens Z) request_token)) (\<lambda>_. throw OtherError)) (\<lambda>t.
    seq (modify (set_token t)) (\<lambda>_. ret t))"

section \<open>As the broker of the execution service\<close>

text \<open>
  A call that still waits in the placement limiter has no answer yet; it is counted as a time-out that has done
  nothing.  With 61 iterations in the schedule the limiter always answers (\<open>placement_acquire_ends\<close>).
\<close>

definition answered :: "('s, 'a) prog \<Rightarrow> 's \<Rightarrow> 'a res \<times> 's" where
  "answered m s = (case m s of None \<Rightarrow> (Inl TimeoutError, s) | Some p \<Rightarrow> p)"

definition zerodha_broker :: "'k zerodha \<Rightarrow> 'k clients broker" where
  "zerodha_broker Z =
    \<lparr>br_place = (\<lambda>w q. answered (zerodha_place_order Z q) w), br_find = (\<lambda>w k q. answered (zerodha_find_order Z k q) w),
     br_cancel = (\<lambda>w i. answered (zerodha_cancel_order Z i) w), br_status = (\<lambda>w i. answered (zerodha_get_order_status Z i) w)\<rparr>"

end
