(* ===== verification/AlpacaBroker.thy ===== *)
theory AlpacaBroker
  imports ZerodhaBroker
begin

text \<open>
  \<open>services/execution_engine/brokers/alpaca_broker.py\<close>: \<open>AlpacaBroker\<close>, the client of the US broker, on the
  \<open>cs_us_\<close> fields of \<open>'k clients\<close>.  The alpaca-py package is a parameter, the record \<open>'k alpaca\<close>.  Its token
  bucket has the code of Zerodha's \<open>_RateLimiter\<close> and is modelled by \<open>rate_acquire\<close>.  The enums of alpaca-py
  appear as the strings that Python's \<open>str\<close> makes of them.
\<close>

section \<open>alpaca-py\<close>

text \<open>An exception: \<open>status_code\<close> (or \<open>code\<close>), when it is an \<open>int\<close>, and its text.\<close>

type_synonym alpaca_exn = "int option \<times> str"

record alpaca_common =
  ac_symbol :: str
  ac_qty :: rat
  ac_buy :: bool
  ac_tif :: str
  ac_client_order_id :: str
  ac_extended_hours :: bool

datatype alpaca_request =
    MarketOrderRequest alpaca_common
  | LimitOrderRequest "rat option" alpaca_common
  | StopOrderRequest "rat option" alpaca_common
  | StopLimitOrderRequest "rat option" "rat option" alpaca_common

fun request_common :: "alpaca_request \<Rightarrow> alpaca_common" where
  "request_common (MarketOrderRequest c) = c"
| "request_common (LimitOrderRequest l c) = c"
| "request_common (StopOrderRequest p c) = c"
| "request_common (StopLimitOrderRequest l p c) = c"

record alpaca_order =
  ao_id :: str
  ao_status :: str
  ao_filled_qty :: "rat option"
  ao_filled_avg_price :: "rat option"

record alpaca_account =
  aa_status :: str \<comment> \<open>\<open>account.status.value\<close>\<close>
  aa_buying_power :: "rat option"
  aa_initial_margin :: "rat option"

record alpaca_position =
  ap_symbol :: str
  ap_side :: str
  ap_qty :: "rat option"
  ap_entry :: "rat option"
  ap_current :: "rat option"
  ap_value :: "rat option"

record 'k alpaca =
  al_submit :: "alpaca_request \<Rightarrow> 'k \<Rightarrow> (alpaca_exn + alpaca_order) \<times> 'k"
  al_by_client_id :: "(str \<Rightarrow> 'k \<Rightarrow> (alpaca_exn + alpaca_order) \<times> 'k) option" \<comment> \<open>\<open>None\<close>: the client has no such method\<close>
  al_cancel :: "str \<Rightarrow> 'k \<Rightarrow> (alpaca_exn + unit) \<times> 'k"
  al_by_id :: "str \<Rightarrow> 'k \<Rightarrow> (alpaca_exn + alpaca_order) \<times> 'k"
  al_account :: "'k \<Rightarrow> (alpaca_exn + alpaca_account) \<times> 'k"
  al_positions :: "'k \<Rightarrow> (alpaca_exn + alpaca_position list) \<times> 'k"

record 'k us_client =
  uc_alpaca :: "'k alpaca"
  uc_available :: bool
  uc_str :: "json \<Rightarrow> str"
  uc_mono :: "'k \<Rightarrow> rat \<times> 'k"
  uc_sleep :: "rat \<Rightarrow> 'k \<Rightarrow> 'k"
  uc_secret :: "'k \<Rightarrow> (str \<times> str) res \<times> 'k"
  uc_env :: "str \<times> str"
  uc_env_paper :: str \<comment> \<open>\<open>ALPACA_USE_PAPER\<close>\<close>
  uc_use_paper :: bool \<comment> \<open>\<open>settings.alpaca.use_paper\<close>\<close>

section \<open>Errors and translation\<close>

definition NON_RETRYABLE_HTTP_CODES :: "int list" where
  "NON_RETRYABLE_HTTP_CODES = [400, 403, 422]"

definition NON_RETRYABLE_KEYWORDS :: "str list" where
  "NON_RETRYABLE_KEYWORDS =
    [''symbol not found'', ''asset not found'', ''invalid symbol'', ''no asset found'', ''insufficient buying power'',
     ''insufficient funds'', ''insufficient margin'', ''account restricted'', ''account suspended'',
     ''account is not authorized'', ''forbidden'', ''permission denied'', ''fractional orders not supported'',
     ''pattern day trader'', ''wash sale'', ''trading halted'', ''position does not exist'', ''order not found'']"

definition classified_alpaca_error :: "alpaca_exn \<Rightarrow> exn" where
  "classified_alpaca_error e =
    (if (case fst e of Some c \<Rightarrow> c \<in> set NON_RETRYABLE_HTTP_CODES | None \<Rightarrow> False) then NonRetryableBrokerError
     else keyword_error NON_RETRYABLE_KEYWORDS (snd e))"

definition translate_alpaca_status :: "str \<Rightarrow> order_status" where
  "translate_alpaca_status s =
    (case map_of [(''new'', PLACED), (''accepted'', PLACED), (''pending_new'', PENDING), (''partially_filled'', PARTIALLY_FILLED),
       (''filled'', FILLED), (''done_for_day'', FILLED), (''canceled'', CANCELLED), (''cancelled'', CANCELLED),
       (''expired'', CANCELLED), (''replaced'', PLACED), (''rejected'', REJECTED), (''held'', PENDING),
       (''accepted_for_bidding'', PLACED)] (py_lower s) of
       Some st \<Rightarrow> st | None \<Rightarrow> PLACED)"

definition map_time_in_force :: "bool \<Rightarrow> str \<Rightarrow> str" where
  "map_time_in_force available tif =
    (if \<not> available then tif
     else if py_upper tif \<in> {''DAY'', ''GTC'', ''IOC'', ''FOK'', ''OPG'', ''CLS''} then py_upper tif else ''DAY'')"

definition build_order_request :: "'k us_client \<Rightarrow> order_request \<Rightarrow> alpaca_request" where
  "build_order_request A q =
    (let common = \<lparr>ac_symbol = oq_symbol q, ac_qty = oq_quantity q, ac_buy = (order_side_value (oq_side q) = ''BUY''),
       ac_tif = map_time_in_force (uc_available A) (oq_time_in_force q), ac_client_order_id = client_key (uc_str A) q,
       ac_extended_hours = oq_extended_hours q\<rparr>
     in case oq_order_type q of
          MARKET \<Rightarrow> MarketOrderRequest common
        | LIMIT \<Rightarrow> LimitOrderRequest (oq_limit_price q) common
        | STOP \<Rightarrow> StopOrderRequest (oq_stop_price q) common
        | STOP_LOSS_MARKET \<Rightarrow> StopOrderRequest (oq_stop_price q) common
        | STOP_LIMIT \<Rightarrow> StopLimitOrderRequest (oq_limit_price q) (oq_stop_price q) common
        | TRAILING_STOP \<Rightarrow> MarketOrderRequest common)"

text \<open>\<open>_normalize_position\<close>: symbol, side, quantity, entry, current price and value.\<close>

definition normalize_position :: "alpaca_position \<Rightarrow> (str \<times> str \<times> rat \<times> rat \<times> rat \<times> rat) res" where
  "normalize_position p =
    (let entry = opt_default 0 (ap_entry p); current = opt_default 0 (ap_current p)
     in if entry < 0 \<or> current < 0 then Inl ValueError
        else Inr (ap_symbol p, ap_side p, opt_default 0 (ap_qty p), entry, current, opt_default 0 (ap_value p)))"

section \<open>Limiter and guard\<close>

definition us_rate_slot :: "'k us_client \<Rightarrow> ('k clients, unit) prog" where
  "us_rate_slot A =
    seq (outside (uc_mono A)) (\<lambda>now s.
      case rate_acquire now (cs_us_rate s) of
        (wait, l) \<Rightarrow> Some (Inr (), s\<lparr>cs_us_rate := l,
          cs_outside := (if wait = 0 then cs_outside s else uc_sleep A wait (cs_outside s))\<rparr>))"

definition us_ready :: "'k clients \<Rightarrow> bool" where
  "us_ready s \<longleftrightarrow> cs_us_connected s \<and> cs_us_client s"

definition alpaca_call :: "('k \<Rightarrow> (alpaca_exn + 'a) \<times> 'k) \<Rightarrow> ('k clients, 'a) prog" where
  "alpaca_call call =
    seq (outside call) (\<lambda>r. case r of Inl e \<Rightarrow> throw (classified_alpaca_error e) | Inr x \<Rightarrow> ret x)"

section \<open>Orders\<close>

definition alpaca_place_order :: "'k us_client \<Rightarrow> order_request \<Rightarrow> ('k clients, order_response) prog" where
  "alpaca_place_order A q =
    require us_ready (
    seq (us_rate_slot A) (\<lambda>_.
    seq (alpaca_call (al_submit (uc_alpaca A) (build_order_request A q))) (\<lambda>result.
      ret \<lparr>op_order_id = oq_order_id q, op_broker_order_id = ao_id result, op_status = PLACED, op_symbol = oq_symbol q,
        op_market = oq_market q, op_filled_quantity = 0, op_avg_fill_price = 0, op_broker_message = ao_status result\<rparr>)))"

definition us_found_response :: "order_request \<Rightarrow> alpaca_order \<Rightarrow> order_response res" where
  "us_found_response q row =
    (let filled = opt_default 0 (ao_filled_qty row); price = opt_default 0 (ao_filled_avg_price row)
     in if filled < 0 \<or> price < 0 then Inl ValueError
        else Inr \<lparr>op_order_id = oq_order_id q, op_broker_order_id = ao_id row, op_status = translate_alpaca_status (ao_status row),
          op_symbol = oq_symbol q, op_market = oq_market q, op_filled_quantity = filled, op_avg_fill_price = price,
          op_broker_message = ao_status row\<rparr>)"

text \<open>An error whose text holds \<open>not found\<close> or \<open>404\<close> counts as an answer: there is no such order.\<close>

definition says_not_found :: "alpaca_exn \<Rightarrow> bool" where
  "says_not_found e \<longleftrightarrow> py_in ''not found'' (py_lower (snd e)) \<or> py_in ''404'' (py_lower (snd e))"

definition alpaca_find_order :: "'k us_client \<Rightarrow> str \<Rightarrow> order_request \<Rightarrow> ('k clients, order_response option) prog" where
  "alpaca_find_order A client_order_id q =
    require us_ready (
      if client_order_id = [] then ret None
      else
        case al_by_client_id (uc_alpaca A) of
          None \<Rightarrow> ret None
        | Some getter \<Rightarrow>
            seq (us_rate_slot A) (\<lambda>_.
            seq (outside (getter client_order_id)) (\<lambda>r.
              case r of
                Inl e \<Rightarrow> if says_not_found e then ret None else throw (classified_alpaca_error e)
              | Inr row \<Rightarrow> of_res (map_sum id Some (us_found_response q row)))))"

definition alpaca_cancel_order :: "'k us_client \<Rightarrow> str \<Rightarrow> ('k clients, order_status_update) prog" where
  "alpaca_cancel_order A broker_order_id =
    require us_ready (
    seq (us_rate_slot A) (\<lambda>_.
    seq (alpaca_call (al_cancel (uc_alpaca A) broker_order_id)) (\<lambda>_.
      ret (cancelled_update broker_order_id ''cancelled''))))"

definition us_status_update :: "str \<Rightarrow> alpaca_order \<Rightarrow> order_status_update res" where
  "us_status_update broker_order_id row =
    (let filled = opt_default 0 (ao_filled_qty row); price = opt_default 0 (ao_filled_avg_price row)
     in if filled < 0 \<or> price < 0 then Inl OtherError
        else Inr \<lparr>ou_order_id = [], ou_broker_order_id = broker_order_id, ou_previous_status = PLACED,
          ou_new_status = translate_alpaca_status (ao_status row), ou_filled_quantity = filled, ou_avg_fill_price = price,
          ou_slippage = 0, ou_broker_message = ao_status row\<rparr>)"

definition alpaca_get_order_status :: "'k us_client \<Rightarrow> str \<Rightarrow> ('k clients, order_status_update) prog" where
  "alpaca_get_order_status A broker_order_id =
    require us_ready (
    seq (us_rate_slot A) (\<lambda>_.
    seq (alpaca_call (al_by_id (uc_alpaca A) broker_order_id)) (\<lambda>row.
      of_res (us_status_update broker_order_id row))))"

definition alpaca_get_margins :: "'k us_client \<Rightarrow> ('k clients, rat \<times> rat \<times> rat) prog" where
  "alpaca_get_margins A =
    seq (read us_ready) (\<lambda>ready.
      if \<not> ready then ret (0, 0, 0)
      else seq (outside (al_account (uc_alpaca A))) (\<lambda>r.
        case r of Inl _ \<Rightarrow> ret (0, 0, 0)
        | Inr a \<Rightarrow> ret (opt_default 0 (aa_buying_power a), opt_default 0 (aa_initial_margin a), 0)))"

fun normalize_all :: "alpaca_position list \<Rightarrow> (str \<times> str \<times> rat \<times> rat \<times> rat \<times> rat) list res" where
  "normalize_all [] = Inr []"
| "normalize_all (p # ps) = res_bind (normalize_position p) (\<lambda>x. res_bind (normalize_all ps) (\<lambda>xs. Inr (x # xs)))"

definition alpaca_get_positions :: "'k us_client \<Rightarrow> ('k clients, (str \<times> str \<times> rat \<times> rat \<times> rat \<times> rat) list) prog" where
  "alpaca_get_positions A =
    require us_ready (
    seq (us_rate_slot A) (\<lambda>_.
    seq (alpaca_call (al_positions (uc_alpaca A))) (\<lambda>raw.
      case normalize_all raw of Inl _ \<Rightarrow> throw OtherError | Inr xs \<Rightarrow> ret xs)))"

section \<open>Connection\<close>

definition is_paper_mode :: "'k us_client \<Rightarrow> bool" where
  "is_paper_mode A =
    (let v = py_lower (uc_env_paper A)
     in if v \<in> {''true'', ''1'', ''yes''} then True else if v \<in> {''false'', ''0'', ''no''} then False else uc_use_paper A)"

text \<open>\<open>_client\<close> is set before the account is read, and stays when the account refuses.\<close>

definition alpaca_connect :: "'k us_client \<Rightarrow> ('k clients, unit) prog" where
  "alpaca_connect A =
    (if \<not> uc_available A then throw OtherError
     else
       seq (outside (uc_secret A)) (\<lambda>r.
         let (api_key, _) = (case r of Inr c \<Rightarrow> c | Inl _ \<Rightarrow> uc_env A) in
         if is_paper_mode A \<and> py_in ''placeholder'' (py_lower api_key) then modify (\<lambda>s. s\<lparr>cs_us_connected := True\<rparr>)
         else
           seq (modify (\<lambda>s. s\<lparr>cs_us_client := True\<rparr>)) (\<lambda>_.
           seq (outside (al_account (uc_alpaca A))) (\<lambda>r.
             case r of
               Inl _ \<Rightarrow> throw OtherError
             | Inr a \<Rightarrow>
                 if aa_status a \<in> {''ACTIVE'', ''active''} then modify (\<lambda>s. s\<lparr>cs_us_connected := True\<rparr>)
                 else throw OtherError))))"

definition alpaca_disconnect :: "('k clients, unit) prog" where
  "alpaca_disconnect = modify (\<lambda>s. s\<lparr>cs_us_client := False, cs_us_connected := False\<rparr>)"

definition alpaca_broker :: "'k us_client \<Rightarrow> 'k clients broker" where
  "alpaca_broker A =
    \<lparr>br_place = (\<lambda>w q. answered (alpaca_place_order A q) w), br_find = (\<lambda>w k q. answered (alpaca_find_order A k q) w),
     br_cancel = (\<lambda>w i. answered (alpaca_cancel_order A i) w), br_status = (\<lambda>w i. answered (alpaca_get_order_status A i) w)\<rparr>"

end
