(* ===== verification/BrokerSafety.thy ===== *)
theory BrokerSafety
  imports AlpacaBroker ExecutionCases
begin

text \<open>
  What the two broker clients promise the execution service, from the documented behaviour of the brokers: the
  tags and the search on which \<open>tagged_orders\<close> rests, and what a status query can report.
\<close>

section \<open>The brokers\<close>

text \<open>
  \<open>booked k mk t\<close>: the orders under the client tag \<open>t\<close> that the broker of market \<open>mk\<close> has received.  A placement
  books at most one order, under the tag it was sent, also when its reply is lost; Kite's order book shows the
  orders of the day with their identifiers; Alpaca's search by client identifier says \<open>not found\<close> only when there
  is no such order.  No other call books orders.
\<close>

definition tag_count :: "str \<Rightarrow> kite_order list \<Rightarrow> nat" where
  "tag_count t os = length (filter (\<lambda>row. ko_tag row = Given t) os)"

definition kite_ok :: "('k \<Rightarrow> market \<Rightarrow> str \<Rightarrow> nat) \<Rightarrow> 'k zerodha \<Rightarrow> bool" where
  "kite_ok booked Z \<longleftrightarrow>
    (let K = zc_kite Z in
     (\<forall>p k mk t. booked (snd (kt_place K p k)) mk t \<le> booked k mk t + (if mk = NSE \<and> t = kq_tag p then 1 else 0)) \<and>
     (\<forall>k. booked (snd (kt_orders K k)) = booked k) \<and> (\<forall>i k. booked (snd (kt_history K i k)) = booked k) \<and>
     (\<forall>v i k. booked (snd (kt_cancel K v i k)) = booked k) \<and>
     (\<forall>k os t. fst (kt_orders K k) = Inr os \<longrightarrow> booked k NSE t = tag_count t os) \<and>
     (\<forall>k os row. fst (kt_orders K k) = Inr os \<and> row \<in> set os \<longrightarrow> field_str [] (ko_order_id row) \<noteq> []) \<and>
     (\<forall>k. booked (snd (zc_mono Z k)) = booked k) \<and> (\<forall>k. booked (snd (zc_schedule Z k)) = booked k) \<and>
     (\<forall>d k. booked (zc_sleep Z d k) = booked k))"

definition alpaca_ok :: "('k \<Rightarrow> market \<Rightarrow> str \<Rightarrow> nat) \<Rightarrow> 'k us_client \<Rightarrow> bool" where
  "alpaca_ok booked A \<longleftrightarrow>
    (let L = uc_alpaca A in
     (\<forall>r k mk t. booked (snd (al_submit L r k)) mk t \<le>
       booked k mk t + (if mk = US \<and> t = ac_client_order_id (request_common r) then 1 else 0)) \<and>
     (\<forall>i k. booked (snd (al_cancel L i k)) = booked k) \<and> (\<forall>i k. booked (snd (al_by_id L i k)) = booked k) \<and>
     (\<exists>getter. al_by_client_id L = Some getter \<and>
        (\<forall>c k. booked (snd (getter c k)) = booked k) \<and>
        (\<forall>c k e. fst (getter c k) = Inl e \<and> says_not_found e \<longrightarrow> booked k US c = 0) \<and>
        (\<forall>c k row. fst (getter c k) = Inr row \<longrightarrow> ao_id row \<noteq> [])) \<and>
     (\<forall>k. booked (snd (uc_mono A k)) = booked k) \<and> (\<forall>d k. booked (uc_sleep A d k) = booked k))"

text \<open>Orders without a tag are nobody's.\<close>

definition visible :: "('k \<Rightarrow> market \<Rightarrow> str \<Rightarrow> nat) \<Rightarrow> 'k clients \<Rightarrow> market \<Rightarrow> str \<Rightarrow> nat" where
  "visible booked w mk t = (if t = [] then 0 else booked (cs_outside w) mk t)"

definition client_tag :: "market \<Rightarrow> str \<Rightarrow> str" where
  "client_tag mk key = (case mk of NSE \<Rightarrow> take 20 key | US \<Rightarrow> key)"

section \<open>Frames\<close>

abbreviation same_book :: "('k \<Rightarrow> market \<Rightarrow> str \<Rightarrow> nat) \<Rightarrow> 'k clients \<Rightarrow> 'k clients \<Rightarrow> bool" where
  "same_book booked s t \<equiv> booked (cs_outside t) = booked (cs_outside s)"

interpretation orders_booked: frame "same_book booked" for booked
  by unfold_locales auto

lemmas same_rules = orders_booked.keeps_rules

lemma keeps_outside: "(\<And>k. booked (snd (f k)) = booked k) \<Longrightarrow> keeps (same_book booked) (outside f)"
  by (auto simp: keeps_def outside_def split: prod.splits) (metis snd_conv)

lemma keeps_require: "keeps (same_book booked) m \<Longrightarrow> keeps (same_book booked) (require ok m)"
  unfolding require_def by (intro same_rules)

lemma kite_okD:
  assumes "kite_ok booked Z"
  shows "booked (snd (kt_orders (zc_kite Z) k)) = booked k" "booked (snd (kt_history (zc_kite Z) i k)) = booked k"
    "booked (snd (kt_cancel (zc_kite Z) v i k)) = booked k" "booked (snd (zc_mono Z k)) = booked k"
    "booked (snd (zc_schedule Z k)) = booked k" "booked (zc_sleep Z d k) = booked k"
    "booked (snd (kt_place (zc_kite Z) p k)) mk t \<le> booked k mk t + (if mk = NSE \<and> t = kq_tag p then 1 else 0)"
    "fst (kt_orders (zc_kite Z) k) = Inr os \<Longrightarrow> booked k NSE t = tag_count t os"
    "fst (kt_orders (zc_kite Z) k) = Inr os \<Longrightarrow> row \<in> set os \<Longrightarrow> field_str [] (ko_order_id row) \<noteq> []"
  using assms unfolding kite_ok_def Let_def by blast+

lemma alpaca_okD:
  assumes "alpaca_ok booked A"
  shows "booked (snd (al_cancel (uc_alpaca A) i k)) = booked k" "booked (snd (al_by_id (uc_alpaca A) i k)) = booked k"
    "booked (snd (uc_mono A k)) = booked k" "booked (uc_sleep A d k) = booked k"
    "booked (snd (al_submit (uc_alpaca A) r k)) mk t \<le>
      booked k mk t + (if mk = US \<and> t = ac_client_order_id (request_common r) then 1 else 0)"
  using assms unfolding alpaca_ok_def Let_def by blast+

lemma keeps_rate_slot: "kite_ok booked Z \<Longrightarrow> keeps (same_book booked) (rate_slot Z)"
  unfolding rate_slot_def
  by (rule orders_booked.keeps_seq, rule keeps_outside, simp add: kite_okD)
    (auto simp: keeps_def kite_okD split: prod.splits)

lemma keeps_us_rate_slot: "alpaca_ok booked A \<Longrightarrow> keeps (same_book booked) (us_rate_slot A)"
  unfolding us_rate_slot_def
  by (rule orders_booked.keeps_seq, rule keeps_outside, simp add: alpaca_okD)
    (auto simp: keeps_def alpaca_okD split: prod.splits)

lemma keeps_order_slot: "kite_ok booked Z \<Longrightarrow> keeps (same_book booked) (order_slot Z)"
  unfolding order_slot_def
  by (rule orders_booked.keeps_seq, rule keeps_outside, simp add: kite_okD,
      rule orders_booked.keeps_seq, rule keeps_outside, simp add: kite_okD)
    (auto simp: keeps_def kite_okD split: option.splits prod.splits)

lemma keeps_kite_call: "(\<And>k. booked (snd (f k)) = booked k) \<Longrightarrow> keeps (same_book booked) (kite_call Z f)"
  unfolding kite_call_def by (intro same_rules keeps_outside) auto

lemma keeps_alpaca_call: "(\<And>k. booked (snd (f k)) = booked k) \<Longrightarrow> keeps (same_book booked) (alpaca_call f)"
  unfolding alpaca_call_def by (intro same_rules keeps_outside) auto

lemma keeps_zerodha:
  assumes "kite_ok booked Z"
  shows "keeps (same_book booked) (zerodha_find_order Z k q)" "keeps (same_book booked) (zerodha_cancel_order Z i)"
    "keeps (same_book booked) (zerodha_get_order_status Z i)"
  unfolding zerodha_find_order_def zerodha_get_all_orders_def zerodha_cancel_order_def zerodha_get_order_status_def
  by (intro same_rules keeps_require keeps_rate_slot [OF assms] keeps_kite_call kite_okD [OF assms])+

lemma keeps_alpaca:
  assumes "alpaca_ok booked A"
  shows "keeps (same_book booked) (alpaca_find_order A k q)" "keeps (same_book booked) (alpaca_cancel_order A i)"
    "keeps (same_book booked) (alpaca_get_order_status A i)"
proof -
  obtain getter where g: "al_by_client_id (uc_alpaca A) = Some getter" "\<And>c k. booked (snd (getter c k)) = booked k"
    using assms by (auto simp: alpaca_ok_def Let_def)
  show "keeps (same_book booked) (alpaca_find_order A k q)"
    unfolding alpaca_find_order_def g(1) option.case
    by (intro same_rules keeps_require keeps_us_rate_slot [OF assms] keeps_outside g(2))
  show "keeps (same_book booked) (alpaca_cancel_order A i)" "keeps (same_book booked) (alpaca_get_order_status A i)"
    unfolding alpaca_cancel_order_def alpaca_get_order_status_def
    by (intro same_rules keeps_require keeps_us_rate_slot [OF assms] keeps_alpaca_call alpaca_okD [OF assms])+
qed

lemma answered_same: "keeps (same_book booked) m \<Longrightarrow> booked (cs_outside (snd (answered m s))) = booked (cs_outside s)"
  by (auto simp: answered_def split: option.splits dest: keepsD)

section \<open>Placement and search\<close>

lemma require_Some:
  "require ok m s = Some (r, t) \<longleftrightarrow> (if ok s then m s = Some (r, t) else r = Inl OtherError \<and> t = s)"
  by (auto simp: require_def prog_defs)

lemma keyed_given: "\<exists>j. map_of (oq_metadata (keyed X q)) ''broker_idempotency_key'' = Some j"
  by (cases "map_of (oq_metadata q) ''broker_idempotency_key''") (auto simp: keyed_def attach_broker_idempotency_def)

lemma keyed_client_key: "client_key (jc_str (ex_codec X)) (keyed X q) = request_key X (keyed X q)"
proof -
  obtain j where "map_of (oq_metadata (keyed X q)) ''broker_idempotency_key'' = Some j"
    using keyed_given by blast
  then show ?thesis
    by (simp add: client_key_def request_key_def json_get_def)
qed

lemma kite_call_Some:
  assumes "kite_call Z f s = Some (r, t)"
  obtains y k where "f (cs_outside s) = (y, k)" "t = s\<lparr>cs_outside := k\<rparr>"
  using assms by (auto simp: kite_call_def outside_def prog_defs split: prod.splits sum.splits)

lemma zerodha_place_books:
  assumes ok: "kite_ok booked Z" and run: "zerodha_place_order Z q s = Some (r, t)"
  shows "booked (cs_outside t) mk k \<le>
    booked (cs_outside s) mk k + (if mk = NSE \<and> k = take 20 (client_key (zc_str Z) q) then 1 else 0)"
proof (cases "\<not> cs_needs_authentication s \<and> zerodha_ready s")
  case False
  then show ?thesis using run by (auto simp: zerodha_place_order_def require_Some split: if_splits)
next
  case True
  let ?call = "kite_call Z (kt_place (zc_kite Z) (translate_order (zc_str Z) q))"
  have "(\<exists>e. order_slot Z s = Some (Inl e, t)) \<or> (\<exists>s1. order_slot Z s = Some (Inr (), s1) \<and>
      ((\<exists>e. rate_slot Z s1 = Some (Inl e, t)) \<or> (\<exists>s2 r'. rate_slot Z s1 = Some (Inr (), s2) \<and> ?call s2 = Some (r', t))))"
    using run True by (auto simp: zerodha_place_order_def require_Some seq_Some ret_def)
  then consider "same_book booked s t" | s2 r' where "same_book booked s s2" "?call s2 = Some (r', t)"
    using keepsD [OF keeps_order_slot [OF ok]] keepsD [OF keeps_rate_slot [OF ok]] by metis
  then show ?thesis
  proof cases
    case 1
    then show ?thesis by simp
  next
    case 2
    obtain y k' where "kt_place (zc_kite Z) (translate_order (zc_str Z) q) (cs_outside s2) = (y, k')" "t = s2\<lparr>cs_outside := k'\<rparr>"
      using kite_call_Some [OF 2(2)] by blast
    then show ?thesis
      using kite_okD(7) [OF ok, of "translate_order (zc_str Z) q" "cs_outside s2" mk k] 2(1)
      by (simp add: translate_order_def)
  qed
qed

lemma alpaca_place_books:
  assumes ok: "alpaca_ok booked A" and run: "alpaca_place_order A q s = Some (r, t)"
  shows "booked (cs_outside t) mk k \<le> booked (cs_outside s) mk k + (if mk = US \<and> k = client_key (uc_str A) q then 1 else 0)"
proof (cases "us_ready s")
  case False
  then show ?thesis using run by (auto simp: alpaca_place_order_def require_Some)
next
  case True
  let ?request = "build_order_request A q"
  have "(\<exists>e. us_rate_slot A s = Some (Inl e, t)) \<or> (\<exists>s1 r'. us_rate_slot A s = Some (Inr (), s1) \<and>
      alpaca_call (al_submit (uc_alpaca A) ?request) s1 = Some (r', t))"
    using run True by (auto simp: alpaca_place_order_def require_Some seq_Some ret_def)
  then consider "same_book booked s t"
    | s1 r' where "same_book booked s s1" "alpaca_call (al_submit (uc_alpaca A) ?request) s1 = Some (r', t)"
    using keepsD [OF keeps_us_rate_slot [OF ok]] by metis
  then show ?thesis
  proof cases
    case 1
    then show ?thesis by simp
  next
    case 2
    obtain y k' where "al_submit (uc_alpaca A) ?request (cs_outside s1) = (y, k')" "t = s1\<lparr>cs_outside := k'\<rparr>"
      using 2(2) by (auto simp: alpaca_call_def outside_def prog_defs split: prod.splits sum.splits)
    moreover have "ac_client_order_id (request_common ?request) = client_key (uc_str A) q"
      by (simp add: build_order_request_def Let_def split: order_type.split)
    ultimately show ?thesis
      using alpaca_okD(5) [OF ok, of ?request "cs_outside s1" mk k] 2(1) by simp
  qed
qed

text \<open>A search that finds nothing, or a row without an identifier, says that nothing is booked.\<close>

lemma first_tagged_None: "first_tagged tag os = None \<Longrightarrow> tag_count tag os = 0"
  by (induction os) (auto simp: tag_count_def field_str_def split: if_splits)

lemma first_tagged_Some: "first_tagged tag os = Some row \<Longrightarrow> row \<in> set os"
  by (induction os) (auto split: if_splits)

lemma zerodha_search:
  assumes ok: "kite_ok booked Z" and run: "zerodha_find_order Z key q s = Some (Inr found, t)" "acknowledged found = None"
  shows "visible booked s NSE (take 20 key) = 0"
proof (cases "key = []")
  case True
  then show ?thesis by (simp add: visible_def)
next
  case False
  obtain os s1 where all: "zerodha_get_all_orders Z s = Some (Inr os, s1)"
    and row: "(case first_tagged (take 20 key) os of None \<Rightarrow> ret None
      | Some row \<Rightarrow> of_res (map_sum id Some (found_response q row))) s1 = Some (Inr found, t)"
    using run(1) False by (auto simp: zerodha_find_order_def seq_Some)
  obtain s2 where "rate_slot Z s = Some (Inr (), s2)" and call: "kite_call Z (kt_orders (zc_kite Z)) s2 = Some (Inr os, s1)"
    using all by (auto simp: zerodha_get_all_orders_def require_Some seq_Some split: if_splits)
  then have same: "same_book booked s s2"
    using keepsD [OF keeps_rate_slot [OF ok]] by blast
  have os: "fst (kt_orders (zc_kite Z) (cs_outside s2)) = Inr os"
    using call by (auto simp: kite_call_def outside_def prog_defs split: prod.splits sum.splits)
  show ?thesis
  proof (cases "first_tagged (take 20 key) os")
    case None
    then show ?thesis
      using first_tagged_None [OF None] kite_okD(8) [OF ok os] same by (simp add: visible_def)
  next
    case (Some o1)
    then obtain resp where "found_response q o1 = Inr resp" "found = Some resp"
      using row by (cases "found_response q o1") (auto simp: of_res_def)
    moreover have "field_str [] (ko_order_id o1) \<noteq> []"
      using kite_okD(9) [OF ok os first_tagged_Some [OF Some]] .
    ultimately have "acknowledged found \<noteq> None"
      by (auto simp: acknowledged_def found_response_def Let_def split: if_splits)
    then show ?thesis using run(2) by simp
  qed
qed

lemma alpaca_search:
  assumes ok: "alpaca_ok booked A" and run: "alpaca_find_order A key q s = Some (Inr found, t)" "acknowledged found = None"
  shows "visible booked s US key = 0"
proof (cases "key = []")
  case True
  then show ?thesis by (simp add: visible_def)
next
  case False
  obtain getter where g: "al_by_client_id (uc_alpaca A) = Some getter"
    "\<And>c k e. fst (getter c k) = Inl e \<Longrightarrow> says_not_found e \<Longrightarrow> booked k US c = 0"
    "\<And>c k row. fst (getter c k) = Inr row \<Longrightarrow> ao_id row \<noteq> []"
    using ok by (auto simp: alpaca_ok_def Let_def)
  obtain s1 where "us_rate_slot A s = Some (Inr (), s1)"
    and rest: "seq (outside (getter key)) (\<lambda>r. case r of
        Inl e \<Rightarrow> if says_not_found e then ret None else throw (classified_alpaca_error e)
      | Inr row \<Rightarrow> of_res (map_sum id Some (us_found_response q row))) s1 = Some (Inr found, t)"
    using run(1) False by (auto simp: alpaca_find_order_def g(1) require_Some seq_Some split: if_splits)
  then have same: "same_book booked s s1"
    using keepsD [OF keeps_us_rate_slot [OF ok]] by blast
  obtain y k where y: "getter key (cs_outside s1) = (y, k)" by fastforce
  show ?thesis
  proof (cases y)
    case (Inl e)
    then have "says_not_found e"
      using rest y by (auto simp: outside_def prog_defs split: if_splits)
    then have "booked (cs_outside s1) US key = 0"
      using g(2) [of key "cs_outside s1" e] y Inl by simp
    then show ?thesis using same by (simp add: visible_def)
  next
    case (Inr row)
    then have "found \<noteq> None \<and> op_broker_order_id (the found) = ao_id row"
      using rest y by (auto simp: outside_def prog_defs us_found_response_def Let_def split: if_splits)
    moreover have "ao_id row \<noteq> []"
      using g(3) [of key "cs_outside s1" row] y Inr by simp
    ultimately show ?thesis
      using run(2) by (auto simp: acknowledged_def)
  qed
qed

section \<open>The broker contract of the execution service\<close>

definition idle_broker :: "'w broker" where
  "idle_broker = \<lparr>br_place = (\<lambda>w q. (Inl OtherError, w)), br_find = (\<lambda>w k q. (Inl OtherError, w)),
    br_cancel = (\<lambda>w i. (Inl OtherError, w)), br_status = (\<lambda>w i. (Inl OtherError, w))\<rparr>"

lemma env_moves_brokers:
  assumes "env_moves V (X\<lparr>ex_zerodha := idle_broker, ex_alpaca := idle_broker\<rparr>)"
    and "reads_move V (ex_zerodha X)" "reads_move V (ex_alpaca X)"
  shows "env_moves V X"
  using assms by (simp add: env_moves_def)

lemma answered_cases: "answered m s = (r, t) \<Longrightarrow> m s = Some (r, t) \<or> r = Inl TimeoutError \<and> t = s"
  by (auto simp: answered_def split: option.splits)


text \<open>Brokers that keep a book of the tags and whose placement replies are lost.\<close>

type_synonym tag_book = "(market \<times> str) list"

definition book_row :: "market \<times> str \<Rightarrow> kite_order" where
  "book_row e = \<lparr>ko_order_id = Given ''B'', ko_status = Given ''OPEN'', ko_tag = (if fst e = NSE then Given (snd e) else Nil_value),
    ko_tradingsymbol = Absent, ko_filled_quantity = Absent, ko_average_price = Absent, ko_status_message = Nil_value\<rparr>"

definition demo_kite :: "tag_book zerodha" where
  "demo_kite = \<lparr>zc_kite = \<lparr>kt_place = (\<lambda>p k. (Inl (NetworkException, ''lost''), (NSE, kq_tag p) # k)),
      kt_cancel = (\<lambda>v i k. (Inr (), k)), kt_orders = (\<lambda>k. (Inr (map book_row k), k)),
      kt_history = (\<lambda>i k. (Inr [], k)), kt_margins = (\<lambda>k. (Inl (NetworkException, []), k)),
      kt_instruments = (\<lambda>e k. (Inr [], k))\<rparr>,
    zc_installed = True, zc_str = jc_str book_codec, zc_mono = (\<lambda>k. (0, k)), zc_sleep = (\<lambda>d k. k),
    zc_schedule = (\<lambda>k. (replicate 61 (0, 0, 0), k)),
    zc_tokens = \<lparr>tc_dynamo = None, tc_table = [], tc_codec = book_codec, tc_secrets = None, tc_env = Inl KeyError,
      tc_now = (\<lambda>k. (0, k)), tc_installed = True, tc_session = (\<lambda>_ _ _ k. (Inl OtherError, k))\<rparr>,
    zc_env_token = Inl KeyError\<rparr>"

definition us_row :: alpaca_order where
  "us_row = \<lparr>ao_id = ''A'', ao_status = ''OrderStatus.NEW'', ao_filled_qty = None, ao_filled_avg_price = None\<rparr>"

definition demo_alpaca :: "tag_book us_client" where
  "demo_alpaca = \<lparr>uc_alpaca = \<lparr>al_submit = (\<lambda>r k. (Inl (None, ''lost''), (US, ac_client_order_id (request_common r)) # k)),
      al_by_client_id = Some (\<lambda>c k. (if (US, c) \<in> set k then Inr us_row else Inl (Some 404, ''order not found''), k)),
      al_cancel = (\<lambda>i k. (Inr (), k)), al_by_id = (\<lambda>i k. (Inl (None, []), k)),
      al_account = (\<lambda>k. (Inl (None, []), k)), al_positions = (\<lambda>k. (Inr [], k))\<rparr>,
    uc_available = True, uc_str = jc_str book_codec, uc_mono = (\<lambda>k. (0, k)), uc_sleep = (\<lambda>d k. k),
    uc_secret = (\<lambda>k. (Inl OtherError, k)), uc_env = (''key'', ''secret''), uc_env_paper = ''false'', uc_use_paper = True\<rparr>"

definition demo_booked :: "tag_book \<Rightarrow> market \<Rightarrow> str \<Rightarrow> nat" where
  "demo_booked k mk t = count_list k (mk, t)"

definition demo_clients_execution :: "tag_book clients execution" where
  "demo_clients_execution =
    \<lparr>ex_zerodha = zerodha_broker demo_kite, ex_alpaca = alpaca_broker demo_alpaca,
     ex_manager = \<lparr>om_dynamo = None, om_orders_table = ''orders'', om_positions_table = ''positions'',
       om_risk_state_table = ''risk'', om_portfolio_value = 1000000, om_lib = book_lib\<rparr>,
     ex_dynamo = None, ex_risk_table = ''risk'', ex_publisher = \<lparr>oe_producer = None, oe_codec = book_codec\<rparr>,
     ex_consumer = \<lparr>kc_codec = book_codec, kc_failure = None, kc_commit = (\<lambda>w msg. (Inr (), w))\<rparr>,
     ex_acquire = (\<lambda>p e w. (Inr (), w)),
     ex_retry = \<lparr>rh_max_retries = 3, rh_base_delay = 1, rh_max_delay = 30, rh_backoff_factor = 2,
       rh_failure_threshold = 5, rh_cooldown = 60, rh_mono = (\<lambda>w. (0, w)), rh_sleep = (\<lambda>d w. w)\<rparr>,
     ex_codec = book_codec, ex_num_str = (\<lambda>x. []), ex_fixed8 = (\<lambda>x. ''q''), ex_exn_str = (\<lambda>e. []),
     ex_utc = (\<lambda>w. (0, w)), ex_mono = (\<lambda>w. (0, w)), ex_hex = (\<lambda>w. (''abc'', w)), ex_uuid = (\<lambda>w. (''u'', w)),
     ex_datetime = (\<lambda>t. \<lparr>dt_iso = ''t'', dt_date = ''d''\<rparr>), ex_random = (\<lambda>s. 0), ex_poll_interval = 1,
     ex_paper = book_paper, ex_fuel = 1\<rparr>"

lemma demo_tag_count: "tag_count t (map book_row k) = demo_booked k NSE t"
  by (induction k) (auto simp: tag_count_def book_row_def demo_booked_def)

lemma demo_kite_ok: "kite_ok demo_booked demo_kite"
  unfolding kite_ok_def
  by (simp add: demo_kite_def demo_tag_count) (auto simp: demo_booked_def field_str_def book_row_def)

lemma demo_alpaca_ok: "alpaca_ok demo_booked demo_alpaca"
  unfolding alpaca_ok_def
  by (simp add: demo_alpaca_def) (auto simp: demo_booked_def us_row_def count_list_0_iff split: if_splits)


section \<open>What a status query reports\<close>

lemma rate_slot_returns: "\<exists>t. rate_slot Z s = Some (Inr (), t)"
  by (cases "zc_mono Z (cs_outside s)"; cases "rate_acquire (fst (zc_mono Z (cs_outside s))) (cs_order_rate s)")
    (simp add: rate_slot_def outside_def seq_def)

text \<open>
  C31 Kite documents \<open>status_message\<close> as null for an order that was not rejected.  Then the status query never
  returns an update: whatever the status of the order, it raises, so that a reconciliation that rests on it leaves
  the order as it was.
\<close>

theorem null_message_hides_status:
  assumes "\<And>k. \<exists>os k'. kt_history (zc_kite Z) i k = (Inr (os @ [row]), k')" "ko_status_message row = Nil_value"
  shows "\<exists>t. zerodha_get_order_status Z i s = Some (Inl OtherError, t)"
proof (cases "zerodha_ready s")
  case False
  then show ?thesis by (simp add: zerodha_get_order_status_def prog_defs require_def)
next
  case True
  obtain s1 where r: "rate_slot Z s = Some (Inr (), s1)"
    using rate_slot_returns by blast
  obtain os k' where "kt_history (zc_kite Z) i (cs_outside s1) = (Inr (os @ [row]), k')"
    using assms(1) by blast
  then show ?thesis
    using True r assms(2)
    by (simp add: zerodha_get_order_status_def require_def kite_call_def outside_def prog_defs status_update_of_def)
qed

theorem null_message_hides_status_witness:
  "\<exists>t. zerodha_get_order_status (demo_kite\<lparr>zc_kite := (zc_kite demo_kite)\<lparr>kt_history := \<lambda>i k.
      (Inr [book_row (NSE, ''tag'')], k)\<rparr>\<rparr>) ''1''
      \<lparr>cs_needs_authentication = False, cs_connected = True, cs_kite = Some (Some ''token''), cs_tokens = new_token_state,
       cs_placement = new_placement_limiter 10 400 5000 0, cs_order_rate = new_rate_limiter 10 1 0, cs_us_connected = False,
       cs_us_client = False, cs_us_rate = new_rate_limiter 200 60 0, cs_outside = []\<rparr> = Some (Inl OtherError, t)"
  by (rule null_message_hides_status [where row = "book_row (NSE, ''tag'')"]) (auto simp: demo_kite_def book_row_def)

text \<open>
  alpaca-py gives the status of an order as a member of its enum \<open>OrderStatus\<close>, whose \<open>str\<close> starts with
  the name of the class.  No such string is in the translation table, so every order of the US broker, also a filled,
  a cancelled or a rejected one, is reported as \<open>PLACED\<close>.
\<close>

theorem us_status_always_placed:
  assumes "ao_status row = ''OrderStatus.'' @ member" "us_status_update i row = Inr u"
  shows "ou_new_status u = PLACED"
proof -
  have "py_lower ''OrderStatus.'' = ''orderstatus.''"
    by code_simp
  moreover have "py_lower (''OrderStatus.'' @ member) = py_lower ''OrderStatus.'' @ py_lower member"
    by (simp only: py_lower_def map_append)
  ultimately have "py_lower (''OrderStatus.'' @ member) = ''orderstatus.'' @ py_lower member"
    by simp
  then have "translate_alpaca_status (ao_status row) = PLACED"
    by (simp add: assms(1) translate_alpaca_status_def)
  then show ?thesis
    using assms(2) by (auto simp: us_status_update_def Let_def split: if_splits)
qed

theorem us_status_always_placed_witness:
  "\<exists>u. us_status_update ''1'' (us_row\<lparr>ao_status := ''OrderStatus.FILLED'', ao_filled_qty := Some 10, ao_filled_avg_price := Some 5\<rparr>) = Inr u \<and>
    ou_new_status u = PLACED \<and> ou_filled_quantity u = 10"
proof -
  let ?row = "us_row\<lparr>ao_status := ''OrderStatus.FILLED'', ao_filled_qty := Some 10, ao_filled_avg_price := Some 5\<rparr>"
  obtain u where u: "us_status_update ''1'' ?row = Inr u" "ou_filled_quantity u = 10"
    by (simp add: us_status_update_def)
  moreover have "ou_new_status u = PLACED"
    by (rule us_status_always_placed [of ?row "''FILLED''", OF _ u(1)]) simp
  ultimately show ?thesis by blast
qed

end
