(* ===== verification/ZerodhaAuthSafety.thy ===== *)
theory ZerodhaAuthSafety
  imports ZerodhaAuth Retry
begin

text \<open>
  The daily access token: what one process stores is what another reads until 02:00 UTC, and which logins
  of the operator the running client sees.
\<close>

section \<open>The stored token\<close>

lemma token_of_stored:
  assumes "codec_ok c"
  shows "token_of_response c (Inr (Some (token_item c t k e now))) = (Some t, Some e)"
  using assms by (simp add: token_of_response_def token_item_def codec_ok_def)

lemma load_credentials_Inr_tk:
  "load_credentials C s w = (Inr (k, sec), s', w') \<Longrightarrow> tk_token s' = tk_token s \<and> tk_expires s' = tk_expires s"
  by (auto simp: load_credentials_def env_credentials_def split: if_splits option.splits sum.splits prod.splits)

text \<open>What an exchange that returns has stored.\<close>

lemma exchange_stores:
  assumes "tc_dynamo C = Some D" "dynamo_ok (=) D" "exchange_request_token C rt s w = (Inr t, s1, w1)"
  obtains k e now where "dy_tables D w1 (tc_table C) TOKEN_KEY = Some (token_item (tc_codec C) t k e now)"
    "tk_token s1 = Some t" "tk_expires s1 = Some e"
proof -
  obtain k sec s2 w2 where l: "load_credentials C s w = (Inr (k, sec), s2, w2)"
    using assms(3) by (auto simp: exchange_request_token_def split: if_splits prod.splits sum.splits)
  obtain tok w3 where ses: "tc_session C k rt sec w2 = (Inr (Some tok), w3)"
    using assms(3) l by (auto simp: exchange_request_token_def split: if_splits prod.splits sum.splits option.splits)
  obtain now w4 where n: "tc_now C w3 = (now, w4)" by fastforce
  obtain now' w5 where n': "tc_now C w4 = (now', w5)" by fastforce
  let ?i = "token_item (tc_codec C) tok k (next_expiry_utc now) now'"
  obtain x where p: "dy_put D w5 (tc_table C) TOKEN_KEY ?i NoCond = (Inr x, w1)"
    and r: "t = tok" "tk_token s1 = Some tok" "tk_expires s1 = Some (next_expiry_utc now)"
    using assms(1,3) l ses n n'
    by (auto simp: exchange_request_token_def store_token_def Let_def split: if_splits prod.splits sum.splits)
  have "dy_tables D w1 (tc_table C) TOKEN_KEY = Some ?i"
    using sole_put [OF assms(2) p] by (simp add: tables_put_def)
  then show ?thesis using that r by blast
qed

text \<open>
  C28 The operator's login reaches the service: the token that one process (the login command) obtained
  and stored is the token that a manager of another process reads from the shared table, until the expiry
  the first process computed (the next 02:00 UTC), and from that moment on it is refused as expired.
\<close>

theorem token_roundtrip:
  assumes "tc_dynamo C = Some D" "tc_dynamo C' = Some D" "tc_table C' = tc_table C" "tc_codec C' = tc_codec C"
    and "codec_ok (tc_codec C)" "dynamo_ok (=) D" "dynamo_values D"
    and "exchange_request_token C rt s w = (Inr t, s1, w1)" "tk_expires s1 = Some e"
    and "dy_tables D w2 = dy_tables D w1" "dy_get D w2 (tc_table C) TOKEN_KEY = (Inr row, w3)" "tc_now C' w3 = (now, w4)"
  shows "get_valid_token C' new_token_state w2 =
    (if now < e then (Inr t, new_token_state\<lparr>tk_token := Some t, tk_expires := Some e\<rparr>, w4)
     else (Inl OtherError, new_token_state, w4))"
proof -
  obtain k e' now' where i: "dy_tables D w1 (tc_table C) TOKEN_KEY = Some (token_item (tc_codec C) t k e' now')"
      "tk_expires s1 = Some e'"
    using exchange_stores [OF assms(1,6,8)] by metis
  have "row = Some (token_item (tc_codec C) t k e now')"
    using sole_get [OF assms(6,7,11)] i assms(9,10) by simp
  then have "load_token_from_dynamo C' w2 = ((Some t, Some e), w3)"
    using assms(2-5,11) by (simp add: load_token_from_dynamo_def token_of_stored)
  then show ?thesis
    using assms(12) by (simp add: get_valid_token_def stored_token_def new_token_state_def)
qed

definition demo_login :: "rat \<Rightarrow> mem token_config" where
  "demo_login now = \<lparr>tc_dynamo = Some mem_dynamo, tc_table = ''sessions'', tc_codec = demo_codec, tc_secrets = None,
    tc_env = Inr (''key'', ''secret''), tc_now = (\<lambda>w. (now, w)), tc_installed = True,
    tc_session = (\<lambda>_ _ _ w. (Inr (Some ''tok''), w))\<rparr>"

lemma demo_login_simps [simp]:
  "tc_dynamo (demo_login now) = Some mem_dynamo" "tc_table (demo_login now) = ''sessions''"
  "tc_codec (demo_login now) = demo_codec" "tc_now (demo_login now) w = (now, w)"
  by (simp_all add: demo_login_def)

definition demo_row :: item where
  "demo_row = token_item demo_codec ''tok'' ''key'' 7200 100"

lemma demo_exchange:
  "exchange_request_token (demo_login 100) ''req'' new_token_state [] =
    (Inr ''tok'', \<lparr>tk_key = Some ''key'', tk_secret = Some ''secret'', tk_token = Some ''tok'', tk_expires = Some 7200\<rparr>,
     [((''sessions'', TOKEN_KEY), demo_row)])"
proof -
  have "next_expiry_utc 100 = 7200"
    using at_time_of_day_unique [of 0 100 TOKEN_EXPIRY_SECONDS] by (simp add: next_expiry_utc_def TOKEN_EXPIRY_SECONDS_def)
  then show ?thesis
    by (simp add: exchange_request_token_def load_credentials_def env_credentials_def demo_login_def new_token_state_def
        given_def store_token_def demo_row_def mem_simps)
qed

theorem token_roundtrip_witness:
  "get_valid_token (demo_login 7199) new_token_state [((''sessions'', TOKEN_KEY), demo_row)] =
     (Inr ''tok'', new_token_state\<lparr>tk_token := Some ''tok'', tk_expires := Some 7200\<rparr>, [((''sessions'', TOKEN_KEY), demo_row)]) \<and>
   get_valid_token (demo_login 7200) new_token_state [((''sessions'', TOKEN_KEY), demo_row)] =
     (Inl OtherError, new_token_state, [((''sessions'', TOKEN_KEY), demo_row)])"
proof -
  let ?w = "[((''sessions'', TOKEN_KEY), demo_row)]"
  have get: "dy_get mem_dynamo ?w ''sessions'' TOKEN_KEY = (Inr (Some demo_row), ?w)"
    by (simp add: mem_simps)
  have run: "get_valid_token (demo_login now) new_token_state ?w = (if now < 7200
      then (Inr ''tok'', new_token_state\<lparr>tk_token := Some ''tok'', tk_expires := Some 7200\<rparr>, ?w)
      else (Inl OtherError, new_token_state, ?w))" for now
    by (rule token_roundtrip [OF _ _ _ _ _ mem_dynamo_ok mem_dynamo_values demo_exchange, where row = "Some demo_row"])
      (simp_all add: get demo_codec_ok)
  show ?thesis
    using run [of 7199] run [of 7200] by simp
qed

section \<open>The wait for a fresh token\<close>

lemma wait_done: "deadline \<le> t \<Longrightarrow> wait_for_fresh_token c rows p deadline t ds = Some (t, None)"
  by (subst wait_for_fresh_token.simps) simp

lemma wait_poll:
  "t < deadline \<Longrightarrow> wait_for_fresh_token c rows p deadline t (d # ds) =
    (case fresh_token c (rows (t + p + d)) (t + p + d) of
       Some tok \<Rightarrow> Some (t + p + d, Some tok) | None \<Rightarrow> wait_for_fresh_token c rows p deadline (t + p + d) ds)"
  by (subst wait_for_fresh_token.simps) (simp add: Let_def)

lemma wait_Nil: "t < deadline \<Longrightarrow> wait_for_fresh_token c rows p deadline t [] = None"
  by (subst wait_for_fresh_token.simps) simp

text \<open>The wait returns: as many polls as poll intervals fit are enough.\<close>

lemma wait_returns:
  assumes "0 \<le> p" "deadline \<le> t + p * of_nat (length ds)" "list_all (\<lambda>d. 0 \<le> d) ds"
  shows "\<exists>u r. wait_for_fresh_token c rows p deadline t ds = Some (u, r) \<and> t \<le> u"
  using assms(2,3)
proof (induction ds arbitrary: t)
  case Nil
  then show ?case by (simp add: wait_done)
next
  case (Cons d ds)
  show ?case
  proof (cases "t < deadline")
    case True
    have "deadline \<le> t + p + d + p * of_nat (length ds)"
      using Cons.prems by (simp add: algebra_simps)
    then obtain u r where "wait_for_fresh_token c rows p deadline (t + p + d) ds = Some (u, r)" "t + p + d \<le> u"
      using Cons.IH [of "t + p + d"] Cons.prems(2) by auto
    moreover have "t \<le> t + p + d"
      using Cons.prems(2) assms(1) by simp
    ultimately show ?thesis
      using True by (auto simp: wait_poll split: option.splits)
  qed (simp add: wait_done)
qed

text \<open>A wait that never sees a fresh token gives none.\<close>

lemma wait_none:
  assumes "\<And>u. start \<le> u \<Longrightarrow> fresh_token c (rows u) u = None" "0 \<le> p" "start \<le> t" "list_all (\<lambda>d. 0 \<le> d) ds"
    and "wait_for_fresh_token c rows p deadline t ds = Some (u, r)"
  shows "r = None"
  using assms(3-5)
proof (induction ds arbitrary: t)
  case Nil
  then show ?case by (cases "t < deadline") (simp_all add: wait_Nil wait_done)
next
  case (Cons d ds)
  show ?case
  proof (cases "t < deadline")
    case True
    have le: "start \<le> t + p + d"
      using Cons.prems(1,2) assms(2) by simp
    then have "wait_for_fresh_token c rows p deadline (t + p + d) ds = Some (u, r)"
      using Cons.prems(3) True assms(1) [OF le] by (simp add: wait_poll)
    then show ?thesis
      using Cons.IH [OF le] Cons.prems(2) by simp
  qed (use Cons.prems in \<open>simp add: wait_done\<close>)
qed

text \<open>A wait that gave no token ended at its deadline, and its last read found nothing fresh.\<close>

lemma wait_gave_up:
  assumes "wait_for_fresh_token c rows p deadline t ds = Some (u, None)" "t < deadline"
    and "list_all (\<lambda>d. 0 \<le> d \<and> d \<le> m) ds"
  shows "deadline \<le> u \<and> u < deadline + p + m \<and> fresh_token c (rows u) u = None"
  using assms
proof (induction ds arbitrary: t)
  case Nil
  then show ?case by (simp add: wait_Nil)
next
  case (Cons d ds)
  let ?t = "t + p + d"
  have none: "fresh_token c (rows ?t) ?t = None" and run: "wait_for_fresh_token c rows p deadline ?t ds = Some (u, None)"
    using Cons.prems(1,2) by (auto simp: wait_poll split: option.splits)
  show ?case
  proof (cases "?t < deadline")
    case True
    then show ?thesis using Cons.IH [OF run] Cons.prems(3) by simp
  next
    case False
    then have "u = ?t" using run by (simp add: wait_done)
    then show ?thesis using False none Cons.prems(2,3) by simp
  qed
qed

lemma wait_ends:
  assumes "wait_for_fresh_token c rows p deadline t ds = Some (u, None)"
  shows "deadline \<le> u"
  using assms
proof (induction ds arbitrary: t)
  case Nil
  then show ?case by (cases "t < deadline") (simp_all add: wait_Nil wait_done)
next
  case (Cons d ds)
  then show ?case
    by (cases "t < deadline") (auto simp: wait_poll wait_done split: option.splits)
qed

text \<open>A wait only depends on the rows after its start.\<close>

lemma wait_cong:
  assumes "\<And>u. start \<le> u \<Longrightarrow> rows u = rows' u" "0 \<le> p" "start \<le> t" "list_all (\<lambda>d. 0 \<le> d) ds"
  shows "wait_for_fresh_token c rows p deadline t ds = wait_for_fresh_token c rows' p deadline t ds"
  using assms(3,4)
proof (induction ds arbitrary: t)
  case Nil
  then show ?case by (cases "t < deadline") (simp_all add: wait_Nil wait_done)
next
  case (Cons d ds)
  have "start \<le> t + p + d"
    using Cons.prems assms(2) by simp
  then show ?case
    using Cons.IH [of "t + p + d"] Cons.prems(2) assms(1)
    by (cases "t < deadline") (simp_all add: wait_poll wait_done split: option.split)
qed

section \<open>Which logins the running client sees\<close>

lemma fresh_token_stored:
  "codec_ok c \<Longrightarrow> fresh_token c (Inr (Some (token_item c t k e now))) u = (if t \<noteq> [] \<and> u + 1800 < e then Some t else None)"
  by (simp add: fresh_token_def token_of_stored)

text \<open>The loop wakes five minutes before 02:00 UTC of some day.\<close>

lemma round_start:
  obtains d :: int where "t + seconds_until_token_refresh t = of_int d * 86400 + 6900"
proof -
  have "t + seconds_until_token_refresh t = of_int \<lfloor>(t + seconds_until_token_refresh t) / 86400\<rfloor> * 86400 + 6900"
    using wakes_at [of t] by (simp add: at_time_of_day_def)
  then show ?thesis using that by blast
qed

lemma expiry_before:
  assumes "s < of_int d * 86400 + 7200"
  shows "next_expiry_utc s \<le> of_int d * 86400 + 7200"
proof -
  let ?e = "\<lfloor>s / 86400\<rfloor>"
  have b: "of_int ?e * 86400 \<le> s" "at_time_of_day s TOKEN_EXPIRY_SECONDS = of_int ?e * 86400 + 7200"
    using at_time_of_day_le(1) [of s] by (simp_all add: at_time_of_day_def TOKEN_EXPIRY_SECONDS_def)
  show ?thesis
  proof (cases "s < of_int ?e * 86400 + 7200")
    case True
    have "(of_int ?e :: rat) < of_int (d + 1)"
      using b(1) assms by simp
    then have "?e \<le> d"
      by (simp only: of_int_less_iff)
    then have "(of_int ?e :: rat) \<le> of_int d"
      by simp
    then show ?thesis using True b(2) by (simp add: next_expiry_utc_def Let_def)
  next
    case False
    then have "(of_int ?e :: rat) < of_int d"
      using assms by simp
    then have "?e + 1 \<le> d"
      by simp
    then have "(of_int (?e + 1) :: rat) \<le> of_int d"
      by (simp only: of_int_le_iff)
    then show ?thesis using False b(2) by (simp add: next_expiry_utc_def Let_def)
  qed
qed

lemma expiry_after:
  assumes "of_int d * 86400 + 7200 \<le> s"
  shows "of_int d * 86400 + 93600 \<le> next_expiry_utc s"
proof (rule ccontr)
  assume "\<not> ?thesis"
  moreover obtain e :: int where e: "next_expiry_utc s = of_int e * 86400 + 7200"
  proof (cases "s < at_time_of_day s TOKEN_EXPIRY_SECONDS")
    case True
    then show ?thesis using that [of "\<lfloor>s / 86400\<rfloor>"]
      by (simp add: next_expiry_utc_def Let_def at_time_of_day_def TOKEN_EXPIRY_SECONDS_def)
  next
    case False
    then show ?thesis using that [of "\<lfloor>s / 86400\<rfloor> + 1"]
      by (simp add: next_expiry_utc_def Let_def at_time_of_day_def TOKEN_EXPIRY_SECONDS_def)
  qed
  ultimately have "(of_int e :: rat) < of_int (d + 1)"
    by simp
  then have "e \<le> d"
    by (simp only: of_int_less_iff)
  then have "(of_int e :: rat) \<le> of_int d"
    by simp
  then show False
    using next_expiry_bounds(1) [of s] assms e by simp
qed

text \<open>
  C29 A token obtained at any time before 02:00 UTC never reaches the running client by the token loop: the
  loop wakes at 01:55, and if every login the table shows during its wait was made before 02:00 of that day
  (also one made at 01:56, when the log asks for it, or hours after the last wait ended), the wait ends
  after its 30 minutes and the client is disconnected, waiting for authentication.
\<close>

theorem early_login_disconnects:
  assumes "codec_ok c" "60 \<le> length delays" "list_all (\<lambda>d. 0 \<le> d) delays"
    and "\<And>u. t + seconds_until_token_refresh t \<le> u \<Longrightarrow> \<exists>tok k s n. s < t + seconds_until_token_refresh t + 300 \<and>
      rows u = Inr (Some (token_item c tok k (next_expiry_utc s) n))"
  shows "\<exists>u. refresh_round c rows outcome delays (t, sn) =
    Some (u, (polled sn)\<lparr>sn_needs_authentication := True, sn_connected := False\<rparr>) \<and>
    t + seconds_until_token_refresh t + 1800 \<le> u"
proof -
  obtain d where d: "t + seconds_until_token_refresh t = of_int d * 86400 + 6900"
    by (rule round_start)
  let ?t1 = "t + seconds_until_token_refresh t"
  let ?wait = "wait_for_fresh_token c rows POLL_INTERVAL (?t1 + MAX_WAIT_SECS) ?t1 delays"
  have stale: "fresh_token c (rows u) u = None" if u: "?t1 \<le> u" for u
  proof -
    obtain tok k s n where "s < ?t1 + 300" and r: "rows u = Inr (Some (token_item c tok k (next_expiry_utc s) n))"
      using assms(4) [OF u] by blast
    then have "next_expiry_utc s \<le> of_int d * 86400 + 7200"
      using expiry_before [of s d] d by simp
    then show ?thesis
      using u d by (simp add: r fresh_token_stored [OF assms(1)])
  qed
  have "?t1 + MAX_WAIT_SECS \<le> ?t1 + POLL_INTERVAL * of_nat (length delays)"
    using assms(2) by (simp add: POLL_INTERVAL_def MAX_WAIT_SECS_def)
  then obtain u r where w: "?wait = Some (u, r)"
    using wait_returns [of POLL_INTERVAL "?t1 + MAX_WAIT_SECS" ?t1 delays c rows] assms(3)
    by (auto simp: POLL_INTERVAL_def)
  have "r = None"
    by (rule wait_none [OF stale _ order_refl assms(3) w]) (simp_all add: POLL_INTERVAL_def)
  moreover have "?t1 + MAX_WAIT_SECS \<le> u"
    using wait_ends [OF w [unfolded \<open>r = None\<close>]] .
  ultimately show ?thesis
    using w by (simp add: refresh_round_def Let_def MAX_WAIT_SECS_def)
qed

theorem early_login_disconnects_witness:
  "\<exists>u. refresh_round demo_codec (\<lambda>_. Inr (Some (token_item demo_codec ''tok'' ''key'' (next_expiry_utc 6960) 6960))) Started
      (replicate 60 0) (0, \<lparr>sn_needs_authentication = False, sn_connected = True, sn_kite = Some ''old'', sn_cached = None,
        sn_cached_expires = None, sn_subscribed = True, sn_ticker = Some ''old''\<rparr>) =
    Some (u, \<lparr>sn_needs_authentication = True, sn_connected = False, sn_kite = Some ''old'', sn_cached = None,
        sn_cached_expires = None, sn_subscribed = True, sn_ticker = Some ''old''\<rparr>) \<and> 8700 \<le> u"
proof -
  have t: "seconds_until_token_refresh 0 = 6900"
    by (simp add: seconds_until_token_refresh_def at_time_of_day_def)
  show ?thesis
    using early_login_disconnects [of demo_codec "replicate 60 0" 0
        "\<lambda>_. Inr (Some (token_item demo_codec ''tok'' ''key'' (next_expiry_utc 6960) 6960))" Started
        "\<lparr>sn_needs_authentication = False, sn_connected = True, sn_kite = Some ''old'', sn_cached = None,
          sn_cached_expires = None, sn_subscribed = True, sn_ticker = Some ''old''\<rparr>"] demo_codec_ok
    by (force simp: t polled_def list_all_iff intro: exI [of _ "6960 :: rat"])
qed



end
