(* ===== verification/PositionChecks.thy ===== *)
theory PositionChecks
  imports ExecutionModel KillSwitchModel
begin

text \<open>
  Three checks of the execution service on its positions: the start-up reconciliation
  (\<open>services/execution_engine/reconciliation/reconciliation.py\<close> and its call in \<open>service.py\<close>), the position monitor
  (\<open>polling/position_monitor.py\<close>) and the orphan detector (\<open>monitors/orphan_detector.py\<close>).  Logging is left out.
\<close>

section \<open>Start-up reconciliation\<close>

datatype mismatch_type = UNMANAGED | STALE_EXIT_LOCK | QTY_DIRECTION | ZERO_QTY_OPEN | FLAT_WITH_STOP

record mismatch =
  mm_symbol :: str
  mm_type :: mismatch_type
  mm_repaired :: bool

definition item_str :: "item \<Rightarrow> str \<Rightarrow> str option" where
  "item_str i a = (case i a of Some (S s) \<Rightarrow> Some s | _ \<Rightarrow> None)"

definition item_num :: "item \<Rightarrow> str \<Rightarrow> rat option" where
  "item_num i a = (case i a of Some (N x) \<Rightarrow> Some x | _ \<Rightarrow> None)"

definition tiny :: rat where
  "tiny = 1 / 10 ^ 9"

definition qty_direction :: "rat \<Rightarrow> str" where
  "qty_direction quantity = (if \<bar>quantity\<bar> < tiny then ''FLAT'' else if 0 < quantity then ''LONG'' else ''SHORT'')"

definition detect_mismatches :: "item \<Rightarrow> mismatch list" where
  "detect_mismatches i =
    (let symbol = opt_default ''UNKNOWN'' (item_str i ''symbol'');
         direction = opt_default [] (item_str i ''direction'');
         quantity = opt_default 0 (item_num i ''quantity'');
         stop = item_num i ''stop_price'';
         exit_oid = opt_default [] (item_str i ''exit_order_id'');
         found = (\<lambda>ty. \<lparr>mm_symbol = symbol, mm_type = ty, mm_repaired = False\<rparr>)
     in if direction = ''FLAT'' then (if stop \<noteq> None then [found FLAT_WITH_STOP] else [])
        else
          (if \<bar>quantity\<bar> < tiny then [found ZERO_QTY_OPEN] else []) @
          (if qty_direction quantity \<noteq> ''FLAT'' \<and> qty_direction quantity \<noteq> direction then [found QTY_DIRECTION] else []) @
          (if stop = None then [found UNMANAGED] else []) @
          (if exit_oid \<noteq> [] then [found STALE_EXIT_LOCK] else []))"

record report =
  rp_mismatches :: "mismatch list"
  rp_repaired :: nat
  rp_alerted :: nat

definition empty_report :: report where
  "empty_report = \<lparr>rp_mismatches = [], rp_repaired = 0, rp_alerted = 0\<rparr>"

definition report_clean :: "report \<Rightarrow> bool" where
  "report_clean r \<longleftrightarrow> rp_mismatches r = []"

definition flat_updates :: "upd list" where
  "flat_updates = [SetTo ''direction'' (S ''FLAT''), SetTo ''quantity'' (N 0)]"

definition set_direction_flat :: "'w dynamo \<Rightarrow> str \<Rightarrow> str \<Rightarrow> 'w \<Rightarrow> item res \<times> 'w" where
  "set_direction_flat D positions_table symbol w = dy_update D w positions_table (position_key symbol) flat_updates NoCond"

text \<open>\<open>_repair\<close>: only \<open>ZERO_QTY_OPEN\<close> has a repair; an exception leaves the mismatch unrepaired.\<close>

definition repair :: "'w dynamo \<Rightarrow> str \<Rightarrow> mismatch \<Rightarrow> 'w \<Rightarrow> mismatch \<times> 'w" where
  "repair D positions_table mm w =
    (if mm_type mm = ZERO_QTY_OPEN then
       (case set_direction_flat D positions_table (mm_symbol mm) w of
          (Inl _, w) \<Rightarrow> (mm, w)
        | (Inr _, w) \<Rightarrow> (mm\<lparr>mm_repaired := True\<rparr>, w))
     else (mm, w))"

fun handle_mismatches :: "bool \<Rightarrow> 'w dynamo \<Rightarrow> str \<Rightarrow> mismatch list \<Rightarrow> report \<Rightarrow> 'w \<Rightarrow> report \<times> 'w" where
  "handle_mismatches paper D tbl [] r w = (r, w)"
| "handle_mismatches paper D tbl (mm # mms) r w =
    (if paper then
       (case repair D tbl mm w of
          (mm, w) \<Rightarrow> handle_mismatches paper D tbl mms
            (if mm_repaired mm then r\<lparr>rp_mismatches := rp_mismatches r @ [mm], rp_repaired := rp_repaired r + 1\<rparr>
             else r\<lparr>rp_mismatches := rp_mismatches r @ [mm], rp_alerted := rp_alerted r + 1\<rparr>) w)
     else handle_mismatches paper D tbl mms
       (r\<lparr>rp_mismatches := rp_mismatches r @ [mm], rp_alerted := rp_alerted r + 1\<rparr>) w)"

text \<open>One page of the scan is read; its continuation key is dropped.\<close>

definition reconcile_positions :: "bool \<Rightarrow> 'w dynamo \<Rightarrow> str \<Rightarrow> 'w \<Rightarrow> report res \<times> 'w" where
  "reconcile_positions paper D tbl w =
    (case dy_scan D w tbl [] None of
       (Inl e, w) \<Rightarrow> (Inl e, w)
     | (Inr (items, _), w) \<Rightarrow>
        (case handle_mismatches paper D tbl (concat (map detect_mismatches items)) empty_report w of (r, w) \<Rightarrow> (Inr r, w)))"

record reconciliation_config =
  rg_enabled :: bool
  rg_run_on_startup :: bool
  rg_strict_startup :: bool
  rg_paper_trading :: bool
  rg_backtest_mode :: bool

definition safe_report :: "report \<Rightarrow> bool" where
  "safe_report r \<longleftrightarrow> report_clean r \<or> rp_repaired r + rp_alerted r = length (rp_mismatches r)"

text \<open>\<open>_run_startup_position_reconciliation\<close>\<close>

definition startup_reconciliation :: "reconciliation_config \<Rightarrow> 'w dynamo \<Rightarrow> str \<Rightarrow> 'w \<Rightarrow> report option res \<times> 'w" where
  "startup_reconciliation cf D tbl w =
    (if \<not> rg_enabled cf \<or> \<not> rg_run_on_startup cf then (Inr None, w)
     else if rg_backtest_mode cf then (Inr None, w)
     else
       (case reconcile_positions (rg_paper_trading cf) D tbl w of
          (Inr r, w) \<Rightarrow>
            if \<not> report_clean r \<and> rg_strict_startup cf \<and> \<not> safe_report r then (Inl RuntimeError, w) else (Inr (Some r), w)
        | (Inl RuntimeError, w) \<Rightarrow> (Inl RuntimeError, w)
        | (Inl _, w) \<Rightarrow> if rg_strict_startup cf then (Inl RuntimeError, w) else (Inr None, w)))"

section \<open>Position monitor\<close>

text \<open>
  The monitor runs inside the execution service: its callback is the service's local halt, and its kill switch
  is an instance of its own.  \<open>pm_positions\<close> gives the symbol and the quantity of every row of \<open>get_positions\<close>.
\<close>

record 'w monitor =
  pm_connected :: "'w \<Rightarrow> bool"
  pm_positions :: "'w \<Rightarrow> (str \<times> rat) list res \<times> 'w"
  pm_kill_switch :: "'w ks_config option"
  pm_activate_on_drift :: bool
  pm_auto_sync :: bool
  pm_now :: "'w \<Rightarrow> str \<times> 'w"
  pm_times :: "'w \<Rightarrow> (str \<times> str \<times> str) \<times> 'w" \<comment> \<open>the three time stamps of one activation\<close>

type_synonym 'w watched = "'w exec_state \<times> ks_state"

definition on_watched :: "('w exec_state, 'a) prog \<Rightarrow> ('w watched, 'a) prog" where
  "on_watched m p = (case p of (s, k) \<Rightarrow> (case m s of None \<Rightarrow> None | Some (r, t) \<Rightarrow> Some (r, t, k)))"

definition monitor_kill :: "'w execution \<Rightarrow> 'w monitor \<Rightarrow> str \<Rightarrow> ('w watched, unit) prog" where
  "monitor_kill X M reason p =
    (case p of (s, k) \<Rightarrow>
      (case pm_kill_switch M of
         None \<Rightarrow> Some (Inr (), s, k)
       | Some cf \<Rightarrow>
          (case pm_times M (es_world s) of
             ((t1, t2, t3), w) \<Rightarrow>
               (case activate cf reason ''position_monitor'' t1 t2 t3 (k, w) of
                  (k, w) \<Rightarrow> Some (Inr (), s\<lparr>es_world := w\<rparr>, k)))))"

text \<open>
  \<open>_handle_drift\<close>.  With \<open>auto_sync\<close> it calls \<open>overwrite_position_quantity\<close>, which \<open>OrderManager\<close> does not
  have: the \<open>AttributeError\<close> is caught and nothing is written.
\<close>

definition sync_position_to_broker :: "str \<Rightarrow> rat \<Rightarrow> ('w watched, unit) prog" where
  "sync_position_to_broker symbol broker_qty = try_catch (throw AttributeError) (\<lambda>_. ret ())"

definition monitor_reason :: "'w execution \<Rightarrow> str \<Rightarrow> rat \<Rightarrow> rat \<Rightarrow> str \<Rightarrow> str \<Rightarrow> str" where
  "monitor_reason X symbol broker_qty dynamo_qty source now =
    drift_reason X symbol broker_qty dynamo_qty @ '' source='' @ source @ '' detected_at='' @ now"

definition handle_drift :: "'w execution \<Rightarrow> 'w monitor \<Rightarrow> str \<Rightarrow> rat \<Rightarrow> rat \<Rightarrow> str \<Rightarrow> str \<Rightarrow> ('w watched, unit) prog" where
  "handle_drift X M symbol broker_qty dynamo_qty source now =
    seq (try_catch (on_watched (handle_position_drift X symbol broker_qty dynamo_qty)) (\<lambda>_. ret ())) (\<lambda>_.
    seq (if pm_activate_on_drift M then monitor_kill X M (monitor_reason X symbol broker_qty dynamo_qty source now)
         else ret ()) (\<lambda>_.
      if pm_auto_sync M then sync_position_to_broker symbol broker_qty else ret ()))"

text \<open>A dictionary built row by row: a later row of a symbol replaces the quantity.\<close>

definition quantity_map :: "(str \<times> rat) list \<Rightarrow> (str \<times> rat) list" where
  "quantity_map rows = fold (\<lambda>(symbol, q) m. AList.update symbol q m) rows []"

definition map_qty :: "(str \<times> rat) list \<Rightarrow> str \<Rightarrow> rat" where
  "map_qty m symbol = opt_default 0 (map_of m symbol)"

text \<open>The drifts that one cycle reports: symbol, quantity at the broker, quantity in the tables, source.\<close>

definition cycle_drifts :: "(str \<times> rat) list \<Rightarrow> (str \<times> rat) list \<Rightarrow> (str \<times> rat \<times> rat \<times> str) list" where
  "cycle_drifts broker_positions dynamo_positions =
    (if broker_positions = [] then map (\<lambda>(symbol, q). (symbol, 0, q, ''broker_empty_dynamo_open'')) dynamo_positions
     else
       let broker_map = quantity_map broker_positions; dynamo_map = quantity_map dynamo_positions
       in map (\<lambda>(symbol, q). (symbol, q, map_qty dynamo_map symbol, ''broker_vs_dynamo''))
            (filter (\<lambda>(symbol, q). 1 / 1000 < \<bar>q - map_qty dynamo_map symbol\<bar>) broker_map) @
          map (\<lambda>(symbol, q). (symbol, 0, q, ''dynamo_only''))
            (filter (\<lambda>(symbol, q). map_of broker_map symbol = None \<and> 1 / 1000 < \<bar>q\<bar>) dynamo_map))"

text \<open>\<open>get_all_open_positions\<close> is \<open>get_open_orders\<close>.\<close>

definition monitor_cycle :: "'w execution \<Rightarrow> 'w monitor \<Rightarrow> ('w watched, unit) prog" where
  "monitor_cycle X M =
    seq (read (\<lambda>(s, k). pm_connected M (es_world s))) (\<lambda>connected.
      if \<not> connected then ret ()
      else
        seq (on_watched (world (ex_acquire X MEDIUM OTHER))) (\<lambda>_.
        seq (on_watched (world (pm_positions M))) (\<lambda>broker_positions.
        seq (on_watched (open_orders X)) (\<lambda>dynamo_positions.
          if broker_positions = [] \<and> dynamo_positions = [] then ret ()
          else
            seq (on_watched (plain (pm_now M))) (\<lambda>now.
              for_each (\<lambda>(symbol, b, q, source). handle_drift X M symbol b q source now)
                (cycle_drifts broker_positions (map (\<lambda>so. (op_symbol so, so_quantity so)) dynamo_positions)))))))"

section \<open>Orphan detector\<close>

definition filled_entry_orders :: "stored_order list \<Rightarrow> stored_order list" where
  "filled_entry_orders os = filter (\<lambda>so. \<not> so_is_protective so \<and> \<not> py_starts ''PAPER-'' (op_order_id so)) os"

text \<open>\<open>_classify_orphan\<close>: \<open>None\<close> when the order has a live stop, or its state is not known.\<close>

definition classify_orphan :: "'w order_manager \<Rightarrow> stored_order \<Rightarrow> 'w \<Rightarrow> str option \<times> 'w" where
  "classify_orphan m so w =
    (if so_protective_stop_order_id so = [] then (Some ''no_protective_stop_linked'', w)
     else
       (case get_stored_order m w (so_protective_stop_order_id so) of
          (Inl _, w) \<Rightarrow> (None, w)
        | (Inr None, w) \<Rightarrow> (Some (''protective_stop_missing_from_dynamo child_id='' @ so_protective_stop_order_id so), w)
        | (Inr (Some child), w) \<Rightarrow>
           if op_status child \<in> {CANCELLED, REJECTED, FILLED} then
             (Some (''protective_stop_terminal status='' @ order_status_value (op_status child) @ '' child_id='' @
               so_protective_stop_order_id so), w)
           else (None, w)))"

fun find_orphans :: "'w order_manager \<Rightarrow> stored_order list \<Rightarrow> 'w \<Rightarrow> (stored_order \<times> str) list \<times> 'w" where
  "find_orphans m [] w = ([], w)"
| "find_orphans m (so # os) w =
    (case classify_orphan m so w of
       (reason, w) \<Rightarrow> (case find_orphans m os w of
         (rest, w) \<Rightarrow> ((case reason of None \<Rightarrow> rest | Some x \<Rightarrow> (so, x) # rest), w)))"

text \<open>\<open>_check_cycle\<close>: the orders it reports; the service gives no callback.\<close>

definition orphan_cycle :: "nat \<Rightarrow> 'w order_manager \<Rightarrow> 'w \<Rightarrow> ((stored_order \<times> str) list \<times> 'w) option" where
  "orphan_cycle fuel m w =
    (case get_orders_by_status fuel m w (order_status_value FILLED) of
       None \<Rightarrow> None
     | Some (os, w) \<Rightarrow> Some (find_orphans m (filled_entry_orders os) w))"

end
