(* ===== verification/PositionChecksSafety.thy ===== *)
theory PositionChecksSafety
  imports PositionChecks ExecutionCases
begin

text \<open>
  What the checks of the positions do: when the monitor halts the service, what the start-up reconciliation
  refuses and overwrites, and which orders the orphan detector reports.
\<close>

section \<open>The monitor's quantities\<close>

lemma map_of_quantity_map_fold:
  "map_of (fold (\<lambda>(symbol, q) m. AList.update symbol q m) rows m) symbol =
    (case map_of (rev rows) symbol of Some q \<Rightarrow> Some q | None \<Rightarrow> map_of m symbol)"
proof (induction rows arbitrary: m)
  case (Cons row rows)
  obtain sy q where "row = (sy, q)" by fastforce
  then show ?case
    using Cons by (auto simp: map_add_def split: option.splits)
qed simp

lemma map_of_quantity_map: "map_of (quantity_map rows) symbol = map_of (rev rows) symbol"
  by (simp add: quantity_map_def map_of_quantity_map_fold split: option.split)

lemma map_of_quantity_map_None: "map_of (quantity_map rows) symbol = None \<longleftrightarrow> symbol \<notin> fst ` set rows"
  by (simp add: map_of_quantity_map map_of_eq_None_iff)

lemma map_of_quantity_mapD: "map_of (quantity_map rows) symbol = Some q \<Longrightarrow> (symbol, q) \<in> set rows"
  by (auto simp: map_of_quantity_map dest: map_of_SomeD)

text \<open>A position at the broker without an open order, and an open order without a position, are drifts.\<close>

lemma position_drifts:
  assumes "symbol \<in> fst ` set rows" "\<And>q. (symbol, q) \<in> set rows \<Longrightarrow> 1 / 1000 < \<bar>q\<bar>" "symbol \<notin> fst ` set orders"
  shows "cycle_drifts rows orders \<noteq> []"
proof -
  obtain q where q: "map_of (quantity_map rows) symbol = Some q"
    using assms(1) map_of_quantity_map_None [of rows symbol] by auto
  have "map_qty (quantity_map orders) symbol = 0"
    using assms(3) map_of_quantity_map_None [of orders symbol] by (simp add: map_qty_def)
  then have "(symbol, q) \<in> set (filter (\<lambda>(symbol, q). 1 / 1000 < \<bar>q - map_qty (quantity_map orders) symbol\<bar>) (quantity_map rows))"
    using map_of_SomeD [OF q] assms(2) [OF map_of_quantity_mapD [OF q]] by simp
  then have "filter (\<lambda>(symbol, q). 1 / 1000 < \<bar>q - map_qty (quantity_map orders) symbol\<bar>) (quantity_map rows) \<noteq> []"
    by (metis empty_iff empty_set)
  moreover have "rows \<noteq> []"
    using assms(1) by auto
  ultimately show ?thesis
    by (simp add: cycle_drifts_def Let_def)
qed

lemma order_drifts:
  assumes "symbol \<in> fst ` set orders" "\<And>q. (symbol, q) \<in> set orders \<Longrightarrow> 1 / 1000 < \<bar>q\<bar>" "symbol \<notin> fst ` set rows"
  shows "cycle_drifts rows orders \<noteq> []"
proof (cases "rows = []")
  case True
  then show ?thesis using assms(1) by (auto simp: cycle_drifts_def)
next
  case False
  obtain q where q: "map_of (quantity_map orders) symbol = Some q"
    using assms(1) map_of_quantity_map_None [of orders symbol] by auto
  have "map_of (quantity_map rows) symbol = None"
    using assms(3) map_of_quantity_map_None by blast
  then have "(symbol, q) \<in> set (filter (\<lambda>(symbol, q). map_of (quantity_map rows) symbol = None \<and> 1 / 1000 < \<bar>q\<bar>) (quantity_map orders))"
    using map_of_SomeD [OF q] assms(2) [OF map_of_quantity_mapD [OF q]] by simp
  then have "filter (\<lambda>(symbol, q). map_of (quantity_map rows) symbol = None \<and> 1 / 1000 < \<bar>q\<bar>) (quantity_map orders) \<noteq> []"
    by (metis empty_iff empty_set)
  then show ?thesis
    using False by (simp add: cycle_drifts_def Let_def)
qed

section \<open>The cycle returns\<close>

definition returning :: "('s, 'a) prog \<Rightarrow> bool" where
  "returning m \<longleftrightarrow> (\<forall>s. m s \<noteq> None)"

lemma returning_if: "(b \<Longrightarrow> returning m) \<Longrightarrow> (\<not> b \<Longrightarrow> returning n) \<Longrightarrow> returning (if b then m else n)"
  by simp

lemma returning_seq: "returning m \<Longrightarrow> (\<And>x. returning (f x)) \<Longrightarrow> returning (seq m f)"
  by (auto simp: returning_def seq_def split: option.split sum.split)

lemma returning_try: "returning m \<Longrightarrow> (\<And>e. returning (h e)) \<Longrightarrow> returning (try_catch m h)"
  by (auto simp: returning_def try_catch_def split: option.split sum.split)

lemma returning_basics:
  "returning (ret x)" "returning (throw e)" "returning (read g)" "returning (modify u)" "returning (world f)"
  "returning (plain h)" "returning (retrying X c)"
  by (auto simp: returning_def prog_defs world_def plain_def retrying_def split: prod.split)

lemma returning_for_each: "(\<And>x. returning (f x)) \<Longrightarrow> returning (for_each f xs)"
  by (induction xs) (auto intro: returning_seq returning_basics)

lemma returning_on_watched: "returning m \<Longrightarrow> returning (on_watched m)"
  by (auto simp: returning_def on_watched_def split: option.split prod.split)

lemmas returning_rules = returning_if returning_seq returning_try returning_basics returning_for_each returning_on_watched

lemma cancel_returns: "returning (cancel_one_open_order X so reason)"
  unfolding cancel_one_open_order_def stamped_def now_iso_def by (intro returning_rules)

lemma monitor_kill_returns: "returning (monitor_kill X M reason)"
  by (auto simp: returning_def monitor_kill_def split: option.split prod.split)

lemma returning_prod: "(\<And>a b. returning (f a b)) \<Longrightarrow> returning (case x of (a, b) \<Rightarrow> f a b)"
  by (cases x) simp

lemma handle_drift_returns:
  assumes "returning (open_orders X)"
  shows "returning (handle_drift X M symbol b q source now)"
  unfolding handle_drift_def handle_position_drift_def handle_kill_switch_activation_def cancel_open_orders_def
    sync_position_to_broker_def
  by (intro returning_rules cancel_returns monitor_kill_returns assms)

lemma cycle_returns:
  assumes "returning (open_orders X)"
  shows "returning (monitor_cycle X M)"
  unfolding monitor_cycle_def by (intro returning_rules returning_prod handle_drift_returns assms)

lemma open_orders_return: "(\<And>w. get_open_orders (ex_fuel X) (ex_manager X) w \<noteq> None) \<Longrightarrow> returning (open_orders X)"
  by (auto simp: returning_def open_orders_def split: option.split)

section \<open>A drift halts the service\<close>

definition stays_halted :: "'w watched \<Rightarrow> 'w watched \<Rightarrow> bool" where
  "stays_halted p q \<longleftrightarrow> (es_ks_active (fst p) \<longrightarrow> es_ks_active (fst q)) \<and> (ks_active (snd p) \<longrightarrow> ks_active (snd q))"

interpretation halted: frame stays_halted
  by unfold_locales (auto simp: stays_halted_def)

lemma activation_sets_halt:
  assumes "handle_kill_switch_activation X reason s = Some (r, t)"
  shows "es_ks_active t"
proof -
  have "cancel_open_orders X reason (s\<lparr>es_ks_active := True, es_ks_reason := reason\<rparr>) = Some (r, t)"
    using assms by (simp add: handle_kill_switch_activation_def)
  then show ?thesis
    using keepsD [OF halt_frame.cancel_all] by fastforce
qed

lemma keeps_on_watched: "keeps (\<lambda>s t. es_ks_active s \<longrightarrow> es_ks_active t) m \<Longrightarrow> keeps stays_halted (on_watched m)"
  by (auto simp: keeps_def on_watched_def stays_halted_def split: option.splits)

lemma on_watched_seq: "m s = Some (Inr x, t) \<Longrightarrow> seq (on_watched m) f (s, k) = f x (t, k)"
  by (simp add: on_watched_def seq_def)

lemma activate_active: "ks_active (fst (activate cf reason by_whom t1 t2 t3 (k, w)))"
  by (simp add: activate_def Let_def)

lemma monitor_kill_run:
  assumes "monitor_kill X M reason p = Some (r, p')"
  shows "r = Inr () \<and> stays_halted p p' \<and> (pm_kill_switch M \<noteq> None \<longrightarrow> ks_active (snd p'))"
proof -
  obtain s k where p: "p = (s, k)" by fastforce
  show ?thesis
  proof (cases "pm_kill_switch M")
    case None
    then show ?thesis using assms p by (auto simp: monitor_kill_def stays_halted_def)
  next
    case (Some cf)
    obtain t1 t2 t3 w where c: "pm_times M (es_world s) = ((t1, t2, t3), w)"
      by (metis prod_cases3 surj_pair)
    show ?thesis
      using assms activate_active [of cf reason "''position_monitor''" t1 t2 t3 k w]
      by (auto simp: monitor_kill_def p Some c stays_halted_def split: prod.splits)
  qed
qed

lemma handle_drift_run:
  assumes "handle_drift X M symbol b q source now p = Some (r, p')"
  shows "r = Inr () \<and> stays_halted p p' \<and> es_ks_active (fst p') \<and>
    (pm_activate_on_drift M \<and> pm_kill_switch M \<noteq> None \<longrightarrow> ks_active (snd p'))"
proof -
  obtain s k where p: "p = (s, k)" by fastforce
  obtain r1 s1 where local: "handle_position_drift X symbol b q s = Some (r1, s1)"
    and rest: "seq (if pm_activate_on_drift M then monitor_kill X M (monitor_reason X symbol b q source now) else ret ()) (\<lambda>_.
      if pm_auto_sync M then sync_position_to_broker symbol b else ret ()) (s1, k) = Some (r, p')"
    using assms by (auto simp: handle_drift_def p on_watched_def seq_Some try_Some ret_def split: option.splits)
  have halted1: "es_ks_active s1"
    using local activation_sets_halt by (auto simp: handle_position_drift_def)
  have sync: "(if pm_auto_sync M then sync_position_to_broker symbol b else ret ()) = ret ()"
    by (simp add: sync_position_to_broker_def)
  have "(pm_activate_on_drift M \<and> monitor_kill X M (monitor_reason X symbol b q source now) (s1, k) = Some (r, p') \<or>
      \<not> pm_activate_on_drift M \<and> r = Inr () \<and> p' = (s1, k))"
    using rest monitor_kill_run unfolding sync by (fastforce simp: seq_Some ret_def split: if_splits)
  then show ?thesis
    using halted1 monitor_kill_run [of X M "monitor_reason X symbol b q source now" "(s1, k)" r p'] by (auto simp: p stays_halted_def)
qed

lemma drifts_halt:
  assumes "for_each (\<lambda>(symbol, b, q, source). handle_drift X M symbol b q source now) ds p = Some (r, p')" "ds \<noteq> []"
  shows "es_ks_active (fst p') \<and> (pm_activate_on_drift M \<and> pm_kill_switch M \<noteq> None \<longrightarrow> ks_active (snd p'))"
proof -
  let ?h = "\<lambda>(symbol, b, q, source). handle_drift X M symbol b q source now"
  have keeps: "keeps stays_halted (for_each ?h ds)" for ds
    by (rule halted.keeps_for_each) (auto simp: keeps_def dest: handle_drift_run)
  obtain symbol b q source ds' where ds: "ds = (symbol, b, q, source) # ds'"
    using assms(2) by (metis list.exhaust prod_cases4)
  obtain r1 p1 where first: "handle_drift X M symbol b q source now p = Some (r1, p1)"
  proof (cases "handle_drift X M symbol b q source now p")
    case None
    then show ?thesis using assms(1) by (simp add: ds seq_def)
  next
    case (Some a)
    show ?thesis by (rule that [of "fst a" "snd a"]) (simp add: Some)
  qed
  note head = handle_drift_run [OF first]
  have "for_each ?h ds' p1 = Some (r, p')"
    using assms(1) first head unfolding ds for_each.simps prod.case by (auto simp: seq_def)
  then have "stays_halted p1 p'"
    by (rule keepsD [OF keeps])
  then show ?thesis
    using head by (auto simp: stays_halted_def)
qed

lemma monitor_cycle_halts:
  assumes "pm_connected M (es_world s)" "world (ex_acquire X MEDIUM OTHER) s = Some (Inr (), s1)"
    and "world (pm_positions M) s1 = Some (Inr rows, s2)" "open_orders X s2 = Some (Inr os, s3)"
    and "cycle_drifts rows (map (\<lambda>so. (op_symbol so, so_quantity so)) os) \<noteq> []"
    and "monitor_cycle X M (s, k) = Some (r, s', k')"
  shows "es_ks_active s' \<and> (pm_activate_on_drift M \<and> pm_kill_switch M \<noteq> None \<longrightarrow> ks_active k')"
proof -
  obtain now w where now: "pm_now M (es_world s3) = (now, w)"
    by fastforce
  have clock: "plain (pm_now M) s3 = Some (Inr now, s3\<lparr>es_world := w\<rparr>)"
    by (simp add: plain_def world_def now)
  have some: "\<not> (rows = [] \<and> os = [])"
    using assms(5) by (auto simp: cycle_drifts_def)
  have "for_each (\<lambda>(symbol, b, q, source). handle_drift X M symbol b q source now)
      (cycle_drifts rows (map (\<lambda>so. (op_symbol so, so_quantity so)) os)) (s3\<lparr>es_world := w\<rparr>, k) = Some (r, s', k')"
    using assms(6) unfolding monitor_cycle_def
    by (simp add: assms(1) on_watched_seq [where m = "world (ex_acquire X MEDIUM OTHER)", OF assms(2)]
        on_watched_seq [where m = "world (pm_positions M)", OF assms(3)] on_watched_seq [where m = "open_orders X", OF assms(4)]
        on_watched_seq [where m = "plain (pm_now M)", OF clock] if_not_P [OF some])
  then show ?thesis
    using drifts_halt [OF _ assms(5)] by fastforce
qed


text \<open>
  An order that waits at the broker halts the service as well: a cycle of the monitor between the placement of a
  live order and its fill finds no position for it, halts the execution service (which cancels its open orders) and
  activates the durable kill switch.
\<close>

theorem resting_order_halts:
  assumes "pm_connected M (es_world s)" "world (ex_acquire X MEDIUM OTHER) s = Some (Inr (), s1)"
    and "world (pm_positions M) s1 = Some (Inr rows, s2)" "open_orders X s2 = Some (Inr os, s3)"
    and "symbol \<in> op_symbol ` set os" "\<And>so. so \<in> set os \<Longrightarrow> 1 / 1000 < \<bar>so_quantity so\<bar>" "symbol \<notin> fst ` set rows"
    and "pm_activate_on_drift M" "pm_kill_switch M = Some cf"
    and "\<And>w. get_open_orders (ex_fuel X) (ex_manager X) w \<noteq> None"
  shows "\<exists>r s' k'. monitor_cycle X M (s, k) = Some (r, s', k') \<and> es_ks_active s' \<and> ks_active k'"
proof -
  obtain r s' k' where run: "monitor_cycle X M (s, k) = Some (r, s', k')"
    using cycle_returns [OF open_orders_return, of X M] assms(10) unfolding returning_def by fast
  have "cycle_drifts rows (map (\<lambda>so. (op_symbol so, so_quantity so)) os) \<noteq> []"
    by (rule order_drifts [of symbol]) (use assms(5-7) in \<open>auto simp: image_iff\<close>)
  then show ?thesis
    using run monitor_cycle_halts [OF assms(1-4) _ run] assms(8,9) by blast
qed

text \<open>A service with a live filled position and no open order, and one with a resting order and no position.\<close>

definition demo_monitor :: "(str \<times> rat) list \<Rightarrow> book monitor" where
  "demo_monitor rows = \<lparr>pm_connected = (\<lambda>w. True), pm_positions = (\<lambda>w. (Inr rows, w)),
    pm_kill_switch = Some \<lparr>ks_dynamo = None, ks_table = ''risk'', ks_sns = None, ks_topic = [], ks_iso_ok = (\<lambda>s. True),
      ks_num_str = (\<lambda>x. [])\<rparr>,
    pm_activate_on_drift = True, pm_auto_sync = False, pm_now = (\<lambda>w. (''t0'', w)), pm_times = (\<lambda>w. ((''t1'', ''t2'', ''t3''), w))\<rparr>"

lemma demo_monitor_fields:
  "pm_connected (demo_monitor rows) w" "world (pm_positions (demo_monitor rows)) (book_state w) = Some (Inr rows, book_state w)"
  "pm_activate_on_drift (demo_monitor rows)" "\<not> pm_auto_sync (demo_monitor rows)"
  "world (ex_acquire (book_execution lost) q e) (book_state w) = Some (Inr (), book_state w)"
  by (simp_all add: demo_monitor_def world_def book_execution_def book_state_def)

lemma book_orders_return: "get_open_orders (ex_fuel (book_execution lost)) (ex_manager (book_execution lost)) w \<noteq> None"
  by (simp add: book_fields get_open_orders_def OPEN_STATUSES_def query_pages_def book_run)

lemma no_open_orders: "open_orders (book_execution lost) (book_state ([], [])) = Some (Inr [], book_state ([], []))"
  by (simp add: open_orders_def book_fields get_open_orders_def OPEN_STATUSES_def query_pages_def book_run book_state_def)

lemma reserved_orders:
  "open_orders (book_execution lost) (book_state (reserved_mem i, lg)) = Some (Inr [reserved_order i], book_state (reserved_mem i, lg))"
  by (simp only: open_orders_def book_fields reserved_open option.case prod.case)


theorem resting_order_halts_witness:
  "\<exists>r s' k'. monitor_cycle (book_execution False) (demo_monitor []) (book_state (reserved_mem ''a'', []), new_kill_switch) =
      Some (r, s', k') \<and> es_ks_active s' \<and> ks_active k'"
  by (rule resting_order_halts [OF _ demo_monitor_fields(5) demo_monitor_fields(2) reserved_orders _ _ _ _ _ book_orders_return])
    (auto simp: demo_monitor_def reserved_order_def)

section \<open>The start-up reconciliation\<close>

definition mismatch_key :: "mismatch \<Rightarrow> str \<times> mismatch_type" where
  "mismatch_key mm = (mm_symbol mm, mm_type mm)"

lemma repair_key: "repair D tbl mm w = (mm', w') \<Longrightarrow> mismatch_key mm' = mismatch_key mm"
  by (auto simp: repair_def mismatch_key_def split: if_splits prod.splits sum.splits)

lemma handled_mismatches:
  "handle_mismatches paper D tbl mms r w = (r', w') \<Longrightarrow>
    map mismatch_key (rp_mismatches r') = map mismatch_key (rp_mismatches r) @ map mismatch_key mms \<and>
    rp_repaired r' + rp_alerted r' = rp_repaired r + rp_alerted r + length mms"
proof (induction mms arbitrary: paper r w)
  case (Cons mm mms)
  obtain mm' w1 where r: "repair D tbl mm w = (mm', w1)"
    by fastforce
  show ?case
    using Cons.prems repair_key [OF r] by (auto simp: r split: if_splits dest: Cons.IH)
qed simp

text \<open>
  C33 The mismatches never stop the service: whatever rows the scan finds, the report lists exactly their mismatches
  in order, every one of them counts as repaired or as alerted, so the report is safe by the code's own test and the
  start-up goes on, also with \<open>reconciliation_strict_startup\<close> set.
\<close>

theorem strict_startup_never_refuses:
  assumes "dy_scan D w tbl [] None = (Inr (items, more_pages), w1)"
    and "rg_enabled cf" "rg_run_on_startup cf" "\<not> rg_backtest_mode cf"
  shows "\<exists>r w'. startup_reconciliation cf D tbl w = (Inr (Some r), w') \<and> safe_report r \<and>
    map mismatch_key (rp_mismatches r) = map mismatch_key (concat (map detect_mismatches items))"
proof -
  obtain r w' where h: "handle_mismatches (rg_paper_trading cf) D tbl (concat (map detect_mismatches items)) empty_report w1 = (r, w')"
    by fastforce
  note listed = handled_mismatches [OF h]
  then have "safe_report r"
    by (simp add: safe_report_def empty_report_def) (metis length_map)
  moreover from this have "startup_reconciliation cf D tbl w = (Inr (Some r), w')"
    using assms by (simp add: startup_reconciliation_def reconcile_positions_def h)
  ultimately show ?thesis
    using listed by (simp add: empty_report_def)
qed

definition demo_reconciliation :: reconciliation_config where
  "demo_reconciliation = \<lparr>rg_enabled = True, rg_run_on_startup = True, rg_strict_startup = True, rg_paper_trading = False,
    rg_backtest_mode = False\<rparr>"

text \<open>A live position of the wrong sign, without a stop and with a stale exit.\<close>

definition unsafe_row :: item where
  "unsafe_row = [''PK'' \<mapsto> S ''POSITION#INFY'', ''SK'' \<mapsto> S ''CURRENT'', ''symbol'' \<mapsto> S ''INFY'', ''direction'' \<mapsto> S ''LONG'',
    ''quantity'' \<mapsto> N (- 10), ''exit_order_id'' \<mapsto> S ''e1'']"

lemma unsafe_row_mismatches:
  "map mm_type (detect_mismatches unsafe_row) = [QTY_DIRECTION, UNMANAGED, STALE_EXIT_LOCK]"
  by (simp add: detect_mismatches_def unsafe_row_def item_str_def item_num_def qty_direction_def tiny_def Let_def)

lemma unsafe_scan:
  "dy_scan mem_dynamo [((''positions'', position_key ''INFY''), unsafe_row)] ''positions'' [] None =
    (Inr ([unsafe_row], None), [((''positions'', position_key ''INFY''), unsafe_row)])"
  by (simp add: mem_simps mem_scan_def position_key_def)

theorem strict_startup_never_refuses_witness:
  "\<exists>r w'. startup_reconciliation demo_reconciliation mem_dynamo ''positions''
      [((''positions'', position_key ''INFY''), unsafe_row)] = (Inr (Some r), w') \<and>
    map mm_type (rp_mismatches r) = [QTY_DIRECTION, UNMANAGED, STALE_EXIT_LOCK]"
proof -
  obtain r w' where run: "startup_reconciliation demo_reconciliation mem_dynamo ''positions''
      [((''positions'', position_key ''INFY''), unsafe_row)] = (Inr (Some r), w')"
    and keys: "map mismatch_key (rp_mismatches r) = map mismatch_key (concat (map detect_mismatches [unsafe_row]))"
    using strict_startup_never_refuses [OF unsafe_scan, of demo_reconciliation] by (auto simp: demo_reconciliation_def)
  have types: "map snd (map mismatch_key mms) = map mm_type mms" for mms
    by (simp add: mismatch_key_def)
  have "map mm_type (rp_mismatches r) = map mm_type (detect_mismatches unsafe_row)"
    using arg_cong [OF keys, of "map snd"] unfolding types by simp
  then show ?thesis
    using run unsafe_row_mismatches by simp
qed

text \<open>
  C34 The repair of a row that showed an open direction without a quantity is not conditional on the row: whatever
  the other services wrote between the scan and the write, a filled entry of any quantity included, the row becomes
  flat with the quantity 0 and keeps its other attributes, such as the stop of that entry.
\<close>

theorem repair_discards_fill:
  assumes "dynamo_ok R D" "repair D tbl mm w = (mm', w')" "mm_repaired mm'" "\<not> mm_repaired mm"
  shows "\<exists>t row. R (dy_tables D w) t \<and> R (tables_put t tbl (position_key (mm_symbol mm)) row) (dy_tables D w') \<and>
    row ''direction'' = Some (S ''FLAT'') \<and> row ''quantity'' = Some (N 0) \<and>
    (\<forall>old a. t tbl (position_key (mm_symbol mm)) = Some old \<longrightarrow> a \<noteq> ''direction'' \<longrightarrow> a \<noteq> ''quantity'' \<longrightarrow> row a = old a)"
proof -
  let ?k = "position_key (mm_symbol mm)"
  obtain i where "dy_update D w tbl ?k flat_updates NoCond = (Inr i, w')"
    using assms(2-4) by (auto simp: repair_def set_direction_flat_def split: if_splits prod.splits sum.splits)
  then have "commits R (dy_tables D w) (dy_tables D w') (Inr i) (\<lambda>t. cond_holds NoCond ?k (t tbl ?k))
      (\<lambda>t. tables_put t tbl ?k (updated_row ?k flat_updates (t tbl ?k)))"
    by (rule dynamo_ok_update [OF assms(1)])
  then obtain t where t: "R (dy_tables D w) t" "R (tables_put t tbl ?k (updated_row ?k flat_updates (t tbl ?k))) (dy_tables D w')"
    by (rule commits_InrE)
  show ?thesis
    by (rule exI [of _ t], rule exI [of _ "updated_row ?k flat_updates (t tbl ?k)"])
      (use t in \<open>simp add: updated_row_def flat_updates_def\<close>)
qed

text \<open>The scan saw a row without a quantity; before the repair an entry of ten shares was filled.\<close>

definition zero_row :: item where
  "zero_row = [''symbol'' \<mapsto> S ''INFY'', ''direction'' \<mapsto> S ''LONG'', ''quantity'' \<mapsto> N 0, ''stop_price'' \<mapsto> N 95]"

definition entered_row :: item where
  "entered_row = zero_row(''quantity'' \<mapsto> N 10)"

lemma zero_row_mismatch: "detect_mismatches zero_row = [\<lparr>mm_symbol = ''INFY'', mm_type = ZERO_QTY_OPEN, mm_repaired = False\<rparr>]"
  by (simp add: detect_mismatches_def zero_row_def item_str_def item_num_def qty_direction_def tiny_def Let_def)

theorem repair_discards_fill_witness:
  "\<exists>mm w' row. repair mem_dynamo ''positions'' (hd (detect_mismatches zero_row))
      [((''positions'', position_key ''INFY''), entered_row)] = (mm, w') \<and>
    dy_tables mem_dynamo w' ''positions'' (position_key ''INFY'') = Some row \<and>
    row ''direction'' = Some (S ''FLAT'') \<and> row ''quantity'' = Some (N 0) \<and> row ''stop_price'' = Some (N 95)"
proof -
  let ?w = "[((''positions'', position_key ''INFY''), entered_row)]" and ?k = "position_key ''INFY''"
  obtain mm w' where run: "repair mem_dynamo ''positions'' (hd (detect_mismatches zero_row)) ?w = (mm, w')" "mm_repaired mm"
    by (simp add: repair_def zero_row_mismatch set_direction_flat_def mem_simps Let_def)
  obtain row where put: "tables_put (dy_tables mem_dynamo ?w) ''positions'' ?k row = dy_tables mem_dynamo w'"
    and row: "row ''direction'' = Some (S ''FLAT'')" "row ''quantity'' = Some (N 0)"
      "\<forall>old a. dy_tables mem_dynamo ?w ''positions'' ?k = Some old \<longrightarrow> a \<noteq> ''direction'' \<longrightarrow> a \<noteq> ''quantity'' \<longrightarrow> row a = old a"
    using repair_discards_fill [OF mem_dynamo_ok run] by (auto simp: zero_row_mismatch)
  have "row ''stop_price'' = entered_row ''stop_price''"
    using row(3) by (simp add: mem_dynamo_def mem_tables_def)
  moreover have "dy_tables mem_dynamo w' ''positions'' ?k = Some row"
    by (simp add: put [symmetric] tables_put_def)
  ultimately show ?thesis
    using run(1) row(1,2) by (simp add: entered_row_def zero_row_def)
qed

text \<open>In live mode the reconciliation only reads.\<close>

lemma live_handling_reads: "handle_mismatches False D tbl mms r w = (r', w') \<Longrightarrow> w' = w"
  by (induction mms arbitrary: r) auto

lemma live_reconciliation_reads:
  assumes "reconcile_positions False D tbl w = (r, w')"
  shows "w' = snd (dy_scan D w tbl [] None)"
  using assms by (auto simp: reconcile_positions_def split: prod.splits sum.splits dest: live_handling_reads)

section \<open>The orphan detector\<close>

lemma find_orphans_reports:
  assumes "\<And>w. fst (classify_orphan m so w) = Some reason" "so \<in> set os"
  shows "(so, reason) \<in> set (fst (find_orphans m os w))"
  using assms(2)
proof (induction os arbitrary: w)
  case (Cons x os)
  obtain c w1 where c: "classify_orphan m x w = (c, w1)"
    by fastforce
  obtain rest w2 where rest: "find_orphans m os w1 = (rest, w2)"
    by fastforce
  show ?case
  proof (cases "so = x")
    case True
    then show ?thesis
      using assms(1) [of w] c rest by simp
  next
    case False
    then have "(so, reason) \<in> set rest"
      using Cons.IH [of w1] Cons.prems rest by simp
    then show ?thesis
      by (auto simp: c rest split: option.split)
  qed
qed simp

text \<open>
  A trade that its stop closed stays an orphan: every cycle reports a filled live entry whose protective stop is
  filled, although the position is flat, as an unprotected position that needs a manual stop.
\<close>

theorem stopped_out_entry_reported:
  assumes "get_orders_by_status fuel m w ''FILLED'' = Some (os, w1)"
    and "so \<in> set os" "\<not> so_is_protective so" "\<not> py_starts ''PAPER-'' (op_order_id so)" "so_protective_stop_order_id so \<noteq> []"
    and "\<And>w. fst (get_stored_order m w (so_protective_stop_order_id so)) = Inr (Some child)" "op_status child = FILLED"
  shows "\<exists>found w'. orphan_cycle fuel m w = Some (found, w') \<and>
    (so, ''protective_stop_terminal status=FILLED child_id='' @ so_protective_stop_order_id so) \<in> set found"
proof -
  have entry: "so \<in> set (filled_entry_orders os)"
    using assms(2-4) by (simp add: filled_entry_orders_def)
  have classified: "fst (classify_orphan m so w) =
      Some (''protective_stop_terminal status=FILLED child_id='' @ so_protective_stop_order_id so)" for w
    using assms(5,7) assms(6) [of w] by (auto simp: classify_orphan_def split: prod.split)
  obtain found w' where "find_orphans m (filled_entry_orders os) w1 = (found, w')"
    by fastforce
  then show ?thesis
    using find_orphans_reports [OF classified entry, of w1] assms(1) by (simp add: orphan_cycle_def)
qed

end
