(* ===== verification/Spec2Isabelle.thy ===== *)
theory Spec2Isabelle
  imports OrderSafety SafeActionSafety PublishSafety TradeExitSafety RateLimiter PollerFaults StrategyEngineSafety MisSafety BrokerSafety ZerodhaAuthSafety PositionChecksSafety
begin

text \<open>
  Verification development of QuantEmbrace, a trading system of Python services that talk over Kafka topics and
  DynamoDB tables.  All paths below are under \<open>src/services/\<close>, unless they start with \<open>scripts/\<close>.

  \<^bold>\<open>The program and its parts.\<close>  The strategy engine turns ticks and candles into signals (topic
  \<open>signals.pending\<close>), the AI engine annotates them (\<open>signals.enriched\<close>), the risk engine approves or
  rejects them (\<open>signals.approved\<close>), the execution engine places orders at the broker and reports fills
  (\<open>orders.events\<close>), which the risk engine books.  Two flags stop it: the kill switch, and the entry block that the
  safe actions of the execution engine write.  The services share tables, not memory; a restart and a redelivered
  message are ordinary events, so most of the properties are about what at most happens once.

  \<^bold>\<open>Conventions.\<close>  A float or Decimal is a \<open>rat\<close>, an integer an \<open>int\<close>, a string a \<open>str\<close> (a list of
  characters), a time the rational number of seconds since the epoch; a NaN that the code can produce is \<open>None\<close>.  A call that may
  raise returns \<open>exn + 'a\<close> (\<open>'a res\<close>).  State is passed explicitly; \<open>'w\<close> is the world outside the services, and
  every client of it (DynamoDB, Kafka producer and consumer, broker, clock readings, fresh identifiers, JSON codec)
  is an argument.  Theory \<open>Dynamo\<close> gives the request language of the tables with its documented meaning and the law
  \<open>dynamo_ok R\<close> that lets other clients change the tables by \<open>R\<close> during a call; \<open>mem_dynamo\<close> is an instance.
  A condition of a request is part of the model, so that dropping it breaks the proofs that rest on it.

  \<^bold>\<open>Prelude.\<close>  \<open>QE_Prelude\<close> (strings, JSON, exceptions, the cache contracts \<open>ttl_flag\<close> and
  \<open>retrying_flag\<close>), \<open>Prog\<close> (the state-exception monad of the execution service with its frame rules), \<open>Dynamo\<close>.

  \<^bold>\<open>Orders and positions.\<close>  \<open>OrderModel\<close> (\<open>execution_engine/orders/order.py\<close>), \<open>OrderManager\<close>
  (\<open>order_manager.py\<close>: submission, status updates, queries), \<open>PositionFill\<close> (its position arithmetic),
  \<open>OrderSafety\<close> (the life cycle never goes backwards, a signal is accepted once, rows are read back as written),
  \<open>ManagerFrame\<close> (what every call leaves alone).  The abstract specification of a position is its mark-to-market
  equity and its signed quantity; concurrent fill handlers refine an exact sum.

  \<^bold>\<open>Events and messages.\<close>  \<open>Events\<close> (\<open>shared/kafka/\<close>: schemas, failure publisher, replayer), \<open>Retry\<close> (bounded rounds
  through the retry topic), \<open>Outbox\<close> (\<open>shared/kafka/local_outbox.py\<close> and the halt after failed deliveries),
  \<open>MessagePath\<close> and \<open>MessageSafety\<close> (the builders and parsers of every event of a signal; the signal that arrives is
  the one that was sent), \<open>OrderEvents\<close> (fill and rejection events).

  \<^bold>\<open>Risk engine.\<close>  \<open>RiskState\<close> (\<open>shared/risk_state.py\<close>), \<open>Signals\<close> (signal, limits, context), \<open>KillSwitchModel\<close>,
  \<open>AutoTriggers\<close>, \<open>EntryBlock\<close>, \<open>GateValidators\<close>, \<open>LimitValidators\<close>, \<open>FillAccounting\<close> (daily loss and counters),
  \<open>RiskContextBuild\<close>, \<open>RiskPipeline\<close> (\<open>risk_engine/service.py\<close>: one decision), \<open>RiskFrame\<close> (what a decision writes),
  \<open>DecisionPublish\<close> and \<open>PublishSafety\<close> (reservation of a decision, replays, both consumer loops).

  \<^bold>\<open>Execution engine.\<close>  \<open>ExecutionModel\<close>, \<open>ExecutionOrders\<close>, \<open>ExecutionLoop\<close> (\<open>execution_engine/service.py\<close>: halting,
  placement behind an idempotency key, protective stops, approved signals, paper fills, start-up, the Kafka loop),
  \<open>ExecutionFrame\<close>, \<open>ExecutionCases\<close>, \<open>ExecutionSafety\<close>, \<open>ExecutionFacts\<close>, \<open>ExecutionFaults\<close> (what holds of all runs, and the
  runs in which it fails), \<open>RetryHandlerModel\<close>, \<open>RateLimiter\<close> (\<open>shared/zerodha/rate_limiter.py\<close>), \<open>UniverseGate\<close>,
  \<open>MarketPhases\<close>, \<open>BulkPoller\<close>, \<open>PollerSafety\<close>, \<open>PollerFaults\<close> (the order poller next to the service), \<open>ExitModels\<close>,
  \<open>MisSquareOff\<close>, \<open>MisSafety\<close> (\<open>mis_square_off.py\<close>: the closing of the intraday positions), \<open>ExitRouter\<close>, \<open>ExitSafety\<close>, \<open>TradeExit\<close>, \<open>TradeExitSafety\<close> (exit policies, exit locks, trailing stops),
  \<open>SafeActionModel\<close>, \<open>SafeActionExecutor\<close>, \<open>SafeActionSafety\<close> (the operator's automatic remedies and what they can write).

  \<^bold>\<open>Broker clients.\<close>  \<open>ZerodhaAuth\<close>, \<open>ZerodhaAuthSafety\<close> (\<open>execution_engine/auth/zerodha_auth.py\<close> and the token
  loop: the daily access token, and which logins the running client sees), \<open>ZerodhaLimits\<close> (the two limiters inside
  \<open>brokers/zerodha_broker.py\<close>), \<open>ZerodhaBroker\<close>, \<open>AlpacaBroker\<close> (the two clients, as records \<open>'w broker\<close> over
  parameters for Kite Connect and alpaca-py), \<open>BrokerSafety\<close> (both clients meet the contract \<open>tagged_orders\<close> that
  the execution service's placement rests on).

  \<^bold>\<open>Strategy engine.\<close>  \<open>StrategyMath\<close> (\<open>strategies/_math.py\<close>, \<open>_position_sizer.py\<close>), \<open>StrategyBase\<close> (the interface, the
  locales \<open>base_strategy\<close> and \<open>counting_strategy\<close>, momentum), \<open>StrategiesRange\<close> (opening range, VWAP reversion),
  \<open>StrategiesTrend\<close> (pre-close, 15-minute trend), \<open>StrategyScalp\<close>, \<open>CircuitBreakerModel\<close>, \<open>StrategyRunnerModel\<close>
  (\<open>runners/strategy_runner.py\<close>), \<open>CandleStream\<close> (\<open>data_ingestion/candle_stream.py\<close>), \<open>CandleConsumer\<close>
  (\<open>consumers/dynamo_candle_consumer.py\<close>), \<open>StrategyConfigTable\<close> (\<open>config/strategy_config_loader.py\<close> and the commands
  \<open>scripts/strategy/config.py\<close>, \<open>scripts/strategy/reset_circuit_breaker.py\<close>), \<open>StrategyEngineModel\<close> and \<open>StrategyEngineSafety\<close>
  (\<open>strategy_engine/service.py\<close>: the three loops as rounds, halting, blocking, stamping).

  \<^bold>\<open>Checks of positions.\<close>  \<open>PositionChecks\<close> and \<open>PositionChecksSafety\<close> (\<open>execution_engine/reconciliation/reconciliation.py\<close>,
  \<open>polling/position_monitor.py\<close>, \<open>monitors/orphan_detector.py\<close>): one cycle of the monitor over the state of the execution
  service and its own kill switch, the start-up reconciliation with its report, one cycle of the orphan detector.  They
  show when the monitor halts the service, that the reconciliation never refuses a start and what its repair overwrites.

  \<^bold>\<open>Bounds and fuel.\<close>  Paginated reads take fuel, one unit a page; \<open>scan_all_total\<close> and \<open>query_all_total\<close> show that
  as many units as there are pages are enough, and the termination properties carry this over to whole runs
  (\<open>service_runs_end\<close>, \<open>await_ends\<close>).  The placement limiter needs at most 61 iterations (\<open>placement_acquire_ends\<close>:
  a window is at most 60 seconds wide and a sleep lasts a second), the wait for a token 60 polls of 30 seconds.  All other loops of the code that the model has are over finite lists.  The caps of the rate limiter,
  the retry attempts and the signals per day are the constants and configuration values of the code.

  \<^bold>\<open>Not modelled, and why.\<close>  A handler runs to its end: the \<open>await\<close> points inside one handler, at which asyncio could run
  another of the same process, are not interleaving points, whereas other processes may act at every call to a table.
  Cancellation and process kill are modelled only between handlers.  The rounding of binary floats is not modelled.
  Logging, metrics, health servers, client configuration and the order in which services are wired at start-up are
  left out, as are the AI models, the HTTP layer below the broker clients, the feeds and feature pipeline of the data ingestion, the construction
  of the universe, the monitoring agent, the backtester and the operator's reporting scripts: they either take no
  part in a trading decision or are clients of code outside the repository, which the model takes as an argument.
  The live quote poller of the execution engine and the persisted state of the strategies are the parts of the
  trading path still missing.
\<close>

end
